(* ===== verification/Call_Prelude.thy ===== *)
theory Call_Prelude
  imports Main "HOL-Library.Word"
begin

text \<open>
  Shared vocabulary of the development: the named fact collections the component
  theories fill, generic lemmas on the list scans the call registry is made of, the
  reading of a C++ ordered set's first element, decimal text, and the interface of a
  component that handles one event at a time: a machine whose events keep an invariant,
  and one whose events also never raise a quantity.
\<close>

named_theorems cm_defs "definitions that model guards and queries, for unfolding"
named_theorems cm_frame "facts that an operation leaves a field unchanged"
named_theorems cm_inv "facts that an operation keeps a component's invariant"

subsection \<open>List scans\<close>

text \<open>
  The registry's loops have four shapes: return the first element that satisfies a
  test, return the last one (a reverse iterator), count, and collect.  The first is
  \<^term>\<open>List.find\<close>; the second is the following abbreviation.
\<close>

abbreviation find_last :: "('a \<Rightarrow> bool) \<Rightarrow> 'a list \<Rightarrow> 'a option" where
  "find_last P xs \<equiv> List.find P (rev xs)"

abbreviation count_if :: "('a \<Rightarrow> bool) \<Rightarrow> 'a list \<Rightarrow> nat" where
  "count_if P xs \<equiv> length (filter P xs)"

lemma find_eq_None_iff: "List.find P xs = None \<longleftrightarrow> (\<forall>x \<in> set xs. \<not> P x)"
  by (induction xs) auto

lemma find_SomeD: "List.find P xs = Some x \<Longrightarrow> x \<in> set xs \<and> P x"
  by (induction xs) (auto split: if_splits)

lemma find_not_None_iff: "List.find P xs \<noteq> None \<longleftrightarrow> (\<exists>x \<in> set xs. P x)"
  by (simp add: find_eq_None_iff)

lemma find_is_Some_iff: "(\<exists>y. List.find P xs = Some y) \<longleftrightarrow> (\<exists>x \<in> set xs. P x)"
  using find_not_None_iff [of P xs] by auto

text \<open>The element a scan returns is the first: everything before it fails the test.\<close>

lemma find_first_split:
  "List.find P xs = Some x \<longleftrightarrow> (\<exists>us vs. xs = us @ x # vs \<and> P x \<and> (\<forall>u \<in> set us. \<not> P u))"
proof
  assume "List.find P xs = Some x"
  then show "\<exists>us vs. xs = us @ x # vs \<and> P x \<and> (\<forall>u \<in> set us. \<not> P u)"
  proof (induction xs)
    case Nil
    then show ?case by simp
  next
    case (Cons y ys)
    show ?case
    proof (cases "P y")
      case True
      with Cons.prems have "y # ys = [] @ x # ys \<and> P x \<and> (\<forall>u \<in> set []. \<not> P u)" by simp
      then show ?thesis by blast
    next
      case False
      with Cons obtain us vs where "ys = us @ x # vs" "P x" "\<forall>u \<in> set us. \<not> P u" by auto
      with False have "y # ys = (y # us) @ x # vs \<and> P x \<and> (\<forall>u \<in> set (y # us). \<not> P u)" by simp
      then show ?thesis by blast
    qed
  qed
next
  have skip: "\<forall>u \<in> set us. \<not> P u \<Longrightarrow> List.find P (us @ vs) = List.find P vs" for us vs
    by (induction us) auto
  assume "\<exists>us vs. xs = us @ x # vs \<and> P x \<and> (\<forall>u \<in> set us. \<not> P u)"
  then show "List.find P xs = Some x" by (auto simp: skip)
qed

lemma find_unique:
  assumes "distinct (map f xs)" and "x \<in> set xs"
  shows "List.find (\<lambda>y. f y = f x) xs = Some x"
  using assms by (induction xs) (auto simp: rev_image_eqI)

lemma find_cong_pred:
  "(\<And>x. x \<in> set xs \<Longrightarrow> P x = Q x) \<Longrightarrow> List.find P xs = List.find Q xs"
  by (induction xs) auto

lemma find_map_unchanged:
  "(\<And>x. x \<in> set xs \<Longrightarrow> P (g x) = P x) \<Longrightarrow>
   List.find P (map g xs) = map_option g (List.find P xs)"
  by (induction xs) auto

lemma count_if_pos_iff: "0 < count_if P xs \<longleftrightarrow> (\<exists>x \<in> set xs. P x)"
  by (induction xs) auto

lemma count_if_mono: "(\<And>x. P x \<Longrightarrow> Q x) \<Longrightarrow> count_if P xs \<le> count_if Q xs"
  by (induction xs) (auto simp: le_SucI)

subsection \<open>Ordered sets\<close>

text \<open>
  \<^verbatim>\<open>*s.begin()\<close> of a \<^verbatim>\<open>std::set\<close> is its least element; on an empty set the
  dereference is undefined behaviour, which is the value None here.
\<close>

definition begin_elem :: "'a::linorder set \<Rightarrow> 'a option" where
  "begin_elem s = (if s = {} then None else Some (Min s))"

lemma begin_elem_None [simp]: "begin_elem s = None \<longleftrightarrow> s = {}"
  by (simp add: begin_elem_def)

lemma begin_elem_in: "finite s \<Longrightarrow> begin_elem s = Some x \<Longrightarrow> x \<in> s"
  by (metis Min_in begin_elem_def option.distinct(1) option.inject)

lemma begin_elem_least: "finite s \<Longrightarrow> begin_elem s = Some x \<Longrightarrow> y \<in> s \<Longrightarrow> x \<le> y"
  by (auto simp: begin_elem_def split: if_splits)

subsection \<open>Decimal text\<close>

text \<open>\<^verbatim>\<open>std::to_string\<close> on an integer.\<close>

definition digit_char :: "nat \<Rightarrow> char" where
  "digit_char d = char_of (48 + d)"

fun nat_dec :: "nat \<Rightarrow> string" where
  "nat_dec n = (if n < 10 then [digit_char n] else nat_dec (n div 10) @ [digit_char (n mod 10)])"

declare nat_dec.simps [simp del]

definition to_string :: "int \<Rightarrow> string" where
  "to_string i = (if i < 0 then CHR 0x2D # nat_dec (nat (- i)) else nat_dec (nat i))"

definition dec_value :: "string \<Rightarrow> nat" where
  "dec_value = foldl (\<lambda>a c. a * 10 + (of_char c - 48)) 0"

lemma digit_value: "d < 10 \<Longrightarrow> of_char (digit_char d) = 48 + d"
  by (simp add: digit_char_def)

lemma dec_value_nat_dec: "dec_value (nat_dec n) = n"
proof (induction n rule: nat_dec.induct)
  case (1 n)
  show ?case
  proof (cases "n < 10")
    case True
    then show ?thesis by (simp add: nat_dec.simps [of n] dec_value_def digit_value)
  next
    case False
    with 1 have "dec_value (nat_dec (n div 10)) = n div 10" by simp
    with False show ?thesis by (simp add: nat_dec.simps [of n] dec_value_def digit_value)
  qed
qed

lemma nat_dec_digits: "c \<in> set (nat_dec n) \<Longrightarrow> 48 \<le> (of_char c :: nat)"
proof (induction n rule: nat_dec.induct)
  case (1 n)
  then show ?case
    by (subst (asm) nat_dec.simps) (auto simp: digit_value split: if_splits)
qed

lemma nat_dec_nonempty: "nat_dec n \<noteq> []"
  by (subst nat_dec.simps) simp

lemma nat_dec_no_sign: "nat_dec n \<noteq> CHR 0x2D # cs"
  using nat_dec_digits [of "CHR 0x2D" n] by auto

lemma to_string_inject [simp]: "to_string i = to_string j \<longleftrightarrow> i = j"
proof
  assume eq: "to_string i = to_string j"
  have inj: "nat_dec m = nat_dec n \<Longrightarrow> m = n" for m n
    using dec_value_nat_dec by metis
  from eq show "i = j"
    by (auto simp: to_string_def nat_dec_no_sign nat_dec_no_sign [symmetric]
        dest!: inj split: if_splits)
qed simp
subsection \<open>Event machines\<close>

text \<open>
  A component that handles one event at a time, from any state, with a property every
  event keeps.  The interface's clients use the facts on whole event sequences.
\<close>

locale event_machine =
  fixes step :: "'s \<Rightarrow> 'e \<Rightarrow> 's"
    and inv :: "'s \<Rightarrow> bool"
  assumes inv_step: "inv s \<Longrightarrow> inv (step s e)"
begin

lemma inv_run: "inv s \<Longrightarrow> inv (foldl step s es)"
  by (induction es arbitrary: s) (auto intro: inv_step)

lemma inv_prefix:
  assumes "inv s"
  shows "inv (foldl step s (take n es))"
  using assms by (rule inv_run)

lemma inv_run_append: "inv (foldl step s es) \<Longrightarrow> inv (foldl step s (es @ es'))"
  using inv_run [of "foldl step s es" es'] by simp

end

text \<open>
  A machine with an observable quantity that no event raises.
\<close>

locale shrinking_machine = event_machine +
  fixes weight :: "'s \<Rightarrow> nat"
  assumes weight_step: "inv s \<Longrightarrow> weight (step s e) \<le> weight s"
begin

lemma weight_run: "inv s \<Longrightarrow> weight (foldl step s es) \<le> weight s"
proof (induction es arbitrary: s)
  case Nil
  then show ?case by simp
next
  case (Cons e es)
  from Cons.prems have "inv (step s e)" by (rule inv_step)
  then have "weight (foldl step (step s e) es) \<le> weight (step s e)" by (rule Cons.IH)
  also have "\<dots> \<le> weight s" using Cons.prems by (rule weight_step)
  finally show ?case by simp
qed

lemma weight_zero_stays: "inv s \<Longrightarrow> weight s = 0 \<Longrightarrow> weight (foldl step s es) = 0"
  using weight_run [of s es] by simp

end

end
