(* ===== verification/Call_Types.thy ===== *)
theory Call_Types
  imports Call_Prelude
begin

text \<open>
  The data every component shares: the enumerations of
  \<^verbatim>\<open>interfaces/innerkits/call_manager_base.h\<close> and
  \<^verbatim>\<open>call_manager_inner_type.h\<close> with the source's enumerators, the status codes
  the functions return, and the build switches.  Where the code casts an integer to an
  enumeration or an enumeration to an integer, the enumerator's value is used (the
  \<^verbatim>\<open>_code\<close> functions).
\<close>

subsection \<open>Status codes\<close>

text \<open>
  Every operation returns an \<^verbatim>\<open>int32_t\<close> status.  The codes of
  \<^verbatim>\<open>call_manager_errors.h\<close> are numbered, in their order, from offsets of another
  component; a code that is another component's own is its name, and
  \<^verbatim>\<open>CodeFrom n\<close> is a code handed through from outside the repository.
\<close>

datatype TelephonyErrorCode =
    Tel_success | Tel_err_success | Tel_error | Tel_err_fail | Tel_err_local_ptr_null
  | Tel_err_argument_invalid | Tel_err_memset_fail | Tel_err_memcpy_fail
  | Tel_err_policy_disabled | Tel_err_no_sim_card | Tel_err_airplane_mode_on
  | Tel_err_network_not_in_service | Tel_err_ipc_connect_stub_fail
  | Tel_err_write_descriptor_token_fail | Tel_err_write_reply_fail
  | Tel_err_write_data_fail | Tel_err_read_data_fail | Tel_err_descriptor_mismatch
  | Tel_err_uninit | Tel_err_permission_err | Tel_err_illegal_use_of_system_api
  | Tel_err_register_callback_fail | Tel_err_unregister_callback_fail
  | Tel_err_database_read_fail | Tel_err_argument_null | Tel_err_strcpy_fail
  | Tel_err_publish_broadcast_fail | Tel_err_strtoint_fail

datatype ErrCode =
    TelephonyError TelephonyErrorCode
  | CallManagerError int         \<comment> \<open>CALL\_ERR\_OFFSET + n\<close>
  | ProtocolError int            \<comment> \<open>PROTOCOL\_ERR\_OFFSET + n\<close>
  | CodeFrom int

abbreviation TELEPHONY_SUCCESS :: ErrCode where
  "TELEPHONY_SUCCESS \<equiv> TelephonyError Tel_success"
abbreviation TELEPHONY_ERR_SUCCESS :: ErrCode where
  "TELEPHONY_ERR_SUCCESS \<equiv> TelephonyError Tel_err_success"
abbreviation TELEPHONY_ERROR :: ErrCode where "TELEPHONY_ERROR \<equiv> TelephonyError Tel_error"
abbreviation TELEPHONY_ERR_FAIL :: ErrCode where
  "TELEPHONY_ERR_FAIL \<equiv> TelephonyError Tel_err_fail"
abbreviation TELEPHONY_ERR_LOCAL_PTR_NULL :: ErrCode where
  "TELEPHONY_ERR_LOCAL_PTR_NULL \<equiv> TelephonyError Tel_err_local_ptr_null"
abbreviation TELEPHONY_ERR_ARGUMENT_INVALID :: ErrCode where
  "TELEPHONY_ERR_ARGUMENT_INVALID \<equiv> TelephonyError Tel_err_argument_invalid"
abbreviation TELEPHONY_ERR_MEMSET_FAIL :: ErrCode where
  "TELEPHONY_ERR_MEMSET_FAIL \<equiv> TelephonyError Tel_err_memset_fail"
abbreviation TELEPHONY_ERR_MEMCPY_FAIL :: ErrCode where
  "TELEPHONY_ERR_MEMCPY_FAIL \<equiv> TelephonyError Tel_err_memcpy_fail"
abbreviation TELEPHONY_ERR_POLICY_DISABLED :: ErrCode where
  "TELEPHONY_ERR_POLICY_DISABLED \<equiv> TelephonyError Tel_err_policy_disabled"
abbreviation TELEPHONY_ERR_NO_SIM_CARD :: ErrCode where
  "TELEPHONY_ERR_NO_SIM_CARD \<equiv> TelephonyError Tel_err_no_sim_card"
abbreviation TELEPHONY_ERR_AIRPLANE_MODE_ON :: ErrCode where
  "TELEPHONY_ERR_AIRPLANE_MODE_ON \<equiv> TelephonyError Tel_err_airplane_mode_on"
abbreviation TELEPHONY_ERR_NETWORK_NOT_IN_SERVICE :: ErrCode where
  "TELEPHONY_ERR_NETWORK_NOT_IN_SERVICE \<equiv> TelephonyError Tel_err_network_not_in_service"
abbreviation TELEPHONY_ERR_IPC_CONNECT_STUB_FAIL :: ErrCode where
  "TELEPHONY_ERR_IPC_CONNECT_STUB_FAIL \<equiv> TelephonyError Tel_err_ipc_connect_stub_fail"
abbreviation TELEPHONY_ERR_WRITE_DESCRIPTOR_TOKEN_FAIL :: ErrCode where
  "TELEPHONY_ERR_WRITE_DESCRIPTOR_TOKEN_FAIL \<equiv> TelephonyError Tel_err_write_descriptor_token_fail"
abbreviation TELEPHONY_ERR_WRITE_REPLY_FAIL :: ErrCode where
  "TELEPHONY_ERR_WRITE_REPLY_FAIL \<equiv> TelephonyError Tel_err_write_reply_fail"
abbreviation TELEPHONY_ERR_WRITE_DATA_FAIL :: ErrCode where
  "TELEPHONY_ERR_WRITE_DATA_FAIL \<equiv> TelephonyError Tel_err_write_data_fail"
abbreviation TELEPHONY_ERR_READ_DATA_FAIL :: ErrCode where
  "TELEPHONY_ERR_READ_DATA_FAIL \<equiv> TelephonyError Tel_err_read_data_fail"
abbreviation TELEPHONY_ERR_DESCRIPTOR_MISMATCH :: ErrCode where
  "TELEPHONY_ERR_DESCRIPTOR_MISMATCH \<equiv> TelephonyError Tel_err_descriptor_mismatch"
abbreviation TELEPHONY_ERR_UNINIT :: ErrCode where
  "TELEPHONY_ERR_UNINIT \<equiv> TelephonyError Tel_err_uninit"
abbreviation TELEPHONY_ERR_PERMISSION_ERR :: ErrCode where
  "TELEPHONY_ERR_PERMISSION_ERR \<equiv> TelephonyError Tel_err_permission_err"
abbreviation TELEPHONY_ERR_ILLEGAL_USE_OF_SYSTEM_API :: ErrCode where
  "TELEPHONY_ERR_ILLEGAL_USE_OF_SYSTEM_API \<equiv> TelephonyError Tel_err_illegal_use_of_system_api"
abbreviation TELEPHONY_ERR_REGISTER_CALLBACK_FAIL :: ErrCode where
  "TELEPHONY_ERR_REGISTER_CALLBACK_FAIL \<equiv> TelephonyError Tel_err_register_callback_fail"
abbreviation TELEPHONY_ERR_UNREGISTER_CALLBACK_FAIL :: ErrCode where
  "TELEPHONY_ERR_UNREGISTER_CALLBACK_FAIL \<equiv> TelephonyError Tel_err_unregister_callback_fail"
abbreviation TELEPHONY_ERR_DATABASE_READ_FAIL :: ErrCode where
  "TELEPHONY_ERR_DATABASE_READ_FAIL \<equiv> TelephonyError Tel_err_database_read_fail"
abbreviation TELEPHONY_ERR_ARGUMENT_NULL :: ErrCode where
  "TELEPHONY_ERR_ARGUMENT_NULL \<equiv> TelephonyError Tel_err_argument_null"
abbreviation TELEPHONY_ERR_STRCPY_FAIL :: ErrCode where
  "TELEPHONY_ERR_STRCPY_FAIL \<equiv> TelephonyError Tel_err_strcpy_fail"
abbreviation TELEPHONY_ERR_PUBLISH_BROADCAST_FAIL :: ErrCode where
  "TELEPHONY_ERR_PUBLISH_BROADCAST_FAIL \<equiv> TelephonyError Tel_err_publish_broadcast_fail"
abbreviation TELEPHONY_ERR_STRTOINT_FAIL :: ErrCode where
  "TELEPHONY_ERR_STRTOINT_FAIL \<equiv> TelephonyError Tel_err_strtoint_fail"

abbreviation CALL_ERR_INVALID_SLOT_ID :: ErrCode where
  "CALL_ERR_INVALID_SLOT_ID \<equiv> CallManagerError 0"
abbreviation CALL_ERR_INVALID_CALLID :: ErrCode where
  "CALL_ERR_INVALID_CALLID \<equiv> CallManagerError 1"
abbreviation CALL_ERR_PHONE_NUMBER_EMPTY :: ErrCode where
  "CALL_ERR_PHONE_NUMBER_EMPTY \<equiv> CallManagerError 2"
abbreviation CALL_ERR_NUMBER_OUT_OF_RANGE :: ErrCode where
  "CALL_ERR_NUMBER_OUT_OF_RANGE \<equiv> CallManagerError 3"
abbreviation CALL_ERR_UNSUPPORTED_NETWORK_TYPE :: ErrCode where
  "CALL_ERR_UNSUPPORTED_NETWORK_TYPE \<equiv> CallManagerError 4"
abbreviation CALL_ERR_UNKNOW_DIAL_TYPE :: ErrCode where
  "CALL_ERR_UNKNOW_DIAL_TYPE \<equiv> CallManagerError 7"
abbreviation CALL_ERR_UNKNOW_CALL_TYPE :: ErrCode where
  "CALL_ERR_UNKNOW_CALL_TYPE \<equiv> CallManagerError 8"
abbreviation CALL_ERR_NOT_NEW_STATE :: ErrCode where
  "CALL_ERR_NOT_NEW_STATE \<equiv> CallManagerError 10"
abbreviation CALL_ERR_CALL_OBJECT_IS_NULL :: ErrCode where
  "CALL_ERR_CALL_OBJECT_IS_NULL \<equiv> CallManagerError 11"
abbreviation CALL_ERR_DIAL_IS_BUSY :: ErrCode where
  "CALL_ERR_DIAL_IS_BUSY \<equiv> CallManagerError 12"
abbreviation CALL_ERR_CALL_IS_NOT_ACTIVATED :: ErrCode where
  "CALL_ERR_CALL_IS_NOT_ACTIVATED \<equiv> CallManagerError 13"
abbreviation CALL_ERR_CALL_IS_NOT_ON_HOLDING :: ErrCode where
  "CALL_ERR_CALL_IS_NOT_ON_HOLDING \<equiv> CallManagerError 14"
abbreviation CALL_ERR_ILLEGAL_CALL_OPERATION :: ErrCode where
  "CALL_ERR_ILLEGAL_CALL_OPERATION \<equiv> CallManagerError 15"
abbreviation CALL_ERR_CALL_STATE_MISMATCH_OPERATION :: ErrCode where
  "CALL_ERR_CALL_STATE_MISMATCH_OPERATION \<equiv> CallManagerError 16"
abbreviation CALL_ERR_CONFERENCE_NOT_EXISTS :: ErrCode where
  "CALL_ERR_CONFERENCE_NOT_EXISTS \<equiv> CallManagerError 17"
abbreviation CALL_ERR_CONFERENCE_CALL_EXCEED_LIMIT :: ErrCode where
  "CALL_ERR_CONFERENCE_CALL_EXCEED_LIMIT \<equiv> CallManagerError 18"
abbreviation CALL_ERR_CALL_STATE :: ErrCode where "CALL_ERR_CALL_STATE \<equiv> CallManagerError 19"
abbreviation CALL_ERR_CALL_COUNTS_EXCEED_LIMIT :: ErrCode where
  "CALL_ERR_CALL_COUNTS_EXCEED_LIMIT \<equiv> CallManagerError 20"
abbreviation CALL_ERR_EMERGENCY_UNSUPPORT_CONFERENCEABLE :: ErrCode where
  "CALL_ERR_EMERGENCY_UNSUPPORT_CONFERENCEABLE \<equiv> CallManagerError 23"
abbreviation CALL_ERR_PHONE_ANSWER_IS_BUSY :: ErrCode where
  "CALL_ERR_PHONE_ANSWER_IS_BUSY \<equiv> CallManagerError 24"
abbreviation CALL_ERR_PHONE_CALL_ALREADY_EXISTS :: ErrCode where
  "CALL_ERR_PHONE_CALL_ALREADY_EXISTS \<equiv> CallManagerError 25"
abbreviation CALL_ERR_PHONE_CALLS_TOO_FEW :: ErrCode where
  "CALL_ERR_PHONE_CALLS_TOO_FEW \<equiv> CallManagerError 26"
abbreviation CALL_ERR_PHONE_TYPE_UNEXPECTED :: ErrCode where
  "CALL_ERR_PHONE_TYPE_UNEXPECTED \<equiv> CallManagerError 27"
abbreviation CALL_ERR_PHONE_CALLSTATE_NOTIFY_FAILED :: ErrCode where
  "CALL_ERR_PHONE_CALLSTATE_NOTIFY_FAILED \<equiv> CallManagerError 28"
abbreviation CALL_ERR_VIDEO_ILLEGAL_MEDIA_TYPE :: ErrCode where
  "CALL_ERR_VIDEO_ILLEGAL_MEDIA_TYPE \<equiv> CallManagerError 29"
abbreviation CALL_ERR_VIDEO_IN_PROGRESS :: ErrCode where
  "CALL_ERR_VIDEO_IN_PROGRESS \<equiv> CallManagerError 30"
abbreviation CALL_ERR_VIDEO_ILLEAGAL_SCENARIO :: ErrCode where
  "CALL_ERR_VIDEO_ILLEAGAL_SCENARIO \<equiv> CallManagerError 31"
abbreviation CALL_ERR_DIAL_FAILED :: ErrCode where
  "CALL_ERR_DIAL_FAILED \<equiv> CallManagerError 33"
abbreviation CALL_ERR_ANSWER_FAILED :: ErrCode where
  "CALL_ERR_ANSWER_FAILED \<equiv> CallManagerError 34"
abbreviation CALL_ERR_REJECT_FAILED :: ErrCode where
  "CALL_ERR_REJECT_FAILED \<equiv> CallManagerError 35"
abbreviation CALL_ERR_HOLD_FAILED :: ErrCode where
  "CALL_ERR_HOLD_FAILED \<equiv> CallManagerError 36"
abbreviation CALL_ERR_UNHOLD_FAILED :: ErrCode where
  "CALL_ERR_UNHOLD_FAILED \<equiv> CallManagerError 37"
abbreviation CALL_ERR_HANGUP_FAILED :: ErrCode where
  "CALL_ERR_HANGUP_FAILED \<equiv> CallManagerError 38"
abbreviation CALL_ERR_CONFERENCE_SEPERATE_FAILED :: ErrCode where
  "CALL_ERR_CONFERENCE_SEPERATE_FAILED \<equiv> CallManagerError 39"
abbreviation CALL_ERR_CONFERENCE_CALL_IS_NOT_ACTIVE :: ErrCode where
  "CALL_ERR_CONFERENCE_CALL_IS_NOT_ACTIVE \<equiv> CallManagerError 40"
abbreviation CALL_ERR_THE_CALL_IS_NOT_IN_THE_CONFERENCE :: ErrCode where
  "CALL_ERR_THE_CALL_IS_NOT_IN_THE_CONFERENCE \<equiv> CallManagerError 41"
abbreviation CALL_ERR_STOPRTT_FAILED :: ErrCode where
  "CALL_ERR_STOPRTT_FAILED \<equiv> CallManagerError 43"
abbreviation CALL_ERR_BLUETOOTH_CONNECTION_FAILED :: ErrCode where
  "CALL_ERR_BLUETOOTH_CONNECTION_FAILED \<equiv> CallManagerError 46"
abbreviation CALL_ERR_SETTING_AUDIO_DEVICE_FAILED :: ErrCode where
  "CALL_ERR_SETTING_AUDIO_DEVICE_FAILED \<equiv> CallManagerError 47"
abbreviation CALL_ERR_AUDIO_UNKNOWN_TONE :: ErrCode where
  "CALL_ERR_AUDIO_UNKNOWN_TONE \<equiv> CallManagerError 48"
abbreviation CALL_ERR_AUDIO_TONE_PLAY_FAILED :: ErrCode where
  "CALL_ERR_AUDIO_TONE_PLAY_FAILED \<equiv> CallManagerError 49"
abbreviation CALL_ERR_AUDIO_TONE_STOP_FAILED :: ErrCode where
  "CALL_ERR_AUDIO_TONE_STOP_FAILED \<equiv> CallManagerError 50"
abbreviation CALL_ERR_AUDIO_SETTING_MUTE_FAILED :: ErrCode where
  "CALL_ERR_AUDIO_SETTING_MUTE_FAILED \<equiv> CallManagerError 51"
abbreviation CALL_ERR_AUDIO_SET_AUDIO_DEVICE_FAILED :: ErrCode where
  "CALL_ERR_AUDIO_SET_AUDIO_DEVICE_FAILED \<equiv> CallManagerError 52"
abbreviation CALL_ERR_AUDIO_OPERATE_FAILED :: ErrCode where
  "CALL_ERR_AUDIO_OPERATE_FAILED \<equiv> CallManagerError 55"
abbreviation CALL_ERR_VIDEO_INVALID_ZOOM :: ErrCode where
  "CALL_ERR_VIDEO_INVALID_ZOOM \<equiv> CallManagerError 57"
abbreviation CALL_ERR_VIDEO_INVALID_ROTATION :: ErrCode where
  "CALL_ERR_VIDEO_INVALID_ROTATION \<equiv> CallManagerError 58"
abbreviation CALL_ERR_CAMERA_NOT_TURNED_ON :: ErrCode where
  "CALL_ERR_CAMERA_NOT_TURNED_ON \<equiv> CallManagerError 61"
abbreviation CALL_ERR_INVALID_RESTRICTION_TYPE :: ErrCode where
  "CALL_ERR_INVALID_RESTRICTION_TYPE \<equiv> CallManagerError 66"
abbreviation CALL_ERR_INVALID_RESTRICTION_MODE :: ErrCode where
  "CALL_ERR_INVALID_RESTRICTION_MODE \<equiv> CallManagerError 67"
abbreviation CALL_ERR_INVALID_TRANSFER_TYPE :: ErrCode where
  "CALL_ERR_INVALID_TRANSFER_TYPE \<equiv> CallManagerError 68"
abbreviation CALL_ERR_INVALID_TRANSFER_SETTING_TYPE :: ErrCode where
  "CALL_ERR_INVALID_TRANSFER_SETTING_TYPE \<equiv> CallManagerError 69"
abbreviation CALL_ERR_INVALID_TRANSFER_TIME :: ErrCode where
  "CALL_ERR_INVALID_TRANSFER_TIME \<equiv> CallManagerError 70"
abbreviation CALL_ERR_SERVICE_DUMP_FAILED :: ErrCode where
  "CALL_ERR_SERVICE_DUMP_FAILED \<equiv> CallManagerError 73"
abbreviation CALL_ERR_FUNCTION_NOT_SUPPORTED :: ErrCode where
  "CALL_ERR_FUNCTION_NOT_SUPPORTED \<equiv> CallManagerError 74"
abbreviation CALL_ERR_VIDEO_NOT_SUPPORTED :: ErrCode where
  "CALL_ERR_VIDEO_NOT_SUPPORTED \<equiv> CallManagerError 75"
abbreviation CALL_ERR_INVALID_CALL_NUMBER :: ErrCode where
  "CALL_ERR_INVALID_CALL_NUMBER \<equiv> CallManagerError 77"
abbreviation CALL_ERR_OPERATION_TOO_FREQUENT :: ErrCode where
  "CALL_ERR_OPERATION_TOO_FREQUENT \<equiv> CallManagerError 78"

abbreviation CALL_ERR_CALL_ALREADY_EXISTS :: ErrCode where
  "CALL_ERR_CALL_ALREADY_EXISTS \<equiv> ProtocolError 1"
abbreviation CALL_ERR_TRANSFER_CALL_ALIVE_FORBIDDEN_DIAL :: ErrCode where
  "CALL_ERR_TRANSFER_CALL_ALIVE_FORBIDDEN_DIAL \<equiv> ProtocolError 6"

subsection \<open>Enumerations of the call model\<close>

datatype CallType =
  TYPE_CS | TYPE_IMS | TYPE_OTT | TYPE_ERR_CALL | TYPE_VOIP | TYPE_SATELLITE | TYPE_BLUETOOTH

fun CallType_code :: "CallType \<Rightarrow> int" where
  "CallType_code TYPE_CS = 0"
| "CallType_code TYPE_IMS = 1"
| "CallType_code TYPE_OTT = 2"
| "CallType_code TYPE_ERR_CALL = 3"
| "CallType_code TYPE_VOIP = 4"
| "CallType_code TYPE_SATELLITE = 5"
| "CallType_code TYPE_BLUETOOTH = 6"

datatype TelCallState =
    CALL_STATUS_UNKNOWN | CALL_STATUS_ACTIVE | CALL_STATUS_HOLDING | CALL_STATUS_DIALING
  | CALL_STATUS_ALERTING | CALL_STATUS_INCOMING | CALL_STATUS_WAITING
  | CALL_STATUS_DISCONNECTED | CALL_STATUS_DISCONNECTING | CALL_STATUS_IDLE
  | CALL_STATUS_ANSWERED

fun TelCallState_code :: "TelCallState \<Rightarrow> int" where
  "TelCallState_code CALL_STATUS_UNKNOWN = -1"
| "TelCallState_code CALL_STATUS_ACTIVE = 0"
| "TelCallState_code CALL_STATUS_HOLDING = 1"
| "TelCallState_code CALL_STATUS_DIALING = 2"
| "TelCallState_code CALL_STATUS_ALERTING = 3"
| "TelCallState_code CALL_STATUS_INCOMING = 4"
| "TelCallState_code CALL_STATUS_WAITING = 5"
| "TelCallState_code CALL_STATUS_DISCONNECTED = 6"
| "TelCallState_code CALL_STATUS_DISCONNECTING = 7"
| "TelCallState_code CALL_STATUS_IDLE = 8"
| "TelCallState_code CALL_STATUS_ANSWERED = 9"

datatype TelConferenceState =
    TEL_CONFERENCE_IDLE | TEL_CONFERENCE_ACTIVE | TEL_CONFERENCE_HOLDING
  | TEL_CONFERENCE_DISCONNECTING | TEL_CONFERENCE_DISCONNECTED

datatype VideoStateType = TYPE_VOICE | TYPE_SEND_ONLY | TYPE_RECEIVE_ONLY | TYPE_VIDEO

fun VideoStateType_code :: "VideoStateType \<Rightarrow> int" where
  "VideoStateType_code TYPE_VOICE = 0"
| "VideoStateType_code TYPE_SEND_ONLY = 1"
| "VideoStateType_code TYPE_RECEIVE_ONLY = 2"
| "VideoStateType_code TYPE_VIDEO = 3"

datatype DialScene = CALL_NORMAL | CALL_PRIVILEGED | CALL_EMERGENCY

fun DialScene_code :: "DialScene \<Rightarrow> int" where
  "DialScene_code CALL_NORMAL = 0"
| "DialScene_code CALL_PRIVILEGED = 1"
| "DialScene_code CALL_EMERGENCY = 2"

datatype CallDirection = CALL_DIRECTION_IN | CALL_DIRECTION_OUT | CALL_DIRECTION_UNKNOW

datatype CallRunningState =
    CALL_RUNNING_STATE_CREATE | CALL_RUNNING_STATE_CONNECTING | CALL_RUNNING_STATE_DIALING
  | CALL_RUNNING_STATE_RINGING | CALL_RUNNING_STATE_ACTIVE | CALL_RUNNING_STATE_HOLD
  | CALL_RUNNING_STATE_ENDED | CALL_RUNNING_STATE_ENDING

datatype DialType =
  DIAL_CARRIER_TYPE | DIAL_VOICE_MAIL_TYPE | DIAL_OTT_TYPE | DIAL_BLUETOOTH_TYPE

fun DialType_code :: "DialType \<Rightarrow> int" where
  "DialType_code DIAL_CARRIER_TYPE = 0"
| "DialType_code DIAL_VOICE_MAIL_TYPE = 1"
| "DialType_code DIAL_OTT_TYPE = 2"
| "DialType_code DIAL_BLUETOOTH_TYPE = 3"

datatype CallStateToApp =
  CALL_STATE_UNKNOWN | CALL_STATE_IDLE | CALL_STATE_RINGING | CALL_STATE_OFFHOOK
| CALL_STATE_ANSWERED

fun CallStateToApp_code :: "CallStateToApp \<Rightarrow> int" where
  "CallStateToApp_code CALL_STATE_UNKNOWN = -1"
| "CallStateToApp_code CALL_STATE_IDLE = 0"
| "CallStateToApp_code CALL_STATE_RINGING = 1"
| "CallStateToApp_code CALL_STATE_OFFHOOK = 2"
| "CallStateToApp_code CALL_STATE_ANSWERED = 3"

datatype CallAnswerType =
    CALL_ANSWER_MISSED | CALL_ANSWER_ACTIVED | CALL_ANSWER_REJECT | CALL_ANSWER_BLOCKED
  | CALL_ANSWERED_ELSEWHER | CALL_DISCONNECTED_BY_REMOTE

datatype CallSupplementType =
  TYPE_DEFAULT | TYPE_HANG_UP_HOLD_WAIT | TYPE_HANG_UP_ACTIVE | TYPE_HANG_UP_ALL

datatype RttCallState =
  RTT_STATE_NO | RTT_STATE_YES | RTT_STATE_REMOTE_TTY | RTT_STATE_REMOTE_NOT_SUPPORT

datatype PhoneOrWatchDial = PHONE_DIAL | WATCH_DIAL

fun PhoneOrWatchDial_code :: "PhoneOrWatchDial \<Rightarrow> int" where
  "PhoneOrWatchDial_code PHONE_DIAL = 0"
| "PhoneOrWatchDial_code WATCH_DIAL = 1"

datatype VoNRState = VONR_STATE_OFF | VONR_STATE_ON

fun VoNRState_code :: "VoNRState \<Rightarrow> int" where
  "VoNRState_code VONR_STATE_OFF = 0"
| "VoNRState_code VONR_STATE_ON = 1"

subsection \<open>Enumerators in the order of their values\<close>

text \<open>
  The call states are ordered by their numeric values (the order a
  \<^verbatim>\<open>std::map\<close> or a relational comparison of the casts uses).
\<close>

lemma TelCallState_code_inject [simp]: "TelCallState_code a = TelCallState_code b \<longleftrightarrow> a = b"
  by (cases a; cases b) simp_all

instantiation TelCallState :: linorder
begin

definition less_eq_TelCallState :: "TelCallState \<Rightarrow> TelCallState \<Rightarrow> bool" where
  "less_eq_TelCallState a b = (TelCallState_code a \<le> TelCallState_code b)"

definition less_TelCallState :: "TelCallState \<Rightarrow> TelCallState \<Rightarrow> bool" where
  "less_TelCallState a b = (TelCallState_code a < TelCallState_code b)"

instance
  by standard (auto simp: less_eq_TelCallState_def less_TelCallState_def)

end

subsection \<open>Constants\<close>

definition ERR_ID :: int where "ERR_ID = -1"
definition INVALID_CALLID :: int where "INVALID_CALLID = 0"
definition VOIP_CALL_MINIMUM :: int where "VOIP_CALL_MINIMUM = 10000"
definition NO_CALL_EXIST :: nat where "NO_CALL_EXIST = 0"
definition ONE_CALL_EXIST :: nat where "ONE_CALL_EXIST = 1"
definition BT_CALL_INVALID_SLOT :: int where "BT_CALL_INVALID_SLOT = -1"
definition kMaxNumberLen :: nat where "kMaxNumberLen = 255"
definition kMaxBundleNameLen :: nat where "kMaxBundleNameLen = 100"
definition RINGING_CALL_NUMBER_LEN :: nat where "RINGING_CALL_NUMBER_LEN = 30"
definition DIALING_CALL_NUMBER_LEN :: nat where "DIALING_CALL_NUMBER_LEN = 30"
definition CALL_START_ID :: int where "CALL_START_ID = 0"
definition CRS_TYPE :: int where "CRS_TYPE = 2"

lemmas cm_consts = ERR_ID_def INVALID_CALLID_def VOIP_CALL_MINIMUM_def NO_CALL_EXIST_def
  ONE_CALL_EXIST_def BT_CALL_INVALID_SLOT_def kMaxNumberLen_def kMaxBundleNameLen_def
  RINGING_CALL_NUMBER_LEN_def DIALING_CALL_NUMBER_LEN_def CALL_START_ID_def CRS_TYPE_def

subsection \<open>Build switches\<close>

text \<open>
  Feature macros that add or remove branches of the modelled code.  Every theorem holds
  for each setting unless it names one.
\<close>

record build =
  not_support_multicall :: bool   \<comment> \<open>NOT_SUPPORT_MULTICALL\<close>
  call_transfer :: bool           \<comment> \<open>CALL_MANAGER_CALL_TRANSFER\<close>
  support_rtt_call :: bool        \<comment> \<open>SUPPORT_RTT_CALL\<close>
  support_dsoftbus :: bool        \<comment> \<open>SUPPORT_DSOFTBUS\<close>
  sos_no_ringback_tone :: bool    \<comment> \<open>CALL_MANAGER_SOS_NO_RINGBACK_TONE\<close>

end
