(* ===== verification/Call_Data.thy ===== *)
theory Call_Data
  imports Call_Types
begin

text \<open>
  The records of a call: the dial parameters a call object is built from
  (\<^verbatim>\<open>struct DialParaInfo\<close>), the members of the class CallBase, and the snapshot
  of a call that observers receive (\<^verbatim>\<open>struct CallAttributeInfo\<close>).  A member
  \<^verbatim>\<open>x_\<close> of a class is the field \<^verbatim>\<open>m_x\<close>.
\<close>

subsection \<open>Data\<close>

datatype RejectType = CALL_REJECT_NORMAL | CALL_REJECT_MISSED_CALL

record ContactInfo =
  ci_name :: string
  ci_number :: string
  ci_isContacterExists :: bool
  ci_ringtonePath :: string
  ci_personalNotificationRingtone :: string
  ci_isSendToVoicemail :: bool
  ci_isEcc :: bool
  ci_isVoiceMail :: bool
  ci_isQueryComplete :: bool

definition empty_contact :: ContactInfo where
  "empty_contact = \<lparr>ci_name = [], ci_number = [], ci_isContacterExists = False,
     ci_ringtonePath = [], ci_personalNotificationRingtone = [], ci_isSendToVoicemail = False,
     ci_isEcc = False, ci_isVoiceMail = False, ci_isQueryComplete = False\<rparr>"

text \<open>
  The extra parameters are an object of another repository; the code reads integers out
  of it by key with a default, so it is represented by that reading.
\<close>

type_synonym WantParams = "string \<Rightarrow> int \<Rightarrow> int"

record VoipCallReportInfo =
  v_voipCallId :: string
  v_userName :: string
  v_userProfile :: "8 word list"
  v_abilityName :: string
  v_extensionId :: string
  v_voipBundleName :: string
  v_showBannerForIncomingCall :: bool
  v_isConferenceCall :: bool
  v_isVoiceAnswerSupported :: bool
  v_isUserMuteRingToneAllowed :: bool
  v_isDialingAllowedDuringCarrierCall :: bool
  v_hasMicPermission :: bool
  v_isCapsuleSticky :: bool
  v_uid :: int

datatype MarkType =
    MARK_TYPE_DEFAULT | MARK_TYPE_NONE | MARK_TYPE_CRANK | MARK_TYPE_FRAUD | MARK_TYPE_EXPRESS
  | MARK_TYPE_PROMOTE_SALES | MARK_TYPE_HOUSE_AGENT | MARK_TYPE_INSURANCE | MARK_TYPE_TAXI
  | MARK_TYPE_CUSTOM | MARK_TYPE_OTHERS | MARK_TYPE_YELLOW_PAGE | MARK_TYPE_ENTERPRISE
  | MARK_TYPE_FRAUD_RISK | MARK_TYPE_EDUCATION_TRAINING | MARK_TYPE_HEADHUNTING | MARK_TYPE_LOAN

record NumberMarkInfo =
  markType :: MarkType
  markContent :: string
  markCount :: int
  markSource :: string
  isCloud :: bool
  markDetails :: string

record DialParaInfo =
  d_accountId :: int
  d_callId :: int
  d_index :: int
  d_isRTT :: bool
  d_number :: string
  d_dialType :: DialType
  d_videoState :: VideoStateType
  d_callType :: CallType
  d_callState :: TelCallState
  d_isDialing :: bool
  d_isEcc :: bool
  d_bundleName :: string
  d_crsType :: int
  d_originalCallType :: int
  d_voipCallInfo :: VoipCallReportInfo
  d_extraParams :: WantParams
  d_phoneOrWatch :: int
  d_isCustomAccessibility :: bool
  d_newCallUseBox :: int
  d_token :: string
  d_phoneIndex :: int

record call_base =
  m_callId :: int
  m_callType :: CallType
  m_videoState :: VideoStateType
  m_accountNumber :: string
  m_bundleName :: string
  m_callRunningState :: CallRunningState
  m_conferenceState :: TelConferenceState
  m_startTime :: int
  m_direction :: CallDirection
  m_policyFlag :: "64 word"
  m_callState :: TelCallState
  m_autoAnswerState :: bool
  m_canUnHoldState :: bool
  m_canSwitchCallState :: bool
  m_answerVideoState :: int
  m_isSpeakerphoneOn :: bool
  m_contactInfo :: ContactInfo
  m_callBeginTime :: int
  m_callCreateTime :: int
  m_callEndTime :: int
  m_ringBeginTime :: int
  m_ringEndTime :: int
  m_answerType :: CallAnswerType
  m_accountId :: int
  m_crsType :: int
  m_originalCallType :: int
  m_isMuted :: bool
  m_numberLocation :: string
  m_numberMarkInfo :: NumberMarkInfo
  m_blockReason :: int
  m_isEccContact :: bool
  m_celiaCallType :: int
  m_extraParams :: WantParams
  m_isAnswered :: bool
  m_detectDetails :: string
  m_phoneOrWatch :: int
  m_isCustomAccessibility :: bool
  m_token :: string
  m_isAiAutoAnswer :: bool
  m_isForcedReportVoiceCall :: bool
  m_isAnsweredByPhone :: bool
  m_newCallUseBox :: int
  m_btCallSlotId :: int
  m_antiFraudState :: int
  m_isNonVirtualCall :: bool
  m_imsDomain :: int
  m_isMicDisabled :: bool
  m_isApCauseReported :: bool
  m_rejectType :: RejectType

text \<open>
  The snapshot handed to observers and applications
  (\<^verbatim>\<open>struct CallAttributeInfo\<close>), with its initial values.  Character
  arrays are the strings they hold.
\<close>

record CallAttributeInfo =
  i_accountNumber :: string
  i_bundleName :: string
  i_speakerphoneOn :: bool
  i_accountId :: int
  i_videoState :: VideoStateType
  i_startTime :: int
  i_isEcc :: bool
  i_isEccContact :: bool
  i_callType :: CallType
  i_callId :: int
  i_callState :: TelCallState
  i_conferenceState :: TelConferenceState
  i_callBeginTime :: int
  i_callCreateTime :: int
  i_callEndTime :: int
  i_ringBeginTime :: int
  i_ringEndTime :: int
  i_callDirection :: CallDirection
  i_answerType :: CallAnswerType
  i_index :: int
  i_crsType :: int
  i_originalCallType :: int
  i_voipCallInfo :: VoipCallReportInfo
  i_numberLocation :: string
  i_numberMarkInfo :: NumberMarkInfo
  i_blockReason :: int
  i_celiaCallType :: int
  i_extraParamsString :: string
  i_contactName :: string
  i_detectDetails :: string
  i_phoneOrWatch :: int
  i_namePresentation :: int
  i_name :: string
  i_antiFraudState :: int
  i_newCallUseBox :: int
  i_simType :: int
  i_simIndex :: int
  i_rttState :: RttCallState
  i_isPrevRtt :: bool
  i_imsDomain :: int
  i_isCustomAccessibility :: bool
  i_phoneIndex :: int

definition default_voip_info :: VoipCallReportInfo where
  "default_voip_info = \<lparr>v_voipCallId = [], v_userName = [], v_userProfile = [],
     v_abilityName = [], v_extensionId = [], v_voipBundleName = [],
     v_showBannerForIncomingCall = True, v_isConferenceCall = False,
     v_isVoiceAnswerSupported = True, v_isUserMuteRingToneAllowed = False,
     v_isDialingAllowedDuringCarrierCall = False, v_hasMicPermission = True,
     v_isCapsuleSticky = False, v_uid = 0\<rparr>"

definition default_mark_info :: NumberMarkInfo where
  "default_mark_info = \<lparr>markType = MARK_TYPE_DEFAULT, markContent = [], markCount = -1,
     markSource = [], isCloud = False, markDetails = []\<rparr>"

text \<open>A zeroed mark (\<^verbatim>\<open>memset_s\<close>) whose type is then set to the default.\<close>

definition zeroed_mark_info :: NumberMarkInfo where
  "zeroed_mark_info = \<lparr>markType = MARK_TYPE_DEFAULT, markContent = [], markCount = 0,
     markSource = [], isCloud = False, markDetails = []\<rparr>"

definition default_info :: CallAttributeInfo where
  "default_info = \<lparr>i_accountNumber = [], i_bundleName = [], i_speakerphoneOn = False,
     i_accountId = 0, i_videoState = TYPE_VOICE, i_startTime = 0, i_isEcc = False,
     i_isEccContact = False, i_callType = TYPE_ERR_CALL, i_callId = 0,
     i_callState = CALL_STATUS_UNKNOWN, i_conferenceState = TEL_CONFERENCE_IDLE,
     i_callBeginTime = 0, i_callCreateTime = 0, i_callEndTime = 0, i_ringBeginTime = 0,
     i_ringEndTime = 0, i_callDirection = CALL_DIRECTION_UNKNOW,
     i_answerType = CALL_ANSWER_MISSED, i_index = 0, i_crsType = 0, i_originalCallType = 0,
     i_voipCallInfo = default_voip_info, i_numberLocation = [],
     i_numberMarkInfo = default_mark_info, i_blockReason = 0, i_celiaCallType = -1,
     i_extraParamsString = [], i_contactName = [], i_detectDetails = [], i_phoneOrWatch = 0,
     i_namePresentation = 0, i_name = [], i_antiFraudState = 0, i_newCallUseBox = 0,
     i_simType = 0, i_simIndex = 0,
     i_rttState = RTT_STATE_NO, i_isPrevRtt = False,
     i_imsDomain = 0, i_isCustomAccessibility = False,
     i_phoneIndex = 0\<rparr>"

end
