(* ===== verification/Call_Base.thy ===== *)
theory Call_Base
  imports Call_Data
begin

text \<open>
  The class CallBase (\<^verbatim>\<open>services/call/src/call_base.cpp\<close>): its constructors, the
  transition from the state the telephony stack reports (TelCallState) to the service's
  own view (CallRunningState) with the times, the answer type and the conference state
  that follow it, the snapshot, and the attribute setters.  The record of a call is
  extended by the classes derived from CallBase (theory Call_Classes), so the operations
  are stated for every extension.  The mutex of the class makes each operation atomic;
  an operation is one function here.
\<close>

subsection \<open>Construction\<close>

text \<open>
  Both constructors initialise the same members; the one with a PacMap makes an
  outgoing call.
\<close>

definition CallBase_init :: "DialParaInfo \<Rightarrow> CallDirection \<Rightarrow> call_base" where
  "CallBase_init info dir = \<lparr>
     m_callId = d_callId info, m_callType = d_callType info,
     m_videoState = d_videoState info, m_accountNumber = d_number info,
     m_bundleName = d_bundleName info, m_callRunningState = CALL_RUNNING_STATE_CREATE,
     m_conferenceState = TEL_CONFERENCE_IDLE, m_startTime = 0, m_direction = dir,
     m_policyFlag = 0, m_callState = d_callState info, m_autoAnswerState = False,
     m_canUnHoldState = True, m_canSwitchCallState = True, m_answerVideoState = 0,
     m_isSpeakerphoneOn = False, m_contactInfo = empty_contact, m_callBeginTime = 0,
     m_callCreateTime = 0, m_callEndTime = 0, m_ringBeginTime = 0, m_ringEndTime = 0,
     m_answerType = CALL_ANSWER_MISSED, m_accountId = d_accountId info,
     m_crsType = d_crsType info, m_originalCallType = d_originalCallType info,
     m_isMuted = False, m_numberLocation = ''default'', m_numberMarkInfo = zeroed_mark_info,
     m_blockReason = 0, m_isEccContact = False, m_celiaCallType = -1,
     m_extraParams = d_extraParams info, m_isAnswered = False, m_detectDetails = [],
     m_phoneOrWatch = d_phoneOrWatch info,
     m_isCustomAccessibility = d_isCustomAccessibility info, m_token = d_token info,
     m_isAiAutoAnswer = False, m_isForcedReportVoiceCall = False,
     m_isAnsweredByPhone = False, m_newCallUseBox = d_newCallUseBox info,
     m_btCallSlotId = BT_CALL_INVALID_SLOT, m_antiFraudState = 0, m_isNonVirtualCall = False,
     m_imsDomain = 0, m_isMicDisabled = False, m_isApCauseReported = False,
     m_rejectType = CALL_REJECT_NORMAL\<rparr>"

definition CallBase_incoming :: "DialParaInfo \<Rightarrow> call_base" where
  "CallBase_incoming info = CallBase_init info CALL_DIRECTION_IN"

definition CallBase_outgoing :: "DialParaInfo \<Rightarrow> call_base" where
  "CallBase_outgoing info = CallBase_init info CALL_DIRECTION_OUT"

subsection \<open>The clock\<close>

text \<open>
  The code reads the wall clock with \<^verbatim>\<open>time(nullptr)\<close>, twice on the way to
  DISCONNECTED, and with \<^verbatim>\<open>gettimeofday\<close>.  The readings are inputs.
\<close>

record clock =
  now :: int
  now_again :: int
  tv_sec :: int
  tv_usec :: int

definition MILLI_TO_BASE :: int where "MILLI_TO_BASE = 1000"

subsection \<open>State changes\<close>

definition StateChangesToDialing :: "'a call_base_scheme \<Rightarrow> 'a call_base_scheme" where
  "StateChangesToDialing c = c\<lparr>m_callRunningState := CALL_RUNNING_STATE_DIALING\<rparr>"

definition StateChangesToIncoming :: "clock \<Rightarrow> 'a call_base_scheme \<Rightarrow> 'a call_base_scheme" where
  "StateChangesToIncoming k c =
     c\<lparr>m_callRunningState := CALL_RUNNING_STATE_RINGING, m_ringBeginTime := now k\<rparr>"

definition StateChangesToWaiting :: "clock \<Rightarrow> 'a call_base_scheme \<Rightarrow> 'a call_base_scheme" where
  "StateChangesToWaiting k c =
     c\<lparr>m_callRunningState := CALL_RUNNING_STATE_RINGING, m_ringBeginTime := now k\<rparr>"

definition StateChangesToActive :: "clock \<Rightarrow> 'a call_base_scheme \<Rightarrow> 'a call_base_scheme" where
  "StateChangesToActive k c =
     (let c = c\<lparr>m_callRunningState := CALL_RUNNING_STATE_ACTIVE\<rparr> in
      if m_callBeginTime c = 0 then
        (let c = c\<lparr>m_callBeginTime := now k, m_ringEndTime := now k\<rparr>;
             c = (if m_callType c = TYPE_VOIP
                  then c\<lparr>m_startTime := tv_sec k * MILLI_TO_BASE + tv_usec k div MILLI_TO_BASE\<rparr>
                  else c\<lparr>m_startTime := m_callBeginTime c\<rparr>)
         in c\<lparr>m_answerType := CALL_ANSWER_ACTIVED\<rparr>)
      else c)"

definition StateChangesToHolding :: "'a call_base_scheme \<Rightarrow> 'a call_base_scheme" where
  "StateChangesToHolding c =
     (let c = c\<lparr>m_callRunningState := CALL_RUNNING_STATE_HOLD\<rparr> in
      if m_conferenceState c = TEL_CONFERENCE_ACTIVE
      then c\<lparr>m_conferenceState := TEL_CONFERENCE_DISCONNECTED\<rparr> else c)"

definition StateChangesToDisconnected ::
  "clock \<Rightarrow> 'a call_base_scheme \<Rightarrow> 'a call_base_scheme" where
  "StateChangesToDisconnected k c =
     (let c = c\<lparr>m_callRunningState := CALL_RUNNING_STATE_ENDED\<rparr>;
          c = (if m_conferenceState c = TEL_CONFERENCE_DISCONNECTING \<or>
                  m_conferenceState c = TEL_CONFERENCE_ACTIVE
               then c\<lparr>m_conferenceState := TEL_CONFERENCE_DISCONNECTED\<rparr> else c);
          c = c\<lparr>m_callEndTime := now k\<rparr>
      in if m_ringEndTime c = 0 then c\<lparr>m_ringEndTime := now_again k\<rparr> else c)"

definition StateChangesToDisconnecting ::
  "clock \<Rightarrow> 'a call_base_scheme \<Rightarrow> 'a call_base_scheme" where
  "StateChangesToDisconnecting k c =
     (let c = c\<lparr>m_callRunningState := CALL_RUNNING_STATE_ENDING\<rparr>;
          c = (if m_conferenceState c = TEL_CONFERENCE_ACTIVE
               then c\<lparr>m_conferenceState := TEL_CONFERENCE_DISCONNECTING\<rparr> else c)
      in if m_ringEndTime c = 0 then c\<lparr>m_ringEndTime := now k\<rparr> else c)"

definition StateChangesToAlerting :: "clock \<Rightarrow> 'a call_base_scheme \<Rightarrow> 'a call_base_scheme" where
  "StateChangesToAlerting k c =
     c\<lparr>m_callRunningState := CALL_RUNNING_STATE_DIALING, m_ringBeginTime := now k\<rparr>"

lemmas state_change_defs [cm_defs] = StateChangesToDialing_def StateChangesToIncoming_def
  StateChangesToWaiting_def StateChangesToActive_def StateChangesToHolding_def
  StateChangesToDisconnected_def StateChangesToDisconnecting_def StateChangesToAlerting_def

fun enter_state :: "clock \<Rightarrow> TelCallState \<Rightarrow> 'a call_base_scheme \<Rightarrow> 'a call_base_scheme" where
  "enter_state k CALL_STATUS_DIALING c = StateChangesToDialing c"
| "enter_state k CALL_STATUS_INCOMING c = StateChangesToIncoming k c"
| "enter_state k CALL_STATUS_WAITING c = StateChangesToWaiting k c"
| "enter_state k CALL_STATUS_ACTIVE c = StateChangesToActive k c"
| "enter_state k CALL_STATUS_HOLDING c = StateChangesToHolding c"
| "enter_state k CALL_STATUS_DISCONNECTED c = StateChangesToDisconnected k c"
| "enter_state k CALL_STATUS_DISCONNECTING c = StateChangesToDisconnecting k c"
| "enter_state k CALL_STATUS_ALERTING c = StateChangesToAlerting k c"
| "enter_state k _ c = c"

definition SetTelCallState ::
  "clock \<Rightarrow> TelCallState \<Rightarrow> 'a call_base_scheme \<Rightarrow> ErrCode \<times> 'a call_base_scheme" where
  "SetTelCallState k nextState c =
     (if m_callRunningState c \<noteq> CALL_RUNNING_STATE_CREATE \<and> m_callState c = nextState \<and>
         nextState \<noteq> CALL_STATUS_DIALING
      then (CALL_ERR_NOT_NEW_STATE, c)
      else (TELEPHONY_SUCCESS, enter_state k nextState (c\<lparr>m_callState := nextState\<rparr>)))"

subsection \<open>Dialing, answering and rejecting\<close>

text \<open>
  DialCallBase also submits a task that hangs up VoIP calls; the task is the operation
  HangUpVoipCall of theory Call_Object_Manager.
\<close>

definition DialCallBase :: "'a call_base_scheme \<Rightarrow> ErrCode \<times> 'a call_base_scheme" where
  "DialCallBase c =
     (TELEPHONY_SUCCESS, c\<lparr>m_callRunningState := CALL_RUNNING_STATE_CONNECTING\<rparr>)"

definition IncomingCallBase :: "'a call_base_scheme \<Rightarrow> ErrCode \<times> 'a call_base_scheme" where
  "IncomingCallBase c =
     (TELEPHONY_SUCCESS, c\<lparr>m_callRunningState := CALL_RUNNING_STATE_RINGING\<rparr>)"

definition IsCurrentRinging :: "'a call_base_scheme \<Rightarrow> bool" where
  "IsCurrentRinging c = (m_callRunningState c = CALL_RUNNING_STATE_RINGING)"

definition AnswerCallBase :: "'a call_base_scheme \<Rightarrow> ErrCode" where
  "AnswerCallBase c =
     (if \<not> IsCurrentRinging c then CALL_ERR_PHONE_ANSWER_IS_BUSY else TELEPHONY_SUCCESS)"

definition RejectCallBase :: "'a call_base_scheme \<Rightarrow> ErrCode \<times> 'a call_base_scheme" where
  "RejectCallBase c =
     (TELEPHONY_SUCCESS,
      if m_rejectType c = CALL_REJECT_MISSED_CALL
      then c\<lparr>m_answerType := CALL_ANSWER_MISSED\<rparr>
      else c\<lparr>m_answerType := CALL_ANSWER_REJECT\<rparr>)"

definition IsAliveState :: "'a call_base_scheme \<Rightarrow> bool" where
  "IsAliveState c =
     (\<not> (m_callState c = CALL_STATUS_IDLE \<or> m_callState c = CALL_STATUS_DISCONNECTED \<or>
         m_callState c = CALL_STATUS_DISCONNECTING))"

text \<open>Policy flags accumulate: setting one never clears another.\<close>

definition SetPolicyFlag :: "64 word \<Rightarrow> 'a call_base_scheme \<Rightarrow> 'a call_base_scheme" where
  "SetPolicyFlag flag c = c\<lparr>m_policyFlag := or (m_policyFlag c) flag\<rparr>"

definition POLICY_FLAG_HANG_UP_HOLD_WAIT :: "64 word" where
  "POLICY_FLAG_HANG_UP_HOLD_WAIT = 0x100"

definition POLICY_FLAG_HANG_UP_ACTIVE :: "64 word" where
  "POLICY_FLAG_HANG_UP_ACTIVE = 0x200"

definition POLICY_FLAG_HANG_UP_ALL :: "64 word" where
  "POLICY_FLAG_HANG_UP_ALL = 0x400"

subsection \<open>The snapshot\<close>

text \<open>
  The extra parameters are printed and parsed again by the library they come from; what
  the code reads of that is the printed text and the values found in it.
\<close>

record want_api =
  wa_ToString :: "WantParams \<Rightarrow> string"
  wa_GetStringParam :: "string \<Rightarrow> string \<Rightarrow> string"
  wa_GetIntParam :: "string \<Rightarrow> string \<Rightarrow> int \<Rightarrow> int"

text \<open>
  \<^verbatim>\<open>memcpy_s(dest, max, src, n)\<close>: copies when \<^verbatim>\<open>n\<close> fits, leaving the bytes
  behind the copy as they were, and otherwise clears the destination and fails.
\<close>

definition memcpy_s :: "string \<Rightarrow> nat \<Rightarrow> string \<Rightarrow> bool \<times> string" where
  "memcpy_s dest mx src =
     (if length src \<le> mx then (True, src @ drop (length src) dest) else (False, []))"

definition ANTIFRAUD_STATE_RISK :: int where "ANTIFRAUD_STATE_RISK = 2"

definition fill_base_fields ::
  "want_api \<Rightarrow> 'a call_base_scheme \<Rightarrow> CallAttributeInfo \<Rightarrow> CallAttributeInfo" where
  "fill_base_fields w c info =
     (let ps = wa_ToString w (m_extraParams c) in
      info\<lparr>i_accountNumber := m_accountNumber c,
        i_speakerphoneOn := m_isSpeakerphoneOn c, i_videoState := m_videoState c,
        i_startTime := m_startTime c, i_callType := m_callType c, i_callId := m_callId c,
        i_callState := m_callState c, i_conferenceState := m_conferenceState c,
        i_callBeginTime := m_callBeginTime c, i_callCreateTime := m_callCreateTime c,
        i_callEndTime := m_callEndTime c, i_ringBeginTime := m_ringBeginTime c,
        i_ringEndTime := m_ringEndTime c, i_callDirection := m_direction c,
        i_answerType := m_answerType c, i_accountId := m_accountId c,
        i_crsType := m_crsType c, i_originalCallType := m_originalCallType c,
        i_isEccContact := m_isEccContact c, i_celiaCallType := m_celiaCallType c,
        i_extraParamsString := ps, i_name := wa_GetStringParam w ps ''name'',
        i_namePresentation := wa_GetIntParam w ps ''namePresentation'' 0,
        i_antiFraudState := wa_GetIntParam w ps ''antiFraudState'' 0,
        i_phoneOrWatch := m_phoneOrWatch c, i_imsDomain := m_imsDomain c,
        i_isCustomAccessibility := m_isCustomAccessibility c,
        i_simType := wa_GetIntParam w ps ''simType'' 0,
        i_simIndex := wa_GetIntParam w ps ''simIndex'' 0, i_numberLocation := []\<rparr>)"

definition fill_mark_fields ::
  "'a call_base_scheme \<Rightarrow> CallAttributeInfo \<Rightarrow> CallAttributeInfo" where
  "fill_mark_fields c info =
     (let info = info\<lparr>i_contactName :=
            snd (memcpy_s (i_contactName info) kMaxNumberLen (ci_name (m_contactInfo c)))\<rparr>;
          info = info\<lparr>i_numberMarkInfo := m_numberMarkInfo c\<rparr>;
          info = (if m_antiFraudState c = ANTIFRAUD_STATE_RISK
                  then info\<lparr>i_numberMarkInfo :=
                         (i_numberMarkInfo info)\<lparr>markType := MARK_TYPE_FRAUD_RISK\<rparr>\<rparr>
                  else info)
      in info\<lparr>i_blockReason := m_blockReason c\<rparr>)"

definition GetCallAttributeBaseInfo ::
  "want_api \<Rightarrow> 'a call_base_scheme \<Rightarrow> CallAttributeInfo \<Rightarrow> CallAttributeInfo" where
  "GetCallAttributeBaseInfo w c info =
     (let info = info\<lparr>i_accountNumber := []\<rparr> in
      if length (m_accountNumber c) > kMaxNumberLen then info
      else
        let info = fill_base_fields w c info;
            (ok, loc) = memcpy_s (i_numberLocation info) kMaxNumberLen (m_numberLocation c);
            info = info\<lparr>i_numberLocation := loc\<rparr>
        in if \<not> ok then info
           else
             let info = fill_mark_fields c info in
             if length (m_bundleName c) > kMaxBundleNameLen then info
             else
               info\<lparr>i_bundleName :=
                      snd (memcpy_s (i_bundleName info) kMaxBundleNameLen (m_bundleName c)),
                    i_detectDetails :=
                      snd (memcpy_s (i_detectDetails info) (kMaxNumberLen + 1)
                        (m_detectDetails c))\<rparr>)"

subsection \<open>The state a report leads to\<close>

text \<open>
  The specification of the transition: the service's view of each reported state.  The
  three states with no entry do not touch the view.
\<close>

fun running_of :: "TelCallState \<Rightarrow> CallRunningState option" where
  "running_of CALL_STATUS_DIALING = Some CALL_RUNNING_STATE_DIALING"
| "running_of CALL_STATUS_ALERTING = Some CALL_RUNNING_STATE_DIALING"
| "running_of CALL_STATUS_INCOMING = Some CALL_RUNNING_STATE_RINGING"
| "running_of CALL_STATUS_WAITING = Some CALL_RUNNING_STATE_RINGING"
| "running_of CALL_STATUS_ACTIVE = Some CALL_RUNNING_STATE_ACTIVE"
| "running_of CALL_STATUS_HOLDING = Some CALL_RUNNING_STATE_HOLD"
| "running_of CALL_STATUS_DISCONNECTED = Some CALL_RUNNING_STATE_ENDED"
| "running_of CALL_STATUS_DISCONNECTING = Some CALL_RUNNING_STATE_ENDING"
| "running_of _ = None"

lemma running_of_not_create [simp]: "running_of s \<noteq> Some CALL_RUNNING_STATE_CREATE"
  by (cases s) simp_all

lemma enter_state_callState [simp, cm_frame]:
  "m_callState (enter_state k s c) = m_callState c"
  by (cases s) (simp_all add: state_change_defs Let_def)

lemma enter_state_identity [simp, cm_frame]:
  "m_callId (enter_state k s c) = m_callId c"
  "m_callType (enter_state k s c) = m_callType c"
  "m_accountNumber (enter_state k s c) = m_accountNumber c"
  "m_videoState (enter_state k s c) = m_videoState c"
  "m_crsType (enter_state k s c) = m_crsType c"
  "m_isNonVirtualCall (enter_state k s c) = m_isNonVirtualCall c"
  "m_rejectType (enter_state k s c) = m_rejectType c"
  "call_base.more (enter_state k s c) = call_base.more c"
  by (cases s; simp add: state_change_defs Let_def)+

lemma enter_state_running:
  "m_callRunningState (enter_state k s c) =
     (case running_of s of None \<Rightarrow> m_callRunningState c | Some r \<Rightarrow> r)"
  by (cases s) (simp_all add: state_change_defs Let_def)

lemma SetTelCallState_identity [simp, cm_frame]:
  "m_callId (snd (SetTelCallState k s c)) = m_callId c"
  "m_callType (snd (SetTelCallState k s c)) = m_callType c"
  "m_accountNumber (snd (SetTelCallState k s c)) = m_accountNumber c"
  "m_videoState (snd (SetTelCallState k s c)) = m_videoState c"
  "m_isNonVirtualCall (snd (SetTelCallState k s c)) = m_isNonVirtualCall c"
  "call_base.more (snd (SetTelCallState k s c)) = call_base.more c"
  by (simp_all add: SetTelCallState_def)

lemma SetTelCallState_callState [simp]:
  "m_callState (snd (SetTelCallState k s c)) = s"
  by (auto simp: SetTelCallState_def)

lemma enter_state_begin_fixed:
  "m_callBeginTime c \<noteq> 0 \<Longrightarrow>
   m_callBeginTime (enter_state k s c) = m_callBeginTime c \<and>
   m_startTime (enter_state k s c) = m_startTime c \<and>
   m_answerType (enter_state k s c) = m_answerType c"
  by (cases s) (simp_all add: state_change_defs Let_def)

lemma SetTelCallState_begin_fixed:
  "m_callBeginTime c \<noteq> 0 \<Longrightarrow>
   m_callBeginTime (snd (SetTelCallState k s c)) = m_callBeginTime c \<and>
   m_startTime (snd (SetTelCallState k s c)) = m_startTime c \<and>
   m_answerType (snd (SetTelCallState k s c)) = m_answerType c"
  using enter_state_begin_fixed [of "c\<lparr>m_callState := s\<rparr>" k s]
  by (simp add: SetTelCallState_def)

subsection \<open>A call over its reports\<close>

text \<open>One report from the stack: the time it arrives and the state it carries.\<close>

definition report :: "'a call_base_scheme \<Rightarrow> clock \<times> TelCallState \<Rightarrow> 'a call_base_scheme" where
  "report c e = snd (SetTelCallState (fst e) (snd e) c)"

interpretation answered_call: event_machine
  "report :: 'a call_base_scheme \<Rightarrow> clock \<times> TelCallState \<Rightarrow> 'a call_base_scheme"
  "\<lambda>c. m_callBeginTime c = b \<and> b \<noteq> 0 \<and> m_startTime c = t \<and> m_answerType c = a"
  for b :: int and t :: int and a :: CallAnswerType
  by unfold_locales (auto simp: report_def SetTelCallState_begin_fixed)

text \<open>
  Times: with a clock that does not run backwards, what is recorded is at most the
  latest reading, and a call that has ended does not end before it began.
\<close>

definition times_bounded :: "int \<Rightarrow> 'a call_base_scheme \<Rightarrow> bool" where
  "times_bounded t c \<longleftrightarrow>
     0 \<le> m_callBeginTime c \<and> m_callBeginTime c \<le> t \<and> m_callEndTime c \<le> t \<and>
     (m_callRunningState c = CALL_RUNNING_STATE_ENDED \<longrightarrow> m_callBeginTime c \<le> m_callEndTime c)"

lemma times_bounded_enter:
  assumes "times_bounded t c" and "t \<le> now k" and "0 \<le> t"
  shows "times_bounded (now k) (enter_state k s c)"
  using assms by (cases s) (auto simp: times_bounded_def state_change_defs Let_def)

lemma times_bounded_report:
  assumes "times_bounded t c" and "t \<le> now (fst e)" and "0 \<le> t"
  shows "times_bounded (now (fst e)) (report c e)"
proof -
  obtain k s where e: "e = (k, s)" by (cases e)
  have "times_bounded t (c\<lparr>m_callState := s\<rparr>)"
    using assms(1) by (simp add: times_bounded_def)
  then have "times_bounded (now k) (enter_state k s (c\<lparr>m_callState := s\<rparr>))"
    using assms(2,3) e by (intro times_bounded_enter) simp_all
  moreover have "times_bounded (now k) c"
    using assms(1,2) e by (auto simp: times_bounded_def)
  ultimately show ?thesis by (simp add: e report_def SetTelCallState_def)
qed

fun clock_runs_on :: "int \<Rightarrow> (clock \<times> TelCallState) list \<Rightarrow> bool" where
  "clock_runs_on t [] = True"
| "clock_runs_on t (e # es) = (t \<le> now (fst e) \<and> clock_runs_on (now (fst e)) es)"

lemma times_bounded_reports:
  "times_bounded t c \<Longrightarrow> 0 \<le> t \<Longrightarrow> clock_runs_on t es \<Longrightarrow> \<exists>t'. times_bounded t' (foldl report c es)"
proof (induction es arbitrary: t c)
  case Nil
  then show ?case by auto
next
  case (Cons e es)
  have "times_bounded (now (fst e)) (report c e)"
    using Cons.prems by (intro times_bounded_report) auto
  then have "\<exists>t'. times_bounded t' (foldl report (report c e) es)"
    by (rule Cons.IH) (use Cons.prems in auto)
  then show ?case by simp
qed

subsection \<open>The abstract view of a call\<close>

definition view :: "'a call_base_scheme \<Rightarrow> TelCallState \<times> CallRunningState" where
  "view c = (m_callState c, m_callRunningState c)"

text \<open>
  What the service promises about a call's state: a repeated state is ignored, except
  on a fresh call and for DIALING; otherwise the state is taken over and the running
  state follows \<^term>\<open>running_of\<close>.
\<close>

fun view_step :: "TelCallState \<times> CallRunningState \<Rightarrow> TelCallState \<Rightarrow> TelCallState \<times> CallRunningState" where
  "view_step (st, r) s =
     (if r \<noteq> CALL_RUNNING_STATE_CREATE \<and> st = s \<and> s \<noteq> CALL_STATUS_DIALING then (st, r)
      else (s, case running_of s of None \<Rightarrow> r | Some r' \<Rightarrow> r'))"

lemma report_refines_view_step: "view (report c e) = view_step (view c) (snd e)"
  by (auto simp: view_def report_def SetTelCallState_def enter_state_running split: option.splits)

subsection \<open>Sample data for the witnesses\<close>

definition sample_clock :: clock where
  "sample_clock = \<lparr>now = 100, now_again = 100, tv_sec = 100, tv_usec = 250000\<rparr>"

definition sample_info :: DialParaInfo where
  "sample_info = \<lparr>d_accountId = 0, d_callId = 1, d_index = 1, d_isRTT = False,
     d_number = ''10086'', d_dialType = DIAL_CARRIER_TYPE,
     d_videoState = TYPE_VOICE, d_callType = TYPE_CS, d_callState = CALL_STATUS_INCOMING,
     d_isDialing = False, d_isEcc = False, d_bundleName = [], d_crsType = 0, d_originalCallType = 0,
     d_voipCallInfo = default_voip_info, d_extraParams = (\<lambda>_ d. d), d_phoneOrWatch = 0,
     d_isCustomAccessibility = False, d_newCallUseBox = 0, d_token = [], d_phoneIndex = 0\<rparr>"

definition sample_incoming :: call_base where
  "sample_incoming = CallBase_incoming sample_info"

definition sample_reports :: "(clock \<times> TelCallState) list" where
  "sample_reports = [(sample_clock, CALL_STATUS_ACTIVE),
     (sample_clock\<lparr>now := 160, now_again := 160\<rparr>, CALL_STATUS_DISCONNECTED)]"

lemmas sample_defs = sample_clock_def sample_info_def sample_incoming_def

subsection \<open>Properties\<close>

text \<open>
  C1: The pair of reported state and running state evolves exactly as the abstract
  transition \<^term>\<open>view_step\<close> says, over any sequence of reports at any times: no
  other attribute of the call (conference, times, direction, type) influences it.
\<close>

theorem reports_refine_view:
  "view (foldl report c es) = foldl view_step (view c) (map snd es)"
  by (induction es arbitrary: c) (simp_all add: report_refines_view_step)

text \<open>
  C5: A report that repeats the state a call has just entered is recognised: it returns
  \<^verbatim>\<open>CALL_ERR_NOT_NEW_STATE\<close> and changes nothing, for every state with a running
  state of its own except DIALING, which is always accepted.
\<close>

theorem duplicate_report_rejected:
  assumes "running_of s = Some r" and "s \<noteq> CALL_STATUS_DIALING"
  shows "SetTelCallState k' s (snd (SetTelCallState k s c)) =
           (CALL_ERR_NOT_NEW_STATE, snd (SetTelCallState k s c))"
proof -
  have "r \<noteq> CALL_RUNNING_STATE_CREATE" using assms(1) by auto
  then show ?thesis using assms by (auto simp: SetTelCallState_def enter_state_running)
qed

theorem duplicate_report_rejected_witness:
  "SetTelCallState sample_clock CALL_STATUS_ACTIVE
     (snd (SetTelCallState sample_clock CALL_STATUS_ACTIVE sample_incoming)) =
   (CALL_ERR_NOT_NEW_STATE, snd (SetTelCallState sample_clock CALL_STATUS_ACTIVE sample_incoming))"
  by (rule duplicate_report_rejected [where r = CALL_RUNNING_STATE_ACTIVE]) simp_all

text \<open>
  C8: Once a call has been answered (its begin time is set), no sequence of later state
  transitions (calls of SetTelCallState) changes the begin time, the start time or the
  answer type.  The handler of a disconnection may still overwrite the answer type outside
  of these transitions (RefreshCallDisconnectReason, which does not ask whether the call
  was answered here); it leaves both times alone.
\<close>

theorem answered_times_fixed:
  assumes "m_callBeginTime c \<noteq> 0"
  shows "m_callBeginTime (foldl report c es) = m_callBeginTime c \<and>
         m_startTime (foldl report c es) = m_startTime c \<and>
         m_answerType (foldl report c es) = m_answerType c"
  using answered_call.inv_run [of c "m_callBeginTime c" "m_startTime c" "m_answerType c" es] assms
  by simp

theorem answered_times_fixed_witness:
  "m_callBeginTime (foldl report (report sample_incoming (sample_clock, CALL_STATUS_ACTIVE))
     [(sample_clock\<lparr>now := 900\<rparr>, CALL_STATUS_HOLDING), (sample_clock\<lparr>now := 901\<rparr>, CALL_STATUS_ACTIVE)]) = 100"
  using answered_times_fixed [of "report sample_incoming (sample_clock, CALL_STATUS_ACTIVE)"
      "[(sample_clock\<lparr>now := 900\<rparr>, CALL_STATUS_HOLDING), (sample_clock\<lparr>now := 901\<rparr>, CALL_STATUS_ACTIVE)]"]
  by (simp add: report_def SetTelCallState_def sample_defs CallBase_incoming_def CallBase_init_def
      state_change_defs Let_def)

text \<open>
  C19: With a clock that never runs backwards, a call built by either constructor that
  has ended (running state ENDED) has an end time that is not before its begin time:
  the duration the call records store is never negative.
\<close>

theorem ended_call_duration:
  assumes "clock_runs_on 0 es"
    and "m_callRunningState (foldl report (CallBase_init info dir) es) = CALL_RUNNING_STATE_ENDED"
  shows "m_callBeginTime (foldl report (CallBase_init info dir) es)
         \<le> m_callEndTime (foldl report (CallBase_init info dir) es)"
proof -
  have "times_bounded 0 (CallBase_init info dir)"
    by (simp add: times_bounded_def CallBase_init_def)
  then obtain t' where "times_bounded t' (foldl report (CallBase_init info dir) es)"
    using times_bounded_reports assms(1) by blast
  then show ?thesis using assms(2) by (simp add: times_bounded_def)
qed

theorem ended_call_duration_witness:
  "m_callBeginTime (foldl report (CallBase_init sample_info CALL_DIRECTION_IN) sample_reports)
   \<le> m_callEndTime (foldl report (CallBase_init sample_info CALL_DIRECTION_IN) sample_reports)"
  by (rule ended_call_duration)
     (simp_all add: sample_reports_def report_def SetTelCallState_def sample_defs
       CallBase_init_def state_change_defs Let_def)

end
