(* ===== verification/Call_Attributes.thy ===== *)
theory Call_Attributes
  imports Call_Base
begin

text \<open>
  The attribute setters of CallBase (\<^verbatim>\<open>services/call/src/call_base.cpp\<close>), one per
  member, and what they leave alone: only SetCallRunningState touches the state a call
  is in.
  The matching getters are the record's selectors.
\<close>

subsection \<open>Setters\<close>

definition SetExtraParams :: "WantParams \<Rightarrow> 'a call_base_scheme \<Rightarrow> 'a call_base_scheme" where
  "SetExtraParams v c = c\<lparr>m_extraParams := v\<rparr>"

definition SetAutoAnswerState :: "bool \<Rightarrow> 'a call_base_scheme \<Rightarrow> 'a call_base_scheme" where
  "SetAutoAnswerState v c = c\<lparr>m_autoAnswerState := v\<rparr>"

definition SetAnswerVideoState :: "int \<Rightarrow> 'a call_base_scheme \<Rightarrow> 'a call_base_scheme" where
  "SetAnswerVideoState v c = c\<lparr>m_answerVideoState := v\<rparr>"

definition SetCanUnHoldState :: "bool \<Rightarrow> 'a call_base_scheme \<Rightarrow> 'a call_base_scheme" where
  "SetCanUnHoldState v c = c\<lparr>m_canUnHoldState := v\<rparr>"

definition SetCanSwitchCallState :: "bool \<Rightarrow> 'a call_base_scheme \<Rightarrow> 'a call_base_scheme" where
  "SetCanSwitchCallState v c = c\<lparr>m_canSwitchCallState := v\<rparr>"

definition SetTelConferenceState ::
  "TelConferenceState \<Rightarrow> 'a call_base_scheme \<Rightarrow> 'a call_base_scheme" where
  "SetTelConferenceState v c = c\<lparr>m_conferenceState := v\<rparr>"

definition SetVideoStateType :: "VideoStateType \<Rightarrow> 'a call_base_scheme \<Rightarrow> 'a call_base_scheme" where
  "SetVideoStateType v c = c\<lparr>m_videoState := v\<rparr>"

definition SetCrsType :: "int \<Rightarrow> 'a call_base_scheme \<Rightarrow> 'a call_base_scheme" where
  "SetCrsType v c = c\<lparr>m_crsType := v\<rparr>"

definition SetOriginalCallType :: "int \<Rightarrow> 'a call_base_scheme \<Rightarrow> 'a call_base_scheme" where
  "SetOriginalCallType v c = c\<lparr>m_originalCallType := v\<rparr>"

definition SetIsEccContact :: "bool \<Rightarrow> 'a call_base_scheme \<Rightarrow> 'a call_base_scheme" where
  "SetIsEccContact v c = c\<lparr>m_isEccContact := v\<rparr>"

definition SetNumberLocation :: "string \<Rightarrow> 'a call_base_scheme \<Rightarrow> 'a call_base_scheme" where
  "SetNumberLocation v c = c\<lparr>m_numberLocation := v\<rparr>"

definition SetAccountId :: "int \<Rightarrow> 'a call_base_scheme \<Rightarrow> 'a call_base_scheme" where
  "SetAccountId v c = c\<lparr>m_accountId := v\<rparr>"

definition SetCallerInfo :: "ContactInfo \<Rightarrow> 'a call_base_scheme \<Rightarrow> 'a call_base_scheme" where
  "SetCallerInfo v c = c\<lparr>m_contactInfo := v\<rparr>"

definition SetNumberMarkInfo :: "NumberMarkInfo \<Rightarrow> 'a call_base_scheme \<Rightarrow> 'a call_base_scheme" where
  "SetNumberMarkInfo v c = c\<lparr>m_numberMarkInfo := v\<rparr>"

definition SetBlockReason :: "int \<Rightarrow> 'a call_base_scheme \<Rightarrow> 'a call_base_scheme" where
  "SetBlockReason v c = c\<lparr>m_blockReason := v\<rparr>"

definition SetDetectDetails :: "string \<Rightarrow> 'a call_base_scheme \<Rightarrow> 'a call_base_scheme" where
  "SetDetectDetails v c = c\<lparr>m_detectDetails := v\<rparr>"

definition SetCallRunningState ::
  "CallRunningState \<Rightarrow> 'a call_base_scheme \<Rightarrow> 'a call_base_scheme" where
  "SetCallRunningState v c = c\<lparr>m_callRunningState := v\<rparr>"

definition SetStartTime :: "int \<Rightarrow> 'a call_base_scheme \<Rightarrow> 'a call_base_scheme" where
  "SetStartTime v c = c\<lparr>m_startTime := v\<rparr>"

definition SetCallBeginTime :: "int \<Rightarrow> 'a call_base_scheme \<Rightarrow> 'a call_base_scheme" where
  "SetCallBeginTime v c = c\<lparr>m_callBeginTime := v\<rparr>"

definition SetCallCreateTime :: "int \<Rightarrow> 'a call_base_scheme \<Rightarrow> 'a call_base_scheme" where
  "SetCallCreateTime v c = c\<lparr>m_callCreateTime := v\<rparr>"

definition SetCallEndTime :: "int \<Rightarrow> 'a call_base_scheme \<Rightarrow> 'a call_base_scheme" where
  "SetCallEndTime v c = c\<lparr>m_callEndTime := v\<rparr>"

definition SetRingBeginTime :: "int \<Rightarrow> 'a call_base_scheme \<Rightarrow> 'a call_base_scheme" where
  "SetRingBeginTime v c = c\<lparr>m_ringBeginTime := v\<rparr>"

definition SetRingEndTime :: "int \<Rightarrow> 'a call_base_scheme \<Rightarrow> 'a call_base_scheme" where
  "SetRingEndTime v c = c\<lparr>m_ringEndTime := v\<rparr>"

definition SetAnswerType :: "CallAnswerType \<Rightarrow> 'a call_base_scheme \<Rightarrow> 'a call_base_scheme" where
  "SetAnswerType v c = c\<lparr>m_answerType := v\<rparr>"

definition SetRejectType :: "RejectType \<Rightarrow> 'a call_base_scheme \<Rightarrow> 'a call_base_scheme" where
  "SetRejectType v c = c\<lparr>m_rejectType := v\<rparr>"

definition SetCallId :: "int \<Rightarrow> 'a call_base_scheme \<Rightarrow> 'a call_base_scheme" where
  "SetCallId v c = c\<lparr>m_callId := v\<rparr>"

definition SetCeliaCallType :: "int \<Rightarrow> 'a call_base_scheme \<Rightarrow> 'a call_base_scheme" where
  "SetCeliaCallType v c = c\<lparr>m_celiaCallType := v\<rparr>"

definition SetAccountNumber :: "string \<Rightarrow> 'a call_base_scheme \<Rightarrow> 'a call_base_scheme" where
  "SetAccountNumber v c = c\<lparr>m_accountNumber := v\<rparr>"

definition SetAnsweredCall :: "bool \<Rightarrow> 'a call_base_scheme \<Rightarrow> 'a call_base_scheme" where
  "SetAnsweredCall v c = c\<lparr>m_isAnswered := v\<rparr>"

definition SetBundleName :: "string \<Rightarrow> 'a call_base_scheme \<Rightarrow> 'a call_base_scheme" where
  "SetBundleName v c = c\<lparr>m_bundleName := v\<rparr>"

definition SetCallType :: "CallType \<Rightarrow> 'a call_base_scheme \<Rightarrow> 'a call_base_scheme" where
  "SetCallType v c = c\<lparr>m_callType := v\<rparr>"

definition SetImsDomain :: "int \<Rightarrow> 'a call_base_scheme \<Rightarrow> 'a call_base_scheme" where
  "SetImsDomain v c = c\<lparr>m_imsDomain := v\<rparr>"

definition SetMicDisabled :: "bool \<Rightarrow> 'a call_base_scheme \<Rightarrow> 'a call_base_scheme" where
  "SetMicDisabled v c = c\<lparr>m_isMicDisabled := v\<rparr>"

definition SetCallDirection :: "CallDirection \<Rightarrow> 'a call_base_scheme \<Rightarrow> 'a call_base_scheme" where
  "SetCallDirection v c = c\<lparr>m_direction := v\<rparr>"

definition SetPhoneOrWatchDial :: "int \<Rightarrow> 'a call_base_scheme \<Rightarrow> 'a call_base_scheme" where
  "SetPhoneOrWatchDial v c = c\<lparr>m_phoneOrWatch := v\<rparr>"

definition SetIsCustomAccessibility :: "bool \<Rightarrow> 'a call_base_scheme \<Rightarrow> 'a call_base_scheme" where
  "SetIsCustomAccessibility v c = c\<lparr>m_isCustomAccessibility := v\<rparr>"

definition SetAiAutoAnswer :: "bool \<Rightarrow> 'a call_base_scheme \<Rightarrow> 'a call_base_scheme" where
  "SetAiAutoAnswer v c = c\<lparr>m_isAiAutoAnswer := v\<rparr>"

definition SetForcedReportVoiceCall :: "bool \<Rightarrow> 'a call_base_scheme \<Rightarrow> 'a call_base_scheme" where
  "SetForcedReportVoiceCall v c = c\<lparr>m_isForcedReportVoiceCall := v\<rparr>"

definition SetIsAnsweredByPhone :: "bool \<Rightarrow> 'a call_base_scheme \<Rightarrow> 'a call_base_scheme" where
  "SetIsAnsweredByPhone v c = c\<lparr>m_isAnsweredByPhone := v\<rparr>"

definition SetNewCallUseBox :: "int \<Rightarrow> 'a call_base_scheme \<Rightarrow> 'a call_base_scheme" where
  "SetNewCallUseBox v c = c\<lparr>m_newCallUseBox := v\<rparr>"

definition SetBtCallSlotId :: "int \<Rightarrow> 'a call_base_scheme \<Rightarrow> 'a call_base_scheme" where
  "SetBtCallSlotId v c = c\<lparr>m_btCallSlotId := v\<rparr>"

definition SetAntiFraudState :: "int \<Rightarrow> 'a call_base_scheme \<Rightarrow> 'a call_base_scheme" where
  "SetAntiFraudState v c = c\<lparr>m_antiFraudState := v\<rparr>"

definition SetNonVirtualCall :: "bool \<Rightarrow> 'a call_base_scheme \<Rightarrow> 'a call_base_scheme" where
  "SetNonVirtualCall v c = c\<lparr>m_isNonVirtualCall := v\<rparr>"

definition SetApCauseReported :: "bool \<Rightarrow> 'a call_base_scheme \<Rightarrow> 'a call_base_scheme" where
  "SetApCauseReported v c = c\<lparr>m_isApCauseReported := v\<rparr>"

definition SetSpeakerphoneOn ::
  "bool \<Rightarrow> 'a call_base_scheme \<Rightarrow> ErrCode \<times> 'a call_base_scheme" where
  "SetSpeakerphoneOn v c = (TELEPHONY_SUCCESS, c\<lparr>m_isSpeakerphoneOn := v\<rparr>)"

definition SetMicPhoneState ::
  "bool \<Rightarrow> 'a call_base_scheme \<Rightarrow> ErrCode \<times> 'a call_base_scheme" where
  "SetMicPhoneState v c = (TELEPHONY_SUCCESS, c\<lparr>m_isMuted := v\<rparr>)"

subsection \<open>Queries\<close>

definition GetParamsByKey :: "string \<Rightarrow> int \<Rightarrow> 'a call_base_scheme \<Rightarrow> int" where
  "GetParamsByKey key d c = m_extraParams c key d"

definition CheckVoicemailNumber :: "string \<Rightarrow> bool" where
  "CheckVoicemailNumber phoneNumber = False"

text \<open>The speaker can be used unless a Bluetooth headset is connected.\<close>

definition IsSpeakerphoneEnabled :: "bool \<Rightarrow> bool" where
  "IsSpeakerphoneEnabled isBtAvailble = (if isBtAvailble then False else True)"

lemmas setter_defs [cm_defs] =
  SetExtraParams_def SetAutoAnswerState_def SetAnswerVideoState_def SetCanUnHoldState_def
  SetCanSwitchCallState_def SetTelConferenceState_def SetVideoStateType_def SetCrsType_def
  SetOriginalCallType_def SetIsEccContact_def SetNumberLocation_def SetAccountId_def
  SetCallerInfo_def SetNumberMarkInfo_def SetBlockReason_def SetDetectDetails_def
  SetCallRunningState_def SetStartTime_def SetCallBeginTime_def SetCallCreateTime_def
  SetCallEndTime_def SetRingBeginTime_def SetRingEndTime_def SetAnswerType_def
  SetRejectType_def SetCallId_def SetCeliaCallType_def SetAccountNumber_def
  SetAnsweredCall_def SetBundleName_def SetCallType_def SetImsDomain_def
  SetMicDisabled_def SetCallDirection_def SetPhoneOrWatchDial_def
  SetIsCustomAccessibility_def SetAiAutoAnswer_def SetForcedReportVoiceCall_def
  SetIsAnsweredByPhone_def SetNewCallUseBox_def SetBtCallSlotId_def SetAntiFraudState_def
  SetNonVirtualCall_def SetApCauseReported_def SetSpeakerphoneOn_def SetMicPhoneState_def

subsection \<open>What the setters leave alone\<close>

lemma setter_view [simp, cm_frame]:
  "view (SetExtraParams v_extraParams c) = view c"
  "view (SetAutoAnswerState v_autoAnswerState c) = view c"
  "view (SetAnswerVideoState v_answerVideoState c) = view c"
  "view (SetCanUnHoldState v_canUnHoldState c) = view c"
  "view (SetCanSwitchCallState v_canSwitchCallState c) = view c"
  "view (SetTelConferenceState v_conferenceState c) = view c"
  "view (SetVideoStateType v_videoState c) = view c"
  "view (SetCrsType v_crsType c) = view c"
  "view (SetOriginalCallType v_originalCallType c) = view c"
  "view (SetIsEccContact v_isEccContact c) = view c"
  "view (SetNumberLocation v_numberLocation c) = view c"
  "view (SetAccountId v_accountId c) = view c"
  "view (SetCallerInfo v_contactInfo c) = view c"
  "view (SetNumberMarkInfo v_numberMarkInfo c) = view c"
  "view (SetBlockReason v_blockReason c) = view c"
  "view (SetDetectDetails v_detectDetails c) = view c"
  "view (SetStartTime v_startTime c) = view c"
  "view (SetCallBeginTime v_callBeginTime c) = view c"
  "view (SetCallCreateTime v_callCreateTime c) = view c"
  "view (SetCallEndTime v_callEndTime c) = view c"
  "view (SetRingBeginTime v_ringBeginTime c) = view c"
  "view (SetRingEndTime v_ringEndTime c) = view c"
  "view (SetAnswerType v_answerType c) = view c"
  "view (SetRejectType v_rejectType c) = view c"
  "view (SetCallId v_callId c) = view c"
  "view (SetCeliaCallType v_celiaCallType c) = view c"
  "view (SetAccountNumber v_accountNumber c) = view c"
  "view (SetAnsweredCall v_isAnswered c) = view c"
  "view (SetBundleName v_bundleName c) = view c"
  "view (SetCallType v_callType c) = view c"
  "view (SetImsDomain v_imsDomain c) = view c"
  "view (SetMicDisabled v_isMicDisabled c) = view c"
  "view (SetCallDirection v_direction c) = view c"
  "view (SetPhoneOrWatchDial v_phoneOrWatch c) = view c"
  "view (SetIsCustomAccessibility v_isCustomAccessibility c) = view c"
  "view (SetAiAutoAnswer v_isAiAutoAnswer c) = view c"
  "view (SetForcedReportVoiceCall v_isForcedReportVoiceCall c) = view c"
  "view (SetIsAnsweredByPhone v_isAnsweredByPhone c) = view c"
  "view (SetNewCallUseBox v_newCallUseBox c) = view c"
  "view (SetBtCallSlotId v_btCallSlotId c) = view c"
  "view (SetAntiFraudState v_antiFraudState c) = view c"
  "view (SetNonVirtualCall v_isNonVirtualCall c) = view c"
  "view (SetApCauseReported v_isApCauseReported c) = view c"
  "view (snd (SetSpeakerphoneOn b c)) = view c"
  "view (snd (SetMicPhoneState b c)) = view c"
  by (simp_all add: view_def setter_defs)

text \<open>
  Setting an attribute between two reports changes nothing about how the state evolves.
\<close>

lemma setters_between_reports:
  "view (report (SetTelConferenceState s c) e) = view_step (view c) (snd e)"
  "view (report (SetVideoStateType m c) e) = view_step (view c) (snd e)"
  "view (report (SetAnswerType a c) e) = view_step (view c) (snd e)"
  "view (report (SetRejectType r c) e) = view_step (view c) (snd e)"
  by (simp_all add: report_refines_view_step)

subsection \<open>Properties\<close>

text \<open>
  The answer type a rejection records is decided by the reject type set before it: a
  call rejected as missed stays a missed call, any other becomes a rejected one; and the
  rejection changes nothing else, so the state still waits for the modem's report.
\<close>

lemma reject_records_reason:
  "m_answerType (snd (RejectCallBase (SetRejectType r c))) =
     (if r = CALL_REJECT_MISSED_CALL then CALL_ANSWER_MISSED else CALL_ANSWER_REJECT) \<and>
   (snd (RejectCallBase (SetRejectType r c)))\<lparr>m_answerType := m_answerType c\<rparr> = SetRejectType r c \<and>
   view (snd (RejectCallBase (SetRejectType r c))) = view c"
  by (simp add: RejectCallBase_def SetRejectType_def view_def)

end
