(* ===== verification/Conference.thy ===== *)
theory Conference
  imports Call_Types
begin

text \<open>
  Conferences (\<^verbatim>\<open>services/call/src/conference_base.cpp\<close>, \<^verbatim>\<open>cs_conference.cpp\<close>,
  \<^verbatim>\<open>ims_conference.cpp\<close>, \<^verbatim>\<open>ott_conference.cpp\<close>).  Each technology has one
  conference object: its host call, its state, the state it returns to, and the set of
  its member calls.  The operations of the three classes are translated one by one; the
  interface the call classes rely on is the locale \<^verbatim>\<open>conference_ops\<close>, interpreted
  for each of them.
\<close>

subsection \<open>State\<close>

datatype ConferenceState =
    CONFERENCE_STATE_IDLE | CONFERENCE_STATE_CREATING | CONFERENCE_STATE_HOLDING
  | CONFERENCE_STATE_ACTIVE | CONFERENCE_STATE_LEAVING

record conference =
  cf_mainCallId :: int
  cf_state :: ConferenceState
  cf_oldState :: ConferenceState
  cf_subCallIdSet :: "int set"
  cf_beginTime :: int
  cf_conferenceType :: CallType
  cf_maxSubCallLimits :: nat

definition CS_CONFERENCE_MAX_CALLS_CNT :: nat where "CS_CONFERENCE_MAX_CALLS_CNT = 5"

definition ConferenceBase :: conference where
  "ConferenceBase = \<lparr>cf_mainCallId = ERR_ID, cf_state = CONFERENCE_STATE_IDLE,
     cf_oldState = CONFERENCE_STATE_IDLE, cf_subCallIdSet = {}, cf_beginTime = 0,
     cf_conferenceType = TYPE_CS, cf_maxSubCallLimits = 0\<rparr>"

definition CsConference :: conference where
  "CsConference = ConferenceBase\<lparr>cf_conferenceType := TYPE_CS,
     cf_maxSubCallLimits := CS_CONFERENCE_MAX_CALLS_CNT\<rparr>"

definition ImsConference :: conference where
  "ImsConference = ConferenceBase\<lparr>cf_conferenceType := TYPE_IMS,
     cf_maxSubCallLimits := CS_CONFERENCE_MAX_CALLS_CNT\<rparr>"

definition OttConference :: conference where
  "OttConference = ConferenceBase\<lparr>cf_conferenceType := TYPE_IMS,
     cf_maxSubCallLimits := CS_CONFERENCE_MAX_CALLS_CNT\<rparr>"

lemmas conference_inits = ConferenceBase_def CsConference_def ImsConference_def
  OttConference_def CS_CONFERENCE_MAX_CALLS_CNT_def

subsection \<open>The base class\<close>

definition SetMainCall :: "int \<Rightarrow> conference \<Rightarrow> ErrCode \<times> conference" where
  "SetMainCall callId f =
     (if callId < ERR_ID then (CALL_ERR_INVALID_CALLID, f)
      else (TELEPHONY_SUCCESS, f\<lparr>cf_mainCallId := callId\<rparr>))"

definition SetConferenceState :: "ConferenceState \<Rightarrow> conference \<Rightarrow> conference" where
  "SetConferenceState s f = f\<lparr>cf_state := s\<rparr>"

definition SetOldConferenceState :: "ConferenceState \<Rightarrow> conference \<Rightarrow> conference" where
  "SetOldConferenceState s f = f\<lparr>cf_oldState := s\<rparr>"

text \<open>The member list in the order of the set's iterator, as decimal strings.\<close>

definition member_strings :: "conference \<Rightarrow> string list" where
  "member_strings f = map to_string (sorted_list_of_set (cf_subCallIdSet f))"

definition GetSubCallIdList :: "int \<Rightarrow> conference \<Rightarrow> ErrCode \<times> string list" where
  "GetSubCallIdList callId f =
     (if callId \<notin> cf_subCallIdSet f then (CALL_ERR_THE_CALL_IS_NOT_IN_THE_CONFERENCE, [])
      else (TELEPHONY_SUCCESS, member_strings f))"

definition GetCallIdListForConference :: "int \<Rightarrow> conference \<Rightarrow> ErrCode \<times> string list" where
  "GetCallIdListForConference callId f =
     (if callId \<notin> cf_subCallIdSet f \<and> cf_mainCallId f \<noteq> callId
      then (CALL_ERR_THE_CALL_IS_NOT_IN_THE_CONFERENCE, [])
      else (TELEPHONY_SUCCESS, member_strings f @ [to_string (cf_mainCallId f)]))"

subsection \<open>CS conferences\<close>

text \<open>The reset all three classes write out when the last member is gone.\<close>

definition reset_conference :: "conference \<Rightarrow> conference" where
  "reset_conference f = f\<lparr>cf_mainCallId := ERR_ID, cf_state := CONFERENCE_STATE_IDLE,
     cf_oldState := CONFERENCE_STATE_IDLE, cf_beginTime := 0\<rparr>"

definition CsConference_JoinToConference ::
  "int \<Rightarrow> int \<Rightarrow> conference \<Rightarrow> ErrCode \<times> conference" where
  "CsConference_JoinToConference time callId f =
     (if cf_state f \<noteq> CONFERENCE_STATE_CREATING \<and> cf_state f \<noteq> CONFERENCE_STATE_ACTIVE \<and>
         cf_state f \<noteq> CONFERENCE_STATE_LEAVING \<and> cf_state f \<noteq> CONFERENCE_STATE_HOLDING
      then (CALL_ERR_ILLEGAL_CALL_OPERATION, f)
      else (TELEPHONY_SUCCESS,
        f\<lparr>cf_subCallIdSet := insert callId (cf_subCallIdSet f), cf_state := CONFERENCE_STATE_ACTIVE,
          cf_oldState := CONFERENCE_STATE_ACTIVE, cf_beginTime := time\<rparr>))"

text \<open>
  When the host leaves, the first remaining member becomes the host:
  \<^verbatim>\<open>*subCallIdSet_.begin()\<close>, which is undefined behaviour (None) when nobody remains.
\<close>

definition CsConference_LeaveFromConference ::
  "int \<Rightarrow> conference \<Rightarrow> (ErrCode \<times> conference) option" where
  "CsConference_LeaveFromConference callId f =
     (if callId \<in> cf_subCallIdSet f then
        let f = f\<lparr>cf_subCallIdSet := cf_subCallIdSet f - {callId}\<rparr> in
        case (if cf_mainCallId f = callId
              then map_option (\<lambda>m. f\<lparr>cf_mainCallId := m\<rparr>) (begin_elem (cf_subCallIdSet f))
              else Some f) of
          None \<Rightarrow> None
        | Some f \<Rightarrow>
            Some (TELEPHONY_SUCCESS,
                  if cf_subCallIdSet f = {} then reset_conference f else f)
      else Some (CALL_ERR_CONFERENCE_SEPERATE_FAILED, f))"

definition CsConference_HoldConference :: "int \<Rightarrow> conference \<Rightarrow> ErrCode \<times> conference" where
  "CsConference_HoldConference callId f =
     (if cf_state f = CONFERENCE_STATE_HOLDING then (TELEPHONY_SUCCESS, f)
      else if callId \<notin> cf_subCallIdSet f then (CALL_ERR_CONFERENCE_SEPERATE_FAILED, f)
      else if cf_subCallIdSet f = {}
      then (CALL_ERR_CONFERENCE_SEPERATE_FAILED, reset_conference f)
      else (TELEPHONY_SUCCESS,
        f\<lparr>cf_state := CONFERENCE_STATE_HOLDING, cf_oldState := CONFERENCE_STATE_HOLDING\<rparr>))"

definition CsConference_CanCombineConference :: "conference \<Rightarrow> ErrCode" where
  "CsConference_CanCombineConference f =
     (if card (cf_subCallIdSet f) \<ge> cf_maxSubCallLimits f
      then CALL_ERR_CONFERENCE_CALL_EXCEED_LIMIT else TELEPHONY_SUCCESS)"

definition CsConference_CanSeparateConference :: "conference \<Rightarrow> ErrCode" where
  "CsConference_CanSeparateConference f =
     (if cf_subCallIdSet f = {} then CALL_ERR_CONFERENCE_NOT_EXISTS
      else if cf_state f \<noteq> CONFERENCE_STATE_ACTIVE then CALL_ERR_CONFERENCE_CALL_IS_NOT_ACTIVE
      else TELEPHONY_SUCCESS)"

definition CsConference_CanKickOutFromConference :: "conference \<Rightarrow> ErrCode" where
  "CsConference_CanKickOutFromConference f =
     (if cf_subCallIdSet f = {} then CALL_ERR_CONFERENCE_NOT_EXISTS else TELEPHONY_SUCCESS)"

definition CsConference_UpdateConferenceId :: "int \<Rightarrow> conference \<Rightarrow> conference" where
  "CsConference_UpdateConferenceId callId f =
     (let f = (if callId \<notin> cf_subCallIdSet f
               then f\<lparr>cf_subCallIdSet := insert callId (cf_subCallIdSet f)\<rparr> else f)
      in if cf_mainCallId f = ERR_ID then f\<lparr>cf_mainCallId := callId\<rparr> else f)"

subsection \<open>IMS conferences\<close>

definition ImsConference_JoinToConference ::
  "int \<Rightarrow> int \<Rightarrow> conference \<Rightarrow> ErrCode \<times> conference" where
  "ImsConference_JoinToConference time callId f =
     (if cf_state f \<noteq> CONFERENCE_STATE_CREATING \<and> cf_state f \<noteq> CONFERENCE_STATE_ACTIVE \<and>
         cf_state f \<noteq> CONFERENCE_STATE_LEAVING \<and> cf_state f \<noteq> CONFERENCE_STATE_HOLDING
      then (CALL_ERR_ILLEGAL_CALL_OPERATION, f)
      else (TELEPHONY_SUCCESS,
        f\<lparr>cf_subCallIdSet := insert callId (cf_subCallIdSet f), cf_state := CONFERENCE_STATE_ACTIVE,
          cf_oldState := CONFERENCE_STATE_ACTIVE, cf_beginTime := time\<rparr>))"

definition ImsConference_LeaveFromConference ::
  "int \<Rightarrow> conference \<Rightarrow> (ErrCode \<times> conference) option" where
  "ImsConference_LeaveFromConference callId f =
     (if callId \<in> cf_subCallIdSet f then
        let f = f\<lparr>cf_subCallIdSet := cf_subCallIdSet f - {callId}\<rparr> in
        case (if cf_mainCallId f = callId
              then map_option (\<lambda>m. f\<lparr>cf_mainCallId := m\<rparr>) (begin_elem (cf_subCallIdSet f))
              else Some f) of
          None \<Rightarrow> None
        | Some f \<Rightarrow>
            Some (TELEPHONY_SUCCESS,
                  if cf_subCallIdSet f = {} then reset_conference f else f)
      else Some (CALL_ERR_CONFERENCE_SEPERATE_FAILED, f))"

definition ImsConference_HoldConference :: "int \<Rightarrow> conference \<Rightarrow> ErrCode \<times> conference" where
  "ImsConference_HoldConference callId f =
     (if cf_state f = CONFERENCE_STATE_HOLDING then (TELEPHONY_SUCCESS, f)
      else if callId \<notin> cf_subCallIdSet f then (CALL_ERR_CONFERENCE_SEPERATE_FAILED, f)
      else if cf_subCallIdSet f = {}
      then (CALL_ERR_CONFERENCE_SEPERATE_FAILED, reset_conference f)
      else (TELEPHONY_SUCCESS,
        f\<lparr>cf_state := CONFERENCE_STATE_HOLDING, cf_oldState := CONFERENCE_STATE_HOLDING\<rparr>))"

definition ImsConference_CanCombineConference :: "conference \<Rightarrow> ErrCode" where
  "ImsConference_CanCombineConference f =
     (if card (cf_subCallIdSet f) \<ge> cf_maxSubCallLimits f
      then CALL_ERR_CONFERENCE_CALL_EXCEED_LIMIT else TELEPHONY_SUCCESS)"

definition ImsConference_CanSeparateConference :: "conference \<Rightarrow> ErrCode" where
  "ImsConference_CanSeparateConference f =
     (if cf_subCallIdSet f = {} then CALL_ERR_CONFERENCE_NOT_EXISTS
      else if cf_state f \<noteq> CONFERENCE_STATE_ACTIVE then CALL_ERR_CONFERENCE_CALL_IS_NOT_ACTIVE
      else TELEPHONY_SUCCESS)"

definition ImsConference_CanKickOutFromConference :: "conference \<Rightarrow> ErrCode" where
  "ImsConference_CanKickOutFromConference f =
     (if cf_subCallIdSet f = {} then CALL_ERR_CONFERENCE_NOT_EXISTS else TELEPHONY_SUCCESS)"

subsection \<open>OTT conferences\<close>

text \<open>
  The OTT class differs: a held conference cannot be joined, leaving is guarded against
  the empty set, and holding removes the call from the conference.
\<close>

definition OttConference_JoinToConference ::
  "int \<Rightarrow> int \<Rightarrow> conference \<Rightarrow> ErrCode \<times> conference" where
  "OttConference_JoinToConference time callId f =
     (if cf_state f \<noteq> CONFERENCE_STATE_CREATING \<and> cf_state f \<noteq> CONFERENCE_STATE_ACTIVE \<and>
         cf_state f \<noteq> CONFERENCE_STATE_LEAVING
      then (CALL_ERR_ILLEGAL_CALL_OPERATION, f)
      else (TELEPHONY_SUCCESS,
        f\<lparr>cf_subCallIdSet := insert callId (cf_subCallIdSet f), cf_state := CONFERENCE_STATE_ACTIVE,
          cf_oldState := CONFERENCE_STATE_ACTIVE, cf_beginTime := time\<rparr>))"

definition OttConference_LeaveFromConference ::
  "int \<Rightarrow> conference \<Rightarrow> (ErrCode \<times> conference) option" where
  "OttConference_LeaveFromConference callId f =
     (if callId \<in> cf_subCallIdSet f then
        let f = f\<lparr>cf_subCallIdSet := cf_subCallIdSet f - {callId}\<rparr> in
        case (if cf_mainCallId f = callId \<and> cf_subCallIdSet f \<noteq> {}
              then map_option (\<lambda>m. f\<lparr>cf_mainCallId := m\<rparr>) (begin_elem (cf_subCallIdSet f))
              else Some f) of
          None \<Rightarrow> None
        | Some f \<Rightarrow>
            Some (TELEPHONY_SUCCESS,
                  if cf_subCallIdSet f = {} then reset_conference f else f)
      else Some (CALL_ERR_CONFERENCE_SEPERATE_FAILED, f))"

definition OttConference_HoldConference :: "int \<Rightarrow> conference \<Rightarrow> ErrCode \<times> conference" where
  "OttConference_HoldConference callId f =
     (if cf_state f = CONFERENCE_STATE_HOLDING then (TELEPHONY_SUCCESS, f)
      else if callId \<in> cf_subCallIdSet f then
        let f = f\<lparr>cf_subCallIdSet := cf_subCallIdSet f - {callId}\<rparr>;
            f = (if cf_subCallIdSet f = {} then reset_conference f else f)
        in (TELEPHONY_SUCCESS,
            f\<lparr>cf_state := CONFERENCE_STATE_HOLDING, cf_oldState := CONFERENCE_STATE_HOLDING\<rparr>)
      else (CALL_ERR_CONFERENCE_SEPERATE_FAILED, f))"

definition OttConference_CanCombineConference :: "conference \<Rightarrow> ErrCode" where
  "OttConference_CanCombineConference f =
     (if card (cf_subCallIdSet f) \<ge> cf_maxSubCallLimits f
      then CALL_ERR_CONFERENCE_CALL_EXCEED_LIMIT else TELEPHONY_SUCCESS)"

definition OttConference_CanSeparateConference :: "conference \<Rightarrow> ErrCode" where
  "OttConference_CanSeparateConference f =
     (if cf_subCallIdSet f = {} then CALL_ERR_CONFERENCE_NOT_EXISTS
      else if cf_state f \<noteq> CONFERENCE_STATE_ACTIVE then CALL_ERR_CONFERENCE_CALL_IS_NOT_ACTIVE
      else TELEPHONY_SUCCESS)"

definition OttConference_CanKickOutFromConference :: "conference \<Rightarrow> ErrCode" where
  "OttConference_CanKickOutFromConference f =
     (if cf_subCallIdSet f = {} then CALL_ERR_CONFERENCE_NOT_EXISTS else TELEPHONY_SUCCESS)"

lemmas join_defs [cm_defs] = CsConference_JoinToConference_def
  ImsConference_JoinToConference_def OttConference_JoinToConference_def

lemmas leave_defs [cm_defs] = CsConference_LeaveFromConference_def
  ImsConference_LeaveFromConference_def OttConference_LeaveFromConference_def
  reset_conference_def

lemmas hold_defs [cm_defs] = CsConference_HoldConference_def ImsConference_HoldConference_def
  OttConference_HoldConference_def reset_conference_def

subsection \<open>The interface of a conference\<close>

text \<open>
  What the call classes rely on: joining adds the call and activates the conference or
  changes nothing, leaving removes exactly the call or changes nothing.
\<close>

locale conference_ops =
  fixes join :: "int \<Rightarrow> int \<Rightarrow> conference \<Rightarrow> ErrCode \<times> conference"
    and leave :: "int \<Rightarrow> conference \<Rightarrow> (ErrCode \<times> conference) option"
  assumes join_ok: "join t i f = (TELEPHONY_SUCCESS, f') \<Longrightarrow>
            cf_subCallIdSet f' = insert i (cf_subCallIdSet f) \<and>
            cf_state f' = CONFERENCE_STATE_ACTIVE \<and> cf_mainCallId f' = cf_mainCallId f"
    and join_active: "cf_state f = CONFERENCE_STATE_ACTIVE \<Longrightarrow> fst (join t i f) = TELEPHONY_SUCCESS"
    and join_failed: "fst (join t i f) \<noteq> TELEPHONY_SUCCESS \<Longrightarrow> snd (join t i f) = f"
    and leave_member: "leave i f = Some (r, f') \<Longrightarrow> i \<in> cf_subCallIdSet f \<Longrightarrow>
            r = TELEPHONY_SUCCESS \<and> cf_subCallIdSet f' = cf_subCallIdSet f - {i}"
    and leave_stranger: "i \<notin> cf_subCallIdSet f \<Longrightarrow>
            leave i f = Some (CALL_ERR_CONFERENCE_SEPERATE_FAILED, f)"
    and leave_defined: "cf_subCallIdSet f - {i} \<noteq> {} \<Longrightarrow> leave i f \<noteq> None"
    and leave_keeps_active: "leave i f = Some (r, f') \<Longrightarrow> cf_subCallIdSet f' \<noteq> {} \<Longrightarrow>
            cf_state f' = cf_state f"
begin

fun join_all :: "int \<Rightarrow> int list \<Rightarrow> conference \<Rightarrow> conference" where
  "join_all t [] f = f"
| "join_all t (i # is) f = join_all t is (snd (join t i f))"

lemma join_members:
  assumes "fst (join t i f) = TELEPHONY_SUCCESS"
  shows "cf_subCallIdSet (snd (join t i f)) = insert i (cf_subCallIdSet f)"
    and "cf_state (snd (join t i f)) = CONFERENCE_STATE_ACTIVE"
  using assms join_ok [of t i f "snd (join t i f)"] by (metis prod.collapse)+

lemma join_members_finite:
  "finite (cf_subCallIdSet f) \<Longrightarrow> finite (cf_subCallIdSet (snd (join t i f)))"
  by (metis join_members(1) join_failed finite_insert)

lemma leave_members_finite:
  "leave i f = Some (r, f') \<Longrightarrow> finite (cf_subCallIdSet f) \<Longrightarrow> finite (cf_subCallIdSet f')"
  by (metis leave_member leave_stranger finite_Diff option.inject prod.inject)

lemma join_all_active:
  "cf_state f = CONFERENCE_STATE_ACTIVE \<Longrightarrow>
   cf_subCallIdSet (join_all t is f) = set is \<union> cf_subCallIdSet f \<and>
   cf_state (join_all t is f) = CONFERENCE_STATE_ACTIVE"
proof (induction "is" arbitrary: f)
  case Nil
  then show ?case by simp
next
  case (Cons i "is")
  have "fst (join t i f) = TELEPHONY_SUCCESS" using Cons.prems by (rule join_active)
  note join_members [OF this]
  with Cons.IH [of "snd (join t i f)"] show ?case by auto
qed

text \<open>A conference that was joined by a list of calls lets each of them leave again.\<close>

lemma join_leave:
  assumes "fst (join t i f) = TELEPHONY_SUCCESS" and "i \<notin> cf_subCallIdSet f"
    and "cf_subCallIdSet f \<noteq> {}"
  shows "\<exists>f'. leave i (snd (join t i f)) = Some (TELEPHONY_SUCCESS, f') \<and>
              cf_subCallIdSet f' = cf_subCallIdSet f \<and> cf_state f' = CONFERENCE_STATE_ACTIVE"
proof -
  let ?g = "snd (join t i f)"
  note g = join_members [OF assms(1)]
  from g assms(2,3) have "cf_subCallIdSet ?g - {i} \<noteq> {}" by auto
  then obtain r f' where l: "leave i ?g = Some (r, f')" using leave_defined by fastforce
  from leave_member [OF l] g assms(2) have m: "r = TELEPHONY_SUCCESS" "cf_subCallIdSet f' = cf_subCallIdSet f"
    by auto
  from leave_keeps_active [OF l] m(2) assms(3) g(2) have "cf_state f' = CONFERENCE_STATE_ACTIVE"
    by simp
  with l m show ?thesis by auto
qed

end

text \<open>
  CS and IMS conferences keep their members while held, and a held conference can be
  joined again.
\<close>

locale holding_conference = conference_ops +
  fixes hold :: "int \<Rightarrow> conference \<Rightarrow> ErrCode \<times> conference"
  assumes hold_members: "cf_subCallIdSet (snd (hold i f)) = cf_subCallIdSet f"
    and hold_member: "i \<in> cf_subCallIdSet f \<Longrightarrow>
          fst (hold i f) = TELEPHONY_SUCCESS \<and> cf_state (snd (hold i f)) = CONFERENCE_STATE_HOLDING"
    and hold_main: "cf_mainCallId (snd (hold i f)) = cf_mainCallId f"
    and join_held: "cf_state f = CONFERENCE_STATE_HOLDING \<Longrightarrow> fst (join t i f) = TELEPHONY_SUCCESS"
begin

lemma hold_join:
  assumes "i \<in> cf_subCallIdSet f"
  shows "fst (join t j (snd (hold i f))) = TELEPHONY_SUCCESS \<and>
         cf_subCallIdSet (snd (join t j (snd (hold i f)))) = insert j (cf_subCallIdSet f)"
  using join_held [of "snd (hold i f)" t j] hold_member [OF assms] join_members(1) hold_members
  by metis

lemma hold_leave:
  assumes "i \<in> cf_subCallIdSet f" and "cf_subCallIdSet f - {i} \<noteq> {}"
  shows "\<exists>f'. leave i (snd (hold i f)) = Some (TELEPHONY_SUCCESS, f') \<and>
              cf_subCallIdSet f' = cf_subCallIdSet f - {i}"
proof -
  have "cf_subCallIdSet (snd (hold i f)) - {i} \<noteq> {}" using assms(2) by (simp add: hold_members)
  then obtain r f' where l: "leave i (snd (hold i f)) = Some (r, f')"
    using leave_defined by fastforce
  from leave_member [OF l] assms(1) l show ?thesis by (simp add: hold_members)
qed

end

interpretation cs_conf: holding_conference
  CsConference_JoinToConference CsConference_LeaveFromConference CsConference_HoldConference
  by unfold_locales
     (auto simp: join_defs leave_defs hold_defs Let_def split: if_splits option.splits)

interpretation ims_conf: holding_conference
  ImsConference_JoinToConference ImsConference_LeaveFromConference ImsConference_HoldConference
  by unfold_locales
     (auto simp: join_defs leave_defs hold_defs Let_def split: if_splits option.splits)

interpretation ott_conf: conference_ops
  OttConference_JoinToConference OttConference_LeaveFromConference
  by unfold_locales
     (auto simp: join_defs leave_defs Let_def split: if_splits option.splits)

text \<open>The CS and the IMS class have the same code.\<close>

lemma cs_ims_same_code:
  "ImsConference_JoinToConference = CsConference_JoinToConference"
  "ImsConference_LeaveFromConference = CsConference_LeaveFromConference"
  "ImsConference_HoldConference = CsConference_HoldConference"
  "ImsConference_CanCombineConference = CsConference_CanCombineConference"
  "ImsConference_CanSeparateConference = CsConference_CanSeparateConference"
  "ImsConference_CanKickOutFromConference = CsConference_CanKickOutFromConference"
  by (intro ext; simp add: join_defs leave_defs hold_defs
      CsConference_CanCombineConference_def ImsConference_CanCombineConference_def
      CsConference_CanSeparateConference_def ImsConference_CanSeparateConference_def
      CsConference_CanKickOutFromConference_def ImsConference_CanKickOutFromConference_def)+

subsection \<open>Reachable IMS conferences\<close>

text \<open>
  One call of an operation on the IMS conference object.  The state it returns to is
  written by the operations only: nothing in the service calls SetOldConferenceState.
\<close>

inductive ims_step :: "conference \<Rightarrow> conference \<Rightarrow> bool" where
  step_join: "ims_step f (snd (ImsConference_JoinToConference t i f))"
| step_leave: "ImsConference_LeaveFromConference i f = Some (r, f') \<Longrightarrow> ims_step f f'"
| step_hold: "ims_step f (snd (ImsConference_HoldConference i f))"
| step_main: "ims_step f (snd (SetMainCall i f))"
| step_state: "ims_step f (SetConferenceState s f)"

inductive ims_reachable :: "conference \<Rightarrow> bool" where
  reach_init: "ims_reachable ImsConference"
| reach_step: "ims_reachable f \<Longrightarrow> ims_step f f' \<Longrightarrow> ims_reachable f'"

inductive_cases ims_stepE: "ims_step f f'"

definition conference_inv :: "conference \<Rightarrow> bool" where
  "conference_inv f \<longleftrightarrow>
     finite (cf_subCallIdSet f) \<and> cf_maxSubCallLimits f = CS_CONFERENCE_MAX_CALLS_CNT \<and>
     (cf_oldState f = CONFERENCE_STATE_IDLE \<longleftrightarrow> cf_subCallIdSet f = {}) \<and>
     (cf_subCallIdSet f = {} \<longrightarrow> cf_beginTime f = 0)"

lemma join_inv [cm_inv]:
  "conference_inv f \<Longrightarrow> conference_inv (snd (ImsConference_JoinToConference t i f))"
  by (auto simp: conference_inv_def join_defs)

lemma leave_inv [cm_inv]:
  "conference_inv f \<Longrightarrow> ImsConference_LeaveFromConference i f = Some (r, f') \<Longrightarrow> conference_inv f'"
  by (auto simp: conference_inv_def leave_defs Let_def split: if_splits option.splits)

lemma hold_inv [cm_inv]:
  "conference_inv f \<Longrightarrow> conference_inv (snd (ImsConference_HoldConference i f))"
  by (auto simp: conference_inv_def hold_defs)

lemma main_inv [cm_inv]: "conference_inv f \<Longrightarrow> conference_inv (snd (SetMainCall i f))"
  by (simp add: conference_inv_def SetMainCall_def)

lemma state_inv [cm_inv]: "conference_inv f \<Longrightarrow> conference_inv (SetConferenceState s f)"
  by (simp add: conference_inv_def SetConferenceState_def)

lemma ims_step_inv: "ims_step f f' \<Longrightarrow> conference_inv f \<Longrightarrow> conference_inv f'"
  by (erule ims_stepE) (auto intro: cm_inv)

lemma ims_reachable_conference_inv: "ims_reachable f \<Longrightarrow> conference_inv f"
proof (induction rule: ims_reachable.induct)
  case reach_init
  show ?case by (simp add: conference_inv_def conference_inits)
next
  case (reach_step f f')
  then show ?case by (blast intro: ims_step_inv)
qed

subsection \<open>Properties\<close>

text \<open>Two sample conferences: calls 1 and 2 in an active one, call 1 alone in the other.\<close>

definition sample_conference :: conference where
  "sample_conference = CsConference\<lparr>cf_mainCallId := 1, cf_state := CONFERENCE_STATE_ACTIVE,
     cf_oldState := CONFERENCE_STATE_ACTIVE, cf_subCallIdSet := {1, 2}, cf_beginTime := 50\<rparr>"

definition lonely_conference :: conference where
  "lonely_conference = sample_conference\<lparr>cf_subCallIdSet := {1}\<rparr>"

lemmas sample_conference_defs = sample_conference_def lonely_conference_def conference_inits

text \<open>
  In every state the IMS conference object can reach by its own operations, the
  saved state is IDLE exactly when the conference has no members, an empty conference
  has begin time zero, the member set is finite and the limit is five.  The saved state
  is what a failed merge is rolled back to, so a rollback never leaves an empty
  conference in a joinable state nor members in an idle one.
\<close>

theorem ims_saved_state_tracks_members:
  assumes "ims_reachable f"
  shows "(cf_oldState f = CONFERENCE_STATE_IDLE \<longleftrightarrow> cf_subCallIdSet f = {}) \<and>
         (cf_subCallIdSet f = {} \<longrightarrow> cf_beginTime f = 0) \<and>
         finite (cf_subCallIdSet f) \<and> cf_maxSubCallLimits f = 5"
  using ims_reachable_conference_inv [OF assms]
  by (simp add: conference_inv_def CS_CONFERENCE_MAX_CALLS_CNT_def)

theorem ims_saved_state_tracks_members_witness:
  "\<exists>f. ims_reachable f \<and> cf_subCallIdSet f = {3} \<and> cf_oldState f \<noteq> CONFERENCE_STATE_IDLE"
proof -
  let ?f = "snd (ImsConference_JoinToConference 10 3
              (SetConferenceState CONFERENCE_STATE_CREATING ImsConference))"
  have r: "ims_reachable ?f"
    by (rule reach_step [OF reach_step [OF reach_init step_state] step_join])
  have "cf_subCallIdSet ?f = {3}"
    by (simp add: join_defs SetConferenceState_def conference_inits)
  with ims_saved_state_tracks_members [OF r] r show ?thesis by auto
qed

text \<open>
  A call that joins a CS conference with other members can leave it again: the
  leave is defined, succeeds, restores the member set exactly, and the conference stays
  active.  (The same holds for IMS and OTT by the shared interface.)
\<close>

theorem cs_join_leave_roundtrip:
  assumes "fst (CsConference_JoinToConference t i f) = TELEPHONY_SUCCESS"
    and "i \<notin> cf_subCallIdSet f" and "cf_subCallIdSet f \<noteq> {}"
  shows "\<exists>f'. CsConference_LeaveFromConference i (snd (CsConference_JoinToConference t i f)) =
                Some (TELEPHONY_SUCCESS, f') \<and>
              cf_subCallIdSet f' = cf_subCallIdSet f \<and> cf_state f' = CONFERENCE_STATE_ACTIVE"
  using assms by (rule cs_conf.join_leave)

theorem cs_join_leave_roundtrip_witness:
  "\<exists>f'. CsConference_LeaveFromConference 7
          (snd (CsConference_JoinToConference 60 7 sample_conference)) = Some (TELEPHONY_SUCCESS, f') \<and>
        cf_subCallIdSet f' = cf_subCallIdSet sample_conference \<and>
        cf_state f' = CONFERENCE_STATE_ACTIVE"
  by (rule cs_join_leave_roundtrip) (simp_all add: join_defs sample_conference_defs)

text \<open>
  Leaving a CS or IMS conference is undefined behaviour in exactly one situation: the
  call is the host and the only member, because the code reads the first element of the
  member set before it tests whether the set became empty.  The OTT class never does.
\<close>

theorem leave_undefined_iff_last_host:
  "(CsConference_LeaveFromConference i f = None \<longleftrightarrow>
      cf_subCallIdSet f = {i} \<and> cf_mainCallId f = i) \<and>
   (ImsConference_LeaveFromConference i f = None \<longleftrightarrow>
      cf_subCallIdSet f = {i} \<and> cf_mainCallId f = i) \<and>
   OttConference_LeaveFromConference i f \<noteq> None"
  by (auto simp: leave_defs begin_elem_def Let_def split: if_splits option.splits)

text \<open>
  When the host of a CS conference leaves and others remain, the remaining member
  with the smallest call id becomes the host; a member that is not the host leaves the
  host in place.
\<close>

theorem cs_host_succession:
  assumes "CsConference_LeaveFromConference i f = Some (TELEPHONY_SUCCESS, f')"
    and "finite (cf_subCallIdSet f)" and "cf_subCallIdSet f \<noteq> {i}"
  shows "cf_mainCallId f' =
           (if cf_mainCallId f = i then Min (cf_subCallIdSet f - {i}) else cf_mainCallId f) \<and>
         (cf_mainCallId f = i \<longrightarrow> cf_mainCallId f' \<in> cf_subCallIdSet f')"
  using assms Min_in [of "cf_subCallIdSet f - {i}"]
  by (auto simp: leave_defs Let_def begin_elem_def split: if_splits option.splits)

theorem cs_host_succession_witness:
  "cf_mainCallId (snd (the (CsConference_LeaveFromConference 1 sample_conference))) = 2"
proof -
  have "CsConference_LeaveFromConference 1 sample_conference = Some (TELEPHONY_SUCCESS,
          snd (the (CsConference_LeaveFromConference 1 sample_conference)))"
    by (simp add: leave_defs begin_elem_def sample_conference_defs Let_def)
  from cs_host_succession [OF this] show ?thesis by (simp add: sample_conference_defs insert_Diff_if)
qed

text \<open>
  A merge that was allowed (CanCombineConference returned success) keeps a CS
  conference within its limit when the call joins.
\<close>

theorem cs_join_within_limit:
  assumes "CsConference_CanCombineConference f = TELEPHONY_SUCCESS"
    and "cf_maxSubCallLimits f = n"
  shows "card (cf_subCallIdSet (snd (CsConference_JoinToConference t i f))) \<le> n"
  using assms card_insert_le_m1 [of n "cf_subCallIdSet f" i]
  by (auto simp: CsConference_CanCombineConference_def join_defs split: if_splits)

theorem cs_join_within_limit_witness:
  "card (cf_subCallIdSet (snd (CsConference_JoinToConference 60 7 sample_conference))) \<le> 5"
  by (rule cs_join_within_limit) (simp_all add: CsConference_CanCombineConference_def
      sample_conference_defs)

text \<open>
  Holding the only member of an OTT conference empties it and still marks it HOLDING:
  the host is reset to the invalid id, and the held conference then refuses every join,
  unlike the IDLE conference the emptying branch means to leave behind.
\<close>

theorem ott_hold_last_member:
  assumes "cf_subCallIdSet f = {i}" and "cf_state f \<noteq> CONFERENCE_STATE_HOLDING"
  shows "\<exists>f'. OttConference_HoldConference i f = (TELEPHONY_SUCCESS, f') \<and>
              cf_subCallIdSet f' = {} \<and> cf_mainCallId f' = ERR_ID \<and>
              cf_state f' = CONFERENCE_STATE_HOLDING \<and>
              cf_oldState f' = CONFERENCE_STATE_HOLDING \<and>
              OttConference_JoinToConference t j f' = (CALL_ERR_ILLEGAL_CALL_OPERATION, f')"
  using assms by (simp add: hold_defs join_defs)

theorem ott_hold_last_member_witness:
  "\<exists>f'. OttConference_HoldConference 1 lonely_conference = (TELEPHONY_SUCCESS, f') \<and>
        cf_subCallIdSet f' = {} \<and> cf_mainCallId f' = ERR_ID \<and>
        cf_state f' = CONFERENCE_STATE_HOLDING \<and> cf_oldState f' = CONFERENCE_STATE_HOLDING \<and>
        OttConference_JoinToConference 70 4 f' = (CALL_ERR_ILLEGAL_CALL_OPERATION, f')"
  by (rule ott_hold_last_member) (simp_all add: sample_conference_defs)

text \<open>
  The list for a whole conference has every member once, in order, and the host
  appended; so a host that is a member is listed twice, and the list is refused (empty)
  exactly for a call that is neither.
\<close>

theorem conference_list_contents:
  assumes "finite (cf_subCallIdSet f)"
  shows "(fst (GetCallIdListForConference i f) = TELEPHONY_SUCCESS \<longleftrightarrow>
            i \<in> cf_subCallIdSet f \<or> i = cf_mainCallId f) \<and>
         (i \<in> cf_subCallIdSet f \<or> i = cf_mainCallId f \<longrightarrow>
            length (snd (GetCallIdListForConference i f)) = card (cf_subCallIdSet f) + 1 \<and>
            set (snd (GetCallIdListForConference i f)) =
              to_string ` insert (cf_mainCallId f) (cf_subCallIdSet f)) \<and>
         (i \<in> cf_subCallIdSet f \<and> i = cf_mainCallId f \<longrightarrow>
            \<not> distinct (snd (GetCallIdListForConference i f)))"
  using assms by (auto simp: GetCallIdListForConference_def member_strings_def)

theorem conference_list_contents_witness:
  "length (snd (GetCallIdListForConference 1 sample_conference)) = 3"
proof -
  have "finite (cf_subCallIdSet sample_conference)" by (simp add: sample_conference_defs)
  from conference_list_contents [OF this, of 1] show ?thesis by (simp add: sample_conference_defs)
qed

end
