(* ===== verification/Call_Classes.thy ===== *)
theory Call_Classes
  imports Call_Attributes Conference
begin

text \<open>
  The classes derived from CallBase: CarrierCall (\<^verbatim>\<open>carrier_call.cpp\<close>) with CSCall,
  IMSCall, SatelliteCall, VoIPCall and BluetoothCall below it, and OTTCall.  A call
  object is one record with the members of all classes and its dynamic class; a virtual
  call is a case distinction on the class (theory Call_Dispatch).  The cellular stack,
  the OTT service, the VoIP service and the Bluetooth profile are outside the
  repository: an operation sends them requests, and an environment says what they
  answer.  Every operation returns its status, the requests it sent, in order, and the
  call.
\<close>

subsection \<open>Call objects\<close>

datatype CallClass = CSCall | IMSCall | SatelliteCall | VoIPCall | BluetoothCall | OTTCall

record call = call_base +
  m_class :: CallClass
  m_dialScene :: DialScene
  m_slotId :: int
  m_index :: int
  m_isEcc :: bool
  m_rttState :: RttCallState
  m_rttChannelId :: int
  m_isPrevRtt :: bool
  m_voip :: VoipCallReportInfo
  m_macAddress :: string
  m_phoneIndex :: int
  m_isTransferCall :: bool
  m_isTransferCallAllow :: bool
  m_isBluetoothHeadsetWarned :: bool
  m_remoteName :: string
  m_transferCallContactName :: string

text \<open>
  The constructors: the base members, then the members of the derived classes.  The
  members of the classes an object does not belong to have their defaults and are not
  read.
\<close>

definition extend_call :: "CallClass \<Rightarrow> DialScene \<Rightarrow> DialParaInfo \<Rightarrow> call_base \<Rightarrow> call" where
  "extend_call cls scene info b = call_base.extend b
     \<lparr>m_class = cls, m_dialScene = scene, m_slotId = d_accountId info, m_index = d_index info,
      m_isEcc = d_isEcc info, m_rttState = RTT_STATE_NO, m_rttChannelId = -1,
      m_isPrevRtt = False, m_voip = default_voip_info, m_macAddress = [], m_phoneIndex = 0,
      m_isTransferCall = False, m_isTransferCallAllow = True,
      m_isBluetoothHeadsetWarned = False, m_remoteName = [], m_transferCallContactName = []\<rparr>"

definition CarrierCall_incoming :: "CallClass \<Rightarrow> DialParaInfo \<Rightarrow> call" where
  "CarrierCall_incoming cls info =
     extend_call cls CALL_NORMAL info (CallBase_incoming info)"

definition CarrierCall_outgoing :: "CallClass \<Rightarrow> DialParaInfo \<Rightarrow> DialScene \<Rightarrow> call" where
  "CarrierCall_outgoing cls info scene =
     extend_call cls scene info (CallBase_outgoing info)"

definition VoIPCall_new :: "DialParaInfo \<Rightarrow> call" where
  "VoIPCall_new info = (CarrierCall_incoming VoIPCall info)\<lparr>m_callId := d_callId info,
     m_voip := d_voipCallInfo info\<rparr>"

definition BluetoothCall_incoming :: "DialParaInfo \<Rightarrow> string \<Rightarrow> int \<Rightarrow> call" where
  "BluetoothCall_incoming info mac idx = (CarrierCall_incoming BluetoothCall info)\<lparr>
     m_callId := d_callId info, m_macAddress := mac, m_phoneIndex := idx\<rparr>"

definition BluetoothCall_outgoing :: "DialParaInfo \<Rightarrow> DialScene \<Rightarrow> string \<Rightarrow> int \<Rightarrow> call" where
  "BluetoothCall_outgoing info scene mac idx = (CarrierCall_outgoing BluetoothCall info scene)\<lparr>
     m_callId := d_callId info, m_macAddress := mac, m_phoneIndex := idx\<rparr>"

subsection \<open>Requests\<close>

record CellularCallInfo =
  c_callId :: int
  c_phoneNum :: string
  c_slotId :: int
  c_accountId :: int
  c_callType :: CallType
  c_videoState :: int
  c_index :: int
  c_isRTT :: bool

definition default_cellular_info :: CellularCallInfo where
  "default_cellular_info = \<lparr>c_callId = 0, c_phoneNum = [], c_slotId = 0, c_accountId = 0,
     c_callType = TYPE_ERR_CALL, c_videoState = 0, c_index = 0, c_isRTT = False\<rparr>"

record OttCallRequestInfo =
  o_phoneNum :: string
  o_bundleName :: string
  o_videoState :: VideoStateType

definition default_ott_info :: OttCallRequestInfo where
  "default_ott_info = \<lparr>o_phoneNum = [], o_bundleName = [], o_videoState = TYPE_VOICE\<rparr>"

datatype ErrorReason =
  ERROR_NONE | CELLULAR_CALL_EXISTS | VOIP_CALL_EXISTS | INVALID_CALL
| USER_ANSWER_CELLULAR_FIRST

datatype CallAudioEvent =
    AUDIO_EVENT_MUTED | AUDIO_EVENT_UNMUTED | AUDIO_EVENT_SPEAKER_ON
  | AUDIO_EVENT_SPEAKER_OFF | AUDIO_EVENT_MUTED_RINGTONE | AUDIO_EVENT_MIC_DISABLE

record VoipCallEventInfo =
  ve_voipCallId :: string
  ve_bundleName :: string
  ve_uid :: int
  ve_errorReason :: ErrorReason

datatype ImsRTTCallMode =
    LOCAL_REQUEST_UPGRADE | LOCAL_REQUEST_DOWNGRADE
  | REMOTE_REQUEST_UPGRADE_LOCAL_ACCEPT | REMOTE_REQUEST_UPGRADE_LOCAL_REJECT | RTT_MODE_OTHER int

text \<open>
  The mode of a video call; \<^verbatim>\<open>CALL_MODE_OTHER n\<close>, as \<^verbatim>\<open>RTT_MODE_OTHER n\<close> above, is a value without an enumerator, which
  a request read from a message can carry.
\<close>

datatype ImsCallMode =
    CALL_MODE_AUDIO_ONLY | CALL_MODE_SEND_ONLY | CALL_MODE_RECEIVE_ONLY
  | CALL_MODE_SEND_RECEIVE | CALL_MODE_VIDEO_PAUSED | CALL_MODE_OTHER int

text \<open>One constructor per call into a collaborator, with its arguments.\<close>

datatype Request =
    ReqAnswer CellularCallInfo
  | ReqHangUp CellularCallInfo CallSupplementType
  | ReqHold CellularCallInfo
  | ReqUnHold CellularCallInfo
  | ReqSwitch CellularCallInfo
  | ReqSetMute int int
  | ReqCombine CellularCallInfo
  | ReqSeparate CellularCallInfo
  | ReqKickOut CellularCallInfo
  | ReqStartDtmf char CellularCallInfo
  | ReqStopDtmf CellularCallInfo
  | ReqPostDialProceed CellularCallInfo bool
  | ReqRttMode CellularCallInfo ImsRTTCallMode
  | ReqMediaModeRequest CellularCallInfo ImsCallMode
  | ReqMediaModeResponse CellularCallInfo ImsCallMode
  | OttAnswer OttCallRequestInfo
  | OttReject OttCallRequestInfo
  | OttHangUp OttCallRequestInfo
  | OttHold OttCallRequestInfo
  | OttUnHold OttCallRequestInfo
  | OttSwitch OttCallRequestInfo
  | OttCombine OttCallRequestInfo
  | OttSeparate OttCallRequestInfo
  | OttKickOut OttCallRequestInfo
  | VoipAnswer VoipCallEventInfo int
  | VoipReject VoipCallEventInfo
  | VoipHangUp VoipCallEventInfo
  | VoipUiEvent string CallAudioEvent
  | BtAccept string int
  | BtReject string
  | BtFinish string
  | BtHold string
  | BtDtmf string "8 word"

text \<open>
  The collaborators: the two connections may be missing (a null pointer), and answer a
  request with a status; the Bluetooth profile may be missing.
\<close>

record env =
  cellular :: "(Request \<Rightarrow> ErrCode) option"
  ott :: "(Request \<Rightarrow> ErrCode) option"
  hands_free :: bool

type_synonym outcome = "ErrCode \<times> Request list \<times> call"

text \<open>
  The two endings of the operations: hand the answer through, or replace a failure by
  the operation's own code.
\<close>

definition request :: "(Request \<Rightarrow> ErrCode) option \<Rightarrow> Request \<Rightarrow> call \<Rightarrow> outcome" where
  "request conn q c =
     (case conn of None \<Rightarrow> (TELEPHONY_ERR_LOCAL_PTR_NULL, [], c) | Some f \<Rightarrow> (f q, [q], c))"

definition request_or ::
  "ErrCode \<Rightarrow> (Request \<Rightarrow> ErrCode) option \<Rightarrow> Request \<Rightarrow> call \<Rightarrow> outcome" where
  "request_or err conn q c =
     (case conn of
        None \<Rightarrow> (TELEPHONY_ERR_LOCAL_PTR_NULL, [], c)
      | Some f \<Rightarrow> (if f q \<noteq> TELEPHONY_SUCCESS then err else TELEPHONY_SUCCESS, [q], c))"

lemmas request_defs = request_def request_or_def

subsection \<open>CarrierCall\<close>

text \<open>
  A failure to pack the number is only logged: the operations below send what was
  packed (an empty number) all the same.
\<close>

definition PackCellularCallInfo :: "call \<Rightarrow> CellularCallInfo \<Rightarrow> ErrCode \<times> CellularCallInfo" where
  "PackCellularCallInfo c info =
     (let info = info\<lparr>c_callId := m_callId c, c_callType := m_callType c,
            c_videoState := VideoStateType_code (m_videoState c), c_index := m_index c,
            c_slotId := m_slotId c, c_accountId := m_slotId c, c_phoneNum := []\<rparr>
      in if length (m_accountNumber c) > kMaxNumberLen then (CALL_ERR_NUMBER_OUT_OF_RANGE, info)
         else
           let (ok, num) = memcpy_s (c_phoneNum info) kMaxNumberLen (m_accountNumber c);
               info = info\<lparr>c_phoneNum := num\<rparr>
           in if ok then (TELEPHONY_SUCCESS, info) else (TELEPHONY_ERR_MEMCPY_FAIL, info))"

definition packed :: "call \<Rightarrow> CellularCallInfo" where
  "packed c = snd (PackCellularCallInfo c default_cellular_info)"

definition CarrierAnswerCall :: "env \<Rightarrow> int \<Rightarrow> bool \<Rightarrow> call \<Rightarrow> outcome" where
  "CarrierAnswerCall e videoState isRTT c =
     (if AnswerCallBase c \<noteq> TELEPHONY_SUCCESS then (CALL_ERR_ANSWER_FAILED, [], c)
      else request_or CALL_ERR_ANSWER_FAILED (cellular e)
             (ReqAnswer ((packed c)\<lparr>c_videoState := videoState, c_isRTT := isRTT\<rparr>)) c)"

definition CarrierRejectCall :: "env \<Rightarrow> call \<Rightarrow> outcome" where
  "CarrierRejectCall e c =
     (let (ret, c) = RejectCallBase c in
      if ret \<noteq> TELEPHONY_SUCCESS then (ret, [], c)
      else request_or CALL_ERR_REJECT_FAILED (cellular e) (ReqHangUp (packed c) TYPE_DEFAULT) c)"

definition hang_up_type :: "call \<Rightarrow> CallSupplementType" where
  "hang_up_type c =
     (if and (m_policyFlag c) POLICY_FLAG_HANG_UP_ACTIVE \<noteq> 0 then TYPE_HANG_UP_ACTIVE
      else if and (m_policyFlag c) POLICY_FLAG_HANG_UP_HOLD_WAIT \<noteq> 0 then TYPE_HANG_UP_HOLD_WAIT
      else TYPE_DEFAULT)"

definition CarrierHangUpCall :: "env \<Rightarrow> call \<Rightarrow> outcome" where
  "CarrierHangUpCall e c =
     request_or CALL_ERR_HANGUP_FAILED (cellular e) (ReqHangUp (packed c) (hang_up_type c)) c"

definition CarrierDialingProcess :: "env \<Rightarrow> call \<Rightarrow> outcome" where
  "CarrierDialingProcess e c =
     (let (ret, c) = DialCallBase c in
      if ret \<noteq> TELEPHONY_SUCCESS
      then (let (_, qs, c) = CarrierHangUpCall e c in (ret, qs, c))
      else (ret, [], c))"

definition CarrierHoldCall :: "env \<Rightarrow> call \<Rightarrow> outcome" where
  "CarrierHoldCall e c = request_or CALL_ERR_HOLD_FAILED (cellular e) (ReqHold (packed c)) c"

definition CarrierUnHoldCall :: "env \<Rightarrow> call \<Rightarrow> outcome" where
  "CarrierUnHoldCall e c =
     request_or CALL_ERR_UNHOLD_FAILED (cellular e) (ReqUnHold (packed c)) c"

definition CarrierSetMute :: "env \<Rightarrow> int \<Rightarrow> int \<Rightarrow> call \<Rightarrow> outcome" where
  "CarrierSetMute e mute slotId c =
     request_or CALL_ERR_UNHOLD_FAILED (cellular e) (ReqSetMute mute slotId) c"

definition CarrierSwitchCall :: "env \<Rightarrow> call \<Rightarrow> outcome" where
  "CarrierSwitchCall e c =
     request_or CALL_ERR_UNHOLD_FAILED (cellular e) (ReqSwitch (packed c)) c"

definition CarrierCombineConference :: "env \<Rightarrow> call \<Rightarrow> outcome" where
  "CarrierCombineConference e c = request (cellular e) (ReqCombine (packed c)) c"

definition CarrierSeparateConference :: "env \<Rightarrow> call \<Rightarrow> outcome" where
  "CarrierSeparateConference e c = request (cellular e) (ReqSeparate (packed c)) c"

definition CarrierKickOutFromConference :: "env \<Rightarrow> call \<Rightarrow> outcome" where
  "CarrierKickOutFromConference e c = request (cellular e) (ReqKickOut (packed c)) c"

definition Carrier_StartDtmf :: "env \<Rightarrow> char \<Rightarrow> call \<Rightarrow> outcome" where
  "Carrier_StartDtmf e str c = request (cellular e) (ReqStartDtmf str (packed c)) c"

definition Carrier_StopDtmf :: "env \<Rightarrow> call \<Rightarrow> outcome" where
  "Carrier_StopDtmf e c = request (cellular e) (ReqStopDtmf (packed c)) c"

definition Carrier_PostDialProceed :: "env \<Rightarrow> bool \<Rightarrow> call \<Rightarrow> outcome" where
  "Carrier_PostDialProceed e proceed c =
     request (cellular e) (ReqPostDialProceed (packed c) proceed) c"

definition Carrier_IsSupportConferenceable :: "call \<Rightarrow> ErrCode" where
  "Carrier_IsSupportConferenceable c =
     (if m_isEcc c \<noteq> True then TELEPHONY_SUCCESS
      else CALL_ERR_EMERGENCY_UNSUPPORT_CONFERENCEABLE)"

definition GetCallAttributeCarrierInfo ::
  "want_api \<Rightarrow> call \<Rightarrow> CallAttributeInfo \<Rightarrow> CallAttributeInfo" where
  "GetCallAttributeCarrierInfo w c info =
     GetCallAttributeBaseInfo w c
       (info\<lparr>i_isEcc := m_isEcc c, i_accountId := m_slotId c, i_index := m_index c\<rparr>)"

definition SetSlotId :: "int \<Rightarrow> call \<Rightarrow> call" where
  "SetSlotId slotId c = c\<lparr>m_slotId := slotId\<rparr>"

definition SetCallIndex :: "int \<Rightarrow> call \<Rightarrow> call" where
  "SetCallIndex index c = c\<lparr>m_index := index\<rparr>"

lemmas carrier_defs [cm_defs] = CarrierAnswerCall_def CarrierRejectCall_def
  CarrierHangUpCall_def CarrierDialingProcess_def CarrierHoldCall_def CarrierUnHoldCall_def
  CarrierSetMute_def CarrierSwitchCall_def CarrierCombineConference_def
  CarrierSeparateConference_def CarrierKickOutFromConference_def Carrier_StartDtmf_def
  Carrier_StopDtmf_def Carrier_PostDialProceed_def

lemma packed_fields [simp]:
  "c_callId (packed c) = m_callId c" "c_index (packed c) = m_index c"
  "c_slotId (packed c) = m_slotId c" "c_accountId (packed c) = m_slotId c"
  "c_callType (packed c) = m_callType c"
  "c_phoneNum (packed c) =
     (if length (m_accountNumber c) > kMaxNumberLen then [] else m_accountNumber c)"
  "c_videoState (packed c) = VideoStateType_code (m_videoState c)" "c_isRTT (packed c) = False"
  by (simp_all add: packed_def PackCellularCallInfo_def memcpy_s_def Let_def
      default_cellular_info_def split: prod.splits)

subsection \<open>IMS: real-time text\<close>

definition SetRttState :: "RttCallState \<Rightarrow> call \<Rightarrow> call" where
  "SetRttState s c = c\<lparr>m_rttState := s\<rparr>"

definition SetRttChannelId :: "int \<Rightarrow> call \<Rightarrow> call" where
  "SetRttChannelId i c = c\<lparr>m_rttChannelId := i\<rparr>"

definition SetPrevRtt :: "bool \<Rightarrow> call \<Rightarrow> call" where
  "SetPrevRtt b c = c\<lparr>m_isPrevRtt := b\<rparr>"

text \<open>The state is stored before the request is sent; a failed request does not undo it.\<close>

definition UpdateImsRttCallMode :: "env \<Rightarrow> ImsRTTCallMode \<Rightarrow> call \<Rightarrow> outcome" where
  "UpdateImsRttCallMode e mode c =
     (let (ret, info) = PackCellularCallInfo c default_cellular_info in
      if ret \<noteq> TELEPHONY_SUCCESS then (ret, [], c)
      else case cellular e of
        None \<Rightarrow> (TELEPHONY_ERR_LOCAL_PTR_NULL, [], c)
      | Some f \<Rightarrow>
          let c = (if mode = REMOTE_REQUEST_UPGRADE_LOCAL_ACCEPT
                   then c\<lparr>m_rttState := RTT_STATE_YES\<rparr>
                   else if mode = REMOTE_REQUEST_UPGRADE_LOCAL_REJECT
                   then c\<lparr>m_rttState := RTT_STATE_NO\<rparr> else c)
          in request_or CALL_ERR_STOPRTT_FAILED (Some f) (ReqRttMode info mode) c)"

definition IMSCall_AnswerCall :: "build \<Rightarrow> env \<Rightarrow> int \<Rightarrow> bool \<Rightarrow> call \<Rightarrow> outcome" where
  "IMSCall_AnswerCall b e videoState isRTT c =
     (let c = (if support_rtt_call b
               then c\<lparr>m_rttState := if isRTT then RTT_STATE_YES else RTT_STATE_NO\<rparr> else c)
      in CarrierAnswerCall e videoState isRTT c)"

definition IMSCall_GetCallAttributeInfo ::
  "build \<Rightarrow> want_api \<Rightarrow> call \<Rightarrow> CallAttributeInfo \<Rightarrow> CallAttributeInfo" where
  "IMSCall_GetCallAttributeInfo b w c info =
     (let info = GetCallAttributeCarrierInfo w c info
      in if support_rtt_call b then info\<lparr>i_rttState := m_rttState c\<rparr> else info)"

subsection \<open>OTTCall\<close>

definition PackOttCallRequestInfo ::
  "call \<Rightarrow> OttCallRequestInfo \<Rightarrow> ErrCode \<times> OttCallRequestInfo" where
  "PackOttCallRequestInfo c q =
     (if length (m_accountNumber c) > kMaxNumberLen then (CALL_ERR_NUMBER_OUT_OF_RANGE, q)
      else
        let (ok, s) = memcpy_s (o_phoneNum q) kMaxNumberLen (m_accountNumber c);
            q = q\<lparr>o_phoneNum := s\<rparr>
        in if \<not> ok then (TELEPHONY_ERR_MEMSET_FAIL, q)
           else if length (m_bundleName c) > kMaxBundleNameLen then (CALL_ERR_NUMBER_OUT_OF_RANGE, q)
           else
             let (ok, s) = memcpy_s (o_bundleName q) kMaxBundleNameLen (m_bundleName c);
                 q = q\<lparr>o_bundleName := s\<rparr>
             in if \<not> ok then (TELEPHONY_ERR_MEMSET_FAIL, q)
                else (TELEPHONY_SUCCESS, q\<lparr>o_videoState := m_videoState c\<rparr>))"

text \<open>
  Here a packing failure stops the operation with the operation's own code, or with the
  packing's code for the conference requests.
\<close>

definition ott_request ::
  "ErrCode \<Rightarrow> (OttCallRequestInfo \<Rightarrow> Request) \<Rightarrow> env \<Rightarrow> call \<Rightarrow> outcome" where
  "ott_request err q e c =
     (let (ret, info) = PackOttCallRequestInfo c default_ott_info in
      if ret \<noteq> TELEPHONY_SUCCESS then (err, [], c) else request_or err (ott e) (q info) c)"

definition OTTCall_AnswerCall :: "env \<Rightarrow> int \<Rightarrow> bool \<Rightarrow> call \<Rightarrow> outcome" where
  "OTTCall_AnswerCall e videoState isRTT c =
     (if AnswerCallBase c \<noteq> TELEPHONY_SUCCESS then (CALL_ERR_ANSWER_FAILED, [], c)
      else ott_request CALL_ERR_ANSWER_FAILED OttAnswer e c)"

definition OTTCall_RejectCall :: "env \<Rightarrow> call \<Rightarrow> outcome" where
  "OTTCall_RejectCall e c =
     (let (ret, c) = RejectCallBase c in
      if ret \<noteq> TELEPHONY_SUCCESS then (ret, [], c)
      else ott_request CALL_ERR_REJECT_FAILED OttReject e c)"

text \<open>
  HangUpCall alone uses the connection without testing the pointer; the constructor has
  just made it, so the pointer is there.
\<close>

definition OTTCall_HangUpCall :: "env \<Rightarrow> call \<Rightarrow> outcome option" where
  "OTTCall_HangUpCall e c =
     (let (ret, info) = PackOttCallRequestInfo c default_ott_info in
      if ret \<noteq> TELEPHONY_SUCCESS then Some (CALL_ERR_HANGUP_FAILED, [], c)
      else case ott e of
        None \<Rightarrow> None
      | Some f \<Rightarrow> Some (if f (OttHangUp info) \<noteq> TELEPHONY_SUCCESS then CALL_ERR_HANGUP_FAILED
                       else TELEPHONY_SUCCESS, [OttHangUp info], c))"

definition OTTCall_HoldCall :: "env \<Rightarrow> call \<Rightarrow> outcome" where
  "OTTCall_HoldCall e c = ott_request CALL_ERR_HOLD_FAILED OttHold e c"

definition OTTCall_UnHoldCall :: "env \<Rightarrow> call \<Rightarrow> outcome" where
  "OTTCall_UnHoldCall e c = ott_request CALL_ERR_UNHOLD_FAILED OttUnHold e c"

definition OTTCall_SwitchCall :: "env \<Rightarrow> call \<Rightarrow> outcome" where
  "OTTCall_SwitchCall e c = ott_request CALL_ERR_UNHOLD_FAILED OttSwitch e c"

definition OTTCall_DialingProcess :: "env \<Rightarrow> call \<Rightarrow> outcome option" where
  "OTTCall_DialingProcess e c =
     (let (ret, c) = DialCallBase c in
      if ret \<noteq> TELEPHONY_SUCCESS
      then map_option (\<lambda>(_, qs, c). (ret, qs, c)) (OTTCall_HangUpCall e c)
      else Some (ret, [], c))"

definition OTTCall_SeparateConference :: "env \<Rightarrow> call \<Rightarrow> outcome" where
  "OTTCall_SeparateConference e c =
     (let (ret, info) = PackOttCallRequestInfo c default_ott_info in
      if ret \<noteq> TELEPHONY_SUCCESS then (ret, [], c) else request (ott e) (OttSeparate info) c)"

definition OTTCall_KickOutFromConference :: "env \<Rightarrow> call \<Rightarrow> outcome" where
  "OTTCall_KickOutFromConference e c =
     (let (ret, info) = PackOttCallRequestInfo c default_ott_info in
      if ret \<noteq> TELEPHONY_SUCCESS then (ret, [], c) else request (ott e) (OttKickOut info) c)"

lemmas ott_defs [cm_defs] = ott_request_def OTTCall_AnswerCall_def OTTCall_RejectCall_def
  OTTCall_HangUpCall_def OTTCall_HoldCall_def OTTCall_UnHoldCall_def OTTCall_SwitchCall_def
  OTTCall_SeparateConference_def OTTCall_KickOutFromConference_def

subsection \<open>VoIPCall\<close>

definition PackVoipCallInfo :: "call \<Rightarrow> VoipCallEventInfo" where
  "PackVoipCallInfo c = \<lparr>ve_voipCallId = v_voipCallId (m_voip c),
     ve_bundleName = v_voipBundleName (m_voip c), ve_uid = v_uid (m_voip c),
     ve_errorReason = ERROR_NONE\<rparr>"

definition VoIPCall_AnswerCall :: "int \<Rightarrow> call \<Rightarrow> outcome" where
  "VoIPCall_AnswerCall videoState c =
     (TELEPHONY_SUCCESS, [VoipAnswer (PackVoipCallInfo c) videoState], c)"

definition VoIPCall_RejectCall :: "call \<Rightarrow> outcome" where
  "VoIPCall_RejectCall c = (TELEPHONY_SUCCESS, [VoipReject (PackVoipCallInfo c)], c)"

definition VoIPCall_HangUpCall :: "call \<Rightarrow> outcome" where
  "VoIPCall_HangUpCall c =
     (TELEPHONY_SUCCESS,
      [VoipHangUp ((PackVoipCallInfo c)\<lparr>ve_errorReason := USER_ANSWER_CELLULAR_FIRST\<rparr>)], c)"

definition VoIPCall_HangUpCall_reason :: "ErrorReason \<Rightarrow> call \<Rightarrow> outcome" where
  "VoIPCall_HangUpCall_reason status c =
     (TELEPHONY_SUCCESS, [VoipHangUp ((PackVoipCallInfo c)\<lparr>ve_errorReason := status\<rparr>)], c)"

definition VoIPCall_GetCallAttributeInfo ::
  "want_api \<Rightarrow> call \<Rightarrow> CallAttributeInfo \<Rightarrow> CallAttributeInfo" where
  "VoIPCall_GetCallAttributeInfo w c info =
     (GetCallAttributeCarrierInfo w c info)\<lparr>i_callId := m_callId c, i_voipCallInfo := m_voip c\<rparr>"

definition VoIPCall_SetMute :: "want_api \<Rightarrow> int \<Rightarrow> int \<Rightarrow> call \<Rightarrow> outcome" where
  "VoIPCall_SetMute w mute slotId c =
     (let v = i_voipCallInfo (VoIPCall_GetCallAttributeInfo w c default_info);
          voipCallId = v_voipBundleName v @ '':'' @ to_string (v_uid v) @ '':'' @ v_voipCallId v;
          event = (if mute = 4 then AUDIO_EVENT_MUTED_RINGTONE
                   else if mute = 1 then AUDIO_EVENT_MUTED
                   else AUDIO_EVENT_UNMUTED)
      in (TELEPHONY_SUCCESS, [VoipUiEvent voipCallId event], c))"

text \<open>The report that updates a VoIP call, and whether it changed anything.\<close>

definition VoIPCall_UpdateCallAttributeInfo ::
  "VoipCallReportInfo \<Rightarrow> VideoStateType \<Rightarrow> call \<Rightarrow> bool \<times> call" where
  "VoIPCall_UpdateCallAttributeInfo v callMode c =
     (let ch = False;
          (ch, c) = (if v_hasMicPermission (m_voip c) \<noteq> v_hasMicPermission v
                     then (True, c\<lparr>m_voip := (m_voip c)\<lparr>v_hasMicPermission := v_hasMicPermission v\<rparr>\<rparr>)
                     else (ch, c));
          (ch, c) = (if v_userName (m_voip c) \<noteq> v_userName v
                     then (True, c\<lparr>m_voip := (m_voip c)\<lparr>v_userName := v_userName v\<rparr>\<rparr>) else (ch, c));
          (ch, c) = (if v_userProfile (m_voip c) \<noteq> v_userProfile v
                     then (True, c\<lparr>m_voip := (m_voip c)\<lparr>v_userProfile := v_userProfile v\<rparr>\<rparr>)
                     else (ch, c));
          (ch, c) = (if v_isConferenceCall (m_voip c) \<noteq> v_isConferenceCall v
                     then (True, c\<lparr>m_voip := (m_voip c)\<lparr>v_isConferenceCall := v_isConferenceCall v\<rparr>\<rparr>)
                     else (ch, c));
          (ch, c) = (if m_videoState c \<noteq> callMode then (True, SetVideoStateType callMode c)
                     else (ch, c))
      in (ch, c))"

subsection \<open>BluetoothCall\<close>

definition BluetoothCall_AnswerCall :: "env \<Rightarrow> call \<Rightarrow> outcome" where
  "BluetoothCall_AnswerCall e c =
     (if \<not> hands_free e then (CALL_ERR_ANSWER_FAILED, [], c)
      else (TELEPHONY_SUCCESS, [BtAccept (m_macAddress c) 0], c))"

definition BluetoothCall_RejectCall :: "env \<Rightarrow> call \<Rightarrow> outcome" where
  "BluetoothCall_RejectCall e c =
     (if \<not> hands_free e then (CALL_ERR_REJECT_FAILED, [], c)
      else let (ret, c') = RejectCallBase c in (ret, [BtReject (m_macAddress c)], c'))"

definition BluetoothCall_HangUpCall :: "build \<Rightarrow> env \<Rightarrow> call \<Rightarrow> outcome" where
  "BluetoothCall_HangUpCall b e c =
     (if \<not> hands_free e then (CALL_ERR_HANGUP_FAILED, [], c)
      else if call_transfer b \<and> m_isTransferCall c \<and> m_callState c = CALL_STATUS_HOLDING
      then (TELEPHONY_SUCCESS, [BtReject (m_macAddress c)], c)
      else (TELEPHONY_SUCCESS, [BtFinish (m_macAddress c)], c))"

definition BluetoothCall_HoldCall :: "env \<Rightarrow> call \<Rightarrow> outcome" where
  "BluetoothCall_HoldCall e c =
     (if \<not> hands_free e then (CodeFrom (-1), [], c)
      else (TELEPHONY_SUCCESS, [BtHold (m_macAddress c)], c))"

definition FLAG_UNHOLD :: int where "FLAG_UNHOLD = 3"

definition BluetoothCall_UnHoldCall :: "env \<Rightarrow> call \<Rightarrow> outcome" where
  "BluetoothCall_UnHoldCall e c =
     (if \<not> hands_free e then (CodeFrom (-1), [], c)
      else (TELEPHONY_SUCCESS, [BtAccept (m_macAddress c) FLAG_UNHOLD], c))"

definition BluetoothCall_StartDtmf :: "env \<Rightarrow> char \<Rightarrow> call \<Rightarrow> outcome" where
  "BluetoothCall_StartDtmf e str c =
     (if \<not> hands_free e then (CALL_ERR_FUNCTION_NOT_SUPPORTED, [], c)
      else (TELEPHONY_SUCCESS, [BtDtmf (m_macAddress c) (word_of_nat (of_char str))], c))"

definition BluetoothCall_GetCallAttributeInfo ::
  "want_api \<Rightarrow> call \<Rightarrow> CallAttributeInfo \<Rightarrow> CallAttributeInfo" where
  "BluetoothCall_GetCallAttributeInfo w c info =
     (GetCallAttributeCarrierInfo w c info)\<lparr>i_callId := m_callId c, i_phoneIndex := m_phoneIndex c\<rparr>"

definition IsTransferCallAndForbidden :: "call \<Rightarrow> bool" where
  "IsTransferCallAndForbidden c = (m_isTransferCall c \<and> \<not> m_isTransferCallAllow c)"

definition SetIsTransferCall :: "bool \<Rightarrow> call \<Rightarrow> call" where
  "SetIsTransferCall v c = c\<lparr>m_isTransferCall := v\<rparr>"

definition SetIsTransferCallAllow :: "bool \<Rightarrow> call \<Rightarrow> call" where
  "SetIsTransferCallAllow v c = c\<lparr>m_isTransferCallAllow := v\<rparr>"

definition SetRemoteName :: "string \<Rightarrow> call \<Rightarrow> call" where
  "SetRemoteName v c = c\<lparr>m_remoteName := v\<rparr>"

definition SetTransferCallContactName :: "string \<Rightarrow> call \<Rightarrow> call" where
  "SetTransferCallContactName v c = c\<lparr>m_transferCallContactName := v\<rparr>"

definition SetIsBluetoothHeadsetWarned :: "bool \<Rightarrow> call \<Rightarrow> call" where
  "SetIsBluetoothHeadsetWarned v c = c\<lparr>m_isBluetoothHeadsetWarned := v\<rparr>"

lemmas voip_defs [cm_defs] = VoIPCall_AnswerCall_def VoIPCall_RejectCall_def
  VoIPCall_HangUpCall_def VoIPCall_HangUpCall_reason_def VoIPCall_SetMute_def

lemmas bluetooth_defs [cm_defs] = BluetoothCall_AnswerCall_def BluetoothCall_RejectCall_def
  BluetoothCall_HangUpCall_def BluetoothCall_HoldCall_def BluetoothCall_UnHoldCall_def
  BluetoothCall_StartDtmf_def

end
