(* ===== verification/Call_Dispatch.thy ===== *)
theory Call_Dispatch
  imports Call_Classes
begin

text \<open>
  The virtual functions of CallBase, class by class (\<^verbatim>\<open>cs_call.cpp\<close>,
  \<^verbatim>\<open>ims_call.cpp\<close>, \<^verbatim>\<open>satellite_call.cpp\<close>, \<^verbatim>\<open>voip_call.cpp\<close>,
  \<^verbatim>\<open>bluetooth_call.cpp\<close>, \<^verbatim>\<open>ott_call.cpp\<close>), the conference operations of the
  three classes that have a conference, and the dispatch on the dynamic class.
\<close>

subsection \<open>The conference objects\<close>

record conferences =
  the_cs :: conference
  the_ims :: conference
  the_ott :: conference

definition initial_conferences :: conferences where
  "initial_conferences = \<lparr>the_cs = CsConference, the_ims = ImsConference, the_ott = OttConference\<rparr>"

type_synonym conf_outcome = "ErrCode \<times> Request list \<times> call \<times> conferences"

subsection \<open>The classes and the dispatch\<close>

definition CSCall_DialingProcess :: "env \<Rightarrow> call \<Rightarrow> outcome" where
  "CSCall_DialingProcess e c = CarrierDialingProcess e c"

definition IMSCall_DialingProcess :: "env \<Rightarrow> call \<Rightarrow> outcome" where
  "IMSCall_DialingProcess e c = CarrierDialingProcess e c"

definition SatelliteCall_DialingProcess :: "env \<Rightarrow> call \<Rightarrow> outcome" where
  "SatelliteCall_DialingProcess e c = CarrierDialingProcess e c"

definition VoIPCall_DialingProcess :: "call \<Rightarrow> outcome" where
  "VoIPCall_DialingProcess c = (TELEPHONY_SUCCESS, [], c)"

definition BluetoothCall_DialingProcess :: "call \<Rightarrow> outcome" where
  "BluetoothCall_DialingProcess c = (TELEPHONY_SUCCESS, [], c)"

definition CSCall_AnswerCall :: "env \<Rightarrow> int \<Rightarrow> bool \<Rightarrow> call \<Rightarrow> outcome" where
  "CSCall_AnswerCall e vs rtt c = CarrierAnswerCall e vs False c"

definition SatelliteCall_AnswerCall :: "env \<Rightarrow> int \<Rightarrow> bool \<Rightarrow> call \<Rightarrow> outcome" where
  "SatelliteCall_AnswerCall e vs rtt c = CarrierAnswerCall e vs False c"

definition CSCall_RejectCall :: "env \<Rightarrow> call \<Rightarrow> outcome" where
  "CSCall_RejectCall e c = CarrierRejectCall e c"

definition IMSCall_RejectCall :: "env \<Rightarrow> call \<Rightarrow> outcome" where
  "IMSCall_RejectCall e c = CarrierRejectCall e c"

definition SatelliteCall_RejectCall :: "env \<Rightarrow> call \<Rightarrow> outcome" where
  "SatelliteCall_RejectCall e c = CarrierRejectCall e c"

definition CSCall_HangUpCall :: "env \<Rightarrow> call \<Rightarrow> outcome" where
  "CSCall_HangUpCall e c = CarrierHangUpCall e c"

definition IMSCall_HangUpCall :: "env \<Rightarrow> call \<Rightarrow> outcome" where
  "IMSCall_HangUpCall e c = CarrierHangUpCall e c"

definition SatelliteCall_HangUpCall :: "env \<Rightarrow> call \<Rightarrow> outcome" where
  "SatelliteCall_HangUpCall e c = CarrierHangUpCall e c"

definition CSCall_HoldCall :: "env \<Rightarrow> call \<Rightarrow> outcome" where
  "CSCall_HoldCall e c = CarrierHoldCall e c"

definition IMSCall_HoldCall :: "env \<Rightarrow> call \<Rightarrow> outcome" where
  "IMSCall_HoldCall e c = CarrierHoldCall e c"

definition SatelliteCall_HoldCall :: "call \<Rightarrow> outcome" where
  "SatelliteCall_HoldCall c = (TELEPHONY_ERROR, [], c)"

definition VoIPCall_HoldCall :: "call \<Rightarrow> outcome" where
  "VoIPCall_HoldCall c = (TELEPHONY_SUCCESS, [], c)"

definition CSCall_UnHoldCall :: "env \<Rightarrow> call \<Rightarrow> outcome" where
  "CSCall_UnHoldCall e c = CarrierUnHoldCall e c"

definition IMSCall_UnHoldCall :: "env \<Rightarrow> call \<Rightarrow> outcome" where
  "IMSCall_UnHoldCall e c = CarrierUnHoldCall e c"

definition SatelliteCall_UnHoldCall :: "call \<Rightarrow> outcome" where
  "SatelliteCall_UnHoldCall c = (TELEPHONY_ERROR, [], c)"

definition VoIPCall_UnHoldCall :: "call \<Rightarrow> outcome" where
  "VoIPCall_UnHoldCall c = (TELEPHONY_SUCCESS, [], c)"

definition CSCall_SwitchCall :: "env \<Rightarrow> call \<Rightarrow> outcome" where
  "CSCall_SwitchCall e c = CarrierSwitchCall e c"

definition IMSCall_SwitchCall :: "env \<Rightarrow> call \<Rightarrow> outcome" where
  "IMSCall_SwitchCall e c = CarrierSwitchCall e c"

definition SatelliteCall_SwitchCall :: "call \<Rightarrow> outcome" where
  "SatelliteCall_SwitchCall c = (TELEPHONY_ERROR, [], c)"

definition VoIPCall_SwitchCall :: "call \<Rightarrow> outcome" where
  "VoIPCall_SwitchCall c = (TELEPHONY_SUCCESS, [], c)"

definition BluetoothCall_SwitchCall :: "call \<Rightarrow> outcome" where
  "BluetoothCall_SwitchCall c = (TELEPHONY_SUCCESS, [], c)"

definition CSCall_SetMute :: "env \<Rightarrow> int \<Rightarrow> int \<Rightarrow> call \<Rightarrow> outcome" where
  "CSCall_SetMute e mute slot c = CarrierSetMute e mute slot c"

definition IMSCall_SetMute :: "env \<Rightarrow> int \<Rightarrow> int \<Rightarrow> call \<Rightarrow> outcome" where
  "IMSCall_SetMute e mute slot c = CarrierSetMute e mute slot c"

definition SatelliteCall_SetMute :: "call \<Rightarrow> outcome" where
  "SatelliteCall_SetMute c = (TELEPHONY_ERROR, [], c)"

definition BluetoothCall_SetMute :: "call \<Rightarrow> outcome" where
  "BluetoothCall_SetMute c = (TELEPHONY_SUCCESS, [], c)"

definition OTTCall_SetMute :: "call \<Rightarrow> outcome" where
  "OTTCall_SetMute c = (CALL_ERR_FUNCTION_NOT_SUPPORTED, [], c)"

definition OTTCall_StartDtmf :: "call \<Rightarrow> outcome" where
  "OTTCall_StartDtmf c = (CALL_ERR_FUNCTION_NOT_SUPPORTED, [], c)"

definition OTTCall_StopDtmf :: "call \<Rightarrow> outcome" where
  "OTTCall_StopDtmf c = (CALL_ERR_FUNCTION_NOT_SUPPORTED, [], c)"

definition OTTCall_PostDialProceed :: "call \<Rightarrow> outcome" where
  "OTTCall_PostDialProceed c = (CALL_ERR_FUNCTION_NOT_SUPPORTED, [], c)"

definition CSCall_CombineConference :: "env \<Rightarrow> call \<Rightarrow> conferences \<Rightarrow> conf_outcome" where
  "CSCall_CombineConference e c g =
     
     (let (ret, f) = SetMainCall (m_callId c) (the_cs g); g = g\<lparr>the_cs := f\<rparr> in
      if ret \<noteq> TELEPHONY_SUCCESS then (ret, [], c, g)
      else if cf_state f = CONFERENCE_STATE_CREATING then (TELEPHONY_SUCCESS, [], c, g)
      else let (ret, qs, c) = CarrierCombineConference e c
           in (ret, qs, c, g\<lparr>the_cs := SetConferenceState CONFERENCE_STATE_CREATING f\<rparr>))"

definition CSCall_HandleCombineConferenceFailEvent :: "conferences \<Rightarrow> conferences" where
  "CSCall_HandleCombineConferenceFailEvent g =
     
     (let f = the_cs g;
          f = (if cf_subCallIdSet f = {} then snd (SetMainCall ERR_ID f)
               else snd (SetMainCall (the (begin_elem (cf_subCallIdSet f))) f))
      in g\<lparr>the_cs := SetConferenceState (cf_oldState f) f\<rparr>)"

definition CSCall_IsSupportConferenceable :: "call \<Rightarrow> ErrCode" where
  "CSCall_IsSupportConferenceable c = Carrier_IsSupportConferenceable c"

definition CSCall_CanCombineConference :: "call \<Rightarrow> conferences \<Rightarrow> ErrCode" where
  "CSCall_CanCombineConference c g =
     
     (let ret = CSCall_IsSupportConferenceable c in
      if ret \<noteq> TELEPHONY_SUCCESS then ret else CsConference_CanCombineConference (the_cs g))"

definition CSCall_CanSeparateConference :: "conferences \<Rightarrow> ErrCode" where
  "CSCall_CanSeparateConference g = CsConference_CanSeparateConference (the_cs g)"

definition CSCall_CanKickOutFromConference :: "conferences \<Rightarrow> ErrCode" where
  "CSCall_CanKickOutFromConference g = CsConference_CanKickOutFromConference (the_cs g)"

definition CSCall_LaunchConference ::
  "int \<Rightarrow> call \<Rightarrow> conferences \<Rightarrow> ErrCode \<times> call \<times> conferences" where
  "CSCall_LaunchConference t c g =
     
     (let (ret, f) = CsConference_JoinToConference t (m_callId c) (SetConferenceState CONFERENCE_STATE_IDLE (the_cs g));
          c = (if ret = TELEPHONY_SUCCESS then SetTelConferenceState TEL_CONFERENCE_ACTIVE c else c)
      in (ret, c, g\<lparr>the_cs := f\<rparr>))"

definition CSCall_ExitConference ::
  "call \<Rightarrow> conferences \<Rightarrow> (ErrCode \<times> call \<times> conferences) option" where
  "CSCall_ExitConference c g =
     
     (case CsConference_LeaveFromConference (m_callId c) (the_cs g) of
        None \<Rightarrow> None
      | Some (ret, f) \<Rightarrow>
          Some (ret, if ret = TELEPHONY_SUCCESS then SetTelConferenceState TEL_CONFERENCE_IDLE c else c,
                g\<lparr>the_cs := f\<rparr>))"

definition CSCall_HoldConference :: "call \<Rightarrow> conferences \<Rightarrow> ErrCode \<times> call \<times> conferences" where
  "CSCall_HoldConference c g =
     
     (let (ret, f) = CsConference_HoldConference (m_callId c) (the_cs g);
          c = (if ret = TELEPHONY_SUCCESS then SetTelConferenceState TEL_CONFERENCE_HOLDING c else c)
      in (ret, c, g\<lparr>the_cs := f\<rparr>))"

definition CSCall_GetSubCallIdList :: "call \<Rightarrow> conferences \<Rightarrow> ErrCode \<times> string list" where
  "CSCall_GetSubCallIdList c g = Conference.GetSubCallIdList (m_callId c) (the_cs g)"

definition CSCall_GetCallIdListForConference ::
  "call \<Rightarrow> conferences \<Rightarrow> ErrCode \<times> string list" where
  "CSCall_GetCallIdListForConference c g =
     Conference.GetCallIdListForConference (m_callId c) (the_cs g)"

definition IMSCall_CombineConference :: "env \<Rightarrow> call \<Rightarrow> conferences \<Rightarrow> conf_outcome" where
  "IMSCall_CombineConference e c g =
     
     (let (ret, f) = SetMainCall (m_callId c) (the_ims g); g = g\<lparr>the_ims := f\<rparr> in
      if ret \<noteq> TELEPHONY_SUCCESS then (ret, [], c, g)
      else if cf_state f = CONFERENCE_STATE_CREATING then (TELEPHONY_SUCCESS, [], c, g)
      else let (ret, qs, c) = CarrierCombineConference e c
           in (ret, qs, c, g\<lparr>the_ims := SetConferenceState CONFERENCE_STATE_CREATING f\<rparr>))"

definition IMSCall_HandleCombineConferenceFailEvent :: "conferences \<Rightarrow> conferences" where
  "IMSCall_HandleCombineConferenceFailEvent g =
     
     (let f = the_ims g;
          f = (if cf_subCallIdSet f = {} then snd (SetMainCall ERR_ID f)
               else snd (SetMainCall (the (begin_elem (cf_subCallIdSet f))) f))
      in g\<lparr>the_ims := SetConferenceState (cf_oldState f) f\<rparr>)"

definition IMSCall_IsSupportConferenceable :: "call \<Rightarrow> ErrCode" where
  "IMSCall_IsSupportConferenceable c = Carrier_IsSupportConferenceable c"

definition IMSCall_CanCombineConference :: "call \<Rightarrow> conferences \<Rightarrow> ErrCode" where
  "IMSCall_CanCombineConference c g =
     
     (let ret = IMSCall_IsSupportConferenceable c in
      if ret \<noteq> TELEPHONY_SUCCESS then ret else ImsConference_CanCombineConference (the_ims g))"

definition IMSCall_CanSeparateConference :: "conferences \<Rightarrow> ErrCode" where
  "IMSCall_CanSeparateConference g = ImsConference_CanSeparateConference (the_ims g)"

definition IMSCall_CanKickOutFromConference :: "conferences \<Rightarrow> ErrCode" where
  "IMSCall_CanKickOutFromConference g = ImsConference_CanKickOutFromConference (the_ims g)"

definition IMSCall_LaunchConference ::
  "int \<Rightarrow> call \<Rightarrow> conferences \<Rightarrow> ErrCode \<times> call \<times> conferences" where
  "IMSCall_LaunchConference t c g =
     
     (let (ret, f) = ImsConference_JoinToConference t (m_callId c) (the_ims g);
          c = (if ret = TELEPHONY_SUCCESS then SetTelConferenceState TEL_CONFERENCE_ACTIVE c else c)
      in (ret, c, g\<lparr>the_ims := f\<rparr>))"

definition IMSCall_ExitConference ::
  "call \<Rightarrow> conferences \<Rightarrow> (ErrCode \<times> call \<times> conferences) option" where
  "IMSCall_ExitConference c g =
     
     (case ImsConference_LeaveFromConference (m_callId c) (the_ims g) of
        None \<Rightarrow> None
      | Some (ret, f) \<Rightarrow>
          Some (ret, if ret = TELEPHONY_SUCCESS then SetTelConferenceState TEL_CONFERENCE_IDLE c else c,
                g\<lparr>the_ims := f\<rparr>))"

definition IMSCall_HoldConference :: "call \<Rightarrow> conferences \<Rightarrow> ErrCode \<times> call \<times> conferences" where
  "IMSCall_HoldConference c g =
     
     (let (ret, f) = ImsConference_HoldConference (m_callId c) (the_ims g);
          c = (if ret = TELEPHONY_SUCCESS then SetTelConferenceState TEL_CONFERENCE_HOLDING c else c)
      in (ret, c, g\<lparr>the_ims := f\<rparr>))"

definition IMSCall_GetSubCallIdList :: "call \<Rightarrow> conferences \<Rightarrow> ErrCode \<times> string list" where
  "IMSCall_GetSubCallIdList c g = Conference.GetSubCallIdList (m_callId c) (the_ims g)"

definition IMSCall_GetCallIdListForConference ::
  "call \<Rightarrow> conferences \<Rightarrow> ErrCode \<times> string list" where
  "IMSCall_GetCallIdListForConference c g =
     Conference.GetCallIdListForConference (m_callId c) (the_ims g)"

definition OTTCall_CombineConference :: "env \<Rightarrow> call \<Rightarrow> conferences \<Rightarrow> conf_outcome" where
  "OTTCall_CombineConference e c g =
     
     (let (ret, f) = SetMainCall (m_callId c) (the_ott g); g = g\<lparr>the_ott := f\<rparr> in
      if ret \<noteq> TELEPHONY_SUCCESS then (ret, [], c, g)
      else
        let (ret, info) = PackOttCallRequestInfo c default_ott_info in
        if ret \<noteq> TELEPHONY_SUCCESS then (ret, [], c, g)
        else if ott e = None then (TELEPHONY_ERR_LOCAL_PTR_NULL, [], c, g)
        else if cf_state f = CONFERENCE_STATE_CREATING then (TELEPHONY_SUCCESS, [], c, g)
        else let (ret, qs, c) = request (ott e) (OttCombine info) c
             in (ret, qs, c, g\<lparr>the_ott := SetConferenceState CONFERENCE_STATE_CREATING f\<rparr>))"

definition OTTCall_HandleCombineConferenceFailEvent :: "conferences \<Rightarrow> conferences" where
  "OTTCall_HandleCombineConferenceFailEvent g =
     
     (let f = the_ott g;
          f = (if cf_subCallIdSet f = {} then snd (SetMainCall ERR_ID f)
               else snd (SetMainCall (the (begin_elem (cf_subCallIdSet f))) f))
      in g\<lparr>the_ott := SetConferenceState (cf_oldState f) f\<rparr>)"

definition OTTCall_IsSupportConferenceable :: "call \<Rightarrow> ErrCode" where
  "OTTCall_IsSupportConferenceable c = TELEPHONY_SUCCESS"

definition OTTCall_CanCombineConference :: "call \<Rightarrow> conferences \<Rightarrow> ErrCode" where
  "OTTCall_CanCombineConference c g =
     
     (let ret = OTTCall_IsSupportConferenceable c in
      if ret \<noteq> TELEPHONY_SUCCESS then ret else OttConference_CanCombineConference (the_ott g))"

definition OTTCall_CanSeparateConference :: "conferences \<Rightarrow> ErrCode" where
  "OTTCall_CanSeparateConference g = OttConference_CanSeparateConference (the_ott g)"

definition OTTCall_CanKickOutFromConference :: "conferences \<Rightarrow> ErrCode" where
  "OTTCall_CanKickOutFromConference g = OttConference_CanKickOutFromConference (the_ott g)"

definition OTTCall_LaunchConference ::
  "int \<Rightarrow> call \<Rightarrow> conferences \<Rightarrow> ErrCode \<times> call \<times> conferences" where
  "OTTCall_LaunchConference t c g =
     
     (let (ret, f) = OttConference_JoinToConference t (m_callId c) (the_ott g);
          c = (if ret = TELEPHONY_SUCCESS then SetTelConferenceState TEL_CONFERENCE_ACTIVE c else c)
      in (ret, c, g\<lparr>the_ott := f\<rparr>))"

definition OTTCall_ExitConference ::
  "call \<Rightarrow> conferences \<Rightarrow> (ErrCode \<times> call \<times> conferences) option" where
  "OTTCall_ExitConference c g =
     
     (case OttConference_LeaveFromConference (m_callId c) (the_ott g) of
        None \<Rightarrow> None
      | Some (ret, f) \<Rightarrow>
          Some (ret, if ret = TELEPHONY_SUCCESS then SetTelConferenceState TEL_CONFERENCE_IDLE c else c,
                g\<lparr>the_ott := f\<rparr>))"

definition OTTCall_HoldConference :: "call \<Rightarrow> conferences \<Rightarrow> ErrCode \<times> call \<times> conferences" where
  "OTTCall_HoldConference c g =
     
     (let (ret, f) = OttConference_HoldConference (m_callId c) (the_ott g);
          c = (if ret = TELEPHONY_SUCCESS then SetTelConferenceState TEL_CONFERENCE_HOLDING c else c)
      in (ret, c, g\<lparr>the_ott := f\<rparr>))"

definition OTTCall_GetSubCallIdList :: "call \<Rightarrow> conferences \<Rightarrow> ErrCode \<times> string list" where
  "OTTCall_GetSubCallIdList c g = Conference.GetSubCallIdList (m_callId c) (the_ott g)"

definition OTTCall_GetCallIdListForConference ::
  "call \<Rightarrow> conferences \<Rightarrow> ErrCode \<times> string list" where
  "OTTCall_GetCallIdListForConference c g =
     Conference.GetCallIdListForConference (m_callId c) (the_ott g)"

definition CSCall_UpdateConferenceId :: "int \<Rightarrow> conferences \<Rightarrow> conferences" where
  "CSCall_UpdateConferenceId i g = g\<lparr>the_cs := CsConference_UpdateConferenceId i (the_cs g)\<rparr>"

definition CSCall_SeparateConference :: "env \<Rightarrow> call \<Rightarrow> outcome" where
  "CSCall_SeparateConference e c = CarrierSeparateConference e c"

definition CSCall_KickOutFromConference :: "env \<Rightarrow> call \<Rightarrow> outcome" where
  "CSCall_KickOutFromConference e c = CarrierKickOutFromConference e c"

definition IMSCall_SeparateConference :: "env \<Rightarrow> call \<Rightarrow> outcome" where
  "IMSCall_SeparateConference e c = CarrierSeparateConference e c"

definition IMSCall_KickOutFromConference :: "env \<Rightarrow> call \<Rightarrow> outcome" where
  "IMSCall_KickOutFromConference e c = CarrierKickOutFromConference e c"

definition SatelliteCall_CombineConference :: "call \<Rightarrow> ErrCode" where
  "SatelliteCall_CombineConference c = TELEPHONY_ERROR"

definition SatelliteCall_SeparateConference :: "call \<Rightarrow> ErrCode" where
  "SatelliteCall_SeparateConference c = TELEPHONY_ERROR"

definition SatelliteCall_KickOutFromConference :: "call \<Rightarrow> ErrCode" where
  "SatelliteCall_KickOutFromConference c = TELEPHONY_ERROR"

definition SatelliteCall_CanCombineConference :: "call \<Rightarrow> ErrCode" where
  "SatelliteCall_CanCombineConference c = TELEPHONY_ERROR"

definition SatelliteCall_CanSeparateConference :: "call \<Rightarrow> ErrCode" where
  "SatelliteCall_CanSeparateConference c = TELEPHONY_ERROR"

definition SatelliteCall_CanKickOutFromConference :: "call \<Rightarrow> ErrCode" where
  "SatelliteCall_CanKickOutFromConference c = TELEPHONY_ERROR"

definition SatelliteCall_LaunchConference :: "call \<Rightarrow> ErrCode" where
  "SatelliteCall_LaunchConference c = TELEPHONY_ERROR"

definition SatelliteCall_ExitConference :: "call \<Rightarrow> ErrCode" where
  "SatelliteCall_ExitConference c = TELEPHONY_ERROR"

definition SatelliteCall_HoldConference :: "call \<Rightarrow> ErrCode" where
  "SatelliteCall_HoldConference c = TELEPHONY_ERROR"

definition SatelliteCall_IsSupportConferenceable :: "call \<Rightarrow> ErrCode" where
  "SatelliteCall_IsSupportConferenceable c = TELEPHONY_ERROR"

definition VoIPCall_CombineConference :: "call \<Rightarrow> ErrCode" where
  "VoIPCall_CombineConference c = TELEPHONY_SUCCESS"

definition VoIPCall_SeparateConference :: "call \<Rightarrow> ErrCode" where
  "VoIPCall_SeparateConference c = TELEPHONY_SUCCESS"

definition VoIPCall_KickOutFromConference :: "call \<Rightarrow> ErrCode" where
  "VoIPCall_KickOutFromConference c = TELEPHONY_SUCCESS"

definition VoIPCall_CanCombineConference :: "call \<Rightarrow> ErrCode" where
  "VoIPCall_CanCombineConference c = TELEPHONY_SUCCESS"

definition VoIPCall_CanSeparateConference :: "call \<Rightarrow> ErrCode" where
  "VoIPCall_CanSeparateConference c = TELEPHONY_SUCCESS"

definition VoIPCall_CanKickOutFromConference :: "call \<Rightarrow> ErrCode" where
  "VoIPCall_CanKickOutFromConference c = TELEPHONY_SUCCESS"

definition VoIPCall_LaunchConference :: "call \<Rightarrow> ErrCode" where
  "VoIPCall_LaunchConference c = TELEPHONY_SUCCESS"

definition VoIPCall_ExitConference :: "call \<Rightarrow> ErrCode" where
  "VoIPCall_ExitConference c = TELEPHONY_SUCCESS"

definition VoIPCall_HoldConference :: "call \<Rightarrow> ErrCode" where
  "VoIPCall_HoldConference c = TELEPHONY_SUCCESS"

definition VoIPCall_IsSupportConferenceable :: "call \<Rightarrow> ErrCode" where
  "VoIPCall_IsSupportConferenceable c = TELEPHONY_SUCCESS"

definition BluetoothCall_CombineConference :: "call \<Rightarrow> ErrCode" where
  "BluetoothCall_CombineConference c = TELEPHONY_SUCCESS"

definition BluetoothCall_SeparateConference :: "call \<Rightarrow> ErrCode" where
  "BluetoothCall_SeparateConference c = TELEPHONY_SUCCESS"

definition BluetoothCall_KickOutFromConference :: "call \<Rightarrow> ErrCode" where
  "BluetoothCall_KickOutFromConference c = TELEPHONY_SUCCESS"

definition BluetoothCall_CanCombineConference :: "call \<Rightarrow> ErrCode" where
  "BluetoothCall_CanCombineConference c = TELEPHONY_SUCCESS"

definition BluetoothCall_CanSeparateConference :: "call \<Rightarrow> ErrCode" where
  "BluetoothCall_CanSeparateConference c = TELEPHONY_SUCCESS"

definition BluetoothCall_CanKickOutFromConference :: "call \<Rightarrow> ErrCode" where
  "BluetoothCall_CanKickOutFromConference c = TELEPHONY_SUCCESS"

definition BluetoothCall_LaunchConference :: "call \<Rightarrow> ErrCode" where
  "BluetoothCall_LaunchConference c = TELEPHONY_SUCCESS"

definition BluetoothCall_ExitConference :: "call \<Rightarrow> ErrCode" where
  "BluetoothCall_ExitConference c = TELEPHONY_SUCCESS"

definition BluetoothCall_HoldConference :: "call \<Rightarrow> ErrCode" where
  "BluetoothCall_HoldConference c = TELEPHONY_SUCCESS"

definition BluetoothCall_IsSupportConferenceable :: "call \<Rightarrow> ErrCode" where
  "BluetoothCall_IsSupportConferenceable c = TELEPHONY_SUCCESS"

definition DialingProcess ::
  "env \<Rightarrow> call \<Rightarrow> outcome option" where
  "DialingProcess e c =
     (case m_class c of
        CSCall \<Rightarrow> Some (CSCall_DialingProcess e c)
      | IMSCall \<Rightarrow> Some (IMSCall_DialingProcess e c)
      | SatelliteCall \<Rightarrow> Some (SatelliteCall_DialingProcess e c)
      | VoIPCall \<Rightarrow> Some (VoIPCall_DialingProcess c)
      | BluetoothCall \<Rightarrow> Some (BluetoothCall_DialingProcess c)
      | OTTCall \<Rightarrow> OTTCall_DialingProcess e c)"

definition AnswerCall ::
  "build \<Rightarrow> env \<Rightarrow> int \<Rightarrow> bool \<Rightarrow> call \<Rightarrow> outcome" where
  "AnswerCall b e vs rtt c =
     (case m_class c of
        CSCall \<Rightarrow> CSCall_AnswerCall e vs rtt c
      | IMSCall \<Rightarrow> IMSCall_AnswerCall b e vs rtt c
      | SatelliteCall \<Rightarrow> SatelliteCall_AnswerCall e vs rtt c
      | VoIPCall \<Rightarrow> VoIPCall_AnswerCall vs c
      | BluetoothCall \<Rightarrow> BluetoothCall_AnswerCall e c
      | OTTCall \<Rightarrow> OTTCall_AnswerCall e vs rtt c)"

definition RejectCall ::
  "env \<Rightarrow> call \<Rightarrow> outcome" where
  "RejectCall e c =
     (case m_class c of
        CSCall \<Rightarrow> CSCall_RejectCall e c
      | IMSCall \<Rightarrow> IMSCall_RejectCall e c
      | SatelliteCall \<Rightarrow> SatelliteCall_RejectCall e c
      | VoIPCall \<Rightarrow> VoIPCall_RejectCall c
      | BluetoothCall \<Rightarrow> BluetoothCall_RejectCall e c
      | OTTCall \<Rightarrow> OTTCall_RejectCall e c)"

definition HangUpCall ::
  "build \<Rightarrow> env \<Rightarrow> call \<Rightarrow> outcome option" where
  "HangUpCall b e c =
     (case m_class c of
        CSCall \<Rightarrow> Some (CSCall_HangUpCall e c)
      | IMSCall \<Rightarrow> Some (IMSCall_HangUpCall e c)
      | SatelliteCall \<Rightarrow> Some (SatelliteCall_HangUpCall e c)
      | VoIPCall \<Rightarrow> Some (VoIPCall_HangUpCall c)
      | BluetoothCall \<Rightarrow> Some (BluetoothCall_HangUpCall b e c)
      | OTTCall \<Rightarrow> OTTCall_HangUpCall e c)"

definition HoldCall ::
  "env \<Rightarrow> call \<Rightarrow> outcome" where
  "HoldCall e c =
     (case m_class c of
        CSCall \<Rightarrow> CSCall_HoldCall e c
      | IMSCall \<Rightarrow> IMSCall_HoldCall e c
      | SatelliteCall \<Rightarrow> SatelliteCall_HoldCall c
      | VoIPCall \<Rightarrow> VoIPCall_HoldCall c
      | BluetoothCall \<Rightarrow> BluetoothCall_HoldCall e c
      | OTTCall \<Rightarrow> OTTCall_HoldCall e c)"

definition UnHoldCall ::
  "env \<Rightarrow> call \<Rightarrow> outcome" where
  "UnHoldCall e c =
     (case m_class c of
        CSCall \<Rightarrow> CSCall_UnHoldCall e c
      | IMSCall \<Rightarrow> IMSCall_UnHoldCall e c
      | SatelliteCall \<Rightarrow> SatelliteCall_UnHoldCall c
      | VoIPCall \<Rightarrow> VoIPCall_UnHoldCall c
      | BluetoothCall \<Rightarrow> BluetoothCall_UnHoldCall e c
      | OTTCall \<Rightarrow> OTTCall_UnHoldCall e c)"

definition SwitchCall ::
  "env \<Rightarrow> call \<Rightarrow> outcome" where
  "SwitchCall e c =
     (case m_class c of
        CSCall \<Rightarrow> CSCall_SwitchCall e c
      | IMSCall \<Rightarrow> IMSCall_SwitchCall e c
      | SatelliteCall \<Rightarrow> SatelliteCall_SwitchCall c
      | VoIPCall \<Rightarrow> VoIPCall_SwitchCall c
      | BluetoothCall \<Rightarrow> BluetoothCall_SwitchCall c
      | OTTCall \<Rightarrow> OTTCall_SwitchCall e c)"

definition SetMute ::
  "want_api \<Rightarrow> env \<Rightarrow> int \<Rightarrow> int \<Rightarrow> call \<Rightarrow> outcome" where
  "SetMute w e mute slot c =
     (case m_class c of
        CSCall \<Rightarrow> CSCall_SetMute e mute slot c
      | IMSCall \<Rightarrow> IMSCall_SetMute e mute slot c
      | SatelliteCall \<Rightarrow> SatelliteCall_SetMute c
      | VoIPCall \<Rightarrow> VoIPCall_SetMute w mute slot c
      | BluetoothCall \<Rightarrow> BluetoothCall_SetMute c
      | OTTCall \<Rightarrow> OTTCall_SetMute c)"

definition StartDtmf ::
  "env \<Rightarrow> char \<Rightarrow> call \<Rightarrow> outcome" where
  "StartDtmf e str c =
     (case m_class c of
        CSCall \<Rightarrow> Carrier_StartDtmf e str c
      | IMSCall \<Rightarrow> Carrier_StartDtmf e str c
      | SatelliteCall \<Rightarrow> Carrier_StartDtmf e str c
      | VoIPCall \<Rightarrow> Carrier_StartDtmf e str c
      | BluetoothCall \<Rightarrow> BluetoothCall_StartDtmf e str c
      | OTTCall \<Rightarrow> OTTCall_StartDtmf c)"

definition StopDtmf ::
  "env \<Rightarrow> call \<Rightarrow> outcome" where
  "StopDtmf e c =
     (case m_class c of
        CSCall \<Rightarrow> Carrier_StopDtmf e c
      | IMSCall \<Rightarrow> Carrier_StopDtmf e c
      | SatelliteCall \<Rightarrow> Carrier_StopDtmf e c
      | VoIPCall \<Rightarrow> Carrier_StopDtmf e c
      | BluetoothCall \<Rightarrow> Carrier_StopDtmf e c
      | OTTCall \<Rightarrow> OTTCall_StopDtmf c)"

definition PostDialProceed ::
  "env \<Rightarrow> bool \<Rightarrow> call \<Rightarrow> outcome" where
  "PostDialProceed e proceed c =
     (case m_class c of
        CSCall \<Rightarrow> Carrier_PostDialProceed e proceed c
      | IMSCall \<Rightarrow> Carrier_PostDialProceed e proceed c
      | SatelliteCall \<Rightarrow> Carrier_PostDialProceed e proceed c
      | VoIPCall \<Rightarrow> Carrier_PostDialProceed e proceed c
      | BluetoothCall \<Rightarrow> Carrier_PostDialProceed e proceed c
      | OTTCall \<Rightarrow> OTTCall_PostDialProceed c)"

text \<open>
  The slot of an OTT call is an error code; the number of a code depends on an offset of
  another component, so the numbering is an argument.
\<close>

definition GetSlotId ::
  "(ErrCode \<Rightarrow> int) \<Rightarrow> call \<Rightarrow> int" where
  "GetSlotId code c =
     (case m_class c of
        CSCall \<Rightarrow> m_slotId c
      | IMSCall \<Rightarrow> m_slotId c
      | SatelliteCall \<Rightarrow> m_slotId c
      | VoIPCall \<Rightarrow> m_slotId c
      | BluetoothCall \<Rightarrow> m_slotId c
      | OTTCall \<Rightarrow> code CALL_ERR_ILLEGAL_CALL_OPERATION)"

definition GetCallIndex ::
  "call \<Rightarrow> int" where
  "GetCallIndex  c =
     (case m_class c of
        CSCall \<Rightarrow> m_index c
      | IMSCall \<Rightarrow> m_index c
      | SatelliteCall \<Rightarrow> m_index c
      | VoIPCall \<Rightarrow> m_index c
      | BluetoothCall \<Rightarrow> m_index c
      | OTTCall \<Rightarrow> 0)"

definition GetEmergencyState ::
  "call \<Rightarrow> bool" where
  "GetEmergencyState  c =
     (case m_class c of
        CSCall \<Rightarrow> m_isEcc c
      | IMSCall \<Rightarrow> m_isEcc c
      | SatelliteCall \<Rightarrow> m_isEcc c
      | VoIPCall \<Rightarrow> m_isEcc c
      | BluetoothCall \<Rightarrow> m_isEcc c
      | OTTCall \<Rightarrow> False)"

definition IsTransferCall ::
  "build \<Rightarrow> call \<Rightarrow> bool" where
  "IsTransferCall b c =
     (case m_class c of
        CSCall \<Rightarrow> False
      | IMSCall \<Rightarrow> False
      | SatelliteCall \<Rightarrow> False
      | VoIPCall \<Rightarrow> False
      | BluetoothCall \<Rightarrow> if call_transfer b then m_isTransferCall c else False
      | OTTCall \<Rightarrow> False)"

definition GetCallAttributeInfo ::
  "build \<Rightarrow> want_api \<Rightarrow> call \<Rightarrow> CallAttributeInfo \<Rightarrow> CallAttributeInfo" where
  "GetCallAttributeInfo b w c info =
     (case m_class c of
        CSCall \<Rightarrow> GetCallAttributeCarrierInfo w c info
      | IMSCall \<Rightarrow> IMSCall_GetCallAttributeInfo b w c info
      | SatelliteCall \<Rightarrow> GetCallAttributeCarrierInfo w c info
      | VoIPCall \<Rightarrow> VoIPCall_GetCallAttributeInfo w c info
      | BluetoothCall \<Rightarrow> BluetoothCall_GetCallAttributeInfo w c info
      | OTTCall \<Rightarrow> GetCallAttributeBaseInfo w c info)"

definition CombineConference :: "env \<Rightarrow> call \<Rightarrow> conferences \<Rightarrow> conf_outcome" where
  "CombineConference e c g =
     (case m_class c of
        CSCall \<Rightarrow> CSCall_CombineConference e c g
      | IMSCall \<Rightarrow> IMSCall_CombineConference e c g
      | OTTCall \<Rightarrow> OTTCall_CombineConference e c g
      | SatelliteCall \<Rightarrow> (SatelliteCall_CombineConference c, [], c, g)
      | VoIPCall \<Rightarrow> (VoIPCall_CombineConference c, [], c, g)
      | BluetoothCall \<Rightarrow> (BluetoothCall_CombineConference c, [], c, g))"

definition HandleCombineConferenceFailEvent :: "call \<Rightarrow> conferences \<Rightarrow> conferences" where
  "HandleCombineConferenceFailEvent c g =
     (case m_class c of
        CSCall \<Rightarrow> CSCall_HandleCombineConferenceFailEvent g
      | IMSCall \<Rightarrow> IMSCall_HandleCombineConferenceFailEvent g
      | OTTCall \<Rightarrow> OTTCall_HandleCombineConferenceFailEvent g
      | _ \<Rightarrow> g)"

definition CanCombineConference :: "call \<Rightarrow> conferences \<Rightarrow> ErrCode" where
  "CanCombineConference c g =
     (case m_class c of
        CSCall \<Rightarrow> CSCall_CanCombineConference c g
      | IMSCall \<Rightarrow> IMSCall_CanCombineConference c g
      | OTTCall \<Rightarrow> OTTCall_CanCombineConference c g
      | SatelliteCall \<Rightarrow> SatelliteCall_CanCombineConference c
      | VoIPCall \<Rightarrow> VoIPCall_CanCombineConference c
      | BluetoothCall \<Rightarrow> BluetoothCall_CanCombineConference c)"

definition CanSeparateConference :: "call \<Rightarrow> conferences \<Rightarrow> ErrCode" where
  "CanSeparateConference c g =
     (case m_class c of
        CSCall \<Rightarrow> CSCall_CanSeparateConference g
      | IMSCall \<Rightarrow> IMSCall_CanSeparateConference g
      | OTTCall \<Rightarrow> OTTCall_CanSeparateConference g
      | SatelliteCall \<Rightarrow> SatelliteCall_CanSeparateConference c
      | VoIPCall \<Rightarrow> VoIPCall_CanSeparateConference c
      | BluetoothCall \<Rightarrow> BluetoothCall_CanSeparateConference c)"

definition CanKickOutFromConference :: "call \<Rightarrow> conferences \<Rightarrow> ErrCode" where
  "CanKickOutFromConference c g =
     (case m_class c of
        CSCall \<Rightarrow> CSCall_CanKickOutFromConference g
      | IMSCall \<Rightarrow> IMSCall_CanKickOutFromConference g
      | OTTCall \<Rightarrow> OTTCall_CanKickOutFromConference g
      | SatelliteCall \<Rightarrow> SatelliteCall_CanKickOutFromConference c
      | VoIPCall \<Rightarrow> VoIPCall_CanKickOutFromConference c
      | BluetoothCall \<Rightarrow> BluetoothCall_CanKickOutFromConference c)"

definition SeparateConference :: "env \<Rightarrow> call \<Rightarrow> outcome" where
  "SeparateConference e c =
     (case m_class c of
        CSCall \<Rightarrow> CSCall_SeparateConference e c
      | IMSCall \<Rightarrow> IMSCall_SeparateConference e c
      | OTTCall \<Rightarrow> OTTCall_SeparateConference e c
      | SatelliteCall \<Rightarrow> (SatelliteCall_SeparateConference c, [], c)
      | VoIPCall \<Rightarrow> (VoIPCall_SeparateConference c, [], c)
      | BluetoothCall \<Rightarrow> (BluetoothCall_SeparateConference c, [], c))"

definition KickOutFromConference :: "env \<Rightarrow> call \<Rightarrow> outcome" where
  "KickOutFromConference e c =
     (case m_class c of
        CSCall \<Rightarrow> CSCall_KickOutFromConference e c
      | IMSCall \<Rightarrow> IMSCall_KickOutFromConference e c
      | OTTCall \<Rightarrow> OTTCall_KickOutFromConference e c
      | SatelliteCall \<Rightarrow> (SatelliteCall_KickOutFromConference c, [], c)
      | VoIPCall \<Rightarrow> (VoIPCall_KickOutFromConference c, [], c)
      | BluetoothCall \<Rightarrow> (BluetoothCall_KickOutFromConference c, [], c))"

definition LaunchConference ::
  "int \<Rightarrow> call \<Rightarrow> conferences \<Rightarrow> ErrCode \<times> call \<times> conferences" where
  "LaunchConference t c g =
     (case m_class c of
        CSCall \<Rightarrow> CSCall_LaunchConference t c g
      | IMSCall \<Rightarrow> IMSCall_LaunchConference t c g
      | OTTCall \<Rightarrow> OTTCall_LaunchConference t c g
      | SatelliteCall \<Rightarrow> (SatelliteCall_LaunchConference c, c, g)
      | VoIPCall \<Rightarrow> (VoIPCall_LaunchConference c, c, g)
      | BluetoothCall \<Rightarrow> (BluetoothCall_LaunchConference c, c, g))"

definition ExitConference ::
  "call \<Rightarrow> conferences \<Rightarrow> (ErrCode \<times> call \<times> conferences) option" where
  "ExitConference c g =
     (case m_class c of
        CSCall \<Rightarrow> CSCall_ExitConference c g
      | IMSCall \<Rightarrow> IMSCall_ExitConference c g
      | OTTCall \<Rightarrow> OTTCall_ExitConference c g
      | SatelliteCall \<Rightarrow> Some (SatelliteCall_ExitConference c, c, g)
      | VoIPCall \<Rightarrow> Some (VoIPCall_ExitConference c, c, g)
      | BluetoothCall \<Rightarrow> Some (BluetoothCall_ExitConference c, c, g))"

definition HoldConference :: "call \<Rightarrow> conferences \<Rightarrow> ErrCode \<times> call \<times> conferences" where
  "HoldConference c g =
     (case m_class c of
        CSCall \<Rightarrow> CSCall_HoldConference c g
      | IMSCall \<Rightarrow> IMSCall_HoldConference c g
      | OTTCall \<Rightarrow> OTTCall_HoldConference c g
      | SatelliteCall \<Rightarrow> (SatelliteCall_HoldConference c, c, g)
      | VoIPCall \<Rightarrow> (VoIPCall_HoldConference c, c, g)
      | BluetoothCall \<Rightarrow> (BluetoothCall_HoldConference c, c, g))"

lemmas combine_defs [cm_defs] = CSCall_CombineConference_def IMSCall_CombineConference_def
  OTTCall_CombineConference_def

lemmas launch_defs [cm_defs] = CSCall_LaunchConference_def IMSCall_LaunchConference_def
  OTTCall_LaunchConference_def

lemmas rollback_defs [cm_defs] = CSCall_HandleCombineConferenceFailEvent_def
  IMSCall_HandleCombineConferenceFailEvent_def OTTCall_HandleCombineConferenceFailEvent_def

lemmas class_answer_defs [cm_defs] = CSCall_AnswerCall_def IMSCall_AnswerCall_def
  SatelliteCall_AnswerCall_def

lemmas class_control_defs [cm_defs] = CSCall_RejectCall_def IMSCall_RejectCall_def
  SatelliteCall_RejectCall_def CSCall_HangUpCall_def IMSCall_HangUpCall_def
  SatelliteCall_HangUpCall_def CSCall_HoldCall_def IMSCall_HoldCall_def
  SatelliteCall_HoldCall_def CSCall_UnHoldCall_def IMSCall_UnHoldCall_def
  SatelliteCall_UnHoldCall_def CSCall_SwitchCall_def IMSCall_SwitchCall_def
  SatelliteCall_SwitchCall_def

subsection \<open>Requests and acceptance\<close>

text \<open>
  What success means for a carrier call: one request was sent to the cellular stack, it
  carries the identity of the call, and the stack accepted it.
\<close>

fun request_info :: "Request \<Rightarrow> CellularCallInfo option" where
  "request_info (ReqAnswer i) = Some i"
| "request_info (ReqHangUp i _) = Some i"
| "request_info (ReqHold i) = Some i"
| "request_info (ReqUnHold i) = Some i"
| "request_info (ReqSwitch i) = Some i"
| "request_info _ = None"

definition accepted_for :: "env \<Rightarrow> call \<Rightarrow> Request list \<Rightarrow> bool" where
  "accepted_for e c qs =
     (case cellular e of
        None \<Rightarrow> False
      | Some f \<Rightarrow>
          (case qs of
             [q] \<Rightarrow> f q = TELEPHONY_SUCCESS \<and>
                   (case request_info q of
                      None \<Rightarrow> False
                    | Some i \<Rightarrow> c_callId i = m_callId c \<and> c_slotId i = m_slotId c \<and>
                               c_index i = m_index c)
           | _ \<Rightarrow> False))"

lemma accepted_for_rtt [simp]:
  "accepted_for e (c\<lparr>m_rttState := s\<rparr>) qs = accepted_for e c qs"
  by (simp add: accepted_for_def split: option.splits list.splits)

lemma request_or_accepted:
  assumes "err \<noteq> TELEPHONY_SUCCESS" and "request_info q = Some i"
    and "c_callId i = m_callId c" "c_slotId i = m_slotId c" "c_index i = m_index c"
  shows "fst (request_or err (cellular e) q c') = TELEPHONY_SUCCESS \<longleftrightarrow>
         accepted_for e c (fst (snd (request_or err (cellular e) q c')))"
  using assms by (auto simp: request_or_def accepted_for_def split: option.splits)

lemma carrier_control_accepted:
  "fst (CarrierHangUpCall e c) = TELEPHONY_SUCCESS \<longleftrightarrow>
     accepted_for e c (fst (snd (CarrierHangUpCall e c)))"
  "fst (CarrierHoldCall e c) = TELEPHONY_SUCCESS \<longleftrightarrow>
     accepted_for e c (fst (snd (CarrierHoldCall e c)))"
  "fst (CarrierUnHoldCall e c) = TELEPHONY_SUCCESS \<longleftrightarrow>
     accepted_for e c (fst (snd (CarrierUnHoldCall e c)))"
  "fst (CarrierSwitchCall e c) = TELEPHONY_SUCCESS \<longleftrightarrow>
     accepted_for e c (fst (snd (CarrierSwitchCall e c)))"
  by (simp_all add: CarrierHangUpCall_def CarrierHoldCall_def CarrierUnHoldCall_def
      CarrierSwitchCall_def request_or_accepted)

lemma carrier_reject_accepted:
  "fst (CarrierRejectCall e c) = TELEPHONY_SUCCESS \<longleftrightarrow>
     accepted_for e c (fst (snd (CarrierRejectCall e c)))"
proof -
  obtain c' where r: "RejectCallBase c = (TELEPHONY_SUCCESS, c')"
    and i: "m_callId c' = m_callId c" "m_slotId c' = m_slotId c" "m_index c' = m_index c"
    by (simp add: RejectCallBase_def)
  have "CarrierRejectCall e c =
          request_or CALL_ERR_REJECT_FAILED (cellular e) (ReqHangUp (packed c') TYPE_DEFAULT) c'"
    by (simp add: CarrierRejectCall_def r)
  then show ?thesis by (simp add: request_or_accepted i)
qed

lemma carrier_answer_accepted:
  "fst (CarrierAnswerCall e vs rtt c) = TELEPHONY_SUCCESS \<longleftrightarrow>
     IsCurrentRinging c \<and> accepted_for e c (fst (snd (CarrierAnswerCall e vs rtt c)))"
proof (cases "IsCurrentRinging c")
  case True
  then have "CarrierAnswerCall e vs rtt c = request_or CALL_ERR_ANSWER_FAILED (cellular e)
               (ReqAnswer ((packed c)\<lparr>c_videoState := vs, c_isRTT := rtt\<rparr>)) c"
    by (simp add: CarrierAnswerCall_def AnswerCallBase_def)
  with True show ?thesis by (simp add: request_or_accepted)
qed (simp add: CarrierAnswerCall_def AnswerCallBase_def)

subsection \<open>Merging calls\<close>

lemma ims_combine_creating:
  assumes "CombineConference e c g = (ret, qs, c', g')" and "m_class c = IMSCall"
    and "ERR_ID \<le> m_callId c"
  shows "cf_state (the_ims g') = CONFERENCE_STATE_CREATING \<and>
         cf_mainCallId (the_ims g') = m_callId c \<and>
         cf_subCallIdSet (the_ims g') = cf_subCallIdSet (the_ims g) \<and>
         cf_oldState (the_ims g') = cf_oldState (the_ims g)"
  using assms
  by (auto simp: CombineConference_def combine_defs SetMainCall_def SetConferenceState_def
      CarrierCombineConference_def request_def Let_def split: if_splits option.splits)

lemma ims_launch_creating:
  assumes "cf_state (the_ims g) = CONFERENCE_STATE_CREATING" and "m_class d = IMSCall"
  shows "LaunchConference t d g =
           (TELEPHONY_SUCCESS, SetTelConferenceState TEL_CONFERENCE_ACTIVE d,
            g\<lparr>the_ims := snd (ImsConference_JoinToConference t (m_callId d) (the_ims g))\<rparr>)"
  using assms by (simp add: LaunchConference_def launch_defs join_defs)

subsection \<open>Properties\<close>

definition sample_cs_call :: call where
  "sample_cs_call = CarrierCall_incoming CSCall sample_info"

definition sample_ims_call :: call where
  "sample_ims_call = CarrierCall_incoming IMSCall (sample_info\<lparr>d_callId := 2, d_callType := TYPE_IMS\<rparr>)"

definition sample_env :: env where
  "sample_env = \<lparr>cellular = Some (\<lambda>_. TELEPHONY_SUCCESS), ott = Some (\<lambda>_. TELEPHONY_SUCCESS),
     hands_free = True\<rparr>"

lemmas sample_call_defs = sample_cs_call_def sample_ims_call_def sample_env_def
  CarrierCall_incoming_def extend_call_def call_base.defs CallBase_incoming_def
  CallBase_init_def sample_info_def

lemma sample_call_fields:
  "m_class sample_cs_call = CSCall" "m_class sample_ims_call = IMSCall"
  "ERR_ID \<le> m_callId sample_ims_call" "the_ims initial_conferences = ImsConference"
  "cf_subCallIdSet ImsConference = {}" "cf_oldState ImsConference = CONFERENCE_STATE_IDLE"
  by (simp_all add: sample_call_defs ERR_ID_def initial_conferences_def conference_inits)

text \<open>
  Launching the conference of a CS call always fails: the function sets the
  conference IDLE immediately before joining it, and an idle conference refuses the
  join.  The call keeps its conference state, no member is added, and the state that the
  merge had prepared (CREATING) is lost.
\<close>

theorem cs_launch_always_fails:
  "CSCall_LaunchConference t c g =
     (CALL_ERR_ILLEGAL_CALL_OPERATION, c,
      g\<lparr>the_cs := (the_cs g)\<lparr>cf_state := CONFERENCE_STATE_IDLE\<rparr>\<rparr>)"
  by (simp add: launch_defs join_defs SetConferenceState_def)

text \<open>
  An IMS merge goes through: once CombineConference has been called on an IMS call
  with a valid id, whatever the stack answered, launching any IMS call adds it to the
  conference, marks the call active in it and makes the conference active with the
  first call as host.
\<close>

theorem ims_merge_launches:
  assumes "CombineConference e c g = (ret, qs, c', g')"
    and "m_class c = IMSCall" and "ERR_ID \<le> m_callId c" and "m_class d = IMSCall"
  shows "\<exists>g''. LaunchConference t d g' =
           (TELEPHONY_SUCCESS, d\<lparr>m_conferenceState := TEL_CONFERENCE_ACTIVE\<rparr>, g'') \<and>
         cf_subCallIdSet (the_ims g'') = insert (m_callId d) (cf_subCallIdSet (the_ims g)) \<and>
         cf_state (the_ims g'') = CONFERENCE_STATE_ACTIVE \<and>
         cf_mainCallId (the_ims g'') = m_callId c \<and> the_cs g'' = the_cs g'"
proof -
  note k = ims_combine_creating [OF assms(1-3)]
  have "fst (ImsConference_JoinToConference t (m_callId d) (the_ims g')) = TELEPHONY_SUCCESS"
    using k by (simp add: join_defs)
  then show ?thesis
    using k ims_launch_creating [of g' d t] assms(4) ims_conf.join_members
    by (simp add: SetTelConferenceState_def ImsConference_JoinToConference_def)
qed

theorem ims_merge_launches_witness:
  "\<exists>g''. LaunchConference 5 sample_ims_call
           (snd (snd (snd (CombineConference sample_env sample_ims_call initial_conferences)))) =
         (TELEPHONY_SUCCESS, sample_ims_call\<lparr>m_conferenceState := TEL_CONFERENCE_ACTIVE\<rparr>, g'')"
proof -
  let ?r = "CombineConference sample_env sample_ims_call initial_conferences"
  have "?r = (fst ?r, fst (snd ?r), fst (snd (snd ?r)), snd (snd (snd ?r)))" by simp
  from ims_merge_launches [OF this, of sample_ims_call 5] show ?thesis
    by (auto simp: sample_call_fields)
qed

text \<open>
  C12: A failed IMS merge is rolled back: after CombineConference and the failure event,
  the conference has the members it had and its saved state back.  The host is not restored
  to whoever it was: it becomes the smallest member, or the invalid id when there is none.
  When the conference object was reached by its own operations, it is idle exactly when it
  is empty.
\<close>

theorem ims_failed_merge_rolls_back:
  assumes "CombineConference e c g = (ret, qs, c', g')"
    and "m_class c = IMSCall" and "ERR_ID \<le> m_callId c"
    and "ims_reachable (the_ims g)" and "\<forall>i \<in> cf_subCallIdSet (the_ims g). 0 \<le> i"
  shows "cf_subCallIdSet (the_ims (HandleCombineConferenceFailEvent c g')) =
           cf_subCallIdSet (the_ims g) \<and>
         cf_state (the_ims (HandleCombineConferenceFailEvent c g')) = cf_oldState (the_ims g) \<and>
         cf_mainCallId (the_ims (HandleCombineConferenceFailEvent c g')) =
           (if cf_subCallIdSet (the_ims g) = {} then ERR_ID else Min (cf_subCallIdSet (the_ims g))) \<and>
         (cf_state (the_ims (HandleCombineConferenceFailEvent c g')) = CONFERENCE_STATE_IDLE \<longleftrightarrow>
          cf_subCallIdSet (the_ims g) = {})"
proof -
  note k = ims_combine_creating [OF assms(1-3)]
  have inv: "conference_inv (the_ims g)" using assms(4) by (rule ims_reachable_conference_inv)
  have m: "cf_subCallIdSet (the_ims g) \<noteq> {} \<Longrightarrow> ERR_ID \<le> Min (cf_subCallIdSet (the_ims g))"
    using Min_in [of "cf_subCallIdSet (the_ims g)"] assms(5) inv
    by (force simp: conference_inv_def ERR_ID_def)
  have roll: "the_ims (HandleCombineConferenceFailEvent c g') =
      (the_ims g')\<lparr>cf_mainCallId := (if cf_subCallIdSet (the_ims g) = {} then ERR_ID
                                     else Min (cf_subCallIdSet (the_ims g))),
                   cf_state := cf_oldState (the_ims g')\<rparr>"
    using k m assms(2)
    by (cases "cf_subCallIdSet (the_ims g) = {}")
       (simp_all add: HandleCombineConferenceFailEvent_def rollback_defs SetMainCall_def
        SetConferenceState_def begin_elem_def Let_def)
  show ?thesis using k inv by (simp add: roll conference_inv_def)
qed

theorem ims_failed_merge_rolls_back_witness:
  "cf_state (the_ims (HandleCombineConferenceFailEvent sample_ims_call
     (snd (snd (snd (CombineConference sample_env sample_ims_call initial_conferences)))))) =
   CONFERENCE_STATE_IDLE"
proof -
  let ?r = "CombineConference sample_env sample_ims_call initial_conferences"
  have "?r = (fst ?r, fst (snd ?r), fst (snd (snd ?r)), snd (snd (snd ?r)))" by simp
  from ims_failed_merge_rolls_back [OF this] show ?thesis
    by (simp add: sample_call_fields reach_init)
qed

text \<open>
  C6: For a CS or IMS call, holding, resuming, switching, hanging up and rejecting report
  success exactly when one request was sent to the cellular stack, it names the call's
  id, slot and index, and the stack accepted it; answering needs in addition that the
  call is ringing.  A missing connection, a refusal, or nothing sent is never success.
\<close>

theorem carrier_success_iff_accepted:
  assumes "m_class c = CSCall \<or> m_class c = IMSCall"
  shows "(fst (HoldCall e c) = TELEPHONY_SUCCESS \<longleftrightarrow> accepted_for e c (fst (snd (HoldCall e c)))) \<and>
         (fst (UnHoldCall e c) = TELEPHONY_SUCCESS \<longleftrightarrow>
            accepted_for e c (fst (snd (UnHoldCall e c)))) \<and>
         (fst (SwitchCall e c) = TELEPHONY_SUCCESS \<longleftrightarrow>
            accepted_for e c (fst (snd (SwitchCall e c)))) \<and>
         (fst (the (HangUpCall b e c)) = TELEPHONY_SUCCESS \<longleftrightarrow>
            accepted_for e c (fst (snd (the (HangUpCall b e c))))) \<and>
         (fst (RejectCall e c) = TELEPHONY_SUCCESS \<longleftrightarrow>
            accepted_for e c (fst (snd (RejectCall e c)))) \<and>
         (fst (AnswerCall b e vs rtt c) = TELEPHONY_SUCCESS \<longleftrightarrow>
            IsCurrentRinging c \<and> accepted_for e c (fst (snd (AnswerCall b e vs rtt c))))"
proof -
  have ims: "fst (IMSCall_AnswerCall b e vs rtt c) = TELEPHONY_SUCCESS \<longleftrightarrow>
      IsCurrentRinging c \<and> accepted_for e c (fst (snd (IMSCall_AnswerCall b e vs rtt c)))"
    using carrier_answer_accepted
      [of e vs rtt "c\<lparr>m_rttState := if rtt then RTT_STATE_YES else RTT_STATE_NO\<rparr>"]
      carrier_answer_accepted [of e vs rtt c]
    by (simp add: IMSCall_AnswerCall_def IsCurrentRinging_def Let_def)
  show ?thesis
    using assms
    by (elim disjE)
       (simp_all add: HoldCall_def UnHoldCall_def SwitchCall_def HangUpCall_def RejectCall_def
         AnswerCall_def class_control_defs CSCall_AnswerCall_def ims carrier_control_accepted
         carrier_reject_accepted carrier_answer_accepted)
qed

theorem carrier_success_iff_accepted_witness:
  "fst (HoldCall sample_env sample_cs_call) = TELEPHONY_SUCCESS \<and>
   fst (HoldCall (sample_env\<lparr>cellular := None\<rparr>) sample_cs_call) \<noteq> TELEPHONY_SUCCESS"
proof -
  have k: "m_class sample_cs_call = CSCall \<or> m_class sample_cs_call = IMSCall"
    by (simp add: sample_call_defs)
  have "HoldCall sample_env sample_cs_call =
          (TELEPHONY_SUCCESS, [ReqHold (packed sample_cs_call)], sample_cs_call)"
    by (simp add: HoldCall_def sample_call_defs CSCall_HoldCall_def CarrierHoldCall_def request_or_def)
  with carrier_success_iff_accepted [OF k, of sample_env] carrier_success_iff_accepted
      [OF k, of "sample_env\<lparr>cellular := None\<rparr>"]
  show ?thesis by (simp add: accepted_for_def)
qed

text \<open>
  The slot that GetCallAttributeCarrierInfo writes into a snapshot is overwritten by
  the base class: for every number that fits, the snapshot's account is the account
  member, whatever the slot is; only for a number that is too long does the slot remain.
\<close>

theorem carrier_snapshot_account:
  "i_accountId (GetCallAttributeCarrierInfo w (SetSlotId s c) info) =
     (if length (m_accountNumber c) > kMaxNumberLen then s else m_accountId c) \<and>
   i_index (GetCallAttributeCarrierInfo w (SetSlotId s c) info) = m_index c \<and>
   i_isEcc (GetCallAttributeCarrierInfo w (SetSlotId s c) info) = m_isEcc c"
  by (simp add: GetCallAttributeCarrierInfo_def SetSlotId_def GetCallAttributeBaseInfo_def
      fill_base_fields_def fill_mark_fields_def Let_def split: prod.splits)

text \<open>
  Updating a VoIP call reports a change exactly when one of the five updatable
  attributes differs, makes them equal to the report, keeps every other attribute, and
  a second update with the same report reports no change.
\<close>

lemma voip_update_idempotent:
  "(fst (VoIPCall_UpdateCallAttributeInfo v vs c) \<longleftrightarrow>
      (v_hasMicPermission (m_voip c), v_userName (m_voip c), v_userProfile (m_voip c),
       v_isConferenceCall (m_voip c), m_videoState c) \<noteq>
      (v_hasMicPermission v, v_userName v, v_userProfile v, v_isConferenceCall v, vs)) \<and>
   snd (VoIPCall_UpdateCallAttributeInfo v vs c) =
     c\<lparr>m_voip := (m_voip c)\<lparr>v_hasMicPermission := v_hasMicPermission v, v_userName := v_userName v,
         v_userProfile := v_userProfile v, v_isConferenceCall := v_isConferenceCall v\<rparr>,
       m_videoState := vs\<rparr> \<and>
   fst (VoIPCall_UpdateCallAttributeInfo v vs (snd (VoIPCall_UpdateCallAttributeInfo v vs c))) = False"
  by (simp add: VoIPCall_UpdateCallAttributeInfo_def SetVideoStateType_def)

end
