(* ===== verification/Video_Call_State.thy ===== *)
theory Video_Call_State
  imports Call_Dispatch
begin

text \<open>
  The negotiation of the video mode of an IMS call
  (\<^verbatim>\<open>services/call/src/video_call_state.cpp\<close> and the video part of
  \<^verbatim>\<open>ims_call.cpp\<close>).  A call owns five state objects, one per mode, each with an update
  status of its own, and a pointer to the current one.  The state objects hold a weak
  reference to their call; they are run only through the call, so the reference is always
  valid here.  Requests and reports leave through the environment.
\<close>

subsection \<open>State\<close>

datatype VideoUpdateStatus =
    STATUS_NONE | STATUS_SEND_REQUEST | STATUS_RECV_REQUEST | STATUS_RECV_RESPONSE
  | STATUS_SEND_RESPONSE

datatype VideoRequestResultType =
    TYPE_REQUEST_SUCCESS | TYPE_REQUEST_FAIL | TYPE_REQUEST_INVALID | TYPE_REQUEST_TIMED_OUT
  | REQUEST_REJECTED_BY_REMOTE | TYPE_REQUEST_UPGRADE_CANCELED
  | TYPE_MODIFY_DOWNGRADE_RTP_OR_RTCP_TIMEOUT | TYPE_MODIFY_DOWNGRADE_RTP_AND_RTCP_TIMEOUT

record CallMediaModeInfo =
  mi_callId :: int
  mi_isRequestInfo :: bool
  mi_result :: VideoRequestResultType
  mi_callMode :: ImsCallMode

record CallModeReportInfo =
  mr_callIndex :: int
  mr_result :: VideoRequestResultType
  mr_callMode :: ImsCallMode
  mr_slotId :: int

text \<open>
  The five objects are made together when the call is initialised; they are named by
  their mode.  The current object is None before that (a null pointer).
\<close>

record video =
  v_state :: "ImsCallMode option"
  v_status :: "ImsCallMode \<Rightarrow> VideoUpdateStatus"
  v_initialized :: bool

definition video_init :: video where
  "video_init = \<lparr>v_state = None, v_status = (\<lambda>_. STATUS_NONE), v_initialized = False\<rparr>"

definition has_state_object :: "ImsCallMode \<Rightarrow> video \<Rightarrow> bool" where
  "has_state_object m v = (v_initialized v \<and>
     m \<in> {CALL_MODE_AUDIO_ONLY, CALL_MODE_SEND_ONLY, CALL_MODE_RECEIVE_ONLY,
          CALL_MODE_SEND_RECEIVE, CALL_MODE_VIDEO_PAUSED})"

datatype VideoEffect = Sent Request | Reported CallMediaModeInfo

record video_env =
  ve_send :: "Request \<Rightarrow> ErrCode"
  ve_report :: "CallMediaModeInfo \<Rightarrow> ErrCode"

type_synonym video_outcome = "ErrCode \<times> VideoEffect list \<times> video"

subsection \<open>The call's side\<close>

fun AssignVideoCallState :: "VideoStateType \<Rightarrow> video \<Rightarrow> video" where
  "AssignVideoCallState TYPE_VOICE v = v\<lparr>v_state := Some CALL_MODE_AUDIO_ONLY\<rparr>"
| "AssignVideoCallState TYPE_SEND_ONLY v = v\<lparr>v_state := Some CALL_MODE_SEND_ONLY\<rparr>"
| "AssignVideoCallState TYPE_RECEIVE_ONLY v = v\<lparr>v_state := Some CALL_MODE_RECEIVE_ONLY\<rparr>"
| "AssignVideoCallState TYPE_VIDEO v = v\<lparr>v_state := Some CALL_MODE_SEND_RECEIVE\<rparr>"

definition InitVideoCall :: "call \<Rightarrow> video \<Rightarrow> ErrCode \<times> video" where
  "InitVideoCall c v =
     (if v_initialized v then (TELEPHONY_SUCCESS, AssignVideoCallState (m_videoState c) v)
      else
        let v = v\<lparr>v_status := (\<lambda>_. STATUS_NONE)\<rparr>
        in (TELEPHONY_SUCCESS,
            (AssignVideoCallState (m_videoState c) v)\<lparr>v_initialized := True\<rparr>))"

definition SwitchVideoState :: "ImsCallMode \<Rightarrow> video \<Rightarrow> video" where
  "SwitchVideoState mode v =
     (if has_state_object mode v then v\<lparr>v_state := Some mode\<rparr>
      else v\<lparr>v_state := if v_initialized v then Some CALL_MODE_AUDIO_ONLY else None\<rparr>)"

definition IsSupportVideoCall :: "call \<Rightarrow> bool" where
  "IsSupportVideoCall c = (m_callState c \<noteq> CALL_STATUS_INCOMING)"

definition IMSCall_SendUpdateCallMediaModeRequest ::
  "video_env \<Rightarrow> call \<Rightarrow> ImsCallMode \<Rightarrow> ErrCode \<times> VideoEffect list" where
  "IMSCall_SendUpdateCallMediaModeRequest ve c mode =
     (let (ret, info) = PackCellularCallInfo c default_cellular_info in
      if ret \<noteq> TELEPHONY_SUCCESS then (ret, [])
      else let q = ReqMediaModeRequest info mode; ret = ve_send ve q
           in (if ret \<noteq> TELEPHONY_SUCCESS then ret else TELEPHONY_SUCCESS, [Sent q]))"

definition IMSCall_SendUpdateCallMediaModeResponse ::
  "video_env \<Rightarrow> call \<Rightarrow> ImsCallMode \<Rightarrow> ErrCode \<times> VideoEffect list" where
  "IMSCall_SendUpdateCallMediaModeResponse ve c mode =
     (let (ret, info) = PackCellularCallInfo c default_cellular_info in
      if ret \<noteq> TELEPHONY_SUCCESS then (ret, [])
      else let q = ReqMediaModeResponse info mode; ret = ve_send ve q
           in (if ret \<noteq> TELEPHONY_SUCCESS then ret else TELEPHONY_SUCCESS, [Sent q]))"

subsection \<open>The base class of the states\<close>

definition SetVideoUpdateStatus :: "ImsCallMode \<Rightarrow> VideoUpdateStatus \<Rightarrow> video \<Rightarrow> video" where
  "SetVideoUpdateStatus this s v = v\<lparr>v_status := (v_status v)(this := s)\<rparr>"

definition SwitchCallVideoState :: "ImsCallMode \<Rightarrow> video \<Rightarrow> ErrCode \<times> video" where
  "SwitchCallVideoState mode v = (TELEPHONY_SUCCESS, SwitchVideoState mode v)"

definition DispatchUpdateVideoRequest ::
  "video_env \<Rightarrow> call \<Rightarrow> ImsCallMode \<Rightarrow> ErrCode \<times> VideoEffect list" where
  "DispatchUpdateVideoRequest ve c mode = IMSCall_SendUpdateCallMediaModeRequest ve c mode"

definition DispatchUpdateVideoResponse ::
  "video_env \<Rightarrow> call \<Rightarrow> ImsCallMode \<Rightarrow> ErrCode \<times> VideoEffect list" where
  "DispatchUpdateVideoResponse ve c mode = IMSCall_SendUpdateCallMediaModeResponse ve c mode"

definition DispatchReportVideoCallInfo ::
  "video_env \<Rightarrow> CallMediaModeInfo \<Rightarrow> ErrCode \<times> VideoEffect list" where
  "DispatchReportVideoCallInfo ve info = (ve_report ve info, [Reported info])"

text \<open>
  A pattern four of the classes share: send the request, switch to the mode, and clear
  the status of the state that was left.
\<close>

definition request_and_switch ::
  "video_env \<Rightarrow> call \<Rightarrow> ImsCallMode \<Rightarrow> ImsCallMode \<Rightarrow> video \<Rightarrow> video_outcome" where
  "request_and_switch ve c this mode v =
     (let (ret, es) = DispatchUpdateVideoRequest ve c mode in
      if ret \<noteq> TELEPHONY_SUCCESS then (ret, es, v)
      else
        let (ret, v) = SwitchCallVideoState mode v in
        if ret \<noteq> TELEPHONY_SUCCESS then (ret, es, v)
        else (ret, es, SetVideoUpdateStatus this STATUS_NONE v))"

subsection \<open>AudioOnlyState\<close>

definition AudioOnly_SendRequest ::
  "video_env \<Rightarrow> call \<Rightarrow> ImsCallMode \<Rightarrow> video \<Rightarrow> video_outcome" where
  "AudioOnly_SendRequest ve c mode v =
     (let this = CALL_MODE_AUDIO_ONLY; status = v_status v this in
      case mode of
        CALL_MODE_SEND_ONLY \<Rightarrow> (TELEPHONY_SUCCESS, [], v)
      | CALL_MODE_RECEIVE_ONLY \<Rightarrow> (TELEPHONY_SUCCESS, [], v)
      | CALL_MODE_AUDIO_ONLY \<Rightarrow> (CALL_ERR_VIDEO_ILLEAGAL_SCENARIO, [], v)
      | CALL_MODE_VIDEO_PAUSED \<Rightarrow> (CALL_ERR_VIDEO_ILLEAGAL_SCENARIO, [], v)
      | CALL_MODE_SEND_RECEIVE \<Rightarrow>
          (if \<not> IsSupportVideoCall c then (CALL_ERR_VIDEO_NOT_SUPPORTED, [], v)
           else if status \<noteq> STATUS_NONE then (CALL_ERR_VIDEO_IN_PROGRESS, [], v)
           else
             let (ret, es) = DispatchUpdateVideoRequest ve c mode in
             if ret \<noteq> TELEPHONY_SUCCESS then (ret, es, v)
             else (ret, es, SetVideoUpdateStatus this STATUS_SEND_REQUEST v))
      | CALL_MODE_OTHER _ \<Rightarrow> (CALL_ERR_VIDEO_ILLEGAL_MEDIA_TYPE, [], v))"

definition AudioOnly_ReceiveRequest ::
  "video_env \<Rightarrow> call \<Rightarrow> CallMediaModeInfo \<Rightarrow> video \<Rightarrow> video_outcome" where
  "AudioOnly_ReceiveRequest ve c info v =
     (let this = CALL_MODE_AUDIO_ONLY; status = v_status v this in
      case mi_callMode info of
        CALL_MODE_AUDIO_ONLY \<Rightarrow> (CALL_ERR_VIDEO_ILLEAGAL_SCENARIO, [], v)
      | CALL_MODE_VIDEO_PAUSED \<Rightarrow> (CALL_ERR_VIDEO_ILLEAGAL_SCENARIO, [], v)
      | CALL_MODE_RECEIVE_ONLY \<Rightarrow>
          (if status \<noteq> STATUS_NONE then (CALL_ERR_VIDEO_IN_PROGRESS, [], v)
           else let (_, es) = DispatchReportVideoCallInfo ve info
                in (TELEPHONY_SUCCESS, es, SetVideoUpdateStatus this STATUS_RECV_REQUEST v))
      | CALL_MODE_SEND_ONLY \<Rightarrow> (TELEPHONY_SUCCESS, [], v)
      | CALL_MODE_SEND_RECEIVE \<Rightarrow>
          (if \<not> IsSupportVideoCall c then
             let (_, es) = DispatchUpdateVideoResponse ve c CALL_MODE_AUDIO_ONLY
             in (CALL_ERR_VIDEO_ILLEAGAL_SCENARIO, es, v)
           else if status \<noteq> STATUS_NONE then (CALL_ERR_VIDEO_IN_PROGRESS, [], v)
           else let (_, es) = DispatchReportVideoCallInfo ve info
                in (TELEPHONY_SUCCESS, es, SetVideoUpdateStatus this STATUS_RECV_REQUEST v))
      | CALL_MODE_OTHER _ \<Rightarrow> (CALL_ERR_VIDEO_ILLEGAL_MEDIA_TYPE, [], v))"

text \<open>Accepting an upgrade, the branch of RECEIVE_ONLY and SEND_RECEIVE.\<close>

definition accept_upgrade :: "video_env \<Rightarrow> call \<Rightarrow> video \<Rightarrow> video_outcome" where
  "accept_upgrade ve c v =
     (let this = CALL_MODE_AUDIO_ONLY in
      if \<not> IsSupportVideoCall c then
        let (_, es) = DispatchUpdateVideoResponse ve c CALL_MODE_AUDIO_ONLY
        in (CALL_ERR_VIDEO_ILLEAGAL_SCENARIO, es, v)
      else if v_status v this \<noteq> STATUS_RECV_REQUEST then (CALL_ERR_VIDEO_IN_PROGRESS, [], v)
      else
        let (_, es) = DispatchUpdateVideoResponse ve c CALL_MODE_SEND_RECEIVE;
            (_, v) = SwitchCallVideoState CALL_MODE_SEND_RECEIVE v
        in (TELEPHONY_SUCCESS, es, SetVideoUpdateStatus this STATUS_NONE v))"

definition AudioOnly_SendResponse ::
  "video_env \<Rightarrow> call \<Rightarrow> ImsCallMode \<Rightarrow> video \<Rightarrow> video_outcome" where
  "AudioOnly_SendResponse ve c mode v =
     (let this = CALL_MODE_AUDIO_ONLY; status = v_status v this in
      case mode of
        CALL_MODE_AUDIO_ONLY \<Rightarrow>
          (if \<not> IsSupportVideoCall c then
             let (_, es) = DispatchUpdateVideoResponse ve c CALL_MODE_AUDIO_ONLY
             in (CALL_ERR_VIDEO_ILLEAGAL_SCENARIO, es, v)
           else if status \<noteq> STATUS_RECV_REQUEST then (CALL_ERR_VIDEO_IN_PROGRESS, [], v)
           else let (_, es) = DispatchUpdateVideoResponse ve c CALL_MODE_AUDIO_ONLY
                in (TELEPHONY_SUCCESS, es, SetVideoUpdateStatus this STATUS_NONE v))
      | CALL_MODE_VIDEO_PAUSED \<Rightarrow> (CALL_ERR_VIDEO_ILLEAGAL_SCENARIO, [], v)
      | CALL_MODE_SEND_ONLY \<Rightarrow> (TELEPHONY_SUCCESS, [], v)
      | CALL_MODE_RECEIVE_ONLY \<Rightarrow> accept_upgrade ve c v
      | CALL_MODE_SEND_RECEIVE \<Rightarrow> accept_upgrade ve c v
      | CALL_MODE_OTHER _ \<Rightarrow> (CALL_ERR_VIDEO_ILLEGAL_MEDIA_TYPE, [], v))"

definition AudioOnly_ReceiveResponse ::
  "video_env \<Rightarrow> call \<Rightarrow> CallMediaModeInfo \<Rightarrow> video \<Rightarrow> video_outcome" where
  "AudioOnly_ReceiveResponse ve c info v =
     (let this = CALL_MODE_AUDIO_ONLY; status = v_status v this in
      case mi_callMode info of
        CALL_MODE_SEND_RECEIVE \<Rightarrow>
          (if status \<noteq> STATUS_SEND_REQUEST then (CALL_ERR_VIDEO_ILLEAGAL_SCENARIO, [], v)
           else
             let (_, v) = SwitchCallVideoState CALL_MODE_SEND_RECEIVE v;
                 v = SetVideoUpdateStatus this STATUS_NONE v;
                 (_, es) = DispatchReportVideoCallInfo ve info
             in (TELEPHONY_SUCCESS, es, v))
      | CALL_MODE_AUDIO_ONLY \<Rightarrow>
          (let v = SetVideoUpdateStatus this STATUS_NONE v;
               (_, es) = DispatchReportVideoCallInfo ve info
           in (TELEPHONY_SUCCESS, es, v))
      | CALL_MODE_RECEIVE_ONLY \<Rightarrow>
          (if status \<noteq> STATUS_RECV_REQUEST then (CALL_ERR_VIDEO_ILLEAGAL_SCENARIO, [], v)
           else
             let (_, v) = SwitchCallVideoState CALL_MODE_RECEIVE_ONLY v;
                 v = SetVideoUpdateStatus this STATUS_NONE v;
                 (_, es) = DispatchReportVideoCallInfo ve info
             in (TELEPHONY_SUCCESS, es, v))
      | _ \<Rightarrow> (TELEPHONY_SUCCESS, [], v))"

subsection \<open>VideoSendState\<close>

definition VideoSend_SendRequest ::
  "video_env \<Rightarrow> call \<Rightarrow> ImsCallMode \<Rightarrow> video \<Rightarrow> video_outcome" where
  "VideoSend_SendRequest ve c mode v =
     (case mode of
        CALL_MODE_AUDIO_ONLY \<Rightarrow> request_and_switch ve c CALL_MODE_SEND_ONLY mode v
      | CALL_MODE_VIDEO_PAUSED \<Rightarrow> request_and_switch ve c CALL_MODE_SEND_ONLY mode v
      | CALL_MODE_RECEIVE_ONLY \<Rightarrow> (CALL_ERR_VIDEO_IN_PROGRESS, [], v)
      | CALL_MODE_SEND_ONLY \<Rightarrow> (CALL_ERR_VIDEO_IN_PROGRESS, [], v)
      | CALL_MODE_SEND_RECEIVE \<Rightarrow> (CALL_ERR_VIDEO_IN_PROGRESS, [], v)
      | CALL_MODE_OTHER _ \<Rightarrow> (CALL_ERR_VIDEO_ILLEGAL_MEDIA_TYPE, [], v))"

text \<open>Switch to the mode that was received and clear the status of the state left.\<close>

definition switch_and_clear ::
  "ImsCallMode \<Rightarrow> ImsCallMode \<Rightarrow> VideoEffect list \<Rightarrow> video \<Rightarrow> video_outcome" where
  "switch_and_clear this mode es v =
     (let (ret, v) = SwitchCallVideoState mode v in
      if ret \<noteq> TELEPHONY_SUCCESS then (ret, [], v)
      else (ret, es, SetVideoUpdateStatus this STATUS_NONE v))"

definition VideoSend_ReceiveRequest ::
  "video_env \<Rightarrow> call \<Rightarrow> CallMediaModeInfo \<Rightarrow> video \<Rightarrow> video_outcome" where
  "VideoSend_ReceiveRequest ve c info v =
     (let this = CALL_MODE_SEND_ONLY; status = v_status v this;
          busy = (if status \<noteq> STATUS_NONE then CALL_ERR_VIDEO_IN_PROGRESS else TELEPHONY_SUCCESS) in
      case mi_callMode info of
        CALL_MODE_AUDIO_ONLY \<Rightarrow> switch_and_clear this (mi_callMode info) [] v
      | CALL_MODE_VIDEO_PAUSED \<Rightarrow> switch_and_clear this (mi_callMode info) [] v
      | CALL_MODE_RECEIVE_ONLY \<Rightarrow> (CALL_ERR_VIDEO_ILLEAGAL_SCENARIO, [], v)
      | CALL_MODE_SEND_ONLY \<Rightarrow> (busy, [], v)
      | CALL_MODE_SEND_RECEIVE \<Rightarrow> (busy, [], v)
      | CALL_MODE_OTHER _ \<Rightarrow> (CALL_ERR_VIDEO_ILLEGAL_MEDIA_TYPE, [], v))"

definition VideoSend_SendResponse ::
  "video_env \<Rightarrow> call \<Rightarrow> ImsCallMode \<Rightarrow> video \<Rightarrow> video_outcome" where
  "VideoSend_SendResponse ve c mode v = (TELEPHONY_SUCCESS, [], v)"

text \<open>
  The code compares the status with the success code; both are zero for STATUS_NONE.
  The third branch clears the status of the audio state, not its own.
\<close>

definition VideoSend_ReceiveResponse ::
  "video_env \<Rightarrow> call \<Rightarrow> CallMediaModeInfo \<Rightarrow> video \<Rightarrow> video_outcome" where
  "VideoSend_ReceiveResponse ve c info v =
     (let this = CALL_MODE_SEND_ONLY; status = v_status v this;
          busy = (if status \<noteq> STATUS_NONE then CALL_ERR_VIDEO_IN_PROGRESS else TELEPHONY_SUCCESS) in
      case mi_callMode info of
        CALL_MODE_AUDIO_ONLY \<Rightarrow> switch_and_clear this (mi_callMode info) [] v
      | CALL_MODE_VIDEO_PAUSED \<Rightarrow> switch_and_clear this (mi_callMode info) [] v
      | CALL_MODE_SEND_ONLY \<Rightarrow> (busy, [], v)
      | CALL_MODE_RECEIVE_ONLY \<Rightarrow> (busy, [], v)
      | CALL_MODE_SEND_RECEIVE \<Rightarrow>
          (let (ret, es) = DispatchUpdateVideoResponse ve c CALL_MODE_SEND_RECEIVE in
           if ret \<noteq> TELEPHONY_SUCCESS then (ret, es, v)
           else
             let (ret, v) = SwitchCallVideoState (mi_callMode info) v in
             if ret \<noteq> TELEPHONY_SUCCESS then (ret, es, v)
             else if has_state_object CALL_MODE_AUDIO_ONLY v
             then (ret, es, SetVideoUpdateStatus CALL_MODE_AUDIO_ONLY STATUS_NONE v)
             else (CALL_ERR_VIDEO_ILLEGAL_MEDIA_TYPE, es, v))
      | CALL_MODE_OTHER _ \<Rightarrow> (CALL_ERR_VIDEO_ILLEGAL_MEDIA_TYPE, [], v))"

subsection \<open>VideoReceiveState\<close>

definition VideoReceive_SendRequest ::
  "video_env \<Rightarrow> call \<Rightarrow> ImsCallMode \<Rightarrow> video \<Rightarrow> video_outcome" where
  "VideoReceive_SendRequest ve c mode v =
     (let this = CALL_MODE_RECEIVE_ONLY; status = v_status v this;
          busy = (if status \<noteq> STATUS_NONE then CALL_ERR_VIDEO_IN_PROGRESS else TELEPHONY_SUCCESS) in
      case mode of
        CALL_MODE_AUDIO_ONLY \<Rightarrow> request_and_switch ve c this mode v
      | CALL_MODE_VIDEO_PAUSED \<Rightarrow> request_and_switch ve c this mode v
      | CALL_MODE_SEND_ONLY \<Rightarrow> (busy, [], v)
      | CALL_MODE_RECEIVE_ONLY \<Rightarrow> (busy, [], v)
      | CALL_MODE_SEND_RECEIVE \<Rightarrow> (busy, [], v)
      | CALL_MODE_OTHER _ \<Rightarrow> (CALL_ERR_VIDEO_ILLEGAL_MEDIA_TYPE, [], v))"

text \<open>A request in progress is reported as an error, but still shown and taken up.\<close>

definition VideoReceive_ReceiveRequest ::
  "video_env \<Rightarrow> call \<Rightarrow> CallMediaModeInfo \<Rightarrow> video \<Rightarrow> video_outcome" where
  "VideoReceive_ReceiveRequest ve c info v =
     (let this = CALL_MODE_RECEIVE_ONLY; status = v_status v this;
          (_, shown) = DispatchReportVideoCallInfo ve info;
          take_up = (if status \<noteq> STATUS_NONE then CALL_ERR_VIDEO_IN_PROGRESS else TELEPHONY_SUCCESS,
                     shown, SetVideoUpdateStatus this STATUS_RECV_REQUEST v) in
      case mi_callMode info of
        CALL_MODE_AUDIO_ONLY \<Rightarrow> switch_and_clear this (mi_callMode info) shown v
      | CALL_MODE_VIDEO_PAUSED \<Rightarrow> switch_and_clear this (mi_callMode info) shown v
      | CALL_MODE_SEND_ONLY \<Rightarrow> (TELEPHONY_SUCCESS, [], v)
      | CALL_MODE_RECEIVE_ONLY \<Rightarrow> take_up
      | CALL_MODE_SEND_RECEIVE \<Rightarrow> take_up
      | CALL_MODE_OTHER _ \<Rightarrow> (CALL_ERR_VIDEO_ILLEGAL_MEDIA_TYPE, [], v))"

definition VideoReceive_SendResponse ::
  "video_env \<Rightarrow> call \<Rightarrow> ImsCallMode \<Rightarrow> video \<Rightarrow> video_outcome" where
  "VideoReceive_SendResponse ve c mode v =
     (let this = CALL_MODE_RECEIVE_ONLY; status = v_status v this in
      case mode of
        CALL_MODE_AUDIO_ONLY \<Rightarrow> switch_and_clear this mode [] v
      | CALL_MODE_VIDEO_PAUSED \<Rightarrow> switch_and_clear this mode [] v
      | CALL_MODE_SEND_ONLY \<Rightarrow> (TELEPHONY_SUCCESS, [], v)
      | CALL_MODE_RECEIVE_ONLY \<Rightarrow>
          (if status \<noteq> STATUS_RECV_REQUEST then (CALL_ERR_VIDEO_ILLEAGAL_SCENARIO, [], v)
           else let (_, es) = DispatchUpdateVideoResponse ve c CALL_MODE_RECEIVE_ONLY
                in (TELEPHONY_SUCCESS, es, SetVideoUpdateStatus this STATUS_NONE v))
      | CALL_MODE_SEND_RECEIVE \<Rightarrow>
          (if status \<noteq> STATUS_RECV_REQUEST then (CALL_ERR_VIDEO_ILLEAGAL_SCENARIO, [], v)
           else
             let v = SetVideoUpdateStatus this STATUS_NONE v;
                 (_, es) = DispatchUpdateVideoResponse ve c CALL_MODE_SEND_RECEIVE;
                 (ret, v) = SwitchCallVideoState mode v
             in (ret, es, v))
      | CALL_MODE_OTHER _ \<Rightarrow> (CALL_ERR_VIDEO_ILLEGAL_MEDIA_TYPE, [], v))"

definition VideoReceive_ReceiveResponse ::
  "video_env \<Rightarrow> call \<Rightarrow> CallMediaModeInfo \<Rightarrow> video \<Rightarrow> video_outcome" where
  "VideoReceive_ReceiveResponse ve c info v =
     (let this = CALL_MODE_RECEIVE_ONLY;
          (_, shown) = DispatchReportVideoCallInfo ve info in
      case mi_callMode info of
        CALL_MODE_AUDIO_ONLY \<Rightarrow> switch_and_clear this (mi_callMode info) shown v
      | CALL_MODE_SEND_RECEIVE \<Rightarrow> switch_and_clear this (mi_callMode info) shown v
      | CALL_MODE_VIDEO_PAUSED \<Rightarrow> switch_and_clear this (mi_callMode info) shown v
      | CALL_MODE_SEND_ONLY \<Rightarrow> (TELEPHONY_SUCCESS, [], v)
      | CALL_MODE_RECEIVE_ONLY \<Rightarrow>
          (TELEPHONY_SUCCESS, shown,
           if v_status v this \<noteq> STATUS_NONE then SetVideoUpdateStatus this STATUS_NONE v else v)
      | CALL_MODE_OTHER _ \<Rightarrow> (CALL_ERR_VIDEO_ILLEGAL_MEDIA_TYPE, [], v))"

subsection \<open>VideoSendReceiveState\<close>

definition VideoSendReceive_SendRequest ::
  "video_env \<Rightarrow> call \<Rightarrow> ImsCallMode \<Rightarrow> video \<Rightarrow> video_outcome" where
  "VideoSendReceive_SendRequest ve c mode v =
     (let this = CALL_MODE_SEND_RECEIVE;
          ask = (let (ret, es) = DispatchUpdateVideoRequest ve c mode in (ret, es, v)) in
      case mode of
        CALL_MODE_AUDIO_ONLY \<Rightarrow> request_and_switch ve c this mode v
      | CALL_MODE_VIDEO_PAUSED \<Rightarrow> request_and_switch ve c this mode v
      | CALL_MODE_SEND_ONLY \<Rightarrow> ask
      | CALL_MODE_RECEIVE_ONLY \<Rightarrow> ask
      | CALL_MODE_SEND_RECEIVE \<Rightarrow> (CALL_ERR_VIDEO_ILLEAGAL_SCENARIO, [], v)
      | CALL_MODE_OTHER _ \<Rightarrow> (CALL_ERR_VIDEO_ILLEGAL_MEDIA_TYPE, [], v))"

definition VideoSendReceive_ReceiveRequest ::
  "video_env \<Rightarrow> call \<Rightarrow> CallMediaModeInfo \<Rightarrow> video \<Rightarrow> video_outcome" where
  "VideoSendReceive_ReceiveRequest ve c info v =
     (let this = CALL_MODE_SEND_RECEIVE; status = v_status v this;
          (_, shown) = DispatchReportVideoCallInfo ve info in
      case mi_callMode info of
        CALL_MODE_AUDIO_ONLY \<Rightarrow>
          (let (ret, v) = SwitchCallVideoState (mi_callMode info) v in
           if ret \<noteq> TELEPHONY_SUCCESS then (ret, [], v)
           else (ret, shown,
                 if status \<noteq> STATUS_NONE then SetVideoUpdateStatus this STATUS_NONE v else v))
      | CALL_MODE_VIDEO_PAUSED \<Rightarrow> (TELEPHONY_SUCCESS, [], v)
      | CALL_MODE_SEND_ONLY \<Rightarrow> (TELEPHONY_SUCCESS, [], v)
      | CALL_MODE_RECEIVE_ONLY \<Rightarrow>
          (if status \<noteq> STATUS_NONE then (CALL_ERR_VIDEO_IN_PROGRESS, [], v)
           else (TELEPHONY_SUCCESS, shown, SetVideoUpdateStatus this STATUS_RECV_REQUEST v))
      | CALL_MODE_SEND_RECEIVE \<Rightarrow>
          (TELEPHONY_SUCCESS, shown, SetVideoUpdateStatus this STATUS_RECV_REQUEST v)
      | CALL_MODE_OTHER _ \<Rightarrow> (CALL_ERR_VIDEO_ILLEGAL_MEDIA_TYPE, [], v))"

definition VideoSendReceive_SendResponse ::
  "video_env \<Rightarrow> call \<Rightarrow> ImsCallMode \<Rightarrow> video \<Rightarrow> video_outcome" where
  "VideoSendReceive_SendResponse ve c mode v = (TELEPHONY_SUCCESS, [], v)"

definition VideoSendReceive_ReceiveResponse ::
  "video_env \<Rightarrow> call \<Rightarrow> CallMediaModeInfo \<Rightarrow> video \<Rightarrow> video_outcome" where
  "VideoSendReceive_ReceiveResponse ve c info v =
     (let this = CALL_MODE_SEND_RECEIVE; status = v_status v this;
          (shown_ret, shown) = DispatchReportVideoCallInfo ve info in
      case mi_callMode info of
        CALL_MODE_RECEIVE_ONLY \<Rightarrow>
          (if status \<noteq> STATUS_RECV_REQUEST then (CALL_ERR_VIDEO_ILLEAGAL_SCENARIO, [], v)
           else
             let (ret, v) = SwitchCallVideoState (mi_callMode info) v in
             if ret \<noteq> TELEPHONY_SUCCESS then (ret, shown, v)
             else (ret, shown, SetVideoUpdateStatus this STATUS_NONE v))
      | CALL_MODE_SEND_RECEIVE \<Rightarrow>
          (if status \<noteq> STATUS_RECV_REQUEST then (CALL_ERR_VIDEO_ILLEAGAL_SCENARIO, [], v)
           else (shown_ret, shown, SetVideoUpdateStatus this STATUS_NONE v))
      | _ \<Rightarrow> (CALL_ERR_VIDEO_ILLEGAL_MEDIA_TYPE, [], v))"

subsection \<open>VideoPauseState\<close>

definition VideoPause_SendRequest ::
  "video_env \<Rightarrow> call \<Rightarrow> ImsCallMode \<Rightarrow> video \<Rightarrow> video_outcome" where
  "VideoPause_SendRequest ve c mode v =
     (let this = CALL_MODE_VIDEO_PAUSED;
          ask = (let (ret, es) = DispatchUpdateVideoRequest ve c mode in (ret, es, v)) in
      case mode of
        CALL_MODE_AUDIO_ONLY \<Rightarrow> request_and_switch ve c this mode v
      | CALL_MODE_SEND_RECEIVE \<Rightarrow> request_and_switch ve c this mode v
      | CALL_MODE_SEND_ONLY \<Rightarrow> ask
      | CALL_MODE_RECEIVE_ONLY \<Rightarrow> ask
      | CALL_MODE_VIDEO_PAUSED \<Rightarrow> (CALL_ERR_VIDEO_ILLEAGAL_SCENARIO, [], v)
      | CALL_MODE_OTHER _ \<Rightarrow> (CALL_ERR_VIDEO_ILLEGAL_MEDIA_TYPE, [], v))"

definition VideoPause_ReceiveRequest ::
  "video_env \<Rightarrow> call \<Rightarrow> CallMediaModeInfo \<Rightarrow> video \<Rightarrow> video_outcome" where
  "VideoPause_ReceiveRequest ve c info v =
     (let this = CALL_MODE_VIDEO_PAUSED; (_, shown) = DispatchReportVideoCallInfo ve info in
      case mi_callMode info of
        CALL_MODE_AUDIO_ONLY \<Rightarrow> switch_and_clear this (mi_callMode info) shown v
      | CALL_MODE_SEND_RECEIVE \<Rightarrow> switch_and_clear this (mi_callMode info) shown v
      | CALL_MODE_SEND_ONLY \<Rightarrow> (TELEPHONY_SUCCESS, [], v)
      | CALL_MODE_RECEIVE_ONLY \<Rightarrow> (TELEPHONY_SUCCESS, [], v)
      | CALL_MODE_VIDEO_PAUSED \<Rightarrow> (CALL_ERR_VIDEO_ILLEAGAL_SCENARIO, [], v)
      | CALL_MODE_OTHER _ \<Rightarrow> (CALL_ERR_VIDEO_ILLEGAL_MEDIA_TYPE, [], v))"

definition VideoPause_SendResponse ::
  "video_env \<Rightarrow> call \<Rightarrow> ImsCallMode \<Rightarrow> video \<Rightarrow> video_outcome" where
  "VideoPause_SendResponse ve c mode v = (TELEPHONY_SUCCESS, [], v)"

definition VideoPause_ReceiveResponse ::
  "video_env \<Rightarrow> call \<Rightarrow> CallMediaModeInfo \<Rightarrow> video \<Rightarrow> video_outcome" where
  "VideoPause_ReceiveResponse ve c info v = (TELEPHONY_SUCCESS, [], v)"

subsection \<open>Dispatch on the current state object\<close>

definition state_SendRequest ::
  "ImsCallMode \<Rightarrow> video_env \<Rightarrow> call \<Rightarrow> ImsCallMode \<Rightarrow> video \<Rightarrow> video_outcome" where
  "state_SendRequest this =
     (case this of
        CALL_MODE_SEND_ONLY \<Rightarrow> VideoSend_SendRequest
      | CALL_MODE_RECEIVE_ONLY \<Rightarrow> VideoReceive_SendRequest
      | CALL_MODE_SEND_RECEIVE \<Rightarrow> VideoSendReceive_SendRequest
      | CALL_MODE_VIDEO_PAUSED \<Rightarrow> VideoPause_SendRequest
      | _ \<Rightarrow> AudioOnly_SendRequest)"

definition state_SendResponse ::
  "ImsCallMode \<Rightarrow> video_env \<Rightarrow> call \<Rightarrow> ImsCallMode \<Rightarrow> video \<Rightarrow> video_outcome" where
  "state_SendResponse this =
     (case this of
        CALL_MODE_SEND_ONLY \<Rightarrow> VideoSend_SendResponse
      | CALL_MODE_RECEIVE_ONLY \<Rightarrow> VideoReceive_SendResponse
      | CALL_MODE_SEND_RECEIVE \<Rightarrow> VideoSendReceive_SendResponse
      | CALL_MODE_VIDEO_PAUSED \<Rightarrow> VideoPause_SendResponse
      | _ \<Rightarrow> AudioOnly_SendResponse)"

definition state_ReceiveRequest ::
  "ImsCallMode \<Rightarrow> video_env \<Rightarrow> call \<Rightarrow> CallMediaModeInfo \<Rightarrow> video \<Rightarrow> video_outcome" where
  "state_ReceiveRequest this =
     (case this of
        CALL_MODE_SEND_ONLY \<Rightarrow> VideoSend_ReceiveRequest
      | CALL_MODE_RECEIVE_ONLY \<Rightarrow> VideoReceive_ReceiveRequest
      | CALL_MODE_SEND_RECEIVE \<Rightarrow> VideoSendReceive_ReceiveRequest
      | CALL_MODE_VIDEO_PAUSED \<Rightarrow> VideoPause_ReceiveRequest
      | _ \<Rightarrow> AudioOnly_ReceiveRequest)"

definition state_ReceiveResponse ::
  "ImsCallMode \<Rightarrow> video_env \<Rightarrow> call \<Rightarrow> CallMediaModeInfo \<Rightarrow> video \<Rightarrow> video_outcome" where
  "state_ReceiveResponse this =
     (case this of
        CALL_MODE_SEND_ONLY \<Rightarrow> VideoSend_ReceiveResponse
      | CALL_MODE_RECEIVE_ONLY \<Rightarrow> VideoReceive_ReceiveResponse
      | CALL_MODE_SEND_RECEIVE \<Rightarrow> VideoSendReceive_ReceiveResponse
      | CALL_MODE_VIDEO_PAUSED \<Rightarrow> VideoPause_ReceiveResponse
      | _ \<Rightarrow> AudioOnly_ReceiveResponse)"

subsection \<open>Entry points of the call\<close>

definition UpdateImsCallMode ::
  "video_env \<Rightarrow> call \<Rightarrow> ImsCallMode \<Rightarrow> video \<Rightarrow> video_outcome" where
  "UpdateImsCallMode ve c mode v =
     (if m_callState c \<noteq> CALL_STATUS_ACTIVE then (CALL_ERR_CALL_STATE, [], v)
      else case v_state v of
        None \<Rightarrow> (TELEPHONY_ERR_LOCAL_PTR_NULL, [], v)
      | Some this \<Rightarrow>
          (if v_status v this = STATUS_NONE then state_SendRequest this ve c mode v
           else if v_status v this = STATUS_RECV_REQUEST
           then state_SendResponse this ve c mode v
           else (TELEPHONY_SUCCESS, [], v)))"

definition RecieveUpdateCallMediaModeRequest ::
  "video_env \<Rightarrow> call \<Rightarrow> CallModeReportInfo \<Rightarrow> video \<Rightarrow> video_outcome" where
  "RecieveUpdateCallMediaModeRequest ve c r v =
     (case v_state v of
        None \<Rightarrow> (TELEPHONY_ERR_LOCAL_PTR_NULL, [], v)
      | Some this \<Rightarrow>
          state_ReceiveRequest this ve c \<lparr>mi_callId = m_callId c, mi_isRequestInfo = True,
            mi_result = mr_result r, mi_callMode = mr_callMode r\<rparr> v)"

text \<open>A response that is not a success is handed on as the audio mode.\<close>

definition ReceiveUpdateCallMediaModeResponse ::
  "video_env \<Rightarrow> call \<Rightarrow> CallModeReportInfo \<Rightarrow> video \<Rightarrow> video_outcome" where
  "ReceiveUpdateCallMediaModeResponse ve c r v =
     (case v_state v of
        None \<Rightarrow> (TELEPHONY_ERR_LOCAL_PTR_NULL, [], v)
      | Some this \<Rightarrow>
          (let info = \<lparr>mi_callId = m_callId c, mi_isRequestInfo = False,
                 mi_result = mr_result r, mi_callMode = mr_callMode r\<rparr> in
           if mr_result r = TYPE_REQUEST_SUCCESS then state_ReceiveResponse this ve c info v
           else state_ReceiveResponse this ve c (info\<lparr>mi_callMode := CALL_MODE_AUDIO_ONLY\<rparr>) v))"

definition IsVoiceModifyToVideo :: "video \<Rightarrow> bool" where
  "IsVoiceModifyToVideo v =
     (case v_state v of None \<Rightarrow> False | Some this \<Rightarrow> v_status v this = STATUS_SEND_REQUEST)"

lemmas audio_state_defs [cm_defs] = AudioOnly_SendRequest_def AudioOnly_ReceiveRequest_def
  AudioOnly_SendResponse_def AudioOnly_ReceiveResponse_def accept_upgrade_def

lemmas send_state_defs [cm_defs] = VideoSend_SendRequest_def VideoSend_ReceiveRequest_def
  VideoSend_SendResponse_def VideoSend_ReceiveResponse_def

lemmas receive_state_defs [cm_defs] = VideoReceive_SendRequest_def
  VideoReceive_ReceiveRequest_def VideoReceive_SendResponse_def VideoReceive_ReceiveResponse_def

lemmas both_state_defs [cm_defs] = VideoSendReceive_SendRequest_def
  VideoSendReceive_ReceiveRequest_def VideoSendReceive_SendResponse_def
  VideoSendReceive_ReceiveResponse_def

lemmas pause_state_defs [cm_defs] = VideoPause_SendRequest_def VideoPause_ReceiveRequest_def
  VideoPause_SendResponse_def VideoPause_ReceiveResponse_def

lemmas shared_step_defs = request_and_switch_def switch_and_clear_def SwitchCallVideoState_def

subsection \<open>Event sequences and the invariant\<close>

datatype VideoEvent =
    LocalUpdate ImsCallMode
  | RemoteRequest CallModeReportInfo
  | RemoteResponse CallModeReportInfo

text \<open>An event happens to a call as it then is, with an environment that may differ.\<close>

fun video_event :: "video \<Rightarrow> video_env \<times> call \<times> VideoEvent \<Rightarrow> video_outcome" where
  "video_event v (ve, c, LocalUpdate mode) = UpdateImsCallMode ve c mode v"
| "video_event v (ve, c, RemoteRequest r) = RecieveUpdateCallMediaModeRequest ve c r v"
| "video_event v (ve, c, RemoteResponse r) = ReceiveUpdateCallMediaModeResponse ve c r v"

definition video_step :: "video \<Rightarrow> video_env \<times> call \<times> VideoEvent \<Rightarrow> video" where
  "video_step v e = snd (snd (video_event v e))"

definition video_inv :: "video \<Rightarrow> bool" where
  "video_inv v \<longleftrightarrow>
     v_initialized v \<and> (\<exists>m. v_state v = Some m \<and> has_state_object m v) \<and>
     v_status v CALL_MODE_SEND_ONLY = STATUS_NONE \<and>
     v_status v CALL_MODE_VIDEO_PAUSED = STATUS_NONE \<and>
     (\<forall>m. v_status v m \<in> {STATUS_NONE, STATUS_SEND_REQUEST, STATUS_RECV_REQUEST}) \<and>
     (\<forall>m. v_status v m = STATUS_SEND_REQUEST \<longrightarrow> m = CALL_MODE_AUDIO_ONLY)"

lemma set_none_inv [cm_inv]: "video_inv v \<Longrightarrow> video_inv (SetVideoUpdateStatus this STATUS_NONE v)"
  by (auto simp: video_inv_def SetVideoUpdateStatus_def has_state_object_def)

lemma set_received_inv [cm_inv]:
  "video_inv v \<Longrightarrow> this \<noteq> CALL_MODE_SEND_ONLY \<Longrightarrow> this \<noteq> CALL_MODE_VIDEO_PAUSED \<Longrightarrow>
   video_inv (SetVideoUpdateStatus this STATUS_RECV_REQUEST v)"
  by (auto simp: video_inv_def SetVideoUpdateStatus_def has_state_object_def)

lemma set_sent_inv [cm_inv]:
  "video_inv v \<Longrightarrow> video_inv (SetVideoUpdateStatus CALL_MODE_AUDIO_ONLY STATUS_SEND_REQUEST v)"
  by (auto simp: video_inv_def SetVideoUpdateStatus_def has_state_object_def)

lemma switch_inv [cm_inv]: "video_inv v \<Longrightarrow> video_inv (SwitchVideoState mode v)"
  by (auto simp: video_inv_def SwitchVideoState_def has_state_object_def)

lemma audio_state_inv [cm_inv]:
  assumes "video_inv v"
  shows "video_inv (snd (snd (AudioOnly_SendRequest ve c mode v)))"
    and "video_inv (snd (snd (AudioOnly_SendResponse ve c mode v)))"
    and "video_inv (snd (snd (AudioOnly_ReceiveRequest ve c info v)))"
    and "video_inv (snd (snd (AudioOnly_ReceiveResponse ve c info v)))"
  using assms
  by (auto simp: audio_state_defs shared_step_defs Let_def intro: cm_inv
      split: ImsCallMode.splits prod.splits)

lemma send_state_inv [cm_inv]:
  assumes "video_inv v"
  shows "video_inv (snd (snd (VideoSend_SendRequest ve c mode v)))"
    and "video_inv (snd (snd (VideoSend_SendResponse ve c mode v)))"
    and "video_inv (snd (snd (VideoSend_ReceiveRequest ve c info v)))"
    and "video_inv (snd (snd (VideoSend_ReceiveResponse ve c info v)))"
  using assms
  by (auto simp: send_state_defs shared_step_defs Let_def intro: cm_inv
      split: ImsCallMode.splits prod.splits)

lemma receive_state_inv [cm_inv]:
  assumes "video_inv v"
  shows "video_inv (snd (snd (VideoReceive_SendRequest ve c mode v)))"
    and "video_inv (snd (snd (VideoReceive_SendResponse ve c mode v)))"
    and "video_inv (snd (snd (VideoReceive_ReceiveRequest ve c info v)))"
    and "video_inv (snd (snd (VideoReceive_ReceiveResponse ve c info v)))"
  using assms
  by (auto simp: receive_state_defs shared_step_defs Let_def intro: cm_inv
      split: ImsCallMode.splits prod.splits)

lemma both_state_inv [cm_inv]:
  assumes "video_inv v"
  shows "video_inv (snd (snd (VideoSendReceive_SendRequest ve c mode v)))"
    and "video_inv (snd (snd (VideoSendReceive_SendResponse ve c mode v)))"
    and "video_inv (snd (snd (VideoSendReceive_ReceiveRequest ve c info v)))"
    and "video_inv (snd (snd (VideoSendReceive_ReceiveResponse ve c info v)))"
  using assms
  by (auto simp: both_state_defs shared_step_defs Let_def intro: cm_inv
      split: ImsCallMode.splits prod.splits)

lemma pause_state_inv [cm_inv]:
  assumes "video_inv v"
  shows "video_inv (snd (snd (VideoPause_SendRequest ve c mode v)))"
    and "video_inv (snd (snd (VideoPause_SendResponse ve c mode v)))"
    and "video_inv (snd (snd (VideoPause_ReceiveRequest ve c info v)))"
    and "video_inv (snd (snd (VideoPause_ReceiveResponse ve c info v)))"
  using assms
  by (auto simp: pause_state_defs shared_step_defs Let_def intro: cm_inv
      split: ImsCallMode.splits prod.splits)

lemma state_dispatch_inv [cm_inv]:
  assumes "video_inv v"
  shows "video_inv (snd (snd (state_SendRequest this ve c mode v)))"
    and "video_inv (snd (snd (state_SendResponse this ve c mode v)))"
    and "video_inv (snd (snd (state_ReceiveRequest this ve c info v)))"
    and "video_inv (snd (snd (state_ReceiveResponse this ve c info v)))"
  using assms
  by (cases this; simp add: state_SendRequest_def state_SendResponse_def
      state_ReceiveRequest_def state_ReceiveResponse_def cm_inv)+

lemma video_step_inv: "video_inv v \<Longrightarrow> video_inv (video_step v e)"
  by (cases "(v, e)" rule: video_event.cases)
     (auto simp: video_step_def UpdateImsCallMode_def RecieveUpdateCallMediaModeRequest_def
       ReceiveUpdateCallMediaModeResponse_def Let_def cm_inv split: option.splits)

interpretation video_machine: event_machine video_step video_inv
  by unfold_locales (rule video_step_inv)

lemma video_inv_after_init: "video_inv (snd (InitVideoCall c video_init))"
  by (cases "m_videoState c")
     (auto simp: InitVideoCall_def video_init_def video_inv_def has_state_object_def)

subsection \<open>Properties\<close>

definition sample_video_env :: video_env where
  "sample_video_env = \<lparr>ve_send = (\<lambda>_. TELEPHONY_SUCCESS), ve_report = (\<lambda>_. TELEPHONY_SUCCESS)\<rparr>"

definition sample_video_call :: call where
  "sample_video_call = sample_ims_call\<lparr>m_callState := CALL_STATUS_ACTIVE\<rparr>"

definition sample_video :: video where
  "sample_video = \<lparr>v_state = Some CALL_MODE_AUDIO_ONLY, v_status = (\<lambda>_. STATUS_NONE),
     v_initialized = True\<rparr>"

definition busy_video :: video where
  "busy_video = sample_video\<lparr>v_state := Some CALL_MODE_SEND_RECEIVE,
     v_status := (\<lambda>_. STATUS_NONE)(CALL_MODE_SEND_RECEIVE := STATUS_RECV_REQUEST)\<rparr>"

lemmas sample_video_defs = sample_video_env_def sample_video_call_def sample_video_def
  busy_video_def

text \<open>
  Whatever sequence of local updates, remote requests and remote responses reaches an
  initialised IMS call, its current video state is one of the five objects that exist;
  the states for sending and for pause never have an update in progress, only the audio
  state ever waits for an answer to an own request, and the statuses for responses are
  never used.
\<close>

theorem video_states_consistent:
  assumes "v_initialized v" and "v_state v = Some m" and "has_state_object m v"
    and "v_status v = (\<lambda>_. STATUS_NONE)"
  shows "(\<exists>m. v_state (foldl video_step v es) = Some m \<and>
              has_state_object m (foldl video_step v es)) \<and>
         v_status (foldl video_step v es) CALL_MODE_SEND_ONLY = STATUS_NONE \<and>
         v_status (foldl video_step v es) CALL_MODE_VIDEO_PAUSED = STATUS_NONE \<and>
         v_status (foldl video_step v es) n \<in>
           {STATUS_NONE, STATUS_SEND_REQUEST, STATUS_RECV_REQUEST} \<and>
         (v_status (foldl video_step v es) n = STATUS_SEND_REQUEST \<longrightarrow> n = CALL_MODE_AUDIO_ONLY)"
proof -
  have "video_inv v" using assms by (simp add: video_inv_def)
  then have "video_inv (foldl video_step v es)" by (rule video_machine.inv_run)
  then show ?thesis by (auto simp: video_inv_def)
qed

theorem video_states_consistent_witness:
  "\<exists>m. v_state (foldl video_step sample_video
          [(sample_video_env, sample_video_call, LocalUpdate CALL_MODE_SEND_RECEIVE)]) = Some m"
proof -
  have "v_initialized sample_video" "v_state sample_video = Some CALL_MODE_AUDIO_ONLY"
    "has_state_object CALL_MODE_AUDIO_ONLY sample_video" "v_status sample_video = (\<lambda>_. STATUS_NONE)"
    by (simp_all add: sample_video_def has_state_object_def)
  from video_states_consistent [OF this] show ?thesis by blast
qed

text \<open>
  Upgrading a voice call to video: when the request is accepted for sending, the call
  waits, and the remote's answer decides.  A successful answer switches the call to video
  in both directions; any other result leaves it a voice call; in both cases nothing is
  pending afterwards, so the next update can be made.
\<close>

theorem voice_to_video_upgrade:
  assumes "v_initialized v" and "v_state v = Some CALL_MODE_AUDIO_ONLY"
    and "UpdateImsCallMode ve c CALL_MODE_SEND_RECEIVE v = (TELEPHONY_SUCCESS, es, v1)"
    and "v_status v CALL_MODE_AUDIO_ONLY = STATUS_NONE"
    and "mr_callMode r = CALL_MODE_SEND_RECEIVE"
  shows "es = [Sent (ReqMediaModeRequest (packed c) CALL_MODE_SEND_RECEIVE)] \<and>
         IsVoiceModifyToVideo v1 \<and>
         v_state (video_step v1 (ve', c', RemoteResponse r)) =
           Some (if mr_result r = TYPE_REQUEST_SUCCESS then CALL_MODE_SEND_RECEIVE
                 else CALL_MODE_AUDIO_ONLY) \<and>
         v_status (video_step v1 (ve', c', RemoteResponse r)) CALL_MODE_AUDIO_ONLY = STATUS_NONE"
proof -
  have v1: "v1 = v\<lparr>v_status := (v_status v)(CALL_MODE_AUDIO_ONLY := STATUS_SEND_REQUEST)\<rparr>"
    and es: "es = [Sent (ReqMediaModeRequest (packed c) CALL_MODE_SEND_RECEIVE)]"
    using assms(2-4)
    by (auto simp: UpdateImsCallMode_def state_SendRequest_def AudioOnly_SendRequest_def
        DispatchUpdateVideoRequest_def IMSCall_SendUpdateCallMediaModeRequest_def packed_def
        SetVideoUpdateStatus_def Let_def split: if_splits prod.splits)
  show ?thesis
    using assms(1,2,5)
    by (simp add: es v1 IsVoiceModifyToVideo_def video_step_def
        ReceiveUpdateCallMediaModeResponse_def state_ReceiveResponse_def
        AudioOnly_ReceiveResponse_def SwitchCallVideoState_def SwitchVideoState_def
        has_state_object_def SetVideoUpdateStatus_def DispatchReportVideoCallInfo_def)
qed

theorem voice_to_video_upgrade_witness:
  "v_state (video_step (snd (snd (UpdateImsCallMode sample_video_env sample_video_call
              CALL_MODE_SEND_RECEIVE sample_video)))
     (sample_video_env, sample_video_call, RemoteResponse \<lparr>mr_callIndex = 1,
        mr_result = REQUEST_REJECTED_BY_REMOTE, mr_callMode = CALL_MODE_SEND_RECEIVE,
        mr_slotId = 0\<rparr>)) = Some CALL_MODE_AUDIO_ONLY"
proof -
  have s: "fst (UpdateImsCallMode sample_video_env sample_video_call CALL_MODE_SEND_RECEIVE
          sample_video) = TELEPHONY_SUCCESS"
    by (simp add: sample_video_defs UpdateImsCallMode_def state_SendRequest_def
        AudioOnly_SendRequest_def IsSupportVideoCall_def DispatchUpdateVideoRequest_def
        IMSCall_SendUpdateCallMediaModeRequest_def PackCellularCallInfo_def memcpy_s_def
        sample_call_defs kMaxNumberLen_def Let_def)
  then have "UpdateImsCallMode sample_video_env sample_video_call CALL_MODE_SEND_RECEIVE
      sample_video = (TELEPHONY_SUCCESS,
        fst (snd (UpdateImsCallMode sample_video_env sample_video_call CALL_MODE_SEND_RECEIVE
          sample_video)),
        snd (snd (UpdateImsCallMode sample_video_env sample_video_call CALL_MODE_SEND_RECEIVE
          sample_video)))"
    by (metis prod.collapse)
  from voice_to_video_upgrade [OF _ _ this] show ?thesis by (simp add: sample_video_def)
qed

text \<open>
  C21: Once the remote side of a two-way video call has asked for a mode (sending and
  receiving, or receiving only, with nothing pending), every later local update, of any
  mode and any number, reports success, sends nothing and changes nothing: the user can
  neither accept nor refuse the request nor drop the video until the remote side acts.
\<close>

theorem video_request_blocks_local_updates:
  assumes "v_state v = Some CALL_MODE_SEND_RECEIVE"
    and "v_status v CALL_MODE_SEND_RECEIVE = STATUS_NONE"
    and "mr_callMode r = CALL_MODE_SEND_RECEIVE \<or> mr_callMode r = CALL_MODE_RECEIVE_ONLY"
    and "m_callState c = CALL_STATUS_ACTIVE"
  shows "video_event (foldl video_step (video_step v (ve, c', RemoteRequest r))
                        (map (\<lambda>m. (ve', c, LocalUpdate m)) ms)) (ve', c, LocalUpdate mode) =
         (TELEPHONY_SUCCESS, [], video_step v (ve, c', RemoteRequest r))"
proof -
  let ?w = "video_step v (ve, c', RemoteRequest r)"
  have w: "v_state ?w = Some CALL_MODE_SEND_RECEIVE"
    "v_status ?w CALL_MODE_SEND_RECEIVE = STATUS_RECV_REQUEST"
    using assms(1-3)
    by (auto simp: video_step_def RecieveUpdateCallMediaModeRequest_def state_ReceiveRequest_def
        VideoSendReceive_ReceiveRequest_def SetVideoUpdateStatus_def DispatchReportVideoCallInfo_def)
  have ev: "video_event ?w (ve', c, LocalUpdate m) = (TELEPHONY_SUCCESS, [], ?w)" for m
    using w assms(4)
    by (simp add: UpdateImsCallMode_def state_SendResponse_def VideoSendReceive_SendResponse_def)
  have st: "video_step ?w (ve', c, LocalUpdate m) = ?w" for m
    by (subst video_step_def) (simp only: ev snd_conv)
  have "foldl video_step ?w (map (\<lambda>m. (ve', c, LocalUpdate m)) ms) = ?w"
    by (induction ms) (simp_all only: list.map foldl.simps st)
  then show ?thesis by (simp only: ev)
qed

theorem video_request_blocks_local_updates_witness:
  "video_event (video_step (busy_video\<lparr>v_status := (\<lambda>_. STATUS_NONE)\<rparr>)
      (sample_video_env, sample_video_call, RemoteRequest \<lparr>mr_callIndex = 1,
         mr_result = TYPE_REQUEST_SUCCESS, mr_callMode = CALL_MODE_SEND_RECEIVE, mr_slotId = 0\<rparr>))
     (sample_video_env, sample_video_call, LocalUpdate CALL_MODE_AUDIO_ONLY) =
   (TELEPHONY_SUCCESS, [], video_step (busy_video\<lparr>v_status := (\<lambda>_. STATUS_NONE)\<rparr>)
      (sample_video_env, sample_video_call, RemoteRequest \<lparr>mr_callIndex = 1,
         mr_result = TYPE_REQUEST_SUCCESS, mr_callMode = CALL_MODE_SEND_RECEIVE, mr_slotId = 0\<rparr>))"
  using video_request_blocks_local_updates
    [of "busy_video\<lparr>v_status := (\<lambda>_. STATUS_NONE)\<rparr>" "\<lparr>mr_callIndex = 1,
       mr_result = TYPE_REQUEST_SUCCESS, mr_callMode = CALL_MODE_SEND_RECEIVE, mr_slotId = 0\<rparr>"
      sample_video_call sample_video_env sample_video_call sample_video_env "[]"]
  by (simp add: sample_video_defs)

text \<open>
  A voice call that was asked for two-way video follows the user's answer: accepting
  sends the acceptance and makes it a video call, refusing sends the refusal and leaves
  it a voice call; in both cases the request is no longer pending.
\<close>

theorem video_offer_answered:
  assumes "v_initialized v" and "v_state v = Some CALL_MODE_AUDIO_ONLY"
    and "v_status v CALL_MODE_AUDIO_ONLY = STATUS_NONE"
    and "mr_callMode r = CALL_MODE_SEND_RECEIVE" and "m_callState c = CALL_STATUS_ACTIVE"
    and "length (m_accountNumber c) \<le> kMaxNumberLen"
    and "mode = CALL_MODE_SEND_RECEIVE \<or> mode = CALL_MODE_AUDIO_ONLY"
  shows "\<exists>w. video_event (video_step v (ve, c, RemoteRequest r)) (ve, c, LocalUpdate mode) =
               (TELEPHONY_SUCCESS, [Sent (ReqMediaModeResponse (packed c) mode)], w) \<and>
             v_state w = Some mode \<and> v_status w CALL_MODE_AUDIO_ONLY = STATUS_NONE"
proof -
  have s: "IsSupportVideoCall c" using assms(5) by (simp add: IsSupportVideoCall_def)
  have "fst (PackCellularCallInfo c default_cellular_info) = TELEPHONY_SUCCESS"
    using assms(6) by (simp add: PackCellularCallInfo_def memcpy_s_def Let_def)
  then have p: "PackCellularCallInfo c default_cellular_info = (TELEPHONY_SUCCESS, packed c)"
    unfolding packed_def by (metis prod.collapse)
  have w: "video_step v (ve, c, RemoteRequest r) =
             SetVideoUpdateStatus CALL_MODE_AUDIO_ONLY STATUS_RECV_REQUEST v"
    using assms(2-4) s
    by (simp add: video_step_def RecieveUpdateCallMediaModeRequest_def state_ReceiveRequest_def
        AudioOnly_ReceiveRequest_def DispatchReportVideoCallInfo_def)
  show ?thesis
    using assms(1,2,5,7) s p
    by (auto simp: w UpdateImsCallMode_def state_SendResponse_def AudioOnly_SendResponse_def
        accept_upgrade_def SetVideoUpdateStatus_def SwitchCallVideoState_def SwitchVideoState_def
        has_state_object_def DispatchUpdateVideoResponse_def
        IMSCall_SendUpdateCallMediaModeResponse_def Let_def)
qed

theorem video_offer_answered_witness:
  "\<exists>w. video_event (video_step sample_video (sample_video_env, sample_video_call,
          RemoteRequest \<lparr>mr_callIndex = 1, mr_result = TYPE_REQUEST_SUCCESS,
            mr_callMode = CALL_MODE_SEND_RECEIVE, mr_slotId = 0\<rparr>))
        (sample_video_env, sample_video_call, LocalUpdate CALL_MODE_AUDIO_ONLY) =
      (TELEPHONY_SUCCESS, [Sent (ReqMediaModeResponse (packed sample_video_call)
         CALL_MODE_AUDIO_ONLY)], w) \<and>
      v_state w = Some CALL_MODE_AUDIO_ONLY \<and> v_status w CALL_MODE_AUDIO_ONLY = STATUS_NONE"
  by (rule video_offer_answered)
     (simp_all add: sample_video_defs sample_call_defs kMaxNumberLen_def)

end
