(* ===== verification/Call_Object_Manager.thy ===== *)
theory Call_Object_Manager
  imports Call_Dispatch
begin

text \<open>
  The registry of calls (\<^verbatim>\<open>services/call/src/call_object_manager.cpp\<close>), with the
  number normalisation it uses (\<^verbatim>\<open>utils/src/call_number_utils.cpp\<close>).  The list holds
  pointers to call objects that the rest of the service shares, so the registry is a
  list of addresses and a heap; the addresses are never null, because only a non-null
  pointer is accepted.  The second table, of calls reported by the VoIP application, is a
  map from call ids to snapshots, iterated in the order of the keys.

  Every function takes the mutex of the list once and is atomic, except
  IsNewCallAllowedCreate, which takes it twice; there the mutex is modelled.
\<close>

subsection \<open>State\<close>

type_synonym ptr = nat

record registry =
  r_heap :: "ptr \<Rightarrow> call"
  r_list :: "ptr list"
  r_voip :: "int \<rightharpoonup> CallAttributeInfo"
  r_callId :: int
  r_isFirstDialCallAdded :: bool

abbreviation calls :: "registry \<Rightarrow> call list" where
  "calls r \<equiv> map (r_heap r) (r_list r)"

definition empty_registry :: "(ptr \<Rightarrow> call) \<Rightarrow> registry" where
  "empty_registry h = \<lparr>r_heap = h, r_list = [], r_voip = Map.empty, r_callId = CALL_START_ID,
     r_isFirstDialCallAdded = False\<rparr>"

definition voip_infos :: "registry \<Rightarrow> CallAttributeInfo list" where
  "voip_infos r = map (\<lambda>k. the (r_voip r k)) (sorted_list_of_set (dom (r_voip r)))"

text \<open>The scans that return a pointer: the first, and the last, element that qualifies.\<close>

definition find_call :: "(call \<Rightarrow> bool) \<Rightarrow> registry \<Rightarrow> ptr option" where
  "find_call P r = List.find (\<lambda>p. P (r_heap r p)) (r_list r)"

definition find_last_call :: "(call \<Rightarrow> bool) \<Rightarrow> registry \<Rightarrow> ptr option" where
  "find_last_call P r = find_last (\<lambda>p. P (r_heap r p)) (r_list r)"

definition has_call :: "(call \<Rightarrow> bool) \<Rightarrow> registry \<Rightarrow> bool" where
  "has_call P r = list_ex P (calls r)"

text \<open>What an operation does beside the registry.\<close>

datatype RegistryEffect =
    WiredHeadSetInit | WiredHeadSetDeInit | NotifyFirstDial
  | RegisterFoldableListener | UnregisterFoldableListener
  | DelayedDisconnectCallConnectAbility | DisconnectAbility | SetVirtualCall bool

subsection \<open>Adding and removing\<close>

text \<open>
  The call passed in is reported as added; the code has no statement that inserts it.
  ConnectAbilityIfNeed only reads states, so nothing of it remains.
\<close>

definition AddOneCallObject ::
  "bool \<Rightarrow> ptr option \<Rightarrow> registry \<Rightarrow> ErrCode \<times> RegistryEffect list \<times> registry" where
  "AddOneCallObject smallFold call r =
     (case call of
        None \<Rightarrow> (TELEPHONY_ERR_LOCAL_PTR_NULL, [], r)
      | Some p \<Rightarrow>
          if has_call (\<lambda>c. m_callId c = m_callId (r_heap r p)) r
          then (CALL_ERR_PHONE_CALL_ALREADY_EXISTS, [], r)
          else
            let first = (length (r_list r) = ONE_CALL_EXIST \<and>
                         m_callState (r_heap r (hd (r_list r))) = CALL_STATUS_DIALING);
                es = (if length (r_list r) = ONE_CALL_EXIST then [WiredHeadSetInit] else []) @
                     (if first then [NotifyFirstDial] else []) @
                     (if smallFold then [RegisterFoldableListener] else []);
                r = (if first then r\<lparr>r_isFirstDialCallAdded := True\<rparr> else r)
            in (TELEPHONY_SUCCESS, es, r))"

text \<open>Erase the first entry that qualifies.\<close>

fun erase_first :: "('a \<Rightarrow> bool) \<Rightarrow> 'a list \<Rightarrow> 'a list" where
  "erase_first P [] = []"
| "erase_first P (x # xs) = (if P x then xs else x # erase_first P xs)"

definition DeleteOneCallObject_id ::
  "bool \<Rightarrow> bool \<Rightarrow> int \<Rightarrow> registry \<Rightarrow> ErrCode \<times> RegistryEffect list \<times> registry" where
  "DeleteOneCallObject_id smallFold disconnect callId r =
     (let r = r\<lparr>r_list := erase_first (\<lambda>p. m_callId (r_heap r p) = callId) (r_list r)\<rparr>;
          es = (if length (r_list r) = NO_CALL_EXIST
                then [WiredHeadSetDeInit] @
                     (if smallFold then [UnregisterFoldableListener] else []) @
                     (if disconnect then [DelayedDisconnectCallConnectAbility] else [])
                else [])
      in (TELEPHONY_SUCCESS, es, r))"

definition DeleteOneCallObject_ptr ::
  "bool \<Rightarrow> bool \<Rightarrow> ptr option \<Rightarrow> registry \<Rightarrow> RegistryEffect list \<times> registry" where
  "DeleteOneCallObject_ptr smallFold disconnect call r =
     (case call of
        None \<Rightarrow> ([], r)
      | Some p \<Rightarrow>
          let r = r\<lparr>r_list := removeAll p (r_list r)\<rparr>;
              es = (if length (r_list r) = NO_CALL_EXIST
                    then (if smallFold then [UnregisterFoldableListener] else []) @
                         (if disconnect then [DelayedDisconnectCallConnectAbility] else [])
                    else [])
          in (es, r))"

text \<open>The task a deletion submits, when it runs.\<close>

definition DelayedDisconnectCallConnectAbility_task ::
  "bool \<Rightarrow> registry \<Rightarrow> RegistryEffect list" where
  "DelayedDisconnectCallConnectAbility_task disconnect r =
     (if length (r_list r) = NO_CALL_EXIST \<and> disconnect then [DisconnectAbility] else [])"

text \<open>Ids grow by one; incrementing the largest 32-bit value is undefined (None).\<close>

definition GetNewCallId :: "registry \<Rightarrow> (int \<times> registry) option" where
  "GetNewCallId r =
     (if r_callId r = 2 ^ 31 - 1 then None
      else Some (r_callId r + 1, r\<lparr>r_callId := r_callId r + 1\<rparr>))"

definition UpdateOneCallObjectByCallId ::
  "clock \<Rightarrow> int \<Rightarrow> TelCallState \<Rightarrow> registry \<Rightarrow> registry" where
  "UpdateOneCallObjectByCallId k callId nextCallState r =
     foldl (\<lambda>r p. if m_callId (r_heap r p) = callId
                  then r\<lparr>r_heap := (r_heap r)(p := snd (SetTelCallState k nextCallState (r_heap r p)))\<rparr>
                  else r) r (r_list r)"

subsection \<open>The table of the VoIP application\<close>

definition AddOneVoipCallObject :: "CallAttributeInfo \<Rightarrow> registry \<Rightarrow> ErrCode \<times> registry" where
  "AddOneVoipCallObject info r =
     (case r_voip r (i_callId info) of
        None \<Rightarrow> (TELEPHONY_SUCCESS, r\<lparr>r_voip := (r_voip r)(i_callId info \<mapsto> info)\<rparr>)
      | Some _ \<Rightarrow> (CALL_ERR_PHONE_CALL_ALREADY_EXISTS, r))"

definition DeleteOneVoipCallObject :: "int \<Rightarrow> registry \<Rightarrow> ErrCode \<times> registry" where
  "DeleteOneVoipCallObject callId r =
     (TELEPHONY_SUCCESS,
      if r_voip r callId \<noteq> None then r\<lparr>r_voip := (r_voip r)(callId := None)\<rparr> else r)"

definition IsVoipCallExist :: "registry \<Rightarrow> bool" where
  "IsVoipCallExist r = (card (dom (r_voip r)) \<noteq> 0)"

text \<open>The functions with an out parameter return the value it is set to.\<close>

definition IsVoipCallExist_state :: "TelCallState \<Rightarrow> registry \<Rightarrow> int option" where
  "IsVoipCallExist_state s r =
     List.find (\<lambda>k. i_callState (the (r_voip r k)) = s) (sorted_list_of_set (dom (r_voip r)))"

definition ClearVoipList :: "registry \<Rightarrow> RegistryEffect list \<times> registry" where
  "ClearVoipList r =
     ([SetVirtualCall True],
      if card (dom (r_voip r)) \<noteq> 0 then r\<lparr>r_voip := Map.empty\<rparr> else r)"

definition UpdateOneVoipCallObjectByCallId ::
  "int \<Rightarrow> TelCallState \<Rightarrow> registry \<Rightarrow> ErrCode \<times> registry" where
  "UpdateOneVoipCallObjectByCallId callId s r =
     (case r_voip r callId of
        None \<Rightarrow> (TELEPHONY_ERROR, r)
      | Some info \<Rightarrow>
          (TELEPHONY_SUCCESS, r\<lparr>r_voip := (r_voip r)(callId \<mapsto> info\<lparr>i_callState := s\<rparr>)\<rparr>))"

definition GetVoipCallInfo :: "registry \<Rightarrow> CallAttributeInfo" where
  "GetVoipCallInfo r = (case voip_infos r of [] \<Rightarrow> default_info | i # _ \<Rightarrow> i)"

definition GetActiveVoipCallInfo :: "registry \<Rightarrow> CallAttributeInfo" where
  "GetActiveVoipCallInfo r =
     (case List.find (\<lambda>i. i_callState i = CALL_STATUS_ACTIVE) (voip_infos r) of
        None \<Rightarrow> default_info | Some i \<Rightarrow> i)"

text \<open>The state of the VoIP application's call is a member of the control manager.\<close>

definition GetVoipCallInfoList :: "int \<Rightarrow> registry \<Rightarrow> CallAttributeInfo list" where
  "GetVoipCallInfoList voipState r =
     (if voipState = TelCallState_code CALL_STATUS_DIALING \<or>
         voipState = TelCallState_code CALL_STATUS_INCOMING \<or>
         voipState = TelCallState_code CALL_STATUS_IDLE \<or>
         voipState = TelCallState_code CALL_STATUS_ALERTING
      then voip_infos r else [])"

subsection \<open>Looking calls up\<close>

definition RemovePostDialPhoneNumber :: "string \<Rightarrow> string" where
  "RemovePostDialPhoneNumber phoneString =
     filter (\<lambda>c. (of_char c :: nat) \<in> {48..57} \<or> c = CHR ''*'' \<or> c = CHR ''#'' \<or>
                 c = CHR ''+'' \<or> c = CHR ''N'')
       (takeWhile (\<lambda>c. c \<noteq> CHR '','' \<and> c \<noteq> CHR '';'') phoneString)"

definition GetOneCallObject :: "int \<Rightarrow> registry \<Rightarrow> ptr option" where
  "GetOneCallObject callId r = find_call (\<lambda>c. m_callId c = callId) r"

definition GetOneCallObject_number :: "string \<Rightarrow> registry \<Rightarrow> ptr option" where
  "GetOneCallObject_number phoneNumber r =
     (if phoneNumber = [] then None
      else find_call (\<lambda>c. RemovePostDialPhoneNumber (m_accountNumber c) = phoneNumber) r)"

definition GetOneCallObject_running :: "CallRunningState \<Rightarrow> registry \<Rightarrow> ptr option" where
  "GetOneCallObject_running s r = find_last_call (\<lambda>c. m_callRunningState c = s) r"

definition GetOneCarrierCallObject :: "CallRunningState \<Rightarrow> registry \<Rightarrow> ptr option" where
  "GetOneCarrierCallObject s r =
     find_last_call (\<lambda>c. m_callRunningState c = s \<and> m_callType c \<noteq> TYPE_VOIP) r"

definition GetOneCallObjectByIndex :: "int \<Rightarrow> registry \<Rightarrow> ptr option" where
  "GetOneCallObjectByIndex index r =
     find_call (\<lambda>c. GetCallIndex c = index \<and> m_callType c \<noteq> TYPE_VOIP) r"

definition GetDialingCall :: "registry \<Rightarrow> ptr option" where
  "GetDialingCall r = find_call (\<lambda>c. m_callState c = CALL_STATUS_DIALING) r"

definition GetOneCallObjectByIndexAndSlotId ::
  "(ErrCode \<Rightarrow> int) \<Rightarrow> int \<Rightarrow> int \<Rightarrow> registry \<Rightarrow> ptr option" where
  "GetOneCallObjectByIndexAndSlotId code index slotId r =
     find_call (\<lambda>c. GetCallIndex c = index \<and> GetSlotId code c = slotId \<and>
                    m_callType c \<noteq> TYPE_VOIP) r"

definition GetOneCallObjectByIndexSlotIdAndCallType ::
  "(ErrCode \<Rightarrow> int) \<Rightarrow> int \<Rightarrow> int \<Rightarrow> CallType \<Rightarrow> int \<Rightarrow> registry \<Rightarrow> ptr option" where
  "GetOneCallObjectByIndexSlotIdAndCallType code index slotId callType phoneIndex r =
     (if callType = TYPE_BLUETOOTH
      then find_call (\<lambda>c. m_callType c = TYPE_BLUETOOTH \<and> GetCallIndex c = index \<and>
             (GetSlotId code c = slotId \<or> m_phoneOrWatch c = PhoneOrWatchDial_code WATCH_DIAL) \<and>
             m_phoneIndex c = phoneIndex) r
      else find_call (\<lambda>c. m_callType c \<noteq> TYPE_BLUETOOTH \<and> GetCallIndex c = index \<and>
             GetSlotId code c = slotId \<and> m_callType c \<noteq> TYPE_VOIP) r)"

definition GetOneCallObjectByVoipCallId ::
  "string \<Rightarrow> string \<Rightarrow> int \<Rightarrow> registry \<Rightarrow> ptr option" where
  "GetOneCallObjectByVoipCallId voipCallId bundleName uid r =
     find_call (\<lambda>c. m_callType c = TYPE_VOIP \<and> v_voipCallId (m_voip c) = voipCallId \<and>
                    v_voipBundleName (m_voip c) = bundleName \<and> v_uid (m_voip c) = uid) r"

definition GetCallState :: "int \<Rightarrow> registry \<Rightarrow> TelCallState" where
  "GetCallState callId r =
     (case GetOneCallObject callId r of
        None \<Rightarrow> CALL_STATUS_IDLE | Some p \<Rightarrow> m_callState (r_heap r p))"

subsection \<open>Queries\<close>

definition is_new_call :: "call \<Rightarrow> bool" where
  "is_new_call c = (m_callType c \<noteq> TYPE_VOIP \<and>
     (m_callRunningState c = CALL_RUNNING_STATE_CREATE \<or>
      m_callRunningState c = CALL_RUNNING_STATE_CONNECTING \<or>
      m_callRunningState c = CALL_RUNNING_STATE_DIALING \<or> m_callType c = TYPE_SATELLITE))"

definition HasNewCall :: "registry \<Rightarrow> ErrCode" where
  "HasNewCall r =
     (if has_call is_new_call r then CALL_ERR_CALL_COUNTS_EXCEED_LIMIT else TELEPHONY_SUCCESS)"

definition is_carrier_type :: "call \<Rightarrow> bool" where
  "is_carrier_type c = (m_callType c = TYPE_CS \<or> m_callType c = TYPE_IMS \<or>
     m_callType c = TYPE_SATELLITE \<or> m_callType c = TYPE_BLUETOOTH)"

definition GetCarrierCallList :: "registry \<Rightarrow> int list" where
  "GetCarrierCallList r = map m_callId (filter is_carrier_type (calls r))"

text \<open>A conference counts once, by its host; a call outside one counts itself.\<close>

definition counts_as_call :: "conference \<Rightarrow> registry \<Rightarrow> int \<Rightarrow> bool" where
  "counts_as_call f r otherCallId =
     (case GetOneCallObject otherCallId r of
        None \<Rightarrow> False
      | Some p \<Rightarrow>
          let confState = m_conferenceState (r_heap r p) in
          if confState \<noteq> TEL_CONFERENCE_IDLE \<and> cf_mainCallId f = otherCallId then True
          else confState = TEL_CONFERENCE_IDLE)"

definition GetCurrentCallNum :: "conference \<Rightarrow> registry \<Rightarrow> nat" where
  "GetCurrentCallNum f r = count_if (counts_as_call f r) (GetCarrierCallList r)"

definition is_starting_call :: "call \<Rightarrow> bool" where
  "is_starting_call c = (m_callType c \<noteq> TYPE_VOIP \<and>
     (m_callRunningState c = CALL_RUNNING_STATE_CREATE \<or>
      m_callRunningState c = CALL_RUNNING_STATE_CONNECTING \<or>
      m_callRunningState c = CALL_RUNNING_STATE_DIALING \<or>
      m_callRunningState c = CALL_RUNNING_STATE_RINGING))"

text \<open>
  A function that takes the list's mutex: it does not return (None) when its thread
  already holds the mutex and the mutex may not be taken again.
\<close>

definition with_list_lock :: "bool \<Rightarrow> bool \<Rightarrow> 'a \<Rightarrow> 'a option" where
  "with_list_lock reentrant held x = (if held \<and> \<not> reentrant then None else Some x)"

definition IsNewCallAllowedCreate ::
  "bool \<Rightarrow> build \<Rightarrow> conference \<Rightarrow> registry \<Rightarrow> (ErrCode \<times> bool) option" where
  "IsNewCallAllowedCreate reentrant b f r =
     (if has_call is_starting_call r then Some (TELEPHONY_ERR_SUCCESS, False)
      else
        let callNum = (if not_support_multicall b then 1 else 2) in
        case with_list_lock reentrant True (GetCarrierCallList r) of
          None \<Rightarrow> None
        | Some callIdList \<Rightarrow>
            (if callIdList = [] then Some (TELEPHONY_ERR_SUCCESS, True)
             else
               map_option (\<lambda>count. (TELEPHONY_ERR_SUCCESS, \<not> count \<ge> callNum))
                 (with_list_lock reentrant True (count_if (counts_as_call f r) callIdList))))"

definition GetVoipCallNum :: "bool \<Rightarrow> registry \<Rightarrow> nat" where
  "GetVoipCallNum isOnlyIncludeNonVirtualVoIP r =
     count_if (\<lambda>c. m_callType c = TYPE_VOIP \<and>
       (if isOnlyIncludeNonVirtualVoIP then m_isNonVirtualCall c else True)) (calls r)"

definition GetVoipCallList :: "registry \<Rightarrow> int list" where
  "GetVoipCallList r = map m_callId (filter (\<lambda>c. m_callType c = TYPE_VOIP) (calls r))"

definition HasRingingMaximum :: "registry \<Rightarrow> bool" where
  "HasRingingMaximum r =
     (count_if (\<lambda>c. m_callRunningState c = CALL_RUNNING_STATE_RINGING) (calls r)
        \<ge> RINGING_CALL_NUMBER_LEN)"

definition HasDialingMaximum :: "registry \<Rightarrow> bool" where
  "HasDialingMaximum r =
     (count_if (\<lambda>c. m_callRunningState c = CALL_RUNNING_STATE_ACTIVE) (calls r)
        \<ge> DIALING_CALL_NUMBER_LEN)"

definition HasEmergencyCall :: "registry \<Rightarrow> bool" where
  "HasEmergencyCall r = has_call GetEmergencyState r"

definition IsCallExist :: "int \<Rightarrow> registry \<Rightarrow> bool" where
  "IsCallExist callId r = has_call (\<lambda>c. m_callId c = callId) r"

definition IsCallExist_number :: "string \<Rightarrow> registry \<Rightarrow> bool" where
  "IsCallExist_number phoneNumber r =
     (if phoneNumber = [] then False
      else has_call (\<lambda>c. RemovePostDialPhoneNumber (m_accountNumber c) = phoneNumber) r)"

definition IsCallExist_type :: "CallType \<Rightarrow> TelCallState \<Rightarrow> registry \<Rightarrow> bool" where
  "IsCallExist_type t s r = has_call (\<lambda>c. m_callType c = t \<and> m_callState c = s) r"

definition IsCallExist_state :: "TelCallState \<Rightarrow> registry \<Rightarrow> bool" where
  "IsCallExist_state s r = has_call (\<lambda>c. m_callState c = s) r"

definition IsCallExist_state_id :: "TelCallState \<Rightarrow> registry \<Rightarrow> int option" where
  "IsCallExist_state_id s r =
     map_option m_callId (List.find (\<lambda>c. m_callState c = s) (calls r))"

definition IsConferenceCallExist :: "TelConferenceState \<Rightarrow> registry \<Rightarrow> int option" where
  "IsConferenceCallExist s r =
     map_option m_callId (List.find (\<lambda>c. m_conferenceState c = s) (calls r))"

definition HasCallExist :: "registry \<Rightarrow> bool" where
  "HasCallExist r = (\<not> (r_list r = []))"

definition HasCellularCallExist :: "registry \<Rightarrow> bool" where
  "HasCellularCallExist r =
     has_call (\<lambda>c. is_carrier_type c \<and> m_callState c \<noteq> CALL_STATUS_DISCONNECTED \<and>
                   m_callState c \<noteq> CALL_STATUS_DISCONNECTING) r"

definition HasVoipCallExist :: "registry \<Rightarrow> bool" where
  "HasVoipCallExist r = has_call (\<lambda>c. m_callType c = TYPE_VOIP) r"

definition HasOtherBtCallExist :: "int \<Rightarrow> registry \<Rightarrow> bool" where
  "HasOtherBtCallExist callId r =
     has_call (\<lambda>c. m_callId c \<noteq> callId \<and> m_callType c = TYPE_BLUETOOTH) r"

definition HasIncomingCallCrsType :: "registry \<Rightarrow> bool" where
  "HasIncomingCallCrsType r =
     has_call (\<lambda>c. m_callRunningState c = CALL_RUNNING_STATE_RINGING \<and> m_crsType c = CRS_TYPE) r"

definition IsVideoRing :: "string \<Rightarrow> string \<Rightarrow> bool" where
  "IsVideoRing personalNotificationRingtone ringtonePath =
     ((length personalNotificationRingtone > 4 \<and>
       drop (length personalNotificationRingtone - 4) personalNotificationRingtone = ''.mp4'') \<or>
      ringtonePath = ''system_video_ring'')"

definition HasIncomingCallVideoRingType :: "registry \<Rightarrow> bool" where
  "HasIncomingCallVideoRingType r =
     has_call (\<lambda>c. m_callType c \<noteq> TYPE_VOIP \<and>
       m_callRunningState c = CALL_RUNNING_STATE_RINGING \<and>
       IsVideoRing (ci_personalNotificationRingtone (m_contactInfo c))
         (ci_ringtonePath (m_contactInfo c))) r"

definition HasVideoCall :: "registry \<Rightarrow> bool" where
  "HasVideoCall r = has_call (\<lambda>c. m_videoState c = TYPE_VIDEO \<and> m_callType c \<noteq> TYPE_VOIP) r"

definition HasSatelliteCallExist :: "registry \<Rightarrow> bool" where
  "HasSatelliteCallExist r = has_call (\<lambda>c. m_callType c = TYPE_SATELLITE) r"

definition GetSatelliteCallList :: "registry \<Rightarrow> int list" where
  "GetSatelliteCallList r = map m_callId (filter (\<lambda>c. m_callType c = TYPE_SATELLITE) (calls r))"

definition HasRingingCall :: "registry \<Rightarrow> bool" where
  "HasRingingCall r = has_call (\<lambda>c. m_callRunningState c = CALL_RUNNING_STATE_RINGING) r"

definition HasHoldCall :: "registry \<Rightarrow> bool" where
  "HasHoldCall r = has_call (\<lambda>c. m_callRunningState c = CALL_RUNNING_STATE_HOLD) r"

definition HasActivedCallExist :: "bool \<Rightarrow> registry \<Rightarrow> int option" where
  "HasActivedCallExist isIncludeVoipCall r =
     (case List.find (\<lambda>c. m_callState c = CALL_STATUS_ACTIVE \<and>
             ((isIncludeVoipCall \<and> m_isNonVirtualCall c) \<or> m_callType c \<noteq> TYPE_VOIP)) (calls r) of
        Some c \<Rightarrow> Some (m_callId c)
      | None \<Rightarrow>
          let res = GetActiveVoipCallInfo r in
          if i_callId res \<ge> VOIP_CALL_MINIMUM then Some (i_callId res) else None)"

text \<open>The calls an application may see: virtual VoIP calls are left out.\<close>

definition skips_call :: "bool \<Rightarrow> call \<Rightarrow> bool" where
  "skips_call isIncludeVoipCall c =
     (m_callType c = TYPE_VOIP \<and> (if isIncludeVoipCall then \<not> m_isNonVirtualCall c else True))"

definition GetCallNum :: "TelCallState \<Rightarrow> bool \<Rightarrow> registry \<Rightarrow> nat" where
  "GetCallNum s isIncludeVoipCall r =
     count_if (\<lambda>c. m_callState c = s \<and> \<not> skips_call isIncludeVoipCall c) (calls r)"

definition GetCallNumber :: "TelCallState \<Rightarrow> bool \<Rightarrow> registry \<Rightarrow> string" where
  "GetCallNumber s isIncludeVoipCall r =
     (case List.find (\<lambda>c. m_callState c = s \<and> \<not> skips_call isIncludeVoipCall c) (calls r) of
        None \<Rightarrow> [] | Some c \<Rightarrow> m_accountNumber c)"

definition GetCallNumByRunningState :: "CallRunningState \<Rightarrow> registry \<Rightarrow> nat" where
  "GetCallNumByRunningState s r = count_if (\<lambda>c. m_callRunningState c = s) (calls r)"

text \<open>
  The list for one slot reuses a snapshot that is cleared to zero bytes before each call;
  the list of all calls starts from a fresh one each time.
\<close>

definition zeroed_info :: CallAttributeInfo where
  "zeroed_info = default_info\<lparr>i_callType := TYPE_CS, i_callState := CALL_STATUS_ACTIVE,
     i_callDirection := CALL_DIRECTION_IN, i_celiaCallType := 0,
     i_numberMarkInfo := zeroed_mark_info\<lparr>markType := MARK_TYPE_NONE\<rparr>,
     i_voipCallInfo := default_voip_info\<lparr>v_showBannerForIncomingCall := False,
       v_isVoiceAnswerSupported := False, v_hasMicPermission := False\<rparr>\<rparr>"

definition GetCallInfoList ::
  "build \<Rightarrow> want_api \<Rightarrow> int \<Rightarrow> int \<Rightarrow> bool \<Rightarrow> registry \<Rightarrow> CallAttributeInfo list" where
  "GetCallInfoList b w voipState slotId isIncludeVoipCall r =
     filter (\<lambda>i. i_accountId i = slotId \<and> i_callType i \<noteq> TYPE_OTT)
       (map (\<lambda>c. GetCallAttributeInfo b w c zeroed_info)
          (filter (\<lambda>c. \<not> skips_call isIncludeVoipCall c) (calls r)))
     @ GetVoipCallInfoList voipState r"

definition GetAllCallInfoList ::
  "build \<Rightarrow> want_api \<Rightarrow> int \<Rightarrow> bool \<Rightarrow> registry \<Rightarrow> CallAttributeInfo list" where
  "GetAllCallInfoList b w voipState isIncludeVoipCall r =
     map (\<lambda>c. GetCallAttributeInfo b w c default_info)
       (filter (\<lambda>c. \<not> skips_call isIncludeVoipCall c) (calls r))
     @ GetVoipCallInfoList voipState r"

subsection \<open>The call in the foreground\<close>

text \<open>
  The scan for the foreground call remembers the last live call it has seen and stops at
  the first waiting or incoming one.
\<close>

fun foreground_scan :: "(ptr \<Rightarrow> call) \<Rightarrow> bool \<Rightarrow> ptr option \<Rightarrow> ptr list \<Rightarrow> ptr option" where
  "foreground_scan h voip live [] = live"
| "foreground_scan h voip live (p # ps) =
     (if \<not> voip \<and> m_callType (h p) = TYPE_VOIP then foreground_scan h voip live ps
      else
        let s = m_callState (h p) in
        if s = CALL_STATUS_WAITING \<or> s = CALL_STATUS_INCOMING then Some p
        else if s = CALL_STATUS_ALERTING \<or> s = CALL_STATUS_DIALING
        then foreground_scan h voip (Some p) ps
        else if s = CALL_STATUS_ACTIVE then foreground_scan h voip (Some p) ps
        else if s = CALL_STATUS_HOLDING then foreground_scan h voip (Some p) ps
        else foreground_scan h voip live ps)"

definition GetForegroundCall :: "bool \<Rightarrow> registry \<Rightarrow> ptr option" where
  "GetForegroundCall isIncludeVoipCall r =
     foreground_scan (r_heap r) isIncludeVoipCall None (r_list r)"

definition GetForegroundLiveCall :: "bool \<Rightarrow> registry \<Rightarrow> ptr option" where
  "GetForegroundLiveCall isIncludeVoipCall r =
     find_call (\<lambda>c. \<not> (\<not> isIncludeVoipCall \<and> m_callType c = TYPE_VOIP) \<and>
       (m_callState c = CALL_STATUS_ACTIVE \<or> m_callState c = CALL_STATUS_ALERTING \<or>
        m_callState c = CALL_STATUS_DIALING)) r"

definition GetIncomingCall :: "bool \<Rightarrow> registry \<Rightarrow> ptr option" where
  "GetIncomingCall isIncludeVoipCall r =
     find_call (\<lambda>c. \<not> (\<not> isIncludeVoipCall \<and> m_callType c = TYPE_VOIP) \<and>
       (m_callState c = CALL_STATUS_INCOMING \<or> m_callState c = CALL_STATUS_WAITING)) r"

definition GetAudioLiveCall :: "registry \<Rightarrow> ptr option" where
  "GetAudioLiveCall r =
     (let call = GetForegroundLiveCall False r;
          call = (if call = None then GetIncomingCall False r else call);
          call = (if call = None then GetOneCarrierCallObject CALL_RUNNING_STATE_HOLD r else call);
          call = (if call = None then GetForegroundLiveCall True r else call);
          call = (if call = None then GetIncomingCall True r else call)
      in call)"

fun live_by_id_scan :: "(ptr \<Rightarrow> call) \<Rightarrow> int \<Rightarrow> ptr option \<Rightarrow> ptr list \<Rightarrow> ptr option" where
  "live_by_id_scan h i live [] = live"
| "live_by_id_scan h i live (p # ps) =
     (let s = m_callState (h p) in
      if s = CALL_STATUS_ACTIVE \<and> m_callId (h p) = i then Some p
      else if (s = CALL_STATUS_ALERTING \<or> s = CALL_STATUS_DIALING) \<and> m_callId (h p) = i
      then Some p
      else if (s = CALL_STATUS_WAITING \<or> s = CALL_STATUS_INCOMING) \<and> m_callId (h p) = i
      then live_by_id_scan h i (Some p) ps
      else live_by_id_scan h i live ps)"

definition GetForegroundLiveCallByCallId :: "int \<Rightarrow> registry \<Rightarrow> ptr option" where
  "GetForegroundLiveCallByCallId callId r = live_by_id_scan (r_heap r) callId None (r_list r)"

definition IsNeedSilentInDoNotDisturbMode :: "registry \<Rightarrow> bool" where
  "IsNeedSilentInDoNotDisturbMode r =
     (case GetForegroundCall False r of
        None \<Rightarrow> False
      | Some p \<Rightarrow>
          m_callState (r_heap r p) = CALL_STATUS_INCOMING \<and>
          GetParamsByKey ''IsNeedSilentInDoNotDisturbMode'' 0 (r_heap r p) = 1)"

subsection \<open>Bluetooth, real-time text and transferred calls\<close>

definition HasBtCallWithDifferentNumber :: "string \<Rightarrow> registry \<Rightarrow> bool" where
  "HasBtCallWithDifferentNumber accountNumber r =
     has_call (\<lambda>c. m_accountNumber c \<noteq> accountNumber \<and> m_callType c = TYPE_BLUETOOTH) r"

definition HasRttCall :: "build \<Rightarrow> registry \<Rightarrow> bool" where
  "HasRttCall b r =
     (support_rtt_call b \<and>
      has_call (\<lambda>c. m_callType c = TYPE_IMS \<and> m_rttState c = RTT_STATE_YES) r)"

definition HasTransferCall :: "build \<Rightarrow> registry \<Rightarrow> bool" where
  "HasTransferCall b r = has_call (IsTransferCall b) r"

definition HasNonTransferCall :: "build \<Rightarrow> registry \<Rightarrow> bool" where
  "HasNonTransferCall b r = has_call (\<lambda>c. \<not> IsTransferCall b c) r"

definition GetIncomingBtTransferCall :: "build \<Rightarrow> registry \<Rightarrow> ptr option" where
  "GetIncomingBtTransferCall b r =
     find_call (\<lambda>c. IsTransferCall b c \<and>
       (m_callState c = CALL_STATUS_INCOMING \<or> m_callState c = CALL_STATUS_WAITING)) r"

definition GetOtherBtTransferCall :: "build \<Rightarrow> int \<Rightarrow> registry \<Rightarrow> ptr option" where
  "GetOtherBtTransferCall b excludeCallId r =
     find_call (\<lambda>c. IsTransferCall b c \<and> m_callId c \<noteq> excludeCallId) r"

subsection \<open>Hanging up VoIP calls when a carrier call starts\<close>

text \<open>
  CallBase::HangUpVoipCall (\<^verbatim>\<open>call_base.cpp\<close>): for every VoIP call that is visible,
  an incoming one is rejected, an active one is left alone, any other is hung up.
\<close>

definition hang_up_one_voip :: "env \<Rightarrow> registry \<Rightarrow> CallAttributeInfo \<Rightarrow> registry \<times> Request list" where
  "hang_up_one_voip e r info =
     (if i_callType info = TYPE_VOIP then
        (case GetOneCallObject (i_callId info) r of
           None \<Rightarrow> (r, [])
         | Some p \<Rightarrow>
             let c = r_heap r p in
             if m_callState c = CALL_STATUS_ACTIVE then (r, [])
             else
               let (_, qs, c) = (if m_callState c = CALL_STATUS_INCOMING then RejectCall e c
                                 else VoIPCall_HangUpCall_reason CELLULAR_CALL_EXISTS c)
               in (r\<lparr>r_heap := (r_heap r)(p := c)\<rparr>, qs))
      else (r, []))"

fun hang_up_voip_loop ::
  "env \<Rightarrow> registry \<Rightarrow> CallAttributeInfo list \<Rightarrow> registry \<times> Request list" where
  "hang_up_voip_loop e r [] = (r, [])"
| "hang_up_voip_loop e r (i # is) =
     (let (r, qs) = hang_up_one_voip e r i; (r, qs') = hang_up_voip_loop e r is
      in (r, qs @ qs'))"

definition HangUpVoipCall ::
  "build \<Rightarrow> want_api \<Rightarrow> int \<Rightarrow> env \<Rightarrow> registry \<Rightarrow> registry \<times> Request list" where
  "HangUpVoipCall b w voipState e r =
     hang_up_voip_loop e r (GetAllCallInfoList b w voipState True r)"

lemmas registry_query_defs [cm_defs] = find_call_def find_last_call_def has_call_def

subsection \<open>A table of calls\<close>

text \<open>
  What the rest of the service relies on when it looks calls up and deletes them.
\<close>

locale call_table =
  fixes get :: "'r \<Rightarrow> int \<Rightarrow> 'p option"
    and exists :: "'r \<Rightarrow> int \<Rightarrow> bool"
    and delete :: "int \<Rightarrow> 'r \<Rightarrow> 'r"
    and ident :: "'r \<Rightarrow> 'p \<Rightarrow> int"
    and wf :: "'r \<Rightarrow> bool"
  assumes exists_iff: "exists r i \<longleftrightarrow> get r i \<noteq> None"
    and get_ident: "get r i = Some p \<Longrightarrow> ident r p = i"
    and delete_same: "wf r \<Longrightarrow> get (delete i r) i = None"
    and delete_other: "i \<noteq> j \<Longrightarrow> get (delete i r) j = get r j"
    and delete_wf: "wf r \<Longrightarrow> wf (delete i r)"
begin

lemma get_inject: "get r i = Some p \<Longrightarrow> get r j = Some p \<Longrightarrow> i = j"
  using get_ident by metis

lemma exists_delete: "wf r \<Longrightarrow> exists (delete i r) j \<longleftrightarrow> j \<noteq> i \<and> exists r j"
  by (cases "i = j") (simp_all add: exists_iff delete_same delete_other)

lemma delete_all_wf: "wf r \<Longrightarrow> wf (fold delete is r)"
  by (induction "is" arbitrary: r) (simp_all add: delete_wf)

lemma delete_all: "wf r \<Longrightarrow> exists (fold delete is r) j \<longleftrightarrow> j \<notin> set is \<and> exists r j"
  by (induction "is" arbitrary: r) (auto simp: exists_delete delete_wf)

lemma delete_commute:
  "wf r \<Longrightarrow> exists (delete i (delete j r)) k = exists (delete j (delete i r)) k"
  by (auto simp: exists_delete delete_wf)

end

definition distinct_ids :: "registry \<Rightarrow> bool" where
  "distinct_ids r = distinct (map m_callId (calls r))"

definition delete_id :: "int \<Rightarrow> registry \<Rightarrow> registry" where
  "delete_id i r = snd (snd (DeleteOneCallObject_id False False i r))"

lemma delete_id_list:
  "r_list (delete_id i r) = erase_first (\<lambda>p. m_callId (r_heap r p) = i) (r_list r)"
  "r_heap (delete_id i r) = r_heap r"
  by (simp_all add: delete_id_def DeleteOneCallObject_id_def)

lemma delete_any_flags: "snd (snd (DeleteOneCallObject_id sf dc i r)) = delete_id i r"
  by (simp add: delete_id_def DeleteOneCallObject_id_def)

lemma erase_first_subset: "set (erase_first P xs) \<subseteq> set xs"
  by (induction xs) auto

lemma erase_first_find:
  "(\<And>x. P x \<Longrightarrow> \<not> Q x) \<Longrightarrow> List.find Q (erase_first P xs) = List.find Q xs"
  by (induction xs) auto

lemma erase_first_distinct:
  "distinct (map f xs) \<Longrightarrow> distinct (map f (erase_first (\<lambda>x. f x = i) xs)) \<and>
     (\<forall>x \<in> set (erase_first (\<lambda>x. f x = i) xs). f x \<noteq> i)"
proof (induction xs)
  case Nil
  then show ?case by simp
next
  case (Cons x xs)
  show ?case
  proof (cases "f x = i")
    case True
    with Cons.prems have d: "distinct (map f xs)" and n: "i \<notin> f ` set xs" by auto
    from n have "\<forall>y \<in> set xs. f y \<noteq> i" by (metis imageI)
    with d True show ?thesis by simp
  next
    case False
    with Cons have "distinct (map f (erase_first (\<lambda>x. f x = i) xs))"
      and "\<forall>x \<in> set (erase_first (\<lambda>x. f x = i) xs). f x \<noteq> i" by auto
    with False Cons.prems erase_first_subset [of "\<lambda>x. f x = i" xs] show ?thesis by auto
  qed
qed

interpretation registry_table: call_table
  "\<lambda>r i. GetOneCallObject i r" "\<lambda>r i. IsCallExist i r" delete_id "\<lambda>r p. m_callId (r_heap r p)"
  distinct_ids
proof unfold_locales
  fix r i
  show "IsCallExist i r \<longleftrightarrow> GetOneCallObject i r \<noteq> None"
    by (simp add: IsCallExist_def GetOneCallObject_def registry_query_defs find_is_Some_iff
        list_ex_iff)
next
  fix r i p
  assume "GetOneCallObject i r = Some p"
  then show "m_callId (r_heap r p) = i"
    by (auto simp: GetOneCallObject_def find_call_def dest: find_SomeD)
next
  fix r i
  assume "distinct_ids r"
  then show "GetOneCallObject i (delete_id i r) = None"
    using erase_first_distinct [of "\<lambda>p. m_callId (r_heap r p)" "r_list r" i]
    by (simp add: distinct_ids_def comp_def GetOneCallObject_def find_call_def delete_id_list
        find_eq_None_iff)
next
  fix i j :: int and r
  assume "i \<noteq> j"
  then show "GetOneCallObject j (delete_id i r) = GetOneCallObject j r"
    by (auto simp: GetOneCallObject_def find_call_def delete_id_list intro!: erase_first_find)
next
  fix r i
  assume "distinct_ids r"
  then show "distinct_ids (delete_id i r)"
    using erase_first_distinct [of "\<lambda>p. m_callId (r_heap r p)" "r_list r" i]
    by (simp add: distinct_ids_def comp_def delete_id_list)
qed

subsection \<open>The registry over its operations\<close>

datatype RegistryOp =
    OpAdd bool "ptr option"
  | OpDeleteId bool bool int
  | OpDeletePtr bool bool "ptr option"
  | OpUpdate clock int TelCallState
  | OpNewId
  | OpAddVoip CallAttributeInfo
  | OpDeleteVoip int
  | OpClearVoip

text \<open>The counter's overflow is left out of the sequences: such a step changes nothing.\<close>

fun registry_step :: "registry \<Rightarrow> RegistryOp \<Rightarrow> registry" where
  "registry_step r (OpAdd sf p) = snd (snd (AddOneCallObject sf p r))"
| "registry_step r (OpDeleteId sf dc i) = snd (snd (DeleteOneCallObject_id sf dc i r))"
| "registry_step r (OpDeletePtr sf dc p) = snd (DeleteOneCallObject_ptr sf dc p r)"
| "registry_step r (OpUpdate k i s) = UpdateOneCallObjectByCallId k i s r"
| "registry_step r OpNewId = (case GetNewCallId r of None \<Rightarrow> r | Some (_, r) \<Rightarrow> r)"
| "registry_step r (OpAddVoip info) = snd (AddOneVoipCallObject info r)"
| "registry_step r (OpDeleteVoip i) = snd (DeleteOneVoipCallObject i r)"
| "registry_step r OpClearVoip = snd (ClearVoipList r)"

lemma update_loop_list:
  "r_list (foldl (\<lambda>r p. if m_callId (r_heap r p) = i
                        then r\<lparr>r_heap := (r_heap r)(p := g (r_heap r p))\<rparr> else r) r ps) = r_list r"
  by (induction ps arbitrary: r) simp_all

lemma update_list [simp]: "r_list (UpdateOneCallObjectByCallId k i s r) = r_list r"
  unfolding UpdateOneCallObjectByCallId_def by (rule update_loop_list)

lemma erase_first_length: "length (erase_first P xs) \<le> length xs"
  by (induction xs) (auto simp: le_SucI)

lemma registry_step_shrinks: "length (r_list (registry_step r e)) \<le> length (r_list r)"
  by (cases e)
     (auto simp: AddOneCallObject_def DeleteOneCallObject_id_def DeleteOneCallObject_ptr_def
       GetNewCallId_def AddOneVoipCallObject_def DeleteOneVoipCallObject_def ClearVoipList_def
       erase_first_length Let_def split: option.splits)

interpretation registry_machine: shrinking_machine registry_step "\<lambda>_. True" "\<lambda>r. length (r_list r)"
  by unfold_locales (simp_all add: registry_step_shrinks)

lemma update_loop_heap:
  assumes "distinct ps" and "\<And>c. m_callId (g c) = m_callId c"
  shows "r_heap (foldl (\<lambda>r p. if m_callId (r_heap r p) = i
                 then r\<lparr>r_heap := (r_heap r)(p := g (r_heap r p))\<rparr> else r) r ps) q =
         (if q \<in> set ps \<and> m_callId (r_heap r q) = i then g (r_heap r q) else r_heap r q)"
  using assms(1)
proof (induction ps arbitrary: r)
  case Nil
  then show ?case by simp
next
  case (Cons p ps)
  then show ?case using assms(2) by (auto simp: fun_upd_def)
qed

lemma update_heap:
  assumes "distinct (r_list r)"
  shows "r_heap (UpdateOneCallObjectByCallId k i s r) q =
           (if q \<in> set (r_list r) \<and> m_callId (r_heap r q) = i
            then snd (SetTelCallState k s (r_heap r q)) else r_heap r q)"
  unfolding UpdateOneCallObjectByCallId_def
  by (rule update_loop_heap [OF assms]) simp

lemma distinct_ids_list: "distinct_ids r \<Longrightarrow> distinct (r_list r)"
  by (simp add: distinct_ids_def distinct_map)

subsection \<open>Lemmas for the properties\<close>

definition ringing_state :: "call \<Rightarrow> bool" where
  "ringing_state c = (m_callState c = CALL_STATUS_WAITING \<or> m_callState c = CALL_STATUS_INCOMING)"

definition live_state :: "call \<Rightarrow> bool" where
  "live_state c = (m_callState c = CALL_STATUS_ALERTING \<or> m_callState c = CALL_STATUS_DIALING \<or>
     m_callState c = CALL_STATUS_ACTIVE \<or> m_callState c = CALL_STATUS_HOLDING)"

definition visible_call :: "bool \<Rightarrow> call \<Rightarrow> bool" where
  "visible_call voip c = (voip \<or> m_callType c \<noteq> TYPE_VOIP)"

lemma find_append: "List.find P (xs @ ys) =
  (case List.find P xs of None \<Rightarrow> List.find P ys | Some x \<Rightarrow> Some x)"
  by (induction xs) auto

lemma foreground_scan_step:
  "foreground_scan h voip live (p # ps) =
     (if visible_call voip (h p) \<and> ringing_state (h p) then Some p
      else if visible_call voip (h p) \<and> live_state (h p) then foreground_scan h voip (Some p) ps
      else foreground_scan h voip live ps)"
  by (simp add: visible_call_def ringing_state_def live_state_def Let_def)

lemma foreground_scan_spec:
  "foreground_scan h voip live ps =
     (case List.find (\<lambda>p. visible_call voip (h p) \<and> ringing_state (h p)) ps of
        Some p \<Rightarrow> Some p
      | None \<Rightarrow> (case find_last (\<lambda>p. visible_call voip (h p) \<and> live_state (h p)) ps of
                  Some p \<Rightarrow> Some p | None \<Rightarrow> live))"
proof (induction ps arbitrary: live)
  case Nil
  then show ?case by simp
next
  case (Cons p ps)
  show ?case
    unfolding foreground_scan_step Cons.IH
    by (auto simp: find_append split: option.split)
qed

lemma find_call_Some: "find_call P r = Some p \<Longrightarrow> p \<in> set (r_list r) \<and> P (r_heap r p)"
  by (auto simp: find_call_def dest: find_SomeD)

lemma find_last_call_Some: "find_last_call P r = Some p \<Longrightarrow> p \<in> set (r_list r) \<and> P (r_heap r p)"
  by (auto simp: find_last_call_def dest: find_SomeD)

lemma has_call_iff: "has_call P r \<longleftrightarrow> (\<exists>p \<in> set (r_list r). P (r_heap r p))"
  by (simp add: has_call_def list_ex_iff)

lemma find_call_None: "find_call P r = None \<longleftrightarrow> \<not> has_call P r"
  by (simp add: find_call_def has_call_iff find_eq_None_iff)

lemma find_last_call_None: "find_last_call P r = None \<longleftrightarrow> \<not> has_call P r"
  by (simp add: find_last_call_def has_call_iff find_eq_None_iff)

lemma carrier_list_nil:
  "GetCarrierCallList r = [] \<Longrightarrow> count_if (counts_as_call f r) (GetCarrierCallList r) = 0"
  by simp

text \<open>A visible VoIP call of a registry with distinct ids is found again by its id.\<close>

lemma get_by_own_id:
  assumes "distinct_ids r" and "p \<in> set (r_list r)"
  shows "GetOneCallObject (m_callId (r_heap r p)) r = Some p"
  using assms find_unique [of "\<lambda>p. m_callId (r_heap r p)" "r_list r" p]
  by (simp add: GetOneCallObject_def find_call_def distinct_ids_def comp_def)

text \<open>An update changes the call with the id, by its own transition, and no lookup.\<close>

lemma update_known:
  assumes "distinct_ids r" and "GetOneCallObject i r = Some p"
  shows "r_heap (UpdateOneCallObjectByCallId k i s r) =
           (r_heap r)(p := snd (SetTelCallState k s (r_heap r p)))"
    and "GetOneCallObject j (UpdateOneCallObjectByCallId k i s r) = GetOneCallObject j r"
proof -
  have p: "p \<in> set (r_list r)" "m_callId (r_heap r p) = i"
    using assms(2) by (auto simp: GetOneCallObject_def dest: find_call_Some)
  have q: "q = p" if "q \<in> set (r_list r)" "m_callId (r_heap r q) = i" for q
    using that p assms(1) get_by_own_id [of r q] get_by_own_id [of r p] by simp
  note h = update_heap [OF distinct_ids_list [OF assms(1)], of k i s]
  have heap: "r_heap (UpdateOneCallObjectByCallId k i s r) =
      (r_heap r)(p := snd (SetTelCallState k s (r_heap r p)))"
  proof
    fix x
    show "r_heap (UpdateOneCallObjectByCallId k i s r) x =
        ((r_heap r)(p := snd (SetTelCallState k s (r_heap r p)))) x"
    proof (cases "x \<in> set (r_list r) \<and> m_callId (r_heap r x) = i")
      case True
      then have "x = p" using q by blast
      with True show ?thesis by (simp add: h)
    next
      case False
      then have "x \<noteq> p" using p by blast
      moreover have "r_heap (UpdateOneCallObjectByCallId k i s r) x = r_heap r x"
        using False by (simp only: h if_False)
      ultimately show ?thesis by simp
    qed
  qed
  show "r_heap (UpdateOneCallObjectByCallId k i s r) =
      (r_heap r)(p := snd (SetTelCallState k s (r_heap r p)))" by (rule heap)
  have "m_callId (r_heap (UpdateOneCallObjectByCallId k i s r) q) = m_callId (r_heap r q)" for q
    by (simp add: heap)
  then show "GetOneCallObject j (UpdateOneCallObjectByCallId k i s r) = GetOneCallObject j r"
    by (simp add: GetOneCallObject_def find_call_def)
qed

lemma voip_snapshot:
  assumes "m_class c = VoIPCall" and "length (m_accountNumber c) \<le> kMaxNumberLen"
  shows "i_callType (GetCallAttributeInfo b w c info) = m_callType c"
    and "i_callId (GetCallAttributeInfo b w c info) = m_callId c"
  using assms
  by (simp_all add: GetCallAttributeInfo_def VoIPCall_GetCallAttributeInfo_def
      GetCallAttributeCarrierInfo_def GetCallAttributeBaseInfo_def fill_base_fields_def
      fill_mark_fields_def Let_def split: prod.splits)

text \<open>What hanging up does with one call.\<close>

definition voip_hang_up_requests :: "call \<Rightarrow> Request list" where
  "voip_hang_up_requests c =
     (if m_callState c = CALL_STATUS_ACTIVE then []
      else if m_callState c = CALL_STATUS_INCOMING then [VoipReject (PackVoipCallInfo c)]
      else [VoipHangUp ((PackVoipCallInfo c)\<lparr>ve_errorReason := CELLULAR_CALL_EXISTS\<rparr>)])"

lemma hang_up_one_known:
  assumes "GetOneCallObject (i_callId info) r = Some p" and "i_callType info = TYPE_VOIP"
    and "m_class (r_heap r p) = VoIPCall"
  shows "hang_up_one_voip e r info = (r, voip_hang_up_requests (r_heap r p))"
  using assms
  by (simp add: hang_up_one_voip_def voip_hang_up_requests_def RejectCall_def
      VoIPCall_RejectCall_def VoIPCall_HangUpCall_reason_def Let_def)

lemma hang_up_loop_known:
  assumes "distinct_ids r" and "set ps \<subseteq> set (r_list r)"
    and "\<And>p. p \<in> set ps \<Longrightarrow> m_callType (r_heap r p) = TYPE_VOIP \<Longrightarrow>
           m_class (r_heap r p) = VoIPCall \<and> i_callType (g p) = TYPE_VOIP \<and>
           i_callId (g p) = m_callId (r_heap r p)"
    and "\<And>p. p \<in> set ps \<Longrightarrow> m_callType (r_heap r p) \<noteq> TYPE_VOIP \<Longrightarrow> i_callType (g p) \<noteq> TYPE_VOIP"
  shows "hang_up_voip_loop e r (map g ps) =
           (r, concat (map (\<lambda>p. if m_callType (r_heap r p) = TYPE_VOIP
                                then voip_hang_up_requests (r_heap r p) else []) ps))"
  using assms(2-)
proof (induction ps)
  case Nil
  then show ?case by simp
next
  case (Cons p ps)
  have one: "hang_up_one_voip e r (g p) =
      (r, if m_callType (r_heap r p) = TYPE_VOIP then voip_hang_up_requests (r_heap r p) else [])"
  proof (cases "m_callType (r_heap r p) = TYPE_VOIP")
    case True
    then have "m_class (r_heap r p) = VoIPCall \<and> i_callType (g p) = TYPE_VOIP \<and>
        i_callId (g p) = m_callId (r_heap r p)"
      using Cons.prems(2) by simp
    moreover have "GetOneCallObject (m_callId (r_heap r p)) r = Some p"
      using Cons.prems(1) assms(1) by (simp add: get_by_own_id)
    ultimately show ?thesis using True by (simp add: hang_up_one_known)
  next
    case False
    then show ?thesis using Cons.prems(3) by (simp add: hang_up_one_voip_def)
  qed
  have "hang_up_voip_loop e r (map g ps) =
           (r, concat (map (\<lambda>p. if m_callType (r_heap r p) = TYPE_VOIP
                                then voip_hang_up_requests (r_heap r p) else []) ps))"
    using Cons.prems by (intro Cons.IH) auto
  then show ?case by (simp add: one)
qed

lemma snapshot_callType:
  "i_callType (GetCallAttributeInfo b w c default_info) \<in> {m_callType c, TYPE_ERR_CALL}"
  by (cases "m_class c")
     (auto simp: GetCallAttributeInfo_def IMSCall_GetCallAttributeInfo_def
      VoIPCall_GetCallAttributeInfo_def BluetoothCall_GetCallAttributeInfo_def
      GetCallAttributeCarrierInfo_def GetCallAttributeBaseInfo_def fill_base_fields_def
      fill_mark_fields_def default_info_def Let_def split: prod.splits)

lemma concat_map_if_filter:
  "concat (map (\<lambda>p. if P p then f p else []) (filter Q ps)) =
   concat (map f (filter (\<lambda>p. P p \<and> Q p) ps))"
  by (induction ps) auto

subsection \<open>Properties\<close>

definition sample_build :: build where
  "sample_build = \<lparr>not_support_multicall = False, call_transfer = True, support_rtt_call = True,
     support_dsoftbus = False, sos_no_ringback_tone = False\<rparr>"

definition sample_registry :: registry where
  "sample_registry = (empty_registry (\<lambda>p. if p = 0 then sample_cs_call else sample_ims_call))
     \<lparr>r_list := [0, 1]\<rparr>"

lemma sample_registry_calls:
  "r_list sample_registry = [0, 1]" "m_callId (r_heap sample_registry 0) = 1"
  "m_callId (r_heap sample_registry (Suc 0)) = 2" "distinct_ids sample_registry"
  by (simp_all add: sample_registry_def empty_registry_def distinct_ids_def sample_call_defs)

text \<open>
  No call ever gets into the registry: from the empty registry, every sequence of the
  registry's operations, in which AddOneCallObject may report success any number of
  times, leaves the list empty, so no call exists and none can be looked up by its id.
\<close>

theorem registry_stays_empty:
  "\<not> HasCallExist (foldl registry_step (empty_registry h) ops) \<and>
   GetOneCallObject i (foldl registry_step (empty_registry h) ops) = None \<and>
   \<not> IsCallExist i (foldl registry_step (empty_registry h) ops)"
proof -
  have "length (r_list (foldl registry_step (empty_registry h) ops)) = 0"
    by (rule registry_machine.weight_zero_stays) (simp_all add: empty_registry_def)
  then show ?thesis
    by (simp add: HasCallExist_def GetOneCallObject_def IsCallExist_def registry_query_defs)
qed

text \<open>
  The call in the foreground: if a visible call is incoming or waiting, it is the
  first of these in the list; otherwise it is the last visible call that is alerting,
  dialing, active or on hold; and there is none exactly when no visible call is in one of
  these six states.
\<close>

theorem foreground_call_spec:
  "GetForegroundCall voip r =
     (case find_call (\<lambda>c. visible_call voip c \<and> ringing_state c) r of
        Some p \<Rightarrow> Some p
      | None \<Rightarrow> find_last_call (\<lambda>c. visible_call voip c \<and> live_state c) r) \<and>
   (GetForegroundCall voip r = None \<longleftrightarrow>
     \<not> has_call (\<lambda>c. visible_call voip c \<and> (ringing_state c \<or> live_state c)) r)"
proof -
  have e: "GetForegroundCall voip r =
     (case find_call (\<lambda>c. visible_call voip c \<and> ringing_state c) r of
        Some p \<Rightarrow> Some p
      | None \<Rightarrow> find_last_call (\<lambda>c. visible_call voip c \<and> live_state c) r)"
    by (simp add: GetForegroundCall_def foreground_scan_spec find_call_def find_last_call_def
        split: option.split)
  have "GetForegroundCall voip r = None \<longleftrightarrow>
      \<not> has_call (\<lambda>c. visible_call voip c \<and> ringing_state c) r \<and>
      \<not> has_call (\<lambda>c. visible_call voip c \<and> live_state c) r"
    using find_call_None [of "\<lambda>c. visible_call voip c \<and> ringing_state c" r]
      find_last_call_None [of "\<lambda>c. visible_call voip c \<and> live_state c" r]
    by (cases "find_call (\<lambda>c. visible_call voip c \<and> ringing_state c) r") (simp_all add: e)
  then show ?thesis by (auto simp: e has_call_iff)
qed

text \<open>
  Whether a new call may be made.  With a mutex that its holder cannot take again,
  the query returns only when a call is already starting or ringing (and then refuses):
  in every other state it blocks on the mutex it holds.  Were the mutex re-entrant, it
  would allow a new call exactly when no call is starting and the number of calls (a
  conference counting once) is below one or two, depending on the build.
\<close>

theorem new_call_allowed_blocks:
  "IsNewCallAllowedCreate False b f r =
     (if has_call is_starting_call r then Some (TELEPHONY_ERR_SUCCESS, False) else None) \<and>
   IsNewCallAllowedCreate True b f r =
     Some (TELEPHONY_ERR_SUCCESS, \<not> has_call is_starting_call r \<and>
       GetCurrentCallNum f r < (if not_support_multicall b then 1 else 2))"
  by (auto simp: IsNewCallAllowedCreate_def with_list_lock_def GetCurrentCallNum_def Let_def
      Suc_le_eq)

text \<open>
  With distinct ids, deleting by id removes the call with that id and no other: it no
  longer exists, every other id is answered as before, and ids stay distinct, whatever
  the device and the service's state are.
\<close>

theorem delete_removes_exactly_one:
  assumes "distinct_ids r"
  shows "GetOneCallObject j (snd (snd (DeleteOneCallObject_id sf dc i r))) =
           (if i = j then None else GetOneCallObject j r) \<and>
         (IsCallExist j (snd (snd (DeleteOneCallObject_id sf dc i r))) \<longleftrightarrow>
           j \<noteq> i \<and> IsCallExist j r) \<and>
         distinct_ids (snd (snd (DeleteOneCallObject_id sf dc i r)))"
  using assms
  by (simp add: delete_any_flags registry_table.delete_same registry_table.delete_other
      registry_table.exists_delete registry_table.delete_wf)

theorem delete_removes_exactly_one_witness:
  "GetOneCallObject 2 (snd (snd (DeleteOneCallObject_id False True 1 sample_registry))) = Some 1"
  using delete_removes_exactly_one [OF sample_registry_calls(4), of 2 False True 1]
  by (simp add: GetOneCallObject_def find_call_def sample_registry_calls)

text \<open>
  C7: With distinct ids, a state report for one call changes exactly the call with that
  id, by the call's own transition; every other call keeps its state, and an unknown id
  changes nothing.
\<close>

theorem update_changes_one_call:
  assumes "distinct_ids r" and "GetOneCallObject i r = Some p"
  shows "r_heap (UpdateOneCallObjectByCallId k i s r) =
           (r_heap r)(p := snd (SetTelCallState k s (r_heap r p))) \<and>
         GetCallState i (UpdateOneCallObjectByCallId k i s r) = s \<and>
         (j \<noteq> i \<longrightarrow> GetCallState j (UpdateOneCallObjectByCallId k i s r) = GetCallState j r)"
proof -
  note u = update_known [OF assms]
  have "j \<noteq> i \<longrightarrow> GetCallState j (UpdateOneCallObjectByCallId k i s r) = GetCallState j r"
    using registry_table.get_ident [OF assms(2)] registry_table.get_ident [of j r p]
    by (cases "GetOneCallObject j r") (auto simp: GetCallState_def u)
  then show ?thesis by (simp add: u GetCallState_def assms(2))
qed

theorem update_changes_one_call_witness:
  "GetCallState 1 (UpdateOneCallObjectByCallId sample_clock 1 CALL_STATUS_ACTIVE sample_registry) =
   CALL_STATUS_ACTIVE"
proof -
  have "GetOneCallObject 1 sample_registry = Some 0"
    by (simp add: GetOneCallObject_def find_call_def sample_registry_calls)
  from update_changes_one_call [OF sample_registry_calls(4) this] show ?thesis by blast
qed

text \<open>
  Audio follows carrier calls first: if a call that is not VoIP is active, alerting,
  dialing, incoming or waiting, or its running state is on hold, the call chosen for
  audio is not a VoIP call; and a call is chosen whenever any call, VoIP included, is
  active, alerting, dialing, incoming or waiting.
\<close>

theorem audio_prefers_carrier_calls:
  assumes "has_call (\<lambda>c. m_callState c \<in> {CALL_STATUS_ACTIVE, CALL_STATUS_ALERTING,
      CALL_STATUS_DIALING, CALL_STATUS_INCOMING, CALL_STATUS_WAITING}) r"
  shows "\<exists>p. GetAudioLiveCall r = Some p \<and> p \<in> set (r_list r) \<and>
     (has_call (\<lambda>c. m_callType c \<noteq> TYPE_VOIP \<and> (m_callState c \<in> {CALL_STATUS_ACTIVE,
        CALL_STATUS_ALERTING, CALL_STATUS_DIALING, CALL_STATUS_INCOMING, CALL_STATUS_WAITING} \<or>
        m_callRunningState c = CALL_RUNNING_STATE_HOLD)) r \<longrightarrow> m_callType (r_heap r p) \<noteq> TYPE_VOIP)"
proof -
  note d = GetForegroundLiveCall_def GetIncomingCall_def GetOneCarrierCallObject_def
  let ?stages = "[GetForegroundLiveCall False r, GetIncomingCall False r,
     GetOneCarrierCallObject CALL_RUNNING_STATE_HOLD r]"
  have carrier: "m_callType (r_heap r p) \<noteq> TYPE_VOIP" "p \<in> set (r_list r)"
    if "Some p \<in> set ?stages" for p
    using that by (auto simp: d dest!: sym [of "Some p"] find_call_Some find_last_call_Some)
  have none: "\<not> has_call (\<lambda>c. m_callType c \<noteq> TYPE_VOIP \<and> (m_callState c \<in> {CALL_STATUS_ACTIVE,
        CALL_STATUS_ALERTING, CALL_STATUS_DIALING, CALL_STATUS_INCOMING, CALL_STATUS_WAITING} \<or>
        m_callRunningState c = CALL_RUNNING_STATE_HOLD)) r"
    if "\<forall>s \<in> set ?stages. s = None"
    using that by (auto simp: d find_call_None find_last_call_None has_call_iff)
  show ?thesis
  proof (cases "\<forall>s \<in> set ?stages. s = None")
    case False
    then show ?thesis using carrier
      by (auto simp: GetAudioLiveCall_def Let_def)
  next
    case True
    then have g: "GetAudioLiveCall r = (if GetForegroundLiveCall True r = None
        then GetIncomingCall True r else GetForegroundLiveCall True r)"
      by (simp add: GetAudioLiveCall_def Let_def)
    have "GetForegroundLiveCall True r \<noteq> None \<or> GetIncomingCall True r \<noteq> None"
      using assms by (auto simp: d find_call_None has_call_iff)
    moreover have "p \<in> set (r_list r)"
      if "GetForegroundLiveCall True r = Some p \<or> GetIncomingCall True r = Some p" for p
      using that by (auto simp: d dest: find_call_Some)
    ultimately show ?thesis using none [OF True] by (auto simp: g)
  qed
qed

theorem audio_prefers_carrier_calls_witness:
  "\<exists>p. GetAudioLiveCall sample_registry = Some p"
proof -
  have "has_call (\<lambda>c. m_callState c \<in> {CALL_STATUS_ACTIVE, CALL_STATUS_ALERTING,
      CALL_STATUS_DIALING, CALL_STATUS_INCOMING, CALL_STATUS_WAITING}) sample_registry"
    by (simp add: has_call_def sample_registry_def empty_registry_def sample_call_defs)
  from audio_prefers_carrier_calls [OF this] show ?thesis by blast
qed

text \<open>
  When a carrier call starts, each VoIP call in the registry that is not virtual gets
  the one request its state calls for, in the order of the registry: a rejection when
  incoming, nothing when active, otherwise a hang-up with the reason that a cellular call
  exists; no other call gets a request and no call changes.  (Distinct ids; VoIP calls
  are VoIPCall objects; their numbers fit; the VoIP application's table is empty.)
\<close>

theorem carrier_call_hangs_up_voip:
  assumes "distinct_ids r" and "r_voip r = Map.empty"
    and "\<forall>c \<in> set (calls r). m_callType c = TYPE_VOIP \<longrightarrow>
           m_class c = VoIPCall \<and> length (m_accountNumber c) \<le> kMaxNumberLen"
  shows "HangUpVoipCall b w voipState e r =
           (r, concat (map voip_hang_up_requests
                 (filter (\<lambda>c. m_callType c = TYPE_VOIP \<and> m_isNonVirtualCall c) (calls r))))"
proof -
  let ?ps = "filter (\<lambda>p. \<not> skips_call True (r_heap r p)) (r_list r)"
  have infos: "GetAllCallInfoList b w voipState True r =
      map (\<lambda>p. GetCallAttributeInfo b w (r_heap r p) default_info) ?ps"
    by (simp add: GetAllCallInfoList_def GetVoipCallInfoList_def voip_infos_def assms(2)
        filter_map comp_def)
  have "hang_up_voip_loop e r (map (\<lambda>p. GetCallAttributeInfo b w (r_heap r p) default_info) ?ps) =
      (r, concat (map (\<lambda>p. if m_callType (r_heap r p) = TYPE_VOIP
            then voip_hang_up_requests (r_heap r p) else []) ?ps))"
  proof (rule hang_up_loop_known [OF assms(1)])
    show "set ?ps \<subseteq> set (r_list r)" by auto
  next
    fix p
    assume "p \<in> set ?ps" and "m_callType (r_heap r p) = TYPE_VOIP"
    with assms(3) show "m_class (r_heap r p) = VoIPCall \<and>
        i_callType (GetCallAttributeInfo b w (r_heap r p) default_info) = TYPE_VOIP \<and>
        i_callId (GetCallAttributeInfo b w (r_heap r p) default_info) = m_callId (r_heap r p)"
      by (simp add: voip_snapshot)
  next
    fix p
    assume "m_callType (r_heap r p) \<noteq> TYPE_VOIP"
    then show "i_callType (GetCallAttributeInfo b w (r_heap r p) default_info) \<noteq> TYPE_VOIP"
      using snapshot_callType [of b w "r_heap r p"] by auto
  qed
  then show ?thesis
    by (simp add: HangUpVoipCall_def infos concat_map_if_filter filter_map comp_def
        skips_call_def conj_commute cong: conj_cong)
qed

theorem carrier_call_hangs_up_voip_witness:
  "\<forall>b w. snd (HangUpVoipCall b w 8 sample_env
     (sample_registry\<lparr>r_heap := (\<lambda>p. (VoIPCall_new (sample_info\<lparr>d_callId := int p,
        d_callType := TYPE_VOIP\<rparr>))\<lparr>m_isNonVirtualCall := True\<rparr>)\<rparr>)) =
   [VoipReject (PackVoipCallInfo (VoIPCall_new (sample_info\<lparr>d_callId := 0, d_callType := TYPE_VOIP\<rparr>))),
    VoipReject (PackVoipCallInfo (VoIPCall_new (sample_info\<lparr>d_callId := 1, d_callType := TYPE_VOIP\<rparr>)))]"
proof (intro allI)
  fix b w
  let ?r = "sample_registry\<lparr>r_heap := (\<lambda>p. (VoIPCall_new (sample_info\<lparr>d_callId := int p,
        d_callType := TYPE_VOIP\<rparr>))\<lparr>m_isNonVirtualCall := True\<rparr>)\<rparr>"
  note d = sample_registry_def empty_registry_def VoIPCall_new_def sample_call_defs
  have "distinct_ids ?r" "r_voip ?r = Map.empty"
    "\<forall>c \<in> set (calls ?r). m_callType c = TYPE_VOIP \<longrightarrow>
       m_class c = VoIPCall \<and> length (m_accountNumber c) \<le> kMaxNumberLen"
    by (simp_all add: d distinct_ids_def kMaxNumberLen_def)
  from carrier_call_hangs_up_voip [OF this, of b w 8 sample_env]
  show "snd (HangUpVoipCall b w 8 sample_env ?r) =
   [VoipReject (PackVoipCallInfo (VoIPCall_new (sample_info\<lparr>d_callId := 0, d_callType := TYPE_VOIP\<rparr>))),
    VoipReject (PackVoipCallInfo (VoIPCall_new (sample_info\<lparr>d_callId := 1, d_callType := TYPE_VOIP\<rparr>)))]"
    by (simp add: d voip_hang_up_requests_def PackVoipCallInfo_def)
qed

end
