(* ===== verification/Edm_Call_Policy.thy ===== *)
theory Edm_Call_Policy
  imports Call_Types
begin

text \<open>
  The device-management call policy (\<^verbatim>\<open>utils/src/edm_call_policy.cpp\<close>): two lists
  of numbers, for dialing and for incoming calls, each a trust list, a block list or
  absent, and a system parameter that disables calls altogether.
\<close>

datatype EdmPolicyFlag = POLICY_FLAG_NONE | POLICY_FLAG_BLOCK | POLICY_FLAG_TRUST

record EdmCallPolicyList =
  policyFlag :: EdmPolicyFlag
  numberList :: "string set"

record EdmCallPolicy =
  dialingList :: EdmCallPolicyList
  incomingList :: EdmCallPolicyList

definition edm_init :: EdmCallPolicy where
  "edm_init = \<lparr>dialingList = \<lparr>policyFlag = POLICY_FLAG_NONE, numberList = {}\<rparr>,
     incomingList = \<lparr>policyFlag = POLICY_FLAG_NONE, numberList = {}\<rparr>\<rparr>"

definition EDM_MAX_COUNT :: nat where "EDM_MAX_COUNT = 1000"

definition SetCallPolicy ::
  "bool \<Rightarrow> string list \<Rightarrow> bool \<Rightarrow> string list \<Rightarrow> EdmCallPolicy \<Rightarrow> ErrCode \<times> EdmCallPolicy" where
  "SetCallPolicy isDialingTrustlist dialing isIncomingTrustlist incoming p =
     (if length dialing > EDM_MAX_COUNT \<or> length incoming > EDM_MAX_COUNT
      then (TELEPHONY_ERR_ARGUMENT_INVALID, p)
      else
        (TELEPHONY_ERR_SUCCESS,
         p\<lparr>dialingList := \<lparr>policyFlag = if isDialingTrustlist then POLICY_FLAG_TRUST
                                        else POLICY_FLAG_BLOCK, numberList = set dialing\<rparr>,
           incomingList := \<lparr>policyFlag = if isIncomingTrustlist then POLICY_FLAG_TRUST
                                         else POLICY_FLAG_BLOCK, numberList = set incoming\<rparr>\<rparr>))"

definition IsCallEnable :: "bool \<Rightarrow> string \<Rightarrow> EdmCallPolicyList \<Rightarrow> bool" where
  "IsCallEnable disallowed phoneNum l =
     (if disallowed then False
      else case policyFlag l of
        POLICY_FLAG_NONE \<Rightarrow> True
      | POLICY_FLAG_BLOCK \<Rightarrow>
          (if numberList l = {} then True else phoneNum \<notin> numberList l)
      | POLICY_FLAG_TRUST \<Rightarrow>
          (if numberList l = {} then True else phoneNum \<in> numberList l))"

definition IsDialingEnable :: "bool \<Rightarrow> string \<Rightarrow> EdmCallPolicy \<Rightarrow> bool" where
  "IsDialingEnable disallowed phoneNum p = IsCallEnable disallowed phoneNum (dialingList p)"

definition IsIncomingEnable :: "bool \<Rightarrow> string \<Rightarrow> EdmCallPolicy \<Rightarrow> bool" where
  "IsIncomingEnable disallowed phoneNum p = IsCallEnable disallowed phoneNum (incomingList p)"

lemmas edm_defs [cm_defs] = IsDialingEnable_def IsIncomingEnable_def IsCallEnable_def

text \<open>
  After the policy has been set with lists within the limit, exactly the numbers the
  lists say are enabled, in each direction independently of the other: on a block list
  the numbers not listed, on a trust list the listed ones, except that an empty trust
  list, like an empty block list, enables every number; and the global switch disables
  all.  Lists over the limit are refused and the old policy stays in force.
\<close>

theorem edm_policy_decides:
  "(length dialing \<le> 1000 \<and> length incoming \<le> 1000 \<longrightarrow>
     (IsDialingEnable off n (snd (SetCallPolicy dt dialing it incoming p)) \<longleftrightarrow>
        \<not> off \<and> (dialing = [] \<or> (n \<in> set dialing \<longleftrightarrow> dt))) \<and>
     (IsIncomingEnable off n (snd (SetCallPolicy dt dialing it incoming p)) \<longleftrightarrow>
        \<not> off \<and> (incoming = [] \<or> (n \<in> set incoming \<longleftrightarrow> it)))) \<and>
   (length dialing > 1000 \<or> length incoming > 1000 \<longrightarrow>
     SetCallPolicy dt dialing it incoming p = (TELEPHONY_ERR_ARGUMENT_INVALID, p))"
  by (auto simp: SetCallPolicy_def EDM_MAX_COUNT_def edm_defs)

theorem edm_policy_decides_witness:
  "IsDialingEnable False ''112'' (snd (SetCallPolicy True [''112''] False [] edm_init)) \<and>
   \<not> IsDialingEnable False ''113'' (snd (SetCallPolicy True [''112''] False [] edm_init))"
  using edm_policy_decides [of "[''112'']" "[]" False "''112''" True False edm_init]
    edm_policy_decides [of "[''112'']" "[]" False "''113''" True False edm_init]
  by simp

end
