(* ===== verification/Call_Policy.thy ===== *)
theory Call_Policy
  imports Call_Object_Manager Edm_Call_Policy
begin

text \<open>
  The checks before an operation on a call (\<^verbatim>\<open>services/call/src/call_policy.cpp\<close>),
  with the slot selection of \<^verbatim>\<open>utils/src/call_number_utils.cpp\<close>.  The parameters of a
  dial request arrive as a table of integers by key that reads as 0 for a missing key;
  they are cast to enumerations without a check, so a value may have no enumerator: the
  model keeps the integers and compares codes.  The network, SIM, settings and
  distributed services are outside the component; the record \<^verbatim>\<open>dial_env\<close> holds what
  they answer.
\<close>

subsection \<open>Inputs\<close>

type_synonym extras = "string \<Rightarrow> int"

record dial_env =
  de_slotCount :: int                       \<comment> \<open>SIM\_SLOT\_COUNT\_MD\<close>
  de_defaultVoiceSlot :: "int option"       \<comment> \<open>None: the connection failed\<close>
  de_defaultDataSlot :: "int option"        \<comment> \<open>None: failed, or built without cellular data\<close>
  de_callsDisallowed :: bool                \<comment> \<open>the system parameter of device management\<close>
  de_canCallWithPrivacy :: "bool option"    \<comment> \<open>None: no privacy manager\<close>
  de_hasSimCard :: "int \<Rightarrow> bool"
  de_airplane :: "ErrCode \<times> bool"
  de_networkState :: "int \<Rightarrow> (bool \<times> bool) option"  \<comment> \<open>in service, roaming; None: null\<close>
  de_imsRegistered :: "int \<Rightarrow> bool"
  de_isCTSimCard :: "int \<Rightarrow> bool"
  de_residentPlmn :: "int \<Rightarrow> string"
  de_simOperator :: "int \<Rightarrow> string"
  de_videoCallWaiting :: "int \<Rightarrow> bool"
  de_vtEnabled :: "int \<Rightarrow> bool"
  de_softbusSink :: bool                    \<comment> \<open>connected, in the sink role\<close>

text \<open>The dialogs a refusal shows.\<close>

datatype Dialog = DialogConnect string | DialogConnectSlot string int | DialogPrivacyMode

definition DEFAULT_SIM_SLOT_ID :: int where "DEFAULT_SIM_SLOT_ID = 0"

definition IsValidSlotId :: "dial_env \<Rightarrow> int \<Rightarrow> bool" where
  "IsValidSlotId e slotId = (slotId \<ge> DEFAULT_SIM_SLOT_ID \<and> slotId < de_slotCount e)"

definition usable_slot :: "dial_env \<Rightarrow> int option \<Rightarrow> bool" where
  "usable_slot e s = (case s of None \<Rightarrow> False | Some slot \<Rightarrow> IsValidSlotId e slot)"

definition SelectAccountId :: "dial_env \<Rightarrow> int \<Rightarrow> extras \<Rightarrow> bool \<times> extras" where
  "SelectAccountId e slotId x =
     (if IsValidSlotId e slotId then (True, x)
      else if usable_slot e (de_defaultVoiceSlot e)
      then (True, x(''accountId'' := the (de_defaultVoiceSlot e)))
      else if usable_slot e (de_defaultDataSlot e)
      then (True, x(''accountId'' := the (de_defaultDataSlot e)))
      else (False, x))"

subsection \<open>The checks of a dial request\<close>

definition CheckDialType :: "int \<Rightarrow> ErrCode" where
  "CheckDialType dialType =
     (if dialType \<noteq> DialType_code DIAL_CARRIER_TYPE \<and>
         dialType \<noteq> DialType_code DIAL_VOICE_MAIL_TYPE \<and>
         dialType \<noteq> DialType_code DIAL_OTT_TYPE \<and> dialType \<noteq> DialType_code DIAL_BLUETOOTH_TYPE
      then TELEPHONY_ERR_ARGUMENT_INVALID else TELEPHONY_SUCCESS)"

definition CheckMdmPolicy :: "dial_env \<Rightarrow> EdmCallPolicy \<Rightarrow> string \<Rightarrow> ErrCode \<times> Dialog list" where
  "CheckMdmPolicy e p phoneNum =
     (if \<not> IsDialingEnable (de_callsDisallowed e) phoneNum p
      then (TELEPHONY_ERR_POLICY_DISABLED, [DialogConnect ''CALL_FAILED_POLICY_DISABLED''])
      else (TELEPHONY_SUCCESS, []))"

definition SelectAccountIdForCarrier :: "dial_env \<Rightarrow> int \<Rightarrow> int \<Rightarrow> extras \<Rightarrow> ErrCode \<times> extras" where
  "SelectAccountIdForCarrier e accountId dialType x =
     (TELEPHONY_SUCCESS,
      if dialType = DialType_code DIAL_CARRIER_TYPE then
        let (found, x) = SelectAccountId e accountId x
        in if \<not> found then x(''accountId'' := 0) else x
      else x)"

definition IsValidCallType :: "int \<Rightarrow> ErrCode" where
  "IsValidCallType callType =
     (if callType \<noteq> CallType_code TYPE_CS \<and> callType \<noteq> CallType_code TYPE_IMS \<and>
         callType \<noteq> CallType_code TYPE_OTT \<and> callType \<noteq> CallType_code TYPE_SATELLITE \<and>
         callType \<noteq> CallType_code TYPE_BLUETOOTH
      then CALL_ERR_UNKNOW_CALL_TYPE else TELEPHONY_SUCCESS)"

definition ValidateCallType :: "int \<Rightarrow> ErrCode" where
  "ValidateCallType callType =
     (if IsValidCallType callType \<noteq> TELEPHONY_SUCCESS then TELEPHONY_ERR_ARGUMENT_INVALID
      else TELEPHONY_SUCCESS)"

definition ValidateDialScene :: "int \<Rightarrow> ErrCode" where
  "ValidateDialScene dialScene =
     (if dialScene \<noteq> DialScene_code CALL_NORMAL \<and> dialScene \<noteq> DialScene_code CALL_PRIVILEGED \<and>
         dialScene \<noteq> DialScene_code CALL_EMERGENCY
      then TELEPHONY_ERR_ARGUMENT_INVALID else TELEPHONY_SUCCESS)"

definition ValidateVideoState :: "int \<Rightarrow> ErrCode" where
  "ValidateVideoState videoState =
     (if videoState \<noteq> VideoStateType_code TYPE_VOICE \<and> videoState \<noteq> VideoStateType_code TYPE_VIDEO
      then TELEPHONY_ERR_ARGUMENT_INVALID else TELEPHONY_SUCCESS)"

definition IsVoiceCallValid :: "int \<Rightarrow> registry \<Rightarrow> ErrCode" where
  "IsVoiceCallValid videoState r =
     (if videoState = VideoStateType_code TYPE_VOICE then
        (case GetOneCallObject_running CALL_RUNNING_STATE_RINGING r of
           None \<Rightarrow> TELEPHONY_SUCCESS
         | Some p \<Rightarrow>
             (if m_videoState (r_heap r p) = TYPE_VOICE \<and> m_callType (r_heap r p) \<noteq> TYPE_VOIP
              then CALL_ERR_CALL_COUNTS_EXCEED_LIMIT else TELEPHONY_SUCCESS))
      else TELEPHONY_SUCCESS)"

text \<open>
  The limits on ringing and new calls stand inside the feature macro, together with the
  check for transferred calls.
\<close>

definition CheckCallLimit :: "build \<Rightarrow> bool \<Rightarrow> int \<Rightarrow> registry \<Rightarrow> ErrCode" where
  "CheckCallLimit b isEcc videoState r =
     (if \<not> isEcc then
        if call_transfer b \<and> HasTransferCall b r
        then CALL_ERR_TRANSFER_CALL_ALIVE_FORBIDDEN_DIAL
        else if call_transfer b \<and>
          (IsVoiceCallValid videoState r \<noteq> TELEPHONY_SUCCESS \<or> HasNewCall r \<noteq> TELEPHONY_SUCCESS)
        then CALL_ERR_CALL_COUNTS_EXCEED_LIMIT
        else if HasEmergencyCall r then CALL_ERR_CALL_COUNTS_EXCEED_LIMIT
        else TELEPHONY_SUCCESS
      else TELEPHONY_SUCCESS)"

definition MCC_LEN :: nat where "MCC_LEN = 3"

definition IsCtSimCardSwitchToChnOrMc :: "dial_env \<Rightarrow> int \<Rightarrow> bool" where
  "IsCtSimCardSwitchToChnOrMc e slotId =
     (let regPlmn = de_residentPlmn e slotId; simOperator = de_simOperator e slotId in
      if regPlmn = [] \<or> simOperator = [] \<or> length regPlmn < MCC_LEN \<or> length simOperator < MCC_LEN
      then False
      else (take MCC_LEN regPlmn = ''460'' \<and> take MCC_LEN simOperator = ''460'') \<or>
           (take MCC_LEN regPlmn = ''455'' \<and> take MCC_LEN simOperator = ''455''))"

text \<open>
  The network state is dereferenced once it is known to be in service, so it is there.
\<close>

definition HasNormalCall :: "dial_env \<Rightarrow> bool \<Rightarrow> int \<Rightarrow> int \<Rightarrow> ErrCode \<times> Dialog list" where
  "HasNormalCall e isEcc slotId callType =
     (if isEcc \<or> callType = CallType_code TYPE_SATELLITE \<or> callType = CallType_code TYPE_BLUETOOTH
      then (TELEPHONY_SUCCESS, [])
      else if \<not> de_hasSimCard e slotId
      then (TELEPHONY_ERR_NO_SIM_CARD, [DialogConnect ''CALL_FAILED_NO_SIM_CARD''])
      else if fst (de_airplane e) = TELEPHONY_SUCCESS \<and> snd (de_airplane e)
      then (TELEPHONY_ERR_AIRPLANE_MODE_ON, [DialogConnect ''CALL_FAILED_IN_AIRPLANE_MODE''])
      else case de_networkState e slotId of
        None \<Rightarrow> (TELEPHONY_ERR_NETWORK_NOT_IN_SERVICE, [DialogConnect ''CALL_FAILED_NO_SERVICE''])
      | Some (inService, isRoaming) \<Rightarrow>
          if \<not> inService
          then (TELEPHONY_ERR_NETWORK_NOT_IN_SERVICE, [DialogConnect ''CALL_FAILED_NO_SERVICE''])
          else if de_isCTSimCard e slotId \<and> \<not> isRoaming \<and> \<not> de_imsRegistered e slotId \<and>
                  IsCtSimCardSwitchToChnOrMc e slotId
          then (CALL_ERR_DIAL_FAILED, [DialogConnectSlot ''CALL_FAILED_CTCARD_NO_IMS'' slotId])
          else (TELEPHONY_SUCCESS, []))"

definition SuperPrivacyMode :: "dial_env \<Rightarrow> extras \<Rightarrow> bool \<Rightarrow> ErrCode \<times> Dialog list" where
  "SuperPrivacyMode e x isEcc =
     (let callType = x ''callType''; slotId = x ''accountId'' in
      if isEcc then HasNormalCall e isEcc slotId callType
      else if x ''dialScene'' = DialScene_code CALL_EMERGENCY
      then HasNormalCall e isEcc slotId callType
      else case de_canCallWithPrivacy e of
        None \<Rightarrow> HasNormalCall e isEcc slotId callType
      | Some canCall \<Rightarrow>
          if \<not> canCall then (CALL_ERR_DIAL_FAILED, [DialogPrivacyMode])
          else HasNormalCall e isEcc slotId callType)"

definition DialPolicy ::
  "build \<Rightarrow> dial_env \<Rightarrow> EdmCallPolicy \<Rightarrow> registry \<Rightarrow> string \<Rightarrow> extras \<Rightarrow> bool \<Rightarrow>
   ErrCode \<times> Dialog list \<times> extras" where
  "DialPolicy b e p r number x isEcc =
     (let dialType = x ''dialType''; ret = CheckDialType dialType in
      if ret \<noteq> TELEPHONY_SUCCESS then (ret, [], x)
      else
        let (ret, ds) = CheckMdmPolicy e p number in
        if ret \<noteq> TELEPHONY_SUCCESS then (ret, ds, x)
        else
          let (ret, x) = SelectAccountIdForCarrier e (x ''accountId'') dialType x in
          if ret \<noteq> TELEPHONY_SUCCESS then (ret, [], x)
          else
            let ret = ValidateCallType (x ''callType'') in
            if ret \<noteq> TELEPHONY_SUCCESS then (ret, [], x)
            else
              let ret = ValidateDialScene (x ''dialScene'') in
              if ret \<noteq> TELEPHONY_SUCCESS then (ret, [], x)
              else
                let ret = ValidateVideoState (x ''videoState'') in
                if ret \<noteq> TELEPHONY_SUCCESS then (ret, [], x)
                else
                  let ret = CheckCallLimit b isEcc (x ''videoState'') r in
                  if ret \<noteq> TELEPHONY_SUCCESS then (ret, [], x)
                  else let (ret, ds) = SuperPrivacyMode e x isEcc in (ret, ds, x))"

definition CanDialMulityCall :: "build \<Rightarrow> dial_env \<Rightarrow> registry \<Rightarrow> extras \<Rightarrow> bool \<Rightarrow> ErrCode" where
  "CanDialMulityCall b e r x isEcc =
     (let videoState = x ''videoState''; enabled = de_videoCallWaiting e (x ''accountId'') in
      if \<not> enabled \<and> videoState = VideoStateType_code TYPE_VIDEO \<and> HasCellularCallExist r
      then CALL_ERR_DIAL_IS_BUSY
      else if \<not> enabled \<and> \<not> isEcc \<and> videoState = VideoStateType_code TYPE_VOICE \<and> HasVideoCall r
      then CALL_ERR_DIAL_IS_BUSY
      else if support_dsoftbus b \<and> de_softbusSink e \<and> HasCellularCallExist r
      then CALL_ERR_CALL_COUNTS_EXCEED_LIMIT
      else TELEPHONY_SUCCESS)"

definition CallPolicy_IsSupportVideoCall :: "dial_env \<Rightarrow> extras \<Rightarrow> bool" where
  "CallPolicy_IsSupportVideoCall e x =
     (if \<not> de_vtEnabled e (x ''accountId'') then False
      else \<not> (x ''dialScene'' \<noteq> DialScene_code CALL_NORMAL))"

subsection \<open>The checks of operations on a call\<close>

definition AnswerCallPolicy :: "int \<Rightarrow> int \<Rightarrow> registry \<Rightarrow> ErrCode" where
  "AnswerCallPolicy callId videoState r =
     (if videoState \<noteq> VideoStateType_code TYPE_VOICE \<and> videoState \<noteq> VideoStateType_code TYPE_VIDEO
      then TELEPHONY_ERR_ARGUMENT_INVALID
      else if \<not> IsCallExist callId r then TELEPHONY_ERR_ARGUMENT_INVALID
      else if GetCallState callId r \<noteq> CALL_STATUS_INCOMING \<and>
              GetCallState callId r \<noteq> CALL_STATUS_WAITING
      then CALL_ERR_ILLEGAL_CALL_OPERATION else TELEPHONY_SUCCESS)"

definition RejectCallPolicy :: "int \<Rightarrow> registry \<Rightarrow> ErrCode" where
  "RejectCallPolicy callId r =
     (if \<not> IsCallExist callId r then TELEPHONY_ERR_ARGUMENT_INVALID
      else if GetCallState callId r \<noteq> CALL_STATUS_INCOMING \<and>
              GetCallState callId r \<noteq> CALL_STATUS_WAITING
      then CALL_ERR_ILLEGAL_CALL_OPERATION else TELEPHONY_SUCCESS)"

definition HoldCallPolicy :: "int \<Rightarrow> registry \<Rightarrow> ErrCode" where
  "HoldCallPolicy callId r =
     (case GetOneCallObject callId r of
        None \<Rightarrow> TELEPHONY_ERR_ARGUMENT_INVALID
      | Some p \<Rightarrow>
          (if m_callRunningState (r_heap r p) \<noteq> CALL_RUNNING_STATE_ACTIVE
           then CALL_ERR_CALL_IS_NOT_ACTIVATED else TELEPHONY_SUCCESS))"

definition UnHoldCallPolicy :: "int \<Rightarrow> registry \<Rightarrow> ErrCode" where
  "UnHoldCallPolicy callId r =
     (case GetOneCallObject callId r of
        None \<Rightarrow> TELEPHONY_ERR_ARGUMENT_INVALID
      | Some p \<Rightarrow>
          (if m_callRunningState (r_heap r p) \<noteq> CALL_RUNNING_STATE_HOLD
           then CALL_ERR_CALL_IS_NOT_ON_HOLDING else TELEPHONY_SUCCESS))"

definition HangUpPolicy :: "int \<Rightarrow> registry \<Rightarrow> ErrCode" where
  "HangUpPolicy callId r =
     (if \<not> IsCallExist callId r then TELEPHONY_ERR_ARGUMENT_INVALID
      else if GetCallState callId r = CALL_STATUS_IDLE \<or>
              GetCallState callId r = CALL_STATUS_DISCONNECTING \<or>
              GetCallState callId r = CALL_STATUS_DISCONNECTED
      then CALL_ERR_ILLEGAL_CALL_OPERATION else TELEPHONY_SUCCESS)"

definition onlyTwoCall :: nat where "onlyTwoCall = 2"

definition SwitchCallPolicy :: "int \<Rightarrow> registry \<Rightarrow> ErrCode" where
  "SwitchCallPolicy callId r =
     (if \<not> IsCallExist callId r then TELEPHONY_ERR_ARGUMENT_INVALID
      else if length (GetCarrierCallList r) < onlyTwoCall then CALL_ERR_PHONE_CALLS_TOO_FEW
      else if GetCallState callId r \<noteq> CALL_STATUS_HOLDING \<or>
              IsCallExist_state CALL_STATUS_DIALING r \<or> IsCallExist_state CALL_STATUS_ALERTING r
      then CALL_ERR_ILLEGAL_CALL_OPERATION else TELEPHONY_SUCCESS)"

definition VideoCallPolicy :: "int \<Rightarrow> registry \<Rightarrow> ErrCode" where
  "VideoCallPolicy callId r =
     (if GetOneCallObject callId r = None then TELEPHONY_ERR_ARGUMENT_INVALID
      else TELEPHONY_SUCCESS)"

definition RttCallModifyPolicy :: "int \<Rightarrow> registry \<Rightarrow> ErrCode" where
  "RttCallModifyPolicy callId r =
     (case GetOneCallObject callId r of
        None \<Rightarrow> CALL_ERR_INVALID_CALLID
      | Some p \<Rightarrow>
          (if m_callType (r_heap r p) \<noteq> TYPE_IMS then CALL_ERR_UNSUPPORTED_NETWORK_TYPE
           else if GetCallState callId r \<noteq> CALL_STATUS_ACTIVE
           then CALL_ERR_ILLEGAL_CALL_OPERATION else TELEPHONY_SUCCESS))"

fun check_numbers :: "string list \<Rightarrow> ErrCode" where
  "check_numbers [] = TELEPHONY_SUCCESS"
| "check_numbers (n # ns) =
     (if n = [] then CALL_ERR_PHONE_NUMBER_EMPTY
      else if length n > kMaxNumberLen then CALL_ERR_NUMBER_OUT_OF_RANGE
      else check_numbers ns)"

definition InviteToConferencePolicy ::
  "conference \<Rightarrow> int \<Rightarrow> string list \<Rightarrow> registry \<Rightarrow> ErrCode" where
  "InviteToConferencePolicy ims callId numbers r =
     (if \<not> IsCallExist callId r then TELEPHONY_ERR_ARGUMENT_INVALID
      else if numbers = [] then CALL_ERR_PHONE_NUMBER_EMPTY
      else if check_numbers numbers \<noteq> TELEPHONY_SUCCESS then check_numbers numbers
      else if cf_mainCallId ims \<noteq> callId then CALL_ERR_CONFERENCE_NOT_EXISTS
      else TELEPHONY_SUCCESS)"

subsection \<open>The checks of settings of a slot\<close>

definition CallPolicy_IsValidSlotId :: "dial_env \<Rightarrow> int \<Rightarrow> ErrCode" where
  "CallPolicy_IsValidSlotId e slotId =
     (if \<not> IsValidSlotId e slotId then CALL_ERR_INVALID_SLOT_ID else TELEPHONY_SUCCESS)"

text \<open>Each of these settings checks the slot, in a function of its own.\<close>

definition EnableVoLtePolicy :: "dial_env \<Rightarrow> int \<Rightarrow> ErrCode" where
  "EnableVoLtePolicy e slotId =
     (if CallPolicy_IsValidSlotId e slotId \<noteq> TELEPHONY_SUCCESS then CALL_ERR_INVALID_SLOT_ID
      else TELEPHONY_SUCCESS)"

definition DisableVoLtePolicy :: "dial_env \<Rightarrow> int \<Rightarrow> ErrCode" where
  "DisableVoLtePolicy e slotId =
     (if CallPolicy_IsValidSlotId e slotId \<noteq> TELEPHONY_SUCCESS then CALL_ERR_INVALID_SLOT_ID
      else TELEPHONY_SUCCESS)"

definition IsVoLteEnabledPolicy :: "dial_env \<Rightarrow> int \<Rightarrow> ErrCode" where
  "IsVoLteEnabledPolicy e slotId =
     (if CallPolicy_IsValidSlotId e slotId \<noteq> TELEPHONY_SUCCESS then CALL_ERR_INVALID_SLOT_ID
      else TELEPHONY_SUCCESS)"

definition GetCallWaitingPolicy :: "dial_env \<Rightarrow> int \<Rightarrow> ErrCode" where
  "GetCallWaitingPolicy e slotId =
     (if CallPolicy_IsValidSlotId e slotId \<noteq> TELEPHONY_SUCCESS then CALL_ERR_INVALID_SLOT_ID
      else TELEPHONY_SUCCESS)"

definition SetCallWaitingPolicy :: "dial_env \<Rightarrow> int \<Rightarrow> ErrCode" where
  "SetCallWaitingPolicy e slotId =
     (if CallPolicy_IsValidSlotId e slotId \<noteq> TELEPHONY_SUCCESS then CALL_ERR_INVALID_SLOT_ID
      else TELEPHONY_SUCCESS)"

definition GetCallRestrictionPolicy :: "dial_env \<Rightarrow> int \<Rightarrow> ErrCode" where
  "GetCallRestrictionPolicy e slotId =
     (if CallPolicy_IsValidSlotId e slotId \<noteq> TELEPHONY_SUCCESS then CALL_ERR_INVALID_SLOT_ID
      else TELEPHONY_SUCCESS)"

definition SetCallRestrictionPolicy :: "dial_env \<Rightarrow> int \<Rightarrow> ErrCode" where
  "SetCallRestrictionPolicy e slotId =
     (if CallPolicy_IsValidSlotId e slotId \<noteq> TELEPHONY_SUCCESS then CALL_ERR_INVALID_SLOT_ID
      else TELEPHONY_SUCCESS)"

definition GetCallTransferInfoPolicy :: "dial_env \<Rightarrow> int \<Rightarrow> ErrCode" where
  "GetCallTransferInfoPolicy e slotId =
     (if CallPolicy_IsValidSlotId e slotId \<noteq> TELEPHONY_SUCCESS then CALL_ERR_INVALID_SLOT_ID
      else TELEPHONY_SUCCESS)"

definition SetCallTransferInfoPolicy :: "dial_env \<Rightarrow> int \<Rightarrow> ErrCode" where
  "SetCallTransferInfoPolicy e slotId =
     (if CallPolicy_IsValidSlotId e slotId \<noteq> TELEPHONY_SUCCESS then CALL_ERR_INVALID_SLOT_ID
      else TELEPHONY_SUCCESS)"

definition SetCallPreferenceModePolicy :: "dial_env \<Rightarrow> int \<Rightarrow> ErrCode" where
  "SetCallPreferenceModePolicy e slotId =
     (if CallPolicy_IsValidSlotId e slotId \<noteq> TELEPHONY_SUCCESS then CALL_ERR_INVALID_SLOT_ID
      else TELEPHONY_SUCCESS)"

definition GetImsConfigPolicy :: "dial_env \<Rightarrow> int \<Rightarrow> ErrCode" where
  "GetImsConfigPolicy e slotId =
     (if CallPolicy_IsValidSlotId e slotId \<noteq> TELEPHONY_SUCCESS then CALL_ERR_INVALID_SLOT_ID
      else TELEPHONY_SUCCESS)"

definition SetImsConfigPolicy :: "dial_env \<Rightarrow> int \<Rightarrow> ErrCode" where
  "SetImsConfigPolicy e slotId =
     (if CallPolicy_IsValidSlotId e slotId \<noteq> TELEPHONY_SUCCESS then CALL_ERR_INVALID_SLOT_ID
      else TELEPHONY_SUCCESS)"

definition GetImsFeatureValuePolicy :: "dial_env \<Rightarrow> int \<Rightarrow> ErrCode" where
  "GetImsFeatureValuePolicy e slotId =
     (if CallPolicy_IsValidSlotId e slotId \<noteq> TELEPHONY_SUCCESS then CALL_ERR_INVALID_SLOT_ID
      else TELEPHONY_SUCCESS)"

definition SetImsFeatureValuePolicy :: "dial_env \<Rightarrow> int \<Rightarrow> ErrCode" where
  "SetImsFeatureValuePolicy e slotId =
     (if CallPolicy_IsValidSlotId e slotId \<noteq> TELEPHONY_SUCCESS then CALL_ERR_INVALID_SLOT_ID
      else TELEPHONY_SUCCESS)"

definition CloseUnFinishedUssdPolicy :: "dial_env \<Rightarrow> int \<Rightarrow> ErrCode" where
  "CloseUnFinishedUssdPolicy e slotId =
     (if CallPolicy_IsValidSlotId e slotId \<noteq> TELEPHONY_SUCCESS then CALL_ERR_INVALID_SLOT_ID
      else TELEPHONY_SUCCESS)"

definition SetRttCapabilityPolicy :: "dial_env \<Rightarrow> int \<Rightarrow> ErrCode" where
  "SetRttCapabilityPolicy e slotId =
     (if CallPolicy_IsValidSlotId e slotId \<noteq> TELEPHONY_SUCCESS then CALL_ERR_INVALID_SLOT_ID
      else TELEPHONY_SUCCESS)"

definition VoNRStatePolicy :: "dial_env \<Rightarrow> int \<Rightarrow> int \<Rightarrow> ErrCode" where
  "VoNRStatePolicy e slotId state =
     (if CallPolicy_IsValidSlotId e slotId \<noteq> TELEPHONY_SUCCESS then CALL_ERR_INVALID_SLOT_ID
      else if state \<noteq> VoNRState_code VONR_STATE_ON \<and> state \<noteq> VoNRState_code VONR_STATE_OFF
      then TELEPHONY_ERR_ARGUMENT_INVALID else TELEPHONY_SUCCESS)"

lemmas dial_check_defs [cm_defs] = CheckDialType_def CheckMdmPolicy_def
  SelectAccountIdForCarrier_def ValidateCallType_def IsValidCallType_def ValidateDialScene_def
  ValidateVideoState_def

lemmas call_check_defs [cm_defs] = AnswerCallPolicy_def RejectCallPolicy_def HoldCallPolicy_def
  UnHoldCallPolicy_def HangUpPolicy_def SwitchCallPolicy_def

lemmas limit_check_defs [cm_defs] = CheckCallLimit_def IsVoiceCallValid_def HasNewCall_def

subsection \<open>Checks of the state of a call\<close>

text \<open>
  Answering, rejecting and hanging up share one contract: the call exists and its
  reported state is one of the operation's own.
\<close>

locale call_gate =
  fixes exists :: "'r \<Rightarrow> int \<Rightarrow> bool" and state :: "'r \<Rightarrow> int \<Rightarrow> TelCallState"
    and gate :: "int \<Rightarrow> 'r \<Rightarrow> ErrCode" and allowed :: "TelCallState set"
  assumes gate_unknown: "\<not> exists r i \<Longrightarrow> gate i r = TELEPHONY_ERR_ARGUMENT_INVALID"
    and gate_refused: "exists r i \<Longrightarrow> state r i \<notin> allowed \<Longrightarrow> gate i r = CALL_ERR_ILLEGAL_CALL_OPERATION"
    and gate_open: "exists r i \<Longrightarrow> state r i \<in> allowed \<Longrightarrow> gate i r = TELEPHONY_SUCCESS"
begin

lemma gate_iff: "gate i r = TELEPHONY_SUCCESS \<longleftrightarrow> exists r i \<and> state r i \<in> allowed"
  using gate_unknown gate_refused gate_open by (cases "exists r i"; cases "state r i \<in> allowed") auto

lemma gate_range:
  "gate i r \<in> {TELEPHONY_SUCCESS, TELEPHONY_ERR_ARGUMENT_INVALID, CALL_ERR_ILLEGAL_CALL_OPERATION}"
  using gate_unknown gate_refused gate_open by (cases "exists r i"; cases "state r i \<in> allowed") auto

end

interpretation answer_gate: call_gate "\<lambda>r i. IsCallExist i r" "\<lambda>r i. GetCallState i r"
  "\<lambda>i. AnswerCallPolicy i 0" "{CALL_STATUS_INCOMING, CALL_STATUS_WAITING}"
  by unfold_locales (auto simp: AnswerCallPolicy_def)

interpretation reject_gate: call_gate "\<lambda>r i. IsCallExist i r" "\<lambda>r i. GetCallState i r"
  RejectCallPolicy "{CALL_STATUS_INCOMING, CALL_STATUS_WAITING}"
  by unfold_locales (auto simp: RejectCallPolicy_def)

interpretation hang_up_gate: call_gate "\<lambda>r i. IsCallExist i r" "\<lambda>r i. GetCallState i r"
  HangUpPolicy "- {CALL_STATUS_IDLE, CALL_STATUS_DISCONNECTING, CALL_STATUS_DISCONNECTED}"
  by unfold_locales (auto simp: HangUpPolicy_def)

lemma hold_gate: "HoldCallPolicy i r = TELEPHONY_SUCCESS \<longleftrightarrow>
  (\<exists>p. GetOneCallObject i r = Some p \<and> m_callRunningState (r_heap r p) = CALL_RUNNING_STATE_ACTIVE)"
  by (simp add: HoldCallPolicy_def split: option.split)

lemma unhold_gate: "UnHoldCallPolicy i r = TELEPHONY_SUCCESS \<longleftrightarrow>
  (\<exists>p. GetOneCallObject i r = Some p \<and> m_callRunningState (r_heap r p) = CALL_RUNNING_STATE_HOLD)"
  by (simp add: UnHoldCallPolicy_def split: option.split)

text \<open>A report of a new state leaves the running state of that state.\<close>

lemma new_report_running:
  assumes "m_callState c \<noteq> s" and "running_of s = Some x"
  shows "m_callRunningState (snd (SetTelCallState k s c)) = x"
  using assms by (simp add: SetTelCallState_def enter_state_running)

subsection \<open>The stages of a dial request\<close>

lemma check_iffs:
  "CheckDialType t = TELEPHONY_SUCCESS \<longleftrightarrow>
     t \<in> DialType_code ` {DIAL_CARRIER_TYPE, DIAL_VOICE_MAIL_TYPE, DIAL_OTT_TYPE, DIAL_BLUETOOTH_TYPE}"
  "ValidateCallType c = TELEPHONY_SUCCESS \<longleftrightarrow>
     c \<in> CallType_code ` {TYPE_CS, TYPE_IMS, TYPE_OTT, TYPE_SATELLITE, TYPE_BLUETOOTH}"
  "ValidateDialScene d = TELEPHONY_SUCCESS \<longleftrightarrow>
     d \<in> DialScene_code ` {CALL_NORMAL, CALL_PRIVILEGED, CALL_EMERGENCY}"
  "ValidateVideoState v = TELEPHONY_SUCCESS \<longleftrightarrow>
     v \<in> VideoStateType_code ` {TYPE_VOICE, TYPE_VIDEO}"
  by (auto simp: dial_check_defs)

lemma check_errors:
  "CheckDialType t \<noteq> TELEPHONY_SUCCESS \<Longrightarrow> CheckDialType t = TELEPHONY_ERR_ARGUMENT_INVALID"
  "ValidateCallType c \<noteq> TELEPHONY_SUCCESS \<Longrightarrow> ValidateCallType c = TELEPHONY_ERR_ARGUMENT_INVALID"
  "ValidateDialScene d \<noteq> TELEPHONY_SUCCESS \<Longrightarrow> ValidateDialScene d = TELEPHONY_ERR_ARGUMENT_INVALID"
  "ValidateVideoState v \<noteq> TELEPHONY_SUCCESS \<Longrightarrow> ValidateVideoState v = TELEPHONY_ERR_ARGUMENT_INVALID"
  by (simp_all add: ValidateCallType_def ValidateDialScene_def ValidateVideoState_def CheckDialType_def
      split: if_splits)

lemma select_account:
  "x' = snd (SelectAccountIdForCarrier e a t x) \<Longrightarrow>
     (k \<noteq> ''accountId'' \<longrightarrow> x' k = x k) \<and>
     (t = DialType_code DIAL_CARRIER_TYPE \<longrightarrow> a = x ''accountId'' \<longrightarrow>
        IsValidSlotId e (x' ''accountId'') \<or> x' ''accountId'' = 0)"
  by (auto simp: SelectAccountIdForCarrier_def SelectAccountId_def usable_slot_def
      split: option.splits if_splits)

lemma dial_stages:
  assumes "fst (DialPolicy b e p r n x isEcc) = TELEPHONY_SUCCESS"
  shows "CheckDialType (x ''dialType'') = TELEPHONY_SUCCESS"
    and "IsDialingEnable (de_callsDisallowed e) n p"
    and "snd (snd (DialPolicy b e p r n x isEcc)) =
           snd (SelectAccountIdForCarrier e (x ''accountId'') (x ''dialType'') x)"
    and "ValidateCallType (x ''callType'') = TELEPHONY_SUCCESS"
    and "ValidateDialScene (x ''dialScene'') = TELEPHONY_SUCCESS"
    and "ValidateVideoState (x ''videoState'') = TELEPHONY_SUCCESS"
    and "CheckCallLimit b isEcc (x ''videoState'') r = TELEPHONY_SUCCESS"
    and "fst (SuperPrivacyMode e (snd (snd (DialPolicy b e p r n x isEcc))) isEcc) = TELEPHONY_SUCCESS"
proof -
  obtain x' where x': "SelectAccountIdForCarrier e (x ''accountId'') (x ''dialType'') x =
      (TELEPHONY_SUCCESS, x')"
    by (simp add: SelectAccountIdForCarrier_def)
  then have k: "x' k = x k" if "k \<noteq> ''accountId''" for k
    using select_account [of x' e "x ''accountId''" "x ''dialType''" x k] that by simp
  show "CheckDialType (x ''dialType'') = TELEPHONY_SUCCESS"
    and "IsDialingEnable (de_callsDisallowed e) n p"
    and "snd (snd (DialPolicy b e p r n x isEcc)) =
           snd (SelectAccountIdForCarrier e (x ''accountId'') (x ''dialType'') x)"
    and "ValidateCallType (x ''callType'') = TELEPHONY_SUCCESS"
    and "ValidateDialScene (x ''dialScene'') = TELEPHONY_SUCCESS"
    and "ValidateVideoState (x ''videoState'') = TELEPHONY_SUCCESS"
    and "CheckCallLimit b isEcc (x ''videoState'') r = TELEPHONY_SUCCESS"
    and "fst (SuperPrivacyMode e (snd (snd (DialPolicy b e p r n x isEcc))) isEcc) = TELEPHONY_SUCCESS"
    using assms
    by (auto simp: DialPolicy_def Let_def x' k CheckMdmPolicy_def split: if_splits prod.splits)
qed

lemma privacy_success:
  assumes "fst (SuperPrivacyMode e x False) = TELEPHONY_SUCCESS"
  shows "x ''dialScene'' \<noteq> DialScene_code CALL_EMERGENCY \<longrightarrow> de_canCallWithPrivacy e \<noteq> Some False"
    and "fst (HasNormalCall e False (x ''accountId'') (x ''callType'')) = TELEPHONY_SUCCESS"
  using assms by (auto simp: SuperPrivacyMode_def Let_def split: if_splits option.splits)

lemma normal_call_success:
  assumes "fst (HasNormalCall e False slot t) = TELEPHONY_SUCCESS"
    and "t \<noteq> CallType_code TYPE_SATELLITE" and "t \<noteq> CallType_code TYPE_BLUETOOTH"
  shows "de_hasSimCard e slot \<and> de_airplane e \<noteq> (TELEPHONY_SUCCESS, True) \<and>
         (\<exists>roaming. de_networkState e slot = Some (True, roaming))"
  using assms by (cases "de_airplane e")
    (auto simp: HasNormalCall_def split: if_splits option.splits prod.splits)

subsection \<open>Properties\<close>

definition sample_dial_env :: dial_env where
  "sample_dial_env = \<lparr>de_slotCount = 2, de_defaultVoiceSlot = Some 1, de_defaultDataSlot = None,
     de_callsDisallowed = False, de_canCallWithPrivacy = Some True, de_hasSimCard = (\<lambda>s. s = 1),
     de_airplane = (TELEPHONY_SUCCESS, False), de_networkState = (\<lambda>_. Some (True, False)),
     de_imsRegistered = (\<lambda>_. True), de_isCTSimCard = (\<lambda>_. False), de_residentPlmn = (\<lambda>_. ''46000''),
     de_simOperator = (\<lambda>_. ''46000''), de_videoCallWaiting = (\<lambda>_. False), de_vtEnabled = (\<lambda>_. True),
     de_softbusSink = False\<rparr>"

definition sample_extras :: extras where
  "sample_extras = (\<lambda>_. 0)(''accountId'' := 7, ''callType'' := CallType_code TYPE_IMS)"

lemma sample_dial:
  "fst (DialPolicy sample_build sample_dial_env edm_init (empty_registry h) n sample_extras False)
     = TELEPHONY_SUCCESS"
  "snd (snd (DialPolicy sample_build sample_dial_env edm_init (empty_registry h) n sample_extras False))
     ''accountId'' = 1"
  by (simp_all add: DialPolicy_def dial_check_defs limit_check_defs SelectAccountId_def usable_slot_def
      IsValidSlotId_def DEFAULT_SIM_SLOT_ID_def edm_defs edm_init_def sample_dial_env_def
      sample_build_def sample_extras_def registry_query_defs empty_registry_def HasTransferCall_def
      HasEmergencyCall_def GetOneCallObject_running_def SuperPrivacyMode_def HasNormalCall_def Let_def)

text \<open>
  C4: A dial request that is let through is safe to send to the stack.  The device
  management enables the number; the call type, scene and video state are legal; the
  request differs from the one received at most in the account, which for a carrier call
  is a valid slot or 0; and unless the number is an emergency number, no emergency call
  is in progress, the privacy manager has not refused it (emergency scenes apart), and a
  circuit-switched, IMS or OTT call goes to a slot with a SIM card, in service, with
  airplane mode off.
\<close>

theorem dial_success_is_safe:
  assumes "fst (DialPolicy b e p r n x isEcc) = TELEPHONY_SUCCESS"
    and "x' = snd (snd (DialPolicy b e p r n x isEcc))"
  shows "IsDialingEnable (de_callsDisallowed e) n p \<and>
    x' ''callType'' \<in> CallType_code ` {TYPE_CS, TYPE_IMS, TYPE_OTT, TYPE_SATELLITE, TYPE_BLUETOOTH} \<and>
    x' ''dialScene'' \<in> DialScene_code ` {CALL_NORMAL, CALL_PRIVILEGED, CALL_EMERGENCY} \<and>
    x' ''videoState'' \<in> VideoStateType_code ` {TYPE_VOICE, TYPE_VIDEO} \<and>
    (k \<noteq> ''accountId'' \<longrightarrow> x' k = x k) \<and>
    (x ''dialType'' = DialType_code DIAL_CARRIER_TYPE \<longrightarrow>
       IsValidSlotId e (x' ''accountId'') \<or> x' ''accountId'' = 0) \<and>
    (\<not> isEcc \<longrightarrow> \<not> HasEmergencyCall r \<and>
       (x' ''dialScene'' \<noteq> DialScene_code CALL_EMERGENCY \<longrightarrow> de_canCallWithPrivacy e \<noteq> Some False) \<and>
       (x' ''callType'' \<in> CallType_code ` {TYPE_CS, TYPE_IMS, TYPE_OTT} \<longrightarrow>
          de_hasSimCard e (x' ''accountId'') \<and> de_airplane e \<noteq> (TELEPHONY_SUCCESS, True) \<and>
          (\<exists>roaming. de_networkState e (x' ''accountId'') = Some (True, roaming))))"
proof -
  note st = dial_stages [OF assms(1), folded assms(2)]
  have k: "x' k = x k" if "k \<noteq> ''accountId''" for k
    using select_account [OF st(3), of k] that by blast
  have acc: "x ''dialType'' = DialType_code DIAL_CARRIER_TYPE \<longrightarrow>
       IsValidSlotId e (x' ''accountId'') \<or> x' ''accountId'' = 0"
    using select_account [OF st(3)] by blast
  note forms = st(4-6) [unfolded check_iffs]
  have limits: "\<not> isEcc \<longrightarrow> \<not> HasEmergencyCall r"
    using st(7) by (auto simp: CheckCallLimit_def split: if_splits)
  have sends: "(x' ''dialScene'' \<noteq> DialScene_code CALL_EMERGENCY \<longrightarrow> de_canCallWithPrivacy e \<noteq> Some False) \<and>
     (x' ''callType'' \<in> CallType_code ` {TYPE_CS, TYPE_IMS, TYPE_OTT} \<longrightarrow>
        de_hasSimCard e (x' ''accountId'') \<and> de_airplane e \<noteq> (TELEPHONY_SUCCESS, True) \<and>
        (\<exists>roaming. de_networkState e (x' ''accountId'') = Some (True, roaming)))" if "\<not> isEcc"
  proof -
    have "fst (SuperPrivacyMode e x' False) = TELEPHONY_SUCCESS" using st(8) that by simp
    from privacy_success [OF this] show ?thesis
      using normal_call_success [of e "x' ''accountId''" "x' ''callType''"] by auto
  qed
  show ?thesis
    using st(2) forms limits sends acc k by (simp add: k)
qed

theorem dial_success_is_safe_witness:
  "de_hasSimCard sample_dial_env 1 \<and> de_airplane sample_dial_env \<noteq> (TELEPHONY_SUCCESS, True)"
proof -
  let ?d = "DialPolicy sample_build sample_dial_env edm_init (empty_registry (\<lambda>_. sample_cs_call))
    ''10086'' sample_extras False"
  note safe = dial_success_is_safe [OF sample_dial(1) [of "\<lambda>_. sample_cs_call" "''10086''"] refl]
  have "snd (snd ?d) ''callType'' = CallType_code TYPE_IMS"
    using safe [of "''callType''"] by (simp add: sample_extras_def)
  with safe show ?thesis by (simp add: sample_dial(2))
qed

text \<open>
  C15: The decision on an emergency number depends on the request and the device
  management alone, never on the calls in progress, the SIM card, the network, airplane
  mode or the privacy manager: a well-formed request for an enabled number is let
  through, and the device management does apply to emergency numbers.
\<close>

theorem emergency_dial_decision:
  "fst (DialPolicy b e p r n x True) =
     (if x ''dialType'' \<notin> DialType_code ` {DIAL_CARRIER_TYPE, DIAL_VOICE_MAIL_TYPE, DIAL_OTT_TYPE,
           DIAL_BLUETOOTH_TYPE} then TELEPHONY_ERR_ARGUMENT_INVALID
      else if \<not> IsDialingEnable (de_callsDisallowed e) n p then TELEPHONY_ERR_POLICY_DISABLED
      else if x ''callType'' \<in> CallType_code ` {TYPE_CS, TYPE_IMS, TYPE_OTT, TYPE_SATELLITE, TYPE_BLUETOOTH} \<and>
         x ''dialScene'' \<in> DialScene_code ` {CALL_NORMAL, CALL_PRIVILEGED, CALL_EMERGENCY} \<and>
         x ''videoState'' \<in> VideoStateType_code ` {TYPE_VOICE, TYPE_VIDEO}
      then TELEPHONY_SUCCESS else TELEPHONY_ERR_ARGUMENT_INVALID)"
proof -
  obtain x' where x': "SelectAccountIdForCarrier e (x ''accountId'') (x ''dialType'') x =
      (TELEPHONY_SUCCESS, x')"
    by (simp add: SelectAccountIdForCarrier_def)
  then have k: "x' k = x k" if "k \<noteq> ''accountId''" for k
    using select_account [of x' e "x ''accountId''" "x ''dialType''" x k] that by simp
  have "fst (SuperPrivacyMode e x' True) = TELEPHONY_SUCCESS"
    by (simp add: SuperPrivacyMode_def HasNormalCall_def Let_def)
  then show ?thesis
    unfolding check_iffs [symmetric]
    by (simp add: DialPolicy_def Let_def x' k CheckMdmPolicy_def CheckCallLimit_def check_errors
        split_beta)
qed

text \<open>
  A second dial is refused while a first call is on its way out: with call transfer
  built in, once DIALING or ALERTING has been reported for a call that is not VoIP, a
  request for a number that is not an emergency number is refused.  Without that feature
  the limits on new and ringing calls are not compiled: only an emergency call in
  progress limits dialing.
\<close>

theorem second_dial_refused:
  assumes "distinct_ids r" and "GetOneCallObject i r = Some q"
    and "m_callType (r_heap r q) \<noteq> TYPE_VOIP" and "s \<in> {CALL_STATUS_DIALING, CALL_STATUS_ALERTING}"
    and "m_callState (r_heap r q) \<noteq> s"
  shows "(call_transfer b \<longrightarrow>
           fst (DialPolicy b e p (UpdateOneCallObjectByCallId k i s r) n x False) \<noteq> TELEPHONY_SUCCESS) \<and>
         (\<not> call_transfer b \<longrightarrow>
           CheckCallLimit b False v r =
             (if HasEmergencyCall r then CALL_ERR_CALL_COUNTS_EXCEED_LIMIT else TELEPHONY_SUCCESS))"
proof -
  let ?r = "UpdateOneCallObjectByCallId k i s r"
  have q: "q \<in> set (r_list r)" using assms(2) by (auto simp: GetOneCallObject_def dest: find_call_Some)
  have "running_of s = Some CALL_RUNNING_STATE_DIALING" using assms(4) by auto
  then have "is_new_call (r_heap ?r q)"
    using new_report_running [OF assms(5)] assms(3)
    by (simp add: update_known(1) [OF assms(1,2)] is_new_call_def)
  with q have "HasNewCall ?r \<noteq> TELEPHONY_SUCCESS"
    by (auto simp: HasNewCall_def has_call_iff)
  then have "CheckCallLimit b False v' ?r \<noteq> TELEPHONY_SUCCESS" if "call_transfer b" for v'
    using that by (simp add: CheckCallLimit_def)
  then have "call_transfer b \<longrightarrow> fst (DialPolicy b e p ?r n x False) \<noteq> TELEPHONY_SUCCESS"
    using dial_stages(7) by blast
  then show ?thesis by (simp add: CheckCallLimit_def)
qed

theorem second_dial_refused_witness:
  "fst (DialPolicy sample_build sample_dial_env edm_init
     (UpdateOneCallObjectByCallId sample_clock 1 CALL_STATUS_DIALING sample_registry)
     ''10086'' sample_extras False) \<noteq> TELEPHONY_SUCCESS"
proof -
  have "GetOneCallObject 1 sample_registry = Some 0"
    by (simp add: GetOneCallObject_def find_call_def sample_registry_calls)
  from second_dial_refused [OF sample_registry_calls(4) this, of CALL_STATUS_DIALING sample_build]
  show ?thesis
    by (simp add: sample_registry_def empty_registry_def sample_call_defs sample_build_def)
qed

text \<open>
  A report of a new state opens exactly the operations of that state, whatever the
  call did before: the call can be answered and rejected if it is incoming or waiting,
  held if active, resumed if on hold, and hung up unless it is disconnecting or
  disconnected (states that carry a running state).
\<close>

theorem report_opens_operations:
  assumes "distinct_ids r" and "GetOneCallObject i r = Some q"
    and "m_callState (r_heap r q) \<noteq> s" and "running_of s \<noteq> None"
    and "r' = UpdateOneCallObjectByCallId k i s r"
  shows "(AnswerCallPolicy i 0 r' = TELEPHONY_SUCCESS \<longleftrightarrow> s \<in> {CALL_STATUS_INCOMING, CALL_STATUS_WAITING}) \<and>
    (RejectCallPolicy i r' = TELEPHONY_SUCCESS \<longleftrightarrow> s \<in> {CALL_STATUS_INCOMING, CALL_STATUS_WAITING}) \<and>
    (HoldCallPolicy i r' = TELEPHONY_SUCCESS \<longleftrightarrow> s = CALL_STATUS_ACTIVE) \<and>
    (UnHoldCallPolicy i r' = TELEPHONY_SUCCESS \<longleftrightarrow> s = CALL_STATUS_HOLDING) \<and>
    (HangUpPolicy i r' = TELEPHONY_SUCCESS \<longleftrightarrow> s \<notin> {CALL_STATUS_DISCONNECTING, CALL_STATUS_DISCONNECTED})"
proof -
  note u = update_known [OF assms(1,2), where k = k and s = s, folded assms(5)]
  obtain x where x: "running_of s = Some x" using assms(4) by blast
  have state: "GetCallState i r' = s" by (simp add: GetCallState_def u assms(2))
  have ex: "IsCallExist i r'" by (simp add: registry_table.exists_iff u assms(2))
  have running: "m_callRunningState (r_heap r' q) = x"
    by (simp add: u new_report_running [OF assms(3) x])
  have "x = CALL_RUNNING_STATE_ACTIVE \<longleftrightarrow> s = CALL_STATUS_ACTIVE"
    and "x = CALL_RUNNING_STATE_HOLD \<longleftrightarrow> s = CALL_STATUS_HOLDING" and "s \<noteq> CALL_STATUS_IDLE"
    using x by (cases s; auto)+
  then show ?thesis
    by (simp add: answer_gate.gate_iff reject_gate.gate_iff hang_up_gate.gate_iff hold_gate
        unhold_gate state ex running u(2) assms(2))
qed

theorem report_opens_operations_witness:
  "HoldCallPolicy 1 (UpdateOneCallObjectByCallId sample_clock 1 CALL_STATUS_HOLDING sample_registry)
     \<noteq> TELEPHONY_SUCCESS \<and>
   UnHoldCallPolicy 1 (UpdateOneCallObjectByCallId sample_clock 1 CALL_STATUS_HOLDING sample_registry)
     = TELEPHONY_SUCCESS"
proof -
  have "GetOneCallObject 1 sample_registry = Some 0"
    by (simp add: GetOneCallObject_def find_call_def sample_registry_calls)
  from report_opens_operations [OF sample_registry_calls(4) this _ _ refl, of CALL_STATUS_HOLDING]
  show ?thesis by (simp add: sample_registry_def empty_registry_def sample_call_defs)
qed

end
