(* ===== verification/Bluetooth_Call_Policy.thy ===== *)
theory Bluetooth_Call_Policy
  imports Call_Policy
begin

text \<open>
  The checks before an operation asked for by a Bluetooth device
  (\<open>services/bluetooth/src/bluetooth_call_policy.cpp\<close>).  A headset names no call: each
  check looks for a call to operate on, and returns its id through the reference
  parameter.  A call of a registry function that finds nothing leaves the parameter as it
  was, so each check takes the id and returns the id.
\<close>

subsection \<open>The checks\<close>

text \<open>
  A chain of searches, tried in order: the first that finds a call decides.
\<close>

fun first_found :: "int option list \<Rightarrow> int \<Rightarrow> ErrCode \<times> int" where
  "first_found [] callId = (CALL_ERR_ILLEGAL_CALL_OPERATION, callId)"
| "first_found (s # ss) callId =
     (case s of Some i \<Rightarrow> (TELEPHONY_SUCCESS, i) | None \<Rightarrow> first_found ss callId)"

definition Bt_AnswerCallPolicy :: "int \<Rightarrow> registry \<Rightarrow> ErrCode \<times> int" where
  "Bt_AnswerCallPolicy callId r =
     first_found [IsCallExist_state_id CALL_STATUS_INCOMING r,
       IsCallExist_state_id CALL_STATUS_WAITING r] callId"

definition Bt_RejectCallPolicy :: "int \<Rightarrow> registry \<Rightarrow> ErrCode \<times> int" where
  "Bt_RejectCallPolicy callId r =
     first_found [IsCallExist_state_id CALL_STATUS_INCOMING r,
       IsCallExist_state_id CALL_STATUS_WAITING r] callId"

definition Bt_HoldCallPolicy :: "int \<Rightarrow> registry \<Rightarrow> ErrCode \<times> int" where
  "Bt_HoldCallPolicy callId r = first_found [IsCallExist_state_id CALL_STATUS_ACTIVE r] callId"

text \<open>An active call refuses the operation, and has set the id by then.\<close>

definition Bt_UnHoldCallPolicy :: "int \<Rightarrow> registry \<Rightarrow> ErrCode \<times> int" where
  "Bt_UnHoldCallPolicy callId r =
     (case IsCallExist_state_id CALL_STATUS_ACTIVE r of
        Some i \<Rightarrow> (CALL_ERR_ILLEGAL_CALL_OPERATION, i)
      | None \<Rightarrow> first_found [IsCallExist_state_id CALL_STATUS_HOLDING r] callId)"

definition Bt_HangUpPolicy :: "int \<Rightarrow> registry \<Rightarrow> ErrCode \<times> int" where
  "Bt_HangUpPolicy callId r =
     first_found [HasActivedCallExist True r, IsCallExist_state_id CALL_STATUS_DIALING r,
       IsCallExist_state_id CALL_STATUS_ALERTING r, IsCallExist_state_id CALL_STATUS_INCOMING r,
       IsCallExist_state_id CALL_STATUS_WAITING r, IsCallExist_state_id CALL_STATUS_HOLDING r] callId"

definition Bt_SwitchCallPolicy :: "int \<Rightarrow> registry \<Rightarrow> ErrCode \<times> int" where
  "Bt_SwitchCallPolicy callId r =
     (if IsCallExist_state CALL_STATUS_ACTIVE r
      then first_found [IsCallExist_state_id CALL_STATUS_HOLDING r] callId
      else (CALL_ERR_ILLEGAL_CALL_OPERATION, callId))"

definition Bt_StartDtmfPolicy :: "int \<Rightarrow> registry \<Rightarrow> ErrCode \<times> int" where
  "Bt_StartDtmfPolicy callId r =
     first_found [IsCallExist_state_id CALL_STATUS_ACTIVE r, IsCallExist_state_id CALL_STATUS_ALERTING r,
       IsCallExist_state_id CALL_STATUS_DIALING r, IsCallExist_state_id CALL_STATUS_HOLDING r] callId"

text \<open>The id of the active call is set before the search for a held call.\<close>

definition Bt_CombineConferencePolicy :: "int \<Rightarrow> registry \<Rightarrow> ErrCode \<times> int" where
  "Bt_CombineConferencePolicy callId r =
     (case IsCallExist_state_id CALL_STATUS_ACTIVE r of
        None \<Rightarrow> (CALL_ERR_ILLEGAL_CALL_OPERATION, callId)
      | Some i \<Rightarrow>
          (if IsCallExist_state CALL_STATUS_HOLDING r then (TELEPHONY_SUCCESS, i)
           else (CALL_ERR_ILLEGAL_CALL_OPERATION, i)))"

definition Bt_SeparateConferencePolicy :: "int \<Rightarrow> registry \<Rightarrow> ErrCode \<times> int" where
  "Bt_SeparateConferencePolicy callId r =
     first_found [IsConferenceCallExist TEL_CONFERENCE_ACTIVE r,
       IsConferenceCallExist TEL_CONFERENCE_HOLDING r] callId"

definition Bt_KickOutFromConferencePolicy :: "int \<Rightarrow> registry \<Rightarrow> ErrCode \<times> int" where
  "Bt_KickOutFromConferencePolicy callId r =
     first_found [IsConferenceCallExist TEL_CONFERENCE_ACTIVE r,
       IsConferenceCallExist TEL_CONFERENCE_HOLDING r] callId"

lemmas bt_policy_defs [cm_defs] = Bt_AnswerCallPolicy_def Bt_RejectCallPolicy_def
  Bt_HoldCallPolicy_def Bt_UnHoldCallPolicy_def Bt_HangUpPolicy_def Bt_SwitchCallPolicy_def
  Bt_StartDtmfPolicy_def Bt_CombineConferencePolicy_def Bt_SeparateConferencePolicy_def
  Bt_KickOutFromConferencePolicy_def

subsection \<open>What a search finds\<close>

lemma state_id_found:
  assumes "IsCallExist_state_id s r = Some i"
  shows "\<exists>p \<in> set (r_list r). m_callState (r_heap r p) = s \<and> m_callId (r_heap r p) = i"
proof -
  obtain c where "List.find (\<lambda>c. m_callState c = s) (calls r) = Some c" "m_callId c = i"
    using assms by (auto simp: IsCallExist_state_id_def)
  then show ?thesis by (auto dest!: find_SomeD)
qed

lemma state_id_none: "IsCallExist_state_id s r = None \<longleftrightarrow> \<not> IsCallExist_state s r"
  by (simp add: IsCallExist_state_id_def IsCallExist_state_def has_call_def find_eq_None_iff
      list_ex_iff)

text \<open>With distinct ids the id found leads back to the call.\<close>

lemma state_id_lookup:
  assumes "distinct_ids r" and "IsCallExist_state_id s r = Some i"
  shows "\<exists>p. GetOneCallObject i r = Some p \<and> p \<in> set (r_list r) \<and> m_callState (r_heap r p) = s"
    and "IsCallExist i r" and "GetCallState i r = s"
proof -
  from state_id_found [OF assms(2)] obtain p where p: "p \<in> set (r_list r)"
    "m_callState (r_heap r p) = s" "m_callId (r_heap r p) = i" by blast
  then have g: "GetOneCallObject i r = Some p" using get_by_own_id [OF assms(1)] by blast
  with p show "\<exists>p. GetOneCallObject i r = Some p \<and> p \<in> set (r_list r) \<and> m_callState (r_heap r p) = s"
    by blast
  show "IsCallExist i r" using g registry_table.exists_iff by blast
  show "GetCallState i r = s" by (simp add: GetCallState_def g p)
qed

text \<open>
  The agreement of reported and running state that holds once a state with a running
  state has been reported.
\<close>

definition settled :: "registry \<Rightarrow> bool" where
  "settled r = list_all (\<lambda>c. running_of (m_callState c) \<in> {None, Some (m_callRunningState c)}) (calls r)"

lemma settled_running:
  "settled r \<Longrightarrow> p \<in> set (r_list r) \<Longrightarrow> running_of (m_callState (r_heap r p)) = Some x \<Longrightarrow>
     m_callRunningState (r_heap r p) = x"
  by (auto simp: settled_def list_all_iff)

text \<open>A report of a new state keeps the agreement.\<close>

lemma settled_update:
  assumes "settled r" and "distinct_ids r" and "GetOneCallObject i r = Some q"
  shows "settled (UpdateOneCallObjectByCallId k i s r)"
proof -
  have q: "q \<in> set (r_list r)" using assms(3) by (auto simp: GetOneCallObject_def dest: find_call_Some)
  have "running_of s \<in> {None, Some (m_callRunningState (snd (SetTelCallState k s (r_heap r q))))}"
  proof (cases "m_callState (r_heap r q) = s")
    case True
    then show ?thesis using settled_running [OF assms(1) q]
      by (cases "running_of s") (auto simp: SetTelCallState_def enter_state_running)
  next
    case False
    then show ?thesis using new_report_running [OF False]
      by (cases "running_of s") (auto simp del: insert_iff simp: insert_iff)
  qed
  then show ?thesis using assms(1)
    by (auto simp: settled_def list_all_iff update_known(1) [OF assms(2,3)])
qed

subsection \<open>Properties\<close>

text \<open>
  The call a headset's button selects can be operated on: if the Bluetooth check for
  answering, rejecting, holding or resuming succeeds, the id it returns passes the
  service's own check of the same operation.  (Distinct ids, running states agreeing
  with the reported states.)
\<close>

theorem bluetooth_selection_is_legal:
  assumes "distinct_ids r" and "settled r"
  shows "(Bt_AnswerCallPolicy i r = (TELEPHONY_SUCCESS, j) \<longrightarrow> AnswerCallPolicy j 0 r = TELEPHONY_SUCCESS) \<and>
    (Bt_RejectCallPolicy i r = (TELEPHONY_SUCCESS, j) \<longrightarrow> RejectCallPolicy j r = TELEPHONY_SUCCESS) \<and>
    (Bt_HoldCallPolicy i r = (TELEPHONY_SUCCESS, j) \<longrightarrow> HoldCallPolicy j r = TELEPHONY_SUCCESS) \<and>
    (Bt_UnHoldCallPolicy i r = (TELEPHONY_SUCCESS, j) \<longrightarrow> UnHoldCallPolicy j r = TELEPHONY_SUCCESS)"
proof -
  note found = state_id_lookup [OF assms(1)]
  have hold: "HoldCallPolicy j r = TELEPHONY_SUCCESS"
    if "IsCallExist_state_id CALL_STATUS_ACTIVE r = Some j"
    using found(1) [OF that] settled_running [OF assms(2)] by (auto simp: hold_gate)
  have resume: "UnHoldCallPolicy j r = TELEPHONY_SUCCESS"
    if "IsCallExist_state_id CALL_STATUS_HOLDING r = Some j"
    using found(1) [OF that] settled_running [OF assms(2)] by (auto simp: unhold_gate)
  have ring: "AnswerCallPolicy j 0 r = TELEPHONY_SUCCESS \<and> RejectCallPolicy j r = TELEPHONY_SUCCESS"
    if "IsCallExist_state_id s r = Some j" "s \<in> {CALL_STATUS_INCOMING, CALL_STATUS_WAITING}" for s
    using found(2,3) [OF that(1)] that(2)
    by (simp add: answer_gate.gate_iff reject_gate.gate_iff)
  show ?thesis
    by (auto simp: bt_policy_defs split: option.splits intro: hold resume dest: ring)
qed

theorem bluetooth_selection_is_legal_witness:
  "Bt_HoldCallPolicy 0 (UpdateOneCallObjectByCallId sample_clock 1 CALL_STATUS_ACTIVE
     (UpdateOneCallObjectByCallId sample_clock 2 CALL_STATUS_HOLDING sample_registry)) =
     (TELEPHONY_SUCCESS, 1) \<and>
   HoldCallPolicy 1 (UpdateOneCallObjectByCallId sample_clock 1 CALL_STATUS_ACTIVE
     (UpdateOneCallObjectByCallId sample_clock 2 CALL_STATUS_HOLDING sample_registry)) = TELEPHONY_SUCCESS"
  (is "?bt \<and> ?p")
proof -
  let ?r = "UpdateOneCallObjectByCallId sample_clock 1 CALL_STATUS_ACTIVE
    (UpdateOneCallObjectByCallId sample_clock 2 CALL_STATUS_HOLDING sample_registry)"
  note d = UpdateOneCallObjectByCallId_def SetTelCallState_def state_change_defs
    sample_registry_def empty_registry_def sample_call_defs sample_clock_def Let_def
  have r: "distinct_ids ?r" "settled ?r"
    by (simp_all add: distinct_ids_def settled_def d)
  have bt: ?bt
    by (simp add: Bt_HoldCallPolicy_def IsCallExist_state_id_def d)
  with bluetooth_selection_is_legal [OF r, of 0 1] show ?thesis by blast
qed

text \<open>
  Hanging up from a headset is refused only when nothing is there to hang up: if it is
  refused, no call of the registry is dialing, alerting, incoming, waiting or on hold,
  any active call is a virtual VoIP call, and the VoIP application has reported no active
  call; and the id is left as it was.
\<close>

theorem bluetooth_hang_up_refused:
  assumes "fst (Bt_HangUpPolicy i r) \<noteq> TELEPHONY_SUCCESS"
  shows "snd (Bt_HangUpPolicy i r) = i \<and>
    \<not> has_call (\<lambda>c. m_callState c \<in> {CALL_STATUS_DIALING, CALL_STATUS_ALERTING, CALL_STATUS_INCOMING,
       CALL_STATUS_WAITING, CALL_STATUS_HOLDING}) r \<and>
    \<not> has_call (\<lambda>c. m_callState c = CALL_STATUS_ACTIVE \<and>
       (m_isNonVirtualCall c \<or> m_callType c \<noteq> TYPE_VOIP)) r \<and>
    i_callId (GetActiveVoipCallInfo r) < VOIP_CALL_MINIMUM"
proof -
  have none: "HasActivedCallExist True r = None \<and> (\<forall>s \<in> {CALL_STATUS_DIALING, CALL_STATUS_ALERTING,
      CALL_STATUS_INCOMING, CALL_STATUS_WAITING, CALL_STATUS_HOLDING}. IsCallExist_state_id s r = None)"
    using assms by (simp add: Bt_HangUpPolicy_def split: option.splits)
  then have "snd (Bt_HangUpPolicy i r) = i" by (simp add: Bt_HangUpPolicy_def)
  moreover have "\<not> has_call (\<lambda>c. m_callState c \<in> {CALL_STATUS_DIALING, CALL_STATUS_ALERTING,
       CALL_STATUS_INCOMING, CALL_STATUS_WAITING, CALL_STATUS_HOLDING}) r"
    using none by (auto simp: state_id_none IsCallExist_state_def has_call_iff)
  moreover have "List.find (\<lambda>c. m_callState c = CALL_STATUS_ACTIVE \<and>
       (m_isNonVirtualCall c \<or> m_callType c \<noteq> TYPE_VOIP)) (calls r) = None"
    and "i_callId (GetActiveVoipCallInfo r) < VOIP_CALL_MINIMUM"
    using none by (auto simp: HasActivedCallExist_def Let_def split: option.splits if_splits)
  ultimately show ?thesis
    by (auto simp: has_call_iff find_eq_None_iff)
qed

theorem bluetooth_hang_up_refused_witness:
  "\<not> has_call (\<lambda>c. m_callState c = CALL_STATUS_ACTIVE \<and>
     (m_isNonVirtualCall c \<or> m_callType c \<noteq> TYPE_VOIP)) (empty_registry (\<lambda>_. sample_cs_call))"
proof -
  have "fst (Bt_HangUpPolicy 0 (empty_registry (\<lambda>_. sample_cs_call))) \<noteq> TELEPHONY_SUCCESS"
    by (simp add: Bt_HangUpPolicy_def HasActivedCallExist_def IsCallExist_state_id_def
        GetActiveVoipCallInfo_def empty_registry_def voip_infos_def default_info_def VOIP_CALL_MINIMUM_def Let_def)
  from bluetooth_hang_up_refused [OF this] show ?thesis by blast
qed

end
