(* ===== verification/Call_State_Processor.thy ===== *)
theory Call_State_Processor
  imports Call_Object_Manager
begin

text \<open>
  The calls by audio category (\<open>services/audio/src/call_state_processor.cpp\<close>): five sets
  of call ids behind one mutex, and the decisions the audio scenes take from them.  The
  sets of the program are finite; \<open>std::set\<close> iterates in ascending order, so its first
  element is the least.  The events of the audio state machines
  (\<open>services/audio/include/audio_state/audio_base.h\<close>) are declared here because
  UpdateCurrentCallState posts one.
\<close>

datatype AudioEvent =
    UNKNOWN_EVENT | AUDIO_ACTIVATED | AUDIO_RINGING | AUDIO_DEACTIVATED
  | SWITCH_CS_CALL_STATE | SWITCH_IMS_CALL_STATE | SWITCH_OTT_CALL_STATE
  | SWITCH_DIALING_STATE | SWITCH_ALERTING_STATE | SWITCH_INCOMING_STATE
  | SWITCH_HOLDING_STATE | SWITCH_AUDIO_INACTIVE_STATE
  | NEW_ACTIVE_CS_CALL | NEW_ACTIVE_IMS_CALL | NEW_ACTIVE_OTT_CALL
  | NEW_DIALING_CALL | NEW_ALERTING_CALL | NEW_INCOMING_CALL
  | NO_MORE_ACTIVE_CALL | NO_MORE_DIALING_CALL | NO_MORE_ALERTING_CALL
  | NO_MORE_INCOMING_CALL | NO_MORE_HOLDING_CALL
  | CALL_TYPE_CS_CHANGE_IMS | CALL_TYPE_IMS_CHANGE_CS
  | ENABLE_DEVICE_EARPIECE | ENABLE_DEVICE_SPEAKER | ENABLE_DEVICE_WIRED_HEADSET
  | ENABLE_DEVICE_BLUETOOTH | WIRED_HEADSET_CONNECTED | WIRED_HEADSET_DISCONNECTED
  | BLUETOOTH_SCO_CONNECTED | BLUETOOTH_SCO_DISCONNECTED | INIT_AUDIO_DEVICE

record call_sets =
  activeCalls :: "int set"
  holdingCalls :: "int set"
  alertingCalls :: "int set"
  incomingCalls :: "int set"
  dialingCalls :: "int set"

definition no_calls :: call_sets where
  "no_calls = \<lparr>activeCalls = {}, holdingCalls = {}, alertingCalls = {}, incomingCalls = {},
     dialingCalls = {}\<rparr>"

definition INVALID_CALLID :: int where "INVALID_CALLID = 0"

subsection \<open>Operations\<close>

fun AddCall :: "int \<Rightarrow> TelCallState \<Rightarrow> call_sets \<Rightarrow> call_sets" where
  "AddCall i CALL_STATUS_DIALING s = s\<lparr>dialingCalls := insert i (dialingCalls s)\<rparr>"
| "AddCall i CALL_STATUS_ALERTING s = s\<lparr>alertingCalls := insert i (alertingCalls s)\<rparr>"
| "AddCall i CALL_STATUS_WAITING s = s\<lparr>incomingCalls := insert i (incomingCalls s)\<rparr>"
| "AddCall i CALL_STATUS_INCOMING s = s\<lparr>incomingCalls := insert i (incomingCalls s)\<rparr>"
| "AddCall i CALL_STATUS_ACTIVE s = s\<lparr>activeCalls := insert i (activeCalls s)\<rparr>"
| "AddCall i CALL_STATUS_ANSWERED s = s\<lparr>activeCalls := insert i (activeCalls s)\<rparr>"
| "AddCall i CALL_STATUS_HOLDING s = s\<lparr>holdingCalls := insert i (holdingCalls s)\<rparr>"
| "AddCall i _ s = s"

text \<open>Unlike adding, deleting has no case for ANSWERED.\<close>

fun DeleteCall :: "int \<Rightarrow> TelCallState \<Rightarrow> call_sets \<Rightarrow> call_sets" where
  "DeleteCall i CALL_STATUS_DIALING s = s\<lparr>dialingCalls := dialingCalls s - {i}\<rparr>"
| "DeleteCall i CALL_STATUS_ALERTING s = s\<lparr>alertingCalls := alertingCalls s - {i}\<rparr>"
| "DeleteCall i CALL_STATUS_WAITING s = s\<lparr>incomingCalls := incomingCalls s - {i}\<rparr>"
| "DeleteCall i CALL_STATUS_INCOMING s = s\<lparr>incomingCalls := incomingCalls s - {i}\<rparr>"
| "DeleteCall i CALL_STATUS_ACTIVE s = s\<lparr>activeCalls := activeCalls s - {i}\<rparr>"
| "DeleteCall i CALL_STATUS_HOLDING s = s\<lparr>holdingCalls := holdingCalls s - {i}\<rparr>"
| "DeleteCall i _ s = s"

text \<open>The number of a state without a case, WAITING among them, is 0.\<close>

fun CallStateProcessor_GetCallNumber :: "TelCallState \<Rightarrow> call_sets \<Rightarrow> nat" where
  "CallStateProcessor_GetCallNumber CALL_STATUS_DIALING s = card (dialingCalls s)"
| "CallStateProcessor_GetCallNumber CALL_STATUS_ALERTING s = card (alertingCalls s)"
| "CallStateProcessor_GetCallNumber CALL_STATUS_INCOMING s = card (incomingCalls s)"
| "CallStateProcessor_GetCallNumber CALL_STATUS_ACTIVE s = card (activeCalls s)"
| "CallStateProcessor_GetCallNumber CALL_STATUS_HOLDING s = card (holdingCalls s)"
| "CallStateProcessor_GetCallNumber _ s = 0"

fun ShouldSwitchState :: "TelCallState \<Rightarrow> call_sets \<Rightarrow> bool" where
  "ShouldSwitchState CALL_STATUS_DIALING s =
     (card (dialingCalls s) = 1 \<and> activeCalls s = {} \<and> incomingCalls s = {} \<and> alertingCalls s = {})"
| "ShouldSwitchState CALL_STATUS_ALERTING s =
     (card (alertingCalls s) = 1 \<and> activeCalls s = {} \<and> incomingCalls s = {} \<and> dialingCalls s = {})"
| "ShouldSwitchState CALL_STATUS_INCOMING s =
     (card (incomingCalls s) = 1 \<and> activeCalls s = {} \<and> dialingCalls s = {} \<and> alertingCalls s = {})"
| "ShouldSwitchState CALL_STATUS_ACTIVE s = (card (activeCalls s) = 1)"
| "ShouldSwitchState _ s = False"

text \<open>The event to post, if any.\<close>

definition UpdateCurrentCallState :: "call_sets \<Rightarrow> AudioEvent list" where
  "UpdateCurrentCallState s =
     (if card (activeCalls s) > 0 then []
      else if card (holdingCalls s) > 0 then [SWITCH_HOLDING_STATE]
      else if card (incomingCalls s) > 0 then [SWITCH_INCOMING_STATE]
      else if card (dialingCalls s) > 0 then [SWITCH_DIALING_STATE]
      else if card (alertingCalls s) > 0 then [SWITCH_ALERTING_STATE]
      else [SWITCH_AUDIO_INACTIVE_STATE])"

definition ShouldStopSoundtone :: "registry \<Rightarrow> call_sets \<Rightarrow> bool" where
  "ShouldStopSoundtone r s =
     (if card (activeCalls s) > 0 \<or> (card (incomingCalls s) > 0 \<and> HasIncomingCallCrsType r)
      then False
      else card (holdingCalls s) = 0 \<and> card (dialingCalls s) = 0 \<and> card (alertingCalls s) = 0)"

definition first_call :: "int set \<Rightarrow> int" where
  "first_call s = the (begin_elem s)"

definition GetAudioForegroundLiveCall :: "call_sets \<Rightarrow> int" where
  "GetAudioForegroundLiveCall s =
     (if card (activeCalls s) > 0 then first_call (activeCalls s)
      else if card (dialingCalls s) > 0 then first_call (dialingCalls s)
      else if card (alertingCalls s) > 0 then first_call (alertingCalls s)
      else if card (incomingCalls s) > 0 then first_call (incomingCalls s)
      else if card (holdingCalls s) > 0 then first_call (holdingCalls s)
      else INVALID_CALLID)"

definition CallStateProcessor_GetCurrentActiveCall :: "call_sets \<Rightarrow> int" where
  "CallStateProcessor_GetCurrentActiveCall s =
     (if card (activeCalls s) > 0 then first_call (activeCalls s) else INVALID_CALLID)"

subsection \<open>Lemmas\<close>

definition finite_sets :: "call_sets \<Rightarrow> bool" where
  "finite_sets s = (finite (activeCalls s) \<and> finite (holdingCalls s) \<and> finite (alertingCalls s) \<and>
     finite (incomingCalls s) \<and> finite (dialingCalls s))"

lemma finite_no_calls [simp]: "finite_sets no_calls"
  by (simp add: finite_sets_def no_calls_def)

lemma finite_add [simp]: "finite_sets s \<Longrightarrow> finite_sets (AddCall i t s)"
  by (cases t) (simp_all add: finite_sets_def)

lemma finite_delete [simp]: "finite_sets s \<Longrightarrow> finite_sets (DeleteCall i t s)"
  by (cases t) (simp_all add: finite_sets_def)

lemma finite_sets_card [simp]:
  assumes "finite_sets s"
  shows "0 < card (activeCalls s) \<longleftrightarrow> activeCalls s \<noteq> {}"
    and "0 < card (holdingCalls s) \<longleftrightarrow> holdingCalls s \<noteq> {}"
    and "0 < card (alertingCalls s) \<longleftrightarrow> alertingCalls s \<noteq> {}"
    and "0 < card (incomingCalls s) \<longleftrightarrow> incomingCalls s \<noteq> {}"
    and "0 < card (dialingCalls s) \<longleftrightarrow> dialingCalls s \<noteq> {}"
  using assms by (auto simp: finite_sets_def card_gt_0_iff)

lemma first_call_in: "finite s \<Longrightarrow> s \<noteq> {} \<Longrightarrow> first_call s \<in> s"
  by (simp add: first_call_def begin_elem_def)

lemma add_fields:
  "dialingCalls (AddCall i t s) = (if t = CALL_STATUS_DIALING then insert i (dialingCalls s) else dialingCalls s)"
  "alertingCalls (AddCall i t s) = (if t = CALL_STATUS_ALERTING then insert i (alertingCalls s) else alertingCalls s)"
  "incomingCalls (AddCall i t s) = (if t = CALL_STATUS_WAITING \<or> t = CALL_STATUS_INCOMING
     then insert i (incomingCalls s) else incomingCalls s)"
  "activeCalls (AddCall i t s) = (if t = CALL_STATUS_ACTIVE \<or> t = CALL_STATUS_ANSWERED
     then insert i (activeCalls s) else activeCalls s)"
  "holdingCalls (AddCall i t s) = (if t = CALL_STATUS_HOLDING then insert i (holdingCalls s) else holdingCalls s)"
  by (cases t; simp)+

lemma delete_fields:
  "dialingCalls (DeleteCall i t s) = (if t = CALL_STATUS_DIALING then dialingCalls s - {i} else dialingCalls s)"
  "alertingCalls (DeleteCall i t s) = (if t = CALL_STATUS_ALERTING then alertingCalls s - {i} else alertingCalls s)"
  "incomingCalls (DeleteCall i t s) = (if t = CALL_STATUS_WAITING \<or> t = CALL_STATUS_INCOMING
     then incomingCalls s - {i} else incomingCalls s)"
  "activeCalls (DeleteCall i t s) = (if t = CALL_STATUS_ACTIVE then activeCalls s - {i} else activeCalls s)"
  "holdingCalls (DeleteCall i t s) = (if t = CALL_STATUS_HOLDING then holdingCalls s - {i} else holdingCalls s)"
  by (cases t; simp)+

subsection \<open>The sets over a history of calls\<close>

text \<open>
  A transition of one call, as the audio control applies it: the new state is added
  before the old one is deleted, and a repeated state is only added.
\<close>

definition move :: "int \<Rightarrow> TelCallState \<Rightarrow> TelCallState \<Rightarrow> call_sets \<Rightarrow> call_sets" where
  "move i prior t s = (if prior = t then AddCall i t s else DeleteCall i prior (AddCall i t s))"

text \<open>
  A history gives each call's states in the order of their reports; every call starts
  idle, and the prior state is the last one reported.
\<close>

fun track :: "(int \<Rightarrow> TelCallState) \<Rightarrow> call_sets \<Rightarrow> (int \<times> TelCallState) list \<Rightarrow>
    (int \<Rightarrow> TelCallState) \<times> call_sets" where
  "track m s [] = (m, s)"
| "track m s ((i, t) # es) = track (m(i := t)) (move i (m i) t s) es"

text \<open>
  The histories the sets follow: ANSWERED is not a reported state, and an incoming call
  does not become a waiting one or the other way round.
\<close>

fun regular_history :: "(int \<Rightarrow> TelCallState) \<Rightarrow> (int \<times> TelCallState) list \<Rightarrow> bool" where
  "regular_history m [] = True"
| "regular_history m ((i, t) # es) =
     (t \<noteq> CALL_STATUS_ANSWERED \<and>
      \<not> (m i = CALL_STATUS_WAITING \<and> t = CALL_STATUS_INCOMING) \<and>
      \<not> (m i = CALL_STATUS_INCOMING \<and> t = CALL_STATUS_WAITING) \<and>
      regular_history (m(i := t)) es)"

definition sets_of :: "(int \<Rightarrow> TelCallState) \<Rightarrow> call_sets" where
  "sets_of m = \<lparr>activeCalls = {i. m i = CALL_STATUS_ACTIVE}, holdingCalls = {i. m i = CALL_STATUS_HOLDING},
     alertingCalls = {i. m i = CALL_STATUS_ALERTING},
     incomingCalls = {i. m i = CALL_STATUS_WAITING \<or> m i = CALL_STATUS_INCOMING},
     dialingCalls = {i. m i = CALL_STATUS_DIALING}\<rparr>"

lemma move_sets_of:
  assumes "t \<noteq> CALL_STATUS_ANSWERED"
    and "\<not> (m i = CALL_STATUS_WAITING \<and> t = CALL_STATUS_INCOMING)"
    and "\<not> (m i = CALL_STATUS_INCOMING \<and> t = CALL_STATUS_WAITING)"
  shows "move i (m i) t (sets_of m) = sets_of (m(i := t))"
proof (rule call_sets.equality)
  show "activeCalls (move i (m i) t (sets_of m)) = activeCalls (sets_of (m(i := t)))"
    using assms(1) by (auto simp: move_def add_fields delete_fields sets_of_def)
  show "incomingCalls (move i (m i) t (sets_of m)) = incomingCalls (sets_of (m(i := t)))"
    using assms(2,3) by (auto simp: move_def add_fields delete_fields sets_of_def)
qed (auto simp: move_def add_fields delete_fields sets_of_def)

lemma track_sets_of:
  "regular_history m es \<Longrightarrow> snd (track m (sets_of m) es) = sets_of (fst (track m (sets_of m) es))"
proof (induction es arbitrary: m)
  case Nil
  then show ?case by simp
next
  case (Cons e es)
  obtain i t where e: "e = (i, t)" by fastforce
  have r: "regular_history (m(i := t)) es" and eq: "track m (sets_of m) (e # es) =
      track (m(i := t)) (sets_of (m(i := t))) es"
    using Cons.prems by (simp_all add: e move_sets_of)
  show ?case unfolding eq by (rule Cons.IH [OF r])
qed

lemma finite_move [simp]: "finite_sets s \<Longrightarrow> finite_sets (move i prior t s)"
  by (simp add: move_def)

lemma finite_track: "finite_sets s \<Longrightarrow> finite_sets (snd (track m s es))"
proof (induction es arbitrary: m s)
  case (Cons e es)
  then show ?case by (cases e) simp
qed simp

subsection \<open>Properties\<close>

text \<open>
  C18: The five sets are exactly the classification of the calls by their last reported
  state, after any history of any number of calls: a call is in the set of its state and
  in no other.  So the call chosen for audio is an active call if there is one, else a
  dialing, else an alerting, else an incoming, else a held one, and there is none only if
  no call is in these states.  (ANSWERED is not reported; no call changes between
  incoming and waiting.)
\<close>

theorem audio_sets_track_states:
  assumes "regular_history (\<lambda>_. CALL_STATUS_IDLE) es"
    and "track (\<lambda>_. CALL_STATUS_IDLE) no_calls es = (m, s)"
  shows "s = sets_of m \<and>
    (let i = GetAudioForegroundLiveCall s in
     if \<exists>j. m j = CALL_STATUS_ACTIVE then m i = CALL_STATUS_ACTIVE
     else if \<exists>j. m j = CALL_STATUS_DIALING then m i = CALL_STATUS_DIALING
     else if \<exists>j. m j = CALL_STATUS_ALERTING then m i = CALL_STATUS_ALERTING
     else if \<exists>j. m j = CALL_STATUS_WAITING \<or> m j = CALL_STATUS_INCOMING
     then m i = CALL_STATUS_WAITING \<or> m i = CALL_STATUS_INCOMING
     else if \<exists>j. m j = CALL_STATUS_HOLDING then m i = CALL_STATUS_HOLDING
     else i = INVALID_CALLID)"
proof -
  have init: "no_calls = sets_of (\<lambda>_. CALL_STATUS_IDLE)"
    by (simp add: no_calls_def sets_of_def)
  have s: "s = sets_of m"
    using track_sets_of [OF assms(1)] assms(2) by (simp add: init)
  have fin: "finite_sets s"
    using finite_track [of no_calls "\<lambda>_. CALL_STATUS_IDLE" es] assms(2) by simp
  have pick: "m (first_call {j. P (m j)}) \<in> Collect P" if "finite {j. P (m j)}" "\<exists>j. P (m j)" for P
    using first_call_in [OF that(1)] that(2) by blast
  note f = fin [unfolded finite_sets_def s sets_of_def, simplified]
  note picks = pick [of "\<lambda>t. t = CALL_STATUS_ACTIVE"] pick [of "\<lambda>t. t = CALL_STATUS_DIALING"]
    pick [of "\<lambda>t. t = CALL_STATUS_ALERTING"] pick [of "\<lambda>t. t = CALL_STATUS_HOLDING"]
    pick [of "\<lambda>t. t = CALL_STATUS_WAITING \<or> t = CALL_STATUS_INCOMING"]
  have "let i = GetAudioForegroundLiveCall s in
     if \<exists>j. m j = CALL_STATUS_ACTIVE then m i = CALL_STATUS_ACTIVE
     else if \<exists>j. m j = CALL_STATUS_DIALING then m i = CALL_STATUS_DIALING
     else if \<exists>j. m j = CALL_STATUS_ALERTING then m i = CALL_STATUS_ALERTING
     else if \<exists>j. m j = CALL_STATUS_WAITING \<or> m j = CALL_STATUS_INCOMING
     then m i = CALL_STATUS_WAITING \<or> m i = CALL_STATUS_INCOMING
     else if \<exists>j. m j = CALL_STATUS_HOLDING then m i = CALL_STATUS_HOLDING
     else i = INVALID_CALLID"
    using picks f unfolding GetAudioForegroundLiveCall_def Let_def finite_sets_card [OF fin]
    by (simp add: s sets_of_def)
  with s show ?thesis by blast
qed

theorem audio_sets_track_states_witness:
  "GetAudioForegroundLiveCall (snd (track (\<lambda>_. CALL_STATUS_IDLE) no_calls
     [(1, CALL_STATUS_DIALING), (1, CALL_STATUS_ACTIVE), (2, CALL_STATUS_WAITING)])) = 1"
proof -
  let ?es = "[(1, CALL_STATUS_DIALING), (1, CALL_STATUS_ACTIVE), (2, CALL_STATUS_WAITING)]"
  obtain m s where t: "track (\<lambda>_. CALL_STATUS_IDLE) no_calls ?es = (m, s)" by fastforce
  then have m: "m = (\<lambda>_. CALL_STATUS_IDLE)(1 := CALL_STATUS_ACTIVE, 2 := CALL_STATUS_WAITING)" by auto
  have "regular_history (\<lambda>_. CALL_STATUS_IDLE) ?es" by simp
  from audio_sets_track_states [OF this t] have "m (GetAudioForegroundLiveCall s) = CALL_STATUS_ACTIVE"
    using m by (auto simp: Let_def split: if_splits)
  then show ?thesis using t m by (auto split: if_splits)
qed

text \<open>
  A waiting call that becomes an incoming call, or the other way round, drops out of
  the sets: both states share one set, and the old state's deletion removes what the new
  state's addition left in place.  No set holds the call any more.
\<close>

theorem waiting_incoming_change_lost:
  assumes "{prior, t} = {CALL_STATUS_WAITING, CALL_STATUS_INCOMING}"
    and "i \<notin> activeCalls s \<union> holdingCalls s \<union> alertingCalls s \<union> dialingCalls s"
  shows "i \<notin> activeCalls (move i prior t s) \<union> holdingCalls (move i prior t s) \<union>
    alertingCalls (move i prior t s) \<union> dialingCalls (move i prior t s) \<union> incomingCalls (move i prior t s)"
  using assms by (auto simp: move_def add_fields delete_fields doubleton_eq_iff)

theorem waiting_incoming_change_lost_witness:
  "(1::int) \<notin> incomingCalls (move 1 CALL_STATUS_WAITING CALL_STATUS_INCOMING
     (AddCall 1 CALL_STATUS_WAITING no_calls))"
proof -
  have "(1::int) \<notin> activeCalls (AddCall 1 CALL_STATUS_WAITING no_calls) \<union>
      holdingCalls (AddCall 1 CALL_STATUS_WAITING no_calls) \<union>
      alertingCalls (AddCall 1 CALL_STATUS_WAITING no_calls) \<union>
      dialingCalls (AddCall 1 CALL_STATUS_WAITING no_calls)"
    by (simp add: no_calls_def)
  from waiting_incoming_change_lost [OF refl this] show ?thesis by blast
qed

end
