(* ===== verification/Audio_Scene.thy ===== *)
theory Audio_Scene
  imports Call_State_Processor
begin

text \<open>
  The audio scenes of the carrier calls.  The control manager turns each state report of
  a call into changes of the sets of theory Call_State_Processor and into events
  (\<open>services/audio/src/audio_control_manager.cpp\<close>); the scene processor handles the
  events later, one at a time, on a queue of its own
  (\<open>services/audio/src/audio_scene_processor.cpp\<close>); what an event does depends on the
  object of the current scene (\<open>services/audio/src/audio_state/\<close>).  Tones, rings, the
  vibrator and the audio devices are effects, in the order of the calls that cause them.
  The singletons are taken to exist.  The Boolean results of the handlers are not
  modelled: their only caller ignores them.
\<close>

subsection \<open>State and effects\<close>

datatype CallStateType =
    INACTIVE_STATE | DIALING_STATE | ALERTING_STATE | INCOMING_STATE | CS_CALL_STATE
  | IMS_CALL_STATE | HOLDING_STATE | UNKNOWN_STATE

datatype AudioInterruptState =
    INTERRUPT_STATE_UNKNOWN | INTERRUPT_STATE_DEACTIVATED | INTERRUPT_STATE_ACTIVATED
  | INTERRUPT_STATE_RINGING

datatype AudioEffect =
    StopSoundtone | PlaySoundtone "ptr option" | ReleaseDisconnectedLock
  | StopRingtone | PlayRingtone | PlayForNoRing | StopWaitingTone | PlayWaitingTone
  | StopRingback | PlayRingback | PlayCallEndedTone | MuteRinger | UnmuteSoundTone
  | StopVibrator | ProcessSoundtone ptr | UpdateDeviceType ptr
  | UpdateDeviceTypeForVideoDialing | SetAudioDeviceByAudioMode bool bool
  | DeviceEvent AudioEvent | ExcludeBluetoothSco | UnexcludeBluetoothSco
  | SetMicrophoneMute bool | SetMute bool | SetCurrentAudioDevice int

text \<open>The scene is the class of the state object, None before the initialisation.\<close>

record audio =
  a_sets :: call_sets
  a_scene :: "CallStateType option"
  a_queue :: "AudioEvent list"
  a_totalCalls :: "ptr set"
  a_frontCall :: "ptr option"
  a_interrupt :: AudioInterruptState
  a_isIncomingConflict :: bool
  a_isScoTemporarilyDisabled :: bool
  a_isSetAudioDeviceByUser :: bool

definition audio_start :: audio where
  "audio_start = \<lparr>a_sets = no_calls, a_scene = None, a_queue = [], a_totalCalls = {},
     a_frontCall = None, a_interrupt = INTERRUPT_STATE_DEACTIVATED, a_isIncomingConflict = False,
     a_isScoTemporarilyDisabled = False, a_isSetAudioDeviceByUser = False\<rparr>"

text \<open>What the rest of the device answers.\<close>

record audio_env =
  ae_voipState :: int               \<comment> \<open>the state of the VoIP application's call\<close>
  ae_isSoundPlaying :: bool
  ae_isSoundStopped :: bool
  ae_isStartBroadcast :: bool
  ae_isNotWearOnWrist :: bool
  ae_isWearable :: bool
  ae_isMicrophoneMute :: bool
  ae_scoChangeAccepted :: bool      \<comment> \<open>the audio system changes the exclusion of SCO\<close>
  ae_preferredDevice :: "int option"

type_synonym audio_step = "AudioEffect list \<times> audio"

text \<open>Handlers run one after the other, the effects in that order.\<close>

definition seq_step :: "(audio \<Rightarrow> audio_step) \<Rightarrow> (audio \<Rightarrow> audio_step) \<Rightarrow> audio \<Rightarrow> audio_step" where
  "seq_step f g a = (let (es, a) = f a; (es', a) = g a in (es @ es', a))"

definition emit :: "AudioEffect list \<Rightarrow> audio \<Rightarrow> audio_step" where
  "emit es a = (es, a)"

subsection \<open>The scenes\<close>

text \<open>A state object answers an event with effects and with events it posts.\<close>

definition post_if :: "bool \<Rightarrow> AudioEvent \<Rightarrow> AudioEffect list \<times> AudioEvent list" where
  "post_if c e = ([], if c then [e] else [])"

fun InActiveState_ProcessEvent :: "AudioEvent \<Rightarrow> call_sets \<Rightarrow> AudioEffect list \<times> AudioEvent list" where
  "InActiveState_ProcessEvent NEW_DIALING_CALL s =
     post_if (ShouldSwitchState CALL_STATUS_DIALING s) SWITCH_DIALING_STATE"
| "InActiveState_ProcessEvent NEW_ACTIVE_CS_CALL s =
     post_if (ShouldSwitchState CALL_STATUS_ACTIVE s) SWITCH_CS_CALL_STATE"
| "InActiveState_ProcessEvent NEW_ACTIVE_IMS_CALL s =
     post_if (ShouldSwitchState CALL_STATUS_ACTIVE s) SWITCH_IMS_CALL_STATE"
| "InActiveState_ProcessEvent NEW_ALERTING_CALL s =
     post_if (ShouldSwitchState CALL_STATUS_ALERTING s) SWITCH_ALERTING_STATE"
| "InActiveState_ProcessEvent NEW_INCOMING_CALL s =
     post_if (ShouldSwitchState CALL_STATUS_INCOMING s) SWITCH_INCOMING_STATE"
| "InActiveState_ProcessEvent _ s = ([], [])"

fun DialingState_ProcessEvent :: "AudioEvent \<Rightarrow> call_sets \<Rightarrow> AudioEffect list \<times> AudioEvent list" where
  "DialingState_ProcessEvent NO_MORE_DIALING_CALL s = ([], UpdateCurrentCallState s)"
| "DialingState_ProcessEvent NEW_ACTIVE_CS_CALL s =
     post_if (ShouldSwitchState CALL_STATUS_ACTIVE s) SWITCH_CS_CALL_STATE"
| "DialingState_ProcessEvent NEW_ACTIVE_IMS_CALL s =
     post_if (ShouldSwitchState CALL_STATUS_ACTIVE s) SWITCH_IMS_CALL_STATE"
| "DialingState_ProcessEvent NEW_ALERTING_CALL s =
     post_if (ShouldSwitchState CALL_STATUS_ALERTING s) SWITCH_ALERTING_STATE"
| "DialingState_ProcessEvent _ s = ([], [])"

fun AlertingState_ProcessEvent :: "AudioEvent \<Rightarrow> call_sets \<Rightarrow> AudioEffect list \<times> AudioEvent list" where
  "AlertingState_ProcessEvent NO_MORE_ALERTING_CALL s = ([], UpdateCurrentCallState s)"
| "AlertingState_ProcessEvent NEW_ACTIVE_CS_CALL s =
     post_if (ShouldSwitchState CALL_STATUS_ACTIVE s) SWITCH_CS_CALL_STATE"
| "AlertingState_ProcessEvent NEW_ACTIVE_IMS_CALL s =
     post_if (ShouldSwitchState CALL_STATUS_ACTIVE s) SWITCH_IMS_CALL_STATE"
| "AlertingState_ProcessEvent NEW_ALERTING_CALL s =
     post_if (ShouldSwitchState CALL_STATUS_ALERTING s) SWITCH_ALERTING_STATE"
| "AlertingState_ProcessEvent NEW_INCOMING_CALL s = ([PlayWaitingTone], [])"
| "AlertingState_ProcessEvent _ s = ([], [])"

fun IncomingState_ProcessEvent :: "AudioEvent \<Rightarrow> call_sets \<Rightarrow> AudioEffect list \<times> AudioEvent list" where
  "IncomingState_ProcessEvent NO_MORE_INCOMING_CALL s = ([], UpdateCurrentCallState s)"
| "IncomingState_ProcessEvent NEW_ACTIVE_CS_CALL s =
     post_if (ShouldSwitchState CALL_STATUS_ACTIVE s) SWITCH_CS_CALL_STATE"
| "IncomingState_ProcessEvent NEW_ACTIVE_IMS_CALL s =
     post_if (ShouldSwitchState CALL_STATUS_ACTIVE s) SWITCH_IMS_CALL_STATE"
| "IncomingState_ProcessEvent NEW_INCOMING_CALL s = ([], [SWITCH_INCOMING_STATE])"
| "IncomingState_ProcessEvent _ s = ([], [])"

fun CSCallState_ProcessEvent :: "AudioEvent \<Rightarrow> call_sets \<Rightarrow> AudioEffect list \<times> AudioEvent list" where
  "CSCallState_ProcessEvent NEW_INCOMING_CALL s = ([PlayWaitingTone], [])"
| "CSCallState_ProcessEvent NO_MORE_ACTIVE_CALL s = ([], UpdateCurrentCallState s)"
| "CSCallState_ProcessEvent NO_MORE_INCOMING_CALL s = ([], UpdateCurrentCallState s)"
| "CSCallState_ProcessEvent CALL_TYPE_CS_CHANGE_IMS s = ([], [SWITCH_IMS_CALL_STATE])"
| "CSCallState_ProcessEvent _ s = ([], [])"

fun IMSCallState_ProcessEvent :: "AudioEvent \<Rightarrow> call_sets \<Rightarrow> AudioEffect list \<times> AudioEvent list" where
  "IMSCallState_ProcessEvent NO_MORE_ACTIVE_CALL s = ([], UpdateCurrentCallState s)"
| "IMSCallState_ProcessEvent NO_MORE_INCOMING_CALL s = ([], UpdateCurrentCallState s)"
| "IMSCallState_ProcessEvent NEW_INCOMING_CALL s = ([PlayWaitingTone], [])"
| "IMSCallState_ProcessEvent CALL_TYPE_IMS_CHANGE_CS s = ([], [SWITCH_CS_CALL_STATE])"
| "IMSCallState_ProcessEvent _ s = ([], [])"

fun HoldingState_ProcessEvent :: "AudioEvent \<Rightarrow> call_sets \<Rightarrow> AudioEffect list \<times> AudioEvent list" where
  "HoldingState_ProcessEvent NEW_ACTIVE_CS_CALL s =
     post_if (ShouldSwitchState CALL_STATUS_ACTIVE s) SWITCH_CS_CALL_STATE"
| "HoldingState_ProcessEvent NEW_ACTIVE_IMS_CALL s =
     post_if (ShouldSwitchState CALL_STATUS_ACTIVE s) SWITCH_IMS_CALL_STATE"
| "HoldingState_ProcessEvent NEW_INCOMING_CALL s =
     post_if (ShouldSwitchState CALL_STATUS_INCOMING s) SWITCH_INCOMING_STATE"
| "HoldingState_ProcessEvent NO_MORE_HOLDING_CALL s = ([], UpdateCurrentCallState s)"
| "HoldingState_ProcessEvent NEW_ALERTING_CALL s =
     post_if (ShouldSwitchState CALL_STATUS_ALERTING s) SWITCH_ALERTING_STATE"
| "HoldingState_ProcessEvent _ s = ([], [])"

text \<open>The virtual call; there is no class for UNKNOWN.\<close>

fun state_ProcessEvent ::
  "CallStateType \<Rightarrow> AudioEvent \<Rightarrow> call_sets \<Rightarrow> AudioEffect list \<times> AudioEvent list" where
  "state_ProcessEvent INACTIVE_STATE e s = InActiveState_ProcessEvent e s"
| "state_ProcessEvent DIALING_STATE e s = DialingState_ProcessEvent e s"
| "state_ProcessEvent ALERTING_STATE e s = AlertingState_ProcessEvent e s"
| "state_ProcessEvent INCOMING_STATE e s = IncomingState_ProcessEvent e s"
| "state_ProcessEvent CS_CALL_STATE e s = CSCallState_ProcessEvent e s"
| "state_ProcessEvent IMS_CALL_STATE e s = IMSCallState_ProcessEvent e s"
| "state_ProcessEvent HOLDING_STATE e s = HoldingState_ProcessEvent e s"
| "state_ProcessEvent UNKNOWN_STATE e s = ([], [])"

subsection \<open>The scene processor\<close>

definition AudioSceneProcessor_Init :: "audio \<Rightarrow> audio" where
  "AudioSceneProcessor_Init a = a\<lparr>a_scene := Some INACTIVE_STATE\<rparr>"

definition ProcessEvent :: "AudioEvent \<Rightarrow> audio \<Rightarrow> audio" where
  "ProcessEvent e a = a\<lparr>a_queue := a_queue a @ [e]\<rparr>"

definition SwitchDialing :: "registry \<Rightarrow> audio \<Rightarrow> audio_step" where
  "SwitchDialing r a =
     ([SetAudioDeviceByAudioMode False False, PlaySoundtone (GetDialingCall r),
       UpdateDeviceTypeForVideoDialing, DeviceEvent AUDIO_ACTIVATED],
      a\<lparr>a_scene := Some DIALING_STATE\<rparr>)"

definition SwitchAlerting :: "audio \<Rightarrow> audio_step" where
  "SwitchAlerting a = ([PlayRingback], a\<lparr>a_scene := Some ALERTING_STATE\<rparr>)"

definition HandleTransferCallRing :: "build \<Rightarrow> registry \<Rightarrow> bool \<Rightarrow> AudioEffect list \<times> bool" where
  "HandleTransferCallRing b r isNeedSilent =
     (if isNeedSilent then ([], False)
      else if GetIncomingBtTransferCall b r = None then ([], False)
      else ([StopRingtone, PlayRingtone], True))"

definition SwitchIncoming :: "build \<Rightarrow> audio_env \<Rightarrow> conference \<Rightarrow> registry \<Rightarrow> audio \<Rightarrow> audio_step" where
  "SwitchIncoming b e f r a =
     (let a = (if CallStateProcessor_GetCallNumber CALL_STATUS_INCOMING (a_sets a) > 1
               then a\<lparr>a_isIncomingConflict := True\<rparr> else a);
          a = a\<lparr>a_scene := Some INCOMING_STATE\<rparr>;
          endCallCount = int (GetCallNumByRunningState CALL_RUNNING_STATE_ENDED r)
      in if ae_voipState e = CallStateToApp_code CALL_STATE_OFFHOOK \<or>
            (int (GetCurrentCallNum f r) - endCallCount > int ONE_CALL_EXIST \<and>
             ae_isSoundPlaying e \<and> HasIncomingCallCrsType r)
         then ([PlayWaitingTone], a)
         else
           (let isNeedSilent = IsNeedSilentInDoNotDisturbMode r;
                (transfer, isTransferCallPlay) =
                  (if call_transfer b then HandleTransferCallRing b r isNeedSilent else ([], False))
            in (transfer @ [SetAudioDeviceByAudioMode False True] @
                (if \<not> ae_isStartBroadcast e \<and> \<not> isNeedSilent \<and> \<not> ae_isNotWearOnWrist e \<and>
                    \<not> isTransferCallPlay
                 then [StopRingtone, PlayRingtone]
                 else if ae_isWearable e then [StopRingtone, PlayForNoRing] else []) @
                [DeviceEvent AUDIO_RINGING], a)))"

definition SwitchCS :: "audio \<Rightarrow> audio_step" where
  "SwitchCS a = ([], a\<lparr>a_scene := Some CS_CALL_STATE\<rparr>)"

definition SwitchIMS :: "audio \<Rightarrow> audio_step" where
  "SwitchIMS a = ([], a\<lparr>a_scene := Some IMS_CALL_STATE\<rparr>)"

definition SwitchHolding :: "audio \<Rightarrow> audio_step" where
  "SwitchHolding a = ([], a\<lparr>a_scene := Some HOLDING_STATE\<rparr>)"

definition SwitchInactive :: "audio \<Rightarrow> audio_step" where
  "SwitchInactive a = ([DeviceEvent AUDIO_DEACTIVATED], a\<lparr>a_scene := Some INACTIVE_STATE\<rparr>)"

text \<open>The table of the member functions has no entry for the OTT scene.\<close>

fun SwitchState :: "build \<Rightarrow> audio_env \<Rightarrow> conference \<Rightarrow> registry \<Rightarrow> AudioEvent \<Rightarrow> audio \<Rightarrow> audio_step" where
  "SwitchState b e f r SWITCH_DIALING_STATE a = SwitchDialing r a"
| "SwitchState b e f r SWITCH_ALERTING_STATE a = SwitchAlerting a"
| "SwitchState b e f r SWITCH_INCOMING_STATE a = SwitchIncoming b e f r a"
| "SwitchState b e f r SWITCH_CS_CALL_STATE a = SwitchCS a"
| "SwitchState b e f r SWITCH_IMS_CALL_STATE a = SwitchIMS a"
| "SwitchState b e f r SWITCH_HOLDING_STATE a = SwitchHolding a"
| "SwitchState b e f r SWITCH_AUDIO_INACTIVE_STATE a = SwitchInactive a"
| "SwitchState b e f r _ a = ([], a)"

definition PlaySosSoundTone :: "registry \<Rightarrow> AudioEvent \<Rightarrow> audio \<Rightarrow> audio_step" where
  "PlaySosSoundTone r event a =
     (if (event = NO_MORE_ALERTING_CALL \<or> event = NO_MORE_DIALING_CALL) \<and>
         CallStateProcessor_GetCurrentActiveCall (a_sets a) \<noteq> INVALID_CALLID
      then ([PlaySoundtone (GetOneCallObject (CallStateProcessor_GetCurrentActiveCall (a_sets a)) r)], a)
      else ([], a))"

text \<open>Hand the event to the current state object.\<close>

definition to_state :: "CallStateType \<Rightarrow> AudioEvent \<Rightarrow> audio \<Rightarrow> audio_step" where
  "to_state sc event a =
     (let (es, posted) = state_ProcessEvent sc event (a_sets a)
      in (es, a\<lparr>a_queue := a_queue a @ posted\<rparr>))"

definition call_ended_tone :: "build \<Rightarrow> registry \<Rightarrow> AudioEvent \<Rightarrow> audio \<Rightarrow> audio_step" where
  "call_ended_tone b r event a =
     (if ShouldStopSoundtone r (a_sets a) then ([PlayCallEndedTone], a)
      else if sos_no_ringback_tone b then PlaySosSoundTone r event a else ([], a))"

definition switch_events :: "AudioEvent set" where
  "switch_events = {SWITCH_DIALING_STATE, SWITCH_ALERTING_STATE, SWITCH_INCOMING_STATE,
     SWITCH_CS_CALL_STATE, SWITCH_IMS_CALL_STATE, SWITCH_HOLDING_STATE, SWITCH_AUDIO_INACTIVE_STATE}"

definition ProcessEventInner ::
  "build \<Rightarrow> audio_env \<Rightarrow> conference \<Rightarrow> registry \<Rightarrow> AudioEvent \<Rightarrow> audio \<Rightarrow> audio_step" where
  "ProcessEventInner b e f r event a =
     (case a_scene a of
        None \<Rightarrow> ([], a)
      | Some sc \<Rightarrow>
          if event \<in> switch_events then
            seq_step (emit (if ShouldStopSoundtone r (a_sets a)
                            then [StopSoundtone, ReleaseDisconnectedLock] else []))
              (SwitchState b e f r event) a
          else if event = NO_MORE_INCOMING_CALL then
            seq_step (emit [StopRingtone, StopWaitingTone]) (to_state sc event) a
          else if event = NO_MORE_ACTIVE_CALL \<or> event = NO_MORE_ALERTING_CALL then
            seq_step (emit [StopRingback])
              (seq_step (call_ended_tone b r event) (to_state sc event)) a
          else if event = NO_MORE_DIALING_CALL \<or> event = NO_MORE_HOLDING_CALL then
            seq_step (call_ended_tone b r event) (to_state sc event) a
          else if event \<in> {NEW_ACTIVE_CS_CALL, NEW_ACTIVE_IMS_CALL, NEW_DIALING_CALL,
                           NEW_ALERTING_CALL, NEW_INCOMING_CALL}
          then to_state sc event a
          else ([], a))"

text \<open>The queue takes its first event.\<close>

definition handle_one :: "build \<Rightarrow> audio_env \<Rightarrow> conference \<Rightarrow> registry \<Rightarrow> audio \<Rightarrow> audio_step" where
  "handle_one b e f r a =
     (case a_queue a of
        [] \<Rightarrow> ([], a)
      | event # q \<Rightarrow> ProcessEventInner b e f r event (a\<lparr>a_queue := q\<rparr>))"

end
