(* ===== verification/Audio_Control.thy ===== *)
theory Audio_Control
  imports Audio_Scene
begin

text \<open>
  The reports that drive the audio scenes: CallStateUpdated of
  \<open>services/audio/src/audio_control_manager.cpp\<close> with the functions it calls to keep the
  sets, to post the events and to follow the call in the foreground.  The call of the
  report is given by its address in the registry's heap.
\<close>

subsection \<open>One report\<close>

definition HandleNewActiveCall :: "call \<Rightarrow> audio \<Rightarrow> audio" where
  "HandleNewActiveCall c a =
     (case m_callType c of
        TYPE_CS \<Rightarrow> ProcessEvent NEW_ACTIVE_CS_CALL a
      | TYPE_SATELLITE \<Rightarrow> ProcessEvent NEW_ACTIVE_CS_CALL a
      | TYPE_IMS \<Rightarrow> ProcessEvent NEW_ACTIVE_IMS_CALL a
      | TYPE_BLUETOOTH \<Rightarrow> ProcessEvent NEW_ACTIVE_IMS_CALL a
      | TYPE_OTT \<Rightarrow> ProcessEvent NEW_ACTIVE_OTT_CALL a
      | _ \<Rightarrow> a)"

fun next_state_body :: "registry \<Rightarrow> call \<Rightarrow> TelCallState \<Rightarrow> audio \<Rightarrow> audio_step" where
  "next_state_body r c CALL_STATUS_DIALING a =
     ([], ProcessEvent NEW_DIALING_CALL (a\<lparr>a_interrupt := INTERRUPT_STATE_RINGING\<rparr>))"
| "next_state_body r c CALL_STATUS_ALERTING a =
     ([], ProcessEvent NEW_ALERTING_CALL (a\<lparr>a_interrupt := INTERRUPT_STATE_RINGING\<rparr>))"
| "next_state_body r c CALL_STATUS_ACTIVE a =
     ([], (HandleNewActiveCall c a)\<lparr>a_interrupt := INTERRUPT_STATE_ACTIVATED\<rparr>)"
| "next_state_body r c CALL_STATUS_ANSWERED a =
     ([], (HandleNewActiveCall c a)\<lparr>a_interrupt := INTERRUPT_STATE_ACTIVATED\<rparr>)"
| "next_state_body r c CALL_STATUS_WAITING a =
     ([], ProcessEvent NEW_INCOMING_CALL (a\<lparr>a_interrupt := INTERRUPT_STATE_RINGING\<rparr>))"
| "next_state_body r c CALL_STATUS_INCOMING a =
     ([], ProcessEvent NEW_INCOMING_CALL (a\<lparr>a_interrupt := INTERRUPT_STATE_RINGING\<rparr>))"
| "next_state_body r c CALL_STATUS_DISCONNECTING a =
     (if \<not> HasIncomingCallCrsType r \<and> \<not> HasIncomingCallVideoRingType r then [StopVibrator] else [],
      a\<lparr>a_interrupt := INTERRUPT_STATE_DEACTIVATED\<rparr>)"
| "next_state_body r c CALL_STATUS_DISCONNECTED a =
     (if \<not> HasIncomingCallCrsType r \<and> \<not> HasIncomingCallVideoRingType r then [StopVibrator] else [],
      a\<lparr>a_interrupt := INTERRUPT_STATE_DEACTIVATED\<rparr>)"
| "next_state_body r c _ a = ([], a)"

definition HandleNextState :: "registry \<Rightarrow> ptr \<Rightarrow> TelCallState \<Rightarrow> audio \<Rightarrow> audio_step" where
  "HandleNextState r p nextState a =
     (let c = r_heap r p in
      next_state_body r c nextState (a\<lparr>a_sets := AddCall (m_callId c) nextState (a_sets a)\<rparr>))"

definition ProcessAudioWhenCallActive :: "registry \<Rightarrow> ptr \<Rightarrow> AudioEffect list" where
  "ProcessAudioWhenCallActive r p =
     (if m_callRunningState (r_heap r p) = CALL_RUNNING_STATE_ACTIVE \<or>
         m_callRunningState (r_heap r p) = CALL_RUNNING_STATE_RINGING
      then [StopVibrator, ProcessSoundtone p, UpdateDeviceType p] else [])"

definition post_if_empty :: "nat \<Rightarrow> AudioEvent \<Rightarrow> audio \<Rightarrow> audio_step" where
  "post_if_empty n e a = ([], if n = 0 then ProcessEvent e a else a)"

definition HandlePriorState :: "registry \<Rightarrow> ptr \<Rightarrow> TelCallState \<Rightarrow> audio \<Rightarrow> audio_step" where
  "HandlePriorState r p priorState a =
     (let a = a\<lparr>a_sets := DeleteCall (m_callId (r_heap r p)) priorState (a_sets a)\<rparr>;
          stateNumber = CallStateProcessor_GetCallNumber priorState (a_sets a)
      in case priorState of
           CALL_STATUS_DIALING \<Rightarrow> post_if_empty stateNumber NO_MORE_DIALING_CALL a
         | CALL_STATUS_ALERTING \<Rightarrow> post_if_empty stateNumber NO_MORE_ALERTING_CALL a
         | CALL_STATUS_INCOMING \<Rightarrow>
             (ProcessAudioWhenCallActive r p, ProcessEvent NO_MORE_INCOMING_CALL a)
         | CALL_STATUS_WAITING \<Rightarrow>
             (ProcessAudioWhenCallActive r p, ProcessEvent NO_MORE_INCOMING_CALL a)
         | CALL_STATUS_ACTIVE \<Rightarrow> post_if_empty stateNumber NO_MORE_ACTIVE_CALL a
         | CALL_STATUS_HOLDING \<Rightarrow> post_if_empty stateNumber NO_MORE_HOLDING_CALL a
         | _ \<Rightarrow> ([], a))"

text \<open>The answer says whether the report goes on to the state machine.\<close>

definition PreHandleAnswerdState ::
  "ptr \<Rightarrow> TelCallState \<Rightarrow> TelCallState \<Rightarrow> registry \<Rightarrow> audio \<Rightarrow>
   bool \<times> AudioEffect list \<times> registry \<times> audio" where
  "PreHandleAnswerdState p priorState nextState r a =
     (let c = r_heap r p; callId = m_callId c in
      if \<not> m_isAnsweredByPhone c \<and> nextState = CALL_STATUS_ANSWERED \<and> priorState = CALL_STATUS_INCOMING
      then (True, [MuteRinger, SetAudioDeviceByAudioMode False True],
            r\<lparr>r_heap := (r_heap r)(p := SetIsAnsweredByPhone True c)\<rparr>,
            a\<lparr>a_sets := DeleteCall callId priorState (a_sets a)\<rparr>)
      else
        let isMtCallActived = (nextState = CALL_STATUS_ACTIVE \<and>
              (priorState = CALL_STATUS_INCOMING \<or> priorState = CALL_STATUS_WAITING));
            es = (if isMtCallActived then [UnmuteSoundTone] else [])
        in if m_isAnsweredByPhone c \<and>
              (isMtCallActived \<or> (nextState = CALL_STATUS_INCOMING \<and> nextState = priorState) \<or>
               (nextState = CALL_STATUS_ANSWERED \<and> priorState = CALL_STATUS_INCOMING))
           then (False, es, r, a\<lparr>a_sets := DeleteCall callId priorState (a_sets a)\<rparr>)
           else if m_isAnsweredByPhone c \<and>
              (nextState = CALL_STATUS_DISCONNECTING \<or> nextState = CALL_STATUS_DISCONNECTED)
           then (True, es, r, a\<lparr>a_sets := DeleteCall callId CALL_STATUS_ACTIVE (a_sets a)\<rparr>)
           else (True, es, r, a))"

text \<open>The flag of the exclusion changes only if the audio system accepts the change.\<close>

definition exclude_sco :: "audio_env \<Rightarrow> bool \<Rightarrow> audio \<Rightarrow> audio_step" where
  "exclude_sco e on a =
     ([if on then ExcludeBluetoothSco else UnexcludeBluetoothSco],
      if ae_scoChangeAccepted e then a\<lparr>a_isScoTemporarilyDisabled := on\<rparr> else a)"

definition bluetooth_sco ::
  "audio_env \<Rightarrow> registry \<Rightarrow> ptr \<Rightarrow> TelCallState \<Rightarrow> TelCallState \<Rightarrow> audio \<Rightarrow> audio_step" where
  "bluetooth_sco e r p priorState nextState a =
     seq_step
       (\<lambda>a. if \<not> a_isScoTemporarilyDisabled a \<and>
               (priorState = CALL_STATUS_DIALING \<or> priorState = CALL_STATUS_INCOMING \<or>
                priorState = CALL_STATUS_WAITING)
            then exclude_sco e True a else ([], a))
       (\<lambda>a. if nextState = CALL_STATUS_DISCONNECTED \<and>
               \<not> HasOtherBtCallExist (m_callId (r_heap r p)) r \<and> a_isScoTemporarilyDisabled a
            then exclude_sco e False a else ([], a)) a"

definition ApplyFocusForBlueToothCall ::
  "audio_env \<Rightarrow> ptr \<Rightarrow> TelCallState \<Rightarrow> audio \<Rightarrow> audio_step" where
  "ApplyFocusForBlueToothCall e p nextState a =
     (if nextState = CALL_STATUS_ACTIVE \<or> nextState = CALL_STATUS_ALERTING then
        seq_step
          (\<lambda>a. if \<not> a_isScoTemporarilyDisabled a then exclude_sco e True a else ([], a))
          (emit (if ae_isSoundStopped e then [PlaySoundtone (Some p)] else [])) a
      else ([], a))"

definition HandleCallStateUpdated ::
  "audio_env \<Rightarrow> ptr \<Rightarrow> TelCallState \<Rightarrow> TelCallState \<Rightarrow> registry \<Rightarrow> audio \<Rightarrow>
   AudioEffect list \<times> registry \<times> audio" where
  "HandleCallStateUpdated e p priorState nextState r a =
     (let (go, es, r, a) = PreHandleAnswerdState p priorState nextState r a;
          bluetooth = (m_callType (r_heap r p) = TYPE_BLUETOOTH)
      in if \<not> go then (es, r, a)
         else
           (let (es', a) =
              seq_step (\<lambda>a. if bluetooth then bluetooth_sco e r p priorState nextState a else ([], a))
                (seq_step (HandleNextState r p nextState)
                  (if priorState = nextState
                   then (\<lambda>a. if bluetooth then ApplyFocusForBlueToothCall e p nextState a else ([], a))
                   else HandlePriorState r p priorState)) a
            in (es @ es', r, a)))"

subsection \<open>The call in the foreground\<close>

definition UpdateForegroundLiveCall :: "audio_env \<Rightarrow> registry \<Rightarrow> audio \<Rightarrow> audio_step" where
  "UpdateForegroundLiveCall e r a =
     (let callId = GetAudioForegroundLiveCall (a_sets a) in
      if callId = INVALID_CALLID then ([SetMicrophoneMute False], a\<lparr>a_frontCall := None\<rparr>)
      else
        case GetOneCallObject callId r of
          None \<Rightarrow> ([], a)
        | Some live \<Rightarrow>
            let st = m_callState (r_heap r live) in
            if st = CALL_STATUS_ACTIVE \<or> st = CALL_STATUS_DIALING \<or> st = CALL_STATUS_ALERTING then
              (let front = (case a_frontCall a of
                     None \<Rightarrow> live
                   | Some front \<Rightarrow>
                       (if m_callId (r_heap r front) \<noteq> m_callId (r_heap r live) \<or>
                           (m_index (r_heap r front) = 0 \<and> m_index (r_heap r live) \<noteq> 0)
                        then live else front));
                   mute = m_isMuted (r_heap r front)
               in (if mute \<noteq> ae_isMicrophoneMute e then [SetMute mute] else [],
                   a\<lparr>a_frontCall := Some front\<rparr>))
            else if st = CALL_STATUS_WAITING then
              (if IsVoipCallExist r then []
               else [StopWaitingTone,
                 if ae_isWearable e \<and> ae_isNotWearOnWrist e then PlayForNoRing else PlayRingtone], a)
            else ([], a))"

definition HandleCallStateUpdatedForVoip ::
  "audio_env \<Rightarrow> TelCallState \<Rightarrow> TelCallState \<Rightarrow> registry \<Rightarrow> AudioEffect list" where
  "HandleCallStateUpdatedForVoip e priorState nextState r =
     (if (priorState = CALL_STATUS_INCOMING \<and> nextState = CALL_STATUS_INCOMING \<or>
          priorState = CALL_STATUS_DIALING \<and> nextState = CALL_STATUS_DIALING) \<and>
         GetVoipCallNum False r = 1
      then (case ae_preferredDevice e of None \<Rightarrow> [] | Some d \<Rightarrow> [SetCurrentAudioDevice d])
      else [])"

definition CallStateUpdated ::
  "audio_env \<Rightarrow> ptr option \<Rightarrow> TelCallState \<Rightarrow> TelCallState \<Rightarrow> registry \<Rightarrow> audio \<Rightarrow>
   AudioEffect list \<times> registry \<times> audio" where
  "CallStateUpdated e call priorState nextState r a =
     (case call of
        None \<Rightarrow> ([], r, a)
      | Some p \<Rightarrow>
          if m_callType (r_heap r p) = TYPE_VOIP
          then (HandleCallStateUpdatedForVoip e priorState nextState r, r, a)
          else
            (let a = a\<lparr>a_totalCalls := insert p (a_totalCalls a)\<rparr>;
                 (es, r, a) = HandleCallStateUpdated e p priorState nextState r a;
                 a = (if nextState = CALL_STATUS_DISCONNECTED
                      then a\<lparr>a_totalCalls := a_totalCalls a - {p}\<rparr> else a);
                 a = (if priorState = CALL_STATUS_INCOMING \<and> priorState \<noteq> nextState \<and>
                         CallStateProcessor_GetCallNumber CALL_STATUS_INCOMING (a_sets a) = 0
                      then a\<lparr>a_isIncomingConflict := False\<rparr> else a);
                 (es', a) = UpdateForegroundLiveCall e r a;
                 a = (if a_totalCalls a = {} then a\<lparr>a_isSetAudioDeviceByUser := False\<rparr> else a)
             in (es @ es', r, a)))"

subsection \<open>Emptying the queue\<close>

text \<open>
  Handling an event may post another, but only a switch, and a switch posts nothing, so
  the queue runs empty: a switch weighs one and every other event two.
\<close>

definition event_weight :: "AudioEvent \<Rightarrow> nat" where
  "event_weight e = (if e \<in> switch_events then 1 else 2)"

definition queue_weight :: "audio \<Rightarrow> nat" where
  "queue_weight a = sum_list (List.map event_weight (a_queue a))"

text \<open>What one event does to the scene and the queue, apart from effects and environment.\<close>

fun target :: "AudioEvent \<Rightarrow> CallStateType option" where
  "target SWITCH_DIALING_STATE = Some DIALING_STATE"
| "target SWITCH_ALERTING_STATE = Some ALERTING_STATE"
| "target SWITCH_INCOMING_STATE = Some INCOMING_STATE"
| "target SWITCH_CS_CALL_STATE = Some CS_CALL_STATE"
| "target SWITCH_IMS_CALL_STATE = Some IMS_CALL_STATE"
| "target SWITCH_HOLDING_STATE = Some HOLDING_STATE"
| "target SWITCH_AUDIO_INACTIVE_STATE = Some INACTIVE_STATE"
| "target _ = None"

definition dispatched :: "AudioEvent set" where
  "dispatched = {NO_MORE_INCOMING_CALL, NO_MORE_ACTIVE_CALL, NO_MORE_ALERTING_CALL,
     NO_MORE_DIALING_CALL, NO_MORE_HOLDING_CALL, NEW_ACTIVE_CS_CALL, NEW_ACTIVE_IMS_CALL,
     NEW_DIALING_CALL, NEW_ALERTING_CALL, NEW_INCOMING_CALL}"

definition posts :: "CallStateType \<Rightarrow> AudioEvent \<Rightarrow> call_sets \<Rightarrow> AudioEvent list" where
  "posts sc e s = (if e \<in> dispatched then snd (state_ProcessEvent sc e s) else [])"

lemma target_switch: "target e \<noteq> None \<longleftrightarrow> e \<in> switch_events"
  by (cases e) (simp_all add: switch_events_def)

lemma switch_state_core:
  "snd (SwitchState b e f r ev a) = a \<or> target ev \<noteq> None"
  by (cases ev) simp_all

lemma switch_core:
  assumes "target ev = Some sc"
  shows "a_scene (snd (SwitchState b e f r ev a)) = Some sc \<and>
         a_sets (snd (SwitchState b e f r ev a)) = a_sets a \<and>
         a_queue (snd (SwitchState b e f r ev a)) = a_queue a"
  using assms
  by (cases ev)
     (auto simp: SwitchDialing_def SwitchAlerting_def SwitchIncoming_def SwitchCS_def SwitchIMS_def
       SwitchHolding_def SwitchInactive_def Let_def split: prod.splits)

lemma tone_core [simp]: "snd (call_ended_tone b r ev a) = a"
  by (simp add: call_ended_tone_def PlaySosSoundTone_def)

lemma to_state_core [simp]:
  "snd (to_state sc ev a) = a\<lparr>a_queue := a_queue a @ snd (state_ProcessEvent sc ev (a_sets a))\<rparr>"
  by (simp add: to_state_def split: prod.split)

lemma seq_step_snd [simp]: "snd (seq_step g h a) = snd (h (snd (g a)))"
  by (simp add: seq_step_def split: prod.split)

lemma emit_snd [simp]: "snd (emit es a) = a"
  by (simp add: emit_def)

lemma process_core:
  assumes "a_scene a = Some sc"
  shows "a_sets (snd (ProcessEventInner b e f r ev a)) = a_sets a"
    and "a_scene (snd (ProcessEventInner b e f r ev a)) =
           Some (case target ev of None \<Rightarrow> sc | Some sc' \<Rightarrow> sc')"
    and "a_queue (snd (ProcessEventInner b e f r ev a)) =
           a_queue a @ (if target ev = None then posts sc ev (a_sets a) else [])"
proof -
  have "a_sets (snd (ProcessEventInner b e f r ev a)) = a_sets a \<and>
    a_scene (snd (ProcessEventInner b e f r ev a)) =
      Some (case target ev of None \<Rightarrow> sc | Some sc' \<Rightarrow> sc') \<and>
    a_queue (snd (ProcessEventInner b e f r ev a)) =
      a_queue a @ (if target ev = None then posts sc ev (a_sets a) else [])"
  proof (cases "target ev")
    case None
    then have n: "ev \<notin> switch_events" using target_switch by blast
    show ?thesis using assms None n
      by (simp add: ProcessEventInner_def posts_def dispatched_def)
  next
    case (Some sc')
    then have "ev \<in> switch_events" using target_switch by blast
    with assms Some switch_core [OF Some] show ?thesis
      by (simp add: ProcessEventInner_def)
  qed
  then show "a_sets (snd (ProcessEventInner b e f r ev a)) = a_sets a"
    and "a_scene (snd (ProcessEventInner b e f r ev a)) =
           Some (case target ev of None \<Rightarrow> sc | Some sc' \<Rightarrow> sc')"
    and "a_queue (snd (ProcessEventInner b e f r ev a)) =
           a_queue a @ (if target ev = None then posts sc ev (a_sets a) else [])"
    by blast+
qed

lemma process_uninitialised: "a_scene a = None \<Longrightarrow> ProcessEventInner b e f r ev a = ([], a)"
  by (simp add: ProcessEventInner_def)

lemma posts_switch: "posts sc ev s = [] \<or> (\<exists>e' \<in> switch_events. posts sc ev s = [e'])"
  by (cases sc; cases ev)
     (auto simp: posts_def dispatched_def post_if_def switch_events_def UpdateCurrentCallState_def)

lemma handle_one_weight:
  assumes "a_queue a \<noteq> []"
  shows "queue_weight (snd (handle_one b e f r a)) < queue_weight a"
proof -
  obtain ev q where q: "a_queue a = ev # q" using assms by (cases "a_queue a") auto
  let ?a = "a\<lparr>a_queue := q\<rparr>"
  have "a_queue (snd (ProcessEventInner b e f r ev ?a)) = q \<or> ev \<notin> switch_events \<and>
      (\<exists>e' \<in> switch_events. a_queue (snd (ProcessEventInner b e f r ev ?a)) = q @ [e'])"
  proof (cases "a_scene a")
    case None
    then show ?thesis by (simp add: process_uninitialised)
  next
    case (Some sc)
    then show ?thesis
      using process_core(3) [of ?a sc b e f r ev] posts_switch [of sc ev "a_sets a"] target_switch [of ev]
      by (auto split: if_splits)
  qed
  then show ?thesis
    by (auto simp: handle_one_def q queue_weight_def event_weight_def)
qed

function drain :: "build \<Rightarrow> audio_env \<Rightarrow> conference \<Rightarrow> registry \<Rightarrow> audio \<Rightarrow> audio_step" where
  "drain b e f r a =
     (if a_queue a = [] then ([], a)
      else let (es, a') = handle_one b e f r a; (es', a'') = drain b e f r a' in (es @ es', a''))"
  by pat_completeness auto
termination
proof (relation "measure (\<lambda>(b, e, f, r, a). queue_weight a)")
  show "((b, e, f, r, y), (b, e, f, r, a)) \<in> measure (\<lambda>(b, e, f, r, a). queue_weight a)"
    if "a_queue a \<noteq> []" "x = handle_one b e f r a" "(es, y) = x" for b e f r a x es y
    using handle_one_weight [OF that(1), of b e f r] that(2,3) by (metis case_prod_conv in_measure snd_conv)
qed simp

declare drain.simps [simp del]

lemma drain_snd: "snd (drain b e f r a) =
    (if a_queue a = [] then a else snd (drain b e f r (snd (handle_one b e f r a))))"
  by (subst drain.simps) (simp split: prod.split)

end
