(* ===== verification/Audio_Settling.thy ===== *)
theory Audio_Settling
  imports Audio_Control
begin

text \<open>
  What the audio scenes settle to.  When the events of each report are handled before the
  next report, the scene always fits the calls; when reports overtake the events, it need
  not, and the scene can stay behind for good.
\<close>

subsection \<open>Scenes that fit the calls\<close>

fun scene_calls :: "CallStateType \<Rightarrow> call_sets \<Rightarrow> int set" where
  "scene_calls DIALING_STATE s = dialingCalls s"
| "scene_calls ALERTING_STATE s = alertingCalls s"
| "scene_calls INCOMING_STATE s = incomingCalls s"
| "scene_calls CS_CALL_STATE s = activeCalls s"
| "scene_calls IMS_CALL_STATE s = activeCalls s"
| "scene_calls HOLDING_STATE s = holdingCalls s"
| "scene_calls _ s = {}"

definition in_call :: "CallStateType \<Rightarrow> bool" where
  "in_call sc = (sc = CS_CALL_STATE \<or> sc = IMS_CALL_STATE)"

text \<open>
  A scene other than the inactive one has a call of its kind, and an active call puts the
  audio into one of the two scenes of a call.
\<close>

definition fits :: "call_sets \<Rightarrow> CallStateType \<Rightarrow> bool" where
  "fits s sc = (sc \<noteq> UNKNOWN_STATE \<and> (sc \<noteq> INACTIVE_STATE \<longrightarrow> scene_calls sc s \<noteq> {}) \<and>
     (activeCalls s \<noteq> {} \<longrightarrow> in_call sc))"

definition settled_audio :: "audio \<Rightarrow> bool" where
  "settled_audio a = (a_queue a = [] \<and> finite_sets (a_sets a) \<and>
     (\<exists>sc. a_scene a = Some sc \<and> fits (a_sets a) sc))"

subsection \<open>While the queue is being emptied\<close>

text \<open>The events that make a scene look at the calls again.\<close>

fun ender :: "CallStateType \<Rightarrow> AudioEvent set" where
  "ender DIALING_STATE = {NO_MORE_DIALING_CALL}"
| "ender ALERTING_STATE = {NO_MORE_ALERTING_CALL}"
| "ender INCOMING_STATE = {NO_MORE_INCOMING_CALL}"
| "ender CS_CALL_STATE = {NO_MORE_ACTIVE_CALL, NO_MORE_INCOMING_CALL}"
| "ender IMS_CALL_STATE = {NO_MORE_ACTIVE_CALL, NO_MORE_INCOMING_CALL}"
| "ender HOLDING_STATE = {NO_MORE_HOLDING_CALL}"
| "ender _ = {}"

definition new_active :: "AudioEvent set" where
  "new_active = {NEW_ACTIVE_CS_CALL, NEW_ACTIVE_IMS_CALL}"

definition no_switch :: "AudioEvent list \<Rightarrow> bool" where
  "no_switch q = (\<forall>e \<in> set q. target e = None)"

text \<open>
  With the sets fixed: every switch in the queue leads to a scene that fits; and without
  a switch the events that correct the scene are still to come.
\<close>

definition correcting :: "call_sets \<Rightarrow> CallStateType \<Rightarrow> AudioEvent list \<Rightarrow> bool" where
  "correcting s sc q = (sc \<noteq> UNKNOWN_STATE \<and>
     (\<forall>e \<in> set q. \<forall>sc'. target e = Some sc' \<longrightarrow> fits s sc') \<and>
     (NEW_INCOMING_CALL \<in> set q \<longrightarrow> incomingCalls s \<noteq> {} \<and> (activeCalls s \<noteq> {} \<longrightarrow> in_call sc)) \<and>
     (no_switch q \<longrightarrow>
        (activeCalls s \<noteq> {} \<longrightarrow> in_call sc \<or> card (activeCalls s) = 1 \<and> set q \<inter> new_active \<noteq> {}) \<and>
        (sc \<noteq> INACTIVE_STATE \<and> scene_calls sc s = {} \<longrightarrow> activeCalls s \<noteq> {} \<or> set q \<inter> ender sc \<noteq> {})))"

lemma correcting_end: "correcting s sc [] \<Longrightarrow> fits s sc"
  by (cases sc) (auto simp: correcting_def fits_def no_switch_def in_call_def)

lemma update_fits:
  assumes "finite_sets s" and "ev \<in> set (UpdateCurrentCallState s)" and "target ev = Some sc"
  shows "fits s sc"
  using assms
  by (auto simp: UpdateCurrentCallState_def fits_def in_call_def split: if_splits)

lemma update_posts:
  assumes "finite_sets s" and "activeCalls s = {}"
  shows "\<exists>ev. UpdateCurrentCallState s = [ev] \<and> ev \<in> switch_events"
  using assms by (auto simp: UpdateCurrentCallState_def switch_events_def)

lemma should_switch_fits:
  "ShouldSwitchState CALL_STATUS_DIALING s \<Longrightarrow> fits s DIALING_STATE"
  "ShouldSwitchState CALL_STATUS_ALERTING s \<Longrightarrow> fits s ALERTING_STATE"
  "ShouldSwitchState CALL_STATUS_INCOMING s \<Longrightarrow> fits s INCOMING_STATE"
  "ShouldSwitchState CALL_STATUS_ACTIVE s \<Longrightarrow> fits s CS_CALL_STATE"
  "ShouldSwitchState CALL_STATUS_ACTIVE s \<Longrightarrow> fits s IMS_CALL_STATE"
  by (auto simp: fits_def in_call_def)

lemma post_if_member: "e' \<in> set (snd (post_if c e)) \<longleftrightarrow> c \<and> e' = e"
  by (auto simp: post_if_def)

lemma posts_source:
  assumes "e' \<in> set (posts sc ev s)"
  shows "e' \<in> set (UpdateCurrentCallState s) \<or>
      (ShouldSwitchState CALL_STATUS_DIALING s \<and> e' = SWITCH_DIALING_STATE) \<or>
      (ShouldSwitchState CALL_STATUS_ALERTING s \<and> e' = SWITCH_ALERTING_STATE) \<or>
      (ShouldSwitchState CALL_STATUS_INCOMING s \<and> e' = SWITCH_INCOMING_STATE) \<or>
      (ShouldSwitchState CALL_STATUS_ACTIVE s \<and> e' \<in> {SWITCH_CS_CALL_STATE, SWITCH_IMS_CALL_STATE}) \<or>
      (ev = NEW_INCOMING_CALL \<and> sc = INCOMING_STATE \<and> e' = SWITCH_INCOMING_STATE)"
proof -
  have "ev \<in> dispatched" using assms by (simp add: posts_def split: if_splits)
  then have "ev = NO_MORE_INCOMING_CALL \<or> ev = NO_MORE_ACTIVE_CALL \<or> ev = NO_MORE_ALERTING_CALL \<or>
      ev = NO_MORE_DIALING_CALL \<or> ev = NO_MORE_HOLDING_CALL \<or> ev = NEW_ACTIVE_CS_CALL \<or>
      ev = NEW_ACTIVE_IMS_CALL \<or> ev = NEW_DIALING_CALL \<or> ev = NEW_ALERTING_CALL \<or>
      ev = NEW_INCOMING_CALL"
    by (simp add: dispatched_def)
  then show ?thesis using assms
    by (cases sc; elim disjE)
       (simp_all add: posts_def dispatched_def post_if_member del: ShouldSwitchState.simps)
qed

text \<open>Whatever a scene posts fits the calls.\<close>

lemma posts_fit:
  assumes "finite_sets s" and "correcting s sc (ev # q)" and "e' \<in> set (posts sc ev s)"
    and "target e' = Some sc'"
  shows "fits s sc'"
proof -
  have inc: "ev = NEW_INCOMING_CALL \<Longrightarrow> sc = INCOMING_STATE \<Longrightarrow> fits s INCOMING_STATE"
    using assms(2) by (auto simp: correcting_def fits_def in_call_def)
  have "e' \<in> set (UpdateCurrentCallState s) \<or>
      (ShouldSwitchState CALL_STATUS_DIALING s \<and> e' = SWITCH_DIALING_STATE) \<or>
      (ShouldSwitchState CALL_STATUS_ALERTING s \<and> e' = SWITCH_ALERTING_STATE) \<or>
      (ShouldSwitchState CALL_STATUS_INCOMING s \<and> e' = SWITCH_INCOMING_STATE) \<or>
      (ShouldSwitchState CALL_STATUS_ACTIVE s \<and> e' \<in> {SWITCH_CS_CALL_STATE, SWITCH_IMS_CALL_STATE}) \<or>
      (ev = NEW_INCOMING_CALL \<and> sc = INCOMING_STATE \<and> e' = SWITCH_INCOMING_STATE)"
    using assms(3) by (rule posts_source)
  then show ?thesis
    using inc should_switch_fits update_fits [OF assms(1)] assms(4) by auto
qed

text \<open>The correcting events do correct.\<close>

lemma ender_posts:
  assumes "finite_sets s" and "ev \<in> ender sc" and "activeCalls s = {}"
  shows "\<exists>e' \<in> switch_events. posts sc ev s = [e']"
  using assms update_posts [OF assms(1,3)]
  by (cases sc) (auto simp: posts_def dispatched_def)

lemma new_active_posts:
  assumes "card (activeCalls s) = 1" and "ev \<in> new_active" and "\<not> in_call sc" and "sc \<noteq> UNKNOWN_STATE"
  shows "\<exists>e' \<in> switch_events. posts sc ev s = [e']"
  using assms by (cases sc) (auto simp: posts_def dispatched_def new_active_def in_call_def
      post_if_def switch_events_def)

lemma correcting_switch:
  assumes "correcting s sc (ev # q)" and "target ev = Some sc'"
  shows "correcting s sc' q"
proof -
  have f: "fits s sc'" using assms by (auto simp: correcting_def)
  then show ?thesis using assms(1) by (auto simp: correcting_def fits_def)
qed

lemma correcting_event:
  assumes "finite_sets s" and c: "correcting s sc (ev # q)" and t: "target ev = None"
  shows "correcting s sc (q @ posts sc ev s)"
proof -
  have sw: "\<not> no_switch (q @ posts sc ev s)" if "e' \<in> switch_events" "posts sc ev s = [e']" for e'
    using that target_switch [of e'] by (auto simp: no_switch_def)
  have inc: "NEW_INCOMING_CALL \<notin> set (posts sc ev s)"
    using posts_switch [of sc ev s] by (auto simp: switch_events_def)
  have tail: "no_switch (q @ posts sc ev s) \<Longrightarrow> no_switch (ev # q)"
    using t by (auto simp: no_switch_def)
  have act: "in_call sc \<or> card (activeCalls s) = 1 \<and> set (q @ posts sc ev s) \<inter> new_active \<noteq> {}"
    if n: "no_switch (q @ posts sc ev s)" and a: "activeCalls s \<noteq> {}"
  proof (cases "in_call sc")
    case False
    with c tail [OF n] a have k: "card (activeCalls s) = 1" "set (ev # q) \<inter> new_active \<noteq> {}"
        "sc \<noteq> UNKNOWN_STATE"
      by (simp_all add: correcting_def)
    have "ev \<notin> new_active"
      using new_active_posts [OF k(1) _ False k(3)] sw n by blast
    with k show ?thesis by auto
  qed simp
  have en: "activeCalls s \<noteq> {} \<or> set (q @ posts sc ev s) \<inter> ender sc \<noteq> {}"
    if n: "no_switch (q @ posts sc ev s)" and i: "sc \<noteq> INACTIVE_STATE" "scene_calls sc s = {}"
  proof (cases "activeCalls s = {}")
    case True
    with c tail [OF n] i have "set (ev # q) \<inter> ender sc \<noteq> {}" by (simp add: correcting_def)
    moreover have "ev \<notin> ender sc"
      using ender_posts [OF assms(1) _ True] sw n by blast
    ultimately show ?thesis by auto
  qed simp
  have fit: "fits s sc'" if e: "e \<in> set (q @ posts sc ev s)" and x: "target e = Some sc'" for e sc'
  proof (cases "e \<in> set q")
    case True
    with c x show ?thesis by (simp add: correcting_def)
  next
    case False
    with e have "e \<in> set (posts sc ev s)" by simp
    from posts_fit [OF assms(1) c this x] show ?thesis .
  qed
  have new: "incomingCalls s \<noteq> {} \<and> (activeCalls s \<noteq> {} \<longrightarrow> in_call sc)"
    if "NEW_INCOMING_CALL \<in> set (q @ posts sc ev s)"
    using that inc c by (simp add: correcting_def)
  have "sc \<noteq> UNKNOWN_STATE" using c by (simp add: correcting_def)
  then show ?thesis
    unfolding correcting_def
    by (intro conjI ballI allI impI) (use fit new act en in blast)+
qed

lemma handle_one_correcting:
  assumes "finite_sets (a_sets a)" and "a_scene a = Some sc" and "correcting (a_sets a) sc (a_queue a)"
    and "a' = snd (handle_one b e f r a)"
  shows "\<exists>sc'. a_scene a' = Some sc' \<and> a_sets a' = a_sets a \<and> correcting (a_sets a) sc' (a_queue a')"
proof (cases "a_queue a")
  case Nil
  then show ?thesis using assms by (simp add: handle_one_def)
next
  case (Cons ev q)
  have a': "a' = snd (ProcessEventInner b e f r ev (a\<lparr>a_queue := q\<rparr>))"
    by (simp add: assms(4) handle_one_def Cons)
  note core = process_core [of "a\<lparr>a_queue := q\<rparr>" sc b e f r ev, folded a']
  show ?thesis
  proof (cases "target ev")
    case None
    then show ?thesis using core assms(1-3) correcting_event [OF assms(1), of sc ev q]
      by (simp add: Cons)
  next
    case (Some sc')
    then show ?thesis using core assms(1-3) correcting_switch [of "a_sets a" sc ev q sc']
      by (simp add: Cons)
  qed
qed

lemma drain_settles:
  assumes "finite_sets (a_sets a)" and "a_scene a = Some sc" and "correcting (a_sets a) sc (a_queue a)"
  shows "settled_audio (snd (drain b e f r a)) \<and> a_sets (snd (drain b e f r a)) = a_sets a"
  using assms
proof (induction b e f r a arbitrary: sc rule: drain.induct)
  case (1 b e f r a)
  show ?case
  proof (cases "a_queue a = []")
    case True
    then show ?thesis using 1(2-) correcting_end
      by (subst (1 2) drain_snd) (auto simp: settled_audio_def)
  next
    case False
    obtain es a' where h: "handle_one b e f r a = (es, a')" by fastforce
    then obtain sc' where "a_scene a' = Some sc'" "a_sets a' = a_sets a"
      "correcting (a_sets a) sc' (a_queue a')"
      using handle_one_correcting [OF 1(2-4), of a' b e f r] by auto
    with 1(1) [OF False h [symmetric] refl, of sc'] 1(2) show ?thesis
      using False by (subst (1 2) drain_snd) (simp add: h)
  qed
qed

subsection \<open>One report\<close>

definition core :: "audio \<Rightarrow> call_sets \<times> CallStateType option \<times> AudioEvent list" where
  "core a = (a_sets a, a_scene a, a_queue a)"

fun new_events :: "call \<Rightarrow> TelCallState \<Rightarrow> AudioEvent list" where
  "new_events c CALL_STATUS_DIALING = [NEW_DIALING_CALL]"
| "new_events c CALL_STATUS_ALERTING = [NEW_ALERTING_CALL]"
| "new_events c CALL_STATUS_WAITING = [NEW_INCOMING_CALL]"
| "new_events c CALL_STATUS_INCOMING = [NEW_INCOMING_CALL]"
| "new_events c CALL_STATUS_ACTIVE =
     (if m_callType c \<in> {TYPE_CS, TYPE_SATELLITE} then [NEW_ACTIVE_CS_CALL] else [NEW_ACTIVE_IMS_CALL])"
| "new_events c CALL_STATUS_ANSWERED =
     (if m_callType c \<in> {TYPE_CS, TYPE_SATELLITE} then [NEW_ACTIVE_CS_CALL] else [NEW_ACTIVE_IMS_CALL])"
| "new_events c _ = []"

fun no_more_events :: "TelCallState \<Rightarrow> call_sets \<Rightarrow> AudioEvent list" where
  "no_more_events CALL_STATUS_DIALING s = (if card (dialingCalls s) = 0 then [NO_MORE_DIALING_CALL] else [])"
| "no_more_events CALL_STATUS_ALERTING s = (if card (alertingCalls s) = 0 then [NO_MORE_ALERTING_CALL] else [])"
| "no_more_events CALL_STATUS_INCOMING s = [NO_MORE_INCOMING_CALL]"
| "no_more_events CALL_STATUS_WAITING s = [NO_MORE_INCOMING_CALL]"
| "no_more_events CALL_STATUS_ACTIVE s = (if card (activeCalls s) = 0 then [NO_MORE_ACTIVE_CALL] else [])"
| "no_more_events CALL_STATUS_HOLDING s = (if card (holdingCalls s) = 0 then [NO_MORE_HOLDING_CALL] else [])"
| "no_more_events _ s = []"

definition carrier_audio :: "call \<Rightarrow> bool" where
  "carrier_audio c = (m_callType c \<in> {TYPE_CS, TYPE_SATELLITE, TYPE_IMS, TYPE_BLUETOOTH})"

lemma next_state_core:
  assumes "carrier_audio (r_heap r p)"
  shows "core (snd (HandleNextState r p t a)) =
    (AddCall (m_callId (r_heap r p)) t (a_sets a), a_scene a, a_queue a @ new_events (r_heap r p) t)"
  using assms
  by (cases t) (auto simp: core_def HandleNextState_def HandleNewActiveCall_def ProcessEvent_def
      carrier_audio_def)

lemma prior_state_core:
  "core (snd (HandlePriorState r p t a)) =
    (DeleteCall (m_callId (r_heap r p)) t (a_sets a), a_scene a,
     a_queue a @ no_more_events t (DeleteCall (m_callId (r_heap r p)) t (a_sets a)))"
  by (cases t) (auto simp: core_def HandlePriorState_def post_if_empty_def ProcessEvent_def Let_def)

lemma bluetooth_core [simp]:
  "core (snd (bluetooth_sco e r p t t' a)) = core a"
  "core (snd (ApplyFocusForBlueToothCall e p t a)) = core a"
  by (simp_all add: core_def bluetooth_sco_def ApplyFocusForBlueToothCall_def exclude_sco_def)

lemma foreground_core [simp]: "core (snd (UpdateForegroundLiveCall e r a)) = core a"
  by (auto simp: core_def UpdateForegroundLiveCall_def Let_def split: option.splits)

text \<open>The sets and the events of a report that reaches the state machine.\<close>

definition report_core ::
  "call \<Rightarrow> TelCallState \<Rightarrow> TelCallState \<Rightarrow> call_sets \<Rightarrow> call_sets \<times> AudioEvent list" where
  "report_core c prior t s =
     (let s = AddCall (m_callId c) t s in
      if prior = t then (s, new_events c t)
      else let s = DeleteCall (m_callId c) prior s in (s, new_events c t @ no_more_events prior s))"

lemma core_parts: "core a = core a' \<longleftrightarrow> a_sets a = a_sets a' \<and> a_scene a = a_scene a' \<and> a_queue a = a_queue a'"
  by (auto simp: core_def)

lemma handled_core:
  assumes "carrier_audio (r_heap r p)"
    and "PreHandleAnswerdState p prior t r a = (go, es, r1, a1)"
    and "HandleCallStateUpdated e p prior t r a = (es', r', a')"
  shows "core a' = (if go then (fst (report_core (r_heap r p) prior t (a_sets a1)), a_scene a,
             a_queue a @ snd (report_core (r_heap r p) prior t (a_sets a1)))
           else core a1)"
proof (cases go)
  case False
  then show ?thesis using assms by (auto simp: HandleCallStateUpdated_def Let_def)
next
  case True
  have r1: "m_callId (r_heap r1 p) = m_callId (r_heap r p)" "m_callType (r_heap r1 p) = m_callType (r_heap r p)"
    and a1: "a_scene a1 = a_scene a" "a_queue a1 = a_queue a"
    using assms(2) by (auto simp: PreHandleAnswerdState_def Let_def SetIsAnsweredByPhone_def split: if_splits)
  have ne: "new_events (r_heap r1 p) t = new_events (r_heap r p) t"
    by (cases t) (simp_all add: r1)
  have ca: "carrier_audio (r_heap r1 p)" using assms(1) by (simp add: carrier_audio_def r1)
  define a2 where "a2 = snd ((if m_callType (r_heap r1 p) = TYPE_BLUETOOTH
      then bluetooth_sco e r1 p prior t else (\<lambda>a. ([], a))) a1)"
  define a3 where "a3 = snd (HandleNextState r1 p t a2)"
  have c2: "core a2 = core a1" by (simp add: a2_def)
  have c3: "core a3 = (AddCall (m_callId (r_heap r p)) t (a_sets a1), a_scene a,
      a_queue a @ new_events (r_heap r p) t)"
    using next_state_core [OF ca, of t a2] c2 a1 by (simp add: a3_def r1 ne core_parts core_def)
  have "a' = snd ((if prior = t
      then (\<lambda>a. if m_callType (r_heap r1 p) = TYPE_BLUETOOTH then ApplyFocusForBlueToothCall e p t a else ([], a))
      else HandlePriorState r1 p prior) a3)"
    using assms(2,3) True
    by (auto simp: HandleCallStateUpdated_def Let_def a3_def a2_def seq_step_def split: prod.splits if_splits)
  then have "core a' = (if prior = t then core a3 else core (snd (HandlePriorState r1 p prior a3)))"
    by simp
  moreover have "a_sets a3 = AddCall (m_callId (r_heap r p)) t (a_sets a1)" "a_scene a3 = a_scene a"
      "a_queue a3 = a_queue a @ new_events (r_heap r p) t"
    using c3 by (simp_all add: core_def)
  ultimately show ?thesis using True c3
    by (simp add: prior_state_core report_core_def Let_def r1)
qed

end
