(* ===== verification/Audio_Reports.thy ===== *)
theory Audio_Reports
  imports Audio_Settling
begin

text \<open>
  The audio scenes over sequences of reports: the states reachable when the queue is
  emptied after every report, and those reachable when reports and the handling of events
  interleave in any way, with the properties of both.
\<close>

subsection \<open>Reports the scenes follow\<close>

text \<open>
  A report of a carrier call, not between incoming and waiting.  The call that the user
  has answered here has left the incoming calls, and when it ends while it is active
  its prior state is active or still incoming or waiting.
\<close>

definition report_ok :: "ptr \<Rightarrow> TelCallState \<Rightarrow> TelCallState \<Rightarrow> registry \<Rightarrow> audio \<Rightarrow> bool" where
  "report_ok p prior t r a =
     (let c = r_heap r p; i = m_callId c; ringing = {CALL_STATUS_INCOMING, CALL_STATUS_WAITING} in
      carrier_audio c \<and> \<not> (prior \<in> ringing \<and> t \<in> ringing \<and> prior \<noteq> t) \<and>
      (m_isAnsweredByPhone c \<longrightarrow>
         (prior \<in> ringing \<and> t \<in> {CALL_STATUS_ACTIVE, CALL_STATUS_INCOMING, CALL_STATUS_ANSWERED}
            \<longrightarrow> i \<notin> incomingCalls (a_sets a)) \<and>
         (t \<in> {CALL_STATUS_DISCONNECTING, CALL_STATUS_DISCONNECTED} \<and> i \<in> activeCalls (a_sets a)
            \<longrightarrow> prior \<in> insert CALL_STATUS_ACTIVE ringing)))"

definition updated :: "audio_env \<Rightarrow> ptr \<Rightarrow> TelCallState \<Rightarrow> TelCallState \<Rightarrow> registry \<Rightarrow> audio \<Rightarrow> audio" where
  "updated e p prior t r a = snd (snd (CallStateUpdated e (Some p) prior t r a))"

lemma updated_core:
  assumes "carrier_audio (r_heap r p)"
  shows "core (updated e p prior t r a) = core (snd (snd (HandleCallStateUpdated e p prior t r
           (a\<lparr>a_totalCalls := insert p (a_totalCalls a)\<rparr>))))"
proof -
  have n: "m_callType (r_heap r p) \<noteq> TYPE_VOIP" using assms by (auto simp: carrier_audio_def)
  obtain es r1 a1 where h: "HandleCallStateUpdated e p prior t r
      (a\<lparr>a_totalCalls := insert p (a_totalCalls a)\<rparr>) = (es, r1, a1)"
    by (metis prod_cases3)
  define a2 where "a2 = (if t = CALL_STATUS_DISCONNECTED
    then a1\<lparr>a_totalCalls := a_totalCalls a1 - {p}\<rparr> else a1)"
  define a3 where "a3 = (if prior = CALL_STATUS_INCOMING \<and> prior \<noteq> t \<and>
      CallStateProcessor_GetCallNumber CALL_STATUS_INCOMING (a_sets a2) = 0
    then a2\<lparr>a_isIncomingConflict := False\<rparr> else a2)"
  define a4 where "a4 = snd (UpdateForegroundLiveCall e r1 a3)"
  have "updated e p prior t r a =
      (if a_totalCalls a4 = {} then a4\<lparr>a_isSetAudioDeviceByUser := False\<rparr> else a4)"
    unfolding updated_def CallStateUpdated_def option.case if_not_P [OF n] Let_def h prod.case
      a4_def a3_def a2_def
    by (simp only: split_beta fst_conv snd_conv)
  moreover have "core a4 = core a3" by (simp add: a4_def)
  moreover have "core a3 = core a2" "core a2 = core a1" by (simp_all add: a3_def a2_def core_def)
  ultimately show ?thesis by (simp add: h core_def)
qed

lemma updated_report:
  assumes "carrier_audio (r_heap r p)" and "PreHandleAnswerdState p prior t r
      (a\<lparr>a_totalCalls := insert p (a_totalCalls a)\<rparr>) = (go, es, r1, a1)"
  shows "core (updated e p prior t r a) =
    (if go then (fst (report_core (r_heap r p) prior t (a_sets a1)), a_scene a,
       a_queue a @ snd (report_core (r_heap r p) prior t (a_sets a1))) else core a1)"
proof -
  obtain es' r' a' where h: "HandleCallStateUpdated e p prior t r
      (a\<lparr>a_totalCalls := insert p (a_totalCalls a)\<rparr>) = (es', r', a')"
    by (metis prod_cases3)
  show ?thesis
    using handled_core [OF assms h] updated_core [OF assms(1), of e prior t a] h by simp
qed

subsection \<open>A report leaves the correcting events\<close>

lemma new_events_facts:
  "NEW_INCOMING_CALL \<in> set (new_events c t) \<longleftrightarrow> t = CALL_STATUS_INCOMING \<or> t = CALL_STATUS_WAITING"
  "set (new_events c t) \<inter> new_active \<noteq> {} \<longleftrightarrow> t = CALL_STATUS_ACTIVE \<or> t = CALL_STATUS_ANSWERED"
  "ev \<in> set (new_events c t) \<Longrightarrow> target ev = None"
  by (cases t; auto simp: new_active_def split: if_splits)+

lemma no_more_facts:
  "NO_MORE_DIALING_CALL \<in> set (no_more_events t s) \<longleftrightarrow> t = CALL_STATUS_DIALING \<and> card (dialingCalls s) = 0"
  "NO_MORE_ALERTING_CALL \<in> set (no_more_events t s) \<longleftrightarrow> t = CALL_STATUS_ALERTING \<and> card (alertingCalls s) = 0"
  "NO_MORE_INCOMING_CALL \<in> set (no_more_events t s) \<longleftrightarrow> t = CALL_STATUS_INCOMING \<or> t = CALL_STATUS_WAITING"
  "NO_MORE_ACTIVE_CALL \<in> set (no_more_events t s) \<longleftrightarrow> t = CALL_STATUS_ACTIVE \<and> card (activeCalls s) = 0"
  "NO_MORE_HOLDING_CALL \<in> set (no_more_events t s) \<longleftrightarrow> t = CALL_STATUS_HOLDING \<and> card (holdingCalls s) = 0"
  "NEW_INCOMING_CALL \<notin> set (no_more_events t s)"
  "ev \<in> set (no_more_events t s) \<Longrightarrow> target ev = None"
  by (cases t; auto split: if_splits)+

text \<open>What the step before the state machine may delete.\<close>

definition predeleted :: "int \<Rightarrow> TelCallState \<Rightarrow> TelCallState \<Rightarrow> call_sets \<Rightarrow> call_sets \<Rightarrow> bool" where
  "predeleted i prior t s s1 =
     (s1 = s \<or>
      (prior = CALL_STATUS_INCOMING \<and> t = CALL_STATUS_ANSWERED \<and> s1 = DeleteCall i CALL_STATUS_INCOMING s) \<or>
      (t \<in> {CALL_STATUS_DISCONNECTING, CALL_STATUS_DISCONNECTED} \<and>
       (i \<in> activeCalls s \<longrightarrow> prior \<in> {CALL_STATUS_ACTIVE, CALL_STATUS_INCOMING, CALL_STATUS_WAITING}) \<and>
       s1 = DeleteCall i CALL_STATUS_ACTIVE s))"

lemma report_core_sets:
  "fst (report_core c prior t s) = move (m_callId c) prior t s"
  by (simp add: report_core_def move_def Let_def)

lemma report_core_events:
  "set (snd (report_core c prior t s)) = set (new_events c t) \<union>
     (if prior = t then {} else set (no_more_events prior (move (m_callId c) prior t s)))"
  by (simp add: report_core_def move_def Let_def)

lemma predeleted_sets:
  assumes "predeleted i prior t s s1"
  shows "dialingCalls s1 = dialingCalls s" "alertingCalls s1 = alertingCalls s"
    "holdingCalls s1 = holdingCalls s" "activeCalls s1 \<subseteq> activeCalls s"
    "incomingCalls s1 = incomingCalls s \<or>
       prior = CALL_STATUS_INCOMING \<and> t = CALL_STATUS_ANSWERED"
    "activeCalls s1 = activeCalls s \<or> i \<in> activeCalls s \<and>
       t \<in> {CALL_STATUS_DISCONNECTING, CALL_STATUS_DISCONNECTED} \<and>
       prior \<in> {CALL_STATUS_ACTIVE, CALL_STATUS_INCOMING, CALL_STATUS_WAITING}"
    "finite_sets s \<Longrightarrow> finite_sets s1"
  using assms by (auto simp: predeleted_def delete_fields finite_sets_def)

lemma move_fields:
  "dialingCalls (move i prior t s) = (if t = CALL_STATUS_DIALING then insert i (dialingCalls s)
     else if prior = CALL_STATUS_DIALING then dialingCalls s - {i} else dialingCalls s)"
  "alertingCalls (move i prior t s) = (if t = CALL_STATUS_ALERTING then insert i (alertingCalls s)
     else if prior = CALL_STATUS_ALERTING then alertingCalls s - {i} else alertingCalls s)"
  "holdingCalls (move i prior t s) = (if t = CALL_STATUS_HOLDING then insert i (holdingCalls s)
     else if prior = CALL_STATUS_HOLDING then holdingCalls s - {i} else holdingCalls s)"
  "activeCalls (move i prior t s) = (if t = CALL_STATUS_ACTIVE then insert i (activeCalls s)
     else if prior = CALL_STATUS_ACTIVE then activeCalls s - {i}
     else if t = CALL_STATUS_ANSWERED then insert i (activeCalls s) else activeCalls s)"
  by (auto simp: move_def add_fields delete_fields)

lemma move_incoming:
  assumes "\<not> (prior \<in> {CALL_STATUS_INCOMING, CALL_STATUS_WAITING} \<and>
      t \<in> {CALL_STATUS_INCOMING, CALL_STATUS_WAITING} \<and> prior \<noteq> t)"
  shows "incomingCalls (move i prior t s) =
     (if t \<in> {CALL_STATUS_INCOMING, CALL_STATUS_WAITING} then insert i (incomingCalls s)
      else if prior \<in> {CALL_STATUS_INCOMING, CALL_STATUS_WAITING} then incomingCalls s - {i}
      else incomingCalls s)"
  using assms by (auto simp: move_def add_fields delete_fields)

lemma report_correcting:
  assumes "fits s sc" and "finite_sets s" and d: "predeleted (m_callId c) prior t s s1"
    and sw: "\<not> (prior \<in> {CALL_STATUS_INCOMING, CALL_STATUS_WAITING} \<and>
      t \<in> {CALL_STATUS_INCOMING, CALL_STATUS_WAITING} \<and> prior \<noteq> t)"
  shows "correcting (fst (report_core c prior t s1)) sc (snd (report_core c prior t s1))"
proof -
  let ?s = "move (m_callId c) prior t s1" and ?q = "snd (report_core c prior t s1)"
  note pre = predeleted_sets [OF d]
  have fin: "finite_sets ?s" using pre(7) assms(2) by simp
  then have zero: "card (dialingCalls ?s) = 0 \<longleftrightarrow> dialingCalls ?s = {}"
    "card (alertingCalls ?s) = 0 \<longleftrightarrow> alertingCalls ?s = {}" "card (activeCalls ?s) = 0 \<longleftrightarrow> activeCalls ?s = {}"
    "card (holdingCalls ?s) = 0 \<longleftrightarrow> holdingCalls ?s = {}"
    by (simp_all add: finite_sets_def)
  have none: "target ev = None" if "ev \<in> set ?q" for ev
    using that new_events_facts(3) no_more_facts(7) by (auto simp: report_core_events split: if_splits)
  have inc: "incomingCalls ?s \<noteq> {} \<and> (activeCalls ?s \<noteq> {} \<longrightarrow> in_call sc)" if "NEW_INCOMING_CALL \<in> set ?q"
  proof -
    have t: "t \<in> {CALL_STATUS_INCOMING, CALL_STATUS_WAITING}"
      using that by (auto simp: report_core_events new_events_facts no_more_facts split: if_splits)
    then have "activeCalls ?s \<subseteq> activeCalls s" using pre(4) by (auto simp: move_fields)
    with t assms(1) show ?thesis by (auto simp: move_incoming [OF sw] fits_def)
  qed
  have act: "activeCalls ?s \<noteq> {} \<longrightarrow> in_call sc \<or> card (activeCalls ?s) = 1 \<and> set ?q \<inter> new_active \<noteq> {}"
  proof (cases "in_call sc")
    case False
    then have "activeCalls s1 = {}" using assms(1) pre(4) by (auto simp: fits_def)
    then have "activeCalls ?s = {} \<or> (activeCalls ?s = {m_callId c} \<and>
        (t = CALL_STATUS_ACTIVE \<or> t = CALL_STATUS_ANSWERED))"
      by (auto simp: move_fields)
    moreover have "set ?q \<inter> new_active \<noteq> {}" if "t = CALL_STATUS_ACTIVE \<or> t = CALL_STATUS_ANSWERED"
      using that new_events_facts(2) [of c t] by (auto simp: report_core_events)
    ultimately show ?thesis by auto
  qed simp
  have en: "activeCalls ?s \<noteq> {} \<or> set ?q \<inter> ender sc \<noteq> {}"
    if "sc \<noteq> INACTIVE_STATE" "scene_calls sc ?s = {}"
  proof -
    have old: "scene_calls sc s \<noteq> {}" using assms(1) that(1) by (simp add: fits_def)
    note facts = report_core_events no_more_facts zero
    show ?thesis
    proof (cases sc)
      case DIALING_STATE
      with that old have "prior = CALL_STATUS_DIALING \<and> prior \<noteq> t \<and> dialingCalls ?s = {}"
        using pre(1) by (auto simp: move_fields split: if_splits)
      then show ?thesis using DIALING_STATE by (auto simp: facts)
    next
      case ALERTING_STATE
      with that old have "prior = CALL_STATUS_ALERTING \<and> prior \<noteq> t \<and> alertingCalls ?s = {}"
        using pre(2) by (auto simp: move_fields split: if_splits)
      then show ?thesis using ALERTING_STATE by (auto simp: facts)
    next
      case HOLDING_STATE
      with that old have "prior = CALL_STATUS_HOLDING \<and> prior \<noteq> t \<and> holdingCalls ?s = {}"
        using pre(3) by (auto simp: move_fields split: if_splits)
      then show ?thesis using HOLDING_STATE by (auto simp: facts)
    next
      case INCOMING_STATE
      with that old have "prior \<in> {CALL_STATUS_INCOMING, CALL_STATUS_WAITING} \<and> prior \<noteq> t"
        using pre(5) by (auto simp: move_incoming [OF sw] split: if_splits)
      then show ?thesis using INCOMING_STATE by (auto simp: facts)
    next
      case CS_CALL_STATE
      with that old have "prior \<in> {CALL_STATUS_ACTIVE, CALL_STATUS_INCOMING, CALL_STATUS_WAITING} \<and>
          prior \<noteq> t \<and> activeCalls ?s = {}"
        using pre(6) by (auto simp: move_fields split: if_splits)
      then show ?thesis using CS_CALL_STATE by (auto simp: facts)
    next
      case IMS_CALL_STATE
      with that old have "prior \<in> {CALL_STATUS_ACTIVE, CALL_STATUS_INCOMING, CALL_STATUS_WAITING} \<and>
          prior \<noteq> t \<and> activeCalls ?s = {}"
        using pre(6) by (auto simp: move_fields split: if_splits)
      then show ?thesis using IMS_CALL_STATE by (auto simp: facts)
    qed (use that assms(1) in \<open>auto simp: fits_def\<close>)
  qed
  show ?thesis
    unfolding correcting_def report_core_sets
    using assms(1) none inc act en by (auto simp: fits_def)
qed

text \<open>The step before the state machine deletes no more than that.\<close>

lemma delete_absent:
  assumes "prior \<in> {CALL_STATUS_INCOMING, CALL_STATUS_WAITING}" and "i \<notin> incomingCalls s"
  shows "DeleteCall i prior s = s"
  using assms by (auto simp: delete_fields intro: call_sets.equality)

lemma pre_handled:
  assumes ok: "report_ok p prior t r a" and pre: "PreHandleAnswerdState p prior t r a' = (go, es, r1, a1)"
    and s: "a_sets a' = a_sets a"
  shows "if go then predeleted (m_callId (r_heap r p)) prior t (a_sets a) (a_sets a1)
         else core a1 = core a'"
proof -
  let ?c = "r_heap r p"
  let ?user = "\<not> m_isAnsweredByPhone ?c \<and> t = CALL_STATUS_ANSWERED \<and> prior = CALL_STATUS_INCOMING"
  let ?silent = "m_isAnsweredByPhone ?c \<and> (t = CALL_STATUS_ACTIVE \<and>
      (prior = CALL_STATUS_INCOMING \<or> prior = CALL_STATUS_WAITING) \<or>
      (t = CALL_STATUS_INCOMING \<and> t = prior) \<or> (t = CALL_STATUS_ANSWERED \<and> prior = CALL_STATUS_INCOMING))"
  let ?over = "m_isAnsweredByPhone ?c \<and> (t = CALL_STATUS_DISCONNECTING \<or> t = CALL_STATUS_DISCONNECTED)"
  consider (user) ?user | (silent) "\<not> ?user" ?silent | (over) "\<not> ?user" "\<not> ?silent" ?over
    | (plain) "\<not> ?user" "\<not> ?silent" "\<not> ?over" by blast
  then show ?thesis
  proof cases
    case user
    then have "go" "a_sets a1 = DeleteCall (m_callId ?c) CALL_STATUS_INCOMING (a_sets a')"
      using pre by (auto simp: PreHandleAnswerdState_def Let_def)
    then show ?thesis using user s by (simp add: predeleted_def)
  next
    case silent
    then have g: "\<not> go" and a1: "a1 = a'\<lparr>a_sets := DeleteCall (m_callId ?c) prior (a_sets a')\<rparr>"
      using pre by (simp_all only: PreHandleAnswerdState_def Let_def if_not_P if_P prod.inject split: if_splits) auto
    have "prior \<in> {CALL_STATUS_INCOMING, CALL_STATUS_WAITING}" "m_callId ?c \<notin> incomingCalls (a_sets a)"
      using silent(2) ok by (auto simp: report_ok_def Let_def)
    then have "a1 = a'" using delete_absent s by (simp add: a1)
    with g show ?thesis by simp
  next
    case over
    then have "go" "a_sets a1 = DeleteCall (m_callId ?c) CALL_STATUS_ACTIVE (a_sets a')"
      using pre by (auto simp: PreHandleAnswerdState_def Let_def split: if_splits)
    moreover have "m_callId ?c \<in> activeCalls (a_sets a) \<longrightarrow>
        prior \<in> {CALL_STATUS_ACTIVE, CALL_STATUS_INCOMING, CALL_STATUS_WAITING}"
      using over(3) ok by (auto simp: report_ok_def Let_def)
    ultimately show ?thesis using over s by (simp add: predeleted_def)
  next
    case plain
    then have "go" "a1 = a'"
      using pre by (auto simp: PreHandleAnswerdState_def Let_def split: if_splits)
    then show ?thesis using s by (simp add: predeleted_def)
  qed
qed

lemma updated_correcting:
  assumes "settled_audio a" and "report_ok p prior t r a" and "a' = updated e p prior t r a"
  shows "\<exists>sc. finite_sets (a_sets a') \<and> a_scene a' = Some sc \<and> correcting (a_sets a') sc (a_queue a')"
proof -
  obtain sc where sc: "a_queue a = []" "finite_sets (a_sets a)" "a_scene a = Some sc" "fits (a_sets a) sc"
    using assms(1) by (auto simp: settled_audio_def)
  let ?a = "a\<lparr>a_totalCalls := insert p (a_totalCalls a)\<rparr>"
  obtain go es r1 a1 where pre: "PreHandleAnswerdState p prior t r ?a = (go, es, r1, a1)"
    by (metis prod_cases4)
  have ok: "carrier_audio (r_heap r p)" "\<not> (prior \<in> {CALL_STATUS_INCOMING, CALL_STATUS_WAITING} \<and>
      t \<in> {CALL_STATUS_INCOMING, CALL_STATUS_WAITING} \<and> prior \<noteq> t)"
    using assms(2) by (auto simp: report_ok_def Let_def)
  note c = updated_report [OF ok(1) pre, of e, folded assms(3)]
  show ?thesis
  proof (cases go)
    case False
    then have "core a' = core a"
      using c pre_handled [OF assms(2) pre] by (simp add: core_def)
    moreover have "correcting (a_sets a) sc []"
      using sc(4) by (auto simp: correcting_def fits_def)
    ultimately show ?thesis using sc by (auto simp: core_def)
  next
    case True
    then have d: "predeleted (m_callId (r_heap r p)) prior t (a_sets a) (a_sets a1)"
      using pre_handled [OF assms(2) pre] by simp
    have "finite_sets (fst (report_core (r_heap r p) prior t (a_sets a1)))"
      using predeleted_sets(7) [OF d sc(2)] by (simp add: report_core_sets)
    then show ?thesis
      using c True report_correcting [OF sc(4) sc(2) d ok(2)] sc by (auto simp: core_def)
  qed
qed

subsection \<open>Reachable states\<close>

text \<open>The queue is emptied after every report.\<close>

inductive settled_run :: "build \<Rightarrow> audio \<Rightarrow> bool" for b where
  settled_start: "settled_run b (AudioSceneProcessor_Init audio_start)"
| settled_report: "settled_run b a \<Longrightarrow> report_ok p prior t r a \<Longrightarrow>
    settled_run b (snd (drain b e f r' (updated e' p prior t r a)))"

text \<open>Reports and the handling of single events in any order.\<close>

inductive interleaved_run :: "build \<Rightarrow> audio \<Rightarrow> bool" for b where
  interleaved_start: "interleaved_run b (AudioSceneProcessor_Init audio_start)"
| interleaved_report: "interleaved_run b a \<Longrightarrow> report_ok p prior t r a \<Longrightarrow>
    interleaved_run b (updated e p prior t r a)"
| interleaved_handle: "interleaved_run b a \<Longrightarrow> interleaved_run b (snd (handle_one b e f r a))"

lemma settled_start_audio: "settled_audio (AudioSceneProcessor_Init audio_start)"
  by (simp add: settled_audio_def AudioSceneProcessor_Init_def audio_start_def fits_def no_calls_def
      finite_sets_def)

lemma settled_step:
  assumes "settled_audio a" and "report_ok p prior t r a"
  shows "settled_audio (snd (drain b e f r' (updated e' p prior t r a)))"
  using updated_correcting [OF assms refl, of e'] drain_settles by blast

lemma drain_empty: "a_queue (snd (drain b e f r a)) = []"
proof (induction b e f r a rule: drain.induct)
  case (1 b e f r a)
  show ?case
  proof (cases "a_queue a = []")
    case True
    then show ?thesis by (simp add: drain_snd)
  next
    case False
    obtain es a' where h: "handle_one b e f r a = (es, a')" by fastforce
    with 1 [OF False h [symmetric] refl] False show ?thesis by (subst drain_snd) simp
  qed
qed

lemma handle_one_sets: "a_sets (snd (handle_one b e f r a)) = a_sets a"
proof (cases "a_queue a")
  case Nil
  then show ?thesis by (simp add: handle_one_def)
next
  case (Cons ev q)
  then show ?thesis
    by (cases "a_scene a") (simp_all add: handle_one_def process_core process_uninitialised)
qed

lemma audio_queue_sets: "a_sets (snd (drain b e f r a)) = a_sets a"
proof (induction b e f r a rule: drain.induct)
  case (1 b e f r a)
  show ?case
  proof (cases "a_queue a = []")
    case True
    then show ?thesis by (simp add: drain_snd)
  next
    case False
    obtain es a' where h: "handle_one b e f r a = (es, a')" by fastforce
    with 1 [OF False h [symmetric] refl] handle_one_sets [of b e f r a] False
    show ?thesis by (subst drain_snd) simp
  qed
qed

text \<open>Emptying the queue is handling its events one by one.\<close>

lemma drain_interleaved: "interleaved_run b a \<Longrightarrow> interleaved_run b (snd (drain b e f r a))"
proof (induction b e f r a rule: drain.induct)
  case (1 b e f r a)
  show ?case
  proof (cases "a_queue a = []")
    case True
    then show ?thesis using 1(2) by (simp add: drain_snd)
  next
    case False
    obtain es a' where h: "handle_one b e f r a = (es, a')" by fastforce
    have "interleaved_run b a'" using interleaved_handle [OF 1(2), of e f r] by (simp add: h)
    from 1(1) [OF False h [symmetric] refl this] show ?thesis using False by (subst drain_snd) (simp add: h)
  qed
qed

subsection \<open>Runs on the scene, the sets and the queue alone\<close>

datatype Move = Report call TelCallState TelCallState | Handle

fun core_move :: "call_sets \<times> CallStateType option \<times> AudioEvent list \<Rightarrow> Move \<Rightarrow>
    call_sets \<times> CallStateType option \<times> AudioEvent list" where
  "core_move (s, sc, q) (Report c prior t) =
     (fst (report_core c prior t s), sc, q @ snd (report_core c prior t s))"
| "core_move (s, sc, q) Handle =
     (case (sc, q) of
        (Some sc', ev # q') \<Rightarrow>
          (s, Some (case target ev of None \<Rightarrow> sc' | Some x \<Rightarrow> x),
           q' @ (if target ev = None then posts sc' ev s else []))
      | (None, ev # q') \<Rightarrow> (s, None, q')
      | (_, []) \<Rightarrow> (s, sc, q))"

fun plain_move :: "Move \<Rightarrow> bool" where
  "plain_move Handle = True"
| "plain_move (Report c prior t) =
     (carrier_audio c \<and> \<not> m_isAnsweredByPhone c \<and> t \<noteq> CALL_STATUS_ANSWERED \<and>
      \<not> (prior \<in> {CALL_STATUS_INCOMING, CALL_STATUS_WAITING} \<and>
         t \<in> {CALL_STATUS_INCOMING, CALL_STATUS_WAITING} \<and> prior \<noteq> t))"

lemma plain_report:
  assumes "plain_move (Report c prior t)" and "r_heap r p = c"
  shows "report_ok p prior t r a" and "core (updated e p prior t r a) = core_move (core a) (Report c prior t)"
proof -
  show "report_ok p prior t r a" using assms by (auto simp: report_ok_def Let_def)
  have pre: "\<exists>es. PreHandleAnswerdState p prior t r (a\<lparr>a_totalCalls := insert p (a_totalCalls a)\<rparr>) =
      (True, es, r, a\<lparr>a_totalCalls := insert p (a_totalCalls a)\<rparr>)"
    using assms by (simp add: PreHandleAnswerdState_def Let_def)
  then obtain es where "PreHandleAnswerdState p prior t r (a\<lparr>a_totalCalls := insert p (a_totalCalls a)\<rparr>) =
      (True, es, r, a\<lparr>a_totalCalls := insert p (a_totalCalls a)\<rparr>)" by blast
  from updated_report [OF _ this] assms
  show "core (updated e p prior t r a) = core_move (core a) (Report c prior t)"
    by (simp add: core_def)
qed







subsection \<open>Properties\<close>

definition audio_call :: "int \<Rightarrow> call" where
  "audio_call i = sample_ims_call\<lparr>m_callId := i\<rparr>"

lemma audio_call_plain:
  "carrier_audio (audio_call i)" "\<not> m_isAnsweredByPhone (audio_call i)" "m_callId (audio_call i) = i"
  "m_callType (audio_call i) = TYPE_IMS"
  by (simp_all add: audio_call_def carrier_audio_def sample_call_defs)

text \<open>
  C22: The queue of the scene processor always runs empty, from any state, and emptying it
  changes no set of calls: an event posts at most a switch of the scene, and a switch
  posts nothing.
\<close>

theorem audio_queue_drains:
  "a_queue (snd (drain b e f r a)) = [] \<and> a_sets (snd (drain b e f r a)) = a_sets a"
  using drain_empty audio_queue_sets by blast

text \<open>
  C2: When the events of each report are handled before the next report, the audio scene
  always fits the calls, over any sequence of reports of any number of carrier calls: if
  no call is left the scene is inactive, an active call puts it into one of the two
  scenes of a call, and every other scene has a call of its kind.
\<close>

theorem audio_scene_fits_calls:
  assumes "settled_run b a"
  shows "\<exists>sc. a_scene a = Some sc \<and> a_queue a = [] \<and>
     (a_sets a = no_calls \<longrightarrow> sc = INACTIVE_STATE) \<and>
     (activeCalls (a_sets a) \<noteq> {} \<longrightarrow> sc = CS_CALL_STATE \<or> sc = IMS_CALL_STATE) \<and>
     (sc = DIALING_STATE \<longrightarrow> dialingCalls (a_sets a) \<noteq> {}) \<and>
     (sc = ALERTING_STATE \<longrightarrow> alertingCalls (a_sets a) \<noteq> {}) \<and>
     (sc = INCOMING_STATE \<longrightarrow> incomingCalls (a_sets a) \<noteq> {}) \<and>
     (sc = HOLDING_STATE \<longrightarrow> holdingCalls (a_sets a) \<noteq> {}) \<and>
     (sc = CS_CALL_STATE \<or> sc = IMS_CALL_STATE \<longrightarrow> activeCalls (a_sets a) \<noteq> {})"
proof -
  have "settled_audio a"
    using assms
  proof induction
    case settled_start
    show ?case by (rule settled_start_audio)
  next
    case (settled_report a p prior t r e f r' e')
    from this(3,2) show ?case by (rule settled_step)
  qed
  then obtain sc where "a_scene a = Some sc" "a_queue a = []" "fits (a_sets a) sc"
    by (auto simp: settled_audio_def)
  then show ?thesis by (cases sc) (auto simp: fits_def in_call_def no_calls_def)
qed

theorem audio_scene_fits_calls_witness:
  "\<exists>a sc. settled_run sample_build a \<and> dialingCalls (a_sets a) = {1} \<and> a_scene a = Some sc \<and>
     sc \<notin> {CS_CALL_STATE, IMS_CALL_STATE}"
proof -
  let ?a = "AudioSceneProcessor_Init audio_start" and ?r = "empty_registry (\<lambda>_. audio_call 1)"
  let ?u = "\<lambda>e. updated e 0 CALL_STATUS_DIALING CALL_STATUS_DIALING ?r ?a"
  have m: "plain_move (Report (audio_call 1) CALL_STATUS_DIALING CALL_STATUS_DIALING)"
    by (simp add: audio_call_plain)
  have h: "r_heap ?r 0 = audio_call 1" by (simp add: empty_registry_def)
  obtain e :: audio_env and f :: conference where "True" by blast
  have run: "settled_run sample_build (snd (drain sample_build e f ?r (?u e)))"
    by (rule settled_report [OF settled_start plain_report(1) [OF m h]])
  have "a_sets (?u e) = no_calls\<lparr>dialingCalls := {1}\<rparr>"
    using plain_report(2) [OF m h, of e ?a]
    by (simp add: core_def report_core_def audio_call_plain no_calls_def AudioSceneProcessor_Init_def
        audio_start_def)
  then have s: "a_sets (snd (drain sample_build e f ?r (?u e))) = no_calls\<lparr>dialingCalls := {1}\<rparr>"
    using audio_queue_sets by simp
  from audio_scene_fits_calls [OF run] s run show ?thesis
    by (auto simp: no_calls_def)
qed





end
