(* ===== verification/Call_Status_Policy.thy ===== *)
theory Call_Status_Policy
  imports Call_Policy
begin

text \<open>
  What happens to an incoming call once its state is set
  (\<open>services/call/src/call_status_policy.cpp\<close>): it is hung up when there are too many
  calls, rejected while the call of the VoIP application rings, and announced otherwise.
  The call is reached through a pointer that may be null; the requests to the stack, the
  reports of dropped calls and the announcement to the observers are effects.
\<close>

subsection \<open>The operations\<close>

datatype DropCause =
    DROP_CALL_BY_CALL_NUM_LIMITED | DROP_CALL_BY_MEETIME_CALL_ALERTING
  | DROP_CALL_BY_EMC_CALL_EXIST | DROP_CALL_BY_CALL_BLOCKING
  | DROP_CALL_BY_WATCH_CALL_BLOCKING | DROP_CALL_BY_FOCUS_MODE
  | DROP_CALL_BY_INVALID_DEVICE_PROPERTY | DROP_CALL_BY_OOBE

datatype StatusEffect =
    ReportCallDropChrEvent int int DropCause
  | StackRequest Request
  | NotifyNewCallCreated ptr

definition DialingHandlePolicy :: "string \<Rightarrow> registry \<Rightarrow> ErrCode" where
  "DialingHandlePolicy number r =
     (if IsCallExist_number number r then CALL_ERR_CALL_ALREADY_EXISTS else TELEPHONY_SUCCESS)"

text \<open>
  Dropping a call: report the cause, mark the call, and ask the stack.  The result None
  is that of an operation of the class that does not return.
\<close>

definition drop_call ::
  "DropCause \<Rightarrow> (call \<Rightarrow> outcome option) \<Rightarrow> ptr \<Rightarrow> registry \<Rightarrow>
   (ErrCode \<times> StatusEffect list \<times> registry) option" where
  "drop_call cause ask p r =
     (let c = r_heap r p in
      case ask (SetApCauseReported True c) of
        None \<Rightarrow> None
      | Some (ret, qs, c') \<Rightarrow>
          Some (if ret \<noteq> TELEPHONY_SUCCESS then ret else TELEPHONY_SUCCESS,
            ReportCallDropChrEvent (m_slotId c) (m_index c) cause # List.map StackRequest qs,
            r\<lparr>r_heap := (r_heap r)(p := c')\<rparr>))"

definition FilterResultsDispose ::
  "build \<Rightarrow> env \<Rightarrow> int \<Rightarrow> ptr option \<Rightarrow> registry \<Rightarrow>
   (ErrCode \<times> StatusEffect list \<times> registry) option" where
  "FilterResultsDispose b e voipState call r =
     (case call of
        None \<Rightarrow> Some (CALL_ERR_CALL_OBJECT_IS_NULL, [], r)
      | Some p \<Rightarrow>
          if HasRingingMaximum r \<or> HasDialingMaximum r
          then drop_call DROP_CALL_BY_CALL_NUM_LIMITED (HangUpCall b e) p r
          else if voipState = CallStateToApp_code CALL_STATE_RINGING
          then drop_call DROP_CALL_BY_MEETIME_CALL_ALERTING (\<lambda>c. Some (RejectCall e c)) p r
          else
            (let (_, c) = IncomingCallBase (r_heap r p)
             in Some (TELEPHONY_SUCCESS, [NotifyNewCallCreated p],
                  r\<lparr>r_heap := (r_heap r)(p := c)\<rparr>)))"

lemmas status_policy_defs [cm_defs] = FilterResultsDispose_def drop_call_def

subsection \<open>Properties\<close>

definition is_carrier_class :: "call \<Rightarrow> bool" where
  "is_carrier_class c = (m_class c \<in> {CSCall, IMSCall, SatelliteCall})"

lemma carrier_hang_up:
  "is_carrier_class c \<Longrightarrow> HangUpCall b e c = Some (CarrierHangUpCall e c)"
  "is_carrier_class c \<Longrightarrow> RejectCall e c = CarrierRejectCall e c"
  by (auto simp: is_carrier_class_def HangUpCall_def RejectCall_def CSCall_HangUpCall_def
      IMSCall_HangUpCall_def SatelliteCall_HangUpCall_def class_control_defs)

text \<open>A drop ends with the answer of the stack to the one request it makes.\<close>

lemma drop_carrier_call:
  assumes "is_carrier_class (r_heap r p)"
    and "ask \<in> {\<lambda>c. Some (CarrierHangUpCall e c), \<lambda>c. Some (CarrierRejectCall e c)}"
  shows "\<exists>ret qs c'. drop_call cause ask p r = Some (ret,
      ReportCallDropChrEvent (m_slotId (r_heap r p)) (m_index (r_heap r p)) cause # List.map StackRequest qs,
      r\<lparr>r_heap := (r_heap r)(p := c')\<rparr>) \<and> m_isApCauseReported c' \<and> m_callState c' = m_callState (r_heap r p) \<and>
      (ret = TELEPHONY_SUCCESS \<longleftrightarrow> accepted_for e (r_heap r p) qs)"
proof -
  let ?c = "SetApCauseReported True (r_heap r p)"
  have acc: "accepted_for e ?c qs = accepted_for e (r_heap r p) qs" for qs
    by (simp add: accepted_for_def SetApCauseReported_def split: option.splits list.splits)
  obtain ret qs c' where a: "ask ?c = Some (ret, qs, c')"
      and s: "ret = TELEPHONY_SUCCESS \<longleftrightarrow> accepted_for e ?c qs" and f: "m_isApCauseReported c'"
        "m_callState c' = m_callState (r_heap r p)"
  proof (cases "ask = (\<lambda>c. Some (CarrierHangUpCall e c))")
    case True
    obtain ret qs c' where h: "CarrierHangUpCall e ?c = (ret, qs, c')" by (metis prod_cases3)
    moreover have "c' = ?c" using h by (auto simp: CarrierHangUpCall_def request_or_def split: option.splits if_splits)
    ultimately show ?thesis
      using that True carrier_control_accepted(1) [of e ?c] by (simp add: SetApCauseReported_def)
  next
    case False
    then have t: "ask = (\<lambda>c. Some (CarrierRejectCall e c))" using assms(2) by blast
    obtain ret qs c' where h: "CarrierRejectCall e ?c = (ret, qs, c')" by (metis prod_cases3)
    moreover have "c' = snd (RejectCallBase ?c)"
      using h by (auto simp: CarrierRejectCall_def RejectCallBase_def request_or_def split: option.splits if_splits)
    ultimately show ?thesis
      using that t carrier_reject_accepted [of e ?c]
      by (simp add: SetApCauseReported_def RejectCallBase_def)
  qed
  then show ?thesis by (auto simp: drop_call_def Let_def acc)
qed

text \<open>
  C20: An incoming carrier call meets exactly one of two fates.  It is announced to the
  observers, with its running state RINGING, if neither limit on the calls is reached and
  the VoIP application's call does not ring; then nothing is asked of the stack.
  Otherwise it is not announced but marked as dropped by the service, one cause is
  reported, and the result is success exactly when the stack accepted the request to
  end this call, so no call is both announced and dropped.
\<close>

theorem incoming_call_announced_or_dropped:
  assumes "is_carrier_class (r_heap r p)"
    and "limited \<longleftrightarrow> HasRingingMaximum r \<or> HasDialingMaximum r"
  shows "\<exists>ret es r'. FilterResultsDispose b e v (Some p) r = Some (ret, es, r') \<and>
    (if \<not> limited \<and> v \<noteq> CallStateToApp_code CALL_STATE_RINGING
     then ret = TELEPHONY_SUCCESS \<and> es = [NotifyNewCallCreated p] \<and>
       m_callRunningState (r_heap r' p) = CALL_RUNNING_STATE_RINGING
     else (\<exists>qs. es = ReportCallDropChrEvent (m_slotId (r_heap r p)) (m_index (r_heap r p))
           (if limited then DROP_CALL_BY_CALL_NUM_LIMITED else DROP_CALL_BY_MEETIME_CALL_ALERTING)
             # List.map StackRequest qs \<and>
         (ret = TELEPHONY_SUCCESS \<longleftrightarrow> accepted_for e (r_heap r p) qs)) \<and>
       m_isApCauseReported (r_heap r' p) \<and> m_callState (r_heap r' p) = m_callState (r_heap r p))"
proof (cases "\<not> limited \<and> v \<noteq> CallStateToApp_code CALL_STATE_RINGING")
  case True
  then show ?thesis using assms(2)
    by (simp add: FilterResultsDispose_def IncomingCallBase_def)
next
  case False
  have hang: "drop_call cause (HangUpCall b e) p r = drop_call cause (\<lambda>c. Some (CarrierHangUpCall e c)) p r"
    and rej: "drop_call cause (\<lambda>c. Some (RejectCall e c)) p r
      = drop_call cause (\<lambda>c. Some (CarrierRejectCall e c)) p r" for cause
    using assms(1) by (simp_all add: drop_call_def Let_def carrier_hang_up is_carrier_class_def SetApCauseReported_def)
  show ?thesis
  proof (cases limited)
    case True
    with False assms drop_carrier_call [of r p "\<lambda>c. Some (CarrierHangUpCall e c)" e DROP_CALL_BY_CALL_NUM_LIMITED]
    show ?thesis by (auto simp: FilterResultsDispose_def hang)
  next
    case nl: False
    with False assms drop_carrier_call [of r p "\<lambda>c. Some (CarrierRejectCall e c)" e DROP_CALL_BY_MEETIME_CALL_ALERTING]
    show ?thesis by (auto simp: FilterResultsDispose_def rej)
  qed
qed

theorem incoming_call_announced_or_dropped_witness:
  "\<exists>es r'. FilterResultsDispose sample_build sample_env (CallStateToApp_code CALL_STATE_IDLE) (Some 0) sample_registry =
     Some (TELEPHONY_SUCCESS, es, r') \<and> es = [NotifyNewCallCreated 0]"
proof -
  note d = sample_registry_def empty_registry_def sample_call_defs
  have c: "is_carrier_class (r_heap sample_registry 0)"
    by (simp add: is_carrier_class_def d)
  have l: "False \<longleftrightarrow> HasRingingMaximum sample_registry \<or> HasDialingMaximum sample_registry"
    by (simp add: HasRingingMaximum_def HasDialingMaximum_def RINGING_CALL_NUMBER_LEN_def
        DIALING_CALL_NUMBER_LEN_def d)
  from incoming_call_announced_or_dropped [OF c l, of sample_build sample_env "CallStateToApp_code CALL_STATE_IDLE"]
  show ?thesis by auto
qed

end
