(* ===== verification/Call_Service.thy ===== *)
theory Call_Service
  imports Call_Status_Policy "HOL-Library.State_Monad"
begin

text \<open>
  The state the request side and the report side of the service share, and the steps
  they are written in.  A C++ member function becomes a value of the state monad over
  the record \<open>service\<close>: the registry of calls with their objects, the three conferences,
  the members of CallRequestEventHandlerHelper
  (\<^verbatim>\<open>services/call/src/call_request_event_handler_helper.cpp\<close>), the static members of
  CallObjectManager that a waiting dial uses, the queue of reports
  (\<^verbatim>\<open>services/telephony_interaction/src/report_call_info_handler.cpp\<close>), the tasks handed
  to other threads, and the trace of what was sent to collaborators outside the
  component.  What those collaborators answer is the record \<open>service_env\<close>.

  A step that would follow a null pointer or leave the language's defined behaviour sets
  the fault flag; nothing is claimed of what follows it.  Event logging is not modelled.
\<close>

subsection \<open>Reports and events\<close>

record CallDetailInfo =
  dt_index :: int
  dt_phoneNum :: string
  dt_bundleName :: string
  dt_accountId :: int
  dt_callType :: CallType
  dt_callMode :: VideoStateType
  dt_state :: TelCallState
  dt_voiceDomain :: int
  dt_mpty :: int
  dt_crsType :: int
  dt_originalCallType :: int
  dt_voipCallInfo :: VoipCallReportInfo
  dt_name :: string
  dt_namePresentation :: int
  dt_phoneOrWatch :: int
  dt_reason :: int
  dt_antiFraudState :: int
  dt_message :: string
  dt_newCallUseBox :: int
  dt_rttState :: RttCallState
  dt_rttChannelId :: int
  dt_imsDomain :: int
  dt_phoneIndex :: int

definition default_detail :: CallDetailInfo where
  "default_detail = \<lparr>dt_index = 0, dt_phoneNum = [], dt_bundleName = [], dt_accountId = 0,
     dt_callType = TYPE_ERR_CALL, dt_callMode = TYPE_VOICE, dt_state = CALL_STATUS_UNKNOWN,
     dt_voiceDomain = 0, dt_mpty = 0, dt_crsType = 0, dt_originalCallType = 0,
     dt_voipCallInfo = default_voip_info, dt_name = [], dt_namePresentation = 0,
     dt_phoneOrWatch = 0, dt_reason = -1, dt_antiFraudState = 0, dt_message = [],
     dt_newCallUseBox = 0, dt_rttState = RTT_STATE_NO, dt_rttChannelId = -1,
     dt_imsDomain = 0, dt_phoneIndex = 0\<rparr>"

text \<open>The same object after \<^verbatim>\<open>memset_s\<close> with zero bytes.\<close>

definition zeroed_detail :: CallDetailInfo where
  "zeroed_detail = default_detail\<lparr>dt_callType := TYPE_CS, dt_state := CALL_STATUS_ACTIVE,
     dt_reason := 0, dt_rttChannelId := 0,
     dt_voipCallInfo := default_voip_info\<lparr>v_showBannerForIncomingCall := False,
       v_isVoiceAnswerSupported := False, v_hasMicPermission := False\<rparr>\<rparr>"

datatype CallAbilityEventId =
    EVENT_DIAL_NO_CARRIER | EVENT_INVALID_FDN_NUMBER | EVENT_HOLD_CALL_FAILED
  | EVENT_SWAP_CALL_FAILED | EVENT_COMBINE_CALL_FAILED | EVENT_SPLIT_CALL_FAILED
  | EVENT_OTT_FUNCTION_UNSUPPORTED | EVENT_ANSWER_VOIP_CALL | EVENT_REJECT_VOIP_CALL
  | EVENT_HANGUP_VOIP_CALL | EVENT_LOCAL_ALERTING

record CallEventInfo =
  ev_eventId :: CallAbilityEventId
  ev_phoneNum :: string
  ev_bundleName :: string

text \<open>
  The result of a request to the stack, and an event a VoIP application reports.  The one
  kind of the first, EVENT\_REQUEST\_RESULT\_TYPE, and the one event of an OTT call are 0.
\<close>

datatype RequestResultEventId =
    INVALID_REQUEST_RESULT_EVENT_ID | RESULT_DIAL_SEND_FAILED | RESULT_DIAL_NO_CARRIER
  | RESULT_END_SEND_FAILED | RESULT_REJECT_SEND_FAILED | RESULT_ACCEPT_SEND_FAILED
  | RESULT_HOLD_SEND_FAILED | RESULT_ACTIVE_SEND_FAILED | RESULT_SWAP_SEND_FAILED
  | RESULT_COMBINE_SEND_FAILED | RESULT_JOIN_SEND_FAILED | RESULT_SPLIT_SEND_FAILED
  | RESULT_SUPPLEMENT_SEND_FAILED | RESULT_INVITE_TO_CONFERENCE_SUCCESS
  | RESULT_INVITE_TO_CONFERENCE_FAILED | RESULT_KICK_OUT_FROM_CONFERENCE_SUCCESS
  | RESULT_KICK_OUT_FROM_CONFERENCE_FAILED | RESULT_SEND_DTMF_SUCCESS | RESULT_SEND_DTMF_FAILED
  | RESULT_GET_CURRENT_CALLS_FAILED | RESULT_SET_CALL_PREFERENCE_MODE_SUCCESS
  | RESULT_SET_CALL_PREFERENCE_MODE_FAILED | RESULT_GET_IMS_CALLS_DATA_FAILED
  | RESULT_GET_CALL_WAITING_SUCCESS | RESULT_GET_CALL_WAITING_FAILED
  | RESULT_SET_CALL_WAITING_SUCCESS | RESULT_SET_CALL_WAITING_FAILED
  | RESULT_GET_CALL_RESTRICTION_SUCCESS | RESULT_GET_CALL_RESTRICTION_FAILED
  | RESULT_SET_CALL_RESTRICTION_SUCCESS | RESULT_SET_CALL_RESTRICTION_FAILED
  | RESULT_GET_CALL_TRANSFER_SUCCESS | RESULT_GET_CALL_TRANSFER_FAILED
  | RESULT_SET_CALL_TRANSFER_SUCCESS | RESULT_SET_CALL_TRANSFER_FAILED
  | RESULT_SEND_USSD_SUCCESS | RESULT_SEND_USSD_FAILED | RESULT_SET_MUTE_SUCCESS
  | RESULT_SET_MUTE_FAILED | RESULT_CTRL_CAMERA_SUCCESS | RESULT_CTRL_CAMERA_FAILED
  | RESULT_SET_PREVIEW_WINDOW_SUCCESS | RESULT_SET_PREVIEW_WINDOW_FAILED
  | RESULT_SET_DISPLAY_WINDOW_SUCCESS | RESULT_SET_DISPLAY_WINDOW_FAILED
  | RESULT_SET_CAMERA_ZOOM_SUCCESS | RESULT_SET_CAMERA_ZOOM_FAILED
  | RESULT_SET_PAUSE_IMAGE_SUCCESS | RESULT_SET_PAUSE_IMAGE_FAILED
  | RESULT_SET_DEVICE_DIRECTION_SUCCESS | RESULT_SET_DEVICE_DIRECTION_FAILED

datatype VoipCallEvent =
    VOIP_CALL_EVENT_NONE | VOIP_CALL_EVENT_ANSWER_VOICE | VOIP_CALL_EVENT_ANSWER_VIDEO
  | VOIP_CALL_EVENT_REJECT | VOIP_CALL_EVENT_HANGUP | VOIP_CALL_EVENT_MUTED
  | VOIP_CALL_EVENT_UNMUTED | VOIP_CALL_EVENT_SPEAKER_ON | VOIP_CALL_EVENT_SPEAKER_OFF
  | VOIP_CALL_EVENT_MUTE_RINGTONE | VOIP_CALL_EVENT_MIC_DISABLE

definition EVENT_REQUEST_RESULT_TYPE :: int where "EVENT_REQUEST_RESULT_TYPE = 0"
definition OTT_CALL_EVENT_FUNCTION_UNSUPPORTED :: int where "OTT_CALL_EVENT_FUNCTION_UNSUPPORTED = 0"

subsection \<open>What a step does outside the state\<close>

text \<open>The tasks submitted to other threads.\<close>

datatype Task =
    AnswerTask int int bool | RejectTask int bool string | HangUpTask int | HoldTask int
  | UnHoldTask int | SwitchTask int | RttModeTask int ImsRTTCallMode
  | JoinTask int "string list" | CombineTask int | SeparateTask int | KickOutTask int
  | HangUpVoipTask | ContactTask ptr string | LocationTask ptr | YellowPageTask ptr
  | AntiFraudTask ptr CallDetailInfo int bool    \<comment> \<open>slot; transfers are detected too\<close>

datatype Notification =
    CallEventUpdated CallEventInfo
  | NewCallCreated ptr
  | CallStateUpdated ptr TelCallState TelCallState
  | CallDestroyed int string
  | IncomingCallActivated ptr
  | IncomingCallHungUp ptr bool string
  | NotifyTransferCall ptr
  | VoipCallUpdated CallAttributeInfo TelCallState TelCallState
  | CallInfoReported CallAttributeInfo
  | StateReported                        \<comment> \<open>UpdateCallStateForVoIPOrRestart\<close>

datatype AudioAction =
    VideoStateUpdated ptr VideoStateType VideoStateType
  | CheckAndSwitchDistributedAudioDevice | OnActivedCallDisconnected
  | SetAudioDeviceSpeaker | SetMuteTo bool | SetVolumeAudible | MuteRinger
  | ReportAudioDeviceInfo ptr | RefreshPreferredDevice | SetVirtualCallTo bool
  | StopSoundtone | PlaySoundtone ptr | StopWaitingTone | PlayRingtone
  | PlayDtmfTone char | StopDtmfTone | SetCallAudioMode int int

datatype MotionSensor = PickupSensor | FlipSensor | CloseToEarSensor

datatype SystemAction =
    AcquireIncomingLock | ReleaseIncomingLock | AcquireDisconnectedLock
  | StartFlashRemind | StopFlashRemind | LoadMotionSensor | UnloadMotionSensor
  | SubscribeMotion MotionSensor | UnsubscribeMotion MotionSensor
  | ShowDialog Dialog | ShowMMICodeDialog | ShowFdnDialog | ShowAnswerPrivacyDialog int int
  | PublishBlockInfo int bool | PublishBlockedCall ptr | AddCallLog ptr
  | StartEccService ptr | StopEccService int | RestorePrivacyPolicy
  | StopAntiFraudService int int | AntiFraudVideoState VideoStateType VideoStateType
  | SatelliteStateUpdate ptr TelCallState TelCallState | RefreshRtt | UnInitRtt
  | InitVideoCall ptr VideoStateType | UpdateSetting string string
  | ConnectCallUi bool | RegisterAppStateObserver | InitRtt ptr | SendRtt string
  | PublishMissedCall ptr | VoiceLocation string int

datatype BluetoothAction =
    DisconnectScoByTransferControl | CancelHfpWaitContact | AncsContactArrived string ptr
  | UpdateTransferCall ptr | ReportBluetoothState

text \<open>
  The requests to the settings of a SIM card, which go through after a check.  An
  enumeration that arrives as an integer is kept as one: the cast does not check it.
\<close>

record CallTransferInfo =
  tr_transferNum :: string
  tr_settingType :: int
  tr_type :: int
  tr_startHour :: int
  tr_startMinute :: int
  tr_endHour :: int
  tr_endMinute :: int

datatype SettingRequest =
    AskCallWaiting int | SetWaiting int bool | AskCallRestriction int int
  | SetRestriction int int string int | SetRestrictionPassword int int string string
  | AskCallTransfer int int | SetTransfer int CallTransferInfo | AskTransferTime int
  | SetPreferenceMode int int | AskImsConfig int int | SetImsConfigItem int int string
  | AskImsFeature int int | SetImsFeature int int int | EnableIms int | DisableIms int
  | AskImsSwitch int | SetVoNR int int | CloseUssd int | SetRttCap int bool

datatype Effect =
    Sent Request
  | CellularDial CellularCallInfo
  | InviteToConference "string list" int
  | OttDialRequest string string int
  | BluetoothDial DialParaInfo
  | BtCallState int int int string
  | SettingAsked SettingRequest
  | Notified Notification
  | Audio AudioAction
  | System SystemAction
  | Bluetooth BluetoothAction
  | StatusPolicyEffect StatusEffect
  | RegistryChange RegistryEffect

subsection \<open>The state\<close>

record dial_helper =
  dh_handler :: bool                    \<comment> \<open>callRequestEventHandler\_ is not null\<close>
  dh_task :: bool                       \<comment> \<open>the task that clears the flag is posted\<close>
  dh_isDialingCallProcessing :: bool
  dh_pendingMo :: bool
  dh_pendingHangup :: bool
  dh_pendingMoCallId :: int
  dh_pendingHangupCallId :: int

definition initial_helper :: dial_helper where
  "initial_helper = \<lparr>dh_handler = True, dh_task = False, dh_isDialingCallProcessing = False,
     dh_pendingMo = False, dh_pendingHangup = False, dh_pendingMoCallId = -1,
     dh_pendingHangupCallId = -1\<rparr>"

datatype Report =
    CallReport CallDetailInfo
  | CallsReport int "CallDetailInfo list"
  | DisconnectCause int string
  | EventResult int RequestResultEventId
  | OttEvent int string
  | VoipEvent string string int VoipCallEvent
  | RttClosed

record control_state =
  ct_voipCallInfo :: "int \<times> int \<times> string"   \<comment> \<open>VoipCallInfo\_\<close>
  ct_thermalLevel :: int
  ct_wearStatus :: int
  ct_reduceRingTone :: bool
  ct_preloaded :: "int list"                 \<comment> \<open>preloadedCallUiRequestPids\_\<close>

record service =
  s_reg :: registry
  s_fresh :: ptr                        \<comment> \<open>where the next call object is made\<close>
  s_edm :: EdmCallPolicy
  s_conf :: conferences
  s_trace :: "Effect list"
  s_tasks :: "Task list"
  s_reports :: "Report list"
  s_ticks :: nat
  s_fault :: bool
  s_needWaitHold :: bool
  s_dialCallInfo :: CellularCallInfo
  s_flagForDsda :: bool
  s_helper :: dial_helper
  s_dialSrcInfo :: DialParaInfo
  s_extras :: extras
  s_deviceProvisioned :: int
  s_userSetupComplete :: int
  s_callReportInfo :: CallDetailInfo
  s_callDetails :: "int \<Rightarrow> CallDetailInfo list"
  s_tmpCallDetails :: "int \<Rightarrow> CallDetailInfo list"
  s_priorVideoState :: "int \<Rightarrow> VideoStateType"
  s_antiFraudSlotId :: int
  s_antiFraudIndex :: int
  s_voipState :: int
  s_pendingHangupTask :: "int option"   \<comment> \<open>pendingHangupHandle\_, with the id it carries\<close>
  s_answeredQueue :: "(int \<times> int) option"
  s_virtualCall :: bool
  s_ringOnceWait :: bool                \<comment> \<open>timeWaitHelper\_ is not null\<close>
  s_detectStart :: "int option"         \<comment> \<open>detectStartTime\_ in ms; None: the epoch\<close>
  s_control :: control_state

datatype DsdsMode = DSDS_MODE_V2 | DSDS_MODE_V3 | DSDS_MODE_V5_TDM | DSDS_MODE_V5_DSDA

text \<open>
  What the control manager asks of its members and neighbours; a member that may be a null
  pointer is an option or a flag.
\<close>

record control_env =
  ce_handler :: bool                          \<comment> \<open>CallRequestHandlerPtr\_ is not null\<close>
  ce_settings :: "(SettingRequest \<Rightarrow> ErrCode) option"
  ce_reentrant :: bool                        \<comment> \<open>the list's mutex may be taken twice\<close>
  ce_satelliteSwitch :: ErrCode
  ce_satelliteDial :: ErrCode
  ce_superPrivacy :: "bool option"            \<comment> \<open>calls may be answered; None: no manager\<close>
  ce_missedCall :: bool                       \<comment> \<open>missedCallNotification\_ is not null\<close>
  ce_multiCalls :: "int \<Rightarrow> bool"              \<comment> \<open>support\_multi\_calls\_bool of the SIM\<close>
  ce_readSetVoip :: string
  ce_btCallState :: "int \<Rightarrow> int \<Rightarrow> int \<Rightarrow> string \<Rightarrow> ErrCode"
  ce_setMute :: "bool \<Rightarrow> ErrCode"
  ce_muteRinger :: ErrCode
  ce_rttListener :: bool
  ce_thermalBuild :: bool                     \<comment> \<open>CALL\_MANAGER\_THERMAL\_PROTECTION\<close>

datatype CallDisposition = NORMAL_DISPOSITION | INTERCEPTED | AUTO_ANSWER

text \<open>
  What the handlers of reports ask of settings, sensors, the SIM and the spam service.  A
  setting that cannot be read is None.
\<close>

record report_env =
  rp_setting :: "string \<Rightarrow> string option"
  rp_updateOk :: "string \<Rightarrow> bool"
  rp_activeUsers :: "int list"
  rp_parseParams :: "string \<Rightarrow> WantParams"          \<comment> \<open>ParseWantParamsWithBrackets\<close>
  rp_extraParams :: WantParams                     \<comment> \<open>the dial's parameters, parsed\<close>
  rp_simLabel :: "int \<Rightarrow> (int \<times> int) option"        \<comment> \<open>type and index; None: failed\<close>
  rp_esimType :: int                               \<comment> \<open>SimType::ESIM\<close>
  rp_supportsCnap :: "int \<Rightarrow> bool"
  rp_macAddress :: "int \<Rightarrow> string"
  rp_hfpContact :: "string \<Rightarrow> string"
  rp_queryContact :: "string \<Rightarrow> ContactInfo \<Rightarrow> ContactInfo"  \<comment> \<open>the contacts database\<close>
  rp_systemVideoRing :: "ptr \<Rightarrow> bool"
  rp_needVideoRing :: "ContactInfo \<Rightarrow> ptr \<Rightarrow> bool"
  rp_voiceBroadcast :: bool
  rp_regionCN :: bool
  rp_markOf :: "string \<Rightarrow> NumberMarkInfo option"   \<comment> \<open>the number identity database\<close>
  rp_locationOf :: "string \<Rightarrow> string option"
  rp_startAntiFraud :: "string \<Rightarrow> int \<Rightarrow> int \<Rightarrow> int"
  rp_detectSpam :: "CallDetailInfo \<Rightarrow> bool"
  rp_spamResult :: "CallDetailInfo \<Rightarrow> (bool \<times> NumberMarkInfo \<times> int \<times> string) option"
  rp_watchBlocking :: bool                         \<comment> \<open>CALL\_MANAGER\_WATCH\_CALL\_BLOCKING\<close>
  rp_disposition :: CallDisposition
  rp_watchMark :: "NumberMarkInfo option"
  rp_needSilent :: "string \<Rightarrow> int"
  rp_ringOnceEnded :: "int \<Rightarrow> bool"                  \<comment> \<open>the call ended while waiting\<close>
  rp_advsec :: bool
  rp_loadSensor :: bool
  rp_antiFraudSupport :: bool
  rp_antiFraudOn :: "VideoStateType \<Rightarrow> bool"
  rp_cellularFirst :: "int \<Rightarrow> bool"                  \<comment> \<open>end cellular calls before this app's\<close>
  rp_audioSupport :: bool                          \<comment> \<open>AUDIO\_SUPPORT\<close>
  rp_preferredDevice :: bool
  rp_sinkRole :: bool

record service_env =
  se_build :: build
  se_env :: env
  se_code :: "ErrCode \<Rightarrow> int"
  se_want :: want_api
  se_dial :: dial_env
  se_clock :: "nat \<Rightarrow> clock"
  se_dsdsMode :: DsdsMode
  se_isEcc :: "string \<Rightarrow> int \<Rightarrow> bool"
  se_isMmiCode :: "int \<Rightarrow> string \<Rightarrow> bool"
  se_fdn :: "int \<Rightarrow> string list option"            \<comment> \<open>None: fixed dialing is off\<close>
  se_dialAnswer :: "CellularCallInfo \<Rightarrow> ErrCode"
  se_ottDialAnswer :: "string \<Rightarrow> string \<Rightarrow> int \<Rightarrow> ErrCode"
  se_btDialAnswer :: "DialParaInfo \<Rightarrow> ErrCode"
  se_waitFirstDial :: "registry \<Rightarrow> bool \<times> registry" \<comment> \<open>timed out, and the registry then\<close>
  se_postTask :: bool                              \<comment> \<open>PostTask accepted the task\<close>
  se_modifying :: "ptr \<Rightarrow> bool"                     \<comment> \<open>the call is being upgraded to video\<close>
  se_settingProvisioned :: "string option"         \<comment> \<open>None: the query failed\<close>
  se_settingUserSetup :: "string option"
  se_factory :: bool                               \<comment> \<open>CONFIG\_FACTORY\_VERSION\<close>
  se_wearable :: bool
  se_selfNumber :: "int \<Rightarrow> string"
  se_listener :: bool                              \<comment> \<open>callStateListenerPtr\_ is not null\<close>
  se_statusManager :: bool                         \<comment> \<open>callStatusManagerPtr\_ is not null\<close>
  se_smallFold :: bool
  se_disconnectService :: bool
  se_btHeadset :: bool                             \<comment> \<open>a Bluetooth headset is connected\<close>
  se_dcallSwitchedOn :: bool
  se_skipTask :: bool                              \<comment> \<open>ffrt::skip succeeded\<close>
  se_control :: control_env
  se_report :: report_env

subsection \<open>Steps\<close>

type_synonym 'a step = "(service, 'a) state"

definition reads :: "(service \<Rightarrow> 'a) \<Rightarrow> 'a step" where
  "reads f = State (\<lambda>s. (f s, s))"

definition change :: "(service \<Rightarrow> service) \<Rightarrow> unit step" where
  "change f = State (\<lambda>s. ((), f s))"

definition emit :: "Effect \<Rightarrow> unit step" where
  "emit x = change (\<lambda>s. s\<lparr>s_trace := s_trace s @ [x]\<rparr>)"

definition submit :: "Task \<Rightarrow> unit step" where
  "submit t = change (\<lambda>s. s\<lparr>s_tasks := s_tasks s @ [t]\<rparr>)"

definition fault :: "unit step" where
  "fault = change (\<lambda>s. s\<lparr>s_fault := True\<rparr>)"

definition whenever :: "bool \<Rightarrow> unit step \<Rightarrow> unit step" where
  "whenever b m = (if b then m else State_Monad.return ())"

primrec each :: "('a \<Rightarrow> unit step) \<Rightarrow> 'a list \<Rightarrow> unit step" where
  "each f [] = State_Monad.return ()"
| "each f (x # xs) = do { _ \<leftarrow> f x; each f xs }"

definition read_clock :: "service_env \<Rightarrow> clock step" where
  "read_clock E = do {
     n \<leftarrow> reads s_ticks;
     _ \<leftarrow> change (\<lambda>s. s\<lparr>s_ticks := Suc n\<rparr>);
     State_Monad.return (se_clock E n) }"

lemma run_reads [simp]: "run_state (reads f) s = (f s, s)"
  by (simp add: reads_def)

lemma run_change [simp]: "run_state (change f) s = ((), f s)"
  by (simp add: change_def)

lemma run_emit [simp]: "run_state (emit x) s = ((), s\<lparr>s_trace := s_trace s @ [x]\<rparr>)"
  by (simp add: emit_def)

lemma run_submit [simp]: "run_state (submit t) s = ((), s\<lparr>s_tasks := s_tasks s @ [t]\<rparr>)"
  by (simp add: submit_def)

lemma run_whenever [simp]:
  "run_state (whenever b m) s = (if b then run_state m s else ((), s))"
  by (simp add: whenever_def)

lemma run_read_clock [simp]:
  "run_state (read_clock E) s = (se_clock E (s_ticks s), s\<lparr>s_ticks := Suc (s_ticks s)\<rparr>)"
  by (simp add: read_clock_def)

lemma each_append [simp]: "each f (xs @ ys) = do { _ \<leftarrow> each f xs; each f ys }"
  by (induction xs) simp_all

subsection \<open>Call objects\<close>

definition call_of :: "ptr \<Rightarrow> call step" where
  "call_of p = reads (\<lambda>s. r_heap (s_reg s) p)"

definition put_call :: "ptr \<Rightarrow> call \<Rightarrow> unit step" where
  "put_call p c = change (\<lambda>s. s\<lparr>s_reg := (s_reg s)\<lparr>r_heap := (r_heap (s_reg s))(p := c)\<rparr>\<rparr>)"

definition on_call :: "ptr \<Rightarrow> (call \<Rightarrow> call) \<Rightarrow> unit step" where
  "on_call p f = do { c \<leftarrow> call_of p; put_call p (f c) }"

text \<open>An operation of a call: its requests go to the trace, its object is stored.\<close>

definition invoke :: "(call \<Rightarrow> outcome) \<Rightarrow> ptr \<Rightarrow> ErrCode step" where
  "invoke oper p = do {
     c \<leftarrow> call_of p;
     (let (ret, qs, c') = oper c in do {
        _ \<leftarrow> each (\<lambda>q. emit (Sent q)) qs;
        _ \<leftarrow> put_call p c';
        State_Monad.return ret }) }"

definition invoke_opt :: "(call \<Rightarrow> outcome option) \<Rightarrow> ptr \<Rightarrow> ErrCode step" where
  "invoke_opt oper p = do {
     c \<leftarrow> call_of p;
     (case oper c of
        None \<Rightarrow> do { _ \<leftarrow> fault; State_Monad.return TELEPHONY_ERR_FAIL }
      | Some r \<Rightarrow> invoke (\<lambda>_. r) p) }"

definition answer_call :: "service_env \<Rightarrow> int \<Rightarrow> bool \<Rightarrow> ptr \<Rightarrow> ErrCode step" where
  "answer_call E videoState isRTT p = invoke (AnswerCall (se_build E) (se_env E) videoState isRTT) p"

definition reject_call :: "service_env \<Rightarrow> ptr \<Rightarrow> ErrCode step" where
  "reject_call E p = invoke (RejectCall (se_env E)) p"

definition hang_up_call :: "service_env \<Rightarrow> ptr \<Rightarrow> ErrCode step" where
  "hang_up_call E p = invoke_opt (HangUpCall (se_build E) (se_env E)) p"

definition hold_call :: "service_env \<Rightarrow> ptr \<Rightarrow> ErrCode step" where
  "hold_call E p = invoke (HoldCall (se_env E)) p"

definition unhold_call :: "service_env \<Rightarrow> ptr \<Rightarrow> ErrCode step" where
  "unhold_call E p = invoke (UnHoldCall (se_env E)) p"

definition switch_call :: "service_env \<Rightarrow> ptr \<Rightarrow> ErrCode step" where
  "switch_call E p = invoke (SwitchCall (se_env E)) p"

definition combine_conference :: "service_env \<Rightarrow> ptr \<Rightarrow> ErrCode step" where
  "combine_conference E p = do {
     c \<leftarrow> call_of p;
     g \<leftarrow> reads s_conf;
     (let (ret, qs, c', g') = CombineConference (se_env E) c g in do {
        _ \<leftarrow> each (\<lambda>q. emit (Sent q)) qs;
        _ \<leftarrow> put_call p c';
        _ \<leftarrow> change (\<lambda>s. s\<lparr>s_conf := g'\<rparr>);
        State_Monad.return ret }) }"

text \<open>The operations of a call on its conference; leaving it may be undefined.\<close>

definition launch_conference :: "service_env \<Rightarrow> ptr \<Rightarrow> ErrCode step" where
  "launch_conference E p = do {
     c \<leftarrow> call_of p;
     g \<leftarrow> reads s_conf;
     k \<leftarrow> read_clock E;
     (let (ret, c', g') = LaunchConference (now k) c g in do {
        _ \<leftarrow> put_call p c';
        _ \<leftarrow> change (\<lambda>s. s\<lparr>s_conf := g'\<rparr>);
        State_Monad.return ret }) }"

definition exit_conference :: "ptr \<Rightarrow> unit step" where
  "exit_conference p = do {
     c \<leftarrow> call_of p;
     g \<leftarrow> reads s_conf;
     (case ExitConference c g of
        None \<Rightarrow> fault
      | Some (ret, c', g') \<Rightarrow> do {
          _ \<leftarrow> put_call p c';
          change (\<lambda>s. s\<lparr>s_conf := g'\<rparr>) }) }"

definition hold_conference :: "ptr \<Rightarrow> unit step" where
  "hold_conference p = do {
     c \<leftarrow> call_of p;
     g \<leftarrow> reads s_conf;
     (let (ret, c', g') = HoldConference c g in do {
        _ \<leftarrow> put_call p c';
        change (\<lambda>s. s\<lparr>s_conf := g'\<rparr>) }) }"

definition slot_of :: "service_env \<Rightarrow> call \<Rightarrow> int" where
  "slot_of E c = GetSlotId (se_code E) c"

text \<open>
  GetMainCallId writes the host of the conference of the call's class to its argument,
  and leaves it alone for the classes without one.
\<close>

definition GetMainCallId :: "call \<Rightarrow> conferences \<Rightarrow> int \<Rightarrow> int" where
  "GetMainCallId c g mainCallId =
     (case m_class c of
        CSCall \<Rightarrow> cf_mainCallId (the_cs g)
      | IMSCall \<Rightarrow> cf_mainCallId (the_ims g)
      | OTTCall \<Rightarrow> cf_mainCallId (the_ott g)
      | _ \<Rightarrow> mainCallId)"

definition CallBase_GetSubCallIdList :: "call \<Rightarrow> conferences \<Rightarrow> string list" where
  "CallBase_GetSubCallIdList c g =
     (case m_class c of
        CSCall \<Rightarrow> snd (CSCall_GetSubCallIdList c g)
      | IMSCall \<Rightarrow> snd (IMSCall_GetSubCallIdList c g)
      | OTTCall \<Rightarrow> snd (OTTCall_GetSubCallIdList c g)
      | _ \<Rightarrow> [])"

subsection \<open>The registry, as steps\<close>

definition find_ptr :: "(registry \<Rightarrow> 'a) \<Rightarrow> 'a step" where
  "find_ptr f = reads (\<lambda>s. f (s_reg s))"

definition call_num :: "TelCallState \<Rightarrow> nat step" where
  "call_num st = find_ptr (GetCallNum st True)"

definition current_call_num :: "nat step" where
  "current_call_num = reads (\<lambda>s. GetCurrentCallNum (the_ims (s_conf s)) (s_reg s))"

definition add_call :: "service_env \<Rightarrow> ptr \<Rightarrow> unit step" where
  "add_call E p = do {
     r \<leftarrow> reads s_reg;
     (let (ret, es, r') = AddOneCallObject (se_smallFold E) (Some p) r in do {
        _ \<leftarrow> each (\<lambda>x. emit (RegistryChange x)) es;
        change (\<lambda>s. s\<lparr>s_reg := r'\<rparr>) }) }"

definition delete_call :: "service_env \<Rightarrow> int \<Rightarrow> unit step" where
  "delete_call E callId = do {
     r \<leftarrow> reads s_reg;
     (let (ret, es, r') = DeleteOneCallObject_id (se_smallFold E) (se_disconnectService E) callId r in do {
        _ \<leftarrow> each (\<lambda>x. emit (RegistryChange x)) es;
        change (\<lambda>s. s\<lparr>s_reg := r'\<rparr>) }) }"

lemmas step_defs = call_of_def put_call_def on_call_def invoke_def invoke_opt_def
  answer_call_def reject_call_def hang_up_call_def hold_call_def unhold_call_def
  switch_call_def find_ptr_def call_num_def current_call_num_def slot_of_def

subsection \<open>What the steps on calls do\<close>

text \<open>The state with one call object replaced.\<close>

definition with_call :: "ptr \<Rightarrow> call \<Rightarrow> service \<Rightarrow> service" where
  "with_call p c s = s\<lparr>s_reg := (s_reg s)\<lparr>r_heap := (r_heap (s_reg s))(p := c)\<rparr>\<rparr>"

lemma with_call_simps [simp]:
  "s_reg (with_call p c s) = (s_reg s)\<lparr>r_heap := (r_heap (s_reg s))(p := c)\<rparr>"
  "s_conf (with_call p c s) = s_conf s" "s_trace (with_call p c s) = s_trace s"
  "s_helper (with_call p c s) = s_helper s" "s_fault (with_call p c s) = s_fault s"
  "s_reports (with_call p c s) = s_reports s" "s_tasks (with_call p c s) = s_tasks s"
  "s_needWaitHold (with_call p c s) = s_needWaitHold s"
  "s_dialCallInfo (with_call p c s) = s_dialCallInfo s"
  "s_flagForDsda (with_call p c s) = s_flagForDsda s"
  "with_call p c (s\<lparr>s_trace := es\<rparr>) = (with_call p c s)\<lparr>s_trace := es\<rparr>"
  "with_call p d (with_call p c s) = with_call p d s"
  by (simp_all add: with_call_def)

lemma run_each_emit [simp]:
  "run_state (each (\<lambda>x. emit (f x)) xs) s = ((), s\<lparr>s_trace := s_trace s @ map f xs\<rparr>)"
  by (induction xs arbitrary: s) simp_all

lemma run_call_of [simp]: "run_state (call_of p) s = (r_heap (s_reg s) p, s)"
  by (simp add: call_of_def)

lemma run_put_call [simp]: "run_state (put_call p c) s = ((), with_call p c s)"
  by (simp add: put_call_def with_call_def)

lemma run_on_call [simp]: "run_state (on_call p f) s = ((), with_call p (f (r_heap (s_reg s) p)) s)"
  by (simp add: on_call_def)

lemma run_find_ptr [simp]: "run_state (find_ptr f) s = (f (s_reg s), s)"
  by (simp add: find_ptr_def)

lemma run_fault [simp]: "run_state fault s = ((), s\<lparr>s_fault := True\<rparr>)"
  by (simp add: fault_def)

lemma run_call_num [simp]: "run_state (call_num st) s = (GetCallNum st True (s_reg s), s)"
  by (simp add: call_num_def)

lemma run_current_call_num [simp]:
  "run_state current_call_num s = (GetCurrentCallNum (the_ims (s_conf s)) (s_reg s), s)"
  by (simp add: current_call_num_def)

text \<open>The outcome of an operation, applied to the state.\<close>

definition apply_outcome :: "ptr \<Rightarrow> outcome \<Rightarrow> service \<Rightarrow> ErrCode \<times> service" where
  "apply_outcome p res s = (case res of (ret, qs, c) \<Rightarrow>
     (ret, with_call p c (s\<lparr>s_trace := s_trace s @ map Sent qs\<rparr>)))"

lemma run_invoke: "run_state (invoke oper p) s = apply_outcome p (oper (r_heap (s_reg s) p)) s"
  by (simp add: invoke_def apply_outcome_def split: prod.splits)

lemma run_invoke_opt:
  "run_state (invoke_opt oper p) s =
     (case oper (r_heap (s_reg s) p) of
        None \<Rightarrow> (TELEPHONY_ERR_FAIL, s\<lparr>s_fault := True\<rparr>)
      | Some res \<Rightarrow> apply_outcome p res s)"
  by (simp add: invoke_opt_def run_invoke split: option.splits)

end
