(* ===== verification/Call_Reporting.thy ===== *)
theory Call_Reporting
  imports Call_Service
begin

text \<open>
  The flags of a dial in progress (CallRequestEventHandlerHelper,
  \<^verbatim>\<open>services/call/src/call_request_event_handler_helper.cpp\<close>) and the entry of reports
  (ReportCallInfoHandler,
  \<^verbatim>\<open>services/telephony_interaction/src/report_call_info_handler.cpp\<close>): what is dropped
  before it is queued, and the queue, which runs its tasks one after the other.
\<close>

subsection \<open>The flags of a dial in progress\<close>

definition IsDialingCallProcessing :: "dial_helper \<Rightarrow> bool" where
  "IsDialingCallProcessing h = dh_isDialingCallProcessing h"

definition RestoreDialingFlag :: "bool \<Rightarrow> dial_helper \<Rightarrow> dial_helper" where
  "RestoreDialingFlag b h =
     (if b \<noteq> dh_isDialingCallProcessing h then h\<lparr>dh_isDialingCallProcessing := b\<rparr> else h)"

text \<open>
  The handler's PostTask returns true when it takes the task; the code reports the
  opposite.
\<close>

definition SetDialingCallProcessing :: "bool \<Rightarrow> dial_helper \<Rightarrow> ErrCode \<times> dial_helper" where
  "SetDialingCallProcessing postTask h =
     (if dh_handler h \<and> IsDialingCallProcessing h then
        (let h = h\<lparr>dh_task := False\<rparr>; h = h\<lparr>dh_task := postTask\<rparr> in
         if postTask then (TELEPHONY_ERROR, h) else (TELEPHONY_SUCCESS, h))
      else (TELEPHONY_ERROR, h))"

definition RemoveEventHandlerTask :: "dial_helper \<Rightarrow> dial_helper" where
  "RemoveEventHandlerTask h = (if dh_handler h then h\<lparr>dh_task := False\<rparr> else h)"

text \<open>The posted task, when it runs.\<close>

definition restore_flag_task :: "dial_helper \<Rightarrow> dial_helper" where
  "restore_flag_task h = (if dh_task h then RestoreDialingFlag False (h\<lparr>dh_task := False\<rparr>) else h)"

definition SetPendingMo :: "bool \<Rightarrow> int \<Rightarrow> dial_helper \<Rightarrow> dial_helper" where
  "SetPendingMo b callId h = h\<lparr>dh_pendingMo := b, dh_pendingMoCallId := callId\<rparr>"

definition HasPendingMo :: "int \<Rightarrow> dial_helper \<Rightarrow> bool" where
  "HasPendingMo callId h = (dh_pendingMo h \<and> dh_pendingMoCallId h = callId)"

definition IsPendingHangup :: "dial_helper \<Rightarrow> bool" where
  "IsPendingHangup h = (if dh_pendingHangupCallId h \<noteq> -1 then dh_pendingHangup h else False)"

definition GetPendingHangupCallId :: "dial_helper \<Rightarrow> int" where
  "GetPendingHangupCallId h = (if dh_pendingHangup h then dh_pendingHangupCallId h else -1)"

definition SetPendingHangup :: "bool \<Rightarrow> int \<Rightarrow> dial_helper \<Rightarrow> dial_helper" where
  "SetPendingHangup b callId h = h\<lparr>dh_pendingHangup := b, dh_pendingHangupCallId := callId\<rparr>"

definition HasPendingHangup :: "int \<Rightarrow> dial_helper \<Rightarrow> bool" where
  "HasPendingHangup callId h = (dh_pendingHangup h \<and> dh_pendingHangupCallId h = callId)"

definition on_helper :: "(dial_helper \<Rightarrow> dial_helper) \<Rightarrow> unit step" where
  "on_helper f = change (\<lambda>s. s\<lparr>s_helper := f (s_helper s)\<rparr>)"

lemmas helper_defs = IsDialingCallProcessing_def RestoreDialingFlag_def
  SetDialingCallProcessing_def RemoveEventHandlerTask_def restore_flag_task_def
  SetPendingMo_def HasPendingMo_def IsPendingHangup_def GetPendingHangupCallId_def
  SetPendingHangup_def HasPendingHangup_def

subsection \<open>Is the device set up?\<close>

definition DEVICE_PROVISION_INVALID :: int where "DEVICE_PROVISION_INVALID = 0"
definition DEVICE_PROVISION_VALID :: int where "DEVICE_PROVISION_VALID = 1"

definition UpdateDevProvisioned :: "service_env \<Rightarrow> unit step" where
  "UpdateDevProvisioned E =
     (if se_factory E then change (\<lambda>s. s\<lparr>s_deviceProvisioned := DEVICE_PROVISION_VALID\<rparr>)
      else case se_settingProvisioned E of
        None \<Rightarrow> State_Monad.return ()
      | Some v \<Rightarrow>
          if v = ''0'' \<or> v = [] then change (\<lambda>s. s\<lparr>s_deviceProvisioned := DEVICE_PROVISION_INVALID\<rparr>)
          else if v = ''1'' then change (\<lambda>s. s\<lparr>s_deviceProvisioned := DEVICE_PROVISION_VALID\<rparr>)
          else State_Monad.return ())"

definition GetDevProvisioned :: "service_env \<Rightarrow> int step" where
  "GetDevProvisioned E = do {
     v \<leftarrow> reads s_deviceProvisioned;
     _ \<leftarrow> whenever (v \<noteq> DEVICE_PROVISION_VALID) (UpdateDevProvisioned E);
     reads s_deviceProvisioned }"

text \<open>
  The second setting is asked of the first active account; without an account, or when
  the query fails, the set-up counts as complete (\<^verbatim>\<open>se_settingUserSetup\<close> is None then).
\<close>

definition UpdateUserSetupCompleteValue :: "service_env \<Rightarrow> unit step" where
  "UpdateUserSetupCompleteValue E =
     (if se_factory E then change (\<lambda>s. s\<lparr>s_userSetupComplete := DEVICE_PROVISION_VALID\<rparr>)
      else case se_settingUserSetup E of
        None \<Rightarrow> change (\<lambda>s. s\<lparr>s_userSetupComplete := DEVICE_PROVISION_VALID\<rparr>)
      | Some v \<Rightarrow> change (\<lambda>s. s\<lparr>s_userSetupComplete :=
          if v = ''0'' \<or> v = [] then DEVICE_PROVISION_INVALID else DEVICE_PROVISION_VALID\<rparr>))"

definition ResetUserSetupCompleteValue :: "unit step" where
  "ResetUserSetupCompleteValue = change (\<lambda>s. s\<lparr>s_userSetupComplete := -1\<rparr>)"

definition GetDevUserSetupCompleteValue :: "service_env \<Rightarrow> int step" where
  "GetDevUserSetupCompleteValue E = do {
     v \<leftarrow> reads s_userSetupComplete;
     _ \<leftarrow> whenever (v \<noteq> DEVICE_PROVISION_VALID) (UpdateUserSetupCompleteValue E);
     reads s_userSetupComplete }"

subsection \<open>Transferred calls\<close>

definition PHONE_NUMBER_LEN_DEFAULT :: nat where "PHONE_NUMBER_LEN_DEFAULT = 11"

text \<open>The last digits of the SIM card's number, or nothing when it is too short.\<close>

definition GetSelfPhoneNumber :: "service_env \<Rightarrow> int \<Rightarrow> string" where
  "GetSelfPhoneNumber E slotId =
     (let result = se_selfNumber E slotId in
      if result = [] then []
      else if length result < PHONE_NUMBER_LEN_DEFAULT then []
      else drop (length result - PHONE_NUMBER_LEN_DEFAULT) result)"

definition Utils_IsTransferCall :: "service_env \<Rightarrow> CallType \<Rightarrow> bool" where
  "Utils_IsTransferCall E type =
     (if type \<noteq> TYPE_BLUETOOTH then False else if se_wearable E then False else True)"

fun contains_string :: "string \<Rightarrow> string \<Rightarrow> bool" where
  "contains_string [] pat = (pat = [])"
| "contains_string (c # cs) pat = (take (length pat) (c # cs) = pat \<or> contains_string cs pat)"

definition IsVoipTransferCall :: "service_env \<Rightarrow> CallDetailInfo \<Rightarrow> bool" where
  "IsVoipTransferCall E info =
     (if \<not> Utils_IsTransferCall E (dt_callType info) then False
      else if length (dt_phoneNum info) > 0 then False else True)"

definition IsHostDialMeIgnoreTransferCall :: "service_env \<Rightarrow> CallDetailInfo \<Rightarrow> bool" where
  "IsHostDialMeIgnoreTransferCall E info =
     (if \<not> Utils_IsTransferCall E (dt_callType info) then False
      else if length (dt_phoneNum info) < PHONE_NUMBER_LEN_DEFAULT then False
      else if length (GetSelfPhoneNumber E 0) \<ge> PHONE_NUMBER_LEN_DEFAULT \<and>
              contains_string (dt_phoneNum info) (GetSelfPhoneNumber E 0) then True
      else if length (GetSelfPhoneNumber E 1) \<ge> PHONE_NUMBER_LEN_DEFAULT \<and>
              contains_string (dt_phoneNum info) (GetSelfPhoneNumber E 1) then True
      else False)"

definition IsHostAnswerTransferCall :: "service_env \<Rightarrow> CallDetailInfo \<Rightarrow> registry \<Rightarrow> bool" where
  "IsHostAnswerTransferCall E info r =
     (if dt_state info \<noteq> CALL_STATUS_ACTIVE \<and> dt_state info \<noteq> CALL_STATUS_HOLDING then False
      else case GetOneCallObjectByIndexSlotIdAndCallType (se_code E) (dt_index info)
             (dt_accountId info) TYPE_BLUETOOTH (dt_phoneIndex info) r of
        None \<Rightarrow> False
      | Some p \<Rightarrow>
          if \<not> IsTransferCall (se_build E) (r_heap r p) then False
          else if m_isAnsweredByPhone (r_heap r p) then False else True)"

subsection \<open>The entry of reports\<close>

definition queue_report :: "Report \<Rightarrow> unit step" where
  "queue_report x = change (\<lambda>s. s\<lparr>s_reports := s_reports s @ [x]\<rparr>)"

definition DisconnectTransferCall :: "CallDetailInfo \<Rightarrow> unit step" where
  "DisconnectTransferCall info =
     queue_report (CallReport (info\<lparr>dt_state := CALL_STATUS_DISCONNECTED\<rparr>))"

text \<open>
  The checks up to the transfer of calls: the result says whether the report was
  consumed, and with which status.
\<close>

definition report_consumed :: "service_env \<Rightarrow> CallDetailInfo \<Rightarrow> ErrCode option step" where
  "report_consumed E info = (if \<not> se_statusManager E
     then State_Monad.return (Some TELEPHONY_ERR_LOCAL_PTR_NULL)
     else do {
       v \<leftarrow> GetDevProvisioned E;
       r \<leftarrow> reads s_reg;
       (if v \<noteq> DEVICE_PROVISION_VALID \<and> dt_callType info = TYPE_BLUETOOTH
        then State_Monad.return (Some TELEPHONY_SUCCESS)
        else if call_transfer (se_build E) \<and> IsVoipTransferCall E info
        then State_Monad.return (Some TELEPHONY_SUCCESS)
        else if call_transfer (se_build E) \<and> IsHostDialMeIgnoreTransferCall E info
        then do { _ \<leftarrow> emit (Bluetooth DisconnectScoByTransferControl);
                  State_Monad.return (Some TELEPHONY_SUCCESS) }
        else if call_transfer (se_build E) \<and> IsHostAnswerTransferCall E info r
        then do { _ \<leftarrow> DisconnectTransferCall info; State_Monad.return (Some TELEPHONY_SUCCESS) }
        else State_Monad.return None) })"

text \<open>
  In a build for one call at a time a Bluetooth call that becomes active beside an active
  call is reported as disconnected; that report is no longer active, so it goes straight
  to the queue unless one of the checks above consumes it.
\<close>

definition disconnect_detail :: "CallDetailInfo \<Rightarrow> CallDetailInfo" where
  "disconnect_detail info = default_detail\<lparr>dt_callType := dt_callType info,
     dt_accountId := dt_accountId info, dt_index := dt_index info,
     dt_state := CALL_STATUS_DISCONNECTED, dt_phoneIndex := dt_phoneIndex info,
     dt_phoneNum := dt_phoneNum info, dt_bundleName := []\<rparr>"

definition submit_report :: "service_env \<Rightarrow> CallDetailInfo \<Rightarrow> ErrCode step" where
  "submit_report E info = do {
     d \<leftarrow> report_consumed E info;
     (case d of
        Some ret \<Rightarrow> State_Monad.return ret
      | None \<Rightarrow> do { _ \<leftarrow> queue_report (CallReport info); State_Monad.return TELEPHONY_SUCCESS }) }"

definition DisconnectBtCallWhenPhoneAnswered :: "service_env \<Rightarrow> CallDetailInfo \<Rightarrow> unit step" where
  "DisconnectBtCallWhenPhoneAnswered E info = do {
     btCall \<leftarrow> find_ptr (GetOneCallObjectByIndexSlotIdAndCallType (se_code E) (dt_index info)
       DEFAULT_SIM_SLOT_ID TYPE_BLUETOOTH (dt_phoneIndex info));
     whenever (btCall \<noteq> None)
       (do { _ \<leftarrow> submit_report E (disconnect_detail info); State_Monad.return () }) }"

definition UpdateCallReportInfo :: "service_env \<Rightarrow> CallDetailInfo \<Rightarrow> ErrCode step" where
  "UpdateCallReportInfo E info = do {
     d \<leftarrow> report_consumed E info;
     r \<leftarrow> reads s_reg;
     (case d of
        Some ret \<Rightarrow> State_Monad.return ret
      | None \<Rightarrow>
          if not_support_multicall (se_build E) \<and> IsCallExist_state CALL_STATUS_ACTIVE r \<and>
             dt_state info = CALL_STATUS_ACTIVE \<and> dt_callType info = TYPE_BLUETOOTH
          then do { _ \<leftarrow> DisconnectBtCallWhenPhoneAnswered E info;
                    State_Monad.return TELEPHONY_SUCCESS }
          else do { _ \<leftarrow> queue_report (CallReport info); State_Monad.return TELEPHONY_SUCCESS }) }"

text \<open>
  A list of calls is copied member by member; the members not named keep their defaults.
  In a build with real-time text the state is stored in the call at once.
\<close>

definition copy_detail :: "CallDetailInfo \<Rightarrow> CallDetailInfo" where
  "copy_detail i = default_detail\<lparr>dt_callType := dt_callType i, dt_accountId := dt_accountId i,
     dt_state := dt_state i, dt_callMode := dt_callMode i, dt_index := dt_index i,
     dt_voiceDomain := dt_voiceDomain i, dt_mpty := dt_mpty i, dt_crsType := dt_crsType i,
     dt_originalCallType := dt_originalCallType i,
     dt_phoneNum := dt_phoneNum i, dt_bundleName := dt_bundleName i,
     dt_name := dt_name i, dt_namePresentation := dt_namePresentation i,
     dt_reason := dt_reason i, dt_message := dt_message i,
     dt_newCallUseBox := dt_newCallUseBox i, dt_rttState := dt_rttState i,
     dt_rttChannelId := dt_rttChannelId i, dt_imsDomain := dt_imsDomain i\<rparr>"

definition store_rtt_state :: "service_env \<Rightarrow> CallDetailInfo \<Rightarrow> unit step" where
  "store_rtt_state E i = do {
     call \<leftarrow> find_ptr (GetOneCallObjectByIndex (dt_index i));
     (case call of
        None \<Rightarrow> State_Monad.return ()
      | Some p \<Rightarrow> whenever (dt_callType i = TYPE_IMS) (on_call p (SetRttState (dt_rttState i)))) }"

definition BuildCallDetailsInfo :: "service_env \<Rightarrow> CallDetailInfo list \<Rightarrow> CallDetailInfo list step" where
  "BuildCallDetailsInfo E is = do {
     _ \<leftarrow> whenever (support_rtt_call (se_build E)) (each (store_rtt_state E) (map copy_detail is));
     State_Monad.return (map copy_detail is) }"

text \<open>The calls dropped before the device is set up are reported, one cause for each condition.\<close>

definition ReportIncomingCallsDropChrEvents ::
  "int \<Rightarrow> bool \<Rightarrow> bool \<Rightarrow> CallDetailInfo list \<Rightarrow> unit step" where
  "ReportIncomingCallsDropChrEvents slotId isDevProvisioned isOobeComplete is =
     each (\<lambda>i. whenever (dt_state i = CALL_STATUS_INCOMING) (do {
       _ \<leftarrow> whenever (\<not> isDevProvisioned) (emit (StatusPolicyEffect
         (ReportCallDropChrEvent slotId (dt_index i) DROP_CALL_BY_INVALID_DEVICE_PROPERTY)));
       whenever (\<not> isOobeComplete) (emit (StatusPolicyEffect
         (ReportCallDropChrEvent slotId (dt_index i) DROP_CALL_BY_OOBE))) })) is"

definition UpdateCallsReportInfo :: "service_env \<Rightarrow> int \<Rightarrow> CallDetailInfo list \<Rightarrow> ErrCode step" where
  "UpdateCallsReportInfo E slotId is =
     (if \<not> se_statusManager E then State_Monad.return TELEPHONY_ERR_LOCAL_PTR_NULL
      else do {
        v \<leftarrow> GetDevProvisioned E;
        u \<leftarrow> GetDevUserSetupCompleteValue E;
        (if v \<noteq> DEVICE_PROVISION_VALID \<or> u \<noteq> DEVICE_PROVISION_VALID
         then do {
           _ \<leftarrow> ReportIncomingCallsDropChrEvents slotId (v = DEVICE_PROVISION_VALID)
                 (u = DEVICE_PROVISION_VALID) is;
           State_Monad.return TELEPHONY_SUCCESS }
         else do {
           js \<leftarrow> BuildCallDetailsInfo E is;
           _ \<leftarrow> queue_report (CallsReport slotId js);
           State_Monad.return TELEPHONY_SUCCESS }) })"

definition NORMAL_CALL_CLEARING :: int where "NORMAL_CALL_CLEARING = 16"
definition DISCONNECTED_REASON_NORMAL :: int where "DISCONNECTED_REASON_NORMAL = 0"

definition UpdateDisconnectedCause :: "service_env \<Rightarrow> int \<Rightarrow> string \<Rightarrow> ErrCode step" where
  "UpdateDisconnectedCause E reason message =
     (if \<not> se_statusManager E then State_Monad.return TELEPHONY_ERR_LOCAL_PTR_NULL
      else do {
        _ \<leftarrow> queue_report (DisconnectCause
               (if reason = DISCONNECTED_REASON_NORMAL then NORMAL_CALL_CLEARING else reason) message);
        State_Monad.return TELEPHONY_SUCCESS })"

definition queue_if_ready :: "service_env \<Rightarrow> Report \<Rightarrow> ErrCode step" where
  "queue_if_ready E x =
     (if \<not> se_statusManager E then State_Monad.return TELEPHONY_ERR_LOCAL_PTR_NULL
      else do { _ \<leftarrow> queue_report x; State_Monad.return TELEPHONY_SUCCESS })"

definition UpdateEventResultInfo :: "service_env \<Rightarrow> int \<Rightarrow> RequestResultEventId \<Rightarrow> ErrCode step" where
  "UpdateEventResultInfo E eventType eventId = queue_if_ready E (EventResult eventType eventId)"

definition UpdateOttEventInfo :: "service_env \<Rightarrow> int \<Rightarrow> string \<Rightarrow> ErrCode step" where
  "UpdateOttEventInfo E eventId bundleName = queue_if_ready E (OttEvent eventId bundleName)"

definition UpdateVoipEventInfo :: "service_env \<Rightarrow> string \<Rightarrow> string \<Rightarrow> int \<Rightarrow> VoipCallEvent \<Rightarrow> ErrCode step" where
  "UpdateVoipEventInfo E voipCallId bundleName uid event =
     queue_if_ready E (VoipEvent voipCallId bundleName uid event)"

definition UpdateRttEventInfo_closed :: "service_env \<Rightarrow> unit step" where
  "UpdateRttEventInfo_closed E = whenever (se_statusManager E) (queue_report RttClosed)"

subsection \<open>A call the service reports as disconnected\<close>

text \<open>CallObjectManager::ReportCallDisconnected and DealFailDial.\<close>

definition ReportCallDisconnected :: "service_env \<Rightarrow> ptr option \<Rightarrow> ErrCode step" where
  "ReportCallDisconnected E call =
     (case call of
        None \<Rightarrow> State_Monad.return TELEPHONY_ERR_LOCAL_PTR_NULL
      | Some p \<Rightarrow> do {
          c \<leftarrow> call_of p;
          (let i = zeroed_detail\<lparr>dt_callType := m_callType c, dt_accountId := slot_of E c,
                     dt_index := GetCallIndex c, dt_state := CALL_STATUS_DISCONNECTED,
                     dt_callMode := m_videoState c,
                     dt_voiceDomain := CallType_code (m_callType c)\<rparr> in
           if length (m_accountNumber c) > kMaxNumberLen
           then State_Monad.return CALL_ERR_NUMBER_OUT_OF_RANGE
           else UpdateCallReportInfo E (i\<lparr>dt_phoneNum := m_accountNumber c\<rparr>)) })"

definition DealFailDial :: "service_env \<Rightarrow> ptr option \<Rightarrow> ErrCode step" where
  "DealFailDial E call = ReportCallDisconnected E call"

lemmas reporting_defs = UpdateCallReportInfo_def submit_report_def report_consumed_def
  DisconnectBtCallWhenPhoneAnswered_def DisconnectTransferCall_def queue_report_def
  GetDevProvisioned_def UpdateDevProvisioned_def ReportCallDisconnected_def DealFailDial_def

end
