(* ===== verification/Call_Notify.thy ===== *)
theory Call_Notify
  imports Call_Reporting
begin

text \<open>
  What CallControlManager (\<^verbatim>\<open>services/call/src/call_control_manager.cpp\<close>) tells the
  observers of calls, with the filter for calls transferred from another device
  (\<^verbatim>\<open>services/telephony_interaction/src/bluetooth_call_connection.cpp\<close>), and its timer
  for a hang-up that waits for the stack to know the call.
\<close>

subsection \<open>Transferred calls\<close>

text \<open>
  Telling the transfer service also warns once when the call rings and a headset is
  connected.
\<close>

definition BluetoothCallConnection_NotifyTransferCall :: "service_env \<Rightarrow> ptr \<Rightarrow> unit step" where
  "BluetoothCallConnection_NotifyTransferCall E p = do {
     _ \<leftarrow> emit (Notified (NotifyTransferCall p));
     c \<leftarrow> call_of p;
     whenever ((m_callState c = CALL_STATUS_INCOMING \<or> m_callState c = CALL_STATUS_WAITING) \<and>
               se_btHeadset E \<and> \<not> m_isBluetoothHeadsetWarned c)
       (do { _ \<leftarrow> emit (System (ShowDialog (DialogConnect ''CALL_WARN_OPEN_BLUETOOTH'')));
             on_call p (SetIsBluetoothHeadsetWarned True) }) }"

text \<open>The result says whether the call is to be kept from the observers.\<close>

definition HandleTransferCallReportInfo :: "service_env \<Rightarrow> ptr \<Rightarrow> bool step" where
  "HandleTransferCallReportInfo E p = do {
     c \<leftarrow> call_of p;
     (if m_callType c \<noteq> TYPE_BLUETOOTH then State_Monad.return False
      else if \<not> IsTransferCall (se_build E) c then State_Monad.return False
      else do {
        _ \<leftarrow> BluetoothCallConnection_NotifyTransferCall E p;
        c \<leftarrow> call_of p;
        State_Monad.return (\<not> m_isTransferCallAllow c) }) }"

definition transfer_forbidden :: "service_env \<Rightarrow> ptr \<Rightarrow> bool step" where
  "transfer_forbidden E p =
     (if call_transfer (se_build E) then HandleTransferCallReportInfo E p
      else State_Monad.return False)"

subsection \<open>Notifications\<close>

definition IsCallActivated :: "TelCallState \<Rightarrow> TelCallState \<Rightarrow> bool" where
  "IsCallActivated priorState nextState =
     ((priorState = CALL_STATUS_DIALING \<and> nextState = CALL_STATUS_ALERTING) \<or>
      (priorState = CALL_STATUS_DIALING \<and> nextState = CALL_STATUS_ACTIVE) \<or>
      (priorState = CALL_STATUS_INCOMING \<and> nextState = CALL_STATUS_ACTIVE) \<or>
      (priorState = CALL_STATUS_ALERTING \<and> nextState = CALL_STATUS_ACTIVE))"

definition NotifyNewCallCreated :: "service_env \<Rightarrow> ptr option \<Rightarrow> bool step" where
  "NotifyNewCallCreated E call =
     (case call of
        None \<Rightarrow> State_Monad.return False
      | Some p \<Rightarrow> do {
          forbidden \<leftarrow> transfer_forbidden E p;
          (if forbidden then State_Monad.return True
           else do {
             _ \<leftarrow> whenever (se_listener E) (emit (Notified (NewCallCreated p)));
             State_Monad.return True }) })"

definition NotifyCallDestroyed :: "service_env \<Rightarrow> int \<Rightarrow> string \<Rightarrow> bool step" where
  "NotifyCallDestroyed E reason message =
     (if se_listener E then do {
        _ \<leftarrow> emit (Notified (CallDestroyed reason message));
        State_Monad.return True }
      else State_Monad.return False)"

text \<open>
  A state change goes to the observers; then the audio of a call shared with another
  device is switched when the call becomes active, and released after the last one.
\<close>

definition switch_distributed_audio ::
  "service_env \<Rightarrow> TelCallState \<Rightarrow> TelCallState \<Rightarrow> unit step" where
  "switch_distributed_audio E priorState nextState = do {
     hasHoldCall \<leftarrow> find_ptr HasHoldCall;
     (if IsCallActivated priorState nextState
      then emit (Audio CheckAndSwitchDistributedAudioDevice)
      else if (priorState = CALL_STATUS_ACTIVE \<and> nextState = CALL_STATUS_DISCONNECTED) \<or>
              (priorState = CALL_STATUS_DISCONNECTING \<and> nextState = CALL_STATUS_DISCONNECTED)
      then whenever (\<not> hasHoldCall) (emit (Audio OnActivedCallDisconnected))
      else whenever (priorState = CALL_STATUS_WAITING \<and> nextState = CALL_STATUS_ACTIVE \<and>
                     se_dcallSwitchedOn E)
        (emit (Audio CheckAndSwitchDistributedAudioDevice))) }"

definition NotifyCallStateUpdated ::
  "service_env \<Rightarrow> ptr option \<Rightarrow> TelCallState \<Rightarrow> TelCallState \<Rightarrow> bool step" where
  "NotifyCallStateUpdated E call priorState nextState =
     (case call of
        None \<Rightarrow> State_Monad.return False
      | Some p \<Rightarrow> (if \<not> se_listener E then State_Monad.return False
          else do {
            forbidden \<leftarrow> transfer_forbidden E p;
            (if forbidden then State_Monad.return True
             else do {
               _ \<leftarrow> emit (Notified (CallStateUpdated p priorState nextState));
               c \<leftarrow> call_of p;
               (if m_callType c = TYPE_VOIP then State_Monad.return True
                else do {
                  _ \<leftarrow> switch_distributed_audio E priorState nextState;
                  State_Monad.return True }) }) }))"

definition NotifyIncomingCallAnswered :: "service_env \<Rightarrow> ptr option \<Rightarrow> bool step" where
  "NotifyIncomingCallAnswered E call =
     (case call of
        None \<Rightarrow> State_Monad.return False
      | Some p \<Rightarrow> do {
          forbidden \<leftarrow> transfer_forbidden E p;
          (if forbidden then State_Monad.return True
           else if se_listener E then do {
             _ \<leftarrow> emit (Notified (IncomingCallActivated p));
             State_Monad.return True }
           else State_Monad.return False) })"

definition NotifyIncomingCallRejected ::
  "service_env \<Rightarrow> ptr option \<Rightarrow> bool \<Rightarrow> string \<Rightarrow> bool step" where
  "NotifyIncomingCallRejected E call isSendSms content =
     (case call of
        None \<Rightarrow> State_Monad.return False
      | Some p \<Rightarrow> do {
          forbidden \<leftarrow> transfer_forbidden E p;
          (if forbidden then State_Monad.return True
           else if se_listener E then do {
             _ \<leftarrow> emit (Notified (IncomingCallHungUp p isSendSms content));
             State_Monad.return True }
           else State_Monad.return False) })"

definition NotifyCallEventUpdated :: "service_env \<Rightarrow> CallEventInfo \<Rightarrow> bool step" where
  "NotifyCallEventUpdated E info =
     (if se_listener E then do {
        _ \<leftarrow> emit (Notified (CallEventUpdated info));
        State_Monad.return True }
      else State_Monad.return False)"

definition sendEventToVoip :: "service_env \<Rightarrow> CallAbilityEventId \<Rightarrow> bool step" where
  "sendEventToVoip E eventId =
     NotifyCallEventUpdated E \<lparr>ev_eventId = eventId, ev_phoneNum = [], ev_bundleName = []\<rparr>"

subsection \<open>The timer of a hang-up that waits\<close>

definition PostPendingHangupProtectTask :: "int \<Rightarrow> unit step" where
  "PostPendingHangupProtectTask callId = do {
     t \<leftarrow> reads s_pendingHangupTask;
     whenever (t = None) (change (\<lambda>s. s\<lparr>s_pendingHangupTask := Some callId\<rparr>)) }"

definition RemovePendingHangupProtectTask :: "unit step" where
  "RemovePendingHangupProtectTask = change (\<lambda>s. s\<lparr>s_pendingHangupTask := None\<rparr>)"

text \<open>The task, when it runs: it keeps the id it was posted with.\<close>

definition pending_hangup_task :: "service_env \<Rightarrow> int \<Rightarrow> unit step" where
  "pending_hangup_task E callId = do {
     h \<leftarrow> reads s_helper;
     whenever (HasPendingHangup callId h) (do {
       call \<leftarrow> find_ptr (GetOneCallObject callId);
       _ \<leftarrow> whenever (call \<noteq> None) (do { _ \<leftarrow> DealFailDial E call; State_Monad.return () });
       _ \<leftarrow> on_helper (SetPendingHangup False (-1));
       change (\<lambda>s. s\<lparr>s_pendingHangupTask := None\<rparr>) }) }"

lemmas notify_defs = NotifyNewCallCreated_def NotifyCallStateUpdated_def
  NotifyIncomingCallAnswered_def NotifyIncomingCallRejected_def NotifyCallEventUpdated_def
  NotifyCallDestroyed_def transfer_forbidden_def HandleTransferCallReportInfo_def
  BluetoothCallConnection_NotifyTransferCall_def switch_distributed_audio_def

end
