(* ===== verification/Call_Request.thy ===== *)
theory Call_Request
  imports Call_Notify
begin

text \<open>
  The requests of the user once the checks have passed
  (\<^verbatim>\<open>services/call/src/call_request_process.cpp\<close>): which calls an answer, a hang-up, a
  hold or a dial concerns when there are several calls on one or two SIM cards, and what
  is asked of the stack for each.  A loop over the ids of the calls reads the registry
  anew in every round, as the code does.
\<close>

subsection \<open>Questions about the calls\<close>

definition IsDsdsMode3 :: "service_env \<Rightarrow> bool" where
  "IsDsdsMode3 E = (se_dsdsMode E = DSDS_MODE_V3)"

definition IsDsdsMode5 :: "service_env \<Rightarrow> bool" where
  "IsDsdsMode5 E = (se_dsdsMode E = DSDS_MODE_V5_DSDA \<or> se_dsdsMode E = DSDS_MODE_V5_TDM)"

definition HasConnectingCall :: "bool \<Rightarrow> registry \<Rightarrow> bool" where
  "HasConnectingCall isIncludeVoipCall r =
     (\<not> (GetCallNum CALL_STATUS_DIALING isIncludeVoipCall r = 0 \<and>
         GetCallNum CALL_STATUS_ALERTING isIncludeVoipCall r = 0))"

definition HasActivedCall :: "bool \<Rightarrow> registry \<Rightarrow> bool" where
  "HasActivedCall isIncludeVoipCall r =
     (\<not> (GetCallNum CALL_STATUS_ACTIVE isIncludeVoipCall r = 0 \<and>
         GetCallNum CALL_STATUS_HOLDING isIncludeVoipCall r = 0 \<and>
         GetCallNum CALL_STATUS_ANSWERED isIncludeVoipCall r = 0))"

definition holds_at :: "registry \<Rightarrow> ptr option \<Rightarrow> (call \<Rightarrow> bool) \<Rightarrow> bool" where
  "holds_at r call P = (case call of None \<Rightarrow> False | Some p \<Rightarrow> P (r_heap r p))"

definition NeedAnswerVTAndEndActiveVO :: "int \<Rightarrow> int \<Rightarrow> registry \<Rightarrow> bool" where
  "NeedAnswerVTAndEndActiveVO callId videoState r =
     (let activeCall = GetOneCarrierCallObject CALL_RUNNING_STATE_ACTIVE r;
          holdingCall = GetOneCarrierCallObject CALL_RUNNING_STATE_HOLD r in
      if holds_at r activeCall (\<lambda>c. m_callId c = callId) \<or> holds_at r holdingCall (\<lambda>c. m_callId c = callId)
      then False
      else if HasConnectingCall False r \<or> HasActivedCall False r
      then videoState \<noteq> VideoStateType_code TYPE_VOICE else False)"

definition NeedAnswerVOAndEndActiveVT :: "int \<Rightarrow> int \<Rightarrow> registry \<Rightarrow> bool" where
  "NeedAnswerVOAndEndActiveVT callId videoState r =
     (if videoState \<noteq> VideoStateType_code TYPE_VOICE then False
      else if HasActivedCall False r then
        (let video = (\<lambda>c. m_videoState c \<noteq> TYPE_VOICE \<and> m_callId c \<noteq> callId) in
         holds_at r (GetOneCarrierCallObject CALL_RUNNING_STATE_ACTIVE r) video \<or>
         holds_at r (GetOneCarrierCallObject CALL_RUNNING_STATE_HOLD r) video)
      else False)"

definition GetOtherRingingCall :: "int \<Rightarrow> registry \<Rightarrow> int" where
  "GetOtherRingingCall currentCallId r =
     (case List.find (\<lambda>i. i \<noteq> currentCallId \<and>
             holds_at r (GetOneCallObject i r) (\<lambda>c. m_callRunningState c = CALL_RUNNING_STATE_RINGING))
           (GetCarrierCallList r) of
        None \<Rightarrow> INVALID_CALLID
      | Some i \<Rightarrow> m_callId (r_heap r (the (GetOneCallObject i r))))"

definition IsExistCallOtherSlot :: "service_env \<Rightarrow> int list \<Rightarrow> int \<Rightarrow> bool \<Rightarrow> registry \<Rightarrow> bool" where
  "IsExistCallOtherSlot E callIdList slotId noOtherCall r =
     (if length callIdList > 1 \<and>
         list_ex (\<lambda>i. holds_at r (GetOneCallObject i r) (\<lambda>c. slot_of E c \<noteq> slotId)) callIdList
      then False else noOtherCall)"

subsection \<open>Answering\<close>

text \<open>
  For each other call in turn, with two SIM cards in use: hang it up, hold it or leave it
  alone, depending on how many calls wait and on what is on hold; one of the branches
  answers the incoming call at once.  The flag remembers that a call was put on hold.
\<close>

definition answer_now :: "service_env \<Rightarrow> int \<Rightarrow> ptr \<Rightarrow> unit step" where
  "answer_now E videoState p = do {
     _ \<leftarrow> answer_call E videoState False p;
     on_call p (SetAutoAnswerState False) }"

definition HandleCallWaitingNumZero ::
  "service_env \<Rightarrow> ptr \<Rightarrow> ptr \<Rightarrow> int \<Rightarrow> nat \<Rightarrow> bool \<Rightarrow> bool step" where
  "HandleCallWaitingNumZero E incomingCall call slotId activeCallNum flagForConference = do {
     holdCall \<leftarrow> find_ptr (GetOneCallObject_running CALL_RUNNING_STATE_HOLD);
     c \<leftarrow> call_of call;
     inc \<leftarrow> call_of incomingCall;
     (let dialing = (m_callState c = CALL_STATUS_DIALING \<or> m_callState c = CALL_STATUS_ALERTING);
          active = (m_callRunningState c = CALL_RUNNING_STATE_ACTIVE) in
      case holdCall of
        Some h \<Rightarrow> do {
          _ \<leftarrow> (if dialing then do { _ \<leftarrow> hang_up_call E call; State_Monad.return () }
               else whenever (activeCallNum > 0)
                      (do { _ \<leftarrow> hang_up_call E h; State_Monad.return () }));
          c \<leftarrow> call_of call;
          (if m_callRunningState c = CALL_RUNNING_STATE_ACTIVE \<and> \<not> flagForConference
           then do { _ \<leftarrow> hold_call E call; State_Monad.return True }
           else State_Monad.return flagForConference) }
      | None \<Rightarrow>
          if dialing then do { _ \<leftarrow> hang_up_call E call; State_Monad.return flagForConference }
          else if active \<and> \<not> flagForConference then
            (if se_modifying E call
             then do { _ \<leftarrow> hang_up_call E call; State_Monad.return flagForConference }
             else do { _ \<leftarrow> hold_call E call; State_Monad.return True })
          else if m_autoAnswerState inc \<and>
                  (m_callState c = CALL_STATUS_INCOMING \<or> m_callState c = CALL_STATUS_WAITING)
          then do { _ \<leftarrow> answer_now E (VideoStateType_code (m_videoState inc)) incomingCall;
                    State_Monad.return flagForConference }
          else State_Monad.return flagForConference) }"

definition HandleCallWaitingNumOneNext ::
  "service_env \<Rightarrow> ptr \<Rightarrow> ptr \<Rightarrow> ptr \<Rightarrow> int \<Rightarrow> bool \<Rightarrow> bool step" where
  "HandleCallWaitingNumOneNext E incomingCall call holdCall slotId flagForConference = do {
     activeCallNum \<leftarrow> call_num CALL_STATUS_ACTIVE;
     dialingCallNum \<leftarrow> call_num CALL_STATUS_DIALING;
     alertingCallNum \<leftarrow> call_num CALL_STATUS_ALERTING;
     c \<leftarrow> call_of call;
     _ \<leftarrow> (if m_callState c = CALL_STATUS_DIALING \<or> m_callState c = CALL_STATUS_ALERTING
          then do { _ \<leftarrow> hang_up_call E call; State_Monad.return () }
          else whenever (activeCallNum > 0)
            (do { _ \<leftarrow> hang_up_call E holdCall; change (\<lambda>s. s\<lparr>s_flagForDsda := True\<rparr>) }));
     c \<leftarrow> call_of call;
     inc \<leftarrow> call_of incomingCall;
     r \<leftarrow> reads s_reg;
     (if m_callRunningState c = CALL_RUNNING_STATE_ACTIVE \<and> \<not> flagForConference then
        (if IsCallExist_type (m_callType c) CALL_STATUS_INCOMING r \<and> slot_of E c \<noteq> slotId
         then do { _ \<leftarrow> hang_up_call E call; State_Monad.return flagForConference }
         else do { _ \<leftarrow> hold_call E call; State_Monad.return True })
      else if activeCallNum = 0 \<and> m_autoAnswerState inc \<and> alertingCallNum = 0 \<and> dialingCallNum = 0
      then do { _ \<leftarrow> answer_now E (VideoStateType_code (m_videoState inc)) incomingCall;
                State_Monad.return flagForConference }
      else State_Monad.return flagForConference) }"

definition HandleCallWaitingNumOne ::
  "service_env \<Rightarrow> ptr \<Rightarrow> ptr \<Rightarrow> int \<Rightarrow> nat \<Rightarrow> bool \<Rightarrow> bool step" where
  "HandleCallWaitingNumOne E incomingCall call slotId activeCallNum flagForConference = do {
     holdCall \<leftarrow> find_ptr (GetOneCallObject_running CALL_RUNNING_STATE_HOLD);
     currentCallNum \<leftarrow> current_call_num;
     c \<leftarrow> call_of call;
     flagForDsda \<leftarrow> reads s_flagForDsda;
     (case holdCall of
        Some h \<Rightarrow> HandleCallWaitingNumOneNext E incomingCall call h slotId flagForConference
      | None \<Rightarrow>
          if currentCallNum = 2
          then HandleCallWaitingNumZero E incomingCall call slotId activeCallNum flagForConference
          else if m_callRunningState c = CALL_RUNNING_STATE_ACTIVE \<and> \<not> flagForConference then
            (if slot_of E c \<noteq> slotId \<and> flagForDsda then do {
               _ \<leftarrow> hold_call E call;
               _ \<leftarrow> change (\<lambda>s. s\<lparr>s_flagForDsda := False\<rparr>);
               State_Monad.return True }
             else if slot_of E c \<noteq> slotId
             then do { _ \<leftarrow> hang_up_call E call; State_Monad.return flagForConference }
             else do { _ \<leftarrow> hold_call E call; State_Monad.return True })
          else State_Monad.return flagForConference) }"

definition HandleCallWaitingNumTwo ::
  "service_env \<Rightarrow> ptr \<Rightarrow> ptr \<Rightarrow> int \<Rightarrow> nat \<Rightarrow> bool \<Rightarrow> bool step" where
  "HandleCallWaitingNumTwo E incomingCall call slotId activeCallNum flagForConference = do {
     holdCall \<leftarrow> find_ptr (GetOneCallObject_running CALL_RUNNING_STATE_HOLD);
     currentCallNum \<leftarrow> current_call_num;
     (if currentCallNum = 3
      then HandleCallWaitingNumOne E incomingCall call slotId activeCallNum flagForConference
      else do {
        _ \<leftarrow> (case holdCall of None \<Rightarrow> State_Monad.return ()
             | Some h \<Rightarrow> do { _ \<leftarrow> hang_up_call E h; State_Monad.return () });
        c \<leftarrow> call_of call;
        (if m_callRunningState c = CALL_RUNNING_STATE_ACTIVE \<and> \<not> flagForConference then
           (if slot_of E c = slotId then do { _ \<leftarrow> hold_call E call; State_Monad.return True }
            else do { _ \<leftarrow> hang_up_call E call; State_Monad.return flagForConference })
         else State_Monad.return flagForConference) }) }"

definition HandleDsdaIncomingCall ::
  "service_env \<Rightarrow> ptr \<Rightarrow> nat \<Rightarrow> int \<Rightarrow> int \<Rightarrow> ptr \<Rightarrow> bool step" where
  "HandleDsdaIncomingCall E call activeCallNum slotId videoState incomingCall = do {
     alertingCallNum \<leftarrow> call_num CALL_STATUS_ALERTING;
     dialingCallNum \<leftarrow> call_num CALL_STATUS_DIALING;
     answeredCallNum \<leftarrow> call_num CALL_STATUS_ANSWERED;
     c \<leftarrow> call_of call;
     (if (m_callState c = CALL_STATUS_DISCONNECTING \<or> m_callState c = CALL_STATUS_HOLDING) \<and>
         activeCallNum = 0 \<and> alertingCallNum = 0 \<and> dialingCallNum = 0 \<and> answeredCallNum = 0
      then do {
        _ \<leftarrow> whenever (slot_of E c \<noteq> slotId) (answer_now E videoState incomingCall);
        State_Monad.return True }
      else State_Monad.return False) }"

text \<open>One round of the loop over the other calls, and the loop; it passes the flag on.\<close>

definition handle_other_call ::
  "service_env \<Rightarrow> int \<Rightarrow> int \<Rightarrow> int \<Rightarrow> nat \<Rightarrow> nat \<Rightarrow> int \<Rightarrow> bool \<Rightarrow> bool step" where
  "handle_other_call E callId slotId videoState waitingCallNum activeCallNum otherCallId flag = do {
     call \<leftarrow> find_ptr (GetOneCallObject otherCallId);
     incomingCall \<leftarrow> find_ptr (GetOneCallObject callId);
     (case (call, incomingCall) of
        (Some p, Some q) \<Rightarrow>
          if p \<noteq> q then do {
            done \<leftarrow> HandleDsdaIncomingCall E p activeCallNum slotId videoState q;
            currentCallNum \<leftarrow> current_call_num;
            (if done then State_Monad.return flag
             else if waitingCallNum > 1 \<or> currentCallNum = 4
             then HandleCallWaitingNumTwo E q p slotId activeCallNum flag
             else if waitingCallNum = 1
             then HandleCallWaitingNumOne E q p slotId activeCallNum flag
             else HandleCallWaitingNumZero E q p slotId activeCallNum flag) }
          else State_Monad.return flag
      | _ \<Rightarrow> State_Monad.return flag) }"

fun other_calls_loop ::
  "service_env \<Rightarrow> int \<Rightarrow> int \<Rightarrow> int \<Rightarrow> nat \<Rightarrow> nat \<Rightarrow> int list \<Rightarrow> bool \<Rightarrow> unit step" where
  "other_calls_loop E callId slotId videoState w a [] flag = State_Monad.return ()"
| "other_calls_loop E callId slotId videoState w a (i # is) flag = do {
     flag \<leftarrow> handle_other_call E callId slotId videoState w a i flag;
     other_calls_loop E callId slotId videoState w a is flag }"

definition answer_and_notify :: "service_env \<Rightarrow> int \<Rightarrow> bool \<Rightarrow> ptr \<Rightarrow> unit step" where
  "answer_and_notify E videoState isRTT p = do {
     ret \<leftarrow> answer_call E videoState isRTT p;
     whenever (ret = TELEPHONY_SUCCESS)
       (do { _ \<leftarrow> NotifyIncomingCallAnswered E (Some p); State_Monad.return () }) }"

definition HoldOrDisconnectedCall :: "service_env \<Rightarrow> int \<Rightarrow> int \<Rightarrow> int \<Rightarrow> unit step" where
  "HoldOrDisconnectedCall E callId slotId videoState = do {
     callIdList \<leftarrow> find_ptr GetCarrierCallList;
     noOtherCall \<leftarrow> find_ptr (IsExistCallOtherSlot E callIdList slotId True);
     (if noOtherCall then do {
        call \<leftarrow> find_ptr (GetOneCallObject callId);
        (case call of
           None \<Rightarrow> State_Monad.return ()
         | Some p \<Rightarrow> do {
             ret \<leftarrow> answer_call E videoState False p;
             _ \<leftarrow> on_call p (SetAutoAnswerState False);
             whenever (ret = TELEPHONY_SUCCESS)
               (do { _ \<leftarrow> NotifyIncomingCallAnswered E (Some p); State_Monad.return () }) }) }
      else do {
        waitingCallNum \<leftarrow> call_num CALL_STATUS_WAITING;
        activeCallNum \<leftarrow> call_num CALL_STATUS_ACTIVE;
        other_calls_loop E callId slotId videoState waitingCallNum activeCallNum callIdList False }) }"

fun hang_up_other_slots :: "service_env \<Rightarrow> ptr \<Rightarrow> int \<Rightarrow> int list \<Rightarrow> bool \<Rightarrow> bool step" where
  "hang_up_other_slots E incomingCall slotId [] noOtherCall = State_Monad.return noOtherCall"
| "hang_up_other_slots E incomingCall slotId (i # is) noOtherCall = do {
     call \<leftarrow> find_ptr (GetOneCallObject i);
     other \<leftarrow> find_ptr (\<lambda>r. holds_at r call (\<lambda>c. slot_of E c \<noteq> slotId));
     _ \<leftarrow> whenever other (do {
            _ \<leftarrow> on_call incomingCall (SetAutoAnswerState True);
            _ \<leftarrow> hang_up_call E (the call);
            State_Monad.return () });
     hang_up_other_slots E incomingCall slotId is (if other then False else noOtherCall) }"

definition DisconnectOtherSubIdCall :: "service_env \<Rightarrow> int \<Rightarrow> int \<Rightarrow> int \<Rightarrow> unit step" where
  "DisconnectOtherSubIdCall E callId slotId videoState = do {
     incomingCall \<leftarrow> find_ptr (GetOneCallObject callId);
     (case incomingCall of
        None \<Rightarrow> State_Monad.return ()
      | Some p \<Rightarrow> do {
          callIdList \<leftarrow> find_ptr GetCarrierCallList;
          noOtherCall \<leftarrow> (if length callIdList > 1
                         then hang_up_other_slots E p slotId callIdList True
                         else State_Monad.return True);
          whenever noOtherCall (answer_and_notify E videoState False p) }) }"

definition ends_for_video :: "int \<Rightarrow> call \<Rightarrow> bool" where
  "ends_for_video callId c =
     (m_callId c \<noteq> callId \<and>
      (m_callRunningState c = CALL_RUNNING_STATE_ACTIVE \<or>
       m_callRunningState c = CALL_RUNNING_STATE_DIALING \<or>
       m_callRunningState c = CALL_RUNNING_STATE_HOLD))"

definition DisconnectOtherCallForVideoCall :: "service_env \<Rightarrow> int \<Rightarrow> unit step" where
  "DisconnectOtherCallForVideoCall E callId = do {
     callIdList \<leftarrow> find_ptr GetCarrierCallList;
     each (\<lambda>i. do {
       call \<leftarrow> find_ptr (GetOneCallObject i);
       ends \<leftarrow> find_ptr (\<lambda>r. holds_at r call (ends_for_video callId));
       whenever ends (do { _ \<leftarrow> hang_up_call E (the call); State_Monad.return () }) }) callIdList }"

definition callCrsType :: int where "callCrsType = 2"

definition AnswerRequestForDsda :: "service_env \<Rightarrow> ptr \<Rightarrow> int \<Rightarrow> int \<Rightarrow> bool \<Rightarrow> unit step" where
  "AnswerRequestForDsda E call callId videoState isRTT = do {
     c \<leftarrow> call_of call;
     r \<leftarrow> reads s_reg;
     (if NeedAnswerVTAndEndActiveVO callId videoState r \<or> NeedAnswerVOAndEndActiveVT callId videoState r
      then do {
        _ \<leftarrow> DisconnectOtherCallForVideoCall E callId;
        on_call call (SetAutoAnswerState True) }
      else if IsDsdsMode3 E then DisconnectOtherSubIdCall E callId (slot_of E c) videoState
      else if IsDsdsMode5 E then
        (let ringing = (if GetOtherRingingCall callId r \<noteq> INVALID_CALLID
                        then GetOneCallObject (GetOtherRingingCall callId r) r else None) in
         if holds_at r ringing (\<lambda>c. m_crsType c = callCrsType)
         then do {
           _ \<leftarrow> hang_up_call E (the ringing);
           on_call call (SetAutoAnswerState True) }
         else do {
           _ \<leftarrow> on_call call (SetAutoAnswerState True);
           HoldOrDisconnectedCall E callId (slot_of E c) videoState })
      else answer_and_notify E videoState isRTT call) }"

definition AnswerRequest :: "service_env \<Rightarrow> int \<Rightarrow> int \<Rightarrow> bool \<Rightarrow> unit step" where
  "AnswerRequest E callId videoState isRTT = do {
     call \<leftarrow> find_ptr (GetOneCallObject callId);
     (case call of
        None \<Rightarrow> State_Monad.return ()
      | Some p \<Rightarrow> do {
          _ \<leftarrow> on_call p (SetAnswerVideoState videoState);
          c \<leftarrow> call_of p;
          (if m_callType c = TYPE_VOIP then answer_and_notify E videoState False p
           else AnswerRequestForDsda E p callId videoState isRTT) }) }"

subsection \<open>Rejecting and hanging up\<close>

definition RejectRequest :: "service_env \<Rightarrow> int \<Rightarrow> bool \<Rightarrow> string \<Rightarrow> unit step" where
  "RejectRequest E callId isSendSms content = do {
     call \<leftarrow> find_ptr (GetOneCallObject callId);
     (case call of
        None \<Rightarrow> State_Monad.return ()
      | Some p \<Rightarrow> do {
          ret \<leftarrow> reject_call E p;
          whenever (ret = TELEPHONY_SUCCESS) (do {
            holdCall \<leftarrow> find_ptr (GetOneCallObject_running CALL_RUNNING_STATE_HOLD);
            _ \<leftarrow> (case holdCall of None \<Rightarrow> State_Monad.return ()
                 | Some h \<Rightarrow> on_call h (SetCanUnHoldState False));
            _ \<leftarrow> NotifyIncomingCallRejected E (Some p) isSendSms content;
            State_Monad.return () }) }) }"

definition KickOutFromConferenceRequest :: "service_env \<Rightarrow> int \<Rightarrow> unit step" where
  "KickOutFromConferenceRequest E callId = do {
     call \<leftarrow> find_ptr (GetOneCallObject callId);
     (case call of
        None \<Rightarrow> State_Monad.return ()
      | Some p \<Rightarrow> do {
          _ \<leftarrow> invoke (KickOutFromConference (se_env E)) p;
          State_Monad.return () }) }"

text \<open>The members of a conference are listed as decimal text; the value read back is the id.\<close>

definition str_to_id :: "string \<Rightarrow> int" where
  "str_to_id t = (case t of [] \<Rightarrow> -1 | c # cs \<Rightarrow>
     if c = CHR 0x2D then - int (dec_value cs) else int (dec_value (c # cs)))"

definition kick_out_members :: "service_env \<Rightarrow> ptr \<Rightarrow> unit step" where
  "kick_out_members E p = do {
     c \<leftarrow> call_of p;
     g \<leftarrow> reads s_conf;
     each (\<lambda>t. KickOutFromConferenceRequest E (str_to_id t)) (CallBase_GetSubCallIdList c g) }"

definition HangUpForDsdaRequest :: "service_env \<Rightarrow> ptr \<Rightarrow> bool step" where
  "HangUpForDsdaRequest E p = do {
     c \<leftarrow> call_of p;
     callIdList \<leftarrow> find_ptr GetCarrierCallList;
     noOtherCall \<leftarrow> find_ptr (IsExistCallOtherSlot E callIdList (slot_of E c) True);
     (if IsDsdsMode5 E \<and> \<not> noOtherCall then do {
        _ \<leftarrow> kick_out_members E p;
        State_Monad.return True }
      else State_Monad.return False) }"

definition HangUpRequest :: "service_env \<Rightarrow> int \<Rightarrow> unit step" where
  "HangUpRequest E callId = do {
     call \<leftarrow> find_ptr (GetOneCallObject callId);
     (case call of
        None \<Rightarrow> State_Monad.return ()
      | Some p \<Rightarrow> do {
          waitingCallNum \<leftarrow> call_num CALL_STATUS_WAITING;
          c \<leftarrow> call_of p;
          r \<leftarrow> reads s_reg;
          _ \<leftarrow> (if ((m_callState c = CALL_STATUS_ACTIVE \<and> IsCallExist_type (m_callType c) CALL_STATUS_HOLDING r) \<or>
                   m_conferenceState c = TEL_CONFERENCE_ACTIVE) \<and> waitingCallNum = 0
               then do {
                 done \<leftarrow> HangUpForDsdaRequest E p;
                 whenever (\<not> done) (on_call p (SetPolicyFlag POLICY_FLAG_HANG_UP_ACTIVE)) }
               else if m_conferenceState c = TEL_CONFERENCE_HOLDING \<and> waitingCallNum = 0
               then on_call p (SetPolicyFlag POLICY_FLAG_HANG_UP_HOLD_WAIT)
               else whenever ((m_conferenceState c = TEL_CONFERENCE_HOLDING \<or>
                               m_conferenceState c = TEL_CONFERENCE_ACTIVE) \<and> waitingCallNum \<noteq> 0)
                 (kick_out_members E p));
          _ \<leftarrow> hang_up_call E p;
          State_Monad.return () }) }"

subsection \<open>Holding, switching and conferences\<close>

definition on_existing :: "int \<Rightarrow> (ptr \<Rightarrow> ErrCode step) \<Rightarrow> unit step" where
  "on_existing callId oper = do {
     call \<leftarrow> find_ptr (GetOneCallObject callId);
     (case call of
        None \<Rightarrow> State_Monad.return ()
      | Some p \<Rightarrow> do { _ \<leftarrow> oper p; State_Monad.return () }) }"

definition HoldRequest :: "service_env \<Rightarrow> int \<Rightarrow> unit step" where
  "HoldRequest E callId = on_existing callId (hold_call E)"

text \<open>
  With two SIM cards in use an active call of the other card is put on hold first, once;
  the report that it is held then recovers this call.
\<close>

fun unhold_loop :: "service_env \<Rightarrow> bool \<Rightarrow> int list \<Rightarrow> bool step" where
  "unhold_loop E noOtherCall [] = State_Monad.return False"
| "unhold_loop E noOtherCall (i # is) = do {
     other \<leftarrow> find_ptr (GetOneCallObject i);
     (case other of
        None \<Rightarrow> State_Monad.return True
      | Some p \<Rightarrow> do {
          c \<leftarrow> call_of p;
          g \<leftarrow> reads s_conf;
          (if IsDsdsMode5 E \<and> \<not> noOtherCall \<and> m_callState c = CALL_STATUS_ACTIVE \<and>
              ((m_conferenceState c \<noteq> TEL_CONFERENCE_IDLE \<and> GetMainCallId c g ERR_ID = i) \<or>
               m_conferenceState c = TEL_CONFERENCE_IDLE)
           then (if m_canSwitchCallState c then do {
                   _ \<leftarrow> on_call p (SetCanSwitchCallState False);
                   _ \<leftarrow> hold_call E p;
                   State_Monad.return True }
                 else State_Monad.return True)
           else unhold_loop E noOtherCall is) }) }"

definition UnHoldRequest :: "service_env \<Rightarrow> int \<Rightarrow> unit step" where
  "UnHoldRequest E callId = do {
     call \<leftarrow> find_ptr (GetOneCallObject callId);
     (case call of
        None \<Rightarrow> State_Monad.return ()
      | Some p \<Rightarrow> do {
          _ \<leftarrow> on_call p (SetCanUnHoldState True);
          c \<leftarrow> call_of p;
          callIdList \<leftarrow> find_ptr GetCarrierCallList;
          noOtherCall \<leftarrow> find_ptr (IsExistCallOtherSlot E callIdList (slot_of E c) True);
          returned \<leftarrow> unhold_loop E noOtherCall callIdList;
          whenever (\<not> returned \<and> noOtherCall)
            (do { _ \<leftarrow> unhold_call E p; State_Monad.return () }) }) }"

definition SwitchRequest :: "service_env \<Rightarrow> int \<Rightarrow> unit step" where
  "SwitchRequest E callId = on_existing callId (switch_call E)"

definition CombineConferenceRequest :: "service_env \<Rightarrow> int \<Rightarrow> unit step" where
  "CombineConferenceRequest E mainCallId = on_existing mainCallId (combine_conference E)"

definition SeparateConferenceRequest :: "service_env \<Rightarrow> int \<Rightarrow> unit step" where
  "SeparateConferenceRequest E callId =
     on_existing callId (invoke (SeparateConference (se_env E)))"

definition UpdateImsRttCallModeRequest :: "service_env \<Rightarrow> int \<Rightarrow> ImsRTTCallMode \<Rightarrow> unit step" where
  "UpdateImsRttCallModeRequest E callId mode = do {
     call \<leftarrow> find_ptr (GetOneCallObject callId);
     (case call of
        None \<Rightarrow> State_Monad.return ()
      | Some p \<Rightarrow> do {
          c \<leftarrow> call_of p;
          whenever (m_callType c = TYPE_IMS) (do {
            _ \<leftarrow> invoke (UpdateImsRttCallMode (se_env E) mode) p;
            State_Monad.return () }) }) }"

definition JoinConference :: "service_env \<Rightarrow> int \<Rightarrow> string list \<Rightarrow> unit step" where
  "JoinConference E callId numbers = do {
     call \<leftarrow> find_ptr (GetOneCallObject callId);
     (case call of
        None \<Rightarrow> State_Monad.return ()
      | Some p \<Rightarrow> do {
          c \<leftarrow> call_of p;
          emit (InviteToConference numbers (slot_of E c)) }) }"

end
