(* ===== verification/Call_Dialing.thy ===== *)
theory Call_Dialing
  imports Call_Request
begin

text \<open>
  Dialing (\<^verbatim>\<open>services/call/src/call_request_process.cpp\<close>): the checks that are left when
  the dial parameters are stored, the room that is made for an emergency call, the report
  that announces the new call to the service itself, and the request to the stack, which
  waits when a call of the other SIM card has to be held first; with the handler that
  submits the requests of \<^verbatim>\<open>services/call/src/call_request_handler.cpp\<close>.
\<close>

subsection \<open>Emergency calls make room\<close>

datatype EccRole = EccNone | EccHangUp | EccReject | EccAbort

text \<open>What is to become of an existing call when an emergency number is dialed.\<close>

definition ecc_role :: "call \<Rightarrow> EccRole" where
  "ecc_role c =
     (let s = m_callRunningState c in
      if m_callType c = TYPE_SATELLITE then EccHangUp
      else if s = CALL_RUNNING_STATE_CREATE \<or> s = CALL_RUNNING_STATE_CONNECTING \<or>
              s = CALL_RUNNING_STATE_DIALING
      then (if GetEmergencyState c then EccAbort else EccHangUp)
      else if s = CALL_RUNNING_STATE_RINGING then EccReject
      else if s = CALL_RUNNING_STATE_ACTIVE \<or> s = CALL_RUNNING_STATE_HOLD then EccHangUp
      else EccNone)"

text \<open>The two lists, or nothing when an emergency call is being dialed already.\<close>

fun ecc_lists :: "registry \<Rightarrow> int list \<Rightarrow> ptr list \<Rightarrow> ptr list \<Rightarrow> (ptr list \<times> ptr list) option" where
  "ecc_lists r [] hangup reject = Some (hangup, reject)"
| "ecc_lists r (i # is) hangup reject =
     (case GetOneCallObject i r of
        None \<Rightarrow> ecc_lists r is hangup reject
      | Some p \<Rightarrow>
          (case ecc_role (r_heap r p) of
             EccNone \<Rightarrow> ecc_lists r is hangup reject
           | EccHangUp \<Rightarrow> ecc_lists r is (hangup @ [p]) reject
           | EccReject \<Rightarrow> ecc_lists r is hangup (reject @ [p])
           | EccAbort \<Rightarrow> None))"

definition EccDialPolicy :: "service_env \<Rightarrow> ErrCode step" where
  "EccDialPolicy E = do {
     r \<leftarrow> reads s_reg;
     (case ecc_lists r (GetCarrierCallList r) [] [] of
        None \<Rightarrow> State_Monad.return CALL_ERR_CALL_COUNTS_EXCEED_LIMIT
      | Some (hangup, reject) \<Rightarrow> do {
          _ \<leftarrow> each (\<lambda>p. do { _ \<leftarrow> hang_up_call E p; State_Monad.return () }) hangup;
          _ \<leftarrow> each (\<lambda>p. do { _ \<leftarrow> reject_call E p; State_Monad.return () }) reject;
          State_Monad.return TELEPHONY_SUCCESS }) }"

subsection \<open>Before the request\<close>

definition HandleEccCallForDsda :: "service_env \<Rightarrow> string \<Rightarrow> DialParaInfo \<Rightarrow> (ErrCode \<times> bool) step" where
  "HandleEccCallForDsda E newPhoneNum info =
     (if se_isEcc E newPhoneNum (d_accountId info)
      then do { ret \<leftarrow> EccDialPolicy E; State_Monad.return (ret, True) }
      else State_Monad.return (TELEPHONY_SUCCESS, False))"

definition IsDialCallForDsda :: "service_env \<Rightarrow> DialParaInfo \<Rightarrow> ErrCode step" where
  "IsDialCallForDsda E info = do {
     activeCall \<leftarrow> find_ptr (GetOneCarrierCallObject CALL_RUNNING_STATE_ACTIVE);
     other \<leftarrow> find_ptr (\<lambda>r. holds_at r activeCall (\<lambda>c. slot_of E c \<noteq> d_accountId info));
     (if other then do {
        ret \<leftarrow> hold_call E (the activeCall);
        _ \<leftarrow> whenever (ret = TELEPHONY_SUCCESS) (change (\<lambda>s. s\<lparr>s_needWaitHold := True\<rparr>));
        State_Monad.return ret }
      else State_Monad.return TELEPHONY_SUCCESS) }"

text \<open>
  Whether a new call may be created; the function that answers it takes the mutex of the
  list twice (theory Call\_Object\_Manager), so without a reentrant mutex it does not
  return: the step is left with the fault flag then.
\<close>

definition new_call_allowed :: "service_env \<Rightarrow> bool \<Rightarrow> bool step" where
  "new_call_allowed E reentrant = do {
     v \<leftarrow> reads (\<lambda>s. IsNewCallAllowedCreate reentrant (se_build E) (the_ims (s_conf s)) (s_reg s));
     (case v of
        None \<Rightarrow> do { _ \<leftarrow> fault; State_Monad.return False }
      | Some (_, enabled) \<Rightarrow> State_Monad.return enabled) }"

definition HandleDialingInfo :: "service_env \<Rightarrow> bool \<Rightarrow> string \<Rightarrow> DialParaInfo \<Rightarrow> ErrCode step" where
  "HandleDialingInfo E reentrant newPhoneNum info = do {
     (ret, isEcc) \<leftarrow> HandleEccCallForDsda E newPhoneNum info;
     (if ret \<noteq> TELEPHONY_SUCCESS then State_Monad.return ret
      else if isEcc then State_Monad.return TELEPHONY_SUCCESS
      else do {
        canDial \<leftarrow> new_call_allowed E reentrant;
        (if \<not> canDial then State_Monad.return CALL_ERR_CALL_COUNTS_EXCEED_LIMIT
         else if IsDsdsMode5 E then IsDialCallForDsda E info
         else State_Monad.return TELEPHONY_SUCCESS) }) }"

subsection \<open>The report and the request\<close>

text \<open>CallRequestProcess::UpdateCallReportInfo.\<close>

definition report_dial :: "service_env \<Rightarrow> DialParaInfo \<Rightarrow> TelCallState \<Rightarrow> ErrCode step" where
  "report_dial E info st =
     (let i = zeroed_detail\<lparr>dt_callType := d_callType info, dt_accountId := d_accountId info,
            dt_index := d_index info, dt_state := st, dt_callMode := d_videoState info,
            dt_originalCallType := d_originalCallType info,
            dt_voiceDomain := CallType_code (d_callType info),
            dt_phoneOrWatch := d_phoneOrWatch info, dt_phoneIndex := d_phoneIndex info\<rparr> in
      if length (d_number info) > kMaxNumberLen
      then State_Monad.return CALL_ERR_NUMBER_OUT_OF_RANGE
      else UpdateCallReportInfo E (i\<lparr>dt_phoneNum := d_number info\<rparr>))"

text \<open>CallRequestProcess::PackCellularCallInfo.\<close>

definition pack_dial_info :: "DialParaInfo \<Rightarrow> ErrCode \<times> CellularCallInfo" where
  "pack_dial_info info =
     (let i = default_cellular_info\<lparr>c_callId := d_callId info, c_accountId := d_accountId info,
            c_callType := d_callType info, c_videoState := VideoStateType_code (d_videoState info),
            c_index := d_index info, c_slotId := d_accountId info, c_isRTT := d_isRTT info\<rparr> in
      if length (d_number info) > kMaxNumberLen then (CALL_ERR_NUMBER_OUT_OF_RANGE, i)
      else (TELEPHONY_SUCCESS, i\<lparr>c_phoneNum := d_number info\<rparr>))"

definition cellular_dial :: "service_env \<Rightarrow> CellularCallInfo \<Rightarrow> ErrCode step" where
  "cellular_dial E info = do {
     _ \<leftarrow> emit (CellularDial info);
     State_Monad.return (se_dialAnswer E info) }"

text \<open>CallRequestProcess::GetDialingCall: the last call in the earliest phase.\<close>

definition dialing_call :: "registry \<Rightarrow> ptr option" where
  "dialing_call r =
     (let call = GetOneCarrierCallObject CALL_RUNNING_STATE_CREATE r in
      if call \<noteq> None then call
      else let call = GetOneCarrierCallObject CALL_RUNNING_STATE_CONNECTING r in
        if call \<noteq> None then call
        else GetOneCarrierCallObject CALL_RUNNING_STATE_DIALING r)"

text \<open>
  After a failed request the service waits up to a second at a time for the first dialed
  call to be added; the wait is the environment's, and so is the registry it leaves.
\<close>

definition HandleDialFail :: "service_env \<Rightarrow> ErrCode step" where
  "HandleDialFail E = do {
     added \<leftarrow> find_ptr r_isFirstDialCallAdded;
     timeout \<leftarrow> (if added then State_Monad.return False
        else do {
          r \<leftarrow> reads s_reg;
          (let (timeout, r') = se_waitFirstDial E r in do {
             _ \<leftarrow> change (\<lambda>s. s\<lparr>s_reg := r'\<rparr>);
             State_Monad.return timeout }) });
     call \<leftarrow> find_ptr dialing_call;
     (if timeout then do {
        _ \<leftarrow> whenever (call \<noteq> None) (do { _ \<leftarrow> DealFailDial E call; State_Monad.return () });
        State_Monad.return CALL_ERR_DIAL_FAILED }
      else if call \<noteq> None then DealFailDial E call
      else State_Monad.return CALL_ERR_CALL_STATE) }"

definition set_needWaitHold :: "bool \<Rightarrow> unit step" where
  "set_needWaitHold b = change (\<lambda>s. s\<lparr>s_needWaitHold := b\<rparr>)"

definition HandleStartDial :: "service_env \<Rightarrow> bool \<Rightarrow> DialParaInfo \<Rightarrow> ErrCode step" where
  "HandleStartDial E isMMiCode info =
     (let (ret, callInfo) = pack_dial_info info in
      if ret \<noteq> TELEPHONY_SUCCESS
      then do { _ \<leftarrow> set_needWaitHold False; State_Monad.return ret }
      else do {
        wait \<leftarrow> reads s_needWaitHold;
        (if wait \<and> \<not> isMMiCode then do {
           _ \<leftarrow> change (\<lambda>s. s\<lparr>s_dialCallInfo := callInfo\<rparr>);
           State_Monad.return ret }
         else do {
           ret \<leftarrow> cellular_dial E callInfo;
           (if ret \<noteq> TELEPHONY_SUCCESS then
              (if isMMiCode then State_Monad.return ret
               else do {
                 handleRet \<leftarrow> HandleDialFail E;
                 State_Monad.return (if handleRet \<noteq> TELEPHONY_SUCCESS then handleRet else ret) })
            else State_Monad.return TELEPHONY_SUCCESS) }) })"

definition RemoveSeparatorsPhoneNumber :: "string \<Rightarrow> string" where
  "RemoveSeparatorsPhoneNumber phoneString =
     filter (\<lambda>c. (of_char c :: nat) \<in> {48..57} \<or> c = CHR ''*'' \<or> c = CHR ''#'' \<or> c = CHR ''+'' \<or>
                 c = CHR ''N'' \<or> c = CHR '','' \<or> c = CHR '';'') phoneString"

definition release_dialing :: "unit step" where
  "release_dialing = do {
     _ \<leftarrow> on_helper (RestoreDialingFlag False);
     on_helper RemoveEventHandlerTask }"

definition start_dialing :: "service_env \<Rightarrow> unit step" where
  "start_dialing E = do {
     _ \<leftarrow> on_helper (RestoreDialingFlag True);
     on_helper (\<lambda>h. snd (SetDialingCallProcessing (se_postTask E) h)) }"

definition CarrierDialProcess :: "service_env \<Rightarrow> bool \<Rightarrow> DialParaInfo \<Rightarrow> ErrCode step" where
  "CarrierDialProcess E reentrant info = do {
     h \<leftarrow> reads s_helper;
     (if IsDialingCallProcessing h then State_Monad.return CALL_ERR_CALL_COUNTS_EXCEED_LIMIT
      else do {
        _ \<leftarrow> start_dialing E;
        (let newPhoneNum = RemoveSeparatorsPhoneNumber (d_number info) in do {
          ret \<leftarrow> HandleDialingInfo E reentrant newPhoneNum info;
          (if ret \<noteq> TELEPHONY_SUCCESS then do {
             _ \<leftarrow> release_dialing;
             _ \<leftarrow> set_needWaitHold False;
             State_Monad.return ret }
           else if d_isEcc info \<or> \<not> se_isMmiCode E (d_accountId info) newPhoneNum then do {
             _ \<leftarrow> change (\<lambda>s. s\<lparr>s_reg := (s_reg s)\<lparr>r_isFirstDialCallAdded := False\<rparr>\<rparr>);
             ret \<leftarrow> report_dial E (info\<lparr>d_number := newPhoneNum\<rparr>) CALL_STATUS_DIALING;
             (if ret \<noteq> TELEPHONY_SUCCESS then do {
                _ \<leftarrow> set_needWaitHold False;
                State_Monad.return ret }
              else HandleStartDial E False info) }
           else do {
             _ \<leftarrow> release_dialing;
             _ \<leftarrow> emit (System ShowMMICodeDialog);
             HandleStartDial E True info }) }) }) }"

definition VoiceMailDialProcess :: "service_env \<Rightarrow> bool \<Rightarrow> DialParaInfo \<Rightarrow> ErrCode step" where
  "VoiceMailDialProcess E reentrant info = CarrierDialProcess E reentrant info"

definition OttDialProcess :: "service_env \<Rightarrow> DialParaInfo \<Rightarrow> ErrCode step" where
  "OttDialProcess E info =
     (let vs = VideoStateType_code (d_videoState info);
          ret = se_ottDialAnswer E (d_number info) (d_bundleName info) vs in do {
        _ \<leftarrow> emit (OttDialRequest (d_number info) (d_bundleName info) vs);
        State_Monad.return (if ret \<noteq> TELEPHONY_SUCCESS then ret else TELEPHONY_SUCCESS) })"

definition BluetoothDialProcess :: "service_env \<Rightarrow> DialParaInfo \<Rightarrow> ErrCode step" where
  "BluetoothDialProcess E info = do {
     r \<leftarrow> reads s_reg;
     h \<leftarrow> reads s_helper;
     (if \<not> se_isEcc E (d_number info) (d_accountId info) \<and> HasCallExist r
      then State_Monad.return CALL_ERR_CALL_COUNTS_EXCEED_LIMIT
      else if IsDialingCallProcessing h then State_Monad.return CALL_ERR_CALL_COUNTS_EXCEED_LIMIT
      else do {
        _ \<leftarrow> start_dialing E;
        _ \<leftarrow> emit (BluetoothDial info);
        (let ret = se_btDialAnswer E info in
         if ret = TELEPHONY_SUCCESS
         then report_dial E (info\<lparr>d_index := 0\<rparr>) CALL_STATUS_DIALING
         else do { _ \<leftarrow> release_dialing; State_Monad.return ret }) }) }"

definition HandleDialRequest :: "service_env \<Rightarrow> bool \<Rightarrow> DialParaInfo \<Rightarrow> ErrCode step" where
  "HandleDialRequest E reentrant info =
     (case d_dialType info of
        DIAL_CARRIER_TYPE \<Rightarrow> CarrierDialProcess E reentrant info
      | DIAL_VOICE_MAIL_TYPE \<Rightarrow> VoiceMailDialProcess E reentrant info
      | DIAL_OTT_TYPE \<Rightarrow> OttDialProcess E info
      | DIAL_BLUETOOTH_TYPE \<Rightarrow> BluetoothDialProcess E info)"

subsection \<open>The dial request\<close>

definition CHN_MCC :: string where "CHN_MCC = ''460''"

definition IsCnSimCard :: "service_env \<Rightarrow> int \<Rightarrow> bool" where
  "IsCnSimCard E slotId =
     (let simOperator = de_simOperator (se_dial E) slotId in
      if length simOperator < MCC_LEN then False else take MCC_LEN simOperator = CHN_MCC)"

definition IsFdnNumber :: "string list \<Rightarrow> string \<Rightarrow> bool" where
  "IsFdnNumber fdnNumberList phoneNumber =
     list_ex (\<lambda>n. n = filter (\<lambda>c. c \<noteq> CHR '' '') phoneNumber) fdnNumberList"

text \<open>Fixed dialing is off (None) or on with the list of numbers.\<close>

definition fdn_refuses :: "service_env \<Rightarrow> DialParaInfo \<Rightarrow> bool" where
  "fdn_refuses E info =
     (\<not> se_isEcc E (d_number info) (d_accountId info) \<and> d_dialType info = DIAL_CARRIER_TYPE \<and>
      \<not> IsCnSimCard E (d_accountId info) \<and>
      (case se_fdn E (d_accountId info) of
         None \<Rightarrow> False
       | Some fdnNumberList \<Rightarrow> fdnNumberList = [] \<or> \<not> IsFdnNumber fdnNumberList (d_number info)))"

definition DialRequest :: "service_env \<Rightarrow> bool \<Rightarrow> ErrCode step" where
  "DialRequest E reentrant = do {
     info \<leftarrow> reads s_dialSrcInfo;
     (if \<not> d_isDialing info then State_Monad.return CALL_ERR_ILLEGAL_CALL_OPERATION
      else if length (d_number info) > kMaxNumberLen
      then State_Monad.return CALL_ERR_NUMBER_OUT_OF_RANGE
      else if fdn_refuses E info then do {
        _ \<leftarrow> NotifyCallEventUpdated E \<lparr>ev_eventId = EVENT_INVALID_FDN_NUMBER,
               ev_phoneNum = d_number info, ev_bundleName = []\<rparr>;
        _ \<leftarrow> emit (System ShowFdnDialog);
        State_Monad.return CALL_ERR_DIAL_FAILED }
      else HandleDialRequest E reentrant info) }"

subsection \<open>Submitting the requests\<close>

text \<open>
  The handler runs a dial at once and submits everything else as a task; the pointer to
  the processing object is set before the first request.
\<close>

definition handler_submit :: "bool \<Rightarrow> Task \<Rightarrow> ErrCode step" where
  "handler_submit ready t =
     (if \<not> ready then State_Monad.return TELEPHONY_ERR_LOCAL_PTR_NULL
      else do { _ \<leftarrow> submit t; State_Monad.return TELEPHONY_SUCCESS })"

definition Handler_DialCall :: "service_env \<Rightarrow> bool \<Rightarrow> bool \<Rightarrow> ErrCode step" where
  "Handler_DialCall E reentrant ready =
     (if \<not> ready then State_Monad.return TELEPHONY_ERR_LOCAL_PTR_NULL else DialRequest E reentrant)"

definition Handler_AnswerCall :: "bool \<Rightarrow> int \<Rightarrow> int \<Rightarrow> bool \<Rightarrow> ErrCode step" where
  "Handler_AnswerCall ready callId videoState isRTT =
     handler_submit ready (AnswerTask callId videoState isRTT)"

definition Handler_RejectCall :: "bool \<Rightarrow> int \<Rightarrow> bool \<Rightarrow> string \<Rightarrow> ErrCode step" where
  "Handler_RejectCall ready callId isSendSms content =
     handler_submit ready (RejectTask callId isSendSms content)"

definition Handler_HangUpCall :: "bool \<Rightarrow> int \<Rightarrow> ErrCode step" where
  "Handler_HangUpCall ready callId = handler_submit ready (HangUpTask callId)"

definition Handler_HoldCall :: "bool \<Rightarrow> int \<Rightarrow> ErrCode step" where
  "Handler_HoldCall ready callId = handler_submit ready (HoldTask callId)"

definition Handler_UnHoldCall :: "bool \<Rightarrow> int \<Rightarrow> ErrCode step" where
  "Handler_UnHoldCall ready callId = handler_submit ready (UnHoldTask callId)"

definition Handler_SwitchCall :: "bool \<Rightarrow> int \<Rightarrow> ErrCode step" where
  "Handler_SwitchCall ready callId = handler_submit ready (SwitchTask callId)"

definition Handler_UpdateImsRttCallMode :: "bool \<Rightarrow> int \<Rightarrow> ImsRTTCallMode \<Rightarrow> ErrCode step" where
  "Handler_UpdateImsRttCallMode ready callId mode = handler_submit ready (RttModeTask callId mode)"

definition Handler_JoinConference :: "bool \<Rightarrow> int \<Rightarrow> string list \<Rightarrow> ErrCode step" where
  "Handler_JoinConference ready callId numbers = handler_submit ready (JoinTask callId numbers)"

definition Handler_CombineConference :: "bool \<Rightarrow> int \<Rightarrow> ErrCode step" where
  "Handler_CombineConference ready mainCallId = handler_submit ready (CombineTask mainCallId)"

definition Handler_SeparateConference :: "bool \<Rightarrow> int \<Rightarrow> ErrCode step" where
  "Handler_SeparateConference ready callId = handler_submit ready (SeparateTask callId)"

definition Handler_KickOutFromConference :: "bool \<Rightarrow> int \<Rightarrow> ErrCode step" where
  "Handler_KickOutFromConference ready callId = handler_submit ready (KickOutTask callId)"

text \<open>A submitted request, when it runs.\<close>

definition run_task :: "service_env \<Rightarrow> Task \<Rightarrow> unit step" where
  "run_task E t =
     (case t of
        AnswerTask callId videoState isRTT \<Rightarrow> AnswerRequest E callId videoState isRTT
      | RejectTask callId isSendSms content \<Rightarrow> RejectRequest E callId isSendSms content
      | HangUpTask callId \<Rightarrow> HangUpRequest E callId
      | HoldTask callId \<Rightarrow> HoldRequest E callId
      | UnHoldTask callId \<Rightarrow> UnHoldRequest E callId
      | SwitchTask callId \<Rightarrow> SwitchRequest E callId
      | RttModeTask callId mode \<Rightarrow> UpdateImsRttCallModeRequest E callId mode
      | JoinTask callId numbers \<Rightarrow> JoinConference E callId numbers
      | CombineTask callId \<Rightarrow> CombineConferenceRequest E callId
      | SeparateTask callId \<Rightarrow> SeparateConferenceRequest E callId
      | KickOutTask callId \<Rightarrow> KickOutFromConferenceRequest E callId
      | _ \<Rightarrow> State_Monad.return ())"

end
