(* ===== verification/Call_Control.thy ===== *)
theory Call_Control
  imports Call_Dialing
begin

text \<open>
  The facade the service's stub calls (CallControlManager,
  \<^verbatim>\<open>services/call/src/call_control_manager.cpp\<close>): each operation is checked against
  the calls that exist, calls that would conflict are ended first, and what is left is
  submitted to the request handler of theory Call\_Dialing.
\<close>

subsection \<open>Numbers of enumerators\<close>

definition ILLEGAL_CALLID :: int where "ILLEGAL_CALLID = -1"
definition VOIP_CALL_MINIMUM :: int where "VOIP_CALL_MINIMUM = 10000"
definition CRITICAL_THERMAL_LEVEL :: int where "CRITICAL_THERMAL_LEVEL = 4"

text \<open>A cast from an integer; a value without an enumerator is None.\<close>

definition enum_of :: "('e \<Rightarrow> int) \<Rightarrow> 'e list \<Rightarrow> int \<Rightarrow> 'e option" where
  "enum_of code xs i = List.find (\<lambda>x. code x = i) xs"

definition VideoStateType_of :: "int \<Rightarrow> VideoStateType option" where
  "VideoStateType_of = enum_of VideoStateType_code
     [TYPE_VOICE, TYPE_SEND_ONLY, TYPE_RECEIVE_ONLY, TYPE_VIDEO]"

definition CallType_of :: "int \<Rightarrow> CallType option" where
  "CallType_of = enum_of CallType_code
     [TYPE_CS, TYPE_IMS, TYPE_OTT, TYPE_ERR_CALL, TYPE_VOIP, TYPE_SATELLITE, TYPE_BLUETOOTH]"

definition DialType_of :: "int \<Rightarrow> DialType option" where
  "DialType_of = enum_of DialType_code
     [DIAL_CARRIER_TYPE, DIAL_VOICE_MAIL_TYPE, DIAL_OTT_TYPE, DIAL_BLUETOOTH_TYPE]"

subsection \<open>Dialing\<close>

text \<open>The parameters of a dial (\<^verbatim>\<open>PacMap\<close>): integers, flags and texts by name.\<close>

record pac_map =
  pm_int :: extras
  pm_bool :: "string \<Rightarrow> bool"
  pm_string :: "string \<Rightarrow> string"

definition NumberLegalityCheck :: "string \<Rightarrow> ErrCode \<times> string" where
  "NumberLegalityCheck number =
     (if number = [] then (CALL_ERR_PHONE_NUMBER_EMPTY, number)
      else if length number > kMaxNumberLen then (CALL_ERR_NUMBER_OUT_OF_RANGE, number)
      else (TELEPHONY_SUCCESS, takeWhile (\<lambda>c. c \<noteq> CHR '','') number))"

definition put_int :: "string \<Rightarrow> int \<Rightarrow> pac_map \<Rightarrow> pac_map" where
  "put_int k v x = x\<lparr>pm_int := (pm_int x)(k := v)\<rparr>"

definition SetCallTypeExtras :: "dial_env \<Rightarrow> pac_map \<Rightarrow> pac_map" where
  "SetCallTypeExtras e x =
     (let dialType = pm_int x ''dialType'' in
      if dialType = DialType_code DIAL_CARRIER_TYPE \<or> dialType = DialType_code DIAL_VOICE_MAIL_TYPE
      then
        let x = (if \<not> CallPolicy_IsSupportVideoCall e (pm_int x)
                 then put_int ''videoState'' (VideoStateType_code TYPE_VOICE) x else x)
        in if pm_int x ''videoState'' = VideoStateType_code TYPE_VIDEO
           then put_int ''callType'' (CallType_code TYPE_IMS) x else x
      else x)"

text \<open>The checks of theory Call\_Policy; the dialogs of a refusal are shown.\<close>

definition CanDial :: "service_env \<Rightarrow> string \<Rightarrow> pac_map \<Rightarrow> bool \<Rightarrow> (ErrCode \<times> pac_map) step" where
  "CanDial E number x isEcc = do {
     r \<leftarrow> reads s_reg;
     edm \<leftarrow> reads s_edm;
     (let (ret, ds, y) = DialPolicy (se_build E) (se_dial E) edm r number (pm_int x) isEcc;
          x = x\<lparr>pm_int := y\<rparr> in do {
        _ \<leftarrow> each (\<lambda>d. emit (System (ShowDialog d))) ds;
        State_Monad.return
          (if ret \<noteq> TELEPHONY_SUCCESS then (ret, x)
           else (CanDialMulityCall (se_build E) (se_dial E) r (pm_int x) isEcc, x)) }) }"

definition PackageDialInformation :: "pac_map \<Rightarrow> string \<Rightarrow> bool \<Rightarrow> unit step" where
  "PackageDialInformation x accountNumber isEcc =
     (case (CallType_of (pm_int x ''callType''), DialType_of (pm_int x ''dialType''),
            VideoStateType_of (pm_int x ''videoState'')) of
        (Some ct, Some dt, Some vs) \<Rightarrow>
          change (\<lambda>s. s\<lparr>s_dialSrcInfo := (s_dialSrcInfo s)\<lparr>d_callId := ERR_ID,
              d_number := accountNumber, d_isDialing := True, d_isEcc := isEcc,
              d_isRTT := pm_bool x ''isRTT'', d_callType := ct,
              d_accountId := pm_int x ''accountId'', d_dialType := dt, d_videoState := vs,
              d_originalCallType := pm_int x ''videoState'',
              d_bundleName := pm_string x ''bundleName'',
              d_isCustomAccessibility := pm_bool x ''isCustomAccessibility'',
              d_token := pm_string x ''token'', d_phoneIndex := pm_int x ''phoneIndex''\<rparr>,
            s_extras := pm_int x\<rparr>)
      | _ \<Rightarrow> fault)"

definition satellite_dial :: "service_env \<Rightarrow> pac_map \<Rightarrow> ErrCode \<times> pac_map" where
  "satellite_dial E x =
     (if ce_satelliteSwitch (se_control E) = TELEPHONY_SUCCESS
      then (if ce_satelliteDial (se_control E) \<noteq> TELEPHONY_SUCCESS
            then (ce_satelliteDial (se_control E), x)
            else (TELEPHONY_SUCCESS, put_int ''callType'' (CallType_code TYPE_SATELLITE) x))
      else (TELEPHONY_SUCCESS, x))"

definition DialCall :: "service_env \<Rightarrow> string \<Rightarrow> pac_map \<Rightarrow> ErrCode step" where
  "DialCall E number x =
     (let (ret, accountNumber) = NumberLegalityCheck number;
          newPhoneNum = RemoveSeparatorsPhoneNumber accountNumber;
          isEcc = se_isEcc E newPhoneNum (pm_int x ''accountId'');
          x = (if isEcc then put_int ''dialScene'' (DialScene_code CALL_EMERGENCY) x else x) in
      if ret \<noteq> TELEPHONY_SUCCESS then State_Monad.return ret
      else
        let (ret, x) = satellite_dial E x;
            x = (if pm_int x ''dialType'' = DialType_code DIAL_BLUETOOTH_TYPE
                 then put_int ''callType'' (CallType_code TYPE_BLUETOOTH) x else x) in
        if ret \<noteq> TELEPHONY_SUCCESS then State_Monad.return ret
        else do {
          (ret, x) \<leftarrow> CanDial E newPhoneNum x isEcc;
          (if ret \<noteq> TELEPHONY_SUCCESS then State_Monad.return ret
           else do {
             _ \<leftarrow> PackageDialInformation (SetCallTypeExtras (se_dial E) x) newPhoneNum isEcc;
             (if \<not> ce_handler (se_control E) then State_Monad.return TELEPHONY_ERR_LOCAL_PTR_NULL
              else Handler_DialCall E (ce_reentrant (se_control E)) True) }) })"

subsection \<open>Rejecting and hanging up\<close>

definition RejectCall_control ::
  "service_env \<Rightarrow> int \<Rightarrow> bool \<Rightarrow> string \<Rightarrow> RejectType \<Rightarrow> ErrCode step" where
  "RejectCall_control E callId rejectWithMessage textMessage rejectType =
     (if \<not> ce_handler (se_control E) then State_Monad.return TELEPHONY_ERR_LOCAL_PTR_NULL
      else do {
        call \<leftarrow> find_ptr (GetOneCallObject_running CALL_RUNNING_STATE_RINGING);
        (case call of
           None \<Rightarrow> State_Monad.return TELEPHONY_ERR_LOCAL_PTR_NULL
         | Some p \<Rightarrow> do {
             c \<leftarrow> call_of p;
             r \<leftarrow> reads s_reg;
             (let callId = (if callId = INVALID_CALLID then m_callId c else callId);
                  ret = RejectCallPolicy callId r in
              if ret \<noteq> TELEPHONY_SUCCESS then
                (if callId \<ge> VOIP_CALL_MINIMUM \<and> IsVoipCallExist r then do {
                   _ \<leftarrow> sendEventToVoip E EVENT_REJECT_VOIP_CALL;
                   State_Monad.return TELEPHONY_SUCCESS }
                 else State_Monad.return ret)
              else do {
                _ \<leftarrow> emit (System StopFlashRemind);
                ret \<leftarrow> Handler_RejectCall True callId rejectWithMessage textMessage;
                _ \<leftarrow> whenever (ret = TELEPHONY_SUCCESS \<and> rejectType = CALL_REJECT_MISSED_CALL) (do {
                  _ \<leftarrow> on_call p (SetRejectType rejectType);
                  whenever (ce_missedCall (se_control E)) (emit (System (PublishMissedCall p))) });
                State_Monad.return ret }) }) })"

text \<open>Without an id, the last call in the first of four states that has one.\<close>

definition call_to_hang_up :: "registry \<Rightarrow> int" where
  "call_to_hang_up r =
     (case List.find (\<lambda>s. GetOneCallObject_running s r \<noteq> None)
           [CALL_RUNNING_STATE_ACTIVE, CALL_RUNNING_STATE_DIALING, CALL_RUNNING_STATE_CONNECTING,
            CALL_RUNNING_STATE_HOLD] of
        None \<Rightarrow> INVALID_CALLID
      | Some s \<Rightarrow> m_callId (r_heap r (the (GetOneCallObject_running s r))))"

definition HangUpCall_control :: "service_env \<Rightarrow> int \<Rightarrow> ErrCode step" where
  "HangUpCall_control E callId = do {
     r \<leftarrow> reads s_reg;
     h \<leftarrow> reads s_helper;
     (let callId = (if callId = INVALID_CALLID then call_to_hang_up r else callId) in
      if callId = INVALID_CALLID then State_Monad.return TELEPHONY_ERR_ARGUMENT_INVALID
      else if \<not> ce_handler (se_control E) then State_Monad.return TELEPHONY_ERR_LOCAL_PTR_NULL
      else
        let ret = HangUpPolicy callId r in
        if ret \<noteq> TELEPHONY_SUCCESS then
          (if callId \<ge> VOIP_CALL_MINIMUM \<and> IsVoipCallExist r then do {
             _ \<leftarrow> sendEventToVoip E EVENT_HANGUP_VOIP_CALL;
             State_Monad.return TELEPHONY_SUCCESS }
           else State_Monad.return ret)
        else if HasPendingMo callId h then do {
          _ \<leftarrow> on_helper (SetPendingMo False (-1));
          _ \<leftarrow> on_helper (SetPendingHangup True callId);
          _ \<leftarrow> PostPendingHangupProtectTask callId;
          State_Monad.return TELEPHONY_SUCCESS }
        else Handler_HangUpCall True callId) }"

subsection \<open>Answering\<close>

definition GetRingCall :: "int \<Rightarrow> registry \<Rightarrow> ptr option" where
  "GetRingCall callId r =
     (case GetOneCallObject_running CALL_RUNNING_STATE_RINGING r of
        None \<Rightarrow> None
      | Some p \<Rightarrow> GetOneCallObject (if callId = INVALID_CALLID then m_callId (r_heap r p) else callId) r)"

definition HandlerAnswerCall :: "service_env \<Rightarrow> int \<Rightarrow> int \<Rightarrow> bool \<Rightarrow> ErrCode step" where
  "HandlerAnswerCall E callId videoState isRTT =
     Handler_AnswerCall (ce_handler (se_control E)) callId videoState isRTT"

definition CurrentIsSuperPrivacyMode :: "service_env \<Rightarrow> int \<Rightarrow> int \<Rightarrow> bool step" where
  "CurrentIsSuperPrivacyMode E callId videoState =
     (if ce_superPrivacy (se_control E) = Some False then do {
        _ \<leftarrow> emit (Audio MuteRinger);
        _ \<leftarrow> emit (System (ShowAnswerPrivacyDialog callId videoState));
        State_Monad.return True }
      else State_Monad.return False)"

definition set_video_state :: "int \<Rightarrow> ptr \<Rightarrow> unit step" where
  "set_video_state videoState p =
     (case VideoStateType_of videoState of
        None \<Rightarrow> fault
      | Some v \<Rightarrow> do {
          _ \<leftarrow> on_call p (SetVideoStateType v);
          emit (System (InitVideoCall p v)) })"

definition AnswerHandlerForSatelliteOrVideoCall :: "service_env \<Rightarrow> ptr \<Rightarrow> int \<Rightarrow> unit step" where
  "AnswerHandlerForSatelliteOrVideoCall E p videoState = do {
     c \<leftarrow> call_of p;
     _ \<leftarrow> whenever (m_callType c = TYPE_IMS \<and> videoState \<noteq> VideoStateType_code (m_videoState c))
       (set_video_state videoState p);
     active \<leftarrow> find_ptr (GetOneCallObject_running CALL_RUNNING_STATE_ACTIVE);
     whenever (m_callType c = TYPE_SATELLITE) (case active of
        None \<Rightarrow> State_Monad.return ()
      | Some q \<Rightarrow> (if \<not> ce_handler (se_control E) then fault
          else do {
            d \<leftarrow> call_of q;
            _ \<leftarrow> Handler_HangUpCall True (m_callId d);
            State_Monad.return () })) }"

text \<open>VoIP calls that ring or are being dialed give way; the first failure ends the loop.\<close>

fun end_voip_calls :: "service_env \<Rightarrow> int list \<Rightarrow> ErrCode step" where
  "end_voip_calls E [] = State_Monad.return TELEPHONY_SUCCESS"
| "end_voip_calls E (i # is) = do {
     voipCall \<leftarrow> find_ptr (GetOneCallObject i);
     (case voipCall of
        None \<Rightarrow> do { _ \<leftarrow> fault; State_Monad.return TELEPHONY_ERR_FAIL }
      | Some p \<Rightarrow> do {
          c \<leftarrow> call_of p;
          ret \<leftarrow> (if m_callState c = CALL_STATUS_INCOMING
                 then RejectCall_control E i True ''CarrierAndVoipConflictProcess'' CALL_REJECT_NORMAL
                 else if m_callState c = CALL_STATUS_DIALING then HangUpCall_control E i
                 else State_Monad.return TELEPHONY_SUCCESS);
          (if ret \<noteq> TELEPHONY_SUCCESS then State_Monad.return ret else end_voip_calls E is) }) }"

definition CarrierAndVoipConflictProcess :: "service_env \<Rightarrow> int \<Rightarrow> TelCallState \<Rightarrow> ErrCode step" where
  "CarrierAndVoipConflictProcess E callId callState =
     (if callState \<noteq> CALL_STATUS_ANSWERED then State_Monad.return TELEPHONY_SUCCESS
      else do {
        call \<leftarrow> find_ptr (GetOneCallObject callId);
        carrier \<leftarrow> find_ptr (\<lambda>r. holds_at r call (\<lambda>c. m_callType c = TYPE_CS \<or>
                    m_callType c = TYPE_IMS \<or> m_callType c = TYPE_SATELLITE));
        ids \<leftarrow> find_ptr GetVoipCallList;
        (if call = None then State_Monad.return TELEPHONY_ERR_LOCAL_PTR_NULL
         else if carrier then end_voip_calls E ids
         else State_Monad.return TELEPHONY_SUCCESS) })"

definition ProcessTransferCall :: "service_env \<Rightarrow> int \<Rightarrow> ptr \<Rightarrow> unit step" where
  "ProcessTransferCall E callId answerCall = do {
     call \<leftarrow> find_ptr (GetOtherBtTransferCall (se_build E) callId);
     (case call of
        None \<Rightarrow> State_Monad.return ()
      | Some p \<Rightarrow> do {
          c \<leftarrow> call_of p;
          _ \<leftarrow> (if m_callState c = CALL_STATUS_INCOMING
               then RejectCall_control E (m_callId c) True ''TransferCallConflict'' CALL_REJECT_NORMAL
               else HangUpCall_control E (m_callId c));
          a \<leftarrow> call_of answerCall;
          whenever (\<not> IsTransferCall (se_build E) a) (do {
            _ \<leftarrow> emit (Audio StopSoundtone);
            emit (Audio (PlaySoundtone answerCall)) }) }) }"

text \<open>In a build for one call at a time the other calls are ended first.\<close>

definition ringing_state :: "call \<Rightarrow> bool" where
  "ringing_state c = (m_callState c = CALL_STATUS_INCOMING \<or> m_callState c = CALL_STATUS_WAITING)"

definition hang_up_or_reject_other :: "service_env \<Rightarrow> int \<Rightarrow> ptr option \<Rightarrow> ptr \<Rightarrow> unit step" where
  "hang_up_or_reject_other E answerCallId answerCall p = do {
     c \<leftarrow> call_of p;
     same \<leftarrow> find_ptr (\<lambda>r. holds_at r answerCall (\<lambda>a. m_accountNumber a = m_accountNumber c));
     (if m_callId c = answerCallId then State_Monad.return ()
      else if m_callState c = CALL_STATUS_ACTIVE \<or> m_callState c = CALL_STATUS_DIALING \<or>
              m_callState c = CALL_STATUS_ALERTING \<or> m_callState c = CALL_STATUS_HOLDING
      then do { _ \<leftarrow> HangUpCall_control E (m_callId c); State_Monad.return () }
      else whenever (ringing_state c \<and> \<not> same) (do {
        _ \<leftarrow> RejectCall_control E (m_callId c) False [] CALL_REJECT_NORMAL;
        State_Monad.return () })) }"

definition HangUpOtherCallByAnswerCallID :: "service_env \<Rightarrow> int \<Rightarrow> bool \<Rightarrow> unit step" where
  "HangUpOtherCallByAnswerCallID E answerCallId autoAnswerState = do {
     answerCall \<leftarrow> find_ptr (GetOneCallObject answerCallId);
     ringing \<leftarrow> find_ptr (\<lambda>r. holds_at r answerCall ringing_state);
     _ \<leftarrow> whenever ringing (on_call (the answerCall) (SetAutoAnswerState autoAnswerState));
     ps \<leftarrow> find_ptr r_list;
     each (hang_up_or_reject_other E answerCallId answerCall) ps }"

definition HangUpOtherCall :: "service_env \<Rightarrow> int \<Rightarrow> bool step" where
  "HangUpOtherCall E answerCallId = do {
     n \<leftarrow> current_call_num;
     answerCall \<leftarrow> find_ptr (GetOneCallObject answerCallId);
     r \<leftarrow> reads s_reg;
     (case answerCall of
        None \<Rightarrow> State_Monad.return False
      | Some p \<Rightarrow>
          let c = r_heap r p in
          if n \<le> 1 \<or> \<not> ringing_state c then State_Monad.return False
          else if m_callType c = TYPE_BLUETOOTH then do {
            _ \<leftarrow> HangUpOtherCallByAnswerCallID E answerCallId False;
            State_Monad.return False }
          else if (m_callType c = TYPE_CS \<or> m_callType c = TYPE_IMS) \<and>
                  (\<not> ce_multiCalls (se_control E) (slot_of E c) \<or>
                   HasBtCallWithDifferentNumber (m_accountNumber c) r \<or> HasRttCall (se_build E) r)
          then do {
            _ \<leftarrow> HangUpOtherCallByAnswerCallID E answerCallId True;
            State_Monad.return True }
          else State_Monad.return False) }"

definition EnqueueAnsweredCall :: "int \<Rightarrow> int \<Rightarrow> unit step" where
  "EnqueueAnsweredCall callId videoState =
     change (\<lambda>s. s\<lparr>s_answeredQueue := Some (callId, videoState)\<rparr>)"

definition AnswerCall_checked :: "service_env \<Rightarrow> int \<Rightarrow> int \<Rightarrow> bool \<Rightarrow> ErrCode step" where
  "AnswerCall_checked E callId videoState isRTT = do {
     r \<leftarrow> reads s_reg;
     (let ret = AnswerCallPolicy callId videoState r in
      if ret \<noteq> TELEPHONY_SUCCESS then
        (if IsVoipCallExist r then do {
           _ \<leftarrow> sendEventToVoip E EVENT_ANSWER_VOIP_CALL;
           State_Monad.return TELEPHONY_SUCCESS }
         else State_Monad.return ret)
      else HandlerAnswerCall E callId videoState isRTT) }"

definition AnswerCall_control :: "service_env \<Rightarrow> int \<Rightarrow> int \<Rightarrow> bool \<Rightarrow> ErrCode step" where
  "AnswerCall_control E callId videoState isRTT = do {
     _ \<leftarrow> emit (System StopFlashRemind);
     ended \<leftarrow> (if not_support_multicall (se_build E) then HangUpOtherCall E callId
              else State_Monad.return False);
     call \<leftarrow> find_ptr (GetRingCall callId);
     (if ended then State_Monad.return TELEPHONY_SUCCESS
      else case call of
        None \<Rightarrow> State_Monad.return TELEPHONY_ERR_LOCAL_PTR_NULL
      | Some p \<Rightarrow> do {
          _ \<leftarrow> whenever (call_transfer (se_build E)) (ProcessTransferCall E callId p);
          c \<leftarrow> call_of p;
          _ \<leftarrow> on_call p (SetAnsweredCall True);
          refused \<leftarrow> CurrentIsSuperPrivacyMode E (m_callId c) videoState;
          (if refused then State_Monad.return TELEPHONY_SUCCESS
           else do {
             _ \<leftarrow> AnswerHandlerForSatelliteOrVideoCall E p videoState;
             _ \<leftarrow> NotifyCallStateUpdated E (Some p) CALL_STATUS_INCOMING CALL_STATUS_ANSWERED;
             _ \<leftarrow> CarrierAndVoipConflictProcess E (m_callId c) CALL_STATUS_ANSWERED;
             v \<leftarrow> reads s_voipState;
             (if v \<noteq> CallStateToApp_code CALL_STATE_IDLE \<and> m_callType c \<noteq> TYPE_VOIP then do {
                _ \<leftarrow> EnqueueAnsweredCall (m_callId c) videoState;
                State_Monad.return TELEPHONY_SUCCESS }
              else AnswerCall_checked E (m_callId c) videoState isRTT) }) }) }"

subsection \<open>Holding, switching and conferences\<close>

text \<open>An operation that is submitted when its check succeeds.\<close>

definition checked :: "service_env \<Rightarrow> ErrCode \<Rightarrow> (bool \<Rightarrow> ErrCode step) \<Rightarrow> ErrCode step" where
  "checked E ret handler =
     (if ret \<noteq> TELEPHONY_SUCCESS then State_Monad.return ret
      else handler (ce_handler (se_control E)))"

definition HoldCall_control :: "service_env \<Rightarrow> int \<Rightarrow> ErrCode step" where
  "HoldCall_control E callId = do {
     ret \<leftarrow> find_ptr (HoldCallPolicy callId);
     checked E ret (\<lambda>ready. Handler_HoldCall ready callId) }"

definition UnHoldCall_control :: "service_env \<Rightarrow> int \<Rightarrow> ErrCode step" where
  "UnHoldCall_control E callId = do {
     ret \<leftarrow> find_ptr (UnHoldCallPolicy callId);
     checked E ret (\<lambda>ready. Handler_UnHoldCall ready callId) }"

definition SwitchCall_control :: "service_env \<Rightarrow> int \<Rightarrow> ErrCode step" where
  "SwitchCall_control E callId = do {
     ret \<leftarrow> find_ptr (SwitchCallPolicy callId);
     checked E ret (\<lambda>ready. Handler_SwitchCall ready callId) }"

definition UpdateImsRttCallMode_control :: "service_env \<Rightarrow> int \<Rightarrow> ImsRTTCallMode \<Rightarrow> ErrCode step" where
  "UpdateImsRttCallMode_control E callId mode = do {
     ret \<leftarrow> find_ptr (RttCallModifyPolicy callId);
     checked E ret (\<lambda>ready. Handler_UpdateImsRttCallMode ready callId mode) }"

definition CombineConference_control :: "service_env \<Rightarrow> int \<Rightarrow> ErrCode step" where
  "CombineConference_control E mainCallId = do {
     mainCall \<leftarrow> find_ptr (GetOneCallObject mainCallId);
     r \<leftarrow> reads s_reg;
     g \<leftarrow> reads s_conf;
     (case mainCall of
        None \<Rightarrow> State_Monad.return TELEPHONY_ERR_ARGUMENT_INVALID
      | Some p \<Rightarrow>
          let c = r_heap r p in
          if m_callState c \<noteq> CALL_STATUS_ACTIVE
          then State_Monad.return CALL_ERR_CALL_STATE_MISMATCH_OPERATION
          else if \<not> IsCallExist_type (m_callType c) CALL_STATUS_HOLDING r
          then State_Monad.return CALL_ERR_CALL_STATE_MISMATCH_OPERATION
          else checked E (CanCombineConference c g) (\<lambda>ready. Handler_CombineConference ready mainCallId)) }"

definition on_found :: "int \<Rightarrow> (ptr \<Rightarrow> ErrCode step) \<Rightarrow> ErrCode step" where
  "on_found callId oper = do {
     call \<leftarrow> find_ptr (GetOneCallObject callId);
     (case call of
        None \<Rightarrow> State_Monad.return TELEPHONY_ERR_ARGUMENT_INVALID
      | Some p \<Rightarrow> oper p) }"

definition SeparateConference_control :: "service_env \<Rightarrow> int \<Rightarrow> ErrCode step" where
  "SeparateConference_control E callId = on_found callId (\<lambda>p. do {
     c \<leftarrow> call_of p;
     g \<leftarrow> reads s_conf;
     checked E (CanSeparateConference c g) (\<lambda>ready. Handler_SeparateConference ready callId) })"

definition KickOutFromConference_control :: "service_env \<Rightarrow> int \<Rightarrow> ErrCode step" where
  "KickOutFromConference_control E callId = on_found callId (\<lambda>p. do {
     c \<leftarrow> call_of p;
     g \<leftarrow> reads s_conf;
     checked E (CanKickOutFromConference c g) (\<lambda>ready. Handler_KickOutFromConference ready callId) })"

definition JoinConference_control :: "service_env \<Rightarrow> int \<Rightarrow> string list \<Rightarrow> ErrCode step" where
  "JoinConference_control E callId numbers = do {
     g \<leftarrow> reads s_conf;
     r \<leftarrow> reads s_reg;
     (if \<not> ce_handler (se_control E) then State_Monad.return TELEPHONY_ERR_LOCAL_PTR_NULL
      else checked E (InviteToConferencePolicy (the_ims g) callId numbers r)
        (\<lambda>ready. Handler_JoinConference ready callId numbers)) }"

subsection \<open>Tones, mute and the state for applications\<close>

definition on_alive :: "int \<Rightarrow> (ptr \<Rightarrow> ErrCode step) \<Rightarrow> ErrCode step" where
  "on_alive callId oper = on_found callId (\<lambda>p. do {
     c \<leftarrow> call_of p;
     (if \<not> IsAliveState c then State_Monad.return CALL_ERR_CALL_STATE_MISMATCH_OPERATION
      else oper p) })"

definition StartDtmf_control :: "service_env \<Rightarrow> int \<Rightarrow> char \<Rightarrow> ErrCode step" where
  "StartDtmf_control E callId str = on_alive callId (\<lambda>p. do {
     ret \<leftarrow> invoke (StartDtmf (se_env E) str) p;
     _ \<leftarrow> emit (Audio (PlayDtmfTone str));
     State_Monad.return ret })"

definition StopDtmf_control :: "service_env \<Rightarrow> int \<Rightarrow> ErrCode step" where
  "StopDtmf_control E callId = on_alive callId (\<lambda>p. do {
     ret \<leftarrow> invoke (StopDtmf (se_env E)) p;
     _ \<leftarrow> emit (Audio StopDtmfTone);
     State_Monad.return ret })"

definition PostDialProceed_control :: "service_env \<Rightarrow> int \<Rightarrow> bool \<Rightarrow> ErrCode step" where
  "PostDialProceed_control E callId proceed = on_alive callId (invoke (PostDialProceed (se_env E) proceed))"

definition SetMuted :: "service_env \<Rightarrow> bool \<Rightarrow> ErrCode step" where
  "SetMuted E isMute = do {
     call \<leftarrow> find_ptr GetAudioLiveCall;
     (case call of
        None \<Rightarrow> State_Monad.return CALL_ERR_AUDIO_SETTING_MUTE_FAILED
      | Some p \<Rightarrow> do {
          c \<leftarrow> call_of p;
          (let mute = invoke (SetMute (se_want E) (se_env E) (if isMute then 1 else 0) (slot_of E c)) p in
           if m_callType c = TYPE_VOIP then mute
           else do {
             _ \<leftarrow> whenever (m_callType c = TYPE_IMS \<or> m_callType c = TYPE_CS)
               (do { _ \<leftarrow> mute; State_Monad.return () });
             _ \<leftarrow> emit (Audio (SetMuteTo isMute));
             State_Monad.return (ce_setMute (se_control E) isMute) }) }) }"

definition MuteRinger_control :: "service_env \<Rightarrow> ErrCode step" where
  "MuteRinger_control E = do {
     _ \<leftarrow> emit (Audio MuteRinger);
     State_Monad.return (ce_muteRinger (se_control E)) }"

definition GetCallState_control :: "registry \<Rightarrow> int \<Rightarrow> CallStateToApp" where
  "GetCallState_control r voipState =
     (if \<not> HasCellularCallExist r \<and> (voipState = CallStateToApp_code CALL_STATE_IDLE \<or>
                                     voipState = CallStateToApp_code CALL_STATE_UNKNOWN)
      then CALL_STATE_IDLE
      else if HasRingingCall r \<or> voipState = CallStateToApp_code CALL_STATE_RINGING
      then CALL_STATE_RINGING else CALL_STATE_OFFHOOK)"

definition HasCall :: "registry \<Rightarrow> int \<Rightarrow> bool" where
  "HasCall r voipState =
     (voipState = CallStateToApp_code CALL_STATE_ANSWERED \<or>
      voipState = CallStateToApp_code CALL_STATE_OFFHOOK \<or>
      voipState = CallStateToApp_code CALL_STATE_RINGING \<or> HasCellularCallExist r)"

definition GetMainCallId_control :: "int \<Rightarrow> registry \<Rightarrow> conferences \<Rightarrow> int \<Rightarrow> ErrCode \<times> int" where
  "GetMainCallId_control callId r g mainCallId =
     (case GetOneCallObject callId r of
        None \<Rightarrow> (TELEPHONY_ERR_ARGUMENT_INVALID, mainCallId)
      | Some p \<Rightarrow> (if m_class (r_heap r p) = SatelliteCall then TELEPHONY_ERROR else TELEPHONY_SUCCESS,
                   GetMainCallId (r_heap r p) g mainCallId))"

subsection \<open>Settings of a SIM card\<close>

text \<open>The check of a request, and the request to the settings, which may be missing.\<close>

definition setting_check :: "dial_env \<Rightarrow> SettingRequest \<Rightarrow> ErrCode" where
  "setting_check e q =
     (case q of
        AskCallWaiting slot \<Rightarrow> GetCallWaitingPolicy e slot
      | SetWaiting slot _ \<Rightarrow> SetCallWaitingPolicy e slot
      | AskCallRestriction slot _ \<Rightarrow> GetCallRestrictionPolicy e slot
      | SetRestriction slot _ _ _ \<Rightarrow> SetCallRestrictionPolicy e slot
      | SetRestrictionPassword slot _ _ _ \<Rightarrow> SetCallRestrictionPolicy e slot
      | AskCallTransfer slot _ \<Rightarrow> GetCallTransferInfoPolicy e slot
      | SetTransfer slot _ \<Rightarrow> SetCallTransferInfoPolicy e slot
      | AskTransferTime slot \<Rightarrow> SetCallTransferInfoPolicy e slot
      | SetPreferenceMode slot _ \<Rightarrow> SetCallPreferenceModePolicy e slot
      | AskImsConfig slot _ \<Rightarrow> GetImsConfigPolicy e slot
      | SetImsConfigItem slot _ _ \<Rightarrow> SetImsConfigPolicy e slot
      | AskImsFeature slot _ \<Rightarrow> GetImsFeatureValuePolicy e slot
      | SetImsFeature slot _ _ \<Rightarrow> SetImsFeatureValuePolicy e slot
      | EnableIms slot \<Rightarrow> EnableVoLtePolicy e slot
      | DisableIms slot \<Rightarrow> DisableVoLtePolicy e slot
      | AskImsSwitch slot \<Rightarrow> IsVoLteEnabledPolicy e slot
      | SetVoNR slot state \<Rightarrow> VoNRStatePolicy e slot state
      | CloseUssd slot \<Rightarrow> CloseUnFinishedUssdPolicy e slot
      | SetRttCap slot _ \<Rightarrow> SetRttCapabilityPolicy e slot)"

definition setting_request :: "service_env \<Rightarrow> SettingRequest \<Rightarrow> ErrCode step" where
  "setting_request E q =
     (let ret = setting_check (se_dial E) q in
      if ret \<noteq> TELEPHONY_SUCCESS then State_Monad.return ret
      else case ce_settings (se_control E) of
        None \<Rightarrow> State_Monad.return TELEPHONY_ERR_LOCAL_PTR_NULL
      | Some f \<Rightarrow> do {
          _ \<leftarrow> emit (SettingAsked q);
          State_Monad.return (f q) })"

subsection \<open>The state of the VoIP application\<close>

definition HangUpVoipCall_control :: "service_env \<Rightarrow> ErrCode step" where
  "HangUpVoipCall_control E = do {
     ps \<leftarrow> find_ptr r_list;
     foldr (\<lambda>p rest. do {
       c \<leftarrow> call_of p;
       (if m_callType c \<noteq> TYPE_VOIP \<or> m_callState c = CALL_STATUS_ACTIVE then rest
        else do {
          ret \<leftarrow> (if m_callState c = CALL_STATUS_INCOMING
                 then RejectCall_control E (m_callId c) True ''CarrierAndVoipConflictProcess'' CALL_REJECT_NORMAL
                 else HangUpCall_control E (m_callId c));
          (if ret \<noteq> TELEPHONY_SUCCESS then State_Monad.return ret else rest) }) })
     ps (State_Monad.return TELEPHONY_SUCCESS) }"

fun hang_up_all :: "service_env \<Rightarrow> ptr list \<Rightarrow> ErrCode step" where
  "hang_up_all E [] = State_Monad.return TELEPHONY_SUCCESS"
| "hang_up_all E (p # ps) = do {
     c \<leftarrow> call_of p;
     ret \<leftarrow> HangUpCall_control E (m_callId c);
     (if ret \<noteq> TELEPHONY_SUCCESS then State_Monad.return ret else hang_up_all E ps) }"

text \<open>The queued answer does not remember that real-time text was asked for.\<close>

definition answer_queued :: "service_env \<Rightarrow> ErrCode step" where
  "answer_queued E = do {
     q \<leftarrow> reads s_answeredQueue;
     (case q of
        None \<Rightarrow> State_Monad.return TELEPHONY_SUCCESS
      | Some (callId, videoState) \<Rightarrow> do {
          _ \<leftarrow> change (\<lambda>s. s\<lparr>s_answeredQueue := None\<rparr>);
          AnswerCall_control E callId videoState False }) }"

definition SetVoIPCallState :: "service_env \<Rightarrow> int \<Rightarrow> ErrCode step" where
  "SetVoIPCallState E state = do {
     _ \<leftarrow> change (\<lambda>s. s\<lparr>s_voipState := state\<rparr>);
     _ \<leftarrow> emit (Notified StateReported);
     _ \<leftarrow> whenever (state \<noteq> CallStateToApp_code CALL_STATE_IDLE \<and>
                   state \<noteq> CallStateToApp_code CALL_STATE_UNKNOWN)
       (emit (System RegisterAppStateObserver));
     ps \<leftarrow> find_ptr r_list;
     ret \<leftarrow> (if state = CallStateToApp_code CALL_STATE_ANSWERED then hang_up_all E ps
            else State_Monad.return TELEPHONY_SUCCESS);
     (if ret \<noteq> TELEPHONY_SUCCESS then State_Monad.return ret
      else do {
        _ \<leftarrow> whenever (state = CallStateToApp_code CALL_STATE_OFFHOOK)
          (do { _ \<leftarrow> HangUpVoipCall_control E; State_Monad.return () });
        (if state = CallStateToApp_code CALL_STATE_IDLE then answer_queued E
         else State_Monad.return TELEPHONY_SUCCESS) }) }"

end
