(* ===== verification/Call_Control_Voip.thy ===== *)
theory Call_Control_Voip
  imports Call_Control
begin

text \<open>
  The rest of \<^verbatim>\<open>services/call/src/call_control_manager.cpp\<close>: the calls a VoIP
  application reports through the control manager and what a Bluetooth headset is told of
  them, ending all calls, the headset's button, and real-time text.
\<close>

subsection \<open>Calls the VoIP application reports\<close>

definition IsSupportSetVoipInfo :: "service_env \<Rightarrow> bool" where
  "IsSupportSetVoipInfo E = (ce_readSetVoip (se_control E) \<noteq> ''false'')"

definition NotifyVoipCallStateUpdated ::
  "service_env \<Rightarrow> CallAttributeInfo \<Rightarrow> TelCallState \<Rightarrow> TelCallState \<Rightarrow> bool step" where
  "NotifyVoipCallStateUpdated E info priorState nextState =
     (if se_listener E then do {
        _ \<leftarrow> emit (Notified (VoipCallUpdated info priorState nextState));
        State_Monad.return True }
      else State_Monad.return False)"

definition voip_info :: "int \<Rightarrow> string \<Rightarrow> TelCallState \<Rightarrow> CallAttributeInfo" where
  "voip_info callId phoneNumber s =
     default_info\<lparr>i_accountNumber := take kMaxNumberLen phoneNumber, i_callType := TYPE_VOIP,
       i_callId := callId, i_callState := s\<rparr>"

definition add_voip :: "CallAttributeInfo \<Rightarrow> unit step" where
  "add_voip info = change (\<lambda>s. s\<lparr>s_reg := snd (AddOneVoipCallObject info (s_reg s))\<rparr>)"

definition update_voip :: "int \<Rightarrow> TelCallState \<Rightarrow> unit step" where
  "update_voip callId st =
     change (\<lambda>s. s\<lparr>s_reg := snd (UpdateOneVoipCallObjectByCallId callId st (s_reg s))\<rparr>)"

definition set_virtual_call :: "bool \<Rightarrow> unit step" where
  "set_virtual_call b = do {
     _ \<leftarrow> change (\<lambda>s. s\<lparr>s_virtualCall := b\<rparr>);
     emit (Audio (SetVirtualCallTo b)) }"

definition send_bt_state :: "service_env \<Rightarrow> int \<Rightarrow> int \<Rightarrow> int \<Rightarrow> string \<Rightarrow> ErrCode step" where
  "send_bt_state E numActive numHeld st number = do {
     _ \<leftarrow> emit (BtCallState numActive numHeld st number);
     State_Monad.return (ce_btCallState (se_control E) numActive numHeld st number) }"

definition HandleVoipConnected :: "service_env \<Rightarrow> int \<Rightarrow> int \<Rightarrow> int step" where
  "HandleVoipConnected E numActive callId = do {
     info \<leftarrow> find_ptr GetVoipCallInfo;
     _ \<leftarrow> NotifyVoipCallStateUpdated E info CALL_STATUS_INCOMING CALL_STATUS_ACTIVE;
     _ \<leftarrow> update_voip callId CALL_STATUS_ACTIVE;
     State_Monad.return (if numActive = 0 then 1 else numActive) }"

definition HandleVoipIncoming :: "service_env \<Rightarrow> int \<Rightarrow> int \<Rightarrow> string \<Rightarrow> int step" where
  "HandleVoipIncoming E numActive callId phoneNumber = do {
     r \<leftarrow> reads s_reg;
     (let info = (voip_info callId phoneNumber
            (if HasCallExist r \<or> IsVoipCallExist r then CALL_STATUS_WAITING else CALL_STATUS_INCOMING))
            \<lparr>i_callDirection := CALL_DIRECTION_IN\<rparr> in do {
        _ \<leftarrow> NotifyVoipCallStateUpdated E info CALL_STATUS_INCOMING CALL_STATUS_INCOMING;
        _ \<leftarrow> add_voip info;
        _ \<leftarrow> set_virtual_call False;
        State_Monad.return
          (if IsVoipCallExist r \<and> i_callState (GetVoipCallInfo r) = CALL_STATUS_ACTIVE \<and> numActive = 0
           then 1 else numActive) }) }"

definition ResumeWaitingToRinging :: "int \<Rightarrow> int \<Rightarrow> unit step" where
  "ResumeWaitingToRinging numActive numHeld = do {
     n \<leftarrow> find_ptr (GetCallNum CALL_STATUS_WAITING False);
     whenever (n = 1 \<and> numActive = 0 \<and> numHeld = 0) (do {
       _ \<leftarrow> emit (Audio StopWaitingTone);
       emit (Audio PlayRingtone) }) }"

definition HandleVoipDisconnected :: "service_env \<Rightarrow> int \<Rightarrow> int \<Rightarrow> int \<Rightarrow> int \<Rightarrow> string \<Rightarrow> ErrCode step" where
  "HandleVoipDisconnected E numActive numHeld callId st phoneNumber = do {
     _ \<leftarrow> NotifyVoipCallStateUpdated E (voip_info callId phoneNumber CALL_STATUS_DISCONNECTED)
           CALL_STATUS_ACTIVE CALL_STATUS_DISCONNECTED;
     _ \<leftarrow> change (\<lambda>s. s\<lparr>s_reg := snd (DeleteOneVoipCallObject callId (s_reg s))\<rparr>);
     _ \<leftarrow> send_bt_state E numActive numHeld st phoneNumber;
     waiting \<leftarrow> find_ptr (IsCallExist_state_id CALL_STATUS_WAITING);
     _ \<leftarrow> set_virtual_call True;
     call \<leftarrow> find_ptr (\<lambda>r. case waiting of None \<Rightarrow> None | Some i \<Rightarrow> if i = ERR_ID then None else GetOneCallObject i r);
     (case call of
        None \<Rightarrow> send_bt_state E numActive numHeld (TelCallState_code CALL_STATUS_IDLE) []
      | Some p \<Rightarrow> do {
          _ \<leftarrow> ResumeWaitingToRinging numActive numHeld;
          c \<leftarrow> call_of p;
          send_bt_state E 0 0 (TelCallState_code CALL_STATUS_INCOMING) (m_accountNumber c) }) }"

definition HandleVoipDialing :: "service_env \<Rightarrow> int \<Rightarrow> string \<Rightarrow> unit step" where
  "HandleVoipDialing E callId phoneNumber =
     (let info = (voip_info callId phoneNumber CALL_STATUS_DIALING)\<lparr>i_callDirection := CALL_DIRECTION_OUT\<rparr>
      in do {
        _ \<leftarrow> add_voip info;
        _ \<leftarrow> NotifyVoipCallStateUpdated E info CALL_STATUS_DIALING CALL_STATUS_DIALING;
        set_virtual_call False })"

definition HandleVoipAlerting :: "service_env \<Rightarrow> int \<Rightarrow> string \<Rightarrow> unit step" where
  "HandleVoipAlerting E callId phoneNumber = do {
     r \<leftarrow> reads s_reg;
     (if IsVoipCallExist_state CALL_STATUS_DIALING r = Some callId then do {
        _ \<leftarrow> NotifyVoipCallStateUpdated E (GetVoipCallInfo r) CALL_STATUS_DIALING CALL_STATUS_ALERTING;
        update_voip callId CALL_STATUS_ALERTING }
      else
        let info = (voip_info callId phoneNumber CALL_STATUS_ALERTING)\<lparr>i_callDirection := CALL_DIRECTION_OUT\<rparr>
        in do {
          _ \<leftarrow> add_voip info;
          _ \<leftarrow> NotifyVoipCallStateUpdated E info CALL_STATUS_DIALING CALL_STATUS_DIALING;
          set_virtual_call False }) }"

definition SetVoipCallInfoInner :: "int \<Rightarrow> int \<Rightarrow> string \<Rightarrow> unit step" where
  "SetVoipCallInfoInner callId state phoneNumber =
     change (\<lambda>s. s\<lparr>s_control := (s_control s)\<lparr>ct_voipCallInfo := (callId, state, phoneNumber)\<rparr>\<rparr>)"

definition GetMeetimeCallState :: "service \<Rightarrow> int" where
  "GetMeetimeCallState s = fst (snd (ct_voipCallInfo (s_control s)))"

definition GetVoIPCallInfo :: "service_env \<Rightarrow> service \<Rightarrow> ErrCode \<times> (int \<times> int \<times> string) option" where
  "GetVoIPCallInfo E s =
     (if \<not> IsSupportSetVoipInfo E then (TELEPHONY_ERROR, None)
      else (TELEPHONY_SUCCESS, Some (ct_voipCallInfo (s_control s))))"

definition SetVoIPCallInfo :: "service_env \<Rightarrow> int \<Rightarrow> int \<Rightarrow> string \<Rightarrow> ErrCode step" where
  "SetVoIPCallInfo E callId state phoneNumber =
     (if \<not> IsSupportSetVoipInfo E then State_Monad.return TELEPHONY_ERROR
      else if callId = ILLEGAL_CALLID then do {
        r \<leftarrow> reads s_reg;
        (let (es, r') = ClearVoipList r in do {
           _ \<leftarrow> each (\<lambda>x. emit (RegistryChange x)) es;
           _ \<leftarrow> change (\<lambda>s. s\<lparr>s_reg := r'\<rparr>);
           State_Monad.return TELEPHONY_ERROR }) }
      else do {
        active \<leftarrow> find_ptr (GetCallNum CALL_STATUS_ACTIVE False);
        held \<leftarrow> find_ptr (GetCallNum CALL_STATUS_HOLDING False);
        (let numActive = int active; numHeld = int held in
         if state = TelCallState_code CALL_STATUS_DISCONNECTED
         then HandleVoipDisconnected E numActive numHeld callId state phoneNumber
         else do {
           numActive \<leftarrow>
             (if state = TelCallState_code CALL_STATUS_DIALING
              then do { _ \<leftarrow> HandleVoipDialing E callId phoneNumber; State_Monad.return numActive }
              else if state = TelCallState_code CALL_STATUS_IDLE
              then HandleVoipConnected E numActive callId
              else if state = TelCallState_code CALL_STATUS_INCOMING
              then HandleVoipIncoming E numActive callId phoneNumber
              else if state = TelCallState_code CALL_STATUS_ALERTING
              then do { _ \<leftarrow> HandleVoipAlerting E callId phoneNumber; State_Monad.return numActive }
              else State_Monad.return numActive);
           _ \<leftarrow> SetVoipCallInfoInner callId state phoneNumber;
           send_bt_state E numActive numHeld state phoneNumber }) })"

subsection \<open>Ending calls\<close>

definition is_emergency :: "service_env \<Rightarrow> call \<Rightarrow> bool" where
  "is_emergency E c =
     (let info = GetCallAttributeInfo (se_build E) (se_want E) c default_info in
      i_isEcc info \<or> i_isEccContact info)"

definition disconnect_one :: "service_env \<Rightarrow> bool \<Rightarrow> bool \<Rightarrow> ptr \<Rightarrow> unit step" where
  "disconnect_one E isIncludeEmergencyCall isWaitingForResponse p = do {
     c \<leftarrow> call_of p;
     (if m_callType c = TYPE_BLUETOOTH then State_Monad.return ()
      else if m_callRunningState c \<noteq> CALL_RUNNING_STATE_RINGING \<and>
              ce_thermalBuild (se_control E) \<and> \<not> isIncludeEmergencyCall \<and> is_emergency E c
      then State_Monad.return ()
      else do {
        _ \<leftarrow> (if m_callRunningState c = CALL_RUNNING_STATE_RINGING
             then RejectCall_control E (m_callId c) False [] CALL_REJECT_NORMAL
             else HangUpCall_control E (m_callId c));
        _ \<leftarrow> on_call p (SetApCauseReported True);
        whenever (\<not> isWaitingForResponse)
          (do { _ \<leftarrow> ReportCallDisconnected E (Some p); State_Monad.return () }) }) }"

definition DisconnectAllCalls :: "service_env \<Rightarrow> bool \<Rightarrow> bool \<Rightarrow> unit step" where
  "DisconnectAllCalls E isIncludeEmergencyCall isWaitingForResponse = do {
     ps \<leftarrow> find_ptr r_list;
     each (disconnect_one E isIncludeEmergencyCall isWaitingForResponse) ps }"

definition HandleThermalLevelChange :: "service_env \<Rightarrow> int \<Rightarrow> unit step" where
  "HandleThermalLevelChange E level = do {
     _ \<leftarrow> change (\<lambda>s. s\<lparr>s_control := (s_control s)\<lparr>ct_thermalLevel := level\<rparr>\<rparr>);
     exist \<leftarrow> find_ptr HasCallExist;
     whenever (\<not> level < CRITICAL_THERMAL_LEVEL \<and> exist) (DisconnectAllCalls E False True) }"

definition IsThermalProtectionRequired :: "service \<Rightarrow> bool" where
  "IsThermalProtectionRequired s = (ct_thermalLevel (s_control s) \<ge> CRITICAL_THERMAL_LEVEL)"

text \<open>The first state, in this order, whose last call is not a VoIP call.\<close>

definition endable :: "registry \<Rightarrow> CallRunningState \<Rightarrow> bool" where
  "endable r s = holds_at r (GetOneCallObject_running s r) (\<lambda>c.
     \<not> (m_callId c = INVALID_CALLID \<or> m_callId c \<ge> VOIP_CALL_MINIMUM \<or> m_callType c = TYPE_VOIP))"

definition EndCall :: "service_env \<Rightarrow> bool step" where
  "EndCall E = do {
     r \<leftarrow> reads s_reg;
     (case List.find (endable r) [CALL_RUNNING_STATE_ACTIVE, CALL_RUNNING_STATE_RINGING,
           CALL_RUNNING_STATE_DIALING, CALL_RUNNING_STATE_CONNECTING, CALL_RUNNING_STATE_HOLD] of
        None \<Rightarrow> State_Monad.return True
      | Some s \<Rightarrow>
          let callId = m_callId (r_heap r (the (GetOneCallObject_running s r))) in do {
            ret \<leftarrow> (if s = CALL_RUNNING_STATE_RINGING
                   then RejectCall_control E callId False [] CALL_REJECT_NORMAL
                   else HangUpCall_control E callId);
            State_Monad.return (ret = TELEPHONY_SUCCESS) }) }"

subsection \<open>The button of a headset\<close>

datatype ButtonEvent = SHORT_PRESS_EVENT | LONG_PRESS_EVENT | BUTTON_OTHER

text \<open>A short press answers with a video state of zero and no real-time text.\<close>

definition onButtonDealing :: "service_env \<Rightarrow> ButtonEvent \<Rightarrow> bool step" where
  "onButtonDealing E type = do {
     r \<leftarrow> reads s_reg;
     (let found = (\<lambda>s. GetOneCallObject_running s r);
          isRingState = (found CALL_RUNNING_STATE_RINGING \<noteq> None) in
      case List.find (\<lambda>s. found s \<noteq> None) [CALL_RUNNING_STATE_RINGING, CALL_RUNNING_STATE_DIALING,
             CALL_RUNNING_STATE_ACTIVE, CALL_RUNNING_STATE_HOLD] of
        None \<Rightarrow> State_Monad.return False
      | Some s \<Rightarrow>
          let p = the (found s) in
          (case type of
             SHORT_PRESS_EVENT \<Rightarrow> do {
               _ \<leftarrow> (if isRingState then hang_up_call E p else answer_call E 0 False p);
               State_Monad.return True }
           | LONG_PRESS_EVENT \<Rightarrow> do {
               _ \<leftarrow> (if isRingState then do { _ \<leftarrow> reject_call E p; State_Monad.return () }
                    else emit (Audio (SetMuteTo True)));
               State_Monad.return True }
           | BUTTON_OTHER \<Rightarrow> State_Monad.return False)) }"

subsection \<open>Wearing, ring tone and the user interface\<close>

definition SetWearState :: "int \<Rightarrow> unit step" where
  "SetWearState v = change (\<lambda>s. s\<lparr>s_control := (s_control s)\<lparr>ct_wearStatus := v\<rparr>\<rparr>)"

definition SetReduceRingToneVolume_control :: "bool \<Rightarrow> unit step" where
  "SetReduceRingToneVolume_control b =
     change (\<lambda>s. s\<lparr>s_control := (s_control s)\<lparr>ct_reduceRingTone := b\<rparr>\<rparr>)"

definition HandleVideoRingPlayFail :: "service_env \<Rightarrow> unit step" where
  "HandleVideoRingPlayFail E = do {
     call \<leftarrow> find_ptr (GetOneCarrierCallObject CALL_RUNNING_STATE_RINGING);
     (case call of
        None \<Rightarrow> State_Monad.return ()
      | Some p \<Rightarrow> do {
          _ \<leftarrow> on_call p (\<lambda>c. SetCallerInfo ((m_contactInfo c)\<lparr>ci_ringtonePath := []\<rparr>) c);
          silent \<leftarrow> find_ptr IsNeedSilentInDoNotDisturbMode;
          whenever (\<not> silent) (emit (Audio PlayRingtone)) }) }"

definition PreloadCallUi :: "bool \<Rightarrow> int \<Rightarrow> unit step" where
  "PreloadCallUi enable callingPid = do {
     pids \<leftarrow> reads (\<lambda>s. ct_preloaded (s_control s));
     (let put = (\<lambda>ps. change (\<lambda>s. s\<lparr>s_control := (s_control s)\<lparr>ct_preloaded := ps\<rparr>\<rparr>)) in
      if enable then
        whenever (callingPid \<notin> set pids) (do {
          _ \<leftarrow> put (pids @ [callingPid]);
          _ \<leftarrow> emit (System RegisterAppStateObserver);
          emit (System (ConnectCallUi enable)) })
      else whenever (callingPid \<in> set pids) (do {
          _ \<leftarrow> put (remove1 callingPid pids);
          whenever (remove1 callingPid pids = []) (emit (System (ConnectCallUi enable))) })) }"

subsection \<open>Real-time text\<close>

definition RefreshRttManager :: "service_env \<Rightarrow> CallDetailInfo \<Rightarrow> unit step" where
  "RefreshRttManager E info =
     (if dt_state info \<noteq> CALL_STATUS_ACTIVE \<or> dt_callType info \<noteq> TYPE_IMS \<or> dt_rttState info \<noteq> RTT_STATE_YES
      then State_Monad.return ()
      else do {
        call \<leftarrow> find_ptr (GetOneCallObjectByIndexSlotIdAndCallType (se_code E) (dt_index info)
                 (dt_accountId info) (dt_callType info) (dt_phoneIndex info));
        (case call of
           None \<Rightarrow> State_Monad.return ()
         | Some p \<Rightarrow> do {
             _ \<leftarrow> on_call p (SetRttState (dt_rttState info));
             _ \<leftarrow> on_call p (SetRttChannelId (dt_rttChannelId info));
             whenever (ce_rttListener (se_control E)) (emit (System (InitRtt p))) }) })"

definition UnInitRttManager :: "service_env \<Rightarrow> ErrCode step" where
  "UnInitRttManager E =
     (if \<not> ce_rttListener (se_control E) then State_Monad.return TELEPHONY_ERR_LOCAL_PTR_NULL
      else do { _ \<leftarrow> emit (System UnInitRtt); State_Monad.return TELEPHONY_SUCCESS })"

definition SendRttMessage :: "service_env \<Rightarrow> string \<Rightarrow> ErrCode step" where
  "SendRttMessage E rttMessage =
     (if \<not> ce_rttListener (se_control E) then State_Monad.return TELEPHONY_ERR_LOCAL_PTR_NULL
      else do { _ \<leftarrow> emit (System (SendRtt rttMessage)); State_Monad.return TELEPHONY_SUCCESS })"

end
