(* ===== verification/Call_Creation.thy ===== *)
theory Call_Creation
  imports Call_Control_Voip
begin

text \<open>
  How the handlers of reports make call objects and replace one whose type changed
  (\<^verbatim>\<open>services/call/src/call_status_manager.cpp\<close>: PackParaInfo, CreateNewCall,
  SetCallParams, RefreshCallIfNecessary and RefreshCall).
\<close>

subsection \<open>Parameters of a call\<close>

text \<open>\<^verbatim>\<open>SetParam\<close>: an integer, or a value that is no integer.\<close>

definition set_param :: "string \<Rightarrow> int \<Rightarrow> WantParams \<Rightarrow> WantParams" where
  "set_param k v w = w(k := (\<lambda>_. v))"

definition set_text_param :: "string \<Rightarrow> WantParams \<Rightarrow> WantParams" where
  "set_text_param k w = w(k := (\<lambda>d. d))"

text \<open>The parameters as the call reports them: written as text and parsed again.\<close>

definition reported_params :: "service_env \<Rightarrow> call \<Rightarrow> WantParams" where
  "reported_params E c = rp_parseParams (se_report E)
     (i_extraParamsString (GetCallAttributeInfo (se_build E) (se_want E) c default_info))"

definition SetImsDomainInfo :: "service_env \<Rightarrow> int \<Rightarrow> call \<Rightarrow> call" where
  "SetImsDomainInfo E imsDomain c =
     (let c = SetImsDomain imsDomain c in
      SetExtraParams (set_param ''imsDomain'' imsDomain (reported_params E c)) c)"

definition SetPhoneIndexInfo :: "service_env \<Rightarrow> int \<Rightarrow> call \<Rightarrow> call" where
  "SetPhoneIndexInfo E phoneIndex c =
     SetExtraParams (set_param ''phoneIndex'' phoneIndex (reported_params E c)) c"

text \<open>A flag is a boxed Boolean, which no query for an integer finds.\<close>

definition SetBtCallDialByPhone :: "service_env \<Rightarrow> bool \<Rightarrow> call \<Rightarrow> call" where
  "SetBtCallDialByPhone E isBtCallDialByPhone c =
     SetExtraParams (set_text_param ''isBtCallDialByPhone'' (reported_params E c)) c"

definition SetDistributedDeviceDialing :: "bool \<Rightarrow> call \<Rightarrow> call" where
  "SetDistributedDeviceDialing isDistributedDeviceDialing c =
     (if isDistributedDeviceDialing
      then SetExtraParams (set_text_param ''isDistributedDeviceDialing'' (\<lambda>_ d. d)) c else c)"

subsection \<open>Distributed calls\<close>

definition dc_status :: "service_env \<Rightarrow> string" where
  "dc_status E = (case rp_setting (se_report E) ''distributed_modem_state'' of None \<Rightarrow> [] | Some v \<Rightarrow> v)"

definition IsDcCallConneceted :: "service_env \<Rightarrow> bool" where
  "IsDcCallConneceted E = (dc_status E = ''1_sink'' \<or> dc_status E = ''1_source'')"

definition IsDistributeCallSourceStatus :: "service_env \<Rightarrow> bool" where
  "IsDistributeCallSourceStatus E = (dc_status E = ''1_source'')"

subsection \<open>Making a call\<close>

definition default_dial_info :: DialParaInfo where
  "default_dial_info = \<lparr>d_accountId = 0, d_callId = 0, d_index = 0, d_isRTT = False, d_number = [],
     d_dialType = DIAL_CARRIER_TYPE, d_videoState = TYPE_VOICE, d_callType = TYPE_ERR_CALL,
     d_callState = CALL_STATUS_IDLE, d_isDialing = False, d_isEcc = False, d_bundleName = [],
     d_crsType = 0, d_originalCallType = 0, d_voipCallInfo = default_voip_info,
     d_extraParams = (\<lambda>_ d. d), d_phoneOrWatch = 0, d_isCustomAccessibility = False,
     d_newCallUseBox = 0, d_token = [], d_phoneIndex = 0\<rparr>"

definition PRESENTATION_RESTRICTED :: int where "PRESENTATION_RESTRICTED = 3"

text \<open>
  An outgoing call that is not a VoIP call starts from the stored dial; its parameters and
  its scene come from there.  The id is drawn whatever becomes of the call.
\<close>

definition uses_dial :: "CallDirection \<Rightarrow> CallDetailInfo \<Rightarrow> bool" where
  "uses_dial dir info = (dir = CALL_DIRECTION_OUT \<and> dt_callType info \<noteq> TYPE_VOIP)"

definition new_call_id :: "int step" where
  "new_call_id = do {
     r \<leftarrow> reads s_reg;
     (case GetNewCallId r of
        None \<Rightarrow> do { _ \<leftarrow> fault; State_Monad.return ERR_ID }
      | Some (i, r') \<Rightarrow> do { _ \<leftarrow> change (\<lambda>s. s\<lparr>s_reg := r'\<rparr>); State_Monad.return i }) }"

definition PackParaInfo :: "service_env \<Rightarrow> CallDetailInfo \<Rightarrow> CallDirection \<Rightarrow> DialParaInfo step" where
  "PackParaInfo E info dir = do {
     src \<leftarrow> reads s_dialSrcInfo;
     callId \<leftarrow> new_call_id;
     (let R = se_report E;
          base = (if uses_dial dir info then src else default_dial_info);
          parsed = (if uses_dial dir info then rp_extraParams R else rp_parseParams R []);
          namePresentation = (if rp_supportsCnap R (dt_accountId info) then dt_namePresentation info
                              else PRESENTATION_RESTRICTED) in
      State_Monad.return (base\<lparr>d_number := dt_phoneNum info, d_callId := callId,
        d_index := dt_index info, d_videoState := dt_callMode info, d_accountId := dt_accountId info,
        d_callType := dt_callType info, d_callState := dt_state info,
        d_bundleName := dt_bundleName info, d_crsType := dt_crsType info,
        d_originalCallType := dt_originalCallType info,
        d_extraParams := set_text_param ''name'' (set_param ''namePresentation'' namePresentation parsed),
        d_phoneOrWatch := dt_phoneOrWatch info, d_newCallUseBox := dt_newCallUseBox info,
        d_phoneIndex := dt_phoneIndex info\<rparr>)) }"

text \<open>
  The stored dial already carries the scene (\<^verbatim>\<open>isEcc\<close> and the type of the dial are
  overwritten by the copy of it when it is used).
\<close>

definition dial_scene :: "CallDirection \<Rightarrow> CallDetailInfo \<Rightarrow> extras \<Rightarrow> int" where
  "dial_scene dir info x = (if uses_dial dir info then x ''dialScene'' else 0)"

definition scene_of :: "int \<Rightarrow> DialScene" where
  "scene_of i = (case enum_of DialScene_code [CALL_NORMAL, CALL_PRIVILEGED, CALL_EMERGENCY] i of
     None \<Rightarrow> CALL_NORMAL | Some d \<Rightarrow> d)"

definition OTTCall_incoming :: "DialParaInfo \<Rightarrow> call" where
  "OTTCall_incoming info = extend_call OTTCall CALL_NORMAL info (CallBase_incoming info)"

definition OTTCall_outgoing :: "DialParaInfo \<Rightarrow> call" where
  "OTTCall_outgoing info = extend_call OTTCall CALL_NORMAL info (CallBase_outgoing info)"

definition rtt_fields :: "build \<Rightarrow> CallDetailInfo \<Rightarrow> call \<Rightarrow> call" where
  "rtt_fields b info c =
     (if support_rtt_call b then SetRttChannelId (dt_rttChannelId info) (SetRttState (dt_rttState info) c) else c)"

text \<open>The object, or nothing for a type no class has.\<close>

definition CreateNewCallByCallType ::
  "service_env \<Rightarrow> DialParaInfo \<Rightarrow> CallDetailInfo \<Rightarrow> CallDirection \<Rightarrow> DialScene \<Rightarrow> call option" where
  "CreateNewCallByCallType E para info dir scene =
     (let out = (dir = CALL_DIRECTION_OUT); mac = rp_macAddress (se_report E) (dt_phoneIndex info) in
      case dt_callType info of
        TYPE_CS \<Rightarrow> Some (if out then CarrierCall_outgoing CSCall para scene else CarrierCall_incoming CSCall para)
      | TYPE_IMS \<Rightarrow> Some (rtt_fields (se_build E) info
          (if out then CarrierCall_outgoing IMSCall para scene else CarrierCall_incoming IMSCall para))
      | TYPE_OTT \<Rightarrow> Some (if out then OTTCall_outgoing para else OTTCall_incoming para)
      | TYPE_VOIP \<Rightarrow> Some (VoIPCall_new para)
      | TYPE_SATELLITE \<Rightarrow> Some (if out then CarrierCall_outgoing SatelliteCall para scene
                               else CarrierCall_incoming SatelliteCall para)
      | TYPE_BLUETOOTH \<Rightarrow> Some
          (let c = (if out then BluetoothCall_outgoing para scene mac (dt_phoneIndex info)
                    else BluetoothCall_incoming para mac (dt_phoneIndex info)) in
           if call_transfer (se_build E) \<and> Utils_IsTransferCall E TYPE_BLUETOOTH
           then SetIsTransferCall True c else c)
      | TYPE_ERR_CALL \<Rightarrow> None)"

text \<open>The place of a new object; what its class does when it is made.\<close>

definition allocate :: "call \<Rightarrow> ptr step" where
  "allocate c = do {
     p \<leftarrow> reads s_fresh;
     _ \<leftarrow> change (\<lambda>s. s\<lparr>s_fresh := Suc p\<rparr>);
     _ \<leftarrow> put_call p c;
     State_Monad.return p }"

definition class_effects :: "service_env \<Rightarrow> ptr \<Rightarrow> unit step" where
  "class_effects E p = do {
     c \<leftarrow> call_of p;
     _ \<leftarrow> whenever (m_callType c = TYPE_IMS) (emit (System (InitVideoCall p (m_videoState c))));
     whenever (m_class c = BluetoothCall \<and> m_isTransferCall c) (emit (Bluetooth (UpdateTransferCall p))) }"

text \<open>The SIM label goes into the parameters; then the number is looked up, and the time is set.\<close>

definition wants_location :: "service_env \<Rightarrow> CallDetailInfo \<Rightarrow> bool" where
  "wants_location E info =
     (dt_state info = CALL_STATUS_INCOMING \<or> dt_state info = CALL_STATUS_WAITING \<or>
      (dt_state info = CALL_STATUS_DIALING \<and>
       (dt_index info = 0 \<or> IsDcCallConneceted E \<or>
        (dt_index info > 0 \<and> dt_callType info = TYPE_BLUETOOTH))))"

definition SetCallParams :: "service_env \<Rightarrow> ptr \<Rightarrow> CallDetailInfo \<Rightarrow> unit step" where
  "SetCallParams E p info =
     (if dt_callType info = TYPE_VOIP
      then on_call p (\<lambda>c. SetExtraParams
        (set_text_param ''traceFlags'' (set_text_param ''traceChainId'' (m_extraParams c))) c)
      else do {
        _ \<leftarrow> (case rp_simLabel (se_report E) (dt_accountId info) of
               None \<Rightarrow> State_Monad.return ()
             | Some (simType, index) \<Rightarrow> on_call p (\<lambda>c. SetExtraParams
                 (set_param ''simIndex'' index (set_param ''simType'' simType (m_extraParams c))) c));
        _ \<leftarrow> whenever (wants_location E info) (submit (LocationTask p));
        k \<leftarrow> read_clock E;
        on_call p (SetCallCreateTime (max (now k) 0)) })"

definition CreateNewCall :: "service_env \<Rightarrow> CallDetailInfo \<Rightarrow> CallDirection \<Rightarrow> ptr option step" where
  "CreateNewCall E info dir = do {
     x \<leftarrow> reads s_extras;
     para \<leftarrow> PackParaInfo E info dir;
     (let scene = dial_scene dir info x in
      case CreateNewCallByCallType E para info dir (scene_of scene) of
        None \<Rightarrow> State_Monad.return None
      | Some c \<Rightarrow> do {
          p \<leftarrow> allocate c;
          _ \<leftarrow> class_effects E p;
          _ \<leftarrow> whenever (scene = DialScene_code CALL_EMERGENCY) (on_call p (SetIsEccContact True));
          _ \<leftarrow> on_call p (SetOriginalCallType (dt_originalCallType info));
          _ \<leftarrow> SetCallParams E p info;
          State_Monad.return (Some p) }) }"

subsection \<open>Replacing a call whose type changed\<close>

text \<open>
  The new object takes over the times, the flags and the id of the old one.  It is made
  for the report's type and direction; the id drawn for it is lost.
\<close>

definition inherit_times :: "CallAttributeInfo \<Rightarrow> call \<Rightarrow> call" where
  "inherit_times a c = SetAnswerType (i_answerType a) (SetRingEndTime (i_ringEndTime a)
     (SetRingBeginTime (i_ringBeginTime a) (SetCallEndTime (i_callEndTime a)
     (SetCallCreateTime (i_callCreateTime a) (SetCallBeginTime (i_callBeginTime a) c)))))"

definition inherit_state :: "call \<Rightarrow> CallAttributeInfo \<Rightarrow> call \<Rightarrow> call" where
  "inherit_state old a c =
     snd (SetMicPhoneState (m_isMuted old) (inherit_times a
       (snd (SetSpeakerphoneOn (m_isSpeakerphoneOn old) (SetPolicyFlag (m_policyFlag old)
         (SetStartTime (i_startTime a) (SetTelConferenceState (m_conferenceState old)
         (SetCallRunningState (m_callRunningState old) c))))))))"

definition keeps_mark :: "call \<Rightarrow> bool \<Rightarrow> call \<Rightarrow> bool" where
  "keeps_mark old isEcc new =
     (let t = markType (m_numberMarkInfo old) in
      (t \<noteq> MARK_TYPE_DEFAULT \<and> t \<noteq> MARK_TYPE_NONE) \<or>
      (isEcc \<and> t \<noteq> MARK_TYPE_DEFAULT \<and> m_callType new = TYPE_CS))"

definition set_tel_state :: "service_env \<Rightarrow> TelCallState \<Rightarrow> ptr \<Rightarrow> ErrCode step" where
  "set_tel_state E st p = do {
     k \<leftarrow> read_clock E;
     c \<leftarrow> call_of p;
     (let (ret, c') = SetTelCallState k st c in do {
        _ \<leftarrow> put_call p c';
        State_Monad.return ret }) }"

definition RefreshCall :: "service_env \<Rightarrow> ptr \<Rightarrow> CallDetailInfo \<Rightarrow> ptr step" where
  "RefreshCall E p info = do {
     old \<leftarrow> call_of p;
     (let a = GetCallAttributeBaseInfo (se_want E) old zeroed_info in do {
        newCall \<leftarrow> CreateNewCall E info (i_callDirection a);
        (case newCall of
           None \<Rightarrow> State_Monad.return p
         | Some q \<Rightarrow> do {
             _ \<leftarrow> add_call E q;
             _ \<leftarrow> on_call q (inherit_state old a);
             _ \<leftarrow> delete_call E (m_callId old);
             new \<leftarrow> call_of q;
             _ \<leftarrow> whenever (m_callType old = TYPE_IMS \<and> m_callType new = TYPE_CS \<and> dt_mpty info = 1)
               (change (\<lambda>s. s\<lparr>s_conf := CSCall_UpdateConferenceId (m_callId old) (s_conf s)\<rparr>));
             _ \<leftarrow> on_call q (SetCallId (m_callId old));
             _ \<leftarrow> set_tel_state E (m_callState old) q;
             _ \<leftarrow> on_call q (SetImsDomainInfo E (i_imsDomain a));
             _ \<leftarrow> whenever (m_numberLocation old \<noteq> ''default'')
               (on_call q (SetNumberLocation (m_numberLocation old)));
             _ \<leftarrow> whenever (keeps_mark old (i_isEcc a) new)
               (on_call q (SetNumberMarkInfo (m_numberMarkInfo old)));
             State_Monad.return q }) }) }"

definition RefreshCallIfNecessary :: "service_env \<Rightarrow> ptr \<Rightarrow> CallDetailInfo \<Rightarrow> ptr step" where
  "RefreshCallIfNecessary E p info = do {
     _ \<leftarrow> on_call p (SetNewCallUseBox (dt_newCallUseBox info));
     c \<leftarrow> call_of p;
     _ \<leftarrow> whenever (m_callType c = TYPE_IMS \<and> m_videoState c \<noteq> dt_callMode info) (do {
       _ \<leftarrow> on_call p (SetVideoStateType (dt_callMode info));
       emit (System (InitVideoCall p (dt_callMode info))) });
     _ \<leftarrow> on_call p (SetImsDomainInfo E (dt_imsDomain info));
     _ \<leftarrow> whenever (m_callType c = TYPE_IMS)
       (on_call p (\<lambda>c. rtt_fields (se_build E) info (SetCrsType (dt_crsType info) c)));
     (if m_callType c = dt_callType info then State_Monad.return p else RefreshCall E p info) }"

end
