(* ===== verification/Call_Status.thy ===== *)
theory Call_Status
  imports Call_Creation
begin

text \<open>
  The steps the handlers of reports share (CallStatusManager,
  \<^verbatim>\<open>services/call/src/call_status_manager.cpp\<close>): a call's new state and who is
  told of it, the calls that are answered, recovered or dialed on their own when another
  call is held or ends, the fraud detection, and what a pending dial or hang-up leaves.
\<close>

subsection \<open>A new state\<close>

definition SLOT_NUM :: int where "SLOT_NUM = 2"

definition SetVideoCallState :: "service_env \<Rightarrow> ptr \<Rightarrow> TelCallState \<Rightarrow> unit step" where
  "SetVideoCallState E p nextState = do {
     c \<leftarrow> call_of p;
     prior \<leftarrow> reads s_priorVideoState;
     (let slotId = slot_of E c; videoState = m_videoState c in
      whenever (m_callType c \<noteq> TYPE_VOIP \<and> \<not> (slotId \<ge> SLOT_NUM \<or> slotId < 0)) (do {
        _ \<leftarrow> whenever (prior slotId \<noteq> videoState) (do {
          _ \<leftarrow> emit (Audio (VideoStateUpdated p (prior slotId) videoState));
          _ \<leftarrow> emit (System (AntiFraudVideoState (prior slotId) videoState));
          change (\<lambda>s. s\<lparr>s_priorVideoState := (s_priorVideoState s)(slotId := videoState)\<rparr>) });
        whenever (nextState = CALL_STATUS_DISCONNECTED)
          (change (\<lambda>s. s\<lparr>s_priorVideoState := (s_priorVideoState s)(slotId := TYPE_VOICE)\<rparr>)) })) }"

text \<open>The object is set, then every listed object with its id is.\<close>

definition update_by_id :: "service_env \<Rightarrow> int \<Rightarrow> TelCallState \<Rightarrow> unit step" where
  "update_by_id E callId st = do {
     k \<leftarrow> read_clock E;
     change (\<lambda>s. s\<lparr>s_reg := UpdateOneCallObjectByCallId k callId st (s_reg s)\<rparr>) }"

definition UpdateCallState :: "service_env \<Rightarrow> ptr \<Rightarrow> TelCallState \<Rightarrow> ErrCode step" where
  "UpdateCallState E p nextState = do {
     c \<leftarrow> call_of p;
     (let priorState = m_callState c in do {
        _ \<leftarrow> whenever (m_callType c = TYPE_SATELLITE)
          (emit (System (SatelliteStateUpdate p priorState nextState)));
        ret \<leftarrow> set_tel_state E nextState p;
        _ \<leftarrow> update_by_id E (m_callId c) nextState;
        (if ret \<noteq> TELEPHONY_SUCCESS \<and> ret \<noteq> CALL_ERR_NOT_NEW_STATE
         then State_Monad.return TELEPHONY_ERR_LOCAL_PTR_NULL
         else do {
           _ \<leftarrow> whenever (nextState = CALL_STATUS_DISCONNECTED) (on_call p (\<lambda>c. SetExtraParams
             (set_param ''createTime'' (m_callCreateTime c) (m_extraParams c)) c));
           told \<leftarrow> NotifyCallStateUpdated E (Some p) priorState nextState;
           (if \<not> told then State_Monad.return CALL_ERR_PHONE_CALLSTATE_NOTIFY_FAILED
            else do {
              _ \<leftarrow> SetVideoCallState E p nextState;
              State_Monad.return TELEPHONY_SUCCESS }) }) }) }"

subsection \<open>Answering on its own\<close>

fun first_ringing_answer :: "service_env \<Rightarrow> int list \<Rightarrow> unit step" where
  "first_ringing_answer E [] = State_Monad.return ()"
| "first_ringing_answer E (i # is) = do {
     call \<leftarrow> find_ptr (GetOneCallObject i);
     (case call of
        None \<Rightarrow> State_Monad.return ()
      | Some p \<Rightarrow> do {
          c \<leftarrow> call_of p;
          (if m_callRunningState c = CALL_RUNNING_STATE_RINGING \<and> m_autoAnswerState c then do {
             _ \<leftarrow> on_call p (SetAutoAnswerState False);
             _ \<leftarrow> answer_call E (m_answerVideoState c) False p;
             State_Monad.return () }
           else first_ringing_answer E is) }) }"

definition AutoAnswer :: "service_env \<Rightarrow> nat \<Rightarrow> nat \<Rightarrow> unit step" where
  "AutoAnswer E activeCallNum waitingCallNum = do {
     holdingCallNum \<leftarrow> call_num CALL_STATUS_HOLDING;
     dialingCallNum \<leftarrow> call_num CALL_STATUS_DIALING;
     alertingCallNum \<leftarrow> call_num CALL_STATUS_ALERTING;
     ids \<leftarrow> find_ptr GetCarrierCallList;
     whenever (activeCallNum = 0 \<and> waitingCallNum = 0 \<and> holdingCallNum = 0 \<and> dialingCallNum = 0 \<and>
               alertingCallNum = 0) (first_ringing_answer E ids) }"

definition AutoAnswerForVideoCall :: "service_env \<Rightarrow> nat \<Rightarrow> unit step" where
  "AutoAnswerForVideoCall E activeCallNum = AutoAnswer E activeCallNum 0"

definition AutoAnswerForVoiceCall :: "service_env \<Rightarrow> ptr \<Rightarrow> int \<Rightarrow> bool \<Rightarrow> unit step" where
  "AutoAnswerForVoiceCall E p slotId continueAnswer = do {
     c \<leftarrow> call_of p;
     _ \<leftarrow> whenever (continueAnswer \<or> slotId \<noteq> slot_of E c) (do {
       _ \<leftarrow> NotifyCallStateUpdated E (Some p) CALL_STATUS_INCOMING CALL_STATUS_ANSWERED;
       c \<leftarrow> call_of p;
       ret \<leftarrow> answer_call E (m_answerVideoState c) False p;
       whenever (ret = TELEPHONY_SUCCESS)
         (do { _ \<leftarrow> NotifyIncomingCallAnswered E (Some p); State_Monad.return () }) });
     on_call p (SetAutoAnswerState False) }"

text \<open>The held call of the other card that is recovered, if any; the loop ends there.\<close>

definition recoverable :: "service_env \<Rightarrow> nat \<Rightarrow> nat \<Rightarrow> nat \<Rightarrow> int \<Rightarrow> int \<Rightarrow> conferences \<Rightarrow> call \<Rightarrow> bool" where
  "recoverable E activeCallNum waitingCallNum dialingCallNum slotId otherCallId g c =
     (slotId \<noteq> slot_of E c \<and> m_callState c = CALL_STATUS_HOLDING \<and> m_canUnHoldState c \<and>
      activeCallNum = 0 \<and> waitingCallNum = 0 \<and> dialingCallNum = 0 \<and>
      ((m_conferenceState c \<noteq> TEL_CONFERENCE_IDLE \<and> GetMainCallId c g ERR_ID = otherCallId) \<or>
       m_conferenceState c = TEL_CONFERENCE_IDLE))"

definition AutoUnHoldForDsda ::
  "service_env \<Rightarrow> bool \<Rightarrow> TelCallState \<Rightarrow> nat \<Rightarrow> int \<Rightarrow> unit step" where
  "AutoUnHoldForDsda E canSwitchCallState priorState activeCallNum slotId = do {
     dialingCallNum \<leftarrow> call_num CALL_STATUS_DIALING;
     waitingCallNum \<leftarrow> call_num CALL_STATUS_WAITING;
     ids \<leftarrow> find_ptr GetCarrierCallList;
     currentCallNum \<leftarrow> current_call_num;
     r \<leftarrow> reads s_reg;
     g \<leftarrow> reads s_conf;
     (let proceeds = (priorState = CALL_STATUS_DISCONNECTING \<or>
                      (\<not> canSwitchCallState \<and> currentCallNum = 2));
          fits = (\<lambda>i. holds_at r (GetOneCallObject i r)
                    (recoverable E activeCallNum waitingCallNum dialingCallNum slotId i g)) in
      case (if proceeds then List.find fits ids else None) of
        Some i \<Rightarrow> do {
          _ \<leftarrow> unhold_call E (the (GetOneCallObject i r));
          State_Monad.return () }
      | None \<Rightarrow> each (\<lambda>i. do {
          call \<leftarrow> find_ptr (GetOneCallObject i);
          held \<leftarrow> find_ptr (\<lambda>r. holds_at r call (\<lambda>c. m_callState c = CALL_STATUS_HOLDING));
          whenever (held \<and> currentCallNum = 2) (on_call (the call) (SetCanUnHoldState True)) }) ids) }"

text \<open>
  The first call that waits to be answered decides: a video call, or a voice call when no
  call is active or being dialed; a voice call that cannot be answered yet is passed over.
\<close>

fun auto_handle_loop ::
  "service_env \<Rightarrow> (unit step) \<Rightarrow> nat \<Rightarrow> nat \<Rightarrow> nat \<Rightarrow> int \<Rightarrow> bool \<Rightarrow> int list \<Rightarrow> unit step" where
  "auto_handle_loop E unhold a d al slotId continueAnswer [] = unhold"
| "auto_handle_loop E unhold a d al slotId continueAnswer (i # is) = do {
     call \<leftarrow> find_ptr (GetOneCallObject i);
     r \<leftarrow> reads s_reg;
     (if holds_at r call m_autoAnswerState then
        let p = the call; c = r_heap r p in
        (if m_videoState c = TYPE_VIDEO then do {
           _ \<leftarrow> AutoAnswerForVideoCall E a;
           unhold }
         else if d = 0 \<and> al = 0 \<and> a = 0 \<and> m_callRunningState c = CALL_RUNNING_STATE_RINGING
         then do {
           _ \<leftarrow> AutoAnswerForVoiceCall E p slotId continueAnswer;
           unhold }
         else auto_handle_loop E unhold a d al slotId continueAnswer is)
      else auto_handle_loop E unhold a d al slotId continueAnswer is) }"

definition AutoHandleForDsda ::
  "service_env \<Rightarrow> bool \<Rightarrow> TelCallState \<Rightarrow> nat \<Rightarrow> int \<Rightarrow> bool \<Rightarrow> unit step" where
  "AutoHandleForDsda E canSwitchCallState priorState activeCallNum slotId continueAnswer = do {
     dialingCallNum \<leftarrow> call_num CALL_STATUS_DIALING;
     alertingCallNum \<leftarrow> call_num CALL_STATUS_ALERTING;
     ids \<leftarrow> find_ptr GetCarrierCallList;
     auto_handle_loop E (AutoUnHoldForDsda E canSwitchCallState priorState activeCallNum slotId)
       activeCallNum dialingCallNum alertingCallNum slotId continueAnswer ids }"

definition AutoAnswerVideoCallForNotDsda :: "service_env \<Rightarrow> ptr \<Rightarrow> nat \<Rightarrow> bool step" where
  "AutoAnswerVideoCallForNotDsda E disconnectedCall activeCallNum = do {
     ids \<leftarrow> find_ptr GetCarrierCallList;
     r \<leftarrow> reads s_reg;
     (if list_ex (\<lambda>i. holds_at r (GetOneCallObject i r) (\<lambda>c. m_autoAnswerState c \<and>
           (m_videoState c = TYPE_VIDEO \<or> m_videoState (r_heap r disconnectedCall) = TYPE_VIDEO))) ids
      then do { _ \<leftarrow> AutoAnswerForVideoCall E activeCallNum; State_Monad.return True }
      else State_Monad.return False) }"

definition IsCanUnHold :: "nat \<Rightarrow> nat \<Rightarrow> nat \<Rightarrow> registry \<Rightarrow> bool" where
  "IsCanUnHold activeCallNum waitingCallNum memberNum r =
     (GetCallNum CALL_STATUS_ANSWERED True r = 0 \<and> GetCallNum CALL_STATUS_INCOMING True r = 0 \<and>
      (memberNum = 0 \<or> memberNum = 1) \<and> activeCallNum = 0 \<and> waitingCallNum = 0 \<and>
      GetCallNum CALL_STATUS_ALERTING True r = 0)"

text \<open>In a build for one call at a time the first marked call is answered.\<close>

fun answer_pending :: "service_env \<Rightarrow> ptr list \<Rightarrow> unit step" where
  "answer_pending E [] = State_Monad.return ()"
| "answer_pending E (p # ps) = do {
     c \<leftarrow> call_of p;
     (if ringing_state c \<and> m_autoAnswerState c then do {
        _ \<leftarrow> on_call p (SetAutoAnswerState False);
        _ \<leftarrow> AnswerCall_control E (m_callId c) (VideoStateType_code (m_videoState c))
              (support_rtt_call (se_build E) \<and> m_callType c = TYPE_IMS \<and> m_rttState c = RTT_STATE_YES);
        State_Monad.return () }
      else answer_pending E ps) }"

definition AnswerPendingCall :: "service_env \<Rightarrow> unit step" where
  "AnswerPendingCall E = do {
     ps \<leftarrow> find_ptr r_list;
     answer_pending E ps }"

subsection \<open>A dial that waited for the hold\<close>

definition HandleDialWhenHolding :: "service_env \<Rightarrow> int \<Rightarrow> ptr \<Rightarrow> unit step" where
  "HandleDialWhenHolding E callId p = do {
     h \<leftarrow> reads s_helper;
     (if IsPendingHangup h then do {
        holdCall \<leftarrow> find_ptr (GetOneCallObject callId);
        _ \<leftarrow> (case holdCall of None \<Rightarrow> State_Monad.return ()
             | Some q \<Rightarrow> do { _ \<leftarrow> unhold_call E q; State_Monad.return () });
        (let pendingHangupCallId = GetPendingHangupCallId h in do {
           pending \<leftarrow> find_ptr (GetOneCallObject pendingHangupCallId);
           _ \<leftarrow> (case pending of None \<Rightarrow> State_Monad.return ()
                | Some q \<Rightarrow> do {
                    _ \<leftarrow> UpdateCallState E q CALL_STATUS_DISCONNECTED;
                    delete_call E pendingHangupCallId });
           _ \<leftarrow> on_helper (SetPendingHangup False (-1));
           RemovePendingHangupProtectTask }) }
      else do {
        info \<leftarrow> reads s_dialCallInfo;
        result \<leftarrow> cellular_dial E info;
        dialCall \<leftarrow> find_ptr (GetOneCallObject_running CALL_RUNNING_STATE_DIALING);
        whenever (result \<noteq> TELEPHONY_SUCCESS \<and> dialCall \<noteq> None)
          (do { _ \<leftarrow> DealFailDial E (Some p); State_Monad.return () }) }) }"

definition ClearPendingState :: "service_env \<Rightarrow> ptr \<Rightarrow> unit step" where
  "ClearPendingState E p = do {
     c \<leftarrow> call_of p;
     _ \<leftarrow> on_helper (\<lambda>h. if HasPendingMo (m_callId c) h then SetPendingMo False (-1) h else h);
     h \<leftarrow> reads s_helper;
     whenever (HasPendingHangup (m_callId c) h) (do {
       _ \<leftarrow> whenever (m_callRunningState c \<noteq> CALL_RUNNING_STATE_ENDED)
         (do { _ \<leftarrow> hang_up_call E p; State_Monad.return () });
       _ \<leftarrow> on_helper (SetPendingHangup False (-1));
       RemovePendingHangupProtectTask }) }"

definition UpdateCallStateAndHandleDsdsMode :: "service_env \<Rightarrow> ptr \<Rightarrow> ErrCode step" where
  "UpdateCallStateAndHandleDsdsMode E p = do {
     c \<leftarrow> call_of p;
     (let priorState = m_callState c in do {
        ret \<leftarrow> UpdateCallState E p CALL_STATUS_HOLDING;
        c \<leftarrow> call_of p;
        activeCallNum \<leftarrow> call_num CALL_STATUS_ACTIVE;
        wait \<leftarrow> reads s_needWaitHold;
        g \<leftarrow> reads s_conf;
        _ \<leftarrow> whenever (IsDsdsMode5 E)
          (if wait \<and> activeCallNum = 0 then do {
             _ \<leftarrow> set_needWaitHold False;
             HandleDialWhenHolding E (m_callId c) p }
           else whenever ((m_conferenceState c \<noteq> TEL_CONFERENCE_IDLE \<and>
                           GetMainCallId c g ERR_ID = m_callId c) \<or>
                          m_conferenceState c = TEL_CONFERENCE_IDLE)
             (AutoHandleForDsda E (m_canSwitchCallState c) priorState activeCallNum (slot_of E c) False));
        State_Monad.return ret }) }"

text \<open>A call ended: a held call of its card is recovered, or a waiting call answered.\<close>

definition HandleHoldCallOrAutoAnswerCall ::
  "service_env \<Rightarrow> ptr \<Rightarrow> nat \<Rightarrow> CallRunningState \<Rightarrow> TelCallState \<Rightarrow> unit step" where
  "HandleHoldCallOrAutoAnswerCall E p memberNum previousState priorState = do {
     activeCallNum \<leftarrow> call_num CALL_STATUS_ACTIVE;
     waitingCallNum \<leftarrow> call_num CALL_STATUS_WAITING;
     canUnHold \<leftarrow> find_ptr (IsCanUnHold activeCallNum waitingCallNum memberNum);
     holdCall \<leftarrow> find_ptr (GetOneCallObject_running CALL_RUNNING_STATE_HOLD);
     c \<leftarrow> call_of p;
     r \<leftarrow> reads s_reg;
     _ \<leftarrow> whenever (previousState \<noteq> CALL_RUNNING_STATE_HOLD \<and> previousState \<noteq> CALL_RUNNING_STATE_ACTIVE \<and>
                   priorState = CALL_STATUS_DISCONNECTING \<and> canUnHold \<and>
                   holds_at r holdCall (\<lambda>h. m_canUnHoldState h \<and> slot_of E h = slot_of E c))
       (do { _ \<leftarrow> unhold_call E (the holdCall); State_Monad.return () });
     _ \<leftarrow> delete_call E (m_callId c);
     (if not_support_multicall (se_build E) then AnswerPendingCall E
      else if IsDsdsMode5 E
      then AutoHandleForDsda E (m_canSwitchCallState c) priorState activeCallNum (slot_of E c) True
      else do {
        done \<leftarrow> AutoAnswerVideoCallForNotDsda E p activeCallNum;
        whenever (\<not> done \<and> IsDsdsMode3 E) (AutoAnswer E activeCallNum waitingCallNum) }) }"

end
