(* ===== verification/Call_Numbers.thy ===== *)
theory Call_Numbers
  imports Call_Status
begin

text \<open>
  Phone numbers (CallNumberUtils, \<^verbatim>\<open>utils/src/call_number_utils.cpp\<close>): what is kept of
  a number, when two numbers are the same, and the tasks that look up the place and the
  mark of a number and store them in a call.  The formatting library and the number
  databases are arguments.
\<close>

subsection \<open>Characters of a number\<close>

definition is_digit :: "char \<Rightarrow> bool" where
  "is_digit c = ((of_char c :: nat) \<in> {48..57})"

definition is_letter :: "char \<Rightarrow> bool" where
  "is_letter c = ((of_char c :: nat) \<in> {97..122} \<or> (of_char c :: nat) \<in> {65..90})"

text \<open>White space as a stream skips it: blank, tabulators, line and page feeds.\<close>

definition is_space :: "char \<Rightarrow> bool" where
  "is_space c = ((of_char c :: nat) = 32 \<or> (of_char c :: nat) \<in> {9..13})"

definition to_upper :: "char \<Rightarrow> char" where
  "to_upper c = (if (of_char c :: nat) \<in> {97..122} then char_of ((of_char c :: nat) - 32) else c)"

definition ProcessSpace :: "string \<Rightarrow> string" where
  "ProcessSpace number = filter (\<lambda>c. \<not> is_space c) number"

definition HasAlphabetInPhoneNum :: "string \<Rightarrow> bool" where
  "HasAlphabetInPhoneNum inputValue = (if inputValue = [] then True else list_ex is_letter inputValue)"

definition HasBCPhoneNumber :: "string \<Rightarrow> bool" where
  "HasBCPhoneNumber phoneNumber = (length phoneNumber = 11 \<and> take 3 phoneNumber = ''192'')"

subsection \<open>Formatting\<close>

text \<open>
  The library parses a number for a country and prints it.  Its object may be missing; so
  may the formatter for numbers being typed, which takes the digits one by one.
\<close>

datatype PhoneNumberFormat = E164 | INTERNATIONAL | NATIONAL

record 'p phone_library =
  pl_available :: bool
  pl_parse :: "string \<Rightarrow> string \<Rightarrow> 'p"
  pl_parseRaw :: "string \<Rightarrow> string \<Rightarrow> 'p"
  pl_valid :: "'p \<Rightarrow> bool"
  pl_format :: "PhoneNumberFormat \<Rightarrow> 'p \<Rightarrow> string"
  pl_original :: "'p \<Rightarrow> string \<Rightarrow> string"
  pl_typed :: "string \<Rightarrow> (string \<Rightarrow> string) option"   \<comment> \<open>country; the text after these digits\<close>

definition starts_with_code :: "string \<Rightarrow> bool" where
  "starts_with_code n = (n \<noteq> [] \<and> (hd n = CHR ''#'' \<or> hd n = CHR ''*''))"

definition no_zero :: "string \<Rightarrow> string" where
  "no_zero n = (if n = [] \<or> n = ''0'' then [] else n)"

definition FormatPhoneNumber ::
  "'p phone_library \<Rightarrow> string \<Rightarrow> string \<Rightarrow> string \<Rightarrow> ErrCode \<times> string" where
  "FormatPhoneNumber L phoneNumber countryCode formatNumber =
     (if phoneNumber = [] then (TELEPHONY_ERR_ARGUMENT_INVALID, formatNumber)
      else if starts_with_code phoneNumber then (TELEPHONY_SUCCESS, phoneNumber)
      else if \<not> pl_available L then (TELEPHONY_ERR_LOCAL_PTR_NULL, formatNumber)
      else (let tmpCode = map to_upper countryCode in
        (TELEPHONY_SUCCESS, no_zero (pl_original L (pl_parseRaw L phoneNumber tmpCode) tmpCode))))"

definition FormatNumberBase ::
  "'p phone_library \<Rightarrow> string \<Rightarrow> string \<Rightarrow> PhoneNumberFormat \<Rightarrow> string \<Rightarrow> ErrCode \<times> string" where
  "FormatNumberBase L phoneNumber countryCode formatInfo formatNumber =
     (if phoneNumber = [] then (TELEPHONY_ERR_ARGUMENT_INVALID, formatNumber)
      else if \<not> pl_available L then (TELEPHONY_ERR_LOCAL_PTR_NULL, formatNumber)
      else (let parsed = pl_parse L phoneNumber (map to_upper countryCode) in
        if pl_valid L parsed \<or> HasBCPhoneNumber phoneNumber
        then (TELEPHONY_SUCCESS, pl_format L formatInfo parsed)
        else (TELEPHONY_SUCCESS, formatNumber)))"

definition FormatPhoneNumberToE164 :: "'p phone_library \<Rightarrow> string \<Rightarrow> string \<Rightarrow> string \<Rightarrow> ErrCode \<times> string" where
  "FormatPhoneNumberToE164 L phoneNumber countryCode formatNumber =
     FormatNumberBase L phoneNumber countryCode E164 formatNumber"

definition FormatPhoneNumberToNational :: "'p phone_library \<Rightarrow> string \<Rightarrow> string \<Rightarrow> string \<Rightarrow> ErrCode \<times> string" where
  "FormatPhoneNumberToNational L phoneNumber countryCode formatNumber =
     (let (ret, n) = FormatNumberBase L phoneNumber countryCode NATIONAL formatNumber in (ret, ProcessSpace n))"

definition FormatPhoneNumberToInternational :: "'p phone_library \<Rightarrow> string \<Rightarrow> string \<Rightarrow> string \<Rightarrow> ErrCode \<times> string" where
  "FormatPhoneNumberToInternational L phoneNumber countryCode formatNumber =
     (let (ret, n) = FormatNumberBase L phoneNumber countryCode INTERNATIONAL formatNumber in (ret, ProcessSpace n))"

definition FormatPhoneNumberAsYouType :: "'p phone_library \<Rightarrow> string \<Rightarrow> string \<Rightarrow> string \<Rightarrow> ErrCode \<times> string" where
  "FormatPhoneNumberAsYouType L phoneNumber countryCode formatNumber =
     (if phoneNumber = [] then (TELEPHONY_ERR_ARGUMENT_INVALID, formatNumber)
      else if starts_with_code phoneNumber then (TELEPHONY_SUCCESS, phoneNumber)
      else if \<not> pl_available L then (TELEPHONY_ERR_LOCAL_PTR_NULL, formatNumber)
      else (case pl_typed L (map to_upper countryCode) of
              None \<Rightarrow> (TELEPHONY_ERR_LOCAL_PTR_NULL, formatNumber)
            | Some typed \<Rightarrow> (TELEPHONY_SUCCESS, no_zero (typed phoneNumber))))"

subsection \<open>The number of a SIM card\<close>

text \<open>
  The digits of a number, and in them the first place where a 1 is followed by ten digits
  (the regular expression \<^verbatim>\<open>1\d{10}\<close>).
\<close>

fun search_mobile :: "string \<Rightarrow> string option" where
  "search_mobile [] = None"
| "search_mobile (c # cs) =
     (if c = CHR ''1'' \<and> length cs \<ge> 10 then Some (c # take 10 cs) else search_mobile cs)"

definition NormalizePhoneNumber :: "string \<Rightarrow> string" where
  "NormalizePhoneNumber number =
     (case search_mobile (filter is_digit number) of None \<Rightarrow> [] | Some m \<Rightarrow> m)"

definition IsSamePhoneNumber :: "string \<Rightarrow> string \<Rightarrow> bool" where
  "IsSamePhoneNumber localNumber inputNumber =
     (let l = NormalizePhoneNumber localNumber; i = NormalizePhoneNumber inputNumber in
      if l = [] \<or> i = [] then False else l = i)"

definition GetAccountIdByNumber :: "nat \<Rightarrow> (int \<Rightarrow> string) \<Rightarrow> string \<Rightarrow> int option" where
  "GetAccountIdByNumber slotCount showNumber inputNumber =
     List.find (\<lambda>i. IsSamePhoneNumber (showNumber i) inputNumber) (map int [0..<slotCount])"

subsection \<open>Is a contact name a number?\<close>

definition PHONE_MIN_LENGTH :: nat where "PHONE_MIN_LENGTH = 5"
definition PHONE_MAX_LENGTH :: nat where "PHONE_MAX_LENGTH = 20"

definition IsValidLength :: "string \<Rightarrow> bool" where
  "IsValidLength s = (s \<noteq> [] \<and> length s \<ge> PHONE_MIN_LENGTH \<and> length s \<le> PHONE_MAX_LENGTH)"

definition beside_bracket :: "char \<Rightarrow> bool" where
  "beside_bracket c = (is_digit c \<or> c = CHR '' '' \<or> c = CHR ''-'')"

definition IsValidCharBeforeOpenBracket :: "string \<Rightarrow> nat \<Rightarrow> bool" where
  "IsValidCharBeforeOpenBracket s i = (if i = 0 then True else beside_bracket (s ! (i - 1)))"

definition IsValidCharAfterCloseBracket :: "string \<Rightarrow> nat \<Rightarrow> bool" where
  "IsValidCharAfterCloseBracket s i =
     (if i \<ge> length s - 1 then True else beside_bracket (s ! (i + 1)))"

definition HasMinDigits :: "nat \<Rightarrow> bool \<Rightarrow> bool" where
  "HasMinDigits digitCount hasLeadingPlus =
     (if digitCount < 5 then False else if hasLeadingPlus \<and> digitCount < 8 then False else True)"

text \<open>One pass over the characters; the result is None as soon as one is refused.\<close>

definition pure_char :: "string \<Rightarrow> nat \<Rightarrow> nat \<times> bool \<times> int \<Rightarrow> (nat \<times> bool \<times> int) option" where
  "pure_char s i st = (case st of (digitCount, hasPlus, bracketBalance) \<Rightarrow>
     (let c = s ! i in
      if is_digit c then Some (digitCount + 1, hasPlus, bracketBalance)
      else if c = CHR ''+'' then
        (if i \<noteq> 0 \<or> hasPlus then None else Some (digitCount, True, bracketBalance))
      else if c = CHR ''-'' \<or> c = CHR '' '' then Some (digitCount, hasPlus, bracketBalance)
      else if c = CHR ''('' then
        (if \<not> IsValidCharBeforeOpenBracket s i then None else Some (digitCount, hasPlus, bracketBalance + 1))
      else if c = CHR '')'' then
        (if \<not> IsValidCharAfterCloseBracket s i then None
         else if bracketBalance - 1 < 0 then None else Some (digitCount, hasPlus, bracketBalance - 1))
      else None))"

fun pure_scan :: "string \<Rightarrow> nat list \<Rightarrow> nat \<times> bool \<times> int \<Rightarrow> (nat \<times> bool \<times> int) option" where
  "pure_scan s [] st = Some st"
| "pure_scan s (i # is) st =
     (case pure_char s i st of None \<Rightarrow> None | Some st' \<Rightarrow> pure_scan s is st')"

definition IsPurePhoneNumber :: "string \<Rightarrow> bool" where
  "IsPurePhoneNumber s =
     (if \<not> IsValidLength s then False
      else case pure_scan s [0..<length s] (0, False, 0) of
        None \<Rightarrow> False
      | Some (digitCount, hasLeadingPlus, bracketBalance) \<Rightarrow>
          if bracketBalance \<noteq> 0 then False else HasMinDigits digitCount hasLeadingPlus)"

subsection \<open>Looking a number up for a call\<close>

definition QueryNumberLocationInfo :: "service_env \<Rightarrow> string \<Rightarrow> string \<Rightarrow> ErrCode \<times> string" where
  "QueryNumberLocationInfo E numberLocation accountNumber =
     (if accountNumber = [] then (TELEPHONY_ERR_ARGUMENT_INVALID, numberLocation)
      else case rp_locationOf (se_report E) accountNumber of
        None \<Rightarrow> (TELEPHONY_ERR_DATABASE_READ_FAIL, numberLocation)
      | Some l \<Rightarrow> (TELEPHONY_SUCCESS, l))"

definition QueryYellowPageAndMarkInfo :: "service_env \<Rightarrow> string \<Rightarrow> ErrCode \<times> NumberMarkInfo" where
  "QueryYellowPageAndMarkInfo E accountNumber =
     (if accountNumber = [] then (TELEPHONY_ERR_ARGUMENT_INVALID, default_mark_info)
      else case rp_markOf (se_report E) accountNumber of
        None \<Rightarrow> (TELEPHONY_ERR_DATABASE_READ_FAIL, default_mark_info)
      | Some m \<Rightarrow> (TELEPHONY_SUCCESS, m))"

definition report_call_info :: "service_env \<Rightarrow> ptr \<Rightarrow> unit step" where
  "report_call_info E p = do {
     c \<leftarrow> call_of p;
     emit (Notified (CallInfoReported
       (GetCallAttributeInfo (se_build E) (se_want E) c default_info))) }"

definition NumberLocationUpdate :: "service_env \<Rightarrow> ptr \<Rightarrow> unit step" where
  "NumberLocationUpdate E p = do {
     c \<leftarrow> call_of p;
     (let (ret, numberLocation) = QueryNumberLocationInfo E (m_numberLocation c) (m_accountNumber c);
          callId = m_callId c in
      whenever (ret = TELEPHONY_SUCCESS) (do {
        found \<leftarrow> find_ptr (GetOneCallObject callId);
        (let q = (if m_callState c = CALL_STATUS_DIALING
                  then (case found of None \<Rightarrow> p | Some q \<Rightarrow> q) else p) in do {
           _ \<leftarrow> on_call q (SetNumberLocation numberLocation);
           _ \<leftarrow> emit (System (VoiceLocation numberLocation callId));
           exist \<leftarrow> find_ptr (IsCallExist callId);
           whenever (exist \<and> numberLocation \<noteq> [] \<and> numberLocation \<noteq> ''default'')
             (report_call_info E q) }) })) }"

definition marked :: "MarkType \<Rightarrow> bool" where
  "marked t = (t \<noteq> MARK_TYPE_DEFAULT \<and> t \<noteq> MARK_TYPE_NONE)"

definition YellowPageAndMarkUpdate :: "service_env \<Rightarrow> ptr \<Rightarrow> unit step" where
  "YellowPageAndMarkUpdate E p = do {
     c \<leftarrow> call_of p;
     (let info = GetCallAttributeInfo (se_build E) (se_want E) c default_info;
          (ret, mark) = QueryYellowPageAndMarkInfo E (m_accountNumber c);
          callId = i_callId info in
      whenever (rp_regionCN (se_report E) \<and> ret = TELEPHONY_SUCCESS) (do {
        found \<leftarrow> find_ptr (GetOneCallObject callId);
        (case (if i_callState info = CALL_STATUS_DIALING then found else Some p) of
           None \<Rightarrow> State_Monad.return ()
         | Some q \<Rightarrow> do {
             _ \<leftarrow> on_call q (SetNumberMarkInfo mark);
             exist \<leftarrow> find_ptr (IsCallExist callId);
             whenever (exist \<and> (marked (markType mark) \<or> i_isEcc info)) (report_call_info E q) }) })) }"

subsection \<open>What is kept of a number\<close>

lemma search_mobile_Some:
  "search_mobile cs = Some m \<Longrightarrow> length m = 11 \<and> hd m = CHR ''1'' \<and> set m \<subseteq> set cs"
  by (induction cs) (auto split: if_splits dest: in_set_takeD)

lemma normalize_shape:
  "NormalizePhoneNumber n \<noteq> [] \<Longrightarrow> length (NormalizePhoneNumber n) = 11 \<and>
     hd (NormalizePhoneNumber n) = CHR ''1'' \<and> list_all is_digit (NormalizePhoneNumber n)"
  using search_mobile_Some [of "filter is_digit n"]
  by (auto simp: NormalizePhoneNumber_def list_all_iff split: option.splits)

lemma search_mobile_exact:
  "length m = 11 \<Longrightarrow> hd m = CHR ''1'' \<Longrightarrow> search_mobile m = Some m"
  by (cases m) auto

lemma normalize_idempotent:
  "NormalizePhoneNumber (NormalizePhoneNumber n) = NormalizePhoneNumber n"
proof (cases "search_mobile (filter is_digit n)")
  case None
  then show ?thesis by (simp add: NormalizePhoneNumber_def)
next
  case (Some m)
  with search_mobile_Some [OF Some] have "filter is_digit m = m" "search_mobile m = Some m"
    by (auto intro: filter_True search_mobile_exact)
  with Some show ?thesis by (simp add: NormalizePhoneNumber_def)
qed

text \<open>
  The first mobile number of a row of digits, said with positions: the first 1, if ten
  digits follow it, and these ten (a 1 further right has fewer digits behind it).
\<close>

definition first_mobile :: "string \<Rightarrow> string \<Rightarrow> bool" where
  "first_mobile ds m \<longleftrightarrow> (\<exists>i. i + 11 \<le> length ds \<and> ds ! i = CHR ''1'' \<and> m = take 11 (drop i ds) \<and>
     (\<forall>j < i. ds ! j \<noteq> CHR ''1''))"

lemma first_mobile_Cons:
  "first_mobile (c # cs) m \<longleftrightarrow>
     (if c = CHR ''1'' then length cs \<ge> 10 \<and> m = c # take 10 cs else first_mobile cs m)"
proof (cases "c = CHR ''1''")
  case True
  then have only: "i = 0" if "\<forall>j < i. (c # cs) ! j \<noteq> CHR ''1''" for i
    using that by (cases i) auto
  have "first_mobile (c # cs) m \<longleftrightarrow> 0 + 11 \<le> length (c # cs) \<and> m = take 11 (drop 0 (c # cs))"
    unfolding first_mobile_def using True only by (metis less_nat_zero_code nth_Cons_0)
  then show ?thesis using True by simp
next
  case False
  have "first_mobile cs m" if "first_mobile (c # cs) m"
  proof -
    from that obtain i where i: "i + 11 \<le> length (c # cs)" "(c # cs) ! i = CHR ''1''"
      "m = take 11 (drop i (c # cs))" "\<forall>j < i. (c # cs) ! j \<noteq> CHR ''1''"
      by (auto simp: first_mobile_def)
    with False obtain k where "i = Suc k" by (cases i) auto
    with i show ?thesis unfolding first_mobile_def by (intro exI [of _ k]) auto
  qed
  moreover have "first_mobile (c # cs) m" if "first_mobile cs m"
  proof -
    from that obtain k where k: "k + 11 \<le> length cs" "cs ! k = CHR ''1''" "m = take 11 (drop k cs)"
      "\<forall>j < k. cs ! j \<noteq> CHR ''1''"
      by (auto simp: first_mobile_def)
    with False show ?thesis unfolding first_mobile_def
      by (intro exI [of _ "Suc k"]) (auto simp: nth_Cons split: nat.split)
  qed
  ultimately show ?thesis using False by auto
qed

lemma search_mobile_short: "length cs < 11 \<Longrightarrow> search_mobile cs = None"
  by (induction cs) auto

lemma search_mobile_first: "search_mobile ds = Some m \<longleftrightarrow> first_mobile ds m"
proof (induction ds)
  case Nil
  show ?case by (simp add: first_mobile_def)
next
  case (Cons c cs)
  then show ?case by (auto simp: first_mobile_Cons search_mobile_short)
qed

text \<open>
  C30: Two numbers are the same when they hold the same first mobile number.  The
  comparison of a number with that of a SIM card holds exactly when, once everything but the
  digits is left out, the first 1 of both has ten digits behind it and these eleven digits
  are the same: separators, a prefix without a 1 and whatever follows do not matter, a later
  mobile number is never compared, and a number without a mobile number is the same as none.
\<close>

theorem same_number_spec:
  "IsSamePhoneNumber a b \<longleftrightarrow>
     (\<exists>m. first_mobile (filter is_digit a) m \<and> first_mobile (filter is_digit b) m)"
proof -
  have "m \<noteq> []" if "search_mobile ds = Some m" for ds m
    using search_mobile_Some [OF that] by auto
  then show ?thesis
    by (auto simp: IsSamePhoneNumber_def NormalizePhoneNumber_def Let_def
        search_mobile_first [symmetric] split: option.splits)
qed

text \<open>What a scan that succeeds has seen.\<close>

definition bracket_sum :: "string \<Rightarrow> int" where
  "bracket_sum cs = int (length (filter (\<lambda>c. c = CHR ''('') cs)) - int (length (filter (\<lambda>c. c = CHR '')'') cs))"

definition number_char :: "char \<Rightarrow> bool" where
  "number_char c = (is_digit c \<or> c \<in> {CHR ''+'', CHR ''-'', CHR '' '', CHR ''('', CHR '')''})"

lemma not_digit [simp]:
  "\<not> is_digit CHR ''+''" "\<not> is_digit CHR ''-''" "\<not> is_digit CHR '' ''" "\<not> is_digit CHR ''(''" "\<not> is_digit CHR '')''"
  by (simp_all add: is_digit_def)

lemma pure_char_step:
  "pure_char s i (d, p, b) = Some (d', p', b') \<Longrightarrow>
   d' = d + (if is_digit (s ! i) then 1 else 0) \<and> b' = b + bracket_sum [s ! i] \<and> number_char (s ! i)"
  by (auto simp: pure_char_def bracket_sum_def number_char_def Let_def split: if_splits)

lemma pure_scan_sums:
  "pure_scan s is (d, p, b) = Some (d', p', b') \<Longrightarrow>
   d' = d + length (filter is_digit (map ((!) s) is)) \<and> b' = b + bracket_sum (map ((!) s) is) \<and>
   list_all number_char (map ((!) s) is)"
proof (induction "is" arbitrary: d p b)
  case (Cons i "is")
  then obtain d1 p1 b1 where one: "pure_char s i (d, p, b) = Some (d1, p1, b1)"
    and rest: "pure_scan s is (d1, p1, b1) = Some (d', p', b')"
    by (auto split: option.splits)
  from Cons.IH [OF rest] pure_char_step [OF one] show ?case by (auto simp: bracket_sum_def)
qed (simp add: bracket_sum_def)

text \<open>
  What passes as a pure phone number.  A contact name that passes has 5 to 20
  characters, all of them digits, plus, minus, blank or brackets, as many closing as opening
  brackets and at least five digits.
\<close>

theorem pure_number_bounds:
  assumes "IsPurePhoneNumber s"
  shows "5 \<le> length s \<and> length s \<le> 20 \<and> list_all number_char s \<and> bracket_sum s = 0 \<and>
    5 \<le> length (filter is_digit s)"
proof -
  from assms have len: "IsValidLength s" by (simp add: IsPurePhoneNumber_def split: if_splits)
  from assms len obtain d p b where scan: "pure_scan s [0..<length s] (0, False, 0) = Some (d, p, b)"
    and ok: "b = 0" "HasMinDigits d p"
    by (auto simp: IsPurePhoneNumber_def split: option.splits if_splits)
  from pure_scan_sums [OF scan] ok len show ?thesis
    by (auto simp: map_nth IsValidLength_def PHONE_MIN_LENGTH_def PHONE_MAX_LENGTH_def HasMinDigits_def
        split: if_splits)
qed

theorem pure_number_bounds_witness:
  "IsPurePhoneNumber ''+86 (10) 1234567'' \<and> bracket_sum ''+86 (10) 1234567'' = 0"
proof -
  have "IsPurePhoneNumber ''+86 (10) 1234567''" by code_simp
  with pure_number_bounds [OF this] show ?thesis by blast
qed

end
