(* ===== verification/Call_Incoming.thy ===== *)
theory Call_Incoming
  imports Call_Numbers
begin

text \<open>
  What the service does with a report of a new incoming call
  (\<^verbatim>\<open>services/call/src/call_status_manager.cpp\<close> and
  \<^verbatim>\<open>call_incoming_filter_manager.cpp\<close>): the filter of device management, spam and
  emergency, the wait for a call that rings once, and the fraud detection.
\<close>

subsection \<open>Detection of fraud\<close>

text \<open>AntiFraudState and the first user's space.\<close>

definition ANTIFRAUD_STATE_DEFAULT :: int where "ANTIFRAUD_STATE_DEFAULT = 0"
definition ANTIFRAUD_STATE_NOT_RISK_OR_STOPPED :: int where "ANTIFRAUD_STATE_NOT_RISK_OR_STOPPED = 3"
definition MAIN_USER_SPACE :: int where "MAIN_USER_SPACE = 100"

text \<open>The result of a detection; the probability is given in percent.\<close>

record AntiFraudResultExt =
  af_isVoiceSemanticFraud :: bool
  af_isSpeechSynthesisFraud :: bool
  af_isXoipFraud :: bool
  af_speechSynthesisPercent :: int

definition no_fraud_result :: AntiFraudResultExt where
  "no_fraud_result = \<lparr>af_isVoiceSemanticFraud = False, af_isSpeechSynthesisFraud = False,
     af_isXoipFraud = False, af_speechSynthesisPercent = 0\<rparr>"

definition find_contact :: "service_env \<Rightarrow> string \<Rightarrow> ContactInfo" where
  "find_contact E phoneNum = rp_queryContact (se_report E) phoneNum
     (empty_contact\<lparr>ci_number := phoneNum, ci_isQueryComplete := True\<rparr>)"

definition IsContactPhoneNum :: "service_env \<Rightarrow> string \<Rightarrow> bool" where
  "IsContactPhoneNum E phoneNum = (\<not> length (ci_name (find_contact E phoneNum)) < 1)"

definition IsTrustedNumber :: "service_env \<Rightarrow> MarkType \<Rightarrow> string \<Rightarrow> bool" where
  "IsTrustedNumber E mark phoneNumber =
     (if mark = MARK_TYPE_YELLOW_PAGE \<or> mark = MARK_TYPE_ENTERPRISE \<or>
         IsContactPhoneNum E phoneNumber then True else False)"

definition set_fraud_target :: "int \<Rightarrow> int \<Rightarrow> unit step" where
  "set_fraud_target slotId index =
     change (\<lambda>s. s\<lparr>s_antiFraudSlotId := slotId, s_antiFraudIndex := index\<rparr>)"

definition fraud_target :: "service_env \<Rightarrow> call \<Rightarrow> int \<Rightarrow> service \<Rightarrow> bool" where
  "fraud_target E c index s = (s_antiFraudSlotId s = slot_of E c \<and> s_antiFraudIndex s = index)"

definition bool_int :: "bool \<Rightarrow> int" where "bool_int b = (if b then 1 else 0)"

definition UpdateAntiFraudState :: "ptr \<Rightarrow> int \<Rightarrow> AntiFraudResultExt \<Rightarrow> unit step" where
  "UpdateAntiFraudState p antiFraudState result = on_call p (\<lambda>c.
     (let c = SetAntiFraudState antiFraudState c;
          extraParams = set_param ''antiFraudState'' antiFraudState (m_extraParams c);
          extraParams = (if antiFraudState = ANTIFRAUD_STATE_RISK then
            set_param ''antiFraudProbVoiceSynthesis'' (af_speechSynthesisPercent result)
            (set_param ''antiFraudResultXoip'' (bool_int (af_isXoipFraud result))
            (set_param ''antiFraudResultVoiceSynthesis'' (bool_int (af_isSpeechSynthesisFraud result))
            (set_param ''antiFraudResultVoiceText'' (bool_int (af_isVoiceSemanticFraud result)) extraParams)))
            else extraParams) in
      SetExtraParams extraParams c))"

definition StopAntiFraudDetect :: "service_env \<Rightarrow> ptr \<Rightarrow> CallDetailInfo \<Rightarrow> unit step" where
  "StopAntiFraudDetect E p info = do {
     c \<leftarrow> call_of p;
     target \<leftarrow> reads (fraud_target E c (dt_index info));
     whenever target (do {
       _ \<leftarrow> emit (System (StopAntiFraudService (slot_of E c) (dt_index info)));
       _ \<leftarrow> set_fraud_target (-1) (-1);
       UpdateAntiFraudState p ANTIFRAUD_STATE_NOT_RISK_OR_STOPPED no_fraud_result }) }"

definition PauseAntiFraudDetect :: "service_env \<Rightarrow> ptr \<Rightarrow> CallDetailInfo \<Rightarrow> unit step" where
  "PauseAntiFraudDetect E p info = do {
     c \<leftarrow> call_of p;
     target \<leftarrow> reads (fraud_target E c (dt_index info));
     whenever target (do {
       _ \<leftarrow> emit (System (StopAntiFraudService (slot_of E c) (dt_index info)));
       _ \<leftarrow> set_fraud_target (-1) (-1);
       on_call p (\<lambda>c. SetExtraParams
         (set_param ''antiFraudState'' ANTIFRAUD_STATE_NOT_RISK_OR_STOPPED (m_extraParams c)) c) }) }"

definition HandleCeliaCall :: "service_env \<Rightarrow> ptr \<Rightarrow> unit step" where
  "HandleCeliaCall E p = do {
     c \<leftarrow> call_of p;
     target \<leftarrow> reads (fraud_target E c (GetCallIndex c));
     whenever target (do {
       _ \<leftarrow> emit (System (StopAntiFraudService (slot_of E c) (GetCallIndex c)));
       _ \<leftarrow> set_fraud_target (-1) (-1);
       _ \<leftarrow> UpdateAntiFraudState p ANTIFRAUD_STATE_NOT_RISK_OR_STOPPED no_fraud_result;
       whenever (m_callState c = CALL_STATUS_ACTIVE)
         (do { _ \<leftarrow> UpdateCallState E p CALL_STATUS_ACTIVE; State_Monad.return () }) }) }"

text \<open>
  The kinds of detection: transfers over the internet are looked for in incoming voice
  calls at home only.  A call of no card (\<^verbatim>\<open>slotId\<close> is -1) is not watched, and one call is
  watched at a time.
\<close>

definition GetAntiFraudDetectType :: "service_env \<Rightarrow> int \<Rightarrow> CallDirection \<Rightarrow> VideoStateType \<Rightarrow> bool" where
  "GetAntiFraudDetectType E slotId callDirection videoStateType =
     (if callDirection = CALL_DIRECTION_OUT \<or>
         (callDirection = CALL_DIRECTION_IN \<and> videoStateType = TYPE_VIDEO) \<or>
         (case de_networkState (se_dial E) slotId of None \<Rightarrow> False | Some (_, roaming) \<Rightarrow> roaming)
      then False else True)"

definition StartAntiFraudDetectTask :: "service_env \<Rightarrow> ptr \<Rightarrow> CallDetailInfo \<Rightarrow> VideoStateType \<Rightarrow> unit step" where
  "StartAntiFraudDetectTask E p info videoStateType = do {
     c \<leftarrow> call_of p;
     busy \<leftarrow> reads (\<lambda>s. s_antiFraudSlotId s \<noteq> -1 \<or> s_antiFraudIndex s \<noteq> -1);
     (let slotId = slot_of E c in
      whenever (\<not> (slotId = -1 \<or> busy)) (do {
        _ \<leftarrow> set_fraud_target slotId (dt_index info);
        submit (AntiFraudTask p info slotId
          (GetAntiFraudDetectType E slotId (m_direction c) videoStateType)) })) }"

text \<open>The task, when it runs.\<close>

definition anti_fraud_task :: "service_env \<Rightarrow> ptr \<Rightarrow> CallDetailInfo \<Rightarrow> int \<Rightarrow> unit step" where
  "anti_fraud_task E p info slotId =
     whenever (rp_startAntiFraud (se_report E) (dt_phoneNum info) slotId (dt_index info) \<noteq> 0)
       (StopAntiFraudDetect E p info)"

definition SetupAntiFraudService :: "service_env \<Rightarrow> ptr \<Rightarrow> CallDetailInfo \<Rightarrow> unit step" where
  "SetupAntiFraudService E p info = do {
     c \<leftarrow> call_of p;
     (let R = se_report E; t = markType (m_numberMarkInfo c) in
      whenever (rp_antiFraudOn R (m_videoState c) \<and>
          \<not> (rp_activeUsers R = [] \<or> hd (rp_activeUsers R) \<noteq> MAIN_USER_SPACE) \<and>
          \<not> (m_antiFraudState c = ANTIFRAUD_STATE_RISK \<or>
             m_antiFraudState c = ANTIFRAUD_STATE_NOT_RISK_OR_STOPPED \<or>
             IsContactPhoneNum E (dt_phoneNum info) \<or>
             t = MARK_TYPE_FRAUD \<or> t = MARK_TYPE_YELLOW_PAGE \<or> t = MARK_TYPE_ENTERPRISE))
        (StartAntiFraudDetectTask E p info (m_videoState c))) }"

definition HandleAntiFraudState :: "service_env \<Rightarrow> ptr \<Rightarrow> CallDetailInfo \<Rightarrow> unit step" where
  "HandleAntiFraudState E p info =
     whenever (rp_antiFraudSupport (se_report E)) (SetupAntiFraudService E p info)"

text \<open>
  The service reports a result for the call it watches: the first report of that index in
  the list of its card is marked, and its call is looked up.
\<close>

fun mark_fraud :: "int \<Rightarrow> int \<Rightarrow> CallDetailInfo list \<Rightarrow> CallDetailInfo list \<times> CallDetailInfo option" where
  "mark_fraud index st [] = ([], None)"
| "mark_fraud index st (i # is) =
     (if dt_index i = index
      then (i\<lparr>dt_antiFraudState := st\<rparr> # is, Some (i\<lparr>dt_antiFraudState := st\<rparr>))
      else (let (js, found) = mark_fraud index st is in (i # js, found)))"

definition find_reported :: "service_env \<Rightarrow> CallDetailInfo \<Rightarrow> registry \<Rightarrow> ptr option" where
  "find_reported E info r = GetOneCallObjectByIndexSlotIdAndCallType (se_code E) (dt_index info)
     (dt_accountId info) (dt_callType info) (dt_phoneIndex info) r"

definition TriggerAntiFraud :: "service_env \<Rightarrow> int \<Rightarrow> AntiFraudResultExt \<Rightarrow> unit step" where
  "TriggerAntiFraud E antiFraudState result = do {
     slotId \<leftarrow> reads s_antiFraudSlotId;
     index \<leftarrow> reads s_antiFraudIndex;
     whenever (\<not> (slotId \<ge> SLOT_NUM \<or> slotId < 0)) (do {
       details \<leftarrow> reads s_callDetails;
       (let (js, found) = mark_fraud index antiFraudState (details slotId) in do {
          _ \<leftarrow> change (\<lambda>s. s\<lparr>s_callDetails := (s_callDetails s)(slotId := js)\<rparr>);
          call \<leftarrow> (case found of None \<Rightarrow> State_Monad.return None
                 | Some i \<Rightarrow> find_ptr (find_reported E i));
          _ \<leftarrow> whenever (antiFraudState = ANTIFRAUD_STATE_RISK \<or>
                        antiFraudState = ANTIFRAUD_STATE_NOT_RISK_OR_STOPPED)
                (set_fraud_target (-1) (-1));
          (case call of None \<Rightarrow> State_Monad.return ()
           | Some p \<Rightarrow> do {
               _ \<leftarrow> whenever (antiFraudState \<noteq> ANTIFRAUD_STATE_DEFAULT)
                     (UpdateAntiFraudState p antiFraudState result);
               c \<leftarrow> call_of p;
               whenever (m_callState c = CALL_STATUS_ACTIVE) (do {
                 _ \<leftarrow> on_call p (\<lambda>c. SetExtraParams
                   (set_text_param ''traceFlags'' (set_text_param ''traceChainId'' (m_extraParams c))) c);
                 _ \<leftarrow> UpdateCallState E p CALL_STATUS_ACTIVE;
                 State_Monad.return () }) }) }) }) }"

subsection \<open>Motion\<close>

definition IsCallMotionRecognitionEnable :: "service_env \<Rightarrow> string \<Rightarrow> bool" where
  "IsCallMotionRecognitionEnable E key =
     (if rp_activeUsers (se_report E) = [] then False
      else rp_setting (se_report E) key = Some ''1'')"

definition StartInComingCallMotionRecognition :: "service_env \<Rightarrow> unit step" where
  "StartInComingCallMotionRecognition E = do {
     r \<leftarrow> reads s_reg;
     (let pickup = IsCallMotionRecognitionEnable E ''motion_pickup_reduce_call'';
          flip = IsCallMotionRecognitionEnable E ''motion_flip_mute_call'';
          ear = IsCallMotionRecognitionEnable E ''motion_quick_answer'' in
      whenever (GetOneCarrierCallObject CALL_RUNNING_STATE_DIALING r = None \<and>
          GetOneCarrierCallObject CALL_RUNNING_STATE_ACTIVE r = None \<and>
          GetOneCarrierCallObject CALL_RUNNING_STATE_HOLD r = None \<and> (pickup \<or> flip \<or> ear)) (do {
        _ \<leftarrow> emit (System LoadMotionSensor);
        whenever (rp_loadSensor (se_report E)) (do {
          _ \<leftarrow> whenever pickup (emit (System (SubscribeMotion PickupSensor)));
          _ \<leftarrow> whenever flip (emit (System (SubscribeMotion FlipSensor)));
          whenever ear (emit (System (SubscribeMotion CloseToEarSensor))) }) })) }"

definition StartOutGoingCallMotionRecognition :: "service_env \<Rightarrow> unit step" where
  "StartOutGoingCallMotionRecognition E =
     whenever (IsCallMotionRecognitionEnable E ''motion_quick_answer'') (do {
       _ \<leftarrow> emit (System LoadMotionSensor);
       whenever (rp_loadSensor (se_report E)) (emit (System (SubscribeMotion CloseToEarSensor))) })"

definition StopCallMotionRecognition :: "TelCallState \<Rightarrow> unit step" where
  "StopCallMotionRecognition nextState = do {
     cellular \<leftarrow> find_ptr HasCellularCallExist;
     (if nextState = CALL_STATUS_ACTIVE then do {
        _ \<leftarrow> emit (System (UnsubscribeMotion PickupSensor));
        emit (System (UnsubscribeMotion FlipSensor)) }
      else whenever (nextState = CALL_STATUS_DISCONNECTED \<and> \<not> cellular) (do {
        _ \<leftarrow> emit (System (UnsubscribeMotion PickupSensor));
        _ \<leftarrow> emit (System (UnsubscribeMotion FlipSensor));
        _ \<leftarrow> emit (System (UnsubscribeMotion CloseToEarSensor));
        emit (System UnloadMotionSensor) })) }"

end
