(* ===== verification/Call_Filter.thy ===== *)
theory Call_Filter
  imports Call_Incoming
begin

text \<open>
  Whether an incoming call is let through
  (\<^verbatim>\<open>services/call/src/call_status_manager.cpp\<close>: PrepareIncomingCall to
  FinalizeIncomingState), and the state that remains when it is not.
\<close>

subsection \<open>The old call of an index\<close>

definition RefreshOldCall :: "service_env \<Rightarrow> CallDetailInfo \<Rightarrow> (bool \<times> ErrCode) step" where
  "RefreshOldCall E info = do {
     initCall \<leftarrow> find_ptr (GetOneCallObjectByIndex 0);
     _ \<leftarrow> whenever (initCall \<noteq> None) (do { _ \<leftarrow> DealFailDial E initCall; State_Monad.return () });
     call \<leftarrow> find_ptr (find_reported E info);
     (case call of
        None \<Rightarrow> State_Monad.return (False, TELEPHONY_SUCCESS)
      | Some p \<Rightarrow> do {
          c \<leftarrow> call_of p;
          (if m_callType c \<noteq> dt_callType info \<or> m_callState c \<noteq> dt_state info \<or>
              m_videoState c \<noteq> dt_callMode info then do {
             q \<leftarrow> RefreshCallIfNecessary E p info;
             (if m_callType c \<noteq> dt_callType info \<or> m_videoState c \<noteq> dt_callMode info then do {
                ret \<leftarrow> UpdateCallState E q (dt_state info);
                State_Monad.return (True, ret) }
              else State_Monad.return (True, TELEPHONY_SUCCESS)) }
           else State_Monad.return (True, TELEPHONY_SUCCESS)) }) }"

text \<open>Asking whether the number is an emergency number changes nothing.\<close>

definition DoIncomingFilter :: "service_env \<Rightarrow> CallDetailInfo \<Rightarrow> ErrCode step" where
  "DoIncomingFilter E info = do {
     edm \<leftarrow> reads s_edm;
     State_Monad.return
       (if \<not> IsIncomingEnable (de_callsDisallowed (se_dial E)) (dt_phoneNum info) edm
        then TELEPHONY_ERR_POLICY_DISABLED else TELEPHONY_SUCCESS) }"

definition PrepareIncomingCall :: "service_env \<Rightarrow> CallDetailInfo \<Rightarrow> (bool \<times> ErrCode) step" where
  "PrepareIncomingCall E info = do {
     _ \<leftarrow> change (\<lambda>s. s\<lparr>s_detectStart := None\<rparr>);
     (isExisted, ret) \<leftarrow> RefreshOldCall E info;
     (if isExisted then State_Monad.return (True, ret)
      else if dt_callType info = TYPE_CS \<or> dt_callType info = TYPE_IMS \<or>
              dt_callType info = TYPE_SATELLITE
      then do { ret \<leftarrow> DoIncomingFilter E info; State_Monad.return (False, ret) }
      else State_Monad.return (False, ret)) }"

subsection \<open>One number on two devices\<close>

definition CALLS_COMING_MAX_INTERVAL_DURATION :: int where
  "CALLS_COMING_MAX_INTERVAL_DURATION = 10 * 1000"

definition IsFromTheSameNumberAtTheSameTime :: "service_env \<Rightarrow> call \<Rightarrow> registry \<Rightarrow> bool" where
  "IsFromTheSameNumberAtTheSameTime E new r =
     (case GetOneCallObject_number (m_accountNumber new) r of
        None \<Rightarrow> False
      | Some p \<Rightarrow>
          (let old = r_heap r p;
               oldAttrInfo = GetCallAttributeBaseInfo (se_want E) old default_info;
               newAttrInfo = GetCallAttributeBaseInfo (se_want E) new default_info in
           if \<bar>m_callId new - m_callId old\<bar> \<noteq> 1 then False
           else if i_callState oldAttrInfo \<noteq> CALL_STATUS_INCOMING then False
           else if i_callCreateTime newAttrInfo - i_callCreateTime oldAttrInfo
                     > CALLS_COMING_MAX_INTERVAL_DURATION then False
           else True))"

definition update_setting :: "string \<Rightarrow> string \<Rightarrow> unit step" where
  "update_setting key v = emit (System (UpdateSetting key v))"

definition ModifyEsimType :: "service_env \<Rightarrow> unit step" where
  "ModifyEsimType E =
     (let R = se_report E; esimCardType = rp_setting R ''key_esim_card_type'' in
      whenever (\<not> (esimCardType = Some ''1'' \<or> esimCardType = Some [])) (do {
        _ \<leftarrow> update_setting ''key_esim_card_type'' ''1'';
        (let state = (case rp_setting R ''key_manually_set_net'' of None \<Rightarrow> [] | Some v \<Rightarrow> v);
             changeStatus = (if state = [] then ''000'' else state) in
         whenever (rp_updateOk R ''key_esim_card_type'' \<and> length changeStatus = 3) (do {
           _ \<leftarrow> whenever (changeStatus ! 0 \<noteq> CHR ''1'')
                 (update_setting ''key_smartoff_network_bluetooth_connection'' ''1'');
           _ \<leftarrow> whenever (changeStatus ! 1 \<noteq> CHR ''1'')
                 (update_setting ''key_smartoff_network_not_wear'' ''true'');
           whenever (changeStatus ! 2 \<noteq> CHR ''1'')
             (update_setting ''key_smartoff_network_sleep_mode'' ''true'') })) }))"

subsection \<open>Contacts\<close>

definition SetBluetoothCallContactInfo :: "service_env \<Rightarrow> ptr \<Rightarrow> string \<Rightarrow> bool step" where
  "SetBluetoothCallContactInfo E p phoneNum =
     (let contactName = rp_hfpContact (se_report E) phoneNum in
      if contactName \<noteq> [] then do {
        _ \<leftarrow> on_call p (\<lambda>c. SetExtraParams (set_text_param ''BtCallContactName'' (m_extraParams c))
          (SetCallerInfo (empty_contact\<lparr>ci_name := contactName, ci_number := phoneNum,
             ci_isContacterExists := True, ci_isQueryComplete := True\<rparr>) c));
        State_Monad.return True }
      else State_Monad.return False)"

definition SetContactInfo :: "service_env \<Rightarrow> ptr \<Rightarrow> string \<Rightarrow> unit step" where
  "SetContactInfo E p phoneNum = do {
     c \<leftarrow> call_of p;
     done \<leftarrow> (if m_callType c = TYPE_BLUETOOTH then SetBluetoothCallContactInfo E p phoneNum
             else State_Monad.return False);
     whenever (\<not> done) (submit (ContactTask p phoneNum)) }"

text \<open>The task, when it runs while the call object it refers to exists.\<close>

definition contact_task :: "service_env \<Rightarrow> ptr \<Rightarrow> string \<Rightarrow> unit step" where
  "contact_task E p phoneNum =
     (let R = se_report E; found = find_contact E phoneNum;
          contact = (if ci_ringtonePath found = [] \<and> rp_systemVideoRing R p
                     then found\<lparr>ci_ringtonePath := ''system_video_ring''\<rparr> else found) in do {
        _ \<leftarrow> whenever (rp_needVideoRing R contact p \<and> \<not> rp_voiceBroadcast R)
              (on_call p (\<lambda>c. SetExtraParams (set_text_param ''VideoRingPath'' (m_extraParams c)) c));
        on_call p (SetCallerInfo contact) })"

subsection \<open>Calls that are dropped\<close>

definition drop_marked :: "service_env \<Rightarrow> ptr \<Rightarrow> DropCause \<Rightarrow> unit step" where
  "drop_marked E p cause = do {
     c \<leftarrow> call_of p;
     _ \<leftarrow> emit (StatusPolicyEffect (ReportCallDropChrEvent (slot_of E c) (GetCallIndex c) cause));
     on_call p (SetApCauseReported True) }"

definition ShouldRejectIncomingCall :: "service_env \<Rightarrow> ptr \<Rightarrow> bool step" where
  "ShouldRejectIncomingCall E p = do {
     hasEcc \<leftarrow> find_ptr HasEmergencyCall;
     thermal \<leftarrow> reads IsThermalProtectionRequired;
     (if hasEcc then do { _ \<leftarrow> drop_marked E p DROP_CALL_BY_EMC_CALL_EXIST; State_Monad.return True }
      else State_Monad.return (ce_thermalBuild (se_control E) \<and> thermal)) }"

text \<open>Milliseconds of the wall clock.\<close>

definition clock_ms :: "clock \<Rightarrow> int" where
  "clock_ms k = tv_sec k * 1000 + tv_usec k div 1000"

definition HandleWatchCallDisposition :: "service_env \<Rightarrow> ptr \<Rightarrow> bool step" where
  "HandleWatchCallDisposition E p =
     (case rp_disposition (se_report E) of
        INTERCEPTED \<Rightarrow> do {
          _ \<leftarrow> drop_marked E p DROP_CALL_BY_WATCH_CALL_BLOCKING;
          State_Monad.return True }
      | AUTO_ANSWER \<Rightarrow> do {
          _ \<leftarrow> on_call p (\<lambda>c. SetExtraParams (set_text_param ''isAutoAnswerCall'' (m_extraParams c)) c);
          State_Monad.return False }
      | NORMAL_DISPOSITION \<Rightarrow> do {
          _ \<leftarrow> (case rp_watchMark (se_report E) of None \<Rightarrow> State_Monad.return ()
               | Some m \<Rightarrow> on_call p (SetNumberMarkInfo m));
          State_Monad.return False })"

definition ShouldBlockIncomingCall :: "service_env \<Rightarrow> ptr \<Rightarrow> CallDetailInfo \<Rightarrow> bool step" where
  "ShouldBlockIncomingCall E p info =
     (if se_isEcc E (dt_phoneNum info) (dt_accountId info) then State_Monad.return False
      else if \<not> rp_detectSpam (se_report E) info then State_Monad.return False
      else if rp_watchBlocking (se_report E) then HandleWatchCallDisposition E p
      else do {
        k \<leftarrow> read_clock E;
        _ \<leftarrow> change (\<lambda>s. s\<lparr>s_detectStart := Some (clock_ms k)\<rparr>);
        (case rp_spamResult (se_report E) info of
           None \<Rightarrow> State_Monad.return False
         | Some (isBlock, mark, blockReason, detectDetails) \<Rightarrow> do {
             _ \<leftarrow> on_call p (\<lambda>c. SetExtraParams (set_param ''blockReason'' blockReason (m_extraParams c))
               (SetDetectDetails detectDetails (SetBlockReason blockReason (SetNumberMarkInfo mark c))));
             _ \<leftarrow> whenever isBlock (drop_marked E p DROP_CALL_BY_CALL_BLOCKING);
             State_Monad.return isBlock }) })"

definition IsFocusModeOpen :: "service_env \<Rightarrow> bool" where
  "IsFocusModeOpen E =
     (if rp_activeUsers (se_report E) = [] then False
      else rp_setting (se_report E) ''focus_mode_enable'' = Some ''1'')"

text \<open>
  The result is whether the call is rejected, and whether it is blocked.  In the focus mode
  the call goes on, but is marked as dropped by the service.
\<close>

definition IsRejectCall :: "service_env \<Rightarrow> ptr \<Rightarrow> CallDetailInfo \<Rightarrow> (bool \<times> bool) step" where
  "IsRejectCall E p info = do {
     reject \<leftarrow> ShouldRejectIncomingCall E p;
     state \<leftarrow> reads s_voipState;
     (if reject \<or> state = CallStateToApp_code CALL_STATE_RINGING then State_Monad.return (True, False)
      else do {
        block \<leftarrow> (if dt_callType info \<noteq> TYPE_VOIP \<and> dt_callType info \<noteq> TYPE_BLUETOOTH
                 then ShouldBlockIncomingCall E p info else State_Monad.return False);
        (if block then State_Monad.return (True, True)
         else do {
           _ \<leftarrow> whenever (IsFocusModeOpen E \<and> rp_needSilent (se_report E) (dt_phoneNum info) = 0) (do {
             _ \<leftarrow> drop_marked E p DROP_CALL_BY_FOCUS_MODE;
             on_call p (\<lambda>c. SetExtraParams
               (set_param ''IsNeedSilentInDoNotDisturbMode'' 1 (m_extraParams c)) c) });
           State_Monad.return (False, False) }) }) }"

text \<open>The log of a call that was missed or blocked, and its notification.\<close>

definition add_log :: "service_env \<Rightarrow> CallAnswerType \<Rightarrow> (ptr \<Rightarrow> SystemAction) \<Rightarrow> ptr \<Rightarrow> ErrCode step" where
  "add_log E answerType publish p = do {
     _ \<leftarrow> on_call p (SetAnswerType answerType);
     _ \<leftarrow> emit (System (AddCallLog p));
     (if \<not> ce_missedCall (se_control E) then State_Monad.return TELEPHONY_ERR_LOCAL_PTR_NULL
      else do { _ \<leftarrow> emit (System (publish p)); State_Monad.return TELEPHONY_SUCCESS }) }"

definition AddCallLogAndNotification :: "service_env \<Rightarrow> ptr \<Rightarrow> ErrCode step" where
  "AddCallLogAndNotification E p = add_log E CALL_ANSWER_MISSED PublishMissedCall p"

definition AddBlockLogAndNotification :: "service_env \<Rightarrow> ptr \<Rightarrow> ErrCode step" where
  "AddBlockLogAndNotification E p = add_log E CALL_ANSWER_BLOCKED PublishBlockedCall p"

definition publish_block :: "ptr \<Rightarrow> bool \<Rightarrow> unit step" where
  "publish_block p block = do {
     c \<leftarrow> call_of p;
     emit (System (PublishBlockInfo (m_callId c) block)) }"

definition set_incoming :: "service_env \<Rightarrow> ptr \<Rightarrow> ErrCode step \<Rightarrow> ErrCode step" where
  "set_incoming E p next = do {
     ret \<leftarrow> set_tel_state E CALL_STATUS_INCOMING p;
     (if ret \<noteq> TELEPHONY_SUCCESS \<and> ret \<noteq> CALL_ERR_NOT_NEW_STATE then State_Monad.return ret else next) }"

definition HandleRejectCall :: "service_env \<Rightarrow> ptr \<Rightarrow> bool \<Rightarrow> ErrCode step" where
  "HandleRejectCall E p isBlock = set_incoming E p (do {
     ret \<leftarrow> reject_call E p;
     (if ret \<noteq> TELEPHONY_SUCCESS then State_Monad.return ret
      else if isBlock then do { _ \<leftarrow> publish_block p isBlock; AddBlockLogAndNotification E p }
      else AddCallLogAndNotification E p) })"

definition HandleRingOnceCall :: "service_env \<Rightarrow> ptr \<Rightarrow> ErrCode step" where
  "HandleRingOnceCall E p = set_incoming E p (AddCallLogAndNotification E p)"

definition WAIT_TIME_THREE_SECOND :: int where "WAIT_TIME_THREE_SECOND = 3000"

definition ring_once_key :: "service_env \<Rightarrow> int \<Rightarrow> string" where
  "ring_once_key E slotId =
     (case rp_simLabel (se_report E) slotId of
        None \<Rightarrow> ''spamshield_sim''
      | Some (simType, _) \<Rightarrow>
          if simType = rp_esimType (se_report E) then ''spamshield_eRule'' else ''spamshield_sim'') @
     to_string (slotId + 1) @ ''_phone_switch_ring_once''"

text \<open>
  The time that is left of three seconds since the detection began is waited for; it is
  not positive when the detection took longer.
\<close>

definition IsRingOnceCall :: "service_env \<Rightarrow> ptr \<Rightarrow> CallDetailInfo \<Rightarrow> bool step" where
  "IsRingOnceCall E p info = do {
     c \<leftarrow> call_of p;
     (let v = rp_setting (se_report E) (ring_once_key E (dt_accountId info)) in
      if markType (m_numberMarkInfo c) = MARK_TYPE_YELLOW_PAGE \<or> ci_name (m_contactInfo c) \<noteq> []
      then State_Monad.return False
      else if v = None \<or> v = Some ''0'' then State_Monad.return False
      else do {
        start \<leftarrow> reads s_detectStart;
        waitTime \<leftarrow> (case start of
            None \<Rightarrow> State_Monad.return WAIT_TIME_THREE_SECOND
          | Some t \<Rightarrow> do {
              k \<leftarrow> read_clock E;
              State_Monad.return (WAIT_TIME_THREE_SECOND - (clock_ms k - t)) });
        _ \<leftarrow> change (\<lambda>s. s\<lparr>s_ringOnceWait := False\<rparr>);
        State_Monad.return (rp_ringOnceEnded (se_report E) waitTime) }) }"

subsection \<open>An incoming call\<close>

definition HandleVideoCallInAdvsecMode :: "service_env \<Rightarrow> ptr \<Rightarrow> CallDetailInfo \<Rightarrow> unit step" where
  "HandleVideoCallInAdvsecMode E p info = do {
     c \<leftarrow> call_of p;
     whenever (m_videoState c = TYPE_VIDEO \<and> m_callType c = TYPE_IMS \<and>
         \<not> IsTrustedNumber E (markType (m_numberMarkInfo c)) (dt_phoneNum info) \<and>
         rp_advsec (se_report E))
       (on_call p (SetForcedReportVoiceCall True)) }"

definition status_effect :: "service_env \<Rightarrow> StatusEffect \<Rightarrow> unit step" where
  "status_effect E x =
     (case x of
        ReportCallDropChrEvent slot index cause \<Rightarrow> emit (StatusPolicyEffect x)
      | StackRequest q \<Rightarrow> emit (Sent q)
      | Call_Status_Policy.NotifyNewCallCreated p \<Rightarrow>
          do { _ \<leftarrow> Call_Notify.NotifyNewCallCreated E (Some p); State_Monad.return () })"

definition filter_results :: "service_env \<Rightarrow> ptr \<Rightarrow> ErrCode step" where
  "filter_results E p = do {
     r \<leftarrow> reads s_reg;
     v \<leftarrow> reads s_voipState;
     (case FilterResultsDispose (se_build E) (se_env E) v (Some p) r of
        None \<Rightarrow> do { _ \<leftarrow> fault; State_Monad.return TELEPHONY_ERR_FAIL }
      | Some (ret, es, r') \<Rightarrow> do {
          _ \<leftarrow> change (\<lambda>s. s\<lparr>s_reg := r'\<rparr>);
          _ \<leftarrow> each (status_effect E) es;
          State_Monad.return ret }) }"

definition FinalizeIncomingState :: "service_env \<Rightarrow> ptr \<Rightarrow> TelCallState \<Rightarrow> ErrCode step" where
  "FinalizeIncomingState E p nextState = do {
     ret \<leftarrow> UpdateCallState E p nextState;
     (if ret \<noteq> TELEPHONY_SUCCESS then State_Monad.return ret
      else do {
        ret \<leftarrow> filter_results E p;
        _ \<leftarrow> emit (System StartFlashRemind);
        State_Monad.return ret }) }"

definition announce_incoming :: "service_env \<Rightarrow> ptr \<Rightarrow> CallDetailInfo \<Rightarrow> ErrCode step" where
  "announce_incoming E p info = do {
     _ \<leftarrow> HandleVideoCallInAdvsecMode E p info;
     _ \<leftarrow> add_call E p;
     _ \<leftarrow> StartInComingCallMotionRecognition E;
     _ \<leftarrow> on_call p (SetPhoneIndexInfo E (dt_phoneIndex info));
     _ \<leftarrow> Call_Notify.NotifyNewCallCreated E (Some p);
     FinalizeIncomingState E p (dt_state info) }"

text \<open>A device connected in the sink role leaves the rejection to the other device.\<close>

definition IncomingHandle :: "service_env \<Rightarrow> CallDetailInfo \<Rightarrow> ErrCode step" where
  "IncomingHandle E info = do {
     (isExisted, ret) \<leftarrow> PrepareIncomingCall E info;
     (if isExisted \<or> ret \<noteq> TELEPHONY_SUCCESS then State_Monad.return ret
      else do {
        call \<leftarrow> CreateNewCall E info CALL_DIRECTION_IN;
        (case call of
           None \<Rightarrow> State_Monad.return CALL_ERR_CALL_OBJECT_IS_NULL
         | Some p \<Rightarrow> do {
             c \<leftarrow> call_of p;
             same \<leftarrow> find_ptr (IsFromTheSameNumberAtTheSameTime E c);
             _ \<leftarrow> whenever same (ModifyEsimType E);
             _ \<leftarrow> SetContactInfo E p (dt_phoneNum info);
             _ \<leftarrow> whenever (m_callType c = TYPE_BLUETOOTH) (YellowPageAndMarkUpdate E p);
             (reject, block) \<leftarrow>
               (if support_dsoftbus (se_build E) \<and> de_softbusSink (se_dial E)
                then State_Monad.return (False, False)
                else do {
                  (reject, block) \<leftarrow> IsRejectCall E p info;
                  _ \<leftarrow> whenever (\<not> reject) (publish_block p block);
                  State_Monad.return (reject, block) });
             (if reject then HandleRejectCall E p block
              else do {
                ringOnce \<leftarrow> (if dt_callType info \<noteq> TYPE_VOIP \<and> dt_callType info \<noteq> TYPE_BLUETOOTH
                            then IsRingOnceCall E p info else State_Monad.return False);
                (if ringOnce then HandleRingOnceCall E p else announce_incoming E p info) }) }) }) }"

definition CallFilterCompleteResult :: "service_env \<Rightarrow> CallDetailInfo \<Rightarrow> unit step" where
  "CallFilterCompleteResult E info = do {
     call \<leftarrow> CreateNewCall E info CALL_DIRECTION_IN;
     (case call of
        None \<Rightarrow> State_Monad.return ()
      | Some p \<Rightarrow> do {
          _ \<leftarrow> add_call E p;
          _ \<leftarrow> Call_Notify.NotifyNewCallCreated E (Some p);
          ret \<leftarrow> UpdateCallState E p (dt_state info);
          whenever (ret = TELEPHONY_SUCCESS) (do { _ \<leftarrow> filter_results E p; State_Monad.return () }) }) }"

end
