(* ===== verification/Call_Reports.thy ===== *)
theory Call_Reports
  imports Call_Filter
begin

text \<open>
  The handlers of the reports of the stacks (CallStatusManager,
  \<^verbatim>\<open>services/call/src/call_status_manager.cpp\<close>): one for each state a call can be
  reported in, the reports of VoIP applications and of events, and the list of calls a
  card reports, which is compared with the list before.
\<close>

subsection \<open>Parts of the handlers\<close>

definition HandleDsdaInfo :: "service_env \<Rightarrow> int \<Rightarrow> unit step" where
  "HandleDsdaInfo E slotId = do {
     ids \<leftarrow> find_ptr GetCarrierCallList;
     currentCallNum \<leftarrow> current_call_num;
     noOtherCall \<leftarrow> find_ptr (IsExistCallOtherSlot E ids slotId True);
     holdCall \<leftarrow> find_ptr (GetOneCallObject_running CALL_RUNNING_STATE_HOLD);
     whenever (IsDsdsMode5 E \<and> \<not> noOtherCall \<and> holdCall \<noteq> None \<and> currentCallNum > 2)
       (on_call (the holdCall) (SetCanUnHoldState False)) }"

definition GetConferenceCallList :: "service_env \<Rightarrow> int \<Rightarrow> service \<Rightarrow> ptr list" where
  "GetConferenceCallList E slotId s =
     (if slotId \<ge> SLOT_NUM \<or> slotId < 0 then []
      else List.map_filter (\<lambda>i. if dt_mpty i = 1
        then GetOneCallObjectByIndexAndSlotId (se_code E) (dt_index i) (dt_accountId i) (s_reg s) else None)
        (s_tmpCallDetails s slotId))"

text \<open>
  Each call leaves the conference state first, so the test that follows always holds and
  every call is launched again.
\<close>

definition SetConferenceCall :: "service_env \<Rightarrow> ptr list \<Rightarrow> unit step" where
  "SetConferenceCall E ps = each (\<lambda>p. do {
     _ \<leftarrow> on_call p (SetTelConferenceState TEL_CONFERENCE_IDLE);
     c \<leftarrow> call_of p;
     whenever (m_conferenceState c \<noteq> TEL_CONFERENCE_ACTIVE) (do {
       _ \<leftarrow> launch_conference E p;
       c \<leftarrow> call_of p;
       _ \<leftarrow> UpdateCallState E p (m_callState c);
       State_Monad.return () }) }) ps"

definition or_codes :: "int \<Rightarrow> int \<Rightarrow> int" where
  "or_codes a b = sint (or (word_of_int a :: 32 word) (word_of_int b))"

definition SetOriginalCallTypeForActiveState :: "call \<Rightarrow> call" where
  "SetOriginalCallTypeForActiveState c =
     (let v = VideoStateType_code (m_videoState c) in
      if m_callState c = CALL_STATUS_ALERTING \<or> m_callState c = CALL_STATUS_INCOMING \<or>
         m_callState c = CALL_STATUS_WAITING
      then (if m_originalCallType c \<noteq> v then SetOriginalCallType v c else c)
      else if m_callState c = CALL_STATUS_ACTIVE \<or> m_callState c = CALL_STATUS_HOLDING
      then SetOriginalCallType (or_codes (m_originalCallType c) v) c else c)"

definition SetOriginalCallTypeForDisconnectState :: "service_env \<Rightarrow> call \<Rightarrow> call" where
  "SetOriginalCallTypeForDisconnectState E c =
     (let attrInfo = GetCallAttributeBaseInfo (se_want E) c zeroed_info in
      if m_callState c = CALL_STATUS_DIALING \<or> m_callState c = CALL_STATUS_ALERTING \<or>
         ((m_callState c = CALL_STATUS_INCOMING \<or> m_callState c = CALL_STATUS_WAITING) \<and>
          i_answerType attrInfo \<noteq> CALL_ANSWER_REJECT)
      then SetOriginalCallType (VideoStateType_code TYPE_VOICE) c else c)"

definition DISCONNECTED_REASON_CS_CALL_ANSWERED_ELSEWHER :: int where
  "DISCONNECTED_REASON_CS_CALL_ANSWERED_ELSEWHER = 13"
definition DISCONNECTED_REASON_ANSWERED_ELSEWHER :: int where
  "DISCONNECTED_REASON_ANSWERED_ELSEWHER = 18632"

definition to_lower :: "char \<Rightarrow> char" where
  "to_lower c = (if (of_char c :: nat) \<in> {65..90} then char_of ((of_char c :: nat) + 32) else c)"

definition CALL_DISCONNECTED_BY_REMOTE_code :: int where "CALL_DISCONNECTED_BY_REMOTE_code = 5"

definition RefreshCallDisconnectReason :: "service_env \<Rightarrow> int \<Rightarrow> string \<Rightarrow> call \<Rightarrow> call" where
  "RefreshCallDisconnectReason E reason message c =
     (if reason = DISCONNECTED_REASON_CS_CALL_ANSWERED_ELSEWHER then
        (if m_callType c = TYPE_CS then SetAnswerType CALL_ANSWERED_ELSEWHER c else c)
      else if reason = DISCONNECTED_REASON_ANSWERED_ELSEWHER then
        (if (support_dsoftbus (se_build E) \<and> rp_sinkRole (se_report E)) \<or>
            contains_string (map to_lower message) ''elsewhere''
         then SetAnswerType CALL_ANSWERED_ELSEWHER c else c)
      else if reason = DISCONNECTED_REASON_NORMAL then
        SetExtraParams (set_param ''disconnectedReason'' CALL_DISCONNECTED_BY_REMOTE_code (m_extraParams c)) c
      else c)"

definition ToSpeakerPhone :: "ptr \<Rightarrow> unit step" where
  "ToSpeakerPhone p = do {
     c \<leftarrow> call_of p;
     whenever (m_callRunningState c \<noteq> CALL_RUNNING_STATE_DIALING \<and> m_isSpeakerphoneOn c) (do {
       _ \<leftarrow> emit (Audio SetAudioDeviceSpeaker);
       on_call p (\<lambda>c. snd (SetSpeakerphoneOn False c)) }) }"

definition TurnOffMute :: "ptr \<Rightarrow> unit step" where
  "TurnOffMute p = do {
     enabled \<leftarrow> find_ptr HasEmergencyCall;
     c \<leftarrow> call_of p;
     emit (Audio (SetMuteTo (\<not> (GetEmergencyState c \<or> enabled)))) }"

subsection \<open>Outgoing calls\<close>

definition UpdateDialingCallInfo :: "service_env \<Rightarrow> CallDetailInfo \<Rightarrow> ErrCode step" where
  "UpdateDialingCallInfo E info = do {
     call \<leftarrow> find_ptr (find_reported E info);
     initCall \<leftarrow> find_ptr (GetOneCallObjectByIndex 0);
     (case call of
        Some p \<Rightarrow> do { _ \<leftarrow> RefreshCallIfNecessary E p info; State_Monad.return TELEPHONY_SUCCESS }
      | None \<Rightarrow> (case initCall of
          None \<Rightarrow> State_Monad.return TELEPHONY_ERR_LOCAL_PTR_NULL
        | Some p \<Rightarrow> do {
            c \<leftarrow> call_of p;
            q \<leftarrow> RefreshCallIfNecessary E p info;
            _ \<leftarrow> on_call q (\<lambda>c. SetSlotId (dt_accountId info)
                  (SetBundleName (dt_bundleName info) (SetCallIndex (dt_index info) c)));
            _ \<leftarrow> set_tel_state E (dt_state info) q;
            _ \<leftarrow> on_call q (\<lambda>d. SetImsDomain (dt_imsDomain info)
                  (SetAccountNumber (m_accountNumber c) (SetCallType (dt_callType info)
                    (SetVideoStateType (dt_callMode info) d))));
            _ \<leftarrow> ClearPendingState E q;
            State_Monad.return TELEPHONY_SUCCESS })) }"

definition dialed_on :: "service_env \<Rightarrow> bool \<Rightarrow> PhoneOrWatchDial \<Rightarrow> ptr \<Rightarrow> unit step" where
  "dialed_on E byPhone d p = on_call p (\<lambda>c.
     SetBtCallDialByPhone E byPhone (SetPhoneOrWatchDial (PhoneOrWatchDial_code d) c))"

text \<open>The call of index 0 becomes the call of the report's index; the result is that call.\<close>

definition BtCallDialingHandle :: "service_env \<Rightarrow> ptr option \<Rightarrow> CallDetailInfo \<Rightarrow> ptr option step" where
  "BtCallDialingHandle E call info = do {
     reported \<leftarrow> find_ptr (find_reported E info);
     (case call of
        Some p \<Rightarrow> do { _ \<leftarrow> dialed_on E False WATCH_DIAL p; State_Monad.return call }
      | None \<Rightarrow> (case reported of
          None \<Rightarrow> State_Monad.return None
        | Some q \<Rightarrow> do { _ \<leftarrow> dialed_on E True PHONE_DIAL q; State_Monad.return reported })) }"

definition UpdateDialingHandle :: "service_env \<Rightarrow> CallDetailInfo \<Rightarrow> (bool \<times> bool) step" where
  "UpdateDialingHandle E info = do {
     initial \<leftarrow> find_ptr (find_reported E (info\<lparr>dt_index := 0\<rparr>));
     (if dt_callType info = TYPE_BLUETOOTH then do {
        call \<leftarrow> BtCallDialingHandle E initial info;
        State_Monad.return (call \<noteq> None, False) }
      else if initial = None then do {
        call \<leftarrow> find_ptr (find_reported E info);
        State_Monad.return (call \<noteq> None, IsDistributeCallSourceStatus E) }
      else State_Monad.return (True, False)) }"

definition BtCallDialingHandleFirst :: "service_env \<Rightarrow> ptr \<Rightarrow> CallDetailInfo \<Rightarrow> unit step" where
  "BtCallDialingHandleFirst E p info = do {
     _ \<leftarrow> dialed_on E False WATCH_DIAL p;
     whenever (dt_state info = CALL_STATUS_ALERTING) (do {
       _ \<leftarrow> UpdateDialingCallInfo E info;
       c \<leftarrow> call_of p;
       whenever (m_callState c = CALL_STATUS_ALERTING)
         (do { _ \<leftarrow> set_tel_state E CALL_STATUS_DIALING p; State_Monad.return () }) }) }"

definition dialing_process :: "service_env \<Rightarrow> ptr \<Rightarrow> ErrCode step" where
  "dialing_process E p = invoke_opt (DialingProcess (se_env E)) p"

definition start_dialed_call :: "service_env \<Rightarrow> CallDetailInfo \<Rightarrow> bool \<Rightarrow> ptr \<Rightarrow> ErrCode step" where
  "start_dialed_call E info isDistributedDeviceDialing p = do {
     _ \<leftarrow> on_call p (SetDistributedDeviceDialing isDistributedDeviceDialing);
     _ \<leftarrow> whenever (IsDcCallConneceted E) (SetContactInfo E p (dt_phoneNum info));
     _ \<leftarrow> add_call E p;
     _ \<leftarrow> on_call p (SetPhoneIndexInfo E (dt_phoneIndex info));
     _ \<leftarrow> whenever (dt_index info = 0) (do {
       c \<leftarrow> call_of p;
       _ \<leftarrow> on_helper (SetPendingMo True (m_callId c));
       _ \<leftarrow> dialed_on E False WATCH_DIAL p;
       StartOutGoingCallMotionRecognition E });
     _ \<leftarrow> release_dialing;
     ret \<leftarrow> dialing_process E p;
     (if ret \<noteq> TELEPHONY_SUCCESS then State_Monad.return ret
      else do {
        _ \<leftarrow> NotifyNewCallCreated E (Some p);
        _ \<leftarrow> emit (System (StartEccService p));
        UpdateCallState E p CALL_STATUS_DIALING }) }"

definition DialingHandle :: "service_env \<Rightarrow> CallDetailInfo \<Rightarrow> ErrCode step" where
  "DialingHandle E info = do {
     (update, distributed) \<leftarrow> (if dt_index info > 0 then UpdateDialingHandle E info
                              else State_Monad.return (False, False));
     (if update then UpdateDialingCallInfo E info
      else do {
        call \<leftarrow> CreateNewCall E info CALL_DIRECTION_OUT;
        (case call of
           None \<Rightarrow> State_Monad.return TELEPHONY_ERR_LOCAL_PTR_NULL
         | Some p \<Rightarrow> start_dialed_call E info distributed p) }) }"

text \<open>
  A report of another state for a dialed call whose index is not known yet counts as its
  dialing report first; the result is the call it is about.
\<close>

definition RefreshDialingStateByOtherState :: "service_env \<Rightarrow> CallDetailInfo \<Rightarrow> ptr option step" where
  "RefreshDialingStateByOtherState E info = do {
     initCall \<leftarrow> find_ptr (GetOneCallObjectByIndex 0);
     (if initCall = None then State_Monad.return None
      else do {
        _ \<leftarrow> DialingHandle E (info\<lparr>dt_state := CALL_STATUS_DIALING\<rparr>);
        _ \<leftarrow> HandleDsdaInfo E (dt_accountId info);
        _ \<leftarrow> emit (Bluetooth ReportBluetoothState);
        find_ptr (find_reported E info) }) }"

definition CreateAndSaveNewCall :: "service_env \<Rightarrow> CallDetailInfo \<Rightarrow> CallDirection \<Rightarrow> unit step" where
  "CreateAndSaveNewCall E info direction = do {
     initCall \<leftarrow> find_ptr (GetOneCallObjectByIndex 0);
     (if initCall \<noteq> None then do { _ \<leftarrow> UpdateDialingCallInfo E info; State_Monad.return () }
      else do {
        call \<leftarrow> CreateNewCall E info direction;
        (case call of
           None \<Rightarrow> State_Monad.return ()
         | Some p \<Rightarrow> do {
             _ \<leftarrow> submit (YellowPageTask p);
             _ \<leftarrow> add_call E p;
             _ \<leftarrow> NotifyNewCallCreated E (Some p);
             State_Monad.return () }) }) }"

text \<open>The call a report is about; on a device that shares its calls it may have to be made.\<close>

definition find_or_make :: "service_env \<Rightarrow> CallDetailInfo \<Rightarrow> CallDirection \<Rightarrow> ptr option step" where
  "find_or_make E info direction = do {
     call \<leftarrow> find_ptr (find_reported E info);
     (if call = None \<and> IsDcCallConneceted E then do {
        _ \<leftarrow> CreateAndSaveNewCall E info direction;
        find_ptr (find_reported E info) }
      else State_Monad.return call) }"

definition or_dialing :: "service_env \<Rightarrow> CallDetailInfo \<Rightarrow> ptr option \<Rightarrow> ptr option step" where
  "or_dialing E info call =
     (if call = None then RefreshDialingStateByOtherState E info else State_Monad.return call)"

subsection \<open>The states of a call\<close>

definition ActiveHandle :: "service_env \<Rightarrow> CallDetailInfo \<Rightarrow> ErrCode step" where
  "ActiveHandle E info = do {
     _ \<leftarrow> StopCallMotionRecognition CALL_STATUS_ACTIVE;
     _ \<leftarrow> emit (System StopFlashRemind);
     call \<leftarrow> find_or_make E info CALL_DIRECTION_UNKNOW;
     call \<leftarrow> or_dialing E info call;
     (case call of
        None \<Rightarrow> State_Monad.return TELEPHONY_ERR_LOCAL_PTR_NULL
      | Some p \<Rightarrow> do {
          _ \<leftarrow> ClearPendingState E p;
          p \<leftarrow> RefreshCallIfNecessary E p info;
          _ \<leftarrow> on_call p SetOriginalCallTypeForActiveState;
          c \<leftarrow> call_of p;
          members \<leftarrow> reads (GetConferenceCallList E (slot_of E c));
          _ \<leftarrow> (if dt_mpty info = 1 \<and> length members > 1 then SetConferenceCall E members
               else exit_conference p);
          ret \<leftarrow> UpdateCallState E p CALL_STATUS_ACTIVE;
          (if ret \<noteq> TELEPHONY_SUCCESS then State_Monad.return ret
           else do {
             holdCall \<leftarrow> find_ptr (GetOneCallObject_running CALL_RUNNING_STATE_HOLD);
             _ \<leftarrow> (case holdCall of None \<Rightarrow> State_Monad.return ()
                  | Some h \<Rightarrow> on_call h (SetCanSwitchCallState True));
             _ \<leftarrow> whenever (rp_audioSupport (se_report E)) (do {
               _ \<leftarrow> ToSpeakerPhone p;
               emit (Audio SetVolumeAudible) });
             _ \<leftarrow> HandleAntiFraudState E p info;
             State_Monad.return ret }) }) }"

definition HoldingHandle :: "service_env \<Rightarrow> CallDetailInfo \<Rightarrow> ErrCode step" where
  "HoldingHandle E info = do {
     call \<leftarrow> find_or_make E info CALL_DIRECTION_UNKNOW;
     (case call of
        None \<Rightarrow> State_Monad.return TELEPHONY_ERR_LOCAL_PTR_NULL
      | Some p \<Rightarrow> do {
          _ \<leftarrow> PauseAntiFraudDetect E p info;
          p \<leftarrow> RefreshCallIfNecessary E p info;
          _ \<leftarrow> whenever (dt_mpty info = 1) (hold_conference p);
          UpdateCallStateAndHandleDsdsMode E p }) }"

definition WaitingHandle :: "service_env \<Rightarrow> CallDetailInfo \<Rightarrow> ErrCode step" where
  "WaitingHandle E info = do {
     _ \<leftarrow> emit (System AcquireIncomingLock);
     ret \<leftarrow> IncomingHandle E info;
     _ \<leftarrow> emit (System ReleaseIncomingLock);
     State_Monad.return ret }"

definition AlertHandle :: "service_env \<Rightarrow> CallDetailInfo \<Rightarrow> ErrCode step" where
  "AlertHandle E info = do {
     call \<leftarrow> find_or_make E info CALL_DIRECTION_OUT;
     call \<leftarrow> or_dialing E info call;
     (case call of
        None \<Rightarrow> State_Monad.return TELEPHONY_ERR_LOCAL_PTR_NULL
      | Some p \<Rightarrow> do {
          _ \<leftarrow> ClearPendingState E p;
          c \<leftarrow> call_of p;
          (if m_callState c = CALL_STATUS_DISCONNECTING
           then State_Monad.return CALL_ERR_CALL_STATE_MISMATCH_OPERATION
           else do {
             p \<leftarrow> RefreshCallIfNecessary E p info;
             ret \<leftarrow> UpdateCallState E p CALL_STATUS_ALERTING;
             _ \<leftarrow> whenever (ret = TELEPHONY_SUCCESS \<and> rp_audioSupport (se_report E)) (do {
               _ \<leftarrow> ToSpeakerPhone p;
               _ \<leftarrow> TurnOffMute p;
               emit (Audio SetVolumeAudible) });
             State_Monad.return ret }) }) }"

definition DisconnectingHandle :: "service_env \<Rightarrow> CallDetailInfo \<Rightarrow> ErrCode step" where
  "DisconnectingHandle E info = do {
     call \<leftarrow> find_ptr (find_reported E info);
     (case call of
        None \<Rightarrow> State_Monad.return TELEPHONY_ERR_LOCAL_PTR_NULL
      | Some p \<Rightarrow> do {
          _ \<leftarrow> StopAntiFraudDetect E p info;
          p \<leftarrow> RefreshCallIfNecessary E p info;
          _ \<leftarrow> on_call p (SetOriginalCallTypeForDisconnectState E);
          ret \<leftarrow> UpdateCallState E p CALL_STATUS_DISCONNECTING;
          _ \<leftarrow> emit (System StopFlashRemind);
          State_Monad.return ret }) }"

text \<open>A conference that is left with one member is none any more.\<close>

definition dissolve_conference :: "service_env \<Rightarrow> int \<Rightarrow> unit step" where
  "dissolve_conference E slotId = do {
     members \<leftarrow> reads (GetConferenceCallList E slotId);
     (case members of
        [p] \<Rightarrow> do {
          c \<leftarrow> call_of p;
          whenever (m_conferenceState c \<noteq> TEL_CONFERENCE_IDLE) (do {
            _ \<leftarrow> on_call p (SetTelConferenceState TEL_CONFERENCE_IDLE);
            c \<leftarrow> call_of p;
            _ \<leftarrow> UpdateCallState E p (m_callState c);
            State_Monad.return () }) }
      | _ \<Rightarrow> State_Monad.return ()) }"

definition after_last_call :: "service_env \<Rightarrow> unit step" where
  "after_last_call E = do {
     n \<leftarrow> current_call_num;
     _ \<leftarrow> whenever (n = 0) (do {
       _ \<leftarrow> emit (System RestorePrivacyPolicy);
       SetReduceRingToneVolume_control False });
     _ \<leftarrow> StopCallMotionRecognition CALL_STATUS_DISCONNECTED;
     emit (System StopFlashRemind) }"

definition DisconnectedHandle :: "service_env \<Rightarrow> CallDetailInfo \<Rightarrow> ErrCode step" where
  "DisconnectedHandle E info = do {
     _ \<leftarrow> change (\<lambda>s. s\<lparr>s_ringOnceWait := False\<rparr>);
     call \<leftarrow> find_ptr (find_reported E info);
     call \<leftarrow> or_dialing E info call;
     (case call of
        None \<Rightarrow> State_Monad.return TELEPHONY_ERR_LOCAL_PTR_NULL
      | Some p \<Rightarrow> do {
          c \<leftarrow> call_of p;
          _ \<leftarrow> whenever (m_callState c \<noteq> CALL_STATUS_DISCONNECTING)
                (emit (System AcquireDisconnectedLock));
          _ \<leftarrow> StopAntiFraudDetect E p info;
          p \<leftarrow> RefreshCallIfNecessary E p info;
          _ \<leftarrow> on_call p (RefreshCallDisconnectReason E (dt_reason info) (dt_message info));
          _ \<leftarrow> ClearPendingState E p;
          _ \<leftarrow> on_call p (SetOriginalCallTypeForDisconnectState E);
          c \<leftarrow> call_of p;
          g \<leftarrow> reads s_conf;
          (let memberNum = length (CallBase_GetSubCallIdList c g);
               previousState = m_callRunningState c in do {
             _ \<leftarrow> exit_conference p;
             c \<leftarrow> call_of p;
             (let priorState = m_callState c in do {
                _ \<leftarrow> UpdateCallState E p CALL_STATUS_DISCONNECTED;
                _ \<leftarrow> emit (System (StopEccService (m_callId c)));
                wait \<leftarrow> reads s_needWaitHold;
                activeCallNum \<leftarrow> call_num CALL_STATUS_ACTIVE;
                _ \<leftarrow> whenever (wait \<and> activeCallNum = 0) (do {
                  _ \<leftarrow> set_needWaitHold False;
                  HandleDialWhenHolding E (m_callId c) p });
                _ \<leftarrow> HandleHoldCallOrAutoAnswerCall E p memberNum previousState priorState;
                c \<leftarrow> call_of p;
                _ \<leftarrow> dissolve_conference E (slot_of E c);
                _ \<leftarrow> after_last_call E;
                State_Monad.return TELEPHONY_SUCCESS }) }) }) }"

definition HandleCallReportInfoEx :: "service_env \<Rightarrow> CallDetailInfo \<Rightarrow> ErrCode step" where
  "HandleCallReportInfoEx E info =
     (case dt_state info of
        CALL_STATUS_WAITING \<Rightarrow> WaitingHandle E info
      | CALL_STATUS_DISCONNECTED \<Rightarrow> DisconnectedHandle E info
      | CALL_STATUS_DISCONNECTING \<Rightarrow> DisconnectingHandle E info
      | _ \<Rightarrow> State_Monad.return TELEPHONY_ERR_FAIL)"

end
