(* ===== verification/Call_Report_Handlers.thy ===== *)
theory Call_Report_Handlers
  imports Call_Reports
begin

text \<open>
  The entry points of CallStatusManager
  (\<^verbatim>\<open>services/call/src/call_status_manager.cpp\<close>): a report of one call, of the calls of
  a card, of a VoIP application and of an event, and the queue that runs them.
\<close>

subsection \<open>Calls of VoIP applications\<close>

definition find_voip :: "CallDetailInfo \<Rightarrow> registry \<Rightarrow> ptr option" where
  "find_voip info r = (let v = dt_voipCallInfo info in
     GetOneCallObjectByVoipCallId (v_voipCallId v) (v_voipBundleName v) (v_uid v) r)"

definition update_voip_info :: "CallDetailInfo \<Rightarrow> ptr \<Rightarrow> unit step" where
  "update_voip_info info p = on_call p (\<lambda>c.
     snd (VoIPCall_UpdateCallAttributeInfo (dt_voipCallInfo info) (dt_callMode info) c))"

text \<open>
  The status is kept in a Boolean: every failure is returned as 1, which is not one of the
  codes (\<^verbatim>\<open>CodeFrom 1\<close>).
\<close>

definition ActiveVoipCallHandle :: "service_env \<Rightarrow> CallDetailInfo \<Rightarrow> ErrCode step" where
  "ActiveVoipCallHandle E info = do {
     call \<leftarrow> find_ptr (find_voip info);
     (case call of
        None \<Rightarrow> State_Monad.return TELEPHONY_ERR_LOCAL_PTR_NULL
      | Some p \<Rightarrow> do {
          _ \<leftarrow> update_voip_info info p;
          ret \<leftarrow> UpdateCallState E p (dt_state info);
          State_Monad.return (if ret \<noteq> TELEPHONY_SUCCESS then CodeFrom 1 else TELEPHONY_SUCCESS) }) }"

text \<open>The new call of an application: it counts as non-virtual unless audio is virtual.\<close>

definition announce_voip :: "service_env \<Rightarrow> ptr \<Rightarrow> TelCallState \<Rightarrow> ErrCode step" where
  "announce_voip E p st = do {
     _ \<leftarrow> add_call E p;
     _ \<leftarrow> NotifyNewCallCreated E (Some p);
     UpdateCallState E p st }"

definition set_non_virtual :: "ptr \<Rightarrow> unit step" where
  "set_non_virtual p = do {
     v \<leftarrow> reads s_virtualCall;
     on_call p (SetNonVirtualCall (\<not> v)) }"

text \<open>
  A call that cannot be made is asked to update itself: the null pointer is not one, so
  the function ends with the error.
\<close>

definition IncomingVoipCallHandle :: "service_env \<Rightarrow> CallDetailInfo \<Rightarrow> ErrCode step" where
  "IncomingVoipCallHandle E info = do {
     existing \<leftarrow> find_ptr (find_voip info);
     (if existing \<noteq> None then State_Monad.return TELEPHONY_SUCCESS
      else do {
        call \<leftarrow> CreateNewCall E info CALL_DIRECTION_IN;
        (case call of
           None \<Rightarrow> State_Monad.return CALL_ERR_CALL_OBJECT_IS_NULL
         | Some p \<Rightarrow> do {
             _ \<leftarrow> set_non_virtual p;
             _ \<leftarrow> set_tel_state E CALL_STATUS_INCOMING p;
             (if rp_watchBlocking (se_report E) \<and> rp_detectSpam (se_report E) info \<and>
                 rp_disposition (se_report E) = INTERCEPTED
              then do { _ \<leftarrow> reject_call E p; State_Monad.return TELEPHONY_SUCCESS }
              else announce_voip E p (dt_state info)) }) }) }"

definition OutgoingVoipCallHandle :: "service_env \<Rightarrow> CallDetailInfo \<Rightarrow> ErrCode step" where
  "OutgoingVoipCallHandle E info = do {
     existing \<leftarrow> find_ptr (find_voip info);
     (case existing of
        Some p \<Rightarrow> do { _ \<leftarrow> update_voip_info info p; UpdateCallState E p (dt_state info) }
      | None \<Rightarrow> do {
          call \<leftarrow> CreateNewCall E info CALL_DIRECTION_OUT;
          (case call of
             None \<Rightarrow> State_Monad.return CALL_ERR_CALL_OBJECT_IS_NULL
           | Some p \<Rightarrow> do { _ \<leftarrow> set_non_virtual p; announce_voip E p (dt_state info) }) }) }"

definition HangUpCellularCall :: "service_env \<Rightarrow> unit step" where
  "HangUpCellularCall E = do {
     ids \<leftarrow> find_ptr GetCarrierCallList;
     each (\<lambda>i. do {
       call \<leftarrow> find_ptr (GetOneCallObject i);
       (case call of None \<Rightarrow> State_Monad.return ()
        | Some p \<Rightarrow> do { _ \<leftarrow> hang_up_call E p; State_Monad.return () }) }) ids }"

definition AnsweredVoipCallHandle :: "service_env \<Rightarrow> CallDetailInfo \<Rightarrow> ErrCode step" where
  "AnsweredVoipCallHandle E info = do {
     call \<leftarrow> find_ptr (find_voip info);
     (case call of
        None \<Rightarrow> State_Monad.return TELEPHONY_ERROR
      | Some p \<Rightarrow> do {
          _ \<leftarrow> whenever (rp_cellularFirst (se_report E) (v_uid (dt_voipCallInfo info)))
                (HangUpCellularCall E);
          told \<leftarrow> NotifyCallStateUpdated E (Some p) CALL_STATUS_INCOMING CALL_STATUS_ANSWERED;
          State_Monad.return (if told then TELEPHONY_SUCCESS else TELEPHONY_ERROR) }) }"

text \<open>With the last non-virtual call of an application the audio becomes virtual again.\<close>

definition make_virtual :: "ptr \<Rightarrow> unit step" where
  "make_virtual p = do {
     n \<leftarrow> find_ptr (GetVoipCallNum True);
     _ \<leftarrow> whenever (n = 1) (set_virtual_call True);
     on_call p (SetNonVirtualCall False) }"

definition DisconnectingVoipCallHandle :: "service_env \<Rightarrow> CallDetailInfo \<Rightarrow> ErrCode step" where
  "DisconnectingVoipCallHandle E info = do {
     call \<leftarrow> find_ptr (find_voip info);
     (case call of
        None \<Rightarrow> State_Monad.return TELEPHONY_ERROR
      | Some p \<Rightarrow> do { _ \<leftarrow> make_virtual p; UpdateCallState E p CALL_STATUS_DISCONNECTING }) }"

definition DisconnectedVoipCallHandle :: "service_env \<Rightarrow> CallDetailInfo \<Rightarrow> ErrCode step" where
  "DisconnectedVoipCallHandle E info = do {
     call \<leftarrow> find_ptr (find_voip info);
     (case call of
        None \<Rightarrow> State_Monad.return TELEPHONY_ERR_LOCAL_PTR_NULL
      | Some p \<Rightarrow> do {
          ret \<leftarrow> UpdateCallState E p CALL_STATUS_DISCONNECTED;
          (if ret \<noteq> TELEPHONY_SUCCESS then State_Monad.return ret
           else do {
             _ \<leftarrow> make_virtual p;
             c \<leftarrow> call_of p;
             _ \<leftarrow> delete_call E (m_callId c);
             State_Monad.return TELEPHONY_SUCCESS }) }) }"

definition HandleVoipCallReportInfo :: "service_env \<Rightarrow> CallDetailInfo \<Rightarrow> ErrCode step" where
  "HandleVoipCallReportInfo E info =
     (case dt_state info of
        CALL_STATUS_ACTIVE \<Rightarrow> ActiveVoipCallHandle E info
      | CALL_STATUS_INCOMING \<Rightarrow> IncomingVoipCallHandle E info
      | CALL_STATUS_DISCONNECTED \<Rightarrow> DisconnectedVoipCallHandle E info
      | CALL_STATUS_DIALING \<Rightarrow> OutgoingVoipCallHandle E info
      | CALL_STATUS_ANSWERED \<Rightarrow> AnsweredVoipCallHandle E info
      | CALL_STATUS_DISCONNECTING \<Rightarrow> DisconnectingVoipCallHandle E info
      | _ \<Rightarrow> State_Monad.return TELEPHONY_ERR_FAIL)"

subsection \<open>One call\<close>

text \<open>
  A Bluetooth call that is reported for the first time in another state than ringing is
  created here, before its state is handled.
\<close>

definition HandleBluetoothCallReportInfo :: "service_env \<Rightarrow> CallDetailInfo \<Rightarrow> unit step" where
  "HandleBluetoothCallReportInfo E info =
     (if dt_state info = CALL_STATUS_WAITING \<or> dt_state info = CALL_STATUS_INCOMING \<or>
         \<not> dt_index info > 0
      then State_Monad.return ()
      else do {
        initial \<leftarrow> find_ptr (find_reported E (info\<lparr>dt_index := 0\<rparr>));
        reported \<leftarrow> find_ptr (find_reported E info);
        (if (dt_state info = CALL_STATUS_DIALING \<or> dt_state info = CALL_STATUS_ALERTING) \<and>
            initial \<noteq> None
         then BtCallDialingHandleFirst E (the initial) info
         else if reported \<noteq> None \<or> dt_state info = CALL_STATUS_DISCONNECTED
         then State_Monad.return ()
         else do {
           call \<leftarrow> CreateNewCall E info CALL_DIRECTION_OUT;
           (case call of
              None \<Rightarrow> State_Monad.return ()
            | Some p \<Rightarrow> do {
                _ \<leftarrow> add_call E p;
                _ \<leftarrow> NotifyNewCallCreated E (Some p);
                State_Monad.return () }) }) })"

definition handle_state :: "service_env \<Rightarrow> CallDetailInfo \<Rightarrow> ErrCode step" where
  "handle_state E info =
     (case dt_state info of
        CALL_STATUS_ACTIVE \<Rightarrow> ActiveHandle E info
      | CALL_STATUS_HOLDING \<Rightarrow> HoldingHandle E info
      | CALL_STATUS_DIALING \<Rightarrow> DialingHandle E info
      | CALL_STATUS_ALERTING \<Rightarrow> AlertHandle E info
      | CALL_STATUS_INCOMING \<Rightarrow> do {
          _ \<leftarrow> emit (System AcquireIncomingLock);
          ret \<leftarrow> IncomingHandle E info;
          _ \<leftarrow> emit (System ReleaseIncomingLock);
          State_Monad.return ret }
      | CALL_STATUS_WAITING \<Rightarrow> HandleCallReportInfoEx E info
      | CALL_STATUS_DISCONNECTED \<Rightarrow> HandleCallReportInfoEx E info
      | CALL_STATUS_DISCONNECTING \<Rightarrow> HandleCallReportInfoEx E info
      | _ \<Rightarrow> State_Monad.return TELEPHONY_ERR_FAIL)"

definition HandleCallReportInfo :: "service_env \<Rightarrow> CallDetailInfo \<Rightarrow> ErrCode step" where
  "HandleCallReportInfo E info = do {
     _ \<leftarrow> change (\<lambda>s. s\<lparr>s_callReportInfo := info\<rparr>);
     (if dt_callType info = TYPE_VOIP then HandleVoipCallReportInfo E info
      else do {
        _ \<leftarrow> whenever (dt_callType info = TYPE_BLUETOOTH) (HandleBluetoothCallReportInfo E info);
        ret \<leftarrow> handle_state E info;
        _ \<leftarrow> HandleDsdaInfo E (dt_accountId info);
        _ \<leftarrow> emit (Bluetooth ReportBluetoothState);
        State_Monad.return ret }) }"

subsection \<open>The calls of a card\<close>

text \<open>While a call of the VoIP application is active, a new incoming call waits.\<close>

definition HandleConnectingCallReportInfo :: "service_env \<Rightarrow> CallDetailInfo \<Rightarrow> unit step" where
  "HandleConnectingCallReportInfo E info = do {
     active \<leftarrow> find_ptr (IsVoipCallExist_state CALL_STATUS_ACTIVE);
     _ \<leftarrow> HandleCallReportInfo E
       (if active \<noteq> None \<and> dt_state info = CALL_STATUS_INCOMING
        then info\<lparr>dt_state := CALL_STATUS_WAITING\<rparr> else info);
     State_Monad.return () }"

definition differs :: "CallDetailInfo \<Rightarrow> CallDetailInfo \<Rightarrow> bool" where
  "differs i old = (dt_state i \<noteq> dt_state old \<or> dt_mpty i \<noteq> dt_mpty old \<or>
     dt_state i = CALL_STATUS_ALERTING \<or> dt_callType i = TYPE_VOIP \<or>
     dt_callMode i \<noteq> dt_callMode old \<or> dt_callType i \<noteq> dt_callType old)"

definition same_index :: "CallDetailInfo \<Rightarrow> CallDetailInfo \<Rightarrow> bool" where
  "same_index i j = (dt_index i = dt_index j)"

text \<open>A call of the new list, and a call of the list before.\<close>

definition handle_listed :: "service_env \<Rightarrow> int \<Rightarrow> CallDetailInfo \<Rightarrow> unit step" where
  "handle_listed E slotId i = do {
     old \<leftarrow> reads (\<lambda>s. List.find (same_index i) (s_callDetails s slotId));
     (case old of
        Some j \<Rightarrow> whenever (differs i j)
          (do { _ \<leftarrow> HandleCallReportInfo E i; State_Monad.return () })
      | None \<Rightarrow> HandleConnectingCallReportInfo E i) }"

fun handle_left :: "service_env \<Rightarrow> int \<Rightarrow> CallDetailInfo list \<Rightarrow> nat \<Rightarrow> CallDetailInfo list \<Rightarrow> unit step" where
  "handle_left E slotId new k [] = State_Monad.return ()"
| "handle_left E slotId new k (_ # rest) = do {
     i \<leftarrow> reads (\<lambda>s. s_callDetails s slotId ! k);
     _ \<leftarrow> (case List.find (same_index i) new of
            Some j \<Rightarrow> whenever (support_rtt_call (se_build E)) (RefreshRttManager E j)
          | None \<Rightarrow> do {
              _ \<leftarrow> change (\<lambda>s. s\<lparr>s_callDetails := (s_callDetails s)(slotId :=
                    (s_callDetails s slotId)[k := i\<lparr>dt_state := CALL_STATUS_DISCONNECTED\<rparr>])\<rparr>);
              _ \<leftarrow> HandleCallReportInfo E (i\<lparr>dt_state := CALL_STATUS_DISCONNECTED\<rparr>);
              State_Monad.return () });
     handle_left E slotId new (Suc k) rest }"

definition UpdateCallDetailsInfo :: "int \<Rightarrow> CallDetailInfo list \<Rightarrow> unit step" where
  "UpdateCallDetailsInfo slotId is = do {
     _ \<leftarrow> change (\<lambda>s. s\<lparr>s_callDetails := (s_callDetails s)(slotId :=
           filter (\<lambda>i. dt_state i \<noteq> CALL_STATUS_DISCONNECTED) is)\<rparr>);
     left \<leftarrow> reads (\<lambda>s. s_callDetails s slotId);
     whenever (left = []) (change (\<lambda>s. s\<lparr>s_tmpCallDetails := (s_tmpCallDetails s)(slotId := [])\<rparr>)) }"

definition HandleCallsReportInfo :: "service_env \<Rightarrow> int \<Rightarrow> CallDetailInfo list \<Rightarrow> ErrCode step" where
  "HandleCallsReportInfo E slotId is =
     (if \<not> IsValidSlotId (se_dial E) slotId then State_Monad.return CALL_ERR_INVALID_SLOT_ID
      else do {
        _ \<leftarrow> change (\<lambda>s. s\<lparr>s_tmpCallDetails := (s_tmpCallDetails s)(slotId := is)\<rparr>);
        _ \<leftarrow> each (handle_listed E slotId) is;
        before \<leftarrow> reads (\<lambda>s. s_callDetails s slotId);
        _ \<leftarrow> handle_left E slotId is 0 before;
        _ \<leftarrow> UpdateCallDetailsInfo slotId is;
        State_Monad.return TELEPHONY_SUCCESS })"

subsection \<open>Events\<close>

definition HandleDisconnectedCause :: "service_env \<Rightarrow> int \<Rightarrow> string \<Rightarrow> ErrCode step" where
  "HandleDisconnectedCause E reason message = do {
     told \<leftarrow> NotifyCallDestroyed E reason message;
     State_Monad.return (if told then TELEPHONY_SUCCESS else CALL_ERR_PHONE_CALLSTATE_NOTIFY_FAILED) }"

definition mEventIdTransferMap :: "RequestResultEventId \<Rightarrow> CallAbilityEventId option" where
  "mEventIdTransferMap i =
     (if i = RESULT_DIAL_NO_CARRIER then Some EVENT_DIAL_NO_CARRIER
      else if i = RESULT_HOLD_SEND_FAILED then Some EVENT_HOLD_CALL_FAILED
      else if i = RESULT_SWAP_SEND_FAILED then Some EVENT_SWAP_CALL_FAILED
      else if i = RESULT_COMBINE_SEND_FAILED then Some EVENT_COMBINE_CALL_FAILED
      else if i = RESULT_SPLIT_SEND_FAILED then Some EVENT_SPLIT_CALL_FAILED
      else None)"

definition combine_failed :: "unit step" where
  "combine_failed = do {
     activeCall \<leftarrow> find_ptr (GetOneCallObject_running CALL_RUNNING_STATE_ACTIVE);
     (case activeCall of
        None \<Rightarrow> State_Monad.return ()
      | Some p \<Rightarrow> do {
          c \<leftarrow> call_of p;
          change (\<lambda>s. s\<lparr>s_conf := HandleCombineConferenceFailEvent c (s_conf s)\<rparr>) }) }"

text \<open>A call being dialed fails whatever the event is.\<close>

definition HandleEventResultReportInfo :: "service_env \<Rightarrow> int \<Rightarrow> RequestResultEventId \<Rightarrow> ErrCode step" where
  "HandleEventResultReportInfo E eventType eventId =
     (if eventType \<noteq> EVENT_REQUEST_RESULT_TYPE then State_Monad.return CALL_ERR_PHONE_TYPE_UNEXPECTED
      else do {
        call \<leftarrow> find_ptr (GetOneCallObject_running CALL_RUNNING_STATE_DIALING);
        _ \<leftarrow> whenever (call \<noteq> None) (do { _ \<leftarrow> DealFailDial E call; State_Monad.return () });
        src \<leftarrow> reads s_dialSrcInfo;
        (case mEventIdTransferMap eventId of
           None \<Rightarrow> State_Monad.return TELEPHONY_SUCCESS
         | Some i \<Rightarrow>
             if i = EVENT_DIAL_NO_CARRIER \<and> length (d_number src) > kMaxNumberLen
             then State_Monad.return CALL_ERR_NUMBER_OUT_OF_RANGE
             else do {
               _ \<leftarrow> whenever (i = EVENT_COMBINE_CALL_FAILED) combine_failed;
               _ \<leftarrow> whenever (i = EVENT_HOLD_CALL_FAILED) (set_needWaitHold False);
               _ \<leftarrow> NotifyCallEventUpdated E \<lparr>ev_eventId = i,
                     ev_phoneNum = (if i = EVENT_DIAL_NO_CARRIER then d_number src else []),
                     ev_bundleName = []\<rparr>;
               State_Monad.return TELEPHONY_SUCCESS }) })"

definition HandleOttEventReportInfo :: "service_env \<Rightarrow> int \<Rightarrow> string \<Rightarrow> ErrCode step" where
  "HandleOttEventReportInfo E ottCallEventId bundleName =
     (if ottCallEventId \<noteq> OTT_CALL_EVENT_FUNCTION_UNSUPPORTED then State_Monad.return TELEPHONY_SUCCESS
      else if length bundleName > kMaxBundleNameLen
      then State_Monad.return CALL_ERR_NUMBER_OUT_OF_RANGE
      else do {
        _ \<leftarrow> NotifyCallEventUpdated E \<lparr>ev_eventId = EVENT_OTT_FUNCTION_UNSUPPORTED,
              ev_phoneNum = [], ev_bundleName = bundleName\<rparr>;
        State_Monad.return TELEPHONY_SUCCESS })"

definition voip_mic :: "VoipCallEvent \<Rightarrow> call \<Rightarrow> call" where
  "voip_mic event c =
     (if event = VOIP_CALL_EVENT_MUTED then SetMicDisabled False (snd (SetMicPhoneState True c))
      else if event = VOIP_CALL_EVENT_UNMUTED then SetMicDisabled False (snd (SetMicPhoneState False c))
      else if event = VOIP_CALL_EVENT_MIC_DISABLE then SetMicDisabled True (snd (SetMicPhoneState True c))
      else c)"

definition HandleVoipEventReportInfo ::
  "service_env \<Rightarrow> string \<Rightarrow> string \<Rightarrow> int \<Rightarrow> VoipCallEvent \<Rightarrow> ErrCode step" where
  "HandleVoipEventReportInfo E voipCallId bundleName uid event = do {
     call \<leftarrow> find_ptr (GetOneCallObjectByVoipCallId voipCallId bundleName uid);
     (case call of
        None \<Rightarrow> State_Monad.return TELEPHONY_ERR_LOCAL_PTR_NULL
      | Some p \<Rightarrow> do {
          c \<leftarrow> call_of p;
          (if m_callRunningState c \<noteq> CALL_RUNNING_STATE_ACTIVE \<and>
              m_callRunningState c \<noteq> CALL_RUNNING_STATE_DIALING
           then State_Monad.return TELEPHONY_ERR_FAIL
           else do {
             _ \<leftarrow> on_call p (voip_mic event);
             _ \<leftarrow> whenever (event \<in> {VOIP_CALL_EVENT_MUTED, VOIP_CALL_EVENT_UNMUTED,
                     VOIP_CALL_EVENT_SPEAKER_ON, VOIP_CALL_EVENT_SPEAKER_OFF} \<and>
                   rp_preferredDevice (se_report E)) (emit (Audio RefreshPreferredDevice));
             _ \<leftarrow> emit (Audio (ReportAudioDeviceInfo p));
             State_Monad.return TELEPHONY_SUCCESS }) }) }"

definition NotifyTransferCallContact :: "service_env \<Rightarrow> string \<Rightarrow> ptr \<Rightarrow> ErrCode step" where
  "NotifyTransferCallContact E contactName p = do {
     c \<leftarrow> call_of p;
     (let isPurePhone = IsPurePhoneNumber contactName in
      if ci_name (m_contactInfo c) \<noteq> []
      then do { _ \<leftarrow> emit (Bluetooth CancelHfpWaitContact); State_Monad.return TELEPHONY_SUCCESS }
      else if isPurePhone \<and> RemoveSeparatorsPhoneNumber contactName
              = RemoveSeparatorsPhoneNumber (m_accountNumber c) then do {
        _ \<leftarrow> emit (Bluetooth CancelHfpWaitContact);
        _ \<leftarrow> YellowPageAndMarkUpdate E p;
        State_Monad.return TELEPHONY_SUCCESS }
      else do {
        _ \<leftarrow> whenever isPurePhone (emit (Bluetooth CancelHfpWaitContact));
        _ \<leftarrow> emit (Bluetooth (AncsContactArrived contactName p));
        _ \<leftarrow> whenever isPurePhone (YellowPageAndMarkUpdate E p);
        State_Monad.return TELEPHONY_SUCCESS }) }"

subsection \<open>The queue\<close>

definition HandleRttEventInfo_closed :: "service_env \<Rightarrow> unit step" where
  "HandleRttEventInfo_closed E = do { _ \<leftarrow> UnInitRttManager E; State_Monad.return () }"

definition handle_report :: "service_env \<Rightarrow> Report \<Rightarrow> unit step" where
  "handle_report E x =
     (case x of
        CallReport info \<Rightarrow> do { _ \<leftarrow> HandleCallReportInfo E info; State_Monad.return () }
      | CallsReport slotId is \<Rightarrow> do { _ \<leftarrow> HandleCallsReportInfo E slotId is; State_Monad.return () }
      | DisconnectCause reason message \<Rightarrow>
          do { _ \<leftarrow> HandleDisconnectedCause E reason message; State_Monad.return () }
      | EventResult t i \<Rightarrow> do { _ \<leftarrow> HandleEventResultReportInfo E t i; State_Monad.return () }
      | OttEvent i name \<Rightarrow> do { _ \<leftarrow> HandleOttEventReportInfo E i name; State_Monad.return () }
      | VoipEvent i name uid event \<Rightarrow>
          do { _ \<leftarrow> HandleVoipEventReportInfo E i name uid event; State_Monad.return () }
      | RttClosed \<Rightarrow> HandleRttEventInfo_closed E)"

text \<open>The queue runs its first task; a report may queue further ones.\<close>

definition run_report :: "service_env \<Rightarrow> unit step" where
  "run_report E = do {
     q \<leftarrow> reads s_reports;
     (case q of
        [] \<Rightarrow> State_Monad.return ()
      | x # xs \<Rightarrow> do {
          _ \<leftarrow> change (\<lambda>s. s\<lparr>s_reports := xs\<rparr>);
          handle_report E x }) }"

text \<open>The tasks a report leaves for other threads.\<close>

definition run_report_task :: "service_env \<Rightarrow> Task \<Rightarrow> unit step" where
  "run_report_task E t =
     (case t of
        ContactTask p n \<Rightarrow> contact_task E p n
      | LocationTask p \<Rightarrow> NumberLocationUpdate E p
      | YellowPageTask p \<Rightarrow> YellowPageAndMarkUpdate E p
      | AntiFraudTask p info slotId _ \<Rightarrow> anti_fraud_task E p info slotId
      | _ \<Rightarrow> State_Monad.return ())"

end
