(* ===== verification/Service_Samples.thy ===== *)
theory Service_Samples
  imports Call_Dialing
begin

text \<open>
  Concrete states and environments of the service, at which the properties of the request
  and report sides are applied: one circuit-switched and one IMS call, a stack that
  accepts everything, no settings and no sensors.
\<close>

definition sample_control_env :: control_env where
  "sample_control_env = \<lparr>ce_handler = True, ce_settings = Some (\<lambda>_. TELEPHONY_SUCCESS),
     ce_reentrant = True, ce_satelliteSwitch = TELEPHONY_SUCCESS,
     ce_satelliteDial = TELEPHONY_SUCCESS, ce_superPrivacy = Some False, ce_missedCall = True,
     ce_multiCalls = (\<lambda>_. True), ce_readSetVoip = ''true'',
     ce_btCallState = (\<lambda>_ _ _ _. TELEPHONY_SUCCESS), ce_setMute = (\<lambda>_. TELEPHONY_SUCCESS),
     ce_muteRinger = TELEPHONY_SUCCESS, ce_rttListener = True, ce_thermalBuild = False\<rparr>"

definition sample_report_env :: report_env where
  "sample_report_env = \<lparr>rp_setting = (\<lambda>_. None), rp_updateOk = (\<lambda>_. True),
     rp_activeUsers = [100], rp_parseParams = (\<lambda>_ _ d. d), rp_extraParams = (\<lambda>_ d. d),
     rp_simLabel = (\<lambda>_. None), rp_esimType = 1, rp_supportsCnap = (\<lambda>_. True),
     rp_macAddress = (\<lambda>_. []), rp_hfpContact = (\<lambda>_. []), rp_queryContact = (\<lambda>_ c. c), rp_systemVideoRing = (\<lambda>_. False),
     rp_needVideoRing = (\<lambda>_ _. False), rp_voiceBroadcast = False, rp_regionCN = True,
     rp_markOf = (\<lambda>_. None), rp_locationOf = (\<lambda>_. None), rp_startAntiFraud = (\<lambda>_ _ _. 0),
     rp_detectSpam = (\<lambda>_. False), rp_spamResult = (\<lambda>_. None), rp_watchBlocking = False,
     rp_disposition = NORMAL_DISPOSITION, rp_watchMark = None,
     rp_needSilent = (\<lambda>_. 0), rp_ringOnceEnded = (\<lambda>_. False), rp_advsec = False,
     rp_loadSensor = False, rp_antiFraudSupport = False, rp_antiFraudOn = (\<lambda>_. False),
     rp_cellularFirst = (\<lambda>_. False), rp_audioSupport = True, rp_preferredDevice = False,
     rp_sinkRole = False\<rparr>"

definition sample_want :: want_api where
  "sample_want = \<lparr>wa_ToString = (\<lambda>_. []), wa_GetStringParam = (\<lambda>_ _. []),
     wa_GetIntParam = (\<lambda>_ _ d. d)\<rparr>"

definition sample_service_env :: service_env where
  "sample_service_env = \<lparr>se_build = sample_build, se_env = sample_env, se_code = (\<lambda>_. 1),
     se_want = sample_want, se_dial = sample_dial_env, se_clock = (\<lambda>_. sample_clock),
     se_dsdsMode = DSDS_MODE_V3, se_isEcc = (\<lambda>n _. n = ''112''), se_isMmiCode = (\<lambda>_ _. False),
     se_fdn = (\<lambda>_. None), se_dialAnswer = (\<lambda>_. TELEPHONY_SUCCESS),
     se_ottDialAnswer = (\<lambda>_ _ _. TELEPHONY_SUCCESS), se_btDialAnswer = (\<lambda>_. TELEPHONY_SUCCESS),
     se_waitFirstDial = (\<lambda>r. (True, r)), se_postTask = True, se_modifying = (\<lambda>_. False),
     se_settingProvisioned = Some ''1'', se_settingUserSetup = Some ''1'', se_factory = False,
     se_wearable = False, se_selfNumber = (\<lambda>_. []), se_listener = True,
     se_statusManager = True, se_smallFold = False, se_disconnectService = True,
     se_btHeadset = False, se_dcallSwitchedOn = False, se_skipTask = True,
     se_control = sample_control_env, se_report = sample_report_env\<rparr>"

definition sample_service :: service where
  "sample_service = \<lparr>s_reg = sample_registry, s_fresh = 2, s_edm = edm_init,
     s_conf = initial_conferences, s_trace = [], s_tasks = [], s_reports = [], s_ticks = 0,
     s_fault = False, s_needWaitHold = False, s_dialCallInfo = default_cellular_info,
     s_flagForDsda = False, s_helper = initial_helper, s_dialSrcInfo = sample_info,
     s_extras = sample_extras, s_deviceProvisioned = 1, s_userSetupComplete = 1,
     s_callReportInfo = default_detail, s_callDetails = (\<lambda>_. []), s_tmpCallDetails = (\<lambda>_. []),
     s_priorVideoState = (\<lambda>_. TYPE_VOICE), s_antiFraudSlotId = -1, s_antiFraudIndex = -1,
     s_voipState = CallStateToApp_code CALL_STATE_IDLE, s_pendingHangupTask = None,
     s_answeredQueue = None, s_virtualCall = False, s_ringOnceWait = False,
     s_detectStart = None, s_control = \<lparr>ct_voipCallInfo = (0, 0, []), ct_thermalLevel = 0,
       ct_wearStatus = 0, ct_reduceRingTone = False, ct_preloaded = []\<rparr>\<rparr>"

end
