(* ===== verification/Call_Setting.thy ===== *)
theory Call_Setting
  imports Call_Control Service_Samples
begin

text \<open>
  The settings of a SIM card on the way to the stack (CallSettingManager,
  \<^verbatim>\<open>services/call_setting/src/call_setting_manager.cpp\<close>): each operation checks its
  arguments once more and forwards them to the connection to the cellular service, which
  may be a null pointer.  What the connection answers is a parameter; what it was asked
  is returned as data.
\<close>

subsection \<open>The requests to the stack\<close>

datatype CellularSetting =
    CellGetCallWaiting int
  | CellSetCallWaiting bool int
  | CellGetCallRestriction int int
  | CellSetCallRestriction int string int int        \<comment> \<open>slot, password, facility, mode\<close>
  | CellSetCallRestrictionPassword int int string string
  | CellGetCallTransferInfo int int
  | CellSetCallTransferInfo CallTransferInfo int
  | CellCanSetCallTransferTime int
  | CellSetCallPreferenceMode int int
  | CellGetImsConfig int int
  | CellSetImsConfigValue int int int
  | CellSetImsConfigText int string int
  | CellGetImsFeatureValue int int
  | CellSetImsFeatureValue int int int
  | CellSetImsSwitchStatus int bool
  | CellGetImsSwitchStatus int
  | CellSetVoNRState int int
  | CellGetVoNRState int
  | CellCloseUnFinishedUssd int
  | CellSetRttCapability int bool

record setting_env =
  st_connected :: bool                       \<comment> \<open>cellularCallConnectionPtr\_ is not null\<close>
  st_strToInt :: "string \<Rightarrow> int option"
  st_answer :: "CellularSetting \<Rightarrow> ErrCode"
  st_slots :: dial_env

type_synonym setting_outcome = "ErrCode \<times> CellularSetting list"

definition IsCellularCallConnectionValid :: "setting_env \<Rightarrow> bool" where
  "IsCellularCallConnectionValid e = st_connected e"

text \<open>The common tail: the connection must be there, then the request is made.\<close>

definition forward :: "setting_env \<Rightarrow> CellularSetting \<Rightarrow> setting_outcome" where
  "forward e q =
     (if \<not> IsCellularCallConnectionValid e then (TELEPHONY_ERR_LOCAL_PTR_NULL, [])
      else (st_answer e q, [q]))"

definition forward_if :: "setting_env \<Rightarrow> ErrCode \<Rightarrow> CellularSetting \<Rightarrow> setting_outcome" where
  "forward_if e ret q = (if ret \<noteq> TELEPHONY_SUCCESS then (ret, []) else forward e q)"

subsection \<open>Enumerators and bounds\<close>

definition RESTRICTION_TYPE_ALL_INCOMING :: int where "RESTRICTION_TYPE_ALL_INCOMING = 0"
definition RESTRICTION_TYPE_INCOMING_SERVICES :: int where "RESTRICTION_TYPE_INCOMING_SERVICES = 7"
definition RESTRICTION_MODE_DEACTIVATION :: int where "RESTRICTION_MODE_DEACTIVATION = 0"
definition RESTRICTION_MODE_ACTIVATION :: int where "RESTRICTION_MODE_ACTIVATION = 1"
definition TRANSFER_TYPE_UNCONDITIONAL :: int where "TRANSFER_TYPE_UNCONDITIONAL = 0"
definition TRANSFER_TYPE_NOT_REACHABLE :: int where "TRANSFER_TYPE_NOT_REACHABLE = 3"
definition CALL_TRANSFER_DISABLE :: int where "CALL_TRANSFER_DISABLE = 0"
definition CALL_TRANSFER_ENABLE :: int where "CALL_TRANSFER_ENABLE = 1"
definition CALL_TRANSFER_REGISTRATION :: int where "CALL_TRANSFER_REGISTRATION = 3"
definition CALL_TRANSFER_ERASURE :: int where "CALL_TRANSFER_ERASURE = 4"
definition MIN_HOUR :: int where "MIN_HOUR = 0"
definition MAX_HOUR :: int where "MAX_HOUR = 24"
definition MIN_MINUTE :: int where "MIN_MINUTE = 0"
definition MAX_MINUTE :: int where "MAX_MINUTE = 60"
definition CS_VOICE_ONLY :: int where "CS_VOICE_ONLY = 1"
definition CS_VOICE_PREFERRED :: int where "CS_VOICE_PREFERRED = 2"
definition IMS_PS_VOICE_PREFERRED :: int where "IMS_PS_VOICE_PREFERRED = 3"
definition IMS_PS_VOICE_ONLY :: int where "IMS_PS_VOICE_ONLY = 4"
definition ITEM_VIDEO_QUALITY :: int where "ITEM_VIDEO_QUALITY = 0"
definition ITEM_IMS_SWITCH_STATUS :: int where "ITEM_IMS_SWITCH_STATUS = 1"

lemmas setting_constants = RESTRICTION_TYPE_ALL_INCOMING_def RESTRICTION_TYPE_INCOMING_SERVICES_def
  RESTRICTION_MODE_DEACTIVATION_def RESTRICTION_MODE_ACTIVATION_def TRANSFER_TYPE_UNCONDITIONAL_def
  TRANSFER_TYPE_NOT_REACHABLE_def CALL_TRANSFER_DISABLE_def CALL_TRANSFER_ENABLE_def
  CALL_TRANSFER_REGISTRATION_def CALL_TRANSFER_ERASURE_def MIN_HOUR_def MAX_HOUR_def
  MIN_MINUTE_def MAX_MINUTE_def CS_VOICE_ONLY_def CS_VOICE_PREFERRED_def
  IMS_PS_VOICE_PREFERRED_def IMS_PS_VOICE_ONLY_def ITEM_VIDEO_QUALITY_def ITEM_IMS_SWITCH_STATUS_def

subsection \<open>The checks\<close>

definition CallWaitingPolicy :: "setting_env \<Rightarrow> int \<Rightarrow> ErrCode" where
  "CallWaitingPolicy e slotId =
     (if \<not> IsValidSlotId (st_slots e) slotId then CALL_ERR_INVALID_SLOT_ID
      else TELEPHONY_SUCCESS)"

definition Setting_GetCallRestrictionPolicy :: "setting_env \<Rightarrow> int \<Rightarrow> int \<Rightarrow> ErrCode" where
  "Setting_GetCallRestrictionPolicy e slotId type =
     (if \<not> IsValidSlotId (st_slots e) slotId then CALL_ERR_INVALID_SLOT_ID
      else if type < RESTRICTION_TYPE_ALL_INCOMING \<or> type > RESTRICTION_TYPE_INCOMING_SERVICES
      then CALL_ERR_INVALID_RESTRICTION_TYPE
      else TELEPHONY_SUCCESS)"

definition Setting_SetCallRestrictionPolicy :: "setting_env \<Rightarrow> int \<Rightarrow> int \<Rightarrow> int \<Rightarrow> ErrCode" where
  "Setting_SetCallRestrictionPolicy e slotId fac mode =
     (if \<not> IsValidSlotId (st_slots e) slotId then CALL_ERR_INVALID_SLOT_ID
      else if fac < RESTRICTION_TYPE_ALL_INCOMING \<or> fac > RESTRICTION_TYPE_INCOMING_SERVICES
      then CALL_ERR_INVALID_RESTRICTION_TYPE
      else if mode \<noteq> RESTRICTION_MODE_DEACTIVATION \<and> mode \<noteq> RESTRICTION_MODE_ACTIVATION
      then CALL_ERR_INVALID_RESTRICTION_MODE
      else TELEPHONY_SUCCESS)"

definition Setting_GetCallTransferInfoPolicy :: "setting_env \<Rightarrow> int \<Rightarrow> int \<Rightarrow> ErrCode" where
  "Setting_GetCallTransferInfoPolicy e slotId type =
     (if \<not> IsValidSlotId (st_slots e) slotId then CALL_ERR_INVALID_SLOT_ID
      else if type < TRANSFER_TYPE_UNCONDITIONAL \<or> type > TRANSFER_TYPE_NOT_REACHABLE
      then CALL_ERR_INVALID_TRANSFER_TYPE
      else TELEPHONY_SUCCESS)"

text \<open>The lower bound of the minutes is checked for the start twice.\<close>

definition Setting_SetCallTransferInfoPolicy :: "setting_env \<Rightarrow> int \<Rightarrow> CallTransferInfo \<Rightarrow> ErrCode" where
  "Setting_SetCallTransferInfoPolicy e slotId info =
     (if \<not> IsValidSlotId (st_slots e) slotId then CALL_ERR_INVALID_SLOT_ID
      else if tr_type info < TRANSFER_TYPE_UNCONDITIONAL \<or> tr_type info > TRANSFER_TYPE_NOT_REACHABLE
      then CALL_ERR_INVALID_TRANSFER_TYPE
      else if tr_settingType info \<noteq> CALL_TRANSFER_DISABLE \<and> tr_settingType info \<noteq> CALL_TRANSFER_ENABLE \<and>
              tr_settingType info \<noteq> CALL_TRANSFER_REGISTRATION \<and> tr_settingType info \<noteq> CALL_TRANSFER_ERASURE
      then CALL_ERR_INVALID_TRANSFER_SETTING_TYPE
      else if min (tr_startHour info) (tr_endHour info) < MIN_HOUR \<or>
              max (tr_startHour info) (tr_endHour info) > MAX_HOUR \<or>
              min (tr_startMinute info) (tr_startMinute info) < MIN_MINUTE \<or>
              max (tr_startMinute info) (tr_endMinute info) > MAX_MINUTE
      then CALL_ERR_INVALID_TRANSFER_TIME
      else if length (tr_transferNum info) > kMaxNumberLen then CALL_ERR_NUMBER_OUT_OF_RANGE
      else TELEPHONY_SUCCESS)"

definition Setting_CloseUnFinishedUssdPolicy :: "setting_env \<Rightarrow> int \<Rightarrow> ErrCode" where
  "Setting_CloseUnFinishedUssdPolicy e slotId =
     (if \<not> IsValidSlotId (st_slots e) slotId then CALL_ERR_INVALID_SLOT_ID
      else TELEPHONY_SUCCESS)"

subsection \<open>The operations\<close>

definition Setting_GetCallWaiting :: "setting_env \<Rightarrow> int \<Rightarrow> setting_outcome" where
  "Setting_GetCallWaiting e slotId =
     forward_if e (CallWaitingPolicy e slotId) (CellGetCallWaiting slotId)"

definition Setting_SetCallWaiting :: "setting_env \<Rightarrow> int \<Rightarrow> bool \<Rightarrow> setting_outcome" where
  "Setting_SetCallWaiting e slotId activate =
     forward_if e (CallWaitingPolicy e slotId) (CellSetCallWaiting activate slotId)"

definition Setting_GetCallRestriction :: "setting_env \<Rightarrow> int \<Rightarrow> int \<Rightarrow> setting_outcome" where
  "Setting_GetCallRestriction e slotId type =
     forward_if e (Setting_GetCallRestrictionPolicy e slotId type) (CellGetCallRestriction type slotId)"

definition Setting_SetCallRestriction ::
  "setting_env \<Rightarrow> int \<Rightarrow> int \<Rightarrow> string \<Rightarrow> int \<Rightarrow> setting_outcome" where
  "Setting_SetCallRestriction e slotId fac password mode =
     forward_if e (Setting_SetCallRestrictionPolicy e slotId fac mode)
       (CellSetCallRestriction slotId password fac mode)"

definition Setting_SetCallRestrictionPassword ::
  "setting_env \<Rightarrow> int \<Rightarrow> int \<Rightarrow> string \<Rightarrow> string \<Rightarrow> setting_outcome" where
  "Setting_SetCallRestrictionPassword e slotId fac oldPassword newPassword =
     forward_if e (Setting_GetCallRestrictionPolicy e slotId fac)
       (CellSetCallRestrictionPassword slotId fac oldPassword newPassword)"

definition Setting_GetCallTransferInfo :: "setting_env \<Rightarrow> int \<Rightarrow> int \<Rightarrow> setting_outcome" where
  "Setting_GetCallTransferInfo e slotId type =
     forward_if e (Setting_GetCallTransferInfoPolicy e slotId type) (CellGetCallTransferInfo type slotId)"

definition Setting_SetCallTransferInfo ::
  "setting_env \<Rightarrow> int \<Rightarrow> CallTransferInfo \<Rightarrow> setting_outcome" where
  "Setting_SetCallTransferInfo e slotId info =
     forward_if e (Setting_SetCallTransferInfoPolicy e slotId info) (CellSetCallTransferInfo info slotId)"

definition Setting_CanSetCallTransferTime :: "setting_env \<Rightarrow> int \<Rightarrow> setting_outcome" where
  "Setting_CanSetCallTransferTime e slotId = forward e (CellCanSetCallTransferTime slotId)"

text \<open>
  The mode of the argument is only tested: a known mode becomes IMS\_PS\_VOICE\_PREFERRED,
  an unknown one CS\_VOICE\_ONLY.
\<close>

definition Setting_SetCallPreferenceMode :: "setting_env \<Rightarrow> int \<Rightarrow> int \<Rightarrow> setting_outcome" where
  "Setting_SetCallPreferenceMode e slotId mode =
     (let preferenceMode =
        (if mode \<noteq> CS_VOICE_ONLY \<and> mode \<noteq> CS_VOICE_PREFERRED \<and> mode \<noteq> IMS_PS_VOICE_PREFERRED \<and>
            mode \<noteq> IMS_PS_VOICE_ONLY then CS_VOICE_ONLY else IMS_PS_VOICE_PREFERRED)
      in forward e (CellSetCallPreferenceMode slotId preferenceMode))"

definition Setting_GetImsConfig :: "setting_env \<Rightarrow> int \<Rightarrow> int \<Rightarrow> setting_outcome" where
  "Setting_GetImsConfig e slotId item = forward e (CellGetImsConfig item slotId)"

definition Setting_SetImsConfig :: "setting_env \<Rightarrow> int \<Rightarrow> int \<Rightarrow> string \<Rightarrow> setting_outcome" where
  "Setting_SetImsConfig e slotId item value =
     (if \<not> IsCellularCallConnectionValid e then (TELEPHONY_ERR_LOCAL_PTR_NULL, [])
      else if item = ITEM_VIDEO_QUALITY \<or> item = ITEM_IMS_SWITCH_STATUS then
        (case st_strToInt e value of
           Some flag \<Rightarrow> forward e (CellSetImsConfigValue item flag slotId)
         | None \<Rightarrow> (TELEPHONY_ERR_STRTOINT_FAIL, []))
      else forward e (CellSetImsConfigText item value slotId))"

definition Setting_GetImsFeatureValue :: "setting_env \<Rightarrow> int \<Rightarrow> int \<Rightarrow> setting_outcome" where
  "Setting_GetImsFeatureValue e slotId type = forward e (CellGetImsFeatureValue type slotId)"

definition Setting_SetImsFeatureValue :: "setting_env \<Rightarrow> int \<Rightarrow> int \<Rightarrow> int \<Rightarrow> setting_outcome" where
  "Setting_SetImsFeatureValue e slotId type value = forward e (CellSetImsFeatureValue type value slotId)"

definition Setting_EnableImsSwitch :: "setting_env \<Rightarrow> int \<Rightarrow> setting_outcome" where
  "Setting_EnableImsSwitch e slotId = forward e (CellSetImsSwitchStatus slotId True)"

definition Setting_DisableImsSwitch :: "setting_env \<Rightarrow> int \<Rightarrow> setting_outcome" where
  "Setting_DisableImsSwitch e slotId = forward e (CellSetImsSwitchStatus slotId False)"

definition Setting_IsImsSwitchEnabled :: "setting_env \<Rightarrow> int \<Rightarrow> setting_outcome" where
  "Setting_IsImsSwitchEnabled e slotId = forward e (CellGetImsSwitchStatus slotId)"

definition Setting_SetVoNRState :: "setting_env \<Rightarrow> int \<Rightarrow> int \<Rightarrow> setting_outcome" where
  "Setting_SetVoNRState e slotId state = forward e (CellSetVoNRState slotId state)"

definition Setting_GetVoNRState :: "setting_env \<Rightarrow> int \<Rightarrow> setting_outcome" where
  "Setting_GetVoNRState e slotId = forward e (CellGetVoNRState slotId)"

definition Setting_CloseUnFinishedUssd :: "setting_env \<Rightarrow> int \<Rightarrow> setting_outcome" where
  "Setting_CloseUnFinishedUssd e slotId =
     forward_if e (Setting_CloseUnFinishedUssdPolicy e slotId) (CellCloseUnFinishedUssd slotId)"

definition Setting_SetRttCapability :: "setting_env \<Rightarrow> int \<Rightarrow> bool \<Rightarrow> setting_outcome" where
  "Setting_SetRttCapability e slotId isEnable = forward e (CellSetRttCapability slotId isEnable)"

subsection \<open>The manager behind the facade\<close>

text \<open>The operation of CallSettingManager a request of the facade (theory Call\_Control) calls.\<close>

definition setting_manager :: "setting_env \<Rightarrow> SettingRequest \<Rightarrow> setting_outcome" where
  "setting_manager e q =
     (case q of
        AskCallWaiting slot \<Rightarrow> Setting_GetCallWaiting e slot
      | SetWaiting slot activate \<Rightarrow> Setting_SetCallWaiting e slot activate
      | AskCallRestriction slot type \<Rightarrow> Setting_GetCallRestriction e slot type
      | SetRestriction slot fac password mode \<Rightarrow> Setting_SetCallRestriction e slot fac password mode
      | SetRestrictionPassword slot fac old new \<Rightarrow> Setting_SetCallRestrictionPassword e slot fac old new
      | AskCallTransfer slot type \<Rightarrow> Setting_GetCallTransferInfo e slot type
      | SetTransfer slot info \<Rightarrow> Setting_SetCallTransferInfo e slot info
      | AskTransferTime slot \<Rightarrow> Setting_CanSetCallTransferTime e slot
      | SetPreferenceMode slot mode \<Rightarrow> Setting_SetCallPreferenceMode e slot mode
      | AskImsConfig slot item \<Rightarrow> Setting_GetImsConfig e slot item
      | SetImsConfigItem slot item value \<Rightarrow> Setting_SetImsConfig e slot item value
      | AskImsFeature slot type \<Rightarrow> Setting_GetImsFeatureValue e slot type
      | SetImsFeature slot type value \<Rightarrow> Setting_SetImsFeatureValue e slot type value
      | EnableIms slot \<Rightarrow> Setting_EnableImsSwitch e slot
      | DisableIms slot \<Rightarrow> Setting_DisableImsSwitch e slot
      | AskImsSwitch slot \<Rightarrow> Setting_IsImsSwitchEnabled e slot
      | SetVoNR slot state \<Rightarrow> Setting_SetVoNRState e slot state
      | CloseUssd slot \<Rightarrow> Setting_CloseUnFinishedUssd e slot
      | SetRttCap slot isEnable \<Rightarrow> Setting_SetRttCapability e slot isEnable)"

text \<open>What the stack is asked when the facade takes a request, all checks included.\<close>

definition stack_asked :: "service_env \<Rightarrow> setting_env \<Rightarrow> SettingRequest \<Rightarrow> CellularSetting list" where
  "stack_asked E e q =
     (if setting_check (se_dial E) q \<noteq> TELEPHONY_SUCCESS then [] else snd (setting_manager e q))"

text \<open>A facade whose settings are this manager.\<close>

definition settings_wired :: "service_env \<Rightarrow> setting_env \<Rightarrow> bool" where
  "settings_wired E e \<longleftrightarrow>
     ce_settings (se_control E) = Some (\<lambda>q. fst (setting_manager e q)) \<and> st_slots e = se_dial E"

subsection \<open>What the checks guarantee\<close>

lemmas setting_ops = Setting_GetCallWaiting_def Setting_SetCallWaiting_def
  Setting_GetCallRestriction_def Setting_SetCallRestriction_def Setting_SetCallRestrictionPassword_def
  Setting_GetCallTransferInfo_def Setting_SetCallTransferInfo_def Setting_CanSetCallTransferTime_def
  Setting_SetCallPreferenceMode_def Setting_GetImsConfig_def Setting_SetImsConfig_def
  Setting_GetImsFeatureValue_def Setting_SetImsFeatureValue_def Setting_EnableImsSwitch_def
  Setting_DisableImsSwitch_def Setting_IsImsSwitchEnabled_def Setting_SetVoNRState_def
  Setting_GetVoNRState_def Setting_CloseUnFinishedUssd_def Setting_SetRttCapability_def

lemma forward_sends: "snd (forward e q) = (if st_connected e then [q] else [])"
  by (simp add: forward_def IsCellularCallConnectionValid_def)

lemma forward_result:
  "fst (forward e q) = (if st_connected e then st_answer e q else TELEPHONY_ERR_LOCAL_PTR_NULL)"
  by (simp add: forward_def IsCellularCallConnectionValid_def)

lemma forward_if_sends:
  "snd (forward_if e ret q) = (if ret = TELEPHONY_SUCCESS \<and> st_connected e then [q] else [])"
  by (simp add: forward_if_def forward_sends)

text \<open>The slot a request to the stack is about.\<close>

fun asked_slot :: "CellularSetting \<Rightarrow> int" where
  "asked_slot (CellGetCallWaiting slot) = slot"
| "asked_slot (CellSetCallWaiting _ slot) = slot"
| "asked_slot (CellGetCallRestriction _ slot) = slot"
| "asked_slot (CellSetCallRestriction slot _ _ _) = slot"
| "asked_slot (CellSetCallRestrictionPassword slot _ _ _) = slot"
| "asked_slot (CellGetCallTransferInfo _ slot) = slot"
| "asked_slot (CellSetCallTransferInfo _ slot) = slot"
| "asked_slot (CellCanSetCallTransferTime slot) = slot"
| "asked_slot (CellSetCallPreferenceMode slot _) = slot"
| "asked_slot (CellGetImsConfig _ slot) = slot"
| "asked_slot (CellSetImsConfigValue _ _ slot) = slot"
| "asked_slot (CellSetImsConfigText _ _ slot) = slot"
| "asked_slot (CellGetImsFeatureValue _ slot) = slot"
| "asked_slot (CellSetImsFeatureValue _ _ slot) = slot"
| "asked_slot (CellSetImsSwitchStatus slot _) = slot"
| "asked_slot (CellGetImsSwitchStatus slot) = slot"
| "asked_slot (CellSetVoNRState slot _) = slot"
| "asked_slot (CellGetVoNRState slot) = slot"
| "asked_slot (CellCloseUnFinishedUssd slot) = slot"
| "asked_slot (CellSetRttCapability slot _) = slot"

lemmas slot_checks = setting_check_def GetCallWaitingPolicy_def SetCallWaitingPolicy_def
  GetCallRestrictionPolicy_def SetCallRestrictionPolicy_def GetCallTransferInfoPolicy_def
  SetCallTransferInfoPolicy_def SetCallPreferenceModePolicy_def GetImsConfigPolicy_def
  SetImsConfigPolicy_def GetImsFeatureValuePolicy_def SetImsFeatureValuePolicy_def
  EnableVoLtePolicy_def DisableVoLtePolicy_def IsVoLteEnabledPolicy_def VoNRStatePolicy_def
  CloseUnFinishedUssdPolicy_def SetRttCapabilityPolicy_def CallPolicy_IsValidSlotId_def

lemma passed_check_valid_slot:
  assumes "setting_check d q = TELEPHONY_SUCCESS" "x \<in> set (snd (setting_manager e q))"
  shows "IsValidSlotId d (asked_slot x)"
  using assms
  by (cases q) (auto simp: slot_checks setting_manager_def setting_ops forward_sends forward_if_sends
    Let_def IsCellularCallConnectionValid_def split: if_splits option.splits)

text \<open>
  Whatever setting an application asks for, the facade asks the stack at most once, and
  only about a slot the device has.
\<close>

theorem settings_address_a_slot:
  "length (stack_asked E e q) \<le> 1 \<and>
   asked_slot ` set (stack_asked E e q) \<subseteq> Collect (IsValidSlotId (se_dial E))"
proof
  show "length (stack_asked E e q) \<le> 1"
    by (cases q) (simp_all add: stack_asked_def setting_manager_def setting_ops forward_sends
      forward_if_sends Let_def IsCellularCallConnectionValid_def split: option.splits)
  show "asked_slot ` set (stack_asked E e q) \<subseteq> Collect (IsValidSlotId (se_dial E))"
    by (auto simp: stack_asked_def intro: passed_check_valid_slot split: if_splits)
qed

definition sample_transfer :: CallTransferInfo where
  "sample_transfer = \<lparr>tr_transferNum = ''12345'', tr_settingType = 3, tr_type = 0, tr_startHour = 8,
     tr_startMinute = 0, tr_endHour = 18, tr_endMinute = -30\<rparr>"

definition sample_setting_env :: "dial_env \<Rightarrow> setting_env" where
  "sample_setting_env d = \<lparr>st_connected = True, st_strToInt = (\<lambda>_. None),
     st_answer = (\<lambda>_. TELEPHONY_SUCCESS), st_slots = d\<rparr>"

lemma sample_transfer_is_sent:
  "IsValidSlotId d 0 \<Longrightarrow>
   Setting_SetCallTransferInfo (sample_setting_env d) 0 sample_transfer =
     (TELEPHONY_SUCCESS, [CellSetCallTransferInfo sample_transfer 0])"
  by (simp add: Setting_SetCallTransferInfo_def forward_if_def forward_def sample_setting_env_def
    Setting_SetCallTransferInfoPolicy_def setting_constants sample_transfer_def
    IsCellularCallConnectionValid_def kMaxNumberLen_def)

lemma sample_valid_slot: "IsValidSlotId sample_dial_env 0"
  by (simp add: IsValidSlotId_def DEFAULT_SIM_SLOT_ID_def sample_dial_env_def)

text \<open>
  C31: a forwarding window that reaches the stack starts within the day, ends by its last
  hour and its last minute, and has a known type and action; the end minute alone has no
  lower bound.
\<close>

theorem transfer_window_bounds:
  assumes "CellSetCallTransferInfo info slot \<in> set (stack_asked E e q)"
  shows "0 \<le> tr_startHour info \<and> tr_startHour info \<le> 24 \<and> 0 \<le> tr_endHour info \<and> tr_endHour info \<le> 24 \<and>
    0 \<le> tr_startMinute info \<and> tr_startMinute info \<le> 60 \<and> tr_endMinute info \<le> 60 \<and>
    tr_type info \<in> {0..3} \<and> tr_settingType info \<in> {0, 1, 3, 4} \<and>
    length (tr_transferNum info) \<le> kMaxNumberLen"
  using assms
  by (cases q) (auto simp: stack_asked_def setting_manager_def setting_ops forward_sends forward_if_sends
    Let_def IsCellularCallConnectionValid_def Setting_SetCallTransferInfoPolicy_def setting_constants
    split: if_splits option.splits)

theorem transfer_window_bounds_witness:
  "CellSetCallTransferInfo sample_transfer 0 \<in>
     set (stack_asked sample_service_env (sample_setting_env sample_dial_env) (SetTransfer 0 sample_transfer)) \<and>
   tr_endMinute sample_transfer < 0 \<and> tr_endMinute sample_transfer \<le> 60"
proof -
  have "CellSetCallTransferInfo sample_transfer 0 \<in>
    set (stack_asked sample_service_env (sample_setting_env sample_dial_env) (SetTransfer 0 sample_transfer))"
    by (simp add: stack_asked_def setting_manager_def sample_transfer_is_sent sample_valid_slot
      slot_checks sample_service_env_def)
  with transfer_window_bounds [OF this] show ?thesis by (simp add: sample_transfer_def)
qed

text \<open>
  The preferred domain an application chooses is lost: each of the four known modes
  reaches the stack as the third, and an unknown one as the first.
\<close>

theorem preference_mode_is_lost:
  assumes "CellSetCallPreferenceMode slot m \<in> set (stack_asked E e (SetPreferenceMode slot mode))"
  shows "m = (if mode \<in> {CS_VOICE_ONLY, CS_VOICE_PREFERRED, IMS_PS_VOICE_PREFERRED, IMS_PS_VOICE_ONLY}
              then IMS_PS_VOICE_PREFERRED else CS_VOICE_ONLY)"
  using assms
  by (auto simp: stack_asked_def setting_manager_def Setting_SetCallPreferenceMode_def forward_sends
    Let_def split: if_splits)

theorem preference_mode_is_lost_witness:
  "CellSetCallPreferenceMode 0 IMS_PS_VOICE_PREFERRED \<in>
     set (stack_asked sample_service_env (sample_setting_env sample_dial_env) (SetPreferenceMode 0 CS_VOICE_ONLY)) \<and>
   IMS_PS_VOICE_PREFERRED \<noteq> CS_VOICE_ONLY"
proof -
  have m: "\<exists>m. CellSetCallPreferenceMode 0 m \<in>
    set (stack_asked sample_service_env (sample_setting_env sample_dial_env) (SetPreferenceMode 0 CS_VOICE_ONLY))"
    by (simp add: stack_asked_def setting_manager_def Setting_SetCallPreferenceMode_def forward_sends
      sample_valid_slot slot_checks sample_service_env_def sample_setting_env_def Let_def)
  then obtain m where "CellSetCallPreferenceMode 0 m \<in>
    set (stack_asked sample_service_env (sample_setting_env sample_dial_env) (SetPreferenceMode 0 CS_VOICE_ONLY))"
    by blast
  moreover from preference_mode_is_lost [OF this] have "m = IMS_PS_VOICE_PREFERRED" by simp
  ultimately show ?thesis by (simp add: setting_constants)
qed

end
