(* ===== verification/Video_Control.thy ===== *)
theory Video_Control
  imports Complex_Main Call_Control Video_Call_State
begin

text \<open>
  The camera and the windows of a video call (VideoControlManager,
  \<^verbatim>\<open>services/video/src/video_control_manager.cpp\<close>, with the operations of IMSCall it
  calls, \<^verbatim>\<open>services/call/src/ims_call.cpp\<close>).  Every operation is checked against the
  calls that exist and goes to the stack when the call is an IMS call.  The manager keeps
  one flag, whether a camera was opened.
\<close>

subsection \<open>Requests to the stack\<close>

text \<open>
  A surface is only handed on, so all that is kept of it is whether there is one.  The
  window positions and the media requests of theory Video\_Call\_State are not repeated here.
\<close>

datatype VideoAsk =
    AskControlCamera int int string int int      \<comment> \<open>slot, index, camera, uid, pid\<close>
  | AskPreviewWindow int int string bool
  | AskDisplayWindow int int string bool
  | AskCameraZoom rat
  | AskPausePicture int int string
  | AskDeviceDirection int int int
  | AskCameraCapabilities int int
  | AskCancelUpgrade int int

record video_control_env =
  vc_answer :: "VideoAsk \<Rightarrow> ErrCode"
  vc_code :: "ErrCode \<Rightarrow> int"
  vc_negotiation :: video_env

type_synonym video_control_outcome = "ErrCode \<times> VideoAsk list"

definition ask :: "video_control_env \<Rightarrow> VideoAsk \<Rightarrow> video_control_outcome" where
  "ask e q = (vc_answer e q, [q])"

definition call_address :: "video_control_env \<Rightarrow> call \<Rightarrow> int \<times> int" where
  "call_address e c = (GetSlotId (vc_code e) c, GetCallIndex c)"

subsection \<open>Operations of the call\<close>

definition IMSCall_ControlCamera ::
  "video_control_env \<Rightarrow> string \<Rightarrow> int \<Rightarrow> int \<Rightarrow> call \<Rightarrow> video_control_outcome" where
  "IMSCall_ControlCamera e cameraId callingUid callingPid c =
     (let (slot, index) = call_address e c in
      ask e (AskControlCamera slot index cameraId callingUid callingPid))"

definition IMSCall_SetPreviewWindow ::
  "video_control_env \<Rightarrow> string \<Rightarrow> bool \<Rightarrow> call \<Rightarrow> video_control_outcome" where
  "IMSCall_SetPreviewWindow e surfaceId surface c =
     (let (slot, index) = call_address e c in ask e (AskPreviewWindow slot index surfaceId surface))"

definition IMSCall_SetDisplayWindow ::
  "video_control_env \<Rightarrow> string \<Rightarrow> bool \<Rightarrow> call \<Rightarrow> video_control_outcome" where
  "IMSCall_SetDisplayWindow e surfaceId surface c =
     (let (slot, index) = call_address e c in ask e (AskDisplayWindow slot index surfaceId surface))"

definition IMSCall_SetPausePicture :: "video_control_env \<Rightarrow> string \<Rightarrow> call \<Rightarrow> video_control_outcome" where
  "IMSCall_SetPausePicture e path c =
     (let (slot, index) = call_address e c in ask e (AskPausePicture slot index path))"

definition IMSCall_SetDeviceDirection :: "video_control_env \<Rightarrow> int \<Rightarrow> call \<Rightarrow> video_control_outcome" where
  "IMSCall_SetDeviceDirection e rotation c =
     (let (slot, index) = call_address e c in ask e (AskDeviceDirection slot index rotation))"

definition IMSCall_RequestCameraCapabilities :: "video_control_env \<Rightarrow> call \<Rightarrow> video_control_outcome" where
  "IMSCall_RequestCameraCapabilities e c =
     (let (slot, index) = call_address e c in ask e (AskCameraCapabilities slot index))"

definition IMSCall_CancelCallUpgrade :: "video_control_env \<Rightarrow> call \<Rightarrow> video_control_outcome" where
  "IMSCall_CancelCallUpgrade e c =
     (let (slot, index) = call_address e c in ask e (AskCancelUpgrade slot index))"

subsection \<open>Operations of the manager\<close>

text \<open>The check and the lookup that most operations start with.\<close>

definition on_video_call ::
  "registry \<Rightarrow> int \<Rightarrow> (call \<Rightarrow> ErrCode \<times> 'a list) \<Rightarrow> ErrCode \<times> 'a list" where
  "on_video_call r callId oper =
     (if VideoCallPolicy callId r \<noteq> TELEPHONY_SUCCESS then (VideoCallPolicy callId r, [])
      else case GetOneCallObject callId r of
        None \<Rightarrow> (TELEPHONY_ERR_LOCAL_PTR_NULL, [])
      | Some p \<Rightarrow> oper (r_heap r p))"

definition if_ims :: "(call \<Rightarrow> ErrCode \<times> 'a list) \<Rightarrow> call \<Rightarrow> ErrCode \<times> 'a list" where
  "if_ims oper c = (if m_callType c = TYPE_IMS then oper c else (TELEPHONY_SUCCESS, []))"

definition VideoControl_SetPreviewWindow ::
  "video_control_env \<Rightarrow> registry \<Rightarrow> int \<Rightarrow> string \<Rightarrow> bool \<Rightarrow> video_control_outcome" where
  "VideoControl_SetPreviewWindow e r callId surfaceId surface =
     on_video_call r callId (if_ims (IMSCall_SetPreviewWindow e surfaceId surface))"

definition VideoControl_SetDisplayWindow ::
  "video_control_env \<Rightarrow> registry \<Rightarrow> int \<Rightarrow> string \<Rightarrow> bool \<Rightarrow> video_control_outcome" where
  "VideoControl_SetDisplayWindow e r callId surfaceId surface =
     on_video_call r callId (if_ims (IMSCall_SetDisplayWindow e surfaceId surface))"

definition CAMERA_ROTATION_0 :: int where "CAMERA_ROTATION_0 = 0"
definition CAMERA_ROTATION_90 :: int where "CAMERA_ROTATION_90 = 90"
definition CAMERA_ROTATION_180 :: int where "CAMERA_ROTATION_180 = 180"
definition CAMERA_ROTATION_270 :: int where "CAMERA_ROTATION_270 = 270"

text \<open>The float constants, at their exact value; 0.1 is the nearest float.\<close>

definition MIN_CAMERA_ZOOM :: rat where "MIN_CAMERA_ZOOM = 13421773 / 134217728"
definition MAX_CAMERA_ZOOM :: rat where "MAX_CAMERA_ZOOM = 10"

definition VideoControl_SetCameraZoom :: "video_control_env \<Rightarrow> rat \<Rightarrow> video_control_outcome" where
  "VideoControl_SetCameraZoom e zoomRatio =
     (if zoomRatio < MIN_CAMERA_ZOOM \<or> zoomRatio > MAX_CAMERA_ZOOM
      then (CALL_ERR_VIDEO_INVALID_ZOOM, [])
      else ask e (AskCameraZoom zoomRatio))"

definition VideoControl_SetPausePicture ::
  "video_control_env \<Rightarrow> registry \<Rightarrow> int \<Rightarrow> string \<Rightarrow> video_control_outcome" where
  "VideoControl_SetPausePicture e r callId path =
     on_video_call r callId (if_ims (IMSCall_SetPausePicture e path))"

definition VideoControl_SetDeviceDirection ::
  "video_control_env \<Rightarrow> registry \<Rightarrow> int \<Rightarrow> int \<Rightarrow> video_control_outcome" where
  "VideoControl_SetDeviceDirection e r callId rotation =
     (if VideoCallPolicy callId r \<noteq> TELEPHONY_SUCCESS then (VideoCallPolicy callId r, [])
      else if rotation = CAMERA_ROTATION_0 \<or> rotation = CAMERA_ROTATION_90 \<or>
              rotation = CAMERA_ROTATION_180 \<or> rotation = CAMERA_ROTATION_270 then
        (case GetOneCallObject callId r of
           None \<Rightarrow> (TELEPHONY_ERR_LOCAL_PTR_NULL, [])
         | Some p \<Rightarrow> if_ims (IMSCall_SetDeviceDirection e rotation) (r_heap r p))
      else (CALL_ERR_VIDEO_INVALID_ROTATION, []))"

definition VideoControl_CancelCallUpgrade ::
  "video_control_env \<Rightarrow> registry \<Rightarrow> int \<Rightarrow> video_control_outcome" where
  "VideoControl_CancelCallUpgrade e r callId = on_video_call r callId (if_ims (IMSCall_CancelCallUpgrade e))"

definition VideoControl_RequestCameraCapabilities ::
  "video_control_env \<Rightarrow> registry \<Rightarrow> int \<Rightarrow> video_control_outcome" where
  "VideoControl_RequestCameraCapabilities e r callId =
     on_video_call r callId (if_ims (IMSCall_RequestCameraCapabilities e))"

text \<open>The call whose mode is changed is the live one in the foreground with the id, or else any.\<close>

definition call_to_update :: "registry \<Rightarrow> int \<Rightarrow> ptr option" where
  "call_to_update r callId =
     (case GetForegroundLiveCallByCallId callId r of
        None \<Rightarrow> GetOneCallObject callId r
      | Some p \<Rightarrow> Some p)"

definition VideoControl_UpdateImsCallMode ::
  "video_control_env \<Rightarrow> registry \<Rightarrow> int \<Rightarrow> ImsCallMode \<Rightarrow> (ptr \<Rightarrow> video) \<Rightarrow>
   ErrCode \<times> VideoEffect list \<times> (ptr \<Rightarrow> video)" where
  "VideoControl_UpdateImsCallMode e r callId callMode vs =
     (let ret = VideoCallPolicy callId r in
      if ret \<noteq> TELEPHONY_SUCCESS then (ret, [], vs)
      else case call_to_update r callId of
        None \<Rightarrow> (TELEPHONY_ERR_LOCAL_PTR_NULL, [], vs)
      | Some p \<Rightarrow>
          (if m_callType (r_heap r p) = TYPE_IMS
           then (let (ret, es, v) = UpdateImsCallMode (vc_negotiation e) (r_heap r p) callMode (vs p)
                 in (ret, es, vs(p := v)))
           else (ret, [], vs)))"

subsection \<open>The camera\<close>

text \<open>isOpenCamera\_ is the flag; the result of opening is that of the second request.\<close>

definition OpenCamera ::
  "video_control_env \<Rightarrow> registry \<Rightarrow> int \<Rightarrow> string \<Rightarrow> int \<Rightarrow> int \<Rightarrow> bool \<Rightarrow>
   (ErrCode \<times> VideoAsk list) \<times> bool" where
  "OpenCamera e r callId cameraId uid pid isOpen =
     (let ret = VideoCallPolicy callId r in
      if ret \<noteq> TELEPHONY_SUCCESS then ((ret, []), isOpen)
      else case GetOneCallObject callId r of
        None \<Rightarrow> ((TELEPHONY_ERR_LOCAL_PTR_NULL, []), isOpen)
      | Some p \<Rightarrow>
          (if m_callType (r_heap r p) = TYPE_IMS then
             let (ret1, qs1) = IMSCall_ControlCamera e cameraId uid pid (r_heap r p);
                 (ret2, qs2) = IMSCall_RequestCameraCapabilities e (r_heap r p)
             in ((ret2, qs1 @ qs2), isOpen \<or> ret1 = TELEPHONY_SUCCESS)
           else ((ret, []), isOpen)))"

text \<open>A successful closing sets the flag again.\<close>

definition CloseCamera ::
  "video_control_env \<Rightarrow> registry \<Rightarrow> int \<Rightarrow> string \<Rightarrow> int \<Rightarrow> int \<Rightarrow> bool \<Rightarrow>
   (ErrCode \<times> VideoAsk list) \<times> bool" where
  "CloseCamera e r callId cameraId uid pid isOpen =
     (let ret = VideoCallPolicy callId r in
      if ret \<noteq> TELEPHONY_SUCCESS then ((ret, []), isOpen)
      else if isOpen then
        (case GetOneCallObject callId r of
           None \<Rightarrow> ((TELEPHONY_ERR_LOCAL_PTR_NULL, []), isOpen)
         | Some p \<Rightarrow>
             (if m_callType (r_heap r p) = TYPE_IMS then
                let (ret1, qs1) = IMSCall_ControlCamera e cameraId uid pid (r_heap r p)
                in ((ret1, qs1), isOpen \<or> ret1 = TELEPHONY_SUCCESS)
              else ((ret, []), isOpen)))
      else ((CALL_ERR_CAMERA_NOT_TURNED_ON, []), isOpen))"

definition VideoControl_ControlCamera ::
  "video_control_env \<Rightarrow> registry \<Rightarrow> int \<Rightarrow> string \<Rightarrow> int \<Rightarrow> int \<Rightarrow> bool \<Rightarrow>
   (ErrCode \<times> VideoAsk list) \<times> bool" where
  "VideoControl_ControlCamera e r callId cameraId uid pid isOpen =
     (if cameraId = [] then CloseCamera e r callId cameraId uid pid isOpen
      else OpenCamera e r callId cameraId uid pid isOpen)"

subsection \<open>What the flag means over a session\<close>

text \<open>A camera request by one caller; requests happen with the registry as it then is.\<close>

record camera_request =
  cq_registry :: registry
  cq_callId :: int
  cq_cameraId :: string
  cq_uid :: int
  cq_pid :: int

definition camera_step :: "video_control_env \<Rightarrow> camera_request \<Rightarrow> bool \<Rightarrow> (ErrCode \<times> VideoAsk list) \<times> bool" where
  "camera_step e q =
     VideoControl_ControlCamera e (cq_registry q) (cq_callId q) (cq_cameraId q) (cq_uid q) (cq_pid q)"

fun camera_run :: "video_control_env \<Rightarrow> camera_request list \<Rightarrow> bool \<Rightarrow> (ErrCode \<times> VideoAsk list) list \<times> bool" where
  "camera_run e [] isOpen = ([], isOpen)"
| "camera_run e (q # qs) isOpen =
     (let (res, isOpen') = camera_step e q isOpen; (rest, final) = camera_run e qs isOpen'
      in (res # rest, final))"

lemmas video_control_defs = VideoControl_ControlCamera_def OpenCamera_def CloseCamera_def
  IMSCall_ControlCamera_def IMSCall_RequestCameraCapabilities_def ask_def call_address_def

lemmas video_manager_defs = video_control_defs VideoControl_SetPreviewWindow_def
  VideoControl_SetDisplayWindow_def VideoControl_SetPausePicture_def VideoControl_SetDeviceDirection_def
  VideoControl_CancelCallUpgrade_def VideoControl_RequestCameraCapabilities_def on_video_call_def
  if_ims_def IMSCall_SetPreviewWindow_def IMSCall_SetDisplayWindow_def IMSCall_SetPausePicture_def
  IMSCall_SetDeviceDirection_def IMSCall_CancelCallUpgrade_def CAMERA_ROTATION_0_def
  CAMERA_ROTATION_90_def CAMERA_ROTATION_180_def CAMERA_ROTATION_270_def

lemma camera_never_closes: "snd (camera_step e q True)"
  by (simp add: camera_step_def video_control_defs Let_def split: option.splits prod.splits)

lemma camera_run_stays_open: "snd (camera_run e qs True)"
  by (induction qs) (simp_all add: camera_never_closes split_beta Let_def)

lemma open_camera_not_refused:
  assumes "\<forall>q. vc_answer e q \<noteq> CALL_ERR_CAMERA_NOT_TURNED_ON"
  shows "fst (fst (camera_step e q True)) \<noteq> CALL_ERR_CAMERA_NOT_TURNED_ON"
  using assms
  by (simp add: camera_step_def video_control_defs Let_def VideoCallPolicy_def
    split: option.splits prod.splits)

lemma camera_run_not_refused:
  assumes "\<forall>q. vc_answer e q \<noteq> CALL_ERR_CAMERA_NOT_TURNED_ON" "res \<in> set (fst (camera_run e qs True))"
  shows "fst res \<noteq> CALL_ERR_CAMERA_NOT_TURNED_ON"
  using assms(2)
proof (induction qs)
  case (Cons q qs)
  have "snd (camera_step e q True) = True" by (simp add: camera_never_closes)
  with Cons open_camera_not_refused [OF assms(1), of q] show ?case
    by (auto simp: split_beta Let_def)
qed simp

text \<open>
  C32: the flag of the camera is never reset.  Once a camera was opened it counts as open
  after any further requests, closings included, and none of them is ever answered that
  the camera is not turned on, which the first closing should bring about.
\<close>

theorem camera_counts_as_open_for_good:
  assumes "snd (camera_step e q isOpen)" "\<forall>a. vc_answer e a \<noteq> CALL_ERR_CAMERA_NOT_TURNED_ON"
  shows "snd (camera_run e (q # qs) isOpen) \<and>
    (\<forall>res \<in> set (tl (fst (camera_run e (q # qs) isOpen))). fst res \<noteq> CALL_ERR_CAMERA_NOT_TURNED_ON)"
  using assms camera_run_stays_open [of e qs] camera_run_not_refused [OF assms(2), of _ qs]
  by (simp add: split_beta Let_def)

definition sample_video_control_env :: video_control_env where
  "sample_video_control_env = \<lparr>vc_answer = (\<lambda>_. TELEPHONY_SUCCESS), vc_code = (\<lambda>_. 0),
     vc_negotiation = sample_video_env\<rparr>"

definition sample_camera_request :: "string \<Rightarrow> camera_request" where
  "sample_camera_request cam = \<lparr>cq_registry = sample_registry, cq_callId = 2, cq_cameraId = cam,
     cq_uid = 1000, cq_pid = 42\<rparr>"

lemma sample_camera_opens: "snd (camera_step sample_video_control_env (sample_camera_request ''0'') False)"
  by (simp add: camera_step_def video_control_defs sample_camera_request_def VideoCallPolicy_def
    GetOneCallObject_def find_call_def sample_registry_def empty_registry_def sample_call_defs
    sample_video_control_env_def CarrierCall_incoming_def)

theorem camera_counts_as_open_for_good_witness:
  "snd (camera_run sample_video_control_env
     [sample_camera_request ''0'', sample_camera_request [], sample_camera_request []] False)"
  using camera_counts_as_open_for_good [OF sample_camera_opens,
    of "[sample_camera_request [], sample_camera_request []]"]
  by (simp add: sample_video_control_env_def)

text \<open>
  Whatever is asked of the stack for a camera or a window names the slot and the index
  of the call with the id of the request, which is an IMS call, and a rotation or a zoom
  that reaches the stack is one the stack knows.
\<close>

theorem video_requests_name_the_call:
  assumes "a \<in> set (snd (VideoControl_SetPreviewWindow e r callId surfaceId surface)) \<union>
    set (snd (VideoControl_SetDisplayWindow e r callId surfaceId surface)) \<union>
    set (snd (VideoControl_SetPausePicture e r callId path)) \<union>
    set (snd (VideoControl_SetDeviceDirection e r callId rotation)) \<union>
    set (snd (VideoControl_CancelCallUpgrade e r callId)) \<union>
    set (snd (VideoControl_RequestCameraCapabilities e r callId)) \<union>
    set (snd (fst (VideoControl_ControlCamera e r callId cameraId uid pid isOpen)))"
  shows "\<exists>p. GetOneCallObject callId r = Some p \<and> m_callType (r_heap r p) = TYPE_IMS \<and>
    (let (slot, index) = call_address e (r_heap r p) in
     a \<in> {AskPreviewWindow slot index surfaceId surface, AskDisplayWindow slot index surfaceId surface,
          AskPausePicture slot index path, AskCancelUpgrade slot index, AskCameraCapabilities slot index,
          AskControlCamera slot index cameraId uid pid} \<or>
     a = AskDeviceDirection slot index rotation \<and> rotation \<in> {0, 90, 180, 270})"
  using assms
  by (auto simp: video_manager_defs Let_def split: if_splits option.splits prod.splits)

theorem video_requests_name_the_call_witness:
  "GetOneCallObject 2 sample_registry = Some (Suc 0)"
proof -
  have "AskCancelUpgrade (fst (call_address sample_video_control_env (r_heap sample_registry (Suc 0))))
      (snd (call_address sample_video_control_env (r_heap sample_registry (Suc 0))))
    \<in> set (snd (VideoControl_CancelCallUpgrade sample_video_control_env sample_registry 2))"
    by (simp add: video_manager_defs VideoCallPolicy_def GetOneCallObject_def find_call_def
      sample_registry_def empty_registry_def sample_call_defs sample_video_control_env_def
      CarrierCall_incoming_def split_beta)
  with video_requests_name_the_call [where r = sample_registry and callId = 2 and e = sample_video_control_env]
  obtain p where "GetOneCallObject 2 sample_registry = Some p" by blast
  then show ?thesis by (simp add: GetOneCallObject_def find_call_def sample_registry_def
    empty_registry_def sample_call_defs CarrierCall_incoming_def)
qed

end
