(* ===== verification/Challenge_Token.thy ===== *)
theory Challenge_Token
  imports Call_Control "HOL-Library.Multiset"
begin

text \<open>
  The tokens that tie a dial to the application that asked for it (ChallengeTokenManager,
  \<^verbatim>\<open>utils/src/challenge_token_manager.cpp\<close>): an application stores a token with a number,
  the dial of that number takes it out.  The list is a static member guarded by a mutex;
  each operation is one function on it.  Times are readings of the steady clock in
  nanoseconds.
\<close>

subsection \<open>State\<close>

record ChallengeToken =
  ch_token :: string
  ch_phoneNumber :: string
  ch_uid :: int
  ch_isCustomAccessibility :: bool
  ch_createTime :: int

definition MAX_CHALLENGE_TOKEN_COUNT :: nat where "MAX_CHALLENGE_TOKEN_COUNT = 3"
definition CHALLENGE_TOKEN_EXPIRE_MINUTES :: int where "CHALLENGE_TOKEN_EXPIRE_MINUTES = 10"
definition TOKEN_BYTES_LENGTH :: nat where "TOKEN_BYTES_LENGTH = 32"

definition minutes_between :: "int \<Rightarrow> int \<Rightarrow> int" where
  "minutes_between clk t = (clk - t) div 60000000000"

subsection \<open>Operations\<close>

definition CleanupExpiredChallengeTokensUnsafe :: "int \<Rightarrow> ChallengeToken list \<Rightarrow> ChallengeToken list" where
  "CleanupExpiredChallengeTokensUnsafe clk ts =
     filter (\<lambda>t. \<not> minutes_between clk (ch_createTime t) \<ge> CHALLENGE_TOKEN_EXPIRE_MINUTES) ts"

text \<open>The entry a test finds first, changed or taken out.\<close>

fun update_first :: "('a \<Rightarrow> bool) \<Rightarrow> ('a \<Rightarrow> 'a) \<Rightarrow> 'a list \<Rightarrow> 'a list" where
  "update_first P f [] = []"
| "update_first P f (x # xs) = (if P x then f x # xs else x # update_first P f xs)"

fun take_first :: "('a \<Rightarrow> bool) \<Rightarrow> 'a list \<Rightarrow> 'a option \<times> 'a list" where
  "take_first P [] = (None, [])"
| "take_first P (x # xs) =
     (if P x then (Some x, xs) else let (r, ys) = take_first P xs in (r, x # ys))"

text \<open>The clock is read for the cleanup and again for the entry that is renewed.\<close>

definition TryUpdateChallengeTokenList ::
  "int \<Rightarrow> int \<Rightarrow> string \<Rightarrow> ChallengeToken \<Rightarrow> ChallengeToken list \<Rightarrow> bool \<times> ChallengeToken list" where
  "TryUpdateChallengeTokenList clk later phoneNumber challenge ts =
     (let ts = CleanupExpiredChallengeTokensUnsafe clk ts in
      if \<exists>t \<in> set ts. ch_uid t = ch_uid challenge then
        (True, update_first (\<lambda>t. ch_uid t = ch_uid challenge)
           (\<lambda>t. t\<lparr>ch_token := ch_token challenge, ch_phoneNumber := phoneNumber,
                 ch_isCustomAccessibility := ch_isCustomAccessibility challenge,
                 ch_createTime := later\<rparr>) ts)
      else if length ts \<ge> MAX_CHALLENGE_TOKEN_COUNT then (False, ts)
      else (True, ts @ [challenge]))"

definition PopChallengeTokenByPhone ::
  "int \<Rightarrow> string \<Rightarrow> ChallengeToken list \<Rightarrow> ChallengeToken option \<times> ChallengeToken list" where
  "PopChallengeTokenByPhone clk phoneNumber ts =
     take_first (\<lambda>t. ch_phoneNumber t = phoneNumber) (CleanupExpiredChallengeTokensUnsafe clk ts)"

definition put_bool :: "string \<Rightarrow> bool \<Rightarrow> pac_map \<Rightarrow> pac_map" where
  "put_bool k v x = x\<lparr>pm_bool := (pm_bool x)(k := v)\<rparr>"

definition put_string :: "string \<Rightarrow> string \<Rightarrow> pac_map \<Rightarrow> pac_map" where
  "put_string k v x = x\<lparr>pm_string := (pm_string x)(k := v)\<rparr>"

definition FillExtrasFromChallengeToken ::
  "int \<Rightarrow> string \<Rightarrow> pac_map \<Rightarrow> ChallengeToken list \<Rightarrow> pac_map \<times> ChallengeToken list" where
  "FillExtrasFromChallengeToken clk phoneNumber extras ts =
     (case PopChallengeTokenByPhone clk phoneNumber ts of
        (None, ts') \<Rightarrow> (extras, ts')
      | (Some t, ts') \<Rightarrow>
          (put_string ''token'' (ch_token t)
             (put_bool ''isCustomAccessibility'' (ch_isCustomAccessibility t) extras), ts'))"

text \<open>
  The digits of a byte (\<^verbatim>\<open>%02x\<close>).  The random bytes are a parameter, None when the
  generator fails; printing two digits into three characters does not.
\<close>

definition hex_digit :: "nat \<Rightarrow> char" where
  "hex_digit n = ''0123456789abcdef'' ! n"

definition hex_byte :: "8 word \<Rightarrow> string" where
  "hex_byte b = [hex_digit (unat b div 16), hex_digit (unat b mod 16)]"

definition GenerateToken :: "8 word list option \<Rightarrow> string" where
  "GenerateToken nonce = (case nonce of None \<Rightarrow> [] | Some bs \<Rightarrow> concat (map hex_byte bs))"

subsection \<open>Generated tokens\<close>

lemma hex_digit_inject:
  "m < 16 \<Longrightarrow> n < 16 \<Longrightarrow> hex_digit m = hex_digit n \<longleftrightarrow> m = n"
  unfolding hex_digit_def by (rule nth_eq_iff_index_eq) simp_all

lemma hex_byte_inject: "hex_byte a = hex_byte b \<longleftrightarrow> a = b"
proof
  assume "hex_byte a = hex_byte b"
  moreover have "unat a < 256" "unat b < 256"
    using unsigned_less [of a, where ?'a = nat] unsigned_less [of b, where ?'a = nat] by simp_all
  ultimately have "unat a div 16 = unat b div 16" "unat a mod 16 = unat b mod 16"
    by (simp_all add: hex_byte_def hex_digit_inject less_mult_imp_div_less)
  then have "unat a = unat b" by (metis div_mult_mod_eq)
  then show "a = b" by (simp add: word_unat_eq_iff)
qed simp

lemma hex_bytes_inject:
  "length as = length bs \<Longrightarrow> concat (map hex_byte as) = concat (map hex_byte bs) \<longleftrightarrow> as = bs"
proof (induction as bs rule: list_induct2)
  case (Cons a as b bs)
  have "length (hex_byte a) = length (hex_byte b)" by (simp add: hex_byte_def)
  with Cons show ?case by (simp add: append_eq_append_conv hex_byte_inject)
qed simp

text \<open>
  A token shows its random bytes: it has two digits for each of them and different
  bytes give different tokens.
\<close>

theorem generated_tokens_differ:
  assumes "length as = TOKEN_BYTES_LENGTH" "length bs = TOKEN_BYTES_LENGTH"
  shows "length (GenerateToken (Some as)) = 64 \<and>
    (GenerateToken (Some as) = GenerateToken (Some bs) \<longleftrightarrow> as = bs)"
proof -
  have "length (concat (map hex_byte xs)) = 2 * length xs" for xs
    by (induction xs) (simp_all add: hex_byte_def)
  then show ?thesis using assms
    by (simp add: GenerateToken_def hex_bytes_inject TOKEN_BYTES_LENGTH_def)
qed

theorem generated_tokens_differ_witness:
  "GenerateToken (Some (replicate 32 0xA5)) \<noteq> GenerateToken (Some (replicate 31 0xA5 @ [0xA6]))"
proof -
  have "replicate 32 (0xA5 :: 8 word) \<noteq> replicate 31 0xA5 @ [0xA6]"
    by (simp add: eval_nat_numeral)
  then show ?thesis
    using generated_tokens_differ [of "replicate 32 0xA5" "replicate 31 0xA5 @ [0xA6]"]
    by (simp add: TOKEN_BYTES_LENGTH_def)
qed

subsection \<open>The list over time\<close>

text \<open>
  The operations a client causes; the answers of the operations on the list are what it
  takes out.
\<close>

datatype token_event =
    StoreToken int int string ChallengeToken
  | TakeToken int string

fun token_step :: "token_event \<Rightarrow> ChallengeToken list \<Rightarrow> ChallengeToken option \<times> ChallengeToken list" where
  "token_step (StoreToken clk later number challenge) ts =
     (None, snd (TryUpdateChallengeTokenList clk later number challenge ts))"
| "token_step (TakeToken clk number) ts = PopChallengeTokenByPhone clk number ts"

fun token_run :: "token_event list \<Rightarrow> ChallengeToken list \<Rightarrow> ChallengeToken list \<times> ChallengeToken list" where
  "token_run [] ts = ([], ts)"
| "token_run (e # es) ts =
     (let (r, ts') = token_step e ts; (taken, final) = token_run es ts'
      in (case r of None \<Rightarrow> taken | Some t \<Rightarrow> t # taken, final))"

fun stored :: "token_event \<Rightarrow> string list" where
  "stored (StoreToken _ _ _ challenge) = [ch_token challenge]"
| "stored (TakeToken _ _) = []"

definition token_inv :: "ChallengeToken list \<Rightarrow> bool" where
  "token_inv ts \<longleftrightarrow> length ts \<le> MAX_CHALLENGE_TOKEN_COUNT \<and> distinct (map ch_uid ts)"

lemma cleanup_inv: "token_inv ts \<Longrightarrow> token_inv (CleanupExpiredChallengeTokensUnsafe clk ts)"
  unfolding token_inv_def CleanupExpiredChallengeTokensUnsafe_def
  by (auto simp: distinct_map inj_on_def intro: order_trans [OF length_filter_le])

lemma update_first_map: "(\<And>x. g (f x) = g x) \<Longrightarrow> map g (update_first P f xs) = map g xs"
  by (induction xs) simp_all

lemma update_first_length [simp]: "length (update_first P f xs) = length xs"
  by (induction xs) simp_all

lemma take_first_split:
  "take_first P xs = (r, ys) \<Longrightarrow>
   (r = None \<and> ys = xs \<and> (\<forall>x \<in> set xs. \<not> P x)) \<or>
   (\<exists>x us vs. r = Some x \<and> P x \<and> xs = us @ x # vs \<and> ys = us @ vs \<and> (\<forall>u \<in> set us. \<not> P u))"
proof (induction xs arbitrary: r ys)
  case (Cons a xs)
  show ?case
  proof (cases "P a")
    case True
    with Cons.prems have "r = Some a \<and> P a \<and> a # xs = [] @ a # xs \<and> ys = [] @ xs \<and>
      (\<forall>u \<in> set []. \<not> P u)" by simp
    then show ?thesis by blast
  next
    case False
    obtain r' ys' where t: "take_first P xs = (r', ys')" by (cases "take_first P xs")
    with False Cons.prems have r: "r = r'" "ys = a # ys'" by simp_all
    from Cons.IH [OF t] show ?thesis
    proof
      assume "r' = None \<and> ys' = xs \<and> (\<forall>x \<in> set xs. \<not> P x)"
      with r False show ?thesis by simp
    next
      assume "\<exists>x us vs. r' = Some x \<and> P x \<and> xs = us @ x # vs \<and> ys' = us @ vs \<and> (\<forall>u \<in> set us. \<not> P u)"
      then obtain x us vs where "r' = Some x" "P x" "xs = us @ x # vs" "ys' = us @ vs"
        "\<forall>u \<in> set us. \<not> P u" by blast
      with r False have "r = Some x \<and> P x \<and> a # xs = (a # us) @ x # vs \<and> ys = (a # us) @ vs \<and>
        (\<forall>u \<in> set (a # us). \<not> P u)" by simp
      then show ?thesis by blast
    qed
  qed
qed simp

lemma token_step_inv: "token_inv ts \<Longrightarrow> token_inv (snd (token_step e ts))"
proof (cases e)
  case (StoreToken clk later number challenge)
  assume "token_inv ts"
  then have "token_inv (CleanupExpiredChallengeTokensUnsafe clk ts)" by (rule cleanup_inv)
  then show ?thesis unfolding StoreToken
    by (auto simp: TryUpdateChallengeTokenList_def Let_def token_inv_def update_first_map)
next
  case (TakeToken clk number)
  assume "token_inv ts"
  then have inv: "token_inv (CleanupExpiredChallengeTokensUnsafe clk ts)" by (rule cleanup_inv)
  obtain r ys where t: "take_first (\<lambda>t. ch_phoneNumber t = number)
    (CleanupExpiredChallengeTokensUnsafe clk ts) = (r, ys)" by fastforce
  from take_first_split [OF t] inv have "token_inv ys"
    by (auto simp: token_inv_def)
  with t TakeToken show ?thesis by (simp add: PopChallengeTokenByPhone_def)
qed

text \<open>
  Whatever applications store and dials take, there are never more than three tokens
  and never two of one application.
\<close>

theorem one_token_per_application:
  assumes "token_inv ts"
  shows "length (snd (token_run es ts)) \<le> 3 \<and> distinct (map ch_uid (snd (token_run es ts)))"
proof -
  have "token_inv (snd (token_run es ts))"
    using assms token_step_inv
    by (induction es arbitrary: ts) (simp_all add: split_beta Let_def)
  then show ?thesis by (simp add: token_inv_def MAX_CHALLENGE_TOKEN_COUNT_def)
qed

theorem one_token_per_application_witness: "length (snd (token_run [] [])) \<le> 3"
  using one_token_per_application [of "[]" "[]"] by (simp add: token_inv_def)

text \<open>The tokens in the list, as a multiset of their texts.\<close>

abbreviation texts :: "ChallengeToken list \<Rightarrow> string multiset" where
  "texts ts \<equiv> mset (map ch_token ts)"

lemma texts_cleanup: "texts (CleanupExpiredChallengeTokensUnsafe clk ts) \<subseteq># texts ts"
  by (simp add: CleanupExpiredChallengeTokensUnsafe_def image_mset_subseteq_mono)

lemma texts_update_first:
  assumes "\<And>t. ch_token (f t) = k"
  shows "texts (update_first P f ts) \<subseteq># add_mset k (texts ts)"
proof (induction ts)
  case (Cons t ts)
  then show ?case using assms
    by (auto simp: add_mset_commute [of k] intro: mset_subset_eq_add_right
      dest: mset_subset_eq_add_mset_cancel [THEN iffD2])
qed simp

lemma texts_first:
  fixes f :: "ChallengeToken \<Rightarrow> ChallengeToken"
  shows "(\<And>t. ch_token (f t) = k) \<Longrightarrow>
   image_mset ch_token (mset (update_first P f ts)) \<subseteq># add_mset k (image_mset ch_token (mset ts))"
  using texts_update_first [of f k P ts] by simp

lemma texts_step:
  "mset (map ch_token (case fst (token_step e ts) of None \<Rightarrow> [] | Some t \<Rightarrow> [t])) +
     texts (snd (token_step e ts)) \<subseteq># mset (stored e) + texts ts"
proof (cases e)
  case (StoreToken clk later number challenge)
  let ?ts = "CleanupExpiredChallengeTokensUnsafe clk ts"
  have "texts (snd (TryUpdateChallengeTokenList clk later number challenge ts)) \<subseteq>#
    add_mset (ch_token challenge) (texts ?ts)"
    by (simp add: TryUpdateChallengeTokenList_def Let_def texts_first)
  also have "\<dots> \<subseteq># add_mset (ch_token challenge) (texts ts)" using texts_cleanup by simp
  finally show ?thesis by (simp add: StoreToken)
next
  case (TakeToken clk number)
  let ?ts = "CleanupExpiredChallengeTokensUnsafe clk ts"
  obtain r ys where t: "take_first (\<lambda>t. ch_phoneNumber t = number) ?ts = (r, ys)" by fastforce
  from take_first_split [OF t]
  have "mset (map ch_token (case r of None \<Rightarrow> [] | Some t \<Rightarrow> [t])) + texts ys = texts ?ts" by auto
  then show ?thesis using texts_cleanup [of clk ts] t
    by (simp add: TakeToken PopChallengeTokenByPhone_def)
qed

text \<open>
  C17: a token is used at most as often as it was stored: what dials took out and what is
  left in the list is among what was stored before, counted with its repetitions.
\<close>

theorem tokens_are_used_once:
  "texts (fst (token_run es ts)) + texts (snd (token_run es ts)) \<subseteq>#
     mset (concat (map stored es)) + texts ts"
proof (induction es arbitrary: ts)
  case (Cons e es)
  obtain r ts' where st: "token_step e ts = (r, ts')" by fastforce
  obtain taken final where rn: "token_run es ts' = (taken, final)" by fastforce
  have "texts taken + texts final \<subseteq># mset (concat (map stored es)) + texts ts'"
    using Cons.IH [of ts'] unfolding rn by simp
  then have "mset (map ch_token (case r of None \<Rightarrow> [] | Some t \<Rightarrow> [t])) + (texts taken + texts final) \<subseteq>#
    mset (concat (map stored es)) +
      (mset (map ch_token (case r of None \<Rightarrow> [] | Some t \<Rightarrow> [t])) + texts ts')"
    by (simp add: ac_simps)
  also have "\<dots> \<subseteq># mset (concat (map stored es)) + (mset (stored e) + texts ts)"
    using texts_step [of e ts] by (simp add: st)
  finally show ?case by (cases r) (simp_all add: st rn ac_simps)
qed simp

text \<open>
  Two applications with the same number: taking out the token of a start that failed takes
  the older entry, which is the other application's.
\<close>

definition sample_token :: "int \<Rightarrow> string \<Rightarrow> ChallengeToken" where
  "sample_token uid tok = \<lparr>ch_token = tok, ch_phoneNumber = ''10086'', ch_uid = uid,
     ch_isCustomAccessibility = False, ch_createTime = 0\<rparr>"

lemma failed_start_takes_other_token:
  "token_run [StoreToken 1 1 ''10086'' (sample_token 1 ''a''), StoreToken 2 2 ''10086'' (sample_token 2 ''b''),
     TakeToken 3 ''10086''] [] = ([sample_token 1 ''a''], [sample_token 2 ''b''])"
  by (simp add: sample_token_def TryUpdateChallengeTokenList_def CleanupExpiredChallengeTokensUnsafe_def
    PopChallengeTokenByPhone_def minutes_between_def CHALLENGE_TOKEN_EXPIRE_MINUTES_def
    MAX_CHALLENGE_TOKEN_COUNT_def Let_def)

end
