(* ===== verification/Manager_State.thy ===== *)
theory Manager_State
  imports Call_Control_Voip Call_Report_Handlers Call_Setting Video_Control Challenge_Token
begin

text \<open>
  The state of the service that applications reach (CallManagerService,
  \<^verbatim>\<open>services/call_manager_service/src/call_manager_service.cpp\<close>) and the caller it
  serves.  Behind the service stand the control manager with everything of the record
  \<open>service\<close>, the video manager, the tokens of dials and neighbours that are only told
  something: what they are told is a list, what they answer is an argument.
\<close>

subsection \<open>The caller\<close>

record caller =
  cl_system :: bool                    \<comment> \<open>TelephonyPermission::CheckCallerIsSystemApp\<close>
  cl_granted :: "string \<Rightarrow> bool"        \<comment> \<open>TelephonyPermission::CheckPermission\<close>
  cl_uid :: int
  cl_pid :: int
  cl_bundle :: string                  \<comment> \<open>the bundle of the uid; empty if there is none\<close>

definition OHOS_PERMISSION_SET_TELEPHONY_STATE :: string where
  "OHOS_PERMISSION_SET_TELEPHONY_STATE = ''ohos.permission.SET_TELEPHONY_STATE''"
definition OHOS_PERMISSION_GET_TELEPHONY_STATE :: string where
  "OHOS_PERMISSION_GET_TELEPHONY_STATE = ''ohos.permission.GET_TELEPHONY_STATE''"
definition OHOS_PERMISSION_PLACE_CALL :: string where
  "OHOS_PERMISSION_PLACE_CALL = ''ohos.permission.PLACE_CALL''"
definition OHOS_PERMISSION_ANSWER_CALL :: string where
  "OHOS_PERMISSION_ANSWER_CALL = ''ohos.permission.ANSWER_CALL''"
definition OHOS_PERMISSION_READ_CALL_LOG :: string where
  "OHOS_PERMISSION_READ_CALL_LOG = ''ohos.permission.READ_CALL_LOG''"
definition OHOS_PERMISSION_WRITE_CALL_LOG :: string where
  "OHOS_PERMISSION_WRITE_CALL_LOG = ''ohos.permission.WRITE_CALL_LOG''"
definition OHOS_PERMISSION_MANAGE_CALL_FOR_DEVICES :: string where
  "OHOS_PERMISSION_MANAGE_CALL_FOR_DEVICES = ''ohos.permission.MANAGE_CALL_FOR_DEVICES''"
definition OHOS_PERMISSION_GET_CALL_TRANSFER_INFO :: string where
  "OHOS_PERMISSION_GET_CALL_TRANSFER_INFO = ''ohos.permission.GET_CALL_TRANSFER_INFO''"
definition OHOS_PERMISSION_SEND_MESSAGES :: string where
  "OHOS_PERMISSION_SEND_MESSAGES = ''ohos.permission.SEND_MESSAGES''"

definition CheckSetTelephonyStatePermission :: "caller \<Rightarrow> bool" where
  "CheckSetTelephonyStatePermission c = cl_granted c OHOS_PERMISSION_SET_TELEPHONY_STATE"

definition CheckCallerIsSystemApp :: "caller \<Rightarrow> bool" where
  "CheckCallerIsSystemApp c = cl_system c"

text \<open>A caller without a bundle is named by its two numbers, run together.\<close>

definition GetBundleInfo :: "caller \<Rightarrow> string" where
  "GetBundleInfo c =
     (let bundleName = (if cl_bundle c = [] then to_string (cl_uid c) @ to_string (cl_pid c)
                        else cl_bundle c)
      in bundleName @ '':'' @ to_string (cl_pid c))"

subsection \<open>What neighbours are told\<close>

datatype ManagerAction =
    RegisterAbilityCallback string | UnRegisterAbilityCallback string
  | ReportCallStateInfoTo CallAttributeInfo string | ClearVoiceMail int
  | StartContactsAbility string | ConnectVoipService | RegisterVoipCallback
  | UnRegisterVoipCallback | ShareMute bool | ShareMuteRinger | SetDevice int string
  | CameraReleased | CameraRecorded | CameraUsed | PublishSpecialCode string | RemoveMissedNotification
  | SpeakerInactive | DisconnectBtSco | ConnectBtSco | WatchHandsFree | SetBtMacAddress int string
  | AnswerUssd int string | VoipAudioStarted int | SetMmiCallbackState bool
  | RegisterTransfer | UnRegisterTransfer | CacheAncsName string
  | VoipWindowEvent string string | ShowCallPage CallAttributeInfo | SwitchOffDCall
  | ReportAudioDevices | AskVideo VideoAsk | Negotiated VideoEffect

record manager_env =
  me_service :: service_env
  me_video :: video_control_env
  me_answer :: "ManagerAction \<Rightarrow> ErrCode"
  me_accepts :: "ManagerAction \<Rightarrow> bool"            \<comment> \<open>the neighbour answers with a flag\<close>
  me_steady :: "nat \<Rightarrow> int"                        \<comment> \<open>the steady clock, in nanoseconds\<close>
  me_nonce :: "8 word list option"
  me_dsoftbus :: bool
  me_distributedConnected :: bool
  me_btCallSlot :: "string \<Rightarrow> int"
  me_hasSimCard :: "int \<Rightarrow> bool"
  me_voiceMail :: "int \<Rightarrow> string"
  me_showNumber :: "int \<Rightarrow> string"
  me_slotCount :: nat
  me_supportBtCall :: bool
  me_dcallSwitchedOn :: bool
  me_vonrState :: "int \<Rightarrow> int"
  me_imsSwitch :: "int \<Rightarrow> bool"
  me_transferTime :: "int \<Rightarrow> bool"
  me_emergency :: "string \<Rightarrow> int \<Rightarrow> ErrCode \<times> bool"
  me_format :: "string \<Rightarrow> string \<Rightarrow> ErrCode \<times> string"
  me_formatE164 :: "string \<Rightarrow> string \<Rightarrow> ErrCode \<times> string"
  me_removePage :: "WantParams \<Rightarrow> WantParams"
  me_pageText :: "WantParams \<Rightarrow> string"         \<comment> \<open>printed with the page parameter set\<close>
  me_profile :: bool                              \<comment> \<open>a hands-free profile exists\<close>

subsection \<open>State and steps\<close>

record manager =
  g_core :: service
  g_control :: bool                     \<comment> \<open>callControlManagerPtr\_ is not null\<close>
  g_status :: bool                      \<comment> \<open>callStatusManagerPtr\_ is not null\<close>
  g_videos :: "ptr \<Rightarrow> video"
  g_cameraOpen :: bool
  g_tokens :: "ChallengeToken list"
  g_lastTransfer :: "(string \<times> int) list"    \<comment> \<open>lastGetCallTransferInfoTimes\_\<close>
  g_proxies :: "int list"                    \<comment> \<open>the keys of proxyObjectPtrMap\_\<close>
  g_btCallback :: bool
  g_steady :: nat
  g_told :: "ManagerAction list"

type_synonym 'a mstep = "(manager, 'a) state"

definition mreads :: "(manager \<Rightarrow> 'a) \<Rightarrow> 'a mstep" where
  "mreads f = State (\<lambda>g. (f g, g))"

definition mchange :: "(manager \<Rightarrow> manager) \<Rightarrow> unit mstep" where
  "mchange f = State (\<lambda>g. ((), f g))"

definition tell :: "ManagerAction \<Rightarrow> unit mstep" where
  "tell x = mchange (\<lambda>g. g\<lparr>g_told := g_told g @ [x]\<rparr>)"

definition mwhen :: "bool \<Rightarrow> unit mstep \<Rightarrow> unit mstep" where
  "mwhen b m = (if b then m else State_Monad.return ())"

text \<open>A step of what stands behind the control manager.\<close>

definition core :: "'a step \<Rightarrow> 'a mstep" where
  "core m = State (\<lambda>g. let (a, s) = run_state m (g_core g) in (a, g\<lparr>g_core := s\<rparr>))"

text \<open>The clock is read at most once in a call; each reading is a new value.\<close>

definition read_steady :: "manager_env \<Rightarrow> int mstep" where
  "read_steady E = State (\<lambda>g. (me_steady E (g_steady g), g\<lparr>g_steady := Suc (g_steady g)\<rparr>))"

text \<open>An early return: the rest runs when the condition holds.\<close>

definition unless :: "bool \<Rightarrow> 'a \<Rightarrow> 'a mstep \<Rightarrow> 'a mstep" where
  "unless ok r rest = (if \<not> ok then State_Monad.return r else rest)"

definition has :: "caller \<Rightarrow> string \<Rightarrow> bool" where
  "has c p = cl_granted c p"

definition system_only :: "caller \<Rightarrow> ErrCode mstep \<Rightarrow> ErrCode mstep" where
  "system_only c = unless (CheckCallerIsSystemApp c) TELEPHONY_ERR_ILLEGAL_USE_OF_SYSTEM_API"

definition permitted :: "bool \<Rightarrow> ErrCode mstep \<Rightarrow> ErrCode mstep" where
  "permitted ok = unless ok TELEPHONY_ERR_PERMISSION_ERR"

definition control :: "ErrCode step \<Rightarrow> ErrCode mstep" where
  "control m = do {
     ready \<leftarrow> mreads g_control;
     unless ready TELEPHONY_ERR_LOCAL_PTR_NULL (core m) }"

text \<open>The same for an operation with an argument it writes its answer to.\<close>

definition system_only_out :: "caller \<Rightarrow> 'a \<Rightarrow> (ErrCode \<times> 'a) mstep \<Rightarrow> (ErrCode \<times> 'a) mstep" where
  "system_only_out c v = unless (CheckCallerIsSystemApp c) (TELEPHONY_ERR_ILLEGAL_USE_OF_SYSTEM_API, v)"

definition permitted_out :: "bool \<Rightarrow> 'a \<Rightarrow> (ErrCode \<times> 'a) mstep \<Rightarrow> (ErrCode \<times> 'a) mstep" where
  "permitted_out ok v = unless ok (TELEPHONY_ERR_PERMISSION_ERR, v)"

definition control_out :: "'a \<Rightarrow> (ErrCode \<times> 'a) step \<Rightarrow> (ErrCode \<times> 'a) mstep" where
  "control_out v m = do {
     ready \<leftarrow> mreads g_control;
     unless ready (TELEPHONY_ERR_LOCAL_PTR_NULL, v) (core m) }"

lemma run_mreads [simp]: "run_state (mreads f) g = (f g, g)"
  by (simp add: mreads_def)

lemma run_mchange [simp]: "run_state (mchange f) g = ((), f g)"
  by (simp add: mchange_def)

lemma run_tell [simp]: "run_state (tell x) g = ((), g\<lparr>g_told := g_told g @ [x]\<rparr>)"
  by (simp add: tell_def)

lemma run_core: "run_state (core m) g =
  (fst (run_state m (g_core g)), g\<lparr>g_core := snd (run_state m (g_core g))\<rparr>)"
  by (simp add: core_def split_beta Let_def)

lemma run_read_steady [simp]:
  "run_state (read_steady E) g = (me_steady E (g_steady g), g\<lparr>g_steady := Suc (g_steady g)\<rparr>)"
  by (simp add: read_steady_def)

lemma run_mwhen [simp]: "run_state (mwhen b m) g = (if b then run_state m g else ((), g))"
  by (simp add: mwhen_def)

lemma run_unless [simp]: "run_state (unless ok r m) g = (if ok then run_state m g else (r, g))"
  by (simp add: unless_def)

subsection \<open>Names of callers\<close>

lemma nat_dec_digit_bound: "c \<in> set (nat_dec n) \<Longrightarrow> (of_char c :: nat) < 58"
proof (induction n rule: nat_dec.induct)
  case (1 n)
  then show ?case by (subst (asm) nat_dec.simps) (auto simp: digit_value split: if_splits)
qed

lemma to_string_no_colon: "CHR '':'' \<notin> set (to_string i)"
proof
  have colon: "(of_char (CHR '':'') :: nat) = 58" by simp
  assume "CHR '':'' \<in> set (to_string i)"
  then have "\<exists>n. CHR '':'' \<in> set (nat_dec n)" by (auto simp: to_string_def split: if_splits)
  then show False using nat_dec_digit_bound [of "CHR '':''"] colon by fastforce
qed

lemma split_at_colon:
  assumes "CHR '':'' \<notin> set us" "CHR '':'' \<notin> set vs" "us @ CHR '':'' # xs = vs @ CHR '':'' # ys"
  shows "us = vs \<and> xs = ys"
  using assms
proof (induction us arbitrary: vs)
  case Nil
  then show ?case by (cases vs) auto
next
  case (Cons u us)
  then show ?case by (cases vs) auto
qed

text \<open>
  Callers without a bundle are told apart by the name they are registered under, although
  it runs two numbers together.
\<close>

lemma nameless_callers_differ:
  assumes "cl_bundle c = []" "cl_bundle d = []"
  shows "GetBundleInfo c = GetBundleInfo d \<longleftrightarrow> cl_uid c = cl_uid d \<and> cl_pid c = cl_pid d"
proof
  assume "GetBundleInfo c = GetBundleInfo d"
  then have eq: "(to_string (cl_uid c) @ to_string (cl_pid c)) @ CHR '':'' # to_string (cl_pid c) =
    (to_string (cl_uid d) @ to_string (cl_pid d)) @ CHR '':'' # to_string (cl_pid d)"
    using assms by (simp add: GetBundleInfo_def)
  have parts: "to_string (cl_uid c) @ to_string (cl_pid c) = to_string (cl_uid d) @ to_string (cl_pid d) \<and>
    to_string (cl_pid c) = to_string (cl_pid d)"
    by (rule split_at_colon [OF _ _ eq]) (simp_all add: to_string_no_colon)
  then have "cl_pid c = cl_pid d" by simp
  with parts show "cl_uid c = cl_uid d \<and> cl_pid c = cl_pid d" by simp
qed (simp add: GetBundleInfo_def assms)

end
