(* ===== verification/Call_Manager_Service.thy ===== *)
theory Call_Manager_Service
  imports Manager_State
begin

text \<open>
  The operations of the service (CallManagerService,
  \<^verbatim>\<open>services/call_manager_service/src/call_manager_service.cpp\<close>): each one checks the
  caller and hands the request on.  Operations that write an answer to an argument return
  it beside the status.  Start and stop of the service, its dump and its event log are not
  modelled.
\<close>

subsection \<open>Callbacks\<close>

definition Service_RegisterCallBack :: "manager_env \<Rightarrow> caller \<Rightarrow> ErrCode mstep" where
  "Service_RegisterCallBack E c =
     permitted (has c OHOS_PERMISSION_SET_TELEPHONY_STATE \<or> has c OHOS_PERMISSION_GET_TELEPHONY_STATE \<or>
                has c OHOS_PERMISSION_GET_CALL_TRANSFER_INFO)
       (do { _ \<leftarrow> tell (RegisterAbilityCallback (GetBundleInfo c));
             State_Monad.return (me_answer E (RegisterAbilityCallback (GetBundleInfo c))) })"

definition Service_UnRegisterCallBack :: "manager_env \<Rightarrow> caller \<Rightarrow> ErrCode mstep" where
  "Service_UnRegisterCallBack E c =
     system_only c (permitted (CheckSetTelephonyStatePermission c)
       (do { _ \<leftarrow> tell (UnRegisterAbilityCallback (GetBundleInfo c));
             State_Monad.return (me_answer E (UnRegisterAbilityCallback (GetBundleInfo c))) }))"

primrec tell_each :: "('a \<Rightarrow> ManagerAction) \<Rightarrow> 'a list \<Rightarrow> unit mstep" where
  "tell_each f [] = State_Monad.return ()"
| "tell_each f (x # xs) = do { _ \<leftarrow> tell (f x); tell_each f xs }"

definition Service_ObserverOnCallDetailsChange :: "manager_env \<Rightarrow> caller \<Rightarrow> ErrCode mstep" where
  "Service_ObserverOnCallDetailsChange E c =
     system_only c (permitted (has c OHOS_PERMISSION_SET_TELEPHONY_STATE \<or>
                               has c OHOS_PERMISSION_GET_TELEPHONY_STATE)
       (do { s \<leftarrow> mreads g_core;
             _ \<leftarrow> tell_each (\<lambda>info. ReportCallStateInfoTo info (GetBundleInfo c))
                   (GetAllCallInfoList (se_build (me_service E)) (se_want (me_service E))
                      (s_voipState s) True (s_reg s));
             State_Monad.return TELEPHONY_SUCCESS }))"

subsection \<open>Dialing\<close>

definition SLOT_ID :: string where "SLOT_ID = ''accountId''"

definition BtCallWaitSlotId :: "manager_env \<Rightarrow> pac_map \<Rightarrow> string \<Rightarrow> pac_map" where
  "BtCallWaitSlotId E dialInfo number =
     (if me_dsoftbus E \<and> me_hasSimCard E (me_btCallSlot E number)
      then put_int SLOT_ID (me_btCallSlot E number) dialInfo else dialInfo)"

definition fill_extras :: "manager_env \<Rightarrow> string \<Rightarrow> pac_map \<Rightarrow> pac_map mstep" where
  "fill_extras E number extras = do {
     clk \<leftarrow> read_steady E;
     ts \<leftarrow> mreads g_tokens;
     (let (extras, ts) = FillExtrasFromChallengeToken clk number extras ts in do {
        _ \<leftarrow> mchange (\<lambda>g. g\<lparr>g_tokens := ts\<rparr>);
        State_Monad.return extras }) }"

text \<open>The token is taken out, and the slot is filled in, before the permission is checked.\<close>

definition Service_DialCall :: "manager_env \<Rightarrow> caller \<Rightarrow> string \<Rightarrow> pac_map \<Rightarrow> ErrCode mstep" where
  "Service_DialCall E c number extras =
     system_only c (do {
       extras \<leftarrow> fill_extras E number (put_string ''bundleName'' (cl_bundle c) extras);
       (let extras = (if pm_bool extras ''btSlotIdUnknown''
                      then BtCallWaitSlotId E extras number else extras) in
        permitted (has c OHOS_PERMISSION_PLACE_CALL) (do {
          ret \<leftarrow> control (DialCall (me_service E) number extras);
          slot \<leftarrow> mreads (\<lambda>g. s_extras (g_core g) SLOT_ID);
          _ \<leftarrow> mwhen (ret = TELEPHONY_SUCCESS \<and> me_voiceMail E slot = number) (tell (ClearVoiceMail slot));
          State_Monad.return ret })) })"

definition start_contacts :: "manager_env \<Rightarrow> string \<Rightarrow> bool mstep" where
  "start_contacts E number = do {
     _ \<leftarrow> tell (StartContactsAbility number);
     State_Monad.return (me_accepts E (StartContactsAbility number)) }"

definition Service_MakeCall :: "manager_env \<Rightarrow> caller \<Rightarrow> string \<Rightarrow> ErrCode mstep" where
  "Service_MakeCall E c number =
     system_only c (do {
       ok \<leftarrow> start_contacts E number;
       State_Monad.return (if \<not> ok then TELEPHONY_ERR_UNINIT else TELEPHONY_SUCCESS) })"

definition ACCOUNT_NUMBER_MAX_LENGTH :: nat where "ACCOUNT_NUMBER_MAX_LENGTH = 255"

text \<open>No permission is asked for.  When the start fails, some token of the number is taken out.\<close>

definition Service_MakeCallWithToken ::
  "manager_env \<Rightarrow> caller \<Rightarrow> string \<Rightarrow> bool \<Rightarrow> string \<Rightarrow> (ErrCode \<times> string) mstep" where
  "Service_MakeCallWithToken E c number isCustomAccessibility token =
     (let hexToken = GenerateToken (me_nonce E) in
      if hexToken = [] then State_Monad.return (TELEPHONY_ERR_UNINIT, token)
      else if number = [] \<or> length number > ACCOUNT_NUMBER_MAX_LENGTH
      then State_Monad.return (TELEPHONY_ERR_ARGUMENT_INVALID, token)
      else do {
        t0 \<leftarrow> read_steady E;
        t1 \<leftarrow> read_steady E;
        t2 \<leftarrow> read_steady E;
        ts \<leftarrow> mreads g_tokens;
        (let (stored, ts) = TryUpdateChallengeTokenList t1 t2 number
               \<lparr>ch_token = hexToken, ch_phoneNumber = number, ch_uid = cl_uid c,
                ch_isCustomAccessibility = isCustomAccessibility, ch_createTime = t0\<rparr> ts in do {
           _ \<leftarrow> mchange (\<lambda>g. g\<lparr>g_tokens := ts\<rparr>);
           (if \<not> stored then State_Monad.return (TELEPHONY_ERR_UNINIT, token)
            else do {
              ok \<leftarrow> start_contacts E number;
              (if \<not> ok then do {
                 t3 \<leftarrow> read_steady E;
                 _ \<leftarrow> mchange (\<lambda>g. g\<lparr>g_tokens := snd (PopChallengeTokenByPhone t3 number (g_tokens g))\<rparr>);
                 State_Monad.return (TELEPHONY_ERR_UNINIT, token) }
               else State_Monad.return (TELEPHONY_SUCCESS, hexToken)) }) }) })"

subsection \<open>Answering, rejecting and ending\<close>

definition Service_AnswerCall :: "manager_env \<Rightarrow> caller \<Rightarrow> int \<Rightarrow> int \<Rightarrow> bool \<Rightarrow> ErrCode mstep" where
  "Service_AnswerCall E c callId videoState isRTT =
     system_only c (permitted (has c OHOS_PERMISSION_ANSWER_CALL)
       (control (AnswerCall_control (me_service E) callId videoState isRTT)))"

definition Service_RejectCall :: "manager_env \<Rightarrow> caller \<Rightarrow> int \<Rightarrow> bool \<Rightarrow> string \<Rightarrow> ErrCode mstep" where
  "Service_RejectCall E c callId rejectWithMessage textMessage =
     system_only c (permitted (has c OHOS_PERMISSION_ANSWER_CALL \<or> has c OHOS_PERMISSION_SET_TELEPHONY_STATE)
       (permitted (\<not> rejectWithMessage \<or> has c OHOS_PERMISSION_SEND_MESSAGES)
         (control (RejectCall_control (me_service E) callId rejectWithMessage textMessage CALL_REJECT_NORMAL))))"

definition Service_HangUpCall :: "manager_env \<Rightarrow> caller \<Rightarrow> int \<Rightarrow> ErrCode mstep" where
  "Service_HangUpCall E c callId =
     system_only c (permitted (has c OHOS_PERMISSION_ANSWER_CALL \<or> has c OHOS_PERMISSION_SET_TELEPHONY_STATE)
       (control (HangUpCall_control (me_service E) callId)))"

definition Service_AnswerCall_any :: "manager_env \<Rightarrow> caller \<Rightarrow> ErrCode mstep" where
  "Service_AnswerCall_any E c =
     permitted (has c OHOS_PERMISSION_ANSWER_CALL \<or> has c OHOS_PERMISSION_MANAGE_CALL_FOR_DEVICES)
       (control (AnswerCall_control (me_service E) INVALID_CALLID (VideoStateType_code TYPE_VOICE) False))"

definition Service_RejectCall_any :: "manager_env \<Rightarrow> caller \<Rightarrow> ErrCode mstep" where
  "Service_RejectCall_any E c =
     permitted (has c OHOS_PERMISSION_ANSWER_CALL \<or> has c OHOS_PERMISSION_SET_TELEPHONY_STATE \<or>
                has c OHOS_PERMISSION_MANAGE_CALL_FOR_DEVICES)
       (control (RejectCall_control (me_service E) INVALID_CALLID False [] CALL_REJECT_NORMAL))"

definition Service_RejectCall_type :: "manager_env \<Rightarrow> caller \<Rightarrow> RejectType \<Rightarrow> ErrCode mstep" where
  "Service_RejectCall_type E c rejectType =
     system_only c (permitted (has c OHOS_PERMISSION_ANSWER_CALL \<or>
                               has c OHOS_PERMISSION_MANAGE_CALL_FOR_DEVICES)
       (control (RejectCall_control (me_service E) INVALID_CALLID False [] rejectType)))"

definition Service_HangUpCall_any :: "manager_env \<Rightarrow> caller \<Rightarrow> ErrCode mstep" where
  "Service_HangUpCall_any E c =
     permitted (has c OHOS_PERMISSION_ANSWER_CALL \<or> has c OHOS_PERMISSION_SET_TELEPHONY_STATE \<or>
                has c OHOS_PERMISSION_MANAGE_CALL_FOR_DEVICES)
       (control (HangUpCall_control (me_service E) INVALID_CALLID))"

definition control_flag :: "bool step \<Rightarrow> bool mstep" where
  "control_flag m = do { ready \<leftarrow> mreads g_control; unless ready False (core m) }"

definition Service_EndCall :: "manager_env \<Rightarrow> caller \<Rightarrow> bool mstep" where
  "Service_EndCall E c =
     unless (CheckCallerIsSystemApp c) False
       (unless (has c OHOS_PERMISSION_ANSWER_CALL \<or> has c OHOS_PERMISSION_SET_TELEPHONY_STATE) False
         (control_flag (EndCall (me_service E))))"

subsection \<open>Holding, conferences and tones\<close>

definition Service_HoldCall :: "manager_env \<Rightarrow> caller \<Rightarrow> int \<Rightarrow> ErrCode mstep" where
  "Service_HoldCall E c callId =
     system_only c (permitted (has c OHOS_PERMISSION_ANSWER_CALL)
       (control (HoldCall_control (me_service E) callId)))"

definition Service_UnHoldCall :: "manager_env \<Rightarrow> caller \<Rightarrow> int \<Rightarrow> ErrCode mstep" where
  "Service_UnHoldCall E c callId =
     system_only c (permitted (has c OHOS_PERMISSION_ANSWER_CALL)
       (control (UnHoldCall_control (me_service E) callId)))"

definition Service_SwitchCall :: "manager_env \<Rightarrow> caller \<Rightarrow> int \<Rightarrow> ErrCode mstep" where
  "Service_SwitchCall E c callId =
     system_only c (permitted (has c OHOS_PERMISSION_ANSWER_CALL)
       (control (SwitchCall_control (me_service E) callId)))"

definition Service_CombineConference :: "manager_env \<Rightarrow> caller \<Rightarrow> int \<Rightarrow> ErrCode mstep" where
  "Service_CombineConference E c mainCallId =
     system_only c (permitted (CheckSetTelephonyStatePermission c)
       (control (CombineConference_control (me_service E) mainCallId)))"

definition Service_SeparateConference :: "manager_env \<Rightarrow> caller \<Rightarrow> int \<Rightarrow> ErrCode mstep" where
  "Service_SeparateConference E c callId =
     system_only c (permitted (CheckSetTelephonyStatePermission c)
       (control (SeparateConference_control (me_service E) callId)))"

definition Service_KickOutFromConference :: "manager_env \<Rightarrow> caller \<Rightarrow> int \<Rightarrow> ErrCode mstep" where
  "Service_KickOutFromConference E c callId =
     system_only c (permitted (has c OHOS_PERMISSION_PLACE_CALL)
       (control (KickOutFromConference_control (me_service E) callId)))"

definition Service_JoinConference :: "manager_env \<Rightarrow> caller \<Rightarrow> int \<Rightarrow> string list \<Rightarrow> ErrCode mstep" where
  "Service_JoinConference E c callId numbers =
     system_only c (permitted (has c OHOS_PERMISSION_PLACE_CALL)
       (control (JoinConference_control (me_service E) callId numbers)))"

definition Service_StartDtmf :: "manager_env \<Rightarrow> caller \<Rightarrow> int \<Rightarrow> char \<Rightarrow> ErrCode mstep" where
  "Service_StartDtmf E c callId str =
     system_only c (permitted (CheckSetTelephonyStatePermission c)
       (control (StartDtmf_control (me_service E) callId str)))"

definition Service_StopDtmf :: "manager_env \<Rightarrow> caller \<Rightarrow> int \<Rightarrow> ErrCode mstep" where
  "Service_StopDtmf E c callId =
     system_only c (permitted (CheckSetTelephonyStatePermission c)
       (control (StopDtmf_control (me_service E) callId)))"

definition Service_PostDialProceed :: "manager_env \<Rightarrow> caller \<Rightarrow> int \<Rightarrow> bool \<Rightarrow> ErrCode mstep" where
  "Service_PostDialProceed E c callId proceed =
     system_only c (permitted (CheckSetTelephonyStatePermission c)
       (control (PostDialProceed_control (me_service E) callId proceed)))"

subsection \<open>Questions about the calls\<close>

definition Service_GetCallState :: "manager_env \<Rightarrow> caller \<Rightarrow> int mstep" where
  "Service_GetCallState E c = do {
     ready \<leftarrow> mreads g_control;
     s \<leftarrow> mreads g_core;
     State_Monad.return
       (if ready then CallStateToApp_code (GetCallState_control (s_reg s) (s_voipState s))
        else se_code (me_service E) TELEPHONY_ERR_LOCAL_PTR_NULL) }"

definition Service_HasCall :: "manager_env \<Rightarrow> caller \<Rightarrow> bool \<Rightarrow> bool mstep" where
  "Service_HasCall E c isInCludeVoipCall =
     control_flag (reads (\<lambda>s. if isInCludeVoipCall then HasCall (s_reg s) (s_voipState s)
                              else HasCellularCallExist (s_reg s)))"

text \<open>The list's mutex may be taken twice: IsNewCallAllowedCreate may not return; see theory Call\_Object\_Manager.\<close>

definition is_new_call_allowed :: "service_env \<Rightarrow> bool \<Rightarrow> (ErrCode \<times> bool) step" where
  "is_new_call_allowed E enabled = do {
     r \<leftarrow> reads s_reg;
     g \<leftarrow> reads s_conf;
     (case IsNewCallAllowedCreate (ce_reentrant (se_control E)) (se_build E) (the_ims g) r of
        None \<Rightarrow> do { _ \<leftarrow> fault; State_Monad.return (TELEPHONY_ERR_FAIL, enabled) }
      | Some res \<Rightarrow> State_Monad.return res) }"

definition Service_IsNewCallAllowed :: "manager_env \<Rightarrow> caller \<Rightarrow> bool \<Rightarrow> (ErrCode \<times> bool) mstep" where
  "Service_IsNewCallAllowed E c enabled =
     system_only_out c enabled (control_out enabled (is_new_call_allowed (me_service E) enabled))"

definition Service_IsRinging :: "manager_env \<Rightarrow> caller \<Rightarrow> bool \<Rightarrow> (ErrCode \<times> bool) mstep" where
  "Service_IsRinging E c enabled =
     system_only_out c enabled (permitted_out (CheckSetTelephonyStatePermission c) enabled
       (control_out enabled (reads (\<lambda>s. (TELEPHONY_ERR_SUCCESS, HasRingingCall (s_reg s))))))"

definition Service_IsInEmergencyCall :: "manager_env \<Rightarrow> caller \<Rightarrow> bool \<Rightarrow> (ErrCode \<times> bool) mstep" where
  "Service_IsInEmergencyCall E c enabled =
     system_only_out c enabled (permitted_out (has c OHOS_PERMISSION_GET_TELEPHONY_STATE) enabled
       (control_out enabled (reads (\<lambda>s. (TELEPHONY_ERR_SUCCESS, HasEmergencyCall (s_reg s))))))"

definition IsEmergencyPhoneNumber_control ::
  "manager_env \<Rightarrow> string \<Rightarrow> int \<Rightarrow> bool \<Rightarrow> (ErrCode \<times> bool) step" where
  "IsEmergencyPhoneNumber_control E number slotId enabled =
     (if CallPolicy_IsValidSlotId (se_dial (me_service E)) slotId \<noteq> TELEPHONY_SUCCESS
      then State_Monad.return (CALL_ERR_INVALID_SLOT_ID, enabled)
      else State_Monad.return (me_emergency E (RemoveSeparatorsPhoneNumber number) slotId))"

definition Service_IsEmergencyPhoneNumber ::
  "manager_env \<Rightarrow> caller \<Rightarrow> string \<Rightarrow> int \<Rightarrow> bool \<Rightarrow> (ErrCode \<times> bool) mstep" where
  "Service_IsEmergencyPhoneNumber E c number slotId enabled =
     control_out enabled (IsEmergencyPhoneNumber_control E number slotId enabled)"

definition Service_FormatPhoneNumber ::
  "manager_env \<Rightarrow> caller \<Rightarrow> string \<Rightarrow> string \<Rightarrow> string \<Rightarrow> (ErrCode \<times> string) mstep" where
  "Service_FormatPhoneNumber E c number countryCode formatNumber =
     control_out formatNumber (State_Monad.return (me_format E number countryCode))"

definition Service_FormatPhoneNumberToE164 ::
  "manager_env \<Rightarrow> caller \<Rightarrow> string \<Rightarrow> string \<Rightarrow> string \<Rightarrow> (ErrCode \<times> string) mstep" where
  "Service_FormatPhoneNumberToE164 E c number countryCode formatNumber =
     control_out formatNumber (State_Monad.return (me_formatE164 E number countryCode))"

definition Service_GetMainCallId :: "manager_env \<Rightarrow> caller \<Rightarrow> int \<Rightarrow> int \<Rightarrow> (ErrCode \<times> int) mstep" where
  "Service_GetMainCallId E c callId mainCallId =
     system_only_out c mainCallId (permitted_out (has c OHOS_PERMISSION_GET_TELEPHONY_STATE) mainCallId
       (control_out mainCallId (reads (\<lambda>s. GetMainCallId_control callId (s_reg s) (s_conf s) mainCallId))))"

definition CallBase_GetCallIdListForConference :: "call \<Rightarrow> conferences \<Rightarrow> ErrCode \<times> string list" where
  "CallBase_GetCallIdListForConference c g =
     (case m_class c of
        CSCall \<Rightarrow> CSCall_GetCallIdListForConference c g
      | IMSCall \<Rightarrow> IMSCall_GetCallIdListForConference c g
      | OTTCall \<Rightarrow> OTTCall_GetCallIdListForConference c g
      | SatelliteCall \<Rightarrow> (TELEPHONY_ERROR, [])
      | _ \<Rightarrow> (TELEPHONY_SUCCESS, []))"

definition CallBase_GetSubCallIds :: "call \<Rightarrow> conferences \<Rightarrow> ErrCode \<times> string list" where
  "CallBase_GetSubCallIds c g =
     (case m_class c of
        CSCall \<Rightarrow> CSCall_GetSubCallIdList c g
      | IMSCall \<Rightarrow> IMSCall_GetSubCallIdList c g
      | OTTCall \<Rightarrow> OTTCall_GetSubCallIdList c g
      | SatelliteCall \<Rightarrow> (TELEPHONY_ERROR, [])
      | _ \<Rightarrow> (TELEPHONY_SUCCESS, []))"

definition list_of_call ::
  "(call \<Rightarrow> conferences \<Rightarrow> ErrCode \<times> string list) \<Rightarrow> int \<Rightarrow> string list \<Rightarrow> (ErrCode \<times> string list) step" where
  "list_of_call f callId ids = reads (\<lambda>s.
     case GetOneCallObject callId (s_reg s) of
       None \<Rightarrow> (TELEPHONY_ERR_ARGUMENT_INVALID, ids)
     | Some p \<Rightarrow> f (r_heap (s_reg s) p) (s_conf s))"

definition Service_GetSubCallIdList ::
  "manager_env \<Rightarrow> caller \<Rightarrow> int \<Rightarrow> string list \<Rightarrow> (ErrCode \<times> string list) mstep" where
  "Service_GetSubCallIdList E c callId callIdList =
     system_only_out c callIdList (permitted_out (has c OHOS_PERMISSION_GET_TELEPHONY_STATE) callIdList
       (control_out [] (list_of_call CallBase_GetSubCallIds callId callIdList)))"

definition Service_GetCallIdListForConference ::
  "manager_env \<Rightarrow> caller \<Rightarrow> int \<Rightarrow> string list \<Rightarrow> (ErrCode \<times> string list) mstep" where
  "Service_GetCallIdListForConference E c callId callIdList =
     system_only_out c callIdList (permitted_out (has c OHOS_PERMISSION_GET_TELEPHONY_STATE) callIdList
       (control_out [] (list_of_call CallBase_GetCallIdListForConference callId callIdList)))"

end
