(* ===== verification/Call_Manager_Requests.thy ===== *)
theory Call_Manager_Requests
  imports Call_Manager_Service "HOL-Library.AList"
begin

text \<open>
  The second half of the service (CallManagerService,
  \<^verbatim>\<open>services/call_manager_service/src/call_manager_service.cpp\<close>): settings, sound,
  video, OTT and VoIP applications, Bluetooth and events of the call interface.
\<close>

subsection \<open>Settings of a slot\<close>

definition setting :: "manager_env \<Rightarrow> SettingRequest \<Rightarrow> ErrCode mstep" where
  "setting E q = control (setting_request (me_service E) q)"

definition Service_GetCallWaiting :: "manager_env \<Rightarrow> caller \<Rightarrow> int \<Rightarrow> ErrCode mstep" where
  "Service_GetCallWaiting E c slotId =
     system_only c (permitted (has c OHOS_PERMISSION_GET_TELEPHONY_STATE)
       (setting E (AskCallWaiting slotId)))"

definition Service_SetCallWaiting :: "manager_env \<Rightarrow> caller \<Rightarrow> int \<Rightarrow> bool \<Rightarrow> ErrCode mstep" where
  "Service_SetCallWaiting E c slotId activate =
     system_only c (permitted (CheckSetTelephonyStatePermission c) (setting E (SetWaiting slotId activate)))"

definition Service_GetCallRestriction :: "manager_env \<Rightarrow> caller \<Rightarrow> int \<Rightarrow> int \<Rightarrow> ErrCode mstep" where
  "Service_GetCallRestriction E c slotId type =
     system_only c (permitted (has c OHOS_PERMISSION_GET_TELEPHONY_STATE)
       (setting E (AskCallRestriction slotId type)))"

definition Service_SetCallRestriction ::
  "manager_env \<Rightarrow> caller \<Rightarrow> int \<Rightarrow> int \<Rightarrow> string \<Rightarrow> int \<Rightarrow> ErrCode mstep" where
  "Service_SetCallRestriction E c slotId fac password mode =
     system_only c (permitted (CheckSetTelephonyStatePermission c)
       (setting E (SetRestriction slotId fac password mode)))"

text \<open>A password that is a null pointer is None.\<close>

definition Service_SetCallRestrictionPassword ::
  "manager_env \<Rightarrow> caller \<Rightarrow> int \<Rightarrow> int \<Rightarrow> string option \<Rightarrow> string option \<Rightarrow> ErrCode mstep" where
  "Service_SetCallRestrictionPassword E c slotId fac oldPassword newPassword =
     (case (oldPassword, newPassword) of
        (Some old, Some new) \<Rightarrow>
          system_only c (permitted (CheckSetTelephonyStatePermission c)
            (setting E (SetRestrictionPassword slotId fac old new)))
      | _ \<Rightarrow> State_Monad.return TELEPHONY_ERR_LOCAL_PTR_NULL)"

definition Service_GetCallTransferInfo :: "manager_env \<Rightarrow> caller \<Rightarrow> int \<Rightarrow> int \<Rightarrow> ErrCode mstep" where
  "Service_GetCallTransferInfo E c slotId type =
     system_only c (permitted (has c OHOS_PERMISSION_GET_TELEPHONY_STATE)
       (setting E (AskCallTransfer slotId type)))"

definition Service_SetCallTransferInfo ::
  "manager_env \<Rightarrow> caller \<Rightarrow> int \<Rightarrow> CallTransferInfo \<Rightarrow> ErrCode mstep" where
  "Service_SetCallTransferInfo E c slotId info =
     system_only c (permitted (CheckSetTelephonyStatePermission c) (setting E (SetTransfer slotId info)))"

text \<open>The argument is written when the stack answers.\<close>

definition setting_out :: "manager_env \<Rightarrow> SettingRequest \<Rightarrow> 'a \<Rightarrow> 'a \<Rightarrow> (ErrCode \<times> 'a) step" where
  "setting_out E q old new = do {
     ret \<leftarrow> setting_request (me_service E) q;
     State_Monad.return (ret, if ret = TELEPHONY_SUCCESS then new else old) }"

definition Service_CanSetCallTransferTime ::
  "manager_env \<Rightarrow> caller \<Rightarrow> int \<Rightarrow> bool \<Rightarrow> (ErrCode \<times> bool) mstep" where
  "Service_CanSetCallTransferTime E c slotId result =
     system_only_out c result (permitted_out (has c OHOS_PERMISSION_GET_TELEPHONY_STATE) result
       (control_out result (setting_out E (AskTransferTime slotId) result (me_transferTime E slotId))))"

definition Service_SetCallPreferenceMode :: "manager_env \<Rightarrow> caller \<Rightarrow> int \<Rightarrow> int \<Rightarrow> ErrCode mstep" where
  "Service_SetCallPreferenceMode E c slotId mode =
     permitted (CheckSetTelephonyStatePermission c) (setting E (SetPreferenceMode slotId mode))"

definition Service_GetImsConfig :: "manager_env \<Rightarrow> caller \<Rightarrow> int \<Rightarrow> int \<Rightarrow> ErrCode mstep" where
  "Service_GetImsConfig E c slotId item =
     unless (item = ITEM_VIDEO_QUALITY \<or> item = ITEM_IMS_SWITCH_STATUS) TELEPHONY_ERR_FAIL
       (system_only c (permitted (has c OHOS_PERMISSION_GET_TELEPHONY_STATE)
         (setting E (AskImsConfig slotId item))))"

definition Service_SetImsConfig :: "manager_env \<Rightarrow> caller \<Rightarrow> int \<Rightarrow> int \<Rightarrow> string \<Rightarrow> ErrCode mstep" where
  "Service_SetImsConfig E c slotId item value =
     unless (item = ITEM_VIDEO_QUALITY \<or> item = ITEM_IMS_SWITCH_STATUS) TELEPHONY_ERR_FAIL
       (system_only c (permitted (CheckSetTelephonyStatePermission c)
         (setting E (SetImsConfigItem slotId item value))))"

definition TYPE_VOICE_OVER_LTE :: int where "TYPE_VOICE_OVER_LTE = 0"
definition TYPE_SS_OVER_UT :: int where "TYPE_SS_OVER_UT = 2"

definition Service_GetImsFeatureValue :: "manager_env \<Rightarrow> caller \<Rightarrow> int \<Rightarrow> int \<Rightarrow> ErrCode mstep" where
  "Service_GetImsFeatureValue E c slotId type =
     system_only c (permitted (has c OHOS_PERMISSION_GET_TELEPHONY_STATE)
       (setting E (AskImsFeature slotId type)))"

definition Service_SetImsFeatureValue :: "manager_env \<Rightarrow> caller \<Rightarrow> int \<Rightarrow> int \<Rightarrow> int \<Rightarrow> ErrCode mstep" where
  "Service_SetImsFeatureValue E c slotId type value =
     unless (type \<ge> TYPE_VOICE_OVER_LTE \<and> type \<le> TYPE_SS_OVER_UT) TELEPHONY_ERR_FAIL
       (system_only c (permitted (CheckSetTelephonyStatePermission c)
         (setting E (SetImsFeature slotId type value))))"

definition Service_EnableImsSwitch :: "manager_env \<Rightarrow> caller \<Rightarrow> int \<Rightarrow> ErrCode mstep" where
  "Service_EnableImsSwitch E c slotId =
     system_only c (permitted (CheckSetTelephonyStatePermission c) (setting E (EnableIms slotId)))"

definition Service_DisableImsSwitch :: "manager_env \<Rightarrow> caller \<Rightarrow> int \<Rightarrow> ErrCode mstep" where
  "Service_DisableImsSwitch E c slotId =
     system_only c (permitted (CheckSetTelephonyStatePermission c) (setting E (DisableIms slotId)))"

definition Service_IsImsSwitchEnabled ::
  "manager_env \<Rightarrow> caller \<Rightarrow> int \<Rightarrow> bool \<Rightarrow> (ErrCode \<times> bool) mstep" where
  "Service_IsImsSwitchEnabled E c slotId enabled =
     system_only_out c enabled
       (control_out enabled (setting_out E (AskImsSwitch slotId) enabled (me_imsSwitch E slotId)))"

definition Service_SetVoNRState :: "manager_env \<Rightarrow> caller \<Rightarrow> int \<Rightarrow> int \<Rightarrow> ErrCode mstep" where
  "Service_SetVoNRState E c slotId state =
     system_only c (permitted (CheckSetTelephonyStatePermission c) (setting E (SetVoNR slotId state)))"

text \<open>The state the stack answers is checked as well; the settings may be a null pointer.\<close>

definition GetVoNRState_control :: "manager_env \<Rightarrow> int \<Rightarrow> int \<Rightarrow> (ErrCode \<times> int) step" where
  "GetVoNRState_control E slotId state =
     (let d = se_dial (me_service E); ret = CallPolicy_IsValidSlotId d slotId in
      if ret \<noteq> TELEPHONY_SUCCESS then State_Monad.return (ret, state)
      else if ce_settings (se_control (me_service E)) = None
      then State_Monad.return (TELEPHONY_ERR_LOCAL_PTR_NULL, state)
      else State_Monad.return (VoNRStatePolicy d slotId (me_vonrState E slotId), me_vonrState E slotId))"

definition Service_GetVoNRState :: "manager_env \<Rightarrow> caller \<Rightarrow> int \<Rightarrow> int \<Rightarrow> (ErrCode \<times> int) mstep" where
  "Service_GetVoNRState E c slotId state =
     system_only_out c state (permitted_out (has c OHOS_PERMISSION_GET_TELEPHONY_STATE) state
       (control_out state (GetVoNRState_control E slotId state)))"

definition Service_CloseUnFinishedUssd :: "manager_env \<Rightarrow> caller \<Rightarrow> int \<Rightarrow> ErrCode mstep" where
  "Service_CloseUnFinishedUssd E c slotId =
     system_only c (permitted (CheckSetTelephonyStatePermission c) (setting E (CloseUssd slotId)))"

text \<open>The answer of the connection is not looked at.\<close>

definition Service_SendUssdResponse :: "manager_env \<Rightarrow> caller \<Rightarrow> int \<Rightarrow> string \<Rightarrow> ErrCode mstep" where
  "Service_SendUssdResponse E c slotId content =
     system_only c (permitted (CheckSetTelephonyStatePermission c)
       (do { _ \<leftarrow> tell (AnswerUssd slotId content); State_Monad.return TELEPHONY_SUCCESS }))"

definition Service_SetRttCapability :: "manager_env \<Rightarrow> caller \<Rightarrow> int \<Rightarrow> bool \<Rightarrow> ErrCode mstep" where
  "Service_SetRttCapability E c slotId isEnable =
     system_only c (permitted (CheckSetTelephonyStatePermission c) (setting E (SetRttCap slotId isEnable)))"

text \<open>The question by number: at most one in half a minute for the same number and type.\<close>

definition MIN_GET_CALL_TRANSFER_TIME :: int where "MIN_GET_CALL_TRANSFER_TIME = 30"

definition seconds_between :: "int \<Rightarrow> int \<Rightarrow> int" where
  "seconds_between clk t = (clk - t) div 1000000000"

definition transfer_key :: "string \<Rightarrow> int \<Rightarrow> string" where
  "transfer_key number type = number @ '':'' @ to_string type"

definition Service_GetCallTransferInfo_number ::
  "manager_env \<Rightarrow> caller \<Rightarrow> string \<Rightarrow> int \<Rightarrow> ErrCode mstep" where
  "Service_GetCallTransferInfo_number E c number type =
     permitted (has c OHOS_PERMISSION_GET_CALL_TRANSFER_INFO)
       (case GetAccountIdByNumber (me_slotCount E) (me_showNumber E) number of
          None \<Rightarrow> State_Monad.return CALL_ERR_INVALID_CALL_NUMBER
        | Some slotId \<Rightarrow> do {
            clk \<leftarrow> read_steady E;
            last \<leftarrow> mreads (\<lambda>g. map_of (g_lastTransfer g) (transfer_key number type));
            (if (case last of None \<Rightarrow> False
                 | Some t \<Rightarrow> seconds_between clk t < MIN_GET_CALL_TRANSFER_TIME)
             then State_Monad.return CALL_ERR_OPERATION_TOO_FREQUENT
             else do {
               _ \<leftarrow> mchange (\<lambda>g. g\<lparr>g_lastTransfer :=
                     AList.update (transfer_key number type) clk (g_lastTransfer g)\<rparr>);
               setting E (AskCallTransfer slotId type) }) })"

subsection \<open>Sound\<close>

definition Service_SetMuted :: "manager_env \<Rightarrow> caller \<Rightarrow> bool \<Rightarrow> ErrCode mstep" where
  "Service_SetMuted E c isMute =
     system_only c (permitted (CheckSetTelephonyStatePermission c)
       (do { ready \<leftarrow> mreads g_control;
             ret \<leftarrow> control (SetMuted (me_service E) isMute);
             _ \<leftarrow> mwhen (ready \<and> me_dsoftbus E \<and> ret = TELEPHONY_SUCCESS) (tell (ShareMute isMute));
             State_Monad.return ret }))"

definition Service_MuteRinger :: "manager_env \<Rightarrow> caller \<Rightarrow> ErrCode mstep" where
  "Service_MuteRinger E c =
     system_only c (permitted (CheckSetTelephonyStatePermission c)
       (do { ready \<leftarrow> mreads g_control;
             ret \<leftarrow> control (MuteRinger_control (me_service E));
             _ \<leftarrow> mwhen (ready \<and> me_dsoftbus E \<and> ret = TELEPHONY_SUCCESS) (tell ShareMuteRinger);
             State_Monad.return ret }))"

definition Service_SetAudioDevice :: "manager_env \<Rightarrow> caller \<Rightarrow> int \<Rightarrow> string \<Rightarrow> ErrCode mstep" where
  "Service_SetAudioDevice E c deviceType address =
     system_only c (permitted (CheckSetTelephonyStatePermission c)
       (do { ready \<leftarrow> mreads g_control;
             unless ready TELEPHONY_ERR_LOCAL_PTR_NULL
               (do { _ \<leftarrow> tell (SetDevice deviceType address);
                     State_Monad.return
                       (if me_answer E (SetDevice deviceType address) = TELEPHONY_SUCCESS
                        then TELEPHONY_SUCCESS else CALL_ERR_SETTING_AUDIO_DEVICE_FAILED) }) }))"

definition Service_SetCallAudioMode :: "manager_env \<Rightarrow> caller \<Rightarrow> int \<Rightarrow> int \<Rightarrow> ErrCode mstep" where
  "Service_SetCallAudioMode E c mode scenarios =
     system_only c (permitted (CheckSetTelephonyStatePermission c)
       (control (do { _ \<leftarrow> emit (Audio (SetCallAudioMode mode scenarios));
                      State_Monad.return TELEPHONY_SUCCESS })))"

definition Service_ReportAudioDeviceInfo :: "manager_env \<Rightarrow> caller \<Rightarrow> ErrCode mstep" where
  "Service_ReportAudioDeviceInfo E c =
     permitted (CheckSetTelephonyStatePermission c)
       (do { _ \<leftarrow> tell ReportAudioDevices; State_Monad.return (me_answer E ReportAudioDevices) })"

subsection \<open>Video\<close>

text \<open>A request to the video manager, whose questions to the stack are told.\<close>

definition video_request :: "(registry \<Rightarrow> video_control_outcome) \<Rightarrow> ErrCode mstep" where
  "video_request f = do {
     r \<leftarrow> mreads (\<lambda>g. s_reg (g_core g));
     _ \<leftarrow> tell_each AskVideo (snd (f r));
     State_Monad.return (fst (f r)) }"

definition Service_ControlCamera :: "manager_env \<Rightarrow> caller \<Rightarrow> int \<Rightarrow> string \<Rightarrow> ErrCode mstep" where
  "Service_ControlCamera E c callId cameraId =
     system_only c (permitted (CheckSetTelephonyStatePermission c)
       (do { r \<leftarrow> mreads (\<lambda>g. s_reg (g_core g));
             open \<leftarrow> mreads g_cameraOpen;
             (let ((ret, qs), open') = VideoControl_ControlCamera (me_video E) r callId cameraId
                     (cl_uid c) (cl_pid c) open in do {
                _ \<leftarrow> tell_each AskVideo qs;
                _ \<leftarrow> mchange (\<lambda>g. g\<lparr>g_cameraOpen := open'\<rparr>);
                State_Monad.return ret }) }))"

text \<open>The id of the request is looked up as the index of a call.\<close>

definition camera_use :: "manager_env \<Rightarrow> int \<Rightarrow> bool \<Rightarrow> unit mstep" where
  "camera_use E callId surface =
     (if \<not> surface then tell CameraReleased
      else do {
        r \<leftarrow> mreads (\<lambda>g. s_reg (g_core g));
        (if (case GetOneCallObjectByIndex callId r of
               None \<Rightarrow> True
             | Some p \<Rightarrow> m_videoState (r_heap r p) \<noteq> TYPE_RECEIVE_ONLY) then do {
           _ \<leftarrow> tell CameraRecorded;
           _ \<leftarrow> tell CameraUsed;
           mwhen (\<not> me_accepts E CameraUsed) (tell CameraReleased) }
         else State_Monad.return ()) })"

definition Service_SetPreviewWindow ::
  "manager_env \<Rightarrow> caller \<Rightarrow> int \<Rightarrow> string \<Rightarrow> bool \<Rightarrow> ErrCode mstep" where
  "Service_SetPreviewWindow E c callId surfaceId surface =
     system_only c (permitted (CheckSetTelephonyStatePermission c)
       (do { _ \<leftarrow> camera_use E callId surface;
             video_request (\<lambda>r. VideoControl_SetPreviewWindow (me_video E) r callId surfaceId surface) }))"

definition Service_SetDisplayWindow ::
  "manager_env \<Rightarrow> caller \<Rightarrow> int \<Rightarrow> string \<Rightarrow> bool \<Rightarrow> ErrCode mstep" where
  "Service_SetDisplayWindow E c callId surfaceId surface =
     unless surface TELEPHONY_ERR_FAIL
       (system_only c (permitted (CheckSetTelephonyStatePermission c)
         (video_request (\<lambda>r. VideoControl_SetDisplayWindow (me_video E) r callId surfaceId surface))))"

text \<open>SetCameraZoom of the control manager does nothing and succeeds.\<close>

definition Service_SetCameraZoom :: "manager_env \<Rightarrow> caller \<Rightarrow> rat \<Rightarrow> ErrCode mstep" where
  "Service_SetCameraZoom E c zoomRatio =
     system_only c (permitted (CheckSetTelephonyStatePermission c)
       (control (State_Monad.return TELEPHONY_SUCCESS)))"

definition Service_SetPausePicture :: "manager_env \<Rightarrow> caller \<Rightarrow> int \<Rightarrow> string \<Rightarrow> ErrCode mstep" where
  "Service_SetPausePicture E c callId path =
     system_only c (permitted (CheckSetTelephonyStatePermission c)
       (video_request (\<lambda>r. VideoControl_SetPausePicture (me_video E) r callId path)))"

definition Service_SetDeviceDirection :: "manager_env \<Rightarrow> caller \<Rightarrow> int \<Rightarrow> int \<Rightarrow> ErrCode mstep" where
  "Service_SetDeviceDirection E c callId rotation =
     system_only c (permitted (CheckSetTelephonyStatePermission c)
       (video_request (\<lambda>r. VideoControl_SetDeviceDirection (me_video E) r callId rotation)))"

definition Service_CancelCallUpgrade :: "manager_env \<Rightarrow> caller \<Rightarrow> int \<Rightarrow> ErrCode mstep" where
  "Service_CancelCallUpgrade E c callId =
     system_only c (permitted (has c OHOS_PERMISSION_PLACE_CALL)
       (video_request (\<lambda>r. VideoControl_CancelCallUpgrade (me_video E) r callId)))"

definition Service_RequestCameraCapabilities :: "manager_env \<Rightarrow> caller \<Rightarrow> int \<Rightarrow> ErrCode mstep" where
  "Service_RequestCameraCapabilities E c callId =
     system_only c (permitted (has c OHOS_PERMISSION_GET_TELEPHONY_STATE)
       (video_request (\<lambda>r. VideoControl_RequestCameraCapabilities (me_video E) r callId)))"

text \<open>A mode that arrives out of range is refused; the others are the enumerators.\<close>

definition ImsCallMode_of :: "int \<Rightarrow> ImsCallMode option" where
  "ImsCallMode_of m =
     (if 0 \<le> m \<and> m < 5
      then Some ([CALL_MODE_AUDIO_ONLY, CALL_MODE_SEND_ONLY, CALL_MODE_RECEIVE_ONLY,
                  CALL_MODE_SEND_RECEIVE, CALL_MODE_VIDEO_PAUSED] ! nat m)
      else None)"

definition Service_UpdateImsCallMode :: "manager_env \<Rightarrow> caller \<Rightarrow> int \<Rightarrow> int \<Rightarrow> ErrCode mstep" where
  "Service_UpdateImsCallMode E c callId mode =
     (case ImsCallMode_of mode of
        None \<Rightarrow> State_Monad.return TELEPHONY_ERR_FAIL
      | Some m \<Rightarrow>
          system_only c (permitted (CheckSetTelephonyStatePermission c)
            (do { r \<leftarrow> mreads (\<lambda>g. s_reg (g_core g));
                  vs \<leftarrow> mreads g_videos;
                  (let (ret, es, vs') = VideoControl_UpdateImsCallMode (me_video E) r callId m vs in do {
                     _ \<leftarrow> tell_each Negotiated es;
                     _ \<leftarrow> mchange (\<lambda>g. g\<lparr>g_videos := vs'\<rparr>);
                     State_Monad.return ret }) })))"

definition Service_UpdateImsRttCallMode ::
  "manager_env \<Rightarrow> caller \<Rightarrow> int \<Rightarrow> ImsRTTCallMode \<Rightarrow> ErrCode mstep" where
  "Service_UpdateImsRttCallMode E c callId mode =
     system_only c (permitted (CheckSetTelephonyStatePermission c)
       (control (UpdateImsRttCallMode_control (me_service E) callId mode)))"

definition Service_SendRttMessage :: "manager_env \<Rightarrow> caller \<Rightarrow> int \<Rightarrow> string \<Rightarrow> ErrCode mstep" where
  "Service_SendRttMessage E c callId rttMessage =
     system_only c (permitted (has c OHOS_PERMISSION_PLACE_CALL)
       (control (SendRttMessage (me_service E) rttMessage)))"

end
