(* ===== verification/Call_Manager_Events.thy ===== *)
theory Call_Manager_Events
  imports Call_Manager_Requests
begin

text \<open>
  The rest of the service (CallManagerService,
  \<^verbatim>\<open>services/call_manager_service/src/call_manager_service.cpp\<close>): what OTT and VoIP
  applications, the device management, Bluetooth and the call interface send.
\<close>

subsection \<open>OTT and VoIP applications\<close>

record OttCallDetailsInfo =
  ot_phoneNum :: string
  ot_bundleName :: string
  ot_videoState :: VideoStateType
  ot_callState :: TelCallState

definition ott_detail :: "OttCallDetailsInfo \<Rightarrow> CallDetailInfo" where
  "ott_detail d = default_detail\<lparr>dt_callType := TYPE_OTT, dt_accountId := ERR_ID, dt_index := ERR_ID,
     dt_voiceDomain := ERR_ID, dt_callMode := ot_videoState d, dt_state := ot_callState d,
     dt_phoneNum := ot_phoneNum d, dt_bundleName := ot_bundleName d\<rparr>"

definition Service_ReportOttCallDetailsInfo ::
  "manager_env \<Rightarrow> caller \<Rightarrow> OttCallDetailsInfo list \<Rightarrow> ErrCode mstep" where
  "Service_ReportOttCallDetailsInfo E c ottVec =
     system_only c (permitted (has c OHOS_PERMISSION_GET_TELEPHONY_STATE)
       (unless (ottVec \<noteq> []) TELEPHONY_ERR_ARGUMENT_INVALID
         (core (UpdateCallsReportInfo (me_service E) ERR_ID (map ott_detail ottVec)))))"

definition Service_ReportOttCallEventInfo :: "manager_env \<Rightarrow> caller \<Rightarrow> int \<Rightarrow> string \<Rightarrow> ErrCode mstep" where
  "Service_ReportOttCallEventInfo E c eventId bundleName =
     system_only c (permitted (has c OHOS_PERMISSION_GET_TELEPHONY_STATE)
       (core (UpdateOttEventInfo (me_service E) eventId bundleName)))"

definition Service_RegisterVoipCallManagerCallback :: "manager_env \<Rightarrow> caller \<Rightarrow> ErrCode mstep" where
  "Service_RegisterVoipCallManagerCallback E c =
     system_only c (permitted (has c OHOS_PERMISSION_GET_TELEPHONY_STATE)
       (do { _ \<leftarrow> tell ConnectVoipService;
             _ \<leftarrow> tell RegisterVoipCallback;
             State_Monad.return TELEPHONY_SUCCESS }))"

definition Service_UnRegisterVoipCallManagerCallback :: "manager_env \<Rightarrow> caller \<Rightarrow> ErrCode mstep" where
  "Service_UnRegisterVoipCallManagerCallback E c =
     system_only c (permitted (has c OHOS_PERMISSION_GET_TELEPHONY_STATE)
       (do { _ \<leftarrow> tell UnRegisterVoipCallback;
             State_Monad.return (me_answer E UnRegisterVoipCallback) }))"

definition Service_SetVoIPCallState :: "manager_env \<Rightarrow> caller \<Rightarrow> int \<Rightarrow> ErrCode mstep" where
  "Service_SetVoIPCallState E c state =
     system_only c (permitted (has c OHOS_PERMISSION_SET_TELEPHONY_STATE \<or>
                               has c OHOS_PERMISSION_GET_TELEPHONY_STATE)
       (control (SetVoIPCallState (me_service E) state)))"

definition Service_GetVoIPCallState :: "manager_env \<Rightarrow> caller \<Rightarrow> int \<Rightarrow> (ErrCode \<times> int) mstep" where
  "Service_GetVoIPCallState E c state =
     system_only_out c state (control_out state (reads (\<lambda>s. (TELEPHONY_SUCCESS, s_voipState s))))"

definition Service_SetVoIPCallInfo :: "manager_env \<Rightarrow> caller \<Rightarrow> int \<Rightarrow> int \<Rightarrow> string \<Rightarrow> ErrCode mstep" where
  "Service_SetVoIPCallInfo E c callId state phoneNumber =
     system_only c (permitted (has c OHOS_PERMISSION_SET_TELEPHONY_STATE \<or>
                               has c OHOS_PERMISSION_GET_TELEPHONY_STATE)
       (control (SetVoIPCallInfo (me_service E) callId state phoneNumber)))"

definition Service_GetVoIPCallInfo ::
  "manager_env \<Rightarrow> caller \<Rightarrow> int \<times> int \<times> string \<Rightarrow> (ErrCode \<times> int \<times> int \<times> string) mstep" where
  "Service_GetVoIPCallInfo E c v =
     system_only_out c v (control_out v (reads (\<lambda>s.
       let (ret, info) = GetVoIPCallInfo (me_service E) s
       in (ret, case info of None \<Rightarrow> v | Some i \<Rightarrow> i))))"

definition AUDIO_UID :: int where "AUDIO_UID = 1041"

definition Service_NotifyVoIPAudioStreamStart :: "manager_env \<Rightarrow> caller \<Rightarrow> int \<Rightarrow> ErrCode mstep" where
  "Service_NotifyVoIPAudioStreamStart E c uid =
     permitted (has c OHOS_PERMISSION_GET_TELEPHONY_STATE)
       (unless (cl_uid c = AUDIO_UID) TELEPHONY_ERR_FAIL
         (do { _ \<leftarrow> tell (VoipAudioStarted uid); State_Monad.return (me_answer E (VoipAudioStarted uid)) }))"

subsection \<open>Codes, policies and notifications\<close>

definition supportSpecialCode :: "string list" where
  "supportSpecialCode = [''*#2846#'', ''*#2846*'', ''*#*#2846579#*#*'', ''#1#'', ''*#28465#'',
     ''*#*#121314#*#*'', ''*#*#19467328#*#*'', ''*#*#2589#*#*'', ''*#*#2845#*#*'',
     ''*#*#2846#*#*'', ''*#*#2847#*#*'', ''*#*#28465#*#*'', ''*#*#2627#*#*'', ''*#*#258#*#*'',
     ''*#28460'']"

definition Service_InputDialerSpecialCode :: "manager_env \<Rightarrow> caller \<Rightarrow> string \<Rightarrow> ErrCode mstep" where
  "Service_InputDialerSpecialCode E c specialCode =
     system_only c (permitted (has c OHOS_PERMISSION_PLACE_CALL)
       (unless (specialCode \<in> set supportSpecialCode) TELEPHONY_ERR_ARGUMENT_INVALID
         (do { _ \<leftarrow> tell (PublishSpecialCode specialCode);
               State_Monad.return (if me_accepts E (PublishSpecialCode specialCode)
                 then TELEPHONY_SUCCESS else TELEPHONY_ERR_PUBLISH_BROADCAST_FAIL) })))"

definition Service_RemoveMissedIncomingCallNotification :: "manager_env \<Rightarrow> caller \<Rightarrow> ErrCode mstep" where
  "Service_RemoveMissedIncomingCallNotification E c =
     system_only c (permitted (has c OHOS_PERMISSION_SET_TELEPHONY_STATE \<and>
                               has c OHOS_PERMISSION_READ_CALL_LOG \<and> has c OHOS_PERMISSION_WRITE_CALL_LOG)
       (do { ready \<leftarrow> mreads g_control;
             unless ready TELEPHONY_ERR_LOCAL_PTR_NULL
               (do { _ \<leftarrow> tell RemoveMissedNotification;
                     State_Monad.return (me_answer E RemoveMissedNotification) }) }))"

definition Service_SetRegMmiCodeCallbackState :: "manager_env \<Rightarrow> caller \<Rightarrow> bool \<Rightarrow> ErrCode mstep" where
  "Service_SetRegMmiCodeCallbackState E c isReg =
     permitted (CheckSetTelephonyStatePermission c)
       (do { ready \<leftarrow> mreads g_control;
             unless ready TELEPHONY_ERR_LOCAL_PTR_NULL
               (do { _ \<leftarrow> tell (SetMmiCallbackState isReg); State_Monad.return TELEPHONY_SUCCESS }) })"

definition EDM_UID :: int where "EDM_UID = 3057"

definition SetEdmPolicy :: "bool \<Rightarrow> string list \<Rightarrow> bool \<Rightarrow> string list \<Rightarrow> ErrCode step" where
  "SetEdmPolicy dTrust dList iTrust iList = do {
     p \<leftarrow> reads s_edm;
     (let (ret, p') = SetCallPolicy dTrust dList iTrust iList p in do {
        _ \<leftarrow> change (\<lambda>s. s\<lparr>s_edm := p'\<rparr>);
        State_Monad.return ret }) }"

definition Service_SetCallPolicyInfo ::
  "manager_env \<Rightarrow> caller \<Rightarrow> bool \<Rightarrow> string list \<Rightarrow> bool \<Rightarrow> string list \<Rightarrow> ErrCode mstep" where
  "Service_SetCallPolicyInfo E c dTrust dList iTrust iList =
     permitted (CheckSetTelephonyStatePermission c)
       (do { ready \<leftarrow> mreads g_control;
             unless ready TELEPHONY_ERR_LOCAL_PTR_NULL
               (permitted (cl_uid c = EDM_UID) (core (SetEdmPolicy dTrust dList iTrust iList))) })"

definition Service_PreloadCallUi :: "manager_env \<Rightarrow> caller \<Rightarrow> bool \<Rightarrow> ErrCode mstep" where
  "Service_PreloadCallUi E c enable =
     system_only c (permitted (CheckSetTelephonyStatePermission c)
       (control (do { _ \<leftarrow> PreloadCallUi enable (cl_pid c); State_Monad.return TELEPHONY_SUCCESS })))"

definition Service_HasDistributedCommunicationCapability :: "manager_env \<Rightarrow> caller \<Rightarrow> bool mstep" where
  "Service_HasDistributedCommunicationCapability E c =
     State_Monad.return (me_dsoftbus E \<and> me_distributedConnected E)"

subsection \<open>Bluetooth and transferred calls\<close>

definition PROXY_BLUETOOTH_CALL :: int where "PROXY_BLUETOOTH_CALL = 0"

text \<open>The object of a proxy is made once; the answer is whether there is one.\<close>

definition Service_GetProxyObjectPtr :: "manager_env \<Rightarrow> caller \<Rightarrow> int \<Rightarrow> bool mstep" where
  "Service_GetProxyObjectPtr E c proxyType =
     unless (CheckCallerIsSystemApp c) False (do {
       known \<leftarrow> mreads (\<lambda>g. proxyType \<in> set (g_proxies g));
       (if known then State_Monad.return True
        else if proxyType = PROXY_BLUETOOTH_CALL then do {
          _ \<leftarrow> mchange (\<lambda>g. g\<lparr>g_proxies := g_proxies g @ [proxyType]\<rparr>);
          State_Monad.return True }
        else State_Monad.return False) })"

definition Service_RegisterBluetoothCallManagerCallbackPtr ::
  "manager_env \<Rightarrow> caller \<Rightarrow> int \<Rightarrow> string \<Rightarrow> bool mstep" where
  "Service_RegisterBluetoothCallManagerCallbackPtr E c phoneIndex macAddress =
     unless (has c OHOS_PERMISSION_GET_TELEPHONY_STATE) False (do {
       _ \<leftarrow> mchange (\<lambda>g. g\<lparr>g_btCallback := True\<rparr>);
       _ \<leftarrow> mwhen (me_profile E) (tell WatchHandsFree);
       _ \<leftarrow> tell (SetBtMacAddress phoneIndex macAddress);
       State_Monad.return True })"

definition Service_RegisterTransferController :: "manager_env \<Rightarrow> caller \<Rightarrow> bool \<Rightarrow> ErrCode mstep" where
  "Service_RegisterTransferController E c callback =
     system_only c (permitted (has c OHOS_PERMISSION_SET_TELEPHONY_STATE)
       (unless callback TELEPHONY_ERR_ARGUMENT_NULL
         (do { _ \<leftarrow> tell RegisterTransfer; State_Monad.return (me_answer E RegisterTransfer) })))"

definition Service_UnRegisterTransferController :: "manager_env \<Rightarrow> caller \<Rightarrow> ErrCode mstep" where
  "Service_UnRegisterTransferController E c =
     system_only c (permitted (has c OHOS_PERMISSION_SET_TELEPHONY_STATE)
       (do { _ \<leftarrow> tell UnRegisterTransfer; State_Monad.return (me_answer E UnRegisterTransfer) }))"

definition Service_NotifyTransferCallContact :: "manager_env \<Rightarrow> caller \<Rightarrow> string \<Rightarrow> ErrCode mstep" where
  "Service_NotifyTransferCallContact E c contactName =
     system_only c (permitted (has c OHOS_PERMISSION_SET_TELEPHONY_STATE)
       (do { call \<leftarrow> mreads (\<lambda>g. GetIncomingBtTransferCall (se_build (me_service E)) (s_reg (g_core g)));
             status \<leftarrow> mreads g_status;
             (case (call, status) of
                (Some p, True) \<Rightarrow> core (NotifyTransferCallContact (me_service E) contactName p)
              | _ \<Rightarrow> do { _ \<leftarrow> tell (CacheAncsName contactName); State_Monad.return TELEPHONY_SUCCESS }) }))"

subsection \<open>Events of the call interface\<close>

definition IS_CELIA_CALL :: int where "IS_CELIA_CALL = 1"

definition dealCeliaCallEvent :: "manager_env \<Rightarrow> int \<Rightarrow> ErrCode mstep" where
  "dealCeliaCallEvent E callId = do {
     call \<leftarrow> mreads (\<lambda>g. GetOneCallObject callId (s_reg (g_core g)));
     (case call of
        None \<Rightarrow> State_Monad.return TELEPHONY_ERR_LOCAL_PTR_NULL
      | Some p \<Rightarrow> do {
          status \<leftarrow> mreads g_status;
          _ \<leftarrow> mwhen status (core (HandleCeliaCall (me_service E) p));
          _ \<leftarrow> core (on_call p (SetCeliaCallType IS_CELIA_CALL));
          _ \<leftarrow> mwhen (me_dcallSwitchedOn E) (tell SwitchOffDCall);
          State_Monad.return TELEPHONY_SUCCESS }) }"

definition HandleDisplaySpecifiedCallPage :: "manager_env \<Rightarrow> int \<Rightarrow> ErrCode mstep" where
  "HandleDisplaySpecifiedCallPage E callId = do {
     s \<leftarrow> mreads g_core;
     (case GetOneCallObject callId (s_reg s) of
        None \<Rightarrow> State_Monad.return TELEPHONY_ERR_LOCAL_PTR_NULL
      | Some p \<Rightarrow>
          let info = GetCallAttributeInfo (se_build (me_service E)) (se_want (me_service E))
                       (r_heap (s_reg s) p) default_info;
              object = rp_parseParams (se_report (me_service E)) (i_extraParamsString info) in do {
            _ \<leftarrow> core (on_call p (SetExtraParams (me_removePage E object)));
            _ \<leftarrow> tell (ShowCallPage (info\<lparr>i_extraParamsString := me_pageText E object\<rparr>));
            State_Monad.return TELEPHONY_SUCCESS }) }"

definition HandleCeliaAutoAnswerCall :: "int \<Rightarrow> bool \<Rightarrow> ErrCode mstep" where
  "HandleCeliaAutoAnswerCall callId enable = do {
     call \<leftarrow> mreads (\<lambda>g. GetOneCallObject callId (s_reg (g_core g)));
     (case call of
        None \<Rightarrow> State_Monad.return TELEPHONY_ERR_LOCAL_PTR_NULL
      | Some p \<Rightarrow> do {
          _ \<leftarrow> core (on_call p (SetAiAutoAnswer enable));
          State_Monad.return TELEPHONY_SUCCESS }) }"

text \<open>The answer is not looked at by the caller.\<close>

definition HandleVoIPCallEvent :: "manager_env \<Rightarrow> int \<Rightarrow> string \<Rightarrow> ErrCode mstep" where
  "HandleVoIPCallEvent E callId eventName = do {
     s \<leftarrow> mreads g_core;
     (case GetOneCallObject callId (s_reg s) of
        None \<Rightarrow> State_Monad.return TELEPHONY_ERR_LOCAL_PTR_NULL
      | Some p \<Rightarrow>
          let c = r_heap (s_reg s) p;
              info = GetCallAttributeInfo (se_build (me_service E)) (se_want (me_service E)) c default_info;
              voipId = (if m_callType c = TYPE_VOIP then v_voipCallId (i_voipCallInfo info) else []) in do {
            _ \<leftarrow> tell (VoipWindowEvent voipId eventName);
            State_Monad.return (me_answer E (VoipWindowEvent voipId eventName)) }) }"

definition Service_SendCallUiEvent :: "manager_env \<Rightarrow> caller \<Rightarrow> int \<Rightarrow> string \<Rightarrow> ErrCode mstep" where
  "Service_SendCallUiEvent E c callId eventName =
     permitted (CheckSetTelephonyStatePermission c)
       (if eventName = ''EVENT_IS_CELIA_CALL'' then dealCeliaCallEvent E callId
        else if eventName = ''EVENT_SPEAKER_OFF'' then do {
          _ \<leftarrow> tell SpeakerInactive;
          State_Monad.return (if me_accepts E SpeakerInactive then TELEPHONY_SUCCESS else TELEPHONY_ERR_FAIL) }
        else if eventName = ''DISPLAY_SPECIFIED_CALL_PAGE_BY_CALL_ID''
        then HandleDisplaySpecifiedCallPage E callId
        else if eventName = ''EVENT_BLUETOOTH_SCO_STATE_OFF'' then do {
          _ \<leftarrow> tell DisconnectBtSco; State_Monad.return (me_answer E DisconnectBtSco) }
        else if eventName = ''EVENT_BLUETOOTH_SCO_STATE_ON'' then do {
          _ \<leftarrow> tell ConnectBtSco; State_Monad.return (me_answer E ConnectBtSco) }
        else if eventName = ''EVENT_SUPPORT_BLUETOOTH_CALL'' then
          State_Monad.return (if me_supportBtCall E then TELEPHONY_SUCCESS else TELEPHONY_ERR_FAIL)
        else if eventName = ''EVENT_NOT_SUPPORT_BLUETOOTH_CALL'' then
          State_Monad.return (if \<not> me_supportBtCall E then TELEPHONY_SUCCESS else TELEPHONY_ERR_FAIL)
        else if eventName = ''EVENT_CELIA_AUTO_ANSWER_CALL_ON'' \<or>
                eventName = ''EVENT_CELIA_AUTO_ANSWER_CALL_OFF''
        then HandleCeliaAutoAnswerCall callId (eventName = ''EVENT_CELIA_AUTO_ANSWER_CALL_ON'')
        else if eventName = ''EVENT_VOIP_CALL_SUCCESS'' \<or> eventName = ''EVENT_VOIP_CALL_FAILED'' then do {
          _ \<leftarrow> HandleVoIPCallEvent E callId eventName;
          State_Monad.return TELEPHONY_SUCCESS }
        else if eventName = ''EVENT_INVALID_VIDEO_FD'' then
          control (do { _ \<leftarrow> HandleVideoRingPlayFail (me_service E); State_Monad.return TELEPHONY_SUCCESS })
        else State_Monad.return TELEPHONY_SUCCESS)"

subsection \<open>Recording\<close>

text \<open>The call with a number, which may be recorded by the application that holds its token.\<close>

definition Service_CheckCallRecordingPermission :: "manager_env \<Rightarrow> caller \<Rightarrow> string \<Rightarrow> string \<Rightarrow> bool mstep" where
  "Service_CheckCallRecordingPermission E c phoneNumber token =
     unless (CheckCallerIsSystemApp c) False
       (unless (has c OHOS_PERMISSION_GET_TELEPHONY_STATE) False
         (mreads (\<lambda>g. let r = s_reg (g_core g) in
            case GetOneCallObject_number phoneNumber r of
              None \<Rightarrow> False
            | Some p \<Rightarrow> m_callState (r_heap r p) = CALL_STATUS_ACTIVE \<and>
                       m_token (r_heap r p) \<noteq> [] \<and> m_token (r_heap r p) = token)))"

text \<open>
  Recording is allowed exactly to a system application that may read the state of the
  calls, for an active call whose token it presents; a call that was dialed without a token
  cannot be recorded, and the question changes nothing.
\<close>

theorem recording_needs_the_token:
  "run_state (Service_CheckCallRecordingPermission E c phoneNumber token) g =
     ((cl_system c \<and> cl_granted c ''ohos.permission.GET_TELEPHONY_STATE'' \<and> token \<noteq> [] \<and>
       (\<exists>p. GetOneCallObject_number phoneNumber (s_reg (g_core g)) = Some p \<and>
            m_callState (r_heap (s_reg (g_core g)) p) = CALL_STATUS_ACTIVE \<and>
            m_token (r_heap (s_reg (g_core g)) p) = token)), g)"
  by (auto simp: Service_CheckCallRecordingPermission_def CheckCallerIsSystemApp_def has_def
    OHOS_PERMISSION_GET_TELEPHONY_STATE_def Let_def split: option.splits)

end
