(* ===== verification/Report_Data.thy ===== *)
theory Report_Data
  imports Call_Service Video_Call_State
begin

text \<open>
  The structures applications are told with
  (\<^verbatim>\<open>interfaces/innerkits/call_manager_inner_type.h\<close>, \<^verbatim>\<open>call_manager_info.h\<close>), and the
  structures that cross a process boundary as they lie in memory.  Enumerations that cross
  it as numbers are cast back without a check: what the cast makes of a number is an
  argument, the record \<open>enum_casts\<close>, of which only this is used, that an enumerator comes
  back as itself.
\<close>

subsection \<open>Structures\<close>

datatype CallSessionEventId =
    EVENT_CAMERA_FAILURE | EVENT_CAMERA_READY | EVENT_RELEASE_DISPLAY_SURFACE
  | EVENT_RELEASE_PREVIEW_SURFACE

record MmiCodeInfo =
  mmi_result :: int
  mmi_message :: string
  mmi_mmiCodeType :: int
  mmi_action :: int
  mmi_status :: int
  mmi_classCw :: int
  mmi_number :: string
  mmi_reason :: int
  mmi_time :: int

record CallSessionEvent =
  sn_eventId :: CallSessionEventId
  sn_callId :: int

record PeerDimensionsDetail =
  pd_callId :: int
  pd_width :: int
  pd_height :: int

record CameraCapabilities =
  cc_callId :: int
  cc_width :: int
  cc_height :: int

record RttEvent =
  rt_callId :: int
  rt_eventType :: int
  rt_reason :: int

record RttError =
  rx_callId :: int
  rx_operationType :: int
  rx_causeCode :: int
  rx_reasonText :: string

subsection \<open>Structures sent as they lie in memory\<close>

datatype raw_struct =
    RawCallEvent CallEventInfo | RawMmiCode MmiCodeInfo | RawMediaMode CallMediaModeInfo
  | RawSession CallSessionEvent | RawDimensions PeerDimensionsDetail | RawCamera CameraCapabilities

text \<open>The types of these structures are numbered.\<close>

fun raw_kind :: "raw_struct \<Rightarrow> nat" where
  "raw_kind (RawCallEvent _) = 0"
| "raw_kind (RawMmiCode _) = 1"
| "raw_kind (RawMediaMode _) = 2"
| "raw_kind (RawSession _) = 3"
| "raw_kind (RawDimensions _) = 4"
| "raw_kind (RawCamera _) = 5"

subsection \<open>Enumerations sent as numbers\<close>

fun TelConferenceState_code :: "TelConferenceState \<Rightarrow> int" where
  "TelConferenceState_code TEL_CONFERENCE_IDLE = 0"
| "TelConferenceState_code TEL_CONFERENCE_ACTIVE = 1"
| "TelConferenceState_code TEL_CONFERENCE_HOLDING = 2"
| "TelConferenceState_code TEL_CONFERENCE_DISCONNECTING = 3"
| "TelConferenceState_code TEL_CONFERENCE_DISCONNECTED = 4"

fun CallDirection_code :: "CallDirection \<Rightarrow> int" where
  "CallDirection_code CALL_DIRECTION_IN = 0"
| "CallDirection_code CALL_DIRECTION_OUT = 1"
| "CallDirection_code CALL_DIRECTION_UNKNOW = 2"

fun CallAnswerType_code :: "CallAnswerType \<Rightarrow> int" where
  "CallAnswerType_code CALL_ANSWER_MISSED = 0"
| "CallAnswerType_code CALL_ANSWER_ACTIVED = 1"
| "CallAnswerType_code CALL_ANSWER_REJECT = 2"
| "CallAnswerType_code CALL_ANSWER_BLOCKED = 6"
| "CallAnswerType_code CALL_ANSWERED_ELSEWHER = 7"
| "CallAnswerType_code CALL_DISCONNECTED_BY_REMOTE = 8"

fun MarkType_code :: "MarkType \<Rightarrow> int" where
  "MarkType_code MARK_TYPE_DEFAULT = -1"
| "MarkType_code MARK_TYPE_NONE = 0"
| "MarkType_code MARK_TYPE_CRANK = 1"
| "MarkType_code MARK_TYPE_FRAUD = 2"
| "MarkType_code MARK_TYPE_EXPRESS = 3"
| "MarkType_code MARK_TYPE_PROMOTE_SALES = 4"
| "MarkType_code MARK_TYPE_HOUSE_AGENT = 5"
| "MarkType_code MARK_TYPE_INSURANCE = 6"
| "MarkType_code MARK_TYPE_TAXI = 7"
| "MarkType_code MARK_TYPE_CUSTOM = 8"
| "MarkType_code MARK_TYPE_OTHERS = 9"
| "MarkType_code MARK_TYPE_YELLOW_PAGE = 10"
| "MarkType_code MARK_TYPE_ENTERPRISE = 11"
| "MarkType_code MARK_TYPE_FRAUD_RISK = 12"
| "MarkType_code MARK_TYPE_EDUCATION_TRAINING = 13"
| "MarkType_code MARK_TYPE_HEADHUNTING = 14"
| "MarkType_code MARK_TYPE_LOAN = 15"

fun RttCallState_code :: "RttCallState \<Rightarrow> int" where
  "RttCallState_code RTT_STATE_NO = 0"
| "RttCallState_code RTT_STATE_YES = 1"
| "RttCallState_code RTT_STATE_REMOTE_TTY = 2"
| "RttCallState_code RTT_STATE_REMOTE_NOT_SUPPORT = 3"

record enum_casts =
  as_CallType :: "int \<Rightarrow> CallType"
  as_VideoStateType :: "int \<Rightarrow> VideoStateType"
  as_TelCallState :: "int \<Rightarrow> TelCallState"
  as_TelConferenceState :: "int \<Rightarrow> TelConferenceState"
  as_CallDirection :: "int \<Rightarrow> CallDirection"
  as_CallAnswerType :: "int \<Rightarrow> CallAnswerType"
  as_MarkType :: "int \<Rightarrow> MarkType"
  as_RttCallState :: "int \<Rightarrow> RttCallState"

definition casts_back :: "enum_casts \<Rightarrow> bool" where
  "casts_back K \<longleftrightarrow>
     (\<forall>e. as_CallType K (CallType_code e) = e) \<and>
     (\<forall>e. as_VideoStateType K (VideoStateType_code e) = e) \<and>
     (\<forall>e. as_TelCallState K (TelCallState_code e) = e) \<and>
     (\<forall>e. as_TelConferenceState K (TelConferenceState_code e) = e) \<and>
     (\<forall>e. as_CallDirection K (CallDirection_code e) = e) \<and>
     (\<forall>e. as_CallAnswerType K (CallAnswerType_code e) = e) \<and>
     (\<forall>e. as_MarkType K (MarkType_code e) = e) \<and>
     (\<forall>e. as_RttCallState K (RttCallState_code e) = e)"

end
