(* ===== verification/Message_Parcel.thy ===== *)
theory Message_Parcel
  imports Call_Manager_Events Report_Data
begin

text \<open>
  The messages between an application and the service.  The parcel is the platform's
  (\<^verbatim>\<open>MessageParcel\<close>): how it is read and written is an argument, here the record
  \<open>message_parcel\<close> over a type of parcels.  What the two ends rely on is \<open>parcel_laws\<close>:
  what was written is read back in the same order.
\<close>

subsection \<open>Structures sent as raw data\<close>

text \<open>A character array of a structure is a list of all its characters, the zeros included.\<close>

definition kMaxAddressLen :: nat where "kMaxAddressLen = 225"
definition kMaxDeviceNameLen :: nat where "kMaxDeviceNameLen = 64"

record AudioDevice =
  ad_deviceType :: int
  ad_address :: string
  ad_deviceName :: string

record CallRestrictionInfo =
  cr_password :: string
  cr_fac :: int
  cr_mode :: int

record OttCallEventInfo =
  oe_ottCallEventId :: int
  oe_bundleName :: string

definition c_string :: "string \<Rightarrow> string" where
  "c_string a = takeWhile (\<lambda>b. b \<noteq> CHR 0x00) a"

definition strnlen :: "string \<Rightarrow> nat \<Rightarrow> nat" where
  "strnlen a n = length (takeWhile (\<lambda>b. b \<noteq> CHR 0x00) (take n a))"

lemma strnlen_le: "strnlen a n \<le> n"
  by (simp add: strnlen_def order_trans [OF length_takeWhile_le])

text \<open>An array whose length the check accepts ends within its bounds.\<close>

lemma strnlen_terminated:
  assumes "strnlen a (Suc n) \<noteq> Suc n" "length a = Suc n"
  shows "CHR 0x00 \<in> set a \<and> length (c_string a) \<le> n"
proof -
  from assms(2) have t: "take (Suc n) a = a" by simp
  have len: "length (c_string a) \<noteq> Suc n" using assms(1) t by (simp add: strnlen_def c_string_def)
  moreover have "length (c_string a) \<le> Suc n"
    using assms(2) length_takeWhile_le [of _ a] by (simp add: c_string_def)
  moreover have "CHR 0x00 \<in> set a"
  proof (rule ccontr)
    assume "CHR 0x00 \<notin> set a"
    then have "\<forall>b\<in>set a. b \<noteq> CHR 0x00" by blast
    then have "c_string a = a" unfolding c_string_def by (rule takeWhile_eq_all_conv [THEN iffD2])
    with assms(2) len show False by simp
  qed
  ultimately show ?thesis by simp
qed

subsection \<open>Parcels\<close>

datatype parcel_item =
    PToken string | PInt8 char | PInt32 int | PUint32 int | PBool bool | PFloat rat
  | PString string | PString16 string | PCString string
  | PStringVector "string list" | PString16Vector "string list" | PRemoteObject bool
  | PAudioDevice AudioDevice | PRestriction CallRestrictionInfo | PTransfer CallTransferInfo
  | POttDetails OttCallDetailsInfo | POttEvent OttCallEventInfo
  | PInt64 int | PUint8Vector "8 word list" | PRaw raw_struct

datatype item_kind =
    KToken | KInt8 | KInt32 | KUint32 | KBool | KFloat | KString | KString16 | KCString
  | KStringVector | KString16Vector | KRemoteObject | KAudioDevice | KRestriction | KTransfer
  | KOttDetails | KOttEvent | KInt64 | KUint8Vector | KRaw nat

fun kind_of :: "parcel_item \<Rightarrow> item_kind" where
  "kind_of (PToken _) = KToken"
| "kind_of (PInt8 _) = KInt8"
| "kind_of (PInt32 _) = KInt32"
| "kind_of (PUint32 _) = KUint32"
| "kind_of (PBool _) = KBool"
| "kind_of (PFloat _) = KFloat"
| "kind_of (PString _) = KString"
| "kind_of (PString16 _) = KString16"
| "kind_of (PCString _) = KCString"
| "kind_of (PStringVector _) = KStringVector"
| "kind_of (PString16Vector _) = KString16Vector"
| "kind_of (PRemoteObject _) = KRemoteObject"
| "kind_of (PAudioDevice _) = KAudioDevice"
| "kind_of (PRestriction _) = KRestriction"
| "kind_of (PTransfer _) = KTransfer"
| "kind_of (POttDetails _) = KOttDetails"
| "kind_of (POttEvent _) = KOttEvent"
| "kind_of (PInt64 _) = KInt64"
| "kind_of (PUint8Vector _) = KUint8Vector"
| "kind_of (PRaw d) = KRaw (raw_kind d)"

text \<open>Reading may fail; writing tells whether it was done.\<close>

record 'p message_parcel =
  mp_empty :: 'p
  mp_read :: "item_kind \<Rightarrow> 'p \<Rightarrow> parcel_item option \<times> 'p"
  mp_write :: "parcel_item \<Rightarrow> 'p \<Rightarrow> bool \<times> 'p"

text \<open>
  The documented behaviour of a parcel with room for what is written: a new parcel holds
  nothing, writing adds an item at the end, and reading at the type of the first item
  gives this item and removes it.  Nothing is said of a null pointer among the items.
\<close>

definition parcel_laws :: "'p message_parcel \<Rightarrow> ('p \<Rightarrow> parcel_item list) \<Rightarrow> bool" where
  "parcel_laws M items \<longleftrightarrow>
     items (mp_empty M) = [] \<and>
     (\<forall>v p. v \<noteq> PRemoteObject False \<longrightarrow>
        fst (mp_write M v p) \<and> items (snd (mp_write M v p)) = items p @ [v]) \<and>
     (\<forall>p v vs. items p = v # vs \<longrightarrow>
        fst (mp_read M (kind_of v) p) = Some v \<and> items (snd (mp_read M (kind_of v) p)) = vs)"

lemma parcel_empty: "parcel_laws M items \<Longrightarrow> items (mp_empty M) = []"
  by (simp add: parcel_laws_def)

lemma parcel_write:
  "parcel_laws M items \<Longrightarrow> v \<noteq> PRemoteObject False \<Longrightarrow> fst (mp_write M v p)"
  "parcel_laws M items \<Longrightarrow> v \<noteq> PRemoteObject False \<Longrightarrow> items (snd (mp_write M v p)) = items p @ [v]"
  by (simp_all add: parcel_laws_def)

lemma parcel_read:
  assumes "parcel_laws M items" "items p = v # vs" "kind_of v = k"
  shows "fst (mp_read M k p) = Some v" "items (snd (mp_read M k p)) = vs"
  using assms by (auto simp: parcel_laws_def)

text \<open>A parcel that keeps its items in a list.\<close>

definition list_parcel :: "parcel_item list message_parcel" where
  "list_parcel = \<lparr>mp_empty = [],
     mp_read = (\<lambda>k p. case p of [] \<Rightarrow> (None, p) | v # vs \<Rightarrow> if kind_of v = k then (Some v, vs) else (None, p)),
     mp_write = (\<lambda>v p. (True, p @ [v]))\<rparr>"

lemma list_parcel_laws: "parcel_laws list_parcel id"
  by (simp add: parcel_laws_def list_parcel_def)

text \<open>Items written one after the other, the answers not looked at.\<close>

primrec write_all :: "'p message_parcel \<Rightarrow> parcel_item list \<Rightarrow> 'p \<Rightarrow> 'p" where
  "write_all M [] p = p"
| "write_all M (v # vs) p = write_all M vs (snd (mp_write M v p))"

lemma items_write_all:
  "parcel_laws M items \<Longrightarrow> PRemoteObject False \<notin> set vs \<Longrightarrow> items (write_all M vs p) = items p @ vs"
  by (induction vs arbitrary: p) (auto simp: parcel_write)

subsection \<open>A request being served\<close>

record 'p ipc_env =
  ie_parcel :: "'p message_parcel"
  ie_manager :: manager_env
  ie_surface :: bool                              \<comment> \<open>a surface is made from a producer\<close>
  ie_cast :: bool                                 \<comment> \<open>a callback is made from a remote object\<close>
  ie_default :: "int \<Rightarrow> 'p \<Rightarrow> 'p \<Rightarrow> int \<times> 'p"        \<comment> \<open>IPCObjectStub::OnRemoteRequest\<close>
  ie_bool :: bool                                 \<comment> \<open>what a variable without a value holds\<close>
  ie_int :: "nat \<Rightarrow> int"

record 'p exchange =
  x_data :: 'p
  x_reply :: 'p
  x_manager :: manager

type_synonym ('p, 'a) xstep = "('p exchange, 'a) state"

definition ie_code :: "'p ipc_env \<Rightarrow> ErrCode \<Rightarrow> int" where
  "ie_code I r = se_code (me_service (ie_manager I)) r"

definition read_item :: "'p ipc_env \<Rightarrow> item_kind \<Rightarrow> ('p, parcel_item option) xstep" where
  "read_item I k = State (\<lambda>x. let (v, d) = mp_read (ie_parcel I) k (x_data x) in (v, x\<lparr>x_data := d\<rparr>))"

definition write_item :: "'p ipc_env \<Rightarrow> parcel_item \<Rightarrow> ('p, bool) xstep" where
  "write_item I v = State (\<lambda>x. let (ok, r) = mp_write (ie_parcel I) v (x_reply x) in (ok, x\<lparr>x_reply := r\<rparr>))"

definition serve :: "'a mstep \<Rightarrow> ('p, 'a) xstep" where
  "serve m = State (\<lambda>x. let (a, g) = run_state m (x_manager x) in (a, x\<lparr>x_manager := g\<rparr>))"

text \<open>A reading that fails gives zero, false, nothing or a null pointer.\<close>

definition ReadInt32 :: "'p ipc_env \<Rightarrow> ('p, int) xstep" where
  "ReadInt32 I = do { v \<leftarrow> read_item I KInt32;
     State_Monad.return (case v of Some (PInt32 i) \<Rightarrow> i | _ \<Rightarrow> 0) }"
definition ReadUint32 :: "'p ipc_env \<Rightarrow> ('p, int) xstep" where
  "ReadUint32 I = do { v \<leftarrow> read_item I KUint32;
     State_Monad.return (case v of Some (PUint32 i) \<Rightarrow> i | _ \<Rightarrow> 0) }"
definition ReadInt8 :: "'p ipc_env \<Rightarrow> ('p, char) xstep" where
  "ReadInt8 I = do { v \<leftarrow> read_item I KInt8;
     State_Monad.return (case v of Some (PInt8 i) \<Rightarrow> i | _ \<Rightarrow> CHR 0x00) }"
definition ReadBool :: "'p ipc_env \<Rightarrow> ('p, bool) xstep" where
  "ReadBool I = do { v \<leftarrow> read_item I KBool;
     State_Monad.return (case v of Some (PBool b) \<Rightarrow> b | _ \<Rightarrow> False) }"
definition ReadFloat :: "'p ipc_env \<Rightarrow> ('p, rat) xstep" where
  "ReadFloat I = do { v \<leftarrow> read_item I KFloat;
     State_Monad.return (case v of Some (PFloat f) \<Rightarrow> f | _ \<Rightarrow> 0) }"
definition ReadString :: "'p ipc_env \<Rightarrow> ('p, string) xstep" where
  "ReadString I = do { v \<leftarrow> read_item I KString;
     State_Monad.return (case v of Some (PString s) \<Rightarrow> s | _ \<Rightarrow> []) }"
definition ReadString16 :: "'p ipc_env \<Rightarrow> ('p, string) xstep" where
  "ReadString16 I = do { v \<leftarrow> read_item I KString16;
     State_Monad.return (case v of Some (PString16 s) \<Rightarrow> s | _ \<Rightarrow> []) }"
definition ReadCString :: "'p ipc_env \<Rightarrow> ('p, string option) xstep" where
  "ReadCString I = do { v \<leftarrow> read_item I KCString;
     State_Monad.return (case v of Some (PCString s) \<Rightarrow> Some s | _ \<Rightarrow> None) }"
definition ReadInterfaceToken :: "'p ipc_env \<Rightarrow> ('p, string) xstep" where
  "ReadInterfaceToken I = do { v \<leftarrow> read_item I KToken;
     State_Monad.return (case v of Some (PToken s) \<Rightarrow> s | _ \<Rightarrow> []) }"
definition ReadStringVector :: "'p ipc_env \<Rightarrow> ('p, string list option) xstep" where
  "ReadStringVector I = do { v \<leftarrow> read_item I KStringVector;
     State_Monad.return (case v of Some (PStringVector s) \<Rightarrow> Some s | _ \<Rightarrow> None) }"
definition ReadString16Vector :: "'p ipc_env \<Rightarrow> ('p, string list option) xstep" where
  "ReadString16Vector I = do { v \<leftarrow> read_item I KString16Vector;
     State_Monad.return (case v of Some (PString16Vector s) \<Rightarrow> Some s | _ \<Rightarrow> None) }"
definition ReadRemoteObject :: "'p ipc_env \<Rightarrow> ('p, bool) xstep" where
  "ReadRemoteObject I = do { v \<leftarrow> read_item I KRemoteObject;
     State_Monad.return (v = Some (PRemoteObject True)) }"

definition WriteInt32 :: "'p ipc_env \<Rightarrow> int \<Rightarrow> ('p, bool) xstep" where
  "WriteInt32 I i = write_item I (PInt32 i)"
definition WriteBool :: "'p ipc_env \<Rightarrow> bool \<Rightarrow> ('p, bool) xstep" where
  "WriteBool I b = write_item I (PBool b)"
definition WriteString :: "'p ipc_env \<Rightarrow> string \<Rightarrow> ('p, bool) xstep" where
  "WriteString I s = write_item I (PString s)"
definition WriteString16 :: "'p ipc_env \<Rightarrow> string \<Rightarrow> ('p, bool) xstep" where
  "WriteString16 I s = write_item I (PString16 s)"
definition WriteString16Vector :: "'p ipc_env \<Rightarrow> string list \<Rightarrow> ('p, bool) xstep" where
  "WriteString16Vector I s = write_item I (PString16Vector s)"

definition WriteRemoteObject :: "'p ipc_env \<Rightarrow> bool \<Rightarrow> ('p, bool) xstep" where
  "WriteRemoteObject I object = write_item I (PRemoteObject object)"

lemmas reader_defs = ReadInt32_def ReadUint32_def ReadInt8_def ReadBool_def ReadFloat_def
  ReadString_def ReadString16_def ReadCString_def ReadInterfaceToken_def ReadStringVector_def
  ReadString16Vector_def ReadRemoteObject_def

lemmas writer_defs = WriteInt32_def WriteBool_def WriteString_def WriteString16_def
  WriteString16Vector_def WriteRemoteObject_def

lemma run_read_item [simp]: "run_state (read_item I k) x =
  (fst (mp_read (ie_parcel I) k (x_data x)), x\<lparr>x_data := snd (mp_read (ie_parcel I) k (x_data x))\<rparr>)"
  by (simp add: read_item_def split_beta Let_def)

lemma run_write_item [simp]: "run_state (write_item I v) x =
  (fst (mp_write (ie_parcel I) v (x_reply x)), x\<lparr>x_reply := snd (mp_write (ie_parcel I) v (x_reply x))\<rparr>)"
  by (simp add: write_item_def split_beta Let_def)

lemma run_serve: "run_state (serve m) x =
  (fst (run_state m (x_manager x)), x\<lparr>x_manager := snd (run_state m (x_manager x))\<rparr>)"
  by (simp add: serve_def split_beta Let_def)

end
