(* ===== verification/Audio_Platform.thy ===== *)
theory Audio_Platform
  imports Complex_Main Message_Parcel Audio_Control "HOL-Library.Signed_Division"
begin

text \<open>
  The state of the audio side beside the scenes, and its way to the audio framework.  The
  record \<open>device_manager\<close> holds the members of AudioDeviceManager
  (\<^verbatim>\<open>services/audio/include/audio_device_manager.h\<close>), the record \<open>media\<close> adds those of
  AudioControlManager, of AudioProxy and of the players, the registry of calls and the
  scenes.  The audio framework, the distributed call services and the account and setting
  services are arguments, the record \<open>media_env\<close>: an answer may depend on everything sent
  so far, which is the trace.  The steps are state transformers; the functions of
  \<^verbatim>\<open>services/audio/src/audio_proxy.cpp\<close> that set and ask for devices come first.
\<close>

subsection \<open>Devices\<close>

definition DEVICE_EARPIECE :: int where [simp]: "DEVICE_EARPIECE = 0"
definition DEVICE_SPEAKER :: int where [simp]: "DEVICE_SPEAKER = 1"
definition DEVICE_WIRED_HEADSET :: int where [simp]: "DEVICE_WIRED_HEADSET = 2"
definition DEVICE_BLUETOOTH_SCO :: int where [simp]: "DEVICE_BLUETOOTH_SCO = 3"
definition DEVICE_DISABLE :: int where [simp]: "DEVICE_DISABLE = 4"
definition DEVICE_UNKNOWN :: int where [simp]: "DEVICE_UNKNOWN = 5"
definition DEVICE_DISTRIBUTED_AUTOMOTIVE :: int where [simp]: "DEVICE_DISTRIBUTED_AUTOMOTIVE = 6"
definition DEVICE_DISTRIBUTED_PHONE :: int where [simp]: "DEVICE_DISTRIBUTED_PHONE = 7"
definition DEVICE_DISTRIBUTED_PAD :: int where [simp]: "DEVICE_DISTRIBUTED_PAD = 8"
definition DEVICE_DISTRIBUTED_PC :: int where [simp]: "DEVICE_DISTRIBUTED_PC = 9"
definition DEVICE_NEARLINK :: int where [simp]: "DEVICE_NEARLINK = 10"
definition DEVICE_BLUETOOTH_HEARING_AID :: int where [simp]: "DEVICE_BLUETOOTH_HEARING_AID = 11"

definition audio_device :: "int \<Rightarrow> AudioDevice" where
  "audio_device deviceType = \<lparr>ad_deviceType = deviceType, ad_address = [], ad_deviceName = []\<rparr>"

record AudioDeviceInfo =
  di_audioDeviceList :: "AudioDevice list"
  di_currentAudioDevice :: AudioDevice
  di_isMuted :: bool
  di_callId :: int
  di_isMicDisabled :: bool

text \<open>
  The devices of the audio framework that the code names; the value of any other is kept.
  A descriptor is what the code reads of it.
\<close>

datatype DeviceType =
    DEVICE_TYPE_EARPIECE | DEVICE_TYPE_SPEAKER | DEVICE_TYPE_WIRED_HEADSET
  | DEVICE_TYPE_WIRED_HEADPHONES | DEVICE_TYPE_USB_HEADSET | DEVICE_TYPE_BLUETOOTH_SCO
  | DEVICE_TYPE_NEARLINK | DEVICE_TYPE_HEARING_AID | DEVICE_TYPE_NONE | DEVICE_TYPE_OTHER int

record AudioDeviceDescriptor =
  dd_deviceType :: DeviceType
  dd_macAddress :: string
  dd_deviceName :: string
  dd_networkId :: string
  dd_modemCallSupported :: bool

datatype AudioRingerMode = RINGER_MODE_SILENT | RINGER_MODE_VIBRATE | RINGER_MODE_NORMAL

datatype StreamUsage =
    STREAM_USAGE_UNKNOWN | STREAM_USAGE_INVALID | STREAM_USAGE_VOICE_MODEM_COMMUNICATION
  | STREAM_USAGE_VOICE_COMMUNICATION | STREAM_USAGE_VOICE_RINGTONE | STREAM_USAGE_DTMF
  | STREAM_USAGE_VOICE_TRANSFER_COMMUNICATION | STREAM_USAGE_VOICE_TRANSFER_RINGTONE

datatype ToneType =
    TONE_TYPE_DIAL_0 | TONE_TYPE_DIAL_1 | TONE_TYPE_DIAL_2 | TONE_TYPE_DIAL_3 | TONE_TYPE_DIAL_4
  | TONE_TYPE_DIAL_5 | TONE_TYPE_DIAL_6 | TONE_TYPE_DIAL_7 | TONE_TYPE_DIAL_8 | TONE_TYPE_DIAL_9
  | TONE_TYPE_DIAL_S | TONE_TYPE_DIAL_P | TONE_TYPE_COMMON_SUPERVISORY_RINGTONE
  | TONE_TYPE_COMMON_SUPERVISORY_CALL_WAITING | TONE_TYPE_COMMON_PROPRIETARY_PROMPT | NUM_TONES

datatype AudioVolumeType = STREAM_RING | STREAM_VOICE_CALL

datatype RingState = RING_RINGING | RING_STOPPED
datatype SoundState = SOUND_SOUNDING | SOUND_STOPPED
datatype ToneState = TONEING | TONE_STOPPED | CALLENDED

datatype ToneDescriptor =
    TONE_UNKNOWN | TONE_ENGAGED | TONE_FINISHED | TONE_WAITING | TONE_RINGBACK
  | TONE_NO_SERVICE | TONE_INVALID_NUMBER | TONE_CALL_RECORDING
  | TONE_DTMF_CHAR_0 | TONE_DTMF_CHAR_1 | TONE_DTMF_CHAR_2 | TONE_DTMF_CHAR_3
  | TONE_DTMF_CHAR_4 | TONE_DTMF_CHAR_5 | TONE_DTMF_CHAR_6 | TONE_DTMF_CHAR_7
  | TONE_DTMF_CHAR_8 | TONE_DTMF_CHAR_9 | TONE_DTMF_CHAR_P | TONE_DTMF_CHAR_W

subsection \<open>What is sent, and what is answered\<close>

datatype HapticStartupMode = HAPTIC_DEFAULT | HAPTIC_FAST

datatype MediaAction =
    ActivateDevice DeviceType bool "int option"     \<comment> \<open>SetDeviceActive, with the uid of a VoIP call\<close>
  | SelectOutputDevice DeviceType string
  | ReportDevices AudioDeviceInfo                   \<comment> \<open>to the listeners of the applications\<close>
  | SwitchOffDCallDeviceSync | SwitchOnDCallDeviceSync AudioDevice
  | SwitchOnDCallDeviceAsync AudioDevice | DCallSetCallState bool | DealDisconnectCall
  | AskIsSelectVirtualModem
  | SwitchToSourceDevice | SwitchToSinkDevice AudioDevice
  | ShowConnectDialog string
  | FrameworkSetVirtualCall bool
  | SetMicrophoneMuteTo bool | SetExtraParameters string string string
  | SetVoiceRingtoneMuteTo bool
  | SetStreamVolume AudioVolumeType int
  | SetStreamVolumeOn AudioVolumeType int DeviceType
  | StartSensorsVibrator | KeepVibrating | CancelSensors
  | ExcludeOutputDevices DeviceType | UnexcludeOutputDevices DeviceType
  | StartTone ToneDescriptor StreamUsage | StopTone ToneDescriptor
  | StartRenderer StreamUsage | StopRenderer | StartCapturer | StopCapturer
  | MakeRingPlayer int string bool                  \<comment> \<open>slot, path, for a transferred call\<close>
  | StartRing HapticStartupMode | StopRing | ReleaseRing
  | ConfigureRing real                              \<comment> \<open>the volume\<close>
  | StartSilentRenderer | StopSilentRenderer
  | SendMuteRing | SetAppRingMuted int
  | SetReduceRingToneVolume bool
  | PostUnmuteSoundTone | PostPlayRing ptr
  | SetMutedControl bool
  | SleepFor int                                    \<comment> \<open>milliseconds\<close>

type_synonym media_trace = "MediaAction list"

record media_env =
  me_build :: build
  me_hearing_aid :: bool                            \<comment> \<open>SUPPORT\_HEARING\_AID\<close>
  me_vibrator :: bool                               \<comment> \<open>SUPPORT\_VIBRATOR\<close>
  me_wearableProduct :: bool
  me_deviceValue :: "DeviceType \<Rightarrow> int"             \<comment> \<open>the number of an enumerator\<close>
  me_preferred :: "media_trace \<Rightarrow> StreamUsage \<Rightarrow> bool \<times> AudioDeviceDescriptor list"
  me_activeBluetooth :: "media_trace \<Rightarrow> AudioDeviceDescriptor option"
  me_availableDevices :: "media_trace \<Rightarrow> DeviceType list"
  me_isDeviceActive :: "media_trace \<Rightarrow> DeviceType \<Rightarrow> bool"
  me_setDeviceActive :: "media_trace \<Rightarrow> DeviceType \<Rightarrow> bool \<Rightarrow> int option \<Rightarrow> bool"
  me_selectOutput :: "media_trace \<Rightarrow> DeviceType \<Rightarrow> string \<Rightarrow> bool"
  me_groupManager :: "media_trace \<Rightarrow> bool"
  me_microphoneMute :: "media_trace \<Rightarrow> bool"
  me_setMicrophoneMute :: "media_trace \<Rightarrow> bool \<Rightarrow> bool"
  me_ringerMode :: "media_trace \<Rightarrow> AudioRingerMode"
  me_excludeOutput :: "media_trace \<Rightarrow> bool"
  me_unexcludeOutput :: "media_trace \<Rightarrow> bool"
  me_createTonePlayer :: "media_trace \<Rightarrow> StreamUsage \<Rightarrow> bool"
  me_loadTone :: "media_trace \<Rightarrow> ToneType \<Rightarrow> bool"
  me_startTone :: "media_trace \<Rightarrow> bool"
  me_startRenderer :: "media_trace \<Rightarrow> StreamUsage \<Rightarrow> bool"
  me_startCapturer :: "media_trace \<Rightarrow> bool"
  me_ringPlayer :: "media_trace \<Rightarrow> bool"
  me_startRing :: "media_trace \<Rightarrow> bool"
  me_stopRing :: "media_trace \<Rightarrow> bool"
  me_configureRing :: "media_trace \<Rightarrow> bool"
  me_silentRenderer :: "media_trace \<Rightarrow> bool"
  me_startSilent :: "media_trace \<Rightarrow> bool"
  me_streamActive :: "media_trace \<Rightarrow> StreamUsage \<Rightarrow> bool"
  me_activeAccounts :: "int list"
  me_vibrateWhenRinging :: "int \<Rightarrow> ErrCode \<times> string"
  me_modemState :: string                           \<comment> \<open>distributed\_modem\_state\<close>
  me_sosDial :: bool                                \<comment> \<open>the last dial was CALL\_EMERGENCY\<close>
  me_startVibrator :: "media_trace \<Rightarrow> ErrCode"
  me_cancelVibrator :: "media_trace \<Rightarrow> ErrCode"
  me_volume :: "media_trace \<Rightarrow> AudioVolumeType \<Rightarrow> int"
  me_maxVolume :: "media_trace \<Rightarrow> AudioVolumeType \<Rightarrow> int"
  me_virtualCall :: "media_trace \<Rightarrow> bool"
  me_setVirtualCall :: "media_trace \<Rightarrow> bool \<Rightarrow> bool"
  me_isAudioOnSink :: "media_trace \<Rightarrow> bool"
  me_isSinkRole :: "media_trace \<Rightarrow> bool"
  me_isConnected :: "media_trace \<Rightarrow> bool"
  me_isDistributedDev :: "media_trace \<Rightarrow> AudioDevice \<Rightarrow> bool"
  me_switchToSink :: "media_trace \<Rightarrow> AudioDevice \<Rightarrow> bool"
  me_dcallSwitchedOn :: "media_trace \<Rightarrow> bool"
  me_dcallSwitchOn :: "media_trace \<Rightarrow> AudioDevice \<Rightarrow> bool"
  me_dcallAddress :: "media_trace \<Rightarrow> string"
  me_carOnline :: "media_trace \<Rightarrow> bool"
  me_btScoConnected :: "media_trace \<Rightarrow> bool"
  me_reported :: "media_trace \<Rightarrow> AudioDeviceInfo \<Rightarrow> ErrCode"

subsection \<open>State\<close>

record device_manager =
  dm_audioDeviceType :: int
  dm_isBtScoDevEnable :: bool
  dm_isDCallDevEnable :: bool
  dm_isWiredHeadsetDevEnable :: bool
  dm_isSpeakerDevEnable :: bool
  dm_isEarpieceDevEnable :: bool
  dm_isEarpieceAvailable :: bool
  dm_isSpeakerAvailable :: bool
  dm_isUpdateEarpieceDevice :: bool
  dm_isWiredHeadsetConnected :: bool
  dm_isBtScoConnected :: bool
  dm_isDCallDevConnected :: bool
  dm_isAudioActivated :: bool
  dm_info :: AudioDeviceInfo
  dm_audioMode :: int
  dm_audioScene :: int

text \<open>The members of AudioControlManager that play, and those of its players.\<close>

record playback =
  pb_ring :: bool                          \<comment> \<open>ring\_ is not null\<close>
  pb_ringState :: RingState
  pb_ringReady :: bool                     \<comment> \<open>the ring found its sound manager\<close>
  pb_ringPlayer :: bool                    \<comment> \<open>the ring has a player\<close>
  pb_isMutedRing :: bool
  pb_sound :: bool                         \<comment> \<open>sound\_ is not null\<close>
  pb_soundRenderer :: bool                 \<comment> \<open>its renderer is initialised\<close>
  pb_soundCapturer :: bool
  pb_soundState :: SoundState
  pb_tone :: "(ToneDescriptor \<times> bool) option" \<comment> \<open>tone\_: its descriptor, and whether it has a player\<close>
  pb_toneState :: ToneState
  pb_isLocalRingbackNeeded :: bool
  pb_isCrsVibrating :: bool
  pb_isVideoRingVibrating :: bool
  pb_isCrsStartSoundTone :: bool
  pb_isPlayForNoRing :: bool
  pb_silentRenderer :: bool                \<comment> \<open>audioRenderer\_ is not null\<close>
  pb_voiceVolume :: int
  pb_needVibrate :: bool
  pb_initCrsDeviceType :: int

record media =
  md_reg :: registry
  md_audio :: audio
  md_voipState :: int
  md_imsConference :: conference
  md_wiredHeadset :: bool                  \<comment> \<open>AudioProxy's own isWiredHeadsetConnected\_\<close>
  md_devices :: device_manager
  md_play :: playback
  md_trace :: media_trace

type_synonym 'a mdstep = "(media, 'a) state"

definition look :: "(media \<Rightarrow> 'a) \<Rightarrow> 'a mdstep" where
  "look f = State (\<lambda>s. (f s, s))"

definition modify :: "(media \<Rightarrow> media) \<Rightarrow> unit mdstep" where
  "modify f = State (\<lambda>s. ((), f s))"

definition act :: "MediaAction \<Rightarrow> unit mdstep" where
  "act x = modify (\<lambda>s. s\<lparr>md_trace := md_trace s @ [x]\<rparr>)"

text \<open>What the platform answers after all that was sent so far.\<close>

definition answer :: "(media_trace \<Rightarrow> 'a) \<Rightarrow> 'a mdstep" where
  "answer f = look (\<lambda>s. f (md_trace s))"

definition on_devices :: "(device_manager \<Rightarrow> device_manager) \<Rightarrow> unit mdstep" where
  "on_devices f = modify (\<lambda>s. s\<lparr>md_devices := f (md_devices s)\<rparr>)"

definition on_play :: "(playback \<Rightarrow> playback) \<Rightarrow> unit mdstep" where
  "on_play f = modify (\<lambda>s. s\<lparr>md_play := f (md_play s)\<rparr>)"

definition doing :: "bool \<Rightarrow> unit mdstep \<Rightarrow> unit mdstep" where
  "doing b m = (if b then m else State_Monad.return ())"

definition devs :: "(device_manager \<Rightarrow> 'a) \<Rightarrow> 'a mdstep" where
  "devs f = look (\<lambda>s. f (md_devices s))"

definition plays :: "(playback \<Rightarrow> 'a) \<Rightarrow> 'a mdstep" where
  "plays f = look (\<lambda>s. f (md_play s))"

lemma run_look [simp]: "run_state (look f) s = (f s, s)"
  by (simp add: look_def)

lemma run_modify [simp]: "run_state (modify f) s = ((), f s)"
  by (simp add: modify_def)

lemma run_act [simp]: "run_state (act x) s = ((), s\<lparr>md_trace := md_trace s @ [x]\<rparr>)"
  by (simp add: act_def)

lemma run_answer [simp]: "run_state (answer f) s = (f (md_trace s), s)"
  by (simp add: answer_def)

lemma run_on_devices [simp]:
  "run_state (on_devices f) s = ((), s\<lparr>md_devices := f (md_devices s)\<rparr>)"
  by (simp add: on_devices_def)

lemma run_on_play [simp]: "run_state (on_play f) s = ((), s\<lparr>md_play := f (md_play s)\<rparr>)"
  by (simp add: on_play_def)

lemma run_doing [simp]: "run_state (doing b m) s = (if b then run_state m s else ((), s))"
  by (simp add: doing_def)

lemma run_devs [simp]: "run_state (devs f) s = (f (md_devices s), s)"
  by (simp add: devs_def)

lemma run_plays [simp]: "run_state (plays f) s = (f (md_play s), s)"
  by (simp add: plays_def)

subsection \<open>The framework's devices\<close>

text \<open>
  A string copied into a character array of a device; the array is read up to its first
  zero.  A string longer than the array is refused and leaves it zero.
\<close>

definition fits_address :: "string \<Rightarrow> bool" where
  "fits_address a = (length a \<le> kMaxAddressLen)"

definition fits_name :: "string \<Rightarrow> bool" where
  "fits_name a = (length a \<le> kMaxDeviceNameLen)"

definition device_address :: "AudioDevice \<Rightarrow> string" where
  "device_address d = c_string (ad_address d)"

definition device_name :: "AudioDevice \<Rightarrow> string" where
  "device_name d = c_string (ad_deviceName d)"

definition SetDeviceActive :: "media_env \<Rightarrow> DeviceType \<Rightarrow> bool \<Rightarrow> bool \<Rightarrow> bool mdstep" where
  "SetDeviceActive E deviceType flag isSetAudioDeviceByUser = do {
     r \<leftarrow> look md_reg;
     (case GetAudioLiveCall r of
        None \<Rightarrow> State_Monad.return False
      | Some p \<Rightarrow>
          (let c = r_heap r p;
               uid = (if isSetAudioDeviceByUser \<and> m_callType c = TYPE_VOIP
                      then Some (v_uid (m_voip c)) else None)
           in do {
             ok \<leftarrow> answer (\<lambda>t. me_setDeviceActive E t deviceType flag uid);
             _ \<leftarrow> act (ActivateDevice deviceType flag uid);
             State_Monad.return ok })) }"

definition SetSpeakerDevActive :: "media_env \<Rightarrow> bool \<Rightarrow> bool \<Rightarrow> bool mdstep" where
  "SetSpeakerDevActive E isActive isSetAudioDeviceByUser =
     SetDeviceActive E DEVICE_TYPE_SPEAKER isActive isSetAudioDeviceByUser"

definition SetBluetoothDevActive :: "media_env \<Rightarrow> bool mdstep" where
  "SetBluetoothDevActive E = do {
     active \<leftarrow> answer (\<lambda>t. me_isDeviceActive E t DEVICE_TYPE_BLUETOOTH_SCO);
     if active then State_Monad.return True
     else SetDeviceActive E DEVICE_TYPE_BLUETOOTH_SCO True False }"

definition SetWiredHeadsetDevActive :: "media_env \<Rightarrow> bool \<Rightarrow> bool mdstep" where
  "SetWiredHeadsetDevActive E isSetAudioDeviceByUser = do {
     connected \<leftarrow> look md_wiredHeadset;
     if \<not> connected then State_Monad.return False
     else do {
       active \<leftarrow> answer (\<lambda>t. me_isDeviceActive E t DEVICE_TYPE_USB_HEADSET);
       if active then State_Monad.return True
       else SetDeviceActive E DEVICE_TYPE_USB_HEADSET True isSetAudioDeviceByUser } }"

definition SetEarpieceDevActive :: "media_env \<Rightarrow> bool \<Rightarrow> bool mdstep" where
  "SetEarpieceDevActive E isSetAudioDeviceByUser = do {
     connected \<leftarrow> look md_wiredHeadset;
     if connected then State_Monad.return False
     else do {
       active \<leftarrow> answer (\<lambda>t. me_isDeviceActive E t DEVICE_TYPE_EARPIECE);
       if active then State_Monad.return True
       else SetDeviceActive E DEVICE_TYPE_EARPIECE True isSetAudioDeviceByUser } }"

definition SetWiredHeadsetState :: "bool \<Rightarrow> unit mdstep" where
  "SetWiredHeadsetState isConnected = modify (\<lambda>s. s\<lparr>md_wiredHeadset := isConnected\<rparr>)"

text \<open>The device as the call manager names it; its address and name are the first descriptor's.\<close>

definition SetWirelessAudioDevice ::
  "media_env \<Rightarrow> AudioDevice \<Rightarrow> DeviceType \<Rightarrow> AudioDeviceDescriptor \<Rightarrow> ErrCode \<times> AudioDevice" where
  "SetWirelessAudioDevice E device deviceType d =
     (let deviceType' = (if deviceType = DEVICE_TYPE_BLUETOOTH_SCO then DEVICE_BLUETOOTH_SCO
            else if deviceType = DEVICE_TYPE_NEARLINK then DEVICE_NEARLINK
            else if me_hearing_aid E then DEVICE_BLUETOOTH_HEARING_AID else ad_deviceType device);
          device = audio_device deviceType'
      in if \<not> fits_address (dd_macAddress d) then (TELEPHONY_ERR_MEMCPY_FAIL, device)
         else if \<not> fits_name (dd_deviceName d)
         then (TELEPHONY_ERR_MEMCPY_FAIL, device\<lparr>ad_address := c_string (dd_macAddress d)\<rparr>)
         else (TELEPHONY_SUCCESS, device\<lparr>ad_address := c_string (dd_macAddress d),
                 ad_deviceName := c_string (dd_deviceName d)\<rparr>))"

definition is_wireless :: "media_env \<Rightarrow> DeviceType \<Rightarrow> bool" where
  "is_wireless E t = (t = DEVICE_TYPE_NEARLINK \<or> t = DEVICE_TYPE_BLUETOOTH_SCO \<or>
     me_hearing_aid E \<and> t = DEVICE_TYPE_HEARING_AID)"

definition is_wired :: "DeviceType \<Rightarrow> bool" where
  "is_wired t = (t = DEVICE_TYPE_WIRED_HEADSET \<or> t = DEVICE_TYPE_WIRED_HEADPHONES \<or>
     t = DEVICE_TYPE_USB_HEADSET)"

definition preferred_device ::
  "media_env \<Rightarrow> AudioDevice \<Rightarrow> AudioDeviceDescriptor list \<Rightarrow> ErrCode \<times> AudioDevice" where
  "preferred_device E device desc =
     (case desc of
        [] \<Rightarrow> (CALL_ERR_AUDIO_OPERATE_FAILED, device)
      | d # _ \<Rightarrow>
          let t = dd_deviceType d in
          if is_wireless E t then SetWirelessAudioDevice E device t d
          else if t = DEVICE_TYPE_EARPIECE
          then (TELEPHONY_SUCCESS, device\<lparr>ad_deviceType := DEVICE_EARPIECE\<rparr>)
          else if t = DEVICE_TYPE_SPEAKER
          then (TELEPHONY_SUCCESS, device\<lparr>ad_deviceType := DEVICE_SPEAKER\<rparr>)
          else if is_wired t \<and> dd_modemCallSupported d
          then (TELEPHONY_SUCCESS, device\<lparr>ad_deviceType := DEVICE_WIRED_HEADSET\<rparr>)
          else (TELEPHONY_SUCCESS, device))"

definition GetPreferredOutputAudioDevice ::
  "media_env \<Rightarrow> AudioDevice \<Rightarrow> bool \<Rightarrow> (ErrCode \<times> AudioDevice) mdstep" where
  "GetPreferredOutputAudioDevice E device isNeedCurrentDevice = do {
     (ok, desc) \<leftarrow> answer (\<lambda>t. me_preferred E t (if isNeedCurrentDevice then STREAM_USAGE_INVALID
                                  else STREAM_USAGE_VOICE_MODEM_COMMUNICATION));
     State_Monad.return (if \<not> ok then (CALL_ERR_AUDIO_OPERATE_FAILED, device)
                         else preferred_device E device desc) }"

definition LOCAL_DEVICE :: string where "LOCAL_DEVICE = ''LocalDevice''"

text \<open>A speaker of another network is the one of a car.\<close>

definition remote_speaker :: "AudioDeviceDescriptor \<Rightarrow> bool" where
  "remote_speaker d = (dd_networkId d \<noteq> LOCAL_DEVICE \<and> dd_deviceType d = DEVICE_TYPE_SPEAKER)"

definition IsDistributedPreferredOutputAudioDevice :: "media_env \<Rightarrow> bool mdstep" where
  "IsDistributedPreferredOutputAudioDevice E = do {
     _ \<leftarrow> act AskIsSelectVirtualModem;
     (ok, desc) \<leftarrow> answer (\<lambda>t. me_preferred E t STREAM_USAGE_VOICE_MODEM_COMMUNICATION);
     State_Monad.return (ok \<and> (\<exists>d\<in>set desc. remote_speaker d)) }"

subsection \<open>The microphone, the ringer, volumes and the vibrator\<close>

definition IsMicrophoneMute :: "media_env \<Rightarrow> bool mdstep" where
  "IsMicrophoneMute E = answer (\<lambda>t. me_groupManager E t \<and> me_microphoneMute E t)"

definition Proxy_SetMicrophoneMute :: "media_env \<Rightarrow> bool \<Rightarrow> bool mdstep" where
  "Proxy_SetMicrophoneMute E mute = do {
     present \<leftarrow> answer (me_groupManager E);
     if \<not> present then State_Monad.return False
     else do {
       ok \<leftarrow> answer (\<lambda>t. me_setMicrophoneMute E t mute);
       _ \<leftarrow> act (SetMicrophoneMuteTo mute);
       State_Monad.return ok } }"

definition GetRingerMode :: "media_env \<Rightarrow> AudioRingerMode mdstep" where
  "GetRingerMode E =
     answer (\<lambda>t. if me_groupManager E t then me_ringerMode E t else RINGER_MODE_NORMAL)"

definition VOLUME_AUDIBLE_DIVISOR :: int where "VOLUME_AUDIBLE_DIVISOR = 2"

definition Proxy_SetVolumeAudible :: "media_env \<Rightarrow> unit mdstep" where
  "Proxy_SetVolumeAudible E = do {
     volume \<leftarrow> answer (\<lambda>t. me_maxVolume E t STREAM_VOICE_CALL);
     act (SetStreamVolume STREAM_VOICE_CALL (volume sdiv VOLUME_AUDIBLE_DIVISOR)) }"

definition SetMaxVolume :: "media_env \<Rightarrow> AudioVolumeType \<Rightarrow> unit mdstep" where
  "SetMaxVolume E audioVolumeType = do {
     maxVolume \<leftarrow> answer (\<lambda>t. me_maxVolume E t audioVolumeType);
     act (SetStreamVolume audioVolumeType maxVolume) }"

text \<open>The vibrator runs until it is cancelled: a task restarts it while needVibrate\_ is set.\<close>

definition StartVibrator :: "media_env \<Rightarrow> ErrCode mdstep" where
  "StartVibrator E =
     (if \<not> me_vibrator E then State_Monad.return TELEPHONY_SUCCESS
      else do {
        result \<leftarrow> answer (me_startVibrator E);
        _ \<leftarrow> act StartSensorsVibrator;
        _ \<leftarrow> doing (result = TELEPHONY_SUCCESS) (do {
               _ \<leftarrow> on_play (\<lambda>p. p\<lparr>pb_needVibrate := True\<rparr>);
               act KeepVibrating });
        State_Monad.return result })"

definition Proxy_StopVibrator :: "media_env \<Rightarrow> ErrCode mdstep" where
  "Proxy_StopVibrator E =
     (if \<not> me_vibrator E then State_Monad.return TELEPHONY_SUCCESS
      else do {
        _ \<leftarrow> on_play (\<lambda>p. p\<lparr>pb_needVibrate := False\<rparr>);
        result \<leftarrow> answer (me_cancelVibrator E);
        _ \<leftarrow> act CancelSensors;
        State_Monad.return result })"

end
