(* ===== verification/Audio_Device_Manager.thy ===== *)
theory Audio_Device_Manager
  imports Audio_Platform
begin

text \<open>
  The devices of a call, \<^verbatim>\<open>services/audio/src/audio_device_manager.cpp\<close>: the list of the
  devices that are connected, the device in use, and what the applications are told of
  both.  The functions that go through the routing of AudioControlManager
  (RemoveAudioDeviceList, SetAudioDeviceByAudioMode) are in theory Audio_Routing;
  GetInitAudioDeviceType of \<^verbatim>\<open>audio_control_manager.cpp\<close>, which this class calls, is here.
  The state objects of \<^verbatim>\<open>audio_state/*_device_state.cpp\<close> are created and never called, so
  the pointer to the current one is not part of the state.
\<close>

subsection \<open>Which device is there\<close>

definition IsDistributedAudioDeviceType :: "int \<Rightarrow> bool" where
  "IsDistributedAudioDeviceType deviceType =
     (deviceType = DEVICE_DISTRIBUTED_AUTOMOTIVE \<or> deviceType = DEVICE_DISTRIBUTED_PHONE \<or>
      deviceType = DEVICE_DISTRIBUTED_PAD \<or> deviceType = DEVICE_DISTRIBUTED_PC)"

definition SetDeviceAvailable :: "int \<Rightarrow> bool \<Rightarrow> device_manager \<Rightarrow> device_manager" where
  "SetDeviceAvailable deviceType available m =
     (if deviceType = DEVICE_SPEAKER then m\<lparr>dm_isSpeakerAvailable := available\<rparr>
      else if deviceType = DEVICE_EARPIECE then m\<lparr>dm_isEarpieceAvailable := available\<rparr>
      else if deviceType = DEVICE_BLUETOOTH_SCO then m\<lparr>dm_isBtScoConnected := available\<rparr>
      else if deviceType = DEVICE_WIRED_HEADSET then m\<lparr>dm_isWiredHeadsetConnected := available\<rparr>
      else if IsDistributedAudioDeviceType deviceType then m\<lparr>dm_isDCallDevConnected := available\<rparr>
      else m)"

definition IsBtActived :: "media_env \<Rightarrow> bool mdstep" where
  "IsBtActived E = answer (\<lambda>t. case me_activeBluetooth E t of
       None \<Rightarrow> False | Some d \<Rightarrow> dd_macAddress d \<noteq> [])"

text \<open>The framework prefers a device of this type that has an address.\<close>

definition preferred_is :: "media_env \<Rightarrow> int \<Rightarrow> AudioDevice \<Rightarrow> (bool \<times> AudioDevice) mdstep" where
  "preferred_is E deviceType device = do {
     (ret, device) \<leftarrow> GetPreferredOutputAudioDevice E device False;
     State_Monad.return (ret = TELEPHONY_SUCCESS \<and> ad_deviceType device = deviceType \<and>
       device_address device \<noteq> [], device) }"

definition IsNearlinkActived :: "media_env \<Rightarrow> AudioDevice \<Rightarrow> (bool \<times> AudioDevice) mdstep" where
  "IsNearlinkActived E device = preferred_is E DEVICE_NEARLINK device"

definition IsBtHearingAidActived :: "media_env \<Rightarrow> AudioDevice \<Rightarrow> (bool \<times> AudioDevice) mdstep" where
  "IsBtHearingAidActived E device = preferred_is E DEVICE_BLUETOOTH_HEARING_AID device"

definition IsRemoteDevicesConnected :: "media_env \<Rightarrow> bool mdstep" where
  "IsRemoteDevicesConnected E = do {
     bt \<leftarrow> IsBtActived E;
     if bt then State_Monad.return True
     else do {
       wired \<leftarrow> devs dm_isWiredHeadsetConnected;
       if wired then State_Monad.return True
       else do {
         (nearlink, _) \<leftarrow> IsNearlinkActived E (audio_device DEVICE_EARPIECE);
         State_Monad.return nearlink } } }"

definition IsSupportEarpiece :: "media_env \<Rightarrow> bool mdstep" where
  "IsSupportEarpiece E = answer (\<lambda>t. DEVICE_TYPE_EARPIECE \<in> set (me_availableDevices E t))"

definition GetInitAudioDeviceTypeOfRemote :: "media_env \<Rightarrow> int mdstep" where
  "GetInitAudioDeviceTypeOfRemote E = do {
     distributed \<leftarrow> devs dm_isDCallDevConnected;
     if distributed then State_Monad.return DEVICE_DISTRIBUTED_AUTOMOTIVE
     else do {
       (nearlink, device) \<leftarrow> IsNearlinkActived E (audio_device DEVICE_UNKNOWN);
       if nearlink then State_Monad.return DEVICE_NEARLINK
       else do {
         bt \<leftarrow> IsBtActived E;
         if bt then State_Monad.return DEVICE_BLUETOOTH_SCO
         else do {
           wired \<leftarrow> devs dm_isWiredHeadsetConnected;
           if wired then State_Monad.return DEVICE_WIRED_HEADSET
           else do {
             (hearing, _) \<leftarrow> (if me_hearing_aid E then IsBtHearingAidActived E device
                              else State_Monad.return (False, device));
             State_Monad.return (if hearing then DEVICE_BLUETOOTH_HEARING_AID
                                 else DEVICE_UNKNOWN) } } } } }"

text \<open>The speaker for calls that are not held at the ear.\<close>

definition prefers_speaker :: "call \<Rightarrow> bool" where
  "prefers_speaker c = (m_videoState c = TYPE_VIDEO \<or> m_callType c = TYPE_SATELLITE \<or>
     m_callType c = TYPE_BLUETOOTH)"

definition GetInitAudioDeviceType :: "media_env \<Rightarrow> ptr option \<Rightarrow> int mdstep" where
  "GetInitAudioDeviceType E callObjectPtr = do {
     a \<leftarrow> look md_audio;
     if a_interrupt a = INTERRUPT_STATE_DEACTIVATED then State_Monad.return DEVICE_DISABLE
     else do {
       connected \<leftarrow> answer (\<lambda>t. support_dsoftbus (me_build E) \<and> me_isConnected E t);
       if connected then do {
         (_, device) \<leftarrow> GetPreferredOutputAudioDevice E (audio_device DEVICE_UNKNOWN) False;
         State_Monad.return (ad_deviceType device) }
       else do {
         deviceType \<leftarrow> GetInitAudioDeviceTypeOfRemote E;
         if deviceType \<noteq> DEVICE_UNKNOWN then State_Monad.return deviceType
         else do {
           r \<leftarrow> look md_reg;
           earpiece \<leftarrow> devs dm_isEarpieceAvailable;
           (let liveCall = (case callObjectPtr of None \<Rightarrow> GetForegroundCall True r | p \<Rightarrow> p)
            in State_Monad.return
              (if (case liveCall of None \<Rightarrow> False | Some p \<Rightarrow> prefers_speaker (r_heap r p))
               then DEVICE_SPEAKER
               else if earpiece then DEVICE_EARPIECE else DEVICE_SPEAKER)) } } } }"

subsection \<open>What the applications are told\<close>

definition ConvertAddress :: "media_env \<Rightarrow> device_manager \<Rightarrow> string" where
  "ConvertAddress E m =
     (let d = di_currentAudioDevice (dm_info m); addr = device_address d in
      if ad_deviceType d = DEVICE_BLUETOOTH_SCO \<or> ad_deviceType d = DEVICE_NEARLINK \<or>
         me_hearing_aid E \<and> ad_deviceType d = DEVICE_BLUETOOTH_HEARING_AID
      then (if addr \<noteq> [] \<and> 7 < length addr
            then take 5 addr @ '':*:*:*:'' @ drop (length addr - 2) addr else addr)
      else [])"

text \<open>The devices that a call transferred from the headset does not offer.\<close>

definition transfer_ignores :: "int \<Rightarrow> bool" where
  "transfer_ignores t = (t = DEVICE_BLUETOOTH_SCO \<or> t = DEVICE_NEARLINK \<or>
     t = DEVICE_BLUETOOTH_HEARING_AID \<or> t = DEVICE_DISTRIBUTED_AUTOMOTIVE)"

definition with_current :: "(AudioDevice \<Rightarrow> AudioDevice) \<Rightarrow> AudioDeviceInfo \<Rightarrow> AudioDeviceInfo" where
  "with_current f i = i\<lparr>di_currentAudioDevice := f (di_currentAudioDevice i)\<rparr>"

definition set_current_type :: "int \<Rightarrow> AudioDeviceInfo \<Rightarrow> AudioDeviceInfo" where
  "set_current_type t = with_current (\<lambda>d. d\<lparr>ad_deviceType := t\<rparr>)"

definition UpdateTransferCallDeviceBegin ::
  "AudioDeviceInfo \<Rightarrow> AudioDevice list \<times> AudioDeviceInfo" where
  "UpdateTransferCallDeviceBegin i =
     (let ds = di_audioDeviceList i;
          i = i\<lparr>di_audioDeviceList := List.filter (\<lambda>d. \<not> transfer_ignores (ad_deviceType d)) ds\<rparr>
      in (List.filter (\<lambda>d. transfer_ignores (ad_deviceType d)) ds,
          if transfer_ignores (ad_deviceType (di_currentAudioDevice i))
          then set_current_type DEVICE_EARPIECE i else i))"

definition UpdateTransferCallDeviceEnd :: "AudioDevice list \<Rightarrow> AudioDeviceInfo \<Rightarrow> AudioDeviceInfo" where
  "UpdateTransferCallDeviceEnd ignored i =
     i\<lparr>di_audioDeviceList := di_audioDeviceList i @ ignored\<rparr>"

definition UpdateDeviceTypeForBtCall ::
  "media_env \<Rightarrow> bool \<Rightarrow> call \<Rightarrow> AudioDeviceInfo \<Rightarrow> AudioDevice list \<times> AudioDeviceInfo" where
  "UpdateDeviceTypeForBtCall E isBtCallScoConnected c i =
     (if m_callType c \<noteq> TYPE_BLUETOOTH then ([], i)
      else if call_transfer (me_build E) \<and> m_isTransferCall c
      then UpdateTransferCallDeviceBegin i
      else if m_callState c \<noteq> CALL_STATUS_ACTIVE \<and> m_callState c \<noteq> CALL_STATUS_DIALING \<and>
              m_callState c \<noteq> CALL_STATUS_ALERTING then ([], i)
      else ([], set_current_type
             (if isBtCallScoConnected then DEVICE_SPEAKER else DEVICE_EARPIECE) i))"

definition on_info :: "(AudioDeviceInfo \<Rightarrow> AudioDeviceInfo) \<Rightarrow> unit mdstep" where
  "on_info f = on_devices (\<lambda>m. m\<lparr>dm_info := f (dm_info m)\<rparr>)"

definition ReportAudioDeviceInfo_of :: "media_env \<Rightarrow> ptr option \<Rightarrow> ErrCode mdstep" where
  "ReportAudioDeviceInfo_of E call =
     (case call of
        None \<Rightarrow> State_Monad.return TELEPHONY_ERR_ARGUMENT_NULL
      | Some p \<Rightarrow> do {
          r \<leftarrow> look md_reg;
          (let c = r_heap r p in do {
             mute \<leftarrow> (if m_callType c = TYPE_VOIP \<or> m_callType c = TYPE_BLUETOOTH
                     then State_Monad.return (m_isMuted c) else IsMicrophoneMute E);
             _ \<leftarrow> on_info (\<lambda>i. i\<lparr>di_callId := m_callId c, di_isMuted := mute,
                     di_isMicDisabled := (if m_callType c = TYPE_VOIP then m_isMicDisabled c
                                          else di_isMicDisabled i)\<rparr>);
             i \<leftarrow> devs dm_info;
             sco \<leftarrow> answer (me_btScoConnected E);
             (let (ignored, shown) = UpdateDeviceTypeForBtCall E sco c i in do {
                ret \<leftarrow> answer (\<lambda>t. me_reported E t shown);
                _ \<leftarrow> act (ReportDevices shown);
                _ \<leftarrow> on_info (\<lambda>_. UpdateTransferCallDeviceEnd ignored
                       (set_current_type (ad_deviceType (di_currentAudioDevice i)) shown));
                State_Monad.return ret }) }) })"

definition ReportAudioDeviceInfo :: "media_env \<Rightarrow> ErrCode mdstep" where
  "ReportAudioDeviceInfo E = do {
     r \<leftarrow> look md_reg;
     ReportAudioDeviceInfo_of E (GetAudioLiveCall r) }"

definition CopyDeviceData :: "media_env \<Rightarrow> string \<Rightarrow> string \<Rightarrow> ErrCode mdstep" where
  "CopyDeviceData E address deviceName =
     (if \<not> fits_address address then State_Monad.return TELEPHONY_ERR_ARGUMENT_INVALID
      else do {
        _ \<leftarrow> on_info (with_current (\<lambda>d. d\<lparr>ad_address := c_string address\<rparr>));
        if \<not> fits_name deviceName then State_Monad.return TELEPHONY_ERR_ARGUMENT_INVALID
        else do {
          _ \<leftarrow> on_info (with_current (\<lambda>d. d\<lparr>ad_deviceName := c_string deviceName\<rparr>));
          ReportAudioDeviceInfo E } })"

text \<open>The address and the name of the device in use, unless both are known.\<close>

definition UpdateBtDevice :: "media_env \<Rightarrow> string \<times> string \<Rightarrow> (string \<times> string) mdstep" where
  "UpdateBtDevice E an =
     (if fst an \<noteq> [] \<and> snd an \<noteq> [] then State_Monad.return an
      else answer (\<lambda>t. case me_activeBluetooth E t of
             None \<Rightarrow> an
           | Some d \<Rightarrow> if dd_macAddress d \<noteq> [] then (dd_macAddress d, dd_deviceName d) else an))"

definition update_preferred ::
  "(AudioDevice \<Rightarrow> (bool \<times> AudioDevice) mdstep) \<Rightarrow> string \<times> string \<Rightarrow> (string \<times> string) mdstep" where
  "update_preferred active an =
     (if fst an \<noteq> [] \<and> snd an \<noteq> [] then State_Monad.return an
      else do {
        (ok, device) \<leftarrow> active (audio_device DEVICE_UNKNOWN);
        State_Monad.return (if ok then (device_address device, device_name device) else an) })"

definition UpdateNearlinkDevice :: "media_env \<Rightarrow> string \<times> string \<Rightarrow> (string \<times> string) mdstep" where
  "UpdateNearlinkDevice E = update_preferred (IsNearlinkActived E)"

definition UpdateBtHearingAidDevice :: "media_env \<Rightarrow> string \<times> string \<Rightarrow> (string \<times> string) mdstep" where
  "UpdateBtHearingAidDevice E = update_preferred (IsBtHearingAidActived E)"

definition ReportAudioDeviceChange :: "media_env \<Rightarrow> AudioDevice \<Rightarrow> ErrCode mdstep" where
  "ReportAudioDeviceChange E device = do {
     t \<leftarrow> devs dm_audioDeviceType;
     t \<leftarrow> (if t = DEVICE_UNKNOWN then GetInitAudioDeviceType E None else State_Monad.return t);
     _ \<leftarrow> on_devices (\<lambda>m. m\<lparr>dm_audioDeviceType := t\<rparr>);
     _ \<leftarrow> on_info (set_current_type t);
     distributedDev \<leftarrow> answer (\<lambda>tr. support_dsoftbus (me_build E) \<and> me_isDistributedDev E tr device);
     dcallAddress \<leftarrow> answer (me_dcallAddress E);
     (address, deviceName) \<leftarrow>
       (let an = (device_address device, device_name device) in
        if t = DEVICE_BLUETOOTH_SCO then UpdateBtDevice E an
        else if distributedDev then State_Monad.return an
        else if IsDistributedAudioDeviceType t then State_Monad.return (dcallAddress, snd an)
        else if t = DEVICE_NEARLINK then UpdateNearlinkDevice E an
        else if me_hearing_aid E \<and> t = DEVICE_BLUETOOTH_HEARING_AID
        then UpdateBtHearingAidDevice E an
        else State_Monad.return an);
     CopyDeviceData E address deviceName }"

subsection \<open>The device in use\<close>

definition leave_distributed :: "int \<Rightarrow> unit mdstep" where
  "leave_distributed deviceType = do {
     t \<leftarrow> devs dm_audioDeviceType;
     doing (\<not> IsDistributedAudioDeviceType deviceType \<and> IsDistributedAudioDeviceType t)
       (act SwitchOffDCallDeviceSync) }"

definition SetCurrentAudioDevice_device :: "media_env \<Rightarrow> AudioDevice \<Rightarrow> unit mdstep" where
  "SetCurrentAudioDevice_device E device = do {
     _ \<leftarrow> leave_distributed (ad_deviceType device);
     _ \<leftarrow> on_devices (\<lambda>m. m\<lparr>dm_audioDeviceType := ad_deviceType device\<rparr>);
     _ \<leftarrow> ReportAudioDeviceChange E device;
     State_Monad.return () }"

text \<open>A satellite call is not held at the ear: the speaker takes over, and nothing is reported.\<close>

definition SetCurrentAudioDevice_type :: "media_env \<Rightarrow> int \<Rightarrow> unit mdstep" where
  "SetCurrentAudioDevice_type E deviceType = do {
     _ \<leftarrow> leave_distributed deviceType;
     r \<leftarrow> look md_reg;
     if deviceType = DEVICE_EARPIECE \<and> HasSatelliteCallExist r then do {
       _ \<leftarrow> on_devices (\<lambda>m. m\<lparr>dm_audioDeviceType := DEVICE_SPEAKER\<rparr>);
       act (ActivateDevice DEVICE_TYPE_SPEAKER True None) }
     else SetCurrentAudioDevice_device E (audio_device deviceType) }"

definition enable_if :: "media_env \<Rightarrow> bool mdstep \<Rightarrow> int \<Rightarrow> bool mdstep" where
  "enable_if E test deviceType = do {
     ok \<leftarrow> test;
     _ \<leftarrow> doing ok (SetCurrentAudioDevice_type E deviceType);
     State_Monad.return ok }"

text \<open>The second condition is asked for only if the first holds.\<close>

definition both :: "bool mdstep \<Rightarrow> bool mdstep \<Rightarrow> bool mdstep" where
  "both m n = do { a \<leftarrow> m; if a then n else State_Monad.return False }"

definition EnableSpeaker :: "media_env \<Rightarrow> bool \<Rightarrow> bool mdstep" where
  "EnableSpeaker E byUser =
     enable_if E (both (devs dm_isSpeakerAvailable) (SetSpeakerDevActive E True byUser)) DEVICE_SPEAKER"

definition EnableEarpiece :: "media_env \<Rightarrow> bool \<Rightarrow> bool mdstep" where
  "EnableEarpiece E byUser =
     enable_if E (both (devs dm_isEarpieceAvailable) (SetEarpieceDevActive E byUser)) DEVICE_EARPIECE"

definition EnableWiredHeadset :: "media_env \<Rightarrow> bool \<Rightarrow> bool mdstep" where
  "EnableWiredHeadset E byUser =
     enable_if E (both (devs dm_isWiredHeadsetConnected) (SetWiredHeadsetDevActive E byUser))
       DEVICE_WIRED_HEADSET"

definition EnableBtSco :: "media_env \<Rightarrow> bool mdstep" where
  "EnableBtSco E = enable_if E (IsBtActived E) DEVICE_BLUETOOTH_SCO"

definition EnableNearlink :: "media_env \<Rightarrow> bool mdstep" where
  "EnableNearlink E = enable_if E (do {
     (ok, _) \<leftarrow> IsNearlinkActived E (audio_device DEVICE_UNKNOWN); State_Monad.return ok }) DEVICE_NEARLINK"

definition EnableBtHearingAid :: "media_env \<Rightarrow> bool mdstep" where
  "EnableBtHearingAid E = enable_if E (do {
     (ok, _) \<leftarrow> IsBtHearingAidActived E (audio_device DEVICE_UNKNOWN); State_Monad.return ok })
     DEVICE_BLUETOOTH_HEARING_AID"

definition DisableAll :: "bool mdstep" where
  "DisableAll = do {
     _ \<leftarrow> on_devices (\<lambda>m. m\<lparr>dm_audioDeviceType := DEVICE_UNKNOWN, dm_isBtScoDevEnable := False,
             dm_isDCallDevEnable := False, dm_isWiredHeadsetDevEnable := False,
             dm_isSpeakerDevEnable := False, dm_isEarpieceDevEnable := False\<rparr>);
     State_Monad.return True }"

definition SwitchDevice :: "media_env \<Rightarrow> int \<Rightarrow> bool \<Rightarrow> bool mdstep" where
  "SwitchDevice E device isSetAudioDeviceByUser =
     (if device = DEVICE_EARPIECE then EnableEarpiece E isSetAudioDeviceByUser
      else if device = DEVICE_SPEAKER then EnableSpeaker E isSetAudioDeviceByUser
      else if device = DEVICE_WIRED_HEADSET then EnableWiredHeadset E isSetAudioDeviceByUser
      else if device = DEVICE_BLUETOOTH_SCO then EnableBtSco E
      else if device = DEVICE_DISABLE then DisableAll
      else if device = DEVICE_NEARLINK then EnableNearlink E
      else if me_hearing_aid E \<and> device = DEVICE_BLUETOOTH_HEARING_AID then EnableBtHearingAid E
      else State_Monad.return False)"

definition InitAudioDevice :: "media_env \<Rightarrow> bool mdstep" where
  "InitAudioDevice E = do {
     device \<leftarrow> GetInitAudioDeviceType E None;
     SwitchDevice E device False }"

definition UpdateCurrentAudioDevice :: "media_env \<Rightarrow> unit mdstep" where
  "UpdateCurrentAudioDevice E = do {
     (ret, device) \<leftarrow> GetPreferredOutputAudioDevice E (audio_device DEVICE_EARPIECE) False;
     doing (ret = TELEPHONY_SUCCESS) (SetCurrentAudioDevice_device E device) }"

text \<open>The first car in the list is switched to, if the framework prefers a car.\<close>

fun car_scan :: "media_env \<Rightarrow> AudioDevice list \<Rightarrow> bool mdstep" where
  "car_scan E [] = State_Monad.return False"
| "car_scan E (d # ds) =
     (if ad_deviceType d = DEVICE_DISTRIBUTED_AUTOMOTIVE then do {
        preferred \<leftarrow> IsDistributedPreferredOutputAudioDevice E;
        if preferred then do {
          _ \<leftarrow> act (SwitchOnDCallDeviceAsync d);
          State_Monad.return True }
        else car_scan E ds }
      else car_scan E ds)"

definition CheckAndSwitchDistributedAudioDevice :: "media_env \<Rightarrow> bool mdstep" where
  "CheckAndSwitchDistributedAudioDevice E = do {
     _ \<leftarrow> act (DCallSetCallState True);
     i \<leftarrow> devs dm_info;
     car_scan E (di_audioDeviceList i) }"

definition OnActivedCallDisconnected :: "unit mdstep" where
  "OnActivedCallDisconnected = do {
     _ \<leftarrow> act (DCallSetCallState False);
     act DealDisconnectCall }"

definition Devices_ProcessEvent :: "media_env \<Rightarrow> AudioEvent \<Rightarrow> bool mdstep" where
  "Devices_ProcessEvent E event = do {
     activated \<leftarrow> devs dm_isAudioActivated;
     (if event = AUDIO_ACTIVATED \<or> event = AUDIO_RINGING then
        (if activated then State_Monad.return False
         else do {
           _ \<leftarrow> on_devices (\<lambda>m. m\<lparr>dm_isAudioActivated := True\<rparr>);
           (ret, device) \<leftarrow> GetPreferredOutputAudioDevice E (audio_device DEVICE_EARPIECE) False;
           _ \<leftarrow> doing (ret = TELEPHONY_SUCCESS) (SetCurrentAudioDevice_type E (ad_deviceType device));
           State_Monad.return False })
      else if event = AUDIO_DEACTIVATED then
        (if \<not> activated then State_Monad.return False
         else do {
           _ \<leftarrow> on_devices (\<lambda>m. m\<lparr>dm_isAudioActivated := False\<rparr>);
           InitAudioDevice E })
      else if event = INIT_AUDIO_DEVICE then InitAudioDevice E
      else if event = WIRED_HEADSET_DISCONNECTED then
        (if \<not> activated then State_Monad.return False
         else do {
           _ \<leftarrow> CheckAndSwitchDistributedAudioDevice E;
           State_Monad.return False })
      else State_Monad.return False) }"

subsection \<open>The list of devices\<close>

definition on_list :: "(AudioDevice list \<Rightarrow> AudioDevice list) \<Rightarrow> unit mdstep" where
  "on_list f = on_info (\<lambda>i. i\<lparr>di_audioDeviceList := f (di_audioDeviceList i)\<rparr>)"

definition is_device :: "string \<Rightarrow> int \<Rightarrow> AudioDevice \<Rightarrow> bool" where
  "is_device address deviceType d = (device_address d = address \<and> ad_deviceType d = deviceType)"

definition Devices_Init :: "media_env \<Rightarrow> device_manager \<Rightarrow> device_manager" where
  "Devices_Init E m =
     m\<lparr>dm_info := \<lparr>di_audioDeviceList = [audio_device DEVICE_SPEAKER, audio_device DEVICE_EARPIECE],
         di_currentAudioDevice = audio_device DEVICE_EARPIECE, di_isMuted = False, di_callId = 0,
         di_isMicDisabled = False\<rparr>,
       dm_isEarpieceAvailable := (if me_wearableProduct E then False else dm_isEarpieceAvailable m),
       dm_audioMode := 0, dm_audioScene := 0\<rparr>"

definition new_device_manager :: device_manager where
  "new_device_manager = \<lparr>dm_audioDeviceType = DEVICE_UNKNOWN, dm_isBtScoDevEnable = False,
     dm_isDCallDevEnable = False, dm_isWiredHeadsetDevEnable = False, dm_isSpeakerDevEnable = False,
     dm_isEarpieceDevEnable = False, dm_isEarpieceAvailable = True, dm_isSpeakerAvailable = True,
     dm_isUpdateEarpieceDevice = False, dm_isWiredHeadsetConnected = False, dm_isBtScoConnected = False,
     dm_isDCallDevConnected = False, dm_isAudioActivated = False,
     dm_info = \<lparr>di_audioDeviceList = [], di_currentAudioDevice = audio_device DEVICE_UNKNOWN,
       di_isMuted = False, di_callId = 0, di_isMicDisabled = False\<rparr>,
     dm_audioMode = 0, dm_audioScene = 0\<rparr>"

fun erase_first :: "('a \<Rightarrow> bool) \<Rightarrow> 'a list \<Rightarrow> 'a list" where
  "erase_first P [] = []"
| "erase_first P (x # xs) = (if P x then xs else x # erase_first P xs)"

definition UpdateEarpieceDevice :: "media_env \<Rightarrow> unit mdstep" where
  "UpdateEarpieceDevice E = do {
     updated \<leftarrow> devs dm_isUpdateEarpieceDevice;
     supported \<leftarrow> (if updated then State_Monad.return True else IsSupportEarpiece E);
     _ \<leftarrow> on_devices (\<lambda>m. m\<lparr>dm_isUpdateEarpieceDevice := True\<rparr>);
     doing (\<not> supported) (on_list (erase_first (\<lambda>d. ad_deviceType d = DEVICE_EARPIECE))) }"

text \<open>The name of the first device with this address and type; None if there is none.\<close>

fun rename_first :: "string \<Rightarrow> int \<Rightarrow> string \<Rightarrow> AudioDevice list \<Rightarrow> AudioDevice list option" where
  "rename_first mac t name [] = None"
| "rename_first mac t name (d # ds) =
     (if is_device mac t d then Some (d\<lparr>ad_deviceName := c_string name\<rparr> # ds)
      else map_option ((#) d) (rename_first mac t name ds))"

definition UpdateDeviceName :: "media_env \<Rightarrow> string \<Rightarrow> string \<Rightarrow> int \<Rightarrow> bool mdstep" where
  "UpdateDeviceName E macAddress deviceName deviceType = do {
     i \<leftarrow> devs dm_info;
     (case rename_first macAddress deviceType deviceName (di_audioDeviceList i) of
        None \<Rightarrow> State_Monad.return False
      | Some ds \<Rightarrow>
          if \<not> fits_name deviceName then State_Monad.return False
          else do {
            _ \<leftarrow> on_list (\<lambda>_. ds);
            _ \<leftarrow> ReportAudioDeviceInfo E;
            State_Monad.return True }) }"

definition UpdateBluetoothDeviceName :: "media_env \<Rightarrow> string \<Rightarrow> string \<Rightarrow> unit mdstep" where
  "UpdateBluetoothDeviceName E macAddress deviceName = do {
     ok \<leftarrow> UpdateDeviceName E macAddress deviceName DEVICE_BLUETOOTH_SCO;
     doing (\<not> ok) (do {
       _ \<leftarrow> UpdateDeviceName E macAddress deviceName DEVICE_BLUETOOTH_HEARING_AID;
       State_Monad.return () }) }"

definition UpdateNearlinkDeviceName :: "media_env \<Rightarrow> string \<Rightarrow> string \<Rightarrow> unit mdstep" where
  "UpdateNearlinkDeviceName E macAddress deviceName = do {
     _ \<leftarrow> UpdateDeviceName E macAddress deviceName DEVICE_NEARLINK;
     State_Monad.return () }"

definition IsBluetoothHeadsetConnect :: "device_manager \<Rightarrow> bool" where
  "IsBluetoothHeadsetConnect m =
     (\<exists>d\<in>set (di_audioDeviceList (dm_info m)).
        ad_deviceType d = DEVICE_BLUETOOTH_SCO \<or> ad_deviceType d = DEVICE_NEARLINK \<or>
        ad_deviceType d = DEVICE_BLUETOOTH_HEARING_AID)"

text \<open>
  The scan before a device is added: whether it is there already, and the list, from
  which a wired headset takes the earpieces that stand before it.
\<close>

fun add_scan :: "string \<Rightarrow> int \<Rightarrow> AudioDevice list \<Rightarrow> bool \<times> AudioDevice list" where
  "add_scan address t [] = (False, [])"
| "add_scan address t (d # ds) =
     (if is_device address t d then (True, d # ds)
      else if t = DEVICE_WIRED_HEADSET \<and> ad_deviceType d = DEVICE_EARPIECE
      then add_scan address t ds
      else (let (found, ds') = add_scan address t ds in (found, d # ds')))"

definition AddAudioDeviceList :: "media_env \<Rightarrow> string \<Rightarrow> int \<Rightarrow> string \<Rightarrow> unit mdstep" where
  "AddAudioDeviceList E address deviceType deviceName = do {
     i \<leftarrow> devs dm_info;
     (let (found, ds) = add_scan address deviceType (di_audioDeviceList i) in do {
        _ \<leftarrow> on_list (\<lambda>_. ds);
        doing (\<not> found \<and> fits_address address \<and> fits_name deviceName) (do {
          _ \<leftarrow> on_list (\<lambda>ds. ds @ [\<lparr>ad_deviceType = deviceType, ad_address = c_string address,
                  ad_deviceName = c_string deviceName\<rparr>]);
          _ \<leftarrow> doing (deviceType = DEVICE_WIRED_HEADSET \<or> deviceType = DEVICE_BLUETOOTH_SCO \<or>
                  IsDistributedAudioDeviceType deviceType)
                 (on_devices (SetDeviceAvailable deviceType True));
          _ \<leftarrow> ReportAudioDeviceInfo E;
          State_Monad.return () }) }) }"

definition AddEarpiece :: "media_env \<Rightarrow> unit mdstep" where
  "AddEarpiece E = do {
     supported \<leftarrow> IsSupportEarpiece E;
     doing supported (on_list (\<lambda>ds. ds @ [audio_device DEVICE_EARPIECE])) }"

text \<open>The devices of a kind leave the list; whether there was one.\<close>

definition erase_kind :: "(int \<Rightarrow> bool) \<Rightarrow> bool mdstep" where
  "erase_kind P = do {
     i \<leftarrow> devs dm_info;
     _ \<leftarrow> on_list (List.filter (\<lambda>d. \<not> P (ad_deviceType d)));
     State_Monad.return (\<exists>d\<in>set (di_audioDeviceList i). P (ad_deviceType d)) }"

definition ResetBtAudioDevicesList :: "media_env \<Rightarrow> unit mdstep" where
  "ResetBtAudioDevicesList E = do {
     hadBtActived \<leftarrow> erase_kind (\<lambda>t. t = DEVICE_BLUETOOTH_SCO);
     _ \<leftarrow> on_devices (SetDeviceAvailable DEVICE_BLUETOOTH_SCO False);
     doing hadBtActived (do { _ \<leftarrow> ReportAudioDeviceInfo E; State_Monad.return () }) }"

definition ResetDistributedCallDevicesList :: "media_env \<Rightarrow> unit mdstep" where
  "ResetDistributedCallDevicesList E = do {
     _ \<leftarrow> erase_kind IsDistributedAudioDeviceType;
     _ \<leftarrow> on_devices (SetDeviceAvailable DEVICE_DISTRIBUTED_AUTOMOTIVE False);
     _ \<leftarrow> on_devices (SetDeviceAvailable DEVICE_DISTRIBUTED_PHONE False);
     _ \<leftarrow> on_devices (SetDeviceAvailable DEVICE_DISTRIBUTED_PAD False);
     _ \<leftarrow> on_devices (SetDeviceAvailable DEVICE_DISTRIBUTED_PC False);
     i \<leftarrow> devs dm_info;
     act (ReportDevices i) }"

definition reset_kind :: "media_env \<Rightarrow> int \<Rightarrow> unit mdstep" where
  "reset_kind E deviceType = do {
     had \<leftarrow> erase_kind (\<lambda>t. t = deviceType);
     _ \<leftarrow> doing had (do { _ \<leftarrow> ReportAudioDeviceInfo E; State_Monad.return () });
     t \<leftarrow> devs dm_audioDeviceType;
     doing (t = deviceType) (do {
       _ \<leftarrow> Devices_ProcessEvent E INIT_AUDIO_DEVICE;
       State_Monad.return () }) }"

definition ResetNearlinkAudioDevicesList :: "media_env \<Rightarrow> unit mdstep" where
  "ResetNearlinkAudioDevicesList E = reset_kind E DEVICE_NEARLINK"

definition ResetBtHearingAidDeviceList :: "media_env \<Rightarrow> unit mdstep" where
  "ResetBtHearingAidDeviceList E =
     doing (me_hearing_aid E) (reset_kind E DEVICE_BLUETOOTH_HEARING_AID)"

subsection \<open>The mode of the audio\<close>

definition AUDIO_MODE_SPEAKER :: int where "AUDIO_MODE_SPEAKER = 1"

definition Devices_SetCallAudioMode :: "int \<Rightarrow> int \<Rightarrow> ErrCode mdstep" where
  "Devices_SetCallAudioMode audioMode audioScene = do {
     _ \<leftarrow> on_devices (\<lambda>m. m\<lparr>dm_audioMode := audioMode, dm_audioScene := audioScene\<rparr>);
     State_Monad.return TELEPHONY_SUCCESS }"

definition IsSpeakerMode :: "bool mdstep" where
  "IsSpeakerMode = devs (\<lambda>m. dm_audioMode m = AUDIO_MODE_SPEAKER)"

definition SetSpeakerDeactive :: "media_env \<Rightarrow> unit mdstep" where
  "SetSpeakerDeactive E = do {
     speaker \<leftarrow> IsSpeakerMode;
     doing (\<not> speaker) (do { _ \<leftarrow> SetSpeakerDevActive E False False; State_Monad.return () }) }"

definition SetVirtualCall :: "media_env \<Rightarrow> bool \<Rightarrow> bool mdstep" where
  "SetVirtualCall E isVirtual = do {
     res \<leftarrow> answer (\<lambda>t. me_setVirtualCall E t isVirtual);
     _ \<leftarrow> act (FrameworkSetVirtualCall isVirtual);
     State_Monad.return res }"

definition GetVirtualCall :: "media_env \<Rightarrow> bool mdstep" where
  "GetVirtualCall E = answer (me_virtualCall E)"

end
