(* ===== verification/Audio_Routing.thy ===== *)
theory Audio_Routing
  imports Audio_Device_Manager
begin

text \<open>
  Where the sound of a call goes: SetAudioDevice of
  \<^verbatim>\<open>services/audio/src/audio_control_manager.cpp\<close> and the functions that choose a device
  when a call, its video or a connected device changes, then the functions of
  \<^verbatim>\<open>audio_device_manager.cpp\<close> that use them, and the callbacks of the audio framework in
  \<^verbatim>\<open>audio_proxy.cpp\<close>.
\<close>

subsection \<open>A device is chosen\<close>

definition SwitchAudioDevice :: "media_env \<Rightarrow> int \<Rightarrow> bool \<Rightarrow> ErrCode mdstep" where
  "SwitchAudioDevice E audioDeviceType isSetAudioDeviceByUser =
     (if audioDeviceType = DEVICE_UNKNOWN
      then State_Monad.return CALL_ERR_AUDIO_SET_AUDIO_DEVICE_FAILED
      else do {
        onSink \<leftarrow> answer (\<lambda>t. support_dsoftbus (me_build E) \<and> me_isAudioOnSink E t);
        _ \<leftarrow> doing onSink (act SwitchToSourceDevice);
        switchedOn \<leftarrow> answer (me_dcallSwitchedOn E);
        _ \<leftarrow> doing switchedOn (act SwitchOffDCallDeviceSync);
        ok \<leftarrow> SwitchDevice E audioDeviceType isSetAudioDeviceByUser;
        State_Monad.return
          (if ok then TELEPHONY_SUCCESS else CALL_ERR_AUDIO_SET_AUDIO_DEVICE_FAILED) })"

definition HandleDistributeAudioDevice :: "media_env \<Rightarrow> AudioDevice \<Rightarrow> ErrCode mdstep" where
  "HandleDistributeAudioDevice E device = do {
     distributed \<leftarrow> answer (\<lambda>t. support_dsoftbus (me_build E) \<and> me_isDistributedDev E t device);
     if distributed then do {
       ok \<leftarrow> answer (\<lambda>t. me_switchToSink E t device);
       _ \<leftarrow> act (SwitchToSinkDevice device);
       State_Monad.return
         (if ok then TELEPHONY_SUCCESS else CALL_ERR_AUDIO_SET_AUDIO_DEVICE_FAILED) }
     else do {
       switchedOn \<leftarrow> answer (me_dcallSwitchedOn E);
       if switchedOn then State_Monad.return TELEPHONY_SUCCESS
       else do {
         ok \<leftarrow> answer (\<lambda>t. me_dcallSwitchOn E t device);
         _ \<leftarrow> act (SwitchOnDCallDeviceSync device);
         State_Monad.return
           (if ok then TELEPHONY_SUCCESS else CALL_ERR_AUDIO_SET_AUDIO_DEVICE_FAILED) } } }"

definition GetWirelessAudioDeviceAddress :: "media_env \<Rightarrow> int \<Rightarrow> string \<Rightarrow> string mdstep" where
  "GetWirelessAudioDeviceAddress E deviceType address =
     (if address \<noteq> [] then State_Monad.return address
      else if deviceType = DEVICE_BLUETOOTH_SCO
      then answer (\<lambda>t. case me_activeBluetooth E t of None \<Rightarrow> [] | Some d \<Rightarrow> dd_macAddress d)
      else if deviceType = DEVICE_NEARLINK then do {
        (ok, device) \<leftarrow> IsNearlinkActived E (audio_device DEVICE_UNKNOWN);
        State_Monad.return (if ok then device_address device else []) }
      else if me_hearing_aid E then do {
        (ok, device) \<leftarrow> IsBtHearingAidActived E (audio_device DEVICE_UNKNOWN);
        State_Monad.return (if ok then device_address device else []) }
      else State_Monad.return [])"

definition wireless_type :: "int \<Rightarrow> DeviceType" where
  "wireless_type t = (if t = DEVICE_BLUETOOTH_SCO then DEVICE_TYPE_BLUETOOTH_SCO
     else if t = DEVICE_NEARLINK then DEVICE_TYPE_NEARLINK else DEVICE_TYPE_HEARING_AID)"

definition HandleWirelessAudioDevice :: "media_env \<Rightarrow> AudioDevice \<Rightarrow> ErrCode mdstep" where
  "HandleWirelessAudioDevice E device = do {
     address \<leftarrow> GetWirelessAudioDeviceAddress E (ad_deviceType device) (device_address device);
     if address = [] then State_Monad.return CALL_ERR_AUDIO_SET_AUDIO_DEVICE_FAILED
     else (let t = wireless_type (ad_deviceType device) in do {
       ok \<leftarrow> answer (\<lambda>tr. me_selectOutput E tr t address);
       _ \<leftarrow> act (SelectOutputDevice t address);
       State_Monad.return
         (if ok then TELEPHONY_SUCCESS else CALL_ERR_AUDIO_SET_AUDIO_DEVICE_FAILED) }) }"

definition on_audio :: "(audio \<Rightarrow> audio) \<Rightarrow> unit mdstep" where
  "on_audio f = modify (\<lambda>s. s\<lparr>md_audio := f (md_audio s)\<rparr>)"

lemma run_on_audio [simp]: "run_state (on_audio f) s = ((), s\<lparr>md_audio := f (md_audio s)\<rparr>)"
  by (simp add: on_audio_def)

definition is_local_type :: "int \<Rightarrow> bool" where
  "is_local_type t = (t = DEVICE_SPEAKER \<or> t = DEVICE_EARPIECE \<or> t = DEVICE_WIRED_HEADSET)"

definition is_wireless_type :: "media_env \<Rightarrow> int \<Rightarrow> bool" where
  "is_wireless_type E t = (t = DEVICE_BLUETOOTH_SCO \<or> t = DEVICE_NEARLINK \<or>
     me_hearing_aid E \<and> t = DEVICE_BLUETOOTH_HEARING_AID)"

definition SetAudioDevice :: "media_env \<Rightarrow> AudioDevice \<Rightarrow> bool \<Rightarrow> ErrCode mdstep" where
  "SetAudioDevice E device isByUser = do {
     r \<leftarrow> look md_reg;
     v \<leftarrow> look md_voipState;
     if \<not> HasCall r v \<and> \<not> HasVoipCallExist r
     then State_Monad.return CALL_ERR_AUDIO_SET_AUDIO_DEVICE_FAILED
     else if HasSatelliteCallExist r \<and> ad_deviceType device = DEVICE_EARPIECE then do {
       _ \<leftarrow> act (ShowConnectDialog ''SATELLITE_CALL_NOT_SUPPORT_EARPIECE'');
       State_Monad.return CALL_ERR_AUDIO_SET_AUDIO_DEVICE_FAILED }
     else do {
       _ \<leftarrow> on_audio (\<lambda>a. a\<lparr>a_isSetAudioDeviceByUser := isByUser\<rparr>);
       (let t = ad_deviceType device in
        if is_local_type t then SwitchAudioDevice E t isByUser
        else if IsDistributedAudioDeviceType t then HandleDistributeAudioDevice E device
        else if is_wireless_type E t then do {
          ret \<leftarrow> HandleWirelessAudioDevice E device;
          if ret \<noteq> TELEPHONY_SUCCESS
          then State_Monad.return CALL_ERR_AUDIO_SET_AUDIO_DEVICE_FAILED
          else SwitchAudioDevice E t isByUser }
        else SwitchAudioDevice E DEVICE_UNKNOWN isByUser) } }"

text \<open>Most callers ignore the status.\<close>

definition set_device :: "media_env \<Rightarrow> int \<Rightarrow> unit mdstep" where
  "set_device E t = do {
     _ \<leftarrow> SetAudioDevice E (audio_device t) False;
     State_Monad.return () }"

subsection \<open>The device follows the call\<close>

definition CRS_TYPE :: int where "CRS_TYPE = 2"

definition IsVideoCall :: "VideoStateType \<Rightarrow> bool" where
  "IsVideoCall videoState = (videoState = TYPE_VIDEO)"

definition IsInEarAudioDevice :: "media_env \<Rightarrow> int \<Rightarrow> bool" where
  "IsInEarAudioDevice E t = (t = DEVICE_WIRED_HEADSET \<or> t = DEVICE_BLUETOOTH_SCO \<or>
     t = DEVICE_NEARLINK \<or> me_hearing_aid E \<and> t = DEVICE_BLUETOOTH_HEARING_AID)"

definition IsExternalAudioDevice :: "media_env \<Rightarrow> int \<Rightarrow> bool" where
  "IsExternalAudioDevice E t = (t = DEVICE_WIRED_HEADSET \<or> t = DEVICE_BLUETOOTH_SCO \<or>
     t = DEVICE_NEARLINK \<or> t = DEVICE_DISTRIBUTED_AUTOMOTIVE \<or>
     me_hearing_aid E \<and> t = DEVICE_BLUETOOTH_HEARING_AID)"

definition IsVoIPCallActived :: "bool mdstep" where
  "IsVoIPCallActived = look (\<lambda>s. md_voipState s \<noteq> CallStateToApp_code CALL_STATE_IDLE \<and>
     md_voipState s \<noteq> CallStateToApp_code CALL_STATE_UNKNOWN)"

definition CheckTypeAndSetAudioDevice ::
  "media_env \<Rightarrow> ptr \<Rightarrow> VideoStateType \<Rightarrow> VideoStateType \<Rightarrow> int \<Rightarrow> unit mdstep" where
  "CheckTypeAndSetAudioDevice E p priorVideoState nextVideoState initDeviceType = do {
     r \<leftarrow> look md_reg;
     onSink \<leftarrow> answer (\<lambda>t. support_dsoftbus (me_build E) \<and> me_isAudioOnSink E t);
     byUser \<leftarrow> look (\<lambda>s. a_isSetAudioDeviceByUser (md_audio s));
     (let c = r_heap r p; st = m_callState c in
      if \<not> IsVideoCall priorVideoState \<and> IsVideoCall nextVideoState \<and>
         st \<noteq> CALL_STATUS_INCOMING \<and> st \<noteq> CALL_STATUS_WAITING
      then doing (\<not> (m_originalCallType c = 0 \<and> (st = CALL_STATUS_DIALING \<or>
                       st = CALL_STATUS_ALERTING \<or> st = CALL_STATUS_DISCONNECTED)))
             (set_device E (if IsExternalAudioDevice E initDeviceType then initDeviceType
                            else DEVICE_SPEAKER))
      else doing (\<not> onSink \<and> \<not> byUser \<and> IsVideoCall priorVideoState \<and>
                  \<not> IsVideoCall nextVideoState)
             (set_device E (if IsExternalAudioDevice E initDeviceType then initDeviceType
                            else DEVICE_EARPIECE))) }"

definition Audio_VideoStateUpdated ::
  "media_env \<Rightarrow> ptr option \<Rightarrow> VideoStateType \<Rightarrow> VideoStateType \<Rightarrow> unit mdstep" where
  "Audio_VideoStateUpdated E callObjectPtr priorVideoState nextVideoState =
     (case callObjectPtr of
        None \<Rightarrow> State_Monad.return ()
      | Some p \<Rightarrow> do {
          r \<leftarrow> look md_reg;
          (let c = r_heap r p in
           doing (m_callType c = TYPE_IMS \<or> m_callType c = TYPE_BLUETOOTH) (do {
             initDeviceType \<leftarrow> GetInitAudioDeviceType E None;
             _ \<leftarrow> on_play (\<lambda>b. b\<lparr>pb_initCrsDeviceType := initDeviceType\<rparr>);
             voip \<leftarrow> IsVoIPCallActived;
             if m_crsType c = CRS_TYPE \<and> \<not> voip then do {
               ringMode \<leftarrow> GetRingerMode E;
               if ringMode \<noteq> RINGER_MODE_NORMAL
               then doing (IsInEarAudioDevice E initDeviceType) (set_device E initDeviceType)
               else set_device E DEVICE_SPEAKER }
             else CheckTypeAndSetAudioDevice E p priorVideoState nextVideoState initDeviceType })) })"

text \<open>The mode of the audio asks for the speaker, unless another device is connected.\<close>

definition SetAudioDeviceByAudioMode :: "media_env \<Rightarrow> bool \<Rightarrow> bool \<Rightarrow> unit mdstep" where
  "SetAudioDeviceByAudioMode E isVoipCall isIncomingCall =
     (if isVoipCall then State_Monad.return ()
      else do {
        scene \<leftarrow> devs dm_audioScene;
        doing (isIncomingCall \<or> scene \<noteq> 0 \<and> scene \<noteq> 2) (do {
          speaker \<leftarrow> IsSpeakerMode;
          doing speaker (do {
            remote \<leftarrow> IsRemoteDevicesConnected E;
            doing (\<not> remote) (set_device E DEVICE_SPEAKER) }) }) })"

definition UpdateDeviceForForegroundCall :: "media_env \<Rightarrow> ptr \<Rightarrow> unit mdstep" where
  "UpdateDeviceForForegroundCall E p = do {
     r \<leftarrow> look md_reg;
     initDeviceType \<leftarrow> GetInitAudioDeviceType E (Some p);
     (let c = r_heap r p in
      if IsVideoCall (m_videoState c) \<or> m_callType c = TYPE_SATELLITE
      then set_device E (if IsExternalAudioDevice E initDeviceType then initDeviceType
                         else DEVICE_SPEAKER)
      else do {
        onSink \<leftarrow> answer (\<lambda>t. support_dsoftbus (me_build E) \<and> me_isAudioOnSink E t);
        car \<leftarrow> answer (me_carOnline E);
        byUser \<leftarrow> look (\<lambda>s. a_isSetAudioDeviceByUser (md_audio s));
        doing (\<not> onSink \<and> m_isAnsweredByPhone c \<and> \<not> car \<and> \<not> byUser) (do {
          speaker \<leftarrow> IsSpeakerMode;
          if speaker then SetAudioDeviceByAudioMode E False True
          else do {
            current \<leftarrow> devs dm_audioDeviceType;
            doing (initDeviceType \<noteq> current) (set_device E initDeviceType) } }) }) }"

definition Audio_UpdateDeviceType :: "media_env \<Rightarrow> ptr option \<Rightarrow> unit mdstep" where
  "Audio_UpdateDeviceType E callObjectPtr = do {
     r \<leftarrow> look md_reg;
     (case (case callObjectPtr of None \<Rightarrow> GetForegroundCall True r | p \<Rightarrow> p) of
        None \<Rightarrow> State_Monad.return ()
      | Some p \<Rightarrow>
          (let c = r_heap r p in
           doing (m_callType c = TYPE_IMS \<or> m_callType c = TYPE_SATELLITE \<or>
                  m_callType c = TYPE_BLUETOOTH) (do {
             _ \<leftarrow> doing (m_crsType c = CRS_TYPE \<and> \<not> IsVideoCall (m_videoState c))
                    (SetSpeakerDeactive E);
             UpdateDeviceForForegroundCall E p }))) }"

definition AdjustDeviceForCrs :: "media_env \<Rightarrow> int \<Rightarrow> int mdstep" where
  "AdjustDeviceForCrs E deviceType = do {
     ringMode \<leftarrow> GetRingerMode E;
     if ringMode = RINGER_MODE_NORMAL then State_Monad.return DEVICE_SPEAKER
     else do {
       initDeviceType \<leftarrow> GetInitAudioDeviceType E None;
       if IsInEarAudioDevice E initDeviceType then State_Monad.return initDeviceType
       else do {
         sound \<leftarrow> plays pb_soundState;
         _ \<leftarrow> doing (deviceType = DEVICE_EARPIECE \<and> sound = SOUND_SOUNDING)
                (act (SetVoiceRingtoneMuteTo True));
         State_Monad.return DEVICE_SPEAKER } } }"

definition UpdateDeviceTypeForCrs :: "media_env \<Rightarrow> int \<Rightarrow> unit mdstep" where
  "UpdateDeviceTypeForCrs E deviceType = do {
     r \<leftarrow> look md_reg;
     voip \<leftarrow> IsVoIPCallActived;
     (case GetOneCallObject_running CALL_RUNNING_STATE_RINGING r of
        None \<Rightarrow> State_Monad.return ()
      | Some p \<Rightarrow>
          doing (\<not> m_isAnswered (r_heap r p) \<and> m_crsType (r_heap r p) = CRS_TYPE \<and> \<not> voip) (do {
            t \<leftarrow> AdjustDeviceForCrs E deviceType;
            _ \<leftarrow> on_play (\<lambda>b. b\<lparr>pb_initCrsDeviceType := deviceType\<rparr>);
            doing (t \<noteq> deviceType) (set_device E t) })) }"

definition Audio_UpdateDeviceTypeForVideoDialing :: "media_env \<Rightarrow> unit mdstep" where
  "Audio_UpdateDeviceTypeForVideoDialing E = do {
     r \<leftarrow> look md_reg;
     (case GetOneCallObject_running CALL_RUNNING_STATE_DIALING r of
        None \<Rightarrow> State_Monad.return ()
      | Some p \<Rightarrow>
          doing (m_videoState (r_heap r p) = TYPE_VIDEO) (do {
            initDeviceType \<leftarrow> GetInitAudioDeviceType E None;
            set_device E (if IsInEarAudioDevice E initDeviceType then initDeviceType
                          else DEVICE_SPEAKER) })) }"

subsection \<open>A device goes\<close>

definition erase_device :: "media_env \<Rightarrow> string \<Rightarrow> int \<Rightarrow> unit mdstep" where
  "erase_device E address deviceType = do {
     before \<leftarrow> devs (\<lambda>m. di_audioDeviceList (dm_info m));
     (let rest = List.filter (\<lambda>d. \<not> is_device address deviceType d) before;
          needAddEarpiece = (\<forall>d\<in>set before. ad_deviceType d \<noteq> DEVICE_EARPIECE);
          wiredHeadsetExist = (\<exists>d\<in>set rest. ad_deviceType d = DEVICE_WIRED_HEADSET);
          blueToothScoExist = (\<exists>d\<in>set rest. ad_deviceType d = DEVICE_BLUETOOTH_SCO)
      in do {
        _ \<leftarrow> on_list (\<lambda>_. rest);
        _ \<leftarrow> doing (deviceType = DEVICE_WIRED_HEADSET \<and> \<not> wiredHeadsetExist \<or>
                deviceType = DEVICE_BLUETOOTH_SCO \<and> \<not> blueToothScoExist \<or>
                IsDistributedAudioDeviceType deviceType)
               (on_devices (SetDeviceAvailable deviceType False));
        doing (needAddEarpiece \<and> deviceType = DEVICE_WIRED_HEADSET \<and> \<not> wiredHeadsetExist)
          (AddEarpiece E) }) }"

definition needs_speaker :: "registry \<Rightarrow> bool" where
  "needs_speaker r = (case GetAudioLiveCall r of
       None \<Rightarrow> False
     | Some p \<Rightarrow> m_videoState (r_heap r p) = TYPE_VIDEO \<or> m_callType (r_heap r p) = TYPE_SATELLITE)"

definition RemoveAudioDeviceList :: "media_env \<Rightarrow> string \<Rightarrow> int \<Rightarrow> unit mdstep" where
  "RemoveAudioDeviceList E address deviceType = do {
     _ \<leftarrow> erase_device E address deviceType;
     r \<leftarrow> look md_reg;
     _ \<leftarrow> doing (needs_speaker r) (Audio_UpdateDeviceType E None);
     _ \<leftarrow> ReportAudioDeviceInfo E;
     State_Monad.return () }"

subsection \<open>What the audio framework reports\<close>

definition changed_device :: "media_env \<Rightarrow> bool \<Rightarrow> AudioDeviceDescriptor \<Rightarrow> unit mdstep" where
  "changed_device E connect d =
     (if is_wired (dd_deviceType d) \<and> dd_modemCallSupported d then
        (if connect then do {
           _ \<leftarrow> SetWiredHeadsetState True;
           AddAudioDeviceList E [] DEVICE_WIRED_HEADSET [] }
         else do {
           _ \<leftarrow> SetWiredHeadsetState False;
           _ \<leftarrow> RemoveAudioDeviceList E [] DEVICE_WIRED_HEADSET;
           _ \<leftarrow> Devices_ProcessEvent E WIRED_HEADSET_DISCONNECTED;
           State_Monad.return () })
      else doing ((dd_deviceType d = DEVICE_TYPE_BLUETOOTH_SCO \<or>
                   dd_deviceType d = DEVICE_TYPE_NEARLINK) \<and> \<not> connect)
             (RemoveAudioDeviceList E (dd_macAddress d) (me_deviceValue E (dd_deviceType d))))"

fun OnDeviceChange :: "media_env \<Rightarrow> bool \<Rightarrow> AudioDeviceDescriptor list \<Rightarrow> unit mdstep" where
  "OnDeviceChange E connect [] = State_Monad.return ()"
| "OnDeviceChange E connect (d # ds) = do {
     _ \<leftarrow> changed_device E connect d;
     OnDeviceChange E connect ds }"

definition ProcessVoipCallOutputDeviceUpdated :: "media_env \<Rightarrow> bool mdstep" where
  "ProcessVoipCallOutputDeviceUpdated E = do {
     r \<leftarrow> look md_reg;
     if \<not> HasVoipCallExist r then State_Monad.return False
     else do {
       (ret, device) \<leftarrow> GetPreferredOutputAudioDevice E (audio_device DEVICE_EARPIECE) True;
       if ret \<noteq> TELEPHONY_SUCCESS then State_Monad.return False
       else do {
         _ \<leftarrow> SetCurrentAudioDevice_device E device;
         State_Monad.return True } } }"

definition IsDistributedDeviceSelected :: "media_env \<Rightarrow> AudioDeviceDescriptor list \<Rightarrow> bool mdstep" where
  "IsDistributedDeviceSelected E desc =
     (if \<not> (\<exists>d\<in>set desc. remote_speaker d) then State_Monad.return False
      else do {
        r \<leftarrow> look md_reg;
        switchedOn \<leftarrow> answer (me_dcallSwitchedOn E);
        _ \<leftarrow> doing (\<not> switchedOn \<and> 0 < GetCallNum CALL_STATUS_ACTIVE False r) (do {
               _ \<leftarrow> CheckAndSwitchDistributedAudioDevice E;
               State_Monad.return () });
        State_Monad.return True })"

text \<open>The framework's new choice; the flag says whether the handler goes on to a ringing CRS call.\<close>

definition follow_preferred :: "media_env \<Rightarrow> AudioDeviceDescriptor \<Rightarrow> bool mdstep" where
  "follow_preferred E d =
     (let t = dd_deviceType d in
      if is_wireless E t then
        (let (ret, device) = SetWirelessAudioDevice E (audio_device DEVICE_UNKNOWN) t d in
         if ret \<noteq> TELEPHONY_SUCCESS then State_Monad.return False
         else do {
           _ \<leftarrow> SetCurrentAudioDevice_device E device;
           State_Monad.return True })
      else if t = DEVICE_TYPE_EARPIECE then do {
        _ \<leftarrow> SetCurrentAudioDevice_type E DEVICE_EARPIECE;
        State_Monad.return True }
      else if t = DEVICE_TYPE_SPEAKER then do {
        _ \<leftarrow> SetCurrentAudioDevice_type E DEVICE_SPEAKER;
        State_Monad.return True }
      else if is_wired t then
        (if \<not> dd_modemCallSupported d then State_Monad.return False
         else do {
           _ \<leftarrow> AddAudioDeviceList E [] DEVICE_WIRED_HEADSET [];
           _ \<leftarrow> SetCurrentAudioDevice_type E DEVICE_WIRED_HEADSET;
           State_Monad.return True })
      else State_Monad.return True)"

definition OnPreferredOutputDeviceUpdated ::
  "media_env \<Rightarrow> AudioDeviceDescriptor list \<Rightarrow> unit mdstep" where
  "OnPreferredOutputDeviceUpdated E desc = do {
     r \<leftarrow> look md_reg;
     v \<leftarrow> look md_voipState;
     onSink \<leftarrow> answer (\<lambda>t. support_dsoftbus (me_build E) \<and> me_isAudioOnSink E t \<and>
                          \<not> me_isSinkRole E t);
     (case desc of
        [] \<Rightarrow> State_Monad.return ()
      | d # _ \<Rightarrow>
          doing ((HasCall r v \<or> HasVoipCallExist r) \<and> \<not> onSink) (do {
            selected \<leftarrow> IsDistributedDeviceSelected E desc;
            doing (\<not> selected) (do {
              voip \<leftarrow> ProcessVoipCallOutputDeviceUpdated E;
              doing (\<not> voip) (do {
                on \<leftarrow> follow_preferred E d;
                doing (on \<and> dd_deviceType d \<noteq> DEVICE_TYPE_SPEAKER)
                  (UpdateDeviceTypeForCrs E (me_deviceValue E (dd_deviceType d))) }) }) })) }"

subsection \<open>The microphone\<close>

text \<open>Only the registry's call and the framework are told; an emergency call is never muted.\<close>

definition Audio_SetMute :: "media_env \<Rightarrow> bool \<Rightarrow> ErrCode mdstep" where
  "Audio_SetMute E isMute = do {
     r \<leftarrow> look md_reg;
     v \<leftarrow> look md_voipState;
     front \<leftarrow> look (\<lambda>s. a_frontCall (md_audio s));
     if \<not> HasCall r v then State_Monad.return CALL_ERR_AUDIO_SETTING_MUTE_FAILED
     else (let isMute = (isMute \<and> \<not> HasEmergencyCall r);
               store = (\<lambda>b p. modify (\<lambda>s. s\<lparr>md_reg := (md_reg s)\<lparr>r_heap :=
                 (r_heap (md_reg s))(p := snd (SetMicPhoneState b (r_heap (md_reg s) p)))\<rparr>\<rparr>))
           in case front of
                None \<Rightarrow> State_Monad.return TELEPHONY_ERR_LOCAL_PTR_NULL
              | Some p \<Rightarrow> do {
                  ok \<leftarrow> (if IsCallExist_type TYPE_BLUETOOTH CALL_STATUS_ACTIVE r then do {
                          _ \<leftarrow> act (SetExtraParameters ''hfp_extra'' ''hfp_set_mic_mute''
                                 (if isMute then ''true'' else ''false''));
                          _ \<leftarrow> store isMute p;
                          State_Monad.return True }
                        else Proxy_SetMicrophoneMute E isMute);
                  if \<not> ok then State_Monad.return CALL_ERR_AUDIO_SETTING_MUTE_FAILED
                  else do {
                    _ \<leftarrow> ReportAudioDeviceInfo E;
                    _ \<leftarrow> doing (m_callType (r_heap r p) \<noteq> TYPE_BLUETOOTH) (do {
                           muted \<leftarrow> IsMicrophoneMute E;
                           store muted p });
                    State_Monad.return TELEPHONY_SUCCESS } }) }"

definition OnMicStateUpdated :: "media_env \<Rightarrow> unit mdstep" where
  "OnMicStateUpdated E = do {
     r \<leftarrow> look md_reg;
     (case GetAudioLiveCall r of
        None \<Rightarrow> State_Monad.return ()
      | Some p \<Rightarrow> doing (m_callType (r_heap r p) \<noteq> TYPE_VOIP) (do {
          present \<leftarrow> answer (me_groupManager E);
          mute \<leftarrow> answer (me_microphoneMute E);
          doing present (act (SetMutedControl mute)) })) }"

subsection \<open>The headset of a Bluetooth call\<close>

definition Audio_ExcludeBluetoothSco :: "media_env \<Rightarrow> unit mdstep" where
  "Audio_ExcludeBluetoothSco E = do {
     ok \<leftarrow> answer (me_excludeOutput E);
     _ \<leftarrow> act (ExcludeOutputDevices DEVICE_TYPE_BLUETOOTH_SCO);
     doing ok (on_audio (\<lambda>a. a\<lparr>a_isScoTemporarilyDisabled := True\<rparr>)) }"

definition Audio_UnexcludeBluetoothSco :: "media_env \<Rightarrow> unit mdstep" where
  "Audio_UnexcludeBluetoothSco E = do {
     ok \<leftarrow> answer (me_unexcludeOutput E);
     _ \<leftarrow> act (UnexcludeOutputDevices DEVICE_TYPE_BLUETOOTH_SCO);
     doing ok (on_audio (\<lambda>a. a\<lparr>a_isScoTemporarilyDisabled := False\<rparr>)) }"

end
