(* ===== verification/Audio_Playback.thy ===== *)
theory Audio_Playback
  imports Audio_Routing
begin

text \<open>
  What the call manager plays: the ringtone, the tones of a call, the sound of the call
  itself, and the vibrator (\<^verbatim>\<open>services/audio/src/tone.cpp\<close>, \<^verbatim>\<open>sound.cpp\<close>, \<^verbatim>\<open>ring.cpp\<close>,
  the parts of \<^verbatim>\<open>audio_player.cpp\<close> they use, and the functions of
  \<^verbatim>\<open>audio_control_manager.cpp\<close> that start and stop them).  The ring is the one of a build
  without OHOS\_SUBSCRIBE\_USER\_STATUS\_ENABLE, and no player is null for lack of memory.
\<close>

subsection \<open>Tones\<close>

fun dtmf_tone :: "char \<Rightarrow> ToneDescriptor" where
  "dtmf_tone c =
     (if c = CHR ''0'' then TONE_DTMF_CHAR_0 else if c = CHR ''1'' then TONE_DTMF_CHAR_1
      else if c = CHR ''2'' then TONE_DTMF_CHAR_2 else if c = CHR ''3'' then TONE_DTMF_CHAR_3
      else if c = CHR ''4'' then TONE_DTMF_CHAR_4 else if c = CHR ''5'' then TONE_DTMF_CHAR_5
      else if c = CHR ''6'' then TONE_DTMF_CHAR_6 else if c = CHR ''7'' then TONE_DTMF_CHAR_7
      else if c = CHR ''8'' then TONE_DTMF_CHAR_8 else if c = CHR ''9'' then TONE_DTMF_CHAR_9
      else if c = CHR ''*'' then TONE_DTMF_CHAR_P else if c = CHR ''#'' then TONE_DTMF_CHAR_W
      else TONE_UNKNOWN)"

definition ConvertDigitToTone :: "char \<Rightarrow> ToneDescriptor" where
  "ConvertDigitToTone c = dtmf_tone c"

fun ConvertCallToneDescriptorToToneType :: "ToneDescriptor \<Rightarrow> ToneType" where
  "ConvertCallToneDescriptorToToneType TONE_RINGBACK = TONE_TYPE_COMMON_SUPERVISORY_RINGTONE"
| "ConvertCallToneDescriptorToToneType TONE_WAITING = TONE_TYPE_COMMON_SUPERVISORY_CALL_WAITING"
| "ConvertCallToneDescriptorToToneType TONE_FINISHED = TONE_TYPE_COMMON_PROPRIETARY_PROMPT"
| "ConvertCallToneDescriptorToToneType _ = NUM_TONES"

fun ConvertToneDescriptorToToneType :: "ToneDescriptor \<Rightarrow> ToneType" where
  "ConvertToneDescriptorToToneType TONE_DTMF_CHAR_0 = TONE_TYPE_DIAL_0"
| "ConvertToneDescriptorToToneType TONE_DTMF_CHAR_1 = TONE_TYPE_DIAL_1"
| "ConvertToneDescriptorToToneType TONE_DTMF_CHAR_2 = TONE_TYPE_DIAL_2"
| "ConvertToneDescriptorToToneType TONE_DTMF_CHAR_3 = TONE_TYPE_DIAL_3"
| "ConvertToneDescriptorToToneType TONE_DTMF_CHAR_4 = TONE_TYPE_DIAL_4"
| "ConvertToneDescriptorToToneType TONE_DTMF_CHAR_5 = TONE_TYPE_DIAL_5"
| "ConvertToneDescriptorToToneType TONE_DTMF_CHAR_6 = TONE_TYPE_DIAL_6"
| "ConvertToneDescriptorToToneType TONE_DTMF_CHAR_7 = TONE_TYPE_DIAL_7"
| "ConvertToneDescriptorToToneType TONE_DTMF_CHAR_8 = TONE_TYPE_DIAL_8"
| "ConvertToneDescriptorToToneType TONE_DTMF_CHAR_9 = TONE_TYPE_DIAL_9"
| "ConvertToneDescriptorToToneType TONE_DTMF_CHAR_P = TONE_TYPE_DIAL_S"
| "ConvertToneDescriptorToToneType TONE_DTMF_CHAR_W = TONE_TYPE_DIAL_P"
| "ConvertToneDescriptorToToneType t = ConvertCallToneDescriptorToToneType t"

definition is_dtmf :: "ToneDescriptor \<Rightarrow> bool" where
  "is_dtmf t = (t \<in> {TONE_DTMF_CHAR_0, TONE_DTMF_CHAR_1, TONE_DTMF_CHAR_2, TONE_DTMF_CHAR_3,
     TONE_DTMF_CHAR_4, TONE_DTMF_CHAR_5, TONE_DTMF_CHAR_6, TONE_DTMF_CHAR_7, TONE_DTMF_CHAR_8,
     TONE_DTMF_CHAR_9, TONE_DTMF_CHAR_P, TONE_DTMF_CHAR_W})"

definition IsUseTonePlayer :: "ToneDescriptor \<Rightarrow> bool" where
  "IsUseTonePlayer t =
     (is_dtmf t \<or> t = TONE_RINGBACK \<or> t = TONE_WAITING \<or> t = TONE_FINISHED)"

definition GetStreamUsageByToneType ::
  "media_env \<Rightarrow> int \<Rightarrow> media_trace \<Rightarrow> ToneDescriptor \<Rightarrow> StreamUsage" where
  "GetStreamUsageByToneType E voipState tr t =
     (let usage =
        (if is_dtmf t then STREAM_USAGE_DTMF
         else if t = TONE_RINGBACK then STREAM_USAGE_VOICE_MODEM_COMMUNICATION
         else if t = TONE_WAITING then
           (if voipState = CallStateToApp_code CALL_STATE_RINGING \<or>
               voipState = CallStateToApp_code CALL_STATE_OFFHOOK \<or>
               voipState = CallStateToApp_code CALL_STATE_ANSWERED
            then STREAM_USAGE_VOICE_COMMUNICATION else STREAM_USAGE_VOICE_MODEM_COMMUNICATION)
         else if t = TONE_FINISHED then STREAM_USAGE_VOICE_RINGTONE
         else STREAM_USAGE_UNKNOWN)
      in if support_dsoftbus (me_build E) \<and> me_isSinkRole E tr \<and> me_isConnected E tr \<and>
            usage = STREAM_USAGE_VOICE_MODEM_COMMUNICATION
         then STREAM_USAGE_VOICE_COMMUNICATION else usage)"

text \<open>A tone that was just made: the status, and whether it now has a player.\<close>

definition Tone_Play :: "media_env \<Rightarrow> ToneDescriptor \<Rightarrow> (ErrCode \<times> bool) mdstep" where
  "Tone_Play E t =
     (if t = TONE_UNKNOWN then State_Monad.return (CALL_ERR_AUDIO_UNKNOWN_TONE, False)
      else if \<not> IsUseTonePlayer t then State_Monad.return (TELEPHONY_SUCCESS, False)
      else do {
        v \<leftarrow> look md_voipState;
        usage \<leftarrow> answer (\<lambda>tr. GetStreamUsageByToneType E v tr t);
        created \<leftarrow> answer (\<lambda>tr. me_createTonePlayer E tr usage);
        loaded \<leftarrow> answer (\<lambda>tr. me_loadTone E tr (ConvertToneDescriptorToToneType t));
        if \<not> created \<or> \<not> loaded then State_Monad.return (TELEPHONY_ERROR, created)
        else do {
          started \<leftarrow> answer (me_startTone E);
          _ \<leftarrow> act (StartTone t usage);
          State_Monad.return (if t = TONE_FINISHED \<and> \<not> started then CALL_ERR_AUDIO_TONE_PLAY_FAILED
                              else TELEPHONY_SUCCESS, True) } })"

definition Tone_Stop :: "ToneDescriptor \<Rightarrow> bool \<Rightarrow> ErrCode mdstep" where
  "Tone_Stop t player =
     (if t = TONE_UNKNOWN then State_Monad.return CALL_ERR_AUDIO_UNKNOWN_TONE
      else do {
        _ \<leftarrow> (if IsUseTonePlayer t then doing player (act (StopTone t))
             else on_play (\<lambda>b. b\<lparr>pb_toneState := TONE_STOPPED\<rparr>));
        State_Monad.return TELEPHONY_SUCCESS })"

definition PlayCallTone :: "media_env \<Rightarrow> ToneDescriptor \<Rightarrow> ErrCode mdstep" where
  "PlayCallTone E type = do {
     st \<leftarrow> plays pb_toneState;
     if st = TONEING then State_Monad.return CALL_ERR_AUDIO_TONE_PLAY_FAILED
     else do {
       _ \<leftarrow> on_play (\<lambda>b. b\<lparr>pb_toneState := TONEING\<rparr>);
       (ret, player) \<leftarrow> Tone_Play E type;
       _ \<leftarrow> on_play (\<lambda>b. b\<lparr>pb_tone := Some (type, player)\<rparr>);
       State_Monad.return (if ret \<noteq> TELEPHONY_SUCCESS then CALL_ERR_AUDIO_TONE_PLAY_FAILED
                           else TELEPHONY_SUCCESS) } }"

definition StopCallTone :: "ErrCode mdstep" where
  "StopCallTone = do {
     st \<leftarrow> plays pb_toneState;
     tone \<leftarrow> plays pb_tone;
     if st = TONE_STOPPED then State_Monad.return TELEPHONY_SUCCESS
     else if st = CALLENDED then State_Monad.return CALL_ERR_AUDIO_TONE_STOP_FAILED
     else (case tone of
        None \<Rightarrow> State_Monad.return TELEPHONY_ERR_LOCAL_PTR_NULL
      | Some (t, player) \<Rightarrow> do {
          ret \<leftarrow> Tone_Stop t player;
          if ret \<noteq> TELEPHONY_SUCCESS then State_Monad.return CALL_ERR_AUDIO_TONE_STOP_FAILED
          else do {
            _ \<leftarrow> on_play (\<lambda>b. b\<lparr>pb_toneState := TONE_STOPPED\<rparr>);
            State_Monad.return TELEPHONY_SUCCESS } }) }"

definition tone_is :: "ToneDescriptor \<Rightarrow> bool mdstep" where
  "tone_is t = plays (\<lambda>b. case pb_tone b of None \<Rightarrow> False | Some (t', _) \<Rightarrow> t' = t)"

definition ShouldPlayRingback :: "media_env \<Rightarrow> bool mdstep" where
  "ShouldPlayRingback E =
     plays (\<lambda>b. \<not> (sos_no_ringback_tone (me_build E) \<and> me_sosDial E) \<and> pb_isLocalRingbackNeeded b)"

definition Audio_PlayRingback :: "media_env \<Rightarrow> ErrCode mdstep" where
  "Audio_PlayRingback E = do {
     needed \<leftarrow> ShouldPlayRingback E;
     if \<not> needed then State_Monad.return CALL_ERR_AUDIO_TONE_PLAY_FAILED
     else PlayCallTone E TONE_RINGBACK }"

definition Audio_StopRingback :: "ErrCode mdstep" where
  "Audio_StopRingback = do {
     _ \<leftarrow> on_play (\<lambda>b. b\<lparr>pb_isLocalRingbackNeeded := False\<rparr>);
     ringback \<leftarrow> tone_is TONE_RINGBACK;
     if ringback then StopCallTone else State_Monad.return TELEPHONY_SUCCESS }"

definition SetLocalRingbackNeeded :: "bool \<Rightarrow> unit mdstep" where
  "SetLocalRingbackNeeded isNeeded = do {
     needed \<leftarrow> plays pb_isLocalRingbackNeeded;
     _ \<leftarrow> doing (needed \<and> \<not> isNeeded) (do { _ \<leftarrow> Audio_StopRingback; State_Monad.return () });
     on_play (\<lambda>b. b\<lparr>pb_isLocalRingbackNeeded := isNeeded\<rparr>) }"

definition Audio_PlayWaitingTone :: "media_env \<Rightarrow> ErrCode mdstep" where
  "Audio_PlayWaitingTone E = PlayCallTone E TONE_WAITING"

definition Audio_StopWaitingTone :: "ErrCode mdstep" where
  "Audio_StopWaitingTone = do {
     waiting \<leftarrow> tone_is TONE_WAITING;
     if waiting then StopCallTone else State_Monad.return TELEPHONY_SUCCESS }"

text \<open>A tone of its own, beside the tone of the call.\<close>

definition PlayDtmfTone :: "media_env \<Rightarrow> char \<Rightarrow> ErrCode mdstep" where
  "PlayDtmfTone E str = (let t = ConvertDigitToTone str in do {
     (ret, player) \<leftarrow> Tone_Play E t;
     if ret \<noteq> TELEPHONY_SUCCESS then State_Monad.return CALL_ERR_AUDIO_TONE_PLAY_FAILED
     else do {
       _ \<leftarrow> act (SleepFor 30);
       ret \<leftarrow> Tone_Stop t player;
       State_Monad.return (if ret \<noteq> TELEPHONY_SUCCESS then CALL_ERR_AUDIO_TONE_STOP_FAILED
                           else TELEPHONY_SUCCESS) } })"

definition OnPostDialNextChar :: "media_env \<Rightarrow> char \<Rightarrow> ErrCode mdstep" where
  "OnPostDialNextChar E str = PlayDtmfTone E str"

definition stop_running_tone :: "unit mdstep" where
  "stop_running_tone = do {
     st \<leftarrow> plays pb_toneState;
     doing (st = TONEING) (do { _ \<leftarrow> StopCallTone; State_Monad.return () }) }"

definition HandleNotNormalRingerMode :: "unit mdstep" where
  "HandleNotNormalRingerMode = stop_running_tone"

definition IsBtCallDisconnected :: "registry \<Rightarrow> bool" where
  "IsBtCallDisconnected r =
     (case GetOneCallObject_running CALL_RUNNING_STATE_ENDED r of
        None \<Rightarrow> False | Some p \<Rightarrow> m_callType (r_heap r p) = TYPE_BLUETOOTH)"

definition Audio_PlayCallEndedTone :: "media_env \<Rightarrow> unit mdstep" where
  "Audio_PlayCallEndedTone E = do {
     v \<leftarrow> look md_voipState;
     doing (v = CallStateToApp_code CALL_STATE_IDLE) (do {
       ringMode \<leftarrow> GetRingerMode E;
       if ringMode \<noteq> RINGER_MODE_NORMAL then HandleNotNormalRingerMode
       else do {
         _ \<leftarrow> stop_running_tone;
         r \<leftarrow> look md_reg;
         doing (\<not> IsBtCallDisconnected r) (do {
           ret \<leftarrow> PlayCallTone E TONE_FINISHED;
           _ \<leftarrow> doing (ret = TELEPHONY_SUCCESS) (do {
                  _ \<leftarrow> on_play (\<lambda>b. b\<lparr>pb_toneState := CALLENDED\<rparr>);
                  _ \<leftarrow> act (SleepFor 300);
                  on_play (\<lambda>b. b\<lparr>pb_toneState := TONEING\<rparr>) });
           _ \<leftarrow> StopCallTone;
           State_Monad.return () }) } }) }"

subsection \<open>The sound of the call\<close>

definition SaveVoiceVolume :: "int \<Rightarrow> unit mdstep" where
  "SaveVoiceVolume volume = on_play (\<lambda>b. b\<lparr>pb_voiceVolume := volume\<rparr>)"

text \<open>A network ringtone is heard through the voice stream, at the volume of the ring.\<close>

definition AdjustVolumesForCrs :: "media_env \<Rightarrow> unit mdstep" where
  "AdjustVolumesForCrs E = do {
     ringVolume \<leftarrow> answer (\<lambda>t. me_volume E t STREAM_RING);
     voiceVolume \<leftarrow> answer (\<lambda>t. me_volume E t STREAM_VOICE_CALL);
     _ \<leftarrow> act (SetStreamVolume STREAM_VOICE_CALL ringVolume);
     SaveVoiceVolume voiceVolume }"

definition RestoreVoiceValumeIfNecessary :: "unit mdstep" where
  "RestoreVoiceValumeIfNecessary = do {
     voiceVolume \<leftarrow> plays pb_voiceVolume;
     doing (0 \<le> voiceVolume) (do {
       _ \<leftarrow> act (SetStreamVolumeOn STREAM_VOICE_CALL voiceVolume DEVICE_TYPE_SPEAKER);
       SaveVoiceVolume (-1) }) }"

definition ShouldPlaySoundTone :: "media_env \<Rightarrow> registry \<Rightarrow> bool" where
  "ShouldPlaySoundTone E r =
     (me_modemState E \<noteq> ''1_sink'' \<and>
      \<not> (sos_no_ringback_tone (me_build E) \<and> me_sosDial E \<and>
         GetOneCallObject_running CALL_RUNNING_STATE_DIALING r \<noteq> None))"

text \<open>AudioPlayer::Play with TYPE\_SOUND: the state says sounding before the renderer starts.\<close>

definition Sound_Play :: "media_env \<Rightarrow> StreamUsage \<Rightarrow> bool mdstep" where
  "Sound_Play E usage = do {
     _ \<leftarrow> on_play (\<lambda>b. b\<lparr>pb_soundState := SOUND_SOUNDING\<rparr>);
     renderer \<leftarrow> answer (\<lambda>t. me_startRenderer E t usage);
     _ \<leftarrow> act (StartRenderer usage);
     if \<not> renderer then State_Monad.return False
     else do {
       _ \<leftarrow> on_play (\<lambda>b. b\<lparr>pb_soundRenderer := True\<rparr>);
       capturer \<leftarrow> answer (me_startCapturer E);
       _ \<leftarrow> act StartCapturer;
       _ \<leftarrow> doing capturer (on_play (\<lambda>b. b\<lparr>pb_soundCapturer := True\<rparr>));
       State_Monad.return capturer } }"

definition Sound_ReleaseRenderer :: "unit mdstep" where
  "Sound_ReleaseRenderer = do {
     renderer \<leftarrow> plays pb_soundRenderer;
     _ \<leftarrow> doing renderer (act StopRenderer);
     capturer \<leftarrow> plays pb_soundCapturer;
     _ \<leftarrow> doing capturer (act StopCapturer);
     on_play (\<lambda>b. b\<lparr>pb_soundRenderer := False, pb_soundCapturer := False\<rparr>) }"

definition Audio_PlaySoundtone :: "media_env \<Rightarrow> ptr option \<Rightarrow> bool mdstep" where
  "Audio_PlaySoundtone E callObjectPtr = do {
     r \<leftarrow> look md_reg;
     st \<leftarrow> plays pb_soundState;
     (case callObjectPtr of
        None \<Rightarrow> State_Monad.return False
      | Some p \<Rightarrow>
          if \<not> ShouldPlaySoundTone E r \<or> st = SOUND_SOUNDING then State_Monad.return False
          else do {
            _ \<leftarrow> on_play (\<lambda>b. b\<lparr>pb_sound := True\<rparr>);
            Sound_Play E (if call_transfer (me_build E) \<and> m_isTransferCall (r_heap r p)
                          then STREAM_USAGE_VOICE_TRANSFER_COMMUNICATION
                          else STREAM_USAGE_VOICE_MODEM_COMMUNICATION) }) }"

definition Audio_StopSoundtone :: "bool mdstep" where
  "Audio_StopSoundtone = do {
     st \<leftarrow> plays pb_soundState;
     sound \<leftarrow> plays pb_sound;
     if st = SOUND_STOPPED then State_Monad.return True
     else if \<not> sound then State_Monad.return False
     else do {
       _ \<leftarrow> act (SetVoiceRingtoneMuteTo False);
       _ \<leftarrow> on_play (\<lambda>b. b\<lparr>pb_soundState := SOUND_STOPPED\<rparr>);
       _ \<leftarrow> Sound_ReleaseRenderer;
       _ \<leftarrow> RestoreVoiceValumeIfNecessary;
       _ \<leftarrow> on_play (\<lambda>b. b\<lparr>pb_isCrsStartSoundTone := False\<rparr>);
       State_Monad.return True } }"

subsection \<open>The ring\<close>

definition Ring_Play :: "media_env \<Rightarrow> int \<Rightarrow> string \<Rightarrow> HapticStartupMode \<Rightarrow> bool \<Rightarrow> bool mdstep" where
  "Ring_Play E slotId ringtonePath mode isTransferCall = do {
     ready \<leftarrow> plays pb_ringReady;
     if \<not> ready then State_Monad.return False
     else do {
       player \<leftarrow> answer (me_ringPlayer E);
       _ \<leftarrow> act (MakeRingPlayer slotId ringtonePath (call_transfer (me_build E) \<and> isTransferCall));
       _ \<leftarrow> on_play (\<lambda>b. b\<lparr>pb_ringPlayer := player\<rparr>);
       if \<not> player then State_Monad.return False
       else do {
         _ \<leftarrow> act (ConfigureRing 1);
         _ \<leftarrow> on_play (\<lambda>b. b\<lparr>pb_ringState := RING_RINGING\<rparr>);
         ok \<leftarrow> answer (me_startRing E);
         _ \<leftarrow> act (StartRing mode);
         State_Monad.return ok } } }"

definition Ring_Stop :: "media_env \<Rightarrow> bool mdstep" where
  "Ring_Stop E = do {
     ready \<leftarrow> plays pb_ringReady;
     if \<not> ready then State_Monad.return False
     else do {
       _ \<leftarrow> on_play (\<lambda>b. b\<lparr>pb_ringState := RING_STOPPED\<rparr>);
       player \<leftarrow> plays pb_ringPlayer;
       if \<not> player then State_Monad.return False
       else do {
         ok \<leftarrow> answer (me_stopRing E);
         _ \<leftarrow> act StopRing;
         _ \<leftarrow> on_play (\<lambda>b. b\<lparr>pb_isMutedRing := False\<rparr>);
         _ \<leftarrow> act (SetReduceRingToneVolume False);
         State_Monad.return ok } } }"

definition Ring_SetMute :: "media_env \<Rightarrow> bool mdstep" where
  "Ring_SetMute E = do {
     player \<leftarrow> plays pb_ringPlayer;
     if \<not> player then State_Monad.return False
     else do {
       _ \<leftarrow> on_play (\<lambda>b. b\<lparr>pb_isMutedRing := True\<rparr>);
       ok \<leftarrow> answer (me_configureRing E);
       _ \<leftarrow> act (ConfigureRing 0);
       State_Monad.return ok } }"

definition Ring_SetRingToneVolume :: "real \<Rightarrow> unit mdstep" where
  "Ring_SetRingToneVolume volume = do {
     muted \<leftarrow> plays pb_isMutedRing;
     player \<leftarrow> plays pb_ringPlayer;
     doing (\<not> muted \<and> player \<and> 0 \<le> volume \<and> volume \<le> 1) (act (ConfigureRing volume)) }"

definition SetRingToneVolume :: "real \<Rightarrow> unit mdstep" where
  "SetRingToneVolume volume = do {
     ring \<leftarrow> plays pb_ring;
     doing (ring \<and> 0 \<le> volume \<and> volume \<le> 1) (Ring_SetRingToneVolume volume) }"

definition StopForNoRing :: "bool mdstep" where
  "StopForNoRing = do {
     _ \<leftarrow> on_play (\<lambda>b. b\<lparr>pb_isPlayForNoRing := False\<rparr>);
     renderer \<leftarrow> plays pb_silentRenderer;
     if \<not> renderer then State_Monad.return False
     else do {
       _ \<leftarrow> act StopSilentRenderer;
       _ \<leftarrow> on_play (\<lambda>b. b\<lparr>pb_silentRenderer := False\<rparr>);
       State_Monad.return True } }"

text \<open>Where there is no renderer, the status returned is not zero, and the answer is true.\<close>

definition Audio_PlayForNoRing :: "media_env \<Rightarrow> bool mdstep" where
  "Audio_PlayForNoRing E = do {
     playing \<leftarrow> plays pb_isPlayForNoRing;
     if playing then State_Monad.return True
     else do {
       created \<leftarrow> answer (me_silentRenderer E);
       _ \<leftarrow> on_play (\<lambda>b. b\<lparr>pb_silentRenderer := (pb_silentRenderer b \<or> created)\<rparr>);
       renderer \<leftarrow> plays pb_silentRenderer;
       if \<not> renderer then State_Monad.return True
       else do {
         started \<leftarrow> answer (me_startSilent E);
         _ \<leftarrow> act StartSilentRenderer;
         _ \<leftarrow> on_play (\<lambda>b. b\<lparr>pb_isPlayForNoRing := True\<rparr>);
         State_Monad.return started } } }"

definition Audio_StopRingtone :: "media_env \<Rightarrow> bool mdstep" where
  "Audio_StopRingtone E = do {
     silent \<leftarrow> plays pb_isPlayForNoRing;
     st \<leftarrow> plays pb_ringState;
     ring \<leftarrow> plays pb_ring;
     if silent then StopForNoRing
     else if st = RING_STOPPED then State_Monad.return True
     else if \<not> ring then State_Monad.return False
     else do {
       ok \<leftarrow> Ring_Stop E;
       _ \<leftarrow> doing ok (act ReleaseRing);
       State_Monad.return ok } }"

definition OnInterrupt_stop :: "media_env \<Rightarrow> unit mdstep" where
  "OnInterrupt_stop E = do {
     b \<leftarrow> look md_play;
     doing (pb_ringState b = RING_RINGING \<and> pb_soundState b = SOUND_SOUNDING) (do {
       _ \<leftarrow> Audio_StopRingtone E;
       State_Monad.return () }) }"

subsection \<open>The vibrator and the silence\<close>

definition Audio_StopVibrator :: "media_env \<Rightarrow> unit mdstep" where
  "Audio_StopVibrator E = do {
     b \<leftarrow> look md_play;
     doing (pb_isCrsVibrating b \<or> pb_isVideoRingVibrating b) (do {
       _ \<leftarrow> on_play (\<lambda>b. b\<lparr>pb_isCrsVibrating := False, pb_isVideoRingVibrating := False\<rparr>);
       _ \<leftarrow> Proxy_StopVibrator E;
       State_Monad.return () }) }"

definition MuteNetWorkRingTone :: "media_env \<Rightarrow> bool \<Rightarrow> unit mdstep" where
  "MuteNetWorkRingTone E isMute = do {
     b \<leftarrow> look md_play;
     _ \<leftarrow> doing (pb_soundState b = SOUND_SOUNDING) (act (SetVoiceRingtoneMuteTo isMute));
     doing (pb_isCrsVibrating b \<and> isMute) (do {
       _ \<leftarrow> Proxy_StopVibrator E;
       on_play (\<lambda>b. b\<lparr>pb_isCrsVibrating := False\<rparr>) }) }"

definition MuteWaitingTone :: "unit mdstep" where
  "MuteWaitingTone = do {
     st \<leftarrow> plays pb_toneState;
     r \<leftarrow> look md_reg;
     doing (st = TONEING \<and> 0 < GetCallNum CALL_STATUS_WAITING False r) (do {
       _ \<leftarrow> Audio_StopWaitingTone;
       State_Monad.return () }) }"

definition set_need_mute :: "int \<Rightarrow> ptr \<Rightarrow> unit mdstep" where
  "set_need_mute v p = modify (\<lambda>s. s\<lparr>md_reg := (md_reg s)\<lparr>r_heap := (r_heap (md_reg s))
     (p := SetExtraParams (set_param ''isNeedMuteRing'' v (m_extraParams (r_heap (md_reg s) p)))
             (r_heap (md_reg s) p))\<rparr>\<rparr>)"

text \<open>GetUserMuteRingToneAllowed of a VoIP call is constant false, so its ringer is muted here.\<close>

definition Audio_MuteRinger :: "media_env \<Rightarrow> ErrCode mdstep" where
  "Audio_MuteRinger E = do {
     b \<leftarrow> look md_play;
     _ \<leftarrow> doing (pb_isVideoRingVibrating b) (do {
            _ \<leftarrow> Proxy_StopVibrator E;
            on_play (\<lambda>b. b\<lparr>pb_isVideoRingVibrating := False\<rparr>) });
     r \<leftarrow> look md_reg;
     v \<leftarrow> look md_voipState;
     voip \<leftarrow> IsVoIPCallActived;
     (let incoming = GetOneCallObject_running CALL_RUNNING_STATE_RINGING r;
          is = (\<lambda>P. case incoming of None \<Rightarrow> False | Some p \<Rightarrow> P (r_heap r p))
      in do {
        _ \<leftarrow> doing (is (\<lambda>c. m_crsType c = CRS_TYPE) \<and> \<not> voip) (MuteNetWorkRingTone E True);
        if is (\<lambda>c. m_callType c = TYPE_VOIP) \<and> \<not> HasCall r v then do {
          _ \<leftarrow> act (SetAppRingMuted (v_uid (m_voip (r_heap r (the incoming)))));
          State_Monad.return TELEPHONY_SUCCESS }
        else do {
          _ \<leftarrow> act SendMuteRing;
          st \<leftarrow> plays pb_ringState;
          ring \<leftarrow> plays pb_ring;
          if st = RING_STOPPED then do {
            _ \<leftarrow> (case incoming of
                   None \<Rightarrow> State_Monad.return ()
                 | Some p \<Rightarrow> do { _ \<leftarrow> set_need_mute 1 p; MuteWaitingTone });
            State_Monad.return TELEPHONY_SUCCESS }
          else if \<not> ring then State_Monad.return CALL_ERR_AUDIO_SETTING_MUTE_FAILED
          else do {
            ok \<leftarrow> Ring_SetMute E;
            State_Monad.return (if ok then TELEPHONY_SUCCESS
                                else CALL_ERR_AUDIO_SETTING_MUTE_FAILED) } } }) }"

subsection \<open>An incoming call rings\<close>

definition ShouldPlayRingtone :: "registry \<Rightarrow> audio \<Rightarrow> playback \<Rightarrow> bool" where
  "ShouldPlayRingtone r a b =
     (CallStateProcessor_GetCallNumber CALL_STATUS_INCOMING (a_sets a) \<noteq> 0 \<and>
      CallStateProcessor_GetCallNumber CALL_STATUS_ALERTING (a_sets a) = 0 \<and>
      pb_ringState b \<noteq> RING_RINGING \<and>
      \<not> (pb_soundState b = SOUND_SOUNDING \<and> HasIncomingCallCrsType r))"

definition IsRingingVibrateModeOn :: "media_env \<Rightarrow> bool" where
  "IsRingingVibrateModeOn E =
     (case me_activeAccounts E of
        [] \<Rightarrow> False
      | userId # _ \<Rightarrow>
          (case me_vibrateWhenRinging E userId of (resp, value) \<Rightarrow>
             resp = TELEPHONY_SUCCESS \<and> value = ''1'' \<or> resp = TELEPHONY_ERR_UNINIT))"

definition PostProcessRingtone :: "media_env \<Rightarrow> unit mdstep" where
  "PostProcessRingtone E = do {
     r \<leftarrow> look md_reg;
     (case GetOneCallObject_running CALL_RUNNING_STATE_RINGING r of
        None \<Rightarrow> do { _ \<leftarrow> Audio_StopRingtone E; State_Monad.return () }
      | Some p \<Rightarrow>
          doing (m_extraParams (r_heap r p) ''isNeedMuteRing'' 0 \<noteq> 0) (do {
            _ \<leftarrow> Audio_MuteRinger E;
            modify (\<lambda>s. s\<lparr>md_reg := (md_reg s)\<lparr>r_heap := (r_heap (md_reg s))
              (p := SetExtraParams (set_param ''isNeedMuteRing'' 0 (m_extraParams (r_heap r p)))
                      (r_heap (md_reg s) p))\<rparr>\<rparr>) })) }"

definition PlayRing :: "media_env \<Rightarrow> ptr \<Rightarrow> unit mdstep" where
  "PlayRing E p = do {
     ring \<leftarrow> plays pb_ring;
     r \<leftarrow> look md_reg;
     (let c = r_heap r p; bluetooth = (m_callType c = TYPE_BLUETOOTH) in
      doing ring (do {
        ok \<leftarrow> Ring_Play E (m_accountId c) (ci_ringtonePath (m_contactInfo c))
               (if bluetooth then HAPTIC_FAST else HAPTIC_DEFAULT)
               (bluetooth \<and> call_transfer (me_build E) \<and> m_isTransferCall c);
        doing ok (PostProcessRingtone E) })) }"

text \<open>
  The task that waits until no other ringtone sounds: it asks five times, 200 ms apart.
  The number of attempts that are left is the argument.
\<close>

definition MAX_RINGTONE_RETRY_COUNT :: nat where "MAX_RINGTONE_RETRY_COUNT = 5"

fun retry_ring :: "media_env \<Rightarrow> nat \<Rightarrow> ptr \<Rightarrow> unit mdstep" where
  "retry_ring E 0 p = State_Monad.return ()"
| "retry_ring E (Suc n) p = do {
     _ \<leftarrow> act (SleepFor 200);
     active \<leftarrow> answer (\<lambda>t. me_streamActive E t STREAM_USAGE_VOICE_RINGTONE);
     if \<not> active then PlayRing E p else retry_ring E n p }"

definition PlayRingtone_call :: "media_env \<Rightarrow> ptr \<Rightarrow> unit mdstep" where
  "PlayRingtone_call E p = do {
     conflict \<leftarrow> look (\<lambda>s. a_isIncomingConflict (md_audio s));
     active \<leftarrow> answer (\<lambda>t. me_streamActive E t STREAM_USAGE_VOICE_RINGTONE);
     if \<not> conflict \<and> \<not> active then PlayRing E p else act (PostPlayRing p) }"

definition DealCrsScene :: "media_env \<Rightarrow> ptr \<Rightarrow> AudioRingerMode \<Rightarrow> int \<Rightarrow> bool mdstep" where
  "DealCrsScene E p ringMode accountId = do {
     vibrating \<leftarrow> plays pb_isCrsVibrating;
     r \<leftarrow> look md_reg;
     (let vibrate = (\<not> vibrating \<and> ringMode \<noteq> RINGER_MODE_SILENT \<and> IsRingingVibrateModeOn E);
          gone = (vibrate \<and> GetCallNum CALL_STATUS_INCOMING False r \<le> 0);
          normal = (ringMode = RINGER_MODE_NORMAL)
      in do {
        _ \<leftarrow> doing vibrate (do {
               ret \<leftarrow> StartVibrator E;
               on_play (\<lambda>b. b\<lparr>pb_isCrsVibrating := (ret = TELEPHONY_SUCCESS)\<rparr>) });
        if gone then do {
          _ \<leftarrow> Proxy_StopVibrator E;
          _ \<leftarrow> on_play (\<lambda>b. b\<lparr>pb_isCrsVibrating := False\<rparr>);
          State_Monad.return False }
        else do {
          remote \<leftarrow> IsRemoteDevicesConnected E;
          if normal \<or> remote then do {
            _ \<leftarrow> on_play (\<lambda>b. b\<lparr>pb_isCrsStartSoundTone := True\<rparr>);
            voip \<leftarrow> IsVoIPCallActived;
            _ \<leftarrow> doing (\<not> voip \<and> normal) (set_device E DEVICE_SPEAKER);
            ok \<leftarrow> Audio_PlaySoundtone E (Some p);
            _ \<leftarrow> AdjustVolumesForCrs E;
            State_Monad.return ok }
          else do {
            ring \<leftarrow> plays pb_ring;
            if \<not> ring then State_Monad.return False
            else do {
              _ \<leftarrow> Ring_Play E accountId [] HAPTIC_DEFAULT False;
              State_Monad.return True } } } }) }"

definition Audio_PlayRingtone :: "media_env \<Rightarrow> bool mdstep" where
  "Audio_PlayRingtone E = do {
     r \<leftarrow> look md_reg;
     a \<leftarrow> look md_audio;
     b \<leftarrow> look md_play;
     (case GetOneCallObject_running CALL_RUNNING_STATE_RINGING r of
        None \<Rightarrow> State_Monad.return False
      | Some p \<Rightarrow>
          if \<not> ShouldPlayRingtone r a b then State_Monad.return False
          else (let c = r_heap r p in do {
            ringMode \<leftarrow> GetRingerMode E;
            if m_crsType c = CRS_TYPE then DealCrsScene E p ringMode (m_accountId c)
            else if IsVideoRing (ci_personalNotificationRingtone (m_contactInfo c))
                      (ci_ringtonePath (m_contactInfo c)) then do {
              _ \<leftarrow> doing (ringMode = RINGER_MODE_NORMAL \<and> IsRingingVibrateModeOn E \<or>
                      ringMode = RINGER_MODE_VIBRATE) (do {
                     ret \<leftarrow> StartVibrator E;
                     on_play (\<lambda>b. b\<lparr>pb_isVideoRingVibrating := (ret = TELEPHONY_SUCCESS)\<rparr>) });
              State_Monad.return True }
            else do {
              _ \<leftarrow> PlayRingtone_call E p;
              State_Monad.return True } })) }"

definition NeedPlayVideoRing :: "bool \<Rightarrow> bool \<Rightarrow> ContactInfo \<Rightarrow> call \<Rightarrow> bool" where
  "NeedPlayVideoRing isUserUnlocked isNotWearWatch contactInfo c =
     (isUserUnlocked \<and> m_crsType c \<noteq> CRS_TYPE \<and> \<not> isNotWearWatch \<and>
      IsVideoRing (ci_personalNotificationRingtone contactInfo) (ci_ringtonePath contactInfo))"

subsection \<open>The call is answered\<close>

definition Audio_UnmuteSoundTone :: "unit mdstep" where
  "Audio_UnmuteSoundTone = act PostUnmuteSoundTone"

text \<open>The task that UnmuteSoundTone posts, half a second later.\<close>

definition unmute_task :: "unit mdstep" where
  "unmute_task = do {
     _ \<leftarrow> on_play (\<lambda>b. b\<lparr>pb_isCrsStartSoundTone := False\<rparr>);
     act (SetVoiceRingtoneMuteTo False) }"

definition ResumeCrsSoundTone :: "media_env \<Rightarrow> unit mdstep" where
  "ResumeCrsSoundTone E = do {
     _ \<leftarrow> RestoreVoiceValumeIfNecessary;
     (_, device) \<leftarrow> GetPreferredOutputAudioDevice E (audio_device DEVICE_EARPIECE) False;
     speaker \<leftarrow> IsSpeakerMode;
     remote \<leftarrow> (if \<not> speaker then State_Monad.return True else IsRemoteDevicesConnected E);
     initial \<leftarrow> plays pb_initCrsDeviceType;
     _ \<leftarrow> doing (remote \<and> ad_deviceType device = DEVICE_SPEAKER \<and> initial \<noteq> DEVICE_SPEAKER)
            (do {
              _ \<leftarrow> SetAudioDevice E (device\<lparr>ad_deviceType := initial\<rparr>) False;
              State_Monad.return () });
     on_play (\<lambda>b. b\<lparr>pb_isCrsStartSoundTone := False\<rparr>) }"

definition Audio_ProcessSoundtone :: "media_env \<Rightarrow> ptr \<Rightarrow> unit mdstep" where
  "Audio_ProcessSoundtone E p = do {
     r \<leftarrow> look md_reg;
     f \<leftarrow> look md_imsConference;
     crs \<leftarrow> plays pb_isCrsStartSoundTone;
     (let c = r_heap r p;
          minMulityCall = (if m_isAnsweredByPhone c then 1 else 2);
          others = int (GetCurrentCallNum f r) -
                   int (GetCallNumByRunningState CALL_RUNNING_STATE_RINGING r)
      in doing (others < minMulityCall)
           (if crs then doing (m_isAnsweredByPhone c) (ResumeCrsSoundTone E)
            else do {
              _ \<leftarrow> Audio_StopSoundtone;
              _ \<leftarrow> Audio_PlaySoundtone E (Some p);
              doing (m_callRunningState c = CALL_RUNNING_STATE_RINGING)
                (act (SetVoiceRingtoneMuteTo True)) })) }"

end
