(* ===== verification/Request_Frame.thy ===== *)
theory Request_Frame
  imports Service_Samples "HOL-Library.Sublist"
begin

text \<open>
  What no request of the user changes: a calculus for relations between the state before
  and after a step that every step built from others inherits (the locale
  \<open>step_frame\<close>), and its instances: the calls keep their places, identities and states,
  and a dial in progress always has a task pending that ends it.
\<close>

subsection \<open>Relations that steps inherit\<close>

locale state_frame =
  fixes R :: "'s \<Rightarrow> 's \<Rightarrow> bool"
  assumes refl: "R s s"
    and trans: "R s t \<Longrightarrow> R t u \<Longrightarrow> R s u"
begin

lemma return_frame: "state_io_rel R (State_Monad.return x)"
  by (auto simp: state_io_rel_def refl)

lemma bind_frame:
  assumes "state_io_rel R m" and "\<And>x. state_io_rel R (f x)"
  shows "state_io_rel R (m \<bind> f)"
proof (rule state_io_relI)
  fix a s s'
  assume "run_state (m \<bind> f) s = (a, s')"
  then obtain x t where "run_state m s = (x, t)" "run_state (f x) t = (a, s')"
    by (auto split: prod.splits)
  with assms show "R s s'" by (metis state_io_relD trans)
qed

lemma if_frame:
  "(b \<Longrightarrow> state_io_rel R m) \<Longrightarrow> (\<not> b \<Longrightarrow> state_io_rel R n) \<Longrightarrow> state_io_rel R (if b then m else n)"
  by simp

lemma option_frame:
  "state_io_rel R m \<Longrightarrow> (\<And>x. state_io_rel R (f x)) \<Longrightarrow>
   state_io_rel R (case v of None \<Rightarrow> m | Some x \<Rightarrow> f x)"
  by (cases v) simp_all

lemma pair_frame:
  "(\<And>x y. v = (x, y) \<Longrightarrow> state_io_rel R (f x y)) \<Longrightarrow> state_io_rel R (case v of (x, y) \<Rightarrow> f x y)"
  by (cases v) simp

lemma let_frame: "(\<And>x. state_io_rel R (f x)) \<Longrightarrow> state_io_rel R (Let v f)"
  by (simp add: Let_def)

lemmas state_rules = return_frame bind_frame if_frame option_frame pair_frame let_frame

lemma frame_run: "state_io_rel R m \<Longrightarrow> R s (snd (run_state m s))"
  by (simp add: state_io_rel_def)

end

text \<open>The same for the steps of the service, with the ways they are built.\<close>

locale step_frame = state_frame R for R :: "service \<Rightarrow> service \<Rightarrow> bool"
begin

lemma reads_frame: "state_io_rel R (reads f)"
  by (auto simp: state_io_rel_def refl)

lemma change_frame: "(\<And>s. R s (f s)) \<Longrightarrow> state_io_rel R (change f)"
  by (simp add: state_io_rel_def)

lemma whenever_frame: "(b \<Longrightarrow> state_io_rel R m) \<Longrightarrow> state_io_rel R (whenever b m)"
  by (simp add: whenever_def return_frame)

lemma each_frame: "(\<And>x. state_io_rel R (f x)) \<Longrightarrow> state_io_rel R (each f xs)"
  by (induction xs) (auto intro: return_frame bind_frame)

lemmas frame_rules = state_rules reads_frame whenever_frame each_frame

end

subsection \<open>What a submitted request leaves alone\<close>

text \<open>What identifies a call, and its state as the stack reported it.\<close>

definition identity :: "call \<Rightarrow> int \<times> CallType \<times> CallClass \<times> int \<times> int \<times> string \<times> TelCallState \<times> CallRunningState" where
  "identity c = (m_callId c, m_callType c, m_class c, m_slotId c, m_index c, m_accountNumber c,
     m_callState c, m_callRunningState c)"

definition same_calls :: "registry \<Rightarrow> registry \<Rightarrow> bool" where
  "same_calls r r' = (r_list r' = r_list r \<and> r_voip r' = r_voip r \<and> r_callId r' = r_callId r \<and>
     (\<forall>p. identity (r_heap r' p) = identity (r_heap r p)))"

text \<open>
  The calls keep their places, identities and states; nothing sent is taken back; no report
  or task is queued, and the flags of a dial in progress stay.
\<close>

definition only_asks :: "service \<Rightarrow> service \<Rightarrow> bool" where
  "only_asks s t = (same_calls (s_reg s) (s_reg t) \<and> prefix (s_trace s) (s_trace t) \<and>
     s_reports t = s_reports s \<and> s_tasks t = s_tasks s \<and> s_helper t = s_helper s \<and>
     s_needWaitHold t = s_needWaitHold s \<and> s_dialCallInfo t = s_dialCallInfo s)"

lemma same_calls_refl [simp]: "same_calls r r"
  by (simp add: same_calls_def)

interpretation asks: step_frame only_asks
  by unfold_locales (auto simp: only_asks_def same_calls_def)

named_theorems asks_rules "steps that only ask"

lemmas [asks_rules] = asks.frame_rules

lemma same_calls_heap: "same_calls r (r\<lparr>r_heap := (r_heap r)(p := c)\<rparr>) \<longleftrightarrow> identity c = identity (r_heap r p)"
  by (auto simp: same_calls_def)

lemma emit_asks [asks_rules]: "state_io_rel only_asks (emit x)"
  by (simp add: state_io_rel_def only_asks_def)

lemma fault_asks [asks_rules]: "state_io_rel only_asks fault"
  by (simp add: state_io_rel_def only_asks_def)

lemma flag_asks [asks_rules]: "state_io_rel only_asks (change (\<lambda>s. s\<lparr>s_flagForDsda := b\<rparr>))"
  by (simp add: state_io_rel_def only_asks_def)

lemma lookup_asks [asks_rules]:
  "state_io_rel only_asks (call_of p)" "state_io_rel only_asks (find_ptr f)"
  "state_io_rel only_asks (call_num st)" "state_io_rel only_asks current_call_num"
  by (simp_all add: state_io_rel_def only_asks_def)

lemma on_call_asks [asks_rules]:
  "(\<And>c. identity (f c) = identity c) \<Longrightarrow> state_io_rel only_asks (on_call p f)"
  by (simp add: state_io_rel_def only_asks_def same_calls_heap)

lemma invoke_asks:
  assumes "\<And>c. identity (snd (snd (oper c))) = identity c"
  shows "state_io_rel only_asks (invoke oper p)"
proof (rule state_io_relI)
  fix a s s'
  assume "run_state (invoke oper p) s = (a, s')"
  moreover have "identity (snd (snd (oper (r_heap (s_reg s) p)))) = identity (r_heap (s_reg s) p)" by (rule assms)
  ultimately show "only_asks s s'"
    by (auto simp: run_invoke apply_outcome_def only_asks_def same_calls_heap split: prod.splits)
qed

lemma invoke_opt_asks:
  assumes "\<And>c ret qs c'. oper c = Some (ret, qs, c') \<Longrightarrow> identity c' = identity c"
  shows "state_io_rel only_asks (invoke_opt oper p)"
proof (rule state_io_relI)
  fix a s s'
  assume r: "run_state (invoke_opt oper p) s = (a, s')"
  show "only_asks s s'"
  proof (cases "oper (r_heap (s_reg s) p)")
    case None
    with r show ?thesis by (auto simp: run_invoke_opt only_asks_def)
  next
    case (Some res)
    with r assms [of "r_heap (s_reg s) p"] show ?thesis
      by (cases res) (auto simp: run_invoke_opt apply_outcome_def only_asks_def same_calls_heap)
  qed
qed

subsection \<open>Operations of a call keep its identity\<close>

lemma identity_simps [simp]:
  "identity (c\<lparr>m_rttState := rtt\<rparr>) = identity c" "identity (c\<lparr>m_answerType := a\<rparr>) = identity c"
  "identity (SetAutoAnswerState b c) = identity c" "identity (SetAnswerVideoState v c) = identity c"
  "identity (SetCanUnHoldState b c) = identity c" "identity (SetCanSwitchCallState b c) = identity c"
  "identity (SetPolicyFlag f c) = identity c" "identity (SetIsBluetoothHeadsetWarned b c) = identity c"
  "identity (c\<lparr>m_conferenceState := k\<rparr>) = identity c"
  by (simp_all add: identity_def SetAutoAnswerState_def SetAnswerVideoState_def
      SetCanUnHoldState_def SetCanSwitchCallState_def SetPolicyFlag_def
      SetIsBluetoothHeadsetWarned_def)

lemma request_keeps [simp]: "snd (snd (request conn q c)) = c" "snd (snd (request_or err conn q c)) = c"
  by (simp_all add: request_defs split: option.split)

lemma ott_request_keeps [simp]: "snd (snd (ott_request err q e c)) = c"
  by (simp add: ott_request_def split: prod.split)

lemma operation_keeps_identity:
  "identity (snd (snd (AnswerCall b e vs rtt c))) = identity c"
  "identity (snd (snd (RejectCall e c))) = identity c"
  "identity (snd (snd (HoldCall e c))) = identity c"
  "identity (snd (snd (UnHoldCall e c))) = identity c"
  "identity (snd (snd (SwitchCall e c))) = identity c"
  "identity (snd (snd (SeparateConference e c))) = identity c"
  "identity (snd (snd (KickOutFromConference e c))) = identity c"
  "identity (snd (snd (UpdateImsRttCallMode e mode c))) = identity c"
  by (simp_all add: cm_defs AnswerCall_def RejectCall_def HoldCall_def UnHoldCall_def SwitchCall_def
      SeparateConference_def KickOutFromConference_def UpdateImsRttCallMode_def IMSCall_AnswerCall_def
      CSCall_SeparateConference_def IMSCall_SeparateConference_def CSCall_KickOutFromConference_def
      IMSCall_KickOutFromConference_def VoIPCall_HoldCall_def VoIPCall_UnHoldCall_def
      VoIPCall_SwitchCall_def BluetoothCall_SwitchCall_def RejectCallBase_def AnswerCallBase_def Let_def
      split: CallClass.split prod.split option.split)

lemma hang_up_keeps_identity:
  "HangUpCall b e c = Some (ret, qs, c') \<Longrightarrow> c' = c"
  by (auto simp: HangUpCall_def cm_defs request_defs split: CallClass.splits option.splits if_splits prod.splits)

lemma combine_keeps_identity:
  "CombineConference e c g = (ret, qs, c', g') \<Longrightarrow> identity c' = identity c"
  by (cases "m_class c") (auto simp: CombineConference_def combine_defs request_defs carrier_defs Let_def
      split: option.splits if_splits prod.splits)


subsection \<open>Every submitted request only asks\<close>

lemma call_steps_ask [asks_rules]:
  "state_io_rel only_asks (answer_call E vs rtt p)" "state_io_rel only_asks (reject_call E p)"
  "state_io_rel only_asks (hold_call E p)" "state_io_rel only_asks (unhold_call E p)"
  "state_io_rel only_asks (switch_call E p)"
  "state_io_rel only_asks (invoke (SeparateConference e) p)"
  "state_io_rel only_asks (invoke (KickOutFromConference e) p)"
  "state_io_rel only_asks (invoke (UpdateImsRttCallMode e mode) p)"
  unfolding answer_call_def reject_call_def hold_call_def unhold_call_def switch_call_def
  by (rule invoke_asks, simp add: operation_keeps_identity)+

lemma hang_up_asks [asks_rules]: "state_io_rel only_asks (hang_up_call E p)"
  unfolding hang_up_call_def by (rule invoke_opt_asks) (auto dest: hang_up_keeps_identity)

lemma combine_asks [asks_rules]: "state_io_rel only_asks (combine_conference E p)"
  by (auto simp: state_io_rel_def combine_conference_def only_asks_def same_calls_heap
      dest: combine_keeps_identity split: prod.split)

lemma notify_asks [asks_rules]:
  "state_io_rel only_asks (NotifyIncomingCallAnswered E v)"
  "state_io_rel only_asks (NotifyIncomingCallRejected E v b t)"
  unfolding NotifyIncomingCallAnswered_def NotifyIncomingCallRejected_def transfer_forbidden_def
    HandleTransferCallReportInfo_def BluetoothCallConnection_NotifyTransferCall_def
  by (intro asks_rules; simp)+

lemma answer_now_asks [asks_rules]:
  "state_io_rel only_asks (answer_now E vs p)" "state_io_rel only_asks (answer_and_notify E vs rtt p)"
  unfolding answer_now_def answer_and_notify_def by (intro asks_rules; simp)+

lemma waiting_zero_asks [asks_rules]:
  "state_io_rel only_asks (HandleCallWaitingNumZero E p q slot n flag)"
  unfolding HandleCallWaitingNumZero_def by (intro asks_rules; simp)

lemma waiting_one_asks [asks_rules]:
  "state_io_rel only_asks (HandleCallWaitingNumOneNext E p q h slot flag)"
  "state_io_rel only_asks (HandleCallWaitingNumOne E p q slot n flag)"
  unfolding HandleCallWaitingNumOneNext_def HandleCallWaitingNumOne_def by (intro asks_rules; simp)+

lemma waiting_two_asks [asks_rules]:
  "state_io_rel only_asks (HandleCallWaitingNumTwo E p q slot n flag)"
  "state_io_rel only_asks (HandleDsdaIncomingCall E q n slot vs p)"
  unfolding HandleCallWaitingNumTwo_def HandleDsdaIncomingCall_def by (intro asks_rules; simp)+

lemma other_call_asks [asks_rules]:
  "state_io_rel only_asks (handle_other_call E callId slot vs w a i flag)"
  unfolding handle_other_call_def by (intro asks_rules; simp)

lemma other_calls_ask [asks_rules]:
  "state_io_rel only_asks (other_calls_loop E callId slot vs w a is flag)"
proof (induction "is" arbitrary: flag)
  case Nil
  show ?case by (simp add: asks_rules)
next
  case (Cons i "is")
  have "state_io_rel only_asks (other_calls_loop E callId slot vs w a is f)" for f by (rule Cons.IH)
  then show ?case unfolding other_calls_loop.simps by (intro asks_rules; simp)
qed

lemma hold_or_disconnected_asks [asks_rules]:
  "state_io_rel only_asks (HoldOrDisconnectedCall E callId slot vs)"
  unfolding HoldOrDisconnectedCall_def by (intro asks_rules; simp)

lemma hang_up_other_slots_asks [asks_rules]:
  "state_io_rel only_asks (hang_up_other_slots E p slot is b)"
proof (induction "is" arbitrary: b)
  case Nil
  show ?case by (simp add: asks_rules)
next
  case (Cons i "is")
  have "state_io_rel only_asks (hang_up_other_slots E p slot is f)" for f by (rule Cons.IH)
  then show ?case unfolding hang_up_other_slots.simps by (intro asks_rules; simp)
qed

lemma disconnect_others_asks [asks_rules]:
  "state_io_rel only_asks (DisconnectOtherSubIdCall E callId slot vs)"
  "state_io_rel only_asks (DisconnectOtherCallForVideoCall E callId)"
  unfolding DisconnectOtherSubIdCall_def DisconnectOtherCallForVideoCall_def by (intro asks_rules; simp)+

lemma answer_request_asks [asks_rules]:
  "state_io_rel only_asks (AnswerRequestForDsda E p callId vs rtt)"
  "state_io_rel only_asks (AnswerRequest E callId vs rtt)"
  unfolding AnswerRequestForDsda_def AnswerRequest_def by (intro asks_rules; simp)+

lemma kick_out_asks [asks_rules]:
  "state_io_rel only_asks (KickOutFromConferenceRequest E callId)"
  "state_io_rel only_asks (kick_out_members E p)"
  unfolding KickOutFromConferenceRequest_def kick_out_members_def by (intro asks_rules; simp)+

lemma hang_up_request_asks [asks_rules]:
  "state_io_rel only_asks (HangUpForDsdaRequest E p)"
  "state_io_rel only_asks (HangUpRequest E callId)"
  "state_io_rel only_asks (RejectRequest E callId sms t)"
  unfolding HangUpForDsdaRequest_def HangUpRequest_def RejectRequest_def by (intro asks_rules; simp)+

lemma unhold_loop_asks [asks_rules]: "state_io_rel only_asks (unhold_loop E b is)"
proof (induction "is")
  case Nil
  show ?case by (simp add: asks_rules)
next
  case (Cons i "is")
  have "state_io_rel only_asks (unhold_loop E b is)" by (rule Cons.IH)
  then show ?case unfolding unhold_loop.simps by (intro asks_rules; simp)
qed

lemma other_requests_ask [asks_rules]:
  "state_io_rel only_asks (HoldRequest E callId)" "state_io_rel only_asks (SwitchRequest E callId)"
  "state_io_rel only_asks (UnHoldRequest E callId)" "state_io_rel only_asks (CombineConferenceRequest E callId)"
  "state_io_rel only_asks (SeparateConferenceRequest E callId)"
  "state_io_rel only_asks (UpdateImsRttCallModeRequest E callId mode)"
  "state_io_rel only_asks (JoinConference E callId numbers)"
  unfolding HoldRequest_def SwitchRequest_def UnHoldRequest_def CombineConferenceRequest_def
    SeparateConferenceRequest_def UpdateImsRttCallModeRequest_def JoinConference_def on_existing_def
  by (intro asks_rules; simp)+

lemma run_task_asks: "state_io_rel only_asks (run_task E t)"
  unfolding run_task_def by (cases t) (simp_all add: asks_rules)

end
