(* ===== verification/Audio_Device_Properties.thy ===== *)
theory Audio_Device_Properties
  imports Audio_Playback Request_Frame
begin

text \<open>
  What the audio devices and players keep to.  The locale \<open>media_frame\<close> is the calculus of
  theory Request_Frame for the steps of the audio side; its instance \<open>kept\<close> carries the
  invariant of the list of devices through every operation that changes it.
\<close>

subsection \<open>Relations that the steps inherit\<close>

locale media_frame = state_frame R for R :: "media \<Rightarrow> media \<Rightarrow> bool"
begin

lemma look_frame: "state_io_rel R (look f)"
  by (auto simp: state_io_rel_def refl)

lemma answer_frame: "state_io_rel R (answer f)"
  by (auto simp: state_io_rel_def refl)

lemma devs_frame: "state_io_rel R (devs f)"
  by (auto simp: state_io_rel_def refl)

lemma plays_frame: "state_io_rel R (plays f)"
  by (auto simp: state_io_rel_def refl)

lemma modify_frame: "(\<And>s. R s (f s)) \<Longrightarrow> state_io_rel R (modify f)"
  by (simp add: state_io_rel_def)

lemma doing_frame: "(b \<Longrightarrow> state_io_rel R m) \<Longrightarrow> state_io_rel R (doing b m)"
  by (simp add: doing_def return_frame)

lemma list_frame:
  "state_io_rel R m \<Longrightarrow> (\<And>x xs. v = x # xs \<Longrightarrow> state_io_rel R (f x xs)) \<Longrightarrow>
   state_io_rel R (case v of [] \<Rightarrow> m | x # xs \<Rightarrow> f x xs)"
  by (cases v) simp_all

lemmas media_rules = state_rules look_frame answer_frame devs_frame plays_frame doing_frame list_frame

end

subsection \<open>The list of devices and the flags\<close>

definition has_type :: "int \<Rightarrow> AudioDevice list \<Rightarrow> bool" where
  "has_type t ds = (\<exists>d\<in>set ds. ad_deviceType d = t)"

definition device_keys :: "AudioDevice list \<Rightarrow> (string \<times> int) list" where
  "device_keys ds = map (\<lambda>d. (device_address d, ad_deviceType d)) ds"

text \<open>
  No device is listed twice, the two flags say what is in the list, and a wired headset
  takes the place of the earpiece.
\<close>

definition list_ok :: "bool \<Rightarrow> bool \<Rightarrow> AudioDevice list \<Rightarrow> bool" where
  "list_ok wired sco ds = (distinct (device_keys ds) \<and>
     (wired \<longleftrightarrow> has_type DEVICE_WIRED_HEADSET ds) \<and> (sco \<longleftrightarrow> has_type DEVICE_BLUETOOTH_SCO ds) \<and>
     (has_type DEVICE_WIRED_HEADSET ds \<longrightarrow> \<not> has_type DEVICE_EARPIECE ds))"

definition devices_ok :: "device_manager \<Rightarrow> bool" where
  "devices_ok m = list_ok (dm_isWiredHeadsetConnected m) (dm_isBtScoConnected m)
     (di_audioDeviceList (dm_info m))"

text \<open>The devices and the flags stay, though a report may change their order.\<close>

definition same_list :: "media \<Rightarrow> media \<Rightarrow> bool" where
  "same_list s t = (let m = md_devices s; n = md_devices t in
     mset (di_audioDeviceList (dm_info n)) = mset (di_audioDeviceList (dm_info m)) \<and>
     dm_isWiredHeadsetConnected n = dm_isWiredHeadsetConnected m \<and>
     dm_isBtScoConnected n = dm_isBtScoConnected m \<and>
     dm_isDCallDevConnected n = dm_isDCallDevConnected m \<and>
     dm_isSpeakerAvailable n = dm_isSpeakerAvailable m \<and>
     dm_isEarpieceAvailable n = dm_isEarpieceAvailable m)"

definition keeps_devices :: "media \<Rightarrow> media \<Rightarrow> bool" where
  "keeps_devices s t = (devices_ok (md_devices s) \<longrightarrow> devices_ok (md_devices t))"

interpretation listed: media_frame same_list
  by unfold_locales (auto simp: same_list_def Let_def)

interpretation kept: media_frame keeps_devices
  by unfold_locales (auto simp: keeps_devices_def)

named_theorems listed_rules "steps that leave the devices and the flags"
named_theorems kept_rules "steps that keep the list of devices consistent"

lemmas [listed_rules] = listed.media_rules
lemmas [kept_rules] = kept.media_rules

lemma has_type_simps [simp]:
  "has_type t [] = False" "has_type t (d # ds) = (ad_deviceType d = t \<or> has_type t ds)"
  "has_type t (ds @ es) = (has_type t ds \<or> has_type t es)"
  by (auto simp: has_type_def)

lemma has_type_mset: "mset ds = mset es \<Longrightarrow> has_type t ds = has_type t es"
  unfolding has_type_def by (metis set_mset_mset)

lemma device_keys_simps [simp]:
  "device_keys [] = []" "device_keys (d # ds) = (device_address d, ad_deviceType d) # device_keys ds"
  "device_keys (ds @ es) = device_keys ds @ device_keys es"
  by (simp_all add: device_keys_def)

lemma distinct_keys_mset: "mset ds = mset es \<Longrightarrow> distinct (device_keys ds) = distinct (device_keys es)"
  by (rule mset_eq_imp_distinct_iff) (simp add: device_keys_def)

lemma list_ok_mset: "mset ds = mset es \<Longrightarrow> list_ok w b ds = list_ok w b es"
  unfolding list_ok_def by (simp add: has_type_mset [of ds es] distinct_keys_mset [of ds es])

lemma same_list_ok: "same_list s t \<Longrightarrow> keeps_devices s t"
  using list_ok_mset [of "di_audioDeviceList (dm_info (md_devices t))"
    "di_audioDeviceList (dm_info (md_devices s))"]
  by (simp add: same_list_def Let_def keeps_devices_def devices_ok_def)

lemma kept_of_listed: "state_io_rel same_list m \<Longrightarrow> state_io_rel keeps_devices m"
  by (auto simp: state_io_rel_def intro: same_list_ok)

lemma kept_on_devices [kept_rules]:
  "(\<And>m. devices_ok m \<Longrightarrow> devices_ok (f m)) \<Longrightarrow> state_io_rel keeps_devices (on_devices f)"
  by (simp add: state_io_rel_def keeps_devices_def)

lemma listed_quiet [listed_rules]:
  "state_io_rel same_list (act x)" "state_io_rel same_list (on_play g)"
  "state_io_rel same_list (on_audio h)"
  by (simp_all add: state_io_rel_def same_list_def Let_def)

lemma listed_on_info [listed_rules]:
  "(\<And>i. di_audioDeviceList (f i) = di_audioDeviceList i) \<Longrightarrow> state_io_rel same_list (on_info f)"
  by (simp add: on_info_def state_io_rel_def same_list_def Let_def)

lemma with_current_list [simp]:
  "di_audioDeviceList (with_current f i) = di_audioDeviceList i"
  "di_audioDeviceList (set_current_type t i) = di_audioDeviceList i"
  by (simp_all add: with_current_def set_current_type_def)

text \<open>The devices a transferred call hides come back at the end of the list.\<close>

lemma transfer_mset:
  assumes "UpdateDeviceTypeForBtCall E sco c i = (ignored, shown)"
  shows "mset (di_audioDeviceList shown @ ignored) = mset (di_audioDeviceList i)"
proof -
  have "mset (List.filter (\<lambda>d. \<not> P d) ds) + mset (List.filter P ds) = mset ds"
    for P and ds :: "AudioDevice list"
    by (induction ds) simp_all
  with assms show ?thesis
    by (auto simp: UpdateDeviceTypeForBtCall_def UpdateTransferCallDeviceBegin_def Let_def
        split: if_splits)
qed

lemma report_changes:
  assumes "run_state (ReportAudioDeviceInfo_of E call) s = (ret, t)"
  shows "\<exists>i tr. t = s\<lparr>md_devices := (md_devices s)\<lparr>dm_info := i\<rparr>, md_trace := tr\<rparr> \<and>
    mset (di_audioDeviceList i) = mset (di_audioDeviceList (dm_info (md_devices s)))"
proof (cases call)
  case None
  with assms show ?thesis
    by (intro exI [of _ "dm_info (md_devices s)"] exI [of _ "md_trace s"])
       (simp add: ReportAudioDeviceInfo_of_def)
next
  case (Some p)
  let ?c = "r_heap (md_reg s) p" and ?m = "md_devices s"
  let ?mute = "if m_callType ?c = TYPE_VOIP \<or> m_callType ?c = TYPE_BLUETOOTH then m_isMuted ?c
    else me_groupManager E (md_trace s) \<and> me_microphoneMute E (md_trace s)"
  let ?i = "(dm_info ?m)\<lparr>di_callId := m_callId ?c, di_isMuted := ?mute, di_isMicDisabled :=
    (if m_callType ?c = TYPE_VOIP then m_isMicDisabled ?c else di_isMicDisabled (dm_info ?m))\<rparr>"
  obtain ignored shown where
    u: "UpdateDeviceTypeForBtCall E (me_btScoConnected E (md_trace s)) ?c ?i = (ignored, shown)"
    by fastforce
  have "t = s\<lparr>md_devices := ?m\<lparr>dm_info := UpdateTransferCallDeviceEnd ignored
      (set_current_type (ad_deviceType (di_currentAudioDevice ?i)) shown)\<rparr>,
      md_trace := md_trace s @ [ReportDevices shown]\<rparr>"
    using assms u Some
    by (auto simp: ReportAudioDeviceInfo_of_def on_info_def IsMicrophoneMute_def Let_def
        split: if_splits)
  with transfer_mset [OF u] show ?thesis
    by (auto simp: UpdateTransferCallDeviceEnd_def)
qed

lemma listed_report [listed_rules]: "state_io_rel same_list (ReportAudioDeviceInfo_of E call)"
proof (rule state_io_relI)
  fix ret s t
  assume "run_state (ReportAudioDeviceInfo_of E call) s = (ret, t)"
  from report_changes [OF this] obtain i tr where
    "t = s\<lparr>md_devices := (md_devices s)\<lparr>dm_info := i\<rparr>, md_trace := tr\<rparr>"
    "mset (di_audioDeviceList i) = mset (di_audioDeviceList (dm_info (md_devices s)))" by blast
  then show "same_list s t" by (simp add: same_list_def Let_def)
qed


subsection \<open>Choosing and reporting leave the list\<close>

lemma listed_ReportAudioDeviceInfo [listed_rules]: "state_io_rel same_list (ReportAudioDeviceInfo E)"
  unfolding ReportAudioDeviceInfo_def by (intro listed_rules)

lemma listed_CopyDeviceData [listed_rules]: "state_io_rel same_list (CopyDeviceData E a n)"
  unfolding CopyDeviceData_def by (intro listed_rules with_current_list)

lemma listed_preferred [listed_rules]:
  "state_io_rel same_list (GetPreferredOutputAudioDevice E d b)"
  "state_io_rel same_list (preferred_is E t d)"
  "state_io_rel same_list (IsNearlinkActived E d)"
  "state_io_rel same_list (IsBtHearingAidActived E d)"
  unfolding GetPreferredOutputAudioDevice_def preferred_is_def IsNearlinkActived_def
    IsBtHearingAidActived_def
  by (intro listed_rules)+

lemma listed_queries [listed_rules]:
  "state_io_rel same_list (IsBtActived E)"
  "state_io_rel same_list (IsRemoteDevicesConnected E)"
  "state_io_rel same_list (IsSupportEarpiece E)"
  "state_io_rel same_list (IsMicrophoneMute E)"
  "state_io_rel same_list (GetRingerMode E)"
  "state_io_rel same_list IsVoIPCallActived"
  "state_io_rel same_list IsSpeakerMode"
  "state_io_rel same_list (GetInitAudioDeviceTypeOfRemote E)"
  "state_io_rel same_list (IsDistributedPreferredOutputAudioDevice E)"
  "state_io_rel same_list (UpdateBtDevice E an)"
  "state_io_rel same_list (UpdateNearlinkDevice E an)"
  "state_io_rel same_list (UpdateBtHearingAidDevice E an)"
  unfolding IsBtActived_def IsRemoteDevicesConnected_def IsSupportEarpiece_def IsMicrophoneMute_def
    GetRingerMode_def IsVoIPCallActived_def IsSpeakerMode_def GetInitAudioDeviceTypeOfRemote_def
    IsDistributedPreferredOutputAudioDevice_def UpdateBtDevice_def UpdateNearlinkDevice_def
    UpdateBtHearingAidDevice_def update_preferred_def
  by (intro listed_rules)+

lemma listed_GetInitAudioDeviceType [listed_rules]:
  "state_io_rel same_list (GetInitAudioDeviceType E c)"
  unfolding GetInitAudioDeviceType_def by (intro listed_rules)

lemma listed_type [listed_rules]:
  "state_io_rel same_list (on_devices (\<lambda>m. m\<lparr>dm_audioDeviceType := t\<rparr>))"
  "state_io_rel same_list (on_devices (\<lambda>m. m\<lparr>dm_isAudioActivated := b\<rparr>))"
  "state_io_rel same_list (on_devices (\<lambda>m. m\<lparr>dm_isUpdateEarpieceDevice := b\<rparr>))"
  "state_io_rel same_list (on_devices (\<lambda>m. m\<lparr>dm_audioMode := x, dm_audioScene := y\<rparr>))"
  by (simp_all add: state_io_rel_def same_list_def Let_def)

lemma listed_ReportAudioDeviceChange [listed_rules]:
  "state_io_rel same_list (ReportAudioDeviceChange E d)"
  unfolding ReportAudioDeviceChange_def by (intro listed_rules with_current_list)

lemma listed_SetCurrentAudioDevice [listed_rules]:
  "state_io_rel same_list (leave_distributed t)"
  "state_io_rel same_list (SetCurrentAudioDevice_device E d)"
  "state_io_rel same_list (SetCurrentAudioDevice_type E t)"
  unfolding leave_distributed_def SetCurrentAudioDevice_device_def SetCurrentAudioDevice_type_def
  by (intro listed_rules)+

lemma listed_activate [listed_rules]:
  "state_io_rel same_list (SetDeviceActive E t f b)"
  "state_io_rel same_list (SetSpeakerDevActive E f b)"
  "state_io_rel same_list (SetWiredHeadsetDevActive E b)"
  "state_io_rel same_list (SetEarpieceDevActive E b)"
  unfolding SetDeviceActive_def SetSpeakerDevActive_def SetWiredHeadsetDevActive_def
    SetEarpieceDevActive_def
  by (intro listed_rules)+

lemma listed_both [listed_rules]:
  "state_io_rel same_list m \<Longrightarrow> state_io_rel same_list n \<Longrightarrow> state_io_rel same_list (both m n)"
  unfolding both_def by (intro listed_rules)

lemma listed_enable_if [listed_rules]:
  "state_io_rel same_list m \<Longrightarrow> state_io_rel same_list (enable_if E m t)"
  unfolding enable_if_def by (intro listed_rules)

lemma listed_DisableAll [listed_rules]: "state_io_rel same_list DisableAll"
  by (simp add: DisableAll_def state_io_rel_def same_list_def Let_def)

lemma listed_SwitchDevice [listed_rules]: "state_io_rel same_list (SwitchDevice E t b)"
  unfolding SwitchDevice_def EnableEarpiece_def EnableSpeaker_def EnableWiredHeadset_def
    EnableBtSco_def EnableNearlink_def EnableBtHearingAid_def
  by (intro listed_rules)

lemma listed_InitAudioDevice [listed_rules]:
  "state_io_rel same_list (InitAudioDevice E)"
  "state_io_rel same_list (UpdateCurrentAudioDevice E)"
  unfolding InitAudioDevice_def UpdateCurrentAudioDevice_def by (intro listed_rules)+

lemma listed_car_scan [listed_rules]: "state_io_rel same_list (car_scan E ds)"
  by (induction ds) (auto intro!: listed_rules)

lemma listed_ProcessEvent [listed_rules]:
  "state_io_rel same_list (CheckAndSwitchDistributedAudioDevice E)"
  "state_io_rel same_list (Devices_ProcessEvent E ev)"
  unfolding CheckAndSwitchDistributedAudioDevice_def Devices_ProcessEvent_def by (intro listed_rules)+


lemma listed_routing [listed_rules]:
  "state_io_rel same_list (SwitchAudioDevice E t b)"
  "state_io_rel same_list (HandleDistributeAudioDevice E d)"
  "state_io_rel same_list (GetWirelessAudioDeviceAddress E t a)"
  "state_io_rel same_list (HandleWirelessAudioDevice E d)"
  "state_io_rel same_list (SetAudioDevice E d b)"
  "state_io_rel same_list (set_device E t)"
  unfolding SwitchAudioDevice_def HandleDistributeAudioDevice_def GetWirelessAudioDeviceAddress_def
    HandleWirelessAudioDevice_def SetAudioDevice_def set_device_def
  by (intro listed_rules)+

lemma listed_following [listed_rules]:
  "state_io_rel same_list (CheckTypeAndSetAudioDevice E p v w t)"
  "state_io_rel same_list (Audio_VideoStateUpdated E c v w)"
  "state_io_rel same_list (SetAudioDeviceByAudioMode E b b')"
  "state_io_rel same_list (SetSpeakerDeactive E)"
  "state_io_rel same_list (UpdateDeviceForForegroundCall E p)"
  "state_io_rel same_list (Audio_UpdateDeviceType E c)"
  "state_io_rel same_list (AdjustDeviceForCrs E t)"
  "state_io_rel same_list (UpdateDeviceTypeForCrs E t)"
  "state_io_rel same_list (Audio_UpdateDeviceTypeForVideoDialing E)"
  unfolding CheckTypeAndSetAudioDevice_def Audio_VideoStateUpdated_def SetAudioDeviceByAudioMode_def
    SetSpeakerDeactive_def UpdateDeviceForForegroundCall_def Audio_UpdateDeviceType_def
    AdjustDeviceForCrs_def UpdateDeviceTypeForCrs_def Audio_UpdateDeviceTypeForVideoDialing_def
  by (intro listed_rules)+

subsection \<open>Every operation keeps the list consistent\<close>

lemma kept_of_steps [kept_rules]:
  "state_io_rel keeps_devices (act x)" "state_io_rel keeps_devices (on_play g)"
  "state_io_rel keeps_devices (on_audio h)"
  "state_io_rel keeps_devices (on_devices (\<lambda>m. m\<lparr>dm_isUpdateEarpieceDevice := b\<rparr>))"
  "state_io_rel keeps_devices (on_devices (\<lambda>m. m\<lparr>dm_audioMode := x', dm_audioScene := y\<rparr>))"
  "state_io_rel keeps_devices (IsSupportEarpiece E)"
  "state_io_rel keeps_devices (GetPreferredOutputAudioDevice E d c)"
  "state_io_rel keeps_devices (ReportAudioDeviceInfo E)"
  "state_io_rel keeps_devices (SetCurrentAudioDevice_device E d)"
  "state_io_rel keeps_devices (SetCurrentAudioDevice_type E t)"
  "state_io_rel keeps_devices (CheckAndSwitchDistributedAudioDevice E)"
  "state_io_rel keeps_devices (Devices_ProcessEvent E ev)"
  "state_io_rel keeps_devices (SetAudioDevice E d c)"
  "state_io_rel keeps_devices (Audio_VideoStateUpdated E o' v w)"
  "state_io_rel keeps_devices (Audio_UpdateDeviceType E o')"
  "state_io_rel keeps_devices (UpdateDeviceTypeForCrs E t)"
  by (intro kept_of_listed listed_rules)+

text \<open>The operations on the list itself: what they leave of it, then the steps.\<close>

lemma kept_then:
  "keeps_devices s s' \<Longrightarrow> state_io_rel keeps_devices m \<Longrightarrow> keeps_devices s (snd (run_state m s'))"
  using kept.trans kept.frame_run by blast

lemma kept_by_run:
  "(\<And>s. keeps_devices s (snd (run_state m s))) \<Longrightarrow> state_io_rel keeps_devices m"
  by (simp add: state_io_rel_def)

lemma has_type_filter:
  "(\<And>d. ad_deviceType d = t \<Longrightarrow> P d) \<Longrightarrow> has_type t (List.filter P ds) = has_type t ds"
  by (induction ds) auto

lemma has_type_filterD: "has_type t (List.filter P ds) \<Longrightarrow> has_type t ds"
  by (auto simp: has_type_def)

lemma keys_filter: "distinct (device_keys ds) \<Longrightarrow> distinct (device_keys (List.filter P ds))"
  unfolding device_keys_def by (rule distinct_map_filter)

lemma has_type_erase:
  "(\<And>d. ad_deviceType d = t \<Longrightarrow> \<not> P d) \<Longrightarrow> has_type t (erase_first P ds) = has_type t ds"
  by (induction ds) auto

lemma keys_erase:
  "set (device_keys (erase_first P ds)) \<subseteq> set (device_keys ds)"
  "distinct (device_keys ds) \<Longrightarrow> distinct (device_keys (erase_first P ds))"
  by (induction ds) auto

lemma erase_subset: "set (erase_first P ds) \<subseteq> set ds"
  by (induction ds) auto

lemma list_ok_erase_earpiece:
  "list_ok w b ds \<Longrightarrow> list_ok w b (erase_first (\<lambda>d. ad_deviceType d = DEVICE_EARPIECE) ds)"
  using erase_subset [of "\<lambda>d. ad_deviceType d = DEVICE_EARPIECE" ds]
  by (auto simp: list_ok_def has_type_erase keys_erase) (auto simp: has_type_def)

lemma rename_keys:
  "rename_first mac t name ds = Some es \<Longrightarrow>
   device_keys es = device_keys ds \<and> (\<forall>k. has_type k es = has_type k ds)"
  by (induction ds arbitrary: es) (auto simp: device_address_def split: if_splits)

lemma add_scan_absent:
  assumes "fst (add_scan a t ds) = False"
  shows "snd (add_scan a t ds) =
      (if t = DEVICE_WIRED_HEADSET then List.filter (\<lambda>d. ad_deviceType d \<noteq> DEVICE_EARPIECE) ds else ds) \<and>
    (\<forall>d\<in>set ds. \<not> is_device a t d)"
  using assms by (induction ds) (auto split: if_splits prod.splits)

lemma add_scan_whole:
  "\<not> (t = DEVICE_WIRED_HEADSET \<and> has_type DEVICE_EARPIECE ds) \<Longrightarrow> snd (add_scan a t ds) = ds"
  by (induction ds) (auto split: prod.splits)

lemma add_scan_found:
  "fst (add_scan a t ds) \<Longrightarrow> has_type t ds"
  by (induction ds) (auto simp: is_device_def split: if_splits prod.splits)

lemma add_scan_ok: "list_ok w b ds \<Longrightarrow> list_ok w b (snd (add_scan a t ds))"
proof (cases "fst (add_scan a t ds)")
  case True
  assume "list_ok w b ds"
  with add_scan_found [OF True] have "\<not> (t = DEVICE_WIRED_HEADSET \<and> has_type DEVICE_EARPIECE ds)"
    by (auto simp: list_ok_def)
  with \<open>list_ok w b ds\<close> show ?thesis by (simp add: add_scan_whole)
next
  case False
  assume "list_ok w b ds"
  with add_scan_absent [of a t ds] False show ?thesis
    by (auto simp: list_ok_def has_type_filter keys_filter dest: has_type_filterD)
qed


lemma kept_on_list:
  "(\<And>w b ds. list_ok w b ds \<Longrightarrow> list_ok w b (f ds)) \<Longrightarrow> state_io_rel keeps_devices (on_list f)"
  by (simp add: on_list_def on_info_def state_io_rel_def keeps_devices_def devices_ok_def)

lemma kept_UpdateEarpieceDevice [kept_rules]: "state_io_rel keeps_devices (UpdateEarpieceDevice E)"
  unfolding UpdateEarpieceDevice_def by (intro kept_rules kept_on_list list_ok_erase_earpiece)

lemma kept_UpdateDeviceName [kept_rules]: "state_io_rel keeps_devices (UpdateDeviceName E mac name t)"
proof (rule kept_by_run)
  fix s :: media
  let ?ds = "di_audioDeviceList (dm_info (md_devices s))"
  show "keeps_devices s (snd (run_state (UpdateDeviceName E mac name t) s))"
  proof (cases "rename_first mac t name ?ds")
    case None
    then show ?thesis by (simp add: UpdateDeviceName_def kept.refl)
  next
    case (Some es)
    let ?s = "snd (run_state (on_list (\<lambda>_. es)) s)"
    from rename_keys [OF Some] have "keeps_devices s ?s"
      by (simp add: on_list_def on_info_def keeps_devices_def devices_ok_def list_ok_def)
    from kept_then [OF this kept_of_steps(8) [of E]] Some show ?thesis
      by (simp add: UpdateDeviceName_def kept.refl split_beta)
  qed
qed

lemma kept_names [kept_rules]:
  "state_io_rel keeps_devices (UpdateBluetoothDeviceName E mac name)"
  "state_io_rel keeps_devices (UpdateNearlinkDeviceName E mac name)"
  unfolding UpdateBluetoothDeviceName_def UpdateNearlinkDeviceName_def by (intro kept_rules)+

text \<open>A device is added: the list and the flags before the applications are told.\<close>

definition added :: "string \<Rightarrow> int \<Rightarrow> string \<Rightarrow> device_manager \<Rightarrow> device_manager" where
  "added a t n m =
     (let i = dm_info m; ds = snd (add_scan a t (di_audioDeviceList i));
          m' = m\<lparr>dm_info := i\<lparr>di_audioDeviceList := ds @ [\<lparr>ad_deviceType = t, ad_address = c_string a,
                 ad_deviceName = c_string n\<rparr>]\<rparr>\<rparr>
      in if t = DEVICE_WIRED_HEADSET \<or> t = DEVICE_BLUETOOTH_SCO \<or> IsDistributedAudioDeviceType t
         then SetDeviceAvailable t True m' else m')"

lemma c_string_idem [simp]: "c_string (c_string a) = c_string a"
  by (simp add: c_string_def takeWhile_idem)

lemma run_AddAudioDeviceList:
  "snd (run_state (AddAudioDeviceList E a t n) s) =
     (let m = md_devices s; scan = add_scan a t (di_audioDeviceList (dm_info m)) in
      if \<not> fst scan \<and> fits_address a \<and> fits_name n
      then snd (run_state (ReportAudioDeviceInfo E) (s\<lparr>md_devices := added a t n m\<rparr>))
      else s\<lparr>md_devices := m\<lparr>dm_info := (dm_info m)\<lparr>di_audioDeviceList := snd scan\<rparr>\<rparr>\<rparr>)"
proof -
  obtain found ds where
    scan: "add_scan a t (di_audioDeviceList (dm_info (md_devices s))) = (found, ds)"
    by fastforce
  show ?thesis
    by (simp add: AddAudioDeviceList_def on_list_def on_info_def added_def Let_def scan
        split_beta)
qed

lemma added_ok:
  assumes "devices_ok m" "\<not> fst (add_scan a t (di_audioDeviceList (dm_info m)))"
    "c_string a = a" "t \<noteq> DEVICE_EARPIECE"
  shows "devices_ok (added a t n m)"
proof -
  let ?ds = "di_audioDeviceList (dm_info m)"
  have new: "(a, t) \<notin> set (device_keys (snd (add_scan a t ?ds)))"
    using add_scan_absent [of a t ?ds] assms(2)
    by (auto simp: device_keys_def is_device_def split: if_splits)
  have ok: "list_ok (dm_isWiredHeadsetConnected m) (dm_isBtScoConnected m) (snd (add_scan a t ?ds))"
    using assms(1) by (simp add: devices_ok_def add_scan_ok)
  have "t = DEVICE_WIRED_HEADSET \<Longrightarrow> \<not> has_type DEVICE_EARPIECE (snd (add_scan a t ?ds))"
    using add_scan_absent [of a t ?ds] assms(2) by (auto simp: has_type_def)
  with new ok assms(3,4) show ?thesis
    by (auto simp: added_def Let_def devices_ok_def list_ok_def SetDeviceAvailable_def
        IsDistributedAudioDeviceType_def device_address_def)
qed

lemma kept_AddAudioDeviceList [kept_rules]:
  assumes "c_string a = a" "t \<noteq> DEVICE_EARPIECE"
  shows "state_io_rel keeps_devices (AddAudioDeviceList E a t n)"
proof (rule kept_by_run)
  fix s :: media
  let ?m = "md_devices s" and ?scan = "add_scan a t (di_audioDeviceList (dm_info (md_devices s)))"
  have "keeps_devices s (s\<lparr>md_devices := added a t n ?m\<rparr>)" if "\<not> fst ?scan"
    using added_ok [of ?m a t n] assms that by (simp add: keeps_devices_def)
  moreover have "keeps_devices s
      (s\<lparr>md_devices := ?m\<lparr>dm_info := (dm_info ?m)\<lparr>di_audioDeviceList := snd ?scan\<rparr>\<rparr>\<rparr>)"
    by (simp add: keeps_devices_def devices_ok_def add_scan_ok)
  ultimately show "keeps_devices s (snd (run_state (AddAudioDeviceList E a t n) s))"
    by (simp add: run_AddAudioDeviceList Let_def kept_then kept_of_steps(8))
qed


text \<open>A device is removed: what is left of the list, and of the flags.\<close>

definition removed :: "media_env \<Rightarrow> media_trace \<Rightarrow> string \<Rightarrow> int \<Rightarrow> device_manager \<Rightarrow> device_manager" where
  "removed E tr a t m =
     (let i = dm_info m; before = di_audioDeviceList i;
          rest = List.filter (\<lambda>d. \<not> is_device a t d) before;
          unplugged = (t = DEVICE_WIRED_HEADSET \<and> \<not> has_type DEVICE_WIRED_HEADSET rest);
          m' = (if unplugged \<or> t = DEVICE_BLUETOOTH_SCO \<and> \<not> has_type DEVICE_BLUETOOTH_SCO rest \<or>
                  IsDistributedAudioDeviceType t then SetDeviceAvailable t False m else m)
      in m'\<lparr>dm_info := i\<lparr>di_audioDeviceList :=
           (if \<not> has_type DEVICE_EARPIECE before \<and> unplugged \<and>
               DEVICE_TYPE_EARPIECE \<in> set (me_availableDevices E tr)
            then rest @ [audio_device DEVICE_EARPIECE] else rest)\<rparr>\<rparr>)"

lemma removed_ok: "devices_ok m \<Longrightarrow> devices_ok (removed E tr a t m)"
proof -
  assume ok: "devices_ok m"
  let ?ds = "di_audioDeviceList (dm_info m)"
  let ?rest = "List.filter (\<lambda>d. \<not> is_device a t d) ?ds"
  have same: "k \<noteq> t \<Longrightarrow> has_type k ?rest = has_type k ?ds" for k
    by (rule has_type_filter) (auto simp: is_device_def)
  have less: "has_type k ?rest \<Longrightarrow> has_type k ?ds" for k by (rule has_type_filterD)
  have fresh: "([], DEVICE_EARPIECE) \<notin> set (device_keys ?rest)" if "\<not> has_type DEVICE_EARPIECE ?ds"
    using that by (auto simp: has_type_def device_keys_def)
  have keys: "distinct (device_keys ?rest)"
    using ok by (auto simp: devices_ok_def list_ok_def keys_filter)
  consider "t = DEVICE_WIRED_HEADSET" | "t = DEVICE_BLUETOOTH_SCO"
    | "t \<noteq> DEVICE_WIRED_HEADSET" "t \<noteq> DEVICE_BLUETOOTH_SCO" by blast
  then show ?thesis
  proof cases
    case 1
    with ok same [of DEVICE_BLUETOOTH_SCO] less [of DEVICE_WIRED_HEADSET] less [of DEVICE_EARPIECE]
      fresh keys show ?thesis
      by (auto simp: devices_ok_def list_ok_def removed_def Let_def SetDeviceAvailable_def
          IsDistributedAudioDeviceType_def audio_device_def device_address_def c_string_def)
  next
    case 2
    with ok same [of DEVICE_WIRED_HEADSET] less [of DEVICE_BLUETOOTH_SCO] less [of DEVICE_EARPIECE]
      keys show ?thesis
      by (auto simp: devices_ok_def list_ok_def removed_def Let_def SetDeviceAvailable_def
          IsDistributedAudioDeviceType_def)
  next
    case 3
    with ok same [of DEVICE_WIRED_HEADSET] same [of DEVICE_BLUETOOTH_SCO] less [of DEVICE_EARPIECE]
      keys show ?thesis
      by (auto simp: devices_ok_def list_ok_def removed_def Let_def SetDeviceAvailable_def
          IsDistributedAudioDeviceType_def)
  qed
qed

lemma SetDeviceAvailable_info [simp]:
  "dm_info (SetDeviceAvailable t b m) = dm_info m"
  "SetDeviceAvailable t b (m\<lparr>dm_info := i\<rparr>) = (SetDeviceAvailable t b m)\<lparr>dm_info := i\<rparr>"
  by (simp_all add: SetDeviceAvailable_def)

lemma run_erase_steps:
  "snd (run_state (do {
     _ \<leftarrow> on_list (\<lambda>_. ds);
     _ \<leftarrow> doing c (on_devices (SetDeviceAvailable t False));
     doing e (AddEarpiece E) }) s) =
   s\<lparr>md_devices := (let m = md_devices s in
       (if c then SetDeviceAvailable t False m else m)\<lparr>dm_info := (dm_info m)\<lparr>di_audioDeviceList :=
          ds @ (if e \<and> DEVICE_TYPE_EARPIECE \<in> set (me_availableDevices E (md_trace s))
                then [audio_device DEVICE_EARPIECE] else [])\<rparr>\<rparr>)\<rparr>"
  by (simp add: AddEarpiece_def IsSupportEarpiece_def on_list_def on_info_def Let_def)

lemma run_erase_device:
  "snd (run_state (erase_device E a t) s) =
     s\<lparr>md_devices := removed E (md_trace s) a t (md_devices s)\<rparr>"
proof -
  have has: "(\<exists>d\<in>set ds. ad_deviceType d = k) = has_type k ds"
    "(\<forall>d\<in>set ds. ad_deviceType d \<noteq> k) = (\<not> has_type k ds)" for k and ds :: "AudioDevice list"
    by (auto simp: has_type_def)
  have split: "ds @ (if e then xs else []) = (if e then ds @ xs else ds)" for e and ds xs :: "AudioDevice list"
    by simp
  show ?thesis
    by (simp only: erase_device_def run_state_bind run_devs prod.case Let_def run_erase_steps
        [unfolded run_state_bind Let_def] has removed_def split conj_assoc)
qed

lemma kept_RemoveAudioDeviceList [kept_rules]:
  "state_io_rel keeps_devices (erase_device E a t)"
  "state_io_rel keeps_devices (RemoveAudioDeviceList E a t)"
proof -
  show erase: "state_io_rel keeps_devices (erase_device E a t)"
    by (rule kept_by_run) (simp add: run_erase_device keeps_devices_def removed_ok)
  show "state_io_rel keeps_devices (RemoveAudioDeviceList E a t)"
    unfolding RemoveAudioDeviceList_def by (intro kept_rules erase)
qed

lemma kept_erase_kind [kept_rules]:
  "\<not> P DEVICE_WIRED_HEADSET \<Longrightarrow> \<not> P DEVICE_BLUETOOTH_SCO \<Longrightarrow> state_io_rel keeps_devices (erase_kind P)"
  unfolding erase_kind_def
  by (intro kept_rules kept_on_list)
     (auto simp: list_ok_def has_type_filter keys_filter dest: has_type_filterD)

lemma kept_availability [kept_rules]:
  "IsDistributedAudioDeviceType t \<Longrightarrow> state_io_rel keeps_devices (on_devices (SetDeviceAvailable t b))"
  by (intro kept_on_devices)
     (auto simp: SetDeviceAvailable_def IsDistributedAudioDeviceType_def devices_ok_def)

lemma kept_forget_sco:
  "state_io_rel keeps_devices (do {
     had \<leftarrow> erase_kind (\<lambda>t. t = DEVICE_BLUETOOTH_SCO);
     _ \<leftarrow> on_devices (SetDeviceAvailable DEVICE_BLUETOOTH_SCO False);
     State_Monad.return had })"
proof (rule kept_by_run)
  fix s :: media
  have "list_ok w b ds \<Longrightarrow> list_ok w False (List.filter (\<lambda>d. ad_deviceType d \<noteq> DEVICE_BLUETOOTH_SCO) ds)"
    for w b ds
    by (auto simp: list_ok_def has_type_filter keys_filter dest: has_type_filterD)
       (auto simp: has_type_def)
  then show "keeps_devices s (snd (run_state (do {
     had \<leftarrow> erase_kind (\<lambda>t. t = DEVICE_BLUETOOTH_SCO);
     _ \<leftarrow> on_devices (SetDeviceAvailable DEVICE_BLUETOOTH_SCO False);
     State_Monad.return had }) s))"
    by (simp add: erase_kind_def on_list_def on_info_def SetDeviceAvailable_def keeps_devices_def
        devices_ok_def)
qed

lemma kept_ResetBtAudioDevicesList [kept_rules]:
  "state_io_rel keeps_devices (ResetBtAudioDevicesList E)"
proof -
  have "ResetBtAudioDevicesList E = do {
     had \<leftarrow> do {
       had \<leftarrow> erase_kind (\<lambda>t. t = DEVICE_BLUETOOTH_SCO);
       _ \<leftarrow> on_devices (SetDeviceAvailable DEVICE_BLUETOOTH_SCO False);
       State_Monad.return had };
     doing had (do { _ \<leftarrow> ReportAudioDeviceInfo E; State_Monad.return () }) }"
    by (simp add: ResetBtAudioDevicesList_def)
  then show ?thesis by (simp only:) (intro kept_rules kept_forget_sco)
qed

lemma kept_resets [kept_rules]:
  "state_io_rel keeps_devices (ResetDistributedCallDevicesList E)"
  "state_io_rel keeps_devices (ResetNearlinkAudioDevicesList E)"
  "state_io_rel keeps_devices (ResetBtHearingAidDeviceList E)"
  unfolding ResetDistributedCallDevicesList_def ResetNearlinkAudioDevicesList_def
    ResetBtHearingAidDeviceList_def reset_kind_def
  by (intro kept_rules; simp add: IsDistributedAudioDeviceType_def)+

lemma kept_changed_device [kept_rules]: "state_io_rel keeps_devices (changed_device E c d)"
  unfolding changed_device_def SetWiredHeadsetState_def
  by (intro kept_rules kept.modify_frame) (simp_all add: c_string_def keeps_devices_def)

lemma kept_OnDeviceChange [kept_rules]: "state_io_rel keeps_devices (OnDeviceChange E c ds)"
  by (induction ds) (auto intro!: kept_rules)

lemma kept_ProcessVoip [kept_rules]: "state_io_rel keeps_devices (ProcessVoipCallOutputDeviceUpdated E)"
  unfolding ProcessVoipCallOutputDeviceUpdated_def by (intro kept_rules)

lemma kept_IsDistributedDeviceSelected [kept_rules]:
  "state_io_rel keeps_devices (IsDistributedDeviceSelected E ds)"
  unfolding IsDistributedDeviceSelected_def by (intro kept_rules)

lemma kept_follow_preferred [kept_rules]: "state_io_rel keeps_devices (follow_preferred E d)"
  unfolding follow_preferred_def by (intro kept_rules; simp add: c_string_def)

lemma kept_OnPreferredOutputDeviceUpdated [kept_rules]:
  "state_io_rel keeps_devices (OnPreferredOutputDeviceUpdated E ds)"
  unfolding OnPreferredOutputDeviceUpdated_def by (intro kept_rules)


subsection \<open>Runs of the device manager\<close>

text \<open>What the rest of the service and the audio framework ask of the devices.\<close>

datatype DeviceOperation =
    AddDevice string int string | RemoveDevice string int
  | ResetBluetooth | ResetDistributed | ResetNearlink | ResetHearingAid
  | RenameBluetooth string string | RenameNearlink string string | DropEarpiece
  | DevicesChanged bool "AudioDeviceDescriptor list" | PreferredChanged "AudioDeviceDescriptor list"
  | DeviceEventOf AudioEvent | ChooseDevice AudioDevice bool | FollowCall "ptr option"
  | VideoChanged "ptr option" VideoStateType VideoStateType | SetMode int int

fun perform :: "media_env \<Rightarrow> DeviceOperation \<Rightarrow> unit mdstep" where
  "perform E (AddDevice a t n) = AddAudioDeviceList E a t n"
| "perform E (RemoveDevice a t) = RemoveAudioDeviceList E a t"
| "perform E ResetBluetooth = ResetBtAudioDevicesList E"
| "perform E ResetDistributed = ResetDistributedCallDevicesList E"
| "perform E ResetNearlink = ResetNearlinkAudioDevicesList E"
| "perform E ResetHearingAid = ResetBtHearingAidDeviceList E"
| "perform E (RenameBluetooth mac n) = UpdateBluetoothDeviceName E mac n"
| "perform E (RenameNearlink mac n) = UpdateNearlinkDeviceName E mac n"
| "perform E DropEarpiece = UpdateEarpieceDevice E"
| "perform E (DevicesChanged c ds) = OnDeviceChange E c ds"
| "perform E (PreferredChanged ds) = OnPreferredOutputDeviceUpdated E ds"
| "perform E (DeviceEventOf ev) = do { _ \<leftarrow> Devices_ProcessEvent E ev; State_Monad.return () }"
| "perform E (ChooseDevice d b) = do { _ \<leftarrow> SetAudioDevice E d b; State_Monad.return () }"
| "perform E (FollowCall c) = Audio_UpdateDeviceType E c"
| "perform E (VideoChanged c v w) = Audio_VideoStateUpdated E c v w"
| "perform E (SetMode m k) = do { _ \<leftarrow> Devices_SetCallAudioMode m k; State_Monad.return () }"

text \<open>
  No one adds an earpiece, and an address is a C string.  Between two operations the calls,
  the scenes and the players may change in any way.
\<close>

fun allowed :: "DeviceOperation \<Rightarrow> bool" where
  "allowed (AddDevice a t n) = (c_string a = a \<and> t \<noteq> DEVICE_EARPIECE)"
| "allowed _ = True"

inductive device_run :: "media_env \<Rightarrow> media \<Rightarrow> bool" for E :: media_env where
  device_start: "md_devices s = Devices_Init E new_device_manager \<Longrightarrow> device_run E s"
| device_step: "device_run E s \<Longrightarrow> allowed op \<Longrightarrow> device_run E (snd (run_state (perform E op) s))"
| device_other: "device_run E s \<Longrightarrow> md_devices t = md_devices s \<Longrightarrow> device_run E t"

lemma kept_perform: "allowed op \<Longrightarrow> state_io_rel keeps_devices (perform E op)"
  by (cases op) (auto simp: Devices_SetCallAudioMode_def intro!: kept_rules)

lemma device_run_ok: "device_run E s \<Longrightarrow> devices_ok (md_devices s)"
proof (induction rule: device_run.induct)
  case (device_start s)
  then show ?case
    by (simp add: Devices_Init_def new_device_manager_def devices_ok_def list_ok_def
        audio_device_def device_address_def)
next
  case (device_step s op)
  have "keeps_devices s (snd (run_state (perform E op) s))"
    by (rule kept.frame_run [OF kept_perform]) (rule \<open>allowed op\<close>)
  with device_step.IH show ?case by (simp add: keeps_devices_def)
next
  case (device_other s t)
  then show ?case by simp
qed

end
