(* ===== verification/Audio_Samples.thy ===== *)
theory Audio_Samples
  imports Audio_Playback
begin

text \<open>
  Concrete states and platforms of the audio side, at which its properties are applied: one
  IMS call that is active, a framework that accepts everything and prefers nothing, and
  players that start.
\<close>

definition sample_media_env :: media_env where
  "sample_media_env = \<lparr>me_build = sample_build, me_hearing_aid = True, me_vibrator = True,
     me_wearableProduct = False, me_deviceValue = (\<lambda>t. if t = DEVICE_TYPE_BLUETOOTH_SCO then 7 else 0),
     me_preferred = (\<lambda>_ _. (True, [])), me_activeBluetooth = (\<lambda>_. None),
     me_availableDevices = (\<lambda>_. [DEVICE_TYPE_SPEAKER, DEVICE_TYPE_EARPIECE]),
     me_isDeviceActive = (\<lambda>_ _. False), me_setDeviceActive = (\<lambda>_ _ _ _. True),
     me_selectOutput = (\<lambda>_ _ _. True), me_groupManager = (\<lambda>_. True),
     me_microphoneMute = (\<lambda>_. False), me_setMicrophoneMute = (\<lambda>_ _. True),
     me_ringerMode = (\<lambda>_. RINGER_MODE_NORMAL), me_excludeOutput = (\<lambda>_. True),
     me_unexcludeOutput = (\<lambda>_. True), me_createTonePlayer = (\<lambda>_ _. True),
     me_loadTone = (\<lambda>_ _. True), me_startTone = (\<lambda>_. True), me_startRenderer = (\<lambda>_ _. True),
     me_startCapturer = (\<lambda>_. True), me_ringPlayer = (\<lambda>_. True), me_startRing = (\<lambda>_. True),
     me_stopRing = (\<lambda>_. True), me_configureRing = (\<lambda>_. True), me_silentRenderer = (\<lambda>_. True),
     me_startSilent = (\<lambda>_. True), me_streamActive = (\<lambda>_ _. False), me_activeAccounts = [100],
     me_vibrateWhenRinging = (\<lambda>_. (TELEPHONY_SUCCESS, ''1'')), me_modemState = [],
     me_sosDial = False, me_startVibrator = (\<lambda>_. TELEPHONY_SUCCESS),
     me_cancelVibrator = (\<lambda>_. TELEPHONY_SUCCESS), me_volume = (\<lambda>_ t. if t = STREAM_RING then 3 else 9),
     me_maxVolume = (\<lambda>_ _. 15), me_virtualCall = (\<lambda>_. False), me_setVirtualCall = (\<lambda>_ _. True),
     me_isAudioOnSink = (\<lambda>_. False), me_isSinkRole = (\<lambda>_. False), me_isConnected = (\<lambda>_. False),
     me_isDistributedDev = (\<lambda>_ _. False), me_switchToSink = (\<lambda>_ _. True),
     me_dcallSwitchedOn = (\<lambda>_. False), me_dcallSwitchOn = (\<lambda>_ _. True), me_dcallAddress = (\<lambda>_. []),
     me_carOnline = (\<lambda>_. False), me_btScoConnected = (\<lambda>_. False),
     me_reported = (\<lambda>_ _. TELEPHONY_SUCCESS)\<rparr>"

definition sample_playback :: playback where
  "sample_playback = \<lparr>pb_ring = True, pb_ringState = RING_STOPPED, pb_ringReady = True,
     pb_ringPlayer = False, pb_isMutedRing = False, pb_sound = False, pb_soundRenderer = False,
     pb_soundCapturer = False, pb_soundState = SOUND_STOPPED, pb_tone = None,
     pb_toneState = TONE_STOPPED, pb_isLocalRingbackNeeded = False, pb_isCrsVibrating = False,
     pb_isVideoRingVibrating = False, pb_isCrsStartSoundTone = False, pb_isPlayForNoRing = False,
     pb_silentRenderer = False, pb_voiceVolume = -1, pb_needVibrate = False,
     pb_initCrsDeviceType = DEVICE_UNKNOWN\<rparr>"

definition active_ims_call :: call where
  "active_ims_call = sample_ims_call\<lparr>m_callState := CALL_STATUS_ACTIVE,
     m_callRunningState := CALL_RUNNING_STATE_ACTIVE\<rparr>"

definition media_with :: "call \<Rightarrow> device_manager \<Rightarrow> media" where
  "media_with c m = \<lparr>md_reg = (empty_registry (\<lambda>_. c))\<lparr>r_list := [0]\<rparr>,
     md_audio = audio_start\<lparr>a_interrupt := INTERRUPT_STATE_ACTIVATED, a_frontCall := Some 0\<rparr>,
     md_voipState = CallStateToApp_code CALL_STATE_IDLE, md_imsConference = ImsConference,
     md_wiredHeadset = False, md_devices = m, md_play = sample_playback, md_trace = []\<rparr>"

definition sample_devices :: device_manager where
  "sample_devices = Devices_Init sample_media_env new_device_manager"

definition sample_media :: media where
  "sample_media = media_with active_ims_call sample_devices"

text \<open>The same with an emergency call, and a framework whose renderers do not start.\<close>

definition emergency_media :: media where
  "emergency_media = media_with (active_ims_call\<lparr>m_isEcc := True\<rparr>) sample_devices"

definition silent_media_env :: media_env where
  "silent_media_env = sample_media_env\<lparr>me_startRenderer := \<lambda>_ _. False\<rparr>"

lemmas sample_media_defs = sample_media_def media_with_def sample_devices_def active_ims_call_def
  sample_playback_def audio_start_def empty_registry_def Devices_Init_def new_device_manager_def

end
