(* ===== verification/Audio_Properties.thy ===== *)
theory Audio_Properties
  imports Audio_Device_Properties Audio_Samples
begin

text \<open>
  The properties of the audio side: the list of devices, the choice of a device, what the
  framework reports, and what is played.  Two more instances of \<open>media_frame\<close>: steps that
  only ask and send (\<open>sends\<close>), and steps that tell the applications of the device in use
  without changing it (\<open>routed\<close>).
\<close>

subsection \<open>Steps that only send, and steps that only report\<close>

definition only_sends :: "media \<Rightarrow> media \<Rightarrow> bool" where
  "only_sends s t = (\<exists>tr. t = s\<lparr>md_trace := md_trace s @ tr\<rparr>)"

interpretation sends: media_frame only_sends
proof unfold_locales
  show "only_sends s s" for s
    unfolding only_sends_def by (rule exI [of _ "[]"]) simp
  show "only_sends s t \<Longrightarrow> only_sends t u \<Longrightarrow> only_sends s u" for s t u
    unfolding only_sends_def by auto
qed

named_theorems sends_rules "steps that only ask and send"

lemmas [sends_rules] = sends.media_rules

lemma sends_act [sends_rules]: "state_io_rel only_sends (act x)"
  by (auto simp: state_io_rel_def only_sends_def)

lemma sends_queries [sends_rules]:
  "state_io_rel only_sends (GetPreferredOutputAudioDevice E d b)"
  "state_io_rel only_sends (preferred_is E t d)"
  "state_io_rel only_sends (IsNearlinkActived E d)"
  "state_io_rel only_sends (IsBtHearingAidActived E d)"
  "state_io_rel only_sends (IsBtActived E)"
  unfolding GetPreferredOutputAudioDevice_def preferred_is_def IsNearlinkActived_def
    IsBtHearingAidActived_def IsBtActived_def
  by (intro sends_rules)+

lemma sends_activate [sends_rules]:
  "state_io_rel only_sends (SetDeviceActive E t f b)"
  "state_io_rel only_sends (SetSpeakerDevActive E f b)"
  "state_io_rel only_sends (SetWiredHeadsetDevActive E b)"
  "state_io_rel only_sends (SetEarpieceDevActive E b)"
  unfolding SetDeviceActive_def SetSpeakerDevActive_def SetWiredHeadsetDevActive_def
    SetEarpieceDevActive_def
  by (intro sends_rules)+

lemma sends_both [sends_rules]:
  "state_io_rel only_sends m \<Longrightarrow> state_io_rel only_sends n \<Longrightarrow> state_io_rel only_sends (both m n)"
  unfolding both_def by (intro sends_rules)

lemma sends_wireless [sends_rules]:
  "state_io_rel only_sends (HandleDistributeAudioDevice E d)"
  "state_io_rel only_sends (GetWirelessAudioDeviceAddress E t a)"
  "state_io_rel only_sends (HandleWirelessAudioDevice E d)"
  unfolding HandleDistributeAudioDevice_def GetWirelessAudioDeviceAddress_def
    HandleWirelessAudioDevice_def
  by (intro sends_rules)+

text \<open>The device in use, and everything outside the device manager.\<close>

definition same_route :: "media \<Rightarrow> media \<Rightarrow> bool" where
  "same_route s t = (dm_audioDeviceType (md_devices t) = dm_audioDeviceType (md_devices s) \<and>
     md_reg t = md_reg s \<and> md_audio t = md_audio s \<and> md_voipState t = md_voipState s \<and>
     md_play t = md_play s \<and> prefix (md_trace s) (md_trace t))"

interpretation routed: media_frame same_route
  by unfold_locales (auto simp: same_route_def)

named_theorems route_rules "steps that leave the device in use"

lemmas [route_rules] = routed.media_rules

lemma sends_route: "only_sends s t \<Longrightarrow> same_route s t"
  by (auto simp: only_sends_def same_route_def)

lemma route_sends: "state_io_rel only_sends m \<Longrightarrow> state_io_rel same_route m"
  by (auto simp: state_io_rel_def intro: sends_route)

lemma route_on_info [route_rules]: "state_io_rel same_route (on_info f)"
  by (simp add: on_info_def state_io_rel_def same_route_def)

lemma route_act [route_rules]: "state_io_rel same_route (act x)"
  by (simp add: route_sends sends_act)

lemma route_report [route_rules]:
  "state_io_rel same_route (ReportAudioDeviceInfo_of E call)"
  "state_io_rel same_route (ReportAudioDeviceInfo E)"
  "state_io_rel same_route (CopyDeviceData E a n)"
  unfolding ReportAudioDeviceInfo_of_def ReportAudioDeviceInfo_def CopyDeviceData_def
    IsMicrophoneMute_def
  by (intro route_rules)+

lemma route_names [route_rules]:
  "state_io_rel same_route (UpdateBtDevice E an)"
  "state_io_rel same_route (UpdateNearlinkDevice E an)"
  "state_io_rel same_route (UpdateBtHearingAidDevice E an)"
  unfolding UpdateBtDevice_def UpdateNearlinkDevice_def UpdateBtHearingAidDevice_def
    update_preferred_def
  by (intro route_rules route_sends sends_queries)+

lemma report_change_route:
  assumes "dm_audioDeviceType (md_devices s) \<noteq> DEVICE_UNKNOWN"
  shows "same_route s (snd (run_state (ReportAudioDeviceChange E d) s))"
proof -
  let ?t = "dm_audioDeviceType (md_devices s)"
  let ?rest = "do {
     _ \<leftarrow> on_info (set_current_type ?t);
     distributedDev \<leftarrow> answer (\<lambda>tr. support_dsoftbus (me_build E) \<and> me_isDistributedDev E tr d);
     dcallAddress \<leftarrow> answer (me_dcallAddress E);
     (address, deviceName) \<leftarrow>
       (let an = (device_address d, device_name d) in
        if ?t = DEVICE_BLUETOOTH_SCO then UpdateBtDevice E an
        else if distributedDev then State_Monad.return an
        else if IsDistributedAudioDeviceType ?t then State_Monad.return (dcallAddress, snd an)
        else if ?t = DEVICE_NEARLINK then UpdateNearlinkDevice E an
        else if me_hearing_aid E \<and> ?t = DEVICE_BLUETOOTH_HEARING_AID
        then UpdateBtHearingAidDevice E an
        else State_Monad.return an);
     CopyDeviceData E address deviceName }"
  have "state_io_rel same_route ?rest" by (intro route_rules)
  then have "same_route s (snd (run_state ?rest s))" by (rule routed.frame_run)
  moreover have "run_state (ReportAudioDeviceChange E d) s = run_state ?rest s"
    using assms by (simp add: ReportAudioDeviceChange_def)
  ultimately show ?thesis by simp
qed


subsection \<open>Choosing a device\<close>

text \<open>The same outside the device manager, with this device in use.\<close>

definition now_using :: "int \<Rightarrow> media \<Rightarrow> media \<Rightarrow> bool" where
  "now_using k s t = (dm_audioDeviceType (md_devices t) = k \<and>
     md_reg t = md_reg s \<and> md_audio t = md_audio s \<and> md_voipState t = md_voipState s \<and>
     md_play t = md_play s \<and> prefix (md_trace s) (md_trace t))"

lemma same_route_using: "same_route s t = now_using (dm_audioDeviceType (md_devices s)) s t"
  by (auto simp: same_route_def now_using_def)

lemma using_trans:
  "now_using k s t \<Longrightarrow> now_using k' t u \<Longrightarrow> now_using k' s u"
  by (auto simp: now_using_def)

lemma leave_distributed_sends: "only_sends s (snd (run_state (leave_distributed t) s))"
  unfolding leave_distributed_def by (rule sends.frame_run) (intro sends_rules)

lemma use_device:
  assumes "ad_deviceType d \<noteq> DEVICE_UNKNOWN"
  shows "now_using (ad_deviceType d) s (snd (run_state (SetCurrentAudioDevice_device E d) s))"
proof -
  let ?s = "snd (run_state (leave_distributed (ad_deviceType d)) s)"
  let ?u = "?s\<lparr>md_devices := (md_devices ?s)\<lparr>dm_audioDeviceType := ad_deviceType d\<rparr>\<rparr>"
  have "now_using (ad_deviceType d) s ?u"
    using sends_route [OF leave_distributed_sends, of s "ad_deviceType d"]
    by (auto simp: same_route_def now_using_def)
  moreover have "now_using (ad_deviceType d) ?u (snd (run_state (ReportAudioDeviceChange E d) ?u))"
    using report_change_route [of ?u E d] assms by (simp add: same_route_using)
  ultimately show ?thesis
    by (auto simp: SetCurrentAudioDevice_device_def split_beta intro: using_trans)
qed

text \<open>The device that is used where this one is asked for: no ear for a satellite call.\<close>

definition used_for :: "registry \<Rightarrow> int \<Rightarrow> int" where
  "used_for r t = (if t = DEVICE_EARPIECE \<and> HasSatelliteCallExist r then DEVICE_SPEAKER else t)"

lemma use_type:
  assumes "t \<noteq> DEVICE_UNKNOWN"
  shows "now_using (used_for (md_reg s) t) s (snd (run_state (SetCurrentAudioDevice_type E t) s))"
proof -
  let ?s = "snd (run_state (leave_distributed t) s)"
  have left: "same_route s ?s" by (rule sends_route [OF leave_distributed_sends])
  then have reg: "md_reg ?s = md_reg s" by (simp add: same_route_def)
  have device: "now_using t ?s (snd (run_state (SetCurrentAudioDevice_device E (audio_device t)) ?s))"
    using use_device [of "audio_device t" ?s E] assms by (simp add: audio_device_def)
  show ?thesis
  proof (cases "t = DEVICE_EARPIECE \<and> HasSatelliteCallExist (md_reg s)")
    case True
    then show ?thesis using left reg
      by (auto simp: SetCurrentAudioDevice_type_def used_for_def split_beta now_using_def
          same_route_def intro: prefix_order.trans)
  next
    case False
    then show ?thesis using using_trans [OF left [unfolded same_route_using] device] reg
      by (auto simp: SetCurrentAudioDevice_type_def used_for_def split_beta)
  qed
qed

text \<open>A test that only sends decides; if it fails, nothing but what it sent has changed.\<close>

definition switched :: "int \<Rightarrow> media \<Rightarrow> bool \<Rightarrow> media \<Rightarrow> bool" where
  "switched t s ok u = (if ok then now_using (used_for (md_reg s) t) s u else only_sends s u)"

lemma enable_switched:
  assumes "state_io_rel only_sends test" "t \<noteq> DEVICE_UNKNOWN"
    and run: "run_state (enable_if E test t) s = (ok, u)"
  shows "switched t s ok u"
proof -
  obtain b s1 where test: "run_state test s = (b, s1)" by fastforce
  with assms(1) have s1: "only_sends s s1" by (auto simp: state_io_rel_def dest!: spec [of _ s])
  then have reg: "md_reg s1 = md_reg s" by (auto simp: only_sends_def)
  show ?thesis
  proof (cases b)
    case True
    with run test have "ok" "u = snd (run_state (SetCurrentAudioDevice_type E t) s1)"
      by (auto simp: enable_if_def split_beta)
    with using_trans [OF sends_route [OF s1, unfolded same_route_using] use_type [OF assms(2), of s1 E]]
    show ?thesis by (simp add: switched_def reg)
  next
    case False
    with run test s1 show ?thesis by (auto simp: enable_if_def switched_def)
  qed
qed

lemma switch_switched:
  assumes "t \<noteq> DEVICE_DISABLE" and run: "run_state (SwitchDevice E t b) s = (ok, u)"
  shows "switched t s ok u"
proof -
  have e: "run_state (enable_if E test k) s = (ok, u) \<Longrightarrow> state_io_rel only_sends test \<Longrightarrow>
      k \<noteq> DEVICE_UNKNOWN \<Longrightarrow> switched k s ok u" for test k
    by (rule enable_switched)
  have idle: "switched t s False s" using sends.refl [of s] by (simp add: switched_def)
  show ?thesis
    using run assms(1) idle
    by (auto simp: SwitchDevice_def EnableEarpiece_def EnableSpeaker_def EnableWiredHeadset_def
        EnableBtSco_def EnableNearlink_def EnableBtHearingAid_def split: if_splits
        dest!: e intro!: sends_rules)
qed


lemma switched_after:
  "only_sends s t \<Longrightarrow> switched k t ok u \<Longrightarrow> switched k s ok u"
  unfolding switched_def using sends.trans [of s t u] sends_route [of s t]
  by (auto simp: same_route_using only_sends_def split: if_splits intro: using_trans)

lemma switch_audio_switched:
  assumes "t \<noteq> DEVICE_UNKNOWN" "t \<noteq> DEVICE_DISABLE"
    and run: "run_state (SwitchAudioDevice E t b) s = (ret, u)"
  shows "switched t s (ret = TELEPHONY_SUCCESS) u"
proof -
  let ?before = "do {
     onSink \<leftarrow> answer (\<lambda>t. support_dsoftbus (me_build E) \<and> me_isAudioOnSink E t);
     _ \<leftarrow> doing onSink (act SwitchToSourceDevice);
     switchedOn \<leftarrow> answer (me_dcallSwitchedOn E);
     doing switchedOn (act SwitchOffDCallDeviceSync) }"
  let ?s = "snd (run_state ?before s)"
  have before: "only_sends s ?s" by (rule sends.frame_run) (intro sends_rules)
  have "run_state (SwitchDevice E t b) ?s = (ret = TELEPHONY_SUCCESS, u)"
    using run assms(1)
    by (auto simp: SwitchAudioDevice_def split_beta prod_eq_iff split: if_splits)
  with switched_after [OF before] switch_switched [OF assms(2)] show ?thesis by blast
qed

lemma HandleWireless_sends:
  "run_state (HandleWirelessAudioDevice E d) s = (ret, t) \<Longrightarrow> only_sends s t"
  by (metis sends.frame_run sends_wireless(3) snd_conv)

lemma HandleDistribute_sends:
  "run_state (HandleDistributeAudioDevice E d) s = (ret, t) \<Longrightarrow> only_sends s t"
  by (metis sends.frame_run sends_wireless(1) snd_conv)

text \<open>The choice, after the checks: the state it starts from has the user's flag.\<close>

definition chosen :: "media_env \<Rightarrow> AudioDevice \<Rightarrow> media \<Rightarrow> ErrCode \<Rightarrow> media \<Rightarrow> bool" where
  "chosen E d s ret u =
     (let t = ad_deviceType d in
      if is_local_type t \<or> is_wireless_type E t then switched t s (ret = TELEPHONY_SUCCESS) u
      else if IsDistributedAudioDeviceType t then only_sends s u
      else ret = CALL_ERR_AUDIO_SET_AUDIO_DEVICE_FAILED \<and> u = s)"

lemma set_audio_device_chosen:
  assumes run: "run_state (SetAudioDevice E d byUser) s = (ret, u)"
    and call: "HasCall (md_reg s) (md_voipState s) \<or> HasVoipCallExist (md_reg s)"
    and ear: "\<not> (HasSatelliteCallExist (md_reg s) \<and> ad_deviceType d = DEVICE_EARPIECE)"
  shows "chosen E d (s\<lparr>md_audio := (md_audio s)\<lparr>a_isSetAudioDeviceByUser := byUser\<rparr>\<rparr>) ret u"
proof -
  let ?t = "ad_deviceType d"
  let ?s = "s\<lparr>md_audio := (md_audio s)\<lparr>a_isSetAudioDeviceByUser := byUser\<rparr>\<rparr>"
  consider (here) "is_local_type ?t" | (far) "\<not> is_local_type ?t" "IsDistributedAudioDeviceType ?t"
    | (wireless) "\<not> is_local_type ?t" "\<not> IsDistributedAudioDeviceType ?t" "is_wireless_type E ?t"
    | (unknown) "\<not> is_local_type ?t" "\<not> IsDistributedAudioDeviceType ?t" "\<not> is_wireless_type E ?t"
    by blast
  then show ?thesis
  proof cases
    case here
    with run call ear have "run_state (SwitchAudioDevice E ?t byUser) ?s = (ret, u)"
      by (auto simp: SetAudioDevice_def)
    from switch_audio_switched [OF _ _ this] here show ?thesis
      by (auto simp: chosen_def is_local_type_def)
  next
    case far
    with run call ear have "run_state (HandleDistributeAudioDevice E d) ?s = (ret, u)"
      by (auto simp: SetAudioDevice_def)
    from HandleDistribute_sends [OF this] far show ?thesis
      by (auto simp: chosen_def is_wireless_type_def IsDistributedAudioDeviceType_def)
  next
    case wireless
    obtain h s1 where h: "run_state (HandleWirelessAudioDevice E d) ?s = (h, s1)" by fastforce
    from HandleWireless_sends [OF h] have s1: "only_sends ?s s1" .
    show ?thesis
    proof (cases "h = TELEPHONY_SUCCESS")
      case True
      with run call ear wireless h have "run_state (SwitchAudioDevice E ?t byUser) s1 = (ret, u)"
        by (auto simp: SetAudioDevice_def)
      from switched_after [OF s1 switch_audio_switched [OF _ _ this]] wireless show ?thesis
        by (auto simp: chosen_def is_wireless_type_def)
    next
      case False
      with run call ear wireless h
      have "ret = CALL_ERR_AUDIO_SET_AUDIO_DEVICE_FAILED" "u = s1"
        by (auto simp: SetAudioDevice_def)
      with s1 wireless show ?thesis by (auto simp: chosen_def switched_def)
    qed
  next
    case unknown
    with run call ear show ?thesis
      by (auto simp: chosen_def SetAudioDevice_def SwitchAudioDevice_def)
  qed
qed


subsection \<open>The list of devices\<close>

text \<open>
  C9: Whatever the service and the audio framework ask of the device manager, no device is
  listed twice, the flags of the wired headset and of the Bluetooth headset say exactly
  whether one is listed, and while a wired headset is listed the earpiece is not.
\<close>

theorem device_list_consistent:
  assumes "device_run E s"
  shows "(let m = md_devices s; ds = di_audioDeviceList (dm_info m) in
    distinct (device_keys ds) \<and>
    (dm_isWiredHeadsetConnected m \<longleftrightarrow> has_type DEVICE_WIRED_HEADSET ds) \<and>
    (dm_isBtScoConnected m \<longleftrightarrow> has_type DEVICE_BLUETOOTH_SCO ds) \<and>
    \<not> (has_type DEVICE_WIRED_HEADSET ds \<and> has_type DEVICE_EARPIECE ds))"
  using device_run_ok [OF assms] by (auto simp: devices_ok_def list_ok_def Let_def)

definition sample_headset :: AudioDeviceDescriptor where
  "sample_headset = \<lparr>dd_deviceType = DEVICE_TYPE_WIRED_HEADSET, dd_macAddress = [],
     dd_deviceName = [], dd_networkId = LOCAL_DEVICE, dd_modemCallSupported = True\<rparr>"

lemma sample_media_run: "device_run sample_media_env sample_media"
  by (rule device_start) (simp add: sample_media_def media_with_def sample_devices_def)

theorem device_list_consistent_witness:
  "\<exists>s. device_run sample_media_env s \<and> dm_isWiredHeadsetConnected (md_devices s) \<and>
     \<not> has_type DEVICE_EARPIECE (di_audioDeviceList (dm_info (md_devices s)))"
proof -
  define s where
    "s = snd (run_state (perform sample_media_env (DevicesChanged True [sample_headset])) sample_media)"
  have run: "device_run sample_media_env s"
    unfolding s_def by (rule device_step [OF sample_media_run]) simp
  moreover have wired: "dm_isWiredHeadsetConnected (md_devices s)"
    unfolding s_def by code_simp
  moreover have "\<not> has_type DEVICE_EARPIECE (di_audioDeviceList (dm_info (md_devices s)))"
    using device_list_consistent [OF run] wired unfolding Let_def by blast
  ultimately show ?thesis by blast
qed

subsection \<open>A chosen device\<close>

text \<open>
  C10: When the choice of a device of this phone is accepted, there is a call, it is not the
  earpiece for a satellite call, and exactly the chosen device is in use.  The devices in
  the list (not always their order) and the flags of which are there, the calls and the
  players are as before, and who chose is recorded.
\<close>

theorem chosen_device_is_used:
  assumes run: "run_state (SetAudioDevice E d byUser) s = (TELEPHONY_SUCCESS, u)"
    and here: "\<not> IsDistributedAudioDeviceType (ad_deviceType d)"
  shows "(HasCall (md_reg s) (md_voipState s) \<or> HasVoipCallExist (md_reg s)) \<and>
    \<not> (HasSatelliteCallExist (md_reg s) \<and> ad_deviceType d = DEVICE_EARPIECE) \<and>
    dm_audioDeviceType (md_devices u) = ad_deviceType d \<and>
    same_list s u \<and>
    md_reg u = md_reg s \<and> md_play u = md_play s \<and> prefix (md_trace s) (md_trace u) \<and>
    md_audio u = (md_audio s)\<lparr>a_isSetAudioDeviceByUser := byUser\<rparr>"
proof -
  have call: "HasCall (md_reg s) (md_voipState s) \<or> HasVoipCallExist (md_reg s)"
    and ear: "\<not> (HasSatelliteCallExist (md_reg s) \<and> ad_deviceType d = DEVICE_EARPIECE)"
    using run by (auto simp: SetAudioDevice_def split: if_splits)
  have "same_list s u"
    using listed.frame_run [OF listed_routing(5), of s E d byUser] by (simp add: run)
  with set_audio_device_chosen [OF run call ear] here ear call show ?thesis
    by (auto simp: chosen_def switched_def used_for_def now_using_def Let_def split: if_splits)
qed

theorem chosen_device_is_used_witness:
  "\<exists>u. run_state (SetAudioDevice sample_media_env (audio_device DEVICE_SPEAKER) True) sample_media =
       (TELEPHONY_SUCCESS, u) \<and> dm_audioDeviceType (md_devices u) = DEVICE_SPEAKER"
proof -
  obtain ret u where
    r: "run_state (SetAudioDevice sample_media_env (audio_device DEVICE_SPEAKER) True) sample_media = (ret, u)"
    by fastforce
  have "fst (run_state (SetAudioDevice sample_media_env (audio_device DEVICE_SPEAKER) True) sample_media) =
      TELEPHONY_SUCCESS" by code_simp
  then have ok: "ret = TELEPHONY_SUCCESS" unfolding r by simp
  have "\<not> IsDistributedAudioDeviceType (ad_deviceType (audio_device DEVICE_SPEAKER))" by code_simp
  from chosen_device_is_used [OF r [unfolded ok] this]
  have "dm_audioDeviceType (md_devices u) = ad_deviceType (audio_device DEVICE_SPEAKER)" by blast
  then have "dm_audioDeviceType (md_devices u) = DEVICE_SPEAKER" unfolding audio_device_def by simp
  with r [unfolded ok] show ?thesis by blast
qed

text \<open>
  C34: When the choice of a device is refused, the devices, the calls and the players are
  exactly as before.  Only the user's flag may have changed: once there is a call, it
  takes the refused choice too.
\<close>

theorem refused_device_changes_nothing:
  assumes run: "run_state (SetAudioDevice E d byUser) s = (ret, u)" and "ret \<noteq> TELEPHONY_SUCCESS"
  shows "md_devices u = md_devices s \<and> md_reg u = md_reg s \<and> md_play u = md_play s \<and>
    prefix (md_trace s) (md_trace u) \<and>
    (md_audio u = md_audio s \<or> md_audio u = (md_audio s)\<lparr>a_isSetAudioDeviceByUser := byUser\<rparr>)"
proof (cases "(HasCall (md_reg s) (md_voipState s) \<or> HasVoipCallExist (md_reg s)) \<and>
    \<not> (HasSatelliteCallExist (md_reg s) \<and> ad_deviceType d = DEVICE_EARPIECE)")
  case True
  with set_audio_device_chosen [OF run] assms(2) show ?thesis
    by (auto simp: chosen_def switched_def only_sends_def Let_def split: if_splits)
next
  case False
  with run show ?thesis by (auto simp: SetAudioDevice_def split: if_splits)
qed

theorem refused_device_changes_nothing_witness:
  "\<exists>u. run_state (SetAudioDevice sample_media_env (audio_device DEVICE_WIRED_HEADSET) True) sample_media =
       (CALL_ERR_AUDIO_SET_AUDIO_DEVICE_FAILED, u) \<and> md_devices u = md_devices sample_media \<and>
     a_isSetAudioDeviceByUser (md_audio u) \<and> \<not> a_isSetAudioDeviceByUser (md_audio sample_media)"
proof -
  let ?r = "run_state (SetAudioDevice sample_media_env (audio_device DEVICE_WIRED_HEADSET) True) sample_media"
  obtain ret u where r: "?r = (ret, u)" by fastforce
  have "fst ?r = CALL_ERR_AUDIO_SET_AUDIO_DEVICE_FAILED \<and> a_isSetAudioDeviceByUser (md_audio (snd ?r))"
    by code_simp
  then have ret: "ret = CALL_ERR_AUDIO_SET_AUDIO_DEVICE_FAILED" and by_user: "a_isSetAudioDeviceByUser (md_audio u)"
    unfolding r by simp_all
  have "\<not> a_isSetAudioDeviceByUser (md_audio sample_media)" by code_simp
  moreover have "md_devices u = md_devices sample_media"
    using refused_device_changes_nothing [OF r] unfolding ret by simp
  ultimately show ?thesis using r [unfolded ret] by_user by blast
qed


subsection \<open>What the audio framework reports of devices\<close>

abbreviation listed_devices :: "media \<Rightarrow> AudioDevice list" where
  "listed_devices s \<equiv> di_audioDeviceList (dm_info (md_devices s))"

lemma same_list_mset: "same_list s t \<Longrightarrow> mset (listed_devices t) = mset (listed_devices s)"
  by (simp add: same_list_def Let_def)

lemma same_list_has: "same_list s t \<Longrightarrow> has_type k (listed_devices t) = has_type k (listed_devices s)"
  by (rule has_type_mset) (rule same_list_mset)

definition wired_headset :: AudioDevice where
  "wired_headset = \<lparr>ad_deviceType = DEVICE_WIRED_HEADSET, ad_address = [], ad_deviceName = []\<rparr>"

lemma plugged_list:
  assumes "is_wired (dd_deviceType d)" "dd_modemCallSupported d" "\<not> has_type DEVICE_WIRED_HEADSET (listed_devices s)"
  shows "mset (listed_devices (snd (run_state (OnDeviceChange E True [d]) s))) =
      mset (List.filter (\<lambda>d. ad_deviceType d \<noteq> DEVICE_EARPIECE) (listed_devices s)) + {#wired_headset#}"
proof -
  let ?ds = "listed_devices s"
  let ?s = "s\<lparr>md_wiredHeadset := True\<rparr>"
  have absent: "\<not> fst (add_scan [] DEVICE_WIRED_HEADSET ?ds)"
    using add_scan_found [of "[]" DEVICE_WIRED_HEADSET ?ds] assms(3) by blast
  let ?m = "added [] DEVICE_WIRED_HEADSET [] (md_devices s)"
  have "snd (run_state (OnDeviceChange E True [d]) s) =
      snd (run_state (ReportAudioDeviceInfo E) (?s\<lparr>md_devices := ?m\<rparr>))"
    using absent assms(1,2) run_AddAudioDeviceList [of E "[]" DEVICE_WIRED_HEADSET "[]" ?s]
    by (simp add: changed_device_def SetWiredHeadsetState_def fits_address_def fits_name_def split_beta)
  moreover have "same_list (?s\<lparr>md_devices := ?m\<rparr>)
      (snd (run_state (ReportAudioDeviceInfo E) (?s\<lparr>md_devices := ?m\<rparr>)))"
    by (rule listed.frame_run [OF listed_ReportAudioDeviceInfo])
  ultimately show ?thesis
    using add_scan_absent [of "[]" DEVICE_WIRED_HEADSET ?ds] absent
    by (simp add: same_list_mset added_def Let_def wired_headset_def c_string_def)
qed

lemma unplugged_list:
  assumes "is_wired (dd_deviceType d)" "dd_modemCallSupported d"
    and "\<not> has_type DEVICE_EARPIECE (listed_devices s)"
    and only: "\<And>x. x \<in> set (listed_devices s) \<Longrightarrow> ad_deviceType x = DEVICE_WIRED_HEADSET \<Longrightarrow> device_address x = []"
    and ear: "\<And>tr. DEVICE_TYPE_EARPIECE \<in> set (me_availableDevices E tr)"
  shows "mset (listed_devices (snd (run_state (OnDeviceChange E False [d]) s))) =
      mset (List.filter (\<lambda>d. ad_deviceType d \<noteq> DEVICE_WIRED_HEADSET) (listed_devices s)) +
      {#audio_device DEVICE_EARPIECE#}"
proof -
  let ?ds = "listed_devices s" and ?s = "s\<lparr>md_wiredHeadset := False\<rparr>"
  let ?m = "removed E (md_trace s) [] DEVICE_WIRED_HEADSET (md_devices s)"
  let ?t = "?s\<lparr>md_devices := ?m\<rparr>"
  let ?rest = "do {
     r \<leftarrow> look md_reg;
     _ \<leftarrow> doing (needs_speaker r) (Audio_UpdateDeviceType E None);
     _ \<leftarrow> ReportAudioDeviceInfo E;
     _ \<leftarrow> Devices_ProcessEvent E WIRED_HEADSET_DISCONNECTED;
     State_Monad.return () }"
  have rest: "List.filter (\<lambda>x. \<not> is_device [] DEVICE_WIRED_HEADSET x) ?ds =
      List.filter (\<lambda>x. ad_deviceType x \<noteq> DEVICE_WIRED_HEADSET) ?ds"
    by (rule filter_cong) (auto simp: is_device_def dest: only)
  have none: "\<not> has_type DEVICE_WIRED_HEADSET
      (List.filter (\<lambda>x. ad_deviceType x \<noteq> DEVICE_WIRED_HEADSET) ?ds)"
    by (auto simp: has_type_def)
  have run: "snd (run_state (OnDeviceChange E False [d]) s) = snd (run_state ?rest ?t)"
    using assms(1,2) run_erase_device [of E "[]" DEVICE_WIRED_HEADSET ?s]
    by (simp add: changed_device_def SetWiredHeadsetState_def RemoveAudioDeviceList_def split_beta)
  have "same_list ?t (snd (run_state ?rest ?t))"
    by (rule listed.frame_run) (intro listed_rules)
  then have "mset (listed_devices (snd (run_state (OnDeviceChange E False [d]) s))) =
      mset (di_audioDeviceList (dm_info ?m))"
    unfolding run by (simp only: same_list_mset) simp
  also have "di_audioDeviceList (dm_info ?m) =
      List.filter (\<lambda>x. ad_deviceType x \<noteq> DEVICE_WIRED_HEADSET) ?ds @ [audio_device DEVICE_EARPIECE]"
    unfolding removed_def Let_def rest using assms(3) ear none by simp
  finally show ?thesis by simp
qed

text \<open>
  C35: A wired headset that is plugged in and pulled out again leaves the list of devices as
  it was: the earpiece it took the place of is back, no device is lost and none is added.
\<close>

theorem headset_round_trip:
  assumes "is_wired (dd_deviceType d)" "dd_modemCallSupported d"
    and unplugged: "\<not> has_type DEVICE_WIRED_HEADSET (listed_devices s)"
    and ear: "List.filter (\<lambda>x. ad_deviceType x = DEVICE_EARPIECE) (listed_devices s) =
        [audio_device DEVICE_EARPIECE]"
    and "\<And>tr. DEVICE_TYPE_EARPIECE \<in> set (me_availableDevices E tr)"
  shows "mset (listed_devices (snd (run_state (do {
      _ \<leftarrow> OnDeviceChange E True [d];
      OnDeviceChange E False [d] }) s))) = mset (listed_devices s)"
proof -
  let ?ds = "listed_devices s"
  define t where "t = snd (run_state (OnDeviceChange E True [d]) s)"
  have plugged: "mset (listed_devices t) =
      mset (List.filter (\<lambda>d. ad_deviceType d \<noteq> DEVICE_EARPIECE) ?ds) + {#wired_headset#}"
    unfolding t_def by (rule plugged_list) fact+
  then have set: "set (listed_devices t) =
      insert wired_headset (set (List.filter (\<lambda>d. ad_deviceType d \<noteq> DEVICE_EARPIECE) ?ds))"
    by (metis set_mset_mset set_mset_union set_mset_single Un_insert_right Un_empty_right)
  have "mset (listed_devices (snd (run_state (OnDeviceChange E False [d]) t))) =
      mset (List.filter (\<lambda>d. ad_deviceType d \<noteq> DEVICE_WIRED_HEADSET) (listed_devices t)) +
      {#audio_device DEVICE_EARPIECE#}"
  proof (rule unplugged_list)
    show "\<not> has_type DEVICE_EARPIECE (listed_devices t)"
      by (auto simp: has_type_def set wired_headset_def)
    show "device_address x = []"
      if "x \<in> set (listed_devices t)" "ad_deviceType x = DEVICE_WIRED_HEADSET" for x
      using that unplugged
      by (auto simp: set wired_headset_def has_type_def device_address_def c_string_def)
  qed fact+
  also have "mset (List.filter (\<lambda>d. ad_deviceType d \<noteq> DEVICE_WIRED_HEADSET) (listed_devices t)) =
      mset (List.filter (\<lambda>d. ad_deviceType d \<noteq> DEVICE_EARPIECE) ?ds)"
  proof -
    have "{#x \<in># mset (List.filter (\<lambda>d. ad_deviceType d \<noteq> DEVICE_EARPIECE) ?ds).
        ad_deviceType x \<noteq> DEVICE_WIRED_HEADSET#} =
        mset (List.filter (\<lambda>d. ad_deviceType d \<noteq> DEVICE_EARPIECE) ?ds)"
      using unplugged by (intro filter_mset_eq_conv [THEN iffD2]) (auto simp: has_type_def)
    then show ?thesis by (simp add: mset_filter plugged wired_headset_def)
  qed
  also have "\<dots> + {#audio_device DEVICE_EARPIECE#} = mset ?ds"
    using multiset_partition [of "mset ?ds" "\<lambda>x. ad_deviceType x \<noteq> DEVICE_EARPIECE"] ear
    by (simp flip: mset_filter)
  finally show ?thesis unfolding t_def by (simp add: split_beta del: OnDeviceChange.simps)
qed

theorem headset_round_trip_witness:
  "mset (listed_devices (snd (run_state (do {
      _ \<leftarrow> OnDeviceChange sample_media_env True [sample_headset];
      OnDeviceChange sample_media_env False [sample_headset] }) sample_media))) =
   mset (listed_devices sample_media)"
proof (rule headset_round_trip)
  show "is_wired (dd_deviceType sample_headset)" "dd_modemCallSupported sample_headset" by code_simp+
  show "\<not> has_type DEVICE_WIRED_HEADSET (listed_devices sample_media)" by code_simp
  show "List.filter (\<lambda>x. ad_deviceType x = DEVICE_EARPIECE) (listed_devices sample_media) =
      [audio_device DEVICE_EARPIECE]" by code_simp
  show "DEVICE_TYPE_EARPIECE \<in> set (me_availableDevices sample_media_env tr)" for tr
    by (simp add: sample_media_env_def)
qed

text \<open>
  C36: The end of a Bluetooth headset's connection is not seen: the handler removes the device
  whose type has the number of the framework's enumerator, and where that is not the
  number of DEVICE\_BLUETOOTH\_SCO, nor of a distributed device, the headset stays listed
  and the flag says that it is connected.
\<close>

theorem bluetooth_disconnect_unseen:
  assumes "dd_deviceType d = DEVICE_TYPE_BLUETOOTH_SCO"
    and "me_deviceValue E DEVICE_TYPE_BLUETOOTH_SCO \<noteq> DEVICE_BLUETOOTH_SCO"
    and "me_deviceValue E DEVICE_TYPE_BLUETOOTH_SCO \<noteq> DEVICE_WIRED_HEADSET"
    and listed: "x \<in> set (listed_devices s)" "ad_deviceType x = DEVICE_BLUETOOTH_SCO"
  shows "x \<in> set (listed_devices (snd (run_state (OnDeviceChange E False [d]) s))) \<and>
    dm_isBtScoConnected (md_devices (snd (run_state (OnDeviceChange E False [d]) s))) =
    dm_isBtScoConnected (md_devices s)"
proof -
  let ?k = "me_deviceValue E DEVICE_TYPE_BLUETOOTH_SCO"
  let ?m = "removed E (md_trace s) (dd_macAddress d) ?k (md_devices s)"
  let ?t = "s\<lparr>md_devices := ?m\<rparr>"
  let ?rest = "do {
     r \<leftarrow> look md_reg;
     _ \<leftarrow> doing (needs_speaker r) (Audio_UpdateDeviceType E None);
     _ \<leftarrow> ReportAudioDeviceInfo E;
     State_Monad.return () }"
  have run: "snd (run_state (OnDeviceChange E False [d]) s) = snd (run_state ?rest ?t)"
    using assms(1) run_erase_device [of E "dd_macAddress d" ?k s]
    by (simp add: changed_device_def is_wired_def doing_def RemoveAudioDeviceList_def split_beta)
  have same: "same_list ?t (snd (run_state ?rest ?t))"
    by (rule listed.frame_run) (intro listed_rules)
  have "x \<in> set (di_audioDeviceList (dm_info ?m))"
    using listed assms(2) by (auto simp: removed_def Let_def is_device_def)
  moreover have "dm_isBtScoConnected ?m = dm_isBtScoConnected (md_devices s)"
    using assms(2,3) by (simp add: removed_def Let_def SetDeviceAvailable_def)
  moreover have "set (listed_devices u) = set (listed_devices t) \<and>
      dm_isBtScoConnected (md_devices u) = dm_isBtScoConnected (md_devices t)" if "same_list t u" for t u
    using that unfolding same_list_def Let_def by (metis set_mset_mset)
  note this [OF same]
  ultimately show ?thesis unfolding run by simp
qed

definition sample_bluetooth :: AudioDeviceDescriptor where
  "sample_bluetooth = \<lparr>dd_deviceType = DEVICE_TYPE_BLUETOOTH_SCO, dd_macAddress = ''1A'',
     dd_deviceName = ''buds'', dd_networkId = LOCAL_DEVICE, dd_modemCallSupported = True\<rparr>"

theorem bluetooth_disconnect_unseen_witness:
  "\<exists>s x. device_address x = dd_macAddress sample_bluetooth \<and> ad_deviceType x = DEVICE_BLUETOOTH_SCO \<and>
     x \<in> set (listed_devices (snd (run_state
       (OnDeviceChange sample_media_env False [sample_bluetooth]) s)))"
proof -
  let ?s = "snd (run_state (AddAudioDeviceList sample_media_env ''1A'' DEVICE_BLUETOOTH_SCO ''buds'') sample_media)"
  let ?x = "\<lparr>ad_deviceType = DEVICE_BLUETOOTH_SCO, ad_address = ''1A'', ad_deviceName = ''buds''\<rparr>"
  have "?x \<in> set (listed_devices ?s)" by code_simp
  moreover have "dd_deviceType sample_bluetooth = DEVICE_TYPE_BLUETOOTH_SCO" by code_simp
  moreover have "me_deviceValue sample_media_env DEVICE_TYPE_BLUETOOTH_SCO \<noteq> DEVICE_BLUETOOTH_SCO"
    "me_deviceValue sample_media_env DEVICE_TYPE_BLUETOOTH_SCO \<noteq> DEVICE_WIRED_HEADSET" by code_simp+
  moreover have "ad_deviceType ?x = DEVICE_BLUETOOTH_SCO" "device_address ?x = dd_macAddress sample_bluetooth"
    by code_simp+
  ultimately show ?thesis
    using bluetooth_disconnect_unseen [of sample_bluetooth sample_media_env ?x ?s] by blast
qed

end
