(* ===== verification/Playback_Properties.thy ===== *)
theory Playback_Properties
  imports Audio_Properties
begin

text \<open>
  The properties of the first device of a call, of the microphone, and of what is played.
\<close>

subsection \<open>The first device of a call\<close>

text \<open>
  The ranking as a table: each device with whether it is there, asked of the state as it is.
  Nothing is sent while asking.
\<close>

definition prefers :: "media_env \<Rightarrow> int \<Rightarrow> media \<Rightarrow> bool" where
  "prefers E k s = (case me_preferred E (md_trace s) STREAM_USAGE_VOICE_MODEM_COMMUNICATION of
     (ok, desc) \<Rightarrow> ok \<and>
       (let (ret, d) = preferred_device E (audio_device DEVICE_UNKNOWN) desc in
        ret = TELEPHONY_SUCCESS \<and> ad_deviceType d = k \<and> device_address d \<noteq> []))"

text \<open>A call that is not held at the ear.\<close>

definition speaker_call :: "call \<Rightarrow> bool" where
  "speaker_call c \<longleftrightarrow> m_videoState c = TYPE_VIDEO \<or> m_callType c \<in> {TYPE_SATELLITE, TYPE_BLUETOOTH}"

definition ranking :: "media_env \<Rightarrow> ptr option \<Rightarrow> media \<Rightarrow> (int \<times> bool) list" where
  "ranking E call s = (let m = md_devices s in
     [(DEVICE_DISTRIBUTED_AUTOMOTIVE, dm_isDCallDevConnected m),
      (DEVICE_NEARLINK, prefers E DEVICE_NEARLINK s),
      (DEVICE_BLUETOOTH_SCO, fst (run_state (IsBtActived E) s)),
      (DEVICE_WIRED_HEADSET, dm_isWiredHeadsetConnected m),
      (DEVICE_BLUETOOTH_HEARING_AID, me_hearing_aid E \<and> prefers E DEVICE_BLUETOOTH_HEARING_AID s),
      (DEVICE_SPEAKER, case (case call of None \<Rightarrow> GetForegroundCall True (md_reg s) | p \<Rightarrow> p) of
         None \<Rightarrow> False | Some p \<Rightarrow> speaker_call (r_heap (md_reg s) p)),
      (DEVICE_EARPIECE, dm_isEarpieceAvailable m)])"

definition best :: "int \<Rightarrow> (int \<times> bool) list \<Rightarrow> int" where
  "best other table = (case List.find snd table of None \<Rightarrow> other | Some (k, _) \<Rightarrow> k)"

lemma best_simps [simp]:
  "best z [] = z" "best z ((k, b) # table) = (if b then k else best z table)"
  by (simp_all add: best_def)

text \<open>The device record an earlier question filled is passed on; only its type and address matter.\<close>

lemma preferred_again:
  assumes "preferred_device E (audio_device DEVICE_UNKNOWN) desc = (ret, d)"
  shows "preferred_device E d desc = (ret, d)"
proof -
  have wireless: "SetWirelessAudioDevice E d t x = (ret, d)"
    if "SetWirelessAudioDevice E (audio_device DEVICE_UNKNOWN) t x = (ret, d)" for t x
    using that by (auto simp: SetWirelessAudioDevice_def Let_def audio_device_def split: if_splits)
  show ?thesis
  proof (cases desc)
    case (Cons x xs)
    with assms wireless [of "dd_deviceType x" x] show ?thesis
      by (cases "is_wireless E (dd_deviceType x)")
         (auto simp: preferred_device_def Let_def audio_device_def is_wired_def)
  qed (use assms in \<open>simp add: preferred_device_def\<close>)
qed

lemma run_preferred_is:
  "run_state (preferred_is E k d) s =
     (let (ok, desc) = me_preferred E (md_trace s) STREAM_USAGE_VOICE_MODEM_COMMUNICATION;
          (ret, d') = (if ok then preferred_device E d desc else (CALL_ERR_AUDIO_OPERATE_FAILED, d))
      in ((ret = TELEPHONY_SUCCESS \<and> ad_deviceType d' = k \<and> device_address d' \<noteq> [], d'), s))"
  by (simp add: preferred_is_def GetPreferredOutputAudioDevice_def split_beta Let_def)

lemma preferred_is_prefers:
  "fst (fst (run_state (preferred_is E k (audio_device DEVICE_UNKNOWN)) s)) = prefers E k s"
  by (simp add: run_preferred_is prefers_def split_beta Let_def)

lemma preferred_is_again:
  "fst (fst (run_state (preferred_is E k
      (snd (fst (run_state (preferred_is E j (audio_device DEVICE_UNKNOWN)) s)))) s)) = prefers E k s"
proof (cases "me_preferred E (md_trace s) STREAM_USAGE_VOICE_MODEM_COMMUNICATION")
  case (Pair ok desc)
  obtain ret d where "preferred_device E (audio_device DEVICE_UNKNOWN) desc = (ret, d)" by fastforce
  with Pair preferred_again [OF this] show ?thesis
    by (simp add: run_preferred_is prefers_def Let_def)
qed

lemma preferred_is_still: "snd (run_state (preferred_is E k d) s) = s"
  by (simp add: run_preferred_is split_beta Let_def)

lemma run_remote:
  "run_state (GetInitAudioDeviceTypeOfRemote E) s = (best DEVICE_UNKNOWN (take 5 (ranking E call s)), s)"
proof -
  obtain near d where near: "run_state (preferred_is E DEVICE_NEARLINK (audio_device DEVICE_UNKNOWN)) s =
      ((near, d), s)"
    using preferred_is_still by (metis prod.exhaust_sel)
  then have pn: "prefers E DEVICE_NEARLINK s = near"
    using preferred_is_prefers [of E DEVICE_NEARLINK s] by simp
  obtain h d' where aid: "run_state (preferred_is E DEVICE_BLUETOOTH_HEARING_AID d) s = ((h, d'), s)"
    using preferred_is_still by (metis prod.exhaust_sel)
  then have ph: "prefers E DEVICE_BLUETOOTH_HEARING_AID s = h"
    using preferred_is_again [of E DEVICE_BLUETOOTH_HEARING_AID DEVICE_NEARLINK s] near by simp
  show ?thesis
    using near aid pn ph
    by (simp add: GetInitAudioDeviceTypeOfRemote_def ranking_def Let_def IsNearlinkActived_def
        IsBtHearingAidActived_def IsBtActived_def numeral_eq_Suc)
qed

lemma best_take:
  "best z table = (let k = best DEVICE_UNKNOWN (take n table) in
     if k \<noteq> DEVICE_UNKNOWN then k else best z (drop n table))"
  if "\<forall>(k, b) \<in> set (take n table). k \<noteq> DEVICE_UNKNOWN"
  using that
proof (induction n arbitrary: table)
  case (Suc n)
  then show ?case by (cases table) (auto simp: Let_def split: if_splits)
qed simp

text \<open>The device the audio framework prefers, as it is reported; unknown when it does not answer.\<close>

definition framework_choice :: "media_env \<Rightarrow> media \<Rightarrow> int" where
  "framework_choice E s = (case me_preferred E (md_trace s) STREAM_USAGE_VOICE_MODEM_COMMUNICATION of
     (ok, desc) \<Rightarrow>
       if ok then ad_deviceType (snd (preferred_device E (audio_device DEVICE_UNKNOWN) desc)) else DEVICE_UNKNOWN)"

text \<open>
  C37: The device a call starts with.  While the audio is interrupted it is none; while a
  distributed device is connected it is whatever the framework prefers; otherwise it is the
  first one of a fixed ranking that is there: a car, NearLink, the active Bluetooth headset,
  a wired headset, a hearing aid, the speaker for a video, satellite or Bluetooth call, the
  earpiece; and the speaker where there is none.  The call is the one asked about, or the
  one in the foreground.  Asking changes nothing.  The comment in the code ranks the
  earpiece before the speaker for every voice call; the code does not do so for the voice
  calls of a satellite or a Bluetooth phone, and the theorem states what the code does.
\<close>

theorem first_device_ranked:
  "run_state (GetInitAudioDeviceType E call) s =
     (if a_interrupt (md_audio s) = INTERRUPT_STATE_DEACTIVATED then DEVICE_DISABLE
      else if support_dsoftbus (me_build E) \<and> me_isConnected E (md_trace s) then framework_choice E s
      else best DEVICE_SPEAKER (ranking E call s), s)"
proof -
  have known: "\<forall>(k, b) \<in> set (take 5 (ranking E call s)). k \<noteq> DEVICE_UNKNOWN"
    by (simp add: ranking_def Let_def numeral_eq_Suc)
  have rest: "drop 5 (ranking E call s) =
      [(DEVICE_SPEAKER, case (case call of None \<Rightarrow> GetForegroundCall True (md_reg s) | p \<Rightarrow> p) of
         None \<Rightarrow> False | Some p \<Rightarrow> speaker_call (r_heap (md_reg s) p)),
       (DEVICE_EARPIECE, dm_isEarpieceAvailable (md_devices s))]"
    by (simp add: ranking_def Let_def numeral_eq_Suc)
  show ?thesis
    unfolding best_take [OF known] rest
    by (cases call; cases "GetForegroundCall True (md_reg s)") (simp_all add: GetInitAudioDeviceType_def prefers_speaker_def speaker_call_def run_remote [of E s call] Let_def framework_choice_def
        GetPreferredOutputAudioDevice_def audio_device_def split_beta)
qed

theorem first_device_ranked_witness:
  "run_state (GetInitAudioDeviceType sample_media_env None) sample_media = (DEVICE_EARPIECE, sample_media)"
proof -
  have "best DEVICE_SPEAKER (ranking sample_media_env None sample_media) = DEVICE_EARPIECE" by code_simp
  moreover have "a_interrupt (md_audio sample_media) \<noteq> INTERRUPT_STATE_DEACTIVATED" by code_simp
  moreover have "\<not> (support_dsoftbus (me_build sample_media_env) \<and>
      me_isConnected sample_media_env (md_trace sample_media))" by code_simp
  ultimately show ?thesis using first_device_ranked [of sample_media_env None sample_media] by auto
qed

subsection \<open>The microphone\<close>

definition mute_requests :: "media_trace \<Rightarrow> MediaAction list" where
  "mute_requests tr = List.filter (\<lambda>x. x = SetMicrophoneMuteTo True \<or>
     x = SetExtraParameters ''hfp_extra'' ''hfp_set_mic_mute'' ''true'') tr"

definition stays_open :: "media \<Rightarrow> media \<Rightarrow> bool" where
  "stays_open s t = (mute_requests (md_trace t) = mute_requests (md_trace s))"

interpretation unmuted: media_frame stays_open
  by unfold_locales (auto simp: stays_open_def)

named_theorems open_rules "steps that do not mute the microphone"

lemmas [open_rules] = unmuted.media_rules

lemma open_act [open_rules]:
  "mute_requests [x] = [] \<Longrightarrow> state_io_rel stays_open (act x)"
  by (simp add: state_io_rel_def stays_open_def mute_requests_def)

lemma open_modify [open_rules]:
  "(\<And>s. md_trace (f s) = md_trace s) \<Longrightarrow> state_io_rel stays_open (modify f)"
  by (simp add: state_io_rel_def stays_open_def)

lemma open_report [open_rules]: "state_io_rel stays_open (ReportAudioDeviceInfo E)"
  unfolding ReportAudioDeviceInfo_def ReportAudioDeviceInfo_of_def on_info_def on_devices_def
    IsMicrophoneMute_def
  by (intro open_rules) (simp_all add: mute_requests_def)

lemma open_microphone: "state_io_rel stays_open (Proxy_SetMicrophoneMute E False)"
  unfolding Proxy_SetMicrophoneMute_def by (intro open_rules) (simp add: mute_requests_def)

text \<open>The request as it is while an emergency call is there: it can only open the microphone.\<close>

lemma emergency_run:
  assumes "HasEmergencyCall (md_reg s)"
  shows "run_state (Audio_SetMute E b) s = run_state (Audio_SetMute E False) s"
  using assms by (simp add: Audio_SetMute_def split_beta)

lemma open_request: "state_io_rel stays_open (Audio_SetMute E False)"
  unfolding Audio_SetMute_def simp_thms Let_def IsMicrophoneMute_def
  by (intro open_rules open_microphone) (simp_all add: mute_requests_def)

text \<open>
  C11: While there is an emergency call, no request mutes the microphone, neither of the
  phone nor of a Bluetooth headset, whatever the user asks.
\<close>

theorem emergency_call_never_muted:
  assumes "HasEmergencyCall (md_reg s)"
  shows "mute_requests (md_trace (snd (run_state (Audio_SetMute E isMute) s))) =
    mute_requests (md_trace s)"
  using unmuted.frame_run [OF open_request [of E], of s]
  unfolding emergency_run [OF assms, of E isMute] by (simp add: stays_open_def)

theorem emergency_call_never_muted_witness:
  "HasEmergencyCall (md_reg emergency_media) \<and>
   mute_requests (md_trace (snd (run_state (Audio_SetMute sample_media_env True) emergency_media))) = [] \<and>
   mute_requests (md_trace (snd (run_state (Audio_SetMute sample_media_env True) sample_media))) \<noteq> []"
proof -
  have e: "HasEmergencyCall (md_reg emergency_media)" by code_simp
  moreover have "mute_requests (md_trace emergency_media) = []" by code_simp
  moreover have "mute_requests (md_trace (snd (run_state
      (Audio_SetMute sample_media_env True) sample_media))) \<noteq> []" by code_simp
  ultimately show ?thesis using emergency_call_never_muted [OF e, of sample_media_env True] by simp
qed

subsection \<open>The sound of the call\<close>

text \<open>
  C38: When the renderer of the call's sound fails to start, the state says sounding all the
  same: every later request to play is refused and changes nothing, until the sound is
  stopped, which succeeds.
\<close>

theorem failed_sound_blocks:
  assumes "ShouldPlaySoundTone E (md_reg s)" "pb_soundState (md_play s) = SOUND_STOPPED"
    and fails: "\<And>tr usage. \<not> me_startRenderer E tr usage"
    and run: "run_state (Audio_PlaySoundtone E (Some p)) s = (ok, t)"
  shows "\<not> ok \<and> pb_soundState (md_play t) = SOUND_SOUNDING \<and>
    run_state (Audio_PlaySoundtone E q) t = (False, t) \<and>
    fst (run_state Audio_StopSoundtone t) \<and>
    pb_soundState (md_play (snd (run_state Audio_StopSoundtone t))) = SOUND_STOPPED"
proof -
  have t: "\<not> ok" "md_reg t = md_reg s" "pb_soundState (md_play t) = SOUND_SOUNDING"
    "pb_sound (md_play t)"
    using run assms(1,2) fails by (auto simp: Audio_PlaySoundtone_def Sound_Play_def)
  moreover have "run_state (Audio_PlaySoundtone E q) t = (False, t)"
    using t by (cases q) (simp_all add: Audio_PlaySoundtone_def)
  ultimately show ?thesis
    by (simp add: Audio_StopSoundtone_def Sound_ReleaseRenderer_def doing_def
        RestoreVoiceValumeIfNecessary_def SaveVoiceVolume_def split_beta)
qed

theorem failed_sound_blocks_witness:
  "\<exists>t. run_state (Audio_PlaySoundtone silent_media_env (Some 0)) sample_media = (False, t) \<and>
     run_state (Audio_PlaySoundtone silent_media_env (Some 0)) t = (False, t)"
proof -
  obtain ok t where run: "run_state (Audio_PlaySoundtone silent_media_env (Some 0)) sample_media = (ok, t)"
    by fastforce
  have "ShouldPlaySoundTone silent_media_env (md_reg sample_media)" by code_simp
  moreover have "pb_soundState (md_play sample_media) = SOUND_STOPPED" by code_simp
  moreover have "\<not> me_startRenderer silent_media_env tr usage" for tr usage
    by (simp add: silent_media_env_def)
  ultimately show ?thesis
    using failed_sound_blocks [OF _ _ _ run, of "Some 0"] run by auto
qed

text \<open>
  The volume of the voice stream, which a network ringtone sets to that of the ring, is
  set back to what it was, once: the saved volume is gone after it.
\<close>

theorem crs_volume_restored:
  assumes "0 \<le> me_volume E (md_trace s) STREAM_VOICE_CALL"
  shows "snd (run_state (do {
      _ \<leftarrow> AdjustVolumesForCrs E;
      _ \<leftarrow> RestoreVoiceValumeIfNecessary;
      RestoreVoiceValumeIfNecessary }) s) =
    s\<lparr>md_play := (md_play s)\<lparr>pb_voiceVolume := -1\<rparr>,
      md_trace := md_trace s @ [SetStreamVolume STREAM_VOICE_CALL (me_volume E (md_trace s) STREAM_RING),
        SetStreamVolumeOn STREAM_VOICE_CALL (me_volume E (md_trace s) STREAM_VOICE_CALL) DEVICE_TYPE_SPEAKER]\<rparr>"
  using assms
  by (simp add: AdjustVolumesForCrs_def RestoreVoiceValumeIfNecessary_def SaveVoiceVolume_def)

theorem crs_volume_restored_witness:
  "md_trace (snd (run_state (do {
      _ \<leftarrow> AdjustVolumesForCrs sample_media_env;
      _ \<leftarrow> RestoreVoiceValumeIfNecessary;
      RestoreVoiceValumeIfNecessary }) sample_media)) =
    [SetStreamVolume STREAM_VOICE_CALL 3, SetStreamVolumeOn STREAM_VOICE_CALL 9 DEVICE_TYPE_SPEAKER]"
proof -
  have "0 \<le> me_volume sample_media_env (md_trace sample_media) STREAM_VOICE_CALL" by code_simp
  moreover have "me_volume sample_media_env (md_trace sample_media) STREAM_VOICE_CALL = 9"
    "me_volume sample_media_env (md_trace sample_media) STREAM_RING = 3"
    "md_trace sample_media = []" by code_simp+
  ultimately show ?thesis using crs_volume_restored [of sample_media_env sample_media] by simp
qed

subsection \<open>The ring\<close>

text \<open>After this many waits: what was sent, and whether another ringtone still sounds.\<close>

definition waits :: "nat \<Rightarrow> media_trace" where
  "waits k = replicate k (SleepFor 200)"

definition waited :: "nat \<Rightarrow> media \<Rightarrow> media" where
  "waited k s = s\<lparr>md_trace := md_trace s @ waits k\<rparr>"

definition busy :: "media_env \<Rightarrow> media \<Rightarrow> nat \<Rightarrow> bool" where
  "busy E s k = me_streamActive E (md_trace (waited k s)) STREAM_USAGE_VOICE_RINGTONE"

lemma waited_simps [simp]: "waited 0 s = s" "waited j (waited k s) = waited (j + k) s"
  by (simp_all add: waited_def waits_def flip: replicate_add)

lemma retry_step:
  "run_state (retry_ring E (Suc n) p) s =
     (if busy E s 1 then run_state (retry_ring E n p) (waited 1 s)
      else run_state (PlayRing E p) (waited 1 s))"
  by (simp add: busy_def waited_def waits_def)

lemma retry_busy:
  "(\<forall>k\<in>{1..n}. busy E s k) \<Longrightarrow> run_state (retry_ring E n p) s = ((), waited n s)"
proof (induction n arbitrary: s)
  case (Suc n)
  then have "\<forall>k\<in>{1..n}. busy E (waited 1 s) k" by (auto simp: busy_def)
  from Suc.IH [OF this] Suc.prems show ?case
    unfolding retry_step by auto
qed simp

lemma retry_free:
  "(\<forall>j\<in>{1..<k}. busy E s j) \<Longrightarrow> \<not> busy E s k \<Longrightarrow> 1 \<le> k \<Longrightarrow> k \<le> n \<Longrightarrow>
   run_state (retry_ring E n p) s = run_state (PlayRing E p) (waited k s)"
proof (induction n arbitrary: s k)
  case (Suc n)
  show ?case
  proof (cases "k = 1")
    case True
    with Suc.prems show ?thesis unfolding retry_step by simp
  next
    case False
    then obtain i where i: "k = Suc i" "1 \<le> i" using Suc.prems by (cases k) auto
    with Suc.prems have "\<forall>j\<in>{1..<i}. busy E (waited 1 s) j" "\<not> busy E (waited 1 s) i"
      by (auto simp: busy_def)
    from Suc.IH [OF this] i Suc.prems show ?thesis
      unfolding retry_step by auto
  qed
qed simp

text \<open>
  C39: The task that waits for the other ringtone ends after at most five waits of 200 ms: it
  rings once, at the first of them after which the other is silent, and where none is it
  gives up without a sound.
\<close>

theorem ring_waits_bounded:
  "run_state (retry_ring E MAX_RINGTONE_RETRY_COUNT p) s =
     (case List.find (\<lambda>k. \<not> busy E s k) [1, 2, 3, 4, 5] of
        None \<Rightarrow> ((), waited 5 s)
      | Some k \<Rightarrow> run_state (PlayRing E p) (waited k s))"
proof -
  have "{1..5::nat} = {1, 2, 3, 4, 5}" by auto
  then have none: "run_state (retry_ring E 5 p) s = ((), waited 5 s)"
    if "busy E s 1" "busy E s 2" "busy E s 3" "busy E s 4" "busy E s 5"
    using that by (intro retry_busy) auto
  have some: "run_state (retry_ring E 5 p) s = run_state (PlayRing E p) (waited k s)"
    if "\<forall>j\<in>{1..<k}. busy E s j" "\<not> busy E s k" "k \<in> {1..5}" for k
    using retry_free [of k E s 5 p] that by simp
  have before: "{1..<1::nat} = {}" "{1..<2::nat} = {1}" "{1..<3::nat} = {1, 2}"
    "{1..<4::nat} = {1, 2, 3}" "{1..<5::nat} = {1, 2, 3, 4}" by auto
  show ?thesis
    using none some [of 1] some [of 2] some [of 3] some [of 4] some [of 5]
    unfolding before MAX_RINGTONE_RETRY_COUNT_def by simp
qed

end
