(* ===== verification/Report_Frame.thy ===== *)
theory Report_Frame
  imports Request_Frame Call_Report_Handlers
begin

text \<open>
  What every report leaves alone: a second instance of the calculus of theory
  Request\_Frame, carried through all handlers of theories Call\_Creation to
  Call\_Report\_Handlers.  The list of calls only loses entries, what was sent stays sent,
  the places of objects are used once, an object keeps its class, and the only dial is
  that of a request which waits for a call to be held, once.
\<close>

subsection \<open>The relation\<close>

definition dial_of :: "Effect \<Rightarrow> CellularCallInfo list" where
  "dial_of x = (case x of CellularDial info \<Rightarrow> [info] | _ \<Rightarrow> [])"

definition dials :: "Effect list \<Rightarrow> CellularCallInfo list" where
  "dials tr = concat (map dial_of tr)"

lemma dials_simps [simp]: "dials [] = []" "dials (x # tr) = dial_of x @ dials tr" "dials (tr @ tr') = dials tr @ dials tr'"
  by (simp_all add: dials_def)

lemma dials_sent [simp]: "dials (map Sent qs) = []"
  by (induction qs) (simp_all add: dial_of_def)

text \<open>
  A dial goes out only while one waits; it is the stored request, and then none waits.
\<close>

definition waits_once :: "service \<Rightarrow> service \<Rightarrow> bool" where
  "waits_once s t = (s_dialCallInfo t = s_dialCallInfo s \<and> (s_needWaitHold t \<longrightarrow> s_needWaitHold s) \<and>
     (dials (s_trace t) = dials (s_trace s) \<or>
      s_needWaitHold s \<and> \<not> s_needWaitHold t \<and> dials (s_trace t) = dials (s_trace s) @ [s_dialCallInfo s]))"

lemma waits_once_same [simp]:
  "s_dialCallInfo t = s_dialCallInfo s \<Longrightarrow> s_needWaitHold t = s_needWaitHold s \<Longrightarrow>
   dials (s_trace t) = dials (s_trace s) \<Longrightarrow> waits_once s t"
  by (simp add: waits_once_def)

lemma waits_once_trans: "waits_once s t \<Longrightarrow> waits_once t u \<Longrightarrow> waits_once s u"
  by (auto simp: waits_once_def)

definition runs_on :: "service \<Rightarrow> service \<Rightarrow> bool" where
  "runs_on s t = (subseq (r_list (s_reg t)) (r_list (s_reg s)) \<and> prefix (s_trace s) (s_trace t) \<and>
     s_fresh s \<le> s_fresh t \<and> (\<forall>p < s_fresh s. m_class (r_heap (s_reg t) p) = m_class (r_heap (s_reg s) p)) \<and>
     waits_once s t)"

interpretation runs: step_frame runs_on
  by unfold_locales (auto simp: runs_on_def intro: subseq_order.trans prefix_order.trans waits_once_trans)

named_theorems runs_rules "steps that run on"

lemmas [runs_rules] = runs.frame_rules runs.change_frame

lemmas [simp] = dial_of_def

lemma waits_once_cleared [simp]: "waits_once s (s\<lparr>s_needWaitHold := False\<rparr>)"
  by (simp add: waits_once_def)

lemma runs_on_registry:
  assumes "subseq (r_list r) (r_list (s_reg s))" "\<And>p. m_class (r_heap r p) = m_class (r_heap (s_reg s) p)"
  shows "runs_on s (s\<lparr>s_reg := r\<rparr>)"
  using assms by (simp add: runs_on_def)

lemma basic_steps_run [runs_rules]:
  "dial_of x = [] \<Longrightarrow> state_io_rel runs_on (emit x)" "state_io_rel runs_on (submit t)" "state_io_rel runs_on fault"
  "state_io_rel runs_on (read_clock E)" "state_io_rel runs_on (queue_report q)"
  "state_io_rel runs_on (on_helper f)" "state_io_rel runs_on (call_of p)"
  "state_io_rel runs_on (find_ptr g)" "state_io_rel runs_on (call_num st)"
  "state_io_rel runs_on current_call_num" "state_io_rel runs_on (set_needWaitHold False)"
  "state_io_rel runs_on (set_fraud_target i j)" "state_io_rel runs_on (update_setting k v)"
  by (simp_all add: state_io_rel_def runs_on_def queue_report_def on_helper_def set_needWaitHold_def
      set_fraud_target_def update_setting_def)

lemma with_call_fresh [simp]: "s_fresh (with_call p c s) = s_fresh s"
  by (simp add: with_call_def)

lemma on_call_runs [runs_rules]:
  "(\<And>c. m_class (f c) = m_class c) \<Longrightarrow> state_io_rel runs_on (on_call p f)"
  by (simp add: state_io_rel_def runs_on_def)

lemma invoke_runs:
  assumes "\<And>c. m_class (snd (snd (oper c))) = m_class c"
  shows "state_io_rel runs_on (invoke oper p)"
proof (rule state_io_relI)
  fix a s s'
  assume "run_state (invoke oper p) s = (a, s')"
  moreover have "m_class (snd (snd (oper (r_heap (s_reg s) p)))) = m_class (r_heap (s_reg s) p)" by (rule assms)
  ultimately show "runs_on s s'"
    by (auto simp: run_invoke apply_outcome_def runs_on_def split: prod.splits)
qed

lemma invoke_opt_runs:
  assumes "\<And>c ret qs c'. oper c = Some (ret, qs, c') \<Longrightarrow> m_class c' = m_class c"
  shows "state_io_rel runs_on (invoke_opt oper p)"
proof (rule state_io_relI)
  fix a s s'
  assume r: "run_state (invoke_opt oper p) s = (a, s')"
  show "runs_on s s'"
  proof (cases "oper (r_heap (s_reg s) p)")
    case None
    with r show ?thesis by (auto simp: run_invoke_opt runs_on_def)
  next
    case (Some res)
    with r assms [of "r_heap (s_reg s) p"] show ?thesis
      by (cases res) (auto simp: run_invoke_opt apply_outcome_def runs_on_def)
  qed
qed

text \<open>Identity includes the class.\<close>

lemma identity_class: "identity c = identity d \<Longrightarrow> m_class c = m_class d"
  by (simp add: identity_def)

lemma call_steps_run [runs_rules]:
  "state_io_rel runs_on (answer_call E vs rtt p)" "state_io_rel runs_on (reject_call E p)"
  "state_io_rel runs_on (hold_call E p)" "state_io_rel runs_on (unhold_call E p)"
  "state_io_rel runs_on (switch_call E p)"
  unfolding answer_call_def reject_call_def hold_call_def unhold_call_def switch_call_def
  by (rule invoke_runs, rule identity_class, rule operation_keeps_identity)+

lemma hang_up_runs [runs_rules]: "state_io_rel runs_on (hang_up_call E p)"
  unfolding hang_up_call_def by (rule invoke_opt_runs) (auto dest: hang_up_keeps_identity)

lemmas process_defs = DialingProcess_def CSCall_DialingProcess_def IMSCall_DialingProcess_def
  SatelliteCall_DialingProcess_def VoIPCall_DialingProcess_def BluetoothCall_DialingProcess_def
  OTTCall_DialingProcess_def CarrierDialingProcess_def DialCallBase_def

lemma dialing_class: "DialingProcess e c = Some (ret, qs, c') \<Longrightarrow> m_class c' = m_class c"
  by (cases "m_class c") (auto simp: process_defs cm_defs request_defs Let_def
      split: option.splits if_splits prod.splits)

lemma dialing_process_runs [runs_rules]: "state_io_rel runs_on (dialing_process E p)"
  unfolding dialing_process_def by (rule invoke_opt_runs) (auto dest: dialing_class)

lemma conference_class:
  "ExitConference c g = Some (ret, c', g') \<Longrightarrow> m_class c' = m_class c"
  "HoldConference c g = (ret, c', g') \<Longrightarrow> m_class c' = m_class c"
  "LaunchConference k c g = (ret, c', g') \<Longrightarrow> m_class c' = m_class c"
  by (cases "m_class c"; auto simp: ExitConference_def HoldConference_def LaunchConference_def
      CSCall_ExitConference_def IMSCall_ExitConference_def OTTCall_ExitConference_def
      CSCall_HoldConference_def IMSCall_HoldConference_def OTTCall_HoldConference_def
      CSCall_LaunchConference_def IMSCall_LaunchConference_def OTTCall_LaunchConference_def
      SetTelConferenceState_def Let_def split: option.splits if_splits prod.splits)+

lemma conference_steps_run [runs_rules]:
  "state_io_rel runs_on (exit_conference p)" "state_io_rel runs_on (hold_conference p)"
  "state_io_rel runs_on (launch_conference E p)"
  by (auto simp: state_io_rel_def exit_conference_def hold_conference_def launch_conference_def runs_on_def
      dest: conference_class split: option.split prod.split)

subsection \<open>The registry\<close>

lemma add_call_runs [runs_rules]: "state_io_rel runs_on (add_call E p)"
  by (auto simp: state_io_rel_def add_call_def AddOneCallObject_def runs_on_def Let_def split: prod.split)

lemma erase_first_subseq: "subseq (erase_first P xs) xs"
  by (induction xs) (auto simp: subseq_Cons')

lemma delete_call_runs [runs_rules]: "state_io_rel runs_on (delete_call E i)"
  by (auto simp: state_io_rel_def delete_call_def DeleteOneCallObject_id_def runs_on_def Let_def
      erase_first_subseq split: prod.split)

subsection \<open>Writing to a call keeps its class\<close>

lemma setters_class [simp]:
  "m_class (SetExtraParams x1 c) = m_class c" "m_class (SetAutoAnswerState x2 c) = m_class c"
  "m_class (SetCanUnHoldState x3 c) = m_class c" "m_class (SetCanSwitchCallState x4 c) = m_class c"
  "m_class (SetTelConferenceState x5 c) = m_class c" "m_class (SetVideoStateType x6 c) = m_class c"
  "m_class (SetCrsType x7 c) = m_class c" "m_class (SetOriginalCallType x8 c) = m_class c"
  "m_class (SetIsEccContact x9 c) = m_class c" "m_class (SetNumberLocation x10 c) = m_class c"
  "m_class (SetCallerInfo x11 c) = m_class c" "m_class (SetNumberMarkInfo x12 c) = m_class c"
  "m_class (SetBlockReason x13 c) = m_class c" "m_class (SetDetectDetails x14 c) = m_class c"
  "m_class (SetCallRunningState x15 c) = m_class c" "m_class (SetStartTime x16 c) = m_class c"
  "m_class (SetCallBeginTime x17 c) = m_class c" "m_class (SetCallCreateTime x18 c) = m_class c"
  "m_class (SetCallEndTime x19 c) = m_class c" "m_class (SetRingBeginTime x20 c) = m_class c"
  "m_class (SetRingEndTime x21 c) = m_class c" "m_class (SetAnswerType x22 c) = m_class c"
  "m_class (SetRejectType x23 c) = m_class c" "m_class (SetCallId x24 c) = m_class c"
  "m_class (SetAccountNumber x25 c) = m_class c" "m_class (SetAnsweredCall x26 c) = m_class c"
  "m_class (SetBundleName x27 c) = m_class c" "m_class (SetCallType x28 c) = m_class c"
  "m_class (SetImsDomain x29 c) = m_class c" "m_class (SetMicDisabled x30 c) = m_class c"
  "m_class (SetPhoneOrWatchDial x31 c) = m_class c" "m_class (SetNewCallUseBox x32 c) = m_class c"
  "m_class (SetForcedReportVoiceCall x33 c) = m_class c" "m_class (SetAntiFraudState x34 c) = m_class c"
  "m_class (SetNonVirtualCall x35 c) = m_class c" "m_class (SetApCauseReported x36 c) = m_class c"
  "m_class (snd (SetSpeakerphoneOn x37 c)) = m_class c" "m_class (snd (SetMicPhoneState x38 c)) = m_class c"
  "m_class (SetPolicyFlag x39 c) = m_class c" "m_class (SetIsBluetoothHeadsetWarned x40 c) = m_class c"
  "m_class (SetRttState x41 c) = m_class c" "m_class (SetRttChannelId x42 c) = m_class c"
  by (simp_all add: setter_defs SetPolicyFlag_def SetIsBluetoothHeadsetWarned_def
      SetRttState_def SetRttChannelId_def)

lemma SetTelCallState_class [simp]: "m_class (snd (SetTelCallState k st c)) = m_class c"
  by (cases st) (simp_all add: SetTelCallState_def cm_defs Let_def)

lemma update_class:
  "m_class (r_heap (UpdateOneCallObjectByCallId k i st r) p) = m_class (r_heap r p)"
  "r_list (UpdateOneCallObjectByCallId k i st r) = r_list r"
proof -
  have "m_class (r_heap (foldl (\<lambda>r p. if m_callId (r_heap r p) = i
            then r\<lparr>r_heap := (r_heap r)(p := snd (SetTelCallState k st (r_heap r p)))\<rparr> else r) r ps) p) =
        m_class (r_heap r p) \<and>
      r_list (foldl (\<lambda>r p. if m_callId (r_heap r p) = i
            then r\<lparr>r_heap := (r_heap r)(p := snd (SetTelCallState k st (r_heap r p)))\<rparr> else r) r ps) = r_list r" for ps
    by (induction ps arbitrary: r) simp_all
  then show "m_class (r_heap (UpdateOneCallObjectByCallId k i st r) p) = m_class (r_heap r p)"
    "r_list (UpdateOneCallObjectByCallId k i st r) = r_list r"
    unfolding UpdateOneCallObjectByCallId_def by blast+
qed

lemma set_tel_state_runs [runs_rules]: "state_io_rel runs_on (set_tel_state E st p)"
proof (rule state_io_relI)
  fix a and s s' :: service
  let ?c = "snd (SetTelCallState (se_clock E (s_ticks s)) st (r_heap (s_reg s) p))"
  assume "run_state (set_tel_state E st p) s = (a, s')"
  then have "s' = with_call p ?c (s\<lparr>s_ticks := Suc (s_ticks s)\<rparr>)"
    by (auto simp: set_tel_state_def Let_def split: prod.splits)
  moreover have "m_class ?c = m_class (r_heap (s_reg s) p)" by simp
  ultimately show "runs_on s s'" by (simp add: runs_on_def)
qed

lemma update_by_id_runs [runs_rules]: "state_io_rel runs_on (update_by_id E i st)"
  by (auto simp: state_io_rel_def update_by_id_def runs_on_def update_class)

lemma new_call_id_runs [runs_rules]: "state_io_rel runs_on new_call_id"
  by (auto simp: state_io_rel_def new_call_id_def GetNewCallId_def runs_on_def)

lemma allocate_runs [runs_rules]: "state_io_rel runs_on (allocate c)"
  by (auto simp: state_io_rel_def allocate_def runs_on_def with_call_def)

text \<open>The other fields are written freely.\<close>

lemma other_fields_run:
  "runs_on s (s\<lparr>s_pendingHangupTask := x1\<rparr>)" "runs_on s (s\<lparr>s_answeredQueue := x2\<rparr>)"
  "runs_on s (s\<lparr>s_voipState := x3\<rparr>)" "runs_on s (s\<lparr>s_virtualCall := x4\<rparr>)"
  "runs_on s (s\<lparr>s_control := x5\<rparr>)" "runs_on s (s\<lparr>s_conf := x6\<rparr>)"
  "runs_on s (s\<lparr>s_priorVideoState := x7\<rparr>)" "runs_on s (s\<lparr>s_callDetails := x8\<rparr>)"
  "runs_on s (s\<lparr>s_tmpCallDetails := x9\<rparr>)" "runs_on s (s\<lparr>s_detectStart := x10\<rparr>)"
  "runs_on s (s\<lparr>s_ringOnceWait := x11\<rparr>)" "runs_on s (s\<lparr>s_callReportInfo := x12\<rparr>)"
  "runs_on s (s\<lparr>s_reports := x13\<rparr>)" "runs_on s (s\<lparr>s_deviceProvisioned := x14\<rparr>)"
  "runs_on s (s\<lparr>s_userSetupComplete := x15\<rparr>)"
  by (simp_all add: runs_on_def)

lemmas [runs_rules] = other_fields_run

subsection \<open>Reports that are queued, and notifications\<close>

lemma reporting_runs [runs_rules]:
  "state_io_rel runs_on (ReportCallDisconnected E v)"
  "state_io_rel runs_on (DealFailDial E v)"
  unfolding DealFailDial_def ReportCallDisconnected_def UpdateCallReportInfo_def DisconnectBtCallWhenPhoneAnswered_def submit_report_def report_consumed_def DisconnectTransferCall_def GetDevProvisioned_def UpdateDevProvisioned_def
  by (intro runs_rules; simp)+

lemma transfer_runs [runs_rules]:
  "state_io_rel runs_on (transfer_forbidden E p)"
  unfolding transfer_forbidden_def HandleTransferCallReportInfo_def BluetoothCallConnection_NotifyTransferCall_def
  by (intro runs_rules; simp)

lemma notify_runs [runs_rules]:
  "state_io_rel runs_on (Call_Notify.NotifyNewCallCreated E v)"
  "state_io_rel runs_on (NotifyCallDestroyed E reason t)"
  "state_io_rel runs_on (NotifyCallStateUpdated E v st st2)"
  "state_io_rel runs_on (NotifyIncomingCallAnswered E v)"
  "state_io_rel runs_on (NotifyCallEventUpdated E ev)"
  "state_io_rel runs_on (sendEventToVoip E i)"
  "state_io_rel runs_on (RemovePendingHangupProtectTask)"
  "state_io_rel runs_on (PostPendingHangupProtectTask j)"
  unfolding Call_Notify.NotifyNewCallCreated_def NotifyCallDestroyed_def NotifyCallStateUpdated_def switch_distributed_audio_def NotifyIncomingCallAnswered_def sendEventToVoip_def NotifyCallEventUpdated_def RemovePendingHangupProtectTask_def PostPendingHangupProtectTask_def
  by (intro runs_rules; simp)+

subsection \<open>Making and replacing calls\<close>

lemma creation_runs [runs_rules]:
  "state_io_rel runs_on (PackParaInfo E info dir)"
  "state_io_rel runs_on (class_effects E p)"
  "state_io_rel runs_on (SetCallParams E p info)"
  "state_io_rel runs_on (CreateNewCall E info dir)"
  unfolding CreateNewCall_def PackParaInfo_def class_effects_def SetCallParams_def
  by (intro runs_rules; simp)+

lemma refresh_class [simp]:
  "m_class (inherit_state old a c) = m_class c" "m_class (SetImsDomainInfo E i c) = m_class c"
  "m_class (rtt_fields b info c) = m_class c" "m_class (SetPhoneIndexInfo E i c) = m_class c"
  "m_class (SetBtCallDialByPhone E byp c) = m_class c" "m_class (SetDistributedDeviceDialing byp c) = m_class c"
  by (simp_all add: SetPhoneIndexInfo_def SetBtCallDialByPhone_def SetDistributedDeviceDialing_def inherit_state_def inherit_times_def SetImsDomainInfo_def rtt_fields_def Let_def)

lemma refresh_runs [runs_rules]:
  "state_io_rel runs_on (RefreshCall E p info)"
  "state_io_rel runs_on (RefreshCallIfNecessary E p info)"
  unfolding RefreshCallIfNecessary_def RefreshCall_def
  by (intro runs_rules; simp)+

subsection \<open>New states\<close>

lemma update_state_runs [runs_rules]:
  "state_io_rel runs_on (SetVideoCallState E p st)"
  "state_io_rel runs_on (UpdateCallState E p st)"
  unfolding UpdateCallState_def SetVideoCallState_def
  by (intro runs_rules; simp)+

subsection \<open>Requests a report makes itself\<close>

lemma handler_submit_runs [runs_rules]:
  "state_io_rel runs_on (handler_submit b t)"
  unfolding handler_submit_def
  by (intro runs_rules; simp)

lemma control_requests_run [runs_rules]:
  "state_io_rel runs_on (RejectCall_control E i m t rt)"
  "state_io_rel runs_on (HangUpCall_control E i)"
  "state_io_rel runs_on (HandlerAnswerCall E i vs rtt)"
  unfolding RejectCall_control_def HangUpCall_control_def HandlerAnswerCall_def Handler_RejectCall_def Handler_HangUpCall_def Handler_AnswerCall_def
  by (intro runs_rules; simp)+

lemma video_state_runs [runs_rules]:
  "state_io_rel runs_on (set_video_state vs p)"
  unfolding set_video_state_def
  by (intro runs_rules; simp)

lemma end_voip_calls_runs [runs_rules]: "state_io_rel runs_on (end_voip_calls E is)"
proof (induction "is")
  case Nil
  show ?case by (simp add: runs_rules)
next
  case (Cons x xs)
  then show ?case unfolding end_voip_calls.simps by (intro runs_rules; simp)
qed

lemma answer_parts_run [runs_rules]:
  "state_io_rel runs_on (CurrentIsSuperPrivacyMode E i vs)"
  "state_io_rel runs_on (AnswerHandlerForSatelliteOrVideoCall E p vs)"
  "state_io_rel runs_on (CarrierAndVoipConflictProcess E i st)"
  "state_io_rel runs_on (ProcessTransferCall E i p)"
  "state_io_rel runs_on (EnqueueAnsweredCall i vs)"
  "state_io_rel runs_on (AnswerCall_checked E i vs rtt)"
  "state_io_rel runs_on (hang_up_or_reject_other E i a p)"
  "state_io_rel runs_on (HangUpOtherCallByAnswerCallID E i b)"
  "state_io_rel runs_on (HangUpOtherCall E i)"
  unfolding CurrentIsSuperPrivacyMode_def AnswerHandlerForSatelliteOrVideoCall_def CarrierAndVoipConflictProcess_def ProcessTransferCall_def EnqueueAnsweredCall_def AnswerCall_checked_def HangUpOtherCall_def HangUpOtherCallByAnswerCallID_def hang_up_or_reject_other_def Handler_HangUpCall_def
  by (intro runs_rules; simp)+

lemma answer_control_runs [runs_rules]:
  "state_io_rel runs_on (AnswerCall_control E i vs rtt)"
  unfolding AnswerCall_control_def
  by (intro runs_rules; simp)

subsection \<open>What a new state leads to\<close>

lemma first_ringing_runs [runs_rules]: "state_io_rel runs_on (first_ringing_answer E is)"
proof (induction "is")
  case Nil
  show ?case by (simp add: runs_rules)
next
  case (Cons x xs)
  then show ?case unfolding first_ringing_answer.simps by (intro runs_rules; simp)
qed

lemma auto_answer_runs [runs_rules]:
  "state_io_rel runs_on (AutoAnswer E a w)"
  "state_io_rel runs_on (AutoAnswerForVideoCall E a)"
  "state_io_rel runs_on (AutoAnswerForVoiceCall E p slot b)"
  unfolding AutoAnswerForVideoCall_def AutoAnswer_def AutoAnswerForVoiceCall_def
  by (intro runs_rules; simp)+

lemma auto_unhold_runs [runs_rules]:
  "state_io_rel runs_on (AutoUnHoldForDsda E b st a slot)"
  unfolding AutoUnHoldForDsda_def
  by (intro runs_rules; simp)

lemma auto_handle_loop_runs [runs_rules]:
  assumes [runs_rules]: "state_io_rel runs_on unhold"
  shows "state_io_rel runs_on (auto_handle_loop E unhold a d al slot b is)"
proof (induction "is")
  case Nil
  show ?case by (simp add: assms)
next
  case (Cons x xs)
  then show ?case unfolding auto_handle_loop.simps by (intro runs_rules; simp)
qed

lemma auto_handle_runs [runs_rules]:
  "state_io_rel runs_on (AutoHandleForDsda E b st a slot cont)"
  "state_io_rel runs_on (AutoAnswerVideoCallForNotDsda E p a)"
  unfolding AutoHandleForDsda_def AutoAnswerVideoCallForNotDsda_def
  by (intro runs_rules; simp)+

lemma answer_pending_runs [runs_rules]: "state_io_rel runs_on (answer_pending E ps)"
proof (induction ps)
  case Nil
  show ?case by (simp add: runs_rules)
next
  case (Cons x xs)
  then show ?case unfolding answer_pending.simps by (intro runs_rules; simp)
qed

lemma pending_runs [runs_rules]:
  "state_io_rel runs_on (AnswerPendingCall E)"
  "state_io_rel runs_on (ClearPendingState E p)"
  unfolding AnswerPendingCall_def ClearPendingState_def
  by (intro runs_rules; simp)+

subsection \<open>The dial that waits\<close>

text \<open>The two halves of HandleDialWhenHolding.\<close>

definition drop_pending_hangup :: "service_env \<Rightarrow> int \<Rightarrow> dial_helper \<Rightarrow> unit step" where
  "drop_pending_hangup E callId h = do {
     holdCall \<leftarrow> find_ptr (GetOneCallObject callId);
     _ \<leftarrow> (case holdCall of None \<Rightarrow> State_Monad.return ()
          | Some q \<Rightarrow> do { _ \<leftarrow> unhold_call E q; State_Monad.return () });
     (let pendingHangupCallId = GetPendingHangupCallId h in do {
        pending \<leftarrow> find_ptr (GetOneCallObject pendingHangupCallId);
        _ \<leftarrow> (case pending of None \<Rightarrow> State_Monad.return ()
             | Some q \<Rightarrow> do {
                 _ \<leftarrow> UpdateCallState E q CALL_STATUS_DISCONNECTED;
                 delete_call E pendingHangupCallId });
        _ \<leftarrow> on_helper (SetPendingHangup False (-1));
        RemovePendingHangupProtectTask }) }"

definition after_dial :: "service_env \<Rightarrow> ptr \<Rightarrow> ErrCode \<Rightarrow> unit step" where
  "after_dial E p result = do {
     dialCall \<leftarrow> find_ptr (GetOneCallObject_running CALL_RUNNING_STATE_DIALING);
     whenever (result \<noteq> TELEPHONY_SUCCESS \<and> dialCall \<noteq> None)
       (do { _ \<leftarrow> DealFailDial E (Some p); State_Monad.return () }) }"

lemma halves_run [runs_rules]:
  "state_io_rel runs_on (drop_pending_hangup E callId h)" "state_io_rel runs_on (after_dial E p ret)"
  unfolding drop_pending_hangup_def after_dial_def by (intro runs_rules; simp)+

definition dial_out :: "service \<Rightarrow> service" where
  "dial_out s = s\<lparr>s_trace := s_trace s @ [CellularDial (s_dialCallInfo s)]\<rparr>"

lemma run_HandleDialWhenHolding:
  "run_state (HandleDialWhenHolding E callId p) s =
     (if IsPendingHangup (s_helper s) then run_state (drop_pending_hangup E callId (s_helper s)) s
      else run_state (after_dial E p (se_dialAnswer E (s_dialCallInfo s)))
        (dial_out s))"
  by (simp add: HandleDialWhenHolding_def drop_pending_hangup_def after_dial_def cellular_dial_def dial_out_def)

text \<open>A step that may send the dial, if one waits when it starts.\<close>

definition runs_waiting :: "'a step \<Rightarrow> bool" where
  "runs_waiting m = (\<forall>s. s_needWaitHold s \<longrightarrow> runs_on s (snd (run_state m s)))"

lemma dial_sent:
  "s_needWaitHold s \<Longrightarrow>
   runs_on s (dial_out (s\<lparr>s_needWaitHold := False\<rparr>))"
  by (simp add: runs_on_def waits_once_def dial_out_def)

lemma send_waiting:
  "runs_waiting (do { _ \<leftarrow> set_needWaitHold False; HandleDialWhenHolding E callId p })"
  unfolding runs_waiting_def
proof (intro allI impI)
  fix s :: service
  assume w: "s_needWaitHold s"
  let ?c = "s\<lparr>s_needWaitHold := False\<rparr>"
  let ?sent = "dial_out ?c"
  have "runs_on s ?c" by (simp add: runs_on_def)
  moreover have "runs_on ?c (snd (run_state (drop_pending_hangup E callId (s_helper s)) ?c))"
    by (rule runs.frame_run) (rule halves_run)
  moreover have "runs_on ?sent (snd (run_state (after_dial E p (se_dialAnswer E (s_dialCallInfo s))) ?sent))"
    by (rule runs.frame_run) (rule halves_run)
  ultimately show "runs_on s (snd (run_state (do {
      _ \<leftarrow> set_needWaitHold False; HandleDialWhenHolding E callId p }) s))"
    using dial_sent [OF w] by (auto simp: run_HandleDialWhenHolding set_needWaitHold_def intro: runs.trans)
qed

lemma waiting_step: "state_io_rel runs_on m \<Longrightarrow> runs_waiting m"
  by (simp add: runs_waiting_def runs.frame_run)

lemma waiting_reads: "(\<And>x. runs_waiting (k x)) \<Longrightarrow> runs_waiting (do { x \<leftarrow> reads f; k x })"
  by (simp add: runs_waiting_def)

lemma waiting_then:
  "runs_waiting m \<Longrightarrow> (\<And>x. state_io_rel runs_on (k x)) \<Longrightarrow> runs_waiting (do { x \<leftarrow> m; k x })"
  unfolding runs_waiting_def using runs.frame_run runs.trans
  by (fastforce simp: split_beta)

lemma waiting_whenever: "(b \<Longrightarrow> runs_waiting m) \<Longrightarrow> runs_waiting (whenever b m)"
  by (cases b) (simp_all add: whenever_def waiting_step runs.frame_rules)

lemma waiting_if: "(b \<Longrightarrow> runs_waiting m) \<Longrightarrow> (\<not> b \<Longrightarrow> runs_waiting m') \<Longrightarrow> runs_waiting (if b then m else m')"
  by simp

text \<open>The flag is read: the step is looked at with it and without it.\<close>

lemma waiting_read:
  assumes "state_io_rel runs_on (k False)" and "runs_waiting (k True)"
  shows "state_io_rel runs_on (do { w \<leftarrow> reads s_needWaitHold; k w })"
proof (rule state_io_relI)
  fix a and s t :: service
  assume "run_state (do { w \<leftarrow> reads s_needWaitHold; k w }) s = (a, t)"
  then have "t = snd (run_state (k (s_needWaitHold s)) s)" by simp
  then show "runs_on s t"
    using runs.frame_run [OF assms(1), of s] assms(2)
    by (cases "s_needWaitHold s") (simp_all add: runs_waiting_def)
qed

text \<open>The two reports that may send it: a hold, and the end of a call.\<close>

definition hold_or_dial :: "service_env \<Rightarrow> ptr \<Rightarrow> call \<Rightarrow> TelCallState \<Rightarrow> nat \<Rightarrow> bool \<Rightarrow> unit step" where
  "hold_or_dial E p c priorState activeCallNum wait = do {
     g \<leftarrow> reads s_conf;
     whenever (IsDsdsMode5 E)
       (if wait \<and> activeCallNum = 0 then do {
          _ \<leftarrow> set_needWaitHold False;
          HandleDialWhenHolding E (m_callId c) p }
        else whenever ((m_conferenceState c \<noteq> TEL_CONFERENCE_IDLE \<and>
                        GetMainCallId c g ERR_ID = m_callId c) \<or>
                       m_conferenceState c = TEL_CONFERENCE_IDLE)
          (AutoHandleForDsda E (m_canSwitchCallState c) priorState activeCallNum (slot_of E c) False)) }"

lemma hold_or_dial_runs:
  "state_io_rel runs_on (do { w \<leftarrow> reads s_needWaitHold; _ \<leftarrow> hold_or_dial E p c st n w; State_Monad.return ret })"
proof (rule waiting_read)
  show "state_io_rel runs_on (do { _ \<leftarrow> hold_or_dial E p c st n False; State_Monad.return ret })"
    unfolding hold_or_dial_def by (intro runs_rules; simp)
  show "runs_waiting (do { _ \<leftarrow> hold_or_dial E p c st n True; State_Monad.return ret })"
    unfolding hold_or_dial_def
    by (rule waiting_then; (intro waiting_reads waiting_whenever waiting_if send_waiting waiting_step runs_rules)?)
qed

lemma end_or_dial_runs:
  assumes "\<And>x. state_io_rel runs_on (rest x)"
  shows "state_io_rel runs_on (do {
     w \<leftarrow> reads s_needWaitHold;
     n \<leftarrow> call_num CALL_STATUS_ACTIVE;
     x \<leftarrow> whenever (w \<and> n = 0) (do { _ \<leftarrow> set_needWaitHold False; HandleDialWhenHolding E i p });
     rest x })"
  unfolding call_num_def find_ptr_def
proof (rule waiting_read)
  show "state_io_rel runs_on (do {
     n \<leftarrow> reads (\<lambda>s. GetCallNum CALL_STATUS_ACTIVE True (s_reg s));
     x \<leftarrow> whenever (False \<and> n = 0) (do { _ \<leftarrow> set_needWaitHold False; HandleDialWhenHolding E i p });
     rest x })"
    by (intro runs_rules assms; simp)
  show "runs_waiting (do {
     n \<leftarrow> reads (\<lambda>s. GetCallNum CALL_STATUS_ACTIVE True (s_reg s));
     x \<leftarrow> whenever (True \<and> n = 0) (do { _ \<leftarrow> set_needWaitHold False; HandleDialWhenHolding E i p });
     rest x })"
    by (intro waiting_reads waiting_then waiting_whenever send_waiting assms)
qed

lemma UpdateCallStateAndHandleDsdsMode_split:
  "UpdateCallStateAndHandleDsdsMode E p = do {
     c \<leftarrow> call_of p;
     ret \<leftarrow> UpdateCallState E p CALL_STATUS_HOLDING;
     c' \<leftarrow> call_of p;
     activeCallNum \<leftarrow> call_num CALL_STATUS_ACTIVE;
     wait \<leftarrow> reads s_needWaitHold;
     _ \<leftarrow> hold_or_dial E p c' (m_callState c) activeCallNum wait;
     State_Monad.return ret }"
  unfolding UpdateCallStateAndHandleDsdsMode_def hold_or_dial_def Let_def by simp

lemma holding_runs [runs_rules]:
  "state_io_rel runs_on (UpdateCallStateAndHandleDsdsMode E p)"
  "state_io_rel runs_on (HandleHoldCallOrAutoAnswerCall E p n rs st)"
  unfolding UpdateCallStateAndHandleDsdsMode_split HandleHoldCallOrAutoAnswerCall_def
  by (intro runs_rules hold_or_dial_runs; simp)+

subsection \<open>Numbers, fraud and incoming calls\<close>

lemma number_tasks_run [runs_rules]:
  "state_io_rel runs_on (report_call_info E p)"
  "state_io_rel runs_on (NumberLocationUpdate E p)"
  "state_io_rel runs_on (YellowPageAndMarkUpdate E p)"
  unfolding NumberLocationUpdate_def YellowPageAndMarkUpdate_def report_call_info_def
  by (intro runs_rules; simp)+

lemma fraud_runs [runs_rules]:
  "state_io_rel runs_on (UpdateAntiFraudState p i res)"
  "state_io_rel runs_on (StopAntiFraudDetect E p info)"
  "state_io_rel runs_on (PauseAntiFraudDetect E p info)"
  "state_io_rel runs_on (StartAntiFraudDetectTask E p info vs)"
  "state_io_rel runs_on (SetupAntiFraudService E p info)"
  "state_io_rel runs_on (HandleAntiFraudState E p info)"
  "state_io_rel runs_on (anti_fraud_task E p info slot)"
  unfolding HandleAntiFraudState_def SetupAntiFraudService_def StartAntiFraudDetectTask_def PauseAntiFraudDetect_def anti_fraud_task_def StopAntiFraudDetect_def UpdateAntiFraudState_def
  by (intro runs_rules; simp add: Let_def)+

lemma trigger_fraud_runs [runs_rules]:
  "state_io_rel runs_on (HandleCeliaCall E p)"
  "state_io_rel runs_on (TriggerAntiFraud E i res)"
  unfolding HandleCeliaCall_def TriggerAntiFraud_def
  by (intro runs_rules; simp)+

lemma motion_runs [runs_rules]:
  "state_io_rel runs_on (StartInComingCallMotionRecognition E)"
  "state_io_rel runs_on (StartOutGoingCallMotionRecognition E)"
  "state_io_rel runs_on (StopCallMotionRecognition st)"
  unfolding StartInComingCallMotionRecognition_def StartOutGoingCallMotionRecognition_def StopCallMotionRecognition_def
  by (intro runs_rules; simp)+

lemma prepare_runs [runs_rules]:
  "state_io_rel runs_on (RefreshOldCall E info)"
  "state_io_rel runs_on (DoIncomingFilter E info)"
  "state_io_rel runs_on (PrepareIncomingCall E info)"
  unfolding PrepareIncomingCall_def RefreshOldCall_def DoIncomingFilter_def
  by (intro runs_rules; simp)+

lemma contact_runs [runs_rules]:
  "state_io_rel runs_on (ModifyEsimType E)"
  "state_io_rel runs_on (SetBluetoothCallContactInfo E p n)"
  "state_io_rel runs_on (SetContactInfo E p n)"
  "state_io_rel runs_on (contact_task E p n)"
  unfolding ModifyEsimType_def SetContactInfo_def SetBluetoothCallContactInfo_def contact_task_def
  by (intro runs_rules; simp)+

lemma drop_runs [runs_rules]:
  "state_io_rel runs_on (drop_marked E p cause)"
  unfolding drop_marked_def
  by (intro runs_rules; simp)

lemma disposition_runs [runs_rules]: "state_io_rel runs_on (HandleWatchCallDisposition E p)"
  unfolding HandleWatchCallDisposition_def
  by (cases "rp_disposition (se_report E)") (simp_all, (intro runs_rules; simp)+)

lemma reject_decision_runs [runs_rules]:
  "state_io_rel runs_on (ShouldRejectIncomingCall E p)"
  "state_io_rel runs_on (ShouldBlockIncomingCall E p info)"
  "state_io_rel runs_on (IsRejectCall E p info)"
  "state_io_rel runs_on (IsRingOnceCall E p info)"
  unfolding IsRejectCall_def ShouldRejectIncomingCall_def ShouldBlockIncomingCall_def IsRingOnceCall_def
  by (intro runs_rules; simp)+

lemma log_runs [runs_rules]:
  "state_io_rel runs_on (AddCallLogAndNotification E p)"
  "state_io_rel runs_on (AddBlockLogAndNotification E p)"
  "state_io_rel runs_on (publish_block p b)"
  "state_io_rel runs_on (HandleRejectCall E p b)"
  "state_io_rel runs_on (HandleRingOnceCall E p)"
  "state_io_rel runs_on (HandleVideoCallInAdvsecMode E p info)"
  unfolding HandleRejectCall_def HandleRingOnceCall_def set_incoming_def AddCallLogAndNotification_def AddBlockLogAndNotification_def add_log_def publish_block_def HandleVideoCallInAdvsecMode_def
  by (intro runs_rules; simp)+

lemma status_effect_runs [runs_rules]: "state_io_rel runs_on (status_effect E x)"
  unfolding status_effect_def by (cases x) (simp_all, (intro runs_rules; simp)+)

lemma drop_call_keeps:
  assumes "\<And>c ret qs c'. ask c = Some (ret, qs, c') \<Longrightarrow> m_class c' = m_class c"
    and "drop_call cause ask p r = Some (ret, es, r')"
  shows "r_list r' = r_list r \<and> (\<forall>q. m_class (r_heap r' q) = m_class (r_heap r q))"
  using assms(2) by (auto simp: drop_call_def Let_def dest!: assms(1) split: option.splits prod.splits)

lemma reject_class: "RejectCall e c = (ret, qs, c') \<Longrightarrow> m_class c' = m_class c"
  using operation_keeps_identity(2) [of e c] by (simp add: identity_def)

lemma filter_results_keep:
  assumes "FilterResultsDispose b e v (Some p) r = Some (ret, es, r')"
  shows "r_list r' = r_list r" "m_class (r_heap r' q) = m_class (r_heap r q)"
proof -
  have "r_list r' = r_list r \<and> (\<forall>q. m_class (r_heap r' q) = m_class (r_heap r q))"
    using assms
    by (auto simp: FilterResultsDispose_def IncomingCallBase_def split: if_splits
        dest: drop_call_keeps [rotated] hang_up_keeps_identity reject_class)
  then show "r_list r' = r_list r" "m_class (r_heap r' q) = m_class (r_heap r q)" by simp_all
qed

lemma filter_results_runs [runs_rules]: "state_io_rel runs_on (filter_results E p)"
proof -
  have "state_io_rel runs_on (each (status_effect E) es)" for es by (intro runs_rules)
  then have each: "runs_on s (snd (run_state (each (status_effect E) es) s))" for es s
    by (rule runs.frame_run)
  show ?thesis
  proof (rule state_io_relI)
    fix a and s s' :: service
    assume r: "run_state (filter_results E p) s = (a, s')"
    show "runs_on s s'"
    proof (cases "FilterResultsDispose (se_build E) (se_env E) (s_voipState s) (Some p) (s_reg s)")
      case None
      with r show ?thesis by (auto simp: filter_results_def runs_on_def)
    next
      case (Some v)
      then obtain ret es r' where v: "FilterResultsDispose (se_build E) (se_env E) (s_voipState s)
          (Some p) (s_reg s) = Some (ret, es, r')" by (cases v) auto
      with r have "s' = snd (run_state (each (status_effect E) es) (s\<lparr>s_reg := r'\<rparr>))"
        by (auto simp: filter_results_def split: prod.splits)
      moreover have "runs_on s (s\<lparr>s_reg := r'\<rparr>)"
        by (rule runs_on_registry) (simp_all add: filter_results_keep [OF v])
      ultimately show ?thesis using each runs.trans by blast
    qed
  qed
qed

lemma incoming_runs [runs_rules]:
  "state_io_rel runs_on (FinalizeIncomingState E p st)"
  "state_io_rel runs_on (announce_incoming E p info)"
  "state_io_rel runs_on (IncomingHandle E info)"
  "state_io_rel runs_on (CallFilterCompleteResult E info)"
  unfolding IncomingHandle_def announce_incoming_def FinalizeIncomingState_def CallFilterCompleteResult_def
  by (intro runs_rules; simp)+

subsection \<open>The handlers of states\<close>

lemma report_class [simp]:
  "m_class (SetOriginalCallTypeForActiveState c) = m_class c"
  "m_class (SetOriginalCallTypeForDisconnectState E c) = m_class c"
  "m_class (RefreshCallDisconnectReason E i t c) = m_class c" "m_class (voip_mic ev c) = m_class c"
  "m_class (SetSlotId i c) = m_class c" "m_class (SetCallIndex i c) = m_class c"
  by (simp_all add: SetOriginalCallTypeForActiveState_def SetOriginalCallTypeForDisconnectState_def
      RefreshCallDisconnectReason_def voip_mic_def SetSlotId_def SetCallIndex_def Let_def)

lemma voip_update_class [simp]: "m_class (snd (VoIPCall_UpdateCallAttributeInfo v mode c)) = m_class c"
  by (simp add: VoIPCall_UpdateCallAttributeInfo_def Let_def split_beta)

lemma conference_reports_run [runs_rules]:
  "state_io_rel runs_on (HandleDsdaInfo E slot)"
  "state_io_rel runs_on (SetConferenceCall E ps)"
  "state_io_rel runs_on (SetReduceRingToneVolume_control b)"
  "state_io_rel runs_on (after_last_call E)"
  unfolding HandleDsdaInfo_def SetConferenceCall_def after_last_call_def SetReduceRingToneVolume_control_def
  by (intro runs_rules; simp)+

lemma single_frame [runs_rules]:
  "(\<And>p. state_io_rel runs_on (f p)) \<Longrightarrow>
   state_io_rel runs_on (case ps of [p] \<Rightarrow> f p | _ \<Rightarrow> State_Monad.return ())"
  by (auto split: list.split intro: runs_rules)

lemma dissolve_runs [runs_rules]: "state_io_rel runs_on (dissolve_conference E slot)"
  unfolding dissolve_conference_def by (intro runs_rules; simp)

lemma audio_runs [runs_rules]:
  "state_io_rel runs_on (ToSpeakerPhone p)"
  "state_io_rel runs_on (TurnOffMute p)"
  "state_io_rel runs_on (release_dialing)"
  unfolding ToSpeakerPhone_def TurnOffMute_def release_dialing_def
  by (intro runs_rules; simp)+

lemma dialing_parts_run [runs_rules]:
  "state_io_rel runs_on (UpdateDialingCallInfo E info)"
  "state_io_rel runs_on (dialed_on E b d p)"
  "state_io_rel runs_on (BtCallDialingHandle E v info)"
  "state_io_rel runs_on (UpdateDialingHandle E info)"
  "state_io_rel runs_on (BtCallDialingHandleFirst E p info)"
  "state_io_rel runs_on (start_dialed_call E info b p)"
  unfolding UpdateDialingHandle_def BtCallDialingHandleFirst_def BtCallDialingHandle_def start_dialed_call_def UpdateDialingCallInfo_def dialed_on_def
  by (intro runs_rules; simp)+

lemma dialing_handle_runs [runs_rules]:
  "state_io_rel runs_on (DialingHandle E info)"
  "state_io_rel runs_on (RefreshDialingStateByOtherState E info)"
  "state_io_rel runs_on (CreateAndSaveNewCall E info dir)"
  "state_io_rel runs_on (find_or_make E info dir)"
  "state_io_rel runs_on (or_dialing E info v)"
  unfolding find_or_make_def or_dialing_def RefreshDialingStateByOtherState_def CreateAndSaveNewCall_def DialingHandle_def
  by (intro runs_rules; simp)+

lemma active_handle_runs [runs_rules]:
  "state_io_rel runs_on (ActiveHandle E info)"
  unfolding ActiveHandle_def
  by (intro runs_rules; simp)

lemma state_handles_run [runs_rules]:
  "state_io_rel runs_on (HoldingHandle E info)"
  "state_io_rel runs_on (WaitingHandle E info)"
  "state_io_rel runs_on (AlertHandle E info)"
  "state_io_rel runs_on (DisconnectingHandle E info)"
  unfolding HoldingHandle_def WaitingHandle_def AlertHandle_def DisconnectingHandle_def
  by (intro runs_rules; simp)+

lemma disconnected_handle_runs [runs_rules]:
  "state_io_rel runs_on (DisconnectedHandle E info)"
  unfolding DisconnectedHandle_def
  by (intro end_or_dial_runs runs_rules; simp)

subsection \<open>Every report\<close>

lemma voip_parts_run [runs_rules]:
  "state_io_rel runs_on (update_voip_info info p)"
  "state_io_rel runs_on (announce_voip E p st)"
  "state_io_rel runs_on (set_non_virtual p)"
  "state_io_rel runs_on (make_virtual p)"
  "state_io_rel runs_on (HangUpCellularCall E)"
  unfolding update_voip_info_def announce_voip_def make_virtual_def set_virtual_call_def set_non_virtual_def HangUpCellularCall_def
  by (intro runs_rules; simp)+

lemma voip_handles_run [runs_rules]:
  "state_io_rel runs_on (ActiveVoipCallHandle E info)"
  "state_io_rel runs_on (IncomingVoipCallHandle E info)"
  "state_io_rel runs_on (OutgoingVoipCallHandle E info)"
  "state_io_rel runs_on (AnsweredVoipCallHandle E info)"
  "state_io_rel runs_on (DisconnectingVoipCallHandle E info)"
  "state_io_rel runs_on (DisconnectedVoipCallHandle E info)"
  unfolding ActiveVoipCallHandle_def IncomingVoipCallHandle_def OutgoingVoipCallHandle_def AnsweredVoipCallHandle_def DisconnectingVoipCallHandle_def DisconnectedVoipCallHandle_def
  by (intro runs_rules; simp)+

lemma voip_report_runs [runs_rules]: "state_io_rel runs_on (HandleVoipCallReportInfo E info)"
  unfolding HandleVoipCallReportInfo_def by (cases "dt_state info") (simp_all add: runs_rules)

lemma report_ex_runs [runs_rules]: "state_io_rel runs_on (HandleCallReportInfoEx E info)"
  unfolding HandleCallReportInfoEx_def by (cases "dt_state info") (simp_all add: runs_rules)

lemma handle_state_runs [runs_rules]: "state_io_rel runs_on (handle_state E info)"
  unfolding handle_state_def by (cases "dt_state info") (simp_all add: runs_rules)

lemma call_report_runs [runs_rules]:
  "state_io_rel runs_on (HandleBluetoothCallReportInfo E info)"
  "state_io_rel runs_on (HandleCallReportInfo E info)"
  "state_io_rel runs_on (HandleConnectingCallReportInfo E info)"
  unfolding HandleConnectingCallReportInfo_def HandleCallReportInfo_def HandleBluetoothCallReportInfo_def
  by (intro runs_rules; simp)+

lemma rtt_runs [runs_rules]:
  "state_io_rel runs_on (RefreshRttManager E info)"
  "state_io_rel runs_on (HandleRttEventInfo_closed E)"
  unfolding RefreshRttManager_def HandleRttEventInfo_closed_def UnInitRttManager_def
  by (intro runs_rules; simp)+

lemma handle_left_runs [runs_rules]: "state_io_rel runs_on (handle_left E slot new k olds)"
proof (induction olds arbitrary: k)
  case Nil
  show ?case by (simp add: runs_rules)
next
  case (Cons x xs)
  then show ?case unfolding handle_left.simps by (intro runs_rules; simp)
qed

lemma calls_report_runs [runs_rules]:
  "state_io_rel runs_on (handle_listed E slot i)"
  "state_io_rel runs_on (UpdateCallDetailsInfo slot is)"
  "state_io_rel runs_on (HandleCallsReportInfo E slot is)"
  unfolding HandleCallsReportInfo_def handle_listed_def UpdateCallDetailsInfo_def
  by (intro runs_rules; simp)+

lemma event_runs [runs_rules]:
  "state_io_rel runs_on (HandleDisconnectedCause E i t)"
  "state_io_rel runs_on (combine_failed)"
  "state_io_rel runs_on (HandleEventResultReportInfo E ty ev)"
  "state_io_rel runs_on (HandleOttEventReportInfo E i n)"
  "state_io_rel runs_on (HandleVoipEventReportInfo E t n uid vev)"
  unfolding HandleDisconnectedCause_def HandleEventResultReportInfo_def combine_failed_def HandleOttEventReportInfo_def HandleVoipEventReportInfo_def
  by (intro runs_rules; simp)+

lemma handle_report_runs [runs_rules]: "state_io_rel runs_on (handle_report E x)"
  unfolding handle_report_def by (cases x) (simp_all, (intro runs_rules; simp)+)

lemma queue_frame [runs_rules]:
  "(\<And>x xs. state_io_rel runs_on (f x xs)) \<Longrightarrow>
   state_io_rel runs_on (case q of [] \<Rightarrow> State_Monad.return () | x # xs \<Rightarrow> f x xs)"
  by (auto split: list.split intro: runs_rules)

lemma run_report_runs [runs_rules]: "state_io_rel runs_on (run_report E)"
  unfolding run_report_def by (intro runs_rules; simp)

lemma report_task_runs [runs_rules]: "state_io_rel runs_on (run_report_task E t)"
  unfolding run_report_task_def by (cases t) (simp_all add: runs_rules)

end
