(* ===== verification/Request_Properties.thy ===== *)
theory Request_Properties
  imports Request_Frame
begin

text \<open>
  Which calls a request concerns: what is asked of the stack when several calls exist, as
  closed descriptions of the loops of theories Call_Request and Call_Dialing.
\<close>

subsection \<open>Requests only ask\<close>

text \<open>
  Submitted requests only ask.  Whatever tasks the request thread runs, in whatever
  order, the calls keep their places in the registry, their identities and their states;
  nothing that was sent is taken back, no report is queued and no flag of a dial in progress
  changes.  A call changes only when the stack reports it.
\<close>

theorem submitted_requests_only_ask:
  "only_asks s (snd (run_state (each (run_task E) ts) s))"
  by (rule asks.frame_run, rule asks.each_frame, rule run_task_asks)

subsection \<open>What ending a call asks\<close>

definition hang_up_asked :: "service_env \<Rightarrow> call \<Rightarrow> Effect list" where
  "hang_up_asked E c = (case HangUpCall (se_build E) (se_env E) c of
     None \<Rightarrow> [] | Some (_, qs, _) \<Rightarrow> map Sent qs)"

definition reject_asked :: "service_env \<Rightarrow> call \<Rightarrow> Effect list" where
  "reject_asked E c = map Sent (fst (snd (RejectCall (se_env E) c)))"

definition add_trace :: "Effect list \<Rightarrow> service \<Rightarrow> service" where
  "add_trace es s = s\<lparr>s_trace := s_trace s @ es\<rparr>"

lemma add_trace_simps [simp]:
  "s_reg (add_trace es s) = s_reg s" "s_trace (add_trace es s) = s_trace s @ es"
  "s_conf (add_trace es s) = s_conf s" "add_trace [] s = s"
  "add_trace es' (add_trace es s) = add_trace (es @ es') s"
  by (simp_all add: add_trace_def)

lemma with_call_unchanged [simp]: "with_call p (r_heap (s_reg s) p) s = s"
  by (simp add: with_call_def)

lemma hang_up_defined:
  assumes "ott e \<noteq> None"
  shows "\<exists>ret qs. HangUpCall b e c = Some (ret, qs, c)"
proof -
  have "HangUpCall b e c \<noteq> None" using assms
    by (cases "m_class c") (auto simp: HangUpCall_def OTTCall_HangUpCall_def split_beta)
  then show ?thesis using hang_up_keeps_identity [of b e c] by (metis not_None_eq prod_cases3)
qed

lemma run_hang_up_call:
  assumes "ott (se_env E) \<noteq> None"
  shows "snd (run_state (hang_up_call E p) s) = add_trace (hang_up_asked E (r_heap (s_reg s) p)) s"
proof -
  obtain ret qs where "HangUpCall (se_build E) (se_env E) (r_heap (s_reg s) p) =
      Some (ret, qs, r_heap (s_reg s) p)"
    using hang_up_defined [OF assms] by blast
  then show ?thesis
    by (simp add: hang_up_call_def run_invoke_opt apply_outcome_def hang_up_asked_def
        add_trace_def with_call_def)
qed

lemma run_hang_ups:
  assumes "ott (se_env E) \<noteq> None"
  shows "snd (run_state (each (\<lambda>p. do { _ \<leftarrow> hang_up_call E p; State_Monad.return () }) ps) s) =
    add_trace (concat (map (\<lambda>p. hang_up_asked E (r_heap (s_reg s) p)) ps)) s"
  by (induction ps arbitrary: s) (simp_all add: run_hang_up_call [OF assms] split_beta)

text \<open>Rejecting changes the kind of answer of the call, on which no request depends.\<close>

definition answered_apart :: "(ptr \<Rightarrow> call) \<Rightarrow> (ptr \<Rightarrow> call) \<Rightarrow> bool" where
  "answered_apart h h' = (\<forall>p. \<exists>a. h' p = (h p)\<lparr>m_answerType := a\<rparr>)"

lemma packed_answerType [simp]: "packed (c\<lparr>m_answerType := a\<rparr>) = packed c"
  by (simp add: packed_def PackCellularCallInfo_def memcpy_s_def Let_def)

lemma packed_ott_answerType [simp]:
  "fst (PackOttCallRequestInfo (c\<lparr>m_answerType := a\<rparr>) q) = fst (PackOttCallRequestInfo c q)"
  "snd (PackOttCallRequestInfo (c\<lparr>m_answerType := a\<rparr>) q) = snd (PackOttCallRequestInfo c q)"
  by (simp_all add: PackOttCallRequestInfo_def memcpy_s_def Let_def)

lemma reject_outcome:
  "\<exists>a. snd (snd (RejectCall e c)) = c\<lparr>m_answerType := a\<rparr>"
  by (cases "m_class c") (auto simp: RejectCall_def cm_defs RejectCallBase_def Let_def split: prod.split
      intro: exI [of _ "m_answerType c"])

lemma reject_asked_answerType [simp]: "reject_asked E (c\<lparr>m_answerType := a\<rparr>) = reject_asked E c"
  by (cases "m_class c") (auto simp: reject_asked_def RejectCall_def cm_defs RejectCallBase_def
      PackVoipCallInfo_def request_defs Let_def split: prod.split option.split)

lemma run_reject_call:
  "\<exists>a. snd (run_state (reject_call E p) s) = add_trace (reject_asked E (r_heap (s_reg s) p))
     (with_call p ((r_heap (s_reg s) p)\<lparr>m_answerType := a\<rparr>) s)"
proof -
  obtain a where "snd (snd (RejectCall (se_env E) (r_heap (s_reg s) p))) = (r_heap (s_reg s) p)\<lparr>m_answerType := a\<rparr>"
    using reject_outcome by blast
  then show ?thesis
    by (intro exI [of _ a]) (simp add: reject_call_def run_invoke apply_outcome_def reject_asked_def
        add_trace_def split_beta)
qed

lemma answerType_same [simp]: "c\<lparr>m_answerType := m_answerType c\<rparr> = c"
  by (cases c) (simp add: call_base.defs)

lemma answered_apart_refl [simp]: "answered_apart h h"
  unfolding answered_apart_def by (metis answerType_same)

lemma run_rejects:
  assumes "answered_apart h (r_heap (s_reg s))"
  shows "s_trace (snd (run_state (each (\<lambda>p. do { _ \<leftarrow> reject_call E p; State_Monad.return () }) ps) s)) =
    s_trace s @ concat (map (\<lambda>p. reject_asked E (h p)) ps)"
  using assms
proof (induction ps arbitrary: s)
  case Nil
  show ?case by simp
next
  case (Cons p ps)
  obtain a where a: "snd (run_state (reject_call E p) s) = add_trace (reject_asked E (r_heap (s_reg s) p))
     (with_call p ((r_heap (s_reg s) p)\<lparr>m_answerType := a\<rparr>) s)" (is "_ = ?t")
    using run_reject_call by blast
  from Cons.prems have same: "reject_asked E (r_heap (s_reg s) p) = reject_asked E (h p)"
    unfolding answered_apart_def by (metis reject_asked_answerType)
  have "answered_apart h (r_heap (s_reg ?t))"
    unfolding answered_apart_def
  proof
    fix q
    from Cons.prems obtain b where b: "r_heap (s_reg s) q = (h q)\<lparr>m_answerType := b\<rparr>"
      unfolding answered_apart_def by blast
    show "\<exists>d. r_heap (s_reg ?t) q = (h q)\<lparr>m_answerType := d\<rparr>"
    proof (cases "q = p")
      case True
      with b have "r_heap (s_reg ?t) q = (h q)\<lparr>m_answerType := a\<rparr>" by simp
      then show ?thesis by blast
    next
      case False
      with b have "r_heap (s_reg ?t) q = (h q)\<lparr>m_answerType := b\<rparr>" by simp
      then show ?thesis by blast
    qed
  qed
  from Cons.IH [OF this] a same show ?case by (simp add: split_beta)
qed

subsection \<open>Dialing an emergency number\<close>

text \<open>The calls the loops go through: the carrier calls, found again by their ids.\<close>

definition carrier_calls :: "registry \<Rightarrow> ptr list" where
  "carrier_calls r = List.map_filter (\<lambda>i. GetOneCallObject i r) (GetCarrierCallList r)"

lemma ecc_lists_filter:
  "ecc_lists r is hs rs =
     (let ps = List.map_filter (\<lambda>i. GetOneCallObject i r) is; role = (\<lambda>p. ecc_role (r_heap r p)) in
      if \<exists>p \<in> set ps. role p = EccAbort then None
      else Some (hs @ filter (\<lambda>p. role p = EccHangUp) ps, rs @ filter (\<lambda>p. role p = EccReject) ps))"
proof (induction "is" arbitrary: hs rs)
  case Nil
  show ?case by (simp add: List.map_filter_def)
next
  case (Cons i "is")
  show ?case
  proof (cases "GetOneCallObject i r")
    case None
    then show ?thesis by (simp add: Cons.IH List.map_filter_simps)
  next
    case (Some p)
    then show ?thesis
      by (cases "ecc_role (r_heap r p)") (simp_all add: Cons.IH List.map_filter_simps Let_def)
  qed
qed

text \<open>
  C24: Dialing an emergency number makes room first.  When another emergency call is still
  being set up, the dial is refused and nothing changes.  Otherwise it goes on, and exactly
  these requests have been made, in this order: every carrier call that is being set up, is
  active, on hold or a satellite call is hung up, then every ringing call is rejected.
\<close>

theorem emergency_dial_makes_room:
  assumes "ott (se_env E) \<noteq> None"
  shows "let r = s_reg s; ps = carrier_calls r; res = run_state (EccDialPolicy E) s in
    if \<exists>p \<in> set ps. ecc_role (r_heap r p) = EccAbort then res = (CALL_ERR_CALL_COUNTS_EXCEED_LIMIT, s)
    else fst res = TELEPHONY_SUCCESS \<and>
      s_trace (snd res) = s_trace s @
        concat (map (\<lambda>p. hang_up_asked E (r_heap r p)) (filter (\<lambda>p. ecc_role (r_heap r p) = EccHangUp) ps)) @
        concat (map (\<lambda>p. reject_asked E (r_heap r p)) (filter (\<lambda>p. ecc_role (r_heap r p) = EccReject) ps))"
proof -
  note ecc_lists_filter [of "s_reg s" "GetCarrierCallList (s_reg s)" "[]" "[]", folded carrier_calls_def]
  then show ?thesis
    by (simp add: EccDialPolicy_def split_beta run_hang_ups [OF assms]
        run_rejects [of "r_heap (s_reg s)"] Let_def)
qed

lemma sample_ott_connected: "ott (se_env sample_service_env) \<noteq> None"
  by (simp add: sample_service_env_def sample_env_def)

lemma sample_ecc_facts:
  "carrier_calls (s_reg sample_service) = [0, Suc 0]"
  "ecc_role (r_heap (s_reg sample_service) 0) = EccHangUp"
  "ecc_role (r_heap (s_reg sample_service) (Suc 0)) = EccHangUp"
  by code_simp+

theorem emergency_dial_makes_room_witness:
  "let r = s_reg sample_service; res = run_state (EccDialPolicy sample_service_env) sample_service in
     fst res = TELEPHONY_SUCCESS \<and>
     s_trace (snd res) = s_trace sample_service @
       hang_up_asked sample_service_env (r_heap r 0) @ hang_up_asked sample_service_env (r_heap r 1)"
  using emergency_dial_makes_room [OF sample_ott_connected, of sample_service]
  by (simp add: sample_ecc_facts Let_def)
subsection \<open>Answering with one SIM card in use\<close>

text \<open>The registry up to the mark that a call is to be answered automatically.\<close>

definition auto_apart :: "registry \<Rightarrow> registry \<Rightarrow> bool" where
  "auto_apart r r' = (r_list r' = r_list r \<and> (\<forall>p. \<exists>b. r_heap r' p = (r_heap r p)\<lparr>m_autoAnswerState := b\<rparr>))"

lemma auto_answer_asked [simp]:
  "hang_up_asked E (c\<lparr>m_autoAnswerState := b\<rparr>) = hang_up_asked E c"
  by (cases "m_class c") (simp_all add: hang_up_asked_def HangUpCall_def cm_defs packed_def
      PackCellularCallInfo_def PackOttCallRequestInfo_def PackVoipCallInfo_def memcpy_s_def
      hang_up_type_def request_defs Let_def split: prod.split option.split)

lemma auto_answer_slot [simp]: "slot_of E (c\<lparr>m_autoAnswerState := b\<rparr>) = slot_of E c"
  by (cases "m_class c") (simp_all add: slot_of_def GetSlotId_def)

lemma auto_answer_same [simp]: "c\<lparr>m_autoAnswerState := m_autoAnswerState c\<rparr> = c"
  by (cases c) (simp add: call_base.defs)

lemma auto_apart_refl [simp]: "auto_apart r r"
  unfolding auto_apart_def by (metis auto_answer_same)

lemma auto_apart_heap:
  assumes "auto_apart r r'"
  obtains b where "r_heap r' p = (r_heap r p)\<lparr>m_autoAnswerState := b\<rparr>"
  using assms unfolding auto_apart_def by blast

lemma auto_apart_call:
  assumes "auto_apart r r'"
  shows "m_callId (r_heap r' p) = m_callId (r_heap r p)"
    "slot_of E (r_heap r' p) = slot_of E (r_heap r p)"
    "hang_up_asked E (r_heap r' p) = hang_up_asked E (r_heap r p)"
proof -
  obtain b where "r_heap r' p = (r_heap r p)\<lparr>m_autoAnswerState := b\<rparr>" using auto_apart_heap [OF assms] .
  then show "m_callId (r_heap r' p) = m_callId (r_heap r p)"
    "slot_of E (r_heap r' p) = slot_of E (r_heap r p)"
    "hang_up_asked E (r_heap r' p) = hang_up_asked E (r_heap r p)" by simp_all
qed

lemma auto_apart_find:
  "auto_apart r r' \<Longrightarrow> GetOneCallObject i r' = GetOneCallObject i r"
  by (simp add: GetOneCallObject_def find_call_def auto_apart_call) (simp add: auto_apart_def)

lemma auto_apart_put:
  assumes "auto_apart r r'"
  shows "auto_apart r (r'\<lparr>r_heap := (r_heap r')(p := (r_heap r' p)\<lparr>m_autoAnswerState := b\<rparr>)\<rparr>)"
  unfolding auto_apart_def
proof (intro conjI allI)
  fix q
  obtain d where "r_heap r' q = (r_heap r q)\<lparr>m_autoAnswerState := d\<rparr>"
    using auto_apart_heap [OF assms] by blast
  then show "\<exists>d. r_heap (r'\<lparr>r_heap := (r_heap r')(p := (r_heap r' p)\<lparr>m_autoAnswerState := b\<rparr>)\<rparr>) q =
      (r_heap r q)\<lparr>m_autoAnswerState := d\<rparr>"
    by (cases "q = p") auto
qed (use assms in \<open>simp add: auto_apart_def\<close>)

definition other_slot :: "service_env \<Rightarrow> registry \<Rightarrow> int \<Rightarrow> int list \<Rightarrow> ptr list" where
  "other_slot E r slotId is =
     filter (\<lambda>q. slot_of E (r_heap r q) \<noteq> slotId) (List.map_filter (\<lambda>i. GetOneCallObject i r) is)"

lemma run_hang_up_other_slots:
  assumes ott: "ott (se_env E) \<noteq> None"
  shows "auto_apart r (s_reg s) \<Longrightarrow>
    (let t = snd (run_state (hang_up_other_slots E p slotId is b) s) in
     fst (run_state (hang_up_other_slots E p slotId is b) s) = (b \<and> other_slot E r slotId is = []) \<and>
     s_trace t = s_trace s @ concat (map (\<lambda>q. hang_up_asked E (r_heap r q)) (other_slot E r slotId is)) \<and>
     (other_slot E r slotId is = [] \<longrightarrow> t = s) \<and>
     ((m_autoAnswerState (r_heap (s_reg s) p) \<or> other_slot E r slotId is \<noteq> []) \<longrightarrow>
        m_autoAnswerState (r_heap (s_reg t) p)))"
proof (induction "is" arbitrary: s b)
  case Nil
  show ?case by (simp add: other_slot_def List.map_filter_simps)
next
  case (Cons i "is")
  note same = auto_apart_call [OF Cons.prems] auto_apart_find [OF Cons.prems]
  show ?case
  proof (cases "holds_at r (GetOneCallObject i r) (\<lambda>c. slot_of E c \<noteq> slotId)")
    case False
    then have "\<not> holds_at (s_reg s) (GetOneCallObject i r) (\<lambda>c. slot_of E c \<noteq> slotId)"
      by (cases "GetOneCallObject i r") (simp_all add: holds_at_def same)
    moreover from False have "other_slot E r slotId (i # is) = other_slot E r slotId is"
      by (cases "GetOneCallObject i r") (simp_all add: other_slot_def holds_at_def List.map_filter_simps)
    ultimately show ?thesis using Cons.IH [OF Cons.prems, of b] by (simp add: same split_beta)
  next
    case True
    then obtain q where q: "GetOneCallObject i r = Some q" "slot_of E (r_heap r q) \<noteq> slotId"
      by (auto simp: holds_at_def split: option.splits)
    then have o: "other_slot E r slotId (i # is) = q # other_slot E r slotId is"
      by (simp add: other_slot_def List.map_filter_simps)
    let ?u = "with_call p ((r_heap (s_reg s) p)\<lparr>m_autoAnswerState := True\<rparr>) s"
    let ?t = "add_trace (hang_up_asked E (r_heap (s_reg ?u) q)) ?u"
    have u: "auto_apart r (s_reg ?u)" using auto_apart_put [OF Cons.prems] by simp
    have run: "run_state (hang_up_other_slots E p slotId (i # is) b) s =
        run_state (hang_up_other_slots E p slotId is False) ?t"
      by (simp add: q same holds_at_def split_beta run_hang_up_call [OF ott] SetAutoAnswerState_def)
    have tr: "s_trace ?t = s_trace s @ hang_up_asked E (r_heap r q)"
      using auto_apart_call(3) [OF u, of E q] by simp
    have "auto_apart r (s_reg ?t)" using u by simp
    from Cons.IH [OF this, of False] show ?thesis
      unfolding run o Let_def tr by simp
  qed
qed

text \<open>
  C25: With one SIM card in use at a time, answering a call ends every call of the other card
  first.  If there is none the call is answered at once; otherwise exactly those calls are
  hung up, in the order of the list, the answer is not sent, and the call is marked to be
  answered automatically.
\<close>

theorem answer_ends_other_slot:
  assumes "ott (se_env E) \<noteq> None"
    and "GetOneCallObject callId (s_reg s) = Some p"
  shows "let r = s_reg s; ids = GetCarrierCallList r;
      others = (if length ids > 1 then other_slot E r slotId ids else []);
      t = snd (run_state (DisconnectOtherSubIdCall E callId slotId vs) s) in
    if others = [] then t = snd (run_state (answer_and_notify E vs False p) s)
    else s_trace t = s_trace s @ concat (map (\<lambda>q. hang_up_asked E (r_heap r q)) others) \<and>
      m_autoAnswerState (r_heap (s_reg t) p)"
  using run_hang_up_other_slots [OF assms(1), of "s_reg s" s p slotId "GetCarrierCallList (s_reg s)" True]
  by (simp add: DisconnectOtherSubIdCall_def assms(2) split_beta Let_def)

definition two_card_service :: service where
  "two_card_service = sample_service\<lparr>s_reg := sample_registry\<lparr>r_heap :=
     (r_heap sample_registry)(1 := sample_ims_call\<lparr>m_slotId := 1\<rparr>)\<rparr>\<rparr>"

lemma two_card_facts:
  "GetOneCallObject 2 (s_reg two_card_service) = Some 1"
  "GetCarrierCallList (s_reg two_card_service) = [1, 2]"
  "other_slot sample_service_env (s_reg two_card_service) 1 [1, 2] = [0]"
  by code_simp+

theorem answer_ends_other_slot_witness:
  "let t = snd (run_state (DisconnectOtherSubIdCall sample_service_env 2 1 0) two_card_service) in
     s_trace t = s_trace two_card_service @
       hang_up_asked sample_service_env (r_heap (s_reg two_card_service) 0) \<and>
     m_autoAnswerState (r_heap (s_reg t) 1)"
  using answer_ends_other_slot [OF sample_ott_connected two_card_facts(1), of 1 0]
  by (simp add: two_card_facts Let_def)

end
