(* ===== verification/Report_Properties.thy ===== *)
theory Report_Properties
  imports Report_Frame Request_Properties
begin

text \<open>
  What the reports of the stacks do to the calls, over any number of reports, and how a
  request and the reports that follow it fit together.
\<close>

subsection \<open>Any number of reports\<close>

text \<open>The report thread handles its next report (None) or a task that a report has left.\<close>

definition report_work :: "service_env \<Rightarrow> Task option \<Rightarrow> unit step" where
  "report_work E w = (case w of None \<Rightarrow> run_report E | Some t \<Rightarrow> run_report_task E t)"

lemma report_work_runs: "state_io_rel runs_on (each (report_work E) ws)"
  unfolding report_work_def by (intro runs_rules)

text \<open>
  C26: No call ever gets into the list, although the service says it did.  AddOneCallObject
  reports success for a call whose id is new, and yet the list is unchanged and the call
  cannot be looked up.  So the handlers of reports make call objects and announce them in
  vain: whatever reports and tasks are handled, in whatever order, the list of calls
  afterwards is what is left of the list before, in its order.  The repository's own unit
  test zero\_branch3\_test.cpp expects one call in the list after AddOneCallObject: this is
  a defect of the code, stated as it is.
\<close>

theorem added_calls_are_lost:
  assumes "\<not> has_call (\<lambda>c. m_callId c = m_callId (r_heap r p)) r"
  shows "(let (ret, es, r') = AddOneCallObject sf (Some p) r in
      ret = TELEPHONY_SUCCESS \<and> r_list r' = r_list r \<and>
      GetOneCallObject (m_callId (r_heap r p)) r' = None) \<and>
    (let t = snd (run_state (each (report_work E) ws) s) in
      subseq (r_list (s_reg t)) (r_list (s_reg s)))"
proof -
  have "r_heap r' = r_heap r \<and> r_list r' = r_list r" if "AddOneCallObject sf (Some p) r = (ret, es, r')" for ret es r'
    using that by (auto simp: AddOneCallObject_def Let_def split: if_splits)
  moreover have "find_call (\<lambda>c. m_callId c = m_callId (r_heap r p)) r = None"
    using assms by (simp add: find_call_None)
  ultimately have "GetOneCallObject (m_callId (r_heap r p)) r' = None"
    if "AddOneCallObject sf (Some p) r = (ret, es, r')" for ret es r'
    using that by (simp add: GetOneCallObject_def find_call_def)
  then show ?thesis
    using runs.frame_run [OF report_work_runs, of s E ws] assms
    by (auto simp: runs_on_def AddOneCallObject_def Let_def)
qed

theorem added_calls_are_lost_witness:
  "GetOneCallObject 1 (snd (snd (AddOneCallObject False (Some 0) (empty_registry (\<lambda>_. sample_cs_call))))) = None"
proof -
  let ?r = "empty_registry (\<lambda>_. sample_cs_call)"
  have "\<not> has_call (\<lambda>c. m_callId c = m_callId (r_heap ?r 0)) ?r" "m_callId (r_heap ?r 0) = 1"
    by (simp_all add: empty_registry_def registry_query_defs sample_call_defs)
  with added_calls_are_lost [of ?r 0] show ?thesis by (simp add: split_beta)
qed

subsection \<open>A list that is reported again\<close>

lemma each_silent:
  "(\<And>x. x \<in> set xs \<Longrightarrow> run_state (f x) s = ((), s)) \<Longrightarrow> run_state (each f xs) s = ((), s)"
  by (induction xs) simp_all

lemma details_stored:
  "IsValidSlotId (se_dial E) slot \<Longrightarrow>
   s_callDetails (snd (run_state (HandleCallsReportInfo E slot is) s)) slot =
     filter (\<lambda>i. dt_state i \<noteq> CALL_STATUS_DISCONNECTED) is"
  by (simp add: HandleCallsReportInfo_def UpdateCallDetailsInfo_def split_beta)

text \<open>A call that is reported again in the same way and asks for nothing.\<close>

definition settled :: "CallDetailInfo \<Rightarrow> bool" where
  "settled i = (dt_state i \<noteq> CALL_STATUS_DISCONNECTED \<and> dt_state i \<noteq> CALL_STATUS_ALERTING \<and>
     dt_callType i \<noteq> TYPE_VOIP \<and> dt_rttState i \<noteq> RTT_STATE_YES)"

lemma find_same_index:
  "distinct (map dt_index is) \<Longrightarrow> i \<in> set is \<Longrightarrow> List.find (same_index i) is = Some i"
proof (induction "is")
  case (Cons j js)
  then show ?case by (cases "i = j") (auto simp: same_index_def image_iff)
qed simp

lemma listed_silent:
  assumes "s_callDetails s slot = is" "distinct (map dt_index is)" "i \<in> set is" "settled i"
  shows "run_state (handle_listed E slot i) s = ((), s)"
  using assms(4) find_same_index [OF assms(2,3)]
  by (simp add: handle_listed_def assms(1) settled_def differs_def)

lemma left_silent:
  assumes "s_callDetails s slot = is" "distinct (map dt_index is)" "\<forall>i \<in> set is. settled i"
  shows "k + length rest = length is \<Longrightarrow> run_state (handle_left E slot is k rest) s = ((), s)"
proof (induction rest arbitrary: k)
  case (Cons x rest)
  then have i: "is ! k \<in> set is" by simp
  with assms(3) have "settled (is ! k)" by blast
  with Cons find_same_index [OF assms(2) i] show ?case
    by (simp add: assms(1) RefreshRttManager_def settled_def)
qed simp

text \<open>
  C27: A list of calls that is reported again changes nothing.  When every call of the list
  is alive, not alerting, not a VoIP call and has no real-time text, and the indices differ,
  then handling the same list a second time succeeds, tells nobody and leaves the whole
  state as it is, but for the copy that is kept of the list.
\<close>

theorem repeated_list_is_silent:
  assumes "IsValidSlotId (se_dial E) slot"
    and "distinct (map dt_index is)" and "\<forall>i \<in> set is. settled i"
    and "t = snd (run_state (HandleCallsReportInfo E slot is) s)"
  shows "run_state (HandleCallsReportInfo E slot is) t =
    (TELEPHONY_SUCCESS, t\<lparr>s_tmpCallDetails := (s_tmpCallDetails t)(slot := is)\<rparr>)"
proof -
  let ?t = "t\<lparr>s_tmpCallDetails := (s_tmpCallDetails t)(slot := is)\<rparr>"
  from assms(3) have alive: "filter (\<lambda>i. dt_state i \<noteq> CALL_STATUS_DISCONNECTED) is = is"
    by (auto simp: settled_def)
  have details: "s_callDetails ?t slot = is" using details_stored [OF assms(1), of "is" s] alive assms(4) by simp
  have "run_state (each (handle_listed E slot) is) ?t = ((), ?t)"
    by (rule each_silent) (use assms(3) in \<open>auto intro: listed_silent [OF details assms(2)]\<close>)
  moreover have "run_state (handle_left E slot is 0 is) ?t = ((), ?t)"
    by (rule left_silent [OF details assms(2,3)]) simp
  moreover have "run_state (UpdateCallDetailsInfo slot is) ?t = ((), ?t)"
    using details alive by (cases "is = []") (auto simp: UpdateCallDetailsInfo_def fun_upd_idem)
  ultimately show ?thesis using details by (simp add: HandleCallsReportInfo_def assms(1))
qed

definition sample_detail :: CallDetailInfo where
  "sample_detail = default_detail\<lparr>dt_index := 1, dt_callType := TYPE_CS, dt_state := CALL_STATUS_ACTIVE\<rparr>"

theorem repeated_list_is_silent_witness:
  "let t = snd (run_state (HandleCallsReportInfo sample_service_env 0 [sample_detail]) sample_service) in
     run_state (HandleCallsReportInfo sample_service_env 0 [sample_detail]) t =
       (TELEPHONY_SUCCESS, t\<lparr>s_tmpCallDetails := (s_tmpCallDetails t)(0 := [sample_detail])\<rparr>)"
proof -
  have "IsValidSlotId (se_dial sample_service_env) 0" "settled sample_detail" by code_simp+
  then show ?thesis unfolding Let_def by (intro repeated_list_is_silent [OF _ _ _ refl]) simp_all
qed

subsection \<open>A dial that waits for another call to be held\<close>

lemma reports_wait_once:
  "waits_once s (snd (run_state (each (report_work E) ws) s))"
  using runs.frame_run [OF report_work_runs, of s E ws] by (simp add: runs_on_def)

text \<open>What the report of a hold does with the dial that waits.\<close>

lemma hold_sends_waiting:
  assumes "h = snd (run_state (UpdateCallState E p CALL_STATUS_HOLDING) u)"
    and "IsDsdsMode5 E" "s_needWaitHold h" "GetCallNum CALL_STATUS_ACTIVE True (s_reg h) = 0"
    and "v = snd (run_state (UpdateCallStateAndHandleDsdsMode E p) u)"
  shows "\<not> s_needWaitHold v \<and>
    dials (s_trace v) = dials (s_trace h) @ (if IsPendingHangup (s_helper h) then [] else [s_dialCallInfo h])"
proof -
  let ?id = "m_callId (r_heap (s_reg h) p)"
  let ?c = "h\<lparr>s_needWaitHold := False\<rparr>"
  let ?sent = "snd (run_state (HandleDialWhenHolding E ?id p) ?c)"
  have v: "v = ?sent"
    using assms by (auto simp: UpdateCallStateAndHandleDsdsMode_split hold_or_dial_def call_num_def find_ptr_def
        call_of_def set_needWaitHold_def split_beta)
  have drop: "waits_once ?c (snd (run_state (drop_pending_hangup E ?id (s_helper h)) ?c))"
    using runs.frame_run [OF halves_run(1)] by (auto simp: runs_on_def)
  have after: "waits_once (dial_out ?c) (snd (run_state (after_dial E p (se_dialAnswer E (s_dialCallInfo h))) (dial_out ?c)))"
    using runs.frame_run [OF halves_run(2)] by (auto simp: runs_on_def)
  show ?thesis
  proof (cases "IsPendingHangup (s_helper h)")
    case True
    with drop show ?thesis unfolding v by (auto simp: run_HandleDialWhenHolding waits_once_def)
  next
    case False
    with after show ?thesis unfolding v by (auto simp: run_HandleDialWhenHolding waits_once_def dial_out_def)
  qed
qed

text \<open>
  C28: A dial that waits for a hold is sent once.  While a call of the other card is being
  held, starting the dial sends nothing and stores the request.  Whatever reports come in
  between, when a hold is then reported on a phone with two active cards, no call is active
  and the dial still waits, exactly the stored request goes out, or nothing if the user has
  hung up in the meantime; and no report after that, of a hold or of anything else, ever
  dials again.
\<close>

theorem waiting_dial_is_sent_once:
  assumes "s_needWaitHold s" and "fst (pack_dial_info info) = TELEPHONY_SUCCESS"
    and "t = snd (run_state (HandleStartDial E False info) s)"
    and "u = snd (run_state (each (report_work E) before) t)"
    and "h = snd (run_state (UpdateCallState E p CALL_STATUS_HOLDING) u)"
    and "IsDsdsMode5 E" "s_needWaitHold h" "GetCallNum CALL_STATUS_ACTIVE True (s_reg h) = 0"
    and "v = snd (run_state (UpdateCallStateAndHandleDsdsMode E p) u)"
    and "w = snd (run_state (each (report_work E) later) v)"
  shows "dials (s_trace h) = dials (s_trace s) \<and> \<not> s_needWaitHold w \<and>
    dials (s_trace w) = dials (s_trace s) @
      (if IsPendingHangup (s_helper h) then [] else [snd (pack_dial_info info)])"
proof -
  have t: "t = s\<lparr>s_dialCallInfo := snd (pack_dial_info info)\<rparr>"
    using assms(1-3) by (cases "pack_dial_info info") (simp add: HandleStartDial_def)
  have "waits_once t u" unfolding assms(4) by (rule reports_wait_once)
  moreover have "waits_once u h"
    unfolding assms(5) using runs.frame_run [OF update_state_runs(2)] by (auto simp: runs_on_def)
  ultimately have h: "dials (s_trace h) = dials (s_trace s)" "s_dialCallInfo h = snd (pack_dial_info info)"
    using assms(7) by (auto simp: waits_once_def t)
  have "waits_once v w" unfolding assms(10) by (rule reports_wait_once)
  with hold_sends_waiting [OF assms(5-9)] show ?thesis
    by (auto simp: waits_once_def h)
qed

theorem waiting_dial_is_sent_once_witness:
  "let E = sample_service_env\<lparr>se_dsdsMode := DSDS_MODE_V5_DSDA\<rparr>; s = sample_service\<lparr>s_needWaitHold := True\<rparr>;
       t = snd (run_state (HandleStartDial E False sample_info) s);
       v = snd (run_state (UpdateCallStateAndHandleDsdsMode E 0) t) in
     dials (s_trace (snd (run_state (each (report_work E) [None, None]) v))) = [snd (pack_dial_info sample_info)]"
proof -
  let ?E = "sample_service_env\<lparr>se_dsdsMode := DSDS_MODE_V5_DSDA\<rparr>" and ?s = "sample_service\<lparr>s_needWaitHold := True\<rparr>"
  let ?t = "snd (run_state (HandleStartDial ?E False sample_info) ?s)"
  let ?h = "snd (run_state (UpdateCallState ?E 0 CALL_STATUS_HOLDING) ?t)"
  have "s_needWaitHold ?s" "fst (pack_dial_info sample_info) = TELEPHONY_SUCCESS" "IsDsdsMode5 ?E"
    "dials (s_trace ?s) = []" by code_simp+
  moreover have "s_needWaitHold ?h" "GetCallNum CALL_STATUS_ACTIVE True (s_reg ?h) = 0"
    "\<not> IsPendingHangup (s_helper ?h)" by code_simp+
  moreover have "?t = snd (run_state (each (report_work ?E) []) ?t)" by simp
  ultimately show ?thesis
    using waiting_dial_is_sent_once [of ?s sample_info ?t ?E ?t "[]" ?h 0 _ _ "[None, None]", OF _ _ refl _ refl _ _ _ refl refl]
    by (simp add: Let_def)
qed

text \<open>
  When the stack refuses the dial that waited, the call reported as failed is the one that
  was held, not the one that was to be dialed.
\<close>

lemma refused_dial_fails_held_call:
  assumes "\<not> IsPendingHangup (s_helper s)" and "se_dialAnswer E (s_dialCallInfo s) \<noteq> TELEPHONY_SUCCESS"
    and "GetOneCallObject_running CALL_RUNNING_STATE_DIALING (s_reg s) \<noteq> None"
  shows "snd (run_state (HandleDialWhenHolding E callId held) s) =
    snd (run_state (ReportCallDisconnected E (Some held)) (dial_out s))"
  using assms by (simp add: run_HandleDialWhenHolding after_dial_def DealFailDial_def dial_out_def find_ptr_def split_beta)

subsection \<open>Holding a call, from the request to the stack\<close>

text \<open>
  A hold goes to the stack exactly when it is allowed.  The request succeeds exactly when
  the handler is there and the call is found active; otherwise nothing changes.  When it
  succeeds one task is queued, and running it makes the hold operation of the call with that
  id, whatever its class.
\<close>

theorem hold_reaches_the_call:
  "let (ret, t) = run_state (HoldCall_control E callId) s in
     (ret = TELEPHONY_SUCCESS \<longleftrightarrow> HoldCallPolicy callId (s_reg s) = TELEPHONY_SUCCESS \<and>
        ce_handler (se_control E)) \<and>
     (if ret = TELEPHONY_SUCCESS
      then t = s\<lparr>s_tasks := s_tasks s @ [HoldTask callId]\<rparr> \<and>
        (\<exists>p. GetOneCallObject callId (s_reg s) = Some p \<and>
          m_callRunningState (r_heap (s_reg s) p) = CALL_RUNNING_STATE_ACTIVE \<and>
          snd (run_state (run_task E (HoldTask callId)) t) =
            snd (apply_outcome p (HoldCall (se_env E) (r_heap (s_reg s) p)) t))
      else t = s)"
  by (auto simp: HoldCall_control_def checked_def Handler_HoldCall_def handler_submit_def
      HoldCallPolicy_def run_task_def HoldRequest_def on_existing_def hold_call_def run_invoke
      split_beta split: option.split)

subsection \<open>A hang-up that waits for the dial\<close>

text \<open>
  C29: A second hang-up that waits never times out.  When a call that is not yet dialed is
  hung up while the timer of another such call is pending, no second timer is set; the
  pending timer then does nothing, so the second hang-up stays pending, and the expired
  timer keeps later ones from being set.
\<close>

theorem second_pending_hang_up_never_times_out:
  assumes "HasPendingMo callId (s_helper s)" and "callId \<noteq> INVALID_CALLID"
    and "ce_handler (se_control E)" and "HangUpPolicy callId (s_reg s) = TELEPHONY_SUCCESS"
    and "s_pendingHangupTask s = Some other" and "other \<noteq> callId"
  shows "let (ret, t) = run_state (HangUpCall_control E callId) s in
     ret = TELEPHONY_SUCCESS \<and> HasPendingHangup callId (s_helper t) \<and> s_tasks t = s_tasks s \<and>
     s_trace t = s_trace s \<and> s_pendingHangupTask t = Some other \<and>
     run_state (pending_hangup_task E other) t = ((), t)"
  using assms by (auto simp: HangUpCall_control_def PostPendingHangupProtectTask_def on_helper_def
      pending_hangup_task_def HasPendingHangup_def SetPendingHangup_def SetPendingMo_def Let_def)

theorem second_pending_hang_up_never_times_out_witness:
  "let s = sample_service\<lparr>s_helper := SetPendingMo True 1 initial_helper, s_pendingHangupTask := Some 9\<rparr>;
       t = snd (run_state (HangUpCall_control sample_service_env 1) s) in
     HasPendingHangup 1 (s_helper t) \<and> run_state (pending_hangup_task sample_service_env 9) t = ((), t)"
proof -
  let ?s = "sample_service\<lparr>s_helper := SetPendingMo True 1 initial_helper, s_pendingHangupTask := Some 9\<rparr>"
  have "HasPendingMo 1 (s_helper ?s)" "(1::int) \<noteq> INVALID_CALLID" "ce_handler (se_control sample_service_env)"
    "HangUpPolicy 1 (s_reg ?s) = TELEPHONY_SUCCESS" "s_pendingHangupTask ?s = Some 9" "(9::int) \<noteq> 1" by code_simp+
  from second_pending_hang_up_never_times_out [OF this] show ?thesis by (auto simp: Let_def split_beta)
qed

end
