(* ===== verification/Service_Stub.thy ===== *)
theory Service_Stub
  imports Message_Parcel
begin

text \<open>
  The service's end of the messages (CallManagerServiceStub,
  \<^verbatim>\<open>services/call_manager_service/src/call_manager_service_stub.cpp\<close>): every handler
  reads its arguments, calls the service and writes the answer.  What a handler returns is
  the status of the message; the answer of the service is in the reply.  The watchdog
  timers around a handler are not modelled.
\<close>

subsection \<open>Writing an answer\<close>

definition reply_result :: "'p ipc_env \<Rightarrow> ErrCode \<Rightarrow> ErrCode \<Rightarrow> ('p, ErrCode) xstep" where
  "reply_result I r back = do {
     ok \<leftarrow> WriteInt32 I (ie_code I r);
     State_Monad.return (if \<not> ok then TELEPHONY_ERR_WRITE_REPLY_FAIL else back) }"

definition reply_flag :: "'p ipc_env \<Rightarrow> bool \<Rightarrow> ('p, ErrCode) xstep" where
  "reply_flag I r = do {
     ok \<leftarrow> WriteBool I r;
     State_Monad.return (if \<not> ok then TELEPHONY_ERR_WRITE_REPLY_FAIL else TELEPHONY_SUCCESS) }"

text \<open>An answer beside the status is written when the status is a success.\<close>

definition reply_answer :: "'p ipc_env \<Rightarrow> ErrCode \<Rightarrow> ('p, bool) xstep \<Rightarrow> ErrCode \<Rightarrow> ('p, ErrCode) xstep" where
  "reply_answer I r write back = do {
     ok \<leftarrow> WriteInt32 I (ie_code I r);
     (if \<not> ok then State_Monad.return TELEPHONY_ERR_WRITE_REPLY_FAIL
      else if ie_code I r \<noteq> ie_code I TELEPHONY_ERR_SUCCESS then State_Monad.return r
      else do {
        ok \<leftarrow> write;
        State_Monad.return (if \<not> ok then TELEPHONY_ERR_WRITE_REPLY_FAIL else back) }) }"

text \<open>Some answers are written whatever the status is, before it.\<close>

definition reply_after :: "'p ipc_env \<Rightarrow> ('p, bool) xstep \<Rightarrow> ErrCode \<Rightarrow> ('p, ErrCode) xstep" where
  "reply_after I write r = do {
     ok \<leftarrow> write;
     (if \<not> ok then State_Monad.return TELEPHONY_ERR_WRITE_REPLY_FAIL
      else reply_result I r TELEPHONY_SUCCESS) }"

subsection \<open>Calls\<close>

definition OnRegisterVoipCallManagerCallback :: "'p ipc_env \<Rightarrow> caller \<Rightarrow> ('p, ErrCode) xstep" where
  "OnRegisterVoipCallManagerCallback I c = do {
     result \<leftarrow> serve (Service_RegisterVoipCallManagerCallback (ie_manager I) c);
     reply_result I result TELEPHONY_SUCCESS }"

definition OnUnRegisterVoipCallManagerCallback :: "'p ipc_env \<Rightarrow> caller \<Rightarrow> ('p, ErrCode) xstep" where
  "OnUnRegisterVoipCallManagerCallback I c = do {
     result \<leftarrow> serve (Service_UnRegisterVoipCallManagerCallback (ie_manager I) c);
     reply_result I result result }"

definition OnRegisterCallBack :: "'p ipc_env \<Rightarrow> caller \<Rightarrow> ('p, ErrCode) xstep" where
  "OnRegisterCallBack I c = do {
     remote \<leftarrow> ReadRemoteObject I;
     (if \<not> remote then do {
        _ \<leftarrow> WriteInt32 I (ie_code I TELEPHONY_ERR_FAIL);
        State_Monad.return TELEPHONY_ERR_FAIL }
      else do {
        result \<leftarrow> serve (Service_RegisterCallBack (ie_manager I) c);
        _ \<leftarrow> WriteInt32 I (ie_code I result);
        State_Monad.return result }) }"

definition OnUnRegisterCallBack :: "'p ipc_env \<Rightarrow> caller \<Rightarrow> ('p, ErrCode) xstep" where
  "OnUnRegisterCallBack I c = do {
     result \<leftarrow> serve (Service_UnRegisterCallBack (ie_manager I) c);
     reply_result I result result }"

definition OnObserverOnCallDetailsChange :: "'p ipc_env \<Rightarrow> caller \<Rightarrow> ('p, ErrCode) xstep" where
  "OnObserverOnCallDetailsChange I c = do {
     result \<leftarrow> serve (Service_ObserverOnCallDetailsChange (ie_manager I) c);
     reply_result I result result }"

definition empty_pac_map :: pac_map where
  "empty_pac_map = \<lparr>pm_int = (\<lambda>_. 0), pm_bool = (\<lambda>_. False), pm_string = (\<lambda>_. [])\<rparr>"

definition OnDialCall :: "'p ipc_env \<Rightarrow> caller \<Rightarrow> ('p, ErrCode) xstep" where
  "OnDialCall I c = do {
     callNumber \<leftarrow> ReadString16 I;
     accountId \<leftarrow> ReadInt32 I;
     videoState \<leftarrow> ReadInt32 I;
     dialScene \<leftarrow> ReadInt32 I;
     dialType \<leftarrow> ReadInt32 I;
     callType \<leftarrow> ReadInt32 I;
     isRTT \<leftarrow> ReadBool I;
     phoneIndex \<leftarrow> ReadInt32 I;
     extraParams \<leftarrow> ReadString I;
     bundleName \<leftarrow> ReadString I;
     btSlotIdUnknown \<leftarrow> ReadBool I;
     (let dialInfo = put_bool ''btSlotIdUnknown'' btSlotIdUnknown
            (put_string ''bundleName'' bundleName (put_string ''extraParams'' extraParams
            (put_int ''phoneIndex'' phoneIndex (put_bool ''isRTT'' isRTT
            (put_int ''callType'' callType (put_int ''dialType'' dialType
            (put_int ''dialScene'' dialScene (put_int ''videoState'' videoState
            (put_int ''accountId'' accountId empty_pac_map))))))))) in
      if length callNumber > ACCOUNT_NUMBER_MAX_LENGTH
      then State_Monad.return CALL_ERR_NUMBER_OUT_OF_RANGE
      else do {
        result \<leftarrow> serve (Service_DialCall (ie_manager I) c callNumber dialInfo);
        reply_result I result result }) }"

definition OnMakeCall :: "'p ipc_env \<Rightarrow> caller \<Rightarrow> ('p, ErrCode) xstep" where
  "OnMakeCall I c = do {
     callNumber \<leftarrow> ReadString I;
     (if length callNumber > ACCOUNT_NUMBER_MAX_LENGTH
      then State_Monad.return CALL_ERR_NUMBER_OUT_OF_RANGE
      else do {
        result \<leftarrow> serve (Service_MakeCall (ie_manager I) c callNumber);
        reply_result I result result }) }"

definition OnMakeCallWithToken :: "'p ipc_env \<Rightarrow> caller \<Rightarrow> ('p, ErrCode) xstep" where
  "OnMakeCallWithToken I c = do {
     callNumber \<leftarrow> ReadString I;
     (if callNumber = [] \<or> length callNumber > ACCOUNT_NUMBER_MAX_LENGTH
      then State_Monad.return CALL_ERR_NUMBER_OUT_OF_RANGE
      else do {
        isCustomAccessibility \<leftarrow> ReadBool I;
        res \<leftarrow> serve (Service_MakeCallWithToken (ie_manager I) c callNumber isCustomAccessibility []);
        (let (result, token) = res in do {
           ok \<leftarrow> WriteInt32 I (ie_code I result);
           (if \<not> ok then State_Monad.return TELEPHONY_ERR_WRITE_REPLY_FAIL
            else if ie_code I result \<noteq> ie_code I TELEPHONY_SUCCESS then State_Monad.return result
            else do {
              ok \<leftarrow> WriteString I token;
              State_Monad.return (if \<not> ok then TELEPHONY_ERR_WRITE_REPLY_FAIL else result) }) }) }) }"

definition OnAcceptCall :: "'p ipc_env \<Rightarrow> caller \<Rightarrow> ('p, ErrCode) xstep" where
  "OnAcceptCall I c = do {
     callId \<leftarrow> ReadInt32 I;
     videoState \<leftarrow> ReadInt32 I;
     isRTT \<leftarrow> ReadBool I;
     result \<leftarrow> serve (Service_AnswerCall (ie_manager I) c callId videoState isRTT);
     reply_result I result result }"

definition OnRejectCall :: "'p ipc_env \<Rightarrow> caller \<Rightarrow> ('p, ErrCode) xstep" where
  "OnRejectCall I c = do {
     callId \<leftarrow> ReadInt32 I;
     isSendSms \<leftarrow> ReadBool I;
     content \<leftarrow> ReadString16 I;
     result \<leftarrow> serve (Service_RejectCall (ie_manager I) c callId isSendSms content);
     reply_result I result result }"

definition OnHangUpCall :: "'p ipc_env \<Rightarrow> caller \<Rightarrow> ('p, ErrCode) xstep" where
  "OnHangUpCall I c = do {
     callId \<leftarrow> ReadInt32 I;
     result \<leftarrow> serve (Service_HangUpCall (ie_manager I) c callId);
     reply_result I result result }"

definition OnGetCallState :: "'p ipc_env \<Rightarrow> caller \<Rightarrow> ('p, ErrCode) xstep" where
  "OnGetCallState I c = do {
     result \<leftarrow> serve (Service_GetCallState (ie_manager I) c);
     ok \<leftarrow> WriteInt32 I result;
     State_Monad.return (if \<not> ok then TELEPHONY_ERR_WRITE_REPLY_FAIL else TELEPHONY_SUCCESS) }"

definition OnHoldCall :: "'p ipc_env \<Rightarrow> caller \<Rightarrow> ('p, ErrCode) xstep" where
  "OnHoldCall I c = do {
     callId \<leftarrow> ReadInt32 I;
     result \<leftarrow> serve (Service_HoldCall (ie_manager I) c callId);
     reply_result I result result }"

definition OnUnHoldCall :: "'p ipc_env \<Rightarrow> caller \<Rightarrow> ('p, ErrCode) xstep" where
  "OnUnHoldCall I c = do {
     callId \<leftarrow> ReadInt32 I;
     result \<leftarrow> serve (Service_UnHoldCall (ie_manager I) c callId);
     reply_result I result result }"

definition OnSwitchCall :: "'p ipc_env \<Rightarrow> caller \<Rightarrow> ('p, ErrCode) xstep" where
  "OnSwitchCall I c = do {
     callId \<leftarrow> ReadInt32 I;
     result \<leftarrow> serve (Service_SwitchCall (ie_manager I) c callId);
     reply_result I result result }"

definition OnHasCall :: "'p ipc_env \<Rightarrow> caller \<Rightarrow> ('p, ErrCode) xstep" where
  "OnHasCall I c = do {
     isInCludeVoipCall \<leftarrow> ReadBool I;
     result \<leftarrow> serve (Service_HasCall (ie_manager I) c isInCludeVoipCall);
     reply_flag I result }"

definition OnIsNewCallAllowed :: "'p ipc_env \<Rightarrow> caller \<Rightarrow> ('p, ErrCode) xstep" where
  "OnIsNewCallAllowed I c = do {
     res \<leftarrow> serve (Service_IsNewCallAllowed (ie_manager I) c False);
     reply_answer I (fst res) (WriteBool I (snd res)) (fst res) }"

definition OnIsRinging :: "'p ipc_env \<Rightarrow> caller \<Rightarrow> ('p, ErrCode) xstep" where
  "OnIsRinging I c = do {
     res \<leftarrow> serve (Service_IsRinging (ie_manager I) c False);
     reply_answer I (fst res) (WriteBool I (snd res)) (fst res) }"

definition OnIsInEmergencyCall :: "'p ipc_env \<Rightarrow> caller \<Rightarrow> ('p, ErrCode) xstep" where
  "OnIsInEmergencyCall I c = do {
     res \<leftarrow> serve (Service_IsInEmergencyCall (ie_manager I) c False);
     reply_answer I (fst res) (WriteBool I (snd res)) (fst res) }"

definition OnAcceptCallNoParam :: "'p ipc_env \<Rightarrow> caller \<Rightarrow> ('p, ErrCode) xstep" where
  "OnAcceptCallNoParam I c = do {
     result \<leftarrow> serve (Service_AnswerCall_any (ie_manager I) c);
     reply_result I result result }"

definition OnRejectCallNoParam :: "'p ipc_env \<Rightarrow> caller \<Rightarrow> ('p, ErrCode) xstep" where
  "OnRejectCallNoParam I c = do {
     result \<leftarrow> serve (Service_RejectCall_any (ie_manager I) c);
     reply_result I result result }"

definition RejectType_of :: "int \<Rightarrow> RejectType" where
  "RejectType_of i = (if i = 1 then CALL_REJECT_MISSED_CALL else CALL_REJECT_NORMAL)"

text \<open>Of a type of rejection only whether it is that of a missed call is ever asked.\<close>

definition OnRejectCallWithType :: "'p ipc_env \<Rightarrow> caller \<Rightarrow> ('p, ErrCode) xstep" where
  "OnRejectCallWithType I c = do {
     rejectType \<leftarrow> ReadInt32 I;
     result \<leftarrow> serve (Service_RejectCall_type (ie_manager I) c (RejectType_of rejectType));
     reply_result I result result }"

definition OnHangUpCallNoParam :: "'p ipc_env \<Rightarrow> caller \<Rightarrow> ('p, ErrCode) xstep" where
  "OnHangUpCallNoParam I c = do {
     result \<leftarrow> serve (Service_HangUpCall_any (ie_manager I) c);
     reply_result I result result }"

definition OnEndCall :: "'p ipc_env \<Rightarrow> caller \<Rightarrow> ('p, ErrCode) xstep" where
  "OnEndCall I c = do {
     result \<leftarrow> serve (Service_EndCall (ie_manager I) c);
     reply_flag I result }"

definition OnInputDialerSpecialCode :: "'p ipc_env \<Rightarrow> caller \<Rightarrow> ('p, ErrCode) xstep" where
  "OnInputDialerSpecialCode I c = do {
     specialCode \<leftarrow> ReadString I;
     result \<leftarrow> serve (Service_InputDialerSpecialCode (ie_manager I) c specialCode);
     reply_result I result TELEPHONY_SUCCESS }"

definition OnSendCallUiEvent :: "'p ipc_env \<Rightarrow> caller \<Rightarrow> ('p, ErrCode) xstep" where
  "OnSendCallUiEvent I c = do {
     callId \<leftarrow> ReadInt32 I;
     eventName \<leftarrow> ReadString I;
     result \<leftarrow> serve (Service_SendCallUiEvent (ie_manager I) c callId eventName);
     reply_result I result result }"

definition OnPreloadCallUi :: "'p ipc_env \<Rightarrow> caller \<Rightarrow> ('p, ErrCode) xstep" where
  "OnPreloadCallUi I c = do {
     enable \<leftarrow> ReadBool I;
     result \<leftarrow> serve (Service_PreloadCallUi (ie_manager I) c enable);
     reply_result I result result }"

definition OnNotifyVoIPAudioStreamStart :: "'p ipc_env \<Rightarrow> caller \<Rightarrow> ('p, ErrCode) xstep" where
  "OnNotifyVoIPAudioStreamStart I c = do {
     uid \<leftarrow> ReadInt32 I;
     result \<leftarrow> serve (Service_NotifyVoIPAudioStreamStart (ie_manager I) c uid);
     reply_result I result result }"

definition OnSetCallAudioMode :: "'p ipc_env \<Rightarrow> caller \<Rightarrow> ('p, ErrCode) xstep" where
  "OnSetCallAudioMode I c = do {
     mode \<leftarrow> ReadInt32 I;
     scenarios \<leftarrow> ReadInt32 I;
     result \<leftarrow> serve (Service_SetCallAudioMode (ie_manager I) c mode scenarios);
     reply_result I result result }"

subsection \<open>Conferences, tones and numbers\<close>

definition OnStartDtmf :: "'p ipc_env \<Rightarrow> caller \<Rightarrow> ('p, ErrCode) xstep" where
  "OnStartDtmf I c = do {
     callId \<leftarrow> ReadInt32 I;
     str \<leftarrow> ReadInt8 I;
     result \<leftarrow> serve (Service_StartDtmf (ie_manager I) c callId str);
     reply_result I result TELEPHONY_SUCCESS }"

definition OnStopDtmf :: "'p ipc_env \<Rightarrow> caller \<Rightarrow> ('p, ErrCode) xstep" where
  "OnStopDtmf I c = do {
     callId \<leftarrow> ReadInt32 I;
     result \<leftarrow> serve (Service_StopDtmf (ie_manager I) c callId);
     reply_result I result TELEPHONY_SUCCESS }"

definition OnPostDialProceed :: "'p ipc_env \<Rightarrow> caller \<Rightarrow> ('p, ErrCode) xstep" where
  "OnPostDialProceed I c = do {
     callId \<leftarrow> ReadInt32 I;
     proceed \<leftarrow> ReadBool I;
     result \<leftarrow> serve (Service_PostDialProceed (ie_manager I) c callId proceed);
     reply_result I result TELEPHONY_SUCCESS }"

definition OnCombineConference :: "'p ipc_env \<Rightarrow> caller \<Rightarrow> ('p, ErrCode) xstep" where
  "OnCombineConference I c = do {
     mainCallId \<leftarrow> ReadInt32 I;
     result \<leftarrow> serve (Service_CombineConference (ie_manager I) c mainCallId);
     reply_result I result TELEPHONY_SUCCESS }"

definition OnSeparateConference :: "'p ipc_env \<Rightarrow> caller \<Rightarrow> ('p, ErrCode) xstep" where
  "OnSeparateConference I c = do {
     callId \<leftarrow> ReadInt32 I;
     result \<leftarrow> serve (Service_SeparateConference (ie_manager I) c callId);
     reply_result I result TELEPHONY_SUCCESS }"

definition OnKickOutFromConference :: "'p ipc_env \<Rightarrow> caller \<Rightarrow> ('p, ErrCode) xstep" where
  "OnKickOutFromConference I c = do {
     callId \<leftarrow> ReadInt32 I;
     result \<leftarrow> serve (Service_KickOutFromConference (ie_manager I) c callId);
     reply_result I result TELEPHONY_SUCCESS }"

definition OnJoinConference :: "'p ipc_env \<Rightarrow> caller \<Rightarrow> ('p, ErrCode) xstep" where
  "OnJoinConference I c = do {
     callId \<leftarrow> ReadInt32 I;
     numbers \<leftarrow> ReadString16Vector I;
     (case numbers of
        None \<Rightarrow> State_Monad.return TELEPHONY_ERR_WRITE_DATA_FAIL
      | Some numberList' \<Rightarrow> do {
          result \<leftarrow> serve (Service_JoinConference (ie_manager I) c callId numberList');
          reply_result I result TELEPHONY_SUCCESS }) }"

definition OnGetMainCallId :: "'p ipc_env \<Rightarrow> caller \<Rightarrow> ('p, ErrCode) xstep" where
  "OnGetMainCallId I c = do {
     callId \<leftarrow> ReadInt32 I;
     res \<leftarrow> serve (Service_GetMainCallId (ie_manager I) c callId 0);
     reply_answer I (fst res) (WriteInt32 I (snd res)) TELEPHONY_SUCCESS }"

definition OnGetSubCallIdList :: "'p ipc_env \<Rightarrow> caller \<Rightarrow> ('p, ErrCode) xstep" where
  "OnGetSubCallIdList I c = do {
     callId \<leftarrow> ReadInt32 I;
     res \<leftarrow> serve (Service_GetSubCallIdList (ie_manager I) c callId []);
     reply_answer I (fst res) (WriteString16Vector I (snd res)) (fst res) }"

definition OnGetCallIdListForConference :: "'p ipc_env \<Rightarrow> caller \<Rightarrow> ('p, ErrCode) xstep" where
  "OnGetCallIdListForConference I c = do {
     callId \<leftarrow> ReadInt32 I;
     res \<leftarrow> serve (Service_GetCallIdListForConference (ie_manager I) c callId []);
     reply_answer I (fst res) (WriteString16Vector I (snd res)) (fst res) }"

definition OnIsEmergencyPhoneNumber :: "'p ipc_env \<Rightarrow> caller \<Rightarrow> ('p, ErrCode) xstep" where
  "OnIsEmergencyPhoneNumber I c = do {
     callNumber \<leftarrow> ReadString16 I;
     slotId \<leftarrow> ReadInt32 I;
     res \<leftarrow> serve (Service_IsEmergencyPhoneNumber (ie_manager I) c callNumber slotId False);
     reply_answer I (fst res) (WriteBool I (snd res)) TELEPHONY_SUCCESS }"

definition OnFormatPhoneNumber :: "'p ipc_env \<Rightarrow> caller \<Rightarrow> ('p, ErrCode) xstep" where
  "OnFormatPhoneNumber I c = do {
     callNumber \<leftarrow> ReadString16 I;
     countryCode \<leftarrow> ReadString16 I;
     res \<leftarrow> serve (Service_FormatPhoneNumber (ie_manager I) c callNumber countryCode []);
     reply_answer I (fst res) (WriteString16 I (snd res)) TELEPHONY_SUCCESS }"

definition OnFormatPhoneNumberToE164 :: "'p ipc_env \<Rightarrow> caller \<Rightarrow> ('p, ErrCode) xstep" where
  "OnFormatPhoneNumberToE164 I c = do {
     callNumber \<leftarrow> ReadString16 I;
     countryCode \<leftarrow> ReadString16 I;
     res \<leftarrow> serve (Service_FormatPhoneNumberToE164 (ie_manager I) c callNumber countryCode []);
     reply_answer I (fst res) (WriteString16 I (snd res)) TELEPHONY_SUCCESS }"

definition OnHasDistributedCommunicationCapability :: "'p ipc_env \<Rightarrow> caller \<Rightarrow> ('p, ErrCode) xstep" where
  "OnHasDistributedCommunicationCapability I c = do {
     result \<leftarrow> serve (Service_HasDistributedCommunicationCapability (ie_manager I) c);
     reply_flag I result }"

end
