(* ===== verification/Service_Stub_Media.thy ===== *)
theory Service_Stub_Media
  imports Service_Stub
begin

text \<open>
  The other handlers of the stub
  (\<^verbatim>\<open>services/call_manager_service/src/call_manager_service_stub.cpp\<close>): settings, sound,
  video, VoIP and OTT applications, policies and Bluetooth.
\<close>

subsection \<open>Settings\<close>

definition OnGetCallWaiting :: "'p ipc_env \<Rightarrow> caller \<Rightarrow> ('p, ErrCode) xstep" where
  "OnGetCallWaiting I c = do {
     slotId \<leftarrow> ReadInt32 I;
     result \<leftarrow> serve (Service_GetCallWaiting (ie_manager I) c slotId);
     reply_result I result TELEPHONY_SUCCESS }"

definition OnSetCallWaiting :: "'p ipc_env \<Rightarrow> caller \<Rightarrow> ('p, ErrCode) xstep" where
  "OnSetCallWaiting I c = do {
     slotId \<leftarrow> ReadInt32 I;
     activate \<leftarrow> ReadBool I;
     result \<leftarrow> serve (Service_SetCallWaiting (ie_manager I) c slotId activate);
     reply_result I result TELEPHONY_SUCCESS }"

definition OnGetCallRestriction :: "'p ipc_env \<Rightarrow> caller \<Rightarrow> ('p, ErrCode) xstep" where
  "OnGetCallRestriction I c = do {
     slotId \<leftarrow> ReadInt32 I;
     type \<leftarrow> ReadInt32 I;
     result \<leftarrow> serve (Service_GetCallRestriction (ie_manager I) c slotId type);
     reply_result I result TELEPHONY_SUCCESS }"

definition OnSetCallRestriction :: "'p ipc_env \<Rightarrow> caller \<Rightarrow> ('p, ErrCode) xstep" where
  "OnSetCallRestriction I c = do {
     slotId \<leftarrow> ReadInt32 I;
     raw \<leftarrow> read_item I KRestriction;
     (case raw of
        Some (PRestriction info) \<Rightarrow>
          if strnlen (cr_password info) (kMaxNumberLen + 1) = kMaxNumberLen + 1
          then State_Monad.return TELEPHONY_ERR_LOCAL_PTR_NULL
          else do {
            result \<leftarrow> serve (Service_SetCallRestriction (ie_manager I) c slotId (cr_fac info)
              (c_string (cr_password info)) (cr_mode info));
            reply_result I result TELEPHONY_SUCCESS }
      | _ \<Rightarrow> State_Monad.return TELEPHONY_ERR_LOCAL_PTR_NULL) }"

definition OnSetCallRestrictionPassword :: "'p ipc_env \<Rightarrow> caller \<Rightarrow> ('p, ErrCode) xstep" where
  "OnSetCallRestrictionPassword I c = do {
     slotId \<leftarrow> ReadInt32 I;
     fac \<leftarrow> ReadInt32 I;
     oldPassword \<leftarrow> ReadCString I;
     newPassword \<leftarrow> ReadCString I;
     result \<leftarrow> serve (Service_SetCallRestrictionPassword (ie_manager I) c slotId fac
       oldPassword newPassword);
     reply_result I result TELEPHONY_SUCCESS }"

definition OnGetTransferNumber :: "'p ipc_env \<Rightarrow> caller \<Rightarrow> ('p, ErrCode) xstep" where
  "OnGetTransferNumber I c = do {
     slotId \<leftarrow> ReadInt32 I;
     type \<leftarrow> ReadInt32 I;
     result \<leftarrow> serve (Service_GetCallTransferInfo (ie_manager I) c slotId type);
     reply_result I result TELEPHONY_SUCCESS }"

definition OnSetTransferNumber :: "'p ipc_env \<Rightarrow> caller \<Rightarrow> ('p, ErrCode) xstep" where
  "OnSetTransferNumber I c = do {
     slotId \<leftarrow> ReadInt32 I;
     raw \<leftarrow> read_item I KTransfer;
     (case raw of
        Some (PTransfer info) \<Rightarrow>
          if strnlen (tr_transferNum info) (kMaxNumberLen + 1) = kMaxNumberLen + 1
          then State_Monad.return TELEPHONY_ERR_LOCAL_PTR_NULL
          else do {
            result \<leftarrow> serve (Service_SetCallTransferInfo (ie_manager I) c slotId
              (info\<lparr>tr_transferNum := c_string (tr_transferNum info)\<rparr>));
            reply_result I result TELEPHONY_SUCCESS }
      | _ \<Rightarrow> State_Monad.return TELEPHONY_ERR_LOCAL_PTR_NULL) }"

definition OnCanSetCallTransferTime :: "'p ipc_env \<Rightarrow> caller \<Rightarrow> ('p, ErrCode) xstep" where
  "OnCanSetCallTransferTime I c = do {
     slotId \<leftarrow> ReadInt32 I;
     given \<leftarrow> ReadBool I;
     res \<leftarrow> serve (Service_CanSetCallTransferTime (ie_manager I) c slotId given);
     reply_after I (WriteBool I (snd res)) (fst res) }"

definition OnCloseUnFinishedUssd :: "'p ipc_env \<Rightarrow> caller \<Rightarrow> ('p, ErrCode) xstep" where
  "OnCloseUnFinishedUssd I c = do {
     slotId \<leftarrow> ReadInt32 I;
     result \<leftarrow> serve (Service_CloseUnFinishedUssd (ie_manager I) c slotId);
     reply_result I result TELEPHONY_SUCCESS }"

definition OnSendUssdResponse :: "'p ipc_env \<Rightarrow> caller \<Rightarrow> ('p, ErrCode) xstep" where
  "OnSendUssdResponse I c = do {
     slotId \<leftarrow> ReadInt32 I;
     content \<leftarrow> ReadString I;
     result \<leftarrow> serve (Service_SendUssdResponse (ie_manager I) c slotId content);
     reply_result I result result }"

definition OnGetTransferNumberByNumber :: "'p ipc_env \<Rightarrow> caller \<Rightarrow> ('p, ErrCode) xstep" where
  "OnGetTransferNumberByNumber I c = do {
     number \<leftarrow> ReadString I;
     type \<leftarrow> ReadInt32 I;
     result \<leftarrow> serve (Service_GetCallTransferInfo_number (ie_manager I) c number type);
     reply_result I result TELEPHONY_SUCCESS }"

definition OnSetCallPreferenceMode :: "'p ipc_env \<Rightarrow> caller \<Rightarrow> ('p, ErrCode) xstep" where
  "OnSetCallPreferenceMode I c = do {
     slotId \<leftarrow> ReadInt32 I;
     mode \<leftarrow> ReadInt32 I;
     result \<leftarrow> serve (Service_SetCallPreferenceMode (ie_manager I) c slotId mode);
     reply_result I result TELEPHONY_SUCCESS }"

definition OnGetImsConfig :: "'p ipc_env \<Rightarrow> caller \<Rightarrow> ('p, ErrCode) xstep" where
  "OnGetImsConfig I c = do {
     slotId \<leftarrow> ReadInt32 I;
     item \<leftarrow> ReadInt32 I;
     result \<leftarrow> serve (Service_GetImsConfig (ie_manager I) c slotId item);
     reply_result I result TELEPHONY_SUCCESS }"

definition OnSetImsConfig :: "'p ipc_env \<Rightarrow> caller \<Rightarrow> ('p, ErrCode) xstep" where
  "OnSetImsConfig I c = do {
     slotId \<leftarrow> ReadInt32 I;
     item \<leftarrow> ReadInt32 I;
     val \<leftarrow> ReadString16 I;
     result \<leftarrow> serve (Service_SetImsConfig (ie_manager I) c slotId item val);
     reply_result I result TELEPHONY_SUCCESS }"

definition OnGetImsFeatureValue :: "'p ipc_env \<Rightarrow> caller \<Rightarrow> ('p, ErrCode) xstep" where
  "OnGetImsFeatureValue I c = do {
     slotId \<leftarrow> ReadInt32 I;
     type \<leftarrow> ReadInt32 I;
     result \<leftarrow> serve (Service_GetImsFeatureValue (ie_manager I) c slotId type);
     reply_result I result TELEPHONY_SUCCESS }"

definition OnSetImsFeatureValue :: "'p ipc_env \<Rightarrow> caller \<Rightarrow> ('p, ErrCode) xstep" where
  "OnSetImsFeatureValue I c = do {
     slotId \<leftarrow> ReadInt32 I;
     type \<leftarrow> ReadInt32 I;
     val \<leftarrow> ReadInt32 I;
     result \<leftarrow> serve (Service_SetImsFeatureValue (ie_manager I) c slotId type val);
     reply_result I result TELEPHONY_SUCCESS }"

definition OnEnableVoLte :: "'p ipc_env \<Rightarrow> caller \<Rightarrow> ('p, ErrCode) xstep" where
  "OnEnableVoLte I c = do {
     slotId \<leftarrow> ReadInt32 I;
     result \<leftarrow> serve (Service_EnableImsSwitch (ie_manager I) c slotId);
     reply_result I result TELEPHONY_SUCCESS }"

definition OnDisableVoLte :: "'p ipc_env \<Rightarrow> caller \<Rightarrow> ('p, ErrCode) xstep" where
  "OnDisableVoLte I c = do {
     slotId \<leftarrow> ReadInt32 I;
     result \<leftarrow> serve (Service_DisableImsSwitch (ie_manager I) c slotId);
     reply_result I result TELEPHONY_SUCCESS }"

text \<open>Here and in three handlers below the answer starts as a variable without a value.\<close>

definition OnIsVoLteEnabled :: "'p ipc_env \<Rightarrow> caller \<Rightarrow> ('p, ErrCode) xstep" where
  "OnIsVoLteEnabled I c = do {
     slotId \<leftarrow> ReadInt32 I;
     res \<leftarrow> serve (Service_IsImsSwitchEnabled (ie_manager I) c slotId (ie_bool I));
     reply_after I (WriteBool I (snd res)) (fst res) }"

definition OnSetVoNRState :: "'p ipc_env \<Rightarrow> caller \<Rightarrow> ('p, ErrCode) xstep" where
  "OnSetVoNRState I c = do {
     slotId \<leftarrow> ReadInt32 I;
     state \<leftarrow> ReadInt32 I;
     result \<leftarrow> serve (Service_SetVoNRState (ie_manager I) c slotId state);
     reply_result I result TELEPHONY_SUCCESS }"

definition OnGetVoNRState :: "'p ipc_env \<Rightarrow> caller \<Rightarrow> ('p, ErrCode) xstep" where
  "OnGetVoNRState I c = do {
     slotId \<leftarrow> ReadInt32 I;
     res \<leftarrow> serve (Service_GetVoNRState (ie_manager I) c slotId (ie_int I 0));
     reply_after I (WriteInt32 I (snd res)) (fst res) }"

definition OnSetRttCapability :: "'p ipc_env \<Rightarrow> caller \<Rightarrow> ('p, ErrCode) xstep" where
  "OnSetRttCapability I c = do {
     slotId \<leftarrow> ReadInt32 I;
     isEnable \<leftarrow> ReadBool I;
     result \<leftarrow> serve (Service_SetRttCapability (ie_manager I) c slotId isEnable);
     reply_result I result TELEPHONY_SUCCESS }"

definition OnCheckCallRecordingPermission :: "'p ipc_env \<Rightarrow> caller \<Rightarrow> ('p, ErrCode) xstep" where
  "OnCheckCallRecordingPermission I c = do {
     phoneNum \<leftarrow> ReadString I;
     token \<leftarrow> ReadString I;
     (if phoneNum = [] \<or> length phoneNum > ACCOUNT_NUMBER_MAX_LENGTH
      then State_Monad.return CALL_ERR_NUMBER_OUT_OF_RANGE
      else do {
        result \<leftarrow> serve (Service_CheckCallRecordingPermission (ie_manager I) c phoneNum token);
        reply_flag I result }) }"

subsection \<open>Sound and video\<close>

definition OnSetMute :: "'p ipc_env \<Rightarrow> caller \<Rightarrow> ('p, ErrCode) xstep" where
  "OnSetMute I c = do {
     isMute \<leftarrow> ReadBool I;
     result \<leftarrow> serve (Service_SetMuted (ie_manager I) c isMute);
     reply_result I result TELEPHONY_SUCCESS }"

definition OnMuteRinger :: "'p ipc_env \<Rightarrow> caller \<Rightarrow> ('p, ErrCode) xstep" where
  "OnMuteRinger I c = do {
     result \<leftarrow> serve (Service_MuteRinger (ie_manager I) c);
     reply_result I result TELEPHONY_SUCCESS }"

definition OnSetAudioDevice :: "'p ipc_env \<Rightarrow> caller \<Rightarrow> ('p, ErrCode) xstep" where
  "OnSetAudioDevice I c = do {
     raw \<leftarrow> read_item I KAudioDevice;
     (case raw of
        Some (PAudioDevice d) \<Rightarrow>
          if strnlen (ad_address d) (kMaxAddressLen + 1) = kMaxAddressLen + 1 \<or>
             strnlen (ad_deviceName d) (kMaxDeviceNameLen + 1) = kMaxDeviceNameLen + 1
          then State_Monad.return TELEPHONY_ERR_LOCAL_PTR_NULL
          else do {
            result \<leftarrow> serve (Service_SetAudioDevice (ie_manager I) c (ad_deviceType d)
              (c_string (ad_address d)));
            reply_result I result TELEPHONY_SUCCESS }
      | _ \<Rightarrow> State_Monad.return TELEPHONY_ERR_LOCAL_PTR_NULL) }"

definition OnReportAudioDeviceInfo :: "'p ipc_env \<Rightarrow> caller \<Rightarrow> ('p, ErrCode) xstep" where
  "OnReportAudioDeviceInfo I c = do {
     result \<leftarrow> serve (Service_ReportAudioDeviceInfo (ie_manager I) c);
     reply_result I result TELEPHONY_SUCCESS }"

definition OnControlCamera :: "'p ipc_env \<Rightarrow> caller \<Rightarrow> ('p, ErrCode) xstep" where
  "OnControlCamera I c = do {
     callId \<leftarrow> ReadInt32 I;
     cameraId \<leftarrow> ReadString16 I;
     result \<leftarrow> serve (Service_ControlCamera (ie_manager I) c callId cameraId);
     reply_result I result TELEPHONY_SUCCESS }"

definition OnSetPreviewWindow :: "'p ipc_env \<Rightarrow> caller \<Rightarrow> ('p, ErrCode) xstep" where
  "OnSetPreviewWindow I c = do {
     callId \<leftarrow> ReadInt32 I;
     surfaceId \<leftarrow> ReadString I;
     object \<leftarrow> ReadRemoteObject I;
     result \<leftarrow> serve (Service_SetPreviewWindow (ie_manager I) c callId surfaceId (object \<and> ie_surface I));
     reply_result I result TELEPHONY_SUCCESS }"

definition OnSetDisplayWindow :: "'p ipc_env \<Rightarrow> caller \<Rightarrow> ('p, ErrCode) xstep" where
  "OnSetDisplayWindow I c = do {
     callId \<leftarrow> ReadInt32 I;
     surfaceId \<leftarrow> ReadString I;
     object \<leftarrow> ReadRemoteObject I;
     result \<leftarrow> serve (Service_SetDisplayWindow (ie_manager I) c callId surfaceId (object \<and> ie_surface I));
     reply_result I result TELEPHONY_SUCCESS }"

definition OnSetCameraZoom :: "'p ipc_env \<Rightarrow> caller \<Rightarrow> ('p, ErrCode) xstep" where
  "OnSetCameraZoom I c = do {
     zoom \<leftarrow> ReadFloat I;
     result \<leftarrow> serve (Service_SetCameraZoom (ie_manager I) c zoom);
     reply_result I result TELEPHONY_SUCCESS }"

definition OnSetPausePicture :: "'p ipc_env \<Rightarrow> caller \<Rightarrow> ('p, ErrCode) xstep" where
  "OnSetPausePicture I c = do {
     callId \<leftarrow> ReadInt32 I;
     path \<leftarrow> ReadString16 I;
     result \<leftarrow> serve (Service_SetPausePicture (ie_manager I) c callId path);
     reply_result I result TELEPHONY_SUCCESS }"

definition OnSetDeviceDirection :: "'p ipc_env \<Rightarrow> caller \<Rightarrow> ('p, ErrCode) xstep" where
  "OnSetDeviceDirection I c = do {
     callId \<leftarrow> ReadInt32 I;
     rotation \<leftarrow> ReadInt32 I;
     result \<leftarrow> serve (Service_SetDeviceDirection (ie_manager I) c callId rotation);
     reply_result I result TELEPHONY_SUCCESS }"

definition OnCancelCallUpgrade :: "'p ipc_env \<Rightarrow> caller \<Rightarrow> ('p, ErrCode) xstep" where
  "OnCancelCallUpgrade I c = do {
     callId \<leftarrow> ReadInt32 I;
     result \<leftarrow> serve (Service_CancelCallUpgrade (ie_manager I) c callId);
     reply_result I result TELEPHONY_SUCCESS }"

definition OnRequestCameraCapabilities :: "'p ipc_env \<Rightarrow> caller \<Rightarrow> ('p, ErrCode) xstep" where
  "OnRequestCameraCapabilities I c = do {
     callId \<leftarrow> ReadInt32 I;
     result \<leftarrow> serve (Service_RequestCameraCapabilities (ie_manager I) c callId);
     reply_result I result TELEPHONY_SUCCESS }"

definition OnUpdateCallMediaMode :: "'p ipc_env \<Rightarrow> caller \<Rightarrow> ('p, ErrCode) xstep" where
  "OnUpdateCallMediaMode I c = do {
     callId \<leftarrow> ReadInt32 I;
     mode \<leftarrow> ReadUint32 I;
     result \<leftarrow> serve (Service_UpdateImsCallMode (ie_manager I) c callId mode);
     reply_result I result TELEPHONY_SUCCESS }"

definition ImsRTTCallMode_of :: "int \<Rightarrow> ImsRTTCallMode" where
  "ImsRTTCallMode_of i =
     (if i = 0 then LOCAL_REQUEST_UPGRADE
      else if i = 1 then LOCAL_REQUEST_DOWNGRADE
      else if i = 2 then REMOTE_REQUEST_UPGRADE_LOCAL_ACCEPT
      else if i = 3 then REMOTE_REQUEST_UPGRADE_LOCAL_REJECT
      else RTT_MODE_OTHER i)"

definition OnUpdateImsRttCallMode :: "'p ipc_env \<Rightarrow> caller \<Rightarrow> ('p, ErrCode) xstep" where
  "OnUpdateImsRttCallMode I c = do {
     callId \<leftarrow> ReadInt32 I;
     mode \<leftarrow> ReadInt32 I;
     result \<leftarrow> serve (Service_UpdateImsRttCallMode (ie_manager I) c callId
       (ImsRTTCallMode_of mode));
     reply_result I result result }"

definition OnSendRttMessage :: "'p ipc_env \<Rightarrow> caller \<Rightarrow> ('p, ErrCode) xstep" where
  "OnSendRttMessage I c = do {
     callId \<leftarrow> ReadInt32 I;
     rttMessage \<leftarrow> ReadString I;
     result \<leftarrow> serve (Service_SendRttMessage (ie_manager I) c callId rttMessage);
     reply_result I result result }"

subsection \<open>OTT and VoIP applications\<close>

definition MAX_CALLS_NUM :: int where "MAX_CALLS_NUM = 5"

text \<open>The details of so many calls; None when one cannot be read.\<close>

primrec read_ott :: "'p ipc_env \<Rightarrow> nat \<Rightarrow> OttCallDetailsInfo list \<Rightarrow> ('p, OttCallDetailsInfo list option) xstep" where
  "read_ott I 0 ottVec = State_Monad.return (Some ottVec)"
| "read_ott I (Suc n) ottVec = do {
     raw \<leftarrow> read_item I KOttDetails;
     (case raw of
        Some (POttDetails info) \<Rightarrow> read_ott I n (ottVec @ [info])
      | _ \<Rightarrow> State_Monad.return None) }"

definition ott_of_raw :: "OttCallDetailsInfo \<Rightarrow> OttCallDetailsInfo" where
  "ott_of_raw d = d\<lparr>ot_phoneNum := c_string (ot_phoneNum d), ot_bundleName := c_string (ot_bundleName d)\<rparr>"

definition OnReportOttCallDetailsInfo :: "'p ipc_env \<Rightarrow> caller \<Rightarrow> ('p, ErrCode) xstep" where
  "OnReportOttCallDetailsInfo I c = do {
     vecCnt \<leftarrow> ReadInt32 I;
     (if vecCnt \<le> 0 \<or> vecCnt > MAX_CALLS_NUM
      then State_Monad.return TELEPHONY_ERR_ARGUMENT_INVALID
      else do {
        ottVec \<leftarrow> read_ott I (nat vecCnt) [];
        (case ottVec of
           None \<Rightarrow> State_Monad.return TELEPHONY_ERR_LOCAL_PTR_NULL
         | Some ottVec \<Rightarrow> do {
             result \<leftarrow> serve (Service_ReportOttCallDetailsInfo (ie_manager I) c (map ott_of_raw ottVec));
             reply_result I result TELEPHONY_SUCCESS }) }) }"

definition OnReportOttCallEventInfo :: "'p ipc_env \<Rightarrow> caller \<Rightarrow> ('p, ErrCode) xstep" where
  "OnReportOttCallEventInfo I c = do {
     raw \<leftarrow> read_item I KOttEvent;
     (case raw of
        Some (POttEvent e) \<Rightarrow> do {
          result \<leftarrow> serve (Service_ReportOttCallEventInfo (ie_manager I) c (oe_ottCallEventId e)
            (c_string (oe_bundleName e)));
          reply_result I result TELEPHONY_SUCCESS }
      | _ \<Rightarrow> State_Monad.return TELEPHONY_ERR_FAIL) }"

definition OnSetVoIPCallState :: "'p ipc_env \<Rightarrow> caller \<Rightarrow> ('p, ErrCode) xstep" where
  "OnSetVoIPCallState I c = do {
     state \<leftarrow> ReadInt32 I;
     result \<leftarrow> serve (Service_SetVoIPCallState (ie_manager I) c state);
     reply_result I result TELEPHONY_SUCCESS }"

definition OnGetVoIPCallState :: "'p ipc_env \<Rightarrow> caller \<Rightarrow> ('p, ErrCode) xstep" where
  "OnGetVoIPCallState I c = do {
     res \<leftarrow> serve (Service_GetVoIPCallState (ie_manager I) c (ie_int I 0));
     reply_after I (WriteInt32 I (snd res)) (fst res) }"

definition OnSetVoIPCallInfo :: "'p ipc_env \<Rightarrow> caller \<Rightarrow> ('p, ErrCode) xstep" where
  "OnSetVoIPCallInfo I c = do {
     callId \<leftarrow> ReadInt32 I;
     state \<leftarrow> ReadInt32 I;
     phoneNumber \<leftarrow> ReadString I;
     result \<leftarrow> serve (Service_SetVoIPCallInfo (ie_manager I) c callId state phoneNumber);
     reply_result I result TELEPHONY_SUCCESS }"

definition OnGetVoIPCallInfo :: "'p ipc_env \<Rightarrow> caller \<Rightarrow> ('p, ErrCode) xstep" where
  "OnGetVoIPCallInfo I c = do {
     res \<leftarrow> serve (Service_GetVoIPCallInfo (ie_manager I) c (ie_int I 0, ie_int I 1, []));
     (let (result, callId, state, phoneNumber) = res in do {
        ok \<leftarrow> WriteInt32 I callId;
        (if \<not> ok then State_Monad.return TELEPHONY_ERR_WRITE_REPLY_FAIL
         else do {
           ok \<leftarrow> WriteInt32 I state;
           (if \<not> ok then State_Monad.return TELEPHONY_ERR_WRITE_REPLY_FAIL
            else reply_after I (WriteString I phoneNumber) result) }) }) }"

subsection \<open>Policies, notifications and Bluetooth\<close>

definition OnRemoveMissedIncomingCallNotification :: "'p ipc_env \<Rightarrow> caller \<Rightarrow> ('p, ErrCode) xstep" where
  "OnRemoveMissedIncomingCallNotification I c = do {
     result \<leftarrow> serve (Service_RemoveMissedIncomingCallNotification (ie_manager I) c);
     reply_result I result TELEPHONY_SUCCESS }"

definition OnSetRegMmiCodeCallbackState :: "'p ipc_env \<Rightarrow> caller \<Rightarrow> ('p, ErrCode) xstep" where
  "OnSetRegMmiCodeCallbackState I c = do {
     isReg \<leftarrow> ReadBool I;
     result \<leftarrow> serve (Service_SetRegMmiCodeCallbackState (ie_manager I) c isReg);
     reply_result I result TELEPHONY_SUCCESS }"

text \<open>A list that cannot be read stays empty; whether it could is not looked at.\<close>

definition OnSetCallPolicyInfo :: "'p ipc_env \<Rightarrow> caller \<Rightarrow> ('p, ErrCode) xstep" where
  "OnSetCallPolicyInfo I c = do {
     isDialingTrustlist \<leftarrow> ReadBool I;
     dialing \<leftarrow> ReadStringVector I;
     isIncomingTrustlist \<leftarrow> ReadBool I;
     incoming \<leftarrow> ReadStringVector I;
     result \<leftarrow> serve (Service_SetCallPolicyInfo (ie_manager I) c isDialingTrustlist
       (case dialing of None \<Rightarrow> [] | Some l \<Rightarrow> l) isIncomingTrustlist
       (case incoming of None \<Rightarrow> [] | Some l \<Rightarrow> l));
     reply_result I result TELEPHONY_SUCCESS }"

definition OnGetProxyObjectPtr :: "'p ipc_env \<Rightarrow> caller \<Rightarrow> ('p, ErrCode) xstep" where
  "OnGetProxyObjectPtr I c = do {
     proxyType \<leftarrow> ReadInt32 I;
     object \<leftarrow> serve (Service_GetProxyObjectPtr (ie_manager I) c proxyType);
     ok \<leftarrow> WriteRemoteObject I object;
     State_Monad.return (if \<not> ok then TELEPHONY_ERR_WRITE_REPLY_FAIL else TELEPHONY_SUCCESS) }"

definition OnRegisterBluetoothCallManagerCallbackPtr :: "'p ipc_env \<Rightarrow> caller \<Rightarrow> ('p, ErrCode) xstep" where
  "OnRegisterBluetoothCallManagerCallbackPtr I c = do {
     phoneIndex \<leftarrow> ReadInt32 I;
     macAddress \<leftarrow> ReadString I;
     callback \<leftarrow> serve (Service_RegisterBluetoothCallManagerCallbackPtr (ie_manager I) c phoneIndex macAddress);
     (if \<not> callback then State_Monad.return TELEPHONY_ERR_FAIL
      else do {
        ok \<leftarrow> WriteRemoteObject I True;
        State_Monad.return (if \<not> ok then TELEPHONY_ERR_WRITE_REPLY_FAIL else TELEPHONY_SUCCESS) }) }"

definition OnRegisterTransferControl :: "'p ipc_env \<Rightarrow> caller \<Rightarrow> ('p, ErrCode) xstep" where
  "OnRegisterTransferControl I c = do {
     remote \<leftarrow> ReadRemoteObject I;
     (if \<not> remote \<or> \<not> ie_cast I then do {
        _ \<leftarrow> WriteInt32 I (ie_code I TELEPHONY_ERR_FAIL);
        State_Monad.return TELEPHONY_ERR_FAIL }
      else do {
        result \<leftarrow> serve (Service_RegisterTransferController (ie_manager I) c True);
        _ \<leftarrow> WriteInt32 I (ie_code I result);
        State_Monad.return result }) }"

definition OnUnRegisterTransferControl :: "'p ipc_env \<Rightarrow> caller \<Rightarrow> ('p, ErrCode) xstep" where
  "OnUnRegisterTransferControl I c = do {
     result \<leftarrow> serve (Service_UnRegisterTransferController (ie_manager I) c);
     reply_result I result result }"

definition OnNotifyTransferCallContact :: "'p ipc_env \<Rightarrow> caller \<Rightarrow> ('p, ErrCode) xstep" where
  "OnNotifyTransferCallContact I c = do {
     contactName \<leftarrow> ReadString I;
     result \<leftarrow> serve (Service_NotifyTransferCallContact (ie_manager I) c contactName);
     reply_result I result result }"

end
