(* ===== verification/Manager_Samples.thy ===== *)
theory Manager_Samples
  imports Call_Manager_Events
begin

text \<open>
  A concrete service with its neighbours and three callers, at which the properties of the
  requests are applied: the neighbours accept everything, successes are zero and failures
  one.
\<close>

definition sample_code :: "ErrCode \<Rightarrow> int" where
  "sample_code r = (if r = TELEPHONY_SUCCESS \<or> r = TELEPHONY_ERR_SUCCESS then 0
     else if r = TELEPHONY_ERR_IPC_CONNECT_STUB_FAIL then 2 else 1)"

definition sample_manager_env :: manager_env where
  "sample_manager_env = \<lparr>me_service = sample_service_env\<lparr>se_code := sample_code\<rparr>,
     me_video = sample_video_control_env, me_answer = (\<lambda>_. TELEPHONY_SUCCESS),
     me_accepts = (\<lambda>_. True), me_steady = (\<lambda>n. 1000000000 * int n), me_nonce = Some [1, 2],
     me_dsoftbus = False, me_distributedConnected = False, me_btCallSlot = (\<lambda>_. 0),
     me_hasSimCard = (\<lambda>_. True), me_voiceMail = (\<lambda>_. ''121''), me_showNumber = (\<lambda>_. ''555''),
     me_slotCount = 2, me_supportBtCall = False, me_dcallSwitchedOn = False,
     me_vonrState = (\<lambda>_. 1), me_imsSwitch = (\<lambda>_. True), me_transferTime = (\<lambda>_. True),
     me_emergency = (\<lambda>n _. (TELEPHONY_SUCCESS, n = ''112'')), me_format = (\<lambda>n _. (TELEPHONY_SUCCESS, n)),
     me_formatE164 = (\<lambda>n _. (TELEPHONY_SUCCESS, n)), me_removePage = id, me_pageText = (\<lambda>_. []),
     me_profile = True\<rparr>"

definition sample_manager :: manager where
  "sample_manager = \<lparr>g_core = sample_service, g_control = True, g_status = True,
     g_videos = (\<lambda>_. sample_video), g_cameraOpen = False, g_tokens = [], g_lastTransfer = [],
     g_proxies = [], g_btCallback = False, g_steady = 0, g_told = []\<rparr>"

definition sample_stranger :: caller where
  "sample_stranger = \<lparr>cl_system = False, cl_granted = (\<lambda>_. False), cl_uid = 20010044,
     cl_pid = 4711, cl_bundle = ''com.example.stranger''\<rparr>"

definition sample_dialer :: caller where
  "sample_dialer = \<lparr>cl_system = True, cl_granted = (\<lambda>_. True), cl_uid = 20010040,
     cl_pid = 2000, cl_bundle = ''com.ohos.contacts''\<rparr>"

end
