(* ===== verification/Service_Guards.thy ===== *)
theory Service_Guards
  imports Manager_Samples Request_Frame
begin

text \<open>
  What the permission checks of the service protect: the relation \<open>same_state\<close> between the
  states before and after a step, the calculus \<open>state_frame\<close> for it, and the lemma for each
  operation that a caller without permissions leaves the calls alone.
\<close>

subsection \<open>What the checks protect\<close>

text \<open>The calls with their conferences, the video modes and the camera stay as they are.\<close>

definition same_state :: "manager \<Rightarrow> manager \<Rightarrow> bool" where
  "same_state g h \<longleftrightarrow> s_reg (g_core h) = s_reg (g_core g) \<and> s_conf (g_core h) = s_conf (g_core g) \<and>
     g_videos h = g_videos g \<and> g_cameraOpen h = g_cameraOpen g"

interpretation guarded: state_frame same_state
  by unfold_locales (auto simp: same_state_def)

named_theorems guarded_rules "steps that leave the calls alone"

lemmas [guarded_rules] = guarded.state_rules

lemma tells_guarded [guarded_rules]:
  "state_io_rel same_state (mreads f)" "state_io_rel same_state (tell x)"
  "state_io_rel same_state (read_steady E)"
  "state_io_rel same_state (mchange (\<lambda>g. g\<lparr>g_tokens := ts\<rparr>))"
  "state_io_rel same_state (mchange (\<lambda>g. g\<lparr>g_tokens := u (g_tokens g)\<rparr>))"
  "state_io_rel same_state (mchange (\<lambda>g. g\<lparr>g_proxies := h g\<rparr>))"
  by (simp_all add: state_io_rel_def same_state_def)

lemma mwhen_guarded [guarded_rules]:
  "(b \<Longrightarrow> state_io_rel same_state m) \<Longrightarrow> state_io_rel same_state (mwhen b m)"
  by (simp add: mwhen_def guarded.return_frame)

lemma unless_guarded [guarded_rules]:
  "(ok \<Longrightarrow> state_io_rel same_state m) \<Longrightarrow> state_io_rel same_state (unless ok r m)"
  by (simp add: unless_def guarded.return_frame)

lemma core_guarded:
  "(\<And>s. s_reg (snd (run_state m s)) = s_reg s \<and> s_conf (snd (run_state m s)) = s_conf s) \<Longrightarrow>
   state_io_rel same_state (core m)"
  by (simp add: state_io_rel_def same_state_def run_core)

lemma core_reads_guarded [guarded_rules]: "state_io_rel same_state (core (reads f))"
  by (rule core_guarded) simp

lemma core_return_guarded [guarded_rules]: "state_io_rel same_state (core (State_Monad.return x))"
  by (rule core_guarded) simp

lemma setting_guarded [guarded_rules]: "state_io_rel same_state (core (setting_out E q old new))"
  by (rule core_guarded) (simp add: setting_out_def setting_request_def Let_def split: option.splits)

lemma new_call_guarded [guarded_rules]: "state_io_rel same_state (core (is_new_call_allowed E b))"
  by (rule core_guarded) (simp add: is_new_call_allowed_def split: option.splits)

lemma emergency_guarded [guarded_rules]: "state_io_rel same_state (core (IsEmergencyPhoneNumber_control E n s b))"
  by (rule core_guarded) (simp add: IsEmergencyPhoneNumber_control_def Let_def)

lemma control_guarded [guarded_rules]:
  "state_io_rel same_state (core m) \<Longrightarrow> state_io_rel same_state (control_out v m)"
  "state_io_rel same_state (core m') \<Longrightarrow> state_io_rel same_state (control_flag m')"
  unfolding control_out_def control_flag_def by (intro guarded_rules | assumption)+

subsection \<open>The operations, for a caller without permissions\<close>

lemmas permission_defs = has_def CheckSetTelephonyStatePermission_def system_only_def permitted_def
  system_only_out_def permitted_out_def unless_def

lemma calls_refused [guarded_rules]:
  assumes none: "cl_granted c = (\<lambda>_. False)"
  shows
    "state_io_rel same_state (Service_RegisterCallBack E c)"
    "state_io_rel same_state (Service_UnRegisterCallBack E c)"
    "state_io_rel same_state (Service_ObserverOnCallDetailsChange E c)"
    "state_io_rel same_state (Service_AnswerCall E c i i2 b)"
    "state_io_rel same_state (Service_RejectCall E c i b s)"
    "state_io_rel same_state (Service_HangUpCall E c i)"
    "state_io_rel same_state (Service_AnswerCall_any E c)"
    "state_io_rel same_state (Service_RejectCall_any E c)"
    "state_io_rel same_state (Service_RejectCall_type E c vReject)"
    "state_io_rel same_state (Service_HangUpCall_any E c)"
    "state_io_rel same_state (Service_EndCall E c)"
    "state_io_rel same_state (Service_HoldCall E c i)"
    "state_io_rel same_state (Service_UnHoldCall E c i)"
    "state_io_rel same_state (Service_SwitchCall E c i)"
    "state_io_rel same_state (Service_CombineConference E c i)"
    "state_io_rel same_state (Service_SeparateConference E c i)"
    "state_io_rel same_state (Service_KickOutFromConference E c i)"
    "state_io_rel same_state (Service_JoinConference E c i ss)"
    "state_io_rel same_state (Service_StartDtmf E c i ch)"
    "state_io_rel same_state (Service_StopDtmf E c i)"
    "state_io_rel same_state (Service_PostDialProceed E c i b)"
    "state_io_rel same_state (Service_IsRinging E c b)"
    "state_io_rel same_state (Service_IsInEmergencyCall E c b)"
    "state_io_rel same_state (Service_GetMainCallId E c i i2)"
    "state_io_rel same_state (Service_GetSubCallIdList E c i ss)"
    "state_io_rel same_state (Service_GetCallIdListForConference E c i ss)"
  by (simp_all add: none permission_defs guarded.return_frame
    Service_RegisterCallBack_def Service_UnRegisterCallBack_def Service_ObserverOnCallDetailsChange_def
    Service_AnswerCall_def Service_RejectCall_def Service_HangUpCall_def Service_AnswerCall_any_def
    Service_RejectCall_any_def Service_RejectCall_type_def Service_HangUpCall_any_def
    Service_EndCall_def Service_HoldCall_def Service_UnHoldCall_def Service_SwitchCall_def
    Service_CombineConference_def Service_SeparateConference_def Service_KickOutFromConference_def
    Service_JoinConference_def Service_StartDtmf_def Service_StopDtmf_def Service_PostDialProceed_def
    Service_IsRinging_def Service_IsInEmergencyCall_def Service_GetMainCallId_def Service_GetSubCallIdList_def
    Service_GetCallIdListForConference_def
    split: option.splits)

lemma settings_refused [guarded_rules]:
  assumes none: "cl_granted c = (\<lambda>_. False)"
  shows
    "state_io_rel same_state (Service_GetCallWaiting E c i)"
    "state_io_rel same_state (Service_SetCallWaiting E c i b)"
    "state_io_rel same_state (Service_GetCallRestriction E c i i2)"
    "state_io_rel same_state (Service_SetCallRestriction E c i i2 s i3)"
    "state_io_rel same_state (Service_SetCallRestrictionPassword E c i i2 so so2)"
    "state_io_rel same_state (Service_GetCallTransferInfo E c i i2)"
    "state_io_rel same_state (Service_SetCallTransferInfo E c i vCallTr)"
    "state_io_rel same_state (Service_CanSetCallTransferTime E c i b)"
    "state_io_rel same_state (Service_SetCallPreferenceMode E c i i2)"
    "state_io_rel same_state (Service_GetImsConfig E c i i2)"
    "state_io_rel same_state (Service_SetImsConfig E c i i2 s)"
    "state_io_rel same_state (Service_GetImsFeatureValue E c i i2)"
    "state_io_rel same_state (Service_SetImsFeatureValue E c i i2 i3)"
    "state_io_rel same_state (Service_EnableImsSwitch E c i)"
    "state_io_rel same_state (Service_DisableImsSwitch E c i)"
    "state_io_rel same_state (Service_SetVoNRState E c i i2)"
    "state_io_rel same_state (Service_GetVoNRState E c i i2)"
    "state_io_rel same_state (Service_CloseUnFinishedUssd E c i)"
    "state_io_rel same_state (Service_SendUssdResponse E c i s)"
    "state_io_rel same_state (Service_SetRttCapability E c i b)"
    "state_io_rel same_state (Service_GetCallTransferInfo_number E c s i)"
    "state_io_rel same_state (Service_SetMuted E c b)"
  by (simp_all add: none permission_defs guarded.return_frame
    Service_GetCallWaiting_def Service_SetCallWaiting_def Service_GetCallRestriction_def
    Service_SetCallRestriction_def Service_SetCallRestrictionPassword_def Service_GetCallTransferInfo_def
    Service_SetCallTransferInfo_def Service_CanSetCallTransferTime_def Service_SetCallPreferenceMode_def
    Service_GetImsConfig_def Service_SetImsConfig_def Service_GetImsFeatureValue_def
    Service_SetImsFeatureValue_def Service_EnableImsSwitch_def Service_DisableImsSwitch_def
    Service_SetVoNRState_def Service_GetVoNRState_def Service_CloseUnFinishedUssd_def
    Service_SendUssdResponse_def Service_SetRttCapability_def Service_GetCallTransferInfo_number_def
    Service_SetMuted_def
    split: option.splits)

lemma media_refused [guarded_rules]:
  assumes none: "cl_granted c = (\<lambda>_. False)"
  shows
    "state_io_rel same_state (Service_MuteRinger E c)"
    "state_io_rel same_state (Service_SetAudioDevice E c i s)"
    "state_io_rel same_state (Service_SetCallAudioMode E c i i2)"
    "state_io_rel same_state (Service_ReportAudioDeviceInfo E c)"
    "state_io_rel same_state (Service_ControlCamera E c i s)"
    "state_io_rel same_state (Service_SetPreviewWindow E c i s b)"
    "state_io_rel same_state (Service_SetDisplayWindow E c i s b)"
    "state_io_rel same_state (Service_SetCameraZoom E c q)"
    "state_io_rel same_state (Service_SetPausePicture E c i s)"
    "state_io_rel same_state (Service_SetDeviceDirection E c i i2)"
    "state_io_rel same_state (Service_CancelCallUpgrade E c i)"
    "state_io_rel same_state (Service_RequestCameraCapabilities E c i)"
    "state_io_rel same_state (Service_UpdateImsCallMode E c i i2)"
    "state_io_rel same_state (Service_UpdateImsRttCallMode E c i vImsRTT)"
    "state_io_rel same_state (Service_SendRttMessage E c i s)"
  by (simp_all add: none permission_defs guarded.return_frame
    Service_MuteRinger_def Service_SetAudioDevice_def Service_SetCallAudioMode_def Service_ReportAudioDeviceInfo_def
    Service_ControlCamera_def Service_SetPreviewWindow_def Service_SetDisplayWindow_def
    Service_SetCameraZoom_def Service_SetPausePicture_def Service_SetDeviceDirection_def
    Service_CancelCallUpgrade_def Service_RequestCameraCapabilities_def Service_UpdateImsCallMode_def
    Service_UpdateImsRttCallMode_def Service_SendRttMessage_def
    split: option.splits)

lemma events_refused [guarded_rules]:
  assumes none: "cl_granted c = (\<lambda>_. False)"
  shows
    "state_io_rel same_state (Service_ReportOttCallDetailsInfo E c vOttCal)"
    "state_io_rel same_state (Service_ReportOttCallEventInfo E c i s)"
    "state_io_rel same_state (Service_RegisterVoipCallManagerCallback E c)"
    "state_io_rel same_state (Service_UnRegisterVoipCallManagerCallback E c)"
    "state_io_rel same_state (Service_SetVoIPCallState E c i)"
    "state_io_rel same_state (Service_SetVoIPCallInfo E c i i2 s)"
    "state_io_rel same_state (Service_NotifyVoIPAudioStreamStart E c i)"
    "state_io_rel same_state (Service_InputDialerSpecialCode E c s)"
    "state_io_rel same_state (Service_RemoveMissedIncomingCallNotification E c)"
    "state_io_rel same_state (Service_SetRegMmiCodeCallbackState E c b)"
    "state_io_rel same_state (Service_SetCallPolicyInfo E c b ss b2 ss2)"
    "state_io_rel same_state (Service_PreloadCallUi E c b)"
    "state_io_rel same_state (Service_RegisterBluetoothCallManagerCallbackPtr E c i s)"
    "state_io_rel same_state (Service_RegisterTransferController E c b)"
    "state_io_rel same_state (Service_UnRegisterTransferController E c)"
    "state_io_rel same_state (Service_NotifyTransferCallContact E c s)"
    "state_io_rel same_state (Service_SendCallUiEvent E c i s)"
    "state_io_rel same_state (Service_CheckCallRecordingPermission E c s s2)"
  by (simp_all add: none permission_defs guarded.return_frame
    Service_ReportOttCallDetailsInfo_def Service_ReportOttCallEventInfo_def Service_RegisterVoipCallManagerCallback_def
    Service_UnRegisterVoipCallManagerCallback_def Service_SetVoIPCallState_def Service_SetVoIPCallInfo_def
    Service_NotifyVoIPAudioStreamStart_def Service_InputDialerSpecialCode_def Service_RemoveMissedIncomingCallNotification_def
    Service_SetRegMmiCodeCallbackState_def Service_SetCallPolicyInfo_def Service_PreloadCallUi_def
    Service_RegisterBluetoothCallManagerCallbackPtr_def Service_RegisterTransferController_def
    Service_UnRegisterTransferController_def Service_NotifyTransferCallContact_def Service_SendCallUiEvent_def
    Service_CheckCallRecordingPermission_def
    split: option.splits)

text \<open>The operations that ask for no permission, or only after some work.\<close>

lemma fill_extras_guarded [guarded_rules]: "state_io_rel same_state (fill_extras E num x)"
  unfolding fill_extras_def Let_def by (intro guarded_rules)

lemma DialCall_guarded [guarded_rules]:
  assumes none: "cl_granted c = (\<lambda>_. False)"
  shows "state_io_rel same_state (Service_DialCall E c s x)"
  unfolding Service_DialCall_def Let_def has_def none permitted_def system_only_def
  by (intro guarded_rules) (simp_all add: unless_def guarded.return_frame)

lemma MakeCall_guarded [guarded_rules]: "state_io_rel same_state (Service_MakeCall E c s)"
  unfolding Service_MakeCall_def start_contacts_def Let_def system_only_def system_only_out_def by (intro guarded_rules)

lemma MakeCallWithToken_guarded [guarded_rules]: "state_io_rel same_state (Service_MakeCallWithToken E c s b s2)"
  unfolding Service_MakeCallWithToken_def start_contacts_def Let_def system_only_def system_only_out_def by (intro guarded_rules)

lemma GetCallState_guarded [guarded_rules]: "state_io_rel same_state (Service_GetCallState E c)"
  unfolding Service_GetCallState_def Let_def system_only_def system_only_out_def by (intro guarded_rules)

lemma HasCall_guarded [guarded_rules]: "state_io_rel same_state (Service_HasCall E c b)"
  unfolding Service_HasCall_def Let_def system_only_def system_only_out_def by (intro guarded_rules)

lemma IsNewCallAllowed_guarded [guarded_rules]: "state_io_rel same_state (Service_IsNewCallAllowed E c b)"
  unfolding Service_IsNewCallAllowed_def Let_def system_only_def system_only_out_def by (intro guarded_rules)

lemma IsEmergencyPhoneNumber_guarded [guarded_rules]: "state_io_rel same_state (Service_IsEmergencyPhoneNumber E c s i b)"
  unfolding Service_IsEmergencyPhoneNumber_def Let_def system_only_def system_only_out_def by (intro guarded_rules)

lemma FormatPhoneNumber_guarded [guarded_rules]: "state_io_rel same_state (Service_FormatPhoneNumber E c s s2 s3)"
  unfolding Service_FormatPhoneNumber_def Let_def system_only_def system_only_out_def by (intro guarded_rules)

lemma FormatPhoneNumberToE164_guarded [guarded_rules]: "state_io_rel same_state (Service_FormatPhoneNumberToE164 E c s s2 s3)"
  unfolding Service_FormatPhoneNumberToE164_def Let_def system_only_def system_only_out_def by (intro guarded_rules)

lemma IsImsSwitchEnabled_guarded [guarded_rules]: "state_io_rel same_state (Service_IsImsSwitchEnabled E c i b)"
  unfolding Service_IsImsSwitchEnabled_def Let_def system_only_def system_only_out_def by (intro guarded_rules)

lemma GetVoIPCallState_guarded [guarded_rules]: "state_io_rel same_state (Service_GetVoIPCallState E c i)"
  unfolding Service_GetVoIPCallState_def Let_def system_only_def system_only_out_def by (intro guarded_rules)

lemma GetVoIPCallInfo_guarded [guarded_rules]: "state_io_rel same_state (Service_GetVoIPCallInfo E c vinttim)"
  unfolding Service_GetVoIPCallInfo_def Let_def system_only_def system_only_out_def by (intro guarded_rules)

lemma HasDistributedCommunicationCapability_guarded [guarded_rules]: "state_io_rel same_state (Service_HasDistributedCommunicationCapability E c)"
  unfolding Service_HasDistributedCommunicationCapability_def Let_def system_only_def system_only_out_def by (intro guarded_rules)

lemma GetProxyObjectPtr_guarded [guarded_rules]: "state_io_rel same_state (Service_GetProxyObjectPtr E c i)"
  unfolding Service_GetProxyObjectPtr_def Let_def system_only_def system_only_out_def by (intro guarded_rules)

end
