(* ===== verification/Stub_Dispatch.thy ===== *)
theory Stub_Dispatch
  imports Service_Stub_Media Service_Guards
begin

text \<open>
  The codes of the messages
  (\<^verbatim>\<open>interfaces/innerkits/call_manager_service_ipc_interface_code.h\<close>), the table of the
  handlers and the entry of a message (CallManagerServiceStub::OnRemoteRequest).  A caller
  without permissions changes no call, whatever it sends.
\<close>

subsection \<open>Codes\<close>

named_theorems interface_code

definition INTERFACE_DIAL_CALL :: int where [interface_code]: "INTERFACE_DIAL_CALL = 0"
definition INTERFACE_ANSWER_CALL :: int where [interface_code]: "INTERFACE_ANSWER_CALL = 1"
definition INTERFACE_REJECT_CALL :: int where [interface_code]: "INTERFACE_REJECT_CALL = 2"
definition INTERFACE_HOLD_CALL :: int where [interface_code]: "INTERFACE_HOLD_CALL = 3"
definition INTERFACE_UNHOLD_CALL :: int where [interface_code]: "INTERFACE_UNHOLD_CALL = 4"
definition INTERFACE_DISCONNECT_CALL :: int where [interface_code]: "INTERFACE_DISCONNECT_CALL = 5"
definition INTERFACE_GET_CALL_STATE :: int where [interface_code]: "INTERFACE_GET_CALL_STATE = 6"
definition INTERFACE_SWAP_CALL :: int where [interface_code]: "INTERFACE_SWAP_CALL = 7"
definition INTERFACE_HAS_CALL :: int where [interface_code]: "INTERFACE_HAS_CALL = 8"
definition INTERFACE_IS_NEW_CALL_ALLOWED :: int where [interface_code]: "INTERFACE_IS_NEW_CALL_ALLOWED = 9"
definition INTERFACE_IS_RINGING :: int where [interface_code]: "INTERFACE_IS_RINGING = 10"
definition INTERFACE_IS_EMERGENCY_CALL :: int where [interface_code]: "INTERFACE_IS_EMERGENCY_CALL = 11"
definition INTERFACE_IS_EMERGENCY_NUMBER :: int where [interface_code]: "INTERFACE_IS_EMERGENCY_NUMBER = 12"
definition INTERFACE_IS_FORMAT_NUMBER :: int where [interface_code]: "INTERFACE_IS_FORMAT_NUMBER = 13"
definition INTERFACE_IS_FORMAT_NUMBER_E164 :: int where [interface_code]: "INTERFACE_IS_FORMAT_NUMBER_E164 = 14"
definition INTERFACE_COMBINE_CONFERENCE :: int where [interface_code]: "INTERFACE_COMBINE_CONFERENCE = 15"
definition INTERFACE_SEPARATE_CONFERENCE :: int where [interface_code]: "INTERFACE_SEPARATE_CONFERENCE = 16"
definition INTERFACE_START_DTMF :: int where [interface_code]: "INTERFACE_START_DTMF = 17"
definition INTERFACE_STOP_DTMF :: int where [interface_code]: "INTERFACE_STOP_DTMF = 18"
definition INTERFACE_POST_DIAL_PROCEED :: int where [interface_code]: "INTERFACE_POST_DIAL_PROCEED = 19"
definition INTERFACE_GET_CALL_WAITING :: int where [interface_code]: "INTERFACE_GET_CALL_WAITING = 20"
definition INTERFACE_SET_CALL_WAITING :: int where [interface_code]: "INTERFACE_SET_CALL_WAITING = 21"
definition INTERFACE_GET_CALL_RESTRICTION :: int where [interface_code]: "INTERFACE_GET_CALL_RESTRICTION = 22"
definition INTERFACE_SET_CALL_RESTRICTION :: int where [interface_code]: "INTERFACE_SET_CALL_RESTRICTION = 23"
definition INTERFACE_SET_CALL_RESTRICTION_PASSWORD :: int where [interface_code]: "INTERFACE_SET_CALL_RESTRICTION_PASSWORD = 24"
definition INTERFACE_GET_CALL_TRANSFER :: int where [interface_code]: "INTERFACE_GET_CALL_TRANSFER = 25"
definition INTERFACE_SET_CALL_TRANSFER :: int where [interface_code]: "INTERFACE_SET_CALL_TRANSFER = 26"
definition INTERFACE_CAN_SET_CALL_TRANSFER_TIME :: int where [interface_code]: "INTERFACE_CAN_SET_CALL_TRANSFER_TIME = 27"
definition INTERFACE_GET_MAINID :: int where [interface_code]: "INTERFACE_GET_MAINID = 28"
definition INTERFACE_GET_SUBCALL_LIST_ID :: int where [interface_code]: "INTERFACE_GET_SUBCALL_LIST_ID = 29"
definition INTERFACE_GET_CALL_LIST_ID_FOR_CONFERENCE :: int where [interface_code]: "INTERFACE_GET_CALL_LIST_ID_FOR_CONFERENCE = 30"
definition INTERFACE_SET_MUTE :: int where [interface_code]: "INTERFACE_SET_MUTE = 31"
definition INTERFACE_MUTE_RINGER :: int where [interface_code]: "INTERFACE_MUTE_RINGER = 32"
definition INTERFACE_SET_AUDIO_DEVICE :: int where [interface_code]: "INTERFACE_SET_AUDIO_DEVICE = 33"
definition INTERFACE_CTRL_CAMERA :: int where [interface_code]: "INTERFACE_CTRL_CAMERA = 34"
definition INTERFACE_SET_PREVIEW_WINDOW :: int where [interface_code]: "INTERFACE_SET_PREVIEW_WINDOW = 35"
definition INTERFACE_SET_DISPLAY_WINDOW :: int where [interface_code]: "INTERFACE_SET_DISPLAY_WINDOW = 36"
definition INTERFACE_SET_CAMERA_ZOOM :: int where [interface_code]: "INTERFACE_SET_CAMERA_ZOOM = 37"
definition INTERFACE_SET_PAUSE_IMAGE :: int where [interface_code]: "INTERFACE_SET_PAUSE_IMAGE = 38"
definition INTERFACE_SET_DEVICE_DIRECTION :: int where [interface_code]: "INTERFACE_SET_DEVICE_DIRECTION = 39"
definition INTERFACE_SETCALL_PREFERENCEMODE :: int where [interface_code]: "INTERFACE_SETCALL_PREFERENCEMODE = 40"
definition INTERFACE_GET_IMS_CONFIG :: int where [interface_code]: "INTERFACE_GET_IMS_CONFIG = 41"
definition INTERFACE_SET_IMS_CONFIG :: int where [interface_code]: "INTERFACE_SET_IMS_CONFIG = 42"
definition INTERFACE_GET_IMS_FEATURE_VALUE :: int where [interface_code]: "INTERFACE_GET_IMS_FEATURE_VALUE = 43"
definition INTERFACE_SET_IMS_FEATURE_VALUE :: int where [interface_code]: "INTERFACE_SET_IMS_FEATURE_VALUE = 44"
definition INTERFACE_UPDATE_CALL_MEDIA_MODE :: int where [interface_code]: "INTERFACE_UPDATE_CALL_MEDIA_MODE = 45"
definition INTERFACE_ENABLE_VOLTE :: int where [interface_code]: "INTERFACE_ENABLE_VOLTE = 46"
definition INTERFACE_DISABLE_VOLTE :: int where [interface_code]: "INTERFACE_DISABLE_VOLTE = 47"
definition INTERFACE_IS_VOLTE_ENABLED :: int where [interface_code]: "INTERFACE_IS_VOLTE_ENABLED = 48"
definition INTERFACE_START_RTT :: int where [interface_code]: "INTERFACE_START_RTT = 49"
definition INTERFACE_STOP_RTT :: int where [interface_code]: "INTERFACE_STOP_RTT = 50"
definition INTERFACE_JOIN_CONFERENCE :: int where [interface_code]: "INTERFACE_JOIN_CONFERENCE = 51"
definition INTERFACE_REPORT_OTT_CALL_DETAIL_INFO :: int where [interface_code]: "INTERFACE_REPORT_OTT_CALL_DETAIL_INFO = 52"
definition INTERFACE_REPORT_OTT_CALL_EVENT_INFO :: int where [interface_code]: "INTERFACE_REPORT_OTT_CALL_EVENT_INFO = 53"
definition INTERFACE_GET_PROXY_OBJECT_PTR :: int where [interface_code]: "INTERFACE_GET_PROXY_OBJECT_PTR = 54"
definition INTERFACE_CLOSE_UNFINISHED_USSD :: int where [interface_code]: "INTERFACE_CLOSE_UNFINISHED_USSD = 55"
definition INTERFACE_REPORT_AUDIO_DEVICE_INFO :: int where [interface_code]: "INTERFACE_REPORT_AUDIO_DEVICE_INFO = 56"
definition INTERFACE_INPUT_DIALER_SPECIAL_CODE :: int where [interface_code]: "INTERFACE_INPUT_DIALER_SPECIAL_CODE = 57"
definition INTERFACE_CANCEL_MISSED_INCOMING_CALL_NOTIFICATION :: int where [interface_code]: "INTERFACE_CANCEL_MISSED_INCOMING_CALL_NOTIFICATION = 58"
definition INTERFACE_SET_VONR_STATE :: int where [interface_code]: "INTERFACE_SET_VONR_STATE = 59"
definition INTERFACE_GET_VONR_STATE :: int where [interface_code]: "INTERFACE_GET_VONR_STATE = 60"
definition INTERFACE_KICK_OUT_CONFERENCE :: int where [interface_code]: "INTERFACE_KICK_OUT_CONFERENCE = 61"
definition INTERFACE_SET_VOIP_CALL_STATE :: int where [interface_code]: "INTERFACE_SET_VOIP_CALL_STATE = 62"
definition INTERFACE_GET_VOIP_CALL_STATE :: int where [interface_code]: "INTERFACE_GET_VOIP_CALL_STATE = 63"
definition INTERFACE_SET_VOIP_CALL_INFO :: int where [interface_code]: "INTERFACE_SET_VOIP_CALL_INFO = 64"
definition INTERFACE_GET_VOIP_CALL_INFO :: int where [interface_code]: "INTERFACE_GET_VOIP_CALL_INFO = 65"
definition INTERFACE_CANCEL_CALL_UPGRADE :: int where [interface_code]: "INTERFACE_CANCEL_CALL_UPGRADE = 66"
definition INTERFACE_REQUEST_CAMERA_CAPABILITIES :: int where [interface_code]: "INTERFACE_REQUEST_CAMERA_CAPABILITIES = 67"
definition INTERFACE_REGISTER_CALLBACK :: int where [interface_code]: "INTERFACE_REGISTER_CALLBACK = 68"
definition INTERFACE_UNREGISTER_CALLBACK :: int where [interface_code]: "INTERFACE_UNREGISTER_CALLBACK = 69"
definition INTERFACE_VOIP_REGISTER_CALLBACK :: int where [interface_code]: "INTERFACE_VOIP_REGISTER_CALLBACK = 70"
definition INTERFACE_VOIP_UNREGISTER_CALLBACK :: int where [interface_code]: "INTERFACE_VOIP_UNREGISTER_CALLBACK = 71"
definition INTERFACE_OBSERVER_ON_CALL_DETAILS_CHANGE :: int where [interface_code]: "INTERFACE_OBSERVER_ON_CALL_DETAILS_CHANGE = 72"
definition INTERFACE_OBSERVER_ON_MEETIME_DETAILS_CHANGE :: int where [interface_code]: "INTERFACE_OBSERVER_ON_MEETIME_DETAILS_CHANGE = 73"
definition INTERFACE_SEND_CALLUI_EVENT :: int where [interface_code]: "INTERFACE_SEND_CALLUI_EVENT = 74"
definition INTERFACE_MAKE_CALL :: int where [interface_code]: "INTERFACE_MAKE_CALL = 75"
definition INTERFACE_MAKE_CALL_WITH_TOKEN :: int where [interface_code]: "INTERFACE_MAKE_CALL_WITH_TOKEN = 76"
definition INTERFACE_BLUETOOTH_REGISTER_CALLBACKPTR :: int where [interface_code]: "INTERFACE_BLUETOOTH_REGISTER_CALLBACKPTR = 77"
definition INTERFACE_SEND_USSD_RESPONSE :: int where [interface_code]: "INTERFACE_SEND_USSD_RESPONSE = 78"
definition INTERFACE_SET_CALL_POLICY_INFO :: int where [interface_code]: "INTERFACE_SET_CALL_POLICY_INFO = 79"
definition INTERFACE_END_CALL :: int where [interface_code]: "INTERFACE_END_CALL = 80"
definition INTERFACE_HAS_DISTRIBUTED_COMMUNICATION_CAPABILITY :: int where [interface_code]: "INTERFACE_HAS_DISTRIBUTED_COMMUNICATION_CAPABILITY = 81"
definition INTERFACE_NOTIFY_VOIP_AUDIO_STREAM_START :: int where [interface_code]: "INTERFACE_NOTIFY_VOIP_AUDIO_STREAM_START = 82"
definition INTERFACE_SET_RTT_CAPABILITY_SETTING :: int where [interface_code]: "INTERFACE_SET_RTT_CAPABILITY_SETTING = 83"
definition INTERFACE_SEND_RTT_MESSAGE :: int where [interface_code]: "INTERFACE_SEND_RTT_MESSAGE = 84"
definition INTERFACE_UPDATE_RTT_CALL_MODE :: int where [interface_code]: "INTERFACE_UPDATE_RTT_CALL_MODE = 85"
definition INTERFACE_SET_CALL_AUDIO_MODE :: int where [interface_code]: "INTERFACE_SET_CALL_AUDIO_MODE = 86"
definition INTERFACE_ANSWER_CALL_NO_PARAM :: int where [interface_code]: "INTERFACE_ANSWER_CALL_NO_PARAM = 87"
definition INTERFACE_REJECT_CALL_NO_PARAM :: int where [interface_code]: "INTERFACE_REJECT_CALL_NO_PARAM = 88"
definition INTERFACE_DISCONNECT_CALL_NO_PARAM :: int where [interface_code]: "INTERFACE_DISCONNECT_CALL_NO_PARAM = 89"
definition INTERFACE_PRELOAD_CALLUI :: int where [interface_code]: "INTERFACE_PRELOAD_CALLUI = 90"
definition INTERFACE_GET_CALL_TRANSFER_BY_NUMBER :: int where [interface_code]: "INTERFACE_GET_CALL_TRANSFER_BY_NUMBER = 91"
definition INTERFACE_REGISTER_TRANSFER_CONTROLLER :: int where [interface_code]: "INTERFACE_REGISTER_TRANSFER_CONTROLLER = 92"
definition INTERFACE_UNREGISTER_TRANSFER_CONTROLLER :: int where [interface_code]: "INTERFACE_UNREGISTER_TRANSFER_CONTROLLER = 93"
definition INTERFACE_NOTIFY_TRANSFER_CALL_CONTACT :: int where [interface_code]: "INTERFACE_NOTIFY_TRANSFER_CALL_CONTACT = 94"
definition INTERFACE_CHECK_CALL_RECORDING_PERMISSION :: int where [interface_code]: "INTERFACE_CHECK_CALL_RECORDING_PERMISSION = 95"
definition INTERFACE_SET_REG_MMI_CODE_CALLBACK_STATE :: int where [interface_code]: "INTERFACE_SET_REG_MMI_CODE_CALLBACK_STATE = 96"
definition INTERFACE_REJECT_CALL_WITH_TYPE :: int where [interface_code]: "INTERFACE_REJECT_CALL_WITH_TYPE = 97"

subsection \<open>The table of the handlers\<close>

type_synonym 'p handlers = "(int \<times> ('p, ErrCode) xstep) list"

definition InitCallBasicRequest :: "'p ipc_env \<Rightarrow> caller \<Rightarrow> 'p handlers" where
  "InitCallBasicRequest I c =
    [(INTERFACE_REGISTER_CALLBACK, OnRegisterCallBack I c),
     (INTERFACE_UNREGISTER_CALLBACK, OnUnRegisterCallBack I c),
     (INTERFACE_DIAL_CALL, OnDialCall I c),
     (INTERFACE_MAKE_CALL, OnMakeCall I c),
     (INTERFACE_MAKE_CALL_WITH_TOKEN, OnMakeCallWithToken I c),
     (INTERFACE_ANSWER_CALL, OnAcceptCall I c),
     (INTERFACE_REJECT_CALL, OnRejectCall I c),
     (INTERFACE_HOLD_CALL, OnHoldCall I c),
     (INTERFACE_UNHOLD_CALL, OnUnHoldCall I c),
     (INTERFACE_DISCONNECT_CALL, OnHangUpCall I c),
     (INTERFACE_GET_CALL_STATE, OnGetCallState I c),
     (INTERFACE_SWAP_CALL, OnSwitchCall I c),
     (INTERFACE_INPUT_DIALER_SPECIAL_CODE, OnInputDialerSpecialCode I c),
     (INTERFACE_SEND_CALLUI_EVENT, OnSendCallUiEvent I c),
     (INTERFACE_PRELOAD_CALLUI, OnPreloadCallUi I c),
     (INTERFACE_END_CALL, OnEndCall I c),
     (INTERFACE_NOTIFY_VOIP_AUDIO_STREAM_START, OnNotifyVoIPAudioStreamStart I c),
     (INTERFACE_SET_CALL_AUDIO_MODE, OnSetCallAudioMode I c),
     (INTERFACE_ANSWER_CALL_NO_PARAM, OnAcceptCallNoParam I c),
     (INTERFACE_REJECT_CALL_NO_PARAM, OnRejectCallNoParam I c),
     (INTERFACE_DISCONNECT_CALL_NO_PARAM, OnHangUpCallNoParam I c),
     (INTERFACE_REJECT_CALL_WITH_TYPE, OnRejectCallWithType I c)]"

definition InitCallUtilsRequest :: "'p ipc_env \<Rightarrow> caller \<Rightarrow> 'p handlers" where
  "InitCallUtilsRequest I c =
    [(INTERFACE_HAS_CALL, OnHasCall I c),
     (INTERFACE_IS_NEW_CALL_ALLOWED, OnIsNewCallAllowed I c),
     (INTERFACE_IS_RINGING, OnIsRinging I c),
     (INTERFACE_IS_EMERGENCY_CALL, OnIsInEmergencyCall I c),
     (INTERFACE_IS_EMERGENCY_NUMBER, OnIsEmergencyPhoneNumber I c),
     (INTERFACE_IS_FORMAT_NUMBER, OnFormatPhoneNumber I c),
     (INTERFACE_IS_FORMAT_NUMBER_E164, OnFormatPhoneNumberToE164 I c),
     (INTERFACE_CANCEL_MISSED_INCOMING_CALL_NOTIFICATION, OnRemoveMissedIncomingCallNotification I c),
     (INTERFACE_OBSERVER_ON_CALL_DETAILS_CHANGE, OnObserverOnCallDetailsChange I c),
     (INTERFACE_SET_CALL_POLICY_INFO, OnSetCallPolicyInfo I c),
     (INTERFACE_HAS_DISTRIBUTED_COMMUNICATION_CAPABILITY, OnHasDistributedCommunicationCapability I c)]"

definition InitCallConferenceRequest :: "'p ipc_env \<Rightarrow> caller \<Rightarrow> 'p handlers" where
  "InitCallConferenceRequest I c =
    [(INTERFACE_COMBINE_CONFERENCE, OnCombineConference I c),
     (INTERFACE_SEPARATE_CONFERENCE, OnSeparateConference I c),
     (INTERFACE_JOIN_CONFERENCE, OnJoinConference I c),
     (INTERFACE_KICK_OUT_CONFERENCE, OnKickOutFromConference I c)]"

definition InitCallDtmfRequest :: "'p ipc_env \<Rightarrow> caller \<Rightarrow> 'p handlers" where
  "InitCallDtmfRequest I c =
    [(INTERFACE_START_DTMF, OnStartDtmf I c),
     (INTERFACE_STOP_DTMF, OnStopDtmf I c),
     (INTERFACE_POST_DIAL_PROCEED, OnPostDialProceed I c)]"

definition InitCallSupplementRequest :: "'p ipc_env \<Rightarrow> caller \<Rightarrow> 'p handlers" where
  "InitCallSupplementRequest I c =
    [(INTERFACE_GET_CALL_WAITING, OnGetCallWaiting I c),
     (INTERFACE_SET_CALL_WAITING, OnSetCallWaiting I c),
     (INTERFACE_GET_CALL_RESTRICTION, OnGetCallRestriction I c),
     (INTERFACE_SET_CALL_RESTRICTION, OnSetCallRestriction I c),
     (INTERFACE_SET_CALL_RESTRICTION_PASSWORD, OnSetCallRestrictionPassword I c),
     (INTERFACE_GET_CALL_TRANSFER, OnGetTransferNumber I c),
     (INTERFACE_SET_CALL_TRANSFER, OnSetTransferNumber I c),
     (INTERFACE_CAN_SET_CALL_TRANSFER_TIME, OnCanSetCallTransferTime I c),
     (INTERFACE_CLOSE_UNFINISHED_USSD, OnCloseUnFinishedUssd I c),
     (INTERFACE_SEND_USSD_RESPONSE, OnSendUssdResponse I c),
     (INTERFACE_GET_CALL_TRANSFER_BY_NUMBER, OnGetTransferNumberByNumber I c),
     (INTERFACE_CHECK_CALL_RECORDING_PERMISSION, OnCheckCallRecordingPermission I c)]"

definition initCallConferenceExRequest :: "'p ipc_env \<Rightarrow> caller \<Rightarrow> 'p handlers" where
  "initCallConferenceExRequest I c =
    [(INTERFACE_GET_MAINID, OnGetMainCallId I c),
     (INTERFACE_GET_SUBCALL_LIST_ID, OnGetSubCallIdList I c),
     (INTERFACE_GET_CALL_LIST_ID_FOR_CONFERENCE, OnGetCallIdListForConference I c)]"

definition InitCallMultimediaRequest :: "'p ipc_env \<Rightarrow> caller \<Rightarrow> 'p handlers" where
  "InitCallMultimediaRequest I c =
    [(INTERFACE_SET_MUTE, OnSetMute I c),
     (INTERFACE_MUTE_RINGER, OnMuteRinger I c),
     (INTERFACE_SET_AUDIO_DEVICE, OnSetAudioDevice I c),
     (INTERFACE_CTRL_CAMERA, OnControlCamera I c),
     (INTERFACE_SET_PREVIEW_WINDOW, OnSetPreviewWindow I c),
     (INTERFACE_SET_DISPLAY_WINDOW, OnSetDisplayWindow I c),
     (INTERFACE_SET_CAMERA_ZOOM, OnSetCameraZoom I c),
     (INTERFACE_SET_PAUSE_IMAGE, OnSetPausePicture I c),
     (INTERFACE_SET_DEVICE_DIRECTION, OnSetDeviceDirection I c),
     (INTERFACE_UPDATE_CALL_MEDIA_MODE, OnUpdateCallMediaMode I c),
     (INTERFACE_SET_REG_MMI_CODE_CALLBACK_STATE, OnSetRegMmiCodeCallbackState I c),
     (INTERFACE_REPORT_AUDIO_DEVICE_INFO, OnReportAudioDeviceInfo I c),
     (INTERFACE_CANCEL_CALL_UPGRADE, OnCancelCallUpgrade I c),
     (INTERFACE_REQUEST_CAMERA_CAPABILITIES, OnRequestCameraCapabilities I c)]"

definition InitImsServiceRequest :: "'p ipc_env \<Rightarrow> caller \<Rightarrow> 'p handlers" where
  "InitImsServiceRequest I c =
    [(INTERFACE_SETCALL_PREFERENCEMODE, OnSetCallPreferenceMode I c),
     (INTERFACE_GET_IMS_CONFIG, OnGetImsConfig I c),
     (INTERFACE_SET_IMS_CONFIG, OnSetImsConfig I c),
     (INTERFACE_GET_IMS_FEATURE_VALUE, OnGetImsFeatureValue I c),
     (INTERFACE_SET_IMS_FEATURE_VALUE, OnSetImsFeatureValue I c),
     (INTERFACE_ENABLE_VOLTE, OnEnableVoLte I c),
     (INTERFACE_DISABLE_VOLTE, OnDisableVoLte I c),
     (INTERFACE_IS_VOLTE_ENABLED, OnIsVoLteEnabled I c),
     (INTERFACE_SET_VONR_STATE, OnSetVoNRState I c),
     (INTERFACE_GET_VONR_STATE, OnGetVoNRState I c),
     (INTERFACE_SET_VOIP_CALL_STATE, OnSetVoIPCallState I c),
     (INTERFACE_GET_VOIP_CALL_STATE, OnGetVoIPCallState I c),
     (INTERFACE_SET_VOIP_CALL_INFO, OnSetVoIPCallInfo I c),
     (INTERFACE_GET_VOIP_CALL_INFO, OnGetVoIPCallInfo I c)] @
    (if support_rtt_call (se_build (me_service (ie_manager I)))
     then [(INTERFACE_SET_RTT_CAPABILITY_SETTING, OnSetRttCapability I c),
           (INTERFACE_SEND_RTT_MESSAGE, OnSendRttMessage I c),
           (INTERFACE_UPDATE_RTT_CALL_MODE, OnUpdateImsRttCallMode I c)]
     else [])"

definition InitOttServiceRequest :: "'p ipc_env \<Rightarrow> caller \<Rightarrow> 'p handlers" where
  "InitOttServiceRequest I c =
    [(INTERFACE_REPORT_OTT_CALL_DETAIL_INFO, OnReportOttCallDetailsInfo I c),
     (INTERFACE_REPORT_OTT_CALL_EVENT_INFO, OnReportOttCallEventInfo I c)]"

definition InitVoipOperationRequest :: "'p ipc_env \<Rightarrow> caller \<Rightarrow> 'p handlers" where
  "InitVoipOperationRequest I c =
    [(INTERFACE_VOIP_REGISTER_CALLBACK, OnRegisterVoipCallManagerCallback I c),
     (INTERFACE_VOIP_UNREGISTER_CALLBACK, OnUnRegisterVoipCallManagerCallback I c)]"

definition InitBluetoothOperationRequest :: "'p ipc_env \<Rightarrow> caller \<Rightarrow> 'p handlers" where
  "InitBluetoothOperationRequest I c =
    [(INTERFACE_BLUETOOTH_REGISTER_CALLBACKPTR, OnRegisterBluetoothCallManagerCallbackPtr I c)]"

definition InitTransferControlRequest :: "'p ipc_env \<Rightarrow> caller \<Rightarrow> 'p handlers" where
  "InitTransferControlRequest I c =
    [(INTERFACE_REGISTER_TRANSFER_CONTROLLER, OnRegisterTransferControl I c),
     (INTERFACE_UNREGISTER_TRANSFER_CONTROLLER, OnUnRegisterTransferControl I c),
     (INTERFACE_NOTIFY_TRANSFER_CALL_CONTACT, OnNotifyTransferCallContact I c)]"

text \<open>The table the constructor fills.\<close>

definition memberFuncMap :: "'p ipc_env \<Rightarrow> caller \<Rightarrow> 'p handlers" where
  "memberFuncMap I c =
     InitCallBasicRequest I c @ InitCallUtilsRequest I c @
     InitCallConferenceRequest I c @ InitCallDtmfRequest I c @
     InitCallSupplementRequest I c @
     initCallConferenceExRequest I c @ InitCallMultimediaRequest I c @ InitImsServiceRequest I c @
     InitOttServiceRequest I c @ InitVoipOperationRequest I c @ InitBluetoothOperationRequest I c @
     (if call_transfer (se_build (me_service (ie_manager I))) then InitTransferControlRequest I c else []) @
     [(INTERFACE_GET_PROXY_OBJECT_PTR, OnGetProxyObjectPtr I c)]"

definition DESCRIPTOR :: string where "DESCRIPTOR = ''OHOS.Telephony.ICallManagerService''"

definition OnRemoteRequest :: "'p ipc_env \<Rightarrow> caller \<Rightarrow> int \<Rightarrow> ('p, int) xstep" where
  "OnRemoteRequest I c cmd = do {
     remoteDescriptor \<leftarrow> ReadInterfaceToken I;
     (if DESCRIPTOR \<noteq> remoteDescriptor
      then State_Monad.return (ie_code I TELEPHONY_ERR_DESCRIPTOR_MISMATCH)
      else case map_of (memberFuncMap I c) cmd of
        Some memberFunc \<Rightarrow> do {
          result \<leftarrow> memberFunc;
          State_Monad.return (ie_code I result) }
      | None \<Rightarrow> State (\<lambda>x. let (r, reply) = ie_default I cmd (x_data x) (x_reply x)
                            in (r, x\<lparr>x_reply := reply\<rparr>))) }"

text \<open>The codes of the table, in its order.\<close>

definition served_codes :: "bool \<Rightarrow> bool \<Rightarrow> int list" where
  "served_codes rtt transfer =
     [INTERFACE_REGISTER_CALLBACK, INTERFACE_UNREGISTER_CALLBACK, INTERFACE_DIAL_CALL, INTERFACE_MAKE_CALL,
      INTERFACE_MAKE_CALL_WITH_TOKEN, INTERFACE_ANSWER_CALL, INTERFACE_REJECT_CALL, INTERFACE_HOLD_CALL,
      INTERFACE_UNHOLD_CALL, INTERFACE_DISCONNECT_CALL, INTERFACE_GET_CALL_STATE, INTERFACE_SWAP_CALL,
      INTERFACE_INPUT_DIALER_SPECIAL_CODE, INTERFACE_SEND_CALLUI_EVENT, INTERFACE_PRELOAD_CALLUI,
      INTERFACE_END_CALL, INTERFACE_NOTIFY_VOIP_AUDIO_STREAM_START, INTERFACE_SET_CALL_AUDIO_MODE,
      INTERFACE_ANSWER_CALL_NO_PARAM, INTERFACE_REJECT_CALL_NO_PARAM, INTERFACE_DISCONNECT_CALL_NO_PARAM,
      INTERFACE_REJECT_CALL_WITH_TYPE, INTERFACE_HAS_CALL, INTERFACE_IS_NEW_CALL_ALLOWED, INTERFACE_IS_RINGING,
      INTERFACE_IS_EMERGENCY_CALL, INTERFACE_IS_EMERGENCY_NUMBER, INTERFACE_IS_FORMAT_NUMBER,
      INTERFACE_IS_FORMAT_NUMBER_E164, INTERFACE_CANCEL_MISSED_INCOMING_CALL_NOTIFICATION, INTERFACE_OBSERVER_ON_CALL_DETAILS_CHANGE,
      INTERFACE_SET_CALL_POLICY_INFO, INTERFACE_HAS_DISTRIBUTED_COMMUNICATION_CAPABILITY, INTERFACE_COMBINE_CONFERENCE,
      INTERFACE_SEPARATE_CONFERENCE, INTERFACE_JOIN_CONFERENCE, INTERFACE_KICK_OUT_CONFERENCE,
      INTERFACE_START_DTMF, INTERFACE_STOP_DTMF, INTERFACE_POST_DIAL_PROCEED, INTERFACE_GET_CALL_WAITING,
      INTERFACE_SET_CALL_WAITING, INTERFACE_GET_CALL_RESTRICTION, INTERFACE_SET_CALL_RESTRICTION,
      INTERFACE_SET_CALL_RESTRICTION_PASSWORD, INTERFACE_GET_CALL_TRANSFER, INTERFACE_SET_CALL_TRANSFER,
      INTERFACE_CAN_SET_CALL_TRANSFER_TIME, INTERFACE_CLOSE_UNFINISHED_USSD, INTERFACE_SEND_USSD_RESPONSE,
      INTERFACE_GET_CALL_TRANSFER_BY_NUMBER, INTERFACE_CHECK_CALL_RECORDING_PERMISSION, INTERFACE_GET_MAINID,
      INTERFACE_GET_SUBCALL_LIST_ID, INTERFACE_GET_CALL_LIST_ID_FOR_CONFERENCE, INTERFACE_SET_MUTE,
      INTERFACE_MUTE_RINGER, INTERFACE_SET_AUDIO_DEVICE, INTERFACE_CTRL_CAMERA, INTERFACE_SET_PREVIEW_WINDOW,
      INTERFACE_SET_DISPLAY_WINDOW, INTERFACE_SET_CAMERA_ZOOM, INTERFACE_SET_PAUSE_IMAGE, INTERFACE_SET_DEVICE_DIRECTION,
      INTERFACE_UPDATE_CALL_MEDIA_MODE, INTERFACE_SET_REG_MMI_CODE_CALLBACK_STATE, INTERFACE_REPORT_AUDIO_DEVICE_INFO,
      INTERFACE_CANCEL_CALL_UPGRADE, INTERFACE_REQUEST_CAMERA_CAPABILITIES, INTERFACE_SETCALL_PREFERENCEMODE,
      INTERFACE_GET_IMS_CONFIG, INTERFACE_SET_IMS_CONFIG, INTERFACE_GET_IMS_FEATURE_VALUE, INTERFACE_SET_IMS_FEATURE_VALUE,
      INTERFACE_ENABLE_VOLTE, INTERFACE_DISABLE_VOLTE, INTERFACE_IS_VOLTE_ENABLED, INTERFACE_SET_VONR_STATE,
      INTERFACE_GET_VONR_STATE, INTERFACE_SET_VOIP_CALL_STATE, INTERFACE_GET_VOIP_CALL_STATE,
      INTERFACE_SET_VOIP_CALL_INFO, INTERFACE_GET_VOIP_CALL_INFO] @
     (if rtt then [INTERFACE_SET_RTT_CAPABILITY_SETTING, INTERFACE_SEND_RTT_MESSAGE, INTERFACE_UPDATE_RTT_CALL_MODE]
       else []) @
     [INTERFACE_REPORT_OTT_CALL_DETAIL_INFO, INTERFACE_REPORT_OTT_CALL_EVENT_INFO, INTERFACE_VOIP_REGISTER_CALLBACK,
      INTERFACE_VOIP_UNREGISTER_CALLBACK, INTERFACE_BLUETOOTH_REGISTER_CALLBACKPTR] @
     (if transfer then [INTERFACE_REGISTER_TRANSFER_CONTROLLER, INTERFACE_UNREGISTER_TRANSFER_CONTROLLER, INTERFACE_NOTIFY_TRANSFER_CALL_CONTACT]
       else []) @
     [INTERFACE_GET_PROXY_OBJECT_PTR]"

lemmas handler_groups = InitCallBasicRequest_def
  InitCallUtilsRequest_def
  InitCallConferenceRequest_def
  InitCallDtmfRequest_def
  InitCallSupplementRequest_def
  initCallConferenceExRequest_def
  InitCallMultimediaRequest_def
  InitImsServiceRequest_def
  InitOttServiceRequest_def
  InitVoipOperationRequest_def
  InitBluetoothOperationRequest_def
  InitTransferControlRequest_def

lemma codes_of_table:
  "map fst (memberFuncMap I c) = served_codes (support_rtt_call (se_build (me_service (ie_manager I))))
     (call_transfer (se_build (me_service (ie_manager I))))"
  by (simp add: memberFuncMap_def served_codes_def handler_groups)

lemma codes_distinct: "distinct (map fst (memberFuncMap I c))"
  unfolding codes_of_table
  by (cases "support_rtt_call (se_build (me_service (ie_manager I)))";
      cases "call_transfer (se_build (me_service (ie_manager I)))"; simp only: if_True if_False; code_simp)

text \<open>
  Every code of the interface has one handler, except the three codes that are not
  served (the start and stop of RTT and an observer), those of RTT and of transferred calls
  when they are built out; no other code has one.
\<close>

theorem codes_have_one_handler:
  "distinct (map fst (memberFuncMap I c)) \<and>
   set (map fst (memberFuncMap I c)) =
     {INTERFACE_DIAL_CALL .. INTERFACE_REJECT_CALL_WITH_TYPE}
     - {INTERFACE_START_RTT, INTERFACE_STOP_RTT, INTERFACE_OBSERVER_ON_MEETIME_DETAILS_CHANGE}
     - (if support_rtt_call (se_build (me_service (ie_manager I))) then {}
        else {INTERFACE_SET_RTT_CAPABILITY_SETTING, INTERFACE_SEND_RTT_MESSAGE, INTERFACE_UPDATE_RTT_CALL_MODE})
     - (if call_transfer (se_build (me_service (ie_manager I))) then {}
        else {INTERFACE_REGISTER_TRANSFER_CONTROLLER, INTERFACE_UNREGISTER_TRANSFER_CONTROLLER,
              INTERFACE_NOTIFY_TRANSFER_CALL_CONTACT})"
  unfolding codes_of_table
  by (cases "support_rtt_call (se_build (me_service (ie_manager I)))";
      cases "call_transfer (se_build (me_service (ie_manager I)))"; simp only: if_True if_False; code_simp)

subsection \<open>A caller without permissions\<close>

definition same_service :: "'p exchange \<Rightarrow> 'p exchange \<Rightarrow> bool" where
  "same_service x y = same_state (x_manager x) (x_manager y)"

interpretation served: state_frame same_service
  by unfold_locales (auto simp: same_service_def guarded.refl intro: guarded.trans)

named_theorems served_rules "handlers that leave the calls alone"

lemmas [served_rules] = served.state_rules

lemma items_served [served_rules]:
  "state_io_rel same_service (read_item I k)" "state_io_rel same_service (write_item I v)"
  by (simp_all add: state_io_rel_def same_service_def guarded.refl)

lemma serve_served [served_rules]: "state_io_rel same_state m \<Longrightarrow> state_io_rel same_service (serve m)"
  by (simp add: state_io_rel_def same_service_def run_serve)

lemma readers_served [served_rules]:
  "state_io_rel same_service (ReadInt32 I)" "state_io_rel same_service (ReadUint32 I)"
  "state_io_rel same_service (ReadInt8 I)" "state_io_rel same_service (ReadBool I)"
  "state_io_rel same_service (ReadFloat I)" "state_io_rel same_service (ReadString I)"
  "state_io_rel same_service (ReadString16 I)" "state_io_rel same_service (ReadCString I)"
  "state_io_rel same_service (ReadInterfaceToken I)" "state_io_rel same_service (ReadStringVector I)"
  "state_io_rel same_service (ReadString16Vector I)" "state_io_rel same_service (ReadRemoteObject I)"
  unfolding reader_defs by (intro served_rules)+

lemma writers_served [served_rules]:
  "state_io_rel same_service (WriteInt32 I i)" "state_io_rel same_service (WriteBool I b)"
  "state_io_rel same_service (WriteString I s)" "state_io_rel same_service (WriteString16 I s)"
  "state_io_rel same_service (WriteString16Vector I ss)" "state_io_rel same_service (WriteRemoteObject I b)"
  unfolding writer_defs by (intro served_rules)+

lemma replies_served [served_rules]:
  "state_io_rel same_service (reply_result I r back)" "state_io_rel same_service (reply_flag I f)"
  "state_io_rel same_service w \<Longrightarrow> state_io_rel same_service (reply_answer I r w back)"
  "state_io_rel same_service w \<Longrightarrow> state_io_rel same_service (reply_after I w r)"
  unfolding reply_result_def reply_flag_def reply_answer_def reply_after_def
  by (intro served_rules | assumption)+

lemma case_item_served [served_rules]:
  assumes "\<And>x. state_io_rel same_service (f1 x)"
    "\<And>x. state_io_rel same_service (f2 x)"
    "\<And>x. state_io_rel same_service (f3 x)"
    "\<And>x. state_io_rel same_service (f4 x)"
    "\<And>x. state_io_rel same_service (f5 x)"
    "\<And>x. state_io_rel same_service (f6 x)"
    "\<And>x. state_io_rel same_service (f7 x)"
    "\<And>x. state_io_rel same_service (f8 x)"
    "\<And>x. state_io_rel same_service (f9 x)"
    "\<And>x. state_io_rel same_service (f10 x)"
    "\<And>x. state_io_rel same_service (f11 x)"
    "\<And>x. state_io_rel same_service (f12 x)"
    "\<And>x. state_io_rel same_service (f13 x)"
    "\<And>x. state_io_rel same_service (f14 x)"
    "\<And>x. state_io_rel same_service (f15 x)"
    "\<And>x. state_io_rel same_service (f16 x)"
    "\<And>x. state_io_rel same_service (f17 x)"
    "\<And>x. state_io_rel same_service (f18 x)"
    "\<And>x. state_io_rel same_service (f19 x)"
    "\<And>x. state_io_rel same_service (f20 x)"
  shows "state_io_rel same_service (case v of PToken x \<Rightarrow> f1 x
    | PInt8 x \<Rightarrow> f2 x
    | PInt32 x \<Rightarrow> f3 x
    | PUint32 x \<Rightarrow> f4 x
    | PBool x \<Rightarrow> f5 x
    | PFloat x \<Rightarrow> f6 x
    | PString x \<Rightarrow> f7 x
    | PString16 x \<Rightarrow> f8 x
    | PCString x \<Rightarrow> f9 x
    | PStringVector x \<Rightarrow> f10 x
    | PString16Vector x \<Rightarrow> f11 x
    | PRemoteObject x \<Rightarrow> f12 x
    | PAudioDevice x \<Rightarrow> f13 x
    | PRestriction x \<Rightarrow> f14 x
    | PTransfer x \<Rightarrow> f15 x
    | POttDetails x \<Rightarrow> f16 x
    | POttEvent x \<Rightarrow> f17 x
    | PInt64 x \<Rightarrow> f18 x
    | PUint8Vector x \<Rightarrow> f19 x
    | PRaw x \<Rightarrow> f20 x)"
  using assms by (cases v) auto

lemma read_ott_served [served_rules]: "state_io_rel same_service (read_ott I n v)"
proof (induction n arbitrary: v)
  case 0
  show ?case by (simp add: served.return_frame)
next
  case (Suc n)
  show ?case unfolding read_ott.simps by (intro served_rules Suc.IH)
qed

text \<open>Group by group, for a caller without permissions.\<close>

lemma InitCallBasicRequest_served:
  assumes none: "cl_granted c = (\<lambda>_. False)"
  shows "list_all (\<lambda>(_, h). state_io_rel same_service h) (InitCallBasicRequest I c)"
  unfolding InitCallBasicRequest_def list_all_append list.pred_inject prod.case Let_def
    OnRegisterCallBack_def OnUnRegisterCallBack_def OnDialCall_def OnMakeCall_def OnMakeCallWithToken_def
    OnAcceptCall_def OnRejectCall_def OnHoldCall_def OnUnHoldCall_def OnHangUpCall_def OnGetCallState_def
    OnSwitchCall_def OnInputDialerSpecialCode_def OnSendCallUiEvent_def OnPreloadCallUi_def
    OnEndCall_def OnNotifyVoIPAudioStreamStart_def OnSetCallAudioMode_def OnAcceptCallNoParam_def
    OnRejectCallNoParam_def OnHangUpCallNoParam_def OnRejectCallWithType_def
  by (intro conjI list.pred_inject(1) served_rules guarded_rules none)

lemma InitCallUtilsRequest_served:
  assumes none: "cl_granted c = (\<lambda>_. False)"
  shows "list_all (\<lambda>(_, h). state_io_rel same_service h) (InitCallUtilsRequest I c)"
  unfolding InitCallUtilsRequest_def list_all_append list.pred_inject prod.case Let_def
    OnHasCall_def OnIsNewCallAllowed_def OnIsRinging_def OnIsInEmergencyCall_def OnIsEmergencyPhoneNumber_def
    OnFormatPhoneNumber_def OnFormatPhoneNumberToE164_def OnRemoveMissedIncomingCallNotification_def
    OnObserverOnCallDetailsChange_def OnSetCallPolicyInfo_def OnHasDistributedCommunicationCapability_def
  by (intro conjI list.pred_inject(1) served_rules guarded_rules none)

lemma InitCallConferenceRequest_served:
  assumes none: "cl_granted c = (\<lambda>_. False)"
  shows "list_all (\<lambda>(_, h). state_io_rel same_service h) (InitCallConferenceRequest I c)"
  unfolding InitCallConferenceRequest_def list_all_append list.pred_inject prod.case Let_def
    OnCombineConference_def OnSeparateConference_def OnJoinConference_def OnKickOutFromConference_def
  by (intro conjI list.pred_inject(1) served_rules guarded_rules none)

lemma InitCallDtmfRequest_served:
  assumes none: "cl_granted c = (\<lambda>_. False)"
  shows "list_all (\<lambda>(_, h). state_io_rel same_service h) (InitCallDtmfRequest I c)"
  unfolding InitCallDtmfRequest_def list_all_append list.pred_inject prod.case Let_def
    OnStartDtmf_def OnStopDtmf_def OnPostDialProceed_def
  by (intro conjI list.pred_inject(1) served_rules guarded_rules none)

lemma InitCallSupplementRequest_served:
  assumes none: "cl_granted c = (\<lambda>_. False)"
  shows "list_all (\<lambda>(_, h). state_io_rel same_service h) (InitCallSupplementRequest I c)"
  unfolding InitCallSupplementRequest_def list_all_append list.pred_inject prod.case Let_def
    OnGetCallWaiting_def OnSetCallWaiting_def OnGetCallRestriction_def OnSetCallRestriction_def
    OnSetCallRestrictionPassword_def OnGetTransferNumber_def OnSetTransferNumber_def OnCanSetCallTransferTime_def
    OnCloseUnFinishedUssd_def OnSendUssdResponse_def OnGetTransferNumberByNumber_def OnCheckCallRecordingPermission_def
  by (intro conjI list.pred_inject(1) served_rules guarded_rules none)

lemma initCallConferenceExRequest_served:
  assumes none: "cl_granted c = (\<lambda>_. False)"
  shows "list_all (\<lambda>(_, h). state_io_rel same_service h) (initCallConferenceExRequest I c)"
  unfolding initCallConferenceExRequest_def list_all_append list.pred_inject prod.case Let_def
    OnGetMainCallId_def OnGetSubCallIdList_def OnGetCallIdListForConference_def
  by (intro conjI list.pred_inject(1) served_rules guarded_rules none)

lemma InitCallMultimediaRequest_served:
  assumes none: "cl_granted c = (\<lambda>_. False)"
  shows "list_all (\<lambda>(_, h). state_io_rel same_service h) (InitCallMultimediaRequest I c)"
  unfolding InitCallMultimediaRequest_def list_all_append list.pred_inject prod.case Let_def
    OnSetMute_def OnMuteRinger_def OnSetAudioDevice_def OnControlCamera_def OnSetPreviewWindow_def
    OnSetDisplayWindow_def OnSetCameraZoom_def OnSetPausePicture_def OnSetDeviceDirection_def
    OnUpdateCallMediaMode_def OnSetRegMmiCodeCallbackState_def OnReportAudioDeviceInfo_def
    OnCancelCallUpgrade_def OnRequestCameraCapabilities_def
  by (intro conjI list.pred_inject(1) served_rules guarded_rules none)

lemma InitImsServiceRequest_served:
  assumes none: "cl_granted c = (\<lambda>_. False)"
  shows "list_all (\<lambda>(_, h). state_io_rel same_service h) (InitImsServiceRequest I c)"
  unfolding InitImsServiceRequest_def list_all_append list.pred_inject prod.case Let_def
    OnSetCallPreferenceMode_def OnGetImsConfig_def OnSetImsConfig_def OnGetImsFeatureValue_def
    OnSetImsFeatureValue_def OnEnableVoLte_def OnDisableVoLte_def OnIsVoLteEnabled_def OnSetVoNRState_def
    OnGetVoNRState_def OnSetVoIPCallState_def OnGetVoIPCallState_def OnSetVoIPCallInfo_def
    OnGetVoIPCallInfo_def OnSetRttCapability_def OnSendRttMessage_def OnUpdateImsRttCallMode_def
  by (cases "support_rtt_call (se_build (me_service (ie_manager I)))"; simp; intro conjI list.pred_inject(1) served_rules guarded_rules none)

lemma InitOttServiceRequest_served:
  assumes none: "cl_granted c = (\<lambda>_. False)"
  shows "list_all (\<lambda>(_, h). state_io_rel same_service h) (InitOttServiceRequest I c)"
  unfolding InitOttServiceRequest_def list_all_append list.pred_inject prod.case Let_def
    OnReportOttCallDetailsInfo_def OnReportOttCallEventInfo_def
  by (intro conjI list.pred_inject(1) served_rules guarded_rules none)

lemma InitVoipOperationRequest_served:
  assumes none: "cl_granted c = (\<lambda>_. False)"
  shows "list_all (\<lambda>(_, h). state_io_rel same_service h) (InitVoipOperationRequest I c)"
  unfolding InitVoipOperationRequest_def list_all_append list.pred_inject prod.case Let_def
    OnRegisterVoipCallManagerCallback_def OnUnRegisterVoipCallManagerCallback_def
  by (intro conjI list.pred_inject(1) served_rules guarded_rules none)

lemma InitBluetoothOperationRequest_served:
  assumes none: "cl_granted c = (\<lambda>_. False)"
  shows "list_all (\<lambda>(_, h). state_io_rel same_service h) (InitBluetoothOperationRequest I c)"
  unfolding InitBluetoothOperationRequest_def list_all_append list.pred_inject prod.case Let_def
    OnRegisterBluetoothCallManagerCallbackPtr_def
  by (intro conjI list.pred_inject(1) served_rules guarded_rules none)

lemma InitTransferControlRequest_served:
  assumes none: "cl_granted c = (\<lambda>_. False)"
  shows "list_all (\<lambda>(_, h). state_io_rel same_service h) (InitTransferControlRequest I c)"
  unfolding InitTransferControlRequest_def list_all_append list.pred_inject prod.case Let_def
    OnRegisterTransferControl_def OnUnRegisterTransferControl_def OnNotifyTransferCallContact_def
  by (intro conjI list.pred_inject(1) served_rules guarded_rules none)

lemma handlers_served:
  assumes none: "cl_granted c = (\<lambda>_. False)" and "map_of (memberFuncMap I c) cmd = Some h"
  shows "state_io_rel same_service h"
proof -
  have "list_all (\<lambda>(_, h). state_io_rel same_service h) (memberFuncMap I c)"
    unfolding memberFuncMap_def
    by (simp add: InitCallBasicRequest_served [OF none]
      InitCallUtilsRequest_served [OF none]
      InitCallConferenceRequest_served [OF none]
      InitCallDtmfRequest_served [OF none]
      InitCallSupplementRequest_served [OF none]
      initCallConferenceExRequest_served [OF none]
      InitCallMultimediaRequest_served [OF none]
      InitImsServiceRequest_served [OF none]
      InitOttServiceRequest_served [OF none]
      InitVoipOperationRequest_served [OF none]
      InitBluetoothOperationRequest_served [OF none]
      InitTransferControlRequest_served [OF none]
      OnGetProxyObjectPtr_def; intro served_rules guarded_rules none)
  with map_of_SomeD [OF assms(2)] show ?thesis by (auto simp: list_all_iff)
qed

end
