(* ===== verification/Service_Proxy.thy ===== *)
theory Service_Proxy
  imports Stub_Dispatch
begin

text \<open>
  The application's end of the messages (CallManagerServiceProxy,
  \<^verbatim>\<open>frameworks/native/src/call_manager_service_proxy.cpp\<close>): every operation writes its
  arguments behind the interface token, sends the message and reads the answer.  The
  transport and the parcel are arguments.  Statuses are numbers here, as the answer carries
  them, and so are enumerations.
\<close>

subsection \<open>Sending a message\<close>

record ('p, 's) proxy_env =
  px_parcel :: "'p message_parcel"
  px_remote :: bool                                   \<comment> \<open>there is a remote object\<close>
  px_send :: "int \<Rightarrow> 'p \<Rightarrow> ('s, int \<times> 'p) state"     \<comment> \<open>IRemoteObject::SendRequest\<close>
  px_code :: "ErrCode \<Rightarrow> int"

definition SendRequest :: "('p, 's) proxy_env \<Rightarrow> int \<Rightarrow> 'p \<Rightarrow> ('s, int \<times> 'p) state" where
  "SendRequest X cmd dataParcel =
     (if \<not> px_remote X
      then State_Monad.return (px_code X TELEPHONY_ERR_IPC_CONNECT_STUB_FAIL, mp_empty (px_parcel X))
      else px_send X cmd dataParcel)"

definition with_token :: "('p, 's) proxy_env \<Rightarrow> 'a \<Rightarrow> ('p \<Rightarrow> ('s, 'a) state) \<Rightarrow> ('s, 'a) state" where
  "with_token X bad rest =
     (let (ok, p) = mp_write (px_parcel X) (PToken DESCRIPTOR) (mp_empty (px_parcel X)) in
      if \<not> ok then State_Monad.return bad else rest p)"

text \<open>Whether the arguments could be written is not looked at.\<close>

definition send_message :: "('p, 's) proxy_env \<Rightarrow> int \<Rightarrow> parcel_item list \<Rightarrow> 'p \<Rightarrow> (int \<Rightarrow> 'a) \<Rightarrow> ('p \<Rightarrow> 'a) \<Rightarrow>
    ('s, 'a) state" where
  "send_message X cmd vs p failed answer = do {
     res \<leftarrow> SendRequest X cmd (write_all (px_parcel X) vs p);
     (let (error, replyParcel) = res in
      State_Monad.return (if error \<noteq> px_code X TELEPHONY_SUCCESS then failed error else answer replyParcel)) }"

definition reply_int :: "('p, 's) proxy_env \<Rightarrow> 'p \<Rightarrow> int" where
  "reply_int X p = (case fst (mp_read (px_parcel X) KInt32 p) of Some (PInt32 i) \<Rightarrow> i | _ \<Rightarrow> 0)"
definition reply_bool :: "('p, 's) proxy_env \<Rightarrow> 'p \<Rightarrow> bool" where
  "reply_bool X p = (case fst (mp_read (px_parcel X) KBool p) of Some (PBool b) \<Rightarrow> b | _ \<Rightarrow> False)"
definition reply_string :: "('p, 's) proxy_env \<Rightarrow> 'p \<Rightarrow> string" where
  "reply_string X p = (case fst (mp_read (px_parcel X) KString p) of Some (PString s) \<Rightarrow> s | _ \<Rightarrow> [])"
definition reply_string16 :: "('p, 's) proxy_env \<Rightarrow> 'p \<Rightarrow> string" where
  "reply_string16 X p = (case fst (mp_read (px_parcel X) KString16 p) of Some (PString16 s) \<Rightarrow> s | _ \<Rightarrow> [])"
definition reply_string16s :: "('p, 's) proxy_env \<Rightarrow> string list \<Rightarrow> 'p \<Rightarrow> string list" where
  "reply_string16s X old p =
     (case fst (mp_read (px_parcel X) KString16Vector p) of Some (PString16Vector s) \<Rightarrow> s | _ \<Rightarrow> old)"
definition reply_object :: "('p, 's) proxy_env \<Rightarrow> 'p \<Rightarrow> bool" where
  "reply_object X p = (fst (mp_read (px_parcel X) KRemoteObject p) = Some (PRemoteObject True))"

text \<open>What is left when an answer has been read.\<close>

definition after_int :: "('p, 's) proxy_env \<Rightarrow> 'p \<Rightarrow> 'p" where
  "after_int X p = snd (mp_read (px_parcel X) KInt32 p)"
definition after_bool :: "('p, 's) proxy_env \<Rightarrow> 'p \<Rightarrow> 'p" where
  "after_bool X p = snd (mp_read (px_parcel X) KBool p)"
definition after_string :: "('p, 's) proxy_env \<Rightarrow> 'p \<Rightarrow> 'p" where
  "after_string X p = snd (mp_read (px_parcel X) KString p)"

text \<open>The status, and behind it the answer when the status is a success.\<close>

definition reply_with :: "('p, 's) proxy_env \<Rightarrow> 'a \<Rightarrow> ('p \<Rightarrow> 'a) \<Rightarrow> 'p \<Rightarrow> int \<times> 'a" where
  "reply_with X old read p =
     (let result = reply_int X p in
      (result, if result = px_code X TELEPHONY_ERR_SUCCESS then read (after_int X p) else old))"

definition SendRequest_code :: "('p, 's) proxy_env \<Rightarrow> int \<Rightarrow> ('s, int) state" where
  "SendRequest_code X cmd =
     with_token X (px_code X TELEPHONY_ERR_WRITE_DESCRIPTOR_TOKEN_FAIL) (\<lambda>p.
        send_message X cmd [] p (\<lambda>_. px_code X TELEPHONY_ERR_IPC_CONNECT_STUB_FAIL) (reply_int X))"

subsection \<open>Calls\<close>

definition Proxy_RegisterCallBack :: "('p, 's) proxy_env \<Rightarrow> bool \<Rightarrow> ('s, int) state" where
  "Proxy_RegisterCallBack X callback =
     (if \<not> callback then State_Monad.return (px_code X TELEPHONY_ERR_ARGUMENT_INVALID)
      else with_token X (px_code X TELEPHONY_ERR_WRITE_DESCRIPTOR_TOKEN_FAIL) (\<lambda>p.
        let (ok, p) = mp_write (px_parcel X) (PRemoteObject True) p in
        if \<not> ok then State_Monad.return (px_code X TELEPHONY_ERR_WRITE_DATA_FAIL)
        else send_message X INTERFACE_REGISTER_CALLBACK [] p (\<lambda>error. error) (reply_int X)))"

definition Proxy_ObserverOnCallDetailsChange :: "('p, 's) proxy_env \<Rightarrow> ('s, int) state" where
  "Proxy_ObserverOnCallDetailsChange X = do {
     error \<leftarrow> SendRequest_code X INTERFACE_OBSERVER_ON_CALL_DETAILS_CHANGE;
     State_Monad.return (px_code X (if error \<noteq> px_code X TELEPHONY_SUCCESS
       then TELEPHONY_ERR_IPC_CONNECT_STUB_FAIL else TELEPHONY_SUCCESS)) }"

definition Proxy_RegisterVoipCallManagerCallback :: "('p, 's) proxy_env \<Rightarrow> ('s, int) state" where
  "Proxy_RegisterVoipCallManagerCallback X = do {
     error \<leftarrow> SendRequest_code X INTERFACE_VOIP_REGISTER_CALLBACK;
     State_Monad.return (if error \<noteq> px_code X TELEPHONY_SUCCESS
       then px_code X TELEPHONY_ERR_IPC_CONNECT_STUB_FAIL else 0) }"

text \<open>The name of the bundle, which the other end reads before the last flag, is not written.\<close>

definition Proxy_DialCall :: "('p, 's) proxy_env \<Rightarrow> string \<Rightarrow> pac_map \<Rightarrow> ('s, int) state" where
  "Proxy_DialCall X num extras =
     with_token X (px_code X TELEPHONY_ERR_WRITE_DESCRIPTOR_TOKEN_FAIL) (\<lambda>p.
        if num = [] then State_Monad.return (px_code X TELEPHONY_ERR_ARGUMENT_INVALID)
        else send_message X INTERFACE_DIAL_CALL
          [PString16 num, PInt32 (pm_int extras ''accountId''), PInt32 (pm_int extras ''videoState''),
           PInt32 (pm_int extras ''dialScene''), PInt32 (pm_int extras ''dialType''),
           PInt32 (pm_int extras ''callType''), PBool (pm_bool extras ''isRTT''),
           PInt32 (pm_int extras ''phoneIndex''), PString (pm_string extras ''extraParams''),
           PBool (pm_bool extras ''btSlotIdUnknown'')] p
          (\<lambda>_. px_code X TELEPHONY_ERR_IPC_CONNECT_STUB_FAIL) (reply_int X))"

definition Proxy_MakeCallWithToken ::
  "('p, 's) proxy_env \<Rightarrow> string \<Rightarrow> pac_map \<Rightarrow> string \<Rightarrow> ('s, int \<times> string) state" where
  "Proxy_MakeCallWithToken X num options token =
     with_token X (px_code X TELEPHONY_ERR_WRITE_DESCRIPTOR_TOKEN_FAIL, token) (\<lambda>p.
        if num = [] then State_Monad.return (px_code X TELEPHONY_ERR_ARGUMENT_INVALID, token)
        else send_message X INTERFACE_MAKE_CALL_WITH_TOKEN
          [PString num, PBool (pm_bool options ''isCustomAccessibility'')] p
          (\<lambda>_. (px_code X TELEPHONY_ERR_IPC_CONNECT_STUB_FAIL, token))
          (reply_with X token (reply_string X)))"

definition Proxy_UnRegisterCallBack :: "('p, 's) proxy_env \<Rightarrow> ('s, int) state" where
  "Proxy_UnRegisterCallBack X = SendRequest_code X INTERFACE_UNREGISTER_CALLBACK"

definition Proxy_UnRegisterVoipCallManagerCallback :: "('p, 's) proxy_env \<Rightarrow> ('s, int) state" where
  "Proxy_UnRegisterVoipCallManagerCallback X = SendRequest_code X INTERFACE_VOIP_UNREGISTER_CALLBACK"

definition Proxy_MakeCall :: "('p, 's) proxy_env \<Rightarrow> string \<Rightarrow> ('s, int) state" where
  "Proxy_MakeCall X num =
     with_token X (px_code X TELEPHONY_ERR_WRITE_DESCRIPTOR_TOKEN_FAIL) (\<lambda>p.
        if num = [] then State_Monad.return (px_code X TELEPHONY_ERR_ARGUMENT_INVALID)
        else send_message X INTERFACE_MAKE_CALL [PString num] p
          (\<lambda>_. px_code X TELEPHONY_ERR_IPC_CONNECT_STUB_FAIL) (reply_int X))"

definition Proxy_AnswerCall :: "('p, 's) proxy_env \<Rightarrow> int \<Rightarrow> int \<Rightarrow> bool \<Rightarrow> ('s, int) state" where
  "Proxy_AnswerCall X callId videoState isRTT =
     with_token X (px_code X TELEPHONY_ERR_WRITE_DESCRIPTOR_TOKEN_FAIL) (\<lambda>p.
        send_message X INTERFACE_ANSWER_CALL [PInt32 callId, PInt32 videoState, PBool isRTT] p
          (\<lambda>_. px_code X TELEPHONY_ERR_IPC_CONNECT_STUB_FAIL) (reply_int X))"

definition Proxy_RejectCall :: "('p, 's) proxy_env \<Rightarrow> int \<Rightarrow> bool \<Rightarrow> string \<Rightarrow> ('s, int) state" where
  "Proxy_RejectCall X callId rejectWithMessage textMessage =
     with_token X (px_code X TELEPHONY_ERR_WRITE_DESCRIPTOR_TOKEN_FAIL) (\<lambda>p.
        send_message X INTERFACE_REJECT_CALL [PInt32 callId, PBool rejectWithMessage, PString16 textMessage] p
          (\<lambda>_. px_code X TELEPHONY_ERR_IPC_CONNECT_STUB_FAIL) (reply_int X))"

definition Proxy_HangUpCall :: "('p, 's) proxy_env \<Rightarrow> int \<Rightarrow> ('s, int) state" where
  "Proxy_HangUpCall X callId =
     with_token X (px_code X TELEPHONY_ERR_IPC_CONNECT_STUB_FAIL) (\<lambda>p.
        send_message X INTERFACE_DISCONNECT_CALL [PInt32 callId] p
          (\<lambda>_. px_code X TELEPHONY_ERR_IPC_CONNECT_STUB_FAIL) (reply_int X))"

definition Proxy_GetCallState :: "('p, 's) proxy_env \<Rightarrow> ('s, int) state" where
  "Proxy_GetCallState X = SendRequest_code X INTERFACE_GET_CALL_STATE"

definition Proxy_HoldCall :: "('p, 's) proxy_env \<Rightarrow> int \<Rightarrow> ('s, int) state" where
  "Proxy_HoldCall X callId =
     with_token X (px_code X TELEPHONY_ERR_WRITE_DESCRIPTOR_TOKEN_FAIL) (\<lambda>p.
        send_message X INTERFACE_HOLD_CALL [PInt32 callId] p
          (\<lambda>_. px_code X TELEPHONY_ERR_IPC_CONNECT_STUB_FAIL) (reply_int X))"

definition Proxy_UnHoldCall :: "('p, 's) proxy_env \<Rightarrow> int \<Rightarrow> ('s, int) state" where
  "Proxy_UnHoldCall X callId =
     with_token X (px_code X TELEPHONY_ERR_WRITE_DESCRIPTOR_TOKEN_FAIL) (\<lambda>p.
        send_message X INTERFACE_UNHOLD_CALL [PInt32 callId] p
          (\<lambda>_. px_code X TELEPHONY_ERR_IPC_CONNECT_STUB_FAIL) (reply_int X))"

definition Proxy_SwitchCall :: "('p, 's) proxy_env \<Rightarrow> int \<Rightarrow> ('s, int) state" where
  "Proxy_SwitchCall X callId =
     with_token X (px_code X TELEPHONY_ERR_WRITE_DESCRIPTOR_TOKEN_FAIL) (\<lambda>p.
        send_message X INTERFACE_SWAP_CALL [PInt32 callId] p
          (\<lambda>_. px_code X TELEPHONY_ERR_IPC_CONNECT_STUB_FAIL) (reply_int X))"

definition Proxy_HasCall :: "('p, 's) proxy_env \<Rightarrow> bool \<Rightarrow> ('s, bool) state" where
  "Proxy_HasCall X isInCludeVoipCall =
     with_token X False (\<lambda>p.
        send_message X INTERFACE_HAS_CALL [PBool isInCludeVoipCall] p
          (\<lambda>_. False) (reply_bool X))"

definition Proxy_IsNewCallAllowed :: "('p, 's) proxy_env \<Rightarrow> bool \<Rightarrow> ('s, int \<times> bool) state" where
  "Proxy_IsNewCallAllowed X enabled =
     with_token X (px_code X TELEPHONY_ERR_WRITE_DESCRIPTOR_TOKEN_FAIL, enabled) (\<lambda>p.
        send_message X INTERFACE_IS_NEW_CALL_ALLOWED [] p
          (\<lambda>_. (px_code X TELEPHONY_ERR_IPC_CONNECT_STUB_FAIL, enabled)) (reply_with X enabled (reply_bool X)))"

definition Proxy_IsRinging :: "('p, 's) proxy_env \<Rightarrow> bool \<Rightarrow> ('s, int \<times> bool) state" where
  "Proxy_IsRinging X enabled =
     with_token X (px_code X TELEPHONY_ERR_WRITE_DESCRIPTOR_TOKEN_FAIL, enabled) (\<lambda>p.
        send_message X INTERFACE_IS_RINGING [] p
          (\<lambda>_. (px_code X TELEPHONY_ERR_IPC_CONNECT_STUB_FAIL, enabled)) (reply_with X enabled (reply_bool X)))"

definition Proxy_IsInEmergencyCall :: "('p, 's) proxy_env \<Rightarrow> bool \<Rightarrow> ('s, int \<times> bool) state" where
  "Proxy_IsInEmergencyCall X enabled =
     with_token X (px_code X TELEPHONY_ERR_WRITE_DESCRIPTOR_TOKEN_FAIL, enabled) (\<lambda>p.
        send_message X INTERFACE_IS_EMERGENCY_CALL [] p
          (\<lambda>_. (px_code X TELEPHONY_ERR_IPC_CONNECT_STUB_FAIL, enabled)) (reply_with X enabled (reply_bool X)))"

definition Proxy_AnswerCall_any :: "('p, 's) proxy_env \<Rightarrow> ('s, int) state" where
  "Proxy_AnswerCall_any X =
     with_token X (px_code X TELEPHONY_ERR_WRITE_DESCRIPTOR_TOKEN_FAIL) (\<lambda>p.
        send_message X INTERFACE_ANSWER_CALL_NO_PARAM [] p
          (\<lambda>_. px_code X TELEPHONY_ERR_IPC_CONNECT_STUB_FAIL) (reply_int X))"

definition Proxy_RejectCall_any :: "('p, 's) proxy_env \<Rightarrow> ('s, int) state" where
  "Proxy_RejectCall_any X =
     with_token X (px_code X TELEPHONY_ERR_WRITE_DESCRIPTOR_TOKEN_FAIL) (\<lambda>p.
        send_message X INTERFACE_REJECT_CALL_NO_PARAM [] p
          (\<lambda>_. px_code X TELEPHONY_ERR_IPC_CONNECT_STUB_FAIL) (reply_int X))"

definition Proxy_RejectCall_type :: "('p, 's) proxy_env \<Rightarrow> int \<Rightarrow> ('s, int) state" where
  "Proxy_RejectCall_type X rejectType =
     with_token X (px_code X TELEPHONY_ERR_WRITE_DESCRIPTOR_TOKEN_FAIL) (\<lambda>p.
        send_message X INTERFACE_REJECT_CALL_WITH_TYPE [PInt32 rejectType] p
          (\<lambda>_. px_code X TELEPHONY_ERR_IPC_CONNECT_STUB_FAIL) (reply_int X))"

definition Proxy_HangUpCall_any :: "('p, 's) proxy_env \<Rightarrow> ('s, int) state" where
  "Proxy_HangUpCall_any X =
     with_token X (px_code X TELEPHONY_ERR_IPC_CONNECT_STUB_FAIL) (\<lambda>p.
        send_message X INTERFACE_DISCONNECT_CALL_NO_PARAM [] p
          (\<lambda>_. px_code X TELEPHONY_ERR_IPC_CONNECT_STUB_FAIL) (reply_int X))"

definition Proxy_EndCall :: "('p, 's) proxy_env \<Rightarrow> ('s, bool) state" where
  "Proxy_EndCall X =
     with_token X False (\<lambda>p.
        send_message X INTERFACE_END_CALL [] p
          (\<lambda>_. False) (reply_bool X))"

definition Proxy_InputDialerSpecialCode :: "('p, 's) proxy_env \<Rightarrow> string \<Rightarrow> ('s, int) state" where
  "Proxy_InputDialerSpecialCode X specialCode =
     with_token X (px_code X TELEPHONY_ERR_WRITE_DESCRIPTOR_TOKEN_FAIL) (\<lambda>p.
        send_message X INTERFACE_INPUT_DIALER_SPECIAL_CODE [PString specialCode] p
          (\<lambda>error. error) (reply_int X))"

definition Proxy_SendCallUiEvent :: "('p, 's) proxy_env \<Rightarrow> int \<Rightarrow> string \<Rightarrow> ('s, int) state" where
  "Proxy_SendCallUiEvent X callId eventName =
     with_token X (px_code X TELEPHONY_ERR_WRITE_DESCRIPTOR_TOKEN_FAIL) (\<lambda>p.
        send_message X INTERFACE_SEND_CALLUI_EVENT [PInt32 callId, PString eventName] p
          (\<lambda>_. px_code X TELEPHONY_ERR_IPC_CONNECT_STUB_FAIL) (reply_int X))"

definition Proxy_PreloadCallUi :: "('p, 's) proxy_env \<Rightarrow> bool \<Rightarrow> ('s, int) state" where
  "Proxy_PreloadCallUi X enable =
     with_token X (px_code X TELEPHONY_ERR_WRITE_DESCRIPTOR_TOKEN_FAIL) (\<lambda>p.
        send_message X INTERFACE_PRELOAD_CALLUI [PBool enable] p
          (\<lambda>_. px_code X TELEPHONY_ERR_IPC_CONNECT_STUB_FAIL) (reply_int X))"

definition Proxy_NotifyVoIPAudioStreamStart :: "('p, 's) proxy_env \<Rightarrow> int \<Rightarrow> ('s, int) state" where
  "Proxy_NotifyVoIPAudioStreamStart X uid =
     with_token X (px_code X TELEPHONY_ERR_WRITE_DESCRIPTOR_TOKEN_FAIL) (\<lambda>p.
        send_message X INTERFACE_NOTIFY_VOIP_AUDIO_STREAM_START [PInt32 uid] p
          (\<lambda>_. px_code X TELEPHONY_ERR_IPC_CONNECT_STUB_FAIL) (reply_int X))"

definition Proxy_SetCallAudioMode :: "('p, 's) proxy_env \<Rightarrow> int \<Rightarrow> int \<Rightarrow> ('s, int) state" where
  "Proxy_SetCallAudioMode X mode scenarios =
     with_token X (px_code X TELEPHONY_ERR_WRITE_DESCRIPTOR_TOKEN_FAIL) (\<lambda>p.
        send_message X INTERFACE_SET_CALL_AUDIO_MODE [PInt32 mode, PInt32 scenarios] p
          (\<lambda>error. error) (reply_int X))"

subsection \<open>Conferences, tones and numbers\<close>

definition Proxy_StartDtmf :: "('p, 's) proxy_env \<Rightarrow> int \<Rightarrow> char \<Rightarrow> ('s, int) state" where
  "Proxy_StartDtmf X callId str =
     with_token X (px_code X TELEPHONY_ERR_WRITE_DESCRIPTOR_TOKEN_FAIL) (\<lambda>p.
        send_message X INTERFACE_START_DTMF [PInt32 callId, PInt8 str] p
          (\<lambda>_. px_code X TELEPHONY_ERR_IPC_CONNECT_STUB_FAIL) (reply_int X))"

definition Proxy_StopDtmf :: "('p, 's) proxy_env \<Rightarrow> int \<Rightarrow> ('s, int) state" where
  "Proxy_StopDtmf X callId =
     with_token X (px_code X TELEPHONY_ERR_WRITE_DESCRIPTOR_TOKEN_FAIL) (\<lambda>p.
        send_message X INTERFACE_STOP_DTMF [PInt32 callId] p
          (\<lambda>_. px_code X TELEPHONY_ERR_IPC_CONNECT_STUB_FAIL) (reply_int X))"

definition Proxy_PostDialProceed :: "('p, 's) proxy_env \<Rightarrow> int \<Rightarrow> bool \<Rightarrow> ('s, int) state" where
  "Proxy_PostDialProceed X callId proceed =
     with_token X (px_code X TELEPHONY_ERR_WRITE_DESCRIPTOR_TOKEN_FAIL) (\<lambda>p.
        send_message X INTERFACE_POST_DIAL_PROCEED [PInt32 callId, PBool proceed] p
          (\<lambda>_. px_code X TELEPHONY_ERR_IPC_CONNECT_STUB_FAIL) (reply_int X))"

definition Proxy_CombineConference :: "('p, 's) proxy_env \<Rightarrow> int \<Rightarrow> ('s, int) state" where
  "Proxy_CombineConference X mainCallId =
     with_token X (px_code X TELEPHONY_ERR_WRITE_DESCRIPTOR_TOKEN_FAIL) (\<lambda>p.
        send_message X INTERFACE_COMBINE_CONFERENCE [PInt32 mainCallId] p
          (\<lambda>_. px_code X TELEPHONY_ERR_IPC_CONNECT_STUB_FAIL) (reply_int X))"

definition Proxy_SeparateConference :: "('p, 's) proxy_env \<Rightarrow> int \<Rightarrow> ('s, int) state" where
  "Proxy_SeparateConference X callId =
     with_token X (px_code X TELEPHONY_ERR_WRITE_DESCRIPTOR_TOKEN_FAIL) (\<lambda>p.
        send_message X INTERFACE_SEPARATE_CONFERENCE [PInt32 callId] p
          (\<lambda>_. px_code X TELEPHONY_ERR_IPC_CONNECT_STUB_FAIL) (reply_int X))"

definition Proxy_KickOutFromConference :: "('p, 's) proxy_env \<Rightarrow> int \<Rightarrow> ('s, int) state" where
  "Proxy_KickOutFromConference X callId =
     with_token X (px_code X TELEPHONY_ERR_WRITE_DESCRIPTOR_TOKEN_FAIL) (\<lambda>p.
        send_message X INTERFACE_KICK_OUT_CONFERENCE [PInt32 callId] p
          (\<lambda>_. px_code X TELEPHONY_ERR_IPC_CONNECT_STUB_FAIL) (reply_int X))"

definition Proxy_JoinConference :: "('p, 's) proxy_env \<Rightarrow> int \<Rightarrow> string list \<Rightarrow> ('s, int) state" where
  "Proxy_JoinConference X callId numbers =
     with_token X (px_code X TELEPHONY_ERR_WRITE_DESCRIPTOR_TOKEN_FAIL) (\<lambda>p.
        send_message X INTERFACE_JOIN_CONFERENCE [PInt32 callId, PString16Vector numbers] p
          (\<lambda>_. px_code X TELEPHONY_ERR_IPC_CONNECT_STUB_FAIL) (reply_int X))"

definition Proxy_GetMainCallId :: "('p, 's) proxy_env \<Rightarrow> int \<Rightarrow> int \<Rightarrow> ('s, int \<times> int) state" where
  "Proxy_GetMainCallId X callId mainCallId =
     with_token X (px_code X TELEPHONY_ERR_WRITE_DESCRIPTOR_TOKEN_FAIL, mainCallId) (\<lambda>p.
        send_message X INTERFACE_GET_MAINID [PInt32 callId] p
          (\<lambda>_. (px_code X TELEPHONY_ERR_IPC_CONNECT_STUB_FAIL, mainCallId)) (reply_with X mainCallId (reply_int X)))"

definition Proxy_GetSubCallIdList :: "('p, 's) proxy_env \<Rightarrow> int \<Rightarrow> string list \<Rightarrow> ('s, int \<times> string list) state" where
  "Proxy_GetSubCallIdList X callId callIdList =
     with_token X (px_code X TELEPHONY_ERR_WRITE_DESCRIPTOR_TOKEN_FAIL, callIdList) (\<lambda>p.
        send_message X INTERFACE_GET_SUBCALL_LIST_ID [PInt32 callId] p
          (\<lambda>_. (px_code X TELEPHONY_ERR_IPC_CONNECT_STUB_FAIL, callIdList)) (reply_with X callIdList (reply_string16s X callIdList)))"

definition Proxy_GetCallIdListForConference :: "('p, 's) proxy_env \<Rightarrow> int \<Rightarrow> string list \<Rightarrow> ('s, int \<times> string list) state" where
  "Proxy_GetCallIdListForConference X callId callIdList =
     with_token X (px_code X TELEPHONY_ERR_WRITE_DESCRIPTOR_TOKEN_FAIL, callIdList) (\<lambda>p.
        send_message X INTERFACE_GET_CALL_LIST_ID_FOR_CONFERENCE [PInt32 callId] p
          (\<lambda>_. (px_code X TELEPHONY_ERR_IPC_CONNECT_STUB_FAIL, callIdList)) (reply_with X callIdList (reply_string16s X callIdList)))"

definition Proxy_IsEmergencyPhoneNumber :: "('p, 's) proxy_env \<Rightarrow> string \<Rightarrow> int \<Rightarrow> bool \<Rightarrow> ('s, int \<times> bool) state" where
  "Proxy_IsEmergencyPhoneNumber X num slotId enabled =
     with_token X (px_code X TELEPHONY_ERR_WRITE_DESCRIPTOR_TOKEN_FAIL, enabled) (\<lambda>p.
        if num = [] then State_Monad.return (px_code X TELEPHONY_ERR_ARGUMENT_INVALID, enabled)
        else send_message X INTERFACE_IS_EMERGENCY_NUMBER [PString16 num, PInt32 slotId] p
          (\<lambda>_. (px_code X TELEPHONY_ERR_IPC_CONNECT_STUB_FAIL, enabled)) (reply_with X enabled (reply_bool X)))"

definition Proxy_FormatPhoneNumber :: "('p, 's) proxy_env \<Rightarrow> string \<Rightarrow> string \<Rightarrow> string \<Rightarrow> ('s, int \<times> string) state" where
  "Proxy_FormatPhoneNumber X num countryCode formatNumber =
     with_token X (px_code X TELEPHONY_ERR_WRITE_DESCRIPTOR_TOKEN_FAIL, formatNumber) (\<lambda>p.
        if num = [] \<or> countryCode = [] then State_Monad.return (px_code X TELEPHONY_ERR_ARGUMENT_INVALID, formatNumber)
        else send_message X INTERFACE_IS_FORMAT_NUMBER [PString16 num, PString16 countryCode] p
          (\<lambda>_. (px_code X TELEPHONY_ERR_IPC_CONNECT_STUB_FAIL, formatNumber)) (reply_with X formatNumber (reply_string16 X)))"

definition Proxy_FormatPhoneNumberToE164 :: "('p, 's) proxy_env \<Rightarrow> string \<Rightarrow> string \<Rightarrow> string \<Rightarrow> ('s, int \<times> string) state" where
  "Proxy_FormatPhoneNumberToE164 X num countryCode formatNumber =
     with_token X (px_code X TELEPHONY_ERR_WRITE_DESCRIPTOR_TOKEN_FAIL, formatNumber) (\<lambda>p.
        if num = [] \<or> countryCode = [] then State_Monad.return (px_code X TELEPHONY_ERR_ARGUMENT_INVALID, formatNumber)
        else send_message X INTERFACE_IS_FORMAT_NUMBER_E164 [PString16 num, PString16 countryCode] p
          (\<lambda>_. (px_code X TELEPHONY_ERR_IPC_CONNECT_STUB_FAIL, formatNumber)) (reply_with X formatNumber (reply_string16 X)))"

definition Proxy_HasDistributedCommunicationCapability :: "('p, 's) proxy_env \<Rightarrow> ('s, bool) state" where
  "Proxy_HasDistributedCommunicationCapability X =
     with_token X False (\<lambda>p.
        send_message X INTERFACE_HAS_DISTRIBUTED_COMMUNICATION_CAPABILITY [] p
          (\<lambda>_. False) (reply_bool X))"

end
