(* ===== verification/Service_Proxy_Media.thy ===== *)
theory Service_Proxy_Media
  imports Service_Proxy
begin

text \<open>
  The other operations of the proxy
  (\<^verbatim>\<open>frameworks/native/src/call_manager_service_proxy.cpp\<close>), in the order of the handlers
  they reach.
\<close>

subsection \<open>Settings\<close>

definition Proxy_GetCallWaiting :: "('p, 's) proxy_env \<Rightarrow> int \<Rightarrow> ('s, int) state" where
  "Proxy_GetCallWaiting X slotId =
     with_token X (px_code X TELEPHONY_ERR_WRITE_DESCRIPTOR_TOKEN_FAIL) (\<lambda>p.
        send_message X INTERFACE_GET_CALL_WAITING [PInt32 slotId] p
          (\<lambda>error. error) (reply_int X))"

definition Proxy_SetCallWaiting :: "('p, 's) proxy_env \<Rightarrow> int \<Rightarrow> bool \<Rightarrow> ('s, int) state" where
  "Proxy_SetCallWaiting X slotId activate =
     with_token X (px_code X TELEPHONY_ERR_WRITE_DESCRIPTOR_TOKEN_FAIL) (\<lambda>p.
        send_message X INTERFACE_SET_CALL_WAITING [PInt32 slotId, PBool activate] p
          (\<lambda>error. error) (reply_int X))"

definition Proxy_GetCallRestriction :: "('p, 's) proxy_env \<Rightarrow> int \<Rightarrow> int \<Rightarrow> ('s, int) state" where
  "Proxy_GetCallRestriction X slotId type =
     with_token X (px_code X TELEPHONY_ERR_WRITE_DESCRIPTOR_TOKEN_FAIL) (\<lambda>p.
        send_message X INTERFACE_GET_CALL_RESTRICTION [PInt32 slotId, PInt32 type] p
          (\<lambda>error. error) (reply_int X))"

definition Proxy_SetCallRestriction :: "('p, 's) proxy_env \<Rightarrow> int \<Rightarrow> CallRestrictionInfo \<Rightarrow> ('s, int) state" where
  "Proxy_SetCallRestriction X slotId details =
     with_token X (px_code X TELEPHONY_ERR_WRITE_DESCRIPTOR_TOKEN_FAIL) (\<lambda>p.
        send_message X INTERFACE_SET_CALL_RESTRICTION [PInt32 slotId, PRestriction details] p
          (\<lambda>error. error) (reply_int X))"

definition Proxy_GetCallTransferInfo :: "('p, 's) proxy_env \<Rightarrow> int \<Rightarrow> int \<Rightarrow> ('s, int) state" where
  "Proxy_GetCallTransferInfo X slotId type =
     with_token X (px_code X TELEPHONY_ERR_WRITE_DESCRIPTOR_TOKEN_FAIL) (\<lambda>p.
        send_message X INTERFACE_GET_CALL_TRANSFER [PInt32 slotId, PInt32 type] p
          (\<lambda>error. error) (reply_int X))"

definition Proxy_SetCallTransferInfo :: "('p, 's) proxy_env \<Rightarrow> int \<Rightarrow> CallTransferInfo \<Rightarrow> ('s, int) state" where
  "Proxy_SetCallTransferInfo X slotId details =
     with_token X (px_code X TELEPHONY_ERR_WRITE_DESCRIPTOR_TOKEN_FAIL) (\<lambda>p.
        send_message X INTERFACE_SET_CALL_TRANSFER [PInt32 slotId, PTransfer details] p
          (\<lambda>error. error) (reply_int X))"

definition Proxy_GetCallTransferInfo_number :: "('p, 's) proxy_env \<Rightarrow> string \<Rightarrow> int \<Rightarrow> ('s, int) state" where
  "Proxy_GetCallTransferInfo_number X num type =
     with_token X (px_code X TELEPHONY_ERR_WRITE_DESCRIPTOR_TOKEN_FAIL) (\<lambda>p.
        if num = [] \<or> length num > ACCOUNT_NUMBER_MAX_LENGTH then State_Monad.return (px_code X TELEPHONY_ERR_ARGUMENT_INVALID)
        else send_message X INTERFACE_GET_CALL_TRANSFER_BY_NUMBER [PString num, PInt32 type] p
          (\<lambda>error. error) (reply_int X))"

definition Proxy_CloseUnFinishedUssd :: "('p, 's) proxy_env \<Rightarrow> int \<Rightarrow> ('s, int) state" where
  "Proxy_CloseUnFinishedUssd X slotId =
     with_token X (px_code X TELEPHONY_ERR_WRITE_DESCRIPTOR_TOKEN_FAIL) (\<lambda>p.
        send_message X INTERFACE_CLOSE_UNFINISHED_USSD [PInt32 slotId] p
          (\<lambda>error. error) (reply_int X))"

definition Proxy_SendUssdResponse :: "('p, 's) proxy_env \<Rightarrow> int \<Rightarrow> string \<Rightarrow> ('s, int) state" where
  "Proxy_SendUssdResponse X slotId content =
     with_token X (px_code X TELEPHONY_ERR_WRITE_DESCRIPTOR_TOKEN_FAIL) (\<lambda>p.
        send_message X INTERFACE_SEND_USSD_RESPONSE [PInt32 slotId, PString content] p
          (\<lambda>_. px_code X TELEPHONY_ERR_IPC_CONNECT_STUB_FAIL) (reply_int X))"

definition Proxy_SetCallPreferenceMode :: "('p, 's) proxy_env \<Rightarrow> int \<Rightarrow> int \<Rightarrow> ('s, int) state" where
  "Proxy_SetCallPreferenceMode X slotId mode =
     with_token X (px_code X TELEPHONY_ERR_WRITE_DESCRIPTOR_TOKEN_FAIL) (\<lambda>p.
        send_message X INTERFACE_SETCALL_PREFERENCEMODE [PInt32 slotId, PInt32 mode] p
          (\<lambda>error. error) (reply_int X))"

definition Proxy_GetImsConfig :: "('p, 's) proxy_env \<Rightarrow> int \<Rightarrow> int \<Rightarrow> ('s, int) state" where
  "Proxy_GetImsConfig X slotId item =
     with_token X (px_code X TELEPHONY_ERR_IPC_CONNECT_STUB_FAIL) (\<lambda>p.
        send_message X INTERFACE_GET_IMS_CONFIG [PInt32 slotId, PInt32 item] p
          (\<lambda>_. px_code X TELEPHONY_ERR_IPC_CONNECT_STUB_FAIL) (reply_int X))"

definition Proxy_SetImsConfig :: "('p, 's) proxy_env \<Rightarrow> int \<Rightarrow> int \<Rightarrow> string \<Rightarrow> ('s, int) state" where
  "Proxy_SetImsConfig X slotId item val =
     with_token X (px_code X TELEPHONY_ERR_IPC_CONNECT_STUB_FAIL) (\<lambda>p.
        send_message X INTERFACE_SET_IMS_CONFIG [PInt32 slotId, PInt32 item, PString16 val] p
          (\<lambda>error. error) (reply_int X))"

definition Proxy_GetImsFeatureValue :: "('p, 's) proxy_env \<Rightarrow> int \<Rightarrow> int \<Rightarrow> ('s, int) state" where
  "Proxy_GetImsFeatureValue X slotId type =
     with_token X (px_code X TELEPHONY_ERR_IPC_CONNECT_STUB_FAIL) (\<lambda>p.
        send_message X INTERFACE_GET_IMS_FEATURE_VALUE [PInt32 slotId, PInt32 type] p
          (\<lambda>error. error) (reply_int X))"

definition Proxy_SetImsFeatureValue :: "('p, 's) proxy_env \<Rightarrow> int \<Rightarrow> int \<Rightarrow> int \<Rightarrow> ('s, int) state" where
  "Proxy_SetImsFeatureValue X slotId type val =
     with_token X (px_code X TELEPHONY_ERR_IPC_CONNECT_STUB_FAIL) (\<lambda>p.
        send_message X INTERFACE_SET_IMS_FEATURE_VALUE [PInt32 slotId, PInt32 type, PInt32 val] p
          (\<lambda>error. error) (reply_int X))"

definition Proxy_EnableImsSwitch :: "('p, 's) proxy_env \<Rightarrow> int \<Rightarrow> ('s, int) state" where
  "Proxy_EnableImsSwitch X slotId =
     with_token X (px_code X TELEPHONY_ERR_IPC_CONNECT_STUB_FAIL) (\<lambda>p.
        send_message X INTERFACE_ENABLE_VOLTE [PInt32 slotId] p
          (\<lambda>_. px_code X TELEPHONY_ERR_IPC_CONNECT_STUB_FAIL) (reply_int X))"

definition Proxy_DisableImsSwitch :: "('p, 's) proxy_env \<Rightarrow> int \<Rightarrow> ('s, int) state" where
  "Proxy_DisableImsSwitch X slotId =
     with_token X (px_code X TELEPHONY_ERR_IPC_CONNECT_STUB_FAIL) (\<lambda>p.
        send_message X INTERFACE_DISABLE_VOLTE [PInt32 slotId] p
          (\<lambda>_. px_code X TELEPHONY_ERR_IPC_CONNECT_STUB_FAIL) (reply_int X))"

definition Proxy_SetVoNRState :: "('p, 's) proxy_env \<Rightarrow> int \<Rightarrow> int \<Rightarrow> ('s, int) state" where
  "Proxy_SetVoNRState X slotId state =
     with_token X (px_code X TELEPHONY_ERR_IPC_CONNECT_STUB_FAIL) (\<lambda>p.
        send_message X INTERFACE_SET_VONR_STATE [PInt32 slotId, PInt32 state] p
          (\<lambda>_. px_code X TELEPHONY_ERR_IPC_CONNECT_STUB_FAIL) (reply_int X))"

definition Proxy_SetRttCapability :: "('p, 's) proxy_env \<Rightarrow> int \<Rightarrow> bool \<Rightarrow> ('s, int) state" where
  "Proxy_SetRttCapability X slotId enabled =
     with_token X (px_code X TELEPHONY_ERR_IPC_CONNECT_STUB_FAIL) (\<lambda>p.
        send_message X INTERFACE_SET_RTT_CAPABILITY_SETTING [PInt32 slotId, PBool enabled] p
          (\<lambda>_. px_code X TELEPHONY_ERR_IPC_CONNECT_STUB_FAIL) (reply_int X))"

definition Proxy_CheckCallRecordingPermission :: "('p, 's) proxy_env \<Rightarrow> string \<Rightarrow> string \<Rightarrow> ('s, bool) state" where
  "Proxy_CheckCallRecordingPermission X cellularRecordPhoneNum cellularRecordToken =
     with_token X False (\<lambda>p.
        send_message X INTERFACE_CHECK_CALL_RECORDING_PERMISSION [PString cellularRecordPhoneNum, PString cellularRecordToken] p
          (\<lambda>_. False) (reply_bool X))"

definition Proxy_SetCallRestrictionPassword ::
  "('p, 's) proxy_env \<Rightarrow> int \<Rightarrow> int \<Rightarrow> string option \<Rightarrow> string option \<Rightarrow> ('s, int) state" where
  "Proxy_SetCallRestrictionPassword X slotId fac oldPassword newPassword =
     with_token X (px_code X TELEPHONY_ERR_WRITE_DESCRIPTOR_TOKEN_FAIL) (\<lambda>p.
        case (oldPassword, newPassword) of
          (Some (o1 # old), Some (n1 # new)) \<Rightarrow>
            send_message X INTERFACE_SET_CALL_RESTRICTION_PASSWORD
              [PInt32 slotId, PInt32 fac, PCString (o1 # old), PCString (n1 # new)] p
              (\<lambda>error. error) (reply_int X)
        | _ \<Rightarrow> State_Monad.return (px_code X TELEPHONY_ERR_ARGUMENT_INVALID))"

definition Proxy_CanSetCallTransferTime ::
  "('p, 's) proxy_env \<Rightarrow> int \<Rightarrow> bool \<Rightarrow> ('s, int \<times> bool) state" where
  "Proxy_CanSetCallTransferTime X slotId result =
     with_token X (px_code X TELEPHONY_ERR_WRITE_DESCRIPTOR_TOKEN_FAIL, result) (\<lambda>p.
        let (ok, p) = mp_write (px_parcel X) (PInt32 slotId) p in
        if \<not> ok then State_Monad.return (px_code X TELEPHONY_ERR_WRITE_DATA_FAIL, result)
        else let (ok, p) = mp_write (px_parcel X) (PBool result) p in
        if \<not> ok then State_Monad.return (px_code X TELEPHONY_ERR_WRITE_DATA_FAIL, result)
        else send_message X INTERFACE_CAN_SET_CALL_TRANSFER_TIME [] p
          (\<lambda>_. (px_code X TELEPHONY_ERR_IPC_CONNECT_STUB_FAIL, result))
          (\<lambda>r. (reply_int X (after_bool X r), reply_bool X r)))"

definition Proxy_IsImsSwitchEnabled :: "('p, 's) proxy_env \<Rightarrow> int \<Rightarrow> bool \<Rightarrow> ('s, int \<times> bool) state" where
  "Proxy_IsImsSwitchEnabled X slotId enabled =
     with_token X (px_code X TELEPHONY_ERR_IPC_CONNECT_STUB_FAIL, enabled) (\<lambda>p.
        send_message X INTERFACE_IS_VOLTE_ENABLED [PInt32 slotId] p
          (\<lambda>_. (px_code X TELEPHONY_ERR_IPC_CONNECT_STUB_FAIL, enabled))
          (\<lambda>r. (reply_int X (after_bool X r), reply_bool X r)))"

definition Proxy_GetVoNRState :: "('p, 's) proxy_env \<Rightarrow> int \<Rightarrow> int \<Rightarrow> ('s, int \<times> int) state" where
  "Proxy_GetVoNRState X slotId state =
     with_token X (px_code X TELEPHONY_ERR_IPC_CONNECT_STUB_FAIL, state) (\<lambda>p.
        send_message X INTERFACE_GET_VONR_STATE [PInt32 slotId] p
          (\<lambda>_. (px_code X TELEPHONY_ERR_IPC_CONNECT_STUB_FAIL, state))
          (\<lambda>r. (reply_int X (after_int X r), reply_int X r)))"

subsection \<open>Sound and video\<close>

definition Proxy_SetMuted :: "('p, 's) proxy_env \<Rightarrow> bool \<Rightarrow> ('s, int) state" where
  "Proxy_SetMuted X isMute =
     with_token X (px_code X TELEPHONY_ERR_WRITE_DESCRIPTOR_TOKEN_FAIL) (\<lambda>p.
        send_message X INTERFACE_SET_MUTE [PBool isMute] p
          (\<lambda>_. px_code X TELEPHONY_ERR_IPC_CONNECT_STUB_FAIL) (reply_int X))"

definition Proxy_MuteRinger :: "('p, 's) proxy_env \<Rightarrow> ('s, int) state" where
  "Proxy_MuteRinger X = SendRequest_code X INTERFACE_MUTE_RINGER"

definition Proxy_SetAudioDevice :: "('p, 's) proxy_env \<Rightarrow> AudioDevice \<Rightarrow> ('s, int) state" where
  "Proxy_SetAudioDevice X audioDevice =
     with_token X (px_code X TELEPHONY_ERR_WRITE_DESCRIPTOR_TOKEN_FAIL) (\<lambda>p.
        send_message X INTERFACE_SET_AUDIO_DEVICE [PAudioDevice audioDevice] p
          (\<lambda>_. px_code X TELEPHONY_ERR_IPC_CONNECT_STUB_FAIL) (reply_int X))"

definition Proxy_ReportAudioDeviceInfo :: "('p, 's) proxy_env \<Rightarrow> ('s, int) state" where
  "Proxy_ReportAudioDeviceInfo X = SendRequest_code X INTERFACE_REPORT_AUDIO_DEVICE_INFO"

definition Proxy_ControlCamera :: "('p, 's) proxy_env \<Rightarrow> int \<Rightarrow> string \<Rightarrow> ('s, int) state" where
  "Proxy_ControlCamera X callId cameraId =
     with_token X (px_code X TELEPHONY_ERR_WRITE_DESCRIPTOR_TOKEN_FAIL) (\<lambda>p.
        send_message X INTERFACE_CTRL_CAMERA [PInt32 callId, PString16 cameraId] p
          (\<lambda>error. error) (reply_int X))"

definition Proxy_SetCameraZoom :: "('p, 's) proxy_env \<Rightarrow> rat \<Rightarrow> ('s, int) state" where
  "Proxy_SetCameraZoom X zoomRatio =
     with_token X (px_code X TELEPHONY_ERR_WRITE_DESCRIPTOR_TOKEN_FAIL) (\<lambda>p.
        send_message X INTERFACE_SET_CAMERA_ZOOM [PFloat zoomRatio] p
          (\<lambda>error. error) (reply_int X))"

definition Proxy_SetPausePicture :: "('p, 's) proxy_env \<Rightarrow> int \<Rightarrow> string \<Rightarrow> ('s, int) state" where
  "Proxy_SetPausePicture X callId path =
     with_token X (px_code X TELEPHONY_ERR_WRITE_DESCRIPTOR_TOKEN_FAIL) (\<lambda>p.
        send_message X INTERFACE_SET_PAUSE_IMAGE [PInt32 callId, PString16 path] p
          (\<lambda>error. error) (reply_int X))"

definition Proxy_SetDeviceDirection :: "('p, 's) proxy_env \<Rightarrow> int \<Rightarrow> int \<Rightarrow> ('s, int) state" where
  "Proxy_SetDeviceDirection X callId rotation =
     with_token X (px_code X TELEPHONY_ERR_WRITE_DESCRIPTOR_TOKEN_FAIL) (\<lambda>p.
        send_message X INTERFACE_SET_DEVICE_DIRECTION [PInt32 callId, PInt32 rotation] p
          (\<lambda>error. error) (reply_int X))"

definition Proxy_CancelCallUpgrade :: "('p, 's) proxy_env \<Rightarrow> int \<Rightarrow> ('s, int) state" where
  "Proxy_CancelCallUpgrade X callId =
     with_token X (px_code X TELEPHONY_ERR_WRITE_DESCRIPTOR_TOKEN_FAIL) (\<lambda>p.
        send_message X INTERFACE_CANCEL_CALL_UPGRADE [PInt32 callId] p
          (\<lambda>error. error) (reply_int X))"

definition Proxy_RequestCameraCapabilities :: "('p, 's) proxy_env \<Rightarrow> int \<Rightarrow> ('s, int) state" where
  "Proxy_RequestCameraCapabilities X callId =
     with_token X (px_code X TELEPHONY_ERR_WRITE_DESCRIPTOR_TOKEN_FAIL) (\<lambda>p.
        send_message X INTERFACE_REQUEST_CAMERA_CAPABILITIES [PInt32 callId] p
          (\<lambda>error. error) (reply_int X))"

definition Proxy_UpdateImsCallMode :: "('p, 's) proxy_env \<Rightarrow> int \<Rightarrow> int \<Rightarrow> ('s, int) state" where
  "Proxy_UpdateImsCallMode X callId mode =
     with_token X (px_code X TELEPHONY_ERR_IPC_CONNECT_STUB_FAIL) (\<lambda>p.
        send_message X INTERFACE_UPDATE_CALL_MEDIA_MODE [PInt32 callId, PUint32 mode] p
          (\<lambda>_. px_code X TELEPHONY_ERR_IPC_CONNECT_STUB_FAIL) (reply_int X))"

definition Proxy_UpdateImsRttCallMode :: "('p, 's) proxy_env \<Rightarrow> int \<Rightarrow> int \<Rightarrow> ('s, int) state" where
  "Proxy_UpdateImsRttCallMode X callId mode =
     with_token X (px_code X TELEPHONY_ERR_WRITE_DESCRIPTOR_TOKEN_FAIL) (\<lambda>p.
        send_message X INTERFACE_UPDATE_RTT_CALL_MODE [PInt32 callId, PInt32 mode] p
          (\<lambda>_. px_code X TELEPHONY_ERR_IPC_CONNECT_STUB_FAIL) (reply_int X))"

definition Proxy_SendRttMessage :: "('p, 's) proxy_env \<Rightarrow> int \<Rightarrow> string \<Rightarrow> ('s, int) state" where
  "Proxy_SendRttMessage X callId rttMessage =
     with_token X (px_code X TELEPHONY_ERR_WRITE_DESCRIPTOR_TOKEN_FAIL) (\<lambda>p.
        send_message X INTERFACE_SEND_RTT_MESSAGE [PInt32 callId, PString rttMessage] p
          (\<lambda>_. px_code X TELEPHONY_ERR_IPC_CONNECT_STUB_FAIL) (reply_int X))"

text \<open>A surface without a producer is not written.\<close>

definition Proxy_SetPreviewWindow :: "('p, 's) proxy_env \<Rightarrow> int \<Rightarrow> string \<Rightarrow> bool \<Rightarrow> ('s, int) state" where
  "Proxy_SetPreviewWindow X callId surfaceId producer =
     with_token X (px_code X TELEPHONY_ERR_WRITE_DESCRIPTOR_TOKEN_FAIL) (\<lambda>p.
        send_message X INTERFACE_SET_PREVIEW_WINDOW
          ([PInt32 callId, PString surfaceId] @ (if producer then [PRemoteObject True] else [])) p
          (\<lambda>error. error) (reply_int X))"

definition Proxy_SetDisplayWindow :: "('p, 's) proxy_env \<Rightarrow> int \<Rightarrow> string \<Rightarrow> bool \<Rightarrow> ('s, int) state" where
  "Proxy_SetDisplayWindow X callId surfaceId producer =
     with_token X (px_code X TELEPHONY_ERR_WRITE_DESCRIPTOR_TOKEN_FAIL) (\<lambda>p.
        send_message X INTERFACE_SET_DISPLAY_WINDOW
          ([PInt32 callId, PString surfaceId] @ (if producer then [PRemoteObject True] else [])) p
          (\<lambda>error. error) (reply_int X))"

subsection \<open>OTT and VoIP applications\<close>

definition Proxy_ReportOttCallEventInfo :: "('p, 's) proxy_env \<Rightarrow> OttCallEventInfo \<Rightarrow> ('s, int) state" where
  "Proxy_ReportOttCallEventInfo X eventInfo =
     with_token X (px_code X TELEPHONY_ERR_WRITE_DESCRIPTOR_TOKEN_FAIL) (\<lambda>p.
        send_message X INTERFACE_REPORT_OTT_CALL_EVENT_INFO [POttEvent eventInfo] p
          (\<lambda>error. error) (reply_int X))"

definition Proxy_SetVoIPCallState :: "('p, 's) proxy_env \<Rightarrow> int \<Rightarrow> ('s, int) state" where
  "Proxy_SetVoIPCallState X state =
     with_token X (px_code X TELEPHONY_ERR_WRITE_DESCRIPTOR_TOKEN_FAIL) (\<lambda>p.
        send_message X INTERFACE_SET_VOIP_CALL_STATE [PInt32 state] p
          (\<lambda>_. px_code X TELEPHONY_ERR_IPC_CONNECT_STUB_FAIL) (reply_int X))"

definition Proxy_SetVoIPCallInfo :: "('p, 's) proxy_env \<Rightarrow> int \<Rightarrow> int \<Rightarrow> string \<Rightarrow> ('s, int) state" where
  "Proxy_SetVoIPCallInfo X callId state phoneNumber =
     with_token X (px_code X TELEPHONY_ERR_WRITE_DESCRIPTOR_TOKEN_FAIL) (\<lambda>p.
        send_message X INTERFACE_SET_VOIP_CALL_INFO [PInt32 callId, PInt32 state, PString phoneNumber] p
          (\<lambda>_. px_code X TELEPHONY_ERR_IPC_CONNECT_STUB_FAIL) (reply_int X))"

definition Proxy_ReportOttCallDetailsInfo ::
  "('p, 's) proxy_env \<Rightarrow> OttCallDetailsInfo list \<Rightarrow> ('s, int) state" where
  "Proxy_ReportOttCallDetailsInfo X ottVec =
     with_token X (px_code X TELEPHONY_ERR_WRITE_DESCRIPTOR_TOKEN_FAIL) (\<lambda>p.
        if ottVec = [] then State_Monad.return (px_code X TELEPHONY_ERR_ARGUMENT_INVALID)
        else send_message X INTERFACE_REPORT_OTT_CALL_DETAIL_INFO
          (PInt32 (int (length ottVec)) # map POttDetails ottVec) p (\<lambda>error. error) (reply_int X))"

definition Proxy_GetVoIPCallState :: "('p, 's) proxy_env \<Rightarrow> int \<Rightarrow> ('s, int \<times> int) state" where
  "Proxy_GetVoIPCallState X state =
     with_token X (px_code X TELEPHONY_ERR_WRITE_DESCRIPTOR_TOKEN_FAIL, state) (\<lambda>p.
        send_message X INTERFACE_GET_VOIP_CALL_STATE [] p
          (\<lambda>_. (px_code X TELEPHONY_ERR_IPC_CONNECT_STUB_FAIL, state))
          (\<lambda>r. (reply_int X (after_int X r), reply_int X r)))"

definition Proxy_GetVoIPCallInfo ::
  "('p, 's) proxy_env \<Rightarrow> int \<times> int \<times> string \<Rightarrow> ('s, int \<times> int \<times> int \<times> string) state" where
  "Proxy_GetVoIPCallInfo X given =
     with_token X (px_code X TELEPHONY_ERR_WRITE_DESCRIPTOR_TOKEN_FAIL, given) (\<lambda>p.
        send_message X INTERFACE_GET_VOIP_CALL_INFO [] p
          (\<lambda>_. (px_code X TELEPHONY_ERR_IPC_CONNECT_STUB_FAIL, given))
          (\<lambda>r. let r1 = after_int X r; r2 = after_int X r1; r3 = after_string X r2 in
               (reply_int X r3, reply_int X r, reply_int X r1, reply_string X r2)))"

subsection \<open>Policies, notifications and Bluetooth\<close>

definition Proxy_RemoveMissedIncomingCallNotification :: "('p, 's) proxy_env \<Rightarrow> ('s, int) state" where
  "Proxy_RemoveMissedIncomingCallNotification X =
     with_token X (px_code X TELEPHONY_ERR_WRITE_DESCRIPTOR_TOKEN_FAIL) (\<lambda>p.
        send_message X INTERFACE_CANCEL_MISSED_INCOMING_CALL_NOTIFICATION [] p
          (\<lambda>error. error) (reply_int X))"

definition Proxy_SetRegMmiCodeCallbackState :: "('p, 's) proxy_env \<Rightarrow> bool \<Rightarrow> ('s, int) state" where
  "Proxy_SetRegMmiCodeCallbackState X isReg =
     with_token X (px_code X TELEPHONY_ERR_WRITE_DESCRIPTOR_TOKEN_FAIL) (\<lambda>p.
        send_message X INTERFACE_SET_REG_MMI_CODE_CALLBACK_STATE [PBool isReg] p
          (\<lambda>_. px_code X TELEPHONY_ERR_IPC_CONNECT_STUB_FAIL) (reply_int X))"

definition Proxy_SetCallPolicyInfo :: "('p, 's) proxy_env \<Rightarrow> bool \<Rightarrow> string list \<Rightarrow> bool \<Rightarrow> string list \<Rightarrow> ('s, int) state" where
  "Proxy_SetCallPolicyInfo X isDialingTrustlist dialing isIncomingTrustlist incoming =
     with_token X (px_code X TELEPHONY_ERR_WRITE_DESCRIPTOR_TOKEN_FAIL) (\<lambda>p.
        send_message X INTERFACE_SET_CALL_POLICY_INFO [PBool isDialingTrustlist, PStringVector dialing, PBool isIncomingTrustlist, PStringVector incoming] p
          (\<lambda>error. error) (reply_int X))"

text \<open>Of an object that is read the model keeps whether there is one.\<close>

definition Proxy_GetProxyObjectPtr :: "('p, 's) proxy_env \<Rightarrow> int \<Rightarrow> ('s, bool) state" where
  "Proxy_GetProxyObjectPtr X proxyType =
     with_token X False (\<lambda>p.
        send_message X INTERFACE_GET_PROXY_OBJECT_PTR [PInt32 proxyType] p (\<lambda>_. False) (reply_object X))"

definition Proxy_RegisterBluetoothCallManagerCallbackPtr ::
  "('p, 's) proxy_env \<Rightarrow> int \<Rightarrow> string \<Rightarrow> ('s, bool) state" where
  "Proxy_RegisterBluetoothCallManagerCallbackPtr X phoneIndex macAddress =
     with_token X False (\<lambda>p.
        send_message X INTERFACE_BLUETOOTH_REGISTER_CALLBACKPTR [PInt32 phoneIndex, PString macAddress] p
          (\<lambda>_. False) (reply_object X))"

definition Proxy_RegisterTransferController :: "('p, 's) proxy_env \<Rightarrow> bool \<Rightarrow> ('s, int) state" where
  "Proxy_RegisterTransferController X callback =
     (if \<not> callback then State_Monad.return (px_code X TELEPHONY_ERR_ARGUMENT_INVALID)
      else with_token X (px_code X TELEPHONY_ERR_WRITE_DESCRIPTOR_TOKEN_FAIL) (\<lambda>p.
        send_message X INTERFACE_REGISTER_TRANSFER_CONTROLLER [PRemoteObject True] p
          (\<lambda>_. px_code X TELEPHONY_ERR_IPC_CONNECT_STUB_FAIL) (reply_int X)))"

definition MAX_CONTACT_NAME_LEN :: nat where "MAX_CONTACT_NAME_LEN = 255"

definition Proxy_UnRegisterTransferController :: "('p, 's) proxy_env \<Rightarrow> ('s, int) state" where
  "Proxy_UnRegisterTransferController X = SendRequest_code X INTERFACE_UNREGISTER_TRANSFER_CONTROLLER"

definition Proxy_NotifyTransferCallContact :: "('p, 's) proxy_env \<Rightarrow> string \<Rightarrow> ('s, int) state" where
  "Proxy_NotifyTransferCallContact X contactName =
     with_token X (px_code X TELEPHONY_ERR_WRITE_DESCRIPTOR_TOKEN_FAIL) (\<lambda>p.
        if contactName = [] \<or> length contactName > MAX_CONTACT_NAME_LEN then State_Monad.return (px_code X TELEPHONY_ERR_ARGUMENT_INVALID)
        else send_message X INTERFACE_NOTIFY_TRANSFER_CALL_CONTACT [PString contactName] p
          (\<lambda>_. px_code X TELEPHONY_ERR_IPC_CONNECT_STUB_FAIL) (reply_int X))"

end
