(* ===== verification/Ipc_Properties.thy ===== *)
theory Ipc_Properties
  imports Service_Proxy_Media
begin

text \<open>
  The two ends of the messages together: what an application asks of its proxy is what the
  service is asked, and what the application is told of the answer.  The transport is
  assumed to hand the data to the handler and to return its status and its reply
  (\<open>wired\<close>), the parcel to obey \<open>parcel_laws\<close>.
\<close>

subsection \<open>The way of a message\<close>

definition deliver :: "'p ipc_env \<Rightarrow> caller \<Rightarrow> int \<Rightarrow> 'p \<Rightarrow> (manager, int \<times> 'p) state" where
  "deliver I c cmd data = State (\<lambda>g.
     let (r, x) = run_state (OnRemoteRequest I c cmd)
                    \<lparr>x_data = data, x_reply = mp_empty (ie_parcel I), x_manager = g\<rparr>
     in ((r, x_reply x), x_manager x))"

definition wired :: "('p, manager) proxy_env \<Rightarrow> 'p ipc_env \<Rightarrow> caller \<Rightarrow> bool" where
  "wired X I c \<longleftrightarrow> px_parcel X = ie_parcel I \<and> px_remote X \<and> px_send X = deliver I c \<and> px_code X = ie_code I"

lemma parcel_next:
  assumes "parcel_laws M items" "items p \<noteq> []" "kind_of (hd (items p)) = k"
  shows "fst (mp_read M k p) = Some (hd (items p))" "items (snd (mp_read M k p)) = tl (items p)"
  using parcel_read [OF assms(1) _ assms(3), of p "tl (items p)"] assms(2) by simp_all

lemma token_arrives:
  assumes laws: "parcel_laws (ie_parcel I) items" and first: "items (x_data x) = PToken DESCRIPTOR # vs"
    and h: "map_of (memberFuncMap I c) cmd = Some h"
  obtains y where "items (x_data y) = vs" "x_reply y = x_reply x" "x_manager y = x_manager x"
    "run_state (OnRemoteRequest I c cmd) x = (ie_code I (fst (run_state h y)), snd (run_state h y))"
proof
  let ?y = "x\<lparr>x_data := snd (mp_read (ie_parcel I) KToken (x_data x))\<rparr>"
  show "items (x_data ?y) = vs" using parcel_next [OF laws, of "x_data x" KToken] first by simp
  show "run_state (OnRemoteRequest I c cmd) x = (ie_code I (fst (run_state h ?y)), snd (run_state h ?y))"
    using parcel_next [OF laws, of "x_data x" KToken] first h
    by (simp add: OnRemoteRequest_def ReadInterfaceToken_def split_beta)
qed simp_all

text \<open>What a message brings about: its handler runs on the items that were written.\<close>

lemma message_served:
  assumes w: "wired X I c" and laws: "parcel_laws (ie_parcel I) items"
    and vs: "PRemoteObject False \<notin> set vs" and h: "map_of (memberFuncMap I c) cmd = Some h"
  obtains y where "items (x_data y) = vs" "items (x_reply y) = []" "x_manager y = g"
    "run_state (with_token X bad (\<lambda>p. send_message X cmd vs p failed answer)) g =
       (if ie_code I (fst (run_state h y)) \<noteq> ie_code I TELEPHONY_SUCCESS
        then failed (ie_code I (fst (run_state h y))) else answer (x_reply (snd (run_state h y))),
        x_manager (snd (run_state h y)))"
proof -
  let ?M = "ie_parcel I"
  let ?data = "write_all ?M vs (snd (mp_write ?M (PToken DESCRIPTOR) (mp_empty ?M)))"
  let ?x = "\<lparr>x_data = ?data, x_reply = mp_empty ?M, x_manager = g\<rparr>"
  have "items (x_data ?x) = PToken DESCRIPTOR # vs"
    using vs by (simp add: items_write_all [OF laws] parcel_write [OF laws] parcel_empty [OF laws])
  from token_arrives [OF laws this h] obtain y where y: "items (x_data y) = vs" "x_reply y = x_reply ?x"
    "x_manager y = x_manager ?x"
    "run_state (OnRemoteRequest I c cmd) ?x = (ie_code I (fst (run_state h y)), snd (run_state h y))" .
  have "items (x_reply y) = []" "x_manager y = g" using y by (simp_all add: parcel_empty [OF laws])
  moreover have "run_state (with_token X bad (\<lambda>p. send_message X cmd vs p failed answer)) g =
       (if ie_code I (fst (run_state h y)) \<noteq> ie_code I TELEPHONY_SUCCESS
        then failed (ie_code I (fst (run_state h y))) else answer (x_reply (snd (run_state h y))),
        x_manager (snd (run_state h y)))"
    using w y(4) by (simp add: wired_def with_token_def send_message_def SendRequest_def deliver_def
      parcel_write [OF laws] split_beta Let_def)
  ultimately show thesis using y(1) that by blast
qed

text \<open>A status that is written is the status that is read.\<close>

lemma status_replied:
  assumes "wired X I c" "parcel_laws (ie_parcel I) items" "items p = []"
  shows "reply_int X (snd (mp_write (ie_parcel I) (PInt32 i) p)) = i"
  using assms parcel_next [OF assms(2), of "snd (mp_write (ie_parcel I) (PInt32 i) p)" KInt32]
  by (simp add: reply_int_def wired_def parcel_write)

subsection \<open>The codes of the handlers\<close>

lemma handler_of:
  assumes "(cmd, h) \<in> set (memberFuncMap I c)"
  shows "map_of (memberFuncMap I c) cmd = Some h"
  using codes_distinct assms by (rule map_of_is_SomeI)

text \<open>
  What the application is told: of some requests the status the service gave, of others
  only that the message failed.
\<close>

definition told :: "'p ipc_env \<Rightarrow> ErrCode \<times> manager \<Rightarrow> int \<times> manager" where
  "told I res = (ie_code I (fst res), snd res)"

definition told_less :: "'p ipc_env \<Rightarrow> ErrCode \<times> manager \<Rightarrow> int \<times> manager" where
  "told_less I res =
     (if ie_code I (fst res) \<noteq> ie_code I TELEPHONY_SUCCESS
      then ie_code I TELEPHONY_ERR_IPC_CONNECT_STUB_FAIL else ie_code I TELEPHONY_SUCCESS, snd res)"

text \<open>
  A handler that reads the items \<open>vs\<close>, runs the operation \<open>m\<close> on what it read, writes the
  status to the reply and returns \<open>back\<close> of it.
\<close>

definition serves :: "'p ipc_env \<Rightarrow> ('p \<Rightarrow> parcel_item list) \<Rightarrow> parcel_item list \<Rightarrow> ErrCode mstep \<Rightarrow>
    (ErrCode \<Rightarrow> ErrCode) \<Rightarrow> ('p, ErrCode) xstep \<Rightarrow> bool" where
  "serves I items vs m back h \<longleftrightarrow> (\<forall>y. items (x_data y) = vs \<longrightarrow>
     (let res = run_state m (x_manager y); z = run_state h y in
      fst z = back (fst res) \<and> x_manager (snd z) = snd res \<and>
      x_reply (snd z) = snd (mp_write (ie_parcel I) (PInt32 (ie_code I (fst res))) (x_reply y))))"

lemma serves_run:
  assumes "serves I items vs m back h" "items (x_data y) = vs"
  shows "fst (run_state h y) = back (fst (run_state m (x_manager y)))"
    "x_manager (snd (run_state h y)) = snd (run_state m (x_manager y))"
    "x_reply (snd (run_state h y)) =
       snd (mp_write (ie_parcel I) (PInt32 (ie_code I (fst (run_state m (x_manager y))))) (x_reply y))"
  using assms unfolding serves_def by (simp_all add: Let_def)

lemma arrives:
  assumes w: "wired X I c" and laws: "parcel_laws (ie_parcel I) items"
    and h: "(cmd, h) \<in> set (memberFuncMap I c)" and vs: "PRemoteObject False \<notin> set vs"
    and "serves I items vs m (\<lambda>_. TELEPHONY_SUCCESS) h"
  shows "run_state (with_token X bad (\<lambda>p. send_message X cmd vs p failed (reply_int X))) g = told I (run_state m g)"
proof -
  obtain y where y: "items (x_data y) = vs" "items (x_reply y) = []" "x_manager y = g"
    "run_state (with_token X bad (\<lambda>p. send_message X cmd vs p failed (reply_int X))) g =
       (if ie_code I (fst (run_state h y)) \<noteq> ie_code I TELEPHONY_SUCCESS
        then failed (ie_code I (fst (run_state h y))) else reply_int X (x_reply (snd (run_state h y))),
        x_manager (snd (run_state h y)))"
    by (rule message_served [OF w laws vs handler_of [OF h]])
  with serves_run [OF assms(5) y(1)] show ?thesis
    by (simp add: told_def status_replied [OF w laws])
qed

lemma arrives_less:
  assumes w: "wired X I c" and laws: "parcel_laws (ie_parcel I) items"
    and h: "(cmd, h) \<in> set (memberFuncMap I c)" and vs: "PRemoteObject False \<notin> set vs"
    and "serves I items vs m (\<lambda>r. r) h"
  shows "run_state (with_token X bad (\<lambda>p. send_message X cmd vs p
           (\<lambda>_. px_code X TELEPHONY_ERR_IPC_CONNECT_STUB_FAIL) (reply_int X))) g = told_less I (run_state m g)"
proof -
  obtain y where y: "items (x_data y) = vs" "items (x_reply y) = []" "x_manager y = g"
    "run_state (with_token X bad (\<lambda>p. send_message X cmd vs p
           (\<lambda>_. px_code X TELEPHONY_ERR_IPC_CONNECT_STUB_FAIL) (reply_int X))) g =
       (if ie_code I (fst (run_state h y)) \<noteq> ie_code I TELEPHONY_SUCCESS
        then px_code X TELEPHONY_ERR_IPC_CONNECT_STUB_FAIL else reply_int X (x_reply (snd (run_state h y))),
        x_manager (snd (run_state h y)))"
    by (rule message_served [OF w laws vs handler_of [OF h]])
  with serves_run [OF assms(5) y(1)] w show ?thesis
    by (auto simp: told_less_def status_replied [OF w laws] wired_def)
qed

lemmas handler_simps = serves_def reply_result_def reader_defs writer_defs run_serve split_beta Let_def

subsection \<open>The handlers serve the operations\<close>

lemma call_handlers_serve:
  assumes laws: "parcel_laws (ie_parcel I) items"
  shows
    "serves I items [] (Service_UnRegisterVoipCallManagerCallback (ie_manager I) c)
       (\<lambda>r. r) (OnUnRegisterVoipCallManagerCallback I c)"
    "serves I items [] (Service_UnRegisterCallBack (ie_manager I) c)
       (\<lambda>r. r) (OnUnRegisterCallBack I c)"
    "serves I items [PInt32 i, PInt32 i2, PBool b] (Service_AnswerCall (ie_manager I) c i i2 b)
       (\<lambda>r. r) (OnAcceptCall I c)"
    "serves I items [PInt32 i, PBool b, PString16 s] (Service_RejectCall (ie_manager I) c i b s)
       (\<lambda>r. r) (OnRejectCall I c)"
    "serves I items [PInt32 i] (Service_HangUpCall (ie_manager I) c i)
       (\<lambda>r. r) (OnHangUpCall I c)"
    "serves I items [PInt32 i] (Service_HoldCall (ie_manager I) c i)
       (\<lambda>r. r) (OnHoldCall I c)"
    "serves I items [PInt32 i] (Service_UnHoldCall (ie_manager I) c i)
       (\<lambda>r. r) (OnUnHoldCall I c)"
    "serves I items [PInt32 i] (Service_SwitchCall (ie_manager I) c i)
       (\<lambda>r. r) (OnSwitchCall I c)"
    "serves I items [] (Service_AnswerCall_any (ie_manager I) c)
       (\<lambda>r. r) (OnAcceptCallNoParam I c)"
    "serves I items [] (Service_RejectCall_any (ie_manager I) c)
       (\<lambda>r. r) (OnRejectCallNoParam I c)"
    "serves I items [PInt32 i] (Service_RejectCall_type (ie_manager I) c (RejectType_of i))
       (\<lambda>r. r) (OnRejectCallWithType I c)"
    "serves I items [] (Service_HangUpCall_any (ie_manager I) c)
       (\<lambda>r. r) (OnHangUpCallNoParam I c)"
    "serves I items [PInt32 i, PString s] (Service_SendCallUiEvent (ie_manager I) c i s)
       (\<lambda>r. r) (OnSendCallUiEvent I c)"
    "serves I items [PBool b] (Service_PreloadCallUi (ie_manager I) c b)
       (\<lambda>r. r) (OnPreloadCallUi I c)"
    "serves I items [PInt32 i] (Service_NotifyVoIPAudioStreamStart (ie_manager I) c i)
       (\<lambda>r. r) (OnNotifyVoIPAudioStreamStart I c)"
    "serves I items [PInt32 i, PString s] (Service_SendUssdResponse (ie_manager I) c i s)
       (\<lambda>r. r) (OnSendUssdResponse I c)"
  by (simp_all add: handler_simps parcel_next [OF laws] parcel_write [OF laws]
    OnUnRegisterVoipCallManagerCallback_def OnUnRegisterCallBack_def OnAcceptCall_def
    OnRejectCall_def OnHangUpCall_def OnHoldCall_def OnUnHoldCall_def OnSwitchCall_def
    OnAcceptCallNoParam_def OnRejectCallNoParam_def OnRejectCallWithType_def OnHangUpCallNoParam_def
    OnSendCallUiEvent_def OnPreloadCallUi_def OnNotifyVoIPAudioStreamStart_def OnSendUssdResponse_def
    )

lemma more_handlers_serve:
  assumes laws: "parcel_laws (ie_parcel I) items"
  shows
    "serves I items [PString s] (Service_InputDialerSpecialCode (ie_manager I) c s)
       (\<lambda>_. TELEPHONY_SUCCESS) (OnInputDialerSpecialCode I c)"
    "serves I items [PInt32 i, PInt8 ch] (Service_StartDtmf (ie_manager I) c i ch)
       (\<lambda>_. TELEPHONY_SUCCESS) (OnStartDtmf I c)"
    "serves I items [PInt32 i] (Service_StopDtmf (ie_manager I) c i)
       (\<lambda>_. TELEPHONY_SUCCESS) (OnStopDtmf I c)"
    "serves I items [PInt32 i, PBool b] (Service_PostDialProceed (ie_manager I) c i b)
       (\<lambda>_. TELEPHONY_SUCCESS) (OnPostDialProceed I c)"
    "serves I items [PInt32 i] (Service_CombineConference (ie_manager I) c i)
       (\<lambda>_. TELEPHONY_SUCCESS) (OnCombineConference I c)"
    "serves I items [PInt32 i] (Service_SeparateConference (ie_manager I) c i)
       (\<lambda>_. TELEPHONY_SUCCESS) (OnSeparateConference I c)"
    "serves I items [PInt32 i] (Service_KickOutFromConference (ie_manager I) c i)
       (\<lambda>_. TELEPHONY_SUCCESS) (OnKickOutFromConference I c)"
    "serves I items [PInt32 i] (Service_GetCallWaiting (ie_manager I) c i)
       (\<lambda>_. TELEPHONY_SUCCESS) (OnGetCallWaiting I c)"
    "serves I items [PInt32 i, PBool b] (Service_SetCallWaiting (ie_manager I) c i b)
       (\<lambda>_. TELEPHONY_SUCCESS) (OnSetCallWaiting I c)"
    "serves I items [PInt32 i, PInt32 i2] (Service_GetCallRestriction (ie_manager I) c i i2)
       (\<lambda>_. TELEPHONY_SUCCESS) (OnGetCallRestriction I c)"
    "serves I items [PInt32 i, PInt32 i2] (Service_GetCallTransferInfo (ie_manager I) c i i2)
       (\<lambda>_. TELEPHONY_SUCCESS) (OnGetTransferNumber I c)"
    "serves I items [PInt32 i] (Service_CloseUnFinishedUssd (ie_manager I) c i)
       (\<lambda>_. TELEPHONY_SUCCESS) (OnCloseUnFinishedUssd I c)"
    "serves I items [PInt32 i, PInt32 i2] (Service_SetCallPreferenceMode (ie_manager I) c i i2)
       (\<lambda>_. TELEPHONY_SUCCESS) (OnSetCallPreferenceMode I c)"
    "serves I items [PInt32 i, PInt32 i2] (Service_GetImsConfig (ie_manager I) c i i2)
       (\<lambda>_. TELEPHONY_SUCCESS) (OnGetImsConfig I c)"
    "serves I items [PInt32 i, PInt32 i2, PString16 s] (Service_SetImsConfig (ie_manager I) c i i2 s)
       (\<lambda>_. TELEPHONY_SUCCESS) (OnSetImsConfig I c)"
    "serves I items [PInt32 i, PInt32 i2] (Service_GetImsFeatureValue (ie_manager I) c i i2)
       (\<lambda>_. TELEPHONY_SUCCESS) (OnGetImsFeatureValue I c)"
    "serves I items [PInt32 i, PInt32 i2, PInt32 i3] (Service_SetImsFeatureValue (ie_manager I) c i i2 i3)
       (\<lambda>_. TELEPHONY_SUCCESS) (OnSetImsFeatureValue I c)"
  by (simp_all add: handler_simps parcel_next [OF laws] parcel_write [OF laws]
    OnInputDialerSpecialCode_def OnStartDtmf_def OnStopDtmf_def OnPostDialProceed_def
    OnCombineConference_def OnSeparateConference_def OnKickOutFromConference_def OnGetCallWaiting_def
    OnSetCallWaiting_def OnGetCallRestriction_def OnGetTransferNumber_def OnCloseUnFinishedUssd_def
    OnSetCallPreferenceMode_def OnGetImsConfig_def OnSetImsConfig_def OnGetImsFeatureValue_def
    OnSetImsFeatureValue_def)

lemma other_handlers_serve:
  assumes laws: "parcel_laws (ie_parcel I) items"
  shows
    "serves I items [PInt32 i] (Service_EnableImsSwitch (ie_manager I) c i)
       (\<lambda>_. TELEPHONY_SUCCESS) (OnEnableVoLte I c)"
    "serves I items [PInt32 i] (Service_DisableImsSwitch (ie_manager I) c i)
       (\<lambda>_. TELEPHONY_SUCCESS) (OnDisableVoLte I c)"
    "serves I items [PInt32 i, PInt32 i2] (Service_SetVoNRState (ie_manager I) c i i2)
       (\<lambda>_. TELEPHONY_SUCCESS) (OnSetVoNRState I c)"
    "serves I items [PBool b] (Service_SetMuted (ie_manager I) c b)
       (\<lambda>_. TELEPHONY_SUCCESS) (OnSetMute I c)"
    "serves I items [] (Service_MuteRinger (ie_manager I) c)
       (\<lambda>_. TELEPHONY_SUCCESS) (OnMuteRinger I c)"
    "serves I items [] (Service_ReportAudioDeviceInfo (ie_manager I) c)
       (\<lambda>_. TELEPHONY_SUCCESS) (OnReportAudioDeviceInfo I c)"
    "serves I items [PInt32 i, PString16 s] (Service_ControlCamera (ie_manager I) c i s)
       (\<lambda>_. TELEPHONY_SUCCESS) (OnControlCamera I c)"
    "serves I items [PFloat q] (Service_SetCameraZoom (ie_manager I) c q)
       (\<lambda>_. TELEPHONY_SUCCESS) (OnSetCameraZoom I c)"
    "serves I items [PInt32 i, PString16 s] (Service_SetPausePicture (ie_manager I) c i s)
       (\<lambda>_. TELEPHONY_SUCCESS) (OnSetPausePicture I c)"
    "serves I items [PInt32 i, PInt32 i2] (Service_SetDeviceDirection (ie_manager I) c i i2)
       (\<lambda>_. TELEPHONY_SUCCESS) (OnSetDeviceDirection I c)"
    "serves I items [PInt32 i] (Service_CancelCallUpgrade (ie_manager I) c i)
       (\<lambda>_. TELEPHONY_SUCCESS) (OnCancelCallUpgrade I c)"
    "serves I items [PInt32 i] (Service_RequestCameraCapabilities (ie_manager I) c i)
       (\<lambda>_. TELEPHONY_SUCCESS) (OnRequestCameraCapabilities I c)"
    "serves I items [PInt32 i, PUint32 u] (Service_UpdateImsCallMode (ie_manager I) c i u)
       (\<lambda>_. TELEPHONY_SUCCESS) (OnUpdateCallMediaMode I c)"
    "serves I items [PInt32 i] (Service_SetVoIPCallState (ie_manager I) c i)
       (\<lambda>_. TELEPHONY_SUCCESS) (OnSetVoIPCallState I c)"
    "serves I items [PInt32 i, PInt32 i2, PString s] (Service_SetVoIPCallInfo (ie_manager I) c i i2 s)
       (\<lambda>_. TELEPHONY_SUCCESS) (OnSetVoIPCallInfo I c)"
    "serves I items [] (Service_RemoveMissedIncomingCallNotification (ie_manager I) c)
       (\<lambda>_. TELEPHONY_SUCCESS) (OnRemoveMissedIncomingCallNotification I c)"
    "serves I items [PBool b] (Service_SetRegMmiCodeCallbackState (ie_manager I) c b)
       (\<lambda>_. TELEPHONY_SUCCESS) (OnSetRegMmiCodeCallbackState I c)"
  by (simp_all add: handler_simps parcel_next [OF laws] parcel_write [OF laws]
    OnEnableVoLte_def OnDisableVoLte_def OnSetVoNRState_def OnSetMute_def OnMuteRinger_def
    OnReportAudioDeviceInfo_def OnControlCamera_def OnSetCameraZoom_def OnSetPausePicture_def
    OnSetDeviceDirection_def OnCancelCallUpgrade_def OnRequestCameraCapabilities_def
    OnUpdateCallMediaMode_def OnSetVoIPCallState_def OnSetVoIPCallInfo_def OnRemoveMissedIncomingCallNotification_def
    OnSetRegMmiCodeCallbackState_def)

lemma call_handlers:
  "(INTERFACE_VOIP_UNREGISTER_CALLBACK, OnUnRegisterVoipCallManagerCallback I c) \<in> set (memberFuncMap I c)"
  "(INTERFACE_UNREGISTER_CALLBACK, OnUnRegisterCallBack I c) \<in> set (memberFuncMap I c)"
  "(INTERFACE_ANSWER_CALL, OnAcceptCall I c) \<in> set (memberFuncMap I c)"
  "(INTERFACE_REJECT_CALL, OnRejectCall I c) \<in> set (memberFuncMap I c)"
  "(INTERFACE_DISCONNECT_CALL, OnHangUpCall I c) \<in> set (memberFuncMap I c)"
  "(INTERFACE_HOLD_CALL, OnHoldCall I c) \<in> set (memberFuncMap I c)"
  "(INTERFACE_UNHOLD_CALL, OnUnHoldCall I c) \<in> set (memberFuncMap I c)"
  "(INTERFACE_SWAP_CALL, OnSwitchCall I c) \<in> set (memberFuncMap I c)"
  "(INTERFACE_ANSWER_CALL_NO_PARAM, OnAcceptCallNoParam I c) \<in> set (memberFuncMap I c)"
  "(INTERFACE_REJECT_CALL_NO_PARAM, OnRejectCallNoParam I c) \<in> set (memberFuncMap I c)"
  "(INTERFACE_REJECT_CALL_WITH_TYPE, OnRejectCallWithType I c) \<in> set (memberFuncMap I c)"
  "(INTERFACE_DISCONNECT_CALL_NO_PARAM, OnHangUpCallNoParam I c) \<in> set (memberFuncMap I c)"
  "(INTERFACE_SEND_CALLUI_EVENT, OnSendCallUiEvent I c) \<in> set (memberFuncMap I c)"
  "(INTERFACE_PRELOAD_CALLUI, OnPreloadCallUi I c) \<in> set (memberFuncMap I c)"
  "(INTERFACE_NOTIFY_VOIP_AUDIO_STREAM_START, OnNotifyVoIPAudioStreamStart I c) \<in> set (memberFuncMap I c)"
  "(INTERFACE_SEND_USSD_RESPONSE, OnSendUssdResponse I c) \<in> set (memberFuncMap I c)"
  by (simp_all add: memberFuncMap_def handler_groups)

lemma more_handlers:
  "(INTERFACE_INPUT_DIALER_SPECIAL_CODE, OnInputDialerSpecialCode I c) \<in> set (memberFuncMap I c)"
  "(INTERFACE_START_DTMF, OnStartDtmf I c) \<in> set (memberFuncMap I c)"
  "(INTERFACE_STOP_DTMF, OnStopDtmf I c) \<in> set (memberFuncMap I c)"
  "(INTERFACE_POST_DIAL_PROCEED, OnPostDialProceed I c) \<in> set (memberFuncMap I c)"
  "(INTERFACE_COMBINE_CONFERENCE, OnCombineConference I c) \<in> set (memberFuncMap I c)"
  "(INTERFACE_SEPARATE_CONFERENCE, OnSeparateConference I c) \<in> set (memberFuncMap I c)"
  "(INTERFACE_KICK_OUT_CONFERENCE, OnKickOutFromConference I c) \<in> set (memberFuncMap I c)"
  "(INTERFACE_GET_CALL_WAITING, OnGetCallWaiting I c) \<in> set (memberFuncMap I c)"
  "(INTERFACE_SET_CALL_WAITING, OnSetCallWaiting I c) \<in> set (memberFuncMap I c)"
  "(INTERFACE_GET_CALL_RESTRICTION, OnGetCallRestriction I c) \<in> set (memberFuncMap I c)"
  "(INTERFACE_GET_CALL_TRANSFER, OnGetTransferNumber I c) \<in> set (memberFuncMap I c)"
  "(INTERFACE_CLOSE_UNFINISHED_USSD, OnCloseUnFinishedUssd I c) \<in> set (memberFuncMap I c)"
  "(INTERFACE_SETCALL_PREFERENCEMODE, OnSetCallPreferenceMode I c) \<in> set (memberFuncMap I c)"
  "(INTERFACE_GET_IMS_CONFIG, OnGetImsConfig I c) \<in> set (memberFuncMap I c)"
  "(INTERFACE_SET_IMS_CONFIG, OnSetImsConfig I c) \<in> set (memberFuncMap I c)"
  "(INTERFACE_GET_IMS_FEATURE_VALUE, OnGetImsFeatureValue I c) \<in> set (memberFuncMap I c)"
  "(INTERFACE_SET_IMS_FEATURE_VALUE, OnSetImsFeatureValue I c) \<in> set (memberFuncMap I c)"
  by (simp_all add: memberFuncMap_def handler_groups)

lemma other_handlers:
  "(INTERFACE_ENABLE_VOLTE, OnEnableVoLte I c) \<in> set (memberFuncMap I c)"
  "(INTERFACE_DISABLE_VOLTE, OnDisableVoLte I c) \<in> set (memberFuncMap I c)"
  "(INTERFACE_SET_VONR_STATE, OnSetVoNRState I c) \<in> set (memberFuncMap I c)"
  "(INTERFACE_SET_MUTE, OnSetMute I c) \<in> set (memberFuncMap I c)"
  "(INTERFACE_MUTE_RINGER, OnMuteRinger I c) \<in> set (memberFuncMap I c)"
  "(INTERFACE_REPORT_AUDIO_DEVICE_INFO, OnReportAudioDeviceInfo I c) \<in> set (memberFuncMap I c)"
  "(INTERFACE_CTRL_CAMERA, OnControlCamera I c) \<in> set (memberFuncMap I c)"
  "(INTERFACE_SET_CAMERA_ZOOM, OnSetCameraZoom I c) \<in> set (memberFuncMap I c)"
  "(INTERFACE_SET_PAUSE_IMAGE, OnSetPausePicture I c) \<in> set (memberFuncMap I c)"
  "(INTERFACE_SET_DEVICE_DIRECTION, OnSetDeviceDirection I c) \<in> set (memberFuncMap I c)"
  "(INTERFACE_CANCEL_CALL_UPGRADE, OnCancelCallUpgrade I c) \<in> set (memberFuncMap I c)"
  "(INTERFACE_REQUEST_CAMERA_CAPABILITIES, OnRequestCameraCapabilities I c) \<in> set (memberFuncMap I c)"
  "(INTERFACE_UPDATE_CALL_MEDIA_MODE, OnUpdateCallMediaMode I c) \<in> set (memberFuncMap I c)"
  "(INTERFACE_SET_VOIP_CALL_STATE, OnSetVoIPCallState I c) \<in> set (memberFuncMap I c)"
  "(INTERFACE_SET_VOIP_CALL_INFO, OnSetVoIPCallInfo I c) \<in> set (memberFuncMap I c)"
  "(INTERFACE_CANCEL_MISSED_INCOMING_CALL_NOTIFICATION, OnRemoveMissedIncomingCallNotification I c) \<in> set (memberFuncMap I c)"
  "(INTERFACE_SET_REG_MMI_CODE_CALLBACK_STATE, OnSetRegMmiCodeCallbackState I c) \<in> set (memberFuncMap I c)"
  by (simp_all add: memberFuncMap_def handler_groups)

subsection \<open>Requests arrive\<close>

text \<open>
  C13: these requests reach the service with the arguments of the application, and the state
  afterwards is the one the operation leaves; of its status the application learns only
  whether it was a success: every reason of a refusal, a missing permission as well as an
  unknown call, becomes the status of a failed message.
\<close>

theorem call_requests_arrive:
  assumes "wired X I c" "parcel_laws (ie_parcel I) items"
  shows
    "run_state (Proxy_UnRegisterVoipCallManagerCallback X) g =
       told_less I (run_state (Service_UnRegisterVoipCallManagerCallback (ie_manager I) c) g) \<and>
     run_state (Proxy_UnRegisterCallBack X) g =
       told_less I (run_state (Service_UnRegisterCallBack (ie_manager I) c) g) \<and>
     run_state (Proxy_AnswerCall X i i2 b) g =
       told_less I (run_state (Service_AnswerCall (ie_manager I) c i i2 b) g) \<and>
     run_state (Proxy_RejectCall X i b s) g =
       told_less I (run_state (Service_RejectCall (ie_manager I) c i b s) g) \<and>
     run_state (Proxy_HangUpCall X i) g =
       told_less I (run_state (Service_HangUpCall (ie_manager I) c i) g) \<and>
     run_state (Proxy_HoldCall X i) g =
       told_less I (run_state (Service_HoldCall (ie_manager I) c i) g) \<and>
     run_state (Proxy_UnHoldCall X i) g =
       told_less I (run_state (Service_UnHoldCall (ie_manager I) c i) g) \<and>
     run_state (Proxy_SwitchCall X i) g =
       told_less I (run_state (Service_SwitchCall (ie_manager I) c i) g) \<and>
     run_state (Proxy_AnswerCall_any X) g =
       told_less I (run_state (Service_AnswerCall_any (ie_manager I) c) g) \<and>
     run_state (Proxy_RejectCall_any X) g =
       told_less I (run_state (Service_RejectCall_any (ie_manager I) c) g) \<and>
     run_state (Proxy_RejectCall_type X i) g =
       told_less I (run_state (Service_RejectCall_type (ie_manager I) c (RejectType_of i)) g) \<and>
     run_state (Proxy_HangUpCall_any X) g =
       told_less I (run_state (Service_HangUpCall_any (ie_manager I) c) g) \<and>
     run_state (Proxy_SendCallUiEvent X i s) g =
       told_less I (run_state (Service_SendCallUiEvent (ie_manager I) c i s) g) \<and>
     run_state (Proxy_PreloadCallUi X b) g =
       told_less I (run_state (Service_PreloadCallUi (ie_manager I) c b) g) \<and>
     run_state (Proxy_NotifyVoIPAudioStreamStart X i) g =
       told_less I (run_state (Service_NotifyVoIPAudioStreamStart (ie_manager I) c i) g) \<and>
     run_state (Proxy_SendUssdResponse X i s) g =
       told_less I (run_state (Service_SendUssdResponse (ie_manager I) c i s) g)"
  unfolding Proxy_UnRegisterVoipCallManagerCallback_def Proxy_UnRegisterCallBack_def Proxy_AnswerCall_def
    Proxy_RejectCall_def Proxy_HangUpCall_def Proxy_HoldCall_def Proxy_UnHoldCall_def Proxy_SwitchCall_def
    Proxy_AnswerCall_any_def Proxy_RejectCall_any_def Proxy_RejectCall_type_def Proxy_HangUpCall_any_def
    Proxy_SendCallUiEvent_def Proxy_PreloadCallUi_def Proxy_NotifyVoIPAudioStreamStart_def
    Proxy_SendUssdResponse_def SendRequest_code_def
  by (intro conjI; rule arrives_less [OF assms], rule call_handlers, simp, rule call_handlers_serve [OF assms(2)])

text \<open>
  These requests reach the service with the arguments of the application, and the
  application is told the status the operation gives.
\<close>

theorem requests_arrive:
  assumes "wired X I c" "parcel_laws (ie_parcel I) items"
  shows
    "run_state (Proxy_InputDialerSpecialCode X s) g =
       told I (run_state (Service_InputDialerSpecialCode (ie_manager I) c s) g) \<and>
     run_state (Proxy_StartDtmf X i ch) g =
       told I (run_state (Service_StartDtmf (ie_manager I) c i ch) g) \<and>
     run_state (Proxy_StopDtmf X i) g =
       told I (run_state (Service_StopDtmf (ie_manager I) c i) g) \<and>
     run_state (Proxy_PostDialProceed X i b) g =
       told I (run_state (Service_PostDialProceed (ie_manager I) c i b) g) \<and>
     run_state (Proxy_CombineConference X i) g =
       told I (run_state (Service_CombineConference (ie_manager I) c i) g) \<and>
     run_state (Proxy_SeparateConference X i) g =
       told I (run_state (Service_SeparateConference (ie_manager I) c i) g) \<and>
     run_state (Proxy_KickOutFromConference X i) g =
       told I (run_state (Service_KickOutFromConference (ie_manager I) c i) g) \<and>
     run_state (Proxy_GetCallWaiting X i) g =
       told I (run_state (Service_GetCallWaiting (ie_manager I) c i) g) \<and>
     run_state (Proxy_SetCallWaiting X i b) g =
       told I (run_state (Service_SetCallWaiting (ie_manager I) c i b) g) \<and>
     run_state (Proxy_GetCallRestriction X i i2) g =
       told I (run_state (Service_GetCallRestriction (ie_manager I) c i i2) g) \<and>
     run_state (Proxy_GetCallTransferInfo X i i2) g =
       told I (run_state (Service_GetCallTransferInfo (ie_manager I) c i i2) g) \<and>
     run_state (Proxy_CloseUnFinishedUssd X i) g =
       told I (run_state (Service_CloseUnFinishedUssd (ie_manager I) c i) g) \<and>
     run_state (Proxy_SetCallPreferenceMode X i i2) g =
       told I (run_state (Service_SetCallPreferenceMode (ie_manager I) c i i2) g) \<and>
     run_state (Proxy_GetImsConfig X i i2) g =
       told I (run_state (Service_GetImsConfig (ie_manager I) c i i2) g) \<and>
     run_state (Proxy_SetImsConfig X i i2 s) g =
       told I (run_state (Service_SetImsConfig (ie_manager I) c i i2 s) g) \<and>
     run_state (Proxy_GetImsFeatureValue X i i2) g =
       told I (run_state (Service_GetImsFeatureValue (ie_manager I) c i i2) g) \<and>
     run_state (Proxy_SetImsFeatureValue X i i2 i3) g =
       told I (run_state (Service_SetImsFeatureValue (ie_manager I) c i i2 i3) g)"
  unfolding Proxy_InputDialerSpecialCode_def Proxy_StartDtmf_def Proxy_StopDtmf_def Proxy_PostDialProceed_def
    Proxy_CombineConference_def Proxy_SeparateConference_def Proxy_KickOutFromConference_def
    Proxy_GetCallWaiting_def Proxy_SetCallWaiting_def Proxy_GetCallRestriction_def Proxy_GetCallTransferInfo_def
    Proxy_CloseUnFinishedUssd_def Proxy_SetCallPreferenceMode_def Proxy_GetImsConfig_def
    Proxy_SetImsConfig_def Proxy_GetImsFeatureValue_def Proxy_SetImsFeatureValue_def SendRequest_code_def
  by (intro conjI; rule arrives [OF assms], rule more_handlers, simp, rule more_handlers_serve [OF assms(2)])

text \<open>
  The same for the requests of settings, sound and video.
\<close>

theorem more_requests_arrive:
  assumes "wired X I c" "parcel_laws (ie_parcel I) items"
  shows
    "run_state (Proxy_EnableImsSwitch X i) g =
       told I (run_state (Service_EnableImsSwitch (ie_manager I) c i) g) \<and>
     run_state (Proxy_DisableImsSwitch X i) g =
       told I (run_state (Service_DisableImsSwitch (ie_manager I) c i) g) \<and>
     run_state (Proxy_SetVoNRState X i i2) g =
       told I (run_state (Service_SetVoNRState (ie_manager I) c i i2) g) \<and>
     run_state (Proxy_SetMuted X b) g =
       told I (run_state (Service_SetMuted (ie_manager I) c b) g) \<and>
     run_state (Proxy_MuteRinger X) g =
       told I (run_state (Service_MuteRinger (ie_manager I) c) g) \<and>
     run_state (Proxy_ReportAudioDeviceInfo X) g =
       told I (run_state (Service_ReportAudioDeviceInfo (ie_manager I) c) g) \<and>
     run_state (Proxy_ControlCamera X i s) g =
       told I (run_state (Service_ControlCamera (ie_manager I) c i s) g) \<and>
     run_state (Proxy_SetCameraZoom X q) g =
       told I (run_state (Service_SetCameraZoom (ie_manager I) c q) g) \<and>
     run_state (Proxy_SetPausePicture X i s) g =
       told I (run_state (Service_SetPausePicture (ie_manager I) c i s) g) \<and>
     run_state (Proxy_SetDeviceDirection X i i2) g =
       told I (run_state (Service_SetDeviceDirection (ie_manager I) c i i2) g) \<and>
     run_state (Proxy_CancelCallUpgrade X i) g =
       told I (run_state (Service_CancelCallUpgrade (ie_manager I) c i) g) \<and>
     run_state (Proxy_RequestCameraCapabilities X i) g =
       told I (run_state (Service_RequestCameraCapabilities (ie_manager I) c i) g) \<and>
     run_state (Proxy_UpdateImsCallMode X i u) g =
       told I (run_state (Service_UpdateImsCallMode (ie_manager I) c i u) g) \<and>
     run_state (Proxy_SetVoIPCallState X i) g =
       told I (run_state (Service_SetVoIPCallState (ie_manager I) c i) g) \<and>
     run_state (Proxy_SetVoIPCallInfo X i i2 s) g =
       told I (run_state (Service_SetVoIPCallInfo (ie_manager I) c i i2 s) g) \<and>
     run_state (Proxy_RemoveMissedIncomingCallNotification X) g =
       told I (run_state (Service_RemoveMissedIncomingCallNotification (ie_manager I) c) g) \<and>
     run_state (Proxy_SetRegMmiCodeCallbackState X b) g =
       told I (run_state (Service_SetRegMmiCodeCallbackState (ie_manager I) c b) g)"
  unfolding Proxy_EnableImsSwitch_def Proxy_DisableImsSwitch_def Proxy_SetVoNRState_def Proxy_SetMuted_def
    Proxy_MuteRinger_def Proxy_ReportAudioDeviceInfo_def Proxy_ControlCamera_def Proxy_SetCameraZoom_def
    Proxy_SetPausePicture_def Proxy_SetDeviceDirection_def Proxy_CancelCallUpgrade_def Proxy_RequestCameraCapabilities_def
    Proxy_UpdateImsCallMode_def Proxy_SetVoIPCallState_def Proxy_SetVoIPCallInfo_def Proxy_RemoveMissedIncomingCallNotification_def
    Proxy_SetRegMmiCodeCallbackState_def SendRequest_code_def
  by (intro conjI; rule arrives [OF assms], rule other_handlers, simp, rule other_handlers_serve [OF assms(2)])

subsection \<open>A message at work\<close>

definition sample_ipc :: "parcel_item list ipc_env" where
  "sample_ipc = \<lparr>ie_parcel = list_parcel, ie_manager = sample_manager_env, ie_surface = True,
     ie_cast = True, ie_default = (\<lambda>_ _ reply. (1, reply)), ie_bool = True, ie_int = (\<lambda>n. 3000 + int n)\<rparr>"

definition sample_exchange :: "parcel_item list \<Rightarrow> parcel_item list exchange" where
  "sample_exchange vs = \<lparr>x_data = PToken DESCRIPTOR # vs, x_reply = [], x_manager = sample_manager\<rparr>"

definition sample_proxy :: "caller \<Rightarrow> (parcel_item list, manager) proxy_env" where
  "sample_proxy c = \<lparr>px_parcel = list_parcel, px_remote = True, px_send = deliver sample_ipc c,
     px_code = ie_code sample_ipc\<rparr>"

lemma sample_wired: "wired (sample_proxy c) sample_ipc c"
  by (simp add: wired_def sample_proxy_def sample_ipc_def)

lemma sample_parcel: "parcel_laws (ie_parcel sample_ipc) id"
  by (simp add: sample_ipc_def list_parcel_laws)

lemmas sample_codes = ie_code_def sample_ipc_def sample_manager_env_def sample_code_def

theorem call_requests_arrive_witness:
  "run_state (Proxy_HangUpCall (sample_proxy sample_stranger) 1) sample_manager = (2, sample_manager)"
  using call_requests_arrive [OF sample_wired sample_parcel, where c = sample_stranger and i = 1 and g = sample_manager]
  by (simp add: told_less_def Service_HangUpCall_def system_only_def unless_def CheckCallerIsSystemApp_def
    sample_stranger_def sample_codes)

theorem requests_arrive_witness:
  "run_state (Proxy_CombineConference (sample_proxy sample_stranger) 1) sample_manager = (1, sample_manager)"
  using requests_arrive [OF sample_wired sample_parcel, where c = sample_stranger and i = 1 and g = sample_manager]
  by (simp add: told_def Service_CombineConference_def system_only_def unless_def CheckCallerIsSystemApp_def
    sample_stranger_def sample_codes)

end
