(* ===== verification/Service_Properties.thy ===== *)
theory Service_Properties
  imports Ipc_Properties
begin

text \<open>
  What the service guarantees at its boundary: a caller without permissions changes no
  call by any message; a question about call forwarding is asked at most once in half a
  minute; and what a refused caller finds in the replies.
\<close>

subsection \<open>Permissions\<close>

text \<open>
  C3: whatever message a caller without permissions sends, a system application or not,
  with known or unknown code, well formed or not: the calls and their table, the
  conferences, the video modes of the calls and the flag of the camera stay as they were.
\<close>

theorem no_permission_changes_no_call:
  assumes "cl_granted c = (\<lambda>_. False)"
  shows "let g = x_manager x; h = x_manager (snd (run_state (OnRemoteRequest I c cmd) x)) in
    s_reg (g_core h) = s_reg (g_core g) \<and> s_conf (g_core h) = s_conf (g_core g) \<and>
    g_videos h = g_videos g \<and> g_cameraOpen h = g_cameraOpen g"
proof -
  have default: "state_io_rel same_service (State (\<lambda>x. let (r, reply) = ie_default I cmd (x_data x) (x_reply x)
      in (r, x\<lparr>x_reply := reply\<rparr>)))"
    by (simp add: state_io_rel_def same_service_def guarded.refl split_beta Let_def)
  have "state_io_rel same_service (OnRemoteRequest I c cmd)"
  proof (cases "map_of (memberFuncMap I c) cmd")
    case None
    then show ?thesis unfolding OnRemoteRequest_def None option.case by (intro served_rules default)
  next
    case (Some h)
    then show ?thesis unfolding OnRemoteRequest_def Some option.case
      by (intro served_rules handlers_served [OF assms Some])
  qed
  from served.frame_run [OF this, of x] show ?thesis
    by (simp add: same_service_def same_state_def Let_def)
qed

theorem no_permission_changes_no_call_witness:
  "let g = sample_manager; h = x_manager (snd (run_state (OnRemoteRequest sample_ipc sample_stranger
       INTERFACE_DISCONNECT_CALL) (sample_exchange [PInt32 1]))) in
    s_reg (g_core h) = s_reg (g_core g) \<and> s_conf (g_core h) = s_conf (g_core g) \<and>
    g_videos h = g_videos g \<and> g_cameraOpen h = g_cameraOpen g"
  using no_permission_changes_no_call [of sample_stranger "sample_exchange [PInt32 1]" sample_ipc
      INTERFACE_DISCONNECT_CALL]
  by (simp add: sample_stranger_def sample_exchange_def)

subsection \<open>Refused questions\<close>

text \<open>
  C33: an application that is no system application is refused these questions, and the
  reply it gets carries, before the status of the refusal, what the variables of the
  service happened to hold: no value was ever stored in them.
\<close>

theorem refused_answers_are_leftovers:
  assumes "\<not> cl_system c" "parcel_laws (ie_parcel I) items"
  shows "items (x_reply (snd (run_state (OnGetVoIPCallState I c) x))) = items (x_reply x) @
      [PInt32 (ie_int I 0), PInt32 (ie_code I TELEPHONY_ERR_ILLEGAL_USE_OF_SYSTEM_API)] \<and>
    items (x_reply (snd (run_state (OnGetVoNRState I c) x))) = items (x_reply x) @
      [PInt32 (ie_int I 0), PInt32 (ie_code I TELEPHONY_ERR_ILLEGAL_USE_OF_SYSTEM_API)] \<and>
    items (x_reply (snd (run_state (OnIsVoLteEnabled I c) x))) = items (x_reply x) @
      [PBool (ie_bool I), PInt32 (ie_code I TELEPHONY_ERR_ILLEGAL_USE_OF_SYSTEM_API)] \<and>
    items (x_reply (snd (run_state (OnGetVoIPCallInfo I c) x))) = items (x_reply x) @
      [PInt32 (ie_int I 0), PInt32 (ie_int I 1), PString [],
       PInt32 (ie_code I TELEPHONY_ERR_ILLEGAL_USE_OF_SYSTEM_API)]"
  using assms(1)
  by (simp add: OnGetVoIPCallState_def OnGetVoNRState_def OnIsVoLteEnabled_def OnGetVoIPCallInfo_def
    reply_after_def reply_result_def reader_defs writer_defs run_serve split_beta Let_def
    parcel_write [OF assms(2)] Service_GetVoIPCallState_def Service_GetVoNRState_def
    Service_IsImsSwitchEnabled_def Service_GetVoIPCallInfo_def system_only_out_def unless_def
    CheckCallerIsSystemApp_def)

theorem refused_answers_are_leftovers_witness:
  "x_reply (snd (run_state (OnGetVoIPCallState sample_ipc sample_stranger) (sample_exchange []))) =
     [PInt32 3000, PInt32 1]"
  using refused_answers_are_leftovers [of sample_stranger sample_ipc id "sample_exchange []"] list_parcel_laws
  by (simp add: sample_stranger_def sample_exchange_def sample_ipc_def ie_code_def sample_manager_env_def
    sample_code_def)

subsection \<open>Questions about call forwarding\<close>

lemma setting_keeps:
  "g_lastTransfer (snd (run_state (setting E q) g)) = g_lastTransfer g"
  "g_steady (snd (run_state (setting E q) g)) = g_steady g"
  by (simp_all add: setting_def control_def run_core)

text \<open>
  C16: when a question about call forwarding by number has been let through, the same
  question is refused for the next thirty seconds, and the refusal neither reaches the
  stack nor postpones the next permitted question.
\<close>

theorem forwarding_questions_are_rare:
  assumes ask: "run_state (Service_GetCallTransferInfo_number E c n type) g = (ret, h)"
    and asked: "ret \<noteq> CALL_ERR_OPERATION_TOO_FREQUENT" "cl_granted c OHOS_PERMISSION_GET_CALL_TRANSFER_INFO"
      "GetAccountIdByNumber (me_slotCount E) (me_showNumber E) n \<noteq> None"
    and soon: "me_steady E (g_steady h) < me_steady E (g_steady g) + 30 * 1000000000"
  shows "run_state (Service_GetCallTransferInfo_number E c n type) h =
    (CALL_ERR_OPERATION_TOO_FREQUENT, h\<lparr>g_steady := Suc (g_steady h)\<rparr>)"
proof -
  obtain slot where slot: "GetAccountIdByNumber (me_slotCount E) (me_showNumber E) n = Some slot"
    using asked(3) by blast
  let ?key = "transfer_key n type" and ?clk = "me_steady E (g_steady g)"
  have "h = snd (run_state (setting E (AskCallTransfer slot type))
      (g\<lparr>g_steady := Suc (g_steady g), g_lastTransfer := AList.update ?key ?clk (g_lastTransfer g)\<rparr>))"
    using ask asked(1,2) slot
    by (auto simp: Service_GetCallTransferInfo_number_def permitted_def has_def split: option.splits if_splits)
  then have "g_lastTransfer h = AList.update ?key ?clk (g_lastTransfer g)"
    by (simp add: setting_keeps)
  then have "map_of (g_lastTransfer h) ?key = Some ?clk" by (simp add: update_conv)
  moreover have "seconds_between (me_steady E (g_steady h)) ?clk < MIN_GET_CALL_TRANSFER_TIME"
    using soon by (simp add: seconds_between_def MIN_GET_CALL_TRANSFER_TIME_def)
  ultimately show ?thesis using asked(2) slot
    by (simp add: Service_GetCallTransferInfo_number_def permitted_def has_def)
qed

text \<open>The first question is asked at second zero of the clock, the next one a second later.\<close>

definition sample_forwarding_env :: manager_env where
  "sample_forwarding_env = sample_manager_env\<lparr>me_showNumber := (\<lambda>_. ''13800138000'')\<rparr>"

definition sample_question :: "ErrCode \<times> manager" where
  "sample_question = run_state (Service_GetCallTransferInfo_number sample_forwarding_env sample_dialer ''13800138000'' 0)
     sample_manager"

lemma sample_question_facts:
  "fst sample_question = TELEPHONY_SUCCESS"
  "me_steady sample_forwarding_env (g_steady (snd sample_question)) = 1000000000"
  "me_steady sample_forwarding_env (g_steady sample_manager) = 0"
  "GetAccountIdByNumber (me_slotCount sample_forwarding_env) (me_showNumber sample_forwarding_env) ''13800138000'' = Some 0"
  by code_simp+

theorem forwarding_questions_are_rare_witness:
  "run_state (Service_GetCallTransferInfo_number sample_forwarding_env sample_dialer ''13800138000'' 0)
     (snd sample_question) =
   (CALL_ERR_OPERATION_TOO_FREQUENT,
     snd sample_question\<lparr>g_steady := Suc (g_steady (snd sample_question))\<rparr>)"
proof -
  have ask: "run_state (Service_GetCallTransferInfo_number sample_forwarding_env sample_dialer ''13800138000'' 0)
      sample_manager = (fst sample_question, snd sample_question)"
    by (simp add: sample_question_def)
  have granted: "cl_granted sample_dialer OHOS_PERMISSION_GET_CALL_TRANSFER_INFO" by (simp add: sample_dialer_def)
  show ?thesis
    by (rule forwarding_questions_are_rare [OF ask _ granted]) (simp_all add: sample_question_facts)
qed

end
