(* ===== verification/Report_Parcel.thy ===== *)
theory Report_Parcel
  imports Service_Proxy
begin

text \<open>
  The reports on their way to the applications.  A sender writes behind its interface
  token; one that looks at every writing sends only what was written as a whole.  A
  receiver reads its arguments in their order, makes the call and writes the status into
  the reply.  The calculus \<open>takes\<close> says which items a reader consumes and what it makes of
  them.
\<close>

subsection \<open>Sending\<close>

definition send_with ::
  "('p, 's) proxy_env \<Rightarrow> string \<Rightarrow> int \<Rightarrow> parcel_item list \<Rightarrow> ('s, int) state" where
  "send_with X descriptor code vs =
     (let (ok, p) = mp_write (px_parcel X) (PToken descriptor) (mp_empty (px_parcel X)) in
      if \<not> ok then State_Monad.return (px_code X TELEPHONY_ERR_WRITE_DESCRIPTOR_TOKEN_FAIL)
      else send_message X code vs p (\<lambda>_. px_code X TELEPHONY_ERR_IPC_CONNECT_STUB_FAIL) (reply_int X))"

text \<open>Writing that stops at the first failure.\<close>

fun write_each :: "'p message_parcel \<Rightarrow> parcel_item list \<Rightarrow> 'p \<Rightarrow> 'p option" where
  "write_each M [] p = Some p"
| "write_each M (v # vs) p =
     (let (ok, p) = mp_write M v p in if ok then write_each M vs p else None)"

definition send_checked ::
  "('p, 's) proxy_env \<Rightarrow> string \<Rightarrow> int \<Rightarrow> parcel_item list \<Rightarrow> (ErrCode \<Rightarrow> 'a) \<Rightarrow> (int \<Rightarrow> 'a) \<Rightarrow>
   ('p \<Rightarrow> 'a) \<Rightarrow> ('s, 'a) state" where
  "send_checked X descriptor code vs bad failed answer =
     (let (ok, p) = mp_write (px_parcel X) (PToken descriptor) (mp_empty (px_parcel X)) in
      if \<not> ok then State_Monad.return (bad TELEPHONY_ERR_WRITE_DESCRIPTOR_TOKEN_FAIL)
      else case write_each (px_parcel X) vs p of
        None \<Rightarrow> State_Monad.return (bad TELEPHONY_ERR_WRITE_DATA_FAIL)
      | Some p \<Rightarrow> send_message X code [] p failed answer)"

lemma items_write_each:
  assumes "parcel_laws M items" "PRemoteObject False \<notin> set vs"
  shows "\<exists>q. write_each M vs p = Some q \<and> items q = items p @ vs"
  using assms(2)
proof (induction vs arbitrary: p)
  case (Cons v vs)
  let ?q = "snd (mp_write M v p)"
  from Cons.prems have w: "fst (mp_write M v p)" "items ?q = items p @ [v]"
    using parcel_write [OF assms(1), of v p] by auto
  from Cons obtain q where "write_each M vs ?q = Some q" "items q = items ?q @ vs" by auto
  with w show ?case by (simp add: split_beta Let_def)
qed simp

subsection \<open>Reading\<close>

record 'p reader_env =
  rd_parcel :: "'p message_parcel"
  rd_code :: "ErrCode \<Rightarrow> int"
  rd_size :: "nat \<Rightarrow> int"                              \<comment> \<open>sizeof, for each type of raw data\<close>
  rd_other :: "nat \<Rightarrow> int \<Rightarrow> 'p \<Rightarrow> raw_struct option \<times> 'p"  \<comment> \<open>raw data read at another length\<close>
  rd_casts :: enum_casts
  rd_default :: "int \<Rightarrow> 'p \<Rightarrow> 'p \<Rightarrow> int \<times> 'p"            \<comment> \<open>IPCObjectStub::OnRemoteRequest\<close>

definition take_item :: "'p reader_env \<Rightarrow> item_kind \<Rightarrow> ('p, parcel_item option) state" where
  "take_item S k = State (mp_read (rd_parcel S) k)"

definition take_int :: "'p reader_env \<Rightarrow> ('p, int) state" where
  "take_int S = do { v \<leftarrow> take_item S KInt32;
     State_Monad.return (case v of Some (PInt32 i) \<Rightarrow> i | _ \<Rightarrow> 0) }"
definition take_int64 :: "'p reader_env \<Rightarrow> ('p, int) state" where
  "take_int64 S = do { v \<leftarrow> take_item S KInt64;
     State_Monad.return (case v of Some (PInt64 i) \<Rightarrow> i | _ \<Rightarrow> 0) }"
definition take_bool :: "'p reader_env \<Rightarrow> ('p, bool) state" where
  "take_bool S = do { v \<leftarrow> take_item S KBool;
     State_Monad.return (case v of Some (PBool b) \<Rightarrow> b | _ \<Rightarrow> False) }"
definition take_string :: "'p reader_env \<Rightarrow> ('p, string) state" where
  "take_string S = do { v \<leftarrow> take_item S KString;
     State_Monad.return (case v of Some (PString s) \<Rightarrow> s | _ \<Rightarrow> []) }"
definition take_bytes :: "'p reader_env \<Rightarrow> ('p, 8 word list) state" where
  "take_bytes S = do { v \<leftarrow> take_item S KUint8Vector;
     State_Monad.return (case v of Some (PUint8Vector s) \<Rightarrow> s | _ \<Rightarrow> []) }"
definition take_device :: "'p reader_env \<Rightarrow> ('p, AudioDevice option) state" where
  "take_device S = do { v \<leftarrow> take_item S KAudioDevice;
     State_Monad.return (case v of Some (PAudioDevice d) \<Rightarrow> Some d | _ \<Rightarrow> None) }"

text \<open>
  A character array filled by \<^verbatim>\<open>strncpy_s\<close>: it stays empty when the string does not fit or
  is a null pointer.
\<close>

definition fitting :: "nat \<Rightarrow> string \<Rightarrow> string" where
  "fitting n s = (if length s \<le> n then s else [])"

definition take_array :: "'p reader_env \<Rightarrow> nat \<Rightarrow> ('p, string) state" where
  "take_array S n = do { v \<leftarrow> take_item S KCString;
     State_Monad.return (case v of Some (PCString s) \<Rightarrow> fitting n s | _ \<Rightarrow> []) }"

text \<open>
  Raw data of a type, read at a length; \<open>sel\<close> takes the structure out of the item and is
  None for a structure of another type.
\<close>

definition take_raw ::
  "'p reader_env \<Rightarrow> nat \<Rightarrow> (raw_struct \<Rightarrow> 'a option) \<Rightarrow> int \<Rightarrow> ('p, 'a option) state" where
  "take_raw S k sel len =
     (if len \<noteq> rd_size S k
      then State (\<lambda>p. let (d, p) = rd_other S k len p in (case d of Some d \<Rightarrow> sel d | None \<Rightarrow> None, p))
      else do { v \<leftarrow> take_item S (KRaw k);
        State_Monad.return (case v of Some (PRaw d) \<Rightarrow> sel d | _ \<Rightarrow> None) })"

definition MAX_LEN :: int where "MAX_LEN = 100000"

text \<open>
  A length and raw data of this length.  The result is an error or the structure; \<open>least\<close> is
  the smallest length the caller accepts.
\<close>

definition take_sized ::
  "'p reader_env \<Rightarrow> nat \<Rightarrow> (raw_struct \<Rightarrow> 'a option) \<Rightarrow> int \<Rightarrow> ('p, ErrCode + 'a) state" where
  "take_sized S k sel least = do {
     len \<leftarrow> take_int S;
     (if len < least \<or> len \<ge> MAX_LEN then State_Monad.return (Inl TELEPHONY_ERR_ARGUMENT_INVALID)
      else do {
        d \<leftarrow> take_raw S k sel len;
        State_Monad.return (case d of None \<Rightarrow> Inl TELEPHONY_ERR_LOCAL_PTR_NULL | Some d \<Rightarrow> Inr d) }) }"

subsection \<open>Answering\<close>

text \<open>
  A handler reads its arguments from the data; an error ends it, otherwise the target is
  called and its status written.  What is left in the data is not looked at again.
\<close>

definition handle ::
  "'p reader_env \<Rightarrow> ('p, ErrCode + 'a) state \<Rightarrow> ('a \<Rightarrow> ('s, int) state) \<Rightarrow> 'p \<Rightarrow> 'p \<Rightarrow> ('s, int \<times> 'p) state" where
  "handle S reader call data reply =
     (case fst (run_state reader data) of
        Inl e \<Rightarrow> State_Monad.return (rd_code S e, reply)
      | Inr a \<Rightarrow> do {
          result \<leftarrow> call a;
          (let (ok, reply) = mp_write (rd_parcel S) (PInt32 result) reply in
           State_Monad.return (rd_code S (if ok then TELEPHONY_SUCCESS else TELEPHONY_ERR_WRITE_REPLY_FAIL),
             reply)) })"

definition total :: "('p, 'a) state \<Rightarrow> ('p, ErrCode + 'a) state" where
  "total reader = do { a \<leftarrow> reader; State_Monad.return (Inr a) }"

text \<open>The entry of a message: the token, the code in the table, the default.\<close>

definition receive ::
  "'p reader_env \<Rightarrow> string \<Rightarrow> (int \<Rightarrow> ('p \<Rightarrow> 'p \<Rightarrow> ('s, int \<times> 'p) state) option) \<Rightarrow> int \<Rightarrow> 'p \<Rightarrow> 'p \<Rightarrow>
   ('s, int \<times> 'p) state" where
  "receive S descriptor table code data reply =
     (let (v, data) = mp_read (rd_parcel S) KToken data;
          token = (case v of Some (PToken s) \<Rightarrow> s | _ \<Rightarrow> []) in
      if token \<noteq> descriptor then State_Monad.return (rd_code S TELEPHONY_ERR_DESCRIPTOR_MISMATCH, reply)
      else case table code of
        Some memberFunc \<Rightarrow> memberFunc data reply
      | None \<Rightarrow> State_Monad.return (rd_default S code data reply))"

subsection \<open>What a reader consumes\<close>

definition takes :: "('p \<Rightarrow> parcel_item list) \<Rightarrow> ('p, 'a) state \<Rightarrow> parcel_item list \<Rightarrow> 'a \<Rightarrow> bool" where
  "takes items m vs a \<longleftrightarrow>
     (\<forall>p rest. items p = vs @ rest \<longrightarrow>
        fst (run_state m p) = a \<and> items (snd (run_state m p)) = rest)"

named_theorems takes_rules

lemma takesD: "takes items m vs a \<Longrightarrow> items p = vs \<Longrightarrow> fst (run_state m p) = a"
  unfolding takes_def by (metis append_Nil2)

lemma takes_return [takes_rules]: "takes items (State_Monad.return a) [] a"
  by (simp add: takes_def)

lemma takes_bind [takes_rules]:
  assumes "takes items m vs a" "takes items (f a) ws b"
  shows "takes items (State_Monad.bind m f) (vs @ ws) b"
  using assms by (auto simp: takes_def State_Monad.bind_def split_beta Let_def)

lemma takes_Cons:
  assumes "takes items m [v] a" "takes items (f a) ws b"
  shows "takes items (State_Monad.bind m f) (v # ws) b"
  using takes_bind [where vs = "[v]" and f = f and a = a, OF assms(1) assms(2)] by simp

lemma takes_item:
  assumes "parcel_laws (rd_parcel S) items" "kind_of v = k"
  shows "takes items (take_item S k) [v] (Some v)"
  using parcel_read [OF assms(1) _ assms(2)] by (auto simp: takes_def take_item_def)

lemma takes_basic [takes_rules]:
  assumes "parcel_laws (rd_parcel S) items"
  shows "takes items (take_int S) [PInt32 i] i"
    "takes items (take_int64 S) [PInt64 i] i"
    "takes items (take_bool S) [PBool b] b"
    "takes items (take_string S) [PString s] s"
    "takes items (take_bytes S) [PUint8Vector w] w"
    "takes items (take_device S) [PAudioDevice d] (Some d)"
    "takes items (take_array S n) [PCString s] (fitting n s)"
  unfolding take_int_def take_int64_def take_bool_def take_string_def take_bytes_def take_device_def take_array_def
  by (rule takes_Cons, rule takes_item [OF assms], simp, simp add: takes_return)+

lemma takes_raw:
  assumes "parcel_laws (rd_parcel S) items" "k = raw_kind d" "sel d = Some a"
  shows "takes items (take_raw S k sel (rd_size S k)) [PRaw d] (Some a)"
  using assms(2,3) unfolding take_raw_def
  by simp (rule takes_Cons, rule takes_item [OF assms(1)], simp, simp add: takes_return)

lemma takes_sized:
  assumes "parcel_laws (rd_parcel S) items" "k = raw_kind d" "sel d = Some a"
    "least \<le> rd_size S k" "rd_size S k < MAX_LEN"
  shows "takes items (take_sized S k sel least) [PInt32 (rd_size S k), PRaw d] (Inr a)"
  unfolding take_sized_def
proof (rule takes_Cons)
  show "takes items (take_int S) [PInt32 (rd_size S k)] (rd_size S k)"
    by (rule takes_basic(1) [OF assms(1)])
qed (use assms(4,5) in \<open>simp add: takes_Cons [OF takes_raw [where sel = sel and a = a, OF assms(1,2,3)], where ws = "[]"] takes_return\<close>)

lemma takes_returnI: "a = b \<Longrightarrow> takes items (State_Monad.return a) [] b"
  by (simp add: takes_return)

lemma takes_mapped:
  assumes "takes items m vs a"
  shows "takes items (do { x \<leftarrow> m; State_Monad.return (f x) }) vs (f a)"
  using takes_bind [where f = "\<lambda>x. State_Monad.return (f x)" and a = a and ws = "[]" and b = "f a",
    OF assms takes_return] by simp

lemma takes_total: "takes items m vs a \<Longrightarrow> takes items (total m) vs (Inr a)"
  unfolding total_def by (rule takes_mapped)

subsection \<open>From one end to the other\<close>

text \<open>
  A transport for messages without an answer: it hands the data to the receiver, and the
  reply stays empty.
\<close>

type_synonym ('p, 's) member_table = "int \<Rightarrow> ('p \<Rightarrow> 'p \<Rightarrow> ('s, int \<times> 'p) state) option"

definition same_ends :: "('p, 's) proxy_env \<Rightarrow> 'p reader_env \<Rightarrow> bool" where
  "same_ends X S \<longleftrightarrow> px_parcel X = rd_parcel S \<and> px_remote X \<and> px_code X = rd_code S"

definition posted ::
  "('p, 's) proxy_env \<Rightarrow> 'p reader_env \<Rightarrow> string \<Rightarrow> ('p, 's) member_table \<Rightarrow> bool" where
  "posted X S descriptor table \<longleftrightarrow> same_ends X S \<and>
     (\<forall>code p. px_send X code p = do {
        _ \<leftarrow> receive S descriptor table code p (mp_empty (rd_parcel S));
        State_Monad.return (rd_code S TELEPHONY_SUCCESS, mp_empty (rd_parcel S)) })"

lemma run_bind: "run_state (State_Monad.bind m f) s = run_state (f (fst (run_state m s))) (snd (run_state m s))"
  by (simp add: State_Monad.bind_def split_beta Let_def)

lemma received:
  assumes "parcel_laws (rd_parcel S) items" "items data = PToken descriptor # vs"
    "table code = Some (handle S reader call)" "takes items reader vs (Inr a)"
  shows "\<exists>r. run_state (receive S descriptor table code data reply) s =
      ((rd_code S TELEPHONY_SUCCESS, r), snd (run_state (call a) s)) \<and>
    items r = items reply @ [PInt32 (fst (run_state (call a) s))]"
proof -
  let ?d = "snd (mp_read (rd_parcel S) KToken data)"
  have t: "fst (mp_read (rd_parcel S) KToken data) = Some (PToken descriptor)" "items ?d = vs"
    using parcel_read [OF assms(1,2), of KToken] by simp_all
  have a: "fst (run_state reader ?d) = Inr a" using takesD [OF assms(4) t(2)] .
  show ?thesis
    using parcel_write [OF assms(1), of "PInt32 (fst (run_state (call a) s))" reply]
    by (simp add: receive_def handle_def assms(3) t(1) a split_beta Let_def run_bind)
qed

lemma sent_items:
  assumes "parcel_laws M items" "PRemoteObject False \<notin> set vs"
  shows "items (write_all M vs (snd (mp_write M (PToken d) (mp_empty M)))) = PToken d # vs"
  using parcel_empty [OF assms(1)] parcel_write [OF assms(1), of "PToken d" "mp_empty M"]
  by (simp add: items_write_all [OF assms])

lemma post_arrives:
  assumes laws: "parcel_laws (rd_parcel S) items" and X: "posted X S descriptor table"
    and vs: "PRemoteObject False \<notin> set vs" and entry: "table code = Some (handle S reader call)"
    and reader: "takes items reader vs (Inr a)"
  shows "snd (run_state (send_with X descriptor code vs) s) = snd (run_state (call a) s)"
proof -
  have M: "px_parcel X = rd_parcel S" "px_remote X" "px_code X = rd_code S"
    using X by (simp_all add: posted_def same_ends_def)
  have tok: "fst (mp_write (rd_parcel S) (PToken descriptor) (mp_empty (rd_parcel S)))"
    using parcel_write [OF laws] by simp
  obtain r where r: "run_state (receive S descriptor table code
        (write_all (rd_parcel S) vs (snd (mp_write (rd_parcel S) (PToken descriptor) (mp_empty (rd_parcel S)))))
        (mp_empty (rd_parcel S))) s =
      ((rd_code S TELEPHONY_SUCCESS, r), snd (run_state (call a) s))"
    using received [where reply = "mp_empty (rd_parcel S)" and s = s and table = table and code = code, OF laws sent_items [OF laws vs] entry reader]
    by auto
  show ?thesis
    using X by (simp add: posted_def send_with_def send_message_def SendRequest_def M tok split_beta
        Let_def run_bind r(1))
qed

lemma post_checked_arrives:
  assumes laws: "parcel_laws (rd_parcel S) items" and X: "posted X S descriptor table"
    and vs: "PRemoteObject False \<notin> set vs" and entry: "table code = Some (handle S reader call)"
    and reader: "takes items reader vs (Inr a)"
  shows "snd (run_state (send_checked X descriptor code vs bad failed answer) s) = snd (run_state (call a) s)"
proof -
  have M: "px_parcel X = rd_parcel S" "px_remote X" "px_code X = rd_code S"
    using X by (simp_all add: posted_def same_ends_def)
  let ?p = "snd (mp_write (rd_parcel S) (PToken descriptor) (mp_empty (rd_parcel S)))"
  have tok: "fst (mp_write (rd_parcel S) (PToken descriptor) (mp_empty (rd_parcel S)))"
    "items ?p = [PToken descriptor]"
    using parcel_write [OF laws] parcel_empty [OF laws] by simp_all
  obtain q where q: "write_each (rd_parcel S) vs ?p = Some q" "items q = PToken descriptor # vs"
    using items_write_each [OF laws vs, of ?p] tok(2) by auto
  obtain r where r: "run_state (receive S descriptor table code q (mp_empty (rd_parcel S))) s =
      ((rd_code S TELEPHONY_SUCCESS, r), snd (run_state (call a) s))"
    using received [where reply = "mp_empty (rd_parcel S)" and s = s and table = table and code = code, OF laws q(2) entry reader]
    by auto
  show ?thesis
    using X by (simp add: posted_def send_checked_def send_message_def SendRequest_def M tok q split_beta
        Let_def run_bind r(1))
qed

text \<open>A message whose reader refuses it changes nothing at the other end.\<close>

lemma post_refused:
  assumes laws: "parcel_laws (rd_parcel S) items" and X: "posted X S descriptor table"
    and vs: "PRemoteObject False \<notin> set vs" and entry: "table code = Some (handle S reader call)"
    and reader: "\<And>p. items p = vs \<Longrightarrow> fst (run_state reader p) = Inl e"
  shows "snd (run_state (send_with X descriptor code vs) s) = s"
proof -
  have M: "px_parcel X = rd_parcel S" "px_remote X" "px_code X = rd_code S"
    using X by (simp_all add: posted_def same_ends_def)
  let ?p = "snd (mp_write (rd_parcel S) (PToken descriptor) (mp_empty (rd_parcel S)))"
  let ?data = "write_all (rd_parcel S) vs ?p"
  have tok: "fst (mp_write (rd_parcel S) (PToken descriptor) (mp_empty (rd_parcel S)))"
    using parcel_write [OF laws] by simp
  have data: "fst (mp_read (rd_parcel S) KToken ?data) = Some (PToken descriptor)"
    "items (snd (mp_read (rd_parcel S) KToken ?data)) = vs"
    using parcel_read [OF laws sent_items [OF laws vs, of descriptor], of KToken] by simp_all
  have "snd (run_state (receive S descriptor table code ?data reply) s) = s" for reply
    using reader [OF data(2)] by (simp add: receive_def handle_def entry data(1) split_beta Let_def)
  then show ?thesis
    using X by (simp add: posted_def send_with_def send_message_def SendRequest_def M tok split_beta
        Let_def run_bind)
qed

end
