(* ===== verification/App_Reports.thy ===== *)
theory App_Reports
  imports Report_Parcel Audio_Platform
begin

text \<open>
  What applications and the registry of telephony states are told.
  \<^verbatim>\<open>services/call_report/src/call_ability_report_proxy.cpp\<close> keeps the callbacks of the
  applications and tells each of them every report; \<^verbatim>\<open>call_state_report_proxy.cpp\<close> tells
  the registry the state of the foreground call.  A callback is the address of an object
  that holds the name of its owner; what it answers may depend on everything told before.
\<close>

subsection \<open>Reports\<close>

datatype AppReport =
    CallDetails CallAttributeInfo | MeeTimeDetails CallAttributeInfo | CallEventChange CallEventInfo
  | DisconnectedCause int string | AsyncResults int pac_map | OttRequest int pac_map
  | MmiCodeResult MmiCodeInfo | AudioDeviceChange AudioDeviceInfo | PostDialDelay string
  | ImsCallModeChange CallMediaModeInfo | SessionEventChange CallSessionEvent
  | DimensionsChange PeerDimensionsDetail | DataUsageChange int | CameraChange CameraCapabilities
  | PhoneStateChange int int int string | RttEventChange RttEvent | RttErrorReport RttError
  | RttMessage pac_map

type_synonym callback = nat
type_synonym told = "(callback \<times> AppReport) list"

record ability_reports =
  ar_callbacks :: "callback list"                 \<comment> \<open>callbackPtrList\_\<close>
  ar_bundle :: "callback \<Rightarrow> string"              \<comment> \<open>the name each callback holds\<close>
  ar_mmiRegistered :: bool
  ar_cache :: "MmiCodeInfo option"
  ar_reg :: registry
  ar_told :: told
  ar_bluetooth :: "(int \<times> int) list"              \<comment> \<open>SendCallDetailsChange: call and state\<close>

record ability_env =
  ab_build :: build
  ab_want :: want_api
  ab_answer :: "told \<Rightarrow> callback \<Rightarrow> AppReport \<Rightarrow> ErrCode"
  ab_object :: "callback \<Rightarrow> nat option"           \<comment> \<open>its remote object\<close>
  ab_dsoftbus :: bool                             \<comment> \<open>SUPPORT\_DSOFTBUS\<close>
  ab_slotVisible :: bool

type_synonym 'a report_step = "(ability_reports, 'a) state"

definition report_state :: "(ability_reports \<Rightarrow> 'a) \<Rightarrow> 'a report_step" where
  "report_state f = State (\<lambda>a. (f a, a))"
definition report_change :: "(ability_reports \<Rightarrow> ability_reports) \<Rightarrow> unit report_step" where
  "report_change f = State (\<lambda>a. ((), f a))"

subsection \<open>The callbacks\<close>

text \<open>
  The recipient of the death of the process is made with \<^verbatim>\<open>new\<close>, which may fail; the code
  then returns false, which is the status of a success.
\<close>

definition Reports_RegisterCallBack :: "callback option \<Rightarrow> string \<Rightarrow> ErrCode report_step" where
  "Reports_RegisterCallBack callback bundleInfo =
     (case callback of
        None \<Rightarrow> State_Monad.return TELEPHONY_ERR_LOCAL_PTR_NULL
      | Some cb \<Rightarrow> do {
          _ \<leftarrow> report_change (\<lambda>a. a\<lparr>ar_bundle := (ar_bundle a)(cb := bundleInfo)\<rparr>);
          _ \<leftarrow> report_change (\<lambda>a. a\<lparr>ar_callbacks := ar_callbacks a @ [cb]\<rparr>);
          State_Monad.return TELEPHONY_SUCCESS })"

fun erase_callback :: "(callback \<Rightarrow> bool) \<Rightarrow> callback list \<Rightarrow> callback list" where
  "erase_callback P [] = []"
| "erase_callback P (cb # cbs) = (if P cb then cbs else cb # erase_callback P cbs)"

definition Reports_UnRegisterCallBack :: "string \<Rightarrow> ErrCode report_step" where
  "Reports_UnRegisterCallBack bundleInfo = do {
     cbs \<leftarrow> report_state ar_callbacks;
     (if cbs = [] then State_Monad.return TELEPHONY_ERR_LOCAL_PTR_NULL
      else do {
        _ \<leftarrow> report_change (\<lambda>a. a\<lparr>ar_callbacks :=
              erase_callback (\<lambda>cb. ar_bundle a cb = bundleInfo) (ar_callbacks a)\<rparr>);
        State_Monad.return TELEPHONY_SUCCESS }) }"

definition Reports_UnRegisterCallBack_object :: "ability_env \<Rightarrow> nat option \<Rightarrow> ErrCode report_step" where
  "Reports_UnRegisterCallBack_object B object = do {
     cbs \<leftarrow> report_state ar_callbacks;
     (if cbs = [] then State_Monad.return TELEPHONY_ERR_LOCAL_PTR_NULL
      else do {
        _ \<leftarrow> report_change (\<lambda>a. a\<lparr>ar_callbacks :=
              erase_callback (\<lambda>cb. ab_object B cb = object) (ar_callbacks a)\<rparr>);
        State_Monad.return TELEPHONY_SUCCESS }) }"

text \<open>When the process of a callback dies (\<^verbatim>\<open>call_ability_callback_death_recipient.cpp\<close>).\<close>

definition OnRemoteDied :: "ability_env \<Rightarrow> nat option \<Rightarrow> unit report_step" where
  "OnRemoteDied B object =
     (if object = None then State_Monad.return ()
      else do { _ \<leftarrow> Reports_UnRegisterCallBack_object B object; State_Monad.return () })"

subsection \<open>Telling the callbacks\<close>

definition tell_callback :: "ability_env \<Rightarrow> callback \<Rightarrow> AppReport \<Rightarrow> ErrCode report_step" where
  "tell_callback B cb r = State (\<lambda>a. (ab_answer B (ar_told a) cb r, a\<lparr>ar_told := ar_told a @ [(cb, r)]\<rparr>))"

text \<open>The loop over the callbacks keeps the answer of the last one.\<close>

fun tell_callbacks :: "ability_env \<Rightarrow> AppReport \<Rightarrow> callback list \<Rightarrow> ErrCode \<Rightarrow> ErrCode report_step" where
  "tell_callbacks B r [] ret = State_Monad.return ret"
| "tell_callbacks B r (cb # cbs) ret = do { ret \<leftarrow> tell_callback B cb r; tell_callbacks B r cbs ret }"

definition tell_all :: "ability_env \<Rightarrow> AppReport \<Rightarrow> ErrCode report_step" where
  "tell_all B r = do { cbs \<leftarrow> report_state ar_callbacks; tell_callbacks B r cbs TELEPHONY_ERR_FAIL }"

definition ReportCallEvent :: "ability_env \<Rightarrow> CallEventInfo \<Rightarrow> ErrCode report_step" where
  "ReportCallEvent B info = tell_all B (CallEventChange info)"

definition Reports_CallEventUpdated :: "ability_env \<Rightarrow> CallEventInfo \<Rightarrow> unit report_step" where
  "Reports_CallEventUpdated B info = do { _ \<leftarrow> ReportCallEvent B info; State_Monad.return () }"

definition Reports_CallDestroyed :: "ability_env \<Rightarrow> int \<Rightarrow> string \<Rightarrow> unit report_step" where
  "Reports_CallDestroyed B reason message = do {
     _ \<leftarrow> tell_all B (DisconnectedCause reason message);
     State_Monad.return () }"

definition ReportAsyncResults :: "ability_env \<Rightarrow> int \<Rightarrow> pac_map \<Rightarrow> ErrCode report_step" where
  "ReportAsyncResults B reportId resultInfo = tell_all B (AsyncResults reportId resultInfo)"

definition ReportMmiCodeResult :: "ability_env \<Rightarrow> MmiCodeInfo \<Rightarrow> ErrCode report_step" where
  "ReportMmiCodeResult B info = tell_all B (MmiCodeResult info)"

definition Reports_ReportAudioDeviceChange :: "ability_env \<Rightarrow> AudioDeviceInfo \<Rightarrow> ErrCode report_step" where
  "Reports_ReportAudioDeviceChange B info = tell_all B (AudioDeviceChange info)"

definition Reports_ReportPostDialDelay :: "ability_env \<Rightarrow> string \<Rightarrow> ErrCode report_step" where
  "Reports_ReportPostDialDelay B str = tell_all B (PostDialDelay str)"

definition ReportImsCallModeChange :: "ability_env \<Rightarrow> CallMediaModeInfo \<Rightarrow> ErrCode report_step" where
  "ReportImsCallModeChange B info = tell_all B (ImsCallModeChange info)"

definition ReportCallSessionEventChange :: "ability_env \<Rightarrow> CallSessionEvent \<Rightarrow> ErrCode report_step" where
  "ReportCallSessionEventChange B event = tell_all B (SessionEventChange event)"

definition ReportPeerDimensionsChange :: "ability_env \<Rightarrow> PeerDimensionsDetail \<Rightarrow> ErrCode report_step" where
  "ReportPeerDimensionsChange B detail = tell_all B (DimensionsChange detail)"

definition ReportCallDataUsageChange :: "ability_env \<Rightarrow> int \<Rightarrow> ErrCode report_step" where
  "ReportCallDataUsageChange B dataUsage = tell_all B (DataUsageChange dataUsage)"

definition ReportCameraCapabilities :: "ability_env \<Rightarrow> CameraCapabilities \<Rightarrow> ErrCode report_step" where
  "ReportCameraCapabilities B capabilities = tell_all B (CameraChange capabilities)"

definition ReportPhoneStateChange ::
  "ability_env \<Rightarrow> int \<Rightarrow> int \<Rightarrow> int \<Rightarrow> string \<Rightarrow> ErrCode report_step" where
  "ReportPhoneStateChange B numActive numHeld callState number =
     tell_all B (PhoneStateChange numActive numHeld callState number)"

definition ReportRttCallEvtChanged :: "ability_env \<Rightarrow> RttEvent \<Rightarrow> ErrCode report_step" where
  "ReportRttCallEvtChanged B info = tell_all B (RttEventChange info)"

definition ReportRttCallError :: "ability_env \<Rightarrow> RttError \<Rightarrow> ErrCode report_step" where
  "ReportRttCallError B info = tell_all B (RttErrorReport info)"

definition ReportRttCallMessage :: "ability_env \<Rightarrow> pac_map \<Rightarrow> ErrCode report_step" where
  "ReportRttCallMessage B info = tell_all B (RttMessage info)"

text \<open>An OTT request goes to the callbacks of one bundle, up to the first that fails.\<close>

fun tell_ott :: "ability_env \<Rightarrow> AppReport \<Rightarrow> callback list \<Rightarrow> ErrCode \<Rightarrow> ErrCode report_step" where
  "tell_ott B r [] ret = State_Monad.return ret"
| "tell_ott B r (cb # cbs) ret = do {
     bundle \<leftarrow> report_state (\<lambda>a. ar_bundle a cb);
     (if bundle = ''com.ohos.callservice'' then do {
        ret \<leftarrow> tell_callback B cb r;
        (if ret \<noteq> TELEPHONY_SUCCESS then State_Monad.return ret else tell_ott B r cbs ret) }
      else tell_ott B r cbs ret) }"

definition OttCallRequest :: "ability_env \<Rightarrow> int \<Rightarrow> pac_map \<Rightarrow> ErrCode report_step" where
  "OttCallRequest B requestId info = do {
     cbs \<leftarrow> report_state ar_callbacks;
     tell_ott B (OttRequest requestId info) cbs TELEPHONY_ERR_FAIL }"

subsection \<open>The details of a call\<close>

definition UpdateBtCallSlotId :: "ability_env \<Rightarrow> CallAttributeInfo \<Rightarrow> CallAttributeInfo report_step" where
  "UpdateBtCallSlotId B info =
     (if \<not> ab_dsoftbus B then State_Monad.return info
      else do {
        reg \<leftarrow> report_state ar_reg;
        (case GetOneCallObject (i_callId info) reg of
           None \<Rightarrow> State_Monad.return info
         | Some p \<Rightarrow>
             let c = r_heap reg p in
             if m_callType c \<noteq> TYPE_BLUETOOTH then State_Monad.return info
             else if m_btCallSlotId c = BT_CALL_INVALID_SLOT \<and> \<not> ab_slotVisible B
             then State_Monad.return (info\<lparr>i_accountId := BT_CALL_INVALID_SLOT\<rparr>)
             else do {
               _ \<leftarrow> report_change (\<lambda>a. a\<lparr>ar_reg := reg\<lparr>r_heap :=
                     (r_heap reg)(p := SetBtCallSlotId (m_accountId c) c)\<rparr>\<rparr>);
               State_Monad.return info }) })"

definition SendCallDetailsChange :: "int \<Rightarrow> int \<Rightarrow> unit report_step" where
  "SendCallDetailsChange callId state =
     report_change (\<lambda>a. a\<lparr>ar_bluetooth := ar_bluetooth a @ [(callId, state)]\<rparr>)"

definition Reports_ReportCallStateInfo :: "ability_env \<Rightarrow> CallAttributeInfo \<Rightarrow> ErrCode report_step" where
  "Reports_ReportCallStateInfo B info = do {
     newInfo \<leftarrow> UpdateBtCallSlotId B info;
     reg \<leftarrow> report_state ar_reg;
     (if call_transfer (ab_build B) \<and>
         (case GetOneCallObject (i_callId info) reg of
            None \<Rightarrow> False | Some p \<Rightarrow> IsTransferCallAndForbidden (r_heap reg p))
      then State_Monad.return TELEPHONY_SUCCESS
      else do {
        ret \<leftarrow> tell_all B (CallDetails newInfo);
        _ \<leftarrow> SendCallDetailsChange (i_callId info) (TelCallState_code (i_callState info));
        State_Monad.return ret }) }"

definition ReportMeeTimeStateInfo :: "ability_env \<Rightarrow> CallAttributeInfo \<Rightarrow> ErrCode report_step" where
  "ReportMeeTimeStateInfo B info = do {
     ret \<leftarrow> tell_all B (MeeTimeDetails info);
     _ \<leftarrow> SendCallDetailsChange (i_callId info) (TelCallState_code (i_callState info));
     State_Monad.return ret }"

fun first_of_bundle :: "(callback \<Rightarrow> string) \<Rightarrow> string \<Rightarrow> callback list \<Rightarrow> callback option" where
  "first_of_bundle bundle b [] = None"
| "first_of_bundle bundle b (cb # cbs) = (if bundle cb = b then Some cb else first_of_bundle bundle b cbs)"

definition ReportCallStateInfo_to :: "ability_env \<Rightarrow> CallAttributeInfo \<Rightarrow> string \<Rightarrow> ErrCode report_step" where
  "ReportCallStateInfo_to B info bundleInfo = do {
     cb \<leftarrow> report_state (\<lambda>a. first_of_bundle (ar_bundle a) bundleInfo (ar_callbacks a));
     (case cb of None \<Rightarrow> State_Monad.return TELEPHONY_ERROR | Some cb \<Rightarrow> tell_callback B cb (CallDetails info)) }"

text \<open>The number is cut at the first comma or semicolon.\<close>

definition cut_number :: "string \<Rightarrow> string" where
  "cut_number s = takeWhile (\<lambda>c. c \<noteq> CHR '','' \<and> c \<noteq> CHR '';'') s"

definition Reports_CallStateUpdated ::
  "ability_env \<Rightarrow> ptr option \<Rightarrow> TelCallState \<Rightarrow> TelCallState \<Rightarrow> unit report_step" where
  "Reports_CallStateUpdated B call priorState nextState =
     (case call of
        None \<Rightarrow> State_Monad.return ()
      | Some p \<Rightarrow> do {
          info \<leftarrow> report_state (\<lambda>a. GetCallAttributeInfo (ab_build B) (ab_want B) (r_heap (ar_reg a) p) default_info);
          (let info = info\<lparr>i_accountNumber := cut_number (i_accountNumber info)\<rparr>;
               info = (if nextState = CALL_STATUS_ANSWERED then info\<lparr>i_callState := CALL_STATUS_ANSWERED\<rparr>
                       else info) in
           do { _ \<leftarrow> Reports_ReportCallStateInfo B info; State_Monad.return () }) })"

definition MeeTimeStateUpdated ::
  "ability_env \<Rightarrow> CallAttributeInfo \<Rightarrow> TelCallState \<Rightarrow> TelCallState \<Rightarrow> unit report_step" where
  "MeeTimeStateUpdated B info priorState nextState = do {
     _ \<leftarrow> ReportMeeTimeStateInfo B (info\<lparr>i_callState := nextState\<rparr>);
     State_Monad.return () }"

subsection \<open>The answer to a code\<close>

definition CacheMmiCodeInfo :: "MmiCodeInfo \<Rightarrow> unit report_step" where
  "CacheMmiCodeInfo info = report_change (\<lambda>a. a\<lparr>ar_cache := Some info\<rparr>)"

definition IsMmiCodeCallbackRegistered :: "bool report_step" where
  "IsMmiCodeCallbackRegistered = report_state ar_mmiRegistered"

definition SetRegMmiCodeCallbackState :: "ability_env \<Rightarrow> bool \<Rightarrow> unit report_step" where
  "SetRegMmiCodeCallbackState B isReg =
     (if isReg then do {
        _ \<leftarrow> report_change (\<lambda>a. a\<lparr>ar_mmiRegistered := True\<rparr>);
        cache \<leftarrow> report_state ar_cache;
        (case cache of
           None \<Rightarrow> State_Monad.return ()
         | Some info \<Rightarrow> do {
             _ \<leftarrow> report_change (\<lambda>a. a\<lparr>ar_cache := None\<rparr>);
             _ \<leftarrow> ReportMmiCodeResult B info;
             State_Monad.return () }) }
      else report_change (\<lambda>a. a\<lparr>ar_mmiRegistered := False, ar_cache := None\<rparr>))"

subsection \<open>The registry of telephony states\<close>

datatype VoIPCallState =
    VOIP_INCOMING | VOIP_DIALING | VOIP_OUTGOING | VOIP_ANSWERED | VOIP_ACTIVE | VOIP_HOLDING
  | VOIP_DISCONNECTING | VOIP_DISCONNECTED | VOIP_IDLE

record VoIPCallStateInfo =
  vs_appName :: string
  vs_contactName :: string
  vs_isVideo :: bool                     \<comment> \<open>callType: VIDEO or VOICE\<close>
  vs_callState :: VoIPCallState
  vs_isVoiceAnswerSupported :: bool

datatype RegistryUpdate =
    UpdateRegistryState int string          \<comment> \<open>UpdateCallState\<close>
  | UpdateRegistrySlot int int string       \<comment> \<open>UpdateCallStateForSlotId\<close>
  | UpdateRegistryVoip VoIPCallStateInfo    \<comment> \<open>UpdateVoIPCallState\<close>
  | PublishVoipState int int                \<comment> \<open>the event VOIP\_CALL\_STATE\_CHANGED: uid, state\<close>

record state_reports =
  sp_current :: TelCallState              \<comment> \<open>currentCallState\_\<close>
  sp_voipState :: int                     \<comment> \<open>VoIPCallState\_ of the facade\<close>
  sp_reg :: registry
  sp_told :: "RegistryUpdate list"

type_synonym state_step = "(state_reports, unit) state"

definition registry_told :: "RegistryUpdate \<Rightarrow> state_step" where
  "registry_told u = State (\<lambda>s. ((), s\<lparr>sp_told := sp_told s @ [u]\<rparr>))"

definition StateReport_GetVoipCallState :: "int \<Rightarrow> TelCallState" where
  "StateReport_GetVoipCallState state =
     (if state = CallStateToApp_code CALL_STATE_IDLE then CALL_STATUS_IDLE
      else if state = CallStateToApp_code CALL_STATE_OFFHOOK then CALL_STATUS_ACTIVE
      else if state = CallStateToApp_code CALL_STATE_RINGING then CALL_STATUS_INCOMING
      else if state = CallStateToApp_code CALL_STATE_ANSWERED then CALL_STATUS_ANSWERED
      else CALL_STATUS_IDLE)"

text \<open>The snapshot whose state counts: of a ringing or answered call, of the VoIP application, of the call in front.\<close>

definition state_info ::
  "build \<Rightarrow> want_api \<Rightarrow> ptr option \<Rightarrow> TelCallState \<Rightarrow> registry \<Rightarrow> int \<Rightarrow> CallAttributeInfo" where
  "state_info b w call nextState reg voipState =
     (let foreground = (if nextState = CALL_STATUS_ANSWERED then call else GetForegroundCall False reg);
          foreground = (if foreground = None then call else foreground);
          voip = StateReport_GetVoipCallState voipState;
          snapshot = (\<lambda>p. GetCallAttributeInfo b w (r_heap reg p) default_info) in
      case foreground of
        None \<Rightarrow> default_info\<lparr>i_callState := voip\<rparr>
      | Some p \<Rightarrow>
          if nextState = CALL_STATUS_ANSWERED \<or> m_callState (r_heap reg p) = CALL_STATUS_INCOMING \<or>
             m_callState (r_heap reg p) = CALL_STATUS_WAITING
          then (if nextState = CALL_STATUS_ANSWERED then (snapshot p)\<lparr>i_callState := CALL_STATUS_ANSWERED\<rparr>
                else snapshot p)
          else if voip = CALL_STATUS_INCOMING \<or> voip = CALL_STATUS_ANSWERED
          then default_info\<lparr>i_callState := voip\<rparr>
          else snapshot p)"

definition StateReport_UpdateCallState ::
  "build \<Rightarrow> want_api \<Rightarrow> ptr option \<Rightarrow> TelCallState \<Rightarrow> state_step" where
  "StateReport_UpdateCallState b w call nextState = do {
     s \<leftarrow> State (\<lambda>s. (s, s));
     (let info = state_info b w call nextState (sp_reg s) (sp_voipState s) in
      if i_callState info = sp_current s then State_Monad.return ()
      else if i_callState info = CALL_STATUS_DISCONNECTING then State_Monad.return ()
      else do {
        _ \<leftarrow> State (\<lambda>s. ((), s\<lparr>sp_current := i_callState info\<rparr>));
        registry_told (UpdateRegistryState (TelCallState_code (i_callState info)) (i_accountNumber info)) }) }"

definition UpdateCallStateForVoIPOrRestart :: "build \<Rightarrow> want_api \<Rightarrow> state_step" where
  "UpdateCallStateForVoIPOrRestart b w = StateReport_UpdateCallState b w None CALL_STATUS_IDLE"

definition UpdateCallStateForSlotId ::
  "build \<Rightarrow> want_api \<Rightarrow> ptr \<Rightarrow> TelCallState \<Rightarrow> state_step" where
  "UpdateCallStateForSlotId b w p nextState = do {
     s \<leftarrow> State (\<lambda>s. (s, s));
     (let info = GetCallAttributeInfo b w (r_heap (sp_reg s) p) default_info;
          info = (if nextState = CALL_STATUS_ANSWERED then info\<lparr>i_callState := CALL_STATUS_ANSWERED\<rparr>
                  else info) in
      if i_callState info = CALL_STATUS_DISCONNECTING then State_Monad.return ()
      else registry_told (UpdateRegistrySlot (i_accountId info) (TelCallState_code (i_callState info))
             (i_accountNumber info))) }"

fun ConvertToVoipCallState :: "TelCallState \<Rightarrow> VoIPCallState" where
  "ConvertToVoipCallState CALL_STATUS_INCOMING = VOIP_INCOMING"
| "ConvertToVoipCallState CALL_STATUS_WAITING = VOIP_INCOMING"
| "ConvertToVoipCallState CALL_STATUS_DIALING = VOIP_DIALING"
| "ConvertToVoipCallState CALL_STATUS_ALERTING = VOIP_OUTGOING"
| "ConvertToVoipCallState CALL_STATUS_ANSWERED = VOIP_ANSWERED"
| "ConvertToVoipCallState CALL_STATUS_ACTIVE = VOIP_ACTIVE"
| "ConvertToVoipCallState CALL_STATUS_HOLDING = VOIP_HOLDING"
| "ConvertToVoipCallState CALL_STATUS_DISCONNECTING = VOIP_DISCONNECTING"
| "ConvertToVoipCallState CALL_STATUS_DISCONNECTED = VOIP_DISCONNECTED"
| "ConvertToVoipCallState _ = VOIP_IDLE"

definition ReportVoIPCallStateToRegistry ::
  "build \<Rightarrow> want_api \<Rightarrow> ptr \<Rightarrow> TelCallState \<Rightarrow> state_step" where
  "ReportVoIPCallStateToRegistry b w p nextState = do {
     s \<leftarrow> State (\<lambda>s. (s, s));
     (let info = GetCallAttributeInfo b w (r_heap (sp_reg s) p) default_info in
      registry_told (UpdateRegistryVoip \<lparr>
        vs_appName = v_voipBundleName (i_voipCallInfo info),
        vs_contactName = v_userName (i_voipCallInfo info),
        vs_isVideo = (i_videoState info = TYPE_VIDEO),
        vs_callState = ConvertToVoipCallState nextState,
        vs_isVoiceAnswerSupported = v_isVoiceAnswerSupported (i_voipCallInfo info)\<rparr>)) }"

definition StateReport_CallStateUpdated ::
  "build \<Rightarrow> want_api \<Rightarrow> ptr option \<Rightarrow> TelCallState \<Rightarrow> TelCallState \<Rightarrow> state_step" where
  "StateReport_CallStateUpdated b w call priorState nextState =
     (case call of
        None \<Rightarrow> State_Monad.return ()
      | Some p \<Rightarrow> do {
          s \<leftarrow> State (\<lambda>s. (s, s));
          (let c = r_heap (sp_reg s) p in
           if m_callType c = TYPE_VOIP then do {
             _ \<leftarrow> (if m_callRunningState c \<noteq> CALL_RUNNING_STATE_RINGING \<or>
                      (\<not> IsVoipCallExist (sp_reg s) \<and> \<not> HasCall (sp_reg s) (sp_voipState s))
                  then registry_told (PublishVoipState (v_uid (m_voip c)) (TelCallState_code nextState))
                  else State_Monad.return ());
             ReportVoIPCallStateToRegistry b w p nextState }
           else do {
             _ \<leftarrow> StateReport_UpdateCallState b w call nextState;
             UpdateCallStateForSlotId b w p nextState }) })"

subsection \<open>Every callback is told\<close>

text \<open>The answers of the callbacks, each given what was told before it.\<close>

fun answers :: "ability_env \<Rightarrow> AppReport \<Rightarrow> told \<Rightarrow> callback list \<Rightarrow> ErrCode list" where
  "answers B r t [] = []"
| "answers B r t (cb # cbs) = ab_answer B t cb r # answers B r (t @ [(cb, r)]) cbs"

lemma run_tell_callbacks:
  "run_state (tell_callbacks B r cbs ret) a =
     (last (ret # answers B r (ar_told a) cbs), a\<lparr>ar_told := ar_told a @ map (\<lambda>cb. (cb, r)) cbs\<rparr>)"
  by (induction cbs arbitrary: ret a) (simp_all add: tell_callback_def)

lemma run_tell_all:
  "run_state (tell_all B r) a =
     (last (TELEPHONY_ERR_FAIL # answers B r (ar_told a) (ar_callbacks a)),
      a\<lparr>ar_told := ar_told a @ map (\<lambda>cb. (cb, r)) (ar_callbacks a)\<rparr>)"
  by (simp add: tell_all_def report_state_def run_tell_callbacks)

text \<open>
  A report reaches every callback in the order of registration, whatever the others
  answer, and the status of the report is the answer of the last one: a failure of an
  earlier callback is lost.  A code that is answered before the application asks for the
  answers is kept and told once, when it does.
\<close>

lemma cached_answer_told_once:
  assumes "ar_cache a = Some info"
  shows "let b = snd (run_state (SetRegMmiCodeCallbackState B True) a) in
    ar_told b = ar_told a @ map (\<lambda>cb. (cb, MmiCodeResult info)) (ar_callbacks a) \<and> ar_mmiRegistered b \<and>
    ar_told (snd (run_state (SetRegMmiCodeCallbackState B True) b)) = ar_told b"
  using assms
  by (simp add: SetRegMmiCodeCallbackState_def report_state_def report_change_def ReportMmiCodeResult_def run_tell_all)

subsection \<open>What the registry hears\<close>

text \<open>
  One call of the reporter, with the calls and the state of the VoIP application as they
  are then: a report of a call, or a question of the VoIP application or after a restart.
\<close>

datatype StateEvent = CallReported registry int "ptr option" TelCallState TelCallState | AppAsked registry int

fun state_event :: "build \<Rightarrow> want_api \<Rightarrow> state_reports \<Rightarrow> StateEvent \<Rightarrow> state_reports" where
  "state_event b w s (CallReported r v call prior st) =
     snd (run_state (StateReport_CallStateUpdated b w call prior st) (s\<lparr>sp_reg := r, sp_voipState := v\<rparr>))"
| "state_event b w s (AppAsked r v) =
     snd (run_state (UpdateCallStateForVoIPOrRestart b w) (s\<lparr>sp_reg := r, sp_voipState := v\<rparr>))"

definition start_reports :: "registry \<Rightarrow> state_reports" where
  "start_reports r = \<lparr>sp_current = CALL_STATUS_UNKNOWN, sp_voipState = 0, sp_reg = r, sp_told = []\<rparr>"

text \<open>The states the registry is told for the phone, and for single cards.\<close>

fun phone_state :: "RegistryUpdate \<Rightarrow> int list" where
  "phone_state (UpdateRegistryState st n) = [st]"
| "phone_state _ = []"

fun card_state :: "RegistryUpdate \<Rightarrow> int list" where
  "card_state (UpdateRegistrySlot i st n) = [st]"
| "card_state _ = []"

definition phone_states :: "state_reports \<Rightarrow> int list" where
  "phone_states s = concat (map phone_state (sp_told s))"
definition card_states :: "state_reports \<Rightarrow> int list" where
  "card_states s = concat (map card_state (sp_told s))"

definition heard_ok :: "state_reports \<Rightarrow> bool" where
  "heard_ok s \<longleftrightarrow> distinct_adj (TelCallState_code CALL_STATUS_UNKNOWN # phone_states s) \<and>
     last (TelCallState_code CALL_STATUS_UNKNOWN # phone_states s) = TelCallState_code (sp_current s) \<and>
     TelCallState_code CALL_STATUS_DISCONNECTING \<notin> set (phone_states s @ card_states s)"

lemma disconnecting_code: "TelCallState_code st = 7 \<longleftrightarrow> st = CALL_STATUS_DISCONNECTING"
  by (cases st) simp_all

lemma heard_told:
  assumes "heard_ok s" "i_callState info \<noteq> sp_current s" "i_callState info \<noteq> CALL_STATUS_DISCONNECTING"
  shows "heard_ok (s\<lparr>sp_current := i_callState info,
    sp_told := sp_told s @ [UpdateRegistryState (TelCallState_code (i_callState info)) n]\<rparr>)"
proof -
  have "TelCallState_code (i_callState info) \<noteq> last (TelCallState_code CALL_STATUS_UNKNOWN # phone_states s)"
    using assms(1,2) by (simp add: heard_ok_def TelCallState_code_inject)
  with assms show ?thesis
    by (auto simp: heard_ok_def phone_states_def card_states_def distinct_adj_append_iff disconnecting_code
        simp flip: append_Cons)
qed

lemma heard_quiet:
  "heard_ok s \<Longrightarrow> phone_state u = [] \<Longrightarrow> TelCallState_code CALL_STATUS_DISCONNECTING \<notin> set (card_state u) \<Longrightarrow>
   heard_ok (s\<lparr>sp_told := sp_told s @ [u]\<rparr>)"
  by (auto simp: heard_ok_def phone_states_def card_states_def)

lemma heard_phone: "heard_ok s \<Longrightarrow> heard_ok (snd (run_state (StateReport_UpdateCallState b w call st) s))"
  using heard_told [of s "state_info b w call st (sp_reg s) (sp_voipState s)"]
  by (auto simp: StateReport_UpdateCallState_def registry_told_def Let_def)

lemma heard_card: "heard_ok s \<Longrightarrow> heard_ok (snd (run_state (UpdateCallStateForSlotId b w p st) s))"
  by (auto simp: UpdateCallStateForSlotId_def registry_told_def Let_def disconnecting_code
      intro!: heard_quiet)

lemma heard_voip:
  "heard_ok s \<Longrightarrow> heard_ok (snd (run_state (ReportVoIPCallStateToRegistry b w p st) s))"
  "heard_ok s \<Longrightarrow> heard_ok (snd (run_state (registry_told (PublishVoipState uid code)) s))"
  by (auto simp: ReportVoIPCallStateToRegistry_def registry_told_def Let_def intro!: heard_quiet)

lemma heard_updated: "heard_ok s \<Longrightarrow> heard_ok (snd (run_state (StateReport_CallStateUpdated b w call prior st) s))"
  using heard_card [OF heard_phone, of s] heard_voip [of s] heard_voip(1) [OF heard_voip(2), of s]
  by (simp add: StateReport_CallStateUpdated_def split_beta Let_def split: option.split)

lemma heard_event: "heard_ok s \<Longrightarrow> heard_ok (state_event b w s e)"
proof -
  assume "heard_ok s"
  then have "heard_ok (s\<lparr>sp_reg := r, sp_voipState := v\<rparr>)" for r v
    by (simp add: heard_ok_def phone_states_def card_states_def)
  then show ?thesis
    using heard_updated heard_phone by (cases e) (simp_all add: UpdateCallStateForVoIPOrRestart_def)
qed

text \<open>
  C40: The registry of telephony states hears changes only.  Over any sequence of reports of
  calls and questions of the VoIP application, whatever the calls are at each of them: the
  state told for the phone is never the one told before it, the last one told is the one
  the reporter remembers, and neither the phone nor a card is ever told to be disconnecting.
\<close>

theorem registry_hears_changes:
  "let s = foldl (state_event b w) (start_reports r) es in
     distinct_adj (TelCallState_code CALL_STATUS_UNKNOWN # phone_states s) \<and>
     last (TelCallState_code CALL_STATUS_UNKNOWN # phone_states s) = TelCallState_code (sp_current s) \<and>
     TelCallState_code CALL_STATUS_DISCONNECTING \<notin> set (phone_states s @ card_states s)"
proof -
  have "heard_ok (foldl (state_event b w) (start_reports r) es)"
  proof (induction es rule: rev_induct)
    case Nil
    show ?case by (simp add: heard_ok_def start_reports_def phone_states_def card_states_def)
  next
    case (snoc e es)
    then show ?case by (simp add: heard_event)
  qed
  then show ?thesis by (simp add: heard_ok_def Let_def)
qed

end
