(* ===== verification/Callback_Messages.thy ===== *)
theory Callback_Messages
  imports App_Reports
begin

text \<open>
  The messages of the reports to an application: the service's end
  (\<^verbatim>\<open>services/call_report/src/call_ability_callback_proxy.cpp\<close>, with the snapshot written by
  \<^verbatim>\<open>utils/src/call_manager_utils.cpp\<close>) and the application's end
  (\<^verbatim>\<open>frameworks/native/src/call_ability_callback_stub.cpp\<close>,
  \<^verbatim>\<open>native_call_manager_utils.cpp\<close>, \<^verbatim>\<open>call_ability_callback.cpp\<close>).  The messages have no
  answer, so the status the service reads is what reading an empty reply gives.
\<close>

subsection \<open>The codes\<close>

named_theorems ability_code

definition UPDATE_CALL_STATE_INFO :: int where [ability_code]: "UPDATE_CALL_STATE_INFO = 0"
definition UPDATE_MEETIME_STATE_INFO :: int where [ability_code]: "UPDATE_MEETIME_STATE_INFO = 1"
definition UPDATE_CALL_EVENT :: int where [ability_code]: "UPDATE_CALL_EVENT = 2"
definition UPDATE_CALL_DISCONNECTED_CAUSE :: int where [ability_code]: "UPDATE_CALL_DISCONNECTED_CAUSE = 3"
definition UPDATE_CALL_ASYNC_RESULT_REQUEST :: int where [ability_code]: "UPDATE_CALL_ASYNC_RESULT_REQUEST = 4"
definition REPORT_OTT_CALL_REQUEST :: int where [ability_code]: "REPORT_OTT_CALL_REQUEST = 5"
definition UPDATE_MMI_CODE_RESULT_REQUEST :: int where [ability_code]: "UPDATE_MMI_CODE_RESULT_REQUEST = 6"
definition UPDATE_AUDIO_DEVICE_CHANGE_RESULT_REQUEST :: int where [ability_code]:
  "UPDATE_AUDIO_DEVICE_CHANGE_RESULT_REQUEST = 7"
definition REPORT_POST_DIAL_DELAY :: int where [ability_code]: "REPORT_POST_DIAL_DELAY = 8"
definition UPDATE_IMS_CALL_MODE_RECEIVE :: int where [ability_code]: "UPDATE_IMS_CALL_MODE_RECEIVE = 9"
definition CALL_SESSION_EVENT_CHANGE :: int where [ability_code]: "CALL_SESSION_EVENT_CHANGE = 10"
definition PEERD_DIMENSIONS_CHANGE :: int where [ability_code]: "PEERD_DIMENSIONS_CHANGE = 11"
definition CALL_DATA_USAGE_CHANGE :: int where [ability_code]: "CALL_DATA_USAGE_CHANGE = 12"
definition CAMERA_CAPABILITIES_CHANGE :: int where [ability_code]: "CAMERA_CAPABILITIES_CHANGE = 13"
definition UPDATE_PHONE_STATE :: int where [ability_code]: "UPDATE_PHONE_STATE = 14"
definition RTT_CALL_EVENT_CHANGE :: int where [ability_code]: "RTT_CALL_EVENT_CHANGE = 15"
definition RTT_CALL_ERROR_REPORT :: int where [ability_code]: "RTT_CALL_ERROR_REPORT = 16"
definition RTT_CALL_SEND_MESSAGE :: int where [ability_code]: "RTT_CALL_SEND_MESSAGE = 17"

text \<open>The reports of results that carry more than the result.\<close>

definition GET_CALL_WAITING_REPORT_ID :: int where "GET_CALL_WAITING_REPORT_ID = 4"
definition GET_CALL_RESTRICTION_REPORT_ID :: int where "GET_CALL_RESTRICTION_REPORT_ID = 6"
definition GET_CALL_TRANSFER_REPORT_ID :: int where "GET_CALL_TRANSFER_REPORT_ID = 8"
definition GET_CALL_CLIP_ID :: int where "GET_CALL_CLIP_ID = 10"
definition GET_CALL_CLIR_ID :: int where "GET_CALL_CLIR_ID = 11"
definition GET_IMS_CONFIG_REPORT_ID :: int where "GET_IMS_CONFIG_REPORT_ID = 15"
definition GET_IMS_FEATURE_VALUE_REPORT_ID :: int where "GET_IMS_FEATURE_VALUE_REPORT_ID = 17"

definition OTT_REQUEST_INVITE_TO_CONFERENCE :: int where "OTT_REQUEST_INVITE_TO_CONFERENCE = 10"
definition OTT_REQUEST_UPDATE_CALL_MEDIA_MODE :: int where "OTT_REQUEST_UPDATE_CALL_MEDIA_MODE = 11"

lemmas report_ids = GET_CALL_WAITING_REPORT_ID_def GET_CALL_RESTRICTION_REPORT_ID_def
  GET_CALL_TRANSFER_REPORT_ID_def GET_CALL_CLIP_ID_def GET_CALL_CLIR_ID_def
  GET_IMS_CONFIG_REPORT_ID_def GET_IMS_FEATURE_VALUE_REPORT_ID_def
  OTT_REQUEST_INVITE_TO_CONFERENCE_def OTT_REQUEST_UPDATE_CALL_MEDIA_MODE_def

definition ABILITY_DESCRIPTOR :: string where "ABILITY_DESCRIPTOR = ''OHOS.Telephony.ICallAbilityCallback''"

subsection \<open>A snapshot on the way\<close>

definition voip_items :: "CallAttributeInfo \<Rightarrow> parcel_item list" where
  "voip_items info =
     (if i_callType info = TYPE_VOIP then
        (let v = i_voipCallInfo info in
         [PString (v_voipCallId v), PString (v_userName v), PString (v_abilityName v),
          PString (v_extensionId v), PString (v_voipBundleName v),
          PBool (v_showBannerForIncomingCall v), PBool (v_isConferenceCall v),
          PBool (v_isVoiceAnswerSupported v), PBool (v_isUserMuteRingToneAllowed v),
          PBool (v_isDialingAllowedDuringCarrierCall v), PBool (v_hasMicPermission v),
          PBool (v_isCapsuleSticky v), PInt32 (v_uid v), PUint8Vector (v_userProfile v)])
      else [])"

definition Utils_IsForcedReportVoiceCall :: "registry \<Rightarrow> CallAttributeInfo \<Rightarrow> bool" where
  "Utils_IsForcedReportVoiceCall r info =
     (if i_callState info \<noteq> CALL_STATUS_INCOMING then False
      else case GetOneCallObject (i_callId info) r of
        None \<Rightarrow> False | Some p \<Rightarrow> m_isForcedReportVoiceCall (r_heap r p))"

definition attribute_items :: "registry \<Rightarrow> CallAttributeInfo \<Rightarrow> parcel_item list" where
  "attribute_items r info =
     [PCString (i_accountNumber info), PCString (i_bundleName info), PBool (i_speakerphoneOn info),
      PInt32 (i_accountId info),
      PInt32 (VideoStateType_code (if Utils_IsForcedReportVoiceCall r info then TYPE_VOICE
                                   else i_videoState info)),
      PInt64 (i_startTime info), PBool (i_isEcc info), PInt32 (CallType_code (i_callType info)),
      PInt32 (i_callId info), PInt32 (TelCallState_code (i_callState info)),
      PInt32 (TelConferenceState_code (i_conferenceState info)),
      PInt64 (i_callBeginTime info), PInt64 (i_callEndTime info), PInt64 (i_ringBeginTime info),
      PInt64 (i_ringEndTime info), PInt32 (CallDirection_code (i_callDirection info)),
      PInt32 (CallAnswerType_code (i_answerType info)), PInt32 (i_index info),
      PInt32 (i_crsType info), PInt32 (i_originalCallType info), PCString (i_numberLocation info),
      PInt32 (MarkType_code (markType (i_numberMarkInfo info))),
      PCString (markContent (i_numberMarkInfo info)), PInt32 (markCount (i_numberMarkInfo info)),
      PCString (markSource (i_numberMarkInfo info)), PBool (isCloud (i_numberMarkInfo info)),
      PCString (markDetails (i_numberMarkInfo info)), PCString (i_contactName info),
      PString (i_extraParamsString info)] @
     voip_items info @
     [PInt32 (i_phoneOrWatch info), PInt32 (RttCallState_code (i_rttState info)),
      PBool (i_isCustomAccessibility info)]"

definition read_voip :: "'p reader_env \<Rightarrow> CallType \<Rightarrow> ('p, VoipCallReportInfo) state" where
  "read_voip S callType =
     (if callType \<noteq> TYPE_VOIP then State_Monad.return default_voip_info
      else do {
        voipCallId \<leftarrow> take_string S;
        userName \<leftarrow> take_string S;
        abilityName \<leftarrow> take_string S;
        extensionId \<leftarrow> take_string S;
        voipBundleName \<leftarrow> take_string S;
        showBanner \<leftarrow> take_bool S;
        conferenceCall \<leftarrow> take_bool S;
        voiceAnswer \<leftarrow> take_bool S;
        userMute \<leftarrow> take_bool S;
        dialing \<leftarrow> take_bool S;
        mic \<leftarrow> take_bool S;
        sticky \<leftarrow> take_bool S;
        uid \<leftarrow> take_int S;
        profile \<leftarrow> take_bytes S;
        State_Monad.return \<lparr>v_voipCallId = voipCallId, v_userName = userName, v_userProfile = profile,
          v_abilityName = abilityName, v_extensionId = extensionId, v_voipBundleName = voipBundleName,
          v_showBannerForIncomingCall = showBanner, v_isConferenceCall = conferenceCall,
          v_isVoiceAnswerSupported = voiceAnswer, v_isUserMuteRingToneAllowed = userMute,
          v_isDialingAllowedDuringCarrierCall = dialing, v_hasMicPermission = mic,
          v_isCapsuleSticky = sticky, v_uid = uid\<rparr> })"

definition read_mark :: "'p reader_env \<Rightarrow> ('p, NumberMarkInfo) state" where
  "read_mark S = do {
     type \<leftarrow> take_int S;
     content \<leftarrow> take_array S kMaxNumberLen;
     count \<leftarrow> take_int S;
     source \<leftarrow> take_array S kMaxNumberLen;
     cloud \<leftarrow> take_bool S;
     details \<leftarrow> take_array S kMaxNumberLen;
     State_Monad.return \<lparr>markType = as_MarkType (rd_casts S) type, markContent = content,
       markCount = count, markSource = source, isCloud = cloud, markDetails = details\<rparr> }"

definition ReadCallAttributeInfo :: "'p reader_env \<Rightarrow> ('p, CallAttributeInfo) state" where
  "ReadCallAttributeInfo S = do {
     number \<leftarrow> take_array S kMaxNumberLen;
     bundle \<leftarrow> take_array S kMaxBundleNameLen;
     speakerphone \<leftarrow> take_bool S;
     accountId \<leftarrow> take_int S;
     videoState \<leftarrow> take_int S;
     startTime \<leftarrow> take_int64 S;
     ecc \<leftarrow> take_bool S;
     callType \<leftarrow> take_int S;
     callId \<leftarrow> take_int S;
     callState \<leftarrow> take_int S;
     conferenceState \<leftarrow> take_int S;
     beginTime \<leftarrow> take_int64 S;
     endTime \<leftarrow> take_int64 S;
     ringBegin \<leftarrow> take_int64 S;
     ringEnd \<leftarrow> take_int64 S;
     direction \<leftarrow> take_int S;
     answer \<leftarrow> take_int S;
     index \<leftarrow> take_int S;
     crs \<leftarrow> take_int S;
     original \<leftarrow> take_int S;
     location \<leftarrow> take_array S kMaxNumberLen;
     mark \<leftarrow> read_mark S;
     contact \<leftarrow> take_array S kMaxNumberLen;
     extra \<leftarrow> take_string S;
     voip \<leftarrow> read_voip S (as_CallType (rd_casts S) callType);
     watch \<leftarrow> take_int S;
     rtt \<leftarrow> take_int S;
     custom \<leftarrow> take_bool S;
     State_Monad.return (default_info\<lparr>i_accountNumber := number, i_bundleName := bundle,
       i_speakerphoneOn := speakerphone, i_accountId := accountId,
       i_videoState := as_VideoStateType (rd_casts S) videoState, i_startTime := startTime,
       i_isEcc := ecc, i_callType := as_CallType (rd_casts S) callType, i_callId := callId,
       i_callState := as_TelCallState (rd_casts S) callState,
       i_conferenceState := as_TelConferenceState (rd_casts S) conferenceState,
       i_callBeginTime := beginTime, i_callEndTime := endTime, i_ringBeginTime := ringBegin,
       i_ringEndTime := ringEnd, i_callDirection := as_CallDirection (rd_casts S) direction,
       i_answerType := as_CallAnswerType (rd_casts S) answer, i_index := index,
       i_crsType := crs, i_originalCallType := original, i_numberLocation := location,
       i_numberMarkInfo := mark, i_contactName := contact, i_extraParamsString := extra,
       i_voipCallInfo := voip, i_phoneOrWatch := watch,
       i_rttState := as_RttCallState (rd_casts S) rtt, i_isCustomAccessibility := custom\<rparr>) }"

text \<open>What is left of a snapshot: the members that are sent, strings as far as they fit.\<close>

definition arrived_mark :: "NumberMarkInfo \<Rightarrow> NumberMarkInfo" where
  "arrived_mark m = m\<lparr>markContent := fitting kMaxNumberLen (markContent m),
     markSource := fitting kMaxNumberLen (markSource m), markDetails := fitting kMaxNumberLen (markDetails m)\<rparr>"

definition arrived_info :: "registry \<Rightarrow> CallAttributeInfo \<Rightarrow> CallAttributeInfo" where
  "arrived_info r info = info\<lparr>
     i_accountNumber := fitting kMaxNumberLen (i_accountNumber info),
     i_bundleName := fitting kMaxBundleNameLen (i_bundleName info),
     i_videoState := (if Utils_IsForcedReportVoiceCall r info then TYPE_VOICE else i_videoState info),
     i_numberLocation := fitting kMaxNumberLen (i_numberLocation info),
     i_numberMarkInfo := arrived_mark (i_numberMarkInfo info),
     i_contactName := fitting kMaxNumberLen (i_contactName info),
     i_voipCallInfo := (if i_callType info = TYPE_VOIP then i_voipCallInfo info else default_voip_info),
     i_isEccContact := False, i_callCreateTime := 0, i_blockReason := 0, i_celiaCallType := -1,
     i_detectDetails := [], i_namePresentation := 0, i_name := [], i_antiFraudState := 0,
     i_newCallUseBox := 0, i_simType := 0, i_simIndex := 0, i_isPrevRtt := False, i_imsDomain := 0,
     i_phoneIndex := 0\<rparr>"

lemma takes_voip:
  assumes laws: "parcel_laws (rd_parcel S) items"
  shows "takes items (read_voip S (i_callType info)) (voip_items info)
     (if i_callType info = TYPE_VOIP then i_voipCallInfo info else default_voip_info)"
proof (cases "i_callType info = TYPE_VOIP")
  case True
  show ?thesis
    unfolding read_voip_def voip_items_def using True
    by (simp add: Let_def) ((rule takes_Cons, rule takes_basic [OF laws])+, rule takes_returnI, simp)
qed (simp add: read_voip_def voip_items_def takes_return)

lemma takes_mark:
  assumes laws: "parcel_laws (rd_parcel S) items" and casts: "casts_back (rd_casts S)"
  shows "takes items (read_mark S)
     [PInt32 (MarkType_code (markType m)), PCString (markContent m), PInt32 (markCount m),
      PCString (markSource m), PBool (isCloud m), PCString (markDetails m)] (arrived_mark m)"
  unfolding read_mark_def
  by ((rule takes_Cons, rule takes_basic [OF laws])+, rule takes_returnI)
    (use casts in \<open>simp add: arrived_mark_def casts_back_def\<close>)

lemma takes_attribute:
  assumes laws: "parcel_laws (rd_parcel S) items" and casts: "casts_back (rd_casts S)"
  shows "takes items (ReadCallAttributeInfo S) (attribute_items r info) (arrived_info r info)"
proof -
  let ?m = "i_numberMarkInfo info"
  let ?marks = "[PInt32 (MarkType_code (markType ?m)), PCString (markContent ?m), PInt32 (markCount ?m),
      PCString (markSource ?m), PBool (isCloud ?m), PCString (markDetails ?m)]"
  have type: "as_CallType (rd_casts S) (CallType_code (i_callType info)) = i_callType info"
    using casts by (simp add: casts_back_def)
  have items_split: "attribute_items r info =
     PCString (i_accountNumber info) # PCString (i_bundleName info) # PBool (i_speakerphoneOn info) #
     PInt32 (i_accountId info) #
     PInt32 (VideoStateType_code (if Utils_IsForcedReportVoiceCall r info then TYPE_VOICE
                                  else i_videoState info)) #
     PInt64 (i_startTime info) # PBool (i_isEcc info) # PInt32 (CallType_code (i_callType info)) #
     PInt32 (i_callId info) # PInt32 (TelCallState_code (i_callState info)) #
     PInt32 (TelConferenceState_code (i_conferenceState info)) #
     PInt64 (i_callBeginTime info) # PInt64 (i_callEndTime info) # PInt64 (i_ringBeginTime info) #
     PInt64 (i_ringEndTime info) # PInt32 (CallDirection_code (i_callDirection info)) #
     PInt32 (CallAnswerType_code (i_answerType info)) # PInt32 (i_index info) #
     PInt32 (i_crsType info) # PInt32 (i_originalCallType info) # PCString (i_numberLocation info) #
     ?marks @ PCString (i_contactName info) # PString (i_extraParamsString info) #
     voip_items info @ PInt32 (i_phoneOrWatch info) # PInt32 (RttCallState_code (i_rttState info)) #
      [PBool (i_isCustomAccessibility info)]"
    by (simp add: attribute_items_def)
  show ?thesis
    unfolding items_split ReadCallAttributeInfo_def
    apply ((rule takes_Cons, rule takes_basic [OF laws])+)
    apply (rule takes_bind, rule takes_mark [OF laws casts])
    apply ((rule takes_Cons, rule takes_basic [OF laws])+)
    apply (unfold type)
    apply (rule takes_bind, rule takes_voip [OF laws])
    apply ((rule takes_Cons, rule takes_basic [OF laws])+)
    apply (rule takes_returnI)
    using casts by (simp add: arrived_info_def casts_back_def default_info_def)
qed

subsection \<open>The service's end\<close>

definition tell_ability ::
  "('p, 's) proxy_env \<Rightarrow> int \<Rightarrow> parcel_item list \<Rightarrow> ('s, int) state" where
  "tell_ability X code vs = send_with X ABILITY_DESCRIPTOR code vs"

definition tell_ability_checked ::
  "('p, 's) proxy_env \<Rightarrow> int \<Rightarrow> parcel_item list \<Rightarrow> ('s, int) state" where
  "tell_ability_checked X code vs =
     send_checked X ABILITY_DESCRIPTOR code vs (px_code X)
       (\<lambda>_. px_code X TELEPHONY_ERR_IPC_CONNECT_STUB_FAIL) (reply_int X)"

text \<open>A structure is sent as its size and its memory.\<close>

definition sized_items :: "(nat \<Rightarrow> int) \<Rightarrow> raw_struct \<Rightarrow> parcel_item list" where
  "sized_items sizes d = [PInt32 (sizes (raw_kind d)), PRaw d]"

definition Callback_OnCallDetailsChange ::
  "('p, 's) proxy_env \<Rightarrow> registry \<Rightarrow> CallAttributeInfo \<Rightarrow> ('s, int) state" where
  "Callback_OnCallDetailsChange X r info = tell_ability X UPDATE_CALL_STATE_INFO (attribute_items r info)"

definition Callback_OnMeeTimeDetailsChange ::
  "('p, 's) proxy_env \<Rightarrow> registry \<Rightarrow> CallAttributeInfo \<Rightarrow> ('s, int) state" where
  "Callback_OnMeeTimeDetailsChange X r info = tell_ability X UPDATE_MEETIME_STATE_INFO (attribute_items r info)"

definition Callback_OnCallEventChange ::
  "('p, 's) proxy_env \<Rightarrow> (nat \<Rightarrow> int) \<Rightarrow> CallEventInfo \<Rightarrow> ('s, int) state" where
  "Callback_OnCallEventChange X sizes info = tell_ability X UPDATE_CALL_EVENT (sized_items sizes (RawCallEvent info))"

definition Callback_OnCallDisconnectedCause ::
  "('p, 's) proxy_env \<Rightarrow> int \<Rightarrow> string \<Rightarrow> ('s, int) state" where
  "Callback_OnCallDisconnectedCause X reason message =
     tell_ability_checked X UPDATE_CALL_DISCONNECTED_CAUSE [PInt32 reason, PString message]"

definition PackDataParcel :: "int \<Rightarrow> pac_map \<Rightarrow> parcel_item list" where
  "PackDataParcel reportId resultInfo =
     (let int = (\<lambda>k. PInt32 (pm_int resultInfo k)) in
      [PInt32 reportId, int ''result''] @
      (if reportId = GET_CALL_WAITING_REPORT_ID \<or> reportId = GET_CALL_RESTRICTION_REPORT_ID
       then [int ''status'', int ''classCw'']
       else if reportId = GET_CALL_TRANSFER_REPORT_ID
       then [int ''status'', int ''classx'', PString (pm_string resultInfo ''number''), int ''type'', int ''reason'']
       else if reportId = GET_CALL_CLIP_ID then [int ''action'', int ''clipStat'']
       else if reportId = GET_CALL_CLIR_ID then [int ''action'', int ''clirStat'']
       else if reportId = GET_IMS_CONFIG_REPORT_ID \<or> reportId = GET_IMS_FEATURE_VALUE_REPORT_ID
       then [int ''value'']
       else []))"

definition Callback_OnReportAsyncResults ::
  "('p, 's) proxy_env \<Rightarrow> int \<Rightarrow> pac_map \<Rightarrow> ('s, int) state" where
  "Callback_OnReportAsyncResults X reportId resultInfo =
     tell_ability X UPDATE_CALL_ASYNC_RESULT_REQUEST (PackDataParcel reportId resultInfo)"

definition Callback_OnReportMmiCodeResult ::
  "('p, 's) proxy_env \<Rightarrow> (nat \<Rightarrow> int) \<Rightarrow> MmiCodeInfo \<Rightarrow> ('s, int) state" where
  "Callback_OnReportMmiCodeResult X sizes info =
     tell_ability X UPDATE_MMI_CODE_RESULT_REQUEST (sized_items sizes (RawMmiCode info))"

definition ott_items :: "int \<Rightarrow> pac_map \<Rightarrow> parcel_item list" where
  "ott_items requestId info =
     [PInt32 requestId, PString (pm_string info ''phoneNumber''), PString (pm_string info ''bundleName''),
      PInt32 (pm_int info ''videoState'')] @
     (if requestId = OTT_REQUEST_INVITE_TO_CONFERENCE
      then (if pm_int info ''listCnt'' > 0 then [PString (pm_string info ''number'')] else [])
      else if requestId = OTT_REQUEST_UPDATE_CALL_MEDIA_MODE then [PInt32 (pm_int info ''callMediaMode'')]
      else [])"

definition Callback_OnOttCallRequest ::
  "('p, 's) proxy_env \<Rightarrow> int \<Rightarrow> pac_map \<Rightarrow> ('s, int) state" where
  "Callback_OnOttCallRequest X requestId info = tell_ability X REPORT_OTT_CALL_REQUEST (ott_items requestId info)"

definition Callback_OnReportAudioDeviceChange ::
  "('p, 's) proxy_env \<Rightarrow> AudioDeviceInfo \<Rightarrow> ('s, int) state" where
  "Callback_OnReportAudioDeviceChange X info =
     tell_ability X UPDATE_AUDIO_DEVICE_CHANGE_RESULT_REQUEST
       (PInt32 (int (length (di_audioDeviceList info))) # map PAudioDevice (di_audioDeviceList info) @
        [PAudioDevice (di_currentAudioDevice info), PBool (di_isMuted info), PInt32 (di_callId info),
         PBool (di_isMicDisabled info)])"

definition Callback_OnReportPostDialDelay :: "('p, 's) proxy_env \<Rightarrow> string \<Rightarrow> ('s, int) state" where
  "Callback_OnReportPostDialDelay X str = tell_ability X REPORT_POST_DIAL_DELAY [PString str]"

definition Callback_OnReportImsCallModeChange ::
  "('p, 's) proxy_env \<Rightarrow> (nat \<Rightarrow> int) \<Rightarrow> CallMediaModeInfo \<Rightarrow> ('s, int) state" where
  "Callback_OnReportImsCallModeChange X sizes info =
     tell_ability X UPDATE_IMS_CALL_MODE_RECEIVE (sized_items sizes (RawMediaMode info))"

definition Callback_OnReportCallSessionEventChange ::
  "('p, 's) proxy_env \<Rightarrow> (nat \<Rightarrow> int) \<Rightarrow> CallSessionEvent \<Rightarrow> ('s, int) state" where
  "Callback_OnReportCallSessionEventChange X sizes event =
     tell_ability X CALL_SESSION_EVENT_CHANGE (sized_items sizes (RawSession event))"

definition Callback_OnReportPeerDimensionsChange ::
  "('p, 's) proxy_env \<Rightarrow> (nat \<Rightarrow> int) \<Rightarrow> PeerDimensionsDetail \<Rightarrow> ('s, int) state" where
  "Callback_OnReportPeerDimensionsChange X sizes detail =
     tell_ability X PEERD_DIMENSIONS_CHANGE (sized_items sizes (RawDimensions detail))"

definition Callback_OnReportCallDataUsageChange :: "('p, 's) proxy_env \<Rightarrow> int \<Rightarrow> ('s, int) state" where
  "Callback_OnReportCallDataUsageChange X dataUsage = tell_ability X CALL_DATA_USAGE_CHANGE [PInt64 dataUsage]"

definition Callback_OnReportCameraCapabilities ::
  "('p, 's) proxy_env \<Rightarrow> (nat \<Rightarrow> int) \<Rightarrow> CameraCapabilities \<Rightarrow> ('s, int) state" where
  "Callback_OnReportCameraCapabilities X sizes c =
     tell_ability X CAMERA_CAPABILITIES_CHANGE (sized_items sizes (RawCamera c))"

definition Callback_OnPhoneStateChange ::
  "('p, 's) proxy_env \<Rightarrow> int \<Rightarrow> int \<Rightarrow> int \<Rightarrow> string \<Rightarrow> ('s, int) state" where
  "Callback_OnPhoneStateChange X numActive numHeld callState number =
     tell_ability X UPDATE_PHONE_STATE [PInt32 numActive, PInt32 numHeld, PInt32 callState, PString number]"

definition Callback_OnReportRttCallEvtChanged :: "('p, 's) proxy_env \<Rightarrow> RttEvent \<Rightarrow> ('s, int) state" where
  "Callback_OnReportRttCallEvtChanged X info =
     tell_ability_checked X RTT_CALL_EVENT_CHANGE
       [PInt32 (rt_callId info), PInt32 (rt_eventType info), PInt32 (rt_reason info)]"

definition Callback_OnReportRttCallError :: "('p, 's) proxy_env \<Rightarrow> RttError \<Rightarrow> ('s, int) state" where
  "Callback_OnReportRttCallError X info =
     tell_ability_checked X RTT_CALL_ERROR_REPORT
       [PInt32 (rx_callId info), PInt32 (rx_causeCode info), PInt32 (rx_operationType info),
        PString (rx_reasonText info)]"

definition Callback_OnReportRttCallMessage :: "('p, 's) proxy_env \<Rightarrow> pac_map \<Rightarrow> ('s, int) state" where
  "Callback_OnReportRttCallMessage X msgResult =
     tell_ability X RTT_CALL_SEND_MESSAGE
       [PInt32 (pm_int msgResult ''callId''), PString (pm_string msgResult ''rttMessage'')]"

subsection \<open>The application's callback\<close>

text \<open>
  \<^verbatim>\<open>CallAbilityCallback\<close> hands every report to the callback of the application, when one is
  set.  What the callback answers may depend on what it was told before.
\<close>

record ability_app =
  ap_callback :: bool                 \<comment> \<open>callbackPtr\_ is not null\<close>
  ap_received :: "AppReport list"

record ability_app_env =
  ae_answer :: "AppReport list \<Rightarrow> AppReport \<Rightarrow> int"
  ae_success :: int
  ae_rtt :: bool                      \<comment> \<open>SUPPORT\_RTT\_CALL\<close>

type_synonym app_step = "(ability_app, int) state"

definition App_SetProcessCallback :: "ability_app_env \<Rightarrow> bool \<Rightarrow> app_step" where
  "App_SetProcessCallback A callback = State (\<lambda>a. (ae_success A, a\<lparr>ap_callback := callback\<rparr>))"

definition hand_over :: "ability_app_env \<Rightarrow> AppReport \<Rightarrow> app_step" where
  "hand_over A r = State (\<lambda>a. if ap_callback a
     then (ae_answer A (ap_received a) r, a\<lparr>ap_received := ap_received a @ [r]\<rparr>) else (ae_success A, a))"

definition App_OnCallDetailsChange :: "ability_app_env \<Rightarrow> CallAttributeInfo \<Rightarrow> app_step" where
  "App_OnCallDetailsChange A info = hand_over A (CallDetails info)"
definition App_OnMeeTimeDetailsChange :: "ability_app_env \<Rightarrow> CallAttributeInfo \<Rightarrow> app_step" where
  "App_OnMeeTimeDetailsChange A info = hand_over A (MeeTimeDetails info)"
definition App_OnCallEventChange :: "ability_app_env \<Rightarrow> CallEventInfo \<Rightarrow> app_step" where
  "App_OnCallEventChange A info = hand_over A (CallEventChange info)"
definition App_OnCallDisconnectedCause :: "ability_app_env \<Rightarrow> int \<Rightarrow> string \<Rightarrow> app_step" where
  "App_OnCallDisconnectedCause A reason message = hand_over A (DisconnectedCause reason message)"
definition App_OnReportAsyncResults :: "ability_app_env \<Rightarrow> int \<Rightarrow> pac_map \<Rightarrow> app_step" where
  "App_OnReportAsyncResults A reportId resultInfo = hand_over A (AsyncResults reportId resultInfo)"
definition App_OnReportMmiCodeResult :: "ability_app_env \<Rightarrow> MmiCodeInfo \<Rightarrow> app_step" where
  "App_OnReportMmiCodeResult A info = hand_over A (MmiCodeResult info)"
definition App_OnOttCallRequest :: "ability_app_env \<Rightarrow> int \<Rightarrow> pac_map \<Rightarrow> app_step" where
  "App_OnOttCallRequest A requestId info = hand_over A (OttRequest requestId info)"
definition App_OnReportAudioDeviceChange :: "ability_app_env \<Rightarrow> AudioDeviceInfo \<Rightarrow> app_step" where
  "App_OnReportAudioDeviceChange A info = hand_over A (AudioDeviceChange info)"
definition App_OnReportPostDialDelay :: "ability_app_env \<Rightarrow> string \<Rightarrow> app_step" where
  "App_OnReportPostDialDelay A str = hand_over A (PostDialDelay str)"
definition App_OnReportImsCallModeChange :: "ability_app_env \<Rightarrow> CallMediaModeInfo \<Rightarrow> app_step" where
  "App_OnReportImsCallModeChange A info = hand_over A (ImsCallModeChange info)"
definition App_OnReportCallSessionEventChange :: "ability_app_env \<Rightarrow> CallSessionEvent \<Rightarrow> app_step" where
  "App_OnReportCallSessionEventChange A event = hand_over A (SessionEventChange event)"
definition App_OnReportPeerDimensionsChange :: "ability_app_env \<Rightarrow> PeerDimensionsDetail \<Rightarrow> app_step" where
  "App_OnReportPeerDimensionsChange A detail = hand_over A (DimensionsChange detail)"
definition App_OnReportCallDataUsageChange :: "ability_app_env \<Rightarrow> int \<Rightarrow> app_step" where
  "App_OnReportCallDataUsageChange A dataUsage = hand_over A (DataUsageChange dataUsage)"
definition App_OnReportCameraCapabilities :: "ability_app_env \<Rightarrow> CameraCapabilities \<Rightarrow> app_step" where
  "App_OnReportCameraCapabilities A c = hand_over A (CameraChange c)"
definition App_OnPhoneStateChange :: "ability_app_env \<Rightarrow> int \<Rightarrow> int \<Rightarrow> int \<Rightarrow> string \<Rightarrow> app_step" where
  "App_OnPhoneStateChange A numActive numHeld callState number =
     hand_over A (PhoneStateChange numActive numHeld callState number)"
definition App_OnReportRttCallEvtChanged :: "ability_app_env \<Rightarrow> RttEvent \<Rightarrow> app_step" where
  "App_OnReportRttCallEvtChanged A info = hand_over A (RttEventChange info)"
definition App_OnReportRttCallError :: "ability_app_env \<Rightarrow> RttError \<Rightarrow> app_step" where
  "App_OnReportRttCallError A info = hand_over A (RttErrorReport info)"
definition App_OnReportRttCallMessage :: "ability_app_env \<Rightarrow> pac_map \<Rightarrow> app_step" where
  "App_OnReportRttCallMessage A msgResult = hand_over A (RttMessage msgResult)"

end
