(* ===== verification/Callback_Stub.thy ===== *)
theory Callback_Stub
  imports Callback_Messages
begin

text \<open>
  The application's end of the reports
  (\<^verbatim>\<open>frameworks/native/src/call_ability_callback_stub.cpp\<close>): one handler per code, the
  table of the codes, and the entry of a message.
\<close>

subsection \<open>Readers\<close>

text \<open>The length is checked; what is read is the structure, whatever the length said.\<close>

definition take_mmi :: "'p reader_env \<Rightarrow> ('p, ErrCode + MmiCodeInfo) state" where
  "take_mmi S = do {
     len \<leftarrow> take_int S;
     (if len \<le> 0 \<or> len \<ge> MAX_LEN then State_Monad.return (Inl TELEPHONY_ERR_ARGUMENT_INVALID)
      else do {
        d \<leftarrow> take_raw S 1 (\<lambda>d. case d of RawMmiCode i \<Rightarrow> Some i | _ \<Rightarrow> None) (rd_size S 1);
        State_Monad.return (case d of None \<Rightarrow> Inl TELEPHONY_ERR_LOCAL_PTR_NULL | Some i \<Rightarrow> Inr i) }) }"

definition take_event :: "'p reader_env \<Rightarrow> ('p, ErrCode + CallEventInfo) state" where
  "take_event S = do {
     len \<leftarrow> take_int S;
     (if len \<le> 0 \<or> len \<ge> MAX_LEN then State_Monad.return (Inl TELEPHONY_ERR_ARGUMENT_INVALID)
      else if len \<noteq> rd_size S 0 then State_Monad.return (Inl TELEPHONY_ERR_ARGUMENT_INVALID)
      else do {
        d \<leftarrow> take_raw S 0 (\<lambda>d. case d of RawCallEvent i \<Rightarrow> Some i | _ \<Rightarrow> None) (rd_size S 0);
        State_Monad.return (case d of None \<Rightarrow> Inl TELEPHONY_ERR_LOCAL_PTR_NULL | Some i \<Rightarrow> Inr i) }) }"

fun take_ints :: "'p reader_env \<Rightarrow> string list \<Rightarrow> pac_map \<Rightarrow> ('p, pac_map) state" where
  "take_ints S [] m = State_Monad.return m"
| "take_ints S (k # ks) m = do { i \<leftarrow> take_int S; take_ints S ks (put_int k i m) }"

definition take_text :: "'p reader_env \<Rightarrow> string \<Rightarrow> pac_map \<Rightarrow> ('p, pac_map) state" where
  "take_text S k m = do { t \<leftarrow> take_string S; State_Monad.return (put_string k t m) }"

definition read_results :: "'p reader_env \<Rightarrow> ('p, int \<times> pac_map) state" where
  "read_results S = do {
     reportId \<leftarrow> take_int S;
     m \<leftarrow> take_ints S [''result''] empty_pac_map;
     m \<leftarrow> (if reportId = GET_CALL_WAITING_REPORT_ID \<or> reportId = GET_CALL_RESTRICTION_REPORT_ID
       then take_ints S [''status'', ''classCw''] m
       else if reportId = GET_CALL_TRANSFER_REPORT_ID then do {
         m \<leftarrow> take_ints S [''status'', ''classx''] m;
         m \<leftarrow> take_text S ''number'' m;
         take_ints S [''type'', ''reason'', ''time''] m }
       else if reportId = GET_CALL_CLIP_ID then take_ints S [''action'', ''clipStat''] m
       else if reportId = GET_CALL_CLIR_ID then take_ints S [''action'', ''clirStat''] m
       else if reportId = GET_IMS_CONFIG_REPORT_ID \<or> reportId = GET_IMS_FEATURE_VALUE_REPORT_ID
       then take_ints S [''value''] m
       else State_Monad.return m);
     State_Monad.return (reportId, m) }"

definition read_ott_request :: "'p reader_env \<Rightarrow> ('p, int \<times> pac_map) state" where
  "read_ott_request S = do {
     requestId \<leftarrow> take_int S;
     m \<leftarrow> take_text S ''phoneNumber'' empty_pac_map;
     m \<leftarrow> take_text S ''bundleName'' m;
     m \<leftarrow> take_ints S [''videoState''] m;
     m \<leftarrow> (if requestId = OTT_REQUEST_INVITE_TO_CONFERENCE then take_text S ''number'' m
       else if requestId = OTT_REQUEST_UPDATE_CALL_MEDIA_MODE then take_ints S [''callMediaMode''] m
       else State_Monad.return m);
     State_Monad.return (requestId, m) }"

fun take_devices :: "'p reader_env \<Rightarrow> nat \<Rightarrow> ('p, AudioDevice list option) state" where
  "take_devices S 0 = State_Monad.return (Some [])"
| "take_devices S (Suc n) = do {
     d \<leftarrow> take_device S;
     (case d of
        None \<Rightarrow> State_Monad.return None
      | Some d \<Rightarrow> do {
          ds \<leftarrow> take_devices S n;
          State_Monad.return (map_option ((#) d) ds) }) }"

text \<open>The devices of the list and behind them the one in use; an empty list is refused.\<close>

definition read_devices :: "'p reader_env \<Rightarrow> ('p, ErrCode + AudioDeviceInfo) state" where
  "read_devices S = do {
     len \<leftarrow> take_int S;
     (if len \<le> 0 \<or> len \<ge> MAX_LEN then State_Monad.return (Inl TELEPHONY_ERR_ARGUMENT_INVALID)
      else do {
        ds \<leftarrow> take_devices S (nat len + 1);
        (case ds of
           None \<Rightarrow> State_Monad.return (Inl TELEPHONY_ERR_ARGUMENT_INVALID)
         | Some ds \<Rightarrow> do {
             isMuted \<leftarrow> take_bool S;
             callId \<leftarrow> take_int S;
             isMicDisabled \<leftarrow> take_bool S;
             State_Monad.return (Inr \<lparr>di_audioDeviceList = butlast ds, di_currentAudioDevice = last ds,
               di_isMuted = isMuted, di_callId = callId, di_isMicDisabled = isMicDisabled\<rparr>) }) }) }"

subsection \<open>The handlers\<close>

type_synonym 'p app_handler = "'p \<Rightarrow> 'p \<Rightarrow> (ability_app, int \<times> 'p) state"

definition OnUpdateCallStateInfo :: "ability_app_env \<Rightarrow> 'p reader_env \<Rightarrow> 'p app_handler" where
  "OnUpdateCallStateInfo A S = handle S (total (ReadCallAttributeInfo S)) (App_OnCallDetailsChange A)"

definition OnUpdateMeeTimeStateInfo :: "ability_app_env \<Rightarrow> 'p reader_env \<Rightarrow> 'p app_handler" where
  "OnUpdateMeeTimeStateInfo A S = handle S (total (ReadCallAttributeInfo S)) (App_OnMeeTimeDetailsChange A)"

definition OnUpdateCallEvent :: "ability_app_env \<Rightarrow> 'p reader_env \<Rightarrow> 'p app_handler" where
  "OnUpdateCallEvent A S = handle S (take_event S) (App_OnCallEventChange A)"

definition OnUpdateCallDisconnectedCause :: "ability_app_env \<Rightarrow> 'p reader_env \<Rightarrow> 'p app_handler" where
  "OnUpdateCallDisconnectedCause A S =
     handle S (total (do { reason \<leftarrow> take_int S; message \<leftarrow> take_string S; State_Monad.return (reason, message) }))
       (\<lambda>(reason, message). App_OnCallDisconnectedCause A reason message)"

definition OnUpdateAysncResults :: "ability_app_env \<Rightarrow> 'p reader_env \<Rightarrow> 'p app_handler" where
  "OnUpdateAysncResults A S =
     handle S (total (read_results S)) (\<lambda>(reportId, m). App_OnReportAsyncResults A reportId m)"

definition OnUpdateMmiCodeResults :: "ability_app_env \<Rightarrow> 'p reader_env \<Rightarrow> 'p app_handler" where
  "OnUpdateMmiCodeResults A S = handle S (take_mmi S) (App_OnReportMmiCodeResult A)"

definition OnUpdateAudioDeviceChange :: "ability_app_env \<Rightarrow> 'p reader_env \<Rightarrow> 'p app_handler" where
  "OnUpdateAudioDeviceChange A S = handle S (read_devices S) (App_OnReportAudioDeviceChange A)"

definition OnUpdateOttCallRequest :: "ability_app_env \<Rightarrow> 'p reader_env \<Rightarrow> 'p app_handler" where
  "OnUpdateOttCallRequest A S =
     handle S (total (read_ott_request S)) (\<lambda>(requestId, m). App_OnOttCallRequest A requestId m)"

definition OnUpdatePostDialDelay :: "ability_app_env \<Rightarrow> 'p reader_env \<Rightarrow> 'p app_handler" where
  "OnUpdatePostDialDelay A S = handle S (total (take_string S)) (App_OnReportPostDialDelay A)"

definition OnUpdateImsCallModeChange :: "ability_app_env \<Rightarrow> 'p reader_env \<Rightarrow> 'p app_handler" where
  "OnUpdateImsCallModeChange A S =
     handle S (take_sized S 2 (\<lambda>d. case d of RawMediaMode i \<Rightarrow> Some i | _ \<Rightarrow> None) 1)
       (App_OnReportImsCallModeChange A)"

definition OnUpdateCallSessionEventChange :: "ability_app_env \<Rightarrow> 'p reader_env \<Rightarrow> 'p app_handler" where
  "OnUpdateCallSessionEventChange A S =
     handle S (take_sized S 3 (\<lambda>d. case d of RawSession i \<Rightarrow> Some i | _ \<Rightarrow> None) 1)
       (App_OnReportCallSessionEventChange A)"

definition OnUpdatePeerDimensionsChange :: "ability_app_env \<Rightarrow> 'p reader_env \<Rightarrow> 'p app_handler" where
  "OnUpdatePeerDimensionsChange A S =
     handle S (take_sized S 4 (\<lambda>d. case d of RawDimensions i \<Rightarrow> Some i | _ \<Rightarrow> None) 1)
       (App_OnReportPeerDimensionsChange A)"

definition OnUpdateCallDataUsageChange :: "ability_app_env \<Rightarrow> 'p reader_env \<Rightarrow> 'p app_handler" where
  "OnUpdateCallDataUsageChange A S = handle S (total (take_int64 S)) (App_OnReportCallDataUsageChange A)"

definition OnUpdateCameraCapabilities :: "ability_app_env \<Rightarrow> 'p reader_env \<Rightarrow> 'p app_handler" where
  "OnUpdateCameraCapabilities A S =
     handle S (take_sized S 5 (\<lambda>d. case d of RawCamera i \<Rightarrow> Some i | _ \<Rightarrow> None) 1)
       (App_OnReportCameraCapabilities A)"

definition OnUpdatePhoneState :: "ability_app_env \<Rightarrow> 'p reader_env \<Rightarrow> 'p app_handler" where
  "OnUpdatePhoneState A S =
     handle S (total (do {
         numActive \<leftarrow> take_int S;
         numHeld \<leftarrow> take_int S;
         callState \<leftarrow> take_int S;
         number \<leftarrow> take_string S;
         State_Monad.return (numActive, numHeld, callState, number) }))
       (\<lambda>(numActive, numHeld, callState, number). App_OnPhoneStateChange A numActive numHeld callState number)"

definition OnUpdateRttCallEvent :: "ability_app_env \<Rightarrow> 'p reader_env \<Rightarrow> 'p app_handler" where
  "OnUpdateRttCallEvent A S =
     handle S (total (do {
         callId \<leftarrow> take_int S;
         eventType \<leftarrow> take_int S;
         reason \<leftarrow> take_int S;
         State_Monad.return \<lparr>rt_callId = callId, rt_eventType = eventType, rt_reason = reason\<rparr> }))
       (App_OnReportRttCallEvtChanged A)"

definition OnUpdateRttCallErrorReport :: "ability_app_env \<Rightarrow> 'p reader_env \<Rightarrow> 'p app_handler" where
  "OnUpdateRttCallErrorReport A S =
     handle S (total (do {
         callId \<leftarrow> take_int S;
         causeCode \<leftarrow> take_int S;
         operationType \<leftarrow> take_int S;
         reasonText \<leftarrow> take_string S;
         State_Monad.return \<lparr>rx_callId = callId, rx_operationType = operationType, rx_causeCode = causeCode,
           rx_reasonText = reasonText\<rparr> }))
       (App_OnReportRttCallError A)"

definition OnUpdateRttCallMessage :: "ability_app_env \<Rightarrow> 'p reader_env \<Rightarrow> 'p app_handler" where
  "OnUpdateRttCallMessage A S =
     handle S (total (do { m \<leftarrow> take_ints S [''callId''] empty_pac_map; take_text S ''rttMessage'' m }))
       (App_OnReportRttCallMessage A)"

subsection \<open>The table\<close>

definition ability_members :: "ability_app_env \<Rightarrow> 'p reader_env \<Rightarrow> (int \<times> 'p app_handler) list" where
  "ability_members A S =
     [(UPDATE_CALL_STATE_INFO, OnUpdateCallStateInfo A S),
      (UPDATE_MEETIME_STATE_INFO, OnUpdateMeeTimeStateInfo A S),
      (UPDATE_CALL_EVENT, OnUpdateCallEvent A S),
      (UPDATE_CALL_DISCONNECTED_CAUSE, OnUpdateCallDisconnectedCause A S),
      (UPDATE_CALL_ASYNC_RESULT_REQUEST, OnUpdateAysncResults A S),
      (REPORT_OTT_CALL_REQUEST, OnUpdateOttCallRequest A S),
      (UPDATE_MMI_CODE_RESULT_REQUEST, OnUpdateMmiCodeResults A S),
      (UPDATE_AUDIO_DEVICE_CHANGE_RESULT_REQUEST, OnUpdateAudioDeviceChange A S),
      (REPORT_POST_DIAL_DELAY, OnUpdatePostDialDelay A S),
      (UPDATE_IMS_CALL_MODE_RECEIVE, OnUpdateImsCallModeChange A S),
      (CALL_SESSION_EVENT_CHANGE, OnUpdateCallSessionEventChange A S),
      (PEERD_DIMENSIONS_CHANGE, OnUpdatePeerDimensionsChange A S),
      (CALL_DATA_USAGE_CHANGE, OnUpdateCallDataUsageChange A S),
      (CAMERA_CAPABILITIES_CHANGE, OnUpdateCameraCapabilities A S),
      (UPDATE_PHONE_STATE, OnUpdatePhoneState A S)] @
     (if ae_rtt A then
        [(RTT_CALL_EVENT_CHANGE, OnUpdateRttCallEvent A S),
         (RTT_CALL_ERROR_REPORT, OnUpdateRttCallErrorReport A S),
         (RTT_CALL_SEND_MESSAGE, OnUpdateRttCallMessage A S)]
      else [])"

definition ability_table :: "ability_app_env \<Rightarrow> 'p reader_env \<Rightarrow> ('p, ability_app) member_table" where
  "ability_table A S = map_of (ability_members A S)"

definition Ability_OnRemoteRequest ::
  "ability_app_env \<Rightarrow> 'p reader_env \<Rightarrow> int \<Rightarrow> 'p \<Rightarrow> 'p \<Rightarrow> (ability_app, int \<times> 'p) state" where
  "Ability_OnRemoteRequest A S = receive S ABILITY_DESCRIPTOR (ability_table A S)"

end
