(* ===== verification/Callback_Properties.thy ===== *)
theory Callback_Properties
  imports Callback_Stub
begin

text \<open>
  What arrives at an application of the reports the service sends it: both ends of the
  messages, put together over a transport without answers.
\<close>

subsection \<open>What the readers of the application make of a message\<close>

definition sizes_fit :: "'p reader_env \<Rightarrow> bool" where
  "sizes_fit S \<longleftrightarrow> (\<forall>k. 1 \<le> rd_size S k \<and> rd_size S k < MAX_LEN)"

fun copy_ints :: "string list \<Rightarrow> pac_map \<Rightarrow> pac_map \<Rightarrow> pac_map" where
  "copy_ints [] src m = m"
| "copy_ints (k # ks) src m = copy_ints ks src (put_int k (pm_int src k) m)"

definition result_keys :: "int \<Rightarrow> string list" where
  "result_keys reportId =
     (if reportId = GET_CALL_WAITING_REPORT_ID \<or> reportId = GET_CALL_RESTRICTION_REPORT_ID
      then [''status'', ''classCw'']
      else if reportId = GET_CALL_CLIP_ID then [''action'', ''clipStat'']
      else if reportId = GET_CALL_CLIR_ID then [''action'', ''clirStat'']
      else if reportId = GET_IMS_CONFIG_REPORT_ID \<or> reportId = GET_IMS_FEATURE_VALUE_REPORT_ID then [''value'']
      else [])"

definition arrived_results :: "int \<Rightarrow> pac_map \<Rightarrow> pac_map" where
  "arrived_results reportId m = copy_ints (''result'' # result_keys reportId) m empty_pac_map"

definition arrived_request :: "int \<Rightarrow> pac_map \<Rightarrow> pac_map" where
  "arrived_request requestId m =
     (let n = copy_ints [''videoState''] m (put_string ''bundleName'' (pm_string m ''bundleName'')
                (put_string ''phoneNumber'' (pm_string m ''phoneNumber'') empty_pac_map)) in
      if requestId = OTT_REQUEST_INVITE_TO_CONFERENCE then put_string ''number'' (pm_string m ''number'') n
      else if requestId = OTT_REQUEST_UPDATE_CALL_MEDIA_MODE then copy_ints [''callMediaMode''] m n
      else n)"

definition arrived_message :: "pac_map \<Rightarrow> pac_map" where
  "arrived_message m = put_string ''rttMessage'' (pm_string m ''rttMessage'') (copy_ints [''callId''] m empty_pac_map)"

lemma takes_ints:
  assumes laws: "parcel_laws (rd_parcel S) items"
  shows "takes items (take_ints S ks m) (map (\<lambda>k. PInt32 (pm_int src k)) ks) (copy_ints ks src m)"
proof (induction ks arbitrary: m)
  case (Cons k ks)
  show ?case unfolding take_ints.simps list.map copy_ints.simps
    by (rule takes_Cons, rule takes_basic [OF laws], rule Cons.IH)
qed (simp add: takes_return)

lemma takes_text:
  assumes laws: "parcel_laws (rd_parcel S) items"
  shows "takes items (take_text S k m) [PString t] (put_string k t m)"
  unfolding take_text_def by (rule takes_Cons, rule takes_basic [OF laws], rule takes_return)

lemma takes_devices:
  assumes laws: "parcel_laws (rd_parcel S) items"
  shows "takes items (take_devices S (length ds)) (map PAudioDevice ds) (Some ds)"
proof (induction ds)
  case (Cons d ds)
  show ?case
    unfolding take_devices.simps list.size list.map
    by (simp, rule takes_Cons, rule takes_basic [OF laws])
       (use takes_mapped [OF Cons.IH, of "map_option ((#) d)"] in simp)
qed (simp add: takes_return)

lemma pack_results:
  "reportId \<noteq> GET_CALL_TRANSFER_REPORT_ID \<Longrightarrow>
   PackDataParcel reportId m = PInt32 reportId # map (\<lambda>k. PInt32 (pm_int m k)) [''result''] @
     map (\<lambda>k. PInt32 (pm_int m k)) (result_keys reportId)"
  by (simp add: PackDataParcel_def result_keys_def Let_def)

lemma takes_results:
  assumes laws: "parcel_laws (rd_parcel S) items" and "reportId \<noteq> GET_CALL_TRANSFER_REPORT_ID"
  shows "takes items (read_results S) (PackDataParcel reportId m) (reportId, arrived_results reportId m)"
proof -
  have body: "(if reportId = GET_CALL_WAITING_REPORT_ID \<or> reportId = GET_CALL_RESTRICTION_REPORT_ID
       then take_ints S [''status'', ''classCw''] m0
       else if reportId = GET_CALL_TRANSFER_REPORT_ID then X
       else if reportId = GET_CALL_CLIP_ID then take_ints S [''action'', ''clipStat''] m0
       else if reportId = GET_CALL_CLIR_ID then take_ints S [''action'', ''clirStat''] m0
       else if reportId = GET_IMS_CONFIG_REPORT_ID \<or> reportId = GET_IMS_FEATURE_VALUE_REPORT_ID
       then take_ints S [''value''] m0
       else State_Monad.return m0) = take_ints S (result_keys reportId) m0" for m0 X
    using assms(2) by (simp add: result_keys_def)
  show ?thesis
    unfolding pack_results [OF assms(2)] read_results_def arrived_results_def copy_ints.simps(2)
    by (rule takes_Cons, rule takes_basic [OF laws], rule takes_bind, rule takes_ints [OF laws],
        unfold body copy_ints.simps, rule takes_mapped, rule takes_ints [OF laws])
qed

lemma takes_ott:
  assumes laws: "parcel_laws (rd_parcel S) items"
    and "requestId = OTT_REQUEST_INVITE_TO_CONFERENCE \<longrightarrow> pm_int m ''listCnt'' > 0"
  shows "takes items (read_ott_request S) (ott_items requestId m) (requestId, arrived_request requestId m)"
proof -
  note one = takes_ints [OF laws, of "[k]" for k, unfolded list.map copy_ints.simps]
  consider (invite) "requestId = OTT_REQUEST_INVITE_TO_CONFERENCE"
    | (mode) "requestId = OTT_REQUEST_UPDATE_CALL_MEDIA_MODE" "requestId \<noteq> OTT_REQUEST_INVITE_TO_CONFERENCE"
    | (other) "requestId \<noteq> OTT_REQUEST_INVITE_TO_CONFERENCE" "requestId \<noteq> OTT_REQUEST_UPDATE_CALL_MEDIA_MODE"
    by blast
  then show ?thesis
  proof cases
    case invite
    with assms(2) have vs: "ott_items requestId m = PInt32 requestId # PString (pm_string m ''phoneNumber'') #
        PString (pm_string m ''bundleName'') # PInt32 (pm_int m ''videoState'') # [PString (pm_string m ''number'')]"
      by (simp add: ott_items_def)
    show ?thesis unfolding vs read_ott_request_def arrived_request_def copy_ints.simps
      by (rule takes_Cons, rule takes_basic [OF laws], (rule takes_Cons, rule takes_text [OF laws])+,
          rule takes_Cons, rule one, simp only: invite if_True Let_def simp_thms) (rule takes_mapped, rule takes_text [OF laws])
  next
    case mode
    then have vs: "ott_items requestId m = PInt32 requestId # PString (pm_string m ''phoneNumber'') #
        PString (pm_string m ''bundleName'') # PInt32 (pm_int m ''videoState'') # [PInt32 (pm_int m ''callMediaMode'')]"
      by (simp add: ott_items_def)
    show ?thesis unfolding vs read_ott_request_def arrived_request_def copy_ints.simps
      by (rule takes_Cons, rule takes_basic [OF laws], (rule takes_Cons, rule takes_text [OF laws])+,
          rule takes_Cons, rule one, simp only: mode mode(2) [unfolded mode(1)] if_True if_False Let_def simp_thms) (rule takes_mapped, rule one)
  next
    case other
    then have vs: "ott_items requestId m = PInt32 requestId # PString (pm_string m ''phoneNumber'') #
        PString (pm_string m ''bundleName'') # PInt32 (pm_int m ''videoState'') # []"
      by (simp add: ott_items_def)
    show ?thesis unfolding vs read_ott_request_def arrived_request_def copy_ints.simps
      by (rule takes_Cons, rule takes_basic [OF laws], (rule takes_Cons, rule takes_text [OF laws])+,
          rule takes_Cons, rule one, simp add: other Let_def takes_return)
  qed
qed

subsection \<open>One report\<close>

text \<open>The message with a code and these items makes the application's callback get a report.\<close>

definition tells ::
  "'p reader_env \<Rightarrow> ('p \<Rightarrow> parcel_item list) \<Rightarrow> ability_app_env \<Rightarrow> int \<Rightarrow> parcel_item list \<Rightarrow> AppReport \<Rightarrow> bool" where
  "tells S items A code vs r \<longleftrightarrow>
     parcel_laws (rd_parcel S) items \<and> PRemoteObject False \<notin> set vs \<and>
     (\<forall>X a. posted X S ABILITY_DESCRIPTOR (ability_table A S) \<longrightarrow>
        snd (run_state (tell_ability X code vs) a) = snd (run_state (hand_over A r) a) \<and>
        snd (run_state (tell_ability_checked X code vs) a) = snd (run_state (hand_over A r) a))"

lemma tellsI:
  assumes "parcel_laws (rd_parcel S) items" "PRemoteObject False \<notin> set vs"
    "ability_table A S code = Some (handle S reader call)" "takes items reader vs (Inr b)" "call b = hand_over A r"
  shows "tells S items A code vs r"
proof -
  have "snd (run_state (tell_ability X code vs) a) = snd (run_state (hand_over A r) a) \<and>
      snd (run_state (tell_ability_checked X code vs) a) = snd (run_state (hand_over A r) a)"
    if X: "posted X S ABILITY_DESCRIPTOR (ability_table A S)" for X a
    unfolding tell_ability_def tell_ability_checked_def
    by (simp only: post_arrives [where items = items, OF assms(1) X assms(2) assms(3) assms(4)]
        post_checked_arrives [where items = items, OF assms(1) X assms(2) assms(3) assms(4)] assms(5))
  with assms(1,2) show ?thesis by (simp add: tells_def)
qed

lemma tellsD:
  assumes "tells S items A code vs r" "posted X S ABILITY_DESCRIPTOR (ability_table A S)"
  shows "snd (run_state (tell_ability X code vs) a) = snd (run_state (hand_over A r) a)"
    "snd (run_state (tell_ability_checked X code vs) a) = snd (run_state (hand_over A r) a)"
  using assms by (simp_all add: tells_def)

lemmas entry_defs = ability_table_def ability_members_def ability_code

lemma tells_details:
  assumes laws: "parcel_laws (rd_parcel S) items" and casts: "casts_back (rd_casts S)"
  shows "tells S items A UPDATE_CALL_STATE_INFO (attribute_items r info) (CallDetails (arrived_info r info))"
    "tells S items A UPDATE_MEETIME_STATE_INFO (attribute_items r info) (MeeTimeDetails (arrived_info r info))"
proof -
  have vs: "PRemoteObject False \<notin> set (attribute_items r info)"
    by (simp add: attribute_items_def voip_items_def Let_def)
  note reader = takes_total [OF takes_attribute [OF laws casts, of r info]]
  show "tells S items A UPDATE_CALL_STATE_INFO (attribute_items r info) (CallDetails (arrived_info r info))"
    by (rule tellsI [OF laws vs _ reader, where call = "App_OnCallDetailsChange A"])
       (simp_all add: entry_defs OnUpdateCallStateInfo_def App_OnCallDetailsChange_def)
  show "tells S items A UPDATE_MEETIME_STATE_INFO (attribute_items r info) (MeeTimeDetails (arrived_info r info))"
    by (rule tellsI [OF laws vs _ reader, where call = "App_OnMeeTimeDetailsChange A"])
       (simp_all add: entry_defs OnUpdateMeeTimeStateInfo_def App_OnMeeTimeDetailsChange_def)
qed

lemma sizes_fitD:
  assumes "sizes_fit S"
  shows "1 \<le> rd_size S k" "rd_size S k < MAX_LEN" "\<not> rd_size S k \<le> 0" "\<not> MAX_LEN \<le> rd_size S k"
proof -
  have "1 \<le> rd_size S k \<and> rd_size S k < MAX_LEN" using assms by (simp add: sizes_fit_def)
  then show "1 \<le> rd_size S k" "rd_size S k < MAX_LEN" "\<not> rd_size S k \<le> 0" "\<not> MAX_LEN \<le> rd_size S k"
    by simp_all
qed

lemma takes_structure:
  assumes "parcel_laws (rd_parcel S) items" "k = raw_kind d" "sel d = Some a"
  shows "takes items (do { x \<leftarrow> take_raw S k sel (rd_size S k);
      State_Monad.return (case x of None \<Rightarrow> Inl e | Some i \<Rightarrow> Inr i) }) [PRaw d] (Inr a)"
  using takes_mapped [OF takes_raw [where sel = sel, OF assms], of "\<lambda>x. case x of None \<Rightarrow> Inl e | Some i \<Rightarrow> Inr i"]
  by simp

lemma takes_checked:
  assumes laws: "parcel_laws (rd_parcel S) items" and fit: "sizes_fit S"
  shows "takes items (take_event S) (sized_items (rd_size S) (RawCallEvent e)) (Inr e)"
    "takes items (take_mmi S) (sized_items (rd_size S) (RawMmiCode i)) (Inr i)"
  unfolding take_event_def take_mmi_def sized_items_def raw_kind.simps
  by (rule takes_Cons, rule takes_basic [OF laws], simp add: sizes_fitD [OF fit],
      rule takes_structure [OF laws], simp_all)+

lemma takes_whole:
  assumes laws: "parcel_laws (rd_parcel S) items" and fit: "sizes_fit S"
  shows "takes items (take_sized S 2 (\<lambda>d. case d of RawMediaMode i \<Rightarrow> Some i | _ \<Rightarrow> None) 1)
       (sized_items (rd_size S) (RawMediaMode m)) (Inr m)"
    "takes items (take_sized S 3 (\<lambda>d. case d of RawSession i \<Rightarrow> Some i | _ \<Rightarrow> None) 1)
       (sized_items (rd_size S) (RawSession n)) (Inr n)"
    "takes items (take_sized S 4 (\<lambda>d. case d of RawDimensions i \<Rightarrow> Some i | _ \<Rightarrow> None) 1)
       (sized_items (rd_size S) (RawDimensions p)) (Inr p)"
    "takes items (take_sized S 5 (\<lambda>d. case d of RawCamera i \<Rightarrow> Some i | _ \<Rightarrow> None) 1)
       (sized_items (rd_size S) (RawCamera c)) (Inr c)"
  unfolding sized_items_def raw_kind.simps
  by (rule takes_sized [OF laws], simp_all add: sizes_fitD [OF fit])+

lemma sized_plain [simp]: "PRemoteObject False \<notin> set (sized_items sizes d)"
  by (simp add: sized_items_def)

lemma tells_structures:
  assumes laws: "parcel_laws (rd_parcel S) items" and fit: "sizes_fit S"
  shows "tells S items A UPDATE_CALL_EVENT (sized_items (rd_size S) (RawCallEvent e)) (CallEventChange e)"
    "tells S items A UPDATE_MMI_CODE_RESULT_REQUEST (sized_items (rd_size S) (RawMmiCode i)) (MmiCodeResult i)"
    "tells S items A UPDATE_IMS_CALL_MODE_RECEIVE (sized_items (rd_size S) (RawMediaMode m)) (ImsCallModeChange m)"
    "tells S items A CALL_SESSION_EVENT_CHANGE (sized_items (rd_size S) (RawSession n)) (SessionEventChange n)"
    "tells S items A PEERD_DIMENSIONS_CHANGE (sized_items (rd_size S) (RawDimensions p)) (DimensionsChange p)"
    "tells S items A CAMERA_CAPABILITIES_CHANGE (sized_items (rd_size S) (RawCamera c)) (CameraChange c)"
  by (rule tellsI [OF laws sized_plain _ takes_checked(1) [OF assms], where call = "App_OnCallEventChange A"],
      simp_all add: entry_defs OnUpdateCallEvent_def App_OnCallEventChange_def)
     (rule tellsI [OF laws sized_plain _ takes_checked(2) [OF assms], where call = "App_OnReportMmiCodeResult A"],
      simp_all add: entry_defs OnUpdateMmiCodeResults_def App_OnReportMmiCodeResult_def,
      rule tellsI [OF laws sized_plain _ takes_whole(1) [OF assms], where call = "App_OnReportImsCallModeChange A"],
      simp_all add: entry_defs OnUpdateImsCallModeChange_def App_OnReportImsCallModeChange_def,
      rule tellsI [OF laws sized_plain _ takes_whole(2) [OF assms], where call = "App_OnReportCallSessionEventChange A"],
      simp_all add: entry_defs OnUpdateCallSessionEventChange_def App_OnReportCallSessionEventChange_def,
      rule tellsI [OF laws sized_plain _ takes_whole(3) [OF assms], where call = "App_OnReportPeerDimensionsChange A"],
      simp_all add: entry_defs OnUpdatePeerDimensionsChange_def App_OnReportPeerDimensionsChange_def,
      rule tellsI [OF laws sized_plain _ takes_whole(4) [OF assms], where call = "App_OnReportCameraCapabilities A"],
      simp_all add: entry_defs OnUpdateCameraCapabilities_def App_OnReportCameraCapabilities_def)

lemma takes_device_info:
  assumes laws: "parcel_laws (rd_parcel S) items"
    and "di_audioDeviceList info \<noteq> []" "int (length (di_audioDeviceList info)) < MAX_LEN"
  shows "takes items (read_devices S)
     (PInt32 (int (length (di_audioDeviceList info))) # map PAudioDevice (di_audioDeviceList info) @
      [PAudioDevice (di_currentAudioDevice info), PBool (di_isMuted info), PInt32 (di_callId info),
       PBool (di_isMicDisabled info)]) (Inr info)"
proof -
  let ?ds = "di_audioDeviceList info @ [di_currentAudioDevice info]"
  have vs: "map PAudioDevice (di_audioDeviceList info) @
      [PAudioDevice (di_currentAudioDevice info), PBool (di_isMuted info), PInt32 (di_callId info),
       PBool (di_isMicDisabled info)] =
      map PAudioDevice ?ds @ PBool (di_isMuted info) # PInt32 (di_callId info) # [PBool (di_isMicDisabled info)]"
    by simp
  have devices: "takes items (take_devices S (nat (int (length (di_audioDeviceList info))) + 1))
      (map PAudioDevice ?ds) (Some ?ds)"
    using takes_devices [OF laws, of ?ds] by simp
  have len: "(int (length (di_audioDeviceList info)) \<le> 0 \<or> MAX_LEN \<le> int (length (di_audioDeviceList info))) = False"
    using assms(2,3) by simp
  show ?thesis
    unfolding read_devices_def vs
  proof (rule takes_Cons, rule takes_basic [OF laws], unfold len if_False, rule takes_bind, rule devices, unfold option.case)
    show "takes items (do {
        isMuted \<leftarrow> take_bool S;
        callId \<leftarrow> take_int S;
        isMicDisabled \<leftarrow> take_bool S;
        State_Monad.return (Inr \<lparr>di_audioDeviceList = butlast ?ds, di_currentAudioDevice = last ?ds,
          di_isMuted = isMuted, di_callId = callId, di_isMicDisabled = isMicDisabled\<rparr>) })
      (PBool (di_isMuted info) # PInt32 (di_callId info) # [PBool (di_isMicDisabled info)]) (Inr info)"
      by ((rule takes_Cons, rule takes_basic [OF laws])+, rule takes_returnI, simp)
  qed
qed

lemma refused_devices:
  assumes laws: "parcel_laws (rd_parcel S) items" and "items p = PInt32 0 # vs"
  shows "fst (run_state (read_devices S) p) = Inl TELEPHONY_ERR_ARGUMENT_INVALID"
proof -
  have "takes items (take_int S) [PInt32 0] 0" by (rule takes_basic [OF laws])
  then have "fst (run_state (take_int S) p) = 0" using assms(2) by (simp add: takes_def)
  then show ?thesis by (cases "run_state (take_int S) p") (simp add: read_devices_def)
qed

lemma tells_values:
  assumes laws: "parcel_laws (rd_parcel S) items"
  shows "tells S items A UPDATE_CALL_DISCONNECTED_CAUSE [PInt32 i, PString t] (DisconnectedCause i t)"
    "tells S items A REPORT_POST_DIAL_DELAY [PString t] (PostDialDelay t)"
    "tells S items A CALL_DATA_USAGE_CHANGE [PInt64 i] (DataUsageChange i)"
    "tells S items A UPDATE_PHONE_STATE [PInt32 i, PInt32 j, PInt32 k, PString t] (PhoneStateChange i j k t)"
proof -
  show "tells S items A UPDATE_CALL_DISCONNECTED_CAUSE [PInt32 i, PString t] (DisconnectedCause i t)"
    by (rule tellsI [OF laws _ _ takes_total, where b = "(i, t)"
          and call = "\<lambda>(reason, message). App_OnCallDisconnectedCause A reason message"],
        simp, simp add: entry_defs OnUpdateCallDisconnectedCause_def,
        (rule takes_Cons, rule takes_basic [OF laws])+, rule takes_return, simp add: App_OnCallDisconnectedCause_def)
  show "tells S items A REPORT_POST_DIAL_DELAY [PString t] (PostDialDelay t)"
    by (rule tellsI [OF laws _ _ takes_total, where b = t and call = "App_OnReportPostDialDelay A"],
        simp, simp add: entry_defs OnUpdatePostDialDelay_def, rule takes_basic [OF laws],
        simp add: App_OnReportPostDialDelay_def)
  show "tells S items A CALL_DATA_USAGE_CHANGE [PInt64 i] (DataUsageChange i)"
    by (rule tellsI [OF laws _ _ takes_total, where b = i and call = "App_OnReportCallDataUsageChange A"],
        simp, simp add: entry_defs OnUpdateCallDataUsageChange_def, rule takes_basic [OF laws],
        simp add: App_OnReportCallDataUsageChange_def)
  show "tells S items A UPDATE_PHONE_STATE [PInt32 i, PInt32 j, PInt32 k, PString t] (PhoneStateChange i j k t)"
    by (rule tellsI [OF laws _ _ takes_total, where b = "(i, j, k, t)"
          and call = "\<lambda>(numActive, numHeld, callState, number). App_OnPhoneStateChange A numActive numHeld callState number"],
        simp, simp add: entry_defs OnUpdatePhoneState_def,
        (rule takes_Cons, rule takes_basic [OF laws])+, rule takes_return, simp add: App_OnPhoneStateChange_def)
qed

lemma tells_rtt:
  assumes laws: "parcel_laws (rd_parcel S) items" and rtt: "ae_rtt A"
  shows "tells S items A RTT_CALL_EVENT_CHANGE [PInt32 (rt_callId e), PInt32 (rt_eventType e), PInt32 (rt_reason e)]
      (RttEventChange e)"
    "tells S items A RTT_CALL_ERROR_REPORT
      [PInt32 (rx_callId x), PInt32 (rx_causeCode x), PInt32 (rx_operationType x), PString (rx_reasonText x)]
      (RttErrorReport x)"
    "tells S items A RTT_CALL_SEND_MESSAGE [PInt32 (pm_int m ''callId''), PString (pm_string m ''rttMessage'')]
      (RttMessage (arrived_message m))"
proof -
  show "tells S items A RTT_CALL_EVENT_CHANGE [PInt32 (rt_callId e), PInt32 (rt_eventType e), PInt32 (rt_reason e)]
      (RttEventChange e)"
    by (rule tellsI [OF laws _ _ takes_total, where b = e and call = "App_OnReportRttCallEvtChanged A"],
        simp, simp add: entry_defs OnUpdateRttCallEvent_def rtt,
        (rule takes_Cons, rule takes_basic [OF laws])+, rule takes_returnI, simp, simp add: App_OnReportRttCallEvtChanged_def)
  show "tells S items A RTT_CALL_ERROR_REPORT
      [PInt32 (rx_callId x), PInt32 (rx_causeCode x), PInt32 (rx_operationType x), PString (rx_reasonText x)]
      (RttErrorReport x)"
    by (rule tellsI [OF laws _ _ takes_total, where b = x and call = "App_OnReportRttCallError A"],
        simp, simp add: entry_defs OnUpdateRttCallErrorReport_def rtt,
        (rule takes_Cons, rule takes_basic [OF laws])+, rule takes_returnI, simp, simp add: App_OnReportRttCallError_def)
  show "tells S items A RTT_CALL_SEND_MESSAGE [PInt32 (pm_int m ''callId''), PString (pm_string m ''rttMessage'')]
      (RttMessage (arrived_message m))"
    unfolding arrived_message_def
  proof (rule tellsI [OF laws _ _ takes_total, where call = "App_OnReportRttCallMessage A"])
    show "takes items (do { m' \<leftarrow> take_ints S [''callId''] empty_pac_map; take_text S ''rttMessage'' m' })
      [PInt32 (pm_int m ''callId''), PString (pm_string m ''rttMessage'')]
      (put_string ''rttMessage'' (pm_string m ''rttMessage'') (copy_ints [''callId''] m empty_pac_map))"
      by (rule takes_Cons, rule takes_ints [OF laws, of "[k]" for k, unfolded list.map], rule takes_text [OF laws])
  qed (simp_all add: entry_defs OnUpdateRttCallMessage_def rtt App_OnReportRttCallMessage_def)
qed

subsection \<open>Every report\<close>

text \<open>The operation of the proxy that sends a report.\<close>

fun send_report :: "('p, 's) proxy_env \<Rightarrow> (nat \<Rightarrow> int) \<Rightarrow> registry \<Rightarrow> AppReport \<Rightarrow> ('s, int) state" where
  "send_report X sizes r (CallDetails info) = Callback_OnCallDetailsChange X r info"
| "send_report X sizes r (MeeTimeDetails info) = Callback_OnMeeTimeDetailsChange X r info"
| "send_report X sizes r (CallEventChange info) = Callback_OnCallEventChange X sizes info"
| "send_report X sizes r (DisconnectedCause reason message) = Callback_OnCallDisconnectedCause X reason message"
| "send_report X sizes r (AsyncResults reportId m) = Callback_OnReportAsyncResults X reportId m"
| "send_report X sizes r (OttRequest requestId m) = Callback_OnOttCallRequest X requestId m"
| "send_report X sizes r (MmiCodeResult info) = Callback_OnReportMmiCodeResult X sizes info"
| "send_report X sizes r (AudioDeviceChange info) = Callback_OnReportAudioDeviceChange X info"
| "send_report X sizes r (PostDialDelay str) = Callback_OnReportPostDialDelay X str"
| "send_report X sizes r (ImsCallModeChange info) = Callback_OnReportImsCallModeChange X sizes info"
| "send_report X sizes r (SessionEventChange event) = Callback_OnReportCallSessionEventChange X sizes event"
| "send_report X sizes r (DimensionsChange detail) = Callback_OnReportPeerDimensionsChange X sizes detail"
| "send_report X sizes r (DataUsageChange usage) = Callback_OnReportCallDataUsageChange X usage"
| "send_report X sizes r (CameraChange c) = Callback_OnReportCameraCapabilities X sizes c"
| "send_report X sizes r (PhoneStateChange i j k t) = Callback_OnPhoneStateChange X i j k t"
| "send_report X sizes r (RttEventChange info) = Callback_OnReportRttCallEvtChanged X info"
| "send_report X sizes r (RttErrorReport info) = Callback_OnReportRttCallError X info"
| "send_report X sizes r (RttMessage m) = Callback_OnReportRttCallMessage X m"

text \<open>What is left of a report when it arrives, and the reports that are sent as a whole.\<close>

fun arrived :: "registry \<Rightarrow> AppReport \<Rightarrow> AppReport" where
  "arrived r (CallDetails info) = CallDetails (arrived_info r info)"
| "arrived r (MeeTimeDetails info) = MeeTimeDetails (arrived_info r info)"
| "arrived r (AsyncResults reportId m) = AsyncResults reportId (arrived_results reportId m)"
| "arrived r (OttRequest requestId m) = OttRequest requestId (arrived_request requestId m)"
| "arrived r (RttMessage m) = RttMessage (arrived_message m)"
| "arrived r x = x"

fun sent_whole :: "AppReport \<Rightarrow> bool" where
  "sent_whole (AsyncResults reportId m) = (reportId \<noteq> GET_CALL_TRANSFER_REPORT_ID)"
| "sent_whole (OttRequest requestId m) =
     (requestId = OTT_REQUEST_INVITE_TO_CONFERENCE \<longrightarrow> pm_int m ''listCnt'' > 0)"
| "sent_whole (AudioDeviceChange info) =
     (di_audioDeviceList info \<noteq> [] \<and> int (length (di_audioDeviceList info)) < MAX_LEN)"
| "sent_whole x = True"

lemmas send_defs = Callback_OnCallDetailsChange_def Callback_OnMeeTimeDetailsChange_def
  Callback_OnCallEventChange_def Callback_OnCallDisconnectedCause_def Callback_OnReportAsyncResults_def
  Callback_OnOttCallRequest_def Callback_OnReportMmiCodeResult_def Callback_OnReportAudioDeviceChange_def
  Callback_OnReportPostDialDelay_def Callback_OnReportImsCallModeChange_def
  Callback_OnReportCallSessionEventChange_def Callback_OnReportPeerDimensionsChange_def
  Callback_OnReportCallDataUsageChange_def Callback_OnReportCameraCapabilities_def
  Callback_OnPhoneStateChange_def Callback_OnReportRttCallEvtChanged_def
  Callback_OnReportRttCallError_def Callback_OnReportRttCallMessage_def

lemma tells_results:
  assumes "parcel_laws (rd_parcel S) items" and "reportId \<noteq> GET_CALL_TRANSFER_REPORT_ID"
  shows "tells S items A UPDATE_CALL_ASYNC_RESULT_REQUEST (PackDataParcel reportId m)
    (AsyncResults reportId (arrived_results reportId m))"
  by (rule tellsI [OF assms(1) _ _ takes_total [OF takes_results [OF assms]],
      where call = "\<lambda>(reportId, m). App_OnReportAsyncResults A reportId m"])
     (auto simp: PackDataParcel_def Let_def entry_defs OnUpdateAysncResults_def App_OnReportAsyncResults_def
       split: if_splits)

lemma tells_ott:
  assumes "parcel_laws (rd_parcel S) items"
    and "requestId = OTT_REQUEST_INVITE_TO_CONFERENCE \<longrightarrow> pm_int m ''listCnt'' > 0"
  shows "tells S items A REPORT_OTT_CALL_REQUEST (ott_items requestId m)
    (OttRequest requestId (arrived_request requestId m))"
  by (rule tellsI [OF assms(1) _ _ takes_total [OF takes_ott [OF assms]],
      where call = "\<lambda>(requestId, m). App_OnOttCallRequest A requestId m"])
     (auto simp: ott_items_def entry_defs OnUpdateOttCallRequest_def App_OnOttCallRequest_def split: if_splits)

lemma tells_devices:
  assumes "parcel_laws (rd_parcel S) items"
    and "di_audioDeviceList info \<noteq> []" "int (length (di_audioDeviceList info)) < MAX_LEN"
  shows "tells S items A UPDATE_AUDIO_DEVICE_CHANGE_RESULT_REQUEST
     (PInt32 (int (length (di_audioDeviceList info))) # map PAudioDevice (di_audioDeviceList info) @
      [PAudioDevice (di_currentAudioDevice info), PBool (di_isMuted info), PInt32 (di_callId info),
       PBool (di_isMicDisabled info)]) (AudioDeviceChange info)"
  by (rule tellsI [OF assms(1) _ _ takes_device_info [OF assms], where call = "App_OnReportAudioDeviceChange A"])
     (auto simp: entry_defs OnUpdateAudioDeviceChange_def App_OnReportAudioDeviceChange_def)

text \<open>
  C14: Every report reaches the application as it was sent.  Over a transport that hands the
  messages on and gives no answer, whichever of the eighteen reports the service sends, the
  application's callback gets exactly this report, once, with the members that the message
  carries; what the transport answers the service has no part in it.  A snapshot keeps what
  \<open>arrived_info\<close> says: the members that are sent, the strings that fit, and the video state
  that a call forced to voice is reported with.  The exceptions are the result of a question
  for call forwarding, whose time is read but never sent, an invitation to a conference
  without numbers, and a list of no devices or of at least 100000, which the application refuses.
\<close>

theorem reports_arrive:
  assumes laws: "parcel_laws (rd_parcel S) items" and casts: "casts_back (rd_casts S)" and fit: "sizes_fit S"
    and X: "posted X S ABILITY_DESCRIPTOR (ability_table A S)" and rtt: "ae_rtt A" and whole: "sent_whole r"
    and "ap_callback a"
  shows "snd (run_state (send_report X (rd_size S) reg r) a) =
    a\<lparr>ap_received := ap_received a @ [arrived reg r]\<rparr>"
proof -
  note told = tellsD [OF _ X]
  have "snd (run_state (send_report X (rd_size S) reg r) a) = snd (run_state (hand_over A (arrived reg r)) a)"
    using whole told(1) [OF tells_details(1) [OF laws casts]] told(1) [OF tells_details(2) [OF laws casts]]
      told(1) [OF tells_structures(1) [OF laws fit]] told(1) [OF tells_structures(2) [OF laws fit]]
      told(1) [OF tells_structures(3) [OF laws fit]] told(1) [OF tells_structures(4) [OF laws fit]]
      told(1) [OF tells_structures(5) [OF laws fit]] told(1) [OF tells_structures(6) [OF laws fit]]
      told(2) [OF tells_values(1) [OF laws]] told(1) [OF tells_values(2) [OF laws]]
      told(1) [OF tells_values(3) [OF laws]] told(1) [OF tells_values(4) [OF laws]]
      told(2) [OF tells_rtt(1) [OF laws rtt]] told(2) [OF tells_rtt(2) [OF laws rtt]]
      told(1) [OF tells_rtt(3) [OF laws rtt]] told(1) [OF tells_results [OF laws]]
      told(1) [OF tells_ott [OF laws]] told(1) [OF tells_devices [OF laws]]
    by (cases r) (simp_all add: send_defs)
  with assms(7) show ?thesis by (simp add: hand_over_def)
qed

text \<open>
  Numbers cast back: the first of the enumerators with the number, or a given one.
\<close>

definition cast_in :: "('e \<Rightarrow> int) \<Rightarrow> 'e list \<Rightarrow> 'e \<Rightarrow> int \<Rightarrow> 'e" where
  "cast_in code es other i = (case List.find (\<lambda>e. code e = i) es of Some e \<Rightarrow> e | None \<Rightarrow> other)"

definition sample_casts :: enum_casts where
  "sample_casts = \<lparr>
     as_CallType = cast_in CallType_code [TYPE_CS, TYPE_IMS, TYPE_OTT, TYPE_ERR_CALL, TYPE_VOIP,
       TYPE_SATELLITE, TYPE_BLUETOOTH] TYPE_ERR_CALL,
     as_VideoStateType = cast_in VideoStateType_code [TYPE_VOICE, TYPE_SEND_ONLY, TYPE_RECEIVE_ONLY,
       TYPE_VIDEO] TYPE_VOICE,
     as_TelCallState = cast_in TelCallState_code [CALL_STATUS_UNKNOWN, CALL_STATUS_ACTIVE,
       CALL_STATUS_HOLDING, CALL_STATUS_DIALING, CALL_STATUS_ALERTING, CALL_STATUS_INCOMING,
       CALL_STATUS_WAITING, CALL_STATUS_DISCONNECTED, CALL_STATUS_DISCONNECTING, CALL_STATUS_IDLE,
       CALL_STATUS_ANSWERED] CALL_STATUS_IDLE,
     as_TelConferenceState = cast_in TelConferenceState_code [TEL_CONFERENCE_IDLE, TEL_CONFERENCE_ACTIVE,
       TEL_CONFERENCE_HOLDING, TEL_CONFERENCE_DISCONNECTING, TEL_CONFERENCE_DISCONNECTED] TEL_CONFERENCE_IDLE,
     as_CallDirection = cast_in CallDirection_code [CALL_DIRECTION_IN, CALL_DIRECTION_OUT,
       CALL_DIRECTION_UNKNOW] CALL_DIRECTION_UNKNOW,
     as_CallAnswerType = cast_in CallAnswerType_code [CALL_ANSWER_MISSED, CALL_ANSWER_ACTIVED,
       CALL_ANSWER_REJECT, CALL_ANSWER_BLOCKED, CALL_ANSWERED_ELSEWHER, CALL_DISCONNECTED_BY_REMOTE]
       CALL_ANSWER_MISSED,
     as_MarkType = cast_in MarkType_code [MARK_TYPE_DEFAULT, MARK_TYPE_NONE, MARK_TYPE_CRANK,
       MARK_TYPE_FRAUD, MARK_TYPE_EXPRESS, MARK_TYPE_PROMOTE_SALES, MARK_TYPE_HOUSE_AGENT,
       MARK_TYPE_INSURANCE, MARK_TYPE_TAXI, MARK_TYPE_CUSTOM, MARK_TYPE_OTHERS, MARK_TYPE_YELLOW_PAGE,
       MARK_TYPE_ENTERPRISE, MARK_TYPE_FRAUD_RISK, MARK_TYPE_EDUCATION_TRAINING, MARK_TYPE_HEADHUNTING,
       MARK_TYPE_LOAN] MARK_TYPE_DEFAULT,
     as_RttCallState = cast_in RttCallState_code [RTT_STATE_NO, RTT_STATE_YES, RTT_STATE_REMOTE_TTY,
       RTT_STATE_REMOTE_NOT_SUPPORT] RTT_STATE_NO\<rparr>"

lemma sample_casts_back: "casts_back sample_casts"
  unfolding casts_back_def
proof (intro conjI allI)
  show "as_CallType sample_casts (CallType_code e) = e" for e
    by (cases e) (simp_all add: sample_casts_def cast_in_def)
  show "as_VideoStateType sample_casts (VideoStateType_code e) = e" for e
    by (cases e) (simp_all add: sample_casts_def cast_in_def)
  show "as_TelCallState sample_casts (TelCallState_code e) = e" for e
    by (cases e) (simp_all add: sample_casts_def cast_in_def)
  show "as_TelConferenceState sample_casts (TelConferenceState_code e) = e" for e
    by (cases e) (simp_all add: sample_casts_def cast_in_def)
  show "as_CallDirection sample_casts (CallDirection_code e) = e" for e
    by (cases e) (simp_all add: sample_casts_def cast_in_def)
  show "as_CallAnswerType sample_casts (CallAnswerType_code e) = e" for e
    by (cases e) (simp_all add: sample_casts_def cast_in_def)
  show "as_MarkType sample_casts (MarkType_code e) = e" for e
    by (cases e) (simp_all add: sample_casts_def cast_in_def)
  show "as_RttCallState sample_casts (RttCallState_code e) = e" for e
    by (cases e) (simp_all add: sample_casts_def cast_in_def)
qed

definition sample_reader :: "parcel_item list reader_env" where
  "sample_reader = \<lparr>rd_parcel = list_parcel, rd_code = (\<lambda>e. if e = TELEPHONY_SUCCESS then 0 else 1),
     rd_size = (\<lambda>_. 8), rd_other = (\<lambda>_ _ p. (None, p)), rd_casts = sample_casts,
     rd_default = (\<lambda>_ _ reply. (1, reply))\<rparr>"

definition sample_app_env :: ability_app_env where
  "sample_app_env = \<lparr>ae_answer = (\<lambda>_ _. 0), ae_success = 0, ae_rtt = True\<rparr>"

definition sample_channel :: "(parcel_item list, ability_app) proxy_env" where
  "sample_channel = \<lparr>px_parcel = list_parcel, px_remote = True,
     px_send = (\<lambda>code p. do {
        _ \<leftarrow> receive sample_reader ABILITY_DESCRIPTOR (ability_table sample_app_env sample_reader) code p [];
        State_Monad.return (0, []) }),
     px_code = rd_code sample_reader\<rparr>"

definition sample_app :: ability_app where
  "sample_app = \<lparr>ap_callback = True, ap_received = []\<rparr>"

theorem reports_arrive_witness:
  "let info = default_info\<lparr>i_callId := 1, i_accountNumber := ''10086'', i_callState := CALL_STATUS_ACTIVE\<rparr> in
     snd (run_state (send_report sample_channel (\<lambda>_. 8) (empty_registry (\<lambda>_. sample_cs_call)) (CallDetails info))
       sample_app) = \<lparr>ap_callback = True, ap_received = [CallDetails info]\<rparr>"
proof -
  let ?info = "default_info\<lparr>i_callId := 1, i_accountNumber := ''10086'', i_callState := CALL_STATUS_ACTIVE\<rparr>"
  let ?r = "empty_registry (\<lambda>_. sample_cs_call)"
  have "posted sample_channel sample_reader ABILITY_DESCRIPTOR (ability_table sample_app_env sample_reader)"
    by (simp add: posted_def same_ends_def sample_channel_def sample_reader_def list_parcel_def)
  moreover have "parcel_laws (rd_parcel sample_reader) id" "casts_back (rd_casts sample_reader)"
    "sizes_fit sample_reader" "ae_rtt sample_app_env" "rd_size sample_reader = (\<lambda>_. 8)"
    by (simp_all add: sample_reader_def list_parcel_laws sample_casts_back sizes_fit_def MAX_LEN_def sample_app_env_def)
  moreover have "arrived_info ?r ?info = ?info"
    by (simp add: arrived_info_def arrived_mark_def default_info_def default_mark_info_def fitting_def Utils_IsForcedReportVoiceCall_def
        kMaxNumberLen_def)
  ultimately show ?thesis
    using reports_arrive [of sample_reader id sample_channel sample_app_env "CallDetails ?info" sample_app ?r]
    by (simp add: sample_app_def)
qed

text \<open>An empty list of devices is refused at the other end: the application hears nothing.\<close>

lemma empty_device_list_is_lost:
  assumes laws: "parcel_laws (rd_parcel S) items" and X: "posted X S ABILITY_DESCRIPTOR (ability_table A S)"
    and "di_audioDeviceList info = []"
  shows "snd (run_state (send_report X (rd_size S) reg (AudioDeviceChange info)) a) = a"
  unfolding send_report.simps Callback_OnReportAudioDeviceChange_def tell_ability_def
  by (rule post_refused [OF laws X, where reader = "read_devices S" and call = "App_OnReportAudioDeviceChange A"])
     (auto simp: assms(3) entry_defs OnUpdateAudioDeviceChange_def refused_devices [OF laws])

end
