(* ===== verification/Spec2Isabelle.thy ===== *)
theory Spec2Isabelle
  imports Video_Call_State Bluetooth_Call_Policy Audio_Reports Playback_Properties Report_Properties Call_Setting
    Video_Control Service_Properties Callback_Properties
begin

text \<open>
  The call manager of the telephony subsystem: the logic of its calls, as a library of
  definitions translated from the C++ sources under src/ and of theorems about them.

  The program.

  The service sits between the applications and the telephony stacks.  A report from a
  stack makes, changes or ends a call object; a request of an application is checked
  against the calls that exist, handed to the call's object, and becomes a request to the
  stack; the state of the call then changes only when the stack reports it.  The audio
  part follows the reports and decides which scene (tones, ring, route) the device is in.

  The theories, from the bottom up.

  Call_Prelude: fact collections, list scans, ordered sets, decimal text, and the locales
  event_machine and shrinking_machine for components that handle one event at a time.

  Call_Types, Call_Data: the enumerations and structures of interfaces/innerkits with the
  source's names; a member x_ of a class is the field m_x, a member of a snapshot i_x, of
  the dial parameters d_x.  A status is the number of its code in its enumeration.  The
  build switches are the record build.

  Call_Base, Call_Attributes: class CallBase of services/call/src/call_base.cpp.
  SetTelCallState is the transition from a reported state to the running state with the
  times, the answer type and the conference state; view_step is its specification.

  Conference: conference_base.cpp, cs_conference.cpp, ims_conference.cpp and
  ott_conference.cpp.  The locales conference_ops and holding_conference state what the
  calls rely on; they are interpreted for the three classes.

  Call_Classes, Call_Dispatch: the six call classes (carrier_call.cpp, cs_call.cpp,
  ims_call.cpp, satellite_call.cpp, voip_call.cpp, bluetooth_call.cpp, ott_call.cpp).
  A call is one record with its dynamic class; an operation returns its status, the
  requests it sent to the stack, in order, and the call; a virtual call is a case
  distinction.

  Video_Call_State: the negotiation of the video mode of an IMS call
  (video_call_state.cpp), five state objects and the pointer to the current one.

  Call_Object_Manager: the registry of calls (call_object_manager.cpp) as a list of
  addresses into a heap of call objects, with the table of calls the VoIP application
  reports.  The locale call_table states what clients rely on when they look calls up and
  delete them.  HangUpVoipCall of call_base.cpp is here because it needs the registry.

  Edm_Call_Policy, Call_Policy, Bluetooth_Call_Policy, Call_Status_Policy: the checks
  before an operation (utils/src/edm_call_policy.cpp, call_policy.cpp,
  services/bluetooth/src/bluetooth_call_policy.cpp, call_status_policy.cpp).  The locale
  call_gate is the contract of the checks of a call's state.

  Call_State_Processor, Audio_Scene, Audio_Control: the call sets, the scene state
  machine with its event queue, and the handling of a report in services/audio/src
  (call_state_processor.cpp, audio_scene_processor.cpp, audio_state/,
  audio_control_manager.cpp).  Audio_Settling and Audio_Reports hold the invariants and
  the reachable states.

  Call_Service, Call_Reporting, Call_Notify: the whole service as one record (the
  registry, the conferences, the dial parameters, the pending requests and timers, the
  settings read so far) with the trace of what it sent and the tasks it posted, and the
  state monad the handlers are written in.

  Call_Request, Call_Dialing, Request_Frame, Request_Properties: the request queue of
  call_request_process.cpp and call_request_handler.cpp: which calls a dial, an answer, a
  hang-up or a hold concerns, and the operations it makes on them.  The locales
  state_frame and step_frame of Request_Frame are a calculus for what no step changes:
  a relation between states that is reflexive and transitive is kept by every step built
  from steps that keep it.

  Call_Control, Call_Control_Voip: the facade call_control_manager.cpp, its guards before
  a request is queued, the settings, and the notifications to its listeners.  Call_Setting
  (services/call_setting) and Video_Control (services/video) are the settings of a card
  and the camera and windows of a video call behind it.

  Call_Numbers, Call_Creation, Call_Status, Call_Incoming, Call_Filter, Call_Reports,
  Call_Report_Handlers: the reports of the stacks, from report_call_info_handler.cpp to
  the handlers of call_status_manager.cpp, one definition per handler: creation of a call
  object, the lists a stack sends, incoming, dialing, active, holding and disconnected
  calls, the conversation between two slots, and the filters of an incoming call.
  Report_Frame and Report_Properties state what every handler leaves alone and what a
  report does to the registry.  Service_Samples holds concrete services.

  Manager_State, Challenge_Token, Call_Manager_Service, Call_Manager_Requests,
  Call_Manager_Events: the service applications reach (call_manager_service.cpp): the
  permission checks, the tokens of a dial (utils/src/challenge_token_manager.cpp), and
  every operation behind them.  Service_Guards instantiates the frame calculus with the
  state the checks protect; Manager_Samples holds a concrete service and its callers.

  Message_Parcel, Service_Stub, Service_Stub_Media, Stub_Dispatch, Service_Proxy,
  Service_Proxy_Media: the messages between an application and the service: how values
  are put into a parcel, the handlers of call_manager_service_stub.cpp with the table of
  their codes, and the operations of frameworks/native/src/call_manager_service_proxy.cpp.
  Ipc_Properties and Service_Properties relate the two ends.

  Report_Data, Report_Parcel, App_Reports, Callback_Messages, Callback_Stub: what leaves
  the service.  The registered callbacks of the applications and the reports they are told
  (call_ability_report_proxy.cpp), the states the registry of telephony states is told
  (call_state_report_proxy.cpp), the messages of the reports at the service's end
  (call_ability_callback_proxy.cpp, call_manager_utils.cpp), and the handlers, the table
  and the readers at the application's end (call_ability_callback_stub.cpp,
  native_call_manager_utils.cpp, call_ability_callback.cpp).  The relation takes of
  Report_Parcel says which items of a message a reader consumes and what it returns;
  Callback_Properties puts the two ends together.

  Audio_Platform, Audio_Device_Manager, Audio_Routing, Audio_Playback: the devices of a
  call (audio_device_manager.cpp), the choice of one of them and of the first one
  (audio_control_manager.cpp), what the framework reports (audio_proxy.cpp), and the
  tones, rings and vibrations (tone.cpp, sound.cpp, ring.cpp, audio_vibrator.cpp).  The
  locale media_frame of Audio_Device_Properties is the frame calculus for steps on the
  audio state; it is interpreted five times: for the list of devices, for the devices as
  a whole, for the trace, for the route and for the microphone.  Audio_Samples holds
  concrete states; Audio_Properties and Playback_Properties hold what is proved.

  How state and effects correspond.

  State is passed explicitly.  Each class guards its members with a mutex and each of its
  operations is atomic, so an operation is one function; IsNewCallAllowedCreate, which
  takes the same mutex twice, and the event queue of the audio scenes, where reports and
  handlers interleave, are modelled with that in view.  Statuses are values of ErrCode, a
  null pointer is None, undefined behaviour and an operation that does not return are
  None of an option.  Loops over lists are recursions on the list.  The stacks, the
  settings, the SIM and network services, the audio framework and the clock are
  arguments; what the code sends to them is returned as data.  Identifiers and times are
  integers; the one counter that could overflow, GetNewCallId, refuses the step.

  The handlers of requests and reports run over the record service.  Answers of the
  platform come from records of the environment, every message to a stack, to the
  listeners or to the applications is appended to a trace, and work handed to a queue or
  a timer is a task in the service that a later step takes out and runs.  A fault flag
  records a null pointer that the code would follow.  On the audio side an answer of the
  framework may depend on everything sent to it before, so it is a function of the trace.

  What the theorems show.

  Calls (Call_Base, Call_Dispatch): the states evolve as the abstract transition says
  over any sequence of reports; begin times are set once; durations are not negative; a
  control operation of a carrier call succeeds exactly when the stack accepted one request
  naming that call; a failed merge of an IMS call rolls back; launching a circuit-switched
  call into a conference never succeeds.

  Conferences: membership round trips and limits, the succession of the host, the
  invariant of the saved state, and where leaving is undefined.

  Video: which operations a state accepts, that only one negotiation is open, and what a
  response leads to; what the camera is told.

  Registry: lookups, updates and deletions touch one call; which call is in the
  foreground, and which one audio follows; that no operation ever inserts a call.

  Policies: what a dial request that is let through guarantees; that emergency numbers
  pass every check but those of the request and of the device management; which
  operations a report opens; that what a headset selects is legal; that an incoming call
  is announced or dropped, never both.

  Requests: what submitting a request may change before the queue runs; the room an
  emergency dial makes; that answering a call of one slot deals with the calls of the
  other one; that a hold reaches the call.

  Reports: that a call reported as added is nowhere in the registry, that a dial which
  waits for a hold goes out once whatever is reported, that a repeated list is silent,
  what the comparison of two numbers decides, and that the second pending hang-up never
  times out.

  Reports to applications: that the registry of telephony states hears changes only; that
  each of the eighteen reports arrives at an application as it was sent, with the
  exceptions named there; that an empty list of devices does not arrive.

  The boundary: a caller without permissions changes no call by any message; requests
  arrive with the arguments they were made with, and a refused caller reads values that
  were never set; a token is used at most as often as it was stored; every code of the
  interface has one handler.

  Audio: the event queue always runs empty (each event weighs at most two, so at most
  twice as many handlers run as events were queued); the call sets classify the calls by
  their last state; the scene fits the calls whenever events are handled before the next
  report; and a run in which they are not, after which the scene stays behind for good.
  No device is listed twice and the flags say which are; an accepted choice of a device is
  the device in use and a refused one changes nothing; the first device of a call is the
  first of a fixed ranking; an emergency call is never muted; the wait for a ring ends
  after at most five waits.

  What is not modelled.

  The transport and the parcel, the audio and sensor frameworks, the SIM, network and
  contact services are the platform's: arguments of the model.  Of the modelled files:
  start, stop and dump of the service, the watchdog timers of its stub, the registration
  of callbacks with the audio framework, the playing of wav files and the ring that
  follows the status of the user, the wake locks of the facade.  Not modelled at all: the
  language bindings and client libraries beside the proxy of the service and the callback
  of an application, the observers
  that write records, notifications and messages, distributed and interoperable calls,
  spam detection, diagnostics, the earthquake alarm, satellite sensors and the real-time
  text channel, because they forward data or call the platform; and the Bluetooth service
  with its connection, of which only the checks are here.

  Plan.

  In this order: the callbacks from the cellular stack and their messages; the client of
  that stack; the Bluetooth service and its call list.
\<close>

end
